(* ===== verification/Prelude.thy ===== *)
theory Prelude
  imports Main "HOL-Library.Word"
begin

text \<open>
  The shared vocabulary of the development: the byte and machine-integer types of the Go
  program, the theorem collections the component proofs are driven by, and the generic
  lemmas on lists, words and positional number systems that several components use.
\<close>

unbundle bit_operations_syntax

section \<open>Types shared by all components\<close>

type_synonym byte = "8 word"
type_synonym bytes = "byte list"
type_synonym uint8 = "8 word"
type_synonym uint16 = "16 word"
type_synonym uint32 = "32 word"
type_synonym uint64 = "64 word"

section \<open>Theorem collections\<close>

named_theorems monad_simps \<open>unfolding rules of the Go state-and-error monad\<close>
named_theorems codec_intros \<open>contract facts of the SCALE codecs of single types\<close>

section \<open>Lists\<close>

lemma take_append_length [simp]: "length xs = n \<Longrightarrow> take n (xs @ ys) = xs"
  by simp

lemma drop_append_length [simp]: "length xs = n \<Longrightarrow> drop n (xs @ ys) = ys"
  by simp

lemma list_all_append_iff: "list_all P (xs @ ys) \<longleftrightarrow> list_all P xs \<and> list_all P ys"
  by simp

section \<open>Little-endian positional notation\<close>

text \<open>
  The value of a byte list read little-endian, the fixed-width little-endian bytes of a
  number and its minimal little-endian bytes. Go's \<open>encoding/binary\<close> and \<open>math/big\<close>
  are both described with these three functions.
\<close>

fun le_nat :: "bytes \<Rightarrow> nat" where
  "le_nat [] = 0"
| "le_nat (b # bs) = unat b + 256 * le_nat bs"

fun le_fixed :: "nat \<Rightarrow> nat \<Rightarrow> bytes" where
  "le_fixed 0 n = []"
| "le_fixed (Suc k) n = word_of_nat (n mod 256) # le_fixed k (n div 256)"

fun le_bytes :: "nat \<Rightarrow> bytes" where
  "le_bytes n = (if n = 0 then [] else word_of_nat (n mod 256) # le_bytes (n div 256))"

declare le_bytes.simps [simp del]

lemma unat_byte_mod [simp]: "unat (word_of_nat (n mod 256) :: byte) = n mod 256"
  by (simp add: unat_of_nat)

lemma unat_byte_less [simp]: "unat (b :: byte) < 256"
  using unsigned_less [of b, where ?'a = nat] by simp

lemma length_le_fixed [simp]: "length (le_fixed k n) = k"
  by (induction k arbitrary: n) auto

lemma le_nat_bound: "le_nat bs < 256 ^ length bs"
proof (induction bs)
  case Nil
  show ?case by simp
next
  case (Cons b bs)
  have "unat b < 256" by simp
  with Cons have "unat b + 256 * le_nat bs < 256 * 256 ^ length bs" by linarith
  then show ?case by simp
qed

lemma le_nat_le_fixed: "le_nat (le_fixed k n) = n mod 256 ^ k"
proof (induction k arbitrary: n)
  case 0
  show ?case by simp
next
  case (Suc k)
  have "n mod (256 * 256 ^ k) = 256 * (n div 256 mod 256 ^ k) + n mod 256"
    by (rule mod_mult2_eq)
  then show ?case by (simp add: Suc.IH)
qed

lemma le_nat_le_fixed_id [simp]: "n < 256 ^ k \<Longrightarrow> le_nat (le_fixed k n) = n"
  by (simp add: le_nat_le_fixed)

lemma le_fixed_le_nat [simp]: "length bs = k \<Longrightarrow> le_fixed k (le_nat bs) = bs"
proof (induction bs arbitrary: k)
  case Nil
  then show ?case by simp
next
  case (Cons b bs)
  from Cons.prems obtain m where "k = Suc m" "length bs = m" by auto
  moreover have "(unat b + 256 * le_nat bs) mod 256 = unat b" by simp
  moreover have "(unat b + 256 * le_nat bs) div 256 = le_nat bs"
    using unat_byte_less [of b] by (simp add: div_mult_self4)
  ultimately show ?case using Cons.IH [of m] by simp
qed

lemma le_nat_le_bytes [simp]: "le_nat (le_bytes n) = n"
proof (induction n rule: le_bytes.induct)
  case (1 n)
  show ?case
  proof (cases "n = 0")
    case True
    then show ?thesis by (subst le_bytes.simps) simp
  next
    case False
    with "1.IH" have "le_nat (le_bytes (n div 256)) = n div 256" by simp
    with False show ?thesis by (subst le_bytes.simps) simp
  qed
qed

lemma le_bytes_0 [simp]: "le_bytes 0 = []"
  by (subst le_bytes.simps) simp

lemma length_le_bytes_le: "n < 256 ^ k \<Longrightarrow> length (le_bytes n) \<le> k"
proof (induction n arbitrary: k rule: le_bytes.induct)
  case (1 n)
  show ?case
  proof (cases "n = 0")
    case True
    then show ?thesis by simp
  next
    case False
    with "1.prems" obtain m where k: "k = Suc m" by (cases k) auto
    with "1.prems" have "n div 256 < 256 ^ m"
      by (simp add: less_mult_imp_div_less mult.commute)
    with False "1.IH" have "length (le_bytes (n div 256)) \<le> m" by simp
    with False k show ?thesis by (subst le_bytes.simps) simp
  qed
qed

lemma length_le_bytes_gt: "256 ^ k \<le> n \<Longrightarrow> k < length (le_bytes n)"
  using le_nat_bound [of "le_bytes n"]
  by (metis le_less_trans le_nat_le_bytes nat_power_less_imp_less zero_less_numeral)

lemma length_le_bytes_iff: "length (le_bytes n) \<le> k \<longleftrightarrow> n < 256 ^ k"
  using length_le_bytes_le [of n k] length_le_bytes_gt [of k n] by linarith

lemma le_nat_append: "le_nat (xs @ ys) = le_nat xs + 256 ^ length xs * le_nat ys"
  by (induction xs) (simp_all add: algebra_simps)

lemma le_nat_replicate_0 [simp]: "le_nat (replicate n 0) = 0"
  by (induction n) auto

section \<open>Words\<close>

lemma unat_drop_bit_2: "unat (drop_bit 2 (b :: byte)) = unat b div 4"
  by (simp only: unat_drop_bit_eq) (simp add: drop_bit_eq_div)

lemma unat_and_3: "unat ((b :: byte) AND 3) = unat b mod 4"
proof -
  have "b AND 3 = take_bit 2 b"
    by (simp add: take_bit_eq_mask mask_eq_exp_minus_1)
  then show ?thesis by (simp only: unsigned_take_bit_eq) (simp add: take_bit_eq_mod)
qed

lemma byte_and_3_eq_iff:
  "n < 4 \<Longrightarrow> (b :: byte) AND 3 = word_of_nat n \<longleftrightarrow> unat b mod 4 = n"
proof -
  assume n: "n < 4"
  then have "unat (word_of_nat n :: byte) = n" by (simp add: unat_of_nat)
  then show ?thesis using unat_and_3 [of b] by (metis unsigned_word_eqI)
qed

lemma unat_push_bit: "unat (push_bit k (w :: 'a::len word)) = unat w * 2 ^ k mod 2 ^ LENGTH('a)"
  by (simp only: unsigned_push_bit_eq) (simp add: push_bit_eq_mult take_bit_eq_mod)

lemma unat_ucast: "unat (ucast (w :: 'a::len word) :: 'b::len word) = unat w mod 2 ^ LENGTH('b)"
  by (simp only: unsigned_ucast_eq) (simp add: take_bit_eq_mod)

lemma unat_drop_bit: "unat (drop_bit k (w :: 'a::len word)) = unat w div 2 ^ k"
  by (simp only: unat_drop_bit_eq) (simp add: drop_bit_eq_div)

lemma unat_word_of_nat_small:
  "n < 2 ^ LENGTH('a) \<Longrightarrow> unat (word_of_nat n :: 'a::len word) = n"
  by (simp add: unat_of_nat)

lemma word_of_nat_unat [simp]: "word_of_nat (unat (w :: 'a::len word)) = w"
  by (rule unsigned_word_eqI [where ?'a = nat]) (simp add: unat_of_nat)

lemma unat_two_power: "k < LENGTH('a) \<Longrightarrow> unat ((2 :: 'a::len word) ^ k) = 2 ^ k"
proof -
  assume "k < LENGTH('a)"
  then have "(2 :: nat) ^ k < 2 ^ LENGTH('a)" by simp
  then have "unat (word_of_nat (2 ^ k) :: 'a word) = 2 ^ k" by (rule unat_word_of_nat_small)
  then show ?thesis by simp
qed

section \<open>Strings as bytes\<close>

text \<open>A Go string is a byte sequence; a HOL character is one of its bytes.\<close>

definition byte_of_char :: "char \<Rightarrow> byte" where
  "byte_of_char c = word_of_nat (of_char c)"

definition char_of_byte :: "byte \<Rightarrow> char" where
  "char_of_byte b = char_of (unat b)"

lemma char_of_byte_of_char [simp]: "char_of_byte (byte_of_char c) = c"
proof -
  have "of_char c < (256 :: nat)" by simp
  then have "unat (word_of_nat (of_char c) :: byte) = of_char c"
    by (intro unat_word_of_nat_small) simp
  then show ?thesis by (simp add: char_of_byte_def byte_of_char_def)
qed

lemma byte_of_char_of_byte [simp]: "byte_of_char (char_of_byte b) = b"
  by (simp add: char_of_byte_def byte_of_char_def)

end
