(* ===== verification/GoRuntime.thy ===== *)
theory GoRuntime
  imports Prelude "HOL-Library.Sublist"
begin

text \<open>
  What the program uses of Go itself: error values (with the module's own error type of
  \<open>src/error/error.go\<close>), the outcome of a call, the state monad the stateful code is
  written in, the readers and writers of the standard library and \<open>math/big\<close>.
\<close>

section \<open>Error values\<close>

text \<open>
  \<open>EOF\<close> and \<open>UnexpectedEOF\<close> are the sentinel values of package \<open>io\<close>, compared by identity;
  \<open>ErrorString\<close> is what \<open>errors.New\<close> and \<open>fmt.Errorf\<close> make; \<open>LibErr\<close> is the string type
  \<open>error.Error\<close> of the module; \<open>ExecErr\<close> is the collecting error of \<open>registry/exec\<close>.
\<close>

datatype goerror =
    EOF
  | UnexpectedEOF
  | ErrorString string
  | LibErr string
  | ExecErr "goerror list"

fun string_of_nat :: "nat \<Rightarrow> string" where
  "string_of_nat n =
     (if n < 10 then [char_of (48 + n)] else string_of_nat (n div 10) @ [char_of (48 + n mod 10)])"

declare string_of_nat.simps [simp del]

definition string_of_int :: "int \<Rightarrow> string" where
  "string_of_int i = (if i < 0 then ''-'' @ string_of_nat (nat (- i)) else string_of_nat (nat i))"

fun numbered :: "nat \<Rightarrow> string list \<Rightarrow> string" where
  "numbered i [] = []"
| "numbered i (t # ts) = ''error '' @ string_of_nat i @ '': '' @ t @ [CHR 0x0A] @ numbered (Suc i) ts"

fun error_text :: "goerror \<Rightarrow> string" where
  "error_text EOF = ''EOF''"
| "error_text UnexpectedEOF = ''unexpected EOF''"
| "error_text (ErrorString s) = s"
| "error_text (LibErr s) = s"
| "error_text (ExecErr es) = numbered 0 (map error_text es)"

text \<open>The methods of \<open>error.Error\<close>; \<open>WithMsg\<close> takes the message after formatting.\<close>

definition Error_Is :: "string \<Rightarrow> goerror \<Rightarrow> bool" where
  "Error_Is e err = sublist (error_text err) e"

definition Error_Wrap :: "string \<Rightarrow> goerror \<Rightarrow> string" where
  "Error_Wrap e err = e @ '': '' @ error_text err"

definition Error_WithMsg :: "string \<Rightarrow> string \<Rightarrow> string" where
  "Error_WithMsg e msg = e @ '': '' @ msg"

lemma Error_Is_Wrap: "Error_Is (Error_Wrap e err) (LibErr e)" "Error_Is (Error_Wrap e err) err"
proof -
  show "Error_Is (Error_Wrap e err) (LibErr e)"
    by (simp add: Error_Is_def Error_Wrap_def sublist_append_rightI)
  have "sublist (error_text err) ((e @ '': '') @ error_text err)"
    by (rule sublist_append_leftI)
  then show "Error_Is (Error_Wrap e err) err"
    by (simp add: Error_Is_def Error_Wrap_def)
qed

lemma Error_Is_Wrap_trans: "Error_Is e x \<Longrightarrow> Error_Is (Error_Wrap w (LibErr e)) x"
proof -
  assume "Error_Is e x"
  then obtain ps ss where "e = ps @ error_text x @ ss"
    by (auto simp: Error_Is_def sublist_def)
  then have "w @ '': '' @ e = (w @ '': '' @ ps) @ error_text x @ ss" by simp
  then show ?thesis
    unfolding Error_Is_def Error_Wrap_def error_text.simps by (metis sublist_def)
qed

section \<open>Outcomes and the state monad\<close>

text \<open>
  A call returns a value, returns an error or panics. \<open>OutOfFuel\<close> is not a Go outcome: it
  marks a recursion that was cut off by the fuel bound of its model.
\<close>

datatype 'a res = Ok 'a | Err goerror | Panic string | OutOfFuel

type_synonym ('s, 'a) goM = "'s \<Rightarrow> 'a res \<times> 's"

definition retM :: "'a \<Rightarrow> ('s, 'a) goM" where
  "retM a s = (Ok a, s)"

definition failM :: "goerror \<Rightarrow> ('s, 'a) goM" where
  "failM e s = (Err e, s)"

definition panicM :: "string \<Rightarrow> ('s, 'a) goM" where
  "panicM p s = (Panic p, s)"

definition bindM :: "('s, 'a) goM \<Rightarrow> ('a \<Rightarrow> ('s, 'b) goM) \<Rightarrow> ('s, 'b) goM" where
  "bindM m f s =
     (case m s of
        (Ok a, s') \<Rightarrow> f a s'
      | (Err e, s') \<Rightarrow> (Err e, s')
      | (Panic p, s') \<Rightarrow> (Panic p, s')
      | (OutOfFuel, s') \<Rightarrow> (OutOfFuel, s'))"

abbreviation seqM :: "('s, 'a) goM \<Rightarrow> ('s, 'b) goM \<Rightarrow> ('s, 'b) goM" where
  "seqM m n \<equiv> bindM m (\<lambda>_. n)"

text \<open>\<open>if err != nil { return wrap(err) }\<close>: the error, and only the error, is rewritten.\<close>

definition wrapM :: "(goerror \<Rightarrow> goerror) \<Rightarrow> ('s, 'a) goM \<Rightarrow> ('s, 'a) goM" where
  "wrapM w m s = (case m s of (Err e, s') \<Rightarrow> (Err (w e), s') | r \<Rightarrow> r)"

text \<open>The same sequencing for calls that have no state to thread.\<close>

fun bindR :: "'a res \<Rightarrow> ('a \<Rightarrow> 'b res) \<Rightarrow> 'b res" where
  "bindR (Ok a) f = f a"
| "bindR (Err e) f = Err e"
| "bindR (Panic p) f = Panic p"
| "bindR OutOfFuel f = OutOfFuel"

lemma bindR_Ok_iff: "bindR r f = Ok b \<longleftrightarrow> (\<exists>a. r = Ok a \<and> f a = Ok b)"
  by (cases r) auto

fun wrapR :: "(goerror \<Rightarrow> goerror) \<Rightarrow> 'a res \<Rightarrow> 'a res" where
  "wrapR w (Err e) = Err (w e)"
| "wrapR w r = r"

lemma retM_apply [simp, monad_simps]: "retM a s = (Ok a, s)"
  by (simp add: retM_def)

lemma failM_apply [simp, monad_simps]: "failM e s = (Err e, s)"
  by (simp add: failM_def)

lemma panicM_apply [simp, monad_simps]: "panicM p s = (Panic p, s)"
  by (simp add: panicM_def)

lemma bindM_Ok [simp, monad_simps]: "m s = (Ok a, s') \<Longrightarrow> bindM m f s = f a s'"
  by (simp add: bindM_def)

lemma bindM_Err [simp, monad_simps]: "m s = (Err e, s') \<Longrightarrow> bindM m f s = (Err e, s')"
  by (simp add: bindM_def)

lemma bindM_Panic [simp, monad_simps]: "m s = (Panic p, s') \<Longrightarrow> bindM m f s = (Panic p, s')"
  by (simp add: bindM_def)

lemma bindM_OutOfFuel [simp, monad_simps]:
  "m s = (OutOfFuel, s') \<Longrightarrow> bindM m f s = (OutOfFuel, s')"
  by (simp add: bindM_def)

lemma bindM_retM_left [simp]: "bindM (retM a) f = f a"
  by (rule ext) simp

lemma bindM_retM_right [simp]: "bindM m retM = m"
  by (rule ext) (simp add: bindM_def split: prod.split res.split)

lemma bindM_assoc: "bindM (bindM m f) g = bindM m (\<lambda>a. bindM (f a) g)"
  by (rule ext) (simp add: bindM_def split: prod.split res.split)

lemma bindM_Ok_iff:
  "bindM m f s = (Ok b, t) \<longleftrightarrow> (\<exists>a s'. m s = (Ok a, s') \<and> f a s' = (Ok b, t))"
  by (auto simp: bindM_def split: prod.splits res.splits)

lemma bindM_Err_iff:
  "bindM m f s = (Err e, t) \<longleftrightarrow>
     m s = (Err e, t) \<or> (\<exists>a s'. m s = (Ok a, s') \<and> f a s' = (Err e, t))"
  by (auto simp: bindM_def split: prod.splits res.splits)

lemma bindM_OutOfFuel_iff:
  "bindM m f s = (OutOfFuel, t) \<longleftrightarrow>
     m s = (OutOfFuel, t) \<or> (\<exists>a s'. m s = (Ok a, s') \<and> f a s' = (OutOfFuel, t))"
  by (auto simp: bindM_def split: prod.splits res.splits)

lemma bindM_Panic_iff:
  "bindM m f s = (Panic p, t) \<longleftrightarrow>
     m s = (Panic p, t) \<or> (\<exists>a s'. m s = (Ok a, s') \<and> f a s' = (Panic p, t))"
  by (auto simp: bindM_def split: prod.splits res.splits)

lemma wrapM_Ok_iff: "wrapM w m s = (Ok a, t) \<longleftrightarrow> m s = (Ok a, t)"
  by (auto simp: wrapM_def split: prod.splits res.splits)

lemma wrapM_Err_iff: "wrapM w m s = (Err e, t) \<longleftrightarrow> (\<exists>e'. m s = (Err e', t) \<and> e = w e')"
  by (auto simp: wrapM_def split: prod.splits res.splits)

lemma wrapM_OutOfFuel_iff: "wrapM w m s = (OutOfFuel, t) \<longleftrightarrow> m s = (OutOfFuel, t)"
  by (auto simp: wrapM_def split: prod.splits res.splits)

lemma wrapM_Panic_iff: "wrapM w m s = (Panic p, t) \<longleftrightarrow> m s = (Panic p, t)"
  by (auto simp: wrapM_def split: prod.splits res.splits)

lemma wrapM_Ok [simp, monad_simps]: "m s = (Ok a, t) \<Longrightarrow> wrapM w m s = (Ok a, t)"
  by (simp add: wrapM_def)

lemma wrapM_Err [simp, monad_simps]: "m s = (Err e, t) \<Longrightarrow> wrapM w m s = (Err (w e), t)"
  by (simp add: wrapM_def)

lemmas goM_iffs =
  bindM_Ok_iff bindM_Err_iff bindM_OutOfFuel_iff bindM_Panic_iff
  wrapM_Ok_iff wrapM_Err_iff wrapM_OutOfFuel_iff wrapM_Panic_iff

section \<open>Readers and writers\<close>

text \<open>
  Every encoder of the program writes to a \<open>bytes.Buffer\<close> and every decoder reads from a
  \<open>bytes.Reader\<close>; the monad's state is the buffer's contents, respectively the unread rest.
  \<open>bytes.Reader.Read\<close> returns \<open>io.EOF\<close> when nothing is left, whatever the size of the
  target, and otherwise fills as much of the target as it can.
\<close>

definition Buffer_Write :: "bytes \<Rightarrow> bytes \<Rightarrow> (nat \<times> goerror option) \<times> bytes" where
  "Buffer_Write bs buf = ((length bs, None), buf @ bs)"

definition Reader_Read :: "nat \<Rightarrow> bytes \<Rightarrow> (bytes \<times> goerror option) \<times> bytes" where
  "Reader_Read n s = (if s = [] then (([], Some EOF), s) else ((take n s, None), drop n s))"

text \<open>\<open>binary.Write\<close> and \<open>binary.Read\<close> of a fixed-size number, little-endian.\<close>

definition binary_Write :: "nat \<Rightarrow> nat \<Rightarrow> (bytes, unit) goM" where
  "binary_Write k n = (\<lambda>buf. (Ok (), buf @ le_fixed k n))"

definition binary_Read :: "nat \<Rightarrow> (bytes, nat) goM" where
  "binary_Read k = (\<lambda>s.
     if length s < k then (Err (if s = [] then EOF else UnexpectedEOF), [])
     else (Ok (le_nat (take k s)), drop k s))"

section \<open>Arbitrary-precision integers\<close>

text \<open>
  A \<open>big.Int\<close> is an \<open>int\<close>. \<open>Uint64\<close> and \<open>Int64\<close> read the low 64 bits, \<open>Bytes\<close> gives the
  minimal big-endian bytes of the absolute value and \<open>SetBytes\<close> reads big-endian bytes.
\<close>

definition BigInt_IsUint64 :: "int \<Rightarrow> bool" where
  "BigInt_IsUint64 v \<longleftrightarrow> 0 \<le> v \<and> v < 2 ^ 64"

definition BigInt_Uint64 :: "int \<Rightarrow> uint64" where
  "BigInt_Uint64 v = word_of_int v"

definition BigInt_Int64 :: "int \<Rightarrow> int" where
  "BigInt_Int64 v = sint (word_of_int v :: uint64)"

definition BigInt_Bytes :: "int \<Rightarrow> bytes" where
  "BigInt_Bytes v = rev (le_bytes (nat \<bar>v\<bar>))"

definition BigInt_SetBytes :: "bytes \<Rightarrow> int" where
  "BigInt_SetBytes bs = int (le_nat (rev bs))"

lemma BigInt_SetBytes_Bytes [simp]: "BigInt_SetBytes (BigInt_Bytes v) = \<bar>v\<bar>"
  by (simp add: BigInt_SetBytes_def BigInt_Bytes_def)

lemma length_BigInt_Bytes: "length (BigInt_Bytes v) \<le> k \<longleftrightarrow> nat \<bar>v\<bar> < 256 ^ k"
  by (simp add: BigInt_Bytes_def length_le_bytes_iff)

lemma BigInt_SetBytes_bound: "BigInt_SetBytes bs < 256 ^ length bs"
proof -
  have "int (le_nat (rev bs)) < int (256 ^ length (rev bs))"
    using le_nat_bound [of "rev bs"] by (simp only: of_nat_less_iff)
  then show ?thesis by (simp add: BigInt_SetBytes_def)
qed

lemma BigInt_SetBytes_nonneg: "0 \<le> BigInt_SetBytes bs"
  by (simp add: BigInt_SetBytes_def)

lemma unat_BigInt_Uint64: "0 \<le> v \<Longrightarrow> v < 2 ^ 64 \<Longrightarrow> unat (BigInt_Uint64 v) = nat v"
  by (simp add: BigInt_Uint64_def unat_eq_nat_uint uint_word_of_int)

lemma BigInt_Int64_small:
  assumes "0 \<le> v" "v < 2 ^ 63"
  shows "BigInt_Int64 v = v"
  using assms by (simp add: BigInt_Int64_def signed_of_int signed_take_bit_int_eq_self)

end
