(* ===== verification/Exec.thy ===== *)
theory Exec
  imports GoRuntime
begin

text \<open>
  \<open>src/registry/exec/exec.go\<close>: the executor that retries a function after running a
  fallback. The two closures are stateful computations over the state of their
  environment; a nil function is \<open>None\<close>. The sleep between attempts has no effect on it.
\<close>

section \<open>Options\<close>

record Opts =
  maxRetryCount :: uint64
  retryTimeout :: int
  retryOnFallbackError :: bool

definition defaultMaxRetryCount :: uint64 where "defaultMaxRetryCount = 3"
definition defaultErrTimeout :: int where "defaultErrTimeout = 0"
definition defaultRetryOnFallbackError :: bool where "defaultRetryOnFallbackError = True"

definition NewDefaultExecOpts :: Opts where
  "NewDefaultExecOpts =
     \<lparr>maxRetryCount = defaultMaxRetryCount, retryTimeout = defaultErrTimeout,
      retryOnFallbackError = defaultRetryOnFallbackError\<rparr>"

definition WithMaxRetryCount :: "uint64 \<Rightarrow> Opts \<Rightarrow> Opts" where
  "WithMaxRetryCount n opts = opts\<lparr>maxRetryCount := (if n = 0 then defaultMaxRetryCount else n)\<rparr>"

definition WithRetryTimeout :: "int \<Rightarrow> Opts \<Rightarrow> Opts" where
  "WithRetryTimeout t opts = opts\<lparr>retryTimeout := t\<rparr>"

definition WithRetryOnFallBackError :: "bool \<Rightarrow> Opts \<Rightarrow> Opts" where
  "WithRetryOnFallBackError b opts = opts\<lparr>retryOnFallbackError := b\<rparr>"

definition NewRetryableExecutor :: "(Opts \<Rightarrow> Opts) list \<Rightarrow> Opts" where
  "NewRetryableExecutor opts = fold (\<lambda>opt o'. opt o') opts NewDefaultExecOpts"

section \<open>ExecWithFallback\<close>

definition AddErr :: "goerror list \<Rightarrow> goerror \<Rightarrow> goerror list" where
  "AddErr errs e = errs @ [e]"

text \<open>The counter starts anywhere; it reaches the bound because it passes every word on the way.\<close>

lemma word_count_down:
  assumes "(c :: uint64) \<noteq> m"
  shows "unat (m - (c + 1)) < unat (m - c)"
proof -
  have "m - c \<noteq> 0" using assms by simp
  then have "unat (m - c - 1) = unat (m - c) - 1" by (rule unat_minus_one)
  moreover have "0 < unat (m - c)" using \<open>m - c \<noteq> 0\<close> by (simp add: unat_gt_0)
  ultimately show ?thesis by (simp add: algebra_simps)
qed

function exec_loop ::
    "Opts \<Rightarrow> ('s, 'a) goM \<Rightarrow> ('s, unit) goM \<Rightarrow> uint64 \<Rightarrow> goerror list \<Rightarrow> 's \<Rightarrow> 'a res \<times> 's" where
  "exec_loop opts execFn fallbackFn retryCount errs s =
     (case execFn s of
        (Err err, s1) \<Rightarrow>
          (let errs1 = AddErr errs (ErrorString (''exec function error: '' @ error_text err)) in
           if retryCount = maxRetryCount opts then (Err (ExecErr errs1), s1)
           else
             (case fallbackFn s1 of
                (Err ferr, s2) \<Rightarrow>
                  (if \<not> retryOnFallbackError opts then
                     (Err (ExecErr (AddErr errs1 (ErrorString (''fallback function error: '' @ error_text ferr)))), s2)
                   else exec_loop opts execFn fallbackFn (retryCount + 1) errs1 s2)
              | (Ok _, s2) \<Rightarrow> exec_loop opts execFn fallbackFn (retryCount + 1) errs1 s2
              | (Panic p, s2) \<Rightarrow> (Panic p, s2)
              | (OutOfFuel, s2) \<Rightarrow> (OutOfFuel, s2)))
      | r \<Rightarrow> r)"
  by pat_completeness auto

termination
  by (relation "measure (\<lambda>(opts, _, _, c, _, _). unat (maxRetryCount opts - c))")
    (auto simp: word_count_down)

declare exec_loop.simps [simp del]

definition ExecWithFallback ::
    "Opts \<Rightarrow> ('s, 'a) goM option \<Rightarrow> ('s, unit) goM option \<Rightarrow> ('s, 'a) goM" where
  "ExecWithFallback opts execFn fallbackFn =
     (case execFn of
        None \<Rightarrow> failM (ErrorString ''no exec function provided'')
      | Some ef \<Rightarrow>
          (case fallbackFn of
             None \<Rightarrow> failM (ErrorString ''no fallback function provided'')
           | Some ff \<Rightarrow> exec_loop opts ef ff 0 []))"

section \<open>What the loop does, as a relation\<close>

text \<open>
  \<open>rounds n s s' es\<close>: from \<open>s\<close>, \<open>n\<close> failed attempts, each followed by a fallback that lets the
  loop go on, lead to \<open>s'\<close>; \<open>es\<close> are the errors of the attempts, oldest first.
\<close>

inductive rounds ::
    "Opts \<Rightarrow> ('s, 'a) goM \<Rightarrow> ('s, unit) goM \<Rightarrow> nat \<Rightarrow> 's \<Rightarrow> 's \<Rightarrow> goerror list \<Rightarrow> bool"
  for opts execFn fallbackFn where
  rounds_0: "rounds opts execFn fallbackFn 0 s s []"
| rounds_Suc: "execFn s = (Err e, s1) \<Longrightarrow> fallbackFn s1 = (r, s2) \<Longrightarrow>
     r = Ok () \<or> (\<exists>fe. r = Err fe) \<and> retryOnFallbackError opts \<Longrightarrow>
     rounds opts execFn fallbackFn n s2 s' es \<Longrightarrow>
     rounds opts execFn fallbackFn (Suc n) s s' (e # es)"

inductive_cases rounds_0E: "rounds opts execFn fallbackFn 0 s s' es"
inductive_cases rounds_SucE: "rounds opts execFn fallbackFn (Suc n) s s' es"

definition exec_err :: "goerror \<Rightarrow> goerror" where
  "exec_err e = ErrorString (''exec function error: '' @ error_text e)"

lemma rounds_errors: "rounds opts ef ff n s s' es \<Longrightarrow> length es = n"
  by (induction rule: rounds.induct) auto

text \<open>The loop succeeds with what an attempt returned after at most the remaining rounds.\<close>

lemma exec_loop_Ok_sound:
  "exec_loop opts ef ff c errs s = (Ok r, t) \<Longrightarrow>
     \<exists>n s' es. n \<le> unat (maxRetryCount opts - c) \<and> rounds opts ef ff n s s' es \<and> ef s' = (Ok r, t)"
proof (induction opts ef ff c errs s rule: exec_loop.induct)
  case (1 opts ef ff c errs s)
  show ?case
  proof (cases "\<exists>e s1. ef s = (Err e, s1)")
    case False
    with "1.prems" have "ef s = (Ok r, t)"
      by (subst (asm) exec_loop.simps) (auto split: prod.splits res.splits)
    then show ?thesis by (blast intro: rounds_0)
  next
    case True
    then obtain e s1 where ef: "ef s = (Err e, s1)" by blast
    with "1.prems" have c: "c \<noteq> maxRetryCount opts"
      by (subst (asm) exec_loop.simps) (auto simp: Let_def split: if_splits)
    obtain fr s2 where ff: "ff s1 = (fr, s2)" by fastforce
    have go: "fr = Ok () \<or> (\<exists>fe. fr = Err fe) \<and> retryOnFallbackError opts"
      and rec: "exec_loop opts ef ff (c + 1) (AddErr errs (exec_err e)) s2 = (Ok r, t)"
      using "1.prems" ef c ff
      by (subst (asm) exec_loop.simps; auto simp: Let_def exec_err_def split: if_splits res.splits)+
    have "\<exists>n s' es. n \<le> unat (maxRetryCount opts - (c + 1)) \<and> rounds opts ef ff n s2 s' es \<and> ef s' = (Ok r, t)"
      using "1.IH" ef c ff go rec by (auto simp: exec_err_def)
    then obtain n s' es where "n \<le> unat (maxRetryCount opts - (c + 1))"
      "rounds opts ef ff n s2 s' es" "ef s' = (Ok r, t)" by blast
    with ef ff go word_count_down [OF c] show ?thesis
      by (intro exI [of _ "Suc n"]) (fastforce intro: rounds_Suc)
  qed
qed

text \<open>Running through failed rounds moves the counter on and collects their errors.\<close>

lemma exec_loop_rounds:
  "rounds opts ef ff n s s' es \<Longrightarrow> n \<le> unat (maxRetryCount opts - c) \<Longrightarrow>
     exec_loop opts ef ff c errs s = exec_loop opts ef ff (c + word_of_nat n) (errs @ map exec_err es) s'"
proof (induction arbitrary: c errs rule: rounds.induct)
  case (rounds_0 s)
  show ?case by simp
next
  case (rounds_Suc s e s1 r s2 n s' es)
  from rounds_Suc.prems have c: "c \<noteq> maxRetryCount opts" by auto
  then have "n \<le> unat (maxRetryCount opts - (c + 1))"
    using rounds_Suc.prems unat_minus_one [of "maxRetryCount opts - c"] by (simp add: algebra_simps)
  then have "exec_loop opts ef ff (c + 1) (errs @ [exec_err e]) s2 =
      exec_loop opts ef ff (c + 1 + word_of_nat n) ((errs @ [exec_err e]) @ map exec_err es) s'"
    by (rule rounds_Suc.IH)
  moreover have "exec_loop opts ef ff c errs s = exec_loop opts ef ff (c + 1) (errs @ [exec_err e]) s2"
    using rounds_Suc.hyps c
    by (subst exec_loop.simps) (auto simp: Let_def AddErr_def exec_err_def)
  ultimately show ?case by (simp add: algebra_simps)
qed

lemma exec_loop_Ok: "ef s = (Ok r, t) \<Longrightarrow> exec_loop opts ef ff c errs s = (Ok r, t)"
  by (subst exec_loop.simps) simp

section \<open>Properties of the executor\<close>

text \<open>
  C32: the executor returns a result exactly when the function succeeds on its first attempt or
  after at most \<open>maxRetryCount\<close> rounds of a failed attempt and a fallback that did not stop
  the loop; the result and the final state are those of the successful attempt. In
  particular the function runs at most \<open>maxRetryCount + 1\<close> times.
\<close>

theorem ExecWithFallback_success_iff:
  "ExecWithFallback opts (Some ef) (Some ff) s = (Ok r, t) \<longleftrightarrow>
     (\<exists>n s' es. n \<le> unat (maxRetryCount opts) \<and> rounds opts ef ff n s s' es \<and> ef s' = (Ok r, t))"
proof
  assume "ExecWithFallback opts (Some ef) (Some ff) s = (Ok r, t)"
  then show "\<exists>n s' es. n \<le> unat (maxRetryCount opts) \<and> rounds opts ef ff n s s' es \<and> ef s' = (Ok r, t)"
    using exec_loop_Ok_sound [of opts ef ff 0 "[]" s r t] by (simp add: ExecWithFallback_def)
next
  assume "\<exists>n s' es. n \<le> unat (maxRetryCount opts) \<and> rounds opts ef ff n s s' es \<and> ef s' = (Ok r, t)"
  then obtain n s' es where "n \<le> unat (maxRetryCount opts)" "rounds opts ef ff n s s' es" "ef s' = (Ok r, t)"
    by blast
  then show "ExecWithFallback opts (Some ef) (Some ff) s = (Ok r, t)"
    using exec_loop_rounds [of opts ef ff n s s' es 0 "[]"] exec_loop_Ok [of ef s' r t]
    by (simp add: ExecWithFallback_def)
qed

text \<open>
  when the last allowed attempt fails too, the error lists the errors of all attempts in
  order, one per attempt, and the fallback is not run again.
\<close>

theorem ExecWithFallback_exhausted:
  assumes "rounds opts ef ff (unat (maxRetryCount opts)) s s' es" and "ef s' = (Err e, t)"
  shows "ExecWithFallback opts (Some ef) (Some ff) s = (Err (ExecErr (map exec_err (es @ [e]))), t) \<and>
         length (es @ [e]) = unat (maxRetryCount opts) + 1"
proof -
  have "exec_loop opts ef ff (maxRetryCount opts) errs s' = (Err (ExecErr (errs @ [exec_err e])), t)" for errs
    using assms(2) by (subst exec_loop.simps) (simp add: Let_def AddErr_def exec_err_def)
  then show ?thesis
    using exec_loop_rounds [OF assms(1), of 0 "[]"] rounds_errors [OF assms(1)]
    by (simp add: ExecWithFallback_def)
qed

text \<open>A function that always fails, under the options of the event parsing executor.\<close>

theorem ExecWithFallback_exhausted_witness:
  "ExecWithFallback (NewRetryableExecutor [WithMaxRetryCount 1])
     (Some (\<lambda>n :: nat. (Err EOF :: unit res, n + 1))) (Some (\<lambda>n. (Ok (), n + 10))) 0 =
   (Err (ExecErr (map exec_err ([EOF] @ [EOF]))), 12) \<and>
   length ([EOF] @ [EOF]) = unat (maxRetryCount (NewRetryableExecutor [WithMaxRetryCount 1])) + 1"
proof (rule ExecWithFallback_exhausted)
  show "rounds (NewRetryableExecutor [WithMaxRetryCount 1])
     (\<lambda>n :: nat. (Err EOF :: unit res, n + 1)) (\<lambda>n. (Ok (), n + 10))
     (unat (maxRetryCount (NewRetryableExecutor [WithMaxRetryCount 1]))) 0 11 [EOF]"
    by (simp add: NewRetryableExecutor_def WithMaxRetryCount_def)
      (rule rounds_Suc, rule refl, rule refl, simp, simp add: rounds_0)
qed simp

end
