(* ===== verification/Contract.thy ===== *)
theory Contract
  imports GoRuntime
begin

text \<open>
  The contract between the SCALE encoder and decoder and the types that implement
  \<open>scale.Encodeable\<close> and \<open>scale.Decodeable\<close>: what an encoder writes, what a decoder reads,
  and the laws a pair of them promises. Every type of \<open>src/types\<close> the development models
  interprets one of the locales below.
\<close>

text \<open>\<open>writes m bs\<close>: the encoder \<open>m\<close> succeeds and appends exactly \<open>bs\<close> to any buffer.\<close>

definition writes :: "(bytes, unit) goM \<Rightarrow> bytes \<Rightarrow> bool" where
  "writes m bs \<longleftrightarrow> (\<forall>buf. m buf = (Ok (), buf @ bs))"

text \<open>\<open>reads d bs v\<close>: the decoder \<open>d\<close> consumes exactly \<open>bs\<close>, whatever follows, and returns \<open>v\<close>.\<close>

definition reads :: "(bytes, 'a) goM \<Rightarrow> bytes \<Rightarrow> 'a \<Rightarrow> bool" where
  "reads d bs v \<longleftrightarrow> (\<forall>rest. d (bs @ rest) = (Ok v, rest))"

lemma writesI: "(\<And>buf. m buf = (Ok (), buf @ bs)) \<Longrightarrow> writes m bs"
  by (simp add: writes_def)

lemma readsI: "(\<And>rest. d (bs @ rest) = (Ok v, rest)) \<Longrightarrow> reads d bs v"
  by (simp add: reads_def)

lemma writesD: "writes m bs \<Longrightarrow> m buf = (Ok (), buf @ bs)"
  by (simp add: writes_def)

lemma readsD: "reads d bs v \<Longrightarrow> d (bs @ rest) = (Ok v, rest)"
  by (simp add: reads_def)

lemma reads_all: "reads d bs v \<Longrightarrow> d bs = (Ok v, [])"
  using readsD [of d bs v "[]"] by simp

lemma writes_unique: "writes m bs \<Longrightarrow> writes m cs \<Longrightarrow> bs = cs"
  using writesD [of m bs "[]"] writesD [of m cs "[]"] by simp

lemma writes_retM: "writes (retM ()) []"
  by (simp add: writes_def)

lemma reads_retM: "reads (retM v) [] v"
  by (simp add: reads_def)

lemma writes_seqM: "writes m bs \<Longrightarrow> writes n cs \<Longrightarrow> writes (seqM m n) (bs @ cs)"
  by (simp add: writes_def)

lemma reads_bindM: "reads m bs a \<Longrightarrow> reads (f a) cs v \<Longrightarrow> reads (bindM m f) (bs @ cs) v"
  by (simp add: reads_def)

lemma reads_bindM_last: "reads m bs a \<Longrightarrow> f a = retM v \<Longrightarrow> reads (bindM m f) bs v"
  by (simp add: reads_def)

lemma reads_bindM_Nil: "reads m bs a \<Longrightarrow> reads (f a) [] v \<Longrightarrow> reads (bindM m f) bs v"
  using reads_bindM [of m bs a f "[]" v] by simp

lemma writes_wrapM: "writes m bs \<Longrightarrow> writes (wrapM w m) bs"
  by (simp add: writes_def)

lemma reads_wrapM: "reads m bs a \<Longrightarrow> reads (wrapM w m) bs a"
  by (simp add: reads_def)

text \<open>\<open>rt e d v\<close>: the encoder \<open>e\<close> of one value and the decoder \<open>d\<close> agree on its bytes.\<close>

definition rt :: "(bytes, unit) goM \<Rightarrow> (bytes, 'a) goM \<Rightarrow> 'a \<Rightarrow> bool" where
  "rt e d v \<longleftrightarrow> (\<exists>bs. writes e bs \<and> reads d bs v)"

lemma rtI: "writes e bs \<Longrightarrow> reads d bs v \<Longrightarrow> rt e d v"
  by (auto simp: rt_def)

lemma rt_seqM:
  assumes "rt e d a" and "rt e' (f a) v"
  shows "rt (seqM e e') (bindM d f) v"
  using assms by (auto simp: rt_def intro: writes_seqM reads_bindM)

lemma rt_last:
  assumes "rt e d a" and "f a = retM v"
  shows "rt e (bindM d f) v"
  using assms by (auto simp: rt_def intro: reads_bindM_last)

lemma rt_seqM_pair:
  assumes "rt e d (a, b)" and "rt e' (f a b) v"
  shows "rt (seqM e e') (bindM d (\<lambda>(x, y). f x y)) v"
  using rt_seqM [OF assms(1), of e' "\<lambda>(x, y). f x y" v] assms(2) by simp

lemma rt_last_pair:
  assumes "rt e d (a, b)" and "f a b = retM v"
  shows "rt e (bindM d (\<lambda>(x, y). f x y)) v"
  using rt_last [OF assms(1), of "\<lambda>(x, y). f x y" v] assms(2) by simp

lemma rt_retM: "rt (retM ()) (retM v) v"
  by (auto simp: rt_def intro: writes_retM reads_retM)

lemma rt_wrapM: "rt e d v \<Longrightarrow> rt (wrapM w e) (wrapM w' d) v"
  by (auto simp: rt_def intro: writes_wrapM reads_wrapM)

text \<open>The composition rules in the order a struct codec is taken apart.\<close>

lemmas rt_struct = rt_seqM_pair rt_last_pair rt_seqM rt_last rt_wrapM

section \<open>Self-delimiting and input-consuming codecs\<close>

text \<open>
  A \<open>tail_codec\<close> round-trips when the encoding is the whole input: the contract of
  \<open>StorageKey\<close>, \<open>Data\<close>, \<open>Args\<close> and \<open>StorageDataRaw\<close>, which read up to the end. A
  \<open>scale_codec\<close> round-trips whatever follows it, so it can stand anywhere in a structure.
\<close>

locale tail_codec =
  fixes enc :: "'a \<Rightarrow> (bytes, unit) goM"
    and dec :: "(bytes, 'a) goM"
    and valid :: "'a \<Rightarrow> bool"
  assumes tail_roundtrip: "valid v \<Longrightarrow> \<exists>bs. writes (enc v) bs \<and> dec bs = (Ok v, [])"
begin

lemma decode_written: "valid v \<Longrightarrow> writes (enc v) bs \<Longrightarrow> dec bs = (Ok v, [])"
  using tail_roundtrip [of v] by (auto dest: writes_unique)

lemma encode_total: "valid v \<Longrightarrow> \<exists>bs. enc v buf = (Ok (), buf @ bs)"
  using tail_roundtrip [of v] by (auto simp: writes_def)

lemma encode_injective:
  assumes "valid v" "valid w" "writes (enc v) bs" "writes (enc w) bs"
  shows "v = w"
  using decode_written [OF assms(1,3)] decode_written [OF assms(2,4)] by simp

end

locale scale_codec =
  fixes enc :: "'a \<Rightarrow> (bytes, unit) goM"
    and dec :: "(bytes, 'a) goM"
    and valid :: "'a \<Rightarrow> bool"
  assumes roundtrip: "valid v \<Longrightarrow> rt (enc v) dec v"
begin

lemma reads_written: "valid v \<Longrightarrow> writes (enc v) bs \<Longrightarrow> reads dec bs v"
  using roundtrip [of v] by (auto simp: rt_def dest: writes_unique)

text \<open>No encoding is a proper prefix of another: concatenations split in one way only.\<close>

lemma prefix_free:
  assumes "valid v" "valid w" "writes (enc v) bs" "writes (enc w) (bs @ cs)"
  shows "v = w \<and> cs = []"
proof -
  have "dec (bs @ cs) = (Ok v, cs)"
    using reads_written [OF assms(1,3)] by (rule readsD)
  moreover have "dec (bs @ cs) = (Ok w, [])"
    using reads_written [OF assms(2,4)] by (rule reads_all)
  ultimately show ?thesis by simp
qed

end

sublocale scale_codec \<subseteq> tail_codec
proof
  fix v
  assume "valid v"
  then show "\<exists>bs. writes (enc v) bs \<and> dec bs = (Ok v, [])"
    using roundtrip [of v] by (auto simp: rt_def dest: reads_all)
qed

end
