(* ===== verification/ScaleCodec.thy ===== *)
theory ScaleCodec
  imports Contract
begin

text \<open>
  The primitive operations of \<open>src/scale/codec.go\<close>: writing and reading bytes, the compact
  integer encoding, in-place reversal, and the length-prefixed, fixed-length and optional
  containers, each over the encoder or decoder of its element.
\<close>

section \<open>Encoder\<close>

definition Encoder_Write :: "bytes \<Rightarrow> (bytes, unit) goM" where
  "Encoder_Write bs buf =
     (case Buffer_Write bs buf of
        ((c, Some e), buf') \<Rightarrow> (Err e, buf')
      | ((c, None), buf') \<Rightarrow>
          (if c < length bs
           then (Err (ErrorString (''Could not write '' @ string_of_nat (length bs) @ '' bytes to writer'')), buf')
           else (Ok (), buf')))"

definition PushByte :: "byte \<Rightarrow> (bytes, unit) goM" where
  "PushByte b = Encoder_Write [b]"

text \<open>\<open>Reverse\<close> swaps the two ends of a slice and moves inwards.\<close>

function reverse_loop :: "nat \<Rightarrow> nat \<Rightarrow> bytes \<Rightarrow> bytes" where
  "reverse_loop i j b =
     (if i < j then reverse_loop (i + 1) (j - 1) (b[i := b ! j, j := b ! i]) else b)"
  by pat_completeness auto
termination
  by (relation "measure (\<lambda>(i, j, b). j - i)") auto

definition Reverse :: "bytes \<Rightarrow> bytes" where
  "Reverse b = reverse_loop 0 (length b - 1) b"

definition EncodeUintCompact :: "int \<Rightarrow> (bytes, unit) goM" where
  "EncodeUintCompact v =
     (if v < 0 then
        failM (ErrorString ''Assertion error: EncodeUintCompact cannot process negative numbers'')
      else if BigInt_IsUint64 v \<and> BigInt_Uint64 v < 2 ^ 30 then
        (if BigInt_Uint64 v < 2 ^ 6 then PushByte (push_bit 2 (ucast (BigInt_Uint64 v)))
         else if BigInt_Uint64 v < 2 ^ 14 then
           binary_Write 2 (unat (ucast (push_bit 2 (BigInt_Uint64 v)) + 1 :: uint16))
         else
           binary_Write 4 (unat (ucast (push_bit 2 (BigInt_Uint64 v)) + 2 :: uint32)))
      else
        (let numBytes = length (BigInt_Bytes v) in
         if numBytes > 255 then
           failM (ErrorString ''Assertion error: numBytes>255 exeeds allowed for length prefix'')
         else
           (let topSixBits = word_of_int (int numBytes - 4) :: uint8;
                lengthByte = push_bit 2 topSixBits + 3
            in if topSixBits > 63 then
                 failM (ErrorString ''Assertion error: n<=63 needed to compact-encode substrate unsigned big integer'')
               else seqM (PushByte lengthByte) (Encoder_Write (Reverse (BigInt_Bytes v))))))"

section \<open>Decoder\<close>

definition Decoder_Read :: "nat \<Rightarrow> (bytes, bytes) goM" where
  "Decoder_Read n s =
     (case Reader_Read n s of
        ((bs, Some e), s') \<Rightarrow> (Err e, s')
      | ((bs, None), s') \<Rightarrow>
          (if length bs < n
           then (Err (ErrorString (''Cannot read the required number of bytes '' @ string_of_nat n
                   @ '', only '' @ string_of_nat (length bs) @ '' available'')), s')
           else (Ok bs, s')))"

definition ReadOneByte :: "(bytes, byte) goM" where
  "ReadOneByte = bindM (Decoder_Read 1) (\<lambda>buf. retM (hd buf))"

text \<open>
  \<open>b, _ := pd.ReadOneByte()\<close>: the error is dropped and the byte is the buffer's initial zero.
\<close>

definition ReadOneByte_ignoring :: "(bytes, byte) goM" where
  "ReadOneByte_ignoring s =
     (case ReadOneByte s of (Err e, s') \<Rightarrow> (Ok 0, s') | r \<Rightarrow> r)"

definition DecodeUintCompact :: "(bytes, int) goM" where
  "DecodeUintCompact =
     bindM ReadOneByte (\<lambda>b.
       let mode = b AND 3 in
       if mode = 0 then retM (uint (drop_bit 2 b))
       else if mode = 1 then
         bindM ReadOneByte (\<lambda>bb.
           retM (uint (push_bit 6 (ucast bb :: uint64) + ucast (drop_bit 2 b))))
       else if mode = 2 then
         bindM (Decoder_Read 3) (\<lambda>buf.
           retM (uint (drop_bit 2 (word_of_nat (le_nat (b # buf)) :: uint32))))
       else if mode = 3 then
         (let l = drop_bit 2 b in
          if l > 63 then
            failM (ErrorString ''Not supported: l>63 encountered when decoding a compact-encoded uint'')
          else
            bindM (Decoder_Read (unat (l + 4))) (\<lambda>buf. retM (BigInt_SetBytes (Reverse buf))))
       else failM (ErrorString ''Code should be unreachable''))"

section \<open>Containers\<close>

text \<open>The element loops of \<open>Encode\<close> and \<open>DecodeIntoReflectValue\<close>.\<close>

fun encode_each :: "('a \<Rightarrow> (bytes, unit) goM) \<Rightarrow> 'a list \<Rightarrow> (bytes, unit) goM" where
  "encode_each e [] = retM ()"
| "encode_each e (x # xs) = seqM (e x) (encode_each e xs)"

fun decode_each :: "nat \<Rightarrow> (bytes, 'a) goM \<Rightarrow> (bytes, 'a list) goM" where
  "decode_each 0 d = retM []"
| "decode_each (Suc n) d = bindM d (\<lambda>x. bindM (decode_each n d) (\<lambda>xs. retM (x # xs)))"

definition Encode_slice :: "('a \<Rightarrow> (bytes, unit) goM) \<Rightarrow> 'a list \<Rightarrow> (bytes, unit) goM" where
  "Encode_slice e xs =
     (let len64 = length xs in
      if len64 > 2 ^ 32 - 1 then
        failM (ErrorString ''Attempted to serialize a collection with too many elements.'')
      else seqM (EncodeUintCompact (int len64)) (encode_each e xs))"

text \<open>
  A \<open>*big.Int\<close> is a pointer: \<open>Uint64\<close> of a nil one dereferences it.
\<close>

definition BigInt_ptr_Uint64 :: "int option \<Rightarrow> (bytes, uint64) goM" where
  "BigInt_ptr_Uint64 p s =
     (case p of
        None \<Rightarrow> (Panic ''invalid memory address or nil pointer dereference'', s)
      | Some v \<Rightarrow> (Ok (BigInt_Uint64 v), s))"

text \<open>
  \<open>codedLen64, _ := pd.DecodeUintCompact()\<close>: the error is dropped, and the pointer that comes with it
  is nil.
\<close>

definition DecodeUintCompact_ignoring :: "(bytes, int option) goM" where
  "DecodeUintCompact_ignoring s =
     (case DecodeUintCompact s of
        (Ok v, s') \<Rightarrow> (Ok (Some v), s')
      | (Err e, s') \<Rightarrow> (Ok None, s')
      | (Panic p, s') \<Rightarrow> (Panic p, s')
      | (OutOfFuel, s') \<Rightarrow> (OutOfFuel, s'))"

text \<open>
  The slice case reads the length and uses the pointer whatever the error was. Only the low 64 bits of
  the length are looked at.
\<close>

definition Decode_slice :: "(bytes, 'a) goM \<Rightarrow> (bytes, 'a list) goM" where
  "Decode_slice d =
     bindM DecodeUintCompact_ignoring (\<lambda>codedLen64.
     bindM (BigInt_ptr_Uint64 codedLen64) (\<lambda>n.
       if n > 2 ^ 32 - 1 then
         failM (ErrorString ''Encoded array length is higher than allowed by the protocol (32-bit unsigned integer)'')
       else if n > 2 ^ 63 - 1 then
         failM (ErrorString ''Encoded array length is higher than allowed by the platform'')
       else decode_each (unat n) d))"

definition EncodeOption :: "('a \<Rightarrow> (bytes, unit) goM) \<Rightarrow> bool \<Rightarrow> 'a \<Rightarrow> (bytes, unit) goM" where
  "EncodeOption e hasValue v = (if \<not> hasValue then PushByte 0 else seqM (PushByte 1) (e v))"

text \<open>
  \<open>DecodeOption\<close> fills a presence flag and a value; \<open>zero\<close> is what the value holds before
  the call and keeps when it is absent.
\<close>

definition DecodeOption :: "(bytes, 'a) goM \<Rightarrow> 'a \<Rightarrow> (bytes, bool \<times> 'a) goM" where
  "DecodeOption d zero =
     bindM ReadOneByte_ignoring (\<lambda>b.
       if b = 0 then retM (False, zero)
       else if b = 1 then bindM d (\<lambda>v. retM (True, v))
       else failM (ErrorString (''Unknown byte prefix for encoded OptionBool: '' @ string_of_nat (unat b))))"

section \<open>Reading and writing bytes\<close>

text \<open>A slice decoder by the outcome of its length.\<close>

lemma Decode_slice_eq:
  "Decode_slice d s =
     (case DecodeUintCompact s of
        (Err _, s') \<Rightarrow> (Panic ''invalid memory address or nil pointer dereference'', s')
      | (Panic p, s') \<Rightarrow> (Panic p, s')
      | (OutOfFuel, s') \<Rightarrow> (OutOfFuel, s')
      | (Ok codedLen64, s') \<Rightarrow>
          (if BigInt_Uint64 codedLen64 > 2 ^ 32 - 1 then
             (Err (ErrorString ''Encoded array length is higher than allowed by the protocol (32-bit unsigned integer)''), s')
           else if BigInt_Uint64 codedLen64 > 2 ^ 63 - 1 then
             (Err (ErrorString ''Encoded array length is higher than allowed by the platform''), s')
           else decode_each (unat (BigInt_Uint64 codedLen64)) d s'))"
  by (simp add: Decode_slice_def DecodeUintCompact_ignoring_def BigInt_ptr_Uint64_def bindM_def split: prod.split res.split)

lemma Encoder_Write_eq [simp]: "Encoder_Write bs buf = (Ok (), buf @ bs)"
  by (simp add: Encoder_Write_def Buffer_Write_def)

lemma writes_Write [codec_intros]: "writes (Encoder_Write bs) bs"
  by (simp add: writes_def)

lemma writes_PushByte [codec_intros]: "writes (PushByte b) [b]"
  by (simp add: writes_def PushByte_def)

lemma writes_binary_Write: "writes (binary_Write k n) (le_fixed k n)"
  by (simp add: writes_def binary_Write_def)

lemma Decoder_Read_Ok: "length bs = n \<Longrightarrow> 0 < n \<Longrightarrow> Decoder_Read n (bs @ rest) = (Ok bs, rest)"
  by (auto simp: Decoder_Read_def Reader_Read_def)

lemma reads_Decoder_Read: "length bs = n \<Longrightarrow> 0 < n \<Longrightarrow> reads (Decoder_Read n) bs bs"
  by (simp add: reads_def Decoder_Read_Ok)

lemma Decoder_Read_Nil [simp]: "Decoder_Read n [] = (Err EOF, [])"
  by (simp add: Decoder_Read_def Reader_Read_def)

lemma ReadOneByte_Cons [simp]: "ReadOneByte (b # s) = (Ok b, s)"
  using Decoder_Read_Ok [of "[b]" 1 s] by (simp add: ReadOneByte_def)

lemma ReadOneByte_Nil [simp]: "ReadOneByte [] = (Err EOF, [])"
  by (simp add: ReadOneByte_def)

lemma reads_ReadOneByte: "reads ReadOneByte [b] b"
  by (simp add: reads_def)

lemma ReadOneByte_ignoring_simps [simp]:
  "ReadOneByte_ignoring (b # s) = (Ok b, s)"
  "ReadOneByte_ignoring [] = (Ok 0, [])"
  by (simp_all add: ReadOneByte_ignoring_def)

lemma reads_binary_Read: "n < 256 ^ k \<Longrightarrow> reads (binary_Read k) (le_fixed k n) n"
  by (simp add: reads_def binary_Read_def)

lemma rt_binary: "n < 256 ^ k \<Longrightarrow> rt (binary_Write k n) (binary_Read k) n"
  by (rule rtI [OF writes_binary_Write reads_binary_Read])

section \<open>Reverse\<close>

declare reverse_loop.simps [simp del]

lemma length_reverse_loop [simp]: "length (reverse_loop i j b) = length b"
proof (induction i j b rule: reverse_loop.induct)
  case (1 i j b)
  then show ?case by (subst reverse_loop.simps) simp
qed

lemma reverse_loop_nth:
  "j < length b \<Longrightarrow> k < length b \<Longrightarrow>
     reverse_loop i j b ! k = (if i \<le> k \<and> k \<le> j then b ! (i + j - k) else b ! k)"
proof (induction i j b rule: reverse_loop.induct)
  case (1 i j b)
  show ?case
  proof (cases "i < j")
    case True
    let ?b = "b[i := b ! j, j := b ! i]"
    have "reverse_loop (i + 1) (j - 1) ?b ! k =
        (if i + 1 \<le> k \<and> k \<le> j - 1 then ?b ! (i + 1 + (j - 1) - k) else ?b ! k)"
      using "1.IH" [OF True] "1.prems" by simp
    moreover have "i + 1 + (j - 1) = i + j" using True by simp
    ultimately have "reverse_loop i j b ! k =
        (if i + 1 \<le> k \<and> k \<le> j - 1 then ?b ! (i + j - k) else ?b ! k)"
      using True by (subst reverse_loop.simps) simp
    then show ?thesis
      using True "1.prems" by (auto simp: nth_list_update)
  next
    case False
    then have "i \<le> k \<and> k \<le> j \<Longrightarrow> i + j - k = k" by linarith
    with False show ?thesis by (subst reverse_loop.simps) auto
  qed
qed

lemma Reverse_eq_rev: "Reverse b = rev b"
proof (cases "b = []")
  case True
  then show ?thesis by (simp add: Reverse_def reverse_loop.simps)
next
  case False
  then show ?thesis
    by (intro nth_equalityI) (auto simp: Reverse_def reverse_loop_nth rev_nth)
qed

section \<open>The compact integer encoding\<close>

text \<open>The bytes a number in each of the four modes is written as.\<close>

definition compact_bytes :: "nat \<Rightarrow> bytes" where
  "compact_bytes n =
     (if n < 2 ^ 6 then [word_of_nat (4 * n)]
      else if n < 2 ^ 14 then le_fixed 2 (4 * n + 1)
      else if n < 2 ^ 30 then le_fixed 4 (4 * n + 2)
      else word_of_nat (4 * (length (le_bytes n) - 4) + 3) # le_bytes n)"

lemma BigInt_Uint64_less_iff:
  assumes "0 \<le> v" "v < 2 ^ 64" "k < 64"
  shows "BigInt_Uint64 v < 2 ^ k \<longleftrightarrow> nat v < 2 ^ k"
proof -
  have "unat ((2 :: uint64) ^ k) = 2 ^ k"
    using assms(3) by (simp add: unat_two_power)
  then show ?thesis
    using assms by (simp add: word_less_nat_alt unat_BigInt_Uint64)
qed

lemma EncodeUintCompact_small:
  assumes "n < 2 ^ 30"
  shows "EncodeUintCompact (int n) =
     (if n < 2 ^ 6 then PushByte (word_of_nat (4 * n))
      else if n < 2 ^ 14 then binary_Write 2 (4 * n + 1)
      else binary_Write 4 (4 * n + 2))"
proof -
  let ?w = "BigInt_Uint64 (int n)"
  have w: "unat ?w = n" using assms by (simp add: unat_BigInt_Uint64)
  have less: "?w < 2 ^ k \<longleftrightarrow> n < 2 ^ k" if "k < 64" for k
    using BigInt_Uint64_less_iff [of "int n" k] that assms by simp
  have "unat (push_bit 2 (ucast ?w :: byte)) = unat (word_of_nat (4 * n) :: byte)"
    by (simp only: unat_push_bit unat_ucast unat_of_nat w)
      (simp add: mod_mult_left_eq, simp add: mult.commute)
  then have one: "push_bit 2 (ucast ?w :: byte) = word_of_nat (4 * n)"
    by (rule unsigned_word_eqI)
  have two: "unat (ucast (push_bit 2 ?w) + 1 :: uint16) = 4 * n + 1" if "n < 2 ^ 14"
    using that w by (simp add: unat_word_ariths unat_push_bit unat_ucast)
  have four: "unat (ucast (push_bit 2 ?w) + 2 :: uint32) = 4 * n + 2" if "n < 2 ^ 30"
    using that w by (simp add: unat_word_ariths unat_push_bit unat_ucast)
  have is64: "BigInt_IsUint64 (int n)"
    using assms by (simp add: BigInt_IsUint64_def)
  show ?thesis
    unfolding EncodeUintCompact_def
    using is64 less [of 30] less [of 14] less [of 6] assms one two four by simp
qed

lemma EncodeUintCompact_big:
  assumes "2 ^ 30 \<le> n" "n < 2 ^ 536"
  shows "EncodeUintCompact (int n) =
     seqM (PushByte (word_of_nat (4 * (length (le_bytes n) - 4) + 3))) (Encoder_Write (le_bytes n))"
proof -
  let ?k = "length (le_bytes n)"
  have k67: "?k \<le> 67" by (rule length_le_bytes_le) (use assms(2) in simp)
  have k4: "3 < ?k" by (rule length_le_bytes_gt) (use assms(1) in simp)
  have nsmall: "\<not> (BigInt_IsUint64 (int n) \<and> BigInt_Uint64 (int n) < 2 ^ 30)"
    using assms(1) BigInt_Uint64_less_iff [of "int n" 30] by (auto simp: BigInt_IsUint64_def)
  have len: "length (BigInt_Bytes (int n)) = ?k" by (simp add: BigInt_Bytes_def)
  have top: "word_of_int (int ?k - 4) = (word_of_nat (?k - 4) :: uint8)"
    using k4 by (simp add: of_nat_diff)
  have utop: "unat (word_of_nat (?k - 4) :: uint8) = ?k - 4"
    using k67 by (simp add: unat_of_nat)
  then have le63: "\<not> (63 < (word_of_nat (?k - 4) :: uint8))"
    using k67 by (simp add: word_less_nat_alt)
  have lengthByte: "push_bit 2 (word_of_nat (?k - 4) :: uint8) + 3 = word_of_nat (4 * (?k - 4) + 3)"
    by (simp add: push_bit_eq_mult mult.commute)
  have nneg: "\<not> int n < 0" "\<not> 255 < ?k" using k67 by simp_all
  have rev: "Reverse (BigInt_Bytes (int n)) = le_bytes n"
    by (simp add: Reverse_eq_rev BigInt_Bytes_def)
  show ?thesis
    by (simp only: EncodeUintCompact_def nneg nsmall if_False Let_def len top le63 lengthByte rev)
qed

lemma writes_EncodeUintCompact:
  "n < 2 ^ 536 \<Longrightarrow> writes (EncodeUintCompact (int n)) (compact_bytes n)"
proof (cases "n < 2 ^ 30")
  case True
  then show ?thesis
    by (auto simp: EncodeUintCompact_small compact_bytes_def
        intro: writes_PushByte writes_binary_Write)
next
  case False
  assume "n < 2 ^ 536"
  with False have "EncodeUintCompact (int n) =
     seqM (PushByte (word_of_nat (4 * (length (le_bytes n) - 4) + 3))) (Encoder_Write (le_bytes n))"
    by (intro EncodeUintCompact_big) auto
  moreover have "writes (seqM (PushByte b) (Encoder_Write bs)) (b # bs)" for b bs
    using writes_seqM [OF writes_PushByte writes_Write] by simp
  ultimately show ?thesis using False by (simp add: compact_bytes_def)
qed

lemma DecodeUintCompact_mode:
  "DecodeUintCompact (b # s) =
     (if unat b mod 4 = 0 then (Ok (int (unat b div 4)), s)
      else if unat b mod 4 = 1 then
        bindM ReadOneByte (\<lambda>bb. retM (int (unat bb * 64 + unat b div 4))) s
      else if unat b mod 4 = 2 then
        bindM (Decoder_Read 3) (\<lambda>buf. retM (int (le_nat (b # take 3 buf) div 4))) s
      else bindM (Decoder_Read (unat b div 4 + 4)) (\<lambda>buf. retM (int (le_nat buf))) s)"
proof -
  have m: "(b AND 3 = 0) = (unat b mod 4 = 0)" "(b AND 3 = 1) = (unat b mod 4 = 1)"
    "(b AND 3 = 2) = (unat b mod 4 = 2)" "(b AND 3 = 3) = (unat b mod 4 = 3)"
    using byte_and_3_eq_iff [of 0 b] byte_and_3_eq_iff [of 1 b]
      byte_and_3_eq_iff [of 2 b] byte_and_3_eq_iff [of 3 b] by simp_all
  have q: "uint (drop_bit 2 b) = int (unat b div 4)"
    by (simp only: uint_nat unat_drop_bit_2)
  have div64: "unat b div 4 < 64" using unat_byte_less [of b] by linarith
  have one: "uint (push_bit 6 (ucast bb :: uint64) + ucast (drop_bit 2 b)) =
      int (unat bb * 64 + unat b div 4)" for bb :: byte
  proof -
    obtain n where n: "unat bb = n" "n < 256" using unat_byte_less [of bb] by blast
    with div64 have "unat (push_bit 6 (ucast bb :: uint64) + ucast (drop_bit 2 b)) =
        unat bb * 64 + unat b div 4"
      by (simp only: unat_word_ariths unat_push_bit unat_ucast unat_drop_bit_2 n(1)) simp
    then show ?thesis by (simp only: uint_nat)
  qed
  have four: "Decoder_Read 3 s = (Ok buf, t) \<Longrightarrow>
      uint (drop_bit 2 (word_of_nat (le_nat (b # buf)) :: uint32)) = int (le_nat (b # take 3 buf) div 4)" for buf t
  proof -
    assume "Decoder_Read 3 s = (Ok buf, t)"
    then have l: "length buf = 3"
      by (auto simp: Decoder_Read_def Reader_Read_def split: if_splits)
    then have "le_nat (b # buf) < 2 ^ 32" using le_nat_bound [of "b # buf"] by simp
    then have "unat (word_of_nat (le_nat (b # buf)) :: uint32) = le_nat (b # buf)"
      by (intro unat_word_of_nat_small) simp
    then show ?thesis using l by (simp only: uint_nat unat_drop_bit) simp
  qed
  have l63: "\<not> (63 < drop_bit 2 b)"
    using div64 by (simp only: word_less_nat_alt unat_drop_bit_2) simp
  have l4: "unat (drop_bit 2 b + 4) = unat b div 4 + 4"
    using div64 by (simp only: unat_word_ariths unat_drop_bit_2) simp
  have "unat b mod 4 = 0 \<or> unat b mod 4 = 1 \<or> unat b mod 4 = 2 \<or> unat b mod 4 = 3"
    by linarith
  then show ?thesis
    unfolding DecodeUintCompact_def
    by (elim disjE)
      (simp_all del: le_nat.simps add: m q one l63 l4 Let_def Reverse_eq_rev BigInt_SetBytes_def,
       auto simp del: le_nat.simps simp: bindM_def four split: prod.splits res.splits)
qed

lemma le_fixed_4: "le_fixed 4 m = word_of_nat (m mod 256) # le_fixed 3 (m div 256)"
  using le_fixed.simps(2) [of 3 m] by (simp del: le_fixed.simps)

lemma reads_DecodeUintCompact:
  assumes "n < 2 ^ 536"
  shows "reads DecodeUintCompact (compact_bytes n) (int n)"
proof (rule readsI)
  fix rest
  consider "n < 2 ^ 6" | "2 ^ 6 \<le> n" "n < 2 ^ 14" | "2 ^ 14 \<le> n" "n < 2 ^ 30" | "2 ^ 30 \<le> n"
    by linarith
  then show "DecodeUintCompact (compact_bytes n @ rest) = (Ok (int n), rest)"
  proof cases
    case 1
    then have "unat (word_of_nat (4 * n) :: byte) = 4 * n"
      by (intro unat_word_of_nat_small) simp
    with 1 show ?thesis
      by (simp del: of_nat_mult add: compact_bytes_def DecodeUintCompact_mode)
  next
    case 2
    let ?m = "4 * n + 1"
    obtain q r where m: "?m = 256 * q + r" "r < 256"
      using mult_div_mod_eq [of 256 ?m] mod_less_divisor [of 256 ?m] by (metis zero_less_numeral)
    have q: "q < 256" using m 2 by simp
    have "?m mod 4 = 1" by simp
    then have r4: "r mod 4 = 1" by (simp only: m(1)) (simp add: mod_add_left_eq [symmetric])
    have "?m div 4 = n" by simp
    then have n: "q * 64 + r div 4 = n" by (simp only: m(1))
    have u: "unat (word_of_nat q :: byte) = q" "unat (word_of_nat r :: byte) = r"
      using q m(2) by (auto intro: unat_word_of_nat_small)
    have l: "le_fixed 2 ?m = [word_of_nat r, word_of_nat q]"
      using q m(2) by (simp only: m(1)) (simp add: numeral_2_eq_2)
    have "DecodeUintCompact ([word_of_nat r, word_of_nat q] @ rest) = (Ok (int n), rest)"
      by (simp del: of_nat_add of_nat_mult add: DecodeUintCompact_mode u r4 n)
    with 2 l show ?thesis by (simp add: compact_bytes_def)
  next
    case 3
    let ?m = "4 * n + 2"
    have l: "le_fixed 4 ?m = word_of_nat (?m mod 256) # le_fixed 3 (?m div 256)"
      by (rule le_fixed_4)
    have "le_nat (le_fixed 4 ?m) = ?m" using 3 by (intro le_nat_le_fixed_id) simp
    then have v: "le_nat (word_of_nat (?m mod 256) # le_fixed 3 (?m div 256)) = ?m"
      by (simp only: l)
    have r: "Decoder_Read 3 (le_fixed 3 (?m div 256) @ rest) = (Ok (le_fixed 3 (?m div 256)), rest)"
      by (rule Decoder_Read_Ok) simp_all
    have "?m mod 256 mod 4 = 2" by (simp add: mod_mod_cancel, presburger)
    then have "DecodeUintCompact (le_fixed 4 ?m @ rest) = (Ok (int (?m div 4)), rest)"
      by (simp only: l append_Cons DecodeUintCompact_mode unat_byte_mod)
        (simp only: bindM_Ok [where m = "Decoder_Read 3", OF r] retM_apply take_all length_le_fixed order_refl v, simp)
    with 3 show ?thesis by (simp add: compact_bytes_def)
  next
    case 4
    let ?k = "length (le_bytes n)"
    have k67: "?k \<le> 67" by (rule length_le_bytes_le) (use assms in simp)
    have k4: "3 < ?k" by (rule length_le_bytes_gt) (use 4 in simp)
    have u: "unat (word_of_nat (4 * (?k - 4) + 3) :: byte) = 4 * (?k - 4) + 3"
      using k67 by (intro unat_word_of_nat_small) simp
    have "(4 * (?k - 4) + 3) mod 4 = 3" "(4 * (?k - 4) + 3) div 4 = ?k - 4" by simp_all
    moreover have r: "Decoder_Read (?k - 4 + 4) (le_bytes n @ rest) = (Ok (le_bytes n), rest)"
      using k4 by (intro Decoder_Read_Ok) auto
    ultimately have "DecodeUintCompact
        ((word_of_nat (4 * (?k - 4) + 3) :: byte) # le_bytes n @ rest) = (Ok (int n), rest)"
      by (simp only: DecodeUintCompact_mode u bindM_Ok [where m = "Decoder_Read (?k - 4 + 4)", OF r]) simp
    with 4 show ?thesis by (simp add: compact_bytes_def)
  qed
qed

lemma EncodeUintCompact_reject:
  assumes "v < 0 \<or> 2 ^ 536 \<le> v"
  shows "\<exists>e. EncodeUintCompact v = failM e"
proof (cases "v < 0")
  case True
  then show ?thesis by (auto simp: EncodeUintCompact_def)
next
  case False
  let ?k = "length (BigInt_Bytes v)"
  from False assms have v: "2 ^ 536 \<le> v" by simp
  then have "(256 :: nat) ^ 67 \<le> nat \<bar>v\<bar>" by (simp add: le_nat_iff)
  then have k: "67 < ?k" using length_BigInt_Bytes [of v 67] by linarith
  have nsmall: "\<not> (BigInt_IsUint64 v \<and> BigInt_Uint64 v < 2 ^ 30)"
    using v by (simp add: BigInt_IsUint64_def)
  have top: "63 < (word_of_int (int ?k - 4) :: uint8)" if "\<not> 255 < ?k"
  proof -
    have "int ?k - 4 = int (?k - 4)" using k by simp
    moreover have "unat (word_of_nat (?k - 4) :: uint8) = ?k - 4"
      using that by (intro unat_word_of_nat_small) simp
    ultimately show ?thesis using k by (simp only: of_int_of_nat_eq word_less_nat_alt) simp
  qed
  show ?thesis
    unfolding EncodeUintCompact_def
    using False nsmall top by (auto simp only: Let_def if_True if_False split: if_splits)
qed

lemma compact_bytes_length: "n < 2 ^ 536 \<Longrightarrow> 1 \<le> length (compact_bytes n) \<and> length (compact_bytes n) \<le> 68"
  using length_le_bytes_le [of n 67] by (simp add: compact_bytes_def)

lemma DecodeUintCompact_Nil [simp]: "DecodeUintCompact [] = (Err EOF, [])"
  by (simp add: DecodeUintCompact_def)

lemma Decoder_Read_cases:
  "Decoder_Read n s = (r, t) \<Longrightarrow>
     (\<exists>bs. r = Ok bs \<and> length bs = n \<and> s = bs @ t) \<or> (\<exists>e. r = Err e \<and> t = [])"
  by (auto simp: Decoder_Read_def Reader_Read_def split: if_splits)

lemma ReadOneByte_cases:
  "ReadOneByte s = (r, t) \<Longrightarrow> (\<exists>b. r = Ok b \<and> s = b # t) \<or> (r = Err EOF \<and> s = [] \<and> t = [])"
  by (cases s) auto

text \<open>Any outcome of the compact decoder: a value in range and a proper suffix, or an error.\<close>

lemma DecodeUintCompact_cases:
  assumes "DecodeUintCompact s = (r, t)"
  shows "(\<exists>v us. r = Ok v \<and> 0 \<le> v \<and> v < 2 ^ 536 \<and> s = us @ t \<and> us \<noteq> []) \<or> (\<exists>e. r = Err e \<and> t = [])"
proof (cases s)
  case Nil
  with assms show ?thesis by auto
next
  case (Cons b s')
  have b: "unat b div 4 < 64" using unat_byte_less [of b] by linarith
  consider (m0) "unat b mod 4 = 0" | (m1) "unat b mod 4 = 1" | (m2) "unat b mod 4 = 2"
    | (m3) "unat b mod 4 = 3" by linarith
  then show ?thesis
  proof cases
    case m0
    with assms Cons b show ?thesis by (auto simp: DecodeUintCompact_mode)
  next
    case m1
    have "unat bb * 64 + unat b div 4 < 2 ^ 536" for bb :: byte
    proof -
      have "unat bb < 256" by simp
      with b have "unat bb * 64 + unat b div 4 < 16384" by linarith
      then show ?thesis by simp
    qed
    then have "int (unat bb * 64 + unat b div 4) < 2 ^ 536" for bb :: byte
      by (metis of_nat_less_iff of_nat_numeral of_nat_power)
    with m1 assms Cons show ?thesis
      by (cases s') (auto simp del: of_nat_add simp: DecodeUintCompact_mode)
  next
    case m2
    obtain r' t' where d: "Decoder_Read 3 s' = (r', t')" by fastforce
    have "int (le_nat (b # buf) div 4) < 2 ^ 536" if "length buf = 3" for buf
    proof -
      have "le_nat (b # buf) < 256 ^ length (b # buf)" by (rule le_nat_bound)
      then have "le_nat (b # buf) div 4 < 2 ^ 536" using that by simp
      then show ?thesis by (metis of_nat_less_iff of_nat_numeral of_nat_power)
    qed
    with m2 assms Cons Decoder_Read_cases [OF d] show ?thesis
      by (auto simp del: le_nat.simps simp: DecodeUintCompact_mode d bindM_def)
  next
    case m3
    let ?k = "unat b div 4 + 4"
    obtain r' t' where d: "Decoder_Read ?k s' = (r', t')" by fastforce
    have "int (le_nat buf) < 2 ^ 536" if "length buf = ?k" for buf
    proof -
      have "le_nat buf < 256 ^ ?k" using le_nat_bound [of buf] that by simp
      also have "\<dots> \<le> 256 ^ 67" using b by (intro power_increasing) auto
      finally have "le_nat buf < 2 ^ 536" by simp
      then show ?thesis by (metis of_nat_less_iff of_nat_numeral of_nat_power)
    qed
    with m3 assms Cons Decoder_Read_cases [OF d] show ?thesis
      by (auto simp: DecodeUintCompact_mode d bindM_def)
  qed
qed

section \<open>Containers\<close>

context scale_codec
begin

lemma rt_each: "list_all valid xs \<Longrightarrow> rt (encode_each enc xs) (decode_each (length xs) dec) xs"
proof (induction xs)
  case Nil
  show ?case by (simp del: retM_apply add: rt_retM)
next
  case (Cons x xs)
  then have "rt (enc x) dec x" by (simp add: roundtrip)
  moreover have "rt (encode_each enc xs) (bindM (decode_each (length xs) dec) (\<lambda>ys. retM (x # ys))) (x # xs)"
    using Cons by (intro rt_last [where a = xs]) simp_all
  ultimately show ?case by (simp add: rt_seqM)
qed

lemma rt_slice:
  assumes "list_all valid xs" "length xs < 2 ^ 32"
  shows "rt (Encode_slice enc xs) (Decode_slice dec) xs"
proof -
  from rt_each [OF assms(1)] obtain bs where
    w: "writes (encode_each enc xs) bs" and r: "reads (decode_each (length xs) dec) bs xs"
    by (auto simp: rt_def)
  let ?n = "length xs"
  have n: "?n < 2 ^ 536" "?n < 2 ^ 64" using assms(2) by simp_all
  have "writes (Encode_slice enc xs) (compact_bytes ?n @ bs)"
    using assms(2) w writes_EncodeUintCompact [OF n(1)]
    by (simp add: Encode_slice_def Let_def writes_seqM)
  moreover have "reads (Decode_slice dec) (compact_bytes ?n @ bs) xs"
  proof (rule readsI)
    fix rest
    have u: "unat (BigInt_Uint64 (int ?n)) = ?n"
      using n by (intro trans [OF unat_BigInt_Uint64]) simp_all
    then have "\<not> 2 ^ 32 - 1 < BigInt_Uint64 (int ?n)" "\<not> 2 ^ 63 - 1 < BigInt_Uint64 (int ?n)"
      using assms(2) by (simp_all add: word_less_nat_alt)
    then show "Decode_slice dec ((compact_bytes ?n @ bs) @ rest) = (Ok xs, rest)"
      using readsD [OF reads_DecodeUintCompact [OF n(1)], of "bs @ rest"] readsD [OF r, of rest]
      by (simp add: Decode_slice_eq u)
  qed
  ultimately show ?thesis by (rule rtI)
qed

lemma rt_option:
  assumes "h \<Longrightarrow> valid v" "\<not> h \<Longrightarrow> v = z"
  shows "rt (EncodeOption enc h v) (DecodeOption dec z) (h, v)"
proof (cases h)
  case True
  with assms obtain bs where "writes (enc v) bs" "reads dec bs v"
    using roundtrip [of v] by (auto simp: rt_def)
  with True show ?thesis
    by (intro rtI [of _ "1 # bs"] writesI readsI)
      (simp_all add: EncodeOption_def DecodeOption_def PushByte_def writes_def reads_def)
next
  case False
  with assms show ?thesis
    by (intro rtI [of _ "[0]"] writesI readsI)
      (simp_all add: EncodeOption_def DecodeOption_def PushByte_def)
qed

end

text \<open>
  The same facts as contracts: a container of codecs is a codec. These are the rules the
  interpretations of the composite types are built with.
\<close>

lemma scale_codec_array:
  "scale_codec e d P \<Longrightarrow> scale_codec (encode_each e) (decode_each n d) (\<lambda>xs. length xs = n \<and> list_all P xs)"
  by (unfold_locales) (auto intro: scale_codec.rt_each)

lemma scale_codec_slice:
  "scale_codec e d P \<Longrightarrow>
     scale_codec (Encode_slice e) (Decode_slice d) (\<lambda>xs. length xs < 2 ^ 32 \<and> list_all P xs)"
  by (unfold_locales) (auto intro: scale_codec.rt_slice)

lemma scale_codec_option:
  "scale_codec e d P \<Longrightarrow>
     scale_codec (\<lambda>(h, v). EncodeOption e h v) (DecodeOption d z) (\<lambda>(h, v). if h then P v else v = z)"
  by (unfold_locales) (auto intro!: scale_codec.rt_option split: if_splits)

interpretation compact: scale_codec EncodeUintCompact DecodeUintCompact "\<lambda>v. 0 \<le> v \<and> v < 2 ^ 536"
proof
  fix v :: int
  assume v: "0 \<le> v \<and> v < 2 ^ 536"
  then have n: "nat v < 2 ^ 536" "int (nat v) = v" by (simp_all add: nat_less_iff)
  show "rt (EncodeUintCompact v) DecodeUintCompact v"
    using rtI [OF writes_EncodeUintCompact [OF n(1)] reads_DecodeUintCompact [OF n(1)]]
    by (simp only: n(2))
qed

end
