(* ===== verification/ScaleReflect.thy ===== *)
theory ScaleReflect
  imports ScaleCodec
begin

text \<open>
  The reflective half of \<open>src/scale/codec.go\<close>: \<open>Encoder.Encode\<close> and
  \<open>Decoder.DecodeIntoReflectValue\<close>, which walk a Go value, respectively a Go type, by
  \<open>reflect.Kind\<close>. Types that implement \<open>Encodeable\<close> or \<open>Decodeable\<close> are dispatched to their
  methods, which are the parameters \<open>enc_impl\<close> and \<open>dec_impl\<close> here. Decoding fills a fresh,
  zero-initialised target, as every caller in the module does.
\<close>

section \<open>Values and types as reflection sees them\<close>

text \<open>Kinds with a fixed binary size, kinds whose size depends on the platform, and the rest.\<close>

datatype num_kind =
    Bool | Int8 | Uint8 | Int16 | Int32 | Int64 | Uint16 | Uint32 | Uint64 | Float32 | Float64

datatype plat_kind = PInt | PUint | PUintptr

datatype other_kind =
    Complex64 | Complex128 | Chan | Func | Interface | MapKind | UnsafePointer | Invalid

datatype gotype =
    TNum num_kind
  | TPlat plat_kind
  | TPtr gotype
  | TArray nat gotype
  | TSlice gotype
  | TString
  | TStruct "(bool \<times> gotype) list"  \<comment> \<open>per field: tagged \<open>scale:"-"\<close>, and its type\<close>
  | TOther other_kind
  | TImpl string  \<comment> \<open>a type with its own \<open>Encode\<close> and \<open>Decode\<close> methods\<close>

datatype goval =
    VNum num_kind nat  \<comment> \<open>the bit pattern\<close>
  | VPlat plat_kind nat
  | VNil gotype  \<comment> \<open>a nil pointer to the type\<close>
  | VPtr goval
  | VArray "goval list"
  | VSlice "goval list"
  | VString bytes
  | VStruct "(bool \<times> goval) list"
  | VOther other_kind
  | VImpl string goval

fun num_size :: "num_kind \<Rightarrow> nat" where
  "num_size Bool = 1"
| "num_size Int8 = 1"
| "num_size Uint8 = 1"
| "num_size Int16 = 2"
| "num_size Uint16 = 2"
| "num_size Int32 = 4"
| "num_size Uint32 = 4"
| "num_size Float32 = 4"
| "num_size Int64 = 8"
| "num_size Uint64 = 8"
| "num_size Float64 = 8"

section \<open>Encode\<close>

lemma encode_each_cong [fundef_cong]:
  "xs = ys \<Longrightarrow> (\<And>x. x \<in> set ys \<Longrightarrow> e x = e' x) \<Longrightarrow> encode_each e xs = encode_each e' ys"
  by (induction xs arbitrary: ys) auto

lemma Encode_slice_cong [fundef_cong]:
  assumes "xs = ys" and "\<And>x. x \<in> set ys \<Longrightarrow> e x = e' x"
  shows "Encode_slice e xs = Encode_slice e' ys"
  using encode_each_cong [OF assms] assms(1) by (simp add: Encode_slice_def Let_def)

definition struct_enc_err :: "goerror \<Rightarrow> goerror" where
  "struct_enc_err e = ErrorString
     (''type does not support Encodeable interface and could not be encoded field by field, error: '' @ error_text e)"

definition struct_dec_err :: "goerror \<Rightarrow> goerror" where
  "struct_dec_err e = ErrorString
     (''type does not support Decodeable interface and could not be decoded field by field, error: '' @ error_text e)"

text \<open>\<open>binary.Write\<close> of one byte, the element encoder of a \<open>[]byte\<close>.\<close>

definition Encode_byte :: "byte \<Rightarrow> (bytes, unit) goM" where
  "Encode_byte b = binary_Write 1 (unat b)"

function Encode :: "(string \<Rightarrow> goval \<Rightarrow> (bytes, unit) goM) \<Rightarrow> goval \<Rightarrow> (bytes, unit) goM" where
  "Encode enc_impl (VImpl nm x) = enc_impl nm x"
| "Encode enc_impl (VNum k n) = binary_Write (num_size k) n"
| "Encode enc_impl (VPlat k n) = failM (ErrorString ''binary.Write: some values are not fixed-sized'')"
| "Encode enc_impl (VNil t) =
     (case t of
        TImpl nm \<Rightarrow> panicM ''value method called using nil pointer''
      | _ \<Rightarrow> failM (ErrorString ''Encoding null pointers not supported; consider using Option type''))"
| "Encode enc_impl (VPtr v) = Encode enc_impl v"
| "Encode enc_impl (VArray vs) = encode_each (Encode enc_impl) vs"
| "Encode enc_impl (VSlice vs) = Encode_slice (Encode enc_impl) vs"
| "Encode enc_impl (VString bs) = Encode_slice Encode_byte bs"
| "Encode enc_impl (VStruct fs) =
     encode_each (\<lambda>p. if fst p then retM () else wrapM struct_enc_err (Encode enc_impl (snd p))) fs"
| "Encode enc_impl (VOther k) = failM (ErrorString ''Type cannot be encoded'')"
  by pat_completeness auto
termination
  by (relation "measure (\<lambda>(_, v). size v)")
    (auto simp: less_Suc_eq_le intro!: size_list_estimation' trans_le_add1
       order.trans [OF _ size_list_estimation'] split: prod.splits)

section \<open>DecodeIntoReflectValue\<close>

fun zero_of :: "gotype \<Rightarrow> goval" and zero_fields :: "(bool \<times> gotype) list \<Rightarrow> (bool \<times> goval) list" where
  "zero_of (TNum k) = VNum k 0"
| "zero_of (TPlat k) = VPlat k 0"
| "zero_of (TPtr t) = VNil t"
| "zero_of (TArray n t) = VArray (replicate n (zero_of t))"
| "zero_of (TSlice t) = VSlice []"
| "zero_of TString = VString []"
| "zero_of (TStruct fs) = VStruct (zero_fields fs)"
| "zero_of (TOther k) = VOther k"
| "zero_of (TImpl nm) = VImpl nm (VStruct [])"
| "zero_fields [] = []"
| "zero_fields ((skip, t) # fs) = (skip, zero_of t) # zero_fields fs"

text \<open>\<open>binary.Read\<close> of a fixed-size kind; \<open>io.EOF\<close> is replaced, a bool is any non-zero byte.\<close>

definition Decode_num :: "num_kind \<Rightarrow> (bytes, nat) goM" where
  "Decode_num k =
     bindM
       (wrapM (\<lambda>e. if e = EOF then ErrorString ''expected more bytes, but could not decode any more'' else e)
         (binary_Read (num_size k)))
       (\<lambda>n. retM (if k = Bool \<and> n \<noteq> 0 then 1 else n))"

definition Decode_byte :: "(bytes, byte) goM" where
  "Decode_byte = bindM (Decode_num Uint8) (\<lambda>n. retM (word_of_nat n))"

fun DecodeInto :: "(string \<Rightarrow> (bytes, goval) goM) \<Rightarrow> gotype \<Rightarrow> (bytes, goval) goM"
  and DecodeInto_fields ::
    "(string \<Rightarrow> (bytes, goval) goM) \<Rightarrow> (bool \<times> gotype) list \<Rightarrow> (bytes, (bool \<times> goval) list) goM" where
  "DecodeInto dec_impl (TImpl nm) = dec_impl nm"
| "DecodeInto dec_impl (TNum k) = bindM (Decode_num k) (\<lambda>n. retM (VNum k n))"
| "DecodeInto dec_impl (TPlat k) = failM (ErrorString ''binary.Read: invalid type'')"
| "DecodeInto dec_impl (TPtr t) = panicM ''reflect: call of reflect.Value.Type on zero Value''"
| "DecodeInto dec_impl (TArray n t) = bindM (decode_each n (DecodeInto dec_impl t)) (\<lambda>vs. retM (VArray vs))"
| "DecodeInto dec_impl (TSlice t) = bindM (Decode_slice (DecodeInto dec_impl t)) (\<lambda>vs. retM (VSlice vs))"
| "DecodeInto dec_impl TString = bindM (Decode_slice Decode_byte) (\<lambda>bs. retM (VString bs))"
| "DecodeInto dec_impl (TStruct fs) = bindM (DecodeInto_fields dec_impl fs) (\<lambda>vs. retM (VStruct vs))"
| "DecodeInto dec_impl (TOther k) = failM (ErrorString ''Type cannot be decoded'')"
| "DecodeInto_fields dec_impl [] = retM []"
| "DecodeInto_fields dec_impl ((skip, t) # fs) =
     bindM (if skip then retM (zero_of t) else wrapM struct_dec_err (DecodeInto dec_impl t)) (\<lambda>v.
     bindM (DecodeInto_fields dec_impl fs) (\<lambda>vs. retM ((skip, v) # vs)))"

section \<open>Types of values, and the round trip\<close>

text \<open>
  \<open>typed valid t v\<close>: the value \<open>v\<close> is a value of the Go type \<open>t\<close> that can travel: no pointers,
  no platform-sized integers, collection lengths within 32 bits, skipped fields at their
  zero value, and values of implementing types within the domain \<open>valid\<close> of their codec.
\<close>

fun typed :: "(string \<Rightarrow> goval \<Rightarrow> bool) \<Rightarrow> gotype \<Rightarrow> goval \<Rightarrow> bool"
  and typed_fields ::
    "(string \<Rightarrow> goval \<Rightarrow> bool) \<Rightarrow> (bool \<times> gotype) list \<Rightarrow> (bool \<times> goval) list \<Rightarrow> bool" where
  "typed valid (TNum k) (VNum k' n) \<longleftrightarrow> k' = k \<and> n < 256 ^ num_size k \<and> (k = Bool \<longrightarrow> n \<le> 1)"
| "typed valid (TArray n t) (VArray vs) \<longleftrightarrow> length vs = n \<and> list_all (typed valid t) vs"
| "typed valid (TSlice t) (VSlice vs) \<longleftrightarrow> length vs < 2 ^ 32 \<and> list_all (typed valid t) vs"
| "typed valid TString (VString bs) \<longleftrightarrow> length bs < 2 ^ 32"
| "typed valid (TStruct fs) (VStruct vs) \<longleftrightarrow> typed_fields valid fs vs"
| "typed valid (TImpl nm) (VImpl nm' x) \<longleftrightarrow> nm' = nm \<and> valid nm x"
| "typed valid _ _ \<longleftrightarrow> False"
| "typed_fields valid [] [] \<longleftrightarrow> True"
| "typed_fields valid ((skip, t) # fs) ((skip', v) # vs) \<longleftrightarrow>
     skip' = skip \<and> (if skip then v = zero_of t else typed valid t v) \<and> typed_fields valid fs vs"
| "typed_fields valid _ _ \<longleftrightarrow> False"

lemma rt_num:
  "n < 256 ^ num_size k \<Longrightarrow> (k = Bool \<Longrightarrow> n \<le> 1) \<Longrightarrow> rt (binary_Write (num_size k) n) (Decode_num k) n"
  unfolding Decode_num_def
  by (rule rt_last, rule rtI [OF writes_binary_Write reads_wrapM [OF reads_binary_Read]]) auto

interpretation byte: scale_codec Encode_byte Decode_byte "\<lambda>_. True"
proof
  fix b :: byte
  have "rt (binary_Write (num_size Uint8) (unat b)) (Decode_num Uint8) (unat b)"
    by (rule rt_num) simp_all
  then show "rt (Encode_byte b) Decode_byte b"
    unfolding Encode_byte_def Decode_byte_def by (intro rt_last [where a = "unat b"]) simp_all
qed

interpretation byte_slice: scale_codec "Encode_slice Encode_byte" "Decode_slice Decode_byte"
  "\<lambda>bs. length bs < 2 ^ 32 \<and> list_all (\<lambda>_. True) bs"
  by (rule scale_codec_slice) (rule byte.scale_codec_axioms)

text \<open>The contract of a pair of method tables: every implementing type is a codec.\<close>

locale encodeable_impls =
  fixes enc_impl :: "string \<Rightarrow> goval \<Rightarrow> (bytes, unit) goM"
    and dec_impl :: "string \<Rightarrow> (bytes, goval) goM"
    and valid :: "string \<Rightarrow> goval \<Rightarrow> bool"
  assumes impl_roundtrip: "valid nm x \<Longrightarrow> rt (enc_impl nm x) (dec_impl nm) (VImpl nm x)"
begin

lemma rt_reflect:
  "V \<le> valid \<Longrightarrow> typed V t v \<Longrightarrow> rt (Encode enc_impl v) (DecodeInto dec_impl t) v"
  "V \<le> valid \<Longrightarrow> typed_fields V fs vs \<Longrightarrow>
     rt (encode_each (\<lambda>p. if fst p then retM () else wrapM struct_enc_err (Encode enc_impl (snd p))) vs)
        (DecodeInto_fields dec_impl fs) vs"
proof (induction V t v and V fs vs rule: typed_typed_fields.induct)
  case (1 V k k' n)
  then have "rt (binary_Write (num_size k) n) (Decode_num k) n" by (intro rt_num) auto
  with 1 show ?case by (auto intro: rt_last)
next
  case (2 V n t vs)
  then have "scale_codec (Encode enc_impl) (DecodeInto dec_impl t) (\<lambda>v. v \<in> set vs)"
    by unfold_locales (auto simp: list_all_iff)
  from scale_codec.rt_each [OF this, of vs] 2 show ?case
    by (auto simp: list_all_iff intro: rt_last)
next
  case (3 V t vs)
  then have "scale_codec (Encode enc_impl) (DecodeInto dec_impl t) (\<lambda>v. v \<in> set vs)"
    by unfold_locales (auto simp: list_all_iff)
  from scale_codec.rt_slice [OF this, of vs] 3 show ?case
    by (auto simp: list_all_iff intro: rt_last)
next
  case (4 V bs)
  then show ?case using byte.rt_slice [of bs] by (auto simp: list_all_iff intro: rt_last)
next
  case (6 V nm nm' x)
  then show ?case by (auto simp: le_fun_def intro: impl_roundtrip)
next
  case (8 V)
  show ?case by (simp del: retM_apply add: rt_retM)
next
  case (9 V skip t fs skip' v vs)
  let ?e = "if skip then retM () else wrapM struct_enc_err (Encode enc_impl v)"
  let ?d = "if skip then retM (zero_of t) else wrapM struct_dec_err (DecodeInto dec_impl t)"
  have "rt ?e ?d v" using 9 by (auto simp del: retM_apply intro: rt_retM rt_wrapM)
  moreover have "rt (encode_each (\<lambda>p. if fst p then retM () else wrapM struct_enc_err (Encode enc_impl (snd p))) vs)
      (bindM (DecodeInto_fields dec_impl fs) (\<lambda>ws. retM ((skip, v) # ws))) ((skip, v) # vs)"
    using 9 by (intro rt_last [where a = vs]) simp_all
  ultimately have "rt (seqM ?e (encode_each (\<lambda>p. if fst p then retM () else wrapM struct_enc_err (Encode enc_impl (snd p))) vs))
      (bindM ?d (\<lambda>v. bindM (DecodeInto_fields dec_impl fs) (\<lambda>ws. retM ((skip, v) # ws)))) ((skip, v) # vs)"
    by (rule rt_seqM)
  moreover have "skip' = skip" using 9 by simp
  ultimately show ?case
    by (simp only: encode_each.simps DecodeInto_fields.simps fst_conv snd_conv)
qed (auto intro: rt_last)

end

section \<open>scale.OptionBool and ToKeyedVec\<close>

record OptionBool =
  hasValue :: bool
  bvalue :: bool

definition NewOptionBoolEmpty :: OptionBool where
  "NewOptionBoolEmpty = \<lparr>hasValue = False, bvalue = False\<rparr>"

definition NewOptionBool :: "bool \<Rightarrow> OptionBool" where
  "NewOptionBool v = \<lparr>hasValue = True, bvalue = v\<rparr>"

definition OptionBool_Encode :: "OptionBool \<Rightarrow> (bytes, unit) goM" where
  "OptionBool_Encode ob =
     (if \<not> hasValue ob then PushByte 0 else if bvalue ob then PushByte 1 else PushByte 2)"

definition OptionBool_Decode :: "(bytes, OptionBool) goM" where
  "OptionBool_Decode =
     bindM ReadOneByte_ignoring (\<lambda>b.
       if b = 0 then retM \<lparr>hasValue = False, bvalue = False\<rparr>
       else if b = 1 then retM \<lparr>hasValue = True, bvalue = True\<rparr>
       else if b = 2 then retM \<lparr>hasValue = True, bvalue = False\<rparr>
       else failM (ErrorString (''Unknown byte prefix for encoded OptionBool: '' @ string_of_nat (unat b))))"

definition ToKeyedVec ::
    "(string \<Rightarrow> goval \<Rightarrow> (bytes, unit) goM) \<Rightarrow> goval \<Rightarrow> bytes \<Rightarrow> bytes res" where
  "ToKeyedVec enc_impl v prependKey =
     (case Encode enc_impl v prependKey of
        (Ok _, buf) \<Rightarrow> Ok buf
      | (Err e, _) \<Rightarrow> Err e
      | (Panic p, _) \<Rightarrow> Panic p
      | (OutOfFuel, _) \<Rightarrow> OutOfFuel)"

text \<open>An absent \<open>OptionBool\<close> has the value false: the invariant of the two constructors.\<close>

interpretation option_bool: scale_codec OptionBool_Encode OptionBool_Decode "\<lambda>ob. hasValue ob \<or> \<not> bvalue ob"
proof
  fix ob :: OptionBool
  assume "hasValue ob \<or> \<not> bvalue ob"
  then show "rt (OptionBool_Encode ob) OptionBool_Decode ob"
    by (cases ob; intro rtI [of _ "[if \<not> hasValue ob then 0 else if bvalue ob then 1 else 2]"])
      (auto simp: OptionBool_Encode_def OptionBool_Decode_def PushByte_def writes_def reads_def)
qed

text \<open>The method tables of the package: \<open>OptionBool\<close> is its one implementing type.\<close>

definition scale_bool :: "bool \<Rightarrow> goval" where
  "scale_bool b = VNum Bool (if b then 1 else 0)"

definition option_bool_val :: "OptionBool \<Rightarrow> goval" where
  "option_bool_val ob = VStruct [(False, scale_bool (hasValue ob)), (False, scale_bool (bvalue ob))]"

fun val_option_bool :: "goval \<Rightarrow> OptionBool" where
  "val_option_bool (VStruct [(_, VNum Bool h), (_, VNum Bool v)]) = \<lparr>hasValue = h \<noteq> 0, bvalue = v \<noteq> 0\<rparr>"
| "val_option_bool _ = NewOptionBoolEmpty"

definition scale_enc_impl :: "string \<Rightarrow> goval \<Rightarrow> (bytes, unit) goM" where
  "scale_enc_impl nm x = OptionBool_Encode (val_option_bool x)"

definition scale_dec_impl :: "string \<Rightarrow> (bytes, goval) goM" where
  "scale_dec_impl nm = bindM OptionBool_Decode (\<lambda>ob. retM (VImpl nm (option_bool_val ob)))"

definition scale_valid :: "string \<Rightarrow> goval \<Rightarrow> bool" where
  "scale_valid nm x \<longleftrightarrow>
     x \<in> {option_bool_val NewOptionBoolEmpty, option_bool_val (NewOptionBool True), option_bool_val (NewOptionBool False)}"

lemma val_option_bool_inverse [simp]: "val_option_bool (option_bool_val ob) = ob"
  by (cases ob) (simp add: option_bool_val_def scale_bool_def)

interpretation scale_impls: encodeable_impls scale_enc_impl scale_dec_impl scale_valid
proof
  fix nm x
  assume "scale_valid nm x"
  then obtain ob where x: "x = option_bool_val ob" and ok: "hasValue ob \<or> \<not> bvalue ob"
    by (auto simp: scale_valid_def NewOptionBool_def NewOptionBoolEmpty_def)
  have "rt (OptionBool_Encode ob) OptionBool_Decode ob" by (rule option_bool.roundtrip [OF ok])
  then show "rt (scale_enc_impl nm x) (scale_dec_impl nm) (VImpl nm x)"
    unfolding scale_enc_impl_def scale_dec_impl_def x val_option_bool_inverse
    by (rule rt_last) simp
qed

section \<open>Properties of the codec\<close>

text \<open>
  C20: the reflective codec round-trips. Whatever the implementing types are, as long as each
  of them keeps the codec contract, encoding a value of any encodable Go type succeeds and
  decoding at that type gives the value back and leaves what follows untouched.
\<close>

theorem reflect_roundtrip:
  assumes "encodeable_impls enc_impl dec_impl valid" and "typed valid t v"
  shows "\<exists>bs. (\<forall>buf. Encode enc_impl v buf = (Ok (), buf @ bs)) \<and>
              (\<forall>rest. DecodeInto dec_impl t (bs @ rest) = (Ok v, rest))"
  using encodeable_impls.rt_reflect(1) [OF assms(1) order_refl assms(2)]
  by (simp add: rt_def writes_def reads_def)

theorem reflect_roundtrip_witness:
  "\<exists>bs. (\<forall>buf. Encode scale_enc_impl
      (VStruct [(False, VSlice [VNum Uint16 513, VNum Uint16 7]), (False, VImpl ''OptionBool'' (option_bool_val (NewOptionBool True)))]) buf
        = (Ok (), buf @ bs)) \<and>
     (\<forall>rest. DecodeInto scale_dec_impl
      (TStruct [(False, TSlice (TNum Uint16)), (False, TImpl ''OptionBool'')]) (bs @ rest)
        = (Ok (VStruct [(False, VSlice [VNum Uint16 513, VNum Uint16 7]), (False, VImpl ''OptionBool'' (option_bool_val (NewOptionBool True)))]), rest))"
  by (rule reflect_roundtrip [OF scale_impls.encodeable_impls_axioms])
    (simp add: scale_valid_def)

text \<open>
  C25: the compact encoding of every integer from 0 to 2^536 - 1 is accepted and decoded to the
  same integer, whatever the buffer already holds and whatever follows, in 1 to 68 bytes.
\<close>

theorem compact_roundtrip:
  assumes "0 \<le> v" and "v < 2 ^ 536"
  shows "\<exists>bs. 1 \<le> length bs \<and> length bs \<le> 68 \<and>
     (\<forall>buf. EncodeUintCompact v buf = (Ok (), buf @ bs)) \<and>
     (\<forall>rest. DecodeUintCompact (bs @ rest) = (Ok v, rest))"
proof -
  let ?n = "nat v"
  from assms have n: "?n < 2 ^ 536" "int ?n = v" by (simp_all add: nat_less_iff)
  from writes_EncodeUintCompact [OF n(1)] reads_DecodeUintCompact [OF n(1)] compact_bytes_length [OF n(1)]
  show ?thesis unfolding n(2) writes_def reads_def by blast
qed

theorem compact_roundtrip_witness:
  "\<exists>bs. 1 \<le> length bs \<and> length bs \<le> 68 \<and>
     (\<forall>buf. EncodeUintCompact 100000000000000 buf = (Ok (), buf @ bs)) \<and>
     (\<forall>rest. DecodeUintCompact (bs @ rest) = (Ok 100000000000000, rest))"
  by (rule compact_roundtrip) simp_all

text \<open>
  the compact encoder refuses exactly the integers it cannot represent, negative ones and
  those of more than 536 bits, and a refusal writes nothing.
\<close>

theorem compact_encode_error_iff:
  "(\<exists>e. EncodeUintCompact v buf = (Err e, buf)) \<longleftrightarrow> v < 0 \<or> 2 ^ 536 \<le> v"
proof
  assume "\<exists>e. EncodeUintCompact v buf = (Err e, buf)"
  moreover have "\<exists>bs. EncodeUintCompact v buf = (Ok (), buf @ bs)" if "0 \<le> v" "v < 2 ^ 536"
    using compact.encode_total [of v buf] that by simp
  ultimately show "v < 0 \<or> 2 ^ 536 \<le> v" by (metis Pair_inject linorder_not_le res.distinct(1))
next
  assume "v < 0 \<or> 2 ^ 536 \<le> v"
  then show "\<exists>e. EncodeUintCompact v buf = (Err e, buf)"
    using EncodeUintCompact_reject [of v] by auto
qed

text \<open>
  on any input the compact decoder returns a value below 2^536 and has consumed at least
  one byte, or reports an error; it never panics.
\<close>

theorem compact_decode_total:
  "(\<exists>v us t. DecodeUintCompact s = (Ok v, t) \<and> 0 \<le> v \<and> v < 2 ^ 536 \<and> s = us @ t \<and> us \<noteq> []) \<or>
   (\<exists>e. DecodeUintCompact s = (Err e, []))"
  using DecodeUintCompact_cases [of s "fst (DecodeUintCompact s)" "snd (DecodeUintCompact s)"]
  by (metis prod.collapse)

text \<open>
  The header of a slice: its first byte says how many bytes of the input hold the length, and these
  bytes hold it.
\<close>

definition header_size :: "byte \<Rightarrow> nat" where
  "header_size b = (if unat b mod 4 = 0 then 1 else if unat b mod 4 = 1 then 2 else if unat b mod 4 = 2 then 4 else unat b div 4 + 5)"

definition header_value :: "bytes \<Rightarrow> nat" where
  "header_value h = (if unat (hd h) mod 4 < 3 then le_nat h div 4 else le_nat (tl h))"

definition header_complete :: "bytes \<Rightarrow> bool" where
  "header_complete s \<longleftrightarrow> s \<noteq> [] \<and> header_size (hd s) \<le> length s"

lemma Decoder_Read_eq: "0 < n \<Longrightarrow> n \<le> length s \<Longrightarrow> Decoder_Read n s = (Ok (take n s), drop n s)"
  using Decoder_Read_Ok [of "take n s" n "drop n s"] by simp

lemma Decoder_Read_short: "length s < n \<Longrightarrow> \<exists>e. Decoder_Read n s = (Err e, [])"
  using Decoder_Read_cases [OF surjective_pairing, of n s] by (cases "Decoder_Read n s") auto

lemma DecodeUintCompact_outcome:
  "if header_complete s
   then DecodeUintCompact s = (Ok (int (header_value (take (header_size (hd s)) s))), drop (header_size (hd s)) s)
   else \<exists>e. DecodeUintCompact s = (Err e, [])"
proof (cases s)
  case Nil
  then show ?thesis by (simp add: header_complete_def)
next
  case (Cons b t)
  consider (m0) "unat b mod 4 = 0" | (m1) "unat b mod 4 = 1" | (m2) "unat b mod 4 = 2" | (m3) "unat b mod 4 = 3" by linarith
  then show ?thesis
  proof cases
    case m0
    then show ?thesis unfolding Cons by (simp add: header_complete_def header_size_def header_value_def DecodeUintCompact_mode)
  next
    case m1
    have "(unat b + 256 * unat bb) div 4 = unat bb * 64 + unat b div 4" for bb :: byte by simp
    then show ?thesis unfolding Cons
      by (cases t) (simp_all add: m1 header_complete_def header_size_def header_value_def DecodeUintCompact_mode bindM_def)
  next
    case m2
    then show ?thesis unfolding Cons using Decoder_Read_eq [of 3 t] Decoder_Read_short [of t 3]
      by (cases "3 \<le> length t") (auto simp: header_complete_def header_size_def header_value_def DecodeUintCompact_mode bindM_def)
  next
    case m3
    obtain n where n: "unat b div 4 + 4 = n" "0 < n" by simp
    then have size: "header_size b = Suc n" using m3 by (simp add: header_size_def)
    show ?thesis unfolding Cons using m3 n(2) Decoder_Read_eq [of n t] Decoder_Read_short [of t n]
      by (cases "n \<le> length t") (auto simp: header_complete_def size header_value_def DecodeUintCompact_mode bindM_def n(1))
  qed
qed

lemma decode_each_byte:
  "decode_each n Decode_byte s = (if n \<le> length s then (Ok (take n s), drop n s) else (Err (ErrorString ''expected more bytes, but could not decode any more''), []))"
proof (induction n arbitrary: s)
  case (Suc n)
  show ?case
  proof (cases s)
    case Nil
    then show ?thesis by (simp add: Decode_byte_def Decode_num_def binary_Read_def wrapM_def bindM_def)
  next
    case (Cons b t)
    then have "Decode_byte s = (Ok b, t)" by (simp add: Decode_byte_def Decode_num_def binary_Read_def wrapM_def bindM_def)
    then show ?thesis using Cons by (simp add: Suc.IH bindM_def)
  qed
qed simp

lemma Decode_slice_outcome:
  "Decode_slice d s =
     (if \<not> header_complete s then (Panic ''invalid memory address or nil pointer dereference'', [])
      else let n = header_value (take (header_size (hd s)) s) mod 2 ^ 64; rest = drop (header_size (hd s)) s in
        if 2 ^ 32 \<le> n then (Err (ErrorString ''Encoded array length is higher than allowed by the protocol (32-bit unsigned integer)''), rest)
        else decode_each n d rest)"
proof -
  have n: "unat (BigInt_Uint64 (int v)) = v mod 2 ^ 64" for v
    by (simp add: BigInt_Uint64_def unat_of_nat)
  have large: "BigInt_Uint64 (int v) > 2 ^ 32 - 1 \<longleftrightarrow> 2 ^ 32 \<le> v mod 2 ^ 64" for v
    using n [of v] by (simp add: word_less_nat_alt Suc_le_eq [symmetric])
  have fits: "\<not> BigInt_Uint64 (int v) > 2 ^ 63 - 1" if "\<not> 2 ^ 32 \<le> v mod 2 ^ 64" for v
    using n [of v] that by (simp add: word_less_nat_alt)
  show ?thesis
  proof (cases "header_complete s")
    case True
    then have "DecodeUintCompact s = (Ok (int (header_value (take (header_size (hd s)) s))), drop (header_size (hd s)) s)"
      using DecodeUintCompact_outcome [of s] by simp
    then show ?thesis using True fits
      by (simp only: Decode_slice_eq Let_def large n prod.case res.case if_False not_True_eq_False) presburger
  next
    case False
    then show ?thesis using DecodeUintCompact_outcome [of s] by (auto simp: Decode_slice_eq)
  qed
qed

text \<open>
  C26: What decoding a slice or a string does, for every input. The first byte says how long the header
  with the length is. If the input is empty or ends inside the header, the decoder panics, because the
  error is dropped and the nil pointer that comes with it is used, and the input is used up. Otherwise the
  length is the header's value, of which only the low 64 bits count. From 2^32 on it is refused; below, as many
  elements are decoded. A string takes exactly that many bytes, or fails when the input has fewer.\<close>

theorem slice_decode_outcome:
  "DecodeInto dec_impl (TSlice ty) s =
     (if \<not> header_complete s then (Panic ''invalid memory address or nil pointer dereference'', [])
      else let n = header_value (take (header_size (hd s)) s) mod 2 ^ 64; rest = drop (header_size (hd s)) s in
        if 2 ^ 32 \<le> n then (Err (ErrorString ''Encoded array length is higher than allowed by the protocol (32-bit unsigned integer)''), rest)
        else bindM (decode_each n (DecodeInto dec_impl ty)) (\<lambda>vs. retM (VSlice vs)) rest) \<and>
   DecodeInto dec_impl TString s =
     (if \<not> header_complete s then (Panic ''invalid memory address or nil pointer dereference'', [])
      else let n = header_value (take (header_size (hd s)) s) mod 2 ^ 64; rest = drop (header_size (hd s)) s in
        if 2 ^ 32 \<le> n then (Err (ErrorString ''Encoded array length is higher than allowed by the protocol (32-bit unsigned integer)''), rest)
        else if length rest < n then (Err (ErrorString ''expected more bytes, but could not decode any more''), [])
        else (Ok (VString (take n rest)), drop n rest))"
  by (auto simp: bindM_def Decode_slice_outcome decode_each_byte Let_def)

end
