(* ===== verification/BigInts.thy ===== *)
theory BigInts
  imports ScaleReflect
begin

text \<open>
  The integer types of \<open>src/types/int.go\<close>, \<open>src/types/uint.go\<close> and \<open>src/types/ucompact.go\<close>:
  machine words of 8 to 64 bits through the reflective number case, 128- and 256-bit
  integers as two's-complement or unsigned little-endian bytes, and compact integers.
\<close>

section \<open>Machine-word integers\<close>

text \<open>A value of a fixed-size integer kind, as the reflective codec treats it.\<close>

definition Encode_word :: "num_kind \<Rightarrow> 'a::len word \<Rightarrow> (bytes, unit) goM" where
  "Encode_word k w = binary_Write (num_size k) (unat w)"

definition Decode_word :: "num_kind \<Rightarrow> (bytes, 'a::len word) goM" where
  "Decode_word k = bindM (Decode_num k) (\<lambda>n. retM (word_of_nat n))"

definition Encode_bool :: "bool \<Rightarrow> (bytes, unit) goM" where
  "Encode_bool b = binary_Write (num_size Bool) (if b then 1 else 0)"

definition Decode_bool :: "(bytes, bool) goM" where
  "Decode_bool = bindM (Decode_num Bool) (\<lambda>n. retM (n \<noteq> 0))"

section \<open>128- and 256-bit integers\<close>

text \<open>\<open>copy(res[len(res)-len(bs):], bs)\<close> into \<open>n\<close> zero bytes; a negative index panics.\<close>

definition copy_right :: "nat \<Rightarrow> bytes \<Rightarrow> bytes res" where
  "copy_right n bs =
     (if length bs > n then Panic ''slice bounds out of range'' else Ok (replicate (n - length bs) 0 @ bs))"

definition BigIntToIntBytes :: "int \<Rightarrow> nat \<Rightarrow> bytes res" where
  "BigIntToIntBytes i bytelen =
     (let maxNeg = 2 ^ (bytelen * 8 - 1); maxPos = maxNeg - 1 in
      if i \<ge> 0 then
        (if \<bar>i\<bar> > maxPos then
           Err (ErrorString ''cannot encode big.Int to []byte: given big.Int exceeds highest positive number'')
         else copy_right bytelen (BigInt_Bytes i))
      else if \<bar>i\<bar> > maxNeg then
        Err (ErrorString ''cannot encode big.Int to []byte: given big.Int exceeds highest negative number'')
      else
        (case copy_right bytelen (BigInt_Bytes (i + 1)) of
           Ok r \<Rightarrow> Ok (map NOT r) | e \<Rightarrow> e))"

definition IntBytesToBigInt :: "bytes \<Rightarrow> int res" where
  "IntBytesToBigInt b =
     (if length b = 0 then Err (ErrorString ''cannot decode an empty byte slice'')
      else if (b ! 0) AND 0x80 = 0 then Ok (BigInt_SetBytes b)
      else Ok (- (BigInt_SetBytes (map NOT b) + 1)))"

definition BigIntToUintBytes :: "int \<Rightarrow> nat \<Rightarrow> bytes res" where
  "BigIntToUintBytes i bytelen =
     (if i < 0 then Err (ErrorString ''cannot encode a negative big.Int into an unsigned integer'')
      else if \<bar>i\<bar> > 2 ^ (bytelen * 8) then
        Err (ErrorString ''cannot encode big.Int to []byte: given big.Int exceeds highest number'')
      else copy_right bytelen (BigInt_Bytes i))"

definition UintBytesToBigInt :: "bytes \<Rightarrow> int res" where
  "UintBytesToBigInt b =
     (if length b = 0 then Err (ErrorString ''cannot decode an empty byte slice'')
      else Ok (BigInt_SetBytes b))"

text \<open>The outcome of a pure call inside a stateful one.\<close>

definition liftM :: "'a res \<Rightarrow> ('s, 'a) goM" where
  "liftM r s = (r, s)"

text \<open>
  \<open>I128\<close>, \<open>I256\<close>, \<open>U128\<close> and \<open>U256\<close> wrap a \<open>*big.Int\<close>, which may be nil. The unsigned types
  encode nil as zero, the signed ones dereference it. Both decode to a non-nil integer.
\<close>

definition Int_Encode :: "nat \<Rightarrow> int option \<Rightarrow> (bytes, unit) goM" where
  "Int_Encode bytelen i =
     (case i of
        None \<Rightarrow> panicM ''invalid memory address or nil pointer dereference''
      | Some v \<Rightarrow> bindM (liftM (BigIntToIntBytes v bytelen)) (\<lambda>b. Encoder_Write (Reverse b)))"

definition Int_Decode :: "nat \<Rightarrow> (bytes, int option) goM" where
  "Int_Decode bytelen =
     bindM (Decoder_Read bytelen) (\<lambda>bs.
     bindM (liftM (IntBytesToBigInt (Reverse bs))) (\<lambda>b.
       if b = 0 then retM (Some 0) else retM (Some b)))"

definition Uint_Encode :: "nat \<Rightarrow> int option \<Rightarrow> (bytes, unit) goM" where
  "Uint_Encode bytelen i =
     (let v = (case i of None \<Rightarrow> 0 | Some v \<Rightarrow> v) in
      bindM (liftM (BigIntToUintBytes v bytelen)) (\<lambda>b. Encoder_Write (Reverse b)))"

definition Uint_Decode :: "nat \<Rightarrow> (bytes, int option) goM" where
  "Uint_Decode bytelen =
     bindM (Decoder_Read bytelen) (\<lambda>bs.
     bindM (liftM (UintBytesToBigInt (Reverse bs))) (\<lambda>b.
       if b = 0 then retM (Some 0) else retM (Some b)))"

definition I128_Encode :: "int option \<Rightarrow> (bytes, unit) goM" where "I128_Encode = Int_Encode 16"
definition I128_Decode :: "(bytes, int option) goM" where "I128_Decode = Int_Decode 16"
definition I256_Encode :: "int option \<Rightarrow> (bytes, unit) goM" where "I256_Encode = Int_Encode 32"
definition I256_Decode :: "(bytes, int option) goM" where "I256_Decode = Int_Decode 32"
definition U128_Encode :: "int option \<Rightarrow> (bytes, unit) goM" where "U128_Encode = Uint_Encode 16"
definition U128_Decode :: "(bytes, int option) goM" where "U128_Decode = Uint_Decode 16"
definition U256_Encode :: "int option \<Rightarrow> (bytes, unit) goM" where "U256_Encode = Uint_Encode 32"
definition U256_Decode :: "(bytes, int option) goM" where "U256_Decode = Uint_Decode 32"

section \<open>UCompact\<close>

definition UCompact_Encode :: "int \<Rightarrow> (bytes, unit) goM" where
  "UCompact_Encode u = EncodeUintCompact u"

definition UCompact_Decode :: "(bytes, int) goM" where
  "UCompact_Decode = DecodeUintCompact"

definition UCompact_Int64 :: "int \<Rightarrow> int" where
  "UCompact_Int64 u = BigInt_Int64 u"

section \<open>Lemmas\<close>

lemma liftM_apply [simp, monad_simps]: "liftM r s = (r, s)"
  by (simp add: liftM_def)

lemma scale_codec_word:
  assumes "8 * num_size k = LENGTH('a)" and "k \<noteq> Bool"
  shows "scale_codec (Encode_word k :: 'a::len word \<Rightarrow> _) (Decode_word k) (\<lambda>_. True)"
proof
  fix w :: "'a word"
  have "unat w < 256 ^ num_size k"
    using unsigned_less [of w, where ?'a = nat] by (simp flip: assms(1) add: power_mult)
  then have "rt (binary_Write (num_size k) (unat w)) (Decode_num k) (unat w)"
    using assms(2) by (intro rt_num) auto
  then show "rt (Encode_word k w) (Decode_word k) w"
    unfolding Encode_word_def Decode_word_def by (rule rt_last) simp
qed

interpretation bool: scale_codec Encode_bool Decode_bool "\<lambda>_. True"
proof
  fix b :: bool
  have "rt (binary_Write (num_size Bool) (if b then 1 else 0)) (Decode_num Bool) (if b then 1 else 0)"
    by (rule rt_num) auto
  then show "rt (Encode_bool b) Decode_bool b"
    unfolding Encode_bool_def Decode_bool_def by (rule rt_last) simp
qed

interpretation u8: scale_codec "Encode_word Uint8 :: uint8 \<Rightarrow> _" "Decode_word Uint8" "\<lambda>_. True"
  by (rule scale_codec_word) simp_all
interpretation u16: scale_codec "Encode_word Uint16 :: uint16 \<Rightarrow> _" "Decode_word Uint16" "\<lambda>_. True"
  by (rule scale_codec_word) simp_all
interpretation u32: scale_codec "Encode_word Uint32 :: uint32 \<Rightarrow> _" "Decode_word Uint32" "\<lambda>_. True"
  by (rule scale_codec_word) simp_all
interpretation u64: scale_codec "Encode_word Uint64 :: uint64 \<Rightarrow> _" "Decode_word Uint64" "\<lambda>_. True"
  by (rule scale_codec_word) simp_all

interpretation ucompact: scale_codec UCompact_Encode UCompact_Decode "\<lambda>v. 0 \<le> v \<and> v < 2 ^ 536"
  using compact.scale_codec_axioms by (simp add: UCompact_Encode_def [abs_def] UCompact_Decode_def)

subsection \<open>Big-endian values\<close>

lemma BigInt_SetBytes_pad [simp]: "BigInt_SetBytes (replicate n 0 @ bs) = BigInt_SetBytes bs"
  by (simp add: BigInt_SetBytes_def le_nat_append)

lemma BigInt_SetBytes_Cons:
  "BigInt_SetBytes (b # bs) = uint b * 256 ^ length bs + BigInt_SetBytes bs"
  by (simp add: BigInt_SetBytes_def le_nat_append mult.commute)

lemma top_bit_clear_iff: "(b :: byte) AND 0x80 = 0 \<longleftrightarrow> unat b < 128"
proof -
  have "b AND 2 ^ 7 = 0 \<longleftrightarrow> \<not> bit b 7" by (rule and_exp_eq_0_iff_not_bit)
  also have "bit b 7 \<longleftrightarrow> odd (unat b div 128)"
    using bit_unsigned_iff [of b 7, where ?'a = nat] by (simp add: bit_iff_odd)
  also have "odd (unat b div 128) \<longleftrightarrow> \<not> unat b < 128"
  proof -
    have "unat b div 128 = 0 \<or> unat b div 128 = 1"
      using unat_byte_less [of b] by linarith
    moreover have "unat b div 128 = 0 \<longleftrightarrow> unat b < 128" by (simp add: div_eq_0_iff)
    ultimately show ?thesis by auto
  qed
  finally show ?thesis by simp
qed

lemma unat_NOT: "unat (NOT b) = 255 - unat (b :: byte)"
proof -
  have "NOT b = - 1 - b" by (simp add: not_eq_complement)
  moreover have "unat (- 1 - b) = unat (- 1 :: byte) - unat b" by (rule unat_sub) simp
  moreover have "unat (- 1 :: byte) = 255"
    by (simp only: unsigned_minus_1_eq_mask) (simp add: mask_eq_exp_minus_1)
  ultimately show ?thesis by simp
qed

lemma uint_NOT: "uint (NOT b) = 255 - uint (b :: byte)"
proof -
  have "unat b \<le> 255" using unat_byte_less [of b] by linarith
  then show ?thesis by (simp only: uint_nat unat_NOT of_nat_diff)
qed

lemma BigInt_SetBytes_NOT: "BigInt_SetBytes (map NOT bs) = 256 ^ length bs - 1 - BigInt_SetBytes bs"
proof (induction bs)
  case Nil
  show ?case by (simp add: BigInt_SetBytes_def)
next
  case (Cons b bs)
  then show ?case by (simp add: BigInt_SetBytes_Cons uint_NOT algebra_simps)
qed

lemma map_NOT_NOT [simp]: "map NOT (map NOT bs) = (bs :: bytes)"
  by (simp add: o_def)

lemma top_bit_of_value:
  assumes "bs \<noteq> []"
  shows "(bs ! 0) AND 0x80 = 0 \<longleftrightarrow> BigInt_SetBytes bs < 128 * 256 ^ (length bs - 1)"
proof -
  from assms obtain b cs where bs: "bs = b # cs" by (cases bs) auto
  have c: "0 \<le> BigInt_SetBytes cs" "BigInt_SetBytes cs < 256 ^ length cs"
    by (simp_all add: BigInt_SetBytes_nonneg BigInt_SetBytes_bound)
  have "unat b < 128 \<longleftrightarrow> uint b * 256 ^ length cs + BigInt_SetBytes cs < 128 * 256 ^ length cs"
  proof (cases "unat b < 128")
    case True
    with uint_nat [of b] have "uint b + 1 \<le> 128" by linarith
    then have "(uint b + 1) * 256 ^ length cs \<le> 128 * 256 ^ length cs"
      by (rule mult_right_mono) simp
    then have "uint b * 256 ^ length cs + 256 ^ length cs \<le> 128 * 256 ^ length cs"
      by (simp only: distrib_right mult_1)
    with c(2) have "uint b * 256 ^ length cs + BigInt_SetBytes cs < 128 * 256 ^ length cs"
      by linarith
    with True show ?thesis by blast
  next
    case False
    with uint_nat [of b] have "128 \<le> uint b" by linarith
    then have "128 * 256 ^ length cs \<le> uint b * 256 ^ length cs"
      by (rule mult_right_mono) simp
    with c(1) have "\<not> uint b * 256 ^ length cs + BigInt_SetBytes cs < 128 * 256 ^ length cs"
      by linarith
    with False show ?thesis by blast
  qed
  then show ?thesis by (simp add: bs top_bit_clear_iff BigInt_SetBytes_Cons)
qed

lemma two_power_bytes: "0 < k \<Longrightarrow> (2 :: int) ^ (k * 8 - 1) = 128 * 256 ^ (k - 1)"
proof -
  assume "0 < k"
  then obtain m where k: "k = Suc m" by (cases k) auto
  have "k * 8 - 1 = 7 + 8 * m" using k by simp
  moreover have "(2 :: int) ^ (8 * m) = (2 ^ 8) ^ m" by (rule power_mult)
  ultimately show ?thesis using k by (simp add: power_add mult.commute)
qed

lemma copy_right_Bytes:
  assumes "\<bar>v\<bar> < 256 ^ k"
  shows "\<exists>r. copy_right k (BigInt_Bytes v) = Ok r \<and> length r = k \<and> BigInt_SetBytes r = \<bar>v\<bar>"
proof -
  have "nat \<bar>v\<bar> < 256 ^ k" using assms by (simp add: nat_less_iff)
  then have "length (BigInt_Bytes v) \<le> k" by (simp add: length_BigInt_Bytes)
  then show ?thesis by (simp add: copy_right_def)
qed

subsection \<open>Round trips of the byte conversions\<close>

lemma IntBytes_roundtrip:
  assumes "0 < k" "- (2 ^ (k * 8 - 1)) \<le> i" "i < 2 ^ (k * 8 - 1)"
  shows "\<exists>r. BigIntToIntBytes i k = Ok r \<and> length r = k \<and> IntBytesToBigInt r = Ok i"
proof -
  let ?h = "2 ^ (k * 8 - 1) :: int"
  have h: "?h = 128 * 256 ^ (k - 1)" using assms(1) by (rule two_power_bytes)
  have full: "256 ^ k = 2 * ?h" using assms(1) h by (cases k) auto
  show ?thesis
  proof (cases "i \<ge> 0")
    case True
    then obtain r where r: "copy_right k (BigInt_Bytes i) = Ok r" "length r = k" "BigInt_SetBytes r = i"
      using copy_right_Bytes [of i k] assms(3) full by auto
    then have "r \<noteq> []" using assms(1) by auto
    then have "(r ! 0) AND 0x80 = 0" using top_bit_of_value [of r] r assms(3) h by simp
    with r True assms show ?thesis
      by (auto simp: BigIntToIntBytes_def IntBytesToBigInt_def Let_def)
  next
    case False
    then obtain r where r: "copy_right k (BigInt_Bytes (i + 1)) = Ok r" "length r = k"
        "BigInt_SetBytes r = - i - 1"
      using copy_right_Bytes [of "i + 1" k] assms(2) full by auto
    let ?n = "map NOT r"
    have "BigInt_SetBytes ?n = 2 * ?h + i" using r full by (simp add: BigInt_SetBytes_NOT)
    then have "\<not> BigInt_SetBytes ?n < 128 * 256 ^ (length ?n - 1)" using assms(2) r h by simp
    moreover have "?n \<noteq> []" using r assms(1) by auto
    ultimately have top: "(?n ! 0) AND 0x80 \<noteq> 0" using top_bit_of_value [of ?n] by blast
    have "IntBytesToBigInt ?n = Ok i"
      using top r assms(1) by (simp only: IntBytesToBigInt_def map_NOT_NOT) simp
    moreover have "BigIntToIntBytes i k = Ok ?n"
      using False assms(2) r by (simp add: BigIntToIntBytes_def Let_def)
    ultimately show ?thesis using r by auto
  qed
qed

lemma UintBytes_roundtrip:
  assumes "0 < k" "0 \<le> i" "i < 2 ^ (k * 8)"
  shows "\<exists>r. BigIntToUintBytes i k = Ok r \<and> length r = k \<and> UintBytesToBigInt r = Ok i"
proof -
  have "(2 :: int) ^ (k * 8) = 256 ^ k" by (simp add: mult.commute [of k] power_mult)
  then show ?thesis
    using copy_right_Bytes [of i k] assms
    by (auto simp: BigIntToUintBytes_def UintBytesToBigInt_def)
qed

subsection \<open>The codecs of the wide integers\<close>

lemma rt_bytes_conversion:
  assumes "f = Ok r" "length r = k" "0 < k" "g r = Ok v"
  shows "rt (bindM (liftM f) (\<lambda>b. Encoder_Write (Reverse b)))
     (bindM (Decoder_Read k) (\<lambda>bs. bindM (liftM (g (Reverse bs))) (\<lambda>b.
        if b = 0 then retM (Some 0) else retM (Some b)))) (Some (v :: int))"
proof (rule rtI)
  show "writes (bindM (liftM f) (\<lambda>b. Encoder_Write (Reverse b))) (rev r)"
    using assms(1) by (simp add: writes_def Reverse_eq_rev)
  show "reads (bindM (Decoder_Read k) (\<lambda>bs. bindM (liftM (g (Reverse bs))) (\<lambda>b.
        if b = 0 then retM (Some 0) else retM (Some b)))) (rev r) (Some v)"
    using Decoder_Read_Ok [of "rev r" k] assms by (simp add: reads_def Reverse_eq_rev)
qed

lemma scale_codec_Int:
  "0 < k \<Longrightarrow> scale_codec (Int_Encode k) (Int_Decode k)
     (\<lambda>i. \<exists>v. i = Some v \<and> - (2 ^ (k * 8 - 1)) \<le> v \<and> v < 2 ^ (k * 8 - 1))"
proof
  fix i :: "int option"
  assume k: "0 < k" and "\<exists>v. i = Some v \<and> - (2 ^ (k * 8 - 1)) \<le> v \<and> v < 2 ^ (k * 8 - 1)"
  then obtain v r where "i = Some v" "BigIntToIntBytes v k = Ok r" "length r = k" "IntBytesToBigInt r = Ok v"
    using IntBytes_roundtrip by blast
  with k show "rt (Int_Encode k i) (Int_Decode k) i"
    unfolding Int_Encode_def Int_Decode_def option.case
    by (simp only: option.case) (rule rt_bytes_conversion [OF refl])
qed

lemma scale_codec_Uint:
  "0 < k \<Longrightarrow> scale_codec (Uint_Encode k) (Uint_Decode k)
     (\<lambda>i. \<exists>v. i = Some v \<and> 0 \<le> v \<and> v < 2 ^ (k * 8))"
proof
  fix i :: "int option"
  assume k: "0 < k" and "\<exists>v. i = Some v \<and> 0 \<le> v \<and> v < 2 ^ (k * 8)"
  then obtain v r where "i = Some v" "BigIntToUintBytes v k = Ok r" "length r = k" "UintBytesToBigInt r = Ok v"
    using UintBytes_roundtrip by blast
  with k show "rt (Uint_Encode k i) (Uint_Decode k) i"
    unfolding Uint_Encode_def Uint_Decode_def
    by (simp only: option.case Let_def) (rule rt_bytes_conversion [OF refl])
qed

interpretation i128: scale_codec I128_Encode I128_Decode "\<lambda>i. \<exists>v. i = Some v \<and> - (2 ^ 127) \<le> v \<and> v < 2 ^ 127"
  using scale_codec_Int [of 16] by (simp add: I128_Encode_def I128_Decode_def)
interpretation i256: scale_codec I256_Encode I256_Decode "\<lambda>i. \<exists>v. i = Some v \<and> - (2 ^ 255) \<le> v \<and> v < 2 ^ 255"
  using scale_codec_Int [of 32] by (simp add: I256_Encode_def I256_Decode_def)
interpretation u128: scale_codec U128_Encode U128_Decode "\<lambda>i. \<exists>v. i = Some v \<and> 0 \<le> v \<and> v < 2 ^ 128"
  using scale_codec_Uint [of 16] by (simp add: U128_Encode_def U128_Decode_def)
interpretation u256: scale_codec U256_Encode U256_Decode "\<lambda>i. \<exists>v. i = Some v \<and> 0 \<le> v \<and> v < 2 ^ 256"
  using scale_codec_Uint [of 32] by (simp add: U256_Encode_def U256_Decode_def)

section \<open>Properties of the integer types\<close>

text \<open>
  C31: a signed integer of 128 or 256 bits survives encoding and decoding, over the whole
  two's-complement range including its least element.
\<close>

theorem signed_wide_roundtrip:
  assumes "bytelen = 16 \<or> bytelen = 32"
    and "- (2 ^ (bytelen * 8 - 1)) \<le> v" and "v < 2 ^ (bytelen * 8 - 1)"
  shows "\<exists>bs. (\<forall>buf. Int_Encode bytelen (Some v) buf = (Ok (), buf @ bs)) \<and>
              (\<forall>rest. Int_Decode bytelen (bs @ rest) = (Ok (Some v), rest))"
proof -
  have "0 < bytelen" using assms(1) by auto
  from scale_codec.roundtrip [OF scale_codec_Int [OF this], of "Some v"] assms(2,3)
  show ?thesis by (simp add: rt_def writes_def reads_def)
qed

theorem signed_wide_roundtrip_witness:
  "\<exists>bs. (\<forall>buf. Int_Encode 16 (Some (- (2 ^ 127))) buf = (Ok (), buf @ bs)) \<and>
        (\<forall>rest. Int_Decode 16 (bs @ rest) = (Ok (Some (- (2 ^ 127))), rest))"
  by (rule signed_wide_roundtrip) simp_all

text \<open>
  encoding into the bytes of a signed integer fails with an error exactly when the value is
  out of the two's-complement range, and never panics.
\<close>

theorem BigIntToIntBytes_error_iff:
  assumes "0 < bytelen"
  shows "((\<exists>e. BigIntToIntBytes v bytelen = Err e) \<longleftrightarrow>
            v < - (2 ^ (bytelen * 8 - 1)) \<or> 2 ^ (bytelen * 8 - 1) \<le> v) \<and>
         BigIntToIntBytes v bytelen \<noteq> Panic p"
proof -
  have err: "\<exists>e. BigIntToIntBytes v bytelen = Err e" if "v < - (2 ^ (bytelen * 8 - 1)) \<or> 2 ^ (bytelen * 8 - 1) \<le> v"
    using that by (auto simp: BigIntToIntBytes_def Let_def abs_if)
  have ok: "\<exists>r. BigIntToIntBytes v bytelen = Ok r" if "\<not> (v < - (2 ^ (bytelen * 8 - 1)) \<or> 2 ^ (bytelen * 8 - 1) \<le> v)"
    using IntBytes_roundtrip [OF assms, of v] that by auto
  show ?thesis
    using err ok by (metis res.distinct(1,3,7))
qed

theorem BigIntToIntBytes_error_iff_witness:
  "((\<exists>e. BigIntToIntBytes 200 1 = Err e) \<longleftrightarrow>
      (200 :: int) < - (2 ^ (1 * 8 - 1)) \<or> 2 ^ (1 * 8 - 1) \<le> (200 :: int)) \<and>
   BigIntToIntBytes 200 1 \<noteq> Panic ''slice bounds out of range''"
  by (rule BigIntToIntBytes_error_iff) simp

text \<open>
  encoding into the bytes of an unsigned integer succeeds on 0 to 2^n - 1 and returns an
  error below and above, except at 2^n itself, where the range check is off by one and the
  copy panics.
\<close>

theorem BigIntToUintBytes_outcome:
  "((\<exists>r. BigIntToUintBytes v bytelen = Ok r) \<longleftrightarrow> 0 \<le> v \<and> v < 2 ^ (bytelen * 8)) \<and>
   ((\<exists>e. BigIntToUintBytes v bytelen = Err e) \<longleftrightarrow> v < 0 \<or> 2 ^ (bytelen * 8) < v) \<and>
   ((\<exists>p. BigIntToUintBytes v bytelen = Panic p) \<longleftrightarrow> v = 2 ^ (bytelen * 8))"
proof -
  have p: "(2 :: int) ^ (bytelen * 8) = 256 ^ bytelen"
    by (simp add: mult.commute [of bytelen] power_mult)
  have len: "length (BigInt_Bytes v) \<le> bytelen \<longleftrightarrow> \<bar>v\<bar> < 256 ^ bytelen"
    by (simp add: length_BigInt_Bytes nat_less_iff)
  show ?thesis
    using len by (auto simp: BigIntToUintBytes_def copy_right_def p)
qed

end
