(* ===== verification/MetadataStorage.thy ===== *)
theory MetadataStorage
  imports BigInts
begin

text \<open>
  The storage descriptions that all metadata versions share: the entry modifier of
  \<open>src/types/metadataV4.go\<close> and the hashers of \<open>src/types/metadataV4.go\<close> and
  \<open>src/types/metadataV10.go\<close>, records of flags of which the decoder sets one.
\<close>

section \<open>Modifiers\<close>

record StorageFunctionModifierV0 =
  IsOptional :: bool
  IsDefault :: bool
  IsRequired :: bool

definition StorageFunctionModifierV0_Decode :: "(bytes, StorageFunctionModifierV0) goM" where
  "StorageFunctionModifierV0_Decode =
     bindM (Decode_word Uint8 :: (bytes, uint8) goM) (\<lambda>t.
       if t = 0 then retM \<lparr>IsOptional = True, IsDefault = False, IsRequired = False\<rparr>
       else if t = 1 then retM \<lparr>IsOptional = False, IsDefault = True, IsRequired = False\<rparr>
       else if t = 2 then retM \<lparr>IsOptional = False, IsDefault = False, IsRequired = True\<rparr>
       else failM (ErrorString (''received unexpected storage function modifier type '' @ string_of_nat (unat t))))"

definition StorageFunctionModifierV0_Encode :: "StorageFunctionModifierV0 \<Rightarrow> (bytes, unit) goM" where
  "StorageFunctionModifierV0_Encode s =
     (if IsOptional s then PushByte 0
      else if IsDefault s then PushByte 1
      else if IsRequired s then PushByte 2
      else failM (ErrorString ''expected storage function modifier, but none was set''))"

definition modifier_ok :: "StorageFunctionModifierV0 \<Rightarrow> bool" where
  "modifier_ok s \<longleftrightarrow>
     s \<in> {\<lparr>IsOptional = True, IsDefault = False, IsRequired = False\<rparr>,
          \<lparr>IsOptional = False, IsDefault = True, IsRequired = False\<rparr>,
          \<lparr>IsOptional = False, IsDefault = False, IsRequired = True\<rparr>}"

section \<open>Hashers\<close>

record StorageHasherV10 =
  IsBlake2_128 :: bool
  IsBlake2_256 :: bool
  IsBlake2_128Concat :: bool
  IsTwox128 :: bool
  IsTwox256 :: bool
  IsTwox64Concat :: bool
  IsIdentity :: bool

definition no_hasher :: StorageHasherV10 where
  "no_hasher =
     \<lparr>IsBlake2_128 = False, IsBlake2_256 = False, IsBlake2_128Concat = False, IsTwox128 = False,
      IsTwox256 = False, IsTwox64Concat = False, IsIdentity = False\<rparr>"

definition StorageHasherV10_Decode :: "(bytes, StorageHasherV10) goM" where
  "StorageHasherV10_Decode =
     bindM (Decode_word Uint8 :: (bytes, uint8) goM) (\<lambda>t.
       if t = 0 then retM (no_hasher\<lparr>IsBlake2_128 := True\<rparr>)
       else if t = 1 then retM (no_hasher\<lparr>IsBlake2_256 := True\<rparr>)
       else if t = 2 then retM (no_hasher\<lparr>IsBlake2_128Concat := True\<rparr>)
       else if t = 3 then retM (no_hasher\<lparr>IsTwox128 := True\<rparr>)
       else if t = 4 then retM (no_hasher\<lparr>IsTwox256 := True\<rparr>)
       else if t = 5 then retM (no_hasher\<lparr>IsTwox64Concat := True\<rparr>)
       else if t = 6 then retM (no_hasher\<lparr>IsIdentity := True\<rparr>)
       else failM (ErrorString (''received unexpected storage hasher type '' @ string_of_nat (unat t))))"

definition StorageHasherV10_Encode :: "StorageHasherV10 \<Rightarrow> (bytes, unit) goM" where
  "StorageHasherV10_Encode s =
     (if IsBlake2_128 s then PushByte 0
      else if IsBlake2_256 s then PushByte 1
      else if IsBlake2_128Concat s then PushByte 2
      else if IsTwox128 s then PushByte 3
      else if IsTwox256 s then PushByte 4
      else if IsTwox64Concat s then PushByte 5
      else if IsIdentity s then PushByte 6
      else failM (ErrorString ''expected storage hasher, but none was set''))"

definition hasher_ok :: "StorageHasherV10 \<Rightarrow> bool" where
  "hasher_ok s \<longleftrightarrow>
     s \<in> {no_hasher\<lparr>IsBlake2_128 := True\<rparr>, no_hasher\<lparr>IsBlake2_256 := True\<rparr>,
          no_hasher\<lparr>IsBlake2_128Concat := True\<rparr>, no_hasher\<lparr>IsTwox128 := True\<rparr>,
          no_hasher\<lparr>IsTwox256 := True\<rparr>, no_hasher\<lparr>IsTwox64Concat := True\<rparr>,
          no_hasher\<lparr>IsIdentity := True\<rparr>}"

section \<open>Contracts\<close>

lemma Decode_word_Uint8_Cons: "Decode_word Uint8 (b # s) = (Ok (b :: uint8), s)"
  by (simp add: Decode_word_def Decode_num_def binary_Read_def wrapM_def bindM_def)

lemma Decode_word_Uint8_Nil:
  "Decode_word Uint8 [] =
     (Err (ErrorString ''expected more bytes, but could not decode any more'') :: uint8 res, [])"
  by (simp add: Decode_word_def Decode_num_def binary_Read_def wrapM_def bindM_def)

text \<open>A one-byte tag: the encoder pushes it and the decoder maps it back.\<close>

lemma rt_tag:
  assumes "e = PushByte b" "f b = retM v"
  shows "rt e (bindM (Decode_word Uint8) f) v" "rt e (bindM ReadOneByte f) v"
  using assms by (auto intro!: rtI [of _ "[b]"] simp: writes_PushByte reads_def Decode_word_Uint8_Cons)

interpretation modifier: scale_codec StorageFunctionModifierV0_Encode StorageFunctionModifierV0_Decode modifier_ok
proof
  fix s
  assume "modifier_ok s"
  then show "rt (StorageFunctionModifierV0_Encode s) StorageFunctionModifierV0_Decode s"
    unfolding modifier_ok_def StorageFunctionModifierV0_Decode_def
    by (elim insertE emptyE) (rule rt_tag(1), simp add: StorageFunctionModifierV0_Encode_def, simp)+
qed

interpretation hasherV10: scale_codec StorageHasherV10_Encode StorageHasherV10_Decode hasher_ok
proof
  fix s
  assume "hasher_ok s"
  then show "rt (StorageHasherV10_Encode s) StorageHasherV10_Decode s"
    unfolding hasher_ok_def StorageHasherV10_Decode_def
    by (elim insertE emptyE) (rule rt_tag(1), simp add: StorageHasherV10_Encode_def no_hasher_def, simp)+
qed

end
