(* ===== verification/MetadataV14.thy ===== *)
theory MetadataV14
  imports MetadataStorage
begin

text \<open>
  The runtime metadata of version 14: the portable type registry of
  \<open>src/types/metadataV14_portable.go\<close> and the pallets of \<open>src/types/metadataV14.go\<close>, with
  their codecs and the lookup table by type id. Go structs are records with the source's
  flags, a Go string is a list of 8-bit characters, a lookup type id is an integer. Structs
  without methods of their own go through the struct case of the reflective codec, whose
  error wrapping is \<open>fieldE\<close> and \<open>fieldD\<close>.
\<close>

section \<open>Strings, bytes and struct fields\<close>

definition Text_Encode :: "string \<Rightarrow> (bytes, unit) goM" where
  "Text_Encode s = Encode_slice Encode_byte (map byte_of_char s)"

definition Text_Decode :: "(bytes, string) goM" where
  "Text_Decode = bindM (Decode_slice Decode_byte) (\<lambda>bs. retM (map char_of_byte bs))"

abbreviation fieldE :: "(bytes, unit) goM \<Rightarrow> (bytes, unit) goM" where
  "fieldE \<equiv> wrapM struct_enc_err"

abbreviation fieldD :: "(bytes, 'a) goM \<Rightarrow> (bytes, 'a) goM" where
  "fieldD \<equiv> wrapM struct_dec_err"

section \<open>The portable type registry\<close>

record Si1TypeParameter =
  tpName :: string
  tpHasType :: bool
  tpType :: int

record Si1Field =
  HasName :: bool
  fName :: string
  fType :: int
  HasTypeName :: bool
  fTypeName :: string
  fDocs :: "string list"

record Si1Variant =
  vName :: string
  vFields :: "Si1Field list"
  vIndex :: uint8
  vDocs :: "string list"

record Si1TypeDef =
  IsComposite :: bool
  CompositeFields :: "Si1Field list"
  IsVariant :: bool
  Variants :: "Si1Variant list"
  IsSequence :: bool
  SequenceType :: int
  IsArray :: bool
  ArrayLen :: uint32
  ArrayType :: int
  IsTuple :: bool
  Tuple :: "int list option"  \<comment> \<open>\<open>None\<close> is the nil slice\<close>
  IsPrimitive :: bool
  Primitive :: uint8
  IsCompact :: bool
  CompactType :: int
  IsBitSequence :: bool
  BitStoreType :: int
  BitOrderType :: int
  IsHistoricMetaCompat :: bool
  HistoricMetaCompat :: string

record Si1Type =
  tPath :: "string list"
  tParams :: "Si1TypeParameter list"
  tDef :: Si1TypeDef
  tDocs :: "string list"

record PortableTypeV14 =
  ptID :: int
  ptType :: Si1Type

definition zero_typedef :: Si1TypeDef where
  "zero_typedef =
     \<lparr>IsComposite = False, CompositeFields = [], IsVariant = False, Variants = [],
      IsSequence = False, SequenceType = 0, IsArray = False, ArrayLen = 0, ArrayType = 0,
      IsTuple = False, Tuple = None, IsPrimitive = False, Primitive = 0,
      IsCompact = False, CompactType = 0, IsBitSequence = False, BitStoreType = 0, BitOrderType = 0,
      IsHistoricMetaCompat = False, HistoricMetaCompat = []\<rparr>"

definition Si1TypeParameter_Encode :: "Si1TypeParameter \<Rightarrow> (bytes, unit) goM" where
  "Si1TypeParameter_Encode d =
     seqM (Text_Encode (tpName d)) (EncodeOption UCompact_Encode (tpHasType d) (tpType d))"

definition Si1TypeParameter_Decode :: "(bytes, Si1TypeParameter) goM" where
  "Si1TypeParameter_Decode =
     bindM Text_Decode (\<lambda>n. bindM (DecodeOption UCompact_Decode 0) (\<lambda>(h, t).
       retM \<lparr>tpName = n, tpHasType = h, tpType = t\<rparr>))"

definition Si1Field_Encode :: "Si1Field \<Rightarrow> (bytes, unit) goM" where
  "Si1Field_Encode d =
     seqM (EncodeOption Text_Encode (HasName d) (fName d))
    (seqM (UCompact_Encode (fType d))
    (seqM (EncodeOption Text_Encode (HasTypeName d) (fTypeName d))
          (Encode_slice Text_Encode (fDocs d))))"

definition Si1Field_Decode :: "(bytes, Si1Field) goM" where
  "Si1Field_Decode =
     bindM (DecodeOption Text_Decode []) (\<lambda>(hn, n).
     bindM UCompact_Decode (\<lambda>t.
     bindM (DecodeOption Text_Decode []) (\<lambda>(ht, tn).
     bindM (Decode_slice Text_Decode) (\<lambda>ds.
       retM \<lparr>HasName = hn, fName = n, fType = t, HasTypeName = ht, fTypeName = tn, fDocs = ds\<rparr>))))"

definition Si1Variant_Encode :: "Si1Variant \<Rightarrow> (bytes, unit) goM" where
  "Si1Variant_Encode v =
     seqM (fieldE (Text_Encode (vName v)))
    (seqM (fieldE (Encode_slice Si1Field_Encode (vFields v)))
    (seqM (fieldE (Encode_word Uint8 (vIndex v)))
          (fieldE (Encode_slice Text_Encode (vDocs v)))))"

definition Si1Variant_Decode :: "(bytes, Si1Variant) goM" where
  "Si1Variant_Decode =
     bindM (fieldD Text_Decode) (\<lambda>n.
     bindM (fieldD (Decode_slice Si1Field_Decode)) (\<lambda>fs.
     bindM (fieldD (Decode_word Uint8)) (\<lambda>i.
     bindM (fieldD (Decode_slice Text_Decode)) (\<lambda>ds.
       retM \<lparr>vName = n, vFields = fs, vIndex = i, vDocs = ds\<rparr>))))"

text \<open>\<open>Si0TypeDefPrimitive\<close> decodes through its own method, which refuses unknown codes.\<close>

definition Primitive_Decode :: "(bytes, uint8) goM" where
  "Primitive_Decode =
     bindM ReadOneByte (\<lambda>b.
       if b \<le> 14 then retM b
       else failM (ErrorString (''Si0TypeDefPrimitive do not support this type: '' @ string_of_nat (unat b))))"

text \<open>A decoded empty tuple stays the nil slice of the fresh struct.\<close>

definition tuple_slice :: "int list \<Rightarrow> int list option" where
  "tuple_slice ts = (if ts = [] then None else Some ts)"

definition tuple_items :: "int list option \<Rightarrow> int list" where
  "tuple_items t = (case t of None \<Rightarrow> [] | Some ts \<Rightarrow> ts)"

definition Si1TypeDef_Encode :: "Si1TypeDef \<Rightarrow> (bytes, unit) goM" where
  "Si1TypeDef_Encode d =
     (if IsComposite d then
        seqM (PushByte 0) (fieldE (Encode_slice Si1Field_Encode (CompositeFields d)))
      else if IsVariant d then
        seqM (PushByte 1) (fieldE (Encode_slice Si1Variant_Encode (Variants d)))
      else if IsSequence d then seqM (PushByte 2) (fieldE (UCompact_Encode (SequenceType d)))
      else if IsArray d then
        seqM (PushByte 3) (seqM (fieldE (Encode_word Uint32 (ArrayLen d))) (fieldE (UCompact_Encode (ArrayType d))))
      else if IsTuple d then seqM (PushByte 4) (Encode_slice UCompact_Encode (tuple_items (Tuple d)))
      else if IsPrimitive d then seqM (PushByte 5) (fieldE (Encode_word Uint8 (Primitive d)))
      else if IsCompact d then seqM (PushByte 6) (fieldE (UCompact_Encode (CompactType d)))
      else if IsBitSequence d then
        seqM (PushByte 7) (seqM (fieldE (UCompact_Encode (BitStoreType d))) (fieldE (UCompact_Encode (BitOrderType d))))
      else if IsHistoricMetaCompat d then seqM (PushByte 8) (Text_Encode (HistoricMetaCompat d))
      else failM (ErrorString ''expected Si1TypeDef instance to be one of the valid variants''))"

definition Si1TypeDef_Decode :: "(bytes, Si1TypeDef) goM" where
  "Si1TypeDef_Decode =
     bindM ReadOneByte (\<lambda>num.
       if num = 0 then
         bindM (fieldD (Decode_slice Si1Field_Decode)) (\<lambda>fs.
           retM (zero_typedef\<lparr>IsComposite := True, CompositeFields := fs\<rparr>))
       else if num = 1 then
         bindM (fieldD (Decode_slice Si1Variant_Decode)) (\<lambda>vs.
           retM (zero_typedef\<lparr>IsVariant := True, Variants := vs\<rparr>))
       else if num = 2 then
         bindM (fieldD UCompact_Decode) (\<lambda>t. retM (zero_typedef\<lparr>IsSequence := True, SequenceType := t\<rparr>))
       else if num = 3 then
         bindM (fieldD (Decode_word Uint32)) (\<lambda>n. bindM (fieldD UCompact_Decode) (\<lambda>t.
           retM (zero_typedef\<lparr>IsArray := True, ArrayLen := n, ArrayType := t\<rparr>)))
       else if num = 4 then
         bindM (Decode_slice UCompact_Decode) (\<lambda>ts.
           retM (zero_typedef\<lparr>IsTuple := True, Tuple := tuple_slice ts\<rparr>))
       else if num = 5 then
         bindM Primitive_Decode (\<lambda>b. retM (zero_typedef\<lparr>IsPrimitive := True, Primitive := b\<rparr>))
       else if num = 6 then
         bindM (fieldD UCompact_Decode) (\<lambda>t. retM (zero_typedef\<lparr>IsCompact := True, CompactType := t\<rparr>))
       else if num = 7 then
         bindM (fieldD UCompact_Decode) (\<lambda>s. bindM (fieldD UCompact_Decode) (\<lambda>ord.
           retM (zero_typedef\<lparr>IsBitSequence := True, BitStoreType := s, BitOrderType := ord\<rparr>)))
       else if num = 8 then
         bindM Text_Decode (\<lambda>t. retM (zero_typedef\<lparr>IsHistoricMetaCompat := True, HistoricMetaCompat := t\<rparr>))
       else failM (ErrorString (''Si1TypeDef unknow type : '' @ string_of_nat (unat num))))"

definition Si1Type_Encode :: "Si1Type \<Rightarrow> (bytes, unit) goM" where
  "Si1Type_Encode t =
     seqM (fieldE (Encode_slice Text_Encode (tPath t)))
    (seqM (fieldE (Encode_slice Si1TypeParameter_Encode (tParams t)))
    (seqM (fieldE (Si1TypeDef_Encode (tDef t)))
          (fieldE (Encode_slice Text_Encode (tDocs t)))))"

definition Si1Type_Decode :: "(bytes, Si1Type) goM" where
  "Si1Type_Decode =
     bindM (fieldD (Decode_slice Text_Decode)) (\<lambda>p.
     bindM (fieldD (Decode_slice Si1TypeParameter_Decode)) (\<lambda>ps.
     bindM (fieldD Si1TypeDef_Decode) (\<lambda>d.
     bindM (fieldD (Decode_slice Text_Decode)) (\<lambda>ds.
       retM \<lparr>tPath = p, tParams = ps, tDef = d, tDocs = ds\<rparr>))))"

definition PortableTypeV14_Encode :: "PortableTypeV14 \<Rightarrow> (bytes, unit) goM" where
  "PortableTypeV14_Encode p = seqM (fieldE (UCompact_Encode (ptID p))) (fieldE (Si1Type_Encode (ptType p)))"

definition PortableTypeV14_Decode :: "(bytes, PortableTypeV14) goM" where
  "PortableTypeV14_Decode =
     bindM (fieldD UCompact_Decode) (\<lambda>i. bindM (fieldD Si1Type_Decode) (\<lambda>t. retM \<lparr>ptID = i, ptType = t\<rparr>))"

section \<open>Pallets\<close>

record MapTypeV14 =
  mHashers :: "StorageHasherV10 list"
  mKey :: int
  mValue :: int

record StorageEntryTypeV14 =
  IsPlainType :: bool
  AsPlainType :: int
  IsMap :: bool
  AsMap :: MapTypeV14

record StorageEntryMetadataV14 =
  seName :: string
  seModifier :: StorageFunctionModifierV0
  seType :: StorageEntryTypeV14
  seFallback :: bytes
  seDocumentation :: "string list"

record StorageMetadataV14 =
  smPrefix :: string
  smItems :: "StorageEntryMetadataV14 list"

record ConstantMetadataV14 =
  cName :: string
  cType :: int
  cValue :: bytes
  cDocs :: "string list"

record PalletMetadataV14 =
  pName :: string
  HasStorage :: bool
  pStorage :: StorageMetadataV14
  HasCalls :: bool
  pCalls :: int
  HasEvents :: bool
  pEvents :: int
  pConstants :: "ConstantMetadataV14 list"
  HasErrors :: bool
  pErrors :: int
  pIndex :: uint8

record SignedExtensionMetadataV14 =
  xIdentifier :: string
  xType :: int
  xAdditionalSigned :: int

record ExtrinsicV14 =
  exType :: int
  exVersion :: uint8
  exSignedExtensions :: "SignedExtensionMetadataV14 list"

record MetadataV14 =
  Lookup :: "PortableTypeV14 list"
  Pallets :: "PalletMetadataV14 list"
  mdExtrinsic :: ExtrinsicV14
  mdType :: int
  EfficientLookup :: "int \<rightharpoonup> Si1Type"

definition zero_map_type :: MapTypeV14 where
  "zero_map_type = \<lparr>mHashers = [], mKey = 0, mValue = 0\<rparr>"

definition zero_storage :: StorageMetadataV14 where
  "zero_storage = \<lparr>smPrefix = [], smItems = []\<rparr>"

definition MapTypeV14_Encode :: "MapTypeV14 \<Rightarrow> (bytes, unit) goM" where
  "MapTypeV14_Encode m =
     seqM (fieldE (Encode_slice StorageHasherV10_Encode (mHashers m)))
    (seqM (fieldE (UCompact_Encode (mKey m))) (fieldE (UCompact_Encode (mValue m))))"

definition MapTypeV14_Decode :: "(bytes, MapTypeV14) goM" where
  "MapTypeV14_Decode =
     bindM (fieldD (Decode_slice StorageHasherV10_Decode)) (\<lambda>hs.
     bindM (fieldD UCompact_Decode) (\<lambda>k. bindM (fieldD UCompact_Decode) (\<lambda>v.
       retM \<lparr>mHashers = hs, mKey = k, mValue = v\<rparr>)))"

definition StorageEntryTypeV14_Encode :: "StorageEntryTypeV14 \<Rightarrow> (bytes, unit) goM" where
  "StorageEntryTypeV14_Encode s =
     (if IsPlainType s then seqM (PushByte 0) (UCompact_Encode (AsPlainType s))
      else if IsMap s then seqM (PushByte 1) (MapTypeV14_Encode (AsMap s))
      else failM (ErrorString ''expected to be either plain type or map, but none was set''))"

definition StorageEntryTypeV14_Decode :: "(bytes, StorageEntryTypeV14) goM" where
  "StorageEntryTypeV14_Decode =
     bindM ReadOneByte (\<lambda>b.
       if b = 0 then
         bindM UCompact_Decode (\<lambda>t.
           retM \<lparr>IsPlainType = True, AsPlainType = t, IsMap = False, AsMap = zero_map_type\<rparr>)
       else if b = 1 then
         bindM MapTypeV14_Decode (\<lambda>m.
           retM \<lparr>IsPlainType = False, AsPlainType = 0, IsMap = True, AsMap = m\<rparr>)
       else failM (ErrorString (''StorageFunctionTypeV14 does not support this type: '' @ string_of_nat (unat b))))"

definition StorageEntryMetadataV14_Encode :: "StorageEntryMetadataV14 \<Rightarrow> (bytes, unit) goM" where
  "StorageEntryMetadataV14_Encode s =
     seqM (fieldE (Text_Encode (seName s)))
    (seqM (fieldE (StorageFunctionModifierV0_Encode (seModifier s)))
    (seqM (fieldE (StorageEntryTypeV14_Encode (seType s)))
    (seqM (fieldE (Encode_slice Encode_byte (seFallback s)))
          (fieldE (Encode_slice Text_Encode (seDocumentation s))))))"

definition StorageEntryMetadataV14_Decode :: "(bytes, StorageEntryMetadataV14) goM" where
  "StorageEntryMetadataV14_Decode =
     bindM (fieldD Text_Decode) (\<lambda>n.
     bindM (fieldD StorageFunctionModifierV0_Decode) (\<lambda>m.
     bindM (fieldD StorageEntryTypeV14_Decode) (\<lambda>t.
     bindM (fieldD (Decode_slice Decode_byte)) (\<lambda>f.
     bindM (fieldD (Decode_slice Text_Decode)) (\<lambda>ds.
       retM \<lparr>seName = n, seModifier = m, seType = t, seFallback = f, seDocumentation = ds\<rparr>)))))"

definition StorageMetadataV14_Encode :: "StorageMetadataV14 \<Rightarrow> (bytes, unit) goM" where
  "StorageMetadataV14_Encode s =
     seqM (fieldE (Text_Encode (smPrefix s))) (fieldE (Encode_slice StorageEntryMetadataV14_Encode (smItems s)))"

definition StorageMetadataV14_Decode :: "(bytes, StorageMetadataV14) goM" where
  "StorageMetadataV14_Decode =
     bindM (fieldD Text_Decode) (\<lambda>p. bindM (fieldD (Decode_slice StorageEntryMetadataV14_Decode)) (\<lambda>is.
       retM \<lparr>smPrefix = p, smItems = is\<rparr>))"

definition ConstantMetadataV14_Encode :: "ConstantMetadataV14 \<Rightarrow> (bytes, unit) goM" where
  "ConstantMetadataV14_Encode c =
     seqM (fieldE (Text_Encode (cName c)))
    (seqM (fieldE (UCompact_Encode (cType c)))
    (seqM (fieldE (Encode_slice Encode_byte (cValue c)))
          (fieldE (Encode_slice Text_Encode (cDocs c)))))"

definition ConstantMetadataV14_Decode :: "(bytes, ConstantMetadataV14) goM" where
  "ConstantMetadataV14_Decode =
     bindM (fieldD Text_Decode) (\<lambda>n.
     bindM (fieldD UCompact_Decode) (\<lambda>t.
     bindM (fieldD (Decode_slice Decode_byte)) (\<lambda>v.
     bindM (fieldD (Decode_slice Text_Decode)) (\<lambda>ds.
       retM \<lparr>cName = n, cType = t, cValue = v, cDocs = ds\<rparr>))))"

text \<open>\<open>FunctionMetadataV14\<close>, \<open>EventMetadataV14\<close> and \<open>ErrorMetadataV14\<close>: structs of one type id.\<close>

definition TypeOnly_Encode :: "int \<Rightarrow> (bytes, unit) goM" where
  "TypeOnly_Encode t = fieldE (UCompact_Encode t)"

definition TypeOnly_Decode :: "(bytes, int) goM" where
  "TypeOnly_Decode = fieldD UCompact_Decode"

definition PalletMetadataV14_Encode :: "PalletMetadataV14 \<Rightarrow> (bytes, unit) goM" where
  "PalletMetadataV14_Encode m =
     seqM (Text_Encode (pName m))
    (seqM (EncodeOption StorageMetadataV14_Encode (HasStorage m) (pStorage m))
    (seqM (EncodeOption TypeOnly_Encode (HasCalls m) (pCalls m))
    (seqM (EncodeOption TypeOnly_Encode (HasEvents m) (pEvents m))
    (seqM (Encode_slice ConstantMetadataV14_Encode (pConstants m))
    (seqM (EncodeOption TypeOnly_Encode (HasErrors m) (pErrors m))
          (Encode_word Uint8 (pIndex m)))))))"

definition PalletMetadataV14_Decode :: "(bytes, PalletMetadataV14) goM" where
  "PalletMetadataV14_Decode =
     bindM Text_Decode (\<lambda>n.
     bindM (DecodeOption StorageMetadataV14_Decode zero_storage) (\<lambda>(hs, st).
     bindM (DecodeOption TypeOnly_Decode 0) (\<lambda>(hc, c).
     bindM (DecodeOption TypeOnly_Decode 0) (\<lambda>(hev, e).
     bindM (Decode_slice ConstantMetadataV14_Decode) (\<lambda>cs.
     bindM (DecodeOption TypeOnly_Decode 0) (\<lambda>(her, er).
     bindM (Decode_word Uint8) (\<lambda>i.
       retM \<lparr>pName = n, HasStorage = hs, pStorage = st, HasCalls = hc, pCalls = c, HasEvents = hev,
             pEvents = e, pConstants = cs, HasErrors = her, pErrors = er, pIndex = i\<rparr>)))))))"

definition SignedExtensionMetadataV14_Encode :: "SignedExtensionMetadataV14 \<Rightarrow> (bytes, unit) goM" where
  "SignedExtensionMetadataV14_Encode x =
     seqM (fieldE (Text_Encode (xIdentifier x)))
    (seqM (fieldE (UCompact_Encode (xType x))) (fieldE (UCompact_Encode (xAdditionalSigned x))))"

definition SignedExtensionMetadataV14_Decode :: "(bytes, SignedExtensionMetadataV14) goM" where
  "SignedExtensionMetadataV14_Decode =
     bindM (fieldD Text_Decode) (\<lambda>n. bindM (fieldD UCompact_Decode) (\<lambda>t. bindM (fieldD UCompact_Decode) (\<lambda>a.
       retM \<lparr>xIdentifier = n, xType = t, xAdditionalSigned = a\<rparr>)))"

definition ExtrinsicV14_Encode :: "ExtrinsicV14 \<Rightarrow> (bytes, unit) goM" where
  "ExtrinsicV14_Encode e =
     seqM (fieldE (UCompact_Encode (exType e)))
    (seqM (fieldE (Encode_word Uint8 (exVersion e)))
          (fieldE (Encode_slice SignedExtensionMetadataV14_Encode (exSignedExtensions e))))"

definition ExtrinsicV14_Decode :: "(bytes, ExtrinsicV14) goM" where
  "ExtrinsicV14_Decode =
     bindM (fieldD UCompact_Decode) (\<lambda>t.
     bindM (fieldD (Decode_word Uint8)) (\<lambda>v.
     bindM (fieldD (Decode_slice SignedExtensionMetadataV14_Decode)) (\<lambda>xs.
       retM \<lparr>exType = t, exVersion = v, exSignedExtensions = xs\<rparr>)))"

section \<open>The metadata and its lookup table\<close>

fun toMap_loop :: "PortableTypeV14 list \<Rightarrow> (int \<rightharpoonup> Si1Type) \<Rightarrow> (int \<rightharpoonup> Si1Type)" where
  "toMap_loop [] m = m"
| "toMap_loop (t # ts) m = toMap_loop ts (m(UCompact_Int64 (ptID t) \<mapsto> ptType t))"

definition toMap :: "PortableTypeV14 list \<Rightarrow> (int \<rightharpoonup> Si1Type)" where
  "toMap lookup = toMap_loop lookup Map.empty"

text \<open>\<open>MetadataV14\<close> has no \<open>Encode\<close> method: its fields are encoded in order, the table is skipped.\<close>

definition MetadataV14_Encode :: "MetadataV14 \<Rightarrow> (bytes, unit) goM" where
  "MetadataV14_Encode m =
     seqM (fieldE (fieldE (Encode_slice PortableTypeV14_Encode (Lookup m))))
    (seqM (fieldE (Encode_slice PalletMetadataV14_Encode (Pallets m)))
    (seqM (fieldE (ExtrinsicV14_Encode (mdExtrinsic m)))
          (fieldE (UCompact_Encode (mdType m)))))"

definition MetadataV14_Decode :: "(bytes, MetadataV14) goM" where
  "MetadataV14_Decode =
     bindM (fieldD (Decode_slice PortableTypeV14_Decode)) (\<lambda>l.
     bindM (Decode_slice PalletMetadataV14_Decode) (\<lambda>ps.
     bindM ExtrinsicV14_Decode (\<lambda>e.
     bindM UCompact_Decode (\<lambda>t.
       retM \<lparr>Lookup = l, Pallets = ps, mdExtrinsic = e, mdType = t, EfficientLookup = toMap l\<rparr>))))"

end
