(* ===== verification/MetadataV14_Contract.thy ===== *)
theory MetadataV14_Contract
  imports MetadataV14
begin

text \<open>
  The codec contracts of the version 14 metadata, bottom up: each type's domain of validity
  and the interpretation of \<open>scale_codec\<close> on the type's encoder and decoder, ending in the
  round trip of the whole metadata with its lookup table rebuilt.
\<close>

section \<open>Domains\<close>

definition id_ok :: "int \<Rightarrow> bool" where
  "id_ok t \<longleftrightarrow> 0 \<le> t \<and> t < 2 ^ 536"

definition text_ok :: "string \<Rightarrow> bool" where
  "text_ok s \<longleftrightarrow> length s < 2 ^ 32"

definition slice_ok :: "('a \<Rightarrow> bool) \<Rightarrow> 'a list \<Rightarrow> bool" where
  "slice_ok P xs \<longleftrightarrow> length xs < 2 ^ 32 \<and> list_all P xs"

definition option_ok :: "('a \<Rightarrow> bool) \<Rightarrow> 'a \<Rightarrow> bool \<Rightarrow> 'a \<Rightarrow> bool" where
  "option_ok P zero h v \<longleftrightarrow> (if h then P v else v = zero)"

definition param_ok :: "Si1TypeParameter \<Rightarrow> bool" where
  "param_ok d \<longleftrightarrow> text_ok (tpName d) \<and> option_ok id_ok 0 (tpHasType d) (tpType d)"

definition field_ok :: "Si1Field \<Rightarrow> bool" where
  "field_ok d \<longleftrightarrow> option_ok text_ok [] (HasName d) (fName d) \<and> id_ok (fType d) \<and>
     option_ok text_ok [] (HasTypeName d) (fTypeName d) \<and> slice_ok text_ok (fDocs d)"

definition variant_ok :: "Si1Variant \<Rightarrow> bool" where
  "variant_ok v \<longleftrightarrow> text_ok (vName v) \<and> slice_ok field_ok (vFields v) \<and> slice_ok text_ok (vDocs v)"

text \<open>A type definition has one flag set and only the payload that goes with it.\<close>

definition typedef_ok :: "Si1TypeDef \<Rightarrow> bool" where
  "typedef_ok d \<longleftrightarrow>
     (\<exists>fs. slice_ok field_ok fs \<and> d = zero_typedef\<lparr>IsComposite := True, CompositeFields := fs\<rparr>) \<or>
     (\<exists>vs. slice_ok variant_ok vs \<and> d = zero_typedef\<lparr>IsVariant := True, Variants := vs\<rparr>) \<or>
     (\<exists>t. id_ok t \<and> d = zero_typedef\<lparr>IsSequence := True, SequenceType := t\<rparr>) \<or>
     (\<exists>n t. id_ok t \<and> d = zero_typedef\<lparr>IsArray := True, ArrayLen := n, ArrayType := t\<rparr>) \<or>
     (\<exists>ts. slice_ok id_ok ts \<and> d = zero_typedef\<lparr>IsTuple := True, Tuple := tuple_slice ts\<rparr>) \<or>
     (\<exists>b. b \<le> 14 \<and> d = zero_typedef\<lparr>IsPrimitive := True, Primitive := b\<rparr>) \<or>
     (\<exists>t. id_ok t \<and> d = zero_typedef\<lparr>IsCompact := True, CompactType := t\<rparr>) \<or>
     (\<exists>s t. id_ok s \<and> id_ok t \<and> d = zero_typedef\<lparr>IsBitSequence := True, BitStoreType := s, BitOrderType := t\<rparr>) \<or>
     (\<exists>h. text_ok h \<and> d = zero_typedef\<lparr>IsHistoricMetaCompat := True, HistoricMetaCompat := h\<rparr>)"

definition type_ok :: "Si1Type \<Rightarrow> bool" where
  "type_ok t \<longleftrightarrow> slice_ok text_ok (tPath t) \<and> slice_ok param_ok (tParams t) \<and> typedef_ok (tDef t) \<and>
     slice_ok text_ok (tDocs t)"

definition portable_ok :: "PortableTypeV14 \<Rightarrow> bool" where
  "portable_ok p \<longleftrightarrow> id_ok (ptID p) \<and> type_ok (ptType p)"

section \<open>Strings and containers\<close>

lemma text_roundtrip: "text_ok s \<Longrightarrow> rt (Text_Encode s) Text_Decode s"
  unfolding Text_Encode_def Text_Decode_def
  by (rule rt_last [where a = "map byte_of_char s"], rule byte.rt_slice)
    (simp_all add: text_ok_def list_all_iff o_def)

interpretation str: scale_codec Text_Encode Text_Decode text_ok
  by unfold_locales (rule text_roundtrip)

lemma slice_contract: "scale_codec e d P \<Longrightarrow> scale_codec (Encode_slice e) (Decode_slice d) (slice_ok P)"
  using scale_codec_slice [of e d P] by (simp add: slice_ok_def [abs_def])

lemma option_contract:
  "scale_codec e d P \<Longrightarrow> option_ok P z h v \<Longrightarrow> rt (EncodeOption e h v) (DecodeOption d z) (h, v)"
  by (rule scale_codec.rt_option [of e d P]) (auto simp: option_ok_def split: if_splits)

interpretation tid: scale_codec UCompact_Encode UCompact_Decode id_ok
  using ucompact.scale_codec_axioms by (simp add: id_ok_def [abs_def])

interpretation texts: scale_codec "Encode_slice Text_Encode" "Decode_slice Text_Decode" "slice_ok text_ok"
  by (rule slice_contract) (rule str.scale_codec_axioms)

interpretation tids: scale_codec "Encode_slice UCompact_Encode" "Decode_slice UCompact_Decode" "slice_ok id_ok"
  by (rule slice_contract) (rule tid.scale_codec_axioms)

interpretation raw: scale_codec "Encode_slice Encode_byte" "Decode_slice Decode_byte" "slice_ok (\<lambda>_. True)"
  by (rule slice_contract) (rule byte.scale_codec_axioms)

lemmas leaf_roundtrips =
  str.roundtrip tid.roundtrip texts.roundtrip tids.roundtrip raw.roundtrip u8.roundtrip u32.roundtrip
  option_contract [OF tid.scale_codec_axioms] option_contract [OF str.scale_codec_axioms]

section \<open>The portable types\<close>

interpretation param: scale_codec Si1TypeParameter_Encode Si1TypeParameter_Decode param_ok
proof
  fix d
  assume "param_ok d"
  then show "rt (Si1TypeParameter_Encode d) Si1TypeParameter_Decode d"
    unfolding Si1TypeParameter_Encode_def Si1TypeParameter_Decode_def
    by (cases d, intro rt_struct) (rule leaf_roundtrips, simp add: param_ok_def, simp?)+
qed

interpretation field: scale_codec Si1Field_Encode Si1Field_Decode field_ok
proof
  fix d
  assume "field_ok d"
  then show "rt (Si1Field_Encode d) Si1Field_Decode d"
    unfolding Si1Field_Encode_def Si1Field_Decode_def
    by (cases d, intro rt_struct) (rule leaf_roundtrips, simp add: field_ok_def, simp?)+
qed

interpretation fields: scale_codec "Encode_slice Si1Field_Encode" "Decode_slice Si1Field_Decode" "slice_ok field_ok"
  by (rule slice_contract) (rule field.scale_codec_axioms)

interpretation variant: scale_codec Si1Variant_Encode Si1Variant_Decode variant_ok
proof
  fix v
  assume "variant_ok v"
  then show "rt (Si1Variant_Encode v) Si1Variant_Decode v"
    unfolding Si1Variant_Encode_def Si1Variant_Decode_def
    by (cases v, intro rt_struct) (rule leaf_roundtrips fields.roundtrip, simp add: variant_ok_def, simp?)+
qed

interpretation variants: scale_codec "Encode_slice Si1Variant_Encode" "Decode_slice Si1Variant_Decode" "slice_ok variant_ok"
  by (rule slice_contract) (rule variant.scale_codec_axioms)


lemma primitive_roundtrip: "b \<le> 14 \<Longrightarrow> rt (fieldE (Encode_word Uint8 b)) Primitive_Decode b"
proof -
  assume "b \<le> 14"
  moreover have "writes (Encode_word Uint8 b) [b]"
    by (simp add: writes_def Encode_word_def binary_Write_def)
  ultimately show ?thesis
    by (intro rtI [of _ "[b]"] writes_wrapM) (simp_all add: reads_def Primitive_Decode_def)
qed

lemma rt_variant_tag:
  assumes "e = seqM (PushByte b) e'" and "f b = d" and "rt e' d v"
  shows "rt e (bindM ReadOneByte f) v"
  unfolding assms(1)
proof (rule rt_seqM)
  show "rt (PushByte b) ReadOneByte b"
    by (rule rtI [of _ "[b]"]) (simp_all add: writes_PushByte reads_def)
  show "rt e' (f b) v"
    using assms(2,3) by simp
qed


lemma tuple_items_slice [simp]: "tuple_items (tuple_slice ts) = ts"
  by (simp add: tuple_items_def tuple_slice_def)

text \<open>The nine forms of a type definition, each under its tag.\<close>

lemmas typedef_roundtrips = leaf_roundtrips fields.roundtrip variants.roundtrip primitive_roundtrip

interpretation tydef: scale_codec Si1TypeDef_Encode Si1TypeDef_Decode typedef_ok
proof
  fix d
  assume "typedef_ok d"
  then show "rt (Si1TypeDef_Encode d) Si1TypeDef_Decode d"
    unfolding typedef_ok_def Si1TypeDef_Decode_def
    by (elim disjE exE conjE)
      (rule rt_variant_tag, simp add: Si1TypeDef_Encode_def zero_typedef_def, simp,
       (intro rt_struct)?, (rule typedef_roundtrips, simp?)+, simp?)+
qed

interpretation params: scale_codec "Encode_slice Si1TypeParameter_Encode" "Decode_slice Si1TypeParameter_Decode"
  "slice_ok param_ok"
  by (rule slice_contract) (rule param.scale_codec_axioms)

interpretation si1type: scale_codec Si1Type_Encode Si1Type_Decode type_ok
proof
  fix t
  assume "type_ok t"
  then show "rt (Si1Type_Encode t) Si1Type_Decode t"
    unfolding Si1Type_Encode_def Si1Type_Decode_def
    by (cases t, intro rt_struct)
      (rule leaf_roundtrips params.roundtrip tydef.roundtrip, simp add: type_ok_def, simp?)+
qed

interpretation portable: scale_codec PortableTypeV14_Encode PortableTypeV14_Decode portable_ok
proof
  fix p
  assume "portable_ok p"
  then show "rt (PortableTypeV14_Encode p) PortableTypeV14_Decode p"
    unfolding PortableTypeV14_Encode_def PortableTypeV14_Decode_def
    by (cases p, intro rt_struct) (rule leaf_roundtrips si1type.roundtrip, simp add: portable_ok_def, simp?)+
qed

section \<open>The pallets\<close>

definition map_ok :: "MapTypeV14 \<Rightarrow> bool" where
  "map_ok m \<longleftrightarrow> slice_ok hasher_ok (mHashers m) \<and> id_ok (mKey m) \<and> id_ok (mValue m)"

definition entry_type_ok :: "StorageEntryTypeV14 \<Rightarrow> bool" where
  "entry_type_ok s \<longleftrightarrow>
     (\<exists>t. id_ok t \<and> s = \<lparr>IsPlainType = True, AsPlainType = t, IsMap = False, AsMap = zero_map_type\<rparr>) \<or>
     (\<exists>m. map_ok m \<and> s = \<lparr>IsPlainType = False, AsPlainType = 0, IsMap = True, AsMap = m\<rparr>)"

definition entry_ok :: "StorageEntryMetadataV14 \<Rightarrow> bool" where
  "entry_ok s \<longleftrightarrow> text_ok (seName s) \<and> modifier_ok (seModifier s) \<and> entry_type_ok (seType s) \<and>
     slice_ok (\<lambda>_. True) (seFallback s) \<and> slice_ok text_ok (seDocumentation s)"

definition storage_ok :: "StorageMetadataV14 \<Rightarrow> bool" where
  "storage_ok s \<longleftrightarrow> text_ok (smPrefix s) \<and> slice_ok entry_ok (smItems s)"

definition constant_ok :: "ConstantMetadataV14 \<Rightarrow> bool" where
  "constant_ok c \<longleftrightarrow> text_ok (cName c) \<and> id_ok (cType c) \<and> slice_ok (\<lambda>_. True) (cValue c) \<and>
     slice_ok text_ok (cDocs c)"

definition pallet_ok :: "PalletMetadataV14 \<Rightarrow> bool" where
  "pallet_ok m \<longleftrightarrow> text_ok (pName m) \<and> option_ok storage_ok zero_storage (HasStorage m) (pStorage m) \<and>
     option_ok id_ok 0 (HasCalls m) (pCalls m) \<and> option_ok id_ok 0 (HasEvents m) (pEvents m) \<and>
     slice_ok constant_ok (pConstants m) \<and> option_ok id_ok 0 (HasErrors m) (pErrors m)"

definition extension_ok :: "SignedExtensionMetadataV14 \<Rightarrow> bool" where
  "extension_ok x \<longleftrightarrow> text_ok (xIdentifier x) \<and> id_ok (xType x) \<and> id_ok (xAdditionalSigned x)"

definition extrinsic_ok :: "ExtrinsicV14 \<Rightarrow> bool" where
  "extrinsic_ok e \<longleftrightarrow> id_ok (exType e) \<and> slice_ok extension_ok (exSignedExtensions e)"

definition metadata_ok :: "MetadataV14 \<Rightarrow> bool" where
  "metadata_ok m \<longleftrightarrow> slice_ok portable_ok (Lookup m) \<and> slice_ok pallet_ok (Pallets m) \<and>
     extrinsic_ok (mdExtrinsic m) \<and> id_ok (mdType m)"

interpretation hashers: scale_codec "Encode_slice StorageHasherV10_Encode" "Decode_slice StorageHasherV10_Decode"
  "slice_ok hasher_ok"
  by (rule slice_contract) (rule hasherV10.scale_codec_axioms)

interpretation mapV14: scale_codec MapTypeV14_Encode MapTypeV14_Decode map_ok
proof
  fix m
  assume "map_ok m"
  then show "rt (MapTypeV14_Encode m) MapTypeV14_Decode m"
    unfolding MapTypeV14_Encode_def MapTypeV14_Decode_def
    by (cases m, intro rt_struct) (rule leaf_roundtrips hashers.roundtrip, simp add: map_ok_def, simp?)+
qed

interpretation entry_type: scale_codec StorageEntryTypeV14_Encode StorageEntryTypeV14_Decode entry_type_ok
proof
  fix s
  assume "entry_type_ok s"
  then show "rt (StorageEntryTypeV14_Encode s) StorageEntryTypeV14_Decode s"
    unfolding entry_type_ok_def StorageEntryTypeV14_Decode_def
    by (elim disjE exE conjE)
      (rule rt_variant_tag, simp add: StorageEntryTypeV14_Encode_def, simp,
       intro rt_struct, rule leaf_roundtrips mapV14.roundtrip, simp, simp)+
qed

interpretation entry: scale_codec StorageEntryMetadataV14_Encode StorageEntryMetadataV14_Decode entry_ok
proof
  fix s
  assume "entry_ok s"
  then show "rt (StorageEntryMetadataV14_Encode s) StorageEntryMetadataV14_Decode s"
    unfolding StorageEntryMetadataV14_Encode_def StorageEntryMetadataV14_Decode_def
    by (cases s, intro rt_struct)
      (rule leaf_roundtrips modifier.roundtrip entry_type.roundtrip, simp add: entry_ok_def, simp?)+
qed

interpretation entries: scale_codec "Encode_slice StorageEntryMetadataV14_Encode"
  "Decode_slice StorageEntryMetadataV14_Decode" "slice_ok entry_ok"
  by (rule slice_contract) (rule entry.scale_codec_axioms)

interpretation storage: scale_codec StorageMetadataV14_Encode StorageMetadataV14_Decode storage_ok
proof
  fix s
  assume "storage_ok s"
  then show "rt (StorageMetadataV14_Encode s) StorageMetadataV14_Decode s"
    unfolding StorageMetadataV14_Encode_def StorageMetadataV14_Decode_def
    by (cases s, intro rt_struct) (rule leaf_roundtrips entries.roundtrip, simp add: storage_ok_def, simp?)+
qed

interpretation const: scale_codec ConstantMetadataV14_Encode ConstantMetadataV14_Decode constant_ok
proof
  fix c
  assume "constant_ok c"
  then show "rt (ConstantMetadataV14_Encode c) ConstantMetadataV14_Decode c"
    unfolding ConstantMetadataV14_Encode_def ConstantMetadataV14_Decode_def
    by (cases c, intro rt_struct) (rule leaf_roundtrips, simp add: constant_ok_def, simp?)+
qed

interpretation constants: scale_codec "Encode_slice ConstantMetadataV14_Encode"
  "Decode_slice ConstantMetadataV14_Decode" "slice_ok constant_ok"
  by (rule slice_contract) (rule const.scale_codec_axioms)

interpretation type_only: scale_codec TypeOnly_Encode TypeOnly_Decode id_ok
  by unfold_locales (simp add: TypeOnly_Encode_def TypeOnly_Decode_def rt_wrapM tid.roundtrip)

interpretation pallet: scale_codec PalletMetadataV14_Encode PalletMetadataV14_Decode pallet_ok
proof
  fix m
  assume "pallet_ok m"
  then show "rt (PalletMetadataV14_Encode m) PalletMetadataV14_Decode m"
    unfolding PalletMetadataV14_Encode_def PalletMetadataV14_Decode_def
    by (cases m, intro rt_struct)
      (rule leaf_roundtrips constants.roundtrip option_contract [OF storage.scale_codec_axioms]
         option_contract [OF type_only.scale_codec_axioms], simp add: pallet_ok_def, simp?)+
qed

interpretation extension: scale_codec SignedExtensionMetadataV14_Encode SignedExtensionMetadataV14_Decode extension_ok
proof
  fix x
  assume "extension_ok x"
  then show "rt (SignedExtensionMetadataV14_Encode x) SignedExtensionMetadataV14_Decode x"
    unfolding SignedExtensionMetadataV14_Encode_def SignedExtensionMetadataV14_Decode_def
    by (cases x, intro rt_struct) (rule leaf_roundtrips, simp add: extension_ok_def, simp?)+
qed

interpretation extensions: scale_codec "Encode_slice SignedExtensionMetadataV14_Encode"
  "Decode_slice SignedExtensionMetadataV14_Decode" "slice_ok extension_ok"
  by (rule slice_contract) (rule extension.scale_codec_axioms)

interpretation extrinsicV14: scale_codec ExtrinsicV14_Encode ExtrinsicV14_Decode extrinsic_ok
proof
  fix e
  assume "extrinsic_ok e"
  then show "rt (ExtrinsicV14_Encode e) ExtrinsicV14_Decode e"
    unfolding ExtrinsicV14_Encode_def ExtrinsicV14_Decode_def
    by (cases e, intro rt_struct) (rule leaf_roundtrips extensions.roundtrip, simp add: extrinsic_ok_def, simp?)+
qed

interpretation portables: scale_codec "Encode_slice PortableTypeV14_Encode" "Decode_slice PortableTypeV14_Decode"
  "slice_ok portable_ok"
  by (rule slice_contract) (rule portable.scale_codec_axioms)

interpretation pallets: scale_codec "Encode_slice PalletMetadataV14_Encode" "Decode_slice PalletMetadataV14_Decode"
  "slice_ok pallet_ok"
  by (rule slice_contract) (rule pallet.scale_codec_axioms)

section \<open>The whole metadata\<close>

text \<open>The encoder and decoder wrap errors in different places, which the bytes do not show.\<close>

lemma rt_wrap_left: "rt e d v \<Longrightarrow> rt (wrapM w e) d v"
  by (auto simp: rt_def intro: writes_wrapM)

lemmas metadata_roundtrips =
  portables.roundtrip pallets.roundtrip extrinsicV14.roundtrip tid.roundtrip

lemma metadata_rt:
  "metadata_ok m \<Longrightarrow> rt (MetadataV14_Encode m) MetadataV14_Decode (m\<lparr>EfficientLookup := toMap (Lookup m)\<rparr>)"
  unfolding MetadataV14_Encode_def MetadataV14_Decode_def
  by (cases m, intro rt_struct rt_wrap_left)
    (rule metadata_roundtrips, simp add: metadata_ok_def, simp?)+

end
