(* ===== verification/MetadataV14_Find.thy ===== *)
theory MetadataV14_Find
  imports MetadataV14_Contract
begin

text \<open>
  The queries of the version 14 metadata of \<open>src/types/metadataV14.go\<close>: calls, events,
  storage entries, errors, constants and modules, each a search through the pallets and,
  by way of the lookup table, through the variants of a type. A search that a Go loop
  makes is recursion over the list; an index out of range is a panic.
\<close>

section \<open>Strings\<close>

text \<open>\<open>strings.Split(s, ".")\<close>: never empty, a string without the separator is its only part.\<close>

fun Split :: "char \<Rightarrow> string \<Rightarrow> string list" where
  "Split c [] = [[]]"
| "Split c (x # xs) =
     (if x = c then [] # Split c xs
      else (case Split c xs of [] \<Rightarrow> [[x]] | p # ps \<Rightarrow> (x # p) # ps))"

fun Join :: "string \<Rightarrow> string list \<Rightarrow> string" where
  "Join sep [] = []"
| "Join sep [s] = s"
| "Join sep (s # ss) = s @ sep @ Join sep ss"

definition hex_digit :: "nat \<Rightarrow> char" where
  "hex_digit n = char_of (if n < 10 then 48 + n else 87 + n)"

definition hex_byte :: "byte \<Rightarrow> string" where
  "hex_byte b = [hex_digit (unat b div 16), hex_digit (unat b mod 16)]"

text \<open>\<open>fmt\<close> of an array of 8-bit integers, with \<open>%d\<close> and with \<open>%x\<close>.\<close>

definition format_array :: "uint8 list \<Rightarrow> string" where
  "format_array xs = ''['' @ Join '' '' (map (\<lambda>x. string_of_nat (unat x)) xs) @ '']''"

definition format_hex :: "uint8 list \<Rightarrow> string" where
  "format_hex xs = concat (map hex_byte xs)"

section \<open>Calls and events\<close>

record CallIndex =
  SectionIndex :: uint8
  MethodIndex :: uint8

fun find_variant_by_name :: "string \<Rightarrow> Si1Variant list \<Rightarrow> Si1Variant option" where
  "find_variant_by_name n [] = None"
| "find_variant_by_name n (v # vs) = (if vName v = n then Some v else find_variant_by_name n vs)"

fun find_variant_by_index :: "uint8 \<Rightarrow> Si1Variant list \<Rightarrow> Si1Variant option" where
  "find_variant_by_index i [] = None"
| "find_variant_by_index i (v # vs) = (if vIndex v = i then Some v else find_variant_by_index i vs)"

text \<open>The pallet loop of \<open>FindCallIndex\<close>; \<open>s[1]\<close> is read only when there is a variant to compare.\<close>

fun FindCallIndex_loop ::
  "(int \<rightharpoonup> Si1Type) \<Rightarrow> string \<Rightarrow> string list \<Rightarrow> PalletMetadataV14 list \<Rightarrow> CallIndex res" where
  "FindCallIndex_loop lk call s [] =
     Err (ErrorString (''module '' @ s ! 0 @ '' not found in metadata for call '' @ call))"
| "FindCallIndex_loop lk call s (m # ms) =
     (if \<not> HasCalls m then FindCallIndex_loop lk call s ms
      else if pName m \<noteq> s ! 0 then FindCallIndex_loop lk call s ms
      else
        (case lk (UCompact_Int64 (pCalls m)) of
           None \<Rightarrow> FindCallIndex_loop lk call s ms
         | Some typ \<Rightarrow>
             if Variants (tDef typ) = [] then FindCallIndex_loop lk call s ms
             else if length s < 2 then Panic ''index out of range''
             else
               (case find_variant_by_name (s ! 1) (Variants (tDef typ)) of
                  None \<Rightarrow> FindCallIndex_loop lk call s ms
                | Some v \<Rightarrow> Ok \<lparr>SectionIndex = pIndex m, MethodIndex = vIndex v\<rparr>)))"

definition V14_FindCallIndex :: "MetadataV14 \<Rightarrow> string \<Rightarrow> CallIndex res" where
  "V14_FindCallIndex m call = FindCallIndex_loop (EfficientLookup m) call (Split (CHR ''.'') call) (Pallets m)"

fun FindEventNames_loop ::
  "(int \<rightharpoonup> Si1Type) \<Rightarrow> uint8 \<times> uint8 \<Rightarrow> PalletMetadataV14 list \<Rightarrow> (string \<times> string) res" where
  "FindEventNames_loop lk ev [] =
     Err (ErrorString (''module index '' @ string_of_nat (unat (fst ev)) @ '' out of range''))"
| "FindEventNames_loop lk ev (m # ms) =
     (if \<not> HasEvents m then FindEventNames_loop lk ev ms
      else if pIndex m \<noteq> fst ev then FindEventNames_loop lk ev ms
      else
        (case lk (UCompact_Int64 (pEvents m)) of
           None \<Rightarrow> FindEventNames_loop lk ev ms
         | Some typ \<Rightarrow>
             (case find_variant_by_index (snd ev) (Variants (tDef typ)) of
                None \<Rightarrow> FindEventNames_loop lk ev ms
              | Some v \<Rightarrow> Ok (pName m, vName v))))"

definition V14_FindEventNamesForEventID :: "MetadataV14 \<Rightarrow> uint8 \<times> uint8 \<Rightarrow> (string \<times> string) res" where
  "V14_FindEventNamesForEventID m ev = FindEventNames_loop (EfficientLookup m) ev (Pallets m)"

section \<open>Storage entries, errors, constants and modules\<close>

fun find_entry :: "string \<Rightarrow> StorageEntryMetadataV14 list \<Rightarrow> StorageEntryMetadataV14 option" where
  "find_entry fn [] = None"
| "find_entry fn (e # es) = (if seName e = fn then Some e else find_entry fn es)"

fun FindStorageEntry_loop :: "string \<Rightarrow> string \<Rightarrow> PalletMetadataV14 list \<Rightarrow> StorageEntryMetadataV14 res" where
  "FindStorageEntry_loop module fn [] = Err (ErrorString (''module '' @ module @ '' not found in metadata''))"
| "FindStorageEntry_loop module fn (m # ms) =
     (if \<not> HasStorage m then FindStorageEntry_loop module fn ms
      else if smPrefix (pStorage m) \<noteq> module then FindStorageEntry_loop module fn ms
      else
        (case find_entry fn (smItems (pStorage m)) of
           Some e \<Rightarrow> Ok e
         | None \<Rightarrow> Err (ErrorString (''storage '' @ fn @ '' not found within module '' @ module))))"

definition V14_FindStorageEntryMetadata :: "MetadataV14 \<Rightarrow> string \<Rightarrow> string \<Rightarrow> StorageEntryMetadataV14 res" where
  "V14_FindStorageEntryMetadata m module fn = FindStorageEntry_loop module fn (Pallets m)"

record MetadataError =
  meName :: string
  meValue :: string

definition NewMetadataError :: "Si1Variant \<Rightarrow> MetadataError" where
  "NewMetadataError v = \<lparr>meName = vName v, meValue = Join '', '' (vDocs v)\<rparr>"

text \<open>\<open>errorIndex\<close> is an array of four bytes of which only the first is looked up.\<close>

fun FindError_loop ::
  "(int \<rightharpoonup> Si1Type) \<Rightarrow> uint8 \<Rightarrow> uint8 list \<Rightarrow> PalletMetadataV14 list \<Rightarrow> MetadataError res" where
  "FindError_loop lk mi ei [] =
     Err (ErrorString (''could not find error at index '' @ format_array ei @ '' for module '' @ string_of_nat (unat mi)))"
| "FindError_loop lk mi ei (m # ms) =
     (if pIndex m = mi then
        (if HasErrors m then
           (case lk (UCompact_Int64 (pErrors m)) of
              None \<Rightarrow> Err (ErrorString ''error type not found'')
            | Some typ \<Rightarrow>
                if \<not> IsVariant (tDef typ) then Err (ErrorString ''error type definition is not a variant'')
                else
                  (case find_variant_by_index (ei ! 0) (Variants (tDef typ)) of
                     Some v \<Rightarrow> Ok (NewMetadataError v)
                   | None \<Rightarrow> Err (ErrorString (''error at index 0x'' @ format_hex ei @ '' not found''))))
         else Err (ErrorString (''module '' @ string_of_nat (unat mi) @ '' has no errors'')))
      else FindError_loop lk mi ei ms)"

definition V14_FindError :: "MetadataV14 \<Rightarrow> uint8 \<Rightarrow> uint8 list \<Rightarrow> MetadataError res" where
  "V14_FindError m mi ei = FindError_loop (EfficientLookup m) mi ei (Pallets m)"

fun FindConstantValue_pallet :: "string \<Rightarrow> ConstantMetadataV14 list \<Rightarrow> bytes res" where
  "FindConstantValue_pallet c [] = Err (ErrorString (''could not find constant '' @ c))"
| "FindConstantValue_pallet c (k # ks) = (if cName k = c then Ok (cValue k) else FindConstantValue_pallet c ks)"

fun FindConstantValue_loop :: "string \<Rightarrow> string \<Rightarrow> PalletMetadataV14 list \<Rightarrow> bytes res" where
  "FindConstantValue_loop module c [] =
     Err (ErrorString (''could not find constant '' @ module @ ''.'' @ c))"
| "FindConstantValue_loop module c (m # ms) =
     (if pName m = module then
        (case FindConstantValue_pallet c (pConstants m) of
           Ok v \<Rightarrow> Ok v
         | _ \<Rightarrow> FindConstantValue_loop module c ms)
      else FindConstantValue_loop module c ms)"

definition V14_FindConstantValue :: "MetadataV14 \<Rightarrow> string \<Rightarrow> string \<Rightarrow> bytes res" where
  "V14_FindConstantValue m module c = FindConstantValue_loop module c (Pallets m)"

definition V14_ExistsModuleMetadata :: "MetadataV14 \<Rightarrow> string \<Rightarrow> bool" where
  "V14_ExistsModuleMetadata m module = list_ex (\<lambda>p. pName p = module) (Pallets m)"

section \<open>The lookup table\<close>

lemma toMap_loop_other: "\<forall>t\<in>set ts. UCompact_Int64 (ptID t) \<noteq> i \<Longrightarrow> toMap_loop ts m i = m i"
  by (induction ts arbitrary: m) auto

lemma toMap_loop_app: "toMap_loop (xs @ ys) m = toMap_loop ys (toMap_loop xs m)"
  by (induction xs arbitrary: m) auto

text \<open>Later entries win, entries with other ids do not interfere.\<close>

lemma toMap_last:
  assumes "\<forall>t\<in>set ys. UCompact_Int64 (ptID t) \<noteq> UCompact_Int64 (ptID p)"
  shows "toMap (xs @ p # ys) (UCompact_Int64 (ptID p)) = Some (ptType p)"
  using assms by (simp add: toMap_def toMap_loop_app toMap_loop_other)

lemma toMap_dom: "dom (toMap ts) = (\<lambda>t. UCompact_Int64 (ptID t)) ` set ts"
proof -
  have "dom (toMap_loop ts m) = dom m \<union> (\<lambda>t. UCompact_Int64 (ptID t)) ` set ts" for m
    by (induction ts arbitrary: m) auto
  then show ?thesis by (simp add: toMap_def)
qed

lemma toMap_mem: "toMap ts i = Some t \<Longrightarrow> \<exists>p\<in>set ts. ptType p = t \<and> UCompact_Int64 (ptID p) = i"
proof -
  have "toMap_loop ts m i = Some t \<Longrightarrow> m i = Some t \<or> (\<exists>p\<in>set ts. ptType p = t \<and> UCompact_Int64 (ptID p) = i)" for m
    by (induction ts arbitrary: m) (fastforce split: if_splits)+
  from this [of Map.empty] show "toMap ts i = Some t \<Longrightarrow> \<exists>p\<in>set ts. ptType p = t \<and> UCompact_Int64 (ptID p) = i"
    by (simp add: toMap_def)
qed

section \<open>Searches\<close>

lemma find_variant_by_name_Some:
  "find_variant_by_name n vs = Some v \<Longrightarrow> v \<in> set vs \<and> vName v = n"
  by (induction vs) (auto split: if_splits)

lemma find_variant_by_name_None: "find_variant_by_name n vs = None \<longleftrightarrow> (\<forall>v\<in>set vs. vName v \<noteq> n)"
  by (induction vs) auto

lemma find_variant_by_index_Some:
  "find_variant_by_index i vs = Some v \<Longrightarrow> v \<in> set vs \<and> vIndex v = i"
  by (induction vs) (auto split: if_splits)

lemma find_variant_by_index_None: "find_variant_by_index i vs = None \<longleftrightarrow> (\<forall>v\<in>set vs. vIndex v \<noteq> i)"
  by (induction vs) auto

lemma find_variant_by_index_distinct:
  "distinct (map vIndex vs) \<Longrightarrow> v \<in> set vs \<Longrightarrow> find_variant_by_index (vIndex v) vs = Some v"
  by (induction vs) auto

lemma find_variant_by_name_distinct:
  "distinct (map vName vs) \<Longrightarrow> v \<in> set vs \<Longrightarrow> find_variant_by_name (vName v) vs = Some v"
  by (induction vs) auto

lemma Split_no_sep: "c \<notin> set s \<Longrightarrow> Split c s = [s]"
  by (induction s) auto

lemma Split_sep: "c \<notin> set s \<Longrightarrow> Split c (s @ c # t) = s # Split c t"
  by (induction s) auto

lemma Join_Split: "Join [c] (Split c s) = s"
proof (induction s)
  case Nil
  show ?case by simp
next
  case (Cons x s)
  have "Split c s \<noteq> []"
    by (cases s) (auto split: list.splits)
  then obtain p ps where ps: "Split c s = p # ps"
    by (cases "Split c s") auto
  then show ?case
    using Cons.IH by (cases ps) auto
qed


section \<open>Properties\<close>

text \<open>The pallet a call is looked up in, and its variants.\<close>

definition pallet_calls :: "MetadataV14 \<Rightarrow> PalletMetadataV14 \<Rightarrow> Si1Variant list option" where
  "pallet_calls m p =
     (if HasCalls p then map_option (\<lambda>t. Variants (tDef t)) (EfficientLookup m (UCompact_Int64 (pCalls p))) else None)"

definition pallet_events :: "MetadataV14 \<Rightarrow> PalletMetadataV14 \<Rightarrow> Si1Variant list option" where
  "pallet_events m p =
     (if HasEvents p then map_option (\<lambda>t. Variants (tDef t)) (EfficientLookup m (UCompact_Int64 (pEvents p))) else None)"

lemma FindCallIndex_loop_skip:
  "\<forall>q\<in>set qs. pName q \<noteq> s ! 0 \<Longrightarrow> FindCallIndex_loop lk call s (qs @ ms) = FindCallIndex_loop lk call s ms"
  by (induction qs) auto

lemma FindEventNames_loop_skip:
  "\<forall>q\<in>set qs. pIndex q \<noteq> fst ev \<Longrightarrow> FindEventNames_loop lk ev (qs @ ms) = FindEventNames_loop lk ev ms"
  by (induction qs) auto

lemma distinct_split_other:
  assumes "distinct (map f xs)" "x \<in> set xs"
  obtains as bs where "xs = as @ x # bs" "\<forall>y\<in>set as. f y \<noteq> f x"
proof -
  obtain as bs where "xs = as @ x # bs"
    using assms(2) by (auto dest: split_list)
  moreover from this assms(1) have "f x \<notin> f ` set as" by simp
  then have "\<forall>y\<in>set as. f y \<noteq> f x" by (metis imageI)
  ultimately show thesis by (rule that)
qed

text \<open>
  C27: Calling \<open>FindCallIndex\<close> with the pallet and call name joined by a dot gives the
  pallet's and the call variant's index, when names do not repeat and contain no dot, and
  \<open>FindEventNamesForEventID\<close> on a pallet index and event variant index gives back the two
  names, when indices do not repeat.\<close>

theorem find_call_and_event:
  assumes "p \<in> set (Pallets m)" "distinct (map pName (Pallets m))" "distinct (map pIndex (Pallets m))"
    and "pallet_calls m p = Some cs" "c \<in> set cs" "distinct (map vName cs)"
    and "pallet_events m p = Some es" "e \<in> set es" "distinct (map vIndex es)"
    and "CHR ''.'' \<notin> set (pName p)" "CHR ''.'' \<notin> set (vName c)"
  shows "V14_FindCallIndex m (pName p @ ''.'' @ vName c) = Ok \<lparr>SectionIndex = pIndex p, MethodIndex = vIndex c\<rparr> \<and>
         V14_FindEventNamesForEventID m (pIndex p, vIndex e) = Ok (pName p, vName e)"
proof
  obtain as bs where ab: "Pallets m = as @ p # bs" "\<forall>q\<in>set as. pName q \<noteq> pName p"
    using assms(2,1) by (rule distinct_split_other)
  obtain t where t: "HasCalls p" "EfficientLookup m (UCompact_Int64 (pCalls p)) = Some t" "Variants (tDef t) = cs"
    using assms(4) by (auto simp: pallet_calls_def split: if_splits)
  have "cs \<noteq> []" using assms(5) by auto
  moreover have "find_variant_by_name (vName c) cs = Some c"
    using assms(5,6) by (simp add: find_variant_by_name_distinct)
  ultimately show "V14_FindCallIndex m (pName p @ ''.'' @ vName c) = Ok \<lparr>SectionIndex = pIndex p, MethodIndex = vIndex c\<rparr>"
    using assms(10,11) ab t by (simp add: V14_FindCallIndex_def Split_sep Split_no_sep FindCallIndex_loop_skip)
next
  obtain as bs where ab: "Pallets m = as @ p # bs" "\<forall>q\<in>set as. pIndex q \<noteq> pIndex p"
    using assms(3,1) by (rule distinct_split_other)
  obtain t where t: "HasEvents p" "EfficientLookup m (UCompact_Int64 (pEvents p)) = Some t" "Variants (tDef t) = es"
    using assms(7) by (auto simp: pallet_events_def split: if_splits)
  have "find_variant_by_index (vIndex e) es = Some e"
    using assms(8,9) by (simp add: find_variant_by_index_distinct)
  then show "V14_FindEventNamesForEventID m (pIndex p, vIndex e) = Ok (pName p, vName e)"
    using ab t by (simp add: V14_FindEventNamesForEventID_def FindEventNames_loop_skip)
qed

text \<open>A metadata of two pallets that share the call and event enumeration.\<close>

definition sample_type :: Si1Type where
  "sample_type = \<lparr>tPath = [], tParams = [],
     tDef = zero_typedef\<lparr>IsVariant := True,
       Variants := [\<lparr>vName = ''remark'', vFields = [], vIndex = 1, vDocs = [''a'', ''b'']\<rparr>,
                    \<lparr>vName = ''kill'', vFields = [], vIndex = 4, vDocs = []\<rparr>]\<rparr>, tDocs = []\<rparr>"

definition sample_pallet :: "string \<Rightarrow> uint8 \<Rightarrow> PalletMetadataV14" where
  "sample_pallet n i = \<lparr>pName = n, HasStorage = False, pStorage = zero_storage, HasCalls = True, pCalls = 7,
     HasEvents = True, pEvents = 7, pConstants = [], HasErrors = True, pErrors = 7, pIndex = i\<rparr>"

definition sample_metadata :: MetadataV14 where
  "sample_metadata = \<lparr>Lookup = [\<lparr>ptID = 7, ptType = sample_type\<rparr>],
     Pallets = [sample_pallet ''Timestamp'' 3, sample_pallet ''System'' 0],
     mdExtrinsic = \<lparr>exType = 7, exVersion = 4, exSignedExtensions = []\<rparr>, mdType = 7,
     EfficientLookup = toMap [\<lparr>ptID = 7, ptType = sample_type\<rparr>]\<rparr>"

lemma UCompact_Int64_7 [simp]: "UCompact_Int64 7 = 7"
  by (simp add: UCompact_Int64_def BigInt_Int64_small)

lemma sample_lookup [simp]: "EfficientLookup sample_metadata 7 = Some sample_type"
  by (simp add: sample_metadata_def toMap_def)

theorem find_call_and_event_witness:
  "V14_FindCallIndex sample_metadata ''System.kill'' = Ok \<lparr>SectionIndex = 0, MethodIndex = 4\<rparr> \<and>
   V14_FindEventNamesForEventID sample_metadata (0, 1) = Ok (''System'', ''remark'')"
  using find_call_and_event [of "sample_pallet ''System'' 0" sample_metadata "Variants (tDef sample_type)"
      "Variants (tDef sample_type) ! 1" "Variants (tDef sample_type)" "Variants (tDef sample_type) ! 0"]
  by (simp add: pallet_calls_def pallet_events_def sample_pallet_def)
    (simp add: sample_metadata_def sample_pallet_def sample_type_def)

text \<open>
  \<open>FindCallIndex\<close> panics, instead of returning its error, on a call name without a dot
  that is the name of a pallet with at least one call.\<close>

theorem find_call_without_dot_panics:
  assumes "p \<in> set (Pallets m)" "distinct (map pName (Pallets m))"
    and "pallet_calls m p = Some cs" "cs \<noteq> []" "CHR ''.'' \<notin> set (pName p)"
  shows "V14_FindCallIndex m (pName p) = Panic ''index out of range''"
proof -
  obtain as bs where ab: "Pallets m = as @ p # bs" "\<forall>q\<in>set as. pName q \<noteq> pName p"
    using assms(2,1) by (rule distinct_split_other)
  obtain t where "HasCalls p" "EfficientLookup m (UCompact_Int64 (pCalls p)) = Some t" "Variants (tDef t) = cs"
    using assms(3) by (auto simp: pallet_calls_def split: if_splits)
  then show ?thesis
    using assms(4,5) ab by (simp add: V14_FindCallIndex_def Split_no_sep FindCallIndex_loop_skip)
qed

theorem find_call_without_dot_panics_witness:
  "V14_FindCallIndex sample_metadata ''System'' = Panic ''index out of range''"
  using find_call_without_dot_panics [of "sample_pallet ''System'' 0" sample_metadata "Variants (tDef sample_type)"]
  by (simp add: pallet_calls_def sample_pallet_def)
    (simp add: sample_metadata_def sample_pallet_def sample_type_def)

text \<open>
  A version 14 metadata whose parts fit their wire formats encodes without error and the
  decoder reads exactly those bytes back to the same metadata, with the lookup table rebuilt
  from the type registry.\<close>

theorem MetadataV14_roundtrip:
  assumes "metadata_ok m"
  shows "\<exists>bs. MetadataV14_Encode m [] = (Ok (), bs) \<and>
    MetadataV14_Decode (bs @ rest) = (Ok (m\<lparr>EfficientLookup := toMap (Lookup m)\<rparr>), rest)"
  using metadata_rt [OF assms] by (auto simp: rt_def writes_def reads_def)

lemma sample_ok: "metadata_ok sample_metadata"
proof -
  have "typedef_ok (tDef sample_type)"
    unfolding typedef_ok_def
    by (rule disjI2, rule disjI1, rule exI [of _ "Variants (tDef sample_type)"])
      (simp add: sample_type_def slice_ok_def variant_ok_def text_ok_def)
  then have "portable_ok \<lparr>ptID = 7, ptType = sample_type\<rparr>"
    by (simp add: portable_ok_def type_ok_def id_ok_def) (simp add: sample_type_def slice_ok_def)
  then show ?thesis
    by (simp add: metadata_ok_def sample_metadata_def extrinsic_ok_def slice_ok_def id_ok_def pallet_ok_def
        sample_pallet_def option_ok_def text_ok_def)
qed

theorem MetadataV14_roundtrip_witness:
  "\<exists>bs. MetadataV14_Encode sample_metadata [] = (Ok (), bs) \<and>
    MetadataV14_Decode (bs @ [1, 2]) = (Ok sample_metadata, [1, 2])"
  using MetadataV14_roundtrip [OF sample_ok, of "[1, 2]"] by (simp add: sample_metadata_def)

text \<open>
  After decoding, looking up the id of any entry of the type registry whose id is not
  repeated later gives that entry's type, and only ids of entries have a type.\<close>

theorem decoded_lookup:
  assumes "MetadataV14_Decode s = (Ok m, s')"
    and "Lookup m = xs @ p # ys" "\<forall>q\<in>set ys. UCompact_Int64 (ptID q) \<noteq> UCompact_Int64 (ptID p)"
  shows "EfficientLookup m (UCompact_Int64 (ptID p)) = Some (ptType p) \<and>
    dom (EfficientLookup m) = (\<lambda>q. UCompact_Int64 (ptID q)) ` set (Lookup m)"
proof -
  have "EfficientLookup m = toMap (Lookup m)"
    using assms(1) by (auto simp: MetadataV14_Decode_def goM_iffs)
  then show ?thesis
    using toMap_last [OF assms(3), of xs] assms(2) toMap_dom [of "Lookup m"] by simp
qed

theorem decoded_lookup_witness:
  "\<exists>bs m. MetadataV14_Decode bs = (Ok m, []) \<and> EfficientLookup m 7 = Some sample_type"
proof -
  obtain bs where "MetadataV14_Decode (bs @ []) = (Ok (sample_metadata\<lparr>EfficientLookup := toMap (Lookup sample_metadata)\<rparr>), [])"
    using metadata_rt [OF sample_ok] by (auto simp: rt_def reads_def)
  then have d: "MetadataV14_Decode bs = (Ok sample_metadata, [])"
    by (simp add: sample_metadata_def)
  moreover have "EfficientLookup sample_metadata 7 = Some sample_type"
    using decoded_lookup [OF d, of "[]" "\<lparr>ptID = 7, ptType = sample_type\<rparr>" "[]"] by (simp add: sample_metadata_def)
  ultimately show ?thesis by blast
qed

end
