(* ===== verification/BitVec.thy ===== *)
theory BitVec
  imports BigInts
begin

text \<open>
  Bit vectors of \<open>src/types/bitvec.go\<close>: a compact number of bits, the bytes that hold them,
  and the printed form with the bits in the order of the vector.
\<close>

datatype BitOrder = BitOrderLsb0 | BitOrderMsb0

fun BitOrderName :: "BitOrder \<Rightarrow> string" where
  "BitOrderName BitOrderLsb0 = ''Lsb0''"
| "BitOrderName BitOrderMsb0 = ''Msb0''"

definition NewBitOrderFromString :: "string \<Rightarrow> BitOrder res" where
  "NewBitOrderFromString s =
     (if s = ''Lsb0'' then Ok BitOrderLsb0
      else if s = ''Msb0'' then Ok BitOrderMsb0
      else Err (ErrorString (''bit order '' @ [CHR 0x27] @ s @ [CHR 0x27] @ '' not supported'')))"

record BitVec =
  bvBitOrder :: BitOrder
  ByteSlice :: bytes

definition NewBitVec :: "BitOrder \<Rightarrow> BitVec" where
  "NewBitVec ord = \<lparr>bvBitOrder = ord, ByteSlice = []\<rparr>"

text \<open>\<open>bits.Reverse8\<close>: bit \<open>i\<close> becomes bit \<open>7 - i\<close>.\<close>

definition Reverse8 :: "byte \<Rightarrow> byte" where
  "Reverse8 b = horner_sum of_bool 2 (rev (map (bit b) [0..<8]))"

text \<open>
  \<open>float64(n)\<close> for an unsigned 64-bit \<open>n\<close>: exact below \<open>2 ^ 53\<close>, otherwise rounded to the
  nearest number with 53 significant bits, ties to even.
\<close>

fun excess_bits :: "nat \<Rightarrow> nat" where
  "excess_bits n = (if n < 2 ^ 53 then 0 else Suc (excess_bits (n div 2)))"

declare excess_bits.simps [simp del]

definition float64_of_nat :: "nat \<Rightarrow> nat" where
  "float64_of_nat n =
     (let u = 2 ^ excess_bits n; q = n div u; r = n mod u in
      (if 2 * r > u \<or> (2 * r = u \<and> odd q) then q + 1 else q) * u)"

text \<open>\<open>uint(math.Ceil(float64(n) / 8))\<close>; the division by eight is exact.\<close>

definition GetMinimumNumberOfBytes :: "(bytes, nat) goM" where
  "GetMinimumNumberOfBytes =
     bindM DecodeUintCompact (\<lambda>nb.
       let numberOfBits = unat (BigInt_Uint64 nb) in
       if numberOfBits = 0 then failM (ErrorString ''invalid number of bits'')
       else retM ((float64_of_nat numberOfBits + 7) div 8))"

fun BitVec_Decode_loop :: "nat \<Rightarrow> BitVec \<Rightarrow> (bytes, BitVec) goM" where
  "BitVec_Decode_loop 0 b = retM b"
| "BitVec_Decode_loop (Suc n) b =
     bindM ReadOneByte (\<lambda>d.
       let d' = (if bvBitOrder b = BitOrderLsb0 then Reverse8 d else d) in
       BitVec_Decode_loop n (b\<lparr>ByteSlice := ByteSlice b @ [d']\<rparr>))"

definition BitVec_Decode :: "BitVec \<Rightarrow> (bytes, BitVec) goM" where
  "BitVec_Decode b = bindM GetMinimumNumberOfBytes (\<lambda>n. BitVec_Decode_loop n b)"

text \<open>\<open>%08b\<close>: eight binary digits, most significant first.\<close>

definition binary_digits :: "byte \<Rightarrow> string" where
  "binary_digits b = map (\<lambda>i. if bit b i then CHR ''1'' else CHR ''0'') (rev [0..<8])"

definition BitVec_String :: "BitVec \<Rightarrow> string" where
  "BitVec_String b = ''0b'' @ concat (map binary_digits (ByteSlice b))"

section \<open>Bytes and bits\<close>

lemma bit_Reverse8: "bit (Reverse8 b) i \<longleftrightarrow> i < 8 \<and> bit b (7 - i)"
proof (cases "i < 8")
  case True
  then show ?thesis
    by (simp add: Reverse8_def bit_horner_sum_bit_word_iff rev_nth)
next
  case False
  then show ?thesis using bit_imp_le_length [of "Reverse8 b" i] by auto
qed

lemma Reverse8_Reverse8 [simp]: "Reverse8 (Reverse8 b) = b"
  by (rule bit_word_eqI) (auto simp: bit_Reverse8)

lemma float64_of_nat_small: "n < 2 ^ 53 \<Longrightarrow> float64_of_nat n = n"
  by (simp add: float64_of_nat_def excess_bits.simps)

text \<open>The digits of a vector, in the order its bits are numbered in the input.\<close>

definition bit_at :: "BitOrder \<Rightarrow> byte \<Rightarrow> nat \<Rightarrow> bool" where
  "bit_at ord b i = (case ord of BitOrderLsb0 \<Rightarrow> bit b i | BitOrderMsb0 \<Rightarrow> bit b (7 - i))"

definition bit_digits :: "BitOrder \<Rightarrow> byte \<Rightarrow> string" where
  "bit_digits ord b = map (\<lambda>i. if bit_at ord b i then CHR ''1'' else CHR ''0'') [0..<8]"

lemma rev_upt_8: "rev [0..<8] = map (\<lambda>i. 7 - i) [0..<8::nat]"
  by (simp add: upt_rec)

lemma binary_digits_order:
  "binary_digits (if ord = BitOrderLsb0 then Reverse8 b else b) = bit_digits ord b"
proof (cases ord)
  case BitOrderLsb0
  then show ?thesis
    by (simp only: binary_digits_def bit_digits_def bit_at_def rev_upt_8 map_map)
      (auto simp: bit_Reverse8)
next
  case BitOrderMsb0
  then show ?thesis
    by (simp only: binary_digits_def bit_digits_def bit_at_def rev_upt_8 map_map) (simp add: comp_def)
qed

lemma BitVec_Decode_loop_eq:
  "BitVec_Decode_loop (length bs) b (bs @ s) =
     (Ok (b\<lparr>ByteSlice := ByteSlice b @ map (\<lambda>d. if bvBitOrder b = BitOrderLsb0 then Reverse8 d else d) bs\<rparr>), s)"
proof (induction bs arbitrary: b)
  case Nil
  show ?case by simp
next
  case (Cons d bs)
  then show ?case by (simp add: Let_def)
qed


text \<open>
  A bit vector of \<open>n\<close> bits reads its compact length and then exactly the bytes that hold
  \<open>n\<close> bits, and prints every bit of those bytes in the numbering of its bit order.\<close>

theorem bitvec_decode_string:
  assumes "0 < n" "n < 2 ^ 53" "length bs = (n + 7) div 8" "EncodeUintCompact (int n) [] = (Ok (), hdr)"
  shows "\<exists>v. BitVec_Decode (NewBitVec ord) (hdr @ bs @ rest) = (Ok v, rest) \<and>
    BitVec_String v = ''0b'' @ concat (map (bit_digits ord) bs)"
proof -
  have small: "int n < 2 ^ 53" using assms(2) by (metis of_nat_less_iff of_nat_numeral of_nat_power)
  then obtain cs where "writes (EncodeUintCompact (int n)) cs" "reads DecodeUintCompact cs (int n)"
    using compact.roundtrip [of "int n"] by (auto simp: rt_def)
  with assms(4) have "reads DecodeUintCompact hdr (int n)"
    by (simp add: writes_def)
  then have r: "DecodeUintCompact (hdr @ bs @ rest) = (Ok (int n), bs @ rest)"
    by (rule readsD)
  have u: "unat (BigInt_Uint64 (int n)) = n"
    using small by (simp add: unat_BigInt_Uint64)
  have "GetMinimumNumberOfBytes (hdr @ bs @ rest) = (Ok (length bs), bs @ rest)"
    unfolding GetMinimumNumberOfBytes_def bindM_Ok [where m = DecodeUintCompact, OF r]
    using assms by (simp add: u float64_of_nat_small)
  then have "BitVec_Decode (NewBitVec ord) (hdr @ bs @ rest) = BitVec_Decode_loop (length bs) (NewBitVec ord) (bs @ rest)"
    by (simp add: BitVec_Decode_def)
  then show ?thesis
    by (simp add: BitVec_Decode_loop_eq BitVec_String_def NewBitVec_def comp_def binary_digits_order)
qed

theorem bitvec_decode_string_witness:
  "\<exists>v. BitVec_Decode (NewBitVec BitOrderLsb0) ([40] @ [5, 1] @ [9]) = (Ok v, [9]) \<and>
    BitVec_String v = ''0b1010000010000000''"
proof -
  have "EncodeUintCompact (int 10) [] = (Ok (), [40])"
    by (simp add: EncodeUintCompact_def BigInt_IsUint64_def BigInt_Uint64_def PushByte_def push_bit_eq_mult)
  then have "\<exists>v. BitVec_Decode (NewBitVec BitOrderLsb0) ([40] @ [5, 1] @ [9]) = (Ok v, [9]) \<and>
      BitVec_String v = ''0b'' @ concat (map (bit_digits BitOrderLsb0) [5, 1])"
    by (intro bitvec_decode_string [of 10]) simp_all
  moreover have "concat (map (bit_digits BitOrderLsb0) [5, 1]) = ''1010000010000000''"
    by (simp add: bit_digits_def bit_at_def upt_rec bit_iff_odd drop_bit_eq_div)
  ultimately show ?thesis by simp
qed

end
