(* ===== verification/RegistryDecoders.thy ===== *)
theory RegistryDecoders
  imports MetadataV14_Find BitVec
begin

text \<open>
  The field decoders of \<open>src/registry/factory.go\<close>: the values of the \<open>FieldDecoder\<close>
  interface, their \<open>Decode\<close> methods, type decoders and decoded fields. Decoders are immutable
  once built except \<open>RecursiveDecoder\<close>, whose inner decoder is filled in later: it is an
  address, and the heap maps addresses to the inner decoders. A decoder supplied by the
  user as an override may be of a type the module does not know: \<open>CustomDecoder\<close> names it and
  the parameter \<open>cust\<close> is its \<open>Decode\<close> method.
\<close>

section \<open>Errors\<close>

definition libMsg :: "string \<Rightarrow> string \<Rightarrow> goerror" where
  "libMsg e msg = LibErr (Error_WithMsg e msg)"

definition libWrap :: "string \<Rightarrow> goerror \<Rightarrow> goerror" where
  "libWrap e err = LibErr (Error_Wrap e err)"

definition libMsgWrap :: "string \<Rightarrow> string \<Rightarrow> goerror \<Rightarrow> goerror" where
  "libMsgWrap e msg err = LibErr (Error_Wrap (Error_WithMsg e msg) err)"

definition quoted :: "string \<Rightarrow> string" where
  "quoted s = [CHR 0x27] @ s @ [CHR 0x27]"

section \<open>Decoders and decoded values\<close>

text \<open>The instances \<open>T\<close> of \<open>ValueDecoder[T]\<close> that the factory creates.\<close>

datatype vtype =
    T_bool | T_byte | T_string | T_U8 | T_U16 | T_U32 | T_U64 | T_U128 | T_U256
  | T_I8 | T_I16 | T_I32 | T_I64 | T_I128 | T_I256 | T_UCompact | T_any

datatype field_decoder =
    NilDecoder  \<comment> \<open>the nil interface\<close>
  | NoopDecoder
  | VariantDecoder "(byte \<times> field_decoder) list"
  | ArrayDecoder nat field_decoder
  | SliceDecoder field_decoder
  | CompositeDecoder string "field list"
  | ValueDecoder vtype
  | RecursiveDecoder nat
  | BitSequenceDecoder string BitOrder
  | CustomDecoder nat
and field = Field (FieldName: string) (FieldDecoder: field_decoder) (LookupIndex: int)

datatype dvalue =
    DNil
  | DByte byte
  | DSlice "dvalue list"
  | DFields "decoded_field list"
  | DBool bool
  | DText string
  | DInt vtype int
  | DBits string string  \<comment> \<open>the map with one entry, from the field name to the bits\<close>
  | DCustom nat
and decoded_field = DecodedField (dfName: string) (dfValue: dvalue) (dfIndex: int)

record TypeDecoder =
  tdName :: string
  tdFields :: "field list"

section \<open>Decode\<close>

text \<open>\<open>decoder.Decode(&t)\<close> for each instance; an empty interface has no decodable kind.\<close>

fun Decode_value :: "vtype \<Rightarrow> (bytes, dvalue) goM" where
  "Decode_value T_bool = bindM Decode_bool (\<lambda>b. retM (DBool b))"
| "Decode_value T_byte = bindM (Decode_word Uint8 :: (bytes, uint8) goM) (\<lambda>w. retM (DByte w))"
| "Decode_value T_string = bindM Text_Decode (\<lambda>t. retM (DText t))"
| "Decode_value T_U8 = bindM (Decode_word Uint8 :: (bytes, uint8) goM) (\<lambda>w. retM (DInt T_U8 (uint w)))"
| "Decode_value T_U16 = bindM (Decode_word Uint16 :: (bytes, uint16) goM) (\<lambda>w. retM (DInt T_U16 (uint w)))"
| "Decode_value T_U32 = bindM (Decode_word Uint32 :: (bytes, uint32) goM) (\<lambda>w. retM (DInt T_U32 (uint w)))"
| "Decode_value T_U64 = bindM (Decode_word Uint64 :: (bytes, uint64) goM) (\<lambda>w. retM (DInt T_U64 (uint w)))"
| "Decode_value T_U128 = bindM U128_Decode (\<lambda>i. retM (DInt T_U128 (the i)))"
| "Decode_value T_U256 = bindM U256_Decode (\<lambda>i. retM (DInt T_U256 (the i)))"
| "Decode_value T_I8 = bindM (Decode_word Int8 :: (bytes, uint8) goM) (\<lambda>w. retM (DInt T_I8 (sint w)))"
| "Decode_value T_I16 = bindM (Decode_word Int16 :: (bytes, uint16) goM) (\<lambda>w. retM (DInt T_I16 (sint w)))"
| "Decode_value T_I32 = bindM (Decode_word Int32 :: (bytes, uint32) goM) (\<lambda>w. retM (DInt T_I32 (sint w)))"
| "Decode_value T_I64 = bindM (Decode_word Int64 :: (bytes, uint64) goM) (\<lambda>w. retM (DInt T_I64 (sint w)))"
| "Decode_value T_I128 = bindM I128_Decode (\<lambda>i. retM (DInt T_I128 (the i)))"
| "Decode_value T_I256 = bindM I256_Decode (\<lambda>i. retM (DInt T_I256 (the i)))"
| "Decode_value T_UCompact = bindM UCompact_Decode (\<lambda>i. retM (DInt T_UCompact i))"
| "Decode_value T_any = failM (ErrorString ''Type interface cannot be decoded'')"

text \<open>
  \<open>make([]any, 0, n)\<close> panics when the capacity exceeds the address space of 48 bits, at 16
  bytes an element.
\<close>

definition make_slice :: "nat \<Rightarrow> ('s, unit) goM" where
  "make_slice n = (if n * 16 > 2 ^ 48 then panicM ''makeslice: cap out of range'' else retM ())"

text \<open>
  One level of \<open>Decode\<close>: \<open>deref\<close> stands for \<open>Decode\<close> of the decoder a recursive one points to.
\<close>

fun decode_step ::
  "(nat \<Rightarrow> (bytes, dvalue) goM) \<Rightarrow> (nat \<Rightarrow> (bytes, dvalue) goM) \<Rightarrow> field_decoder \<Rightarrow> (bytes, dvalue) goM"
  and decode_variant ::
  "(nat \<Rightarrow> (bytes, dvalue) goM) \<Rightarrow> (nat \<Rightarrow> (bytes, dvalue) goM) \<Rightarrow> byte \<Rightarrow> (byte \<times> field_decoder) list \<Rightarrow> (bytes, dvalue) goM"
  and decode_composite ::
  "(nat \<Rightarrow> (bytes, dvalue) goM) \<Rightarrow> (nat \<Rightarrow> (bytes, dvalue) goM) \<Rightarrow> field list \<Rightarrow> (bytes, decoded_field list) goM" where
  "decode_step cust deref NilDecoder = panicM ''invalid memory address or nil pointer dereference''"
| "decode_step cust deref NoopDecoder = retM DNil"
| "decode_step cust deref (VariantDecoder m) =
     bindM (wrapM (libWrap ''variant byte decoding'') ReadOneByte) (\<lambda>b. decode_variant cust deref b m)"
| "decode_step cust deref (ArrayDecoder n d) =
     (if d = NilDecoder then failM (LibErr ''array item decoder not found'')
      else seqM (make_slice n)
        (bindM (decode_each n (wrapM (libWrap ''array item decoding'') (decode_step cust deref d)))
          (\<lambda>vs. retM (DSlice vs))))"
| "decode_step cust deref (SliceDecoder d) =
     (if d = NilDecoder then failM (LibErr ''slice item decoder not found'')
      else bindM (wrapM (libWrap ''slice length decoding'') DecodeUintCompact) (\<lambda>sliceLen.
        seqM (make_slice (unat (BigInt_Uint64 sliceLen)))
          (bindM (decode_each (unat (BigInt_Uint64 sliceLen)) (wrapM (libWrap ''slice item decoding'') (decode_step cust deref d)))
            (\<lambda>vs. retM (DSlice vs)))))"
| "decode_step cust deref (CompositeDecoder nm fs) =
     bindM (decode_composite cust deref fs) (\<lambda>vs. retM (DFields vs))"
| "decode_step cust deref (ValueDecoder t) = wrapM (libWrap ''value decoding'') (Decode_value t)"
| "decode_step cust deref (RecursiveDecoder a) = deref a"
| "decode_step cust deref (BitSequenceDecoder nm ord) =
     bindM (wrapM (libWrap ''bit vec decoding'') (BitVec_Decode (NewBitVec ord)))
       (\<lambda>v. retM (DBits nm (BitVec_String v)))"
| "decode_step cust deref (CustomDecoder c) = cust c"
| "decode_variant cust deref b [] =
     failM (libMsg ''variant field decoder not found'' (''variant '' @ quoted (string_of_nat (unat b))))"
| "decode_variant cust deref b ((k, d) # m) =
     (if k = b then (if d = NoopDecoder then retM (DByte b) else decode_step cust deref d)
      else decode_variant cust deref b m)"
| "decode_composite cust deref [] = retM []"
| "decode_composite cust deref (Field nm d i # fs) =
     bindM (wrapM (libWrap ''composite field decoding'') (decode_step cust deref d)) (\<lambda>v.
     bindM (decode_composite cust deref fs) (\<lambda>vs. retM (DecodedField nm v i # vs)))"

text \<open>The contents of a recursive decoder; an unallocated or nil one is refused.\<close>

type_synonym heap = "nat \<rightharpoonup> field_decoder"

definition inner :: "heap \<Rightarrow> nat \<Rightarrow> field_decoder" where
  "inner h a = (case h a of None \<Rightarrow> NilDecoder | Some d \<Rightarrow> d)"

definition follow :: "heap \<Rightarrow> (field_decoder \<Rightarrow> (bytes, dvalue) goM) \<Rightarrow> nat \<Rightarrow> (bytes, dvalue) goM" where
  "follow h dec a =
     (if inner h a = NilDecoder then failM (LibErr ''recursive field decoder not found'') else dec (inner h a))"

text \<open>\<open>FieldDecoder.Decode\<close>; the fuel bounds the depth of nested recursive decoders.\<close>

primrec Decode_fuel ::
  "nat \<Rightarrow> (nat \<Rightarrow> (bytes, dvalue) goM) \<Rightarrow> heap \<Rightarrow> field_decoder \<Rightarrow> (bytes, dvalue) goM" where
  "Decode_fuel 0 cust h d = decode_step cust (\<lambda>a. liftM OutOfFuel) d"
| "Decode_fuel (Suc n) cust h d = decode_step cust (follow h (Decode_fuel n cust h)) d"

definition Field_Decode ::
  "(field_decoder \<Rightarrow> (bytes, dvalue) goM) \<Rightarrow> field option \<Rightarrow> (bytes, decoded_field) goM" where
  "Field_Decode dec f =
     (case f of
        None \<Rightarrow> failM (LibErr ''nil field'')
      | Some (Field nm d i) \<Rightarrow>
          if d = NilDecoder then failM (LibErr ''nil field decoder'')
          else bindM (dec d) (\<lambda>v. retM (DecodedField nm v i)))"

fun decode_fields ::
  "(field_decoder \<Rightarrow> (bytes, dvalue) goM) \<Rightarrow> field list \<Rightarrow> (bytes, decoded_field list) goM" where
  "decode_fields dec [] = retM []"
| "decode_fields dec (f # fs) =
     bindM (wrapM (libWrap ''type field decoding'') (Field_Decode dec (Some f))) (\<lambda>v.
     bindM (decode_fields dec fs) (\<lambda>vs. retM (v # vs)))"

definition TypeDecoder_Decode ::
  "(field_decoder \<Rightarrow> (bytes, dvalue) goM) \<Rightarrow> TypeDecoder option \<Rightarrow> (bytes, decoded_field list) goM" where
  "TypeDecoder_Decode dec t =
     (case t of None \<Rightarrow> failM (LibErr ''nil type decoder'') | Some td \<Rightarrow> decode_fields dec (tdFields td))"

section \<open>Working with decoded fields\<close>

fun ProcessDecodedFieldValue_from ::
  "nat \<Rightarrow> decoded_field list \<Rightarrow> (nat \<Rightarrow> decoded_field \<Rightarrow> bool) \<Rightarrow> (dvalue \<Rightarrow> 'a res) \<Rightarrow> 'a res" where
  "ProcessDecodedFieldValue_from i [] pred proc = Err (LibErr ''decoded field not found'')"
| "ProcessDecodedFieldValue_from i (d # ds) pred proc =
     (if \<not> pred i d then ProcessDecodedFieldValue_from (Suc i) ds pred proc
      else
        (case proc (dfValue d) of
           Err e \<Rightarrow> Err (libWrap ''decoded field value processing error'' e)
         | r \<Rightarrow> r))"

definition ProcessDecodedFieldValue ::
  "decoded_field list \<Rightarrow> (nat \<Rightarrow> decoded_field \<Rightarrow> bool) \<Rightarrow> (dvalue \<Rightarrow> 'a res) \<Rightarrow> 'a res" where
  "ProcessDecodedFieldValue = ProcessDecodedFieldValue_from 0"

text \<open>
  The Go type assertion \<open>value.(T)\<close> is a partial function from values; \<open>tn\<close> prints \<open>T\<close> and
  \<open>vn\<close> prints a value's dynamic type.
\<close>

definition GetDecodedFieldAsType ::
  "(dvalue \<Rightarrow> 'a option) \<Rightarrow> string \<Rightarrow> (dvalue \<Rightarrow> string) \<Rightarrow>
   decoded_field list \<Rightarrow> (nat \<Rightarrow> decoded_field \<Rightarrow> bool) \<Rightarrow> 'a res" where
  "GetDecodedFieldAsType as tn vn ds pred =
     ProcessDecodedFieldValue ds pred (\<lambda>v.
       case as v of
         Some r \<Rightarrow> Ok r
       | None \<Rightarrow> Err (libWrap ''decoded field value type mismatch''
                   (ErrorString (''expected '' @ tn @ '', got '' @ vn v))))"

fun convertSliceToType :: "(dvalue \<Rightarrow> 'a option) \<Rightarrow> string \<Rightarrow> (dvalue \<Rightarrow> string) \<Rightarrow> dvalue list \<Rightarrow> 'a list res" where
  "convertSliceToType as tn vn [] = Ok []"
| "convertSliceToType as tn vn (v # vs) =
     (case as v of
        None \<Rightarrow> Err (ErrorString (''expected '' @ tn @ '', got '' @ vn v))
      | Some r \<Rightarrow> (case convertSliceToType as tn vn vs of Ok rs \<Rightarrow> Ok (r # rs) | e \<Rightarrow> e))"

definition GetDecodedFieldAsSliceOfType ::
  "(dvalue \<Rightarrow> 'a option) \<Rightarrow> string \<Rightarrow> (dvalue \<Rightarrow> string) \<Rightarrow>
   decoded_field list \<Rightarrow> (nat \<Rightarrow> decoded_field \<Rightarrow> bool) \<Rightarrow> 'a list res" where
  "GetDecodedFieldAsSliceOfType as tn vn ds pred =
     ProcessDecodedFieldValue ds pred (\<lambda>v.
       case v of
         DSlice vs \<Rightarrow>
           (case convertSliceToType as tn vn vs of
              Err e \<Rightarrow> Err (libWrap ''decoded field value type mismatch'' e) | r \<Rightarrow> r)
       | _ \<Rightarrow> Err (LibErr ''decoded field value is not a generic slice''))"

end
