(* ===== verification/RegistryFactory.thy ===== *)
theory RegistryFactory
  imports RegistryDecoders
begin

text \<open>
  The factory of \<open>src/registry/factory.go\<close>, which turns the types of a version 14 metadata
  into field decoders and the calls, errors and events of its pallets into registries. The
  factory is a record threaded through the calls. A type that is met again while its
  decoder is still being built is represented by a recursive decoder, a fresh address of
  the heap, which \<open>resolveRecursiveDecoders\<close> fills in at the end. The mutually recursive
  Go methods become functions over a callback for \<open>getFieldDecoder\<close>, which ties the knot by
  recursion on fuel.
\<close>

section \<open>State\<close>

record factory =
  fieldStorage :: "int \<rightharpoonup> field_decoder"
  recursiveFieldStorage :: "(int \<times> nat) list"
  fieldOverrides :: "(int \<times> field_decoder) list"
  fheap :: heap
  nextAddr :: nat

text \<open>\<open>NewFactory\<close>; the heap holds the recursive decoders the overrides may contain.\<close>

definition NewFactory :: "(int \<times> field_decoder) list \<Rightarrow> heap \<Rightarrow> nat \<Rightarrow> factory" where
  "NewFactory ovr h n =
     \<lparr>fieldStorage = Map.empty, recursiveFieldStorage = [], fieldOverrides = ovr, fheap = h, nextAddr = n\<rparr>"

fun override_loop :: "(int \<times> field_decoder) list \<Rightarrow> (int \<rightharpoonup> field_decoder) \<Rightarrow> (int \<rightharpoonup> field_decoder)" where
  "override_loop [] m = m"
| "override_loop ((i, d) # os) m = override_loop os (m(i \<mapsto> d))"

definition resetStorages :: "(factory, unit) goM" where
  "resetStorages f =
     (Ok (), f\<lparr>fieldStorage := override_loop (fieldOverrides f) Map.empty, recursiveFieldStorage := []\<rparr>)"

text \<open>Assignment to a Go map kept as a list of pairs.\<close>

definition put :: "'k \<Rightarrow> 'v \<Rightarrow> ('k \<times> 'v) list \<Rightarrow> ('k \<times> 'v) list" where
  "put k v xs = (k, v) # filter (\<lambda>p. fst p \<noteq> k) xs"

definition store :: "int \<Rightarrow> field_decoder \<Rightarrow> (factory, unit) goM" where
  "store i d f = (Ok (), f\<lparr>fieldStorage := (fieldStorage f)(i \<mapsto> d)\<rparr>)"

definition getStoredFieldDecoder :: "int \<Rightarrow> (factory, field_decoder option) goM" where
  "getStoredFieldDecoder i f =
     (case fieldStorage f i of
        Some ft \<Rightarrow>
          (Ok (Some ft),
           (case ft of
              RecursiveDecoder a \<Rightarrow> f\<lparr>recursiveFieldStorage := put i a (recursiveFieldStorage f)\<rparr>
            | _ \<Rightarrow> f))
      | None \<Rightarrow>
          (Ok None,
           f\<lparr>fieldStorage := (fieldStorage f)(i \<mapsto> RecursiveDecoder (nextAddr f)),
             fheap := (fheap f)(nextAddr f \<mapsto> NilDecoder), nextAddr := Suc (nextAddr f)\<rparr>))"

section \<open>Names\<close>

definition getFieldPath :: "Si1Type \<Rightarrow> string" where
  "getFieldPath t = Join ''.'' (tPath t)"

definition getFieldName :: "Si1Field \<Rightarrow> string" where
  "getFieldName f =
     (if HasName f then fName f
      else if HasTypeName f then fTypeName f
      else ''lookup_index_'' @ string_of_int (UCompact_Int64 (fType f)))"

definition getFullFieldName :: "Si1Field \<Rightarrow> Si1Type \<Rightarrow> string" where
  "getFullFieldName f t =
     (if getFieldPath t \<noteq> [] then getFieldPath t @ ''.'' @ getFieldName f else getFieldName f)"

section \<open>Field decoders\<close>

type_synonym lookup = "int \<rightharpoonup> Si1Type"
type_synonym callback = "string \<Rightarrow> Si1TypeDef \<Rightarrow> (factory, field_decoder) goM"

fun getTypeFields :: "callback \<Rightarrow> lookup \<Rightarrow> Si1Field list \<Rightarrow> (factory, field list) goM" where
  "getTypeFields gfd lk [] = retM []"
| "getTypeFields gfd lk (f # fs) =
     (let i = UCompact_Int64 (fType f) in
      case lk i of
        None \<Rightarrow> failM (libMsg ''field type not found'' (fName f))
      | Some t \<Rightarrow>
          bindM (getStoredFieldDecoder i) (\<lambda>stored.
            bindM
              (case stored of
                 Some d \<Rightarrow> retM d
               | None \<Rightarrow>
                   bindM (wrapM (libMsgWrap ''field decoder retrieval'' (getFullFieldName f t))
                       (gfd (getFullFieldName f t) (tDef t)))
                     (\<lambda>d. seqM (store i d) (retM d)))
              (\<lambda>d. bindM (getTypeFields gfd lk fs) (\<lambda>rest. retM (Field (getFullFieldName f t) d i # rest)))))"

fun getVariant_loop ::
  "callback \<Rightarrow> lookup \<Rightarrow> nat \<Rightarrow> Si1Variant list \<Rightarrow> (byte \<times> field_decoder) list \<Rightarrow>
   (factory, (byte \<times> field_decoder) list) goM" where
  "getVariant_loop gfd lk i [] m = retM m"
| "getVariant_loop gfd lk i (v # vs) m =
     (if vFields v = [] then getVariant_loop gfd lk (Suc i) vs (put (vIndex v) NoopDecoder m)
      else
        bindM (wrapM (libMsgWrap ''variant type fields decoding'' (''variant '' @ quoted (string_of_nat (unat (vIndex v)))))
            (getTypeFields gfd lk (vFields v)))
          (\<lambda>fs. getVariant_loop gfd lk (Suc i) vs
             (put (vIndex v) (CompositeDecoder (''variant_item_'' @ string_of_nat i) fs) m)))"

definition getVariantFieldDecoder :: "callback \<Rightarrow> lookup \<Rightarrow> Si1TypeDef \<Rightarrow> (factory, field_decoder) goM" where
  "getVariantFieldDecoder gfd lk d =
     bindM (getVariant_loop gfd lk 0 (Variants d) []) (\<lambda>m. retM (VariantDecoder m))"

definition tuple_item_name :: "nat \<Rightarrow> string" where
  "tuple_item_name i = ''tuple_item_'' @ string_of_nat i"

fun getTuple_loop :: "callback \<Rightarrow> lookup \<Rightarrow> nat \<Rightarrow> int list \<Rightarrow> (factory, field list) goM" where
  "getTuple_loop gfd lk i [] = retM []"
| "getTuple_loop gfd lk i (item # items) =
     (case lk (UCompact_Int64 item) of
        None \<Rightarrow> failM (libMsg ''tuple item type not found'' (''tuple item '' @ quoted (string_of_nat i)))
      | Some t \<Rightarrow>
          bindM (wrapM (libWrap ''tuple item field decoder retrieval'') (gfd (tuple_item_name i) (tDef t))) (\<lambda>d.
          bindM (getTuple_loop gfd lk (Suc i) items) (\<lambda>fs.
            retM (Field (tuple_item_name i) d (UCompact_Int64 item) # fs))))"

definition getTupleFieldDecoder :: "callback \<Rightarrow> lookup \<Rightarrow> string \<Rightarrow> int list \<Rightarrow> (factory, field_decoder) goM" where
  "getTupleFieldDecoder gfd lk nm items = bindM (getTuple_loop gfd lk 0 items) (\<lambda>fs. retM (CompositeDecoder nm fs))"

fun getCompactTuple_loop :: "callback \<Rightarrow> lookup \<Rightarrow> nat \<Rightarrow> int list \<Rightarrow> (factory, field list) goM" where
  "getCompactTuple_loop gcfd lk i [] = retM []"
| "getCompactTuple_loop gcfd lk i (item # items) =
     (let tupleItem = ''tuple item '' @ quoted (string_of_int (UCompact_Int64 item)) in
      case lk (UCompact_Int64 item) of
        None \<Rightarrow> failM (libMsg ''compact tuple item type not found'' tupleItem)
      | Some t \<Rightarrow>
          bindM (wrapM (libMsgWrap ''compact tuple item field decoder retrieval'' tupleItem) (gcfd (tuple_item_name i) (tDef t))) (\<lambda>d.
          bindM (getCompactTuple_loop gcfd lk (Suc i) items) (\<lambda>fs.
            retM (Field (tuple_item_name i) d (UCompact_Int64 item) # fs))))"

fun getCompactComposite_loop :: "callback \<Rightarrow> lookup \<Rightarrow> Si1Field list \<Rightarrow> (factory, field list) goM" where
  "getCompactComposite_loop gcfd lk [] = retM []"
| "getCompactComposite_loop gcfd lk (f # fs) =
     (case lk (UCompact_Int64 (fType f)) of
        None \<Rightarrow> failM (LibErr ''compact composite field type not found'')
      | Some t \<Rightarrow>
          bindM (wrapM (libWrap ''compact composite field decoder retrieval'') (gcfd (getFullFieldName f t) (tDef t))) (\<lambda>d.
          bindM (getCompactComposite_loop gcfd lk fs) (\<lambda>rest.
            retM (Field (getFullFieldName f t) d (UCompact_Int64 (fType f)) # rest))))"

primrec getCompactFieldDecoder :: "nat \<Rightarrow> lookup \<Rightarrow> callback" where
  "getCompactFieldDecoder 0 lk nm d = liftM OutOfFuel"
| "getCompactFieldDecoder (Suc n) lk nm d =
     (if IsPrimitive d then retM (ValueDecoder T_UCompact)
      else if IsTuple d then
        (case Tuple d of
           None \<Rightarrow> retM (ValueDecoder T_any)
         | Some items \<Rightarrow>
             bindM (getCompactTuple_loop (getCompactFieldDecoder n lk) lk 0 items) (\<lambda>fs. retM (CompositeDecoder nm fs)))
      else if IsComposite d then
        bindM (getCompactComposite_loop (getCompactFieldDecoder n lk) lk (CompositeFields d))
          (\<lambda>fs. retM (CompositeDecoder nm fs))
      else failM (ErrorString ''unsupported compact field type''))"

definition getBitOrderString :: "string list \<Rightarrow> string" where
  "getBitOrderString path = (if path = [] then [] else last path)"

definition getBitSequenceDecoder :: "lookup \<Rightarrow> string \<Rightarrow> Si1TypeDef \<Rightarrow> (factory, field_decoder) goM" where
  "getBitSequenceDecoder lk nm d =
     (case lk (UCompact_Int64 (BitStoreType d)) of
        None \<Rightarrow> failM (libMsg ''bit store type not found'' nm)
      | Some bst \<Rightarrow>
          if Primitive (tDef bst) \<noteq> 3 then failM (libMsg ''bit store type not supported'' nm)
          else
            (case lk (UCompact_Int64 (BitOrderType d)) of
               None \<Rightarrow> failM (libMsg ''bit order type not found'' nm)
             | Some bty \<Rightarrow>
                 bindM (wrapM (libWrap ''bit order creation'') (liftM (NewBitOrderFromString (getBitOrderString (tPath bty)))))
                   (\<lambda>ord. retM (BitSequenceDecoder nm ord))))"

definition getPrimitiveDecoder :: "uint8 \<Rightarrow> (factory, field_decoder) goM" where
  "getPrimitiveDecoder p =
     (if p = 0 then retM (ValueDecoder T_bool)
      else if p = 1 then retM (ValueDecoder T_byte)
      else if p = 2 then retM (ValueDecoder T_string)
      else if p = 3 then retM (ValueDecoder T_U8)
      else if p = 4 then retM (ValueDecoder T_U16)
      else if p = 5 then retM (ValueDecoder T_U32)
      else if p = 6 then retM (ValueDecoder T_U64)
      else if p = 7 then retM (ValueDecoder T_U128)
      else if p = 8 then retM (ValueDecoder T_U256)
      else if p = 9 then retM (ValueDecoder T_I8)
      else if p = 10 then retM (ValueDecoder T_I16)
      else if p = 11 then retM (ValueDecoder T_I32)
      else if p = 12 then retM (ValueDecoder T_I64)
      else if p = 13 then retM (ValueDecoder T_I128)
      else if p = 14 then retM (ValueDecoder T_I256)
      else failM (libMsg ''primitive type not supported'' (''primitive type '' @ string_of_nat (unat p))))"

definition getArrayFieldDecoder :: "callback \<Rightarrow> nat \<Rightarrow> callback" where
  "getArrayFieldDecoder gfd len nm d =
     bindM (wrapM (libWrap ''array item field decoder retrieval'') (gfd nm d)) (\<lambda>item. retM (ArrayDecoder len item))"

definition getSliceFieldDecoder :: "callback \<Rightarrow> callback" where
  "getSliceFieldDecoder gfd nm d =
     bindM (wrapM (libWrap ''slice item field decoder retrieval'') (gfd nm d)) (\<lambda>item. retM (SliceDecoder item))"

text \<open>The switch of \<open>getFieldDecoder\<close> over a callback for the nested types and one for compact types.\<close>

definition field_decoder_step :: "callback \<Rightarrow> callback \<Rightarrow> lookup \<Rightarrow> callback" where
  "field_decoder_step gfd gcfd lk nm d =
     (if IsCompact d then
        (case lk (UCompact_Int64 (CompactType d)) of
           None \<Rightarrow> failM (libMsg ''compact field type not found'' nm)
         | Some t \<Rightarrow> gcfd nm (tDef t))
      else if IsComposite d then
        bindM (wrapM (libMsgWrap ''composite type fields retrieval'' nm) (getTypeFields gfd lk (CompositeFields d)))
          (\<lambda>fs. retM (CompositeDecoder nm fs))
      else if IsVariant d then getVariantFieldDecoder gfd lk d
      else if IsPrimitive d then getPrimitiveDecoder (Primitive d)
      else if IsArray d then
        (case lk (UCompact_Int64 (ArrayType d)) of
           None \<Rightarrow> failM (libMsg ''array field type not found'' nm)
         | Some t \<Rightarrow> getArrayFieldDecoder gfd (unat (ArrayLen d)) nm (tDef t))
      else if IsSequence d then
        (case lk (UCompact_Int64 (SequenceType d)) of
           None \<Rightarrow> failM (libMsg ''vector field type not found'' nm)
         | Some t \<Rightarrow> getSliceFieldDecoder gfd nm (tDef t))
      else if IsTuple d then
        (case Tuple d of
           None \<Rightarrow> retM NoopDecoder
         | Some items \<Rightarrow> getTupleFieldDecoder gfd lk nm items)
      else if IsBitSequence d then getBitSequenceDecoder lk nm d
      else failM (libMsg ''field type definition not supported'' nm))"

primrec getFieldDecoder :: "nat \<Rightarrow> lookup \<Rightarrow> callback" where
  "getFieldDecoder 0 lk nm d = liftM OutOfFuel"
| "getFieldDecoder (Suc n) lk nm d =
     field_decoder_step (getFieldDecoder n lk) (getCompactFieldDecoder n lk) lk nm d"

section \<open>Resolving recursive decoders\<close>

text \<open>The loop over the map of recursive decoders, in the order the list gives.\<close>

fun resolve_loop :: "(int \<times> nat) list \<Rightarrow> (factory, unit) goM" where
  "resolve_loop [] f = (Ok (), f)"
| "resolve_loop ((i, a) # rs) f =
     (if inner (fheap f) a \<noteq> NilDecoder then resolve_loop rs f
      else
        (case fieldStorage f i of
           None \<Rightarrow>
             (Err (libMsg ''field decoder for recursive field not found''
                (''recursive field lookup index '' @ string_of_int i)), f)
         | Some (RecursiveDecoder _) \<Rightarrow>
             (Err (libMsg ''recursive field resolving'' (''recursive field lookup index '' @ string_of_int i)), f)
         | Some d \<Rightarrow> resolve_loop rs (f\<lparr>fheap := (fheap f)(a \<mapsto> d)\<rparr>)))"

definition resolveRecursiveDecoders :: "(factory, unit) goM" where
  "resolveRecursiveDecoders f = resolve_loop (recursiveFieldStorage f) f"

section \<open>Registries\<close>

text \<open>
  The three registries are built by the same loops, over the pallets that have the item and
  the variants of its type: \<open>what\<close> and \<open>whats\<close> name the item in errors, \<open>key\<close> is the map's key.
\<close>

fun variants_loop ::
  "callback \<Rightarrow> lookup \<Rightarrow> string \<Rightarrow> (uint8 \<Rightarrow> 'k) \<Rightarrow> string \<Rightarrow> Si1Variant list \<Rightarrow> ('k \<rightharpoonup> TypeDecoder) \<Rightarrow>
   (factory, 'k \<rightharpoonup> TypeDecoder) goM" where
  "variants_loop gfd lk what key modName [] reg = retM reg"
| "variants_loop gfd lk what key modName (v # vs) reg =
     (let name = modName @ ''.'' @ vName v in
      bindM (wrapM (libMsgWrap (what @ '' fields retrieval'') name) (getTypeFields gfd lk (vFields v))) (\<lambda>fs.
        variants_loop gfd lk what key modName vs (reg(key (vIndex v) \<mapsto> \<lparr>tdName = name, tdFields = fs\<rparr>))))"

fun pallets_loop ::
  "callback \<Rightarrow> lookup \<Rightarrow> string \<Rightarrow> string \<Rightarrow> (PalletMetadataV14 \<Rightarrow> bool) \<Rightarrow> (PalletMetadataV14 \<Rightarrow> int) \<Rightarrow>
   (uint8 \<Rightarrow> uint8 \<Rightarrow> 'k) \<Rightarrow> PalletMetadataV14 list \<Rightarrow> ('k \<rightharpoonup> TypeDecoder) \<Rightarrow> (factory, 'k \<rightharpoonup> TypeDecoder) goM" where
  "pallets_loop gfd lk what whats has typ key [] reg = retM reg"
| "pallets_loop gfd lk what whats has typ key (p # ps) reg =
     (if \<not> has p then pallets_loop gfd lk what whats has typ key ps reg
      else
        (let i = UCompact_Int64 (typ p);
             msg = whats @ '' type '' @ quoted (string_of_int i) @ '', module '' @ quoted (pName p)
         in case lk i of
              None \<Rightarrow> failM (libMsg (whats @ '' type not found'') msg)
            | Some t \<Rightarrow>
                if \<not> IsVariant (tDef t) then failM (libMsg (whats @ '' type not a variant'') msg)
                else bindM (variants_loop gfd lk what (key (pIndex p)) (pName p) (Variants (tDef t)) reg)
                  (\<lambda>reg'. pallets_loop gfd lk what whats has typ key ps reg')))"

definition create_registry ::
  "nat \<Rightarrow> MetadataV14 \<Rightarrow> string \<Rightarrow> string \<Rightarrow> (PalletMetadataV14 \<Rightarrow> bool) \<Rightarrow> (PalletMetadataV14 \<Rightarrow> int) \<Rightarrow>
   (uint8 \<Rightarrow> uint8 \<Rightarrow> 'k) \<Rightarrow> (factory, 'k \<rightharpoonup> TypeDecoder) goM" where
  "create_registry fuel m what whats has typ key =
     seqM resetStorages
       (bindM (pallets_loop (getFieldDecoder fuel (EfficientLookup m)) (EfficientLookup m) what whats has typ key (Pallets m) Map.empty)
         (\<lambda>reg. seqM (wrapM (libWrap ''recursive decoders resolving'') resolveRecursiveDecoders) (retM reg)))"

record ErrorID =
  ModuleIndex :: uint8
  ErrorIndex :: "uint8 list"

definition CreateErrorRegistry :: "nat \<Rightarrow> MetadataV14 \<Rightarrow> (factory, ErrorID \<rightharpoonup> TypeDecoder) goM" where
  "CreateErrorRegistry fuel m =
     create_registry fuel m ''error'' ''errors'' HasErrors pErrors
       (\<lambda>p v. \<lparr>ModuleIndex = p, ErrorIndex = [v, 0, 0, 0]\<rparr>)"

definition CreateCallRegistry :: "nat \<Rightarrow> MetadataV14 \<Rightarrow> (factory, CallIndex \<rightharpoonup> TypeDecoder) goM" where
  "CreateCallRegistry fuel m =
     create_registry fuel m ''call'' ''calls'' HasCalls pCalls
       (\<lambda>p v. \<lparr>SectionIndex = p, MethodIndex = v\<rparr>)"

definition CreateEventRegistry :: "nat \<Rightarrow> MetadataV14 \<Rightarrow> (factory, (uint8 \<times> uint8) \<rightharpoonup> TypeDecoder) goM" where
  "CreateEventRegistry fuel m =
     create_registry fuel m ''event'' ''events'' HasEvents pEvents (\<lambda>p v. (p, v))"

end
