(* ===== verification/RegistryInvariant.thy ===== *)
theory RegistryInvariant
  imports RegistryFactory
begin

text \<open>
  What the factory builds: the relation between a field decoder and the type definition it
  was built from, the invariant of the factory's storages, and that the registries it
  returns have every recursive decoder resolved.
\<close>

section \<open>Forms of type definitions\<close>

text \<open>The case of \<open>getFieldDecoder\<close>'s switch a type definition falls under, with its payload.\<close>

datatype form =
    FCompact int
  | FComposite "Si1Field list"
  | FVariant "Si1Variant list"
  | FPrimitive uint8
  | FArray nat int
  | FSequence int
  | FTuple "int list option"
  | FBits int int
  | FUnsupported

definition form_of :: "Si1TypeDef \<Rightarrow> form" where
  "form_of d =
     (if IsCompact d then FCompact (UCompact_Int64 (CompactType d))
      else if IsComposite d then FComposite (CompositeFields d)
      else if IsVariant d then FVariant (Variants d)
      else if IsPrimitive d then FPrimitive (Primitive d)
      else if IsArray d then FArray (unat (ArrayLen d)) (UCompact_Int64 (ArrayType d))
      else if IsSequence d then FSequence (UCompact_Int64 (SequenceType d))
      else if IsTuple d then FTuple (Tuple d)
      else if IsBitSequence d then FBits (UCompact_Int64 (BitStoreType d)) (UCompact_Int64 (BitOrderType d))
      else FUnsupported)"

datatype compact_form = CPrimitive | CTuple "int list option" | CComposite "Si1Field list" | CUnsupported

definition compact_form_of :: "Si1TypeDef \<Rightarrow> compact_form" where
  "compact_form_of d =
     (if IsPrimitive d then CPrimitive
      else if IsTuple d then CTuple (Tuple d)
      else if IsComposite d then CComposite (CompositeFields d)
      else CUnsupported)"

text \<open>The instance of \<open>ValueDecoder\<close> for a primitive code.\<close>

definition primitive_type :: "uint8 \<Rightarrow> vtype option" where
  "primitive_type p =
     map_of (zip [0, 1, 2, 3, 4, 5, 6, 7, 8, 9, 10, 11, 12, 13, 14]
       [T_bool, T_byte, T_string, T_U8, T_U16, T_U32, T_U64, T_U128, T_U256, T_I8, T_I16, T_I32, T_I64, T_I128, T_I256]) p"

definition bit_order :: "lookup \<Rightarrow> int \<Rightarrow> int \<Rightarrow> BitOrder option" where
  "bit_order lk st oi =
     (case (lk st, lk oi) of
        (Some bst, Some bo) \<Rightarrow>
          if Primitive (tDef bst) = 3 then
            (case NewBitOrderFromString (getBitOrderString (tPath bo)) of Ok ord \<Rightarrow> Some ord | _ \<Rightarrow> None)
          else None
      | _ \<Rightarrow> None)"

text \<open>The entry a map built by assigning the variants in order has for an index: the last one.\<close>

definition last_variant :: "Si1Variant list \<Rightarrow> uint8 \<Rightarrow> Si1Variant option" where
  "last_variant vs b = find_variant_by_index b (rev vs)"

section \<open>Decoders of a type\<close>

inductive crep :: "lookup \<Rightarrow> field_decoder \<Rightarrow> Si1TypeDef \<Rightarrow> bool"
  and ctrep :: "lookup \<Rightarrow> nat \<Rightarrow> field list \<Rightarrow> int list \<Rightarrow> bool"
  and cfrep :: "lookup \<Rightarrow> field list \<Rightarrow> Si1Field list \<Rightarrow> bool" for lk where
  crep_primitive: "compact_form_of td = CPrimitive \<Longrightarrow> crep lk (ValueDecoder T_UCompact) td"
| crep_unit: "compact_form_of td = CTuple None \<Longrightarrow> crep lk (ValueDecoder T_any) td"
| crep_tuple: "compact_form_of td = CTuple (Some items) \<Longrightarrow> ctrep lk 0 fs items \<Longrightarrow> crep lk (CompositeDecoder nm fs) td"
| crep_composite: "compact_form_of td = CComposite sfs \<Longrightarrow> cfrep lk fs sfs \<Longrightarrow> crep lk (CompositeDecoder nm fs) td"
| ctrep_Nil: "ctrep lk k [] []"
| ctrep_Cons:
    "lk (UCompact_Int64 item) = Some t \<Longrightarrow> crep lk d (tDef t) \<Longrightarrow> ctrep lk (Suc k) fs items \<Longrightarrow>
     ctrep lk k (Field (tuple_item_name k) d (UCompact_Int64 item) # fs) (item # items)"
| cfrep_Nil: "cfrep lk [] []"
| cfrep_Cons:
    "lk (UCompact_Int64 (fType sf)) = Some t \<Longrightarrow> crep lk d (tDef t) \<Longrightarrow> cfrep lk fs sfs \<Longrightarrow>
     cfrep lk (Field (getFullFieldName sf t) d (UCompact_Int64 (fType sf)) # fs) (sf # sfs)"

text \<open>
  \<open>rep lk R ovr d td\<close>: the decoder \<open>d\<close> is one the factory builds for the type definition \<open>td\<close>,
  where a field of type \<open>i\<close> has the override of \<open>i\<close>, a decoder of its type, or a recursive
  decoder whose address \<open>a\<close> is registered for \<open>i\<close>: \<open>(i, a) \<in> R\<close>.
\<close>

inductive rep :: "lookup \<Rightarrow> (int \<times> nat) set \<Rightarrow> (int \<rightharpoonup> field_decoder) \<Rightarrow> field_decoder \<Rightarrow> Si1TypeDef \<Rightarrow> bool"
  and trep :: "lookup \<Rightarrow> (int \<times> nat) set \<Rightarrow> (int \<rightharpoonup> field_decoder) \<Rightarrow> nat \<Rightarrow> field list \<Rightarrow> int list \<Rightarrow> bool"
  and frep :: "lookup \<Rightarrow> (int \<times> nat) set \<Rightarrow> (int \<rightharpoonup> field_decoder) \<Rightarrow> field list \<Rightarrow> Si1Field list \<Rightarrow> bool"
  for lk R ovr where
  rep_compact: "form_of td = FCompact i \<Longrightarrow> lk i = Some t \<Longrightarrow> crep lk d (tDef t) \<Longrightarrow> rep lk R ovr d td"
| rep_composite: "form_of td = FComposite sfs \<Longrightarrow> frep lk R ovr fs sfs \<Longrightarrow> rep lk R ovr (CompositeDecoder nm fs) td"
| rep_variant:
    "form_of td = FVariant vs \<Longrightarrow>
     (\<And>b. last_variant vs b = None \<Longrightarrow> map_of m b = None) \<Longrightarrow>
     (\<And>b v. last_variant vs b = Some v \<Longrightarrow> vFields v = [] \<Longrightarrow> map_of m b = Some NoopDecoder) \<Longrightarrow>
     (\<And>b v. last_variant vs b = Some v \<Longrightarrow> vFields v \<noteq> [] \<Longrightarrow>
        \<exists>nm fs. map_of m b = Some (CompositeDecoder nm fs) \<and> frep lk R ovr fs (vFields v)) \<Longrightarrow>
     rep lk R ovr (VariantDecoder m) td"
| rep_primitive: "form_of td = FPrimitive p \<Longrightarrow> primitive_type p = Some T \<Longrightarrow> rep lk R ovr (ValueDecoder T) td"
| rep_array: "form_of td = FArray n i \<Longrightarrow> lk i = Some t \<Longrightarrow> rep lk R ovr d (tDef t) \<Longrightarrow> rep lk R ovr (ArrayDecoder n d) td"
| rep_sequence: "form_of td = FSequence i \<Longrightarrow> lk i = Some t \<Longrightarrow> rep lk R ovr d (tDef t) \<Longrightarrow> rep lk R ovr (SliceDecoder d) td"
| rep_unit: "form_of td = FTuple None \<Longrightarrow> rep lk R ovr NoopDecoder td"
| rep_tuple: "form_of td = FTuple (Some items) \<Longrightarrow> trep lk R ovr 0 fs items \<Longrightarrow> rep lk R ovr (CompositeDecoder nm fs) td"
| rep_bits: "form_of td = FBits st oi \<Longrightarrow> bit_order lk st oi = Some ord \<Longrightarrow> rep lk R ovr (BitSequenceDecoder nm ord) td"
| trep_Nil: "trep lk R ovr k [] []"
| trep_Cons:
    "lk (UCompact_Int64 item) = Some t \<Longrightarrow> rep lk R ovr d (tDef t) \<Longrightarrow> trep lk R ovr (Suc k) fs items \<Longrightarrow>
     trep lk R ovr k (Field (tuple_item_name k) d (UCompact_Int64 item) # fs) (item # items)"
| frep_Nil: "frep lk R ovr [] []"
| frep_rep:
    "lk (UCompact_Int64 (fType sf)) = Some t \<Longrightarrow> rep lk R ovr d (tDef t) \<Longrightarrow> frep lk R ovr fs sfs \<Longrightarrow>
     frep lk R ovr (Field (getFullFieldName sf t) d (UCompact_Int64 (fType sf)) # fs) (sf # sfs)"
| frep_recursive:
    "lk (UCompact_Int64 (fType sf)) = Some t \<Longrightarrow> (UCompact_Int64 (fType sf), a) \<in> R \<Longrightarrow> frep lk R ovr fs sfs \<Longrightarrow>
     frep lk R ovr (Field (getFullFieldName sf t) (RecursiveDecoder a) (UCompact_Int64 (fType sf)) # fs) (sf # sfs)"
| frep_override:
    "lk (UCompact_Int64 (fType sf)) = Some t \<Longrightarrow> ovr (UCompact_Int64 (fType sf)) = Some d \<Longrightarrow> frep lk R ovr fs sfs \<Longrightarrow>
     frep lk R ovr (Field (getFullFieldName sf t) d (UCompact_Int64 (fType sf)) # fs) (sf # sfs)"

lemma rep_mono: "rep lk R ovr d td \<Longrightarrow> R \<subseteq> R' \<Longrightarrow> rep lk R' ovr d td"
  and trep_mono: "trep lk R ovr k fs items \<Longrightarrow> R \<subseteq> R' \<Longrightarrow> trep lk R' ovr k fs items"
  and frep_mono: "frep lk R ovr fs sfs \<Longrightarrow> R \<subseteq> R' \<Longrightarrow> frep lk R' ovr fs sfs"
proof (induction rule: rep_trep_frep.inducts)
  case (rep_variant td vs m)
  show ?case
    using rep_variant.IH rep_variant.prems
    by (intro rep_trep_frep.rep_variant [OF rep_variant.hyps(1,2,3)]) fast+
qed (auto intro: rep_trep_frep.intros)

lemma crep_shape: "crep lk d td \<Longrightarrow> d \<noteq> NilDecoder \<and> d \<noteq> NoopDecoder \<and> d \<noteq> RecursiveDecoder a"
  by (cases rule: crep.cases) auto

lemma rep_shape: "rep lk R ovr d td \<Longrightarrow> d \<noteq> NilDecoder \<and> d \<noteq> RecursiveDecoder a"
  by (erule rep.cases) (auto dest: crep_shape)


section \<open>The invariant of the storages\<close>

text \<open>The address that stands for type \<open>i\<close>, in the field storage or among the recursive decoders.\<close>

definition owns :: "factory \<Rightarrow> int \<Rightarrow> nat \<Rightarrow> bool" where
  "owns f i a \<longleftrightarrow> fieldStorage f i = Some (RecursiveDecoder a) \<or> (i, a) \<in> set (recursiveFieldStorage f)"

abbreviation recs :: "factory \<Rightarrow> (int \<times> nat) set" where
  "recs f \<equiv> set (recursiveFieldStorage f)"

definition stored_ok :: "lookup \<Rightarrow> (int \<rightharpoonup> field_decoder) \<Rightarrow> factory \<Rightarrow> int \<Rightarrow> field_decoder \<Rightarrow> bool" where
  "stored_ok lk ovr f i d \<longleftrightarrow>
     (\<exists>a. d = RecursiveDecoder a) \<or> ovr i = Some d \<or> (\<exists>t. lk i = Some t \<and> rep lk (recs f) ovr d (tDef t))"

definition factory_inv :: "lookup \<Rightarrow> (int \<rightharpoonup> field_decoder) \<Rightarrow> factory \<Rightarrow> bool" where
  "factory_inv lk ovr f \<longleftrightarrow>
     (\<forall>i d. fieldStorage f i = Some d \<longrightarrow> stored_ok lk ovr f i d) \<and>
     (\<forall>i a. owns f i a \<longrightarrow> i \<in> dom (fieldStorage f) \<and> a < nextAddr f \<and> fheap f a = Some NilDecoder) \<and>
     (\<forall>i a b. owns f i a \<longrightarrow> owns f i b \<longrightarrow> a = b) \<and>
     (\<forall>i j a. owns f i a \<longrightarrow> owns f j a \<longrightarrow> i = j)"

text \<open>
  How a call may change the storages: entries stay, types that were not stored before have
  a finished decoder after, recursive decoders stay registered.
\<close>

definition extends :: "factory \<Rightarrow> factory \<Rightarrow> bool" where
  "extends f f' \<longleftrightarrow>
     fieldStorage f \<subseteq>\<^sub>m fieldStorage f' \<and>
     (\<forall>i a. fieldStorage f i = None \<longrightarrow> fieldStorage f' i \<noteq> Some (RecursiveDecoder a)) \<and>
     recs f \<subseteq> recs f'"

lemma extends_refl [simp, intro]: "extends f f"
  by (simp add: extends_def map_le_def)

lemma extends_trans [trans]:
  assumes "extends f g" "extends g h"
  shows "extends f h"
proof -
  have "fieldStorage h i \<noteq> Some (RecursiveDecoder a)" if i: "fieldStorage f i = None" for i a
  proof (cases "fieldStorage g i")
    case None
    then show ?thesis using assms(2) by (simp add: extends_def)
  next
    case (Some d)
    then have "fieldStorage h i = Some d"
      using assms(2) by (auto simp: extends_def map_le_def dom_def)
    then show ?thesis using Some assms(1) i by (auto simp: extends_def)
  qed
  then show ?thesis using assms map_le_trans by (auto simp: extends_def)
qed

lemma extends_recs: "extends f f' \<Longrightarrow> recs f \<subseteq> recs f'"
  by (simp add: extends_def)

text \<open>The contract of a callback: what \<open>getFieldDecoder\<close> promises to the loops that call it.\<close>

definition good_callback :: "lookup \<Rightarrow> (int \<rightharpoonup> field_decoder) \<Rightarrow> callback \<Rightarrow> bool" where
  "good_callback lk ovr gfd \<longleftrightarrow>
     (\<forall>nm td f d f'. factory_inv lk ovr f \<longrightarrow> gfd nm td f = (Ok d, f') \<longrightarrow>
        factory_inv lk ovr f' \<and> extends f f' \<and> rep lk (recs f') ovr d td)"

lemma good_callbackD:
  "good_callback lk ovr gfd \<Longrightarrow> factory_inv lk ovr f \<Longrightarrow> gfd nm td f = (Ok d, f') \<Longrightarrow>
   factory_inv lk ovr f' \<and> extends f f' \<and> rep lk (recs f') ovr d td"
  unfolding good_callback_def by blast

section \<open>Storage operations\<close>

lemma set_put: "set (put k v xs) = insert (k, v) {p \<in> set xs. fst p \<noteq> k}"
  by (auto simp: put_def)

lemma map_of_put: "map_of (put k v xs) j = (if j = k then Some v else map_of xs j)"
proof -
  have "map_of (filter (\<lambda>p. fst p \<noteq> k) xs) j = (if j = k then None else map_of xs j)"
    by (induction xs) auto
  then show ?thesis by (simp add: put_def)
qed

lemma stored_recursive:
  assumes "factory_inv lk ovr f" "fieldStorage f i = Some (RecursiveDecoder a)"
  shows "recs (f\<lparr>recursiveFieldStorage := put i a (recursiveFieldStorage f)\<rparr>) = insert (i, a) (recs f)"
proof -
  have "p \<in> recs f \<Longrightarrow> fst p = i \<Longrightarrow> p = (i, a)" for p
    using assms by (cases p) (auto simp: factory_inv_def owns_def)
  then show ?thesis by (auto simp: set_put)
qed

lemma stored_ok_mono: "stored_ok lk ovr f i d \<Longrightarrow> recs f \<subseteq> recs f' \<Longrightarrow> stored_ok lk ovr f' i d"
  by (auto simp: stored_ok_def intro: rep_mono)

text \<open>A type met while its decoder is being built is registered, and the invariant is kept.\<close>

lemma register_recursive:
  assumes inv: "factory_inv lk ovr f" and st: "fieldStorage f i = Some (RecursiveDecoder a)"
    and f': "f' = f\<lparr>recursiveFieldStorage := put i a (recursiveFieldStorage f)\<rparr>"
  shows "factory_inv lk ovr f' \<and> extends f f' \<and> (i, a) \<in> recs f'"
proof -
  have r: "recs f' = insert (i, a) (recs f)"
    using stored_recursive [OF inv st] by (simp add: f')
  then have "owns f' = owns f"
    using st by (auto simp: owns_def f' fun_eq_iff)
  moreover have "stored_ok lk ovr f j e \<Longrightarrow> stored_ok lk ovr f' j e" for j e
    by (erule stored_ok_mono) (auto simp: r)
  moreover have "fieldStorage f' = fieldStorage f" "fheap f' = fheap f" "nextAddr f' = nextAddr f"
    by (simp_all add: f')
  ultimately have "factory_inv lk ovr f'"
    using inv by (simp add: factory_inv_def)
  moreover have "extends f f'"
    using r by (auto simp: extends_def f' map_le_def)
  ultimately show ?thesis using r by simp
qed

text \<open>A new type gets a fresh placeholder.\<close>

lemma placeholder_inv:
  assumes inv: "factory_inv lk ovr f" and st: "fieldStorage f i = None"
    and f': "f' = f\<lparr>fieldStorage := (fieldStorage f)(i \<mapsto> RecursiveDecoder (nextAddr f)),
             fheap := (fheap f)(nextAddr f \<mapsto> NilDecoder), nextAddr := Suc (nextAddr f)\<rparr>"
  shows "factory_inv lk ovr f'"
proof -
  have o: "owns f' j a \<longleftrightarrow> (j = i \<and> a = nextAddr f) \<or> (j \<noteq> i \<and> owns f j a)" for j a
    using inv st by (auto simp: owns_def f' factory_inv_def)
  have "stored_ok lk ovr f' j d" if "fieldStorage f' j = Some d" for j d
    using that inv stored_ok_mono [of lk ovr f j d f']
    by (auto simp: factory_inv_def f' stored_ok_def split: if_splits)
  moreover have "j \<in> dom (fieldStorage f') \<and> a < nextAddr f' \<and> fheap f' a = Some NilDecoder" if "owns f' j a" for j a
    using that inv unfolding o by (auto simp: factory_inv_def f' less_Suc_eq)
  moreover have "a = b" if "owns f' j a" "owns f' j b" for j a b
    using that inv unfolding o factory_inv_def by blast
  moreover have "j = k" if "owns f' j a" "owns f' k a" for j k a
    using that inv unfolding o factory_inv_def by blast
  ultimately show ?thesis by (auto simp: factory_inv_def)
qed

text \<open>The finished decoder replaces the placeholder.\<close>

lemma store_inv:
  assumes inv: "factory_inv lk ovr f" and i: "fieldStorage f i = Some (RecursiveDecoder a)"
    and t: "lk i = Some t" and d: "rep lk (recs f) ovr d (tDef t)" and f': "f' = f\<lparr>fieldStorage := (fieldStorage f)(i \<mapsto> d)\<rparr>"
  shows "factory_inv lk ovr f'"
proof -
  have o: "owns f' j b \<Longrightarrow> owns f j b" for j b
    using rep_shape [OF d] by (auto simp: owns_def f' split: if_splits)
  have "stored_ok lk ovr f' j e" if "fieldStorage f' j = Some e" for j e
    using that inv d t by (auto simp: factory_inv_def f' stored_ok_def split: if_splits)
  moreover have "j \<in> dom (fieldStorage f') \<and> b < nextAddr f' \<and> fheap f' b = Some NilDecoder" if "owns f' j b" for j b
    using o [OF that] inv by (auto simp: factory_inv_def f')
  moreover have "b = c" if "owns f' j b" "owns f' j c" for j b c
    using o [OF that(1)] o [OF that(2)] inv unfolding factory_inv_def by blast
  moreover have "j = k" if "owns f' j b" "owns f' k b" for j k b
    using o [OF that(1)] o [OF that(2)] inv unfolding factory_inv_def by blast
  ultimately show ?thesis by (auto simp: factory_inv_def)
qed


section \<open>The loops\<close>

lemma getStored_cases:
  assumes "getStoredFieldDecoder i f = (r, f')" "factory_inv lk ovr f"
  obtains
    (found) d where "r = Ok (Some d)" "factory_inv lk ovr f'" "extends f f'" "fieldStorage f i = Some d"
      "\<And>a. d = RecursiveDecoder a \<Longrightarrow> (i, a) \<in> recs f'"
  | (fresh) a where "r = Ok None" "factory_inv lk ovr f'" "fieldStorage f i = None" "recs f' = recs f"
      "fieldStorage f' = (fieldStorage f)(i \<mapsto> RecursiveDecoder a)"
proof (cases "fieldStorage f i")
  case None
  then show ?thesis
    using assms placeholder_inv [OF assms(2) None] by (auto simp: getStoredFieldDecoder_def intro: fresh)
next
  case (Some d)
  show ?thesis
  proof (cases "\<exists>a. d = RecursiveDecoder a")
    case True
    then show ?thesis
      using assms Some register_recursive [OF assms(2)] by (auto simp: getStoredFieldDecoder_def intro: found)
  next
    case False
    then have "getStoredFieldDecoder i f = (Ok (Some d), f)"
      using Some by (auto simp: getStoredFieldDecoder_def split: field_decoder.split)
    then show ?thesis
      using assms Some False by (auto intro: found)
  qed
qed

text \<open>Building the decoder of a type that was not stored and storing it.\<close>

lemma build_and_store:
  assumes fs: "fieldStorage f1 = (fieldStorage f)(i \<mapsto> RecursiveDecoder a)" "recs f1 = recs f" "fieldStorage f i = None"
    and inv: "factory_inv lk ovr f2" and ext: "extends f1 f2" and t: "lk i = Some t" and d: "rep lk (recs f2) ovr d (tDef t)"
    and f3: "f3 = f2\<lparr>fieldStorage := (fieldStorage f2)(i \<mapsto> d)\<rparr>"
  shows "factory_inv lk ovr f3 \<and> extends f f3"
proof
  have "fieldStorage f2 i = Some (RecursiveDecoder a)"
    using ext fs by (auto simp: extends_def map_le_def)
  then show "factory_inv lk ovr f3"
    using store_inv [OF inv _ t d f3] by blast
  have "fieldStorage f \<subseteq>\<^sub>m fieldStorage f2"
    using ext fs by (auto simp: extends_def map_le_def dom_def split: if_splits)
  then have "fieldStorage f \<subseteq>\<^sub>m fieldStorage f3"
    using fs(3) by (auto simp: f3 map_le_def)
  moreover have "fieldStorage f3 j \<noteq> Some (RecursiveDecoder b)" if "fieldStorage f j = None" for j b
    using that ext fs rep_shape [OF d] by (auto simp: f3 extends_def split: if_splits)
  moreover have "recs f \<subseteq> recs f3"
    using ext fs(2) by (simp add: f3 extends_def)
  ultimately show "extends f f3" by (auto simp: extends_def)
qed

lemma getTypeFields_good:
  assumes cb: "good_callback lk ovr gfd"
  shows "factory_inv lk ovr f \<Longrightarrow> getTypeFields gfd lk sfs f = (Ok fs, f') \<Longrightarrow>
    factory_inv lk ovr f' \<and> extends f f' \<and> frep lk (recs f') ovr fs sfs"
proof (induction sfs arbitrary: f fs)
  case Nil
  then show ?case by (auto intro: rep_trep_frep.intros)
next
  case (Cons sf sfs)
  let ?i = "UCompact_Int64 (fType sf)"
  obtain t where t: "lk ?i = Some t"
    using Cons.prems(2) by (cases "lk ?i") (auto simp: Let_def)
  then obtain r f1 d f2 gs where 1: "getStoredFieldDecoder ?i f = (Ok r, f1)"
    and 2: "(case r of Some d \<Rightarrow> retM d | None \<Rightarrow>
        bindM (wrapM (libMsgWrap ''field decoder retrieval'' (getFullFieldName sf t)) (gfd (getFullFieldName sf t) (tDef t)))
          (\<lambda>d. seqM (store ?i d) (retM d))) f1 = (Ok d, f2)"
    and 3: "getTypeFields gfd lk sfs f2 = (Ok gs, f')" "fs = Field (getFullFieldName sf t) d ?i # gs"
    using Cons.prems(2) by (auto simp: Let_def bindM_Ok_iff)
  from 1 Cons.prems(1) show ?case
  proof (cases rule: getStored_cases)
    case (found e)
    then have de: "d = e" "f2 = f1" using 2 by auto
    have IH: "factory_inv lk ovr f'" "extends f1 f'" "frep lk (recs f') ovr gs sfs"
      using Cons.IH [of f1 gs] found(2) 3(1) de by auto
    have "stored_ok lk ovr f ?i d"
      using Cons.prems(1) found(4) de by (simp add: factory_inv_def)
    moreover have sub: "recs f1 \<subseteq> recs f'" "recs f \<subseteq> recs f'"
      using extends_recs [OF found(3)] extends_recs [OF IH(2)] by auto
    ultimately have "frep lk (recs f') ovr fs (sf # sfs)"
      unfolding 3(2) stored_ok_def
      using found(5) de t IH(3)
      by (auto intro: frep_recursive frep_override frep_rep rep_mono [OF _ sub(2)])
    then show ?thesis using IH found(3) extends_trans by blast
  next
    case (fresh a)
    then obtain f1' where g: "gfd (getFullFieldName sf t) (tDef t) f1 = (Ok d, f1')"
      and f2: "f2 = f1'\<lparr>fieldStorage := (fieldStorage f1')(?i \<mapsto> d)\<rparr>"
      using 2 by (auto simp: goM_iffs store_def)
    have c: "factory_inv lk ovr f1'" "extends f1 f1'" "rep lk (recs f1') ovr d (tDef t)"
      using good_callbackD [OF cb fresh(2) g] by auto
    then have s: "factory_inv lk ovr f2" "extends f f2"
      using build_and_store [OF fresh(5,4,3) c(1,2) t c(3) f2] by auto
    have IH: "factory_inv lk ovr f'" "extends f2 f'" "frep lk (recs f') ovr gs sfs"
      using Cons.IH [of f2 gs] s(1) 3(1) by auto
    have "rep lk (recs f') ovr d (tDef t)"
      using c(3) extends_recs [OF IH(2)] by (auto simp: f2 intro: rep_mono)
    then have "frep lk (recs f') ovr fs (sf # sfs)"
      unfolding 3(2) using t IH(3) by (intro frep_rep) auto
    then show ?thesis using IH s(2) extends_trans by blast
  qed
qed


text \<open>The decoder map of a variant type, after the variants \<open>vs\<close> were assigned.\<close>

definition vrep :: "lookup \<Rightarrow> (int \<times> nat) set \<Rightarrow> (int \<rightharpoonup> field_decoder) \<Rightarrow> (byte \<times> field_decoder) list \<Rightarrow> Si1Variant list \<Rightarrow> bool" where
  "vrep lk R ovr m vs \<longleftrightarrow>
     (\<forall>b. (last_variant vs b = None \<longrightarrow> map_of m b = None) \<and>
       (\<forall>v. last_variant vs b = Some v \<longrightarrow>
          (if vFields v = [] then map_of m b = Some NoopDecoder
           else \<exists>nm fs. map_of m b = Some (CompositeDecoder nm fs) \<and> frep lk R ovr fs (vFields v))))"

lemma last_variant_Nil [simp]: "last_variant [] b = None"
  by (simp add: last_variant_def)

lemma last_variant_snoc: "last_variant (vs @ [v]) b = (if vIndex v = b then Some v else last_variant vs b)"
  by (simp add: last_variant_def)

lemma vrep_mono: "vrep lk R ovr m vs \<Longrightarrow> R \<subseteq> R' \<Longrightarrow> vrep lk R' ovr m vs"
  unfolding vrep_def by (meson frep_mono)

lemma vrep_put_noop: "vrep lk R ovr m vs \<Longrightarrow> vFields v = [] \<Longrightarrow> vrep lk R ovr (put (vIndex v) NoopDecoder m) (vs @ [v])"
  by (auto simp: vrep_def last_variant_snoc map_of_put)

lemma vrep_put_composite:
  "vrep lk R ovr m vs \<Longrightarrow> vFields v \<noteq> [] \<Longrightarrow> frep lk R ovr fs (vFields v) \<Longrightarrow>
   vrep lk R ovr (put (vIndex v) (CompositeDecoder nm fs) m) (vs @ [v])"
  by (auto simp: vrep_def last_variant_snoc map_of_put)

lemma getVariant_loop_good:
  assumes cb: "good_callback lk ovr gfd"
  shows "factory_inv lk ovr f \<Longrightarrow> vrep lk (recs f) ovr m ws \<Longrightarrow> getVariant_loop gfd lk k vs m f = (Ok m', f') \<Longrightarrow>
    factory_inv lk ovr f' \<and> extends f f' \<and> vrep lk (recs f') ovr m' (ws @ vs)"
proof (induction vs arbitrary: f m ws k)
  case Nil
  then show ?case by simp
next
  case (Cons v vs)
  show ?case
  proof (cases "vFields v = []")
    case True
    then show ?thesis
      using Cons.IH [of f "put (vIndex v) NoopDecoder m" "ws @ [v]"] Cons.prems vrep_put_noop by simp
  next
    case False
    then obtain fs f1 where 1: "getTypeFields gfd lk (vFields v) f = (Ok fs, f1)"
      and 2: "getVariant_loop gfd lk (Suc k) vs (put (vIndex v) (CompositeDecoder (''variant_item_'' @ string_of_nat k) fs) m) f1 = (Ok m', f')"
      using Cons.prems(3) by (auto simp: goM_iffs)
    have g: "factory_inv lk ovr f1" "extends f f1" "frep lk (recs f1) ovr fs (vFields v)"
      using getTypeFields_good [OF cb Cons.prems(1) 1] by auto
    then have "vrep lk (recs f1) ovr (put (vIndex v) (CompositeDecoder (''variant_item_'' @ string_of_nat k) fs) m) (ws @ [v])"
      using False Cons.prems(2) vrep_mono extends_recs by (blast intro: vrep_put_composite)
    then have "factory_inv lk ovr f' \<and> extends f1 f' \<and> vrep lk (recs f') ovr m' ((ws @ [v]) @ vs)"
      using Cons.IH g(1) 2 by blast
    then show ?thesis using g(2) extends_trans by auto
  qed
qed

lemma vrep_rep: "form_of td = FVariant vs \<Longrightarrow> vrep lk R ovr m vs \<Longrightarrow> rep lk R ovr (VariantDecoder m) td"
  by (erule rep_variant) (simp_all add: vrep_def)

lemma getTuple_loop_good:
  assumes cb: "good_callback lk ovr gfd"
  shows "factory_inv lk ovr f \<Longrightarrow> getTuple_loop gfd lk k items f = (Ok fs, f') \<Longrightarrow>
    factory_inv lk ovr f' \<and> extends f f' \<and> trep lk (recs f') ovr k fs items"
proof (induction items arbitrary: f fs k)
  case Nil
  then show ?case by (auto intro: trep_Nil)
next
  case (Cons item items)
  then obtain t where t: "lk (UCompact_Int64 item) = Some t"
    by (cases "lk (UCompact_Int64 item)") auto
  then obtain d f1 gs where 1: "gfd (tuple_item_name k) (tDef t) f = (Ok d, f1)"
    and 2: "getTuple_loop gfd lk (Suc k) items f1 = (Ok gs, f')" "fs = Field (tuple_item_name k) d (UCompact_Int64 item) # gs"
    using Cons.prems(2) by (auto simp: goM_iffs)
  have g: "factory_inv lk ovr f1" "extends f f1" "rep lk (recs f1) ovr d (tDef t)"
    using good_callbackD [OF cb Cons.prems(1) 1] by auto
  moreover have IH: "factory_inv lk ovr f'" "extends f1 f'" "trep lk (recs f') ovr (Suc k) gs items"
    using Cons.IH [OF g(1) 2(1)] by auto
  ultimately show ?case
    using t 2(2) extends_trans [OF g(2) IH(2)] rep_mono [OF g(3) extends_recs [OF IH(2)]] by (auto intro: trep_Cons)
qed

text \<open>Compact decoders do not touch the storages.\<close>

lemma getCompactTuple_loop_good:
  assumes "\<And>nm td f d f'. gcfd nm td f = (Ok d, f') \<Longrightarrow> f' = f \<and> crep lk d td"
  shows "getCompactTuple_loop gcfd lk k items f = (Ok fs, f') \<Longrightarrow> f' = f \<and> ctrep lk k fs items"
proof (induction items arbitrary: fs k)
  case Nil
  then show ?case by (auto intro: ctrep_Nil)
next
  case (Cons item items)
  then show ?case
    by (cases "lk (UCompact_Int64 item)")
      (auto simp: goM_iffs Let_def dest!: assms intro: ctrep_Cons)
qed

lemma getCompactComposite_loop_good:
  assumes "\<And>nm td f d f'. gcfd nm td f = (Ok d, f') \<Longrightarrow> f' = f \<and> crep lk d td"
  shows "getCompactComposite_loop gcfd lk sfs f = (Ok fs, f') \<Longrightarrow> f' = f \<and> cfrep lk fs sfs"
proof (induction sfs arbitrary: fs)
  case Nil
  then show ?case by (auto intro: cfrep_Nil)
next
  case (Cons sf sfs)
  then show ?case
    by (cases "lk (UCompact_Int64 (fType sf))")
      (auto simp: goM_iffs Let_def dest!: assms intro: cfrep_Cons)
qed

lemma getCompactFieldDecoder_good: "getCompactFieldDecoder n lk nm td f = (Ok d, f') \<Longrightarrow> f' = f \<and> crep lk d td"
proof (induction n arbitrary: nm td f d f')
  case 0
  then show ?case by simp
next
  case (Suc n)
  have tup: "g' = g \<and> ctrep lk k fs items"
    if "getCompactTuple_loop (getCompactFieldDecoder n lk) lk k items g = (Ok fs, g')" for k items g fs g'
    using Suc.IH that by (rule getCompactTuple_loop_good)
  have com: "g' = g \<and> cfrep lk fs sfs"
    if "getCompactComposite_loop (getCompactFieldDecoder n lk) lk sfs g = (Ok fs, g')" for g fs g' sfs
    using Suc.IH that by (rule getCompactComposite_loop_good)
  from Suc.prems show ?case
    by (auto simp: compact_form_of_def goM_iffs split: if_splits option.splits
        dest!: tup com intro: crep_primitive crep_unit crep_tuple crep_composite)
qed

lemma getPrimitiveDecoder_good:
  "getPrimitiveDecoder p f = (Ok d, f') \<Longrightarrow> f' = f \<and> (\<exists>T. d = ValueDecoder T \<and> primitive_type p = Some T)"
  by (auto simp: getPrimitiveDecoder_def primitive_type_def split: if_splits)

lemma getBitSequenceDecoder_good:
  "getBitSequenceDecoder lk nm td f = (Ok d, f') \<Longrightarrow>
   f' = f \<and> (\<exists>ord. d = BitSequenceDecoder nm ord \<and>
     bit_order lk (UCompact_Int64 (BitStoreType td)) (UCompact_Int64 (BitOrderType td)) = Some ord)"
  by (auto simp: getBitSequenceDecoder_def bit_order_def goM_iffs split: option.splits if_splits)

lemma field_decoder_step_good:
  assumes cb: "good_callback lk ovr gfd"
    and cc: "\<And>nm td f d f'. gcfd nm td f = (Ok d, f') \<Longrightarrow> f' = f \<and> crep lk d td"
  shows "good_callback lk ovr (field_decoder_step gfd gcfd lk)"
proof -
  have "factory_inv lk ovr f' \<and> extends f f' \<and> rep lk (recs f') ovr d td"
    if inv: "factory_inv lk ovr f" and run: "field_decoder_step gfd gcfd lk nm td f = (Ok d, f')" for nm td f d f'
  proof (cases "form_of td")
    case FUnsupported
    then show ?thesis using run by (auto simp: field_decoder_step_def form_of_def split: if_splits)
  next
    case (FCompact i)
    then show ?thesis
      using run inv by (auto simp: field_decoder_step_def form_of_def split: if_splits option.splits dest!: cc intro: rep_compact)
  next
    case (FComposite sfs)
    then show ?thesis
      using run inv by (auto simp: field_decoder_step_def form_of_def goM_iffs split: if_splits
          dest!: getTypeFields_good [OF cb inv] intro: rep_composite)
  next
    case (FVariant vs)
    moreover have "vrep lk (recs f) ovr [] []" by (simp add: vrep_def)
    ultimately show ?thesis
      using run inv by (auto simp: field_decoder_step_def form_of_def getVariantFieldDecoder_def goM_iffs split: if_splits
          dest!: getVariant_loop_good [OF cb inv, where ws = "[]"] intro: vrep_rep)
  next
    case (FPrimitive p)
    then show ?thesis
      using run inv by (auto simp: field_decoder_step_def form_of_def split: if_splits dest!: getPrimitiveDecoder_good intro: rep_primitive)
  next
    case (FArray n i)
    then show ?thesis
      using run inv by (auto simp: field_decoder_step_def form_of_def getArrayFieldDecoder_def goM_iffs split: if_splits option.splits
          dest!: good_callbackD [OF cb inv] intro: rep_array)
  next
    case (FSequence i)
    then show ?thesis
      using run inv by (auto simp: field_decoder_step_def form_of_def getSliceFieldDecoder_def goM_iffs split: if_splits option.splits
          dest!: good_callbackD [OF cb inv] intro: rep_sequence)
  next
    case (FTuple ti)
    then show ?thesis
      using run inv by (auto simp: field_decoder_step_def form_of_def getTupleFieldDecoder_def goM_iffs split: if_splits option.splits
          dest!: getTuple_loop_good [OF cb inv] intro: rep_tuple rep_unit)
  next
    case (FBits st oi)
    then show ?thesis
      using run inv by (auto simp: field_decoder_step_def form_of_def split: if_splits dest!: getBitSequenceDecoder_good intro: rep_bits)
  qed
  then show ?thesis unfolding good_callback_def by blast
qed

lemma getFieldDecoder_good: "good_callback lk ovr (getFieldDecoder n lk)"
proof (induction n)
  case 0
  show ?case by (simp add: good_callback_def)
next
  case (Suc n)
  have "getFieldDecoder (Suc n) lk = field_decoder_step (getFieldDecoder n lk) (getCompactFieldDecoder n lk) lk"
    by (intro ext) simp
  then show ?case
    using field_decoder_step_good [OF Suc.IH getCompactFieldDecoder_good] by simp
qed


section \<open>Resolving\<close>

text \<open>
  When every registered type has a finished decoder, the loop succeeds in any order and every
  registered address ends up with the decoder of its type.
\<close>

definition finished :: "factory \<Rightarrow> bool" where
  "finished f \<longleftrightarrow> (\<forall>i a. fieldStorage f i \<noteq> Some (RecursiveDecoder a))"

text \<open>One round: the address holds the decoder of its type afterwards, the rest of the heap is as before.\<close>

lemma resolve_step:
  assumes "fieldStorage f i = Some d" "\<And>b. d \<noteq> RecursiveDecoder b"
    and "inner (fheap f) a = NilDecoder \<or> Some (inner (fheap f) a) = fieldStorage f i"
  obtains h where "resolve_loop ((i, a) # rs) f = resolve_loop rs (f\<lparr>fheap := h\<rparr>)" "h a = Some d"
    "\<And>b. b \<noteq> a \<Longrightarrow> h b = fheap f b"
proof (cases "inner (fheap f) a = NilDecoder")
  case True
  then have "resolve_loop ((i, a) # rs) f = resolve_loop rs (f\<lparr>fheap := (fheap f)(a \<mapsto> d)\<rparr>)"
    using assms(1,2) by (auto split: field_decoder.split)
  then show thesis by (rule that) (simp_all add: inner_def)
next
  case False
  then have "fheap f a = Some d" using assms(1,3) by (auto simp: inner_def split: option.splits)
  then show thesis using that [of "fheap f"] False by simp
qed

definition resolved :: "(int \<times> nat) list \<Rightarrow> factory \<Rightarrow> heap \<Rightarrow> bool" where
  "resolved rs f h \<longleftrightarrow> (\<forall>i a. (i, a) \<in> set rs \<longrightarrow> h a = fieldStorage f i) \<and>
     (\<forall>a. a \<notin> snd ` set rs \<longrightarrow> h a = fheap f a)"

lemma resolve_loop_ok:
  assumes "\<forall>i a. (i, a) \<in> set rs \<longrightarrow> i \<in> dom (fieldStorage f)" "finished f"
    and "\<forall>i j a. (i, a) \<in> set rs \<longrightarrow> (j, a) \<in> set rs \<longrightarrow> i = j"
    and "\<forall>i a. (i, a) \<in> set rs \<longrightarrow> inner (fheap f) a = NilDecoder \<or> Some (inner (fheap f) a) = fieldStorage f i"
  shows "\<exists>h. resolve_loop rs f = (Ok (), f\<lparr>fheap := h\<rparr>) \<and> resolved rs f h"
  using assms
proof (induction rs arbitrary: f)
  case Nil
  show ?case by (rule exI [of _ "fheap f"]) (simp add: resolved_def)
next
  case (Cons r rs)
  obtain i a where r: "r = (i, a)" by (cases r)
  from Cons.prems(1) r have "i \<in> dom (fieldStorage f)" by simp
  then obtain d where d: "fieldStorage f i = Some d" "\<And>b. d \<noteq> RecursiveDecoder b"
    using Cons.prems(2) by (auto simp: finished_def)
  from Cons.prems(4) r have n: "inner (fheap f) a = NilDecoder \<or> Some (inner (fheap f) a) = fieldStorage f i" by simp
  from resolve_step [OF d n, of rs] obtain g where g: "resolve_loop (r # rs) f = resolve_loop rs (f\<lparr>fheap := g\<rparr>)"
    "g a = Some d" "\<And>b. b \<noteq> a \<Longrightarrow> g b = fheap f b"
    unfolding r by blast
  have "\<forall>j b. (j, b) \<in> set rs \<longrightarrow> inner g b = NilDecoder \<or> Some (inner g b) = fieldStorage f j"
  proof clarify
    fix j b
    assume jb: "(j, b) \<in> set rs" "Some (inner g b) \<noteq> fieldStorage f j"
    have "(i, a) \<in> set (r # rs)" "(j, b) \<in> set (r # rs)" using jb(1) by (simp_all add: r)
    then have "b \<noteq> a" using Cons.prems(3) jb(2) g(2) d(1) by (metis inner_def option.simps(5))
    then show "inner g b = NilDecoder"
      using Cons.prems(4) jb g(3) by (auto simp: inner_def)
  qed
  moreover have "\<forall>i j a. (i, a) \<in> set rs \<longrightarrow> (j, a) \<in> set rs \<longrightarrow> i = j"
    using Cons.prems(3) by simp
  moreover have "\<forall>i a. (i, a) \<in> set rs \<longrightarrow> i \<in> dom (fieldStorage f)"
    using Cons.prems(1) by simp
  ultimately obtain h where h: "resolve_loop rs (f\<lparr>fheap := g\<rparr>) = (Ok (), f\<lparr>fheap := h\<rparr>)" "resolved rs (f\<lparr>fheap := g\<rparr>) h"
    using Cons.IH [of "f\<lparr>fheap := g\<rparr>"] Cons.prems(2) by (auto simp: finished_def)
  have "h a = fieldStorage f i"
  proof (cases "a \<in> snd ` set rs")
    case True
    then obtain j where "(j, a) \<in> set rs" by force
    then show ?thesis using h(2) Cons.prems(3) by (auto simp: r resolved_def)
  next
    case False
    then show ?thesis using h(2) g(2) d(1) by (simp add: resolved_def)
  qed
  then have "resolved (r # rs) f h"
    using h(2) g(3) by (auto simp: r resolved_def)
  then show ?case using h(1) g(1) by auto
qed

lemma resolve_any:
  assumes "factory_inv lk ovr f" "finished f" "set rs = recs f"
  shows "\<exists>h. resolve_loop rs f = (Ok (), f\<lparr>fheap := h\<rparr>) \<and> resolved rs f h"
proof (rule resolve_loop_ok, unfold assms(3))
  have o: "owns f i a" if "(i, a) \<in> recs f" for i a
    using that by (simp add: owns_def)
  show "\<forall>i a. (i, a) \<in> recs f \<longrightarrow> i \<in> dom (fieldStorage f)"
    using assms(1) o unfolding factory_inv_def by blast
  show "finished f" by fact
  show "\<forall>i j a. (i, a) \<in> recs f \<longrightarrow> (j, a) \<in> recs f \<longrightarrow> i = j"
    using assms(1) o unfolding factory_inv_def by blast
  show "\<forall>i a. (i, a) \<in> recs f \<longrightarrow> inner (fheap f) a = NilDecoder \<or> Some (inner (fheap f) a) = fieldStorage f i"
  proof (intro allI impI disjI1)
    fix i a
    assume "(i, a) \<in> recs f"
    then have "fheap f a = Some NilDecoder"
      using assms(1) o unfolding factory_inv_def by blast
    then show "inner (fheap f) a = NilDecoder" by (simp add: inner_def)
  qed
qed

lemma resolve_after_build:
  assumes "factory_inv lk ovr f" "finished f"
  shows "\<exists>h. resolveRecursiveDecoders f = (Ok (), f\<lparr>fheap := h\<rparr>) \<and> resolved (recursiveFieldStorage f) f h"
  unfolding resolveRecursiveDecoders_def using assms by (rule resolve_any) simp

section \<open>Registries\<close>

text \<open>
  A registry matches the metadata: each entry is the decoder of a variant of a pallet, under
  the key and the name of that variant.
\<close>

definition entry_of ::
  "lookup \<Rightarrow> (int \<times> nat) set \<Rightarrow> (int \<rightharpoonup> field_decoder) \<Rightarrow> (PalletMetadataV14 \<Rightarrow> bool) \<Rightarrow> (PalletMetadataV14 \<Rightarrow> int) \<Rightarrow>
   (uint8 \<Rightarrow> uint8 \<Rightarrow> 'k) \<Rightarrow> PalletMetadataV14 list \<Rightarrow> 'k \<Rightarrow> TypeDecoder \<Rightarrow> bool" where
  "entry_of lk R ovr has tyof key ps k td \<longleftrightarrow>
     (\<exists>p\<in>set ps. \<exists>t v. has p \<and> lk (UCompact_Int64 (tyof p)) = Some t \<and> v \<in> set (Variants (tDef t)) \<and>
        k = key (pIndex p) (vIndex v) \<and> tdName td = pName p @ ''.'' @ vName v \<and>
        frep lk R ovr (tdFields td) (vFields v))"

lemma entry_of_mono: "entry_of lk R ovr has tyof key ps k td \<Longrightarrow> R \<subseteq> R' \<Longrightarrow> entry_of lk R' ovr has tyof key ps k td"
  unfolding entry_of_def by (blast intro: frep_mono)

lemma variants_loop_good:
  assumes cb: "good_callback lk ovr gfd" and p: "p \<in> set ps" "has p" "lk (UCompact_Int64 (tyof p)) = Some t"
  shows "factory_inv lk ovr f \<Longrightarrow> set vs \<subseteq> set (Variants (tDef t)) \<Longrightarrow>
    \<forall>k td. reg k = Some td \<longrightarrow> entry_of lk (recs f) ovr has tyof key ps k td \<Longrightarrow>
    variants_loop gfd lk what (key (pIndex p)) (pName p) vs reg f = (Ok reg', f') \<Longrightarrow>
    factory_inv lk ovr f' \<and> extends f f' \<and> dom reg' = dom reg \<union> (\<lambda>v. key (pIndex p) (vIndex v)) ` set vs \<and>
    (\<forall>k td. reg' k = Some td \<longrightarrow> entry_of lk (recs f') ovr has tyof key ps k td)"
proof (induction vs arbitrary: f reg)
  case Nil
  then show ?case by simp
next
  case (Cons v vs)
  let ?k = "key (pIndex p) (vIndex v)" and ?n = "pName p @ ''.'' @ vName v"
  obtain fs f1 where 1: "getTypeFields gfd lk (vFields v) f = (Ok fs, f1)"
    and 2: "variants_loop gfd lk what (key (pIndex p)) (pName p) vs (reg(?k \<mapsto> \<lparr>tdName = ?n, tdFields = fs\<rparr>)) f1 = (Ok reg', f')"
    using Cons.prems(4) by (auto simp: Let_def goM_iffs)
  have g: "factory_inv lk ovr f1" "extends f f1" "frep lk (recs f1) ovr fs (vFields v)"
    using getTypeFields_good [OF cb Cons.prems(1) 1] by auto
  have "entry_of lk (recs f1) ovr has tyof key ps ?k \<lparr>tdName = ?n, tdFields = fs\<rparr>"
    using p g(3) Cons.prems(2) by (auto simp: entry_of_def)
  then have "\<forall>k td. (reg(?k \<mapsto> \<lparr>tdName = ?n, tdFields = fs\<rparr>)) k = Some td \<longrightarrow> entry_of lk (recs f1) ovr has tyof key ps k td"
    using Cons.prems(3) by (auto intro: entry_of_mono [OF _ extends_recs [OF g(2)]])
  with Cons.IH [OF g(1) _ _ 2] Cons.prems(2) have IH: "factory_inv lk ovr f' \<and> extends f1 f' \<and>
      dom reg' = dom (reg(?k \<mapsto> \<lparr>tdName = ?n, tdFields = fs\<rparr>)) \<union> (\<lambda>v. key (pIndex p) (vIndex v)) ` set vs \<and>
      (\<forall>k td. reg' k = Some td \<longrightarrow> entry_of lk (recs f') ovr has tyof key ps k td)"
    by auto
  then show ?case using extends_trans [OF g(2)] by auto
qed

text \<open>The keys a registry must have: all variants of all pallets that have the item.\<close>

definition keys_of ::
  "lookup \<Rightarrow> (PalletMetadataV14 \<Rightarrow> bool) \<Rightarrow> (PalletMetadataV14 \<Rightarrow> int) \<Rightarrow> (uint8 \<Rightarrow> uint8 \<Rightarrow> 'k) \<Rightarrow> PalletMetadataV14 list \<Rightarrow> 'k set" where
  "keys_of lk has tyof key ps =
     {key (pIndex p) (vIndex v) | p v t. p \<in> set ps \<and> has p \<and> lk (UCompact_Int64 (tyof p)) = Some t \<and> v \<in> set (Variants (tDef t))}"

lemma pallets_loop_good:
  assumes cb: "good_callback lk ovr gfd"
  shows "factory_inv lk ovr f \<Longrightarrow> set qs \<subseteq> set ps \<Longrightarrow>
    \<forall>k td. reg k = Some td \<longrightarrow> entry_of lk (recs f) ovr has tyof key ps k td \<Longrightarrow>
    pallets_loop gfd lk what whats has tyof key qs reg f = (Ok reg', f') \<Longrightarrow>
    factory_inv lk ovr f' \<and> extends f f' \<and> dom reg' = dom reg \<union> keys_of lk has tyof key qs \<and>
    (\<forall>k td. reg' k = Some td \<longrightarrow> entry_of lk (recs f') ovr has tyof key ps k td)"
proof (induction qs arbitrary: f reg)
  case Nil
  then show ?case by (simp add: keys_of_def)
next
  case (Cons p qs)
  show ?case
  proof (cases "has p")
    case False
    moreover from this have "keys_of lk has tyof key (p # qs) = keys_of lk has tyof key qs" by (auto simp: keys_of_def)
    ultimately show ?thesis using Cons.IH [of f reg] Cons.prems by simp
  next
    case True
    then obtain t where t: "lk (UCompact_Int64 (tyof p)) = Some t"
      using Cons.prems(4) by (cases "lk (UCompact_Int64 (tyof p))") (auto simp: Let_def)
    obtain reg1 f1 where 1: "variants_loop gfd lk what (key (pIndex p)) (pName p) (Variants (tDef t)) reg f = (Ok reg1, f1)"
      and 2: "pallets_loop gfd lk what whats has tyof key qs reg1 f1 = (Ok reg', f')"
      using Cons.prems(4) True t by (auto simp: Let_def goM_iffs split: if_splits)
    have p: "p \<in> set ps" using Cons.prems(2) by simp
    from variants_loop_good [where has = has and tyof = tyof and ps = ps, OF cb p True t Cons.prems(1) subset_refl Cons.prems(3) 1]
    have g: "factory_inv lk ovr f1" "extends f f1"
      "dom reg1 = dom reg \<union> (\<lambda>v. key (pIndex p) (vIndex v)) ` set (Variants (tDef t))"
      "\<forall>k td. reg1 k = Some td \<longrightarrow> entry_of lk (recs f1) ovr has tyof key ps k td" by auto
    have IH: "factory_inv lk ovr f'" "extends f1 f'" "dom reg' = dom reg1 \<union> keys_of lk has tyof key qs"
      "\<forall>k td. reg' k = Some td \<longrightarrow> entry_of lk (recs f') ovr has tyof key ps k td"
      using Cons.IH [OF g(1) _ g(4) 2] Cons.prems(2) by auto
    moreover have "dom reg' = dom reg \<union> keys_of lk has tyof key (p # qs)"
      using IH(3) g(3) True t by (auto simp: keys_of_def)
    ultimately show ?thesis using extends_trans [OF g(2) IH(2)] by blast
  qed
qed


text \<open>The overrides as the reset storages hold them; none may be a recursive decoder itself.\<close>

abbreviation overrides_of :: "factory \<Rightarrow> int \<rightharpoonup> field_decoder" where
  "overrides_of f \<equiv> override_loop (fieldOverrides f) Map.empty"

definition plain_overrides :: "factory \<Rightarrow> bool" where
  "plain_overrides f \<longleftrightarrow> list_all (\<lambda>(i, d). \<not> (case d of RecursiveDecoder _ \<Rightarrow> True | _ \<Rightarrow> False)) (fieldOverrides f)"

lemma override_loop_mem: "override_loop os m i = Some d \<Longrightarrow> m i = Some d \<or> (i, d) \<in> set os"
  by (induction os m rule: override_loop.induct) (auto split: if_splits)

lemma plain_overridesD: "plain_overrides f \<Longrightarrow> overrides_of f i \<noteq> Some (RecursiveDecoder a)"
  by (auto simp: plain_overrides_def list_all_iff dest!: override_loop_mem)

lemma reset_inv:
  assumes "plain_overrides f" "resetStorages f = (Ok (), g)"
  shows "factory_inv lk (overrides_of f) g \<and> finished g"
  using assms plain_overridesD [OF assms(1)]
  by (auto simp: resetStorages_def factory_inv_def stored_ok_def owns_def finished_def)

lemma extends_finished: "extends f f' \<Longrightarrow> finished f \<Longrightarrow> finished f'"
proof -
  assume e: "extends f f'" and fin: "finished f"
  have "fieldStorage f' i \<noteq> Some (RecursiveDecoder a)" for i a
  proof (cases "fieldStorage f i")
    case None
    then show ?thesis using e by (simp add: extends_def)
  next
    case (Some d)
    then have "fieldStorage f' i = Some d" using e by (auto simp: extends_def map_le_def dom_def)
    then show ?thesis using Some fin by (auto simp: finished_def)
  qed
  then show ?thesis by (simp add: finished_def)
qed

text \<open>
  A heap is closed when every registered address holds the override or a decoder of its type.
\<close>

definition closed_heap :: "lookup \<Rightarrow> (int \<times> nat) set \<Rightarrow> (int \<rightharpoonup> field_decoder) \<Rightarrow> heap \<Rightarrow> bool" where
  "closed_heap lk R ovr h \<longleftrightarrow>
     (\<forall>i a. (i, a) \<in> R \<longrightarrow>
        ovr i = Some (inner h a) \<or> (\<exists>t. lk i = Some t \<and> rep lk R ovr (inner h a) (tDef t)))"

lemma closed_after_resolve:
  assumes "factory_inv lk ovr f" "finished f" "resolved (recursiveFieldStorage f) f h"
  shows "closed_heap lk (recs f) ovr h"
  unfolding closed_heap_def
proof (intro allI impI)
  fix i a
  assume r: "(i, a) \<in> recs f"
  then have "i \<in> dom (fieldStorage f)"
    using assms(1) unfolding factory_inv_def owns_def by blast
  with r have d: "fieldStorage f i = Some (inner h a)"
    using assms(3) by (auto simp: resolved_def inner_def)
  then have "stored_ok lk ovr f i (inner h a)"
    using assms(1) by (simp add: factory_inv_def)
  then show "ovr i = Some (inner h a) \<or> (\<exists>t. lk i = Some t \<and> rep lk (recs f) ovr (inner h a) (tDef t))"
    using d assms(2) by (auto simp: stored_ok_def finished_def)
qed

lemma create_registry_ok:
  assumes plain: "plain_overrides f"
    and run: "pallets_loop (getFieldDecoder n lk) lk what whats has tyof key (Pallets m) Map.empty (snd (resetStorages f)) = (Ok reg, f1)"
    and lk: "lk = EfficientLookup m"
  shows "\<exists>h. create_registry n m what whats has tyof key f = (Ok reg, f1\<lparr>fheap := h\<rparr>) \<and>
    dom reg = keys_of lk has tyof key (Pallets m) \<and> closed_heap lk (recs f1) (overrides_of f) h \<and>
    (\<forall>k td. reg k = Some td \<longrightarrow> entry_of lk (recs f1) (overrides_of f) has tyof key (Pallets m) k td)"
proof -
  obtain f0 where f0: "resetStorages f = (Ok (), f0)" by (simp add: resetStorages_def)
  then have i0: "factory_inv lk (overrides_of f) f0" "finished f0"
    using reset_inv [OF plain f0, of lk] by auto
  have run': "pallets_loop (getFieldDecoder n lk) lk what whats has tyof key (Pallets m) Map.empty f0 = (Ok reg, f1)"
    using run f0 by simp
  have g: "factory_inv lk (overrides_of f) f1" "extends f0 f1" "dom reg = keys_of lk has tyof key (Pallets m)"
    "\<forall>k td. reg k = Some td \<longrightarrow> entry_of lk (recs f1) (overrides_of f) has tyof key (Pallets m) k td"
    using pallets_loop_good [OF getFieldDecoder_good i0(1) subset_refl _ run'] by auto
  then have fin: "finished f1" using extends_finished i0(2) by blast
  obtain h where h: "resolveRecursiveDecoders f1 = (Ok (), f1\<lparr>fheap := h\<rparr>)" "resolved (recursiveFieldStorage f1) f1 h"
    using resolve_after_build [OF g(1) fin] by blast
  then have "create_registry n m what whats has tyof key f = (Ok reg, f1\<lparr>fheap := h\<rparr>)"
    using f0 run' by (simp add: create_registry_def lk)
  then show ?thesis
    using closed_after_resolve [OF g(1) fin h(2)] g(3,4) by blast
qed

end
