(* ===== verification/RegistryTermination.thy ===== *)
theory RegistryTermination
  imports RegistryInvariant
begin

text \<open>
  When the factory returns. A field's type is stored before its decoder is built, so
  composites and variants may refer to themselves. Arrays, sequences, tuples and compact
  types build their item's decoder without storing it: a type that contains itself through
  these alone makes \<open>getFieldDecoder\<close> call itself for ever. Chains of such direct references
  of bounded length are enough for termination, and the bound gives enough fuel.
\<close>

section \<open>Direct references\<close>

primrec compact_ok :: "nat \<Rightarrow> lookup \<Rightarrow> Si1TypeDef \<Rightarrow> bool" where
  "compact_ok 0 lk td = False"
| "compact_ok (Suc k) lk td =
     (case compact_form_of td of
        CTuple (Some items) \<Rightarrow>
          list_all (\<lambda>i. case lk (UCompact_Int64 i) of None \<Rightarrow> True | Some t \<Rightarrow> compact_ok k lk (tDef t)) items
      | CComposite fs \<Rightarrow>
          list_all (\<lambda>f. case lk (UCompact_Int64 (fType f)) of None \<Rightarrow> True | Some t \<Rightarrow> compact_ok k lk (tDef t)) fs
      | _ \<Rightarrow> True)"

text \<open>\<open>direct_ok k lk td\<close>: no chain of more than \<open>k\<close> direct references starts at \<open>td\<close>.\<close>

primrec direct_ok :: "nat \<Rightarrow> lookup \<Rightarrow> Si1TypeDef \<Rightarrow> bool" where
  "direct_ok 0 lk td = False"
| "direct_ok (Suc k) lk td =
     (case form_of td of
        FCompact i \<Rightarrow> (case lk i of None \<Rightarrow> True | Some t \<Rightarrow> compact_ok k lk (tDef t))
      | FArray n i \<Rightarrow> (case lk i of None \<Rightarrow> True | Some t \<Rightarrow> direct_ok k lk (tDef t))
      | FSequence i \<Rightarrow> (case lk i of None \<Rightarrow> True | Some t \<Rightarrow> direct_ok k lk (tDef t))
      | FTuple (Some items) \<Rightarrow>
          list_all (\<lambda>i. case lk (UCompact_Int64 i) of None \<Rightarrow> True | Some t \<Rightarrow> direct_ok k lk (tDef t)) items
      | _ \<Rightarrow> True)"

definition bounded_types :: "nat \<Rightarrow> lookup \<Rightarrow> bool" where
  "bounded_types K lk \<longleftrightarrow> finite (dom lk) \<and> (\<forall>t\<in>ran lk. direct_ok K lk (tDef t))"

section \<open>Compact types\<close>

lemma compact_loops_halt:
  assumes "\<And>nm t g g'. t \<in> T \<Longrightarrow> gcfd nm (tDef t) g \<noteq> (OutOfFuel, g')"
  shows "\<forall>i\<in>set items. \<forall>t. lk (UCompact_Int64 i) = Some t \<longrightarrow> t \<in> T \<Longrightarrow> getCompactTuple_loop gcfd lk k items f \<noteq> (OutOfFuel, f')"
    and "\<forall>sf\<in>set sfs. \<forall>t. lk (UCompact_Int64 (fType sf)) = Some t \<longrightarrow> t \<in> T \<Longrightarrow> getCompactComposite_loop gcfd lk sfs f \<noteq> (OutOfFuel, f')"
proof -
  show "\<forall>i\<in>set items. \<forall>t. lk (UCompact_Int64 i) = Some t \<longrightarrow> t \<in> T \<Longrightarrow> getCompactTuple_loop gcfd lk k items f \<noteq> (OutOfFuel, f')"
    by (induction items arbitrary: k f f') (auto simp: Let_def goM_iffs assms split: option.split)
  show "\<forall>sf\<in>set sfs. \<forall>t. lk (UCompact_Int64 (fType sf)) = Some t \<longrightarrow> t \<in> T \<Longrightarrow> getCompactComposite_loop gcfd lk sfs f \<noteq> (OutOfFuel, f')"
    by (induction sfs arbitrary: f f') (auto simp: Let_def goM_iffs assms split: option.split)
qed

lemma getCompactFieldDecoder_halts:
  "compact_ok k lk td \<Longrightarrow> k \<le> n \<Longrightarrow> getCompactFieldDecoder n lk nm td f \<noteq> (OutOfFuel, f')"
proof (induction k arbitrary: n nm td f f')
  case 0
  then show ?case by simp
next
  case (Suc k)
  then obtain n' where n: "n = Suc n'" "k \<le> n'" by (cases n) auto
  have IH: "t \<in> {t. compact_ok k lk (tDef t)} \<Longrightarrow> getCompactFieldDecoder n' lk nm (tDef t) g \<noteq> (OutOfFuel, g')" for nm t g g'
    using Suc.IH n(2) by blast
  note loops = compact_loops_halt [where T = "{t. compact_ok k lk (tDef t)}" and gcfd = "getCompactFieldDecoder n' lk", OF IH]
  have tup: "getCompactTuple_loop (getCompactFieldDecoder n' lk) lk 0 items f \<noteq> (OutOfFuel, f')"
    if "compact_form_of td = CTuple (Some items)" for items
    using that Suc.prems(1) by (intro loops(1)) (auto simp: list_all_iff split: option.splits)
  have com: "getCompactComposite_loop (getCompactFieldDecoder n' lk) lk sfs f \<noteq> (OutOfFuel, f')"
    if "compact_form_of td = CComposite sfs" for sfs
    using that Suc.prems(1) by (intro loops(2)) (auto simp: list_all_iff split: option.splits)
  show ?case
    using tup com unfolding n(1)
    by (auto simp: compact_form_of_def goM_iffs split: option.split if_splits)
qed

section \<open>The loops\<close>

text \<open>The number of types whose decoder has not been started.\<close>

definition unvisited :: "lookup \<Rightarrow> factory \<Rightarrow> nat" where
  "unvisited lk f = card (dom lk - dom (fieldStorage f))"

lemma unvisited_extends: "finite (dom lk) \<Longrightarrow> extends f f' \<Longrightarrow> unvisited lk f' \<le> unvisited lk f"
  unfolding unvisited_def
  by (rule card_mono) (auto simp: extends_def dest!: map_le_implies_dom_le)

lemma unvisited_mark:
  "finite (dom lk) \<Longrightarrow> lk i = Some t \<Longrightarrow> fieldStorage f i = None \<Longrightarrow>
   fieldStorage f' = (fieldStorage f)(i \<mapsto> d) \<Longrightarrow> unvisited lk f' < unvisited lk f"
  unfolding unvisited_def by (rule psubset_card_mono) auto

lemma getTypeFields_halts:
  assumes cb: "good_callback lk ovr gfd" and fin: "finite (dom lk)"
    and halt: "\<And>nm t g g'. factory_inv lk ovr g \<Longrightarrow> t \<in> ran lk \<Longrightarrow> unvisited lk g < u \<Longrightarrow> gfd nm (tDef t) g \<noteq> (OutOfFuel, g')"
  shows "factory_inv lk ovr f \<Longrightarrow> unvisited lk f \<le> u \<Longrightarrow> getTypeFields gfd lk sfs f \<noteq> (OutOfFuel, f')"
proof (induction sfs arbitrary: f)
  case Nil
  show ?case by simp
next
  case (Cons sf sfs)
  let ?i = "UCompact_Int64 (fType sf)"
  show ?case
  proof (cases "lk ?i")
    case None
    then show ?thesis by (simp add: Let_def)
  next
    case t: (Some t)
    have rest: "getTypeFields gfd lk sfs g \<noteq> (OutOfFuel, f')" if "factory_inv lk ovr g" "extends f g" for g
      using Cons.IH [OF that(1)] unvisited_extends [OF fin that(2)] Cons.prems(2) by simp
    obtain r f1 where s: "getStoredFieldDecoder ?i f = (r, f1)" by fastforce
    from s Cons.prems(1) show ?thesis
    proof (cases rule: getStored_cases)
      case (found d)
      then show ?thesis using s t rest [of f1] by (auto simp: Let_def goM_iffs)
    next
      case (fresh a)
      have "unvisited lk f1 < u"
        using unvisited_mark [OF fin t fresh(3,5)] Cons.prems(2) by simp
      then have h: "gfd nm (tDef t) f1 \<noteq> (OutOfFuel, g)" for nm g
        using t by (intro halt [OF fresh(2)] ranI [of lk ?i])
      have "getTypeFields gfd lk sfs (g\<lparr>fieldStorage := (fieldStorage g)(?i \<mapsto> d)\<rparr>) \<noteq> (OutOfFuel, f')"
        if g: "gfd nm (tDef t) f1 = (Ok d, g)" for nm d g
      proof -
        have "factory_inv lk ovr g" "extends f1 g" "rep lk (recs g) ovr d (tDef t)"
          using good_callbackD [OF cb fresh(2) g] by auto
        then show ?thesis
          using build_and_store [where i = ?i and t = t and lk = lk and a = a, OF fresh(5,4,3) _ _ t _ refl] rest by blast
      qed
      then show ?thesis using s t fresh(1) h by (auto simp: Let_def goM_iffs store_def)
    qed
  qed
qed

lemma getVariant_loop_halts:
  assumes cb: "good_callback lk ovr gfd" and fin: "finite (dom lk)"
    and halt: "\<And>nm t g g'. factory_inv lk ovr g \<Longrightarrow> t \<in> ran lk \<Longrightarrow> unvisited lk g < u \<Longrightarrow> gfd nm (tDef t) g \<noteq> (OutOfFuel, g')"
  shows "factory_inv lk ovr f \<Longrightarrow> unvisited lk f \<le> u \<Longrightarrow> getVariant_loop gfd lk k vs m f \<noteq> (OutOfFuel, f')"
proof (induction vs arbitrary: f k m)
  case Nil
  show ?case by simp
next
  case (Cons v vs)
  have "getTypeFields gfd lk (vFields v) f \<noteq> (OutOfFuel, f')"
    by (rule getTypeFields_halts [OF cb fin halt Cons.prems])
  moreover have "getVariant_loop gfd lk (Suc k) vs m' g \<noteq> (OutOfFuel, f')"
    if "getTypeFields gfd lk (vFields v) f = (Ok fs, g)" for fs g m'
  proof -
    have "factory_inv lk ovr g" "extends f g"
      using getTypeFields_good [OF cb Cons.prems(1) that] by auto
    then show ?thesis using Cons.IH unvisited_extends [OF fin] Cons.prems(2) by (meson order_trans)
  qed
  moreover have "getVariant_loop gfd lk (Suc k) vs m' f \<noteq> (OutOfFuel, f')" for m'
    using Cons.IH Cons.prems by blast
  ultimately show ?case by (auto simp: goM_iffs)
qed

lemma getTuple_loop_halts:
  assumes cb: "good_callback lk ovr gfd" and fin: "finite (dom lk)"
    and halt: "\<And>nm t g g'. factory_inv lk ovr g \<Longrightarrow> t \<in> T \<Longrightarrow> unvisited lk g \<le> u \<Longrightarrow> gfd nm (tDef t) g \<noteq> (OutOfFuel, g')"
  shows "factory_inv lk ovr f \<Longrightarrow> unvisited lk f \<le> u \<Longrightarrow> \<forall>i\<in>set items. \<forall>t. lk (UCompact_Int64 i) = Some t \<longrightarrow> t \<in> T \<Longrightarrow>
    getTuple_loop gfd lk k items f \<noteq> (OutOfFuel, f')"
proof (induction items arbitrary: f k)
  case Nil
  show ?case by simp
next
  case (Cons item items)
  show ?case
  proof (cases "lk (UCompact_Int64 item)")
    case None
    then show ?thesis by simp
  next
    case (Some t)
    then have "t \<in> T" using Cons.prems(3) by simp
    then have "gfd nm (tDef t) f \<noteq> (OutOfFuel, f')" for nm
      using halt Cons.prems by blast
    moreover have "getTuple_loop gfd lk (Suc k) items g \<noteq> (OutOfFuel, f')" if "gfd nm (tDef t) f = (Ok d, g)" for nm d g
    proof -
      have "factory_inv lk ovr g" "extends f g"
        using good_callbackD [OF cb Cons.prems(1) that] by auto
      then show ?thesis using Cons.IH unvisited_extends [OF fin] Cons.prems(2,3) by (meson list.set_intros(2) order_trans)
    qed
    ultimately show ?thesis using Some by (auto simp: goM_iffs)
  qed
qed


section \<open>Enough fuel\<close>

text \<open>
  With \<open>K\<close> bounding the chains of direct references, each type not yet started accounts for
  \<open>K\<close> units of fuel and the type at hand for its own chain.
\<close>

lemma leaf_decoders_halt:
  "getPrimitiveDecoder p f \<noteq> (OutOfFuel, f')" "getBitSequenceDecoder lk nm td f \<noteq> (OutOfFuel, f')"
proof -
  show "getPrimitiveDecoder p f \<noteq> (OutOfFuel, f')"
    by (simp add: getPrimitiveDecoder_def)
  show "getBitSequenceDecoder lk nm td f \<noteq> (OutOfFuel, f')"
    by (simp add: getBitSequenceDecoder_def goM_iffs NewBitOrderFromString_def split: option.split)
qed

text \<open>Where the fuel can run out in the switch.\<close>

lemma field_decoder_step_OutOfFuel:
  assumes "field_decoder_step gfd gcfd lk nm td f = (OutOfFuel, f')"
  shows "case form_of td of
      FCompact i \<Rightarrow> \<exists>t. lk i = Some t \<and> gcfd nm (tDef t) f = (OutOfFuel, f')
    | FComposite sfs \<Rightarrow> getTypeFields gfd lk sfs f = (OutOfFuel, f')
    | FVariant vs \<Rightarrow> getVariant_loop gfd lk 0 vs [] f = (OutOfFuel, f')
    | FArray n i \<Rightarrow> \<exists>t. lk i = Some t \<and> gfd nm (tDef t) f = (OutOfFuel, f')
    | FSequence i \<Rightarrow> \<exists>t. lk i = Some t \<and> gfd nm (tDef t) f = (OutOfFuel, f')
    | FTuple ti \<Rightarrow> \<exists>items. ti = Some items \<and> getTuple_loop gfd lk 0 items f = (OutOfFuel, f')
    | _ \<Rightarrow> False"
  using assms leaf_decoders_halt
  by (auto simp: field_decoder_step_def form_of_def getVariantFieldDecoder_def getTupleFieldDecoder_def
      getArrayFieldDecoder_def getSliceFieldDecoder_def goM_iffs split: option.splits if_splits)

lemma field_decoder_step_halts:
  assumes cb: "good_callback lk ovr gfd" and fin: "finite (dom lk)" and inv: "factory_inv lk ovr f"
    and field: "\<And>nm t g g'. factory_inv lk ovr g \<Longrightarrow> t \<in> ran lk \<Longrightarrow> unvisited lk g < unvisited lk f \<Longrightarrow>
      gfd nm (tDef t) g \<noteq> (OutOfFuel, g')"
    and direct: "\<And>nm t g g'. factory_inv lk ovr g \<Longrightarrow> t \<in> {t :: Si1Type. direct_ok k lk (tDef t)} \<Longrightarrow>
      unvisited lk g \<le> unvisited lk f \<Longrightarrow> gfd nm (tDef t) g \<noteq> (OutOfFuel, g')"
    and compact: "\<And>t :: Si1Type. compact_ok k lk (tDef t) \<Longrightarrow> gcfd nm (tDef t) f \<noteq> (OutOfFuel, f')"
    and td: "direct_ok (Suc k) lk td"
  shows "field_decoder_step gfd gcfd lk nm td f \<noteq> (OutOfFuel, f')"
proof
  assume "field_decoder_step gfd gcfd lk nm td f = (OutOfFuel, f')"
  note out = field_decoder_step_OutOfFuel [OF this]
  note fields = getTypeFields_halts [OF cb fin field inv order_refl]
    and variants = getVariant_loop_halts [OF cb fin field inv order_refl]
    and tuples = getTuple_loop_halts [where T = "{t :: Si1Type. direct_ok k lk (tDef t)}", OF cb fin direct inv order_refl]
  have d: "gfd nm (tDef t) f \<noteq> (OutOfFuel, f')"
    if "form_of td = FArray l i \<or> form_of td = FSequence i" "lk i = Some t" for l i t
    using that td by (intro direct [OF inv _ order_refl]) auto
  have c: "gcfd nm (tDef t) f \<noteq> (OutOfFuel, f')" if "form_of td = FCompact i" "lk i = Some t" for i t
    using that td by (intro compact) simp
  have t: "getTuple_loop gfd lk 0 items f \<noteq> (OutOfFuel, f')" if "form_of td = FTuple (Some items)" for items
    using that td by (intro tuples) (auto simp: list_all_iff split: option.splits)
  show False
  proof (cases "form_of td")
    case (FCompact i)
    then show ?thesis using out c by auto
  next
    case (FComposite sfs)
    then have "getTypeFields gfd lk sfs f = (OutOfFuel, f')" using out by simp
    then show ?thesis using fields by blast
  next
    case (FVariant vs)
    then have "getVariant_loop gfd lk 0 vs [] f = (OutOfFuel, f')" using out by simp
    then show ?thesis using variants by blast
  qed (use out d t in auto)
qed

lemma fuel_step: "u < U \<Longrightarrow> U * K \<le> n \<Longrightarrow> u * K + K \<le> (n :: nat)"
  by (metis Suc_leI add.commute mult_Suc mult_le_mono1 order_trans)

lemma getFieldDecoder_halts:
  assumes bt: "bounded_types K lk"
  shows "factory_inv lk ovr f \<Longrightarrow> direct_ok k lk td \<Longrightarrow> unvisited lk f * K + k \<le> n \<Longrightarrow>
    getFieldDecoder n lk nm td f \<noteq> (OutOfFuel, f')"
proof (induction n arbitrary: nm td f k f')
  case 0
  then show ?case by (cases k) auto
next
  case (Suc n)
  obtain k' where k: "k = Suc k'" using Suc.prems(2) by (cases k) auto
  have u: "unvisited lk f * K + k' \<le> n" using Suc.prems(3) k by simp
  have "field_decoder_step (getFieldDecoder n lk) (getCompactFieldDecoder n lk) lk nm td f \<noteq> (OutOfFuel, f')"
  proof (rule field_decoder_step_halts [where ovr = ovr and k = k', OF getFieldDecoder_good _ Suc.prems(1)])
    show "finite (dom lk)" "direct_ok (Suc k') lk td"
      using bt Suc.prems(2) k by (simp_all add: bounded_types_def)
    show "getFieldDecoder n lk nm (tDef t) g \<noteq> (OutOfFuel, g')"
      if "factory_inv lk ovr g" "t \<in> ran lk" "unvisited lk g < unvisited lk f" for nm t g g'
      using that bt u fuel_step [OF that(3), of K n] by (intro Suc.IH [where k = K]) (auto simp: bounded_types_def)
    show "getFieldDecoder n lk nm (tDef t) g \<noteq> (OutOfFuel, g')"
      if "factory_inv lk ovr g" "t \<in> {t. direct_ok k' lk (tDef t)}" "unvisited lk g \<le> unvisited lk f" for nm t g g'
      using that u by (intro Suc.IH [where k = k']) (auto intro: order_trans [OF add_le_mono1 [OF mult_le_mono1]])
    show "getCompactFieldDecoder n lk nm (tDef t) f \<noteq> (OutOfFuel, f')" if "compact_ok k' lk (tDef t)" for t
      using u by (intro getCompactFieldDecoder_halts [OF that]) simp
  qed
  then show ?case by simp
qed

lemma variants_loop_halts:
  assumes cb: "good_callback lk ovr gfd" and fin: "finite (dom lk)"
    and halt: "\<And>nm t g g'. factory_inv lk ovr g \<Longrightarrow> t \<in> ran lk \<Longrightarrow> unvisited lk g < u \<Longrightarrow> gfd nm (tDef t) g \<noteq> (OutOfFuel, g')"
  shows "factory_inv lk ovr f \<Longrightarrow> unvisited lk f \<le> u \<Longrightarrow>
    variants_loop gfd lk what key nm vs reg f \<noteq> (OutOfFuel, f') \<and>
    (\<forall>reg' g. variants_loop gfd lk what key nm vs reg f = (Ok reg', g) \<longrightarrow> factory_inv lk ovr g \<and> unvisited lk g \<le> u)"
proof (induction vs arbitrary: f reg)
  case Nil
  then show ?case by simp
next
  case (Cons v vs)
  have "getTypeFields gfd lk (vFields v) f \<noteq> (OutOfFuel, f')"
    by (rule getTypeFields_halts [OF cb fin halt Cons.prems])
  moreover have "factory_inv lk ovr g \<and> unvisited lk g \<le> u" if "getTypeFields gfd lk (vFields v) f = (Ok fs, g)" for fs g
    using getTypeFields_good [OF cb Cons.prems(1) that] unvisited_extends [OF fin] Cons.prems(2) by (meson order_trans)
  then have "variants_loop gfd lk what key nm vs r g \<noteq> (OutOfFuel, f') \<and>
      (\<forall>reg' g'. variants_loop gfd lk what key nm vs r g = (Ok reg', g') \<longrightarrow> factory_inv lk ovr g' \<and> unvisited lk g' \<le> u)"
    if "getTypeFields gfd lk (vFields v) f = (Ok fs, g)" for fs g r
    using Cons.IH that by blast
  ultimately show ?case
    by (simp add: Let_def goM_iffs) blast
qed

lemma pallets_loop_halts:
  assumes cb: "good_callback lk ovr gfd" and fin: "finite (dom lk)"
    and halt: "\<And>nm t g g'. factory_inv lk ovr g \<Longrightarrow> t \<in> ran lk \<Longrightarrow> unvisited lk g < u \<Longrightarrow> gfd nm (tDef t) g \<noteq> (OutOfFuel, g')"
  shows "factory_inv lk ovr f \<Longrightarrow> unvisited lk f \<le> u \<Longrightarrow> pallets_loop gfd lk what whats has tyof key ps reg f \<noteq> (OutOfFuel, f')"
proof (induction ps arbitrary: f reg)
  case Nil
  then show ?case by simp
next
  case (Cons p ps)
  have skip: "pallets_loop gfd lk what whats has tyof key ps r f \<noteq> (OutOfFuel, f')" for r
    using Cons.IH Cons.prems by blast
  have v: "variants_loop gfd lk what (key (pIndex p)) (pName p) vs reg f \<noteq> (OutOfFuel, f')" for vs
    using variants_loop_halts [OF cb fin halt Cons.prems] by blast
  have step: "pallets_loop gfd lk what whats has tyof key ps r g \<noteq> (OutOfFuel, f')"
    if "variants_loop gfd lk what (key (pIndex p)) (pName p) vs reg f = (Ok r, g)" for r g vs
    using variants_loop_halts [OF cb fin halt Cons.prems] that Cons.IH by blast
  show ?case
    using skip v step by (simp add: Let_def goM_iffs split: option.split)
qed

lemma resolve_loop_halts: "resolve_loop rs f \<noteq> (OutOfFuel, f')"
  by (induction rs f rule: resolve_loop.induct) (auto split: option.split field_decoder.split)

lemma create_registry_halts:
  assumes bt: "bounded_types K (EfficientLookup m)" and plain: "plain_overrides f"
    and fuel: "card (dom (EfficientLookup m)) * K \<le> n"
  shows "create_registry n m what whats has tyof key f \<noteq> (OutOfFuel, f')"
proof -
  let ?lk = "EfficientLookup m"
  have fin: "finite (dom ?lk)" using bt by (simp add: bounded_types_def)
  obtain f0 where f0: "resetStorages f = (Ok (), f0)" by (simp add: resetStorages_def)
  have inv: "factory_inv ?lk (overrides_of f) f0" using reset_inv [OF plain f0] by blast
  have u: "unvisited ?lk f0 \<le> card (dom ?lk)"
    unfolding unvisited_def by (rule card_mono) (use fin in auto)
  have "getFieldDecoder n ?lk nm (tDef t) g \<noteq> (OutOfFuel, g')"
    if "factory_inv ?lk (overrides_of f) g" "t \<in> ran ?lk" "unvisited ?lk g < card (dom ?lk)" for nm t g g'
  proof (rule getFieldDecoder_halts [OF bt that(1)])
    show "direct_ok K ?lk (tDef t)" using bt that(2) by (simp add: bounded_types_def)
    show "unvisited ?lk g * K + K \<le> n" using fuel_step [OF that(3) fuel] .
  qed
  then have "pallets_loop (getFieldDecoder n ?lk) ?lk what whats has tyof key (Pallets m) Map.empty f0 \<noteq> (OutOfFuel, f')"
    by (rule pallets_loop_halts [OF getFieldDecoder_good fin _ inv u])
  then show ?thesis
    using f0 resolve_loop_halts by (auto simp: create_registry_def goM_iffs resolveRecursiveDecoders_def)
qed

section \<open>A type that contains itself directly\<close>

lemma getFieldDecoder_cyclic:
  assumes "form_of td = FSequence i" "lk i = Some t" "tDef t = td"
  shows "fst (getFieldDecoder n lk nm td f) = OutOfFuel"
proof (induction n arbitrary: nm f)
  case 0
  show ?case by simp
next
  case (Suc n)
  have "getFieldDecoder (Suc n) lk nm td f = getSliceFieldDecoder (getFieldDecoder n lk) nm td f"
    using assms by (auto simp: field_decoder_step_def form_of_def split: if_splits)
  moreover obtain g where "getFieldDecoder n lk nm td f = (OutOfFuel, g)"
    using Suc.IH [of nm f] by (metis prod.collapse)
  ultimately show ?case
    by (simp add: getSliceFieldDecoder_def bindM_def wrapM_def)
qed


section \<open>More fuel does not change the result\<close>

text \<open>\<open>refines m m'\<close>: the second computation does the same as the first wherever that has enough fuel.\<close>

definition refines :: "('s, 'a) goM \<Rightarrow> ('s, 'a) goM \<Rightarrow> bool" where
  "refines m m' \<longleftrightarrow> (\<forall>s. fst (m s) = OutOfFuel \<or> m' s = m s)"

lemma refines_refl [simp, intro]: "refines m m"
  by (simp add: refines_def)

lemma refines_bindM: "refines m m' \<Longrightarrow> (\<And>a. refines (f a) (f' a)) \<Longrightarrow> refines (bindM m f) (bindM m' f')"
proof -
  assume m: "refines m m'" and f: "\<And>a. refines (f a) (f' a)"
  have "fst (bindM m f s) = OutOfFuel \<or> bindM m' f' s = bindM m f s" for s
  proof (cases "\<exists>a s'. m s = (Ok a, s')")
    case True
    then obtain a s' where a: "m s = (Ok a, s')" by blast
    then have "m' s = (Ok a, s')" using m by (metis fst_conv refines_def res.distinct(5))
    then show ?thesis using f [of a] a by (simp add: refines_def)
  next
    case False
    then show ?thesis
      using m by (cases "m s"; cases "fst (m s)") (auto simp: refines_def bindM_def dest: spec [of _ s])
  qed
  then show ?thesis by (simp add: refines_def)
qed

lemma refines_wrapM: "refines m m' \<Longrightarrow> refines (wrapM w m) (wrapM w m')"
proof -
  assume m: "refines m m'"
  have "fst (wrapM w m s) = OutOfFuel \<or> wrapM w m' s = wrapM w m s" for s
    using m by (cases "m s"; cases "fst (m s)") (auto simp: refines_def wrapM_def dest: spec [of _ s])
  then show ?thesis by (simp add: refines_def)
qed

lemma refines_OutOfFuel: "refines (liftM OutOfFuel) m"
  by (simp add: refines_def)

lemma refinesD: "refines m m' \<Longrightarrow> m s = (r, s') \<Longrightarrow> r \<noteq> OutOfFuel \<Longrightarrow> m' s = (r, s')"
  unfolding refines_def by (metis fst_conv)

lemmas refines_intros = refines_bindM refines_wrapM refines_refl

lemma loops_refine:
  assumes "\<And>nm td. refines (g nm td) (g' nm td)"
  shows getTypeFields_refines: "refines (getTypeFields g lk sfs) (getTypeFields g' lk sfs)"
    and getTuple_loop_refines: "refines (getTuple_loop g lk k items) (getTuple_loop g' lk k items)"
    and getCompactTuple_loop_refines: "refines (getCompactTuple_loop g lk k items) (getCompactTuple_loop g' lk k items)"
    and getCompactComposite_loop_refines: "refines (getCompactComposite_loop g lk sfs) (getCompactComposite_loop g' lk sfs)"
proof -
  show "refines (getTypeFields g lk sfs) (getTypeFields g' lk sfs)"
    by (induction sfs) (auto simp: Let_def assms split: option.split simp del: retM_apply failM_apply intro!: refines_intros)
  show "refines (getTuple_loop g lk k items) (getTuple_loop g' lk k items)"
    by (induction items arbitrary: k) (auto simp: assms split: option.split simp del: retM_apply failM_apply intro!: refines_intros)
  show "refines (getCompactTuple_loop g lk k items) (getCompactTuple_loop g' lk k items)"
    by (induction items arbitrary: k) (auto simp: Let_def assms split: option.split simp del: retM_apply failM_apply intro!: refines_intros)
  show "refines (getCompactComposite_loop g lk sfs) (getCompactComposite_loop g' lk sfs)"
    by (induction sfs) (auto simp: assms split: option.split simp del: retM_apply failM_apply intro!: refines_intros)
qed

lemma getVariant_loop_refines:
  assumes "\<And>nm td. refines (g nm td) (g' nm td)"
  shows "refines (getVariant_loop g lk k vs m) (getVariant_loop g' lk k vs m)"
  by (induction vs arbitrary: k m) (auto simp del: retM_apply failM_apply intro!: refines_intros getTypeFields_refines assms)

lemma getCompactFieldDecoder_refines: "refines (getCompactFieldDecoder n lk nm td) (getCompactFieldDecoder (Suc n) lk nm td)"
proof (induction n arbitrary: nm td)
  case 0
  show ?case using refines_OutOfFuel by (simp only: getCompactFieldDecoder.simps)
next
  case (Suc n)
  show ?case
    by (subst (1 2) getCompactFieldDecoder.simps(2))
      (auto split: option.split simp del: retM_apply failM_apply intro!: refines_intros getCompactTuple_loop_refines getCompactComposite_loop_refines Suc.IH)
qed

lemma field_decoder_step_refines:
  assumes "\<And>nm td. refines (g nm td) (g' nm td)" "\<And>nm td. refines (c nm td) (c' nm td)"
  shows "refines (field_decoder_step g c lk nm td) (field_decoder_step g' c' lk nm td)"
  using assms
  by (auto simp: field_decoder_step_def getVariantFieldDecoder_def getTupleFieldDecoder_def getArrayFieldDecoder_def
      getSliceFieldDecoder_def split: option.split
      simp del: retM_apply failM_apply intro!: refines_intros getTypeFields_refines getVariant_loop_refines getTuple_loop_refines)

lemma getFieldDecoder_refines: "refines (getFieldDecoder n lk nm td) (getFieldDecoder (Suc n) lk nm td)"
proof (induction n arbitrary: nm td)
  case 0
  show ?case using refines_OutOfFuel by (simp only: getFieldDecoder.simps)
next
  case (Suc n)
  show ?case
    by (subst (1 2) getFieldDecoder.simps(2))
      (intro field_decoder_step_refines Suc.IH getCompactFieldDecoder_refines)
qed

lemma variants_loop_refines:
  assumes "\<And>nm td. refines (g nm td) (g' nm td)"
  shows "refines (variants_loop g lk what key nm vs reg) (variants_loop g' lk what key nm vs reg)"
  by (induction vs arbitrary: reg) (auto simp: Let_def simp del: retM_apply failM_apply intro!: refines_intros getTypeFields_refines assms)

lemma pallets_loop_refines:
  assumes "\<And>nm td. refines (g nm td) (g' nm td)"
  shows "refines (pallets_loop g lk what whats has tyof key ps reg) (pallets_loop g' lk what whats has tyof key ps reg)"
  by (induction ps arbitrary: reg)
    (auto simp: Let_def split: option.split simp del: retM_apply failM_apply intro!: refines_intros variants_loop_refines assms)

lemma create_registry_more_fuel:
  assumes "create_registry n m what whats has tyof key f = (r, f')" "r \<noteq> OutOfFuel" "n \<le> n'"
  shows "create_registry n' m what whats has tyof key f = (r, f')"
  using assms(3)
proof (induction n' rule: dec_induct)
  case base
  show ?case by (rule assms(1))
next
  case (step l)
  have "refines (create_registry l m what whats has tyof key) (create_registry (Suc l) m what whats has tyof key)"
    unfolding create_registry_def
    by (intro refines_intros pallets_loop_refines getFieldDecoder_refines)
  then show ?case using step.IH assms(2) by (rule refinesD)
qed

end
