(* ===== verification/RegistrySemantics.thy ===== *)
theory RegistrySemantics
  imports RegistryTermination
begin

text \<open>
  What decoding with a registry means. \<open>denotes lk td bs v\<close> is the specification: the bytes
  \<open>bs\<close> are a SCALE encoding of the value \<open>v\<close> at the type definition \<open>td\<close>, read off the
  metadata alone. The decoders the factory builds for \<open>td\<close> implement it: what they accept is
  such an encoding, and every such encoding is decoded, recursive types included.
\<close>

section \<open>Decoders that look only at what they consume\<close>

definition local_dec :: "(bytes, 'a) goM \<Rightarrow> bool" where
  "local_dec d \<longleftrightarrow> (\<forall>s v s'. d s = (Ok v, s') \<longrightarrow> (\<exists>bs. s = bs @ s' \<and> reads d bs v))"

lemma local_decD: "local_dec d \<Longrightarrow> d s = (Ok v, s') \<Longrightarrow> \<exists>bs. s = bs @ s' \<and> reads d bs v"
  unfolding local_dec_def by blast

lemma local_retM [intro]: "local_dec (retM v)"
  by (auto simp: local_dec_def reads_def)

lemma local_failM [intro]: "local_dec (failM e)"
  by (simp add: local_dec_def)

lemma local_liftM [intro]: "local_dec (liftM r)"
  by (auto simp: local_dec_def reads_def)

lemma local_bindM [intro]:
  assumes "local_dec m" "\<And>a. local_dec (f a)"
  shows "local_dec (bindM m f)"
  unfolding local_dec_def
proof (intro allI impI)
  fix s v s'
  assume "bindM m f s = (Ok v, s')"
  then obtain a s1 where 1: "m s = (Ok a, s1)" "f a s1 = (Ok v, s')"
    by (auto simp: bindM_Ok_iff)
  obtain bs cs where "s = bs @ s1" "reads m bs a" "s1 = cs @ s'" "reads (f a) cs v"
    using local_decD [OF assms(1) 1(1)] local_decD [OF assms(2) 1(2)] by blast
  then show "\<exists>bs. s = bs @ s' \<and> reads (bindM m f) bs v"
    by (intro exI [of _ "bs @ cs"]) (auto intro: reads_bindM)
qed

lemma local_wrapM [intro]: "local_dec m \<Longrightarrow> local_dec (wrapM w m)"
  unfolding local_dec_def by (metis wrapM_Ok_iff reads_wrapM)

lemma local_if [intro]: "local_dec m \<Longrightarrow> local_dec n \<Longrightarrow> local_dec (if b then m else n)"
  by simp

lemma local_Decoder_Read [intro]:
  assumes "0 < n"
  shows "local_dec (Decoder_Read n)"
proof -
  have "s = take n s @ s' \<and> reads (Decoder_Read n) (take n s) v" if "Decoder_Read n s = (Ok v, s')" for s v s'
    using that assms by (auto simp: Decoder_Read_def Reader_Read_def reads_def split: if_splits)
  then show ?thesis unfolding local_dec_def by blast
qed

lemma local_binary_Read [intro]: "local_dec (binary_Read k)"
proof -
  have "s = take k s @ s' \<and> reads (binary_Read k) (take k s) v" if "binary_Read k s = (Ok v, s')" for s v s'
    using that by (auto simp: binary_Read_def reads_def not_less min_def split: if_splits)
  then show ?thesis unfolding local_dec_def by blast
qed

lemma local_ReadOneByte [intro]: "local_dec ReadOneByte"
  unfolding ReadOneByte_def by auto

lemma unat_compact_length: "0 < unat (drop_bit 2 (b :: byte) + 4)"
proof -
  have "unat (drop_bit 2 b) < 64"
    using unat_byte_less [of b] by (simp add: unat_drop_bit less_mult_imp_div_less)
  then have "unat (drop_bit 2 b) + unat (4 :: byte) < 2 ^ LENGTH(8)" by simp
  then have "unat (drop_bit 2 b + 4) = unat (drop_bit 2 b) + unat (4 :: byte)"
    by (rule unat_add_lem [THEN iffD1])
  then show ?thesis by simp
qed

lemma local_DecodeUintCompact [intro]: "local_dec DecodeUintCompact"
  unfolding DecodeUintCompact_def Let_def
  by (intro local_bindM local_if local_Decoder_Read local_ReadOneByte local_retM local_failM unat_compact_length) simp

lemma local_Decode_num [intro]: "local_dec (Decode_num k)"
  unfolding Decode_num_def by auto

lemma local_decode_each [intro]: "local_dec d \<Longrightarrow> local_dec (decode_each n d)"
  by (induction n) auto

lemma local_Decode_slice [intro]:
  assumes "local_dec d"
  shows "local_dec (Decode_slice d)"
  unfolding local_dec_def
proof (intro allI impI)
  fix s v s'
  assume run: "Decode_slice d s = (Ok v, s')"
  then obtain len s1 where 1: "DecodeUintCompact s = (Ok len, s1)"
    by (auto simp: Decode_slice_eq split: prod.splits res.splits)
  with run have small: "BigInt_Uint64 len \<le> 2 ^ 32 - 1" "BigInt_Uint64 len \<le> 2 ^ 63 - 1"
    and 2: "decode_each (unat (BigInt_Uint64 len)) d s1 = (Ok v, s')"
    by (auto simp: Decode_slice_eq not_less split: if_splits)
  obtain bs cs where "s = bs @ s1" "reads DecodeUintCompact bs len" "s1 = cs @ s'"
      "reads (decode_each (unat (BigInt_Uint64 len)) d) cs v"
    using local_decD [OF local_DecodeUintCompact 1] local_decD [OF local_decode_each [OF assms] 2] by blast
  then show "\<exists>bs. s = bs @ s' \<and> reads (Decode_slice d) bs v"
    using small by (intro exI [of _ "bs @ cs"]) (auto simp: reads_def Decode_slice_eq)
qed

lemma local_Decode_value: "local_dec (Decode_value t)"
  by (cases t)
    (auto simp: Decode_bool_def Decode_word_def Text_Decode_def Decode_byte_def U128_Decode_def U256_Decode_def
      I128_Decode_def I256_Decode_def Int_Decode_def Uint_Decode_def UCompact_Decode_def
      intro!: local_bindM local_if local_Decode_slice
      simp del: retM_apply failM_apply liftM_apply)

lemma local_BitVec_Decode: "local_dec (BitVec_Decode b)"
proof -
  have "local_dec (BitVec_Decode_loop n b)" for n b
    by (induction n arbitrary: b) (auto simp: Let_def simp del: retM_apply)
  moreover have "local_dec GetMinimumNumberOfBytes"
    unfolding GetMinimumNumberOfBytes_def Let_def by auto
  ultimately show ?thesis unfolding BitVec_Decode_def by auto
qed


section \<open>The specification\<close>

text \<open>
  The name under which a bit sequence is reported is the one of the first field whose type
  was met, not that of the field decoded, so values are compared with these names erased.
\<close>

fun erase :: "dvalue \<Rightarrow> dvalue" and erase_field :: "decoded_field \<Rightarrow> decoded_field" where
  "erase (DBits nm s) = DBits [] s"
| "erase (DSlice vs) = DSlice (map erase vs)"
| "erase (DFields fs) = DFields (map erase_field fs)"
| "erase v = v"
| "erase_field (DecodedField nm v i) = DecodedField nm (erase v) i"

definition slice_fits :: "nat \<Rightarrow> bool" where
  "slice_fits n \<longleftrightarrow> n * 16 \<le> 2 ^ 48"

inductive cdenotes :: "lookup \<Rightarrow> Si1TypeDef \<Rightarrow> bytes \<Rightarrow> dvalue \<Rightarrow> bool"
  and ctdenotes :: "lookup \<Rightarrow> nat \<Rightarrow> int list \<Rightarrow> bytes \<Rightarrow> decoded_field list \<Rightarrow> bool"
  and cfdenotes :: "lookup \<Rightarrow> Si1Field list \<Rightarrow> bytes \<Rightarrow> decoded_field list \<Rightarrow> bool" for lk where
  cden_primitive: "compact_form_of td = CPrimitive \<Longrightarrow> reads (Decode_value T_UCompact) bs v \<Longrightarrow> cdenotes lk td bs v"
| cden_tuple: "compact_form_of td = CTuple (Some items) \<Longrightarrow> ctdenotes lk 0 items bs vs \<Longrightarrow> cdenotes lk td bs (DFields vs)"
| cden_composite: "compact_form_of td = CComposite sfs \<Longrightarrow> cfdenotes lk sfs bs vs \<Longrightarrow> cdenotes lk td bs (DFields vs)"
| ctden_Nil: "ctdenotes lk k [] [] []"
| ctden_Cons:
    "lk (UCompact_Int64 item) = Some t \<Longrightarrow> cdenotes lk (tDef t) bs v \<Longrightarrow> ctdenotes lk (Suc k) items cs vs \<Longrightarrow>
     ctdenotes lk k (item # items) (bs @ cs) (DecodedField (tuple_item_name k) v (UCompact_Int64 item) # vs)"
| cfden_Nil: "cfdenotes lk [] [] []"
| cfden_Cons:
    "lk (UCompact_Int64 (fType sf)) = Some t \<Longrightarrow> cdenotes lk (tDef t) bs v \<Longrightarrow> cfdenotes lk sfs cs vs \<Longrightarrow>
     cfdenotes lk (sf # sfs) (bs @ cs) (DecodedField (getFullFieldName sf t) v (UCompact_Int64 (fType sf)) # vs)"

inductive denotes :: "lookup \<Rightarrow> Si1TypeDef \<Rightarrow> bytes \<Rightarrow> dvalue \<Rightarrow> bool"
  and idenotes :: "lookup \<Rightarrow> nat \<Rightarrow> Si1TypeDef \<Rightarrow> bytes \<Rightarrow> dvalue list \<Rightarrow> bool"
  and tdenotes :: "lookup \<Rightarrow> nat \<Rightarrow> int list \<Rightarrow> bytes \<Rightarrow> decoded_field list \<Rightarrow> bool"
  and fdenotes :: "lookup \<Rightarrow> Si1Field list \<Rightarrow> bytes \<Rightarrow> decoded_field list \<Rightarrow> bool" for lk where
  den_compact: "form_of td = FCompact i \<Longrightarrow> lk i = Some t \<Longrightarrow> cdenotes lk (tDef t) bs v \<Longrightarrow> denotes lk td bs v"
| den_composite: "form_of td = FComposite sfs \<Longrightarrow> fdenotes lk sfs bs vs \<Longrightarrow> denotes lk td bs (DFields vs)"
| den_unit_variant:
    "form_of td = FVariant vs \<Longrightarrow> last_variant vs b = Some v \<Longrightarrow> vFields v = [] \<Longrightarrow> denotes lk td [b] (DByte b)"
| den_variant:
    "form_of td = FVariant vs \<Longrightarrow> last_variant vs b = Some v \<Longrightarrow> vFields v \<noteq> [] \<Longrightarrow> fdenotes lk (vFields v) bs xs \<Longrightarrow>
     denotes lk td (b # bs) (DFields xs)"
| den_primitive: "form_of td = FPrimitive p \<Longrightarrow> primitive_type p = Some T \<Longrightarrow> reads (Decode_value T) bs v \<Longrightarrow> denotes lk td bs v"
| den_array:
    "form_of td = FArray n i \<Longrightarrow> lk i = Some t \<Longrightarrow> slice_fits n \<Longrightarrow> idenotes lk n (tDef t) bs vs \<Longrightarrow> denotes lk td bs (DSlice vs)"
| den_sequence:
    "form_of td = FSequence i \<Longrightarrow> lk i = Some t \<Longrightarrow> reads DecodeUintCompact hdr len \<Longrightarrow> n = unat (BigInt_Uint64 len) \<Longrightarrow>
     slice_fits n \<Longrightarrow> idenotes lk n (tDef t) bs vs \<Longrightarrow> denotes lk td (hdr @ bs) (DSlice vs)"
| den_unit: "form_of td = FTuple None \<Longrightarrow> denotes lk td [] DNil"
| den_tuple: "form_of td = FTuple (Some items) \<Longrightarrow> tdenotes lk 0 items bs vs \<Longrightarrow> denotes lk td bs (DFields vs)"
| den_bits:
    "form_of td = FBits st oi \<Longrightarrow> bit_order lk st oi = Some ord \<Longrightarrow> reads (BitVec_Decode (NewBitVec ord)) bs bv \<Longrightarrow>
     denotes lk td bs (DBits [] (BitVec_String bv))"
| iden_Nil: "idenotes lk 0 td [] []"
| iden_Cons: "denotes lk td bs v \<Longrightarrow> idenotes lk n td cs vs \<Longrightarrow> idenotes lk (Suc n) td (bs @ cs) (v # vs)"
| tden_Nil: "tdenotes lk k [] [] []"
| tden_Cons:
    "lk (UCompact_Int64 item) = Some t \<Longrightarrow> denotes lk (tDef t) bs v \<Longrightarrow> tdenotes lk (Suc k) items cs vs \<Longrightarrow>
     tdenotes lk k (item # items) (bs @ cs) (DecodedField (tuple_item_name k) v (UCompact_Int64 item) # vs)"
| fden_Nil: "fdenotes lk [] [] []"
| fden_Cons:
    "lk (UCompact_Int64 (fType sf)) = Some t \<Longrightarrow> denotes lk (tDef t) bs v \<Longrightarrow> fdenotes lk sfs cs vs \<Longrightarrow>
     fdenotes lk (sf # sfs) (bs @ cs) (DecodedField (getFullFieldName sf t) v (UCompact_Int64 (fType sf)) # vs)"

section \<open>Soundness\<close>

text \<open>\<open>accepts m P\<close>: what the decoder \<open>m\<close> consumes and returns satisfies \<open>P\<close>.\<close>

definition accepts :: "(bytes, 'a) goM \<Rightarrow> (bytes \<Rightarrow> 'a \<Rightarrow> bool) \<Rightarrow> bool" where
  "accepts m P \<longleftrightarrow> (\<forall>s v s'. m s = (Ok v, s') \<longrightarrow> (\<exists>bs. s = bs @ s' \<and> P bs v))"

lemma acceptsI: "(\<And>s v s'. m s = (Ok v, s') \<Longrightarrow> \<exists>bs. s = bs @ s' \<and> P bs v) \<Longrightarrow> accepts m P"
  by (simp add: accepts_def)

lemma acceptsD: "accepts m P \<Longrightarrow> m s = (Ok v, s') \<Longrightarrow> \<exists>bs. s = bs @ s' \<and> P bs v"
  unfolding accepts_def by blast

lemma accepts_local: "local_dec m \<Longrightarrow> (\<And>bs v. reads m bs v \<Longrightarrow> P bs v) \<Longrightarrow> accepts m P"
  unfolding accepts_def local_dec_def by blast

lemma accepts_wrapM: "accepts m P \<Longrightarrow> accepts (wrapM w m) P"
  unfolding accepts_def by (simp add: wrapM_Ok_iff)

lemma accepts_retM: "P [] v \<Longrightarrow> accepts (retM v) P"
  by (auto simp: accepts_def)

lemma accepts_failM [simp]: "accepts (failM e) P"
  by (simp add: accepts_def)

lemma accepts_weaken: "accepts m Q \<Longrightarrow> (\<And>bs v. Q bs v \<Longrightarrow> P bs v) \<Longrightarrow> accepts m P"
  unfolding accepts_def by blast

lemma accepts_bindM:
  assumes "accepts m Q" and "\<And>bs a. Q bs a \<Longrightarrow> accepts (f a) (\<lambda>cs v. P (bs @ cs) v)"
  shows "accepts (bindM m f) P"
proof (rule acceptsI)
  fix s v s'
  assume "bindM m f s = (Ok v, s')"
  then obtain a s1 where 1: "m s = (Ok a, s1)" "f a s1 = (Ok v, s')" by (auto simp: bindM_Ok_iff)
  obtain bs where bs: "s = bs @ s1" "Q bs a" using acceptsD [OF assms(1) 1(1)] by blast
  obtain cs where "s1 = cs @ s'" "P (bs @ cs) v" using acceptsD [OF assms(2) [OF bs(2)] 1(2)] by blast
  then show "\<exists>bs. s = bs @ s' \<and> P bs v" using bs(1) by auto
qed

lemma accepts_map: "accepts m (\<lambda>bs a. P bs (g a)) \<Longrightarrow> accepts (bindM m (\<lambda>a. retM (g a))) P"
  by (erule accepts_bindM) (simp add: accepts_retM del: retM_apply)

lemma decode_each_accepts:
  "accepts m (\<lambda>bs v. denotes lk td bs (erase v)) \<Longrightarrow> accepts (decode_each n m) (\<lambda>bs vs. idenotes lk n td bs (map erase vs))"
proof (induction n)
  case 0
  show ?case by (auto intro!: accepts_retM iden_Nil simp del: retM_apply)
next
  case (Suc n)
  have "accepts (bindM (decode_each n m) (\<lambda>xs. retM (x # xs))) (\<lambda>cs vs. idenotes lk (Suc n) td (bs @ cs) (map erase vs))"
    if "denotes lk td bs (erase x)" for bs x
    using Suc.IH [OF Suc.prems] by (rule accepts_map [OF accepts_weaken]) (auto intro: iden_Cons that)
  then show ?case
    unfolding decode_each.simps by (rule accepts_bindM [OF Suc.prems])
qed

lemma accepts_make_slice: "accepts (make_slice n) (\<lambda>bs _. bs = [] \<and> slice_fits n)"
  by (auto simp: make_slice_def accepts_def slice_fits_def not_less split: if_splits)

text \<open>A recursive field: the decoder its address holds accepts encodings of the field's type.\<close>

definition deref_sound :: "lookup \<Rightarrow> (int \<times> nat) set \<Rightarrow> (nat \<Rightarrow> (bytes, dvalue) goM) \<Rightarrow> bool" where
  "deref_sound lk R deref \<longleftrightarrow>
     (\<forall>i a t. (i, a) \<in> R \<longrightarrow> lk i = Some t \<longrightarrow> accepts (deref a) (\<lambda>bs v. denotes lk (tDef t) bs (erase v)))"

lemma local_value_accepts: "accepts (wrapM w (Decode_value T)) (reads (Decode_value T))"
  by (intro accepts_wrapM accepts_local local_Decode_value)

lemma reads_functional: "reads d bs v \<Longrightarrow> reads d bs w \<Longrightarrow> v = w"
  using reads_all by (metis Pair_inject res.inject(1))

lemma erase_value: "reads (Decode_value T) bs v \<Longrightarrow> erase v = v"
  by (cases T) (auto dest!: reads_all simp: goM_iffs)

lemma field_accepts:
  assumes "accepts (decode_step cu de d) (\<lambda>bs v. P bs (erase v))"
    and "accepts (decode_composite cu de fs) (\<lambda>cs vs. Q cs (map erase_field vs))"
    and "\<And>bs cs v vs. P bs v \<Longrightarrow> Q cs vs \<Longrightarrow> S (bs @ cs) (DecodedField nm v i # vs)"
  shows "accepts (decode_composite cu de (Field nm d i # fs)) (\<lambda>bs vs. S bs (map erase_field vs))"
  unfolding decode_composite.simps
  by (intro accepts_bindM [OF accepts_wrapM [OF assms(1)]] accepts_map accepts_weaken [OF assms(2)])
    (auto intro: assms(3))

lemma composite_accepts:
  assumes "accepts (decode_composite cu de fs) (\<lambda>bs vs. Q bs (map erase_field vs))" "\<And>bs vs. Q bs vs \<Longrightarrow> P bs (DFields vs)"
  shows "accepts (decode_step cu de (CompositeDecoder nm fs)) (\<lambda>bs v. P bs (erase v))"
  unfolding decode_step.simps
  by (rule accepts_map [OF accepts_weaken [OF assms(1)]]) (simp add: assms(2))

lemma compact_sound:
  "crep lk d td \<Longrightarrow> accepts (decode_step cu de d) (\<lambda>bs v. cdenotes lk td bs (erase v))"
  "ctrep lk k fs items \<Longrightarrow> accepts (decode_composite cu de fs) (\<lambda>bs vs. ctdenotes lk k items bs (map erase_field vs))"
  "cfrep lk fs sfs \<Longrightarrow> accepts (decode_composite cu de fs) (\<lambda>bs vs. cfdenotes lk sfs bs (map erase_field vs))"
proof (induction rule: crep_ctrep_cfrep.inducts)
  case (crep_primitive td)
  then show ?case
    by (simp only: decode_step.simps) (rule accepts_weaken [OF local_value_accepts], metis erase_value cden_primitive)
next
  case (crep_unit td)
  then show ?case by (simp add: accepts_def goM_iffs)
next
  case (crep_tuple td items fs nm)
  then show ?case
    by (intro composite_accepts [where P = "cdenotes lk td" and Q = "ctdenotes lk 0 items"]) (auto intro: cden_tuple)
next
  case (crep_composite td sfs fs nm)
  then show ?case
    by (intro composite_accepts [where P = "cdenotes lk td" and Q = "cfdenotes lk sfs"]) (auto intro: cden_composite)
next
  case (ctrep_Nil k)
  show ?case by (auto intro!: accepts_retM ctden_Nil simp del: retM_apply)
next
  case (ctrep_Cons item t d k fs items)
  then show ?case by (intro field_accepts [where P = "cdenotes lk (tDef t)" and Q = "ctdenotes lk (Suc k) items"]) (auto intro: ctden_Cons)
next
  case cfrep_Nil
  show ?case by (auto intro!: accepts_retM cfden_Nil simp del: retM_apply)
next
  case (cfrep_Cons sf t d fs sfs)
  then show ?case by (intro field_accepts [where P = "cdenotes lk (tDef t)" and Q = "cfdenotes lk sfs"]) (auto intro: cfden_Cons)
qed


lemma variant_lookup:
  "decode_variant cu de b m =
     (case map_of m b of
        None \<Rightarrow> failM (libMsg ''variant field decoder not found'' (''variant '' @ quoted (string_of_nat (unat b))))
      | Some d \<Rightarrow> if d = NoopDecoder then retM (DByte b) else decode_step cu de d)"
  by (induction m) auto

lemma accepts_ReadOneByte: "accepts (wrapM w ReadOneByte) (\<lambda>bs b. bs = [b])"
proof (intro accepts_wrapM accepts_local local_ReadOneByte)
  fix bs b
  assume "reads ReadOneByte bs b"
  then have "ReadOneByte bs = (Ok b, [])" by (rule reads_all)
  then show "bs = [b]"
    by (cases bs) (auto simp: ReadOneByte_def Decoder_Read_def Reader_Read_def bindM_def split: if_splits)
qed

lemma variant_sound:
  assumes "form_of td = FVariant vs"
    and "\<And>b. last_variant vs b = None \<Longrightarrow> map_of m b = None"
    and "\<And>b v. last_variant vs b = Some v \<Longrightarrow> vFields v = [] \<Longrightarrow> map_of m b = Some NoopDecoder"
    and "\<And>b v. last_variant vs b = Some v \<Longrightarrow> vFields v \<noteq> [] \<Longrightarrow>
      \<exists>nm fs. map_of m b = Some (CompositeDecoder nm fs) \<and>
        accepts (decode_composite cu de fs) (\<lambda>bs xs. fdenotes lk (vFields v) bs (map erase_field xs))"
  shows "accepts (decode_step cu de (VariantDecoder m)) (\<lambda>bs v. denotes lk td bs (erase v))"
proof -
  have "accepts (decode_variant cu de b m) (\<lambda>cs v. denotes lk td ([b] @ cs) (erase v))" for b
  proof (cases "last_variant vs b")
    case None
    then show ?thesis using assms(2) by (simp add: variant_lookup del: failM_apply)
  next
    case (Some v)
    show ?thesis
    proof (cases "vFields v = []")
      case True
      then show ?thesis
        using assms(1,3) Some by (auto simp: variant_lookup intro!: accepts_retM den_unit_variant simp del: retM_apply)
    next
      case False
      then obtain nm fs where fs: "map_of m b = Some (CompositeDecoder nm fs)"
        "accepts (decode_composite cu de fs) (\<lambda>bs xs. fdenotes lk (vFields v) bs (map erase_field xs))"
        using assms(4) Some by blast
      have "accepts (decode_step cu de (CompositeDecoder nm fs)) (\<lambda>cs v. denotes lk td ([b] @ cs) (erase v))"
        by (rule composite_accepts [where P = "\<lambda>cs. denotes lk td ([b] @ cs)", OF fs(2)])
          (auto intro: den_variant [OF assms(1) Some False])
      then show ?thesis using fs(1) by (simp add: variant_lookup)
    qed
  qed
  then show ?thesis
    unfolding decode_step.simps by (intro accepts_bindM [OF accepts_ReadOneByte]) simp
qed

lemma array_sound:
  assumes "form_of td = FArray n i" "lk i = Some t" "accepts (decode_step cu de d) (\<lambda>bs v. denotes lk (tDef t) bs (erase v))"
  shows "accepts (decode_step cu de (ArrayDecoder n d)) (\<lambda>bs v. denotes lk td bs (erase v))"
proof -
  have "accepts (bindM (decode_each n (wrapM w (decode_step cu de d))) (\<lambda>vs. retM (DSlice vs))) (\<lambda>bs v. denotes lk td bs (erase v))"
    if "slice_fits n" for w
    by (rule accepts_map [OF accepts_weaken [OF decode_each_accepts [OF accepts_wrapM [OF assms(3)]]]])
      (auto intro: den_array [where lk = lk and i = i, OF assms(1,2) that])
  then show ?thesis
    by (auto intro!: accepts_bindM [OF accepts_make_slice])
qed

lemma sequence_sound:
  assumes "form_of td = FSequence i" "lk i = Some t" "accepts (decode_step cu de d) (\<lambda>bs v. denotes lk (tDef t) bs (erase v))"
  shows "accepts (decode_step cu de (SliceDecoder d)) (\<lambda>bs v. denotes lk td bs (erase v))"
proof -
  have "accepts (bindM (decode_each n (wrapM w (decode_step cu de d))) (\<lambda>vs. retM (DSlice vs))) (\<lambda>cs v. denotes lk td (bs @ cs) (erase v))"
    if "slice_fits n" "reads DecodeUintCompact bs len" "n = unat (BigInt_Uint64 len)" for w n bs len
    by (rule accepts_map [OF accepts_weaken [OF decode_each_accepts [OF accepts_wrapM [OF assms(3)]]]])
      (auto intro: den_sequence [where lk = lk and i = i, OF assms(1,2) that(2,3,1)])
  then have "accepts (seqM (make_slice (unat (BigInt_Uint64 len)))
      (bindM (decode_each (unat (BigInt_Uint64 len)) (wrapM w (decode_step cu de d))) (\<lambda>vs. retM (DSlice vs))))
      (\<lambda>cs v. denotes lk td (bs @ cs) (erase v))" if "reads DecodeUintCompact bs len" for w bs len
    using that by (intro accepts_bindM [OF accepts_make_slice]) auto
  note items = this
  have "accepts (wrapM w DecodeUintCompact) (reads DecodeUintCompact)" for w
    by (intro accepts_wrapM accepts_local local_DecodeUintCompact)
  then have "accepts (bindM (wrapM w DecodeUintCompact) (\<lambda>len. seqM (make_slice (unat (BigInt_Uint64 len)))
      (bindM (decode_each (unat (BigInt_Uint64 len)) (wrapM w' (decode_step cu de d))) (\<lambda>vs. retM (DSlice vs)))))
      (\<lambda>bs v. denotes lk td bs (erase v))" for w w'
    by (rule accepts_bindM [OF _ items])
  then show ?thesis by (simp del: failM_apply)
qed

lemma decode_step_sound:
  assumes de: "deref_sound lk R de"
  shows "rep lk R Map.empty d td \<Longrightarrow> accepts (decode_step cu de d) (\<lambda>bs v. denotes lk td bs (erase v))"
    and "trep lk R Map.empty k fs items \<Longrightarrow> accepts (decode_composite cu de fs) (\<lambda>bs vs. tdenotes lk k items bs (map erase_field vs))"
    and "frep lk R Map.empty fs sfs \<Longrightarrow> accepts (decode_composite cu de fs) (\<lambda>bs vs. fdenotes lk sfs bs (map erase_field vs))"
proof (induction rule: rep_trep_frep.inducts)
  case (rep_compact td i t d)
  then show ?case by (auto intro: accepts_weaken [OF compact_sound(1)] den_compact)
next
  case (rep_composite td sfs fs nm)
  then show ?case
    by (intro composite_accepts [where P = "denotes lk td" and Q = "fdenotes lk sfs"]) (auto intro: den_composite)
next
  case (rep_variant td vs m)
  show ?case by (rule variant_sound [OF rep_variant.hyps]) (use rep_variant.IH in fast)+
next
  case (rep_primitive td p T)
  then show ?case
    by (simp only: decode_step.simps) (rule accepts_weaken [OF local_value_accepts], metis erase_value den_primitive)
next
  case (rep_array td n i t d)
  then show ?case by (blast intro: array_sound)
next
  case (rep_sequence td i t d)
  then show ?case by (blast intro: sequence_sound)
next
  case (rep_unit td)
  then show ?case by (auto intro!: accepts_retM den_unit simp del: retM_apply)
next
  case (rep_tuple td items fs nm)
  then show ?case
    by (intro composite_accepts [where P = "denotes lk td" and Q = "tdenotes lk 0 items"]) (auto intro: den_tuple)
next
  case (rep_bits td st oi ord nm)
  have "accepts (wrapM w (BitVec_Decode (NewBitVec ord))) (reads (BitVec_Decode (NewBitVec ord)))" for w
    by (intro accepts_wrapM accepts_local local_BitVec_Decode)
  then show ?case
    unfolding decode_step.simps
    by (rule accepts_map [OF accepts_weaken]) (simp add: den_bits [OF rep_bits])
next
  case (trep_Nil k)
  show ?case by (auto intro!: accepts_retM tden_Nil simp del: retM_apply)
next
  case (trep_Cons item t d k fs items)
  then show ?case by (intro field_accepts [where P = "denotes lk (tDef t)" and Q = "tdenotes lk (Suc k) items"]) (auto intro: tden_Cons)
next
  case frep_Nil
  show ?case by (auto intro!: accepts_retM fden_Nil simp del: retM_apply)
next
  case (frep_rep sf t d fs sfs)
  then show ?case by (intro field_accepts [where P = "denotes lk (tDef t)" and Q = "fdenotes lk sfs"]) (auto intro: fden_Cons)
next
  case (frep_recursive sf t a fs sfs)
  then have "accepts (decode_step cu de (RecursiveDecoder a)) (\<lambda>bs v. denotes lk (tDef t) bs (erase v))"
    using de by (auto simp: deref_sound_def)
  with frep_recursive show ?case by (intro field_accepts [where P = "denotes lk (tDef t)" and Q = "fdenotes lk sfs"]) (auto intro: fden_Cons)
qed simp

text \<open>The decoders reached through addresses, at each level of fuel.\<close>

definition deref_at :: "nat \<Rightarrow> (nat \<Rightarrow> (bytes, dvalue) goM) \<Rightarrow> heap \<Rightarrow> nat \<Rightarrow> (bytes, dvalue) goM" where
  "deref_at n cu h = (case n of 0 \<Rightarrow> (\<lambda>a. liftM OutOfFuel) | Suc k \<Rightarrow> follow h (Decode_fuel k cu h))"

lemma Decode_fuel_eq: "Decode_fuel n cu h d = decode_step cu (deref_at n cu h) d"
  by (cases n) (simp_all add: deref_at_def)

lemma deref_at_sound: "closed_heap lk R Map.empty h \<Longrightarrow> deref_sound lk R (deref_at n cu h)"
proof (induction n)
  case 0
  show ?case by (simp add: deref_sound_def deref_at_def accepts_def)
next
  case (Suc n)
  have "accepts (deref_at (Suc n) cu h a) (\<lambda>bs v. denotes lk (tDef t) bs (erase v))" if "(i, a) \<in> R" "lk i = Some t" for i a t
  proof -
    have "rep lk R Map.empty (inner h a) (tDef t)"
      using Suc.prems that by (force simp: closed_heap_def)
    then have "accepts (Decode_fuel n cu h (inner h a)) (\<lambda>bs v. denotes lk (tDef t) bs (erase v))"
      unfolding Decode_fuel_eq using Suc.IH [OF Suc.prems] by (intro decode_step_sound(1))
    then show ?thesis by (simp add: deref_at_def follow_def del: failM_apply)
  qed
  then show ?case by (simp add: deref_sound_def)
qed

lemma type_fields_sound:
  assumes "closed_heap lk R Map.empty h"
  shows "frep lk R Map.empty fs sfs \<Longrightarrow>
    accepts (decode_fields (Decode_fuel n cu h) fs) (\<lambda>bs vs. fdenotes lk sfs bs (map erase_field vs))"
proof (induction fs arbitrary: sfs)
  case Nil
  then show ?case by (auto elim!: frep.cases intro!: accepts_retM fden_Nil simp del: retM_apply)
next
  case (Cons g fs)
  obtain sf t d sfs' where g: "sfs = sf # sfs'" "g = Field (getFullFieldName sf t) d (UCompact_Int64 (fType sf))"
    "lk (UCompact_Int64 (fType sf)) = Some t" "frep lk R Map.empty fs sfs'"
    "rep lk R Map.empty d (tDef t) \<or> (\<exists>a. d = RecursiveDecoder a \<and> (UCompact_Int64 (fType sf), a) \<in> R)"
    using Cons.prems by (cases rule: frep.cases) auto
  have "accepts (Decode_fuel n cu h d) (\<lambda>bs v. denotes lk (tDef t) bs (erase v))"
    using g(3,5) decode_step_sound(1) [OF deref_at_sound [OF assms]] deref_at_sound [OF assms, of n cu]
    unfolding Decode_fuel_eq by (auto simp: deref_sound_def)
  then have "accepts (Field_Decode (Decode_fuel n cu h) (Some g))
      (\<lambda>bs v. \<exists>w. denotes lk (tDef t) bs (erase w) \<and> v = DecodedField (getFullFieldName sf t) w (UCompact_Int64 (fType sf)))"
    unfolding g(2) Field_Decode_def
    by (auto simp del: failM_apply intro!: accepts_map elim!: accepts_weaken)
  then show ?case
    unfolding decode_fields.simps
    by (intro accepts_bindM [OF accepts_wrapM] accepts_map accepts_weaken [OF Cons.IH [OF g(4)]], assumption)
      (auto simp: g(1) intro: fden_Cons [where lk = lk and sf = sf, OF g(3)])
qed


section \<open>Completeness\<close>

text \<open>\<open>delivers F g bs x\<close>: with enough fuel \<open>F\<close> reads \<open>bs\<close> to a fixed value that \<open>g\<close> maps to \<open>x\<close>.\<close>

definition delivers :: "(nat \<Rightarrow> (bytes, 'a) goM) \<Rightarrow> ('a \<Rightarrow> 'b) \<Rightarrow> bytes \<Rightarrow> 'b \<Rightarrow> bool" where
  "delivers F g bs x \<longleftrightarrow> (\<exists>v n0. g v = x \<and> (\<forall>n\<ge>n0. reads (F n) bs v))"

lemma delivers_const: "reads d bs v \<Longrightarrow> g v = x \<Longrightarrow> delivers (\<lambda>n. d) g bs x"
  by (auto simp: delivers_def)

lemma delivers_retM: "g v = x \<Longrightarrow> delivers (\<lambda>n. retM v) g [] x"
  by (rule delivers_const [OF reads_retM])

lemma delivers_wrapM: "delivers F g bs x \<Longrightarrow> delivers (\<lambda>n. wrapM w (F n)) g bs x"
  unfolding delivers_def by (blast intro: reads_wrapM)

lemma delivers_bindM:
  assumes "delivers F g bs x" and "\<And>v. g v = x \<Longrightarrow> delivers (\<lambda>n. G n v) g' cs y"
  shows "delivers (\<lambda>n. bindM (F n) (G n)) g' (bs @ cs) y"
proof -
  obtain v n0 where v: "g v = x" "\<forall>n\<ge>n0. reads (F n) bs v" using assms(1) by (auto simp: delivers_def)
  obtain u n1 where u: "g' u = y" "\<forall>n\<ge>n1. reads (G n v) cs u" using assms(2) [OF v(1)] by (auto simp: delivers_def)
  have "\<forall>n\<ge>max n0 n1. reads (bindM (F n) (G n)) (bs @ cs) u"
    using v u by (auto intro: reads_bindM)
  then show ?thesis using u(1) unfolding delivers_def by blast
qed

lemma delivers_map:
  assumes "delivers F g bs x" and "\<And>v. g v = x \<Longrightarrow> g' (f v) = y"
  shows "delivers (\<lambda>n. bindM (F n) (\<lambda>v. retM (f v))) g' bs y"
proof -
  have "delivers (\<lambda>n. bindM (F n) (\<lambda>v. retM (f v))) g' (bs @ []) y"
    by (rule delivers_bindM [OF assms(1)]) (rule delivers_retM, rule assms(2))
  then show ?thesis by simp
qed

lemma delivers_Suc: "delivers F g bs x \<Longrightarrow> (\<And>n. F' (Suc n) = F n) \<Longrightarrow> delivers F' g bs x"
proof -
  assume "delivers F g bs x" and s: "\<And>n. F' (Suc n) = F n"
  then obtain v n0 where v: "g v = x" "\<forall>n\<ge>n0. reads (F n) bs v" by (auto simp: delivers_def)
  have "reads (F' n) bs v" if "n \<ge> Suc n0" for n
    using that v(2) s by (cases n) auto
  then show ?thesis using v(1) unfolding delivers_def by blast
qed

lemma vrepD:
  "vrep lk R ovr m vs \<Longrightarrow> last_variant vs b = Some v \<Longrightarrow> vFields v \<noteq> [] \<Longrightarrow>
   \<exists>nm fs. map_of m b = Some (CompositeDecoder nm fs) \<and> frep lk R ovr fs (vFields v)"
  by (simp add: vrep_def)

inductive_cases ctrep_ConsE: "ctrep lk k fs (item # items)"
inductive_cases cfrep_ConsE: "cfrep lk fs (sf # sfs)"
inductive_cases trep_ConsE: "trep lk R ovr k fs (item # items)"
inductive_cases fdenotes_NilE: "fdenotes lk [] bs ws"
inductive_cases fdenotes_ConsE: "fdenotes lk (sf # sfs) bs ws"
inductive_cases frep_NilE: "frep lk R ovr fs []"

lemma rep_inv:
  "rep lk R Map.empty d td \<Longrightarrow>
   (case form_of td of
      FCompact i \<Rightarrow> \<exists>t. lk i = Some t \<and> crep lk d (tDef t)
    | FComposite sfs \<Rightarrow> \<exists>nm fs. d = CompositeDecoder nm fs \<and> frep lk R Map.empty fs sfs
    | FVariant vs \<Rightarrow> \<exists>m. d = VariantDecoder m \<and> vrep lk R Map.empty m vs
    | FPrimitive p \<Rightarrow> \<exists>T. d = ValueDecoder T \<and> primitive_type p = Some T
    | FArray n i \<Rightarrow> \<exists>t e. lk i = Some t \<and> d = ArrayDecoder n e \<and> rep lk R Map.empty e (tDef t)
    | FSequence i \<Rightarrow> \<exists>t e. lk i = Some t \<and> d = SliceDecoder e \<and> rep lk R Map.empty e (tDef t)
    | FTuple ti \<Rightarrow>
        (case ti of
           None \<Rightarrow> d = NoopDecoder
         | Some items \<Rightarrow> \<exists>nm fs. d = CompositeDecoder nm fs \<and> trep lk R Map.empty 0 fs items)
    | FBits st oi \<Rightarrow> \<exists>nm ord. d = BitSequenceDecoder nm ord \<and> bit_order lk st oi = Some ord
    | FUnsupported \<Rightarrow> False)"
  by (erule rep.cases) (auto simp: vrep_def)

lemma crep_inv:
  "crep lk d td \<Longrightarrow>
   (case compact_form_of td of
      CPrimitive \<Rightarrow> d = ValueDecoder T_UCompact
    | CTuple ti \<Rightarrow>
        (case ti of
           None \<Rightarrow> d = ValueDecoder T_any
         | Some items \<Rightarrow> \<exists>nm fs. d = CompositeDecoder nm fs \<and> ctrep lk 0 fs items)
    | CComposite sfs \<Rightarrow> \<exists>nm fs. d = CompositeDecoder nm fs \<and> cfrep lk fs sfs
    | CUnsupported \<Rightarrow> False)"
  by (erule crep.cases) auto

lemma delivers_field:
  assumes "delivers (\<lambda>n. decode_step cu (de n) d) erase bs v" "delivers (\<lambda>n. decode_composite cu (de n) fs) (map erase_field) cs vs"
  shows "delivers (\<lambda>n. decode_composite cu (de n) (Field nm d i # fs)) (map erase_field) (bs @ cs) (DecodedField nm v i # vs)"
  unfolding decode_composite.simps
  by (intro delivers_bindM [OF delivers_wrapM [OF assms(1)]] delivers_map [OF assms(2)]) simp

lemma delivers_composite:
  assumes "delivers (\<lambda>n. decode_composite cu (de n) fs) (map erase_field) bs vs"
  shows "delivers (\<lambda>n. decode_step cu (de n) (CompositeDecoder nm fs)) erase bs (DFields vs)"
  unfolding decode_step.simps by (rule delivers_map [OF assms]) simp

lemma compact_complete:
  "cdenotes lk td bs v \<Longrightarrow> crep lk d td \<Longrightarrow> delivers (\<lambda>n. decode_step cu (de n) d) erase bs v"
  "ctdenotes lk k items bs vs \<Longrightarrow> ctrep lk k fs items \<Longrightarrow> delivers (\<lambda>n. decode_composite cu (de n) fs) (map erase_field) bs vs"
  "cfdenotes lk sfs bs vs \<Longrightarrow> cfrep lk fs sfs \<Longrightarrow> delivers (\<lambda>n. decode_composite cu (de n) fs) (map erase_field) bs vs"
proof (induction arbitrary: d and fs and fs rule: cdenotes_ctdenotes_cfdenotes.inducts)
  case (cden_primitive td bs v)
  then have "d = ValueDecoder T_UCompact" using crep_inv [OF cden_primitive.prems] by simp
  then show ?case
    using delivers_const [where g = erase, OF reads_wrapM [OF cden_primitive.hyps(2)] erase_value [OF cden_primitive.hyps(2)]]
    by (simp only: decode_step.simps)
next
  case (cden_tuple td items bs vs)
  then obtain nm fs where "d = CompositeDecoder nm fs" "ctrep lk 0 fs items"
    using crep_inv [OF cden_tuple.prems] by auto
  then show ?case using delivers_composite [OF cden_tuple.IH(2)] by simp
next
  case (cden_composite td sfs bs vs)
  then obtain nm fs where "d = CompositeDecoder nm fs" "cfrep lk fs sfs"
    using crep_inv [OF cden_composite.prems] by auto
  then show ?case using delivers_composite [OF cden_composite.IH(2)] by simp
next
  case (ctden_Nil k)
  then show ?case by (auto elim!: ctrep.cases intro!: delivers_retM simp del: retM_apply)
next
  case (ctden_Cons item t bs v k items cs vs)
  from ctden_Cons.prems ctden_Cons(1) obtain d fs' where
    "fs = Field (tuple_item_name k) d (UCompact_Int64 item) # fs'" "crep lk d (tDef t)" "ctrep lk (Suc k) fs' items"
    by (auto elim!: ctrep_ConsE)
  then show ?case using ctden_Cons(3,5) delivers_field by blast
next
  case cfden_Nil
  then show ?case by (auto elim!: cfrep.cases intro!: delivers_retM simp del: retM_apply)
next
  case (cfden_Cons sf t bs v sfs cs vs)
  from cfden_Cons.prems cfden_Cons(1) obtain d fs' where
    "fs = Field (getFullFieldName sf t) d (UCompact_Int64 (fType sf)) # fs'" "crep lk d (tDef t)" "cfrep lk fs' sfs"
    by (auto elim!: cfrep_ConsE)
  then show ?case using cfden_Cons(3,5) delivers_field by blast
qed


lemma delivers_slice:
  assumes "slice_fits n" "delivers (\<lambda>m. decode_each n (wrapM w (decode_step cu (de m) d))) (map erase) bs vs"
  shows "delivers (\<lambda>m. seqM (make_slice n) (bindM (decode_each n (wrapM w (decode_step cu (de m) d))) (\<lambda>vs. retM (DSlice vs))))
    erase bs (DSlice vs)"
proof -
  have "make_slice n = (retM () :: (bytes, unit) goM)"
    using assms(1) by (simp add: make_slice_def slice_fits_def)
  then show ?thesis using delivers_map [OF assms(2), of erase DSlice "DSlice vs"] by simp
qed

lemma delivers_variant:
  assumes "delivers (\<lambda>n. decode_variant cu (de n) b m) erase bs v"
  shows "delivers (\<lambda>n. decode_step cu (de n) (VariantDecoder m)) erase (b # bs) v"
proof -
  have "reads ReadOneByte [b] b" by (simp add: reads_def)
  then have "delivers (\<lambda>n. decode_step cu (de n) (VariantDecoder m)) erase ([b] @ bs) v"
    unfolding decode_step.simps
    by (intro delivers_bindM [where g = "\<lambda>x. x" and x = b] delivers_const reads_wrapM) (use assms in simp_all)
  then show ?thesis by simp
qed

text \<open>A field's decoder, its own or the one behind its recursive decoder.\<close>

lemma delivers_recursive:
  assumes cl: "closed_heap lk R Map.empty h" and "(i, a) \<in> R" "lk i = Some t"
    and "\<And>d. rep lk R Map.empty d (tDef t) \<Longrightarrow> delivers (\<lambda>n. decode_step cu (deref_at n cu h) d) erase bs v"
  shows "delivers (\<lambda>n. decode_step cu (deref_at n cu h) (RecursiveDecoder a)) erase bs v"
proof -
  have r: "rep lk R Map.empty (inner h a) (tDef t)"
    using cl assms(2,3) by (force simp: closed_heap_def)
  then have "inner h a \<noteq> NilDecoder" by (blast dest: rep_shape)
  then show ?thesis
    by (intro delivers_Suc [OF assms(4) [OF r]]) (simp add: deref_at_def follow_def Decode_fuel_eq)
qed

lemma frep_Cons_inv:
  assumes "frep lk R Map.empty fs (sf # sfs)"
  obtains t d fs' where "fs = Field (getFullFieldName sf t) d (UCompact_Int64 (fType sf)) # fs'"
    "lk (UCompact_Int64 (fType sf)) = Some t" "frep lk R Map.empty fs' sfs"
    "rep lk R Map.empty d (tDef t) \<or> (\<exists>a. d = RecursiveDecoder a \<and> (UCompact_Int64 (fType sf), a) \<in> R)"
  using assms by (cases rule: frep.cases) auto

lemma decode_step_complete:
  assumes cl: "closed_heap lk R Map.empty h"
  shows "denotes lk td bs v \<Longrightarrow> rep lk R Map.empty d td \<Longrightarrow> delivers (\<lambda>n. decode_step cu (deref_at n cu h) d) erase bs v"
    and "idenotes lk l td bs vs \<Longrightarrow> rep lk R Map.empty d td \<Longrightarrow>
      delivers (\<lambda>n. decode_each l (wrapM w (decode_step cu (deref_at n cu h) d))) (map erase) bs vs"
    and "tdenotes lk k items bs fvs \<Longrightarrow> trep lk R Map.empty k fs items \<Longrightarrow>
      delivers (\<lambda>n. decode_composite cu (deref_at n cu h) fs) (map erase_field) bs fvs"
    and "fdenotes lk sfs bs fvs \<Longrightarrow> frep lk R Map.empty fs sfs \<Longrightarrow>
      delivers (\<lambda>n. decode_composite cu (deref_at n cu h) fs) (map erase_field) bs fvs"
proof (induction arbitrary: d and d w and fs and fs rule: denotes_idenotes_tdenotes_fdenotes.inducts)
  case (den_compact td i t bs v)
  then show ?case using rep_inv [OF den_compact.prems] by (auto intro: compact_complete(1))
next
  case (den_composite td sfs bs vs)
  then obtain nm fs where "d = CompositeDecoder nm fs" "frep lk R Map.empty fs sfs"
    using rep_inv [OF den_composite.prems] by auto
  then show ?case using delivers_composite [OF den_composite.IH(2)] by simp
next
  case (den_unit_variant td vs b v)
  then obtain m where "d = VariantDecoder m" "map_of m b = Some NoopDecoder"
    using rep_inv [OF den_unit_variant.prems] by (auto simp: vrep_def)
  then show ?case
    by (auto simp: variant_lookup intro!: delivers_variant delivers_retM simp del: retM_apply decode_step.simps)
next
  case (den_variant td vs b v bs xs)
  then obtain m nm fs where m: "d = VariantDecoder m" "map_of m b = Some (CompositeDecoder nm fs)" "frep lk R Map.empty fs (vFields v)"
    using rep_inv [OF den_variant.prems] by (auto dest: vrepD)
  have "delivers (\<lambda>n. decode_variant cu (deref_at n cu h) b m) erase bs (DFields xs)"
    using delivers_composite [OF den_variant.IH(2) [OF m(3)], of nm] m(2) by (simp add: variant_lookup)
  then show ?case unfolding m(1) by (rule delivers_variant)
next
  case (den_primitive td p T bs v)
  then have "d = ValueDecoder T" using rep_inv [OF den_primitive.prems] by auto
  then show ?case
    using delivers_const [where g = erase, OF reads_wrapM [OF den_primitive(3)] erase_value [OF den_primitive(3)]]
    by (simp only: decode_step.simps)
next
  case (den_array td n i t bs vs)
  then obtain e where e: "d = ArrayDecoder n e" "rep lk R Map.empty e (tDef t)"
    using rep_inv [OF den_array.prems] by auto
  then have "e \<noteq> NilDecoder" by (blast dest: rep_shape)
  then show ?case
    using delivers_slice [OF den_array(2) den_array(5) [OF e(2)]] by (simp add: e(1))
next
  case (den_sequence td i t hdr len n bs vs)
  then obtain e where e: "d = SliceDecoder e" "rep lk R Map.empty e (tDef t)"
    using rep_inv [OF den_sequence.prems] by auto
  then have "e \<noteq> NilDecoder" by (blast dest: rep_shape)
  moreover have "delivers (\<lambda>m. bindM (wrapM w DecodeUintCompact) (\<lambda>len. seqM (make_slice (unat (BigInt_Uint64 len)))
      (bindM (decode_each (unat (BigInt_Uint64 len)) (wrapM w' (decode_step cu (deref_at m cu h) e))) (\<lambda>vs. retM (DSlice vs)))))
      erase (hdr @ bs) (DSlice vs)" for w w'
    by (rule delivers_bindM [where g = "\<lambda>x. x" and x = len, OF delivers_const [OF reads_wrapM [OF den_sequence(2)] refl]])
      (use delivers_slice [OF den_sequence(4) den_sequence(7) [OF e(2)]] den_sequence(3) in simp)
  ultimately show ?case by (simp add: e(1))
next
  case (den_unit td)
  then have "d = NoopDecoder" using rep_inv [OF den_unit.prems] by auto
  then show ?case by (auto intro!: delivers_retM simp del: retM_apply)
next
  case (den_tuple td items bs vs)
  then obtain nm fs where "d = CompositeDecoder nm fs" "trep lk R Map.empty 0 fs items"
    using rep_inv [OF den_tuple.prems] by auto
  then show ?case using delivers_composite [OF den_tuple.IH(2)] by simp
next
  case (den_bits td st oi ord bs bv)
  then obtain nm where d: "d = BitSequenceDecoder nm ord" using rep_inv [OF den_bits.prems] by auto
  show ?case
    unfolding d decode_step.simps
    by (rule delivers_map [where g = "\<lambda>x. x" and x = bv, OF delivers_const [OF reads_wrapM [OF den_bits(2)] refl]]) simp
next
  case (iden_Nil td)
  show ?case by (auto intro!: delivers_retM simp del: retM_apply)
next
  case (iden_Cons td bs v n cs vs)
  then show ?case
    unfolding decode_each.simps
    by (intro delivers_bindM [OF delivers_wrapM [OF iden_Cons.IH(2)]] delivers_map [OF iden_Cons.IH(4)]) simp_all
next
  case (tden_Nil k)
  then show ?case by (auto elim!: trep.cases intro!: delivers_retM simp del: retM_apply)
next
  case (tden_Cons item t bs v k items cs vs)
  from tden_Cons.prems tden_Cons(1) obtain d fs' where f:
    "fs = Field (tuple_item_name k) d (UCompact_Int64 item) # fs'" "rep lk R Map.empty d (tDef t)" "trep lk R Map.empty (Suc k) fs' items"
    by (auto elim!: trep_ConsE)
  show ?case unfolding f(1) by (rule delivers_field [OF tden_Cons(3) [OF f(2)] tden_Cons(5) [OF f(3)]])
next
  case fden_Nil
  then show ?case by (auto elim!: frep.cases intro!: delivers_retM simp del: retM_apply)
next
  case (fden_Cons sf t bs v sfs cs vs)
  from fden_Cons.prems obtain t' d fs' where f: "fs = Field (getFullFieldName sf t') d (UCompact_Int64 (fType sf)) # fs'"
    "lk (UCompact_Int64 (fType sf)) = Some t'" "frep lk R Map.empty fs' sfs"
    "rep lk R Map.empty d (tDef t') \<or> (\<exists>a. d = RecursiveDecoder a \<and> (UCompact_Int64 (fType sf), a) \<in> R)"
    by (rule frep_Cons_inv)
  have t': "t' = t" using f(2) fden_Cons(1) by simp
  have "delivers (\<lambda>n. decode_step cu (deref_at n cu h) d) erase bs v"
    using f(4) fden_Cons(3) delivers_recursive [OF cl _ fden_Cons(1)] unfolding t' by blast
  then show ?case unfolding f(1) t' using fden_Cons(5) [OF f(3)] by (rule delivers_field)
qed

lemma type_fields_complete:
  assumes cl: "closed_heap lk R Map.empty h"
  shows "fdenotes lk sfs bs ws \<Longrightarrow> frep lk R Map.empty fs sfs \<Longrightarrow>
    delivers (\<lambda>n. decode_fields (Decode_fuel n cu h) fs) (map erase_field) bs ws"
proof (induction sfs arbitrary: bs ws fs)
  case Nil
  then show ?case by (auto elim!: frep_NilE fdenotes_NilE intro!: delivers_retM simp del: retM_apply)
next
  case (Cons sf sfs)
  from Cons.prems(1) obtain t cs v ds vs where w: "bs = cs @ ds" "lk (UCompact_Int64 (fType sf)) = Some t" "denotes lk (tDef t) cs v"
    "fdenotes lk sfs ds vs" "ws = DecodedField (getFullFieldName sf t) v (UCompact_Int64 (fType sf)) # vs"
    by (rule fdenotes_ConsE)
  from Cons.prems(2) obtain t' d fs' where f: "fs = Field (getFullFieldName sf t') d (UCompact_Int64 (fType sf)) # fs'"
    "lk (UCompact_Int64 (fType sf)) = Some t'" "frep lk R Map.empty fs' sfs"
    "rep lk R Map.empty d (tDef t') \<or> (\<exists>a. d = RecursiveDecoder a \<and> (UCompact_Int64 (fType sf), a) \<in> R)"
    by (rule frep_Cons_inv)
  have t': "t' = t" using f(2) w(2) by simp
  have "delivers (\<lambda>n. Decode_fuel n cu h d) erase cs v"
    unfolding Decode_fuel_eq
    using f(4) decode_step_complete(1) [OF cl w(3)] delivers_recursive [OF cl _ w(2)] unfolding t' by blast
  moreover have "d \<noteq> NilDecoder" using f(4) by (blast dest: rep_shape)
  ultimately have "delivers (\<lambda>n. Field_Decode (Decode_fuel n cu h) (Some (Field (getFullFieldName sf t) d i))) erase_field cs
      (DecodedField (getFullFieldName sf t) v i)" for i
    unfolding Field_Decode_def by (auto intro!: delivers_map)
  then show ?case
    unfolding w(1,5) f(1) t' decode_fields.simps
    by (intro delivers_bindM [OF delivers_wrapM] delivers_map [OF Cons.IH [OF w(4) f(3)]], assumption) simp
qed

end
