(* ===== verification/RegistryProperties.thy ===== *)
theory RegistryProperties
  imports RegistrySemantics
begin

text \<open>
  The properties of the registry factory: completeness and shape of the registries it
  creates, errors, termination, independence of the iteration order of Go maps, and
  agreement of the decoders with the types of the metadata.
\<close>

section \<open>From the loops to the registries\<close>

lemma create_registry_build:
  assumes "create_registry n m what whats has tyof key f = (Ok reg, f')"
  shows "\<exists>f1. pallets_loop (getFieldDecoder n (EfficientLookup m)) (EfficientLookup m) what whats has tyof key
    (Pallets m) Map.empty (snd (resetStorages f)) = (Ok reg, f1)"
  using assms by (auto simp: create_registry_def goM_iffs resetStorages_def)

lemma create_registry_correct:
  assumes "plain_overrides f" "create_registry n m what whats has tyof key f = (Ok reg, f')"
  shows "dom reg = keys_of (EfficientLookup m) has tyof key (Pallets m) \<and>
    closed_heap (EfficientLookup m) (recs f') (overrides_of f) (fheap f') \<and>
    (\<forall>k td. reg k = Some td \<longrightarrow> entry_of (EfficientLookup m) (recs f') (overrides_of f) has tyof key (Pallets m) k td)"
proof -
  obtain f1 where run: "pallets_loop (getFieldDecoder n (EfficientLookup m)) (EfficientLookup m) what whats has tyof key
    (Pallets m) Map.empty (snd (resetStorages f)) = (Ok reg, f1)"
    using create_registry_build [OF assms(2)] by blast
  from create_registry_ok [OF assms(1) run refl] assms(2) show ?thesis by fastforce
qed

lemma variants_loop_error:
  "variants_loop gfd lk what key nm vs reg f = (Err e, f') \<Longrightarrow> \<exists>x. e = LibErr (what @ x)"
  by (induction vs arbitrary: f reg)
    (auto simp: Let_def goM_iffs libMsgWrap_def Error_Wrap_def Error_WithMsg_def)

lemma pallets_loop_error:
  "pallets_loop gfd lk what whats has tyof key ps reg f = (Err e, f') \<Longrightarrow> \<exists>x. e = LibErr (what @ x) \<or> e = LibErr (whats @ x)"
  by (induction ps arbitrary: f reg)
    (auto simp: Let_def goM_iffs libMsg_def Error_WithMsg_def dest!: variants_loop_error split: if_splits option.splits)

lemma create_registry_error:
  assumes "plain_overrides f" "create_registry n m what whats has tyof key f = (Err e, f')"
  shows "\<exists>x. e = LibErr (what @ x) \<or> e = LibErr (whats @ x)"
proof -
  let ?build = "pallets_loop (getFieldDecoder n (EfficientLookup m)) (EfficientLookup m) what whats has tyof key
    (Pallets m) Map.empty (snd (resetStorages f))"
  have "\<exists>f1. ?build = (Err e, f1)"
  proof (cases "\<exists>reg f1. ?build = (Ok reg, f1)")
    case True
    then show ?thesis using create_registry_ok [OF assms(1) _ refl] assms(2) by fastforce
  next
    case False
    then show ?thesis
      using assms(2) by (auto simp: create_registry_def goM_iffs resetStorages_def)
  qed
  then show ?thesis using pallets_loop_error by blast
qed

lemma create_registry_stable:
  assumes "bounded_types K (EfficientLookup m)" "plain_overrides f" "card (dom (EfficientLookup m)) * K \<le> n"
  shows "fst (create_registry n m what whats has tyof key f) \<noteq> OutOfFuel \<and>
    create_registry (n + j) m what whats has tyof key f = create_registry n m what whats has tyof key f"
proof -
  obtain r f' where r: "create_registry n m what whats has tyof key f = (r, f')" by fastforce
  moreover have "r \<noteq> OutOfFuel"
    using create_registry_halts [OF assms] r by blast
  ultimately show ?thesis
    using create_registry_more_fuel [OF r, of "n + j"] by simp
qed

section \<open>Decoding with a registry\<close>

text \<open>A type decoder implements the field list of a variant: what it accepts, and what it must accept.\<close>

definition implements ::
  "lookup \<Rightarrow> (nat \<Rightarrow> (bytes, dvalue) goM) \<Rightarrow> heap \<Rightarrow> TypeDecoder \<Rightarrow> Si1Field list \<Rightarrow> bool" where
  "implements lk cust h td sfs \<longleftrightarrow>
     (\<forall>l s vs s'. TypeDecoder_Decode (Decode_fuel l cust h) (Some td) s = (Ok vs, s') \<longrightarrow>
        (\<exists>bs. s = bs @ s' \<and> fdenotes lk sfs bs (map erase_field vs))) \<and>
     (\<forall>bs ws. fdenotes lk sfs bs ws \<longrightarrow>
        (\<exists>vs l0. map erase_field vs = ws \<and>
           (\<forall>l\<ge>l0. \<forall>rest. TypeDecoder_Decode (Decode_fuel l cust h) (Some td) (bs @ rest) = (Ok vs, rest))))"

lemma implements_fields:
  assumes cl: "closed_heap lk R Map.empty h" and fs: "frep lk R Map.empty (tdFields td) sfs"
  shows "implements lk cust h td sfs"
proof -
  have "\<exists>vs l0. map erase_field vs = ws \<and> (\<forall>l\<ge>l0. reads (decode_fields (Decode_fuel l cust h) (tdFields td)) bs vs)"
    if "fdenotes lk sfs bs ws" for bs ws
    using type_fields_complete [OF cl that fs, of cust] by (simp add: delivers_def)
  then show ?thesis
    using type_fields_sound [OF cl fs, of _ cust]
    unfolding implements_def TypeDecoder_Decode_def reads_def accepts_def by simp
qed

lemma create_registry_implements:
  assumes "fieldOverrides f = []" "create_registry n m what whats has tyof key f = (Ok reg, f')" "reg k = Some td"
  shows "\<exists>p\<in>set (Pallets m). \<exists>t v. has p \<and> EfficientLookup m (UCompact_Int64 (tyof p)) = Some t \<and>
    v \<in> set (Variants (tDef t)) \<and> k = key (pIndex p) (vIndex v) \<and> tdName td = pName p @ ''.'' @ vName v \<and>
    implements (EfficientLookup m) cust (fheap f') td (vFields v)"
proof -
  have "plain_overrides f" "overrides_of f = Map.empty"
    using assms(1) by (simp_all add: plain_overrides_def)
  with create_registry_correct [OF _ assms(2)] assms(3)
  have "closed_heap (EfficientLookup m) (recs f') Map.empty (fheap f')"
    "entry_of (EfficientLookup m) (recs f') Map.empty has tyof key (Pallets m) k td" by auto
  then show ?thesis
    unfolding entry_of_def using implements_fields by blast
qed


section \<open>A sample metadata\<close>

text \<open>
  One pallet with two events, one of which carries a tree: a composite of a byte and the
  sequence of its subtrees.
\<close>

definition named_field :: "string \<Rightarrow> int \<Rightarrow> Si1Field" where
  "named_field nm i = \<lparr>HasName = True, fName = nm, fType = i, HasTypeName = False, fTypeName = [], fDocs = []\<rparr>"

definition plain_type :: "string list \<Rightarrow> Si1TypeDef \<Rightarrow> Si1Type" where
  "plain_type path d = \<lparr>tPath = path, tParams = [], tDef = d, tDocs = []\<rparr>"

definition tree_types :: "PortableTypeV14 list" where
  "tree_types =
    [\<lparr>ptID = 1, ptType = plain_type [] (zero_typedef\<lparr>IsVariant := True, Variants :=
        [\<lparr>vName = ''Ping'', vFields = [], vIndex = 0, vDocs = []\<rparr>,
         \<lparr>vName = ''Grown'', vFields = [named_field ''tree'' 2], vIndex = 2, vDocs = []\<rparr>]\<rparr>)\<rparr>,
     \<lparr>ptID = 2, ptType = plain_type [''Tree''] (zero_typedef\<lparr>IsComposite := True, CompositeFields :=
        [named_field ''value'' 4, named_field ''children'' 3]\<rparr>)\<rparr>,
     \<lparr>ptID = 3, ptType = plain_type [] (zero_typedef\<lparr>IsSequence := True, SequenceType := 2\<rparr>)\<rparr>,
     \<lparr>ptID = 4, ptType = plain_type [] (zero_typedef\<lparr>IsPrimitive := True, Primitive := 3\<rparr>)\<rparr>]"

definition tree_metadata :: MetadataV14 where
  "tree_metadata = \<lparr>Lookup = tree_types,
     Pallets = [(sample_pallet ''Forest'' 5)\<lparr>pEvents := 1, pCalls := 1, pErrors := 1\<rparr>],
     mdExtrinsic = \<lparr>exType = 1, exVersion = 4, exSignedExtensions = []\<rparr>, mdType = 1,
     EfficientLookup = toMap tree_types\<rparr>"

definition new_factory :: factory where
  "new_factory = NewFactory [] Map.empty 0"

lemma UCompact_Int64_numeral [simp]:
  "UCompact_Int64 1 = 1" "(numeral k :: int) < 2 ^ 63 \<Longrightarrow> UCompact_Int64 (numeral k) = numeral k"
  by (simp_all add: UCompact_Int64_def BigInt_Int64_small)

lemma new_factory_plain [simp]: "plain_overrides new_factory" "fieldOverrides new_factory = []"
  by (simp_all add: new_factory_def NewFactory_def plain_overrides_def)

text \<open>The event registry of the sample and its heap.\<close>

definition tree_decoder :: field_decoder where
  "tree_decoder = CompositeDecoder ''Tree.tree''
     [Field ''value'' (ValueDecoder T_U8) 4,
      Field ''children'' (SliceDecoder (CompositeDecoder ''children''
        [Field ''value'' (ValueDecoder T_U8) 4, Field ''children'' (RecursiveDecoder 2) 3])) 3]"

lemma tree_registry:
  "case CreateEventRegistry 8 tree_metadata new_factory of
     (Ok reg, f') \<Rightarrow>
       reg (5, 0) = Some \<lparr>tdName = ''Forest.Ping'', tdFields = []\<rparr> \<and>
       reg (5, 2) = Some \<lparr>tdName = ''Forest.Grown'', tdFields = [Field ''Tree.tree'' tree_decoder 2]\<rparr> \<and>
       fheap f' 2 = Some (SliceDecoder (CompositeDecoder ''children''
         [Field ''value'' (ValueDecoder T_U8) 4, Field ''children'' (RecursiveDecoder 2) 3]))
   | _ \<Rightarrow> False"
  by code_simp


lemma tree_registry_ok:
  obtains reg f' where "CreateEventRegistry 8 tree_metadata new_factory = (Ok reg, f')"
    "reg (5, 2) = Some \<lparr>tdName = ''Forest.Grown'', tdFields = [Field ''Tree.tree'' tree_decoder 2]\<rparr>"
  using tree_registry by (auto split: prod.splits res.splits)

section \<open>Properties\<close>

text \<open>
  C11: A created event registry has an entry for exactly the event variants of the pallets that
  have events, each entry has the name of its pallet and variant and field decoders that
  match the field types in the metadata, and every recursive decoder in them has been
  resolved to the decoder of its type.\<close>

theorem event_registry_correct:
  assumes "plain_overrides f" "CreateEventRegistry n m f = (Ok reg, f')"
  shows "dom reg = keys_of (EfficientLookup m) HasEvents pEvents (\<lambda>p v. (p, v)) (Pallets m) \<and>
    closed_heap (EfficientLookup m) (recs f') (overrides_of f) (fheap f') \<and>
    (\<forall>k td. reg k = Some td \<longrightarrow>
       entry_of (EfficientLookup m) (recs f') (overrides_of f) HasEvents pEvents (\<lambda>p v. (p, v)) (Pallets m) k td)"
  by (rule create_registry_correct [OF assms(1) assms(2) [unfolded CreateEventRegistry_def]])

theorem event_registry_correct_witness:
  "\<exists>reg f'. CreateEventRegistry 8 tree_metadata new_factory = (Ok reg, f') \<and>
     dom reg = keys_of (EfficientLookup tree_metadata) HasEvents pEvents (\<lambda>p v. (p, v)) (Pallets tree_metadata) \<and>
     reg (5, 2) \<noteq> None"
proof (rule tree_registry_ok)
  fix reg f'
  assume r: "CreateEventRegistry 8 tree_metadata new_factory = (Ok reg, f')"
    "reg (5, 2) = Some \<lparr>tdName = ''Forest.Grown'', tdFields = [Field ''Tree.tree'' tree_decoder 2]\<rparr>"
  with event_registry_correct [OF new_factory_plain(1) r(1)] show ?thesis by blast
qed

text \<open>
  Creating a registry never fails while resolving recursive decoders: every error of the
  three constructors is about the calls, errors or events themselves.\<close>

theorem registry_errors:
  assumes "plain_overrides f"
  shows "(CreateCallRegistry n m f = (Err e, f') \<longrightarrow> (\<exists>x. e = LibErr (''call'' @ x))) \<and>
    (CreateErrorRegistry n m f = (Err e, f') \<longrightarrow> (\<exists>x. e = LibErr (''error'' @ x))) \<and>
    (CreateEventRegistry n m f = (Err e, f') \<longrightarrow> (\<exists>x. e = LibErr (''event'' @ x)))"
  unfolding CreateCallRegistry_def CreateErrorRegistry_def CreateEventRegistry_def
  by (intro conjI impI; drule create_registry_error [OF assms]) fastforce+

definition missing_metadata :: MetadataV14 where
  "missing_metadata = tree_metadata\<lparr>EfficientLookup := Map.empty\<rparr>"

theorem registry_errors_witness:
  "\<exists>e f'. CreateEventRegistry 8 missing_metadata new_factory = (Err e, f') \<and> (\<exists>x. e = LibErr (''event'' @ x))"
proof -
  have "case CreateEventRegistry 8 missing_metadata new_factory of (Err e, f') \<Rightarrow> True | _ \<Rightarrow> False"
    by code_simp
  then obtain e f' where "CreateEventRegistry 8 missing_metadata new_factory = (Err e, f')"
    by (auto split: prod.splits res.splits)
  with registry_errors [OF new_factory_plain(1)] show ?thesis by blast
qed

text \<open>
  The order in which \<open>resolveRecursiveDecoders\<close> meets the entries of its map, which Go
  leaves open, does not matter: after a successful build every order succeeds and leaves
  the same state.\<close>

theorem resolve_any_order:
  assumes "plain_overrides f"
    and "pallets_loop (getFieldDecoder n (EfficientLookup m)) (EfficientLookup m) what whats has tyof key (Pallets m)
      Map.empty (snd (resetStorages f)) = (Ok reg, f1)"
    and "set rs = recs f1"
  shows "resolve_loop rs f1 = resolveRecursiveDecoders f1 \<and> fst (resolveRecursiveDecoders f1) = Ok ()"
proof -
  let ?lk = "EfficientLookup m"
  obtain f0 where f0: "resetStorages f = (Ok (), f0)" by (simp add: resetStorages_def)
  have i0: "factory_inv ?lk (overrides_of f) f0" "finished f0" using reset_inv [OF assms(1) f0, of ?lk] by auto
  have run: "pallets_loop (getFieldDecoder n ?lk) ?lk what whats has tyof key (Pallets m) Map.empty f0 = (Ok reg, f1)"
    using assms(2) f0 by simp
  have g: "factory_inv ?lk (overrides_of f) f1" "extends f0 f1"
    using pallets_loop_good [OF getFieldDecoder_good i0(1) subset_refl _ run] by auto
  note fin = extends_finished [OF g(2) i0(2)]
  obtain h h' where h: "resolve_loop rs f1 = (Ok (), f1\<lparr>fheap := h\<rparr>)" "resolved rs f1 h"
    "resolveRecursiveDecoders f1 = (Ok (), f1\<lparr>fheap := h'\<rparr>)" "resolved (recursiveFieldStorage f1) f1 h'"
    using resolve_any [OF g(1) fin assms(3)] resolve_after_build [OF g(1) fin] by blast
  have "h = h'"
  proof
    fix a
    show "h a = h' a"
      using h(2,4) assms(3) by (cases "a \<in> snd ` set rs") (fastforce simp: resolved_def)+
  qed
  then show ?thesis using h by simp
qed

theorem resolve_any_order_witness:
  "\<exists>reg f1. pallets_loop (getFieldDecoder 8 (EfficientLookup tree_metadata)) (EfficientLookup tree_metadata) ''event'' ''events''
      HasEvents pEvents (\<lambda>p v. (p, v)) (Pallets tree_metadata) Map.empty (snd (resetStorages new_factory)) = (Ok reg, f1) \<and>
    recursiveFieldStorage f1 = [(3, 2)] \<and> resolve_loop [(3, 2), (3, 2)] f1 = resolveRecursiveDecoders f1"
proof -
  have "case pallets_loop (getFieldDecoder 8 (EfficientLookup tree_metadata)) (EfficientLookup tree_metadata) ''event'' ''events''
      HasEvents pEvents (\<lambda>p v. (p, v)) (Pallets tree_metadata) Map.empty (snd (resetStorages new_factory)) of
    (Ok reg, f1) \<Rightarrow> recursiveFieldStorage f1 = [(3, 2)] | _ \<Rightarrow> False"
    by code_simp
  then obtain reg f1 where r: "pallets_loop (getFieldDecoder 8 (EfficientLookup tree_metadata)) (EfficientLookup tree_metadata) ''event'' ''events''
      HasEvents pEvents (\<lambda>p v. (p, v)) (Pallets tree_metadata) Map.empty (snd (resetStorages new_factory)) = (Ok reg, f1)"
    "recursiveFieldStorage f1 = [(3, 2)]"
    by (auto split: prod.splits res.splits)
  with resolve_any_order [OF new_factory_plain(1) r(1), of "[(3, 2), (3, 2)]"] show ?thesis by auto
qed

text \<open>
  C16: When chains of direct references (array, sequence, tuple and compact items) have length
  at most \<open>K\<close>, fuel of \<open>K\<close> per type is enough for all three registries to be created or
  refused, and any larger fuel gives the same result: the factory terminates.\<close>

theorem registry_terminates:
  assumes "bounded_types K (EfficientLookup m)" "plain_overrides f" "card (dom (EfficientLookup m)) * K \<le> n"
  shows "fst (CreateCallRegistry n m f) \<noteq> OutOfFuel \<and> fst (CreateErrorRegistry n m f) \<noteq> OutOfFuel \<and>
    fst (CreateEventRegistry n m f) \<noteq> OutOfFuel \<and> CreateCallRegistry (n + j) m f = CreateCallRegistry n m f \<and>
    CreateErrorRegistry (n + j) m f = CreateErrorRegistry n m f \<and> CreateEventRegistry (n + j) m f = CreateEventRegistry n m f"
  by (simp add: CreateCallRegistry_def CreateErrorRegistry_def CreateEventRegistry_def create_registry_stable [OF assms])

lemma tree_bounded: "bounded_types 2 (EfficientLookup tree_metadata)" "card (dom (EfficientLookup tree_metadata)) * 2 \<le> 8"
proof -
  have lk: "EfficientLookup tree_metadata = toMap tree_types" by (simp add: tree_metadata_def)
  have "list_all (\<lambda>p. direct_ok 2 (toMap tree_types) (tDef (ptType p))) tree_types" by code_simp
  then have "\<forall>t\<in>ran (toMap tree_types). direct_ok 2 (toMap tree_types) (tDef t)"
    by (auto simp: list_all_iff ran_def dest!: toMap_mem)
  then show "bounded_types 2 (EfficientLookup tree_metadata)"
    by (simp add: bounded_types_def lk toMap_dom)
  have "card (dom (toMap tree_types)) \<le> card (set tree_types)"
    unfolding toMap_dom by (rule card_image_le) simp
  also have "\<dots> \<le> length tree_types" by (rule card_length)
  finally show "card (dom (EfficientLookup tree_metadata)) * 2 \<le> 8"
    by (simp add: lk tree_types_def)
qed

theorem registry_terminates_witness:
  "fst (CreateCallRegistry 8 tree_metadata new_factory) \<noteq> OutOfFuel \<and>
   CreateEventRegistry (8 + 100) tree_metadata new_factory = CreateEventRegistry 8 tree_metadata new_factory"
  using registry_terminates [OF tree_bounded(1) new_factory_plain(1) tree_bounded(2), of 100] by blast

text \<open>
  For a sequence type whose item type is the sequence itself \<open>getFieldDecoder\<close> calls itself
  without end: no amount of fuel is enough.\<close>

theorem self_sequence_diverges:
  assumes "form_of (tDef t) = FSequence i" "lk i = Some t"
  shows "fst (getFieldDecoder n lk nm (tDef t) f) = OutOfFuel"
  by (rule getFieldDecoder_cyclic [where lk = lk and i = i, OF assms refl])

theorem self_sequence_diverges_witness:
  "fst (getFieldDecoder 1000000 [9 \<mapsto> plain_type [] (zero_typedef\<lparr>IsSequence := True, SequenceType := 9\<rparr>)] ''loop''
     (zero_typedef\<lparr>IsSequence := True, SequenceType := 9\<rparr>) new_factory) = OutOfFuel"
  using self_sequence_diverges [of "plain_type [] (zero_typedef\<lparr>IsSequence := True, SequenceType := 9\<rparr>)" 9
      "[9 \<mapsto> plain_type [] (zero_typedef\<lparr>IsSequence := True, SequenceType := 9\<rparr>)]" 1000000 "''loop''" new_factory]
  by (simp add: plain_type_def form_of_def zero_typedef_def)

text \<open>
  C6: Decoding an event with the registry agrees with the types of the metadata: the type
  decoder of an event consumes exactly an encoding of the event variant's fields and
  returns what it denotes, and decodes every such encoding, whatever follows it and
  however deeply recursive types nest in it.\<close>

theorem event_decoder_refines_metadata:
  assumes "fieldOverrides f = []" "CreateEventRegistry n m f = (Ok reg, f')" "reg k = Some td"
  shows "\<exists>p\<in>set (Pallets m). \<exists>t v. HasEvents p \<and> EfficientLookup m (UCompact_Int64 (pEvents p)) = Some t \<and>
    v \<in> set (Variants (tDef t)) \<and> k = (pIndex p, vIndex v) \<and> tdName td = pName p @ ''.'' @ vName v \<and>
    implements (EfficientLookup m) cust (fheap f') td (vFields v)"
  by (rule create_registry_implements [OF assms(1) assms(2) [unfolded CreateEventRegistry_def] assms(3)])

theorem event_decoder_refines_metadata_witness:
  "\<exists>reg f' td sfs. CreateEventRegistry 8 tree_metadata new_factory = (Ok reg, f') \<and> reg (5, 2) = Some td \<and>
     tdName td = ''Forest.Grown'' \<and> implements (EfficientLookup tree_metadata) (\<lambda>_. failM EOF) (fheap f') td sfs"
proof (rule tree_registry_ok)
  fix reg f'
  assume r: "CreateEventRegistry 8 tree_metadata new_factory = (Ok reg, f')"
    "reg (5, 2) = Some \<lparr>tdName = ''Forest.Grown'', tdFields = [Field ''Tree.tree'' tree_decoder 2]\<rparr>"
  with event_decoder_refines_metadata [OF new_factory_plain(2) r, of "\<lambda>_. failM EOF"] show ?thesis
    by (simp del: failM_apply) blast
qed

text \<open>
  The same agreement for calls: the call registry's type decoders decode exactly the
  encodings of the arguments of the call variant their key selects.\<close>

theorem call_decoder_refines_metadata:
  assumes "fieldOverrides f = []" "CreateCallRegistry n m f = (Ok reg, f')" "reg k = Some td"
  shows "\<exists>p\<in>set (Pallets m). \<exists>t v. HasCalls p \<and> EfficientLookup m (UCompact_Int64 (pCalls p)) = Some t \<and>
    v \<in> set (Variants (tDef t)) \<and> k = \<lparr>SectionIndex = pIndex p, MethodIndex = vIndex v\<rparr> \<and>
    tdName td = pName p @ ''.'' @ vName v \<and> implements (EfficientLookup m) cust (fheap f') td (vFields v)"
  by (rule create_registry_implements [OF assms(1) assms(2) [unfolded CreateCallRegistry_def] assms(3)])

theorem call_decoder_refines_metadata_witness:
  "\<exists>reg f' td sfs. CreateCallRegistry 8 tree_metadata new_factory = (Ok reg, f') \<and>
     reg \<lparr>SectionIndex = 5, MethodIndex = 2\<rparr> = Some td \<and>
     implements (EfficientLookup tree_metadata) (\<lambda>_. failM EOF) (fheap f') td sfs"
proof -
  have "case CreateCallRegistry 8 tree_metadata new_factory of
      (Ok reg, f') \<Rightarrow> reg \<lparr>SectionIndex = 5, MethodIndex = 2\<rparr> \<noteq> None | _ \<Rightarrow> False"
    by code_simp
  then obtain reg f' td where r: "CreateCallRegistry 8 tree_metadata new_factory = (Ok reg, f')"
    "reg \<lparr>SectionIndex = 5, MethodIndex = 2\<rparr> = Some td"
    by (auto split: prod.splits res.splits)
  with call_decoder_refines_metadata [OF new_factory_plain(2) r, of "\<lambda>_. failM EOF"] show ?thesis by blast
qed

end
