(* ===== verification/RegistryHeap.thy ===== *)
theory RegistryHeap
  imports RegistryProperties
begin

text \<open>
  A factory is used again and again, for new metadata and after failures. Whatever happens
  when it creates a registry, it only writes recursive decoders that it allocates itself, so
  the registries it created before keep decoding as they did.
\<close>

section \<open>Writing above an address only\<close>

definition fresh_from :: "nat \<Rightarrow> factory \<Rightarrow> bool" where
  "fresh_from b f \<longleftrightarrow> b \<le> nextAddr f \<and> (\<forall>i a. owns f i a \<longrightarrow> b \<le> a \<and> a < nextAddr f)"

definition same_below :: "nat \<Rightarrow> factory \<Rightarrow> factory \<Rightarrow> bool" where
  "same_below b f f' \<longleftrightarrow>
     (\<forall>a<b. fheap f' a = fheap f a) \<and> fieldOverrides f' = fieldOverrides f \<and> nextAddr f \<le> nextAddr f'"

definition keeps :: "nat \<Rightarrow> (factory, 'a) goM \<Rightarrow> ('a \<Rightarrow> bool) \<Rightarrow> bool" where
  "keeps b m Q \<longleftrightarrow>
     (\<forall>f r f'. fresh_from b f \<longrightarrow> m f = (r, f') \<longrightarrow>
        fresh_from b f' \<and> same_below b f f' \<and> (\<forall>v. r = Ok v \<longrightarrow> Q v))"

abbreviation (input) keeps_any :: "nat \<Rightarrow> (factory, 'a) goM \<Rightarrow> bool" where
  "keeps_any b m \<equiv> keeps b m (\<lambda>_. True)"

definition not_recursive :: "field_decoder \<Rightarrow> bool" where
  "not_recursive d \<longleftrightarrow> (\<forall>a. d \<noteq> RecursiveDecoder a)"

lemma same_below_refl [simp]: "same_below b f f"
  by (simp add: same_below_def)

lemma same_below_trans: "same_below b f g \<Longrightarrow> same_below b g h \<Longrightarrow> same_below b f h"
  by (simp add: same_below_def)

lemma keeps_retM: "Q v \<Longrightarrow> keeps b (retM v) Q"
  by (simp add: keeps_def)

lemma keeps_failM: "keeps b (failM e) Q"
  by (simp add: keeps_def)

lemma keeps_liftM: "(\<And>v. r = Ok v \<Longrightarrow> Q v) \<Longrightarrow> keeps b (liftM r) Q"
  by (simp add: keeps_def)

lemma keeps_wrapM: "keeps b m Q \<Longrightarrow> keeps b (wrapM w m) Q"
  by (fastforce simp: keeps_def wrapM_def split: prod.splits res.splits)

lemma keeps_bindM:
  assumes "keeps b m P" "\<And>v. P v \<Longrightarrow> keeps b (g v) Q"
  shows "keeps b (bindM m g) Q"
  unfolding keeps_def
proof (intro allI impI)
  fix f r f'
  assume f: "fresh_from b f" and run: "bindM m g f = (r, f')"
  obtain r1 f1 where m: "m f = (r1, f1)" by fastforce
  then have 1: "fresh_from b f1" "same_below b f f1" "\<And>v. r1 = Ok v \<Longrightarrow> P v"
    using assms(1) f unfolding keeps_def by blast+
  show "fresh_from b f' \<and> same_below b f f' \<and> (\<forall>v. r = Ok v \<longrightarrow> Q v)"
  proof (cases r1)
    case (Ok v)
    then have "g v f1 = (r, f')" using run m by simp
    then show ?thesis
      using assms(2) [OF 1(3) [OF Ok]] 1(1,2) same_below_trans unfolding keeps_def by blast
  qed (use run m 1 in \<open>auto simp: bindM_def\<close>)
qed

lemma keeps_map: "keeps_any b m \<Longrightarrow> keeps_any b (bindM m (\<lambda>v. retM (g v)))"
  by (erule keeps_bindM) (simp add: keeps_retM del: retM_apply)

lemma keeps_option: "(x = None \<Longrightarrow> keeps b m Q) \<Longrightarrow> (\<And>v. x = Some v \<Longrightarrow> keeps b (g v) Q) \<Longrightarrow>
    keeps b (case x of None \<Rightarrow> m | Some v \<Rightarrow> g v) Q"
  by (cases x) simp_all

lemma keeps_if: "(c \<Longrightarrow> keeps b m Q) \<Longrightarrow> (\<not> c \<Longrightarrow> keeps b n Q) \<Longrightarrow> keeps b (if c then m else n) Q"
  by simp

lemmas keeps_intros = keeps_retM keeps_failM keeps_wrapM keeps_bindM keeps_option keeps_if

section \<open>The factory\<close>

lemma keeps_getStored: "keeps_any b (getStoredFieldDecoder i)"
  unfolding keeps_def
proof (intro allI impI conjI TrueI)
  fix f r f'
  assume f: "fresh_from b f" and run: "getStoredFieldDecoder i f = (r, f')"
  have new: "c = nextAddr f \<or> owns f j c" if "owns (f\<lparr>fieldStorage := (fieldStorage f)(i \<mapsto> RecursiveDecoder (nextAddr f)),
      fheap := h, nextAddr := n\<rparr>) j c" for j c h n
    using that by (auto simp: owns_def split: if_splits)
  have reg: "owns f j c" if "owns (f\<lparr>recursiveFieldStorage := put i a (recursiveFieldStorage f)\<rparr>) j c"
    "fieldStorage f i = Some (RecursiveDecoder a)" for a j c
    using that by (auto simp: owns_def put_def)
  consider "fieldStorage f i = None" | a where "fieldStorage f i = Some (RecursiveDecoder a)"
    | d where "fieldStorage f i = Some d" "not_recursive d"
    by (cases "fieldStorage f i") (auto simp: not_recursive_def)
  then have "fresh_from b f' \<and> same_below b f f'"
  proof cases
    case 1
    then have "f' = f\<lparr>fieldStorage := (fieldStorage f)(i \<mapsto> RecursiveDecoder (nextAddr f)),
        fheap := (fheap f)(nextAddr f \<mapsto> NilDecoder), nextAddr := Suc (nextAddr f)\<rparr>"
      using run by (simp add: getStoredFieldDecoder_def)
    then show ?thesis using f new by (fastforce simp: fresh_from_def same_below_def)
  next
    case 2
    then have "f' = f\<lparr>recursiveFieldStorage := put i a (recursiveFieldStorage f)\<rparr>"
      using run by (simp add: getStoredFieldDecoder_def)
    then show ?thesis using f reg [OF _ 2] by (auto simp: fresh_from_def same_below_def)
  next
    case 3
    then have "f' = f" using run by (cases d) (auto simp: getStoredFieldDecoder_def not_recursive_def)
    then show ?thesis using f by simp
  qed
  then show "fresh_from b f'" "same_below b f f'" by simp_all
qed

lemma keeps_store: "not_recursive d \<Longrightarrow> keeps_any b (store i d)"
  by (auto simp: keeps_def store_def fresh_from_def same_below_def owns_def not_recursive_def split: if_splits)

lemma keeps_getTypeFields:
  assumes "\<And>nm d. keeps b (gfd nm d) not_recursive"
  shows "keeps_any b (getTypeFields gfd lk fs)"
proof (induction fs)
  case (Cons f fs)
  have "keeps_any b (case stored of Some d \<Rightarrow> retM d | None \<Rightarrow>
      bindM (wrapM w (gfd nm d)) (\<lambda>d. seqM (store i d) (retM d)))" for stored w nm d i
    by (auto simp del: retM_apply split: option.split
        intro!: keeps_retM keeps_bindM [OF keeps_wrapM [OF assms]] keeps_bindM [OF keeps_store])
  note step = this
  show ?case
    unfolding getTypeFields.simps Let_def
    by (intro keeps_option keeps_failM keeps_bindM [OF keeps_getStored] keeps_bindM [OF step] keeps_map Cons.IH)
qed (simp add: keeps_retM del: retM_apply)

lemma keeps_getVariant_loop:
  assumes "\<And>nm d. keeps b (gfd nm d) not_recursive"
  shows "keeps_any b (getVariant_loop gfd lk i vs m)"
  by (induction vs arbitrary: i m)
    (auto simp del: retM_apply intro!: keeps_retM keeps_bindM [OF keeps_wrapM [OF keeps_getTypeFields [OF assms]]])

lemma keeps_getTuple_loop:
  assumes "\<And>nm d. keeps b (gfd nm d) not_recursive"
  shows "keeps_any b (getTuple_loop gfd lk i items)"
  by (induction items arbitrary: i)
    (auto simp del: retM_apply failM_apply split: option.split intro!: keeps_retM keeps_failM keeps_bindM [OF keeps_wrapM [OF assms]] keeps_map)

lemma keeps_compact_loops:
  assumes "\<And>nm d. keeps b (gcfd nm d) not_recursive"
  shows "keeps_any b (getCompactTuple_loop gcfd lk i items)" "keeps_any b (getCompactComposite_loop gcfd lk sfs)"
proof -
  show "keeps_any b (getCompactTuple_loop gcfd lk i items)"
    by (induction items arbitrary: i)
      (auto simp del: retM_apply failM_apply simp: Let_def split: option.split intro!: keeps_retM keeps_failM keeps_bindM [OF keeps_wrapM [OF assms]] keeps_map)
  show "keeps_any b (getCompactComposite_loop gcfd lk sfs)"
    by (induction sfs)
      (auto simp del: retM_apply failM_apply split: option.split intro!: keeps_retM keeps_failM keeps_bindM [OF keeps_wrapM [OF assms]] keeps_map)
qed

lemma keeps_getCompactFieldDecoder: "keeps b (getCompactFieldDecoder n lk nm d) not_recursive"
proof (induction n arbitrary: nm d)
  case (Suc n)
  note loops = keeps_compact_loops [OF Suc.IH]
  show ?case
    unfolding getCompactFieldDecoder.simps
    by (intro keeps_if keeps_option keeps_retM keeps_failM keeps_bindM [OF loops(1)] keeps_bindM [OF loops(2)])
      (simp_all add: not_recursive_def)
qed (simp add: keeps_def)

lemma keeps_field_decoder_step:
  assumes "\<And>nm d. keeps b (gfd nm d) not_recursive" "\<And>nm d. keeps b (gcfd nm d) not_recursive"
  shows "keeps b (field_decoder_step gfd gcfd lk nm d) not_recursive"
proof -
  have prim: "keeps b (getPrimitiveDecoder p) not_recursive" for p
    unfolding getPrimitiveDecoder_def by (intro keeps_if keeps_retM keeps_failM) (simp_all add: not_recursive_def)
  have bits: "keeps b (getBitSequenceDecoder lk nm d) not_recursive"
    unfolding getBitSequenceDecoder_def
    by (intro keeps_if keeps_option keeps_failM keeps_bindM [OF keeps_wrapM [OF keeps_liftM, where Q = "\<lambda>_. True"]] keeps_retM)
      (simp_all add: not_recursive_def)
  show ?thesis
    unfolding field_decoder_step_def getVariantFieldDecoder_def getTupleFieldDecoder_def getArrayFieldDecoder_def getSliceFieldDecoder_def
    by (intro keeps_if keeps_option keeps_failM prim bits assms(2) keeps_retM
        keeps_bindM [OF keeps_getVariant_loop [OF assms(1)]] keeps_bindM [OF keeps_getTuple_loop [OF assms(1)]]
        keeps_bindM [OF keeps_wrapM [OF assms(1)]] keeps_bindM [OF keeps_wrapM [OF keeps_getTypeFields [OF assms(1)]]])
      (simp_all add: not_recursive_def)
qed

lemma keeps_getFieldDecoder: "keeps b (getFieldDecoder n lk nm d) not_recursive"
  by (induction n arbitrary: nm d)
    (simp_all add: keeps_def [of _ "liftM _"] keeps_field_decoder_step keeps_getCompactFieldDecoder)

lemma keeps_variants_loop:
  assumes "\<And>nm d. keeps b (gfd nm d) not_recursive"
  shows "keeps_any b (variants_loop gfd lk what key nm vs reg)"
  by (induction vs arbitrary: reg)
    (auto simp del: retM_apply simp: Let_def intro!: keeps_retM keeps_bindM [OF keeps_wrapM [OF keeps_getTypeFields [OF assms]]])

lemma keeps_pallets_loop:
  assumes "\<And>nm d. keeps b (gfd nm d) not_recursive"
  shows "keeps_any b (pallets_loop gfd lk what whats has tyof key ps reg)"
  by (induction ps arbitrary: reg)
    (auto simp del: retM_apply failM_apply simp: Let_def split: option.split
      intro!: keeps_retM keeps_failM keeps_bindM [OF keeps_variants_loop [OF assms]])

lemma keeps_resolve_loop:
  "fresh_from b f \<Longrightarrow> (\<forall>(i, a)\<in>set rs. b \<le> a) \<Longrightarrow> resolve_loop rs f = (r, f') \<Longrightarrow> fresh_from b f' \<and> same_below b f f'"
proof (induction rs arbitrary: f)
  case (Cons p rs)
  obtain i a where p: "p = (i, a)" by fastforce
  have set_heap: "fresh_from b (f\<lparr>fheap := (fheap f)(a \<mapsto> d)\<rparr>)" "same_below b f (f\<lparr>fheap := (fheap f)(a \<mapsto> d)\<rparr>)" for d
    using Cons.prems(1,2) p by (auto simp: fresh_from_def same_below_def owns_def)
  have "f' = f \<or> resolve_loop rs f = (r, f') \<or> (\<exists>d. resolve_loop rs (f\<lparr>fheap := (fheap f)(a \<mapsto> d)\<rparr>) = (r, f'))"
    using Cons.prems(3) by (auto simp: p split: if_splits option.splits field_decoder.splits)
  with Cons.prems(1,2) Cons.IH set_heap show ?case
    by (auto intro: same_below_trans)
qed simp

lemma keeps_resolve: "keeps_any b resolveRecursiveDecoders"
  unfolding keeps_def resolveRecursiveDecoders_def
proof (intro allI impI)
  fix f r f'
  assume f: "fresh_from b f" and run: "resolve_loop (recursiveFieldStorage f) f = (r, f')"
  then have "\<forall>(i, a)\<in>recs f. b \<le> a" unfolding fresh_from_def owns_def by blast
  from keeps_resolve_loop [OF f this run] show "fresh_from b f' \<and> same_below b f f' \<and> (\<forall>v. r = Ok v \<longrightarrow> True)" by simp
qed

text \<open>A factory with no overrides: everything below its next address stays as it is.\<close>

lemma create_registry_fresh:
  assumes "fieldOverrides f = []" "create_registry n m what whats has tyof key f = (r, f')"
  shows "fresh_from (nextAddr f) f' \<and> same_below (nextAddr f) f f'"
proof -
  let ?b = "nextAddr f"
  have "keeps_any ?b (bindM (pallets_loop (getFieldDecoder n (EfficientLookup m)) (EfficientLookup m) what whats has tyof key (Pallets m) Map.empty)
      (\<lambda>reg. seqM (wrapM (libWrap ''recursive decoders resolving'') resolveRecursiveDecoders) (retM reg)))"
    by (intro keeps_bindM [OF keeps_pallets_loop [OF keeps_getFieldDecoder]] keeps_bindM [OF keeps_wrapM [OF keeps_resolve]] keeps_retM) simp_all
  note build = this
  obtain f0 where f0: "resetStorages f = (Ok (), f0)" "fresh_from ?b f0" "same_below ?b f f0"
    using assms(1) by (simp add: resetStorages_def fresh_from_def same_below_def owns_def)
  have "fresh_from ?b f' \<and> same_below ?b f0 f'"
    using build assms(2) f0(1,2) by (simp add: keeps_def create_registry_def)
  then show ?thesis using f0(3) same_below_trans by blast
qed

section \<open>Registries stay valid\<close>

text \<open>
  \<open>registry_for m has tyof key reg f\<close>: \<open>reg\<close> is a registry of the metadata \<open>m\<close> whose decoders
  live in the heap of \<open>f\<close>.
\<close>

definition registry_for ::
    "MetadataV14 \<Rightarrow> (PalletMetadataV14 \<Rightarrow> bool) \<Rightarrow> (PalletMetadataV14 \<Rightarrow> int) \<Rightarrow> (uint8 \<Rightarrow> uint8 \<Rightarrow> 'k) \<Rightarrow>
     ('k \<rightharpoonup> TypeDecoder) \<Rightarrow> factory \<Rightarrow> bool" where
  "registry_for m has tyof key reg f \<longleftrightarrow>
     (\<exists>R. dom reg = keys_of (EfficientLookup m) has tyof key (Pallets m) \<and>
        closed_heap (EfficientLookup m) R Map.empty (fheap f) \<and> (\<forall>(i, a)\<in>R. a < nextAddr f) \<and>
        (\<forall>k td. reg k = Some td \<longrightarrow> entry_of (EfficientLookup m) R Map.empty has tyof key (Pallets m) k td))"

lemma registry_for_created:
  assumes "fieldOverrides f = []" "create_registry n m what whats has tyof key f = (Ok reg, f')"
  shows "registry_for m has tyof key reg f'"
proof -
  have "plain_overrides f" "overrides_of f = Map.empty"
    using assms(1) by (simp_all add: plain_overrides_def)
  moreover have "\<forall>(i, a)\<in>recs f'. a < nextAddr f'"
    using create_registry_fresh [OF assms] by (auto simp: fresh_from_def owns_def)
  ultimately show ?thesis
    unfolding registry_for_def
    by (intro exI [of _ "recs f'"]) (use create_registry_correct [OF \<open>plain_overrides f\<close> assms(2)] in simp)
qed

lemma registry_for_kept:
  assumes "registry_for m has tyof key reg f" "same_below (nextAddr f) f f'"
  shows "registry_for m has tyof key reg f'"
proof -
  obtain R where R: "dom reg = keys_of (EfficientLookup m) has tyof key (Pallets m)"
    "closed_heap (EfficientLookup m) R Map.empty (fheap f)" "\<forall>(i, a)\<in>R. a < nextAddr f"
    "\<forall>k td. reg k = Some td \<longrightarrow> entry_of (EfficientLookup m) R Map.empty has tyof key (Pallets m) k td"
    using assms(1) unfolding registry_for_def by blast
  have "inner (fheap f') a = inner (fheap f) a" "a < nextAddr f'" if "(i, a) \<in> R" for i a
    using R(3) that assms(2) by (auto simp: inner_def same_below_def)
  then have "closed_heap (EfficientLookup m) R Map.empty (fheap f')" "\<forall>(i, a)\<in>R. a < nextAddr f'"
    using R(2) unfolding closed_heap_def by auto
  with R(1,4) show ?thesis unfolding registry_for_def by blast
qed

lemma registry_for_implements:
  assumes "registry_for m has tyof key reg f" "reg k = Some td"
  shows "\<exists>p\<in>set (Pallets m). \<exists>t v. has p \<and> EfficientLookup m (UCompact_Int64 (tyof p)) = Some t \<and>
    v \<in> set (Variants (tDef t)) \<and> k = key (pIndex p) (vIndex v) \<and> tdName td = pName p @ ''.'' @ vName v \<and>
    implements (EfficientLookup m) cust (fheap f) td (vFields v)"
proof -
  obtain R where "closed_heap (EfficientLookup m) R Map.empty (fheap f)"
    "entry_of (EfficientLookup m) R Map.empty has tyof key (Pallets m) k td"
    using assms unfolding registry_for_def by blast
  then show ?thesis
    unfolding entry_of_def using implements_fields by blast
qed

end
