(* ===== verification/Parser.thy ===== *)
theory Parser
  imports RegistryHeap
begin

text \<open>
  \<open>src/registry/parser\<close>: the parsers that turn the raw bytes of the event storage and the
  extrinsics of a block into named fields, with a registry of type decoders. The phase of an
  event is \<open>Phase\<close> of \<open>src/types/event_record.go\<close>; an \<open>EventID\<close> is the pair of its bytes.
\<close>

section \<open>Phase, event identifier and topics\<close>

record Phase =
  IsApplyExtrinsic :: bool
  AsApplyExtrinsic :: uint32
  IsFinalization :: bool
  IsInitialization :: bool

definition zero_phase :: Phase where
  "zero_phase = \<lparr>IsApplyExtrinsic = False, AsApplyExtrinsic = 0, IsFinalization = False, IsInitialization = False\<rparr>"

text \<open>A tag above 2 matches no case of the switch: the phase keeps its zero value.\<close>

definition Phase_Decode :: "(bytes, Phase) goM" where
  "Phase_Decode =
     bindM ReadOneByte (\<lambda>b.
       if b = 0 then
         bindM (Decode_word Uint32) (\<lambda>n. retM (zero_phase\<lparr>IsApplyExtrinsic := True, AsApplyExtrinsic := n\<rparr>))
       else if b = 1 then retM (zero_phase\<lparr>IsFinalization := True\<rparr>)
       else if b = 2 then retM (zero_phase\<lparr>IsInitialization := True\<rparr>)
       else retM zero_phase)"

definition Phase_Encode :: "Phase \<Rightarrow> (bytes, unit) goM" where
  "Phase_Encode p =
     (if IsApplyExtrinsic p then seqM (PushByte 0) (Encode_word Uint32 (AsApplyExtrinsic p))
      else if IsFinalization p then PushByte 1
      else if IsInitialization p then PushByte 2
      else retM ())"

type_synonym EventID = "byte \<times> byte"

text \<open>\<open>EventID\<close> is \<open>[2]byte\<close>: the reflective decoder fills the array element by element.\<close>

definition EventID_Decode :: "(bytes, EventID) goM" where
  "EventID_Decode = bindM Decode_byte (\<lambda>a. bindM Decode_byte (\<lambda>b. retM (a, b)))"

type_synonym H256 = bytes

definition Hash_Decode :: "(bytes, H256) goM" where
  "Hash_Decode = decode_each 32 Decode_byte"

section \<open>The event parser\<close>

record Event =
  Event_Name :: string
  Event_Fields :: "decoded_field list"
  Event_EventID :: EventID
  Event_Phase :: Phase
  Event_Topics :: "H256 list"

type_synonym value_decoder = "field_decoder \<Rightarrow> (bytes, dvalue) goM"

definition event_at :: "uint64 \<Rightarrow> goerror \<Rightarrow> goerror" where
  "event_at i err = ErrorString (''event #'' @ string_of_nat (unat i) @ '': '' @ error_text err)"

text \<open>One round of the loop of \<open>ParseEvents\<close>.\<close>

definition ParseEvent :: "value_decoder \<Rightarrow> (EventID \<rightharpoonup> TypeDecoder) \<Rightarrow> uint64 \<Rightarrow> (bytes, Event) goM" where
  "ParseEvent dec eventRegistry i =
     bindM (wrapM (\<lambda>e. libWrap ''event phase decoding'' (event_at i e)) Phase_Decode) (\<lambda>phase.
     bindM (wrapM (\<lambda>e. libWrap ''event ID decoding'' (event_at i e)) EventID_Decode) (\<lambda>eventID.
     (case eventRegistry eventID of
        None \<Rightarrow> failM (libMsg ''event decoder not found''
          (''event #'' @ string_of_nat (unat i) @ '' with ID: ['' @ string_of_nat (unat (fst eventID)) @ '' '' @
           string_of_nat (unat (snd eventID)) @ '']''))
      | Some eventDecoder \<Rightarrow>
          bindM (wrapM (\<lambda>e. libWrap ''event fields decoding'' (event_at i e))
            (TypeDecoder_Decode dec (Some eventDecoder))) (\<lambda>eventFields.
          bindM (wrapM (\<lambda>e. libWrap ''event topics decoding'' (event_at i e)) (Decode_slice Hash_Decode)) (\<lambda>topics.
          retM \<lparr>Event_Name = tdName eventDecoder, Event_Fields = eventFields, Event_EventID = eventID, Event_Phase = phase,
            Event_Topics = topics\<rparr>)))))"

lemma word_count_up: "(i :: uint64) < n \<Longrightarrow> unat (i + 1) = unat i + 1 \<and> unat i < unat n"
proof -
  assume lt: "i < n"
  then have "i + 1 \<noteq> 0" by (metis add.commute add_diff_cancel_left' diff_0 not_less word_n1_ge)
  then have "unat (i + 1) = Suc (unat i)" by (metis add.commute unatSuc)
  then show ?thesis using lt by (simp add: word_less_nat_alt)
qed

function ParseEvents_loop ::
    "value_decoder \<Rightarrow> (EventID \<rightharpoonup> TypeDecoder) \<Rightarrow> uint64 \<Rightarrow> uint64 \<Rightarrow> Event list \<Rightarrow> (bytes, Event list) goM" where
  "ParseEvents_loop dec reg eventsCount i events =
     (if i < eventsCount then
        bindM (ParseEvent dec reg i) (\<lambda>event. ParseEvents_loop dec reg eventsCount (i + 1) (events @ [event]))
      else retM events)"
  by pat_completeness auto
termination
  by (relation "measure (\<lambda>(_, _, n, i, _). unat n - unat i)") (auto dest!: word_count_up)

declare ParseEvents_loop.simps [simp del]

definition ParseEvents :: "value_decoder \<Rightarrow> (EventID \<rightharpoonup> TypeDecoder) \<Rightarrow> bytes \<Rightarrow> Event list res" where
  "ParseEvents dec eventRegistry sd =
     fst (bindM (wrapM (libWrap ''events count decoding'') DecodeUintCompact)
       (\<lambda>eventsCount. ParseEvents_loop dec eventRegistry (BigInt_Uint64 eventsCount) 0 []) sd)"

section \<open>The extrinsic parser\<close>

text \<open>
  The parser is generic in the block: all it asks of an extrinsic is its version, its signature
  and its call. The signature stays abstract.
\<close>

record call =
  clCallIndex :: CallIndex
  clArgs :: bytes

record 'sig generic_extrinsic =
  gxVersion :: byte
  gxSignature :: 'sig
  gxMethod :: call

record 'sig parsed_extrinsic =
  pxName :: string
  pxCallFields :: "decoded_field list"
  pxCallIndex :: CallIndex
  pxVersion :: byte
  pxSignature :: 'sig

definition ParseExtrinsic ::
    "value_decoder \<Rightarrow> (CallIndex \<rightharpoonup> TypeDecoder) \<Rightarrow> nat \<Rightarrow> 'sig generic_extrinsic \<Rightarrow> 'sig parsed_extrinsic res" where
  "ParseExtrinsic dec callRegistry i x =
     (let callIndex = clCallIndex (gxMethod x) in
      case callRegistry callIndex of
        None \<Rightarrow> Err (libWrap ''call decoder not found'' (ErrorString (''extrinsic #'' @ string_of_nat i)))
      | Some callDecoder \<Rightarrow>
          bindR (wrapR (\<lambda>e. libWrap ''call fields decoding''
              (ErrorString (''extrinsic #'' @ string_of_nat i @ '': '' @ error_text e)))
            (fst (TypeDecoder_Decode dec (Some callDecoder) (clArgs (gxMethod x))))) (\<lambda>callFields.
          Ok \<lparr>pxName = tdName callDecoder, pxCallFields = callFields, pxCallIndex = callIndex,
            pxVersion = gxVersion x, pxSignature = gxSignature x\<rparr>))"

fun ParseExtrinsics_loop ::
    "value_decoder \<Rightarrow> (CallIndex \<rightharpoonup> TypeDecoder) \<Rightarrow> nat \<Rightarrow> 'sig generic_extrinsic list \<Rightarrow>
     'sig parsed_extrinsic list \<Rightarrow> 'sig parsed_extrinsic list res" where
  "ParseExtrinsics_loop dec reg i [] extrinsics = Ok extrinsics"
| "ParseExtrinsics_loop dec reg i (x # xs) extrinsics =
     bindR (ParseExtrinsic dec reg i x) (\<lambda>call. ParseExtrinsics_loop dec reg (Suc i) xs (extrinsics @ [call]))"

definition ParseExtrinsics ::
    "value_decoder \<Rightarrow> (CallIndex \<rightharpoonup> TypeDecoder) \<Rightarrow> 'sig generic_extrinsic list \<Rightarrow> 'sig parsed_extrinsic list res" where
  "ParseExtrinsics dec callRegistry extrinsics = ParseExtrinsics_loop dec callRegistry 0 extrinsics []"

section \<open>What the bytes of the event storage mean\<close>

definition phase_denotes :: "bytes \<Rightarrow> Phase \<Rightarrow> bool" where
  "phase_denotes bs p \<longleftrightarrow>
     (\<exists>n :: uint32. bs = 0 # le_fixed 4 (unat n) \<and> p = zero_phase\<lparr>IsApplyExtrinsic := True, AsApplyExtrinsic := n\<rparr>) \<or>
     bs = [1] \<and> p = zero_phase\<lparr>IsFinalization := True\<rparr> \<or> bs = [2] \<and> p = zero_phase\<lparr>IsInitialization := True\<rparr> \<or>
     (\<exists>b. b \<notin> {0, 1, 2} \<and> bs = [b] \<and> p = zero_phase)"

definition topics_denote :: "bytes \<Rightarrow> H256 list \<Rightarrow> bool" where
  "topics_denote bs ts \<longleftrightarrow>
     (\<exists>cs c. bs = cs @ concat ts \<and> reads DecodeUintCompact cs c \<and> unat (BigInt_Uint64 c) = length ts \<and>
        length ts < 2 ^ 32 \<and> (\<forall>t\<in>set ts. length t = 32))"

text \<open>The name and the field types the metadata gives an event identifier.\<close>

definition event_shapes :: "MetadataV14 \<Rightarrow> EventID \<Rightarrow> (string \<times> Si1Field list) set" where
  "event_shapes m k =
     {(pName p @ ''.'' @ vName v, vFields v) | p v t. p \<in> set (Pallets m) \<and> HasEvents p \<and>
        EfficientLookup m (UCompact_Int64 (pEvents p)) = Some t \<and> v \<in> set (Variants (tDef t)) \<and> k = (pIndex p, vIndex v)}"

definition unambiguous_events :: "MetadataV14 \<Rightarrow> bool" where
  "unambiguous_events m \<longleftrightarrow> (\<forall>k. \<forall>x\<in>event_shapes m k. \<forall>y\<in>event_shapes m k. x = y)"

definition event_denotes :: "MetadataV14 \<Rightarrow> bytes \<Rightarrow> Event \<Rightarrow> bool" where
  "event_denotes m bs e \<longleftrightarrow>
     (\<exists>b1 b2 b3 sfs. bs = b1 @ [fst (Event_EventID e), snd (Event_EventID e)] @ b2 @ b3 \<and> phase_denotes b1 (Event_Phase e) \<and>
        (Event_Name e, sfs) \<in> event_shapes m (Event_EventID e) \<and> fdenotes (EfficientLookup m) sfs b2 (Event_Fields e) \<and>
        topics_denote b3 (Event_Topics e))"

definition events_denote :: "MetadataV14 \<Rightarrow> bytes \<Rightarrow> Event list \<Rightarrow> bool" where
  "events_denote m bs es \<longleftrightarrow>
     (\<exists>cs c parts. bs = cs @ concat parts \<and> reads DecodeUintCompact cs c \<and>
        length parts = unat (BigInt_Uint64 c) \<and> list_all2 (event_denotes m) parts es)"

definition erase_event :: "Event \<Rightarrow> Event" where
  "erase_event e = e\<lparr>Event_Fields := map erase_field (Event_Fields e)\<rparr>"

section \<open>The parts of an event\<close>

lemma accepts_binary_Read: "accepts (binary_Read k) (\<lambda>bs n. bs = le_fixed k n \<and> n < 256 ^ k)"
proof (rule acceptsI)
  fix s n s'
  assume "binary_Read k s = (Ok n, s')"
  then have "n = le_nat (take k s)" "s' = drop k s" "k \<le> length s"
    by (auto simp: binary_Read_def split: if_splits)
  then show "\<exists>bs. s = bs @ s' \<and> bs = le_fixed k n \<and> n < 256 ^ k"
    using le_nat_bound [of "take k s"] by (intro exI [of _ "take k s"]) simp
qed

lemma accepts_Decode_byte: "accepts Decode_byte (\<lambda>bs b. bs = [b])"
  unfolding Decode_byte_def Decode_num_def
  by (intro accepts_map accepts_wrapM accepts_weaken [OF accepts_binary_Read]) simp

lemma accepts_Decode_uint32: "accepts (Decode_word Uint32) (\<lambda>bs n. bs = le_fixed 4 (unat (n :: uint32)))"
  unfolding Decode_word_def Decode_num_def
proof (intro accepts_map accepts_wrapM accepts_weaken [OF accepts_binary_Read])
  fix bs n
  assume "bs = le_fixed (num_size Uint32) n \<and> n < 256 ^ num_size Uint32"
  then show "bs = le_fixed 4 (unat (word_of_nat (if Uint32 = Bool \<and> n \<noteq> 0 then 1 else n) :: uint32))"
    by (simp add: unat_word_of_nat_small)
qed

lemma reads_Decode_byte: "reads Decode_byte [b] b"
  by (rule byte.reads_written) (simp_all add: Encode_byte_def writes_def binary_Write_def)

lemma reads_Decode_uint32: "reads (Decode_word Uint32) (le_fixed 4 (unat (n :: uint32))) n"
  by (rule u32.reads_written) (simp_all add: Encode_word_def writes_def binary_Write_def)

lemma accepts_EventID: "accepts EventID_Decode (\<lambda>bs k. bs = [fst k, snd k])"
  unfolding EventID_Decode_def
  by (rule accepts_bindM [OF accepts_Decode_byte accepts_map [OF accepts_weaken [OF accepts_Decode_byte]]]) simp

lemma reads_EventID: "reads EventID_Decode [fst k, snd k] k"
proof -
  have "reads EventID_Decode ([fst k] @ [snd k]) k"
    unfolding EventID_Decode_def
    by (rule reads_bindM [OF reads_Decode_byte reads_bindM_last [OF reads_Decode_byte]]) (simp del: retM_apply)
  then show ?thesis by simp
qed

lemma accepts_Phase: "accepts Phase_Decode phase_denotes"
proof -
  have "accepts ReadOneByte (\<lambda>bs b. bs = [b])"
    by (rule acceptsI) (auto simp: dest!: ReadOneByte_cases)
  then show ?thesis
    unfolding Phase_Decode_def
    by (rule accepts_bindM)
      (auto simp: phase_denotes_def simp del: retM_apply
        intro!: accepts_retM accepts_map accepts_weaken [OF accepts_Decode_uint32])
qed

lemma reads_Phase: "phase_denotes bs p \<Longrightarrow> reads Phase_Decode bs p"
  unfolding phase_denotes_def reads_def Phase_Decode_def
  by (elim disjE exE conjE) (simp_all add: readsD [OF reads_Decode_uint32])

definition phase_ok :: "Phase \<Rightarrow> bool" where
  "phase_ok p \<longleftrightarrow>
     (\<exists>n. p = zero_phase\<lparr>IsApplyExtrinsic := True, AsApplyExtrinsic := n\<rparr>) \<or>
     p = zero_phase\<lparr>IsFinalization := True\<rparr> \<or> p = zero_phase\<lparr>IsInitialization := True\<rparr>"

interpretation phase: scale_codec Phase_Encode Phase_Decode phase_ok
proof
  fix p
  assume "phase_ok p"
  then consider n where "p = zero_phase\<lparr>IsApplyExtrinsic := True, AsApplyExtrinsic := n\<rparr>"
    | "p = zero_phase\<lparr>IsFinalization := True\<rparr>" | "p = zero_phase\<lparr>IsInitialization := True\<rparr>"
    unfolding phase_ok_def by blast
  then show "rt (Phase_Encode p) Phase_Decode p"
  proof cases
    case 1
    then have "phase_denotes (0 # le_fixed 4 (unat n)) p" unfolding phase_denotes_def by blast
    moreover have "writes (Phase_Encode p) (0 # le_fixed 4 (unat n))"
      using writes_seqM [OF writes_PushByte [of 0] writes_binary_Write [of 4 "unat n"]] 1 by (simp add: Phase_Encode_def Encode_word_def)
    ultimately show ?thesis by (rule rtI [OF _ reads_Phase, rotated])
  next
    case 2
    then have "phase_denotes [1] p" "writes (Phase_Encode p) [1]"
      by (simp_all add: phase_denotes_def Phase_Encode_def zero_phase_def writes_PushByte)
    then show ?thesis by (rule rtI [OF _ reads_Phase, rotated])
  next
    case 3
    then have "phase_denotes [2] p" "writes (Phase_Encode p) [2]"
      by (simp_all add: phase_denotes_def Phase_Encode_def zero_phase_def writes_PushByte)
    then show ?thesis by (rule rtI [OF _ reads_Phase, rotated])
  qed
qed

lemma accepts_hash: "accepts (decode_each n Decode_byte) (\<lambda>bs t. t = bs \<and> length bs = n)"
proof (induction n)
  case 0
  show ?case by (simp add: accepts_retM del: retM_apply)
next
  case (Suc n)
  show ?case
    unfolding decode_each.simps
    by (rule accepts_bindM [OF accepts_Decode_byte accepts_map [OF accepts_weaken [OF Suc.IH]]]) simp
qed

lemma reads_hash: "reads (decode_each (length t) Decode_byte) t t"
proof (induction t)
  case Nil
  show ?case by (simp add: reads_retM del: retM_apply)
next
  case (Cons b t)
  have "reads (decode_each (Suc (length t)) Decode_byte) ([b] @ t) (b # t)"
    unfolding decode_each.simps
    by (rule reads_bindM [OF reads_Decode_byte reads_bindM_last [OF Cons.IH]]) (simp del: retM_apply)
  then show ?case by simp
qed

lemma accepts_each: "accepts d P \<Longrightarrow> accepts (decode_each n d) (\<lambda>bs vs. \<exists>parts. bs = concat parts \<and> length vs = n \<and> list_all2 P parts vs)"
proof (induction n)
  case 0
  show ?case by (auto intro!: accepts_retM simp del: retM_apply)
next
  case (Suc n)
  have "accepts (decode_each n d) (\<lambda>cs vs. \<exists>parts. bs @ cs = concat parts \<and> length (v # vs) = Suc n \<and> list_all2 P parts (v # vs))"
    if "P bs v" for bs v
  proof (rule accepts_weaken [OF Suc.IH [OF Suc.prems]], elim exE conjE)
    fix cs vs parts
    assume "cs = concat parts" "length vs = n" "list_all2 P parts vs"
    then show "\<exists>parts. bs @ cs = concat parts \<and> length (v # vs) = Suc n \<and> list_all2 P parts (v # vs)"
      using that by (intro exI [of _ "bs # parts"]) simp
  qed
  then show ?case
    unfolding decode_each.simps by (intro accepts_bindM [OF Suc.prems] accepts_map)
qed

lemma slice_length_fits: "4294967295 < (w :: uint64) \<longleftrightarrow> \<not> unat w < 4294967296"
  by (simp add: word_less_nat_alt not_less) linarith

lemma accepts_Decode_slice:
  assumes "\<And>n. accepts (decode_each n d) (P n)"
  shows "accepts (Decode_slice d) (\<lambda>bs vs. \<exists>cs ds c. bs = cs @ ds \<and> reads DecodeUintCompact cs c \<and>
    unat (BigInt_Uint64 c) < 2 ^ 32 \<and> P (unat (BigInt_Uint64 c)) ds vs)"
proof (rule acceptsI)
  fix s vs s'
  assume "Decode_slice d s = (Ok vs, s')"
  then obtain c s1 where c: "DecodeUintCompact s = (Ok c, s1)" "unat (BigInt_Uint64 c) < 2 ^ 32"
    "decode_each (unat (BigInt_Uint64 c)) d s1 = (Ok vs, s')"
    by (auto simp: Decode_slice_eq slice_length_fits split: prod.splits res.splits if_splits)
  obtain cs where "s = cs @ s1" "reads DecodeUintCompact cs c"
    using local_decD [OF local_DecodeUintCompact c(1)] by blast
  moreover obtain ds where "s1 = ds @ s'" "P (unat (BigInt_Uint64 c)) ds vs"
    using acceptsD [OF assms c(3)] by blast
  ultimately show "\<exists>bs. s = bs @ s' \<and> (\<exists>cs ds c. bs = cs @ ds \<and> reads DecodeUintCompact cs c \<and>
      unat (BigInt_Uint64 c) < 2 ^ 32 \<and> P (unat (BigInt_Uint64 c)) ds vs)"
    using c(2) by (intro exI [of _ "cs @ ds"]) auto
qed

lemma reads_Decode_slice:
  assumes "reads DecodeUintCompact cs c" "unat (BigInt_Uint64 c) < 2 ^ 32" "reads (decode_each (unat (BigInt_Uint64 c)) d) ds vs"
  shows "reads (Decode_slice d) (cs @ ds) vs"
proof (rule readsI)
  fix rest
  have "\<not> 2 ^ 63 - 1 < BigInt_Uint64 c" using assms(2) by (simp add: word_less_nat_alt)
  then show "Decode_slice d ((cs @ ds) @ rest) = (Ok vs, rest)"
    using readsD [OF assms(1), of "ds @ rest"] readsD [OF assms(3), of rest] assms(2)
    by (simp add: Decode_slice_eq slice_length_fits)
qed

lemma reads_each: "\<forall>v\<in>set vs. reads d (e v) v \<Longrightarrow> reads (decode_each (length vs) d) (concat (map e vs)) vs"
proof (induction vs)
  case Nil
  show ?case by (simp add: reads_retM del: retM_apply)
next
  case (Cons v vs)
  then have "reads d (e v) v" "reads (decode_each (length vs) d) (concat (map e vs)) vs" by simp_all
  then have "reads (decode_each (Suc (length vs)) d) (e v @ concat (map e vs)) (v # vs)"
    unfolding decode_each.simps
    by (rule reads_bindM [OF _ reads_bindM_last]) (simp del: retM_apply)
  then show ?case by simp
qed

lemma accepts_topics: "accepts (Decode_slice Hash_Decode) topics_denote"
proof (rule accepts_weaken [OF accepts_Decode_slice [OF accepts_each]])
  show "accepts Hash_Decode (\<lambda>bs t. t = bs \<and> length bs = 32)"
    unfolding Hash_Decode_def by (rule accepts_hash)
  fix bs ts
  assume "\<exists>cs ds c. bs = cs @ ds \<and> reads DecodeUintCompact cs c \<and> unat (BigInt_Uint64 c) < 2 ^ 32 \<and>
    (\<exists>parts. ds = concat parts \<and> length ts = unat (BigInt_Uint64 c) \<and> list_all2 (\<lambda>bs t. t = bs \<and> length bs = 32) parts ts)"
  then obtain cs c parts where h: "bs = cs @ concat parts" "reads DecodeUintCompact cs c" "unat (BigInt_Uint64 c) < 2 ^ 32"
    "length ts = unat (BigInt_Uint64 c)" "list_all2 (\<lambda>bs t. t = bs \<and> length bs = 32) parts ts" by blast
  have "parts = ts" "\<forall>t\<in>set ts. length t = 32"
    using h(5) by (induction rule: list_all2_induct) auto
  with h show "topics_denote bs ts" unfolding topics_denote_def by auto
qed

lemma reads_topics:
  assumes "topics_denote bs ts"
  shows "reads (Decode_slice Hash_Decode) bs ts"
proof -
  obtain cs c where c: "bs = cs @ concat ts" "reads DecodeUintCompact cs c" "unat (BigInt_Uint64 c) = length ts"
    "length ts < 2 ^ 32" "\<forall>t\<in>set ts. length t = 32"
    using assms by (auto simp: topics_denote_def)
  have "\<forall>t\<in>set ts. reads Hash_Decode t t"
    using c(5) reads_hash unfolding Hash_Decode_def by metis
  from reads_each [of ts Hash_Decode "\<lambda>t. t", OF this] show ?thesis
    unfolding c(1) using c(3,4) by (intro reads_Decode_slice [OF c(2)]) simp_all
qed

section \<open>The loop\<close>

lemma ParseEvents_loop_accepts:
  assumes "\<And>i. accepts (ParseEvent dec reg i) P"
  shows "accepts (ParseEvents_loop dec reg n i acc)
    (\<lambda>bs es. \<exists>parts new. es = acc @ new \<and> bs = concat parts \<and> length parts = unat n - unat i \<and> list_all2 P parts new)"
proof (induction "unat n - unat i" arbitrary: i acc)
  case 0
  then show ?case
    by (subst ParseEvents_loop.simps) (auto simp: word_less_nat_alt simp del: retM_apply intro!: accepts_retM)
next
  case (Suc k)
  then have lt: "i < n" by (simp add: word_less_nat_alt)
  have k: "k = unat n - unat (i + 1)" using Suc.hyps(2) word_count_up [OF lt] by simp
  have "accepts (ParseEvents_loop dec reg n (i + 1) (acc @ [e]))
    (\<lambda>cs es. \<exists>parts new. es = acc @ new \<and> bs @ cs = concat parts \<and> length parts = unat n - unat i \<and> list_all2 P parts new)"
    if "P bs e" for bs e
  proof (rule accepts_weaken [OF Suc.hyps(1) [OF k]], elim exE conjE)
    fix cs es parts new
    assume "es = (acc @ [e]) @ new" "cs = concat parts" "length parts = unat n - unat (i + 1)" "list_all2 P parts new"
    then show "\<exists>parts new. es = acc @ new \<and> bs @ cs = concat parts \<and> length parts = unat n - unat i \<and> list_all2 P parts new"
      using that k Suc.hyps(2) by (intro exI [of _ "bs # parts"] exI [of _ "e # new"]) simp
  qed
  then show ?case
    using lt by (subst ParseEvents_loop.simps) (simp add: accepts_bindM [OF assms])
qed

lemma ParseEvents_loop_delivers:
  assumes "\<And>i bs w. Q bs w \<Longrightarrow> delivers (\<lambda>l. ParseEvent (D l) reg i) g bs w"
  shows "list_all2 Q parts ws \<Longrightarrow> length parts = unat n - unat i \<Longrightarrow>
    delivers (\<lambda>l. ParseEvents_loop (D l) reg n i acc) (map g) (concat parts) (map g acc @ ws)"
proof (induction parts ws arbitrary: i acc rule: list_all2_induct)
  case Nil
  then show ?case
    by (subst ParseEvents_loop.simps) (auto simp: word_less_nat_alt simp del: retM_apply intro!: delivers_retM)
next
  case (Cons b parts w ws)
  then have lt: "i < n" by (simp add: word_less_nat_alt)
  have k: "length parts = unat n - unat (i + 1)" using Cons.prems word_count_up [OF lt] by simp
  have "delivers (\<lambda>l. bindM (ParseEvent (D l) reg i) (\<lambda>e. ParseEvents_loop (D l) reg n (i + 1) (acc @ [e])))
      (map g) (b @ concat parts) (map g acc @ w # ws)"
  proof (rule delivers_bindM [OF assms [OF Cons.hyps(1)]])
    show "delivers (\<lambda>l. ParseEvents_loop (D l) reg n (i + 1) (acc @ [e])) (map g) (concat parts) (map g acc @ w # ws)"
      if "g e = w" for e
      using Cons.IH [OF k, of "acc @ [e]"] that by simp
  qed
  then show ?case
    using lt by (subst ParseEvents_loop.simps) simp
qed


section \<open>One event\<close>

lemma delivers_reads:
  "reads d bs v \<Longrightarrow> delivers (\<lambda>n. G n v) g cs y \<Longrightarrow> delivers (\<lambda>n. bindM (wrapM w d) (G n)) g (bs @ cs) y"
  by (rule delivers_bindM [OF delivers_wrapM [OF delivers_const [where g = "\<lambda>x. x"]]]) auto

lemma ParseEvent_accepts:
  assumes sound: "\<And>k td. reg k = Some td \<Longrightarrow>
    \<exists>sfs. (tdName td, sfs) \<in> event_shapes m k \<and> implements (EfficientLookup m) cust h td sfs"
  shows "accepts (ParseEvent (Decode_fuel l cust h) reg i) (\<lambda>bs e. event_denotes m bs (erase_event e))"
proof -
  let ?P = "\<lambda>bs e. event_denotes m bs (erase_event e)"
  have fields: "accepts (TypeDecoder_Decode (Decode_fuel l cust h) (Some td))
      (\<lambda>bs vs. \<exists>sfs. (tdName td, sfs) \<in> event_shapes m k \<and> fdenotes (EfficientLookup m) sfs bs (map erase_field vs))"
    if "reg k = Some td" for k td
    using sound [OF that] unfolding implements_def by (intro acceptsI) blast
  have "accepts (bindM (wrapM w1 (TypeDecoder_Decode (Decode_fuel l cust h) (Some td))) (\<lambda>fs.
      bindM (wrapM w2 (Decode_slice Hash_Decode)) (\<lambda>ts. retM \<lparr>Event_Name = tdName td, Event_Fields = fs, Event_EventID = k, Event_Phase = p, Event_Topics = ts\<rparr>)))
      (\<lambda>cs. ?P (bs @ [fst k, snd k] @ cs))"
    if "reg k = Some td" "phase_denotes bs p" for k td bs p w1 w2
    by (rule accepts_bindM [OF accepts_wrapM [OF fields [OF that(1)]] accepts_map [OF accepts_wrapM [OF accepts_weaken [OF accepts_topics]]]])
      (use that(2) in \<open>auto simp: event_denotes_def erase_event_def\<close>)
  note tail = this
  show ?thesis
    unfolding ParseEvent_def
    by (rule accepts_bindM [OF accepts_wrapM [OF accepts_Phase]], rule accepts_bindM [OF accepts_wrapM [OF accepts_EventID]])
      (use tail in \<open>auto split: option.split simp del: failM_apply\<close>)
qed

lemma ParseEvent_delivers:
  assumes complete: "\<And>sfs. (Event_Name w, sfs) \<in> event_shapes m (Event_EventID w) \<Longrightarrow>
    \<exists>td. reg (Event_EventID w) = Some td \<and> tdName td = Event_Name w \<and> implements (EfficientLookup m) cust h td sfs"
    and w: "event_denotes m bs w"
  shows "delivers (\<lambda>l. ParseEvent (Decode_fuel l cust h) reg i) erase_event bs w"
proof -
  obtain b1 b2 b3 sfs where b: "bs = b1 @ [fst (Event_EventID w), snd (Event_EventID w)] @ b2 @ b3" "phase_denotes b1 (Event_Phase w)"
    "(Event_Name w, sfs) \<in> event_shapes m (Event_EventID w)" "fdenotes (EfficientLookup m) sfs b2 (Event_Fields w)" "topics_denote b3 (Event_Topics w)"
    using w by (auto simp: event_denotes_def)
  obtain td where td: "reg (Event_EventID w) = Some td" "tdName td = Event_Name w" "implements (EfficientLookup m) cust h td sfs"
    using complete [OF b(3)] by blast
  have fields: "delivers (\<lambda>l. TypeDecoder_Decode (Decode_fuel l cust h) (Some td)) (map erase_field) b2 (Event_Fields w)"
    using td(3) b(4) unfolding implements_def delivers_def reads_def by blast
  show ?thesis
    unfolding b(1) ParseEvent_def
  proof (rule delivers_reads [OF reads_Phase [OF b(2)]], rule delivers_reads [OF reads_EventID], unfold td(1) option.case)
    show "delivers (\<lambda>l. bindM (wrapM (\<lambda>e. libWrap ''event fields decoding'' (event_at i e)) (TypeDecoder_Decode (Decode_fuel l cust h) (Some td)))
        (\<lambda>fs. bindM (wrapM (\<lambda>e. libWrap ''event topics decoding'' (event_at i e)) (Decode_slice Hash_Decode))
          (\<lambda>ts. retM \<lparr>Event_Name = tdName td, Event_Fields = fs, Event_EventID = Event_EventID w, Event_Phase = Event_Phase w, Event_Topics = ts\<rparr>)))
        erase_event (b2 @ b3) w"
      by (rule delivers_bindM [OF delivers_wrapM [OF fields]],
          rule delivers_map [OF delivers_wrapM [OF delivers_const [OF reads_topics [OF b(5)] refl, of "\<lambda>t. t"]]])
        (simp add: erase_event_def td(2))
  qed
qed

section \<open>Registries and their events\<close>

abbreviation event_registry_for :: "MetadataV14 \<Rightarrow> (EventID \<rightharpoonup> TypeDecoder) \<Rightarrow> factory \<Rightarrow> bool" where
  "event_registry_for m \<equiv> registry_for m HasEvents pEvents (\<lambda>p v. (p, v))"

lemma event_registry_created:
  "fieldOverrides f = [] \<Longrightarrow> CreateEventRegistry n m f = (Ok reg, f') \<Longrightarrow> event_registry_for m reg f'"
  unfolding CreateEventRegistry_def by (rule registry_for_created)

lemma event_registry_shapes:
  assumes "event_registry_for m reg f" "reg k = Some td"
  shows "\<exists>sfs. (tdName td, sfs) \<in> event_shapes m k \<and> implements (EfficientLookup m) cust (fheap f) td sfs"
  using registry_for_implements [OF assms, of cust] unfolding event_shapes_def by fastforce

lemma event_registry_complete:
  assumes reg: "event_registry_for m reg f" and un: "unambiguous_events m" and x: "(nm, sfs) \<in> event_shapes m k"
  shows "\<exists>td. reg k = Some td \<and> tdName td = nm \<and> implements (EfficientLookup m) cust (fheap f) td sfs"
proof -
  have "k \<in> dom reg" using x reg unfolding event_shapes_def keys_of_def registry_for_def by fastforce
  then obtain td where td: "reg k = Some td" by blast
  obtain sfs' where "(tdName td, sfs') \<in> event_shapes m k" "implements (EfficientLookup m) cust (fheap f) td sfs'"
    using event_registry_shapes [OF reg td] by blast
  moreover from this have "(tdName td, sfs') = (nm, sfs)"
    using un x unfolding unambiguous_events_def by blast
  ultimately show ?thesis using td by auto
qed

lemma ParseEvents_sound:
  assumes "event_registry_for m reg f"
    and "ParseEvents (Decode_fuel l cust (fheap f)) reg sd = Ok es"
  shows "\<exists>bs rest. sd = bs @ rest \<and> events_denote m bs (map erase_event es)"
proof -
  let ?P = "\<lambda>bs e. event_denotes m bs (erase_event e)"
  have "accepts (wrapM w DecodeUintCompact) (reads DecodeUintCompact)" for w
    by (intro accepts_wrapM accepts_local local_DecodeUintCompact)
  moreover have "accepts (ParseEvents_loop (Decode_fuel l cust (fheap f)) reg (BigInt_Uint64 c) 0 [])
      (\<lambda>ds es. events_denote m (cs @ ds) (map erase_event es))" if "reads DecodeUintCompact cs c" for cs c
    using that by (intro accepts_weaken [OF ParseEvents_loop_accepts [OF ParseEvent_accepts [OF event_registry_shapes [OF assms(1)]]]])
      (auto simp: events_denote_def list_all2_map2)
  ultimately have "accepts (bindM (wrapM (libWrap ''events count decoding'') DecodeUintCompact)
       (\<lambda>c. ParseEvents_loop (Decode_fuel l cust (fheap f)) reg (BigInt_Uint64 c) 0 [])) (\<lambda>bs es. events_denote m bs (map erase_event es))"
    by (rule accepts_bindM)
  from acceptsD [OF this] show ?thesis
    using assms(2) unfolding ParseEvents_def by (metis prod.collapse)
qed

lemma registry_delivers:
  assumes "event_registry_for m reg f" "unambiguous_events m" "event_denotes m bs w"
  shows "delivers (\<lambda>l. ParseEvent (Decode_fuel l cust (fheap f)) reg i) erase_event bs w"
  by (rule ParseEvent_delivers [OF event_registry_complete [OF assms(1,2)] assms(3)])

lemma ParseEvents_complete:
  assumes "event_registry_for m reg f" "unambiguous_events m" "events_denote m bs ws"
  shows "\<exists>es l0. map erase_event es = ws \<and> (\<forall>l\<ge>l0. \<forall>rest. ParseEvents (Decode_fuel l cust (fheap f)) reg (bs @ rest) = Ok es)"
proof -
  obtain cs c parts where c: "bs = cs @ concat parts" "reads DecodeUintCompact cs c" "length parts = unat (BigInt_Uint64 c)"
    "list_all2 (event_denotes m) parts ws"
    using assms(3) by (auto simp: events_denote_def)
  have "delivers (\<lambda>l. ParseEvents_loop (Decode_fuel l cust (fheap f)) reg (BigInt_Uint64 c) 0 []) (map erase_event) (concat parts) ws"
    using ParseEvents_loop_delivers [OF registry_delivers [OF assms(1,2)] c(4), where n = "BigInt_Uint64 c" and i = 0 and acc = "[]"] c(3)
    by simp
  then have "delivers (\<lambda>l. bindM (wrapM (libWrap ''events count decoding'') DecodeUintCompact)
       (\<lambda>c. ParseEvents_loop (Decode_fuel l cust (fheap f)) reg (BigInt_Uint64 c) 0 [])) (map erase_event) bs ws"
    unfolding c(1) by (rule delivers_reads [OF c(2)])
  then show ?thesis
    unfolding delivers_def ParseEvents_def reads_def by fastforce
qed

section \<open>Stopping at an unknown event\<close>

lemma word_count_up_by: "unat (i :: uint64) + k < 2 ^ 64 \<Longrightarrow> unat (i + word_of_nat k) = unat i + k"
  by (simp add: unat_word_ariths unsigned_of_nat take_bit_eq_mod)

lemma ParseEvents_loop_skip:
  assumes "\<And>i bs w. Q bs w \<Longrightarrow> delivers (\<lambda>l. ParseEvent (D l) reg i) g bs w"
  shows "list_all2 Q parts ws \<Longrightarrow> unat i + length parts \<le> unat n \<Longrightarrow>
    \<exists>es l0. \<forall>l\<ge>l0. \<forall>rest. ParseEvents_loop (D l) reg n i acc (concat parts @ rest) =
      ParseEvents_loop (D l) reg n (i + word_of_nat (length parts)) (acc @ es) rest"
proof (induction parts ws arbitrary: i acc rule: list_all2_induct)
  case Nil
  show ?case by (intro exI [of _ "[]"]) simp
next
  case (Cons b parts w ws)
  then have lt: "i < n" by (simp add: word_less_nat_alt)
  obtain e l1 where e: "\<forall>l\<ge>l1. reads (ParseEvent (D l) reg i) b e"
    using assms [OF Cons.hyps(1), of i] by (auto simp: delivers_def)
  have "unat (i + 1) + length parts \<le> unat n" using Cons.prems word_count_up [OF lt] by simp
  from Cons.IH [OF this, of "acc @ [e]"] obtain es l2 where
    es: "\<forall>l\<ge>l2. \<forall>rest. ParseEvents_loop (D l) reg n (i + 1) (acc @ [e]) (concat parts @ rest) =
      ParseEvents_loop (D l) reg n (i + 1 + word_of_nat (length parts)) ((acc @ [e]) @ es) rest" by blast
  have "ParseEvents_loop (D l) reg n i acc (concat (b # parts) @ rest) =
      ParseEvents_loop (D l) reg n (i + word_of_nat (length (b # parts))) (acc @ e # es) rest" if "l \<ge> max l1 l2" for l rest
  proof -
    have "ParseEvents_loop (D l) reg n i acc (concat (b # parts) @ rest) =
        ParseEvents_loop (D l) reg n (i + 1) (acc @ [e]) (concat parts @ rest)"
      using e that lt by (subst ParseEvents_loop.simps) (simp add: reads_def)
    then show ?thesis using es that by (simp add: add.assoc)
  qed
  then show ?case by (intro exI [of _ "e # es"] exI [of _ "max l1 l2"]) blast
qed

lemma ParseEvents_unknown:
  assumes "event_registry_for m reg f" "unambiguous_events m"
    and "reads DecodeUintCompact cs c" "list_all2 (event_denotes m) parts ws" "length parts < unat (BigInt_Uint64 c)"
    and "phase_denotes pb p" "event_shapes m k = {}"
  shows "\<exists>l0. \<forall>l\<ge>l0. \<forall>rest. ParseEvents (Decode_fuel l cust (fheap f)) reg (cs @ concat parts @ pb @ [fst k, snd k] @ rest) =
    Err (LibErr (''event decoder not found: event #'' @ string_of_nat (length parts) @ '' with ID: ['' @
      string_of_nat (unat (fst k)) @ '' '' @ string_of_nat (unat (snd k)) @ '']''))"
proof -
  let ?n = "BigInt_Uint64 c" let ?i = "word_of_nat (length parts) :: uint64"
  have i: "unat ?i = length parts" "?i < ?n"
    using assms(5) unsigned_less [of ?n, where ?'a = nat] by (simp_all add: unat_word_of_nat_small word_less_nat_alt)
  have none: "reg k = None"
    using event_registry_shapes [OF assms(1), of k] assms(7) by (cases "reg k") auto
  obtain es l0 where skip: "\<forall>l\<ge>l0. \<forall>rest. ParseEvents_loop (Decode_fuel l cust (fheap f)) reg ?n 0 [] (concat parts @ rest) =
      ParseEvents_loop (Decode_fuel l cust (fheap f)) reg ?n ?i es rest"
    using ParseEvents_loop_skip [OF registry_delivers [OF assms(1,2)] assms(4), where n = ?n and i = 0 and acc = "[]"] assms(5)
    by fastforce
  have "fst (ParseEvents_loop D reg ?n ?i es (pb @ fst k # snd k # rest)) = Err (libMsg ''event decoder not found''
      (''event #'' @ string_of_nat (length parts) @ '' with ID: ['' @
      string_of_nat (unat (fst k)) @ '' '' @ string_of_nat (unat (snd k)) @ '']''))" for D rest
    using i none readsD [OF reads_Phase [OF assms(6)]] readsD [OF reads_EventID, of k]
    by (subst ParseEvents_loop.simps) (simp add: ParseEvent_def)
  then show ?thesis
    using skip readsD [OF assms(3)] by (intro exI [of _ l0]) (simp add: ParseEvents_def libMsg_def Error_WithMsg_def)
qed

section \<open>Extrinsics\<close>

definition call_shapes :: "MetadataV14 \<Rightarrow> CallIndex \<Rightarrow> (string \<times> Si1Field list) set" where
  "call_shapes m k =
     {(pName p @ ''.'' @ vName v, vFields v) | p v t. p \<in> set (Pallets m) \<and> HasCalls p \<and>
        EfficientLookup m (UCompact_Int64 (pCalls p)) = Some t \<and> v \<in> set (Variants (tDef t)) \<and>
        k = \<lparr>SectionIndex = pIndex p, MethodIndex = vIndex v\<rparr>}"

text \<open>A parsed extrinsic says of its extrinsic what the metadata says of the call.\<close>

definition extrinsic_denotes :: "MetadataV14 \<Rightarrow> 'sig generic_extrinsic \<Rightarrow> 'sig parsed_extrinsic \<Rightarrow> bool" where
  "extrinsic_denotes m x p \<longleftrightarrow>
     pxCallIndex p = clCallIndex (gxMethod x) \<and> pxVersion p = gxVersion x \<and> pxSignature p = gxSignature x \<and>
     (\<exists>bs rest sfs. clArgs (gxMethod x) = bs @ rest \<and> (pxName p, sfs) \<in> call_shapes m (clCallIndex (gxMethod x)) \<and>
        fdenotes (EfficientLookup m) sfs bs (map erase_field (pxCallFields p)))"

lemma ParseExtrinsics_loop_Ok:
  "ParseExtrinsics_loop dec reg i xs acc = Ok ps \<longleftrightarrow>
     (\<exists>new. ps = acc @ new \<and> list_all2 (\<lambda>(j, x) p. ParseExtrinsic dec reg j x = Ok p) (enumerate i xs) new)"
  by (induction xs arbitrary: i acc) (auto simp: bindR_Ok_iff list_all2_Cons1)

lemma wrapR_Ok_iff: "wrapR w r = Ok a \<longleftrightarrow> r = Ok a"
  by (cases r) auto

abbreviation call_registry_for :: "MetadataV14 \<Rightarrow> (CallIndex \<rightharpoonup> TypeDecoder) \<Rightarrow> factory \<Rightarrow> bool" where
  "call_registry_for m \<equiv> registry_for m HasCalls pCalls (\<lambda>p v. \<lparr>SectionIndex = p, MethodIndex = v\<rparr>)"

lemma call_registry_created:
  "fieldOverrides f = [] \<Longrightarrow> CreateCallRegistry n m f = (Ok reg, f') \<Longrightarrow> call_registry_for m reg f'"
  unfolding CreateCallRegistry_def by (rule registry_for_created)

lemma ParseExtrinsic_sound:
  assumes "call_registry_for m reg f"
    and "ParseExtrinsic (Decode_fuel l cust (fheap f)) reg i x = Ok p"
  shows "extrinsic_denotes m x p"
proof -
  let ?k = "clCallIndex (gxMethod x)"
  obtain td where td: "reg ?k = Some td"
    using assms(2) by (auto simp: ParseExtrinsic_def Let_def split: option.splits)
  obtain vs where vs: "fst (TypeDecoder_Decode (Decode_fuel l cust (fheap f)) (Some td) (clArgs (gxMethod x))) = Ok vs"
    "p = \<lparr>pxName = tdName td, pxCallFields = vs, pxCallIndex = ?k, pxVersion = gxVersion x, pxSignature = gxSignature x\<rparr>"
    using assms(2) td by (auto simp: ParseExtrinsic_def Let_def bindR_Ok_iff wrapR_Ok_iff)
  obtain s' where s': "TypeDecoder_Decode (Decode_fuel l cust (fheap f)) (Some td) (clArgs (gxMethod x)) = (Ok vs, s')"
    using vs(1) by (metis prod.collapse)
  obtain sfs where "(tdName td, sfs) \<in> call_shapes m ?k" "implements (EfficientLookup m) cust (fheap f) td sfs"
    using registry_for_implements [OF assms(1) td, of cust]
    unfolding call_shapes_def by fastforce
  moreover from this(2) s' obtain bs where "clArgs (gxMethod x) = bs @ s'" "fdenotes (EfficientLookup m) sfs bs (map erase_field vs)"
    unfolding implements_def by blast
  ultimately show ?thesis
    unfolding extrinsic_denotes_def vs(2) by auto
qed

lemma ParseExtrinsics_sound:
  assumes "call_registry_for m reg f" "ParseExtrinsics (Decode_fuel l cust (fheap f)) reg xs = Ok ps"
  shows "list_all2 (extrinsic_denotes m) xs ps"
proof -
  have "list_all2 (\<lambda>(j, x) p. ParseExtrinsic (Decode_fuel l cust (fheap f)) reg j x = Ok p) (enumerate 0 xs) ps"
    using assms(2) by (simp add: ParseExtrinsics_def ParseExtrinsics_loop_Ok)
  then have "list_all2 (\<lambda>(j, x) p. extrinsic_denotes m x p) (enumerate 0 xs) ps"
    by (rule list_all2_mono) (auto intro: ParseExtrinsic_sound [OF assms(1)])
  then have "list_all2 (extrinsic_denotes m) (map snd (enumerate 0 xs)) ps"
    unfolding list_all2_map1 by (simp add: case_prod_unfold)
  then show ?thesis unfolding map_snd_enumerate .
qed

section \<open>Properties\<close>

lemma tree_unambiguous: "unambiguous_events tree_metadata"
proof -
  have "toMap tree_types 1 = Some (ptType (hd tree_types))" by code_simp
  moreover have "Variants (tDef (ptType (hd tree_types))) =
      [\<lparr>vName = ''Ping'', vFields = [], vIndex = 0, vDocs = []\<rparr>,
       \<lparr>vName = ''Grown'', vFields = [named_field ''tree'' 2], vIndex = 2, vDocs = []\<rparr>]" by code_simp
  ultimately show ?thesis
    by (auto simp: unambiguous_events_def event_shapes_def tree_metadata_def)
qed

text \<open>
  C1: The event parser agrees with the metadata its registry was created from: whatever it
  returns is the meaning of a prefix of the storage bytes, and every sequence of encoded
  events is parsed to its meaning, however deeply recursive types nest in it. The metadata
  must not give one event identifier two meanings.\<close>

theorem parse_events_refines_metadata:
  assumes "fieldOverrides f = []" "CreateEventRegistry n m f = (Ok reg, f')" "unambiguous_events m"
  shows "(\<forall>l sd es. ParseEvents (Decode_fuel l cust (fheap f')) reg sd = Ok es \<longrightarrow>
      (\<exists>bs rest. sd = bs @ rest \<and> events_denote m bs (map erase_event es))) \<and>
    (\<forall>bs ws. events_denote m bs ws \<longrightarrow>
      (\<exists>es l0. map erase_event es = ws \<and>
        (\<forall>l\<ge>l0. \<forall>rest. ParseEvents (Decode_fuel l cust (fheap f')) reg (bs @ rest) = Ok es)))"
  using ParseEvents_sound [OF event_registry_created [OF assms(1,2)]]
    ParseEvents_complete [OF event_registry_created [OF assms(1,2)] assms(3)] by blast

lemma ping_parsed:
  "case CreateEventRegistry 8 tree_metadata new_factory of
     (Ok reg, f') \<Rightarrow> ParseEvents (Decode_fuel 0 (\<lambda>_. failM EOF) (fheap f')) reg [4, 1, 5, 0, 0] =
        Ok [\<lparr>Event_Name = ''Forest.Ping'', Event_Fields = [], Event_EventID = (5, 0), Event_Phase = zero_phase\<lparr>IsFinalization := True\<rparr>, Event_Topics = []\<rparr>]
   | _ \<Rightarrow> False"
  by code_simp

theorem parse_events_refines_metadata_witness:
  "\<exists>bs rest. [4, 1, 5, 0, 0] = bs @ rest \<and> events_denote tree_metadata bs
     [\<lparr>Event_Name = ''Forest.Ping'', Event_Fields = [], Event_EventID = (5, 0), Event_Phase = zero_phase\<lparr>IsFinalization := True\<rparr>, Event_Topics = []\<rparr>]"
proof -
  obtain reg f' where r: "CreateEventRegistry 8 tree_metadata new_factory = (Ok reg, f')"
    "ParseEvents (Decode_fuel 0 (\<lambda>_. failM EOF) (fheap f')) reg [4, 1, 5, 0, 0] =
        Ok [\<lparr>Event_Name = ''Forest.Ping'', Event_Fields = [], Event_EventID = (5, 0), Event_Phase = zero_phase\<lparr>IsFinalization := True\<rparr>, Event_Topics = []\<rparr>]"
    using ping_parsed by (auto simp del: failM_apply split: prod.splits res.splits)
  with parse_events_refines_metadata [OF new_factory_plain(2) r(1) tree_unambiguous] show ?thesis
    by (fastforce simp: erase_event_def)
qed

text \<open>
  When the events before it are well-formed, an event whose identifier the metadata does not
  know stops the parser with an error that names the event's position and its identifier.\<close>

theorem parse_events_unknown:
  assumes "fieldOverrides f = []" "CreateEventRegistry n m f = (Ok reg, f')" "unambiguous_events m"
    and "reads DecodeUintCompact cs c" "list_all2 (event_denotes m) parts ws" "length parts < unat (BigInt_Uint64 c)"
    and "phase_denotes pb p" "event_shapes m k = {}"
  shows "\<exists>l0. \<forall>l\<ge>l0. \<forall>rest. ParseEvents (Decode_fuel l cust (fheap f')) reg (cs @ concat parts @ pb @ [fst k, snd k] @ rest) =
    Err (LibErr (''event decoder not found: event #'' @ string_of_nat (length parts) @ '' with ID: ['' @
      string_of_nat (unat (fst k)) @ '' '' @ string_of_nat (unat (snd k)) @ '']''))"
  by (rule ParseEvents_unknown [OF event_registry_created [OF assms(1,2)] assms(3-8)])

theorem parse_events_unknown_witness:
  "\<exists>reg f' l. CreateEventRegistry 8 tree_metadata new_factory = (Ok reg, f') \<and>
     ParseEvents (Decode_fuel l (\<lambda>_. failM EOF) (fheap f')) reg [4, 1, 7, 3, 0] =
       Err (LibErr ''event decoder not found: event #0 with ID: [7 3]'')"
proof (rule tree_registry_ok)
  fix reg f'
  assume r: "CreateEventRegistry 8 tree_metadata new_factory = (Ok reg, f')"
  have c: "reads DecodeUintCompact [4] 1"
    using reads_DecodeUintCompact [of 1] by (simp add: compact_bytes_def)
  have "event_shapes tree_metadata (7, 3) = {}"
    by (auto simp: event_shapes_def tree_metadata_def sample_pallet_def)
  with parse_events_unknown [OF new_factory_plain(2) r tree_unambiguous c, where parts = "[]" and ws = "[]" and pb = "[1]"
      and p = "zero_phase\<lparr>IsFinalization := True\<rparr>" and k = "(7, 3)" and cust = "\<lambda>_. failM EOF"]
  obtain l0 where "\<forall>l\<ge>l0. \<forall>rest. ParseEvents (Decode_fuel l (\<lambda>_. failM EOF) (fheap f')) reg ([4] @ concat [] @ [1] @ [7, 3] @ rest) =
      Err (LibErr (''event decoder not found: event #'' @ string_of_nat 0 @ '' with ID: ['' @ string_of_nat 7 @ '' '' @ string_of_nat 3 @ '']''))"
    by (auto simp: phase_denotes_def BigInt_Uint64_def simp del: failM_apply)
  moreover have "string_of_nat 0 = ''0''" "string_of_nat 7 = ''7''" "string_of_nat 3 = ''3''"
    by code_simp+
  ultimately have "ParseEvents (Decode_fuel l0 (\<lambda>_. failM EOF) (fheap f')) reg [4, 1, 7, 3, 0] =
      Err (LibErr ''event decoder not found: event #0 with ID: [7 3]'')"
    using spec [of _ "[0]"] by (fastforce simp del: failM_apply)
  with r show ?thesis by blast
qed

text \<open>
  C34: The extrinsic parser returns one parsed extrinsic per extrinsic of the block, in order, and
  each has the name and the argument values the metadata gives its call, taken from a prefix
  of the call's argument bytes.\<close>

theorem parse_extrinsics_sound:
  assumes "fieldOverrides f = []" "CreateCallRegistry n m f = (Ok reg, f')"
    and "ParseExtrinsics (Decode_fuel l cust (fheap f')) reg xs = Ok ps"
  shows "list_all2 (extrinsic_denotes m) xs ps"
  by (rule ParseExtrinsics_sound [OF call_registry_created [OF assms(1,2)] assms(3)])

definition sample_extrinsic :: "unit generic_extrinsic" where
  "sample_extrinsic = \<lparr>gxVersion = 4, gxSignature = (), gxMethod = \<lparr>clCallIndex = \<lparr>SectionIndex = 5, MethodIndex = 0\<rparr>, clArgs = []\<rparr>\<rparr>"

theorem parse_extrinsics_sound_witness:
  "\<exists>reg f' p. CreateCallRegistry 8 tree_metadata new_factory = (Ok reg, f') \<and>
     ParseExtrinsics (Decode_fuel 0 (\<lambda>_. failM EOF) (fheap f')) reg [sample_extrinsic] = Ok [p] \<and>
     pxName p = ''Forest.Ping'' \<and> extrinsic_denotes tree_metadata sample_extrinsic p"
proof -
  have "case CreateCallRegistry 8 tree_metadata new_factory of
      (Ok reg, f') \<Rightarrow> (case ParseExtrinsics (Decode_fuel 0 (\<lambda>_. failM EOF) (fheap f')) reg [sample_extrinsic] of
         Ok [p] \<Rightarrow> pxName p = ''Forest.Ping'' | _ \<Rightarrow> False) | _ \<Rightarrow> False"
    by code_simp
  then obtain reg f' p where r: "CreateCallRegistry 8 tree_metadata new_factory = (Ok reg, f')"
    "ParseExtrinsics (Decode_fuel 0 (\<lambda>_. failM EOF) (fheap f')) reg [sample_extrinsic] = Ok [p]" "pxName p = ''Forest.Ping''"
    by (auto simp del: failM_apply split: prod.splits res.splits list.splits)
  from parse_extrinsics_sound [OF new_factory_plain(2) r(1,2)] r show ?thesis by auto
qed

end
