(* ===== verification/Hashing.thy ===== *)
theory Hashing
  imports GoRuntime
begin

text \<open>
  The hash functions of \<open>src/xxhash/xxhash.go\<close>, \<open>src/hash/blake2b.go\<close> and
  \<open>src/hash/identity.go\<close>, all of them implementations of Go's \<open>hash.Hash\<close>. The algorithms
  themselves (packages \<open>golang.org/x/crypto/blake2b\<close> and \<open>github.com/pierrec/xxHash/xxHash64\<close>)
  are parameters of the model: a record of the calls the program makes, with their states as
  type variables. \<open>running_hash\<close> is the contract \<open>hash.Hash\<close> documents; the interpretation at
  the end shows that every hash the program builds keeps it whenever the two packages do.
\<close>

section \<open>The packages the program calls\<close>

record ('b, 'x) hash_lib =
  blake2b_New :: "int \<Rightarrow> bytes \<Rightarrow> 'b res"
  blake2b_New256 :: "bytes \<Rightarrow> 'b res"
  blake2b_New512 :: "bytes \<Rightarrow> 'b res"
  blake2b_Write :: "bytes \<Rightarrow> 'b \<Rightarrow> (nat \<times> goerror option) \<times> 'b"
  blake2b_Sum :: "'b \<Rightarrow> bytes \<Rightarrow> bytes"
  blake2b_Reset :: "'b \<Rightarrow> 'b"
  blake2b_BlockSize :: "'b \<Rightarrow> nat"
  xxHash64_New :: "uint64 \<Rightarrow> 'x"
  xxHash64_Write :: "bytes \<Rightarrow> 'x \<Rightarrow> (nat \<times> goerror option) \<times> 'x"
  xxHash64_Sum :: "'x \<Rightarrow> bytes \<Rightarrow> bytes"

text \<open>
  What the packages document for unkeyed hashes: a digest size from 1 to 64 is accepted and any
  other refused, writing absorbs the bytes and never fails, \<open>Sum\<close> appends the digest of what was
  written. \<open>bst n d\<close> and \<open>xst seed d\<close> are the states after absorbing \<open>d\<close>, \<open>bd\<close> and \<open>xd\<close> the digests.
\<close>

definition hash_lib_laws ::
  "('b, 'x) hash_lib \<Rightarrow> (nat \<Rightarrow> bytes \<Rightarrow> 'b) \<Rightarrow> (nat \<Rightarrow> bytes \<Rightarrow> bytes) \<Rightarrow>
   (uint64 \<Rightarrow> bytes \<Rightarrow> 'x) \<Rightarrow> (uint64 \<Rightarrow> bytes \<Rightarrow> bytes) \<Rightarrow> bool" where
  "hash_lib_laws lib bst bd xst xd \<longleftrightarrow>
     (\<forall>n. blake2b_New lib n [] =
        (if 1 \<le> n \<and> n \<le> 64 then Ok (bst (nat n) []) else Err (ErrorString ''blake2b: invalid hash size''))) \<and>
     blake2b_New256 lib [] = Ok (bst 32 []) \<and>
     blake2b_New512 lib [] = Ok (bst 64 []) \<and>
     (\<forall>n d p. blake2b_Write lib p (bst n d) = ((length p, None), bst n (d @ p))) \<and>
     (\<forall>n d b. blake2b_Sum lib (bst n d) b = b @ bd n d) \<and>
     (\<forall>n d. length (bd n d) = n) \<and>
     (\<forall>n d. blake2b_Reset lib (bst n d) = bst n []) \<and>
     (\<forall>seed. xxHash64_New lib seed = xst seed []) \<and>
     (\<forall>seed d p. xxHash64_Write lib p (xst seed d) = ((length p, None), xst seed (d @ p))) \<and>
     (\<forall>seed d b. xxHash64_Sum lib (xst seed d) b = b @ xd seed d) \<and>
     (\<forall>seed d. length (xd seed d) = 8)"

section \<open>xxhash\<close>

definition Typ64 :: int where "Typ64 = 0"
definition Typ64Concat :: int where "Typ64Concat = 1"
definition Typ128 :: int where "Typ128 = 2"
definition Typ256 :: int where "Typ256 = 3"

record xx_state =
  xx_data :: bytes
  xx_typ :: int
  xx_rounds :: nat

definition New64 :: "bytes \<Rightarrow> xx_state" where
  "New64 b = \<lparr>xx_data = b, xx_typ = Typ64, xx_rounds = 1\<rparr>"

definition New64Concat :: "bytes \<Rightarrow> xx_state" where
  "New64Concat b = \<lparr>xx_data = b, xx_typ = Typ64Concat, xx_rounds = 1\<rparr>"

definition New128 :: "bytes \<Rightarrow> xx_state" where
  "New128 b = \<lparr>xx_data = b, xx_typ = Typ128, xx_rounds = 2\<rparr>"

definition New256 :: "bytes \<Rightarrow> xx_state" where
  "New256 b = \<lparr>xx_data = b, xx_typ = Typ256, xx_rounds = 4\<rparr>"

definition xx_Write :: "bytes \<Rightarrow> xx_state \<Rightarrow> (nat \<times> goerror option) \<times> xx_state" where
  "xx_Write p s = ((length p, None), s\<lparr>xx_data := xx_data s @ p\<rparr>)"

text \<open>The loop of \<open>Sum\<close>, \<open>n\<close> rounds from seed \<open>i\<close> on; an error of the inner writer panics.\<close>

fun xx_Sum_loop :: "('b, 'x) hash_lib \<Rightarrow> bytes \<Rightarrow> nat \<Rightarrow> nat \<Rightarrow> bytes \<Rightarrow> bytes res" where
  "xx_Sum_loop lib data i 0 res = Ok res"
| "xx_Sum_loop lib data i (Suc n) res =
     (case xxHash64_Write lib data (xxHash64_New lib (word_of_nat i)) of
        ((_, Some err), _) \<Rightarrow> Panic (error_text err)
      | ((_, None), h) \<Rightarrow> xx_Sum_loop lib data (Suc i) n (res @ xxHash64_Sum lib h []))"

definition xx_Sum :: "('b, 'x) hash_lib \<Rightarrow> xx_state \<Rightarrow> bytes \<Rightarrow> bytes res" where
  "xx_Sum lib s b =
     bindR (xx_Sum_loop lib (xx_data s) 0 (xx_rounds s) []) (\<lambda>res.
       Ok (b @ (if xx_typ s = Typ64Concat then res @ xx_data s else res)))"

definition xx_Reset :: "xx_state \<Rightarrow> xx_state" where
  "xx_Reset s = s\<lparr>xx_data := []\<rparr>"

definition xx_BlockSize :: "xx_state \<Rightarrow> nat" where
  "xx_BlockSize s = 64"

section \<open>blake2b with the data appended, and identity\<close>

record 'b blake2b128Concat =
  bc_hasher :: 'b
  bc_data :: bytes

definition NewBlake2b128Concat :: "('b, 'x) hash_lib \<Rightarrow> bytes \<Rightarrow> 'b blake2b128Concat res" where
  "NewBlake2b128Concat lib k = bindR (blake2b_New lib 16 k) (\<lambda>h. Ok \<lparr>bc_hasher = h, bc_data = k\<rparr>)"

definition bc_Write ::
  "('b, 'x) hash_lib \<Rightarrow> bytes \<Rightarrow> 'b blake2b128Concat \<Rightarrow> (nat \<times> goerror option) \<times> 'b blake2b128Concat" where
  "bc_Write lib p bc =
     (case blake2b_Write lib p (bc_hasher bc) of
        (r, h) \<Rightarrow> (r, \<lparr>bc_hasher = h, bc_data = bc_data bc @ p\<rparr>))"

definition bc_Sum :: "('b, 'x) hash_lib \<Rightarrow> 'b blake2b128Concat \<Rightarrow> bytes \<Rightarrow> bytes" where
  "bc_Sum lib bc b = blake2b_Sum lib (bc_hasher bc) b @ bc_data bc"

definition bc_Reset :: "('b, 'x) hash_lib \<Rightarrow> 'b blake2b128Concat \<Rightarrow> 'b blake2b128Concat" where
  "bc_Reset lib bc = \<lparr>bc_hasher = blake2b_Reset lib (bc_hasher bc), bc_data = []\<rparr>"

definition bc_BlockSize :: "('b, 'x) hash_lib \<Rightarrow> 'b blake2b128Concat \<Rightarrow> nat" where
  "bc_BlockSize lib bc = blake2b_BlockSize lib (bc_hasher bc)"

record identity =
  id_data :: bytes

definition NewIdentity :: "bytes \<Rightarrow> identity" where
  "NewIdentity b = \<lparr>id_data = b\<rparr>"

definition id_Write :: "bytes \<Rightarrow> identity \<Rightarrow> (nat \<times> goerror option) \<times> identity" where
  "id_Write p i = ((length p, None), i\<lparr>id_data := id_data i @ p\<rparr>)"

definition id_Sum :: "identity \<Rightarrow> bytes \<Rightarrow> bytes" where
  "id_Sum i b = b @ id_data i"

definition id_Reset :: "identity \<Rightarrow> identity" where
  "id_Reset i = i\<lparr>id_data := []\<rparr>"

definition id_BlockSize :: "identity \<Rightarrow> nat" where
  "id_BlockSize i = 0"

section \<open>The interface\<close>

text \<open>A value of interface type \<open>hash.Hash\<close>, with its methods dispatched on the dynamic type.\<close>

datatype 'b Hash =
    Blake2b 'b
  | Concat128 "'b blake2b128Concat"
  | Ident identity
  | XX xx_state

definition NewBlake2b128 :: "('b, 'x) hash_lib \<Rightarrow> bytes \<Rightarrow> 'b Hash res" where
  "NewBlake2b128 lib k = bindR (blake2b_New lib 16 k) (\<lambda>h. Ok (Blake2b h))"

definition NewBlake2b256 :: "('b, 'x) hash_lib \<Rightarrow> bytes \<Rightarrow> 'b Hash res" where
  "NewBlake2b256 lib k = bindR (blake2b_New256 lib k) (\<lambda>h. Ok (Blake2b h))"

definition NewBlake2b512 :: "('b, 'x) hash_lib \<Rightarrow> bytes \<Rightarrow> 'b Hash res" where
  "NewBlake2b512 lib k = bindR (blake2b_New512 lib k) (\<lambda>h. Ok (Blake2b h))"

fun Hash_Write :: "('b, 'x) hash_lib \<Rightarrow> bytes \<Rightarrow> 'b Hash \<Rightarrow> (nat \<times> goerror option) \<times> 'b Hash" where
  "Hash_Write lib p (Blake2b h) = apsnd Blake2b (blake2b_Write lib p h)"
| "Hash_Write lib p (Concat128 h) = apsnd Concat128 (bc_Write lib p h)"
| "Hash_Write lib p (Ident h) = apsnd Ident (id_Write p h)"
| "Hash_Write lib p (XX h) = apsnd XX (xx_Write p h)"

fun Hash_Sum :: "('b, 'x) hash_lib \<Rightarrow> 'b Hash \<Rightarrow> bytes \<Rightarrow> bytes res" where
  "Hash_Sum lib (Blake2b h) b = Ok (blake2b_Sum lib h b)"
| "Hash_Sum lib (Concat128 h) b = Ok (bc_Sum lib h b)"
| "Hash_Sum lib (Ident h) b = Ok (id_Sum h b)"
| "Hash_Sum lib (XX h) b = xx_Sum lib h b"

fun Hash_Reset :: "('b, 'x) hash_lib \<Rightarrow> 'b Hash \<Rightarrow> 'b Hash" where
  "Hash_Reset lib (Blake2b h) = Blake2b (blake2b_Reset lib h)"
| "Hash_Reset lib (Concat128 h) = Concat128 (bc_Reset lib h)"
| "Hash_Reset lib (Ident h) = Ident (id_Reset h)"
| "Hash_Reset lib (XX h) = XX (xx_Reset h)"

text \<open>\<open>Size\<close> of the three types of the module: the length of what \<open>Sum\<close> returns.\<close>

definition Hash_Size :: "('b, 'x) hash_lib \<Rightarrow> 'b Hash \<Rightarrow> nat res" where
  "Hash_Size lib h = bindR (Hash_Sum lib h []) (\<lambda>s. Ok (length s))"

section \<open>The contract of a running hash\<close>

text \<open>
  \<open>hst d\<close> is the state that has absorbed \<open>d\<close> and \<open>dig d\<close> the digest of \<open>d\<close>; \<open>ok\<close> is what the
  implementation needs of the packages it calls.
\<close>

locale running_hash =
  fixes ok :: bool
    and wr :: "bytes \<Rightarrow> 'h \<Rightarrow> (nat \<times> goerror option) \<times> 'h"
    and sum :: "'h \<Rightarrow> bytes \<Rightarrow> bytes res"
    and reset :: "'h \<Rightarrow> 'h"
    and hst :: "bytes \<Rightarrow> 'h"
    and dig :: "bytes \<Rightarrow> bytes"
  assumes write_absorbs: "ok \<Longrightarrow> wr p (hst d) = ((length p, None), hst (d @ p))"
    and sum_appends: "ok \<Longrightarrow> sum (hst d) b = Ok (b @ dig d)"
    and reset_empties: "ok \<Longrightarrow> reset (hst d) = hst []"
begin

lemma write_sum: "ok \<Longrightarrow> wr p (hst []) = ((length p, None), hst p) \<and> sum (hst p) [] = Ok (dig p)"
  using write_absorbs [of p "[]"] sum_appends [of p "[]"] by simp

text \<open>Writing in pieces is writing the concatenation.\<close>

lemma write_pieces: "ok \<Longrightarrow> fold (\<lambda>p h. snd (wr p h)) ps (hst d) = hst (d @ concat ps)"
  by (induction ps arbitrary: d) (simp_all add: write_absorbs)

lemma sum_pieces: "ok \<Longrightarrow> sum (fold (\<lambda>p h. snd (wr p h)) ps (hst [])) b = Ok (b @ dig (concat ps))"
  by (simp add: write_pieces sum_appends)

lemma reset_restarts: "ok \<Longrightarrow> fold (\<lambda>p h. snd (wr p h)) ps (reset (hst d)) = hst (concat ps)"
  by (simp add: reset_empties write_pieces)

end

section \<open>Every hash of the program keeps the contract\<close>

datatype hash_kind = KBlake nat | KBlake128Concat | KIdentity | KXX int nat

fun hstate :: "(nat \<Rightarrow> bytes \<Rightarrow> 'b) \<Rightarrow> hash_kind \<Rightarrow> bytes \<Rightarrow> 'b Hash" where
  "hstate bst (KBlake n) d = Blake2b (bst n d)"
| "hstate bst KBlake128Concat d = Concat128 \<lparr>bc_hasher = bst 16 d, bc_data = d\<rparr>"
| "hstate bst KIdentity d = Ident \<lparr>id_data = d\<rparr>"
| "hstate bst (KXX t r) d = XX \<lparr>xx_data = d, xx_typ = t, xx_rounds = r\<rparr>"

fun hdigest :: "(nat \<Rightarrow> bytes \<Rightarrow> bytes) \<Rightarrow> (uint64 \<Rightarrow> bytes \<Rightarrow> bytes) \<Rightarrow> hash_kind \<Rightarrow> bytes \<Rightarrow> bytes" where
  "hdigest bd xd (KBlake n) d = bd n d"
| "hdigest bd xd KBlake128Concat d = bd 16 d @ d"
| "hdigest bd xd KIdentity d = d"
| "hdigest bd xd (KXX t r) d =
     concat (map (\<lambda>i. xd (word_of_nat i) d) [0..<r]) @ (if t = Typ64Concat then d else [])"

lemma xx_Sum_loop_eq:
  assumes "hash_lib_laws lib bst bd xst xd"
  shows "xx_Sum_loop lib d i n res = Ok (res @ concat (map (\<lambda>j. xd (word_of_nat j) d) [i..<i + n]))"
  using assms
  by (induction n arbitrary: i res) (simp_all add: hash_lib_laws_def upt_conv_Cons del: upt_Suc)

interpretation hash: running_hash "hash_lib_laws lib bst bd xst xd" "Hash_Write lib" "Hash_Sum lib"
  "Hash_Reset lib" "hstate bst k" "hdigest bd xd k" for lib bst bd xst xd k
proof
  fix p d b
  assume laws: "hash_lib_laws lib bst bd xst xd"
  show "Hash_Write lib p (hstate bst k d) = ((length p, None), hstate bst k (d @ p))"
    using laws by (cases k) (simp_all add: hash_lib_laws_def bc_Write_def id_Write_def xx_Write_def)
  show "Hash_Sum lib (hstate bst k d) b = Ok (b @ hdigest bd xd k d)"
    using laws xx_Sum_loop_eq [OF laws]
    by (cases k) (simp_all add: hash_lib_laws_def bc_Sum_def id_Sum_def xx_Sum_def)
  show "Hash_Reset lib (hstate bst k d) = hstate bst k []"
    using laws by (cases k) (simp_all add: hash_lib_laws_def bc_Reset_def id_Reset_def xx_Reset_def)
qed

lemma xd_length_rounds:
  assumes "hash_lib_laws lib bst bd xst xd"
  shows "length (concat (map (\<lambda>i. xd (word_of_nat i) d) [0..<r])) = 8 * r"
  using assms by (induction r) (auto simp: hash_lib_laws_def)

text \<open>The length of a digest, which \<open>Size\<close> reports.\<close>

fun digest_length :: "hash_kind \<Rightarrow> nat \<Rightarrow> nat" where
  "digest_length (KBlake n) l = n"
| "digest_length KBlake128Concat l = 16 + l"
| "digest_length KIdentity l = l"
| "digest_length (KXX t r) l = 8 * r + (if t = Typ64Concat then l else 0)"

lemma hdigest_length:
  "hash_lib_laws lib bst bd xst xd \<Longrightarrow> length (hdigest bd xd k d) = digest_length k (length d)"
  using xd_length_rounds [of lib bst bd xst xd d]
  by (cases k) (simp_all add: hash_lib_laws_def)

text \<open>The hashes that append their input are reversible: the input is a suffix of known position.\<close>

fun reversible :: "hash_kind \<Rightarrow> bool" where
  "reversible (KBlake n) = False"
| "reversible KBlake128Concat = True"
| "reversible KIdentity = True"
| "reversible (KXX t r) = (t = Typ64Concat)"

lemma hdigest_suffix:
  assumes "hash_lib_laws lib bst bd xst xd" and "reversible k"
  shows "drop (digest_length k 0) (hdigest bd xd k d) = d"
  using assms xd_length_rounds [OF assms(1)]
  by (cases k) (simp_all add: hash_lib_laws_def)

section \<open>A library to compute with\<close>

text \<open>
  Packages that satisfy the laws: a state is the digest size (or seed) and the bytes absorbed,
  and the digest fills its size with the length of the data.
\<close>

definition count_lib :: "(nat \<times> bytes, uint64 \<times> bytes) hash_lib" where
  "count_lib =
     \<lparr>blake2b_New = (\<lambda>n k. if 1 \<le> n \<and> n \<le> 64 then Ok (nat n, [])
         else Err (ErrorString ''blake2b: invalid hash size'')),
      blake2b_New256 = (\<lambda>k. Ok (32, [])), blake2b_New512 = (\<lambda>k. Ok (64, [])),
      blake2b_Write = (\<lambda>p (n, d). ((length p, None), (n, d @ p))),
      blake2b_Sum = (\<lambda>(n, d) b. b @ replicate n (word_of_nat (length d))),
      blake2b_Reset = (\<lambda>(n, d). (n, [])), blake2b_BlockSize = (\<lambda>_. 128),
      xxHash64_New = (\<lambda>seed. (seed, [])),
      xxHash64_Write = (\<lambda>p (s, d). ((length p, None), (s, d @ p))),
      xxHash64_Sum = (\<lambda>(s, d) b. b @ replicate 8 (word_of_nat (length d) + ucast s))\<rparr>"

definition count_bd :: "nat \<Rightarrow> bytes \<Rightarrow> bytes" where
  "count_bd n d = replicate n (word_of_nat (length d))"

definition count_xd :: "uint64 \<Rightarrow> bytes \<Rightarrow> bytes" where
  "count_xd s d = replicate 8 (word_of_nat (length d) + ucast s)"

lemma count_lib_laws: "hash_lib_laws count_lib Pair count_bd Pair count_xd"
  unfolding hash_lib_laws_def count_lib_def count_bd_def count_xd_def by simp

end
