(* ===== verification/StorageKey.thy ===== *)
theory StorageKey
  imports MetadataStorage ScaleReflect Hashing
begin

text \<open>
  Storage keys: \<open>src/types/storage_key.go\<close>, the interface \<open>StorageEntryMetadata\<close> and
  \<open>DefaultPlainHasher\<close> of \<open>src/types/metadata.go\<close>, and the \<open>HashFunc\<close> methods of the storage
  hashers. \<open>CreateStorageKey\<close> is written over the metadata version and the outcome of
  \<open>FindStorageEntryMetadata\<close>; theory \<open>Metadata\<close> connects it to the metadata of every version.
\<close>

section \<open>The hashers of storage entries\<close>

record StorageHasher =
  h4IsBlake2_128 :: bool
  h4IsBlake2_256 :: bool
  h4IsTwox128 :: bool
  h4IsTwox256 :: bool
  h4IsTwox64Concat :: bool

definition no_hasher4 :: StorageHasher where
  "no_hasher4 =
     \<lparr>h4IsBlake2_128 = False, h4IsBlake2_256 = False, h4IsTwox128 = False, h4IsTwox256 = False,
      h4IsTwox64Concat = False\<rparr>"

definition StorageHasher_Decode :: "(bytes, StorageHasher) goM" where
  "StorageHasher_Decode =
     bindM (Decode_word Uint8 :: (bytes, uint8) goM) (\<lambda>t.
       if t = 0 then retM (no_hasher4\<lparr>h4IsBlake2_128 := True\<rparr>)
       else if t = 1 then retM (no_hasher4\<lparr>h4IsBlake2_256 := True\<rparr>)
       else if t = 2 then retM (no_hasher4\<lparr>h4IsTwox128 := True\<rparr>)
       else if t = 3 then retM (no_hasher4\<lparr>h4IsTwox256 := True\<rparr>)
       else if t = 4 then retM (no_hasher4\<lparr>h4IsTwox64Concat := True\<rparr>)
       else failM (ErrorString (''received unexpected storage hasher type '' @ string_of_nat (unat t))))"

definition StorageHasher_Encode :: "StorageHasher \<Rightarrow> (bytes, unit) goM" where
  "StorageHasher_Encode s =
     (if h4IsBlake2_128 s then PushByte 0
      else if h4IsBlake2_256 s then PushByte 1
      else if h4IsTwox128 s then PushByte 2
      else if h4IsTwox256 s then PushByte 3
      else if h4IsTwox64Concat s then PushByte 4
      else failM (ErrorString ''expected storage hasher, but none was set''))"

definition hasher4_ok :: "StorageHasher \<Rightarrow> bool" where
  "hasher4_ok s \<longleftrightarrow>
     s \<in> {no_hasher4\<lparr>h4IsBlake2_128 := True\<rparr>, no_hasher4\<lparr>h4IsBlake2_256 := True\<rparr>,
          no_hasher4\<lparr>h4IsTwox128 := True\<rparr>, no_hasher4\<lparr>h4IsTwox256 := True\<rparr>,
          no_hasher4\<lparr>h4IsTwox64Concat := True\<rparr>}"

interpretation hasherV4: scale_codec StorageHasher_Encode StorageHasher_Decode hasher4_ok
proof
  fix s
  assume "hasher4_ok s"
  then show "rt (StorageHasher_Encode s) StorageHasher_Decode s"
    unfolding hasher4_ok_def StorageHasher_Decode_def
    by (elim insertE emptyE) (rule rt_tag(1), simp add: StorageHasher_Encode_def no_hasher4_def, simp)+
qed

definition StorageHasher_HashFunc :: "('b, 'x) hash_lib \<Rightarrow> StorageHasher \<Rightarrow> 'b Hash res" where
  "StorageHasher_HashFunc lib s =
     (if h4IsBlake2_128 s then bindR (blake2b_New lib 128 []) (\<lambda>h. Ok (Blake2b h))
      else if h4IsBlake2_256 s then bindR (blake2b_New256 lib []) (\<lambda>h. Ok (Blake2b h))
      else if h4IsTwox128 s then Ok (XX (New128 []))
      else if h4IsTwox256 s then Ok (XX (New256 []))
      else if h4IsTwox64Concat s then Ok (XX (New64Concat []))
      else Err (ErrorString ''hash function type not yet supported''))"

definition StorageHasherV10_HashFunc :: "('b, 'x) hash_lib \<Rightarrow> StorageHasherV10 \<Rightarrow> 'b Hash res" where
  "StorageHasherV10_HashFunc lib s =
     (if IsBlake2_128 s then NewBlake2b128 lib []
      else if IsBlake2_256 s then NewBlake2b256 lib []
      else if IsBlake2_128Concat s then bindR (NewBlake2b128Concat lib []) (\<lambda>h. Ok (Concat128 h))
      else if IsTwox128 s then Ok (XX (New128 []))
      else if IsTwox256 s then Ok (XX (New256 []))
      else if IsTwox64Concat s then Ok (XX (New64Concat []))
      else if IsIdentity s then Ok (Ident (NewIdentity []))
      else Err (ErrorString ''hash function type not yet supported''))"

text \<open>The kind of hash a hasher stands for; version 4 has none for its first flag.\<close>

definition kind4 :: "StorageHasher \<Rightarrow> hash_kind option" where
  "kind4 s =
     (if h4IsBlake2_128 s then None
      else if h4IsBlake2_256 s then Some (KBlake 32)
      else if h4IsTwox128 s then Some (KXX Typ128 2)
      else if h4IsTwox256 s then Some (KXX Typ256 4)
      else if h4IsTwox64Concat s then Some (KXX Typ64Concat 1)
      else None)"

definition kindV10 :: "StorageHasherV10 \<Rightarrow> hash_kind option" where
  "kindV10 s =
     (if IsBlake2_128 s then Some (KBlake 16)
      else if IsBlake2_256 s then Some (KBlake 32)
      else if IsBlake2_128Concat s then Some KBlake128Concat
      else if IsTwox128 s then Some (KXX Typ128 2)
      else if IsTwox256 s then Some (KXX Typ256 4)
      else if IsTwox64Concat s then Some (KXX Typ64Concat 1)
      else if IsIdentity s then Some KIdentity
      else None)"

lemmas new_hash_defs = New64Concat_def New128_def New256_def NewIdentity_def NewBlake2b128_def
  NewBlake2b256_def NewBlake2b128Concat_def

text \<open>A list of hashers asked for their hash functions one by one, the first error ending it.\<close>

fun HashFuncs :: "('h \<Rightarrow> 'b Hash res) \<Rightarrow> 'h list \<Rightarrow> 'b Hash list res" where
  "HashFuncs f [] = Ok []"
| "HashFuncs f (h # hs) = bindR (f h) (\<lambda>x. bindR (HashFuncs f hs) (\<lambda>xs. Ok (x # xs)))"

text \<open>\<open>hash_outcome\<close>: what a kind, if there is one, gives as a fresh hash.\<close>

definition hash_outcome :: "(nat \<Rightarrow> bytes \<Rightarrow> 'b) \<Rightarrow> hash_kind option \<Rightarrow> 'b Hash res \<Rightarrow> bool" where
  "hash_outcome bst ko r \<longleftrightarrow>
     (case ko of Some k \<Rightarrow> r = Ok (hstate bst k []) | None \<Rightarrow> (\<exists>e. r = Err e))"

lemma HashFunc_outcomes:
  assumes "hash_lib_laws lib bst bd xst xd"
  shows HashFunc4_outcome: "hash_outcome bst (kind4 s) (StorageHasher_HashFunc lib s)"
    and HashFuncV10_outcome: "hash_outcome bst (kindV10 t) (StorageHasherV10_HashFunc lib t)"
  using assms
  by (simp_all add: hash_outcome_def kind4_def StorageHasher_HashFunc_def kindV10_def
      StorageHasherV10_HashFunc_def new_hash_defs hash_lib_laws_def)

fun all_some :: "'a option list \<Rightarrow> 'a list option" where
  "all_some [] = Some []"
| "all_some (None # xs) = None"
| "all_some (Some x # xs) = map_option (Cons x) (all_some xs)"

definition hashers_outcome :: "(nat \<Rightarrow> bytes \<Rightarrow> 'b) \<Rightarrow> hash_kind list option \<Rightarrow> 'b Hash list res \<Rightarrow> bool" where
  "hashers_outcome bst ko r \<longleftrightarrow>
     (case ko of Some ks \<Rightarrow> r = Ok (map (\<lambda>k. hstate bst k []) ks) | None \<Rightarrow> (\<exists>e. r = Err e))"

lemma HashFuncs_outcome:
  assumes "\<And>h. hash_outcome bst (kind h) (f h)"
  shows "hashers_outcome bst (all_some (map kind hs)) (HashFuncs f hs)"
proof (induction hs)
  case (Cons h hs)
  then show ?case
    using assms [of h]
    by (auto simp: hashers_outcome_def hash_outcome_def split: option.splits)
qed (simp add: hashers_outcome_def)

lemma HashFuncs_outcomes:
  assumes "hash_lib_laws lib bst bd xst xd"
  shows HashFuncs4_outcome: "hashers_outcome bst (all_some (map kind4 hs)) (HashFuncs (StorageHasher_HashFunc lib) hs)"
    and HashFuncsV10_outcome: "hashers_outcome bst (all_some (map kindV10 hs')) (HashFuncs (StorageHasherV10_HashFunc lib) hs')"
  using HashFunc_outcomes [OF assms] by (auto intro: HashFuncs_outcome)

text \<open>The kinds of a collected list of hashers; a panic of the collector leaves none.\<close>

definition kinds_of :: "('h \<Rightarrow> hash_kind option) \<Rightarrow> 'h list res \<Rightarrow> hash_kind list option" where
  "kinds_of kind r = (case r of Ok hs \<Rightarrow> all_some (map kind hs) | _ \<Rightarrow> None)"

section \<open>The interface of storage entries\<close>

text \<open>A value of interface type \<open>StorageEntryMetadata\<close>: what its four methods return.\<close>

record 'b StorageEntryMetadata =
  se_IsPlain :: bool
  se_Hasher :: "'b Hash res"
  se_IsMap :: bool
  se_Hashers :: "'b Hash list res"

definition DefaultPlainHasher :: "bool \<Rightarrow> 'b Hash res" where
  "DefaultPlainHasher entry_IsPlain =
     (if entry_IsPlain then Ok (XX (New128 []))
      else Err (ErrorString ''Hasher() is only to be called on a Plain entry''))"

section \<open>Creating keys\<close>

definition bytes_of_string :: "string \<Rightarrow> bytes" where
  "bytes_of_string s = map byte_of_char s"

definition createPrefixedKey :: "('b, 'x) hash_lib \<Rightarrow> string \<Rightarrow> string \<Rightarrow> bytes res" where
  "createPrefixedKey lib mthd pfx =
     bindR (xx_Sum lib (New128 (bytes_of_string pfx)) []) (\<lambda>p.
     bindR (xx_Sum lib (New128 (bytes_of_string mthd)) []) (\<lambda>m. Ok (p @ m)))"

text \<open>The loop of \<open>createKeyMap\<close> over the arguments, with the index into the hashers.\<close>

fun createKeyMap_loop :: "('b, 'x) hash_lib \<Rightarrow> 'b Hash list \<Rightarrow> nat \<Rightarrow> bytes list \<Rightarrow> bytes \<Rightarrow> bytes res" where
  "createKeyMap_loop lib hashers i [] key = Ok key"
| "createKeyMap_loop lib hashers i (arg # args) key =
     (if i \<ge> length hashers then Panic ''index out of range''
      else
        (case Hash_Write lib arg (hashers ! i) of
           ((_, Some err), _) \<Rightarrow>
             Err (ErrorString (''unable to hash args['' @ string_of_nat i @ '']: '' @ map char_of_byte arg @
                  '' Error: '' @ error_text err))
         | ((_, None), h) \<Rightarrow>
             bindR (Hash_Sum lib h []) (\<lambda>s. createKeyMap_loop lib hashers (Suc i) args (key @ s))))"

definition createKeyMap ::
  "('b, 'x) hash_lib \<Rightarrow> string \<Rightarrow> string \<Rightarrow> bytes list \<Rightarrow> 'b StorageEntryMetadata \<Rightarrow> bytes res" where
  "createKeyMap lib mthd pfx args entryMeta =
     bindR (se_Hashers entryMeta) (\<lambda>hashers.
     bindR (createPrefixedKey lib mthd pfx) (\<lambda>key.
       createKeyMap_loop lib hashers 0 args key))"

definition createKey ::
  "('b, 'x) hash_lib \<Rightarrow> uint8 \<Rightarrow> string \<Rightarrow> string \<Rightarrow> bytes \<Rightarrow> bytes \<Rightarrow> 'b StorageEntryMetadata \<Rightarrow> bytes res" where
  "createKey lib version mthd pfx stringKey arg entryMeta =
     bindR (se_Hasher entryMeta) (\<lambda>hasher.
       if version \<le> 8 then
         (case Hash_Write lib (stringKey @ arg) hasher of
            ((_, err), h) \<Rightarrow>
              bindR (Hash_Sum lib h []) (\<lambda>s. case err of None \<Rightarrow> Ok s | Some e \<Rightarrow> Err e))
       else bindR (createPrefixedKey lib mthd pfx) (\<lambda>key. Ok (key @ arg)))"

text \<open>The index of the first empty argument, counting from \<open>i\<close>.\<close>

fun first_empty :: "nat \<Rightarrow> bytes list \<Rightarrow> nat option" where
  "first_empty i [] = None"
| "first_empty i (a # as) = (if a = [] then Some i else first_empty (Suc i) as)"

definition validateAndTrimArgs :: "bytes list \<Rightarrow> bytes list res" where
  "validateAndTrimArgs args =
     (case first_empty 0 args of
        None \<Rightarrow> Ok args
      | Some n \<Rightarrow>
          if list_ex (\<lambda>a. a \<noteq> []) (drop n args)
          then Err (ErrorString ''non-nil arguments cannot be preceded by nil arguments'')
          else Ok (take n args))"

definition createStorageKey_entry ::
  "('b, 'x) hash_lib \<Rightarrow> uint8 \<Rightarrow> string \<Rightarrow> string \<Rightarrow> bytes list \<Rightarrow> 'b StorageEntryMetadata \<Rightarrow> bytes res" where
  "createStorageKey_entry lib version pfx mthd validatedArgs entryMeta =
     (if se_IsMap entryMeta then
        bindR (wrapR (\<lambda>_. ErrorString (''unable to get hashers for '' @ mthd @ '' map'')) (se_Hashers entryMeta))
          (\<lambda>hashers.
             if length hashers \<noteq> length validatedArgs then
               Err (ErrorString (pfx @ '':'' @ mthd @
                 '' is a map, therefore requires that number of arguments should '' @
                 ''exactly match number of hashers in metadata. '' @
                 ''Expected: '' @ string_of_nat (length hashers) @
                 '', received: '' @ string_of_nat (length validatedArgs)))
             else createKeyMap lib mthd pfx validatedArgs entryMeta)
      else if se_IsPlain entryMeta \<and> length validatedArgs \<noteq> 0 then
        Err (ErrorString (pfx @ '':'' @ mthd @ '' is a plain key, therefore requires no argument. '' @
             ''received: '' @ string_of_nat (length validatedArgs)))
      else createKey lib version mthd pfx (bytes_of_string (pfx @ '' '' @ mthd)) [] entryMeta)"

definition CreateStorageKey_with ::
  "('b, 'x) hash_lib \<Rightarrow> uint8 \<Rightarrow> (string \<Rightarrow> string \<Rightarrow> 'b StorageEntryMetadata res) \<Rightarrow>
   string \<Rightarrow> string \<Rightarrow> bytes list \<Rightarrow> bytes res" where
  "CreateStorageKey_with lib version findEntry pfx mthd args =
     bindR (validateAndTrimArgs args) (\<lambda>validatedArgs.
     bindR (findEntry pfx mthd) (\<lambda>entryMeta.
       createStorageKey_entry lib version pfx mthd validatedArgs entryMeta))"

section \<open>The codec of storage keys\<close>

definition StorageKey_Encode :: "bytes \<Rightarrow> (bytes, unit) goM" where
  "StorageKey_Encode s = Encoder_Write s"

text \<open>
  The loop of \<open>Decode\<close> reads up to the end of the input. Iteration \<open>i\<close> keeps the first \<open>i\<close>
  bytes of the slice and appends the byte, so what the slice held before is overwritten,
  unless the input is empty.
\<close>

lemma ReadOneByte_shrinks: "ReadOneByte input = (Ok b, rest) \<Longrightarrow> length rest < length input"
  by (cases input) auto

function StorageKey_Decode_loop :: "nat \<Rightarrow> bytes \<Rightarrow> (bytes, bytes) goM" where
  "StorageKey_Decode_loop i s input =
     (case ReadOneByte input of
        (Ok b, rest) \<Rightarrow> StorageKey_Decode_loop (Suc i) (take i s @ [b]) rest
      | (Err e, rest) \<Rightarrow> if e = EOF then (Ok s, rest) else (Err e, rest)
      | (Panic p, rest) \<Rightarrow> (Panic p, rest)
      | (OutOfFuel, rest) \<Rightarrow> (OutOfFuel, rest))"
  by pat_completeness auto

termination
  by (relation "measure (\<lambda>(_, _, input). length input)") (auto dest!: ReadOneByte_shrinks [OF sym])

declare StorageKey_Decode_loop.simps [simp del]

definition StorageKey_Decode :: "bytes \<Rightarrow> (bytes, bytes) goM" where
  "StorageKey_Decode s = StorageKey_Decode_loop 0 s"

lemma StorageKey_Decode_loop_eq:
  "length s = i \<Longrightarrow> StorageKey_Decode_loop i s input = (Ok (s @ input), [])"
proof (induction input arbitrary: i s)
  case Nil
  then show ?case by (simp add: StorageKey_Decode_loop.simps)
next
  case (Cons b input)
  then show ?case
    using Cons.IH [of "s @ [b]" "Suc i"] by (simp add: StorageKey_Decode_loop.simps [of _ _ "b # input"])
qed

text \<open>Decoding into a fresh key takes all of the input.\<close>

lemma StorageKey_Decode_fresh: "StorageKey_Decode [] input = (Ok input, [])"
  by (simp add: StorageKey_Decode_def StorageKey_Decode_loop_eq)

interpretation storage_key: tail_codec StorageKey_Encode "StorageKey_Decode []" "\<lambda>_. True"
proof
  fix v :: bytes
  show "\<exists>bs. writes (StorageKey_Encode v) bs \<and> StorageKey_Decode [] bs = (Ok v, [])"
    by (rule exI [of _ v]) (simp add: StorageKey_Encode_def writes_Write StorageKey_Decode_fresh)
qed

section \<open>What a key is\<close>

text \<open>
  The specification: the arguments are usable when the empty ones all come last, and then the
  empty ones are dropped; a key is the hashed prefix and method followed by the digest of each
  argument under its hasher. Up to version 8 a plain key is one hash of both names.
\<close>

definition usable_args :: "bytes list \<Rightarrow> bytes list option" where
  "usable_args args =
     (let kept = takeWhile (\<lambda>a. a \<noteq> []) args in
      if list_all (\<lambda>a. a = []) (drop (length kept) args) then Some kept else None)"

definition twox128 :: "(uint64 \<Rightarrow> bytes \<Rightarrow> bytes) \<Rightarrow> string \<Rightarrow> bytes" where
  "twox128 xd name = xd 0 (bytes_of_string name) @ xd 1 (bytes_of_string name)"

definition map_key ::
  "(nat \<Rightarrow> bytes \<Rightarrow> bytes) \<Rightarrow> (uint64 \<Rightarrow> bytes \<Rightarrow> bytes) \<Rightarrow> string \<Rightarrow> string \<Rightarrow> hash_kind list \<Rightarrow> bytes list \<Rightarrow> bytes" where
  "map_key bd xd pfx mthd ks args =
     twox128 xd pfx @ twox128 xd mthd @ concat (map2 (hdigest bd xd) ks args)"

definition plain_key :: "(uint64 \<Rightarrow> bytes \<Rightarrow> bytes) \<Rightarrow> uint8 \<Rightarrow> string \<Rightarrow> string \<Rightarrow> bytes" where
  "plain_key xd version pfx mthd =
     (if version \<le> 8 then twox128 xd (pfx @ '' '' @ mthd) else twox128 xd pfx @ twox128 xd mthd)"

definition key_spec ::
  "(nat \<Rightarrow> bytes \<Rightarrow> bytes) \<Rightarrow> (uint64 \<Rightarrow> bytes \<Rightarrow> bytes) \<Rightarrow> uint8 \<Rightarrow> string \<Rightarrow> string \<Rightarrow> bytes list \<Rightarrow>
   'b StorageEntryMetadata \<Rightarrow> hash_kind list option \<Rightarrow> bytes option" where
  "key_spec bd xd version pfx mthd args e kinds =
     (case usable_args args of
        None \<Rightarrow> None
      | Some kept \<Rightarrow>
          if se_IsMap e then
            (case kinds of
               Some ks \<Rightarrow> if length kept = length ks then Some (map_key bd xd pfx mthd ks kept) else None
             | None \<Rightarrow> None)
          else if se_IsPlain e \<and> kept = [] then Some (plain_key xd version pfx mthd)
          else None)"

lemma first_empty_eq:
  "first_empty i args =
     (let n = length (takeWhile (\<lambda>a. a \<noteq> []) args) in if n = length args then None else Some (i + n))"
  by (induction i args rule: first_empty.induct) (auto simp: Let_def)

lemma validateAndTrimArgs_usable:
  "validateAndTrimArgs args =
     (case usable_args args of
        Some kept \<Rightarrow> Ok kept
      | None \<Rightarrow> Err (ErrorString ''non-nil arguments cannot be preceded by nil arguments''))"
proof -
  define n where "n = length (takeWhile (\<lambda>a. a \<noteq> []) args)"
  have kept: "takeWhile (\<lambda>a. a \<noteq> []) args = take n args" and "n \<le> length args"
    by (simp_all add: n_def takeWhile_eq_take [symmetric] length_takeWhile_le)
  have trim: "usable_args args = (if list_all (\<lambda>a. a = []) (drop n args) then Some (take n args) else None)"
    using \<open>n \<le> length args\<close> by (simp add: usable_args_def kept min_absorb2)
  have first: "first_empty 0 args = (if n = length args then None else Some n)"
    by (simp add: first_empty_eq n_def Let_def)
  have "list_ex (\<lambda>a. a \<noteq> []) (drop n args) \<longleftrightarrow> \<not> list_all (\<lambda>a. a = []) (drop n args)"
    by (auto simp: list_ex_iff list_all_iff)
  then show ?thesis
    by (simp add: validateAndTrimArgs_def first trim)
qed

lemma usable_args_nonempty: "usable_args args = Some kept \<Longrightarrow> list_all (\<lambda>a. a \<noteq> []) kept"
proof -
  assume "usable_args args = Some kept"
  then have "kept = takeWhile (\<lambda>a. a \<noteq> []) args"
    by (simp add: usable_args_def Let_def split: if_split_asm)
  then show ?thesis by (auto simp: list_all_iff dest: set_takeWhileD)
qed

lemma usable_args_id: "list_all (\<lambda>a. a \<noteq> []) args \<Longrightarrow> usable_args args = Some args"
proof -
  assume "list_all (\<lambda>a. a \<noteq> []) args"
  then have "takeWhile (\<lambda>a. a \<noteq> []) args = args"
    by (simp add: list_all_iff takeWhile_eq_all_conv)
  then show ?thesis unfolding usable_args_def Let_def by (simp only: drop_all order_refl list.pred_inject if_True)
qed

lemma xx_Sum_128:
  assumes "hash_lib_laws lib bst bd xst xd"
  shows "xx_Sum lib (New128 (bytes_of_string s)) [] = Ok (twox128 xd s)"
  by (simp add: xx_Sum_def New128_def twox128_def xx_Sum_loop_eq [OF assms] Typ128_def Typ64Concat_def)

lemma createPrefixedKey_eq:
  assumes "hash_lib_laws lib bst bd xst xd"
  shows "createPrefixedKey lib mthd pfx = Ok (twox128 xd pfx @ twox128 xd mthd)"
  by (simp add: createPrefixedKey_def xx_Sum_128 [OF assms])

lemma createKeyMap_loop_eq:
  assumes "hash_lib_laws lib bst bd xst xd" and "length args + i = length ks"
  shows "createKeyMap_loop lib (map (\<lambda>k. hstate bst k []) ks) i args key =
    Ok (key @ concat (map2 (hdigest bd xd) (drop i ks) args))"
  using assms(2)
proof (induction args arbitrary: i key)
  case (Cons arg args)
  then have "i < length ks" by simp
  then have "drop i ks = ks ! i # drop (Suc i) ks" by (rule Cons_nth_drop_Suc [symmetric])
  then show ?case
    using Cons \<open>i < length ks\<close> by (simp add: hash.write_sum [OF assms(1)])
qed simp

section \<open>Entries keep their contract, and clients get their keys\<close>

text \<open>
  What \<open>CreateStorageKey\<close> relies on: a plain entry has the default hasher, a map entry has one hash per key
  (\<open>ks\<close> names their kinds, or is \<open>None\<close> when a hasher is not supported).
\<close>

locale storage_entry =
  fixes ok :: bool
    and bst :: "nat \<Rightarrow> bytes \<Rightarrow> 'b"
    and iface :: "'e \<Rightarrow> 'b StorageEntryMetadata"
    and ks :: "'e \<Rightarrow> hash_kind list option"
  assumes plain_hasher:
      "ok \<Longrightarrow> \<not> se_IsMap (iface e) \<Longrightarrow> se_Hasher (iface e) = DefaultPlainHasher (se_IsPlain (iface e))"
    and map_hashers: "ok \<Longrightarrow> se_IsMap (iface e) \<Longrightarrow> hashers_outcome bst (ks e) (se_Hashers (iface e))"
begin

lemma map_entry_key:
  assumes laws: ok "hash_lib_laws lib bst bd xst xd"
    and "se_IsMap (iface e)" "ks e = Some kinds" "length args = length kinds"
  shows "createStorageKey_entry lib version pfx mthd args (iface e) = Ok (map_key bd xd pfx mthd kinds args)"
  using assms(3-) map_hashers [OF laws(1), of e]
  by (simp add: createStorageKey_entry_def createKeyMap_def createPrefixedKey_eq [OF laws(2)]
      createKeyMap_loop_eq [OF laws(2)] map_key_def hashers_outcome_def)

lemma map_entry_mismatch:
  assumes ok "se_IsMap (iface e)" "\<And>kinds. ks e = Some kinds \<Longrightarrow> length args \<noteq> length kinds"
  shows "\<exists>err. createStorageKey_entry lib version pfx mthd args (iface e) = Err err"
  using assms map_hashers [OF assms(1), of e]
  by (auto simp: createStorageKey_entry_def hashers_outcome_def split: option.splits)

lemma plain_entry_key:
  assumes laws: ok "hash_lib_laws lib bst bd xst xd"
    and "\<not> se_IsMap (iface e)" "se_IsPlain (iface e)"
  shows "createStorageKey_entry lib version pfx mthd [] (iface e) = Ok (plain_key xd version pfx mthd)"
  using assms(3-) plain_hasher [OF laws(1), of e] xx_Sum_128 [OF laws(2), of "pfx @ '' '' @ mthd"]
  by (simp add: createStorageKey_entry_def createKey_def createPrefixedKey_eq [OF laws(2)] plain_key_def
      DefaultPlainHasher_def xx_Write_def New128_def)

lemma other_entry_error:
  assumes ok "\<not> se_IsMap (iface e)" "se_IsPlain (iface e) \<Longrightarrow> args \<noteq> []"
  shows "\<exists>err. createStorageKey_entry lib version pfx mthd args (iface e) = Err err"
  using assms plain_hasher [OF assms(1), of e]
  by (auto simp: createStorageKey_entry_def createKey_def DefaultPlainHasher_def)

text \<open>All of it in one equation over the specification.\<close>

lemma CreateStorageKey_spec:
  assumes laws: ok "hash_lib_laws lib bst bd xst xd" and found: "findEntry pfx mthd = Ok (iface e)"
  shows "case key_spec bd xd version pfx mthd args (iface e) (ks e) of
      Some key \<Rightarrow> CreateStorageKey_with lib version findEntry pfx mthd args = Ok key
    | None \<Rightarrow> (\<exists>err. CreateStorageKey_with lib version findEntry pfx mthd args = Err err)"
proof (cases "usable_args args")
  case (Some kept)
  show ?thesis
  proof (cases "se_IsMap (iface e)")
    case True
    then show ?thesis
      using Some map_entry_key [OF laws True] map_entry_mismatch [OF laws(1) True]
      by (auto simp: key_spec_def CreateStorageKey_with_def validateAndTrimArgs_usable found
          split: option.splits)
  next
    case False
    then show ?thesis
      using Some plain_entry_key [OF laws False] other_entry_error [OF laws(1) False]
      by (auto simp: key_spec_def CreateStorageKey_with_def validateAndTrimArgs_usable found)
  qed
qed (simp add: key_spec_def CreateStorageKey_with_def validateAndTrimArgs_usable)

end

section \<open>Reading a key back\<close>

text \<open>With reversible hashers a key determines arguments of known lengths.\<close>

lemma map2_digest_injective:
  assumes laws: "hash_lib_laws lib bst bd xst xd"
    and "list_all reversible ks" "list_all2 (\<lambda>a b. length a = length b) args args'"
    and "length args = length ks"
    and "concat (map2 (hdigest bd xd) ks args) = concat (map2 (hdigest bd xd) ks args')"
  shows "args = args'"
  using assms(2-)
proof (induction ks arbitrary: args args')
  case (Cons k ks)
  from Cons.prems(3) obtain a as where "args = a # as" by (cases args) simp_all
  with Cons.prems(2) obtain b bs where *: "args = a # as" "args' = b # bs" "length a = length b"
    "list_all2 (\<lambda>a b. length a = length b) as bs"
    by (simp add: list_all2_Cons1) blast
  have "hdigest bd xd k a @ concat (map2 (hdigest bd xd) ks as) = hdigest bd xd k b @ concat (map2 (hdigest bd xd) ks bs)"
    using Cons.prems(4) unfolding *(1,2) by simp
  moreover have "length (hdigest bd xd k a) = length (hdigest bd xd k b)"
    using * by (simp add: hdigest_length [OF laws])
  ultimately have same: "hdigest bd xd k a = hdigest bd xd k b"
    and rest: "concat (map2 (hdigest bd xd) ks as) = concat (map2 (hdigest bd xd) ks bs)"
    by simp_all
  have rev: "reversible k" "list_all reversible ks" and len: "length as = length ks"
    using Cons.prems(1,3) *(1) by simp_all
  have "as = bs"
    using rev(2) *(4) len rest by (rule Cons.IH)
  moreover have "a = b"
    using hdigest_suffix [OF laws rev(1), of a] unfolding same hdigest_suffix [OF laws rev(1)] by (rule sym)
  ultimately show ?case using * by simp
qed simp

end
