(* ===== verification/Codec.thy ===== *)
theory Codec
  imports StorageKey MetadataV14_Find
begin

text \<open>
  \<open>src/types/codec/codec.go\<close>: encoding to and decoding from byte slices and hex strings, and
  what the code uses of \<open>encoding/hex\<close>. A string is the list of its bytes.
\<close>

section \<open>Hex strings\<close>

text \<open>\<open>fromHexChar\<close> and \<open>DecodeString\<close> of \<open>encoding/hex\<close>; the offending byte is reported as it is.\<close>

definition fromHexChar :: "char \<Rightarrow> nat option" where
  "fromHexChar c =
     (let n = of_char c in
      if 48 \<le> n \<and> n \<le> 57 then Some (n - 48)
      else if 97 \<le> n \<and> n \<le> 102 then Some (n - 87)
      else if 65 \<le> n \<and> n \<le> 70 then Some (n - 55)
      else None)"

definition InvalidByteError :: "char \<Rightarrow> goerror" where
  "InvalidByteError c = ErrorString (''encoding/hex: invalid byte: '' @ [c])"

fun hex_DecodeString :: "string \<Rightarrow> bytes res" where
  "hex_DecodeString [] = Ok []"
| "hex_DecodeString [c] =
     (case fromHexChar c of
        None \<Rightarrow> Err (InvalidByteError c)
      | Some _ \<Rightarrow> Err (ErrorString ''encoding/hex: odd length hex string''))"
| "hex_DecodeString (p # q # s) =
     (case fromHexChar p of
        None \<Rightarrow> Err (InvalidByteError p)
      | Some a \<Rightarrow>
          (case fromHexChar q of
             None \<Rightarrow> Err (InvalidByteError q)
           | Some b \<Rightarrow> bindR (hex_DecodeString s) (\<lambda>bs. Ok (word_of_nat (16 * a + b) # bs))))"

definition hex_EncodeToString :: "bytes \<Rightarrow> string" where
  "hex_EncodeToString bs = concat (map hex_byte bs)"

definition TrimPrefix :: "string \<Rightarrow> string \<Rightarrow> string" where
  "TrimPrefix s p = (if take (length p) s = p then drop (length p) s else s)"

definition HexDecodeString :: "string \<Rightarrow> bytes res" where
  "HexDecodeString s =
     (let s1 = TrimPrefix s ''0x'' in
      let s2 = (if length s1 mod 2 \<noteq> 0 then ''0'' @ s1 else s1) in
      hex_DecodeString s2)"

definition MustHexDecodeString :: "string \<Rightarrow> bytes res" where
  "MustHexDecodeString s = (case HexDecodeString s of Err e \<Rightarrow> Panic (error_text e) | r \<Rightarrow> r)"

definition HexEncodeToString :: "bytes \<Rightarrow> string" where
  "HexEncodeToString b = ''0x'' @ hex_EncodeToString b"

text \<open>The verb \<open>%#x\<close> on a byte slice: nothing at all, not even the prefix, for an empty slice.\<close>

definition Sprintf_x :: "bytes \<Rightarrow> string" where
  "Sprintf_x b = (if b = [] then [] else ''0x'' @ hex_EncodeToString b)"

section \<open>Byte slices\<close>

definition codec_Encode :: "(bytes, unit) goM \<Rightarrow> bytes res" where
  "codec_Encode enc = (case enc [] of (r, buf) \<Rightarrow> bindR r (\<lambda>_. Ok buf))"

definition EncodeToHex :: "(bytes, unit) goM \<Rightarrow> string res" where
  "EncodeToHex enc = bindR (codec_Encode enc) (\<lambda>bz. Ok (Sprintf_x bz))"

definition codec_Decode :: "bytes \<Rightarrow> (bytes, 'a) goM \<Rightarrow> 'a res" where
  "codec_Decode bz dec = fst (dec bz)"

definition DecodeFromHex :: "string \<Rightarrow> (bytes, 'a) goM \<Rightarrow> 'a res" where
  "DecodeFromHex s dec = bindR (HexDecodeString s) (\<lambda>bz. codec_Decode bz dec)"

definition EncodedLength :: "(bytes, unit) goM \<Rightarrow> nat res" where
  "EncodedLength enc = bindR (codec_Encode enc) (\<lambda>bz. Ok (length bz))"

section \<open>Lemmas\<close>

lemma fromHexChar_hex_digit: "n < 16 \<Longrightarrow> fromHexChar (hex_digit n) = Some n"
  by (simp add: fromHexChar_def hex_digit_def Let_def)

lemma hex_byte_value: "word_of_nat (16 * (unat b div 16) + unat b mod 16) = (b :: byte)"
  by simp

lemma hex_DecodeString_byte:
  "hex_DecodeString (hex_byte b @ s) = bindR (hex_DecodeString s) (\<lambda>bs. Ok (b # bs))"
proof -
  have "unat b div 16 < 16" "unat b mod 16 < 16"
    using unat_byte_less [of b] by (simp_all add: div_less_iff_less_mult)
  then show ?thesis by (simp add: hex_byte_def fromHexChar_hex_digit hex_byte_value)
qed

lemma hex_roundtrip: "hex_DecodeString (hex_EncodeToString bs) = Ok bs"
  by (induction bs) (simp_all add: hex_EncodeToString_def hex_DecodeString_byte)

lemma length_hex_EncodeToString: "length (hex_EncodeToString bs) = 2 * length bs"
  by (induction bs) (simp_all add: hex_EncodeToString_def hex_byte_def)

lemma HexDecodeString_encoded [simp]:
  "HexDecodeString (HexEncodeToString bs) = Ok bs" "HexDecodeString (Sprintf_x bs) = Ok bs"
  by (simp_all add: HexDecodeString_def HexEncodeToString_def Sprintf_x_def TrimPrefix_def hex_roundtrip length_hex_EncodeToString)

definition is_hex :: "char \<Rightarrow> bool" where
  "is_hex c \<longleftrightarrow> fromHexChar c \<noteq> None"

lemma hex_DecodeString_Cons2:
  "hex_DecodeString (p # q # s) =
     (if \<not> is_hex p then Err (InvalidByteError p) else if \<not> is_hex q then Err (InvalidByteError q)
      else bindR (hex_DecodeString s) (\<lambda>bs. Ok (word_of_nat (16 * the (fromHexChar p) + the (fromHexChar q)) # bs)))"
  by (auto simp: is_hex_def split: option.split)

lemma hex_DecodeString_outcome:
  "even (length s) \<Longrightarrow> (if list_all is_hex s then \<exists>bs. hex_DecodeString s = Ok bs \<and> length bs = length s div 2
     else \<exists>c\<in>set s. \<not> is_hex c \<and> hex_DecodeString s = Err (InvalidByteError c))"
proof (induction s rule: hex_DecodeString.induct)
  case (3 p q s)
  have "if list_all is_hex s then \<exists>bs. hex_DecodeString s = Ok bs \<and> length bs = length s div 2
     else \<exists>c\<in>set s. \<not> is_hex c \<and> hex_DecodeString s = Err (InvalidByteError c)" if "is_hex p" "is_hex q"
  proof -
    note hex = that
    obtain a b where "fromHexChar p = Some a" "fromHexChar q = Some b" using hex by (auto simp: is_hex_def)
    from "3.IH" [OF this] "3.prems" show ?thesis by simp
  qed
  then show ?case unfolding hex_DecodeString_Cons2 by (cases "list_all is_hex s") force+
qed simp_all

text \<open>A codec of the library is a codec of hex strings.\<close>

context tail_codec
begin

lemma hex_codec:
  assumes "valid v"
  shows "\<exists>s. EncodeToHex (enc v) = Ok s \<and> DecodeFromHex s dec = Ok v"
proof -
  obtain bs where w: "enc v [] = (Ok (), bs)" "writes (enc v) bs"
    using assms by (metis append_Nil writesD tail_roundtrip)
  then show ?thesis
    using decode_written [OF assms w(2)]
    by (simp add: EncodeToHex_def codec_Encode_def DecodeFromHex_def codec_Decode_def)
qed

end

section \<open>Raw data\<close>

text \<open>
  \<open>Data\<close> (\<open>src/types/data.go\<close>), \<open>StorageDataRaw\<close> (\<open>src/types/storage_data_raw.go\<close>) and \<open>Args\<close>
  (\<open>src/types/extrinsic.go\<close>) write themselves without a length and read up to the end of the
  input, by the loop of \<open>StorageKey\<close>. \<open>BytesBare\<close> (\<open>src/types/bytes.go\<close>) cannot be decoded.
\<close>

definition Data_Encode :: "bytes \<Rightarrow> (bytes, unit) goM" where "Data_Encode d = Encoder_Write d"
definition Data_Decode :: "bytes \<Rightarrow> (bytes, bytes) goM" where "Data_Decode d = StorageKey_Decode_loop 0 d"
definition StorageDataRaw_Encode :: "bytes \<Rightarrow> (bytes, unit) goM" where "StorageDataRaw_Encode s = Encoder_Write s"
definition StorageDataRaw_Decode :: "bytes \<Rightarrow> (bytes, bytes) goM" where "StorageDataRaw_Decode s = StorageKey_Decode_loop 0 s"
definition Args_Encode :: "bytes \<Rightarrow> (bytes, unit) goM" where "Args_Encode a = Encoder_Write a"
definition Args_Decode :: "bytes \<Rightarrow> (bytes, bytes) goM" where "Args_Decode a = StorageKey_Decode_loop 0 a"
definition BytesBare_Encode :: "bytes \<Rightarrow> (bytes, unit) goM" where "BytesBare_Encode b = Encoder_Write b"

definition BytesBare_Decode :: "(bytes, bytes) goM" where
  "BytesBare_Decode = failM (ErrorString ''decoding of BytesBare is not supported'')"

lemma tail_codec_raw: "tail_codec Encoder_Write (StorageKey_Decode_loop 0 []) (\<lambda>_. True)"
  using storage_key.tail_codec_axioms
  by (simp add: StorageKey_Encode_def [abs_def] StorageKey_Decode_def [abs_def])

interpretation data: tail_codec Data_Encode "Data_Decode []" "\<lambda>_. True"
  using tail_codec_raw by (simp add: Data_Encode_def [abs_def] Data_Decode_def)

interpretation storage_data_raw: tail_codec StorageDataRaw_Encode "StorageDataRaw_Decode []" "\<lambda>_. True"
  using tail_codec_raw by (simp add: StorageDataRaw_Encode_def [abs_def] StorageDataRaw_Decode_def)

interpretation args: tail_codec Args_Encode "Args_Decode []" "\<lambda>_. True"
  using tail_codec_raw by (simp add: Args_Encode_def [abs_def] Args_Decode_def)

section \<open>Properties\<close>

text \<open>
  Decoding a hex string succeeds exactly when every character after an optional \<open>0x\<close> is a
  hex digit, with an odd digit at the front standing for a byte of its own, and an error names
  a character that is not; it is inverse to both ways of printing bytes, the one that leaves
  the prefix of an empty slice out included.\<close>

theorem hex_string_codec:
  "(let t = TrimPrefix s ''0x'' in
    if list_all is_hex t then \<exists>bs. HexDecodeString s = Ok bs \<and> length bs = (length t + 1) div 2
    else \<exists>c\<in>set t. \<not> is_hex c \<and> HexDecodeString s = Err (InvalidByteError c)) \<and>
   HexDecodeString (HexEncodeToString bs) = Ok bs \<and> HexDecodeString (Sprintf_x bs) = Ok bs"
proof -
  let ?t = "TrimPrefix s ''0x''"
  let ?u = "if length ?t mod 2 \<noteq> 0 then ''0'' @ ?t else ?t"
  have zero: "is_hex CHR ''0''" by (simp add: is_hex_def fromHexChar_def)
  have "even (length ?u)" by (simp add: even_iff_mod_2_eq_zero) presburger
  note o = hex_DecodeString_outcome [OF this]
  have len: "length ?u div 2 = (length ?t + 1) div 2" by simp presburger
  have u: "HexDecodeString s = hex_DecodeString ?u" "list_all is_hex ?u \<longleftrightarrow> list_all is_hex ?t"
    using zero by (simp_all add: HexDecodeString_def Let_def)
  have bad: "\<exists>c\<in>set ?t. \<not> is_hex c \<and> P c" if "\<exists>c\<in>set ?u. \<not> is_hex c \<and> P c" for P
    using that zero by (auto split: if_splits)
  show ?thesis
  proof (cases "list_all is_hex ?t")
    case True
    then show ?thesis using o len unfolding u Let_def by (simp only: if_True HexDecodeString_encoded simp_thms)
  next
    case False
    then show ?thesis using o bad unfolding u Let_def by (simp only: if_False HexDecodeString_encoded simp_thms)
  qed
qed

end
