(* ===== verification/MetadataModules.thy ===== *)
theory MetadataModules
  imports MetadataV14_Find StorageKey
begin

text \<open>
  What the metadata of the versions 4 to 13 have in common: the parts of a module that did not
  change (functions, events, constants, errors: \<open>FunctionMetadataV4\<close>, \<open>EventMetadataV4\<close>,
  \<open>ModuleConstantMetadataV6\<close>, \<open>ErrorMetadataV8\<close>) with their codecs, and the searches through the
  modules, whose loops the versions repeat over their own module types. A loop is written once
  over the fields it reads; each version instantiates it.
\<close>

section \<open>Functions, events, constants, errors\<close>

record FunctionArgumentMetadata =
  faName :: string
  faType :: string

record FunctionMetadataV4 =
  fnName :: string
  fnArgs :: "FunctionArgumentMetadata list"
  fnDocumentation :: "string list"

record EventMetadataV4 =
  evName :: string
  evArgs :: "string list"
  evDocumentation :: "string list"

record ModuleConstantMetadataV6 =
  mcName :: string
  mcType :: string
  mcValue :: bytes
  mcDocumentation :: "string list"

record ErrorMetadataV8 =
  erName :: string
  erDocumentation :: "string list"

definition FunctionArgumentMetadata_Encode :: "FunctionArgumentMetadata \<Rightarrow> (bytes, unit) goM" where
  "FunctionArgumentMetadata_Encode a =
     seqM (fieldE (Text_Encode (faName a))) (fieldE (Text_Encode (faType a)))"

definition FunctionArgumentMetadata_Decode :: "(bytes, FunctionArgumentMetadata) goM" where
  "FunctionArgumentMetadata_Decode =
     bindM (fieldD Text_Decode) (\<lambda>n. bindM (fieldD Text_Decode) (\<lambda>t. retM \<lparr>faName = n, faType = t\<rparr>))"

definition FunctionMetadataV4_Encode :: "FunctionMetadataV4 \<Rightarrow> (bytes, unit) goM" where
  "FunctionMetadataV4_Encode f =
     seqM (fieldE (Text_Encode (fnName f)))
    (seqM (fieldE (Encode_slice FunctionArgumentMetadata_Encode (fnArgs f)))
          (fieldE (Encode_slice Text_Encode (fnDocumentation f))))"

definition FunctionMetadataV4_Decode :: "(bytes, FunctionMetadataV4) goM" where
  "FunctionMetadataV4_Decode =
     bindM (fieldD Text_Decode) (\<lambda>n.
     bindM (fieldD (Decode_slice FunctionArgumentMetadata_Decode)) (\<lambda>as.
     bindM (fieldD (Decode_slice Text_Decode)) (\<lambda>ds.
       retM \<lparr>fnName = n, fnArgs = as, fnDocumentation = ds\<rparr>)))"

definition EventMetadataV4_Encode :: "EventMetadataV4 \<Rightarrow> (bytes, unit) goM" where
  "EventMetadataV4_Encode e =
     seqM (fieldE (Text_Encode (evName e)))
    (seqM (fieldE (Encode_slice Text_Encode (evArgs e)))
          (fieldE (Encode_slice Text_Encode (evDocumentation e))))"

definition EventMetadataV4_Decode :: "(bytes, EventMetadataV4) goM" where
  "EventMetadataV4_Decode =
     bindM (fieldD Text_Decode) (\<lambda>n.
     bindM (fieldD (Decode_slice Text_Decode)) (\<lambda>as.
     bindM (fieldD (Decode_slice Text_Decode)) (\<lambda>ds.
       retM \<lparr>evName = n, evArgs = as, evDocumentation = ds\<rparr>)))"

definition ModuleConstantMetadataV6_Encode :: "ModuleConstantMetadataV6 \<Rightarrow> (bytes, unit) goM" where
  "ModuleConstantMetadataV6_Encode c =
     seqM (fieldE (Text_Encode (mcName c)))
    (seqM (fieldE (Text_Encode (mcType c)))
    (seqM (fieldE (Encode_slice Encode_byte (mcValue c)))
          (fieldE (Encode_slice Text_Encode (mcDocumentation c)))))"

definition ModuleConstantMetadataV6_Decode :: "(bytes, ModuleConstantMetadataV6) goM" where
  "ModuleConstantMetadataV6_Decode =
     bindM (fieldD Text_Decode) (\<lambda>n.
     bindM (fieldD Text_Decode) (\<lambda>t.
     bindM (fieldD (Decode_slice Decode_byte)) (\<lambda>v.
     bindM (fieldD (Decode_slice Text_Decode)) (\<lambda>ds.
       retM \<lparr>mcName = n, mcType = t, mcValue = v, mcDocumentation = ds\<rparr>))))"

definition ErrorMetadataV8_Encode :: "ErrorMetadataV8 \<Rightarrow> (bytes, unit) goM" where
  "ErrorMetadataV8_Encode e =
     seqM (fieldE (Text_Encode (erName e))) (fieldE (Encode_slice Text_Encode (erDocumentation e)))"

definition ErrorMetadataV8_Decode :: "(bytes, ErrorMetadataV8) goM" where
  "ErrorMetadataV8_Decode =
     bindM (fieldD Text_Decode) (\<lambda>n. bindM (fieldD (Decode_slice Text_Decode)) (\<lambda>ds.
       retM \<lparr>erName = n, erDocumentation = ds\<rparr>))"

definition argument_ok :: "FunctionArgumentMetadata \<Rightarrow> bool" where
  "argument_ok a \<longleftrightarrow> text_ok (faName a) \<and> text_ok (faType a)"

definition function_ok :: "FunctionMetadataV4 \<Rightarrow> bool" where
  "function_ok f \<longleftrightarrow> text_ok (fnName f) \<and> slice_ok argument_ok (fnArgs f) \<and> slice_ok text_ok (fnDocumentation f)"

definition event_ok :: "EventMetadataV4 \<Rightarrow> bool" where
  "event_ok e \<longleftrightarrow> text_ok (evName e) \<and> slice_ok text_ok (evArgs e) \<and> slice_ok text_ok (evDocumentation e)"

definition constant6_ok :: "ModuleConstantMetadataV6 \<Rightarrow> bool" where
  "constant6_ok c \<longleftrightarrow> text_ok (mcName c) \<and> text_ok (mcType c) \<and> slice_ok (\<lambda>_. True) (mcValue c) \<and>
     slice_ok text_ok (mcDocumentation c)"

definition error8_ok :: "ErrorMetadataV8 \<Rightarrow> bool" where
  "error8_ok e \<longleftrightarrow> text_ok (erName e) \<and> slice_ok text_ok (erDocumentation e)"

interpretation argument: scale_codec FunctionArgumentMetadata_Encode FunctionArgumentMetadata_Decode argument_ok
proof
  fix a
  assume "argument_ok a"
  then show "rt (FunctionArgumentMetadata_Encode a) FunctionArgumentMetadata_Decode a"
    unfolding FunctionArgumentMetadata_Encode_def FunctionArgumentMetadata_Decode_def
    by (cases a, intro rt_struct) (rule leaf_roundtrips, simp add: argument_ok_def, simp?)+
qed

interpretation arguments: scale_codec "Encode_slice FunctionArgumentMetadata_Encode"
  "Decode_slice FunctionArgumentMetadata_Decode" "slice_ok argument_ok"
  by (rule slice_contract) (rule argument.scale_codec_axioms)

interpretation functionV4: scale_codec FunctionMetadataV4_Encode FunctionMetadataV4_Decode function_ok
proof
  fix f
  assume "function_ok f"
  then show "rt (FunctionMetadataV4_Encode f) FunctionMetadataV4_Decode f"
    unfolding FunctionMetadataV4_Encode_def FunctionMetadataV4_Decode_def
    by (cases f, intro rt_struct) (rule leaf_roundtrips arguments.roundtrip, simp add: function_ok_def, simp?)+
qed

interpretation eventV4: scale_codec EventMetadataV4_Encode EventMetadataV4_Decode event_ok
proof
  fix e
  assume "event_ok e"
  then show "rt (EventMetadataV4_Encode e) EventMetadataV4_Decode e"
    unfolding EventMetadataV4_Encode_def EventMetadataV4_Decode_def
    by (cases e, intro rt_struct) (rule leaf_roundtrips, simp add: event_ok_def, simp?)+
qed

interpretation constantV6: scale_codec ModuleConstantMetadataV6_Encode ModuleConstantMetadataV6_Decode constant6_ok
proof
  fix c
  assume "constant6_ok c"
  then show "rt (ModuleConstantMetadataV6_Encode c) ModuleConstantMetadataV6_Decode c"
    unfolding ModuleConstantMetadataV6_Encode_def ModuleConstantMetadataV6_Decode_def
    by (cases c, intro rt_struct) (rule leaf_roundtrips, simp add: constant6_ok_def, simp?)+
qed

interpretation errorV8: scale_codec ErrorMetadataV8_Encode ErrorMetadataV8_Decode error8_ok
proof
  fix e
  assume "error8_ok e"
  then show "rt (ErrorMetadataV8_Encode e) ErrorMetadataV8_Decode e"
    unfolding ErrorMetadataV8_Encode_def ErrorMetadataV8_Decode_def
    by (cases e, intro rt_struct) (rule leaf_roundtrips, simp add: error8_ok_def, simp?)+
qed

interpretation functionsV4: scale_codec "Encode_slice FunctionMetadataV4_Encode"
  "Decode_slice FunctionMetadataV4_Decode" "slice_ok function_ok"
  by (rule slice_contract) (rule functionV4.scale_codec_axioms)

interpretation eventsV4: scale_codec "Encode_slice EventMetadataV4_Encode"
  "Decode_slice EventMetadataV4_Decode" "slice_ok event_ok"
  by (rule slice_contract) (rule eventV4.scale_codec_axioms)

interpretation constantsV6: scale_codec "Encode_slice ModuleConstantMetadataV6_Encode"
  "Decode_slice ModuleConstantMetadataV6_Decode" "slice_ok constant6_ok"
  by (rule slice_contract) (rule constantV6.scale_codec_axioms)

interpretation errorsV8: scale_codec "Encode_slice ErrorMetadataV8_Encode"
  "Decode_slice ErrorMetadataV8_Decode" "slice_ok error8_ok"
  by (rule slice_contract) (rule errorV8.scale_codec_axioms)

lemmas module_roundtrips = leaf_roundtrips bool.roundtrip modifier.roundtrip hasherV4.roundtrip hasherV10.roundtrip
  constantsV6.roundtrip errorsV8.roundtrip
  option_contract [OF functionsV4.scale_codec_axioms] option_contract [OF eventsV4.scale_codec_axioms]

text \<open>A tag the encoder pushes and the decoder reads as an 8-bit integer.\<close>

lemma rt_word_tag:
  assumes "e = seqM (PushByte b) e'" and "f b = d" and "rt e' d v"
  shows "rt e (bindM (Decode_word Uint8) f) v"
  unfolding assms(1)
proof (rule rt_seqM)
  show "rt (PushByte b) (Decode_word Uint8) b"
    by (rule rtI [of _ "[b]"]) (simp_all add: writes_PushByte reads_def Decode_word_Uint8_Cons)
  show "rt e' (f b) v"
    using assms(2,3) by simp
qed

section \<open>Searching for calls and events\<close>

fun position :: "nat \<Rightarrow> string \<Rightarrow> string list \<Rightarrow> nat option" where
  "position i n [] = None"
| "position i n (x # xs) = (if x = n then Some i else position (Suc i) n xs)"

text \<open>
  The body of \<open>FindCallIndex\<close> once the module is found; \<open>s[1]\<close> is also read for the error
  message, so a call without a dot panics even when the module has no calls.
\<close>

definition call_in_module :: "string \<Rightarrow> string list \<Rightarrow> uint8 \<Rightarrow> string \<Rightarrow> string list \<Rightarrow> CallIndex res" where
  "call_in_module call s index modName calls =
     (if length s < 2 then Panic ''index out of range''
      else
        (case position 0 (s ! 1) calls of
           Some ci \<Rightarrow> Ok \<lparr>SectionIndex = index, MethodIndex = word_of_nat ci\<rparr>
         | None \<Rightarrow> Err (ErrorString (''method '' @ s ! 1 @ '' not found within module '' @ modName @
                        '' for call '' @ call))))"

definition call_module_missing :: "string \<Rightarrow> string list \<Rightarrow> CallIndex res" where
  "call_module_missing call s =
     Err (ErrorString (''module '' @ s ! 0 @ '' not found in metadata for call '' @ call))"

text \<open>Versions 4 to 11 count the modules that have calls in an 8-bit integer.\<close>

fun FindCallIndex_counting ::
  "('m \<Rightarrow> bool) \<Rightarrow> ('m \<Rightarrow> string) \<Rightarrow> ('m \<Rightarrow> string list) \<Rightarrow> string \<Rightarrow> string list \<Rightarrow> uint8 \<Rightarrow> 'm list \<Rightarrow> CallIndex res" where
  "FindCallIndex_counting has name calls call s mi [] = call_module_missing call s"
| "FindCallIndex_counting has name calls call s mi (m # ms) =
     (if \<not> has m then FindCallIndex_counting has name calls call s mi ms
      else if name m \<noteq> s ! 0 then FindCallIndex_counting has name calls call s (mi + 1) ms
      else call_in_module call s mi (name m) (calls m))"

text \<open>From version 12 on a module carries its index.\<close>

fun FindCallIndex_indexed ::
  "('m \<Rightarrow> bool) \<Rightarrow> ('m \<Rightarrow> string) \<Rightarrow> ('m \<Rightarrow> string list) \<Rightarrow> ('m \<Rightarrow> uint8) \<Rightarrow> string \<Rightarrow> string list \<Rightarrow> 'm list \<Rightarrow> CallIndex res" where
  "FindCallIndex_indexed has name calls index call s [] = call_module_missing call s"
| "FindCallIndex_indexed has name calls index call s (m # ms) =
     (if \<not> has m then FindCallIndex_indexed has name calls index call s ms
      else if name m \<noteq> s ! 0 then FindCallIndex_indexed has name calls index call s ms
      else call_in_module call s (index m) (name m) (calls m))"

definition event_in_module :: "uint8 \<Rightarrow> string \<Rightarrow> string \<Rightarrow> string list \<Rightarrow> (string \<times> string) res" where
  "event_in_module ei modName result events =
     (if unat ei \<ge> length events then
        Err (ErrorString (''event index '' @ string_of_nat (unat ei) @ '' for module '' @ modName @ '' out of range''))
      else Ok (result, events ! unat ei))"

definition event_module_missing :: "uint8 \<Rightarrow> (string \<times> string) res" where
  "event_module_missing mi = Err (ErrorString (''module index '' @ string_of_nat (unat mi) @ '' out of range''))"

text \<open>\<open>result\<close> is the field returned as the module's name: version 4 returns the prefix.\<close>

fun FindEventNames_counting ::
  "('m \<Rightarrow> bool) \<Rightarrow> ('m \<Rightarrow> string) \<Rightarrow> ('m \<Rightarrow> string) \<Rightarrow> ('m \<Rightarrow> string list) \<Rightarrow> uint8 \<times> uint8 \<Rightarrow> uint8 \<Rightarrow> 'm list \<Rightarrow>
   (string \<times> string) res" where
  "FindEventNames_counting has name result events ev mi [] = event_module_missing (fst ev)"
| "FindEventNames_counting has name result events ev mi (m # ms) =
     (if \<not> has m then FindEventNames_counting has name result events ev mi ms
      else if mi \<noteq> fst ev then FindEventNames_counting has name result events ev (mi + 1) ms
      else event_in_module (snd ev) (name m) (result m) (events m))"

fun FindEventNames_indexed ::
  "('m \<Rightarrow> bool) \<Rightarrow> ('m \<Rightarrow> string) \<Rightarrow> ('m \<Rightarrow> string list) \<Rightarrow> ('m \<Rightarrow> uint8) \<Rightarrow> uint8 \<times> uint8 \<Rightarrow> 'm list \<Rightarrow>
   (string \<times> string) res" where
  "FindEventNames_indexed has name events index ev [] = event_module_missing (fst ev)"
| "FindEventNames_indexed has name events index ev (m # ms) =
     (if \<not> has m then FindEventNames_indexed has name events index ev ms
      else if index m \<noteq> fst ev then FindEventNames_indexed has name events index ev ms
      else event_in_module (snd ev) (name m) (name m) (events m))"

section \<open>Searching for storage entries, constants and modules\<close>

fun first_named :: "('e \<Rightarrow> string) \<Rightarrow> string \<Rightarrow> 'e list \<Rightarrow> 'e option" where
  "first_named name n [] = None"
| "first_named name n (e # es) = (if name e = n then Some e else first_named name n es)"

fun FindStorageEntry_in ::
  "('m \<Rightarrow> bool) \<Rightarrow> ('m \<Rightarrow> string) \<Rightarrow> ('m \<Rightarrow> 'e list) \<Rightarrow> ('e \<Rightarrow> string) \<Rightarrow> string \<Rightarrow> string \<Rightarrow> 'm list \<Rightarrow> 'e res" where
  "FindStorageEntry_in has pfx items name module fn [] =
     Err (ErrorString (''module '' @ module @ '' not found in metadata''))"
| "FindStorageEntry_in has pfx items name module fn (m # ms) =
     (if \<not> has m then FindStorageEntry_in has pfx items name module fn ms
      else if pfx m \<noteq> module then FindStorageEntry_in has pfx items name module fn ms
      else
        (case first_named name fn (items m) of
           Some e \<Rightarrow> Ok e
         | None \<Rightarrow> Err (ErrorString (''storage '' @ fn @ '' not found within module '' @ module))))"

text \<open>The constants of one module; \<open>ModuleMetadataV10.FindConstantValue\<close> reports the name.\<close>

definition module_constant :: "ModuleConstantMetadataV6 list \<Rightarrow> string \<Rightarrow> bytes res" where
  "module_constant cs c =
     (case first_named mcName c cs of
        Some k \<Rightarrow> Ok (mcValue k)
      | None \<Rightarrow> Err (ErrorString (''could not find constant '' @ c)))"

fun FindConstantValue_in ::
  "('m \<Rightarrow> string) \<Rightarrow> ('m \<Rightarrow> ModuleConstantMetadataV6 list) \<Rightarrow> string \<Rightarrow> string \<Rightarrow> 'm list \<Rightarrow> bytes res" where
  "FindConstantValue_in name consts module c [] =
     Err (ErrorString (''could not find constant '' @ module @ ''.'' @ c))"
| "FindConstantValue_in name consts module c (m # ms) =
     (if name m = module then
        (case module_constant (consts m) c of
           Ok v \<Rightarrow> Ok v
         | _ \<Rightarrow> FindConstantValue_in name consts module c ms)
      else FindConstantValue_in name consts module c ms)"

definition ExistsModule_in :: "('m \<Rightarrow> string) \<Rightarrow> string \<Rightarrow> 'm list \<Rightarrow> bool" where
  "ExistsModule_in name module ms = list_ex (\<lambda>m. name m = module) ms"

section \<open>The tables the searches go through\<close>

text \<open>
  A search through modules is a search through a table of the modules that count: their index,
  name and items. \<open>numbered_from\<close> gives the counting versions their indices, modulo 256.
\<close>

fun numbered_from :: "uint8 \<Rightarrow> 'a list \<Rightarrow> (uint8 \<times> 'a) list" where
  "numbered_from i [] = []"
| "numbered_from i (x # xs) = (i, x) # numbered_from (i + 1) xs"

fun call_in_table :: "string \<Rightarrow> string list \<Rightarrow> (uint8 \<times> string \<times> string list) list \<Rightarrow> CallIndex res" where
  "call_in_table call s [] = call_module_missing call s"
| "call_in_table call s ((i, n, cs) # t) =
     (if n \<noteq> s ! 0 then call_in_table call s t else call_in_module call s i n cs)"

fun event_in_table :: "uint8 \<times> uint8 \<Rightarrow> (uint8 \<times> string \<times> string \<times> string list) list \<Rightarrow> (string \<times> string) res" where
  "event_in_table ev [] = event_module_missing (fst ev)"
| "event_in_table ev ((i, n, r, es) # t) =
     (if i \<noteq> fst ev then event_in_table ev t else event_in_module (snd ev) n r es)"

lemma FindCallIndex_counting_table:
  "FindCallIndex_counting has name calls call s mi ms =
     call_in_table call s (numbered_from mi (map (\<lambda>m. (name m, calls m)) (filter has ms)))"
  by (induction ms arbitrary: mi) auto

lemma FindCallIndex_indexed_table:
  "FindCallIndex_indexed has name calls index call s ms =
     call_in_table call s (map (\<lambda>m. (index m, name m, calls m)) (filter has ms))"
  by (induction ms) auto

lemma FindEventNames_counting_table:
  "FindEventNames_counting has name result events ev mi ms =
     event_in_table ev (numbered_from mi (map (\<lambda>m. (name m, result m, events m)) (filter has ms)))"
  by (induction ms arbitrary: mi) auto

lemma FindEventNames_indexed_table:
  "FindEventNames_indexed has name events index ev ms =
     event_in_table ev (map (\<lambda>m. (index m, name m, name m, events m)) (filter has ms))"
  by (induction ms) auto

lemma position_nth:
  "distinct xs \<Longrightarrow> k < length xs \<Longrightarrow> position i (xs ! k) xs = Some (i + k)"
  by (induction xs arbitrary: i k) (auto simp: nth_Cons split: nat.splits)

lemma position_sound: "position i n xs = Some j \<Longrightarrow> i \<le> j \<and> j < i + length xs \<and> xs ! (j - i) = n"
  by (induction xs arbitrary: i) (fastforce simp: nth_Cons' split: if_splits)+

lemma position_None: "position i n xs = None \<longleftrightarrow> n \<notin> set xs"
  by (induction xs arbitrary: i) auto

lemma call_in_table_hit:
  assumes "(i, n, cs) \<in> set t" "distinct (map (\<lambda>r. fst (snd r)) t)" "n = s ! 0"
  shows "call_in_table call s t = call_in_module call s i n cs"
  using assms by (induction t) (auto simp: image_iff)

lemma event_in_table_hit:
  assumes "(i, n, r, es) \<in> set t" "distinct (map fst t)" "i = fst ev"
  shows "event_in_table ev t = event_in_module (snd ev) n r es"
  using assms by (induction t) (auto simp: image_iff)

lemma call_in_table_miss: "s ! 0 \<notin> (\<lambda>r. fst (snd r)) ` set t \<Longrightarrow> call_in_table call s t = call_module_missing call s"
  by (induction t) auto

lemma event_in_table_miss: "fst ev \<notin> fst ` set t \<Longrightarrow> event_in_table ev t = event_module_missing (fst ev)"
  by (induction t) auto

section \<open>What every version's metadata promises\<close>

text \<open>
  The interface \<open>Metadata\<close> and the callers use: the two searches, and the tables they go
  through. The lemmas hold for every metadata that keeps the two laws.
\<close>

locale module_metadata =
  fixes findCall :: "'md \<Rightarrow> string \<Rightarrow> CallIndex res"
    and findEvent :: "'md \<Rightarrow> uint8 \<times> uint8 \<Rightarrow> (string \<times> string) res"
    and ctable :: "'md \<Rightarrow> (uint8 \<times> string \<times> string list) list"
    and etable :: "'md \<Rightarrow> (uint8 \<times> string \<times> string \<times> string list) list"
  assumes findCall_table: "findCall md call = call_in_table call (Split (CHR ''.'') call) (ctable md)"
    and findEvent_table: "findEvent md ev = event_in_table ev (etable md)"
begin

lemma call_found:
  assumes "(i, n, cs) \<in> set (ctable md)" "distinct (map (\<lambda>r. fst (snd r)) (ctable md))"
    and "k < length cs" "distinct cs" "CHR ''.'' \<notin> set n" "CHR ''.'' \<notin> set (cs ! k)"
  shows "findCall md (n @ ''.'' @ cs ! k) = Ok \<lparr>SectionIndex = i, MethodIndex = word_of_nat k\<rparr>"
  using call_in_table_hit [OF assms(1,2)] assms(3-)
  by (simp add: findCall_table Split_sep Split_no_sep call_in_module_def position_nth)

lemma call_without_dot:
  assumes "CHR ''.'' \<notin> set call"
  shows "findCall md call =
    (if call \<in> (\<lambda>r. fst (snd r)) ` set (ctable md) then Panic ''index out of range''
     else call_module_missing call [call])"
proof -
  have "call_in_table call [call] t =
    (if call \<in> (\<lambda>r. fst (snd r)) ` set t then Panic ''index out of range'' else call_module_missing call [call])" for t
    by (induction t) (auto simp: call_in_module_def split: if_splits)
  then show ?thesis using assms by (simp add: findCall_table Split_no_sep)
qed

lemma event_found:
  assumes "(i, n, r, es) \<in> set (etable md)" "distinct (map fst (etable md))" "unat j < length es"
  shows "findEvent md (i, j) = Ok (r, es ! unat j)"
  using event_in_table_hit [OF assms(1,2), of "(i, j)"] assms(3)
  by (simp add: findEvent_table event_in_module_def)

lemma event_missing:
  assumes "i \<notin> fst ` set (etable md)"
  shows "findEvent md (i, j) = event_module_missing i"
  using event_in_table_miss [of "(i, j)"] assms by (simp add: findEvent_table)

end

lemma numbered_from_fst: "map fst (numbered_from i xs) = map (\<lambda>k. i + word_of_nat k) [0..<length xs]"
proof (induction xs arbitrary: i)
  case (Cons x xs)
  have "[0..<length (x # xs)] = 0 # map Suc [0..<length xs]"
    by (simp add: upt_conv_Cons map_Suc_upt del: upt_Suc)
  then show ?case by (simp add: Cons.IH o_def algebra_simps del: upt_Suc)
qed simp

lemma numbered_from_snd: "map snd (numbered_from i xs) = xs"
  by (induction xs arbitrary: i) auto

text \<open>With at most 256 modules the counted indices do not repeat.\<close>

lemma numbered_from_distinct:
  assumes "length xs \<le> 256"
  shows "distinct (map fst (numbered_from i xs))"
proof -
  have "inj_on (\<lambda>k. i + word_of_nat k :: uint8) {0..<length xs}"
    using assms by (auto intro!: inj_onI simp: word_of_nat_eq_iff take_bit_nat_eq_self)
  then show ?thesis by (simp add: numbered_from_fst distinct_map)
qed

end
