(* ===== verification/MetadataV4.thy ===== *)
theory MetadataV4
  imports MetadataModules
begin

text \<open>
  Metadata version 4, \<open>src/types/metadataV4.go\<close>: the types with their codecs, the queries and
  the methods of its storage entries.
\<close>

section \<open>Storage entries\<close>

record MapTypeV4 =
  m4Hasher :: StorageHasher
  m4Key :: string
  m4Value :: string
  m4Linked :: bool

record DoubleMapTypeV4 =
  d4Hasher :: StorageHasher
  d4Key1 :: string
  d4Key2 :: string
  d4Value :: string
  d4Key2Hasher :: string

record StorageFunctionTypeV4 =
  t4IsType :: bool
  t4AsType :: string
  t4IsMap :: bool
  t4AsMap :: MapTypeV4
  t4IsDoubleMap :: bool
  t4AsDoubleMap :: DoubleMapTypeV4

record StorageFunctionMetadataV4 =
  s4Name :: string
  s4Modifier :: StorageFunctionModifierV0
  s4Type :: StorageFunctionTypeV4
  s4Fallback :: bytes
  s4Documentation :: "string list"

definition zero_map4 :: MapTypeV4 where
  "zero_map4 = \<lparr>m4Hasher = no_hasher4, m4Key = [], m4Value = [], m4Linked = False\<rparr>"

definition zero_double4 :: DoubleMapTypeV4 where
  "zero_double4 = \<lparr>d4Hasher = no_hasher4, d4Key1 = [], d4Key2 = [], d4Value = [], d4Key2Hasher = []\<rparr>"

definition zero_type4 :: StorageFunctionTypeV4 where
  "zero_type4 = \<lparr>t4IsType = False, t4AsType = [], t4IsMap = False, t4AsMap = zero_map4,
     t4IsDoubleMap = False, t4AsDoubleMap = zero_double4\<rparr>"

definition MapTypeV4_Encode :: "MapTypeV4 \<Rightarrow> (bytes, unit) goM" where
  "MapTypeV4_Encode m =
     seqM (fieldE (StorageHasher_Encode (m4Hasher m)))
    (seqM (fieldE (Text_Encode (m4Key m)))
    (seqM (fieldE (Text_Encode (m4Value m))) (fieldE (Encode_bool (m4Linked m)))))"

definition MapTypeV4_Decode :: "(bytes, MapTypeV4) goM" where
  "MapTypeV4_Decode =
     bindM (fieldD StorageHasher_Decode) (\<lambda>h.
     bindM (fieldD Text_Decode) (\<lambda>k.
     bindM (fieldD Text_Decode) (\<lambda>v.
     bindM (fieldD Decode_bool) (\<lambda>l.
       retM \<lparr>m4Hasher = h, m4Key = k, m4Value = v, m4Linked = l\<rparr>))))"

definition DoubleMapTypeV4_Encode :: "DoubleMapTypeV4 \<Rightarrow> (bytes, unit) goM" where
  "DoubleMapTypeV4_Encode m =
     seqM (fieldE (StorageHasher_Encode (d4Hasher m)))
    (seqM (fieldE (Text_Encode (d4Key1 m)))
    (seqM (fieldE (Text_Encode (d4Key2 m)))
    (seqM (fieldE (Text_Encode (d4Value m))) (fieldE (Text_Encode (d4Key2Hasher m))))))"

definition DoubleMapTypeV4_Decode :: "(bytes, DoubleMapTypeV4) goM" where
  "DoubleMapTypeV4_Decode =
     bindM (fieldD StorageHasher_Decode) (\<lambda>h.
     bindM (fieldD Text_Decode) (\<lambda>k1.
     bindM (fieldD Text_Decode) (\<lambda>k2.
     bindM (fieldD Text_Decode) (\<lambda>v.
     bindM (fieldD Text_Decode) (\<lambda>kh.
       retM \<lparr>d4Hasher = h, d4Key1 = k1, d4Key2 = k2, d4Value = v, d4Key2Hasher = kh\<rparr>)))))"

definition StorageFunctionTypeV4_Decode :: "(bytes, StorageFunctionTypeV4) goM" where
  "StorageFunctionTypeV4_Decode =
     bindM (Decode_word Uint8 :: (bytes, uint8) goM) (\<lambda>t.
       if t = 0 then bindM Text_Decode (\<lambda>x. retM (zero_type4\<lparr>t4IsType := True, t4AsType := x\<rparr>))
       else if t = 1 then bindM MapTypeV4_Decode (\<lambda>m. retM (zero_type4\<lparr>t4IsMap := True, t4AsMap := m\<rparr>))
       else if t = 2 then
         bindM DoubleMapTypeV4_Decode (\<lambda>m. retM (zero_type4\<lparr>t4IsDoubleMap := True, t4AsDoubleMap := m\<rparr>))
       else failM (ErrorString (''received unexpected type '' @ string_of_nat (unat t))))"

definition StorageFunctionTypeV4_Encode :: "StorageFunctionTypeV4 \<Rightarrow> (bytes, unit) goM" where
  "StorageFunctionTypeV4_Encode s =
     (if t4IsType s then seqM (PushByte 0) (Text_Encode (t4AsType s))
      else if t4IsMap s then seqM (PushByte 1) (MapTypeV4_Encode (t4AsMap s))
      else if t4IsDoubleMap s then seqM (PushByte 2) (DoubleMapTypeV4_Encode (t4AsDoubleMap s))
      else failM (ErrorString ''expected to be either type, map or double map, but none was set''))"

definition StorageFunctionMetadataV4_Encode :: "StorageFunctionMetadataV4 \<Rightarrow> (bytes, unit) goM" where
  "StorageFunctionMetadataV4_Encode s =
     seqM (fieldE (Text_Encode (s4Name s)))
    (seqM (fieldE (StorageFunctionModifierV0_Encode (s4Modifier s)))
    (seqM (fieldE (StorageFunctionTypeV4_Encode (s4Type s)))
    (seqM (fieldE (Encode_slice Encode_byte (s4Fallback s)))
          (fieldE (Encode_slice Text_Encode (s4Documentation s))))))"

definition StorageFunctionMetadataV4_Decode :: "(bytes, StorageFunctionMetadataV4) goM" where
  "StorageFunctionMetadataV4_Decode =
     bindM (fieldD Text_Decode) (\<lambda>n.
     bindM (fieldD StorageFunctionModifierV0_Decode) (\<lambda>m.
     bindM (fieldD StorageFunctionTypeV4_Decode) (\<lambda>t.
     bindM (fieldD (Decode_slice Decode_byte)) (\<lambda>f.
     bindM (fieldD (Decode_slice Text_Decode)) (\<lambda>ds.
       retM \<lparr>s4Name = n, s4Modifier = m, s4Type = t, s4Fallback = f, s4Documentation = ds\<rparr>)))))"

section \<open>Modules\<close>

record ModuleMetadataV4 =
  mod4Name :: string
  mod4Prefix :: string
  mod4HasStorage :: bool
  mod4Storage :: "StorageFunctionMetadataV4 list"
  mod4HasCalls :: bool
  mod4Calls :: "FunctionMetadataV4 list"
  mod4HasEvents :: bool
  mod4Events :: "EventMetadataV4 list"

record MetadataV4 =
  Modules4 :: "ModuleMetadataV4 list"

definition ModuleMetadataV4_Decode :: "(bytes, ModuleMetadataV4) goM" where
  "ModuleMetadataV4_Decode =
     bindM Text_Decode (\<lambda>n.
     bindM Text_Decode (\<lambda>p.
     bindM (DecodeOption (Decode_slice StorageFunctionMetadataV4_Decode) []) (\<lambda>(hs, st).
     bindM (DecodeOption (Decode_slice FunctionMetadataV4_Decode) []) (\<lambda>(hc, cs).
     bindM (DecodeOption (Decode_slice EventMetadataV4_Decode) []) (\<lambda>(he, es).
       retM \<lparr>mod4Name = n, mod4Prefix = p, mod4HasStorage = hs, mod4Storage = st, mod4HasCalls = hc,
             mod4Calls = cs, mod4HasEvents = he, mod4Events = es\<rparr>)))))"

definition ModuleMetadataV4_Encode :: "ModuleMetadataV4 \<Rightarrow> (bytes, unit) goM" where
  "ModuleMetadataV4_Encode m =
     seqM (Text_Encode (mod4Name m))
    (seqM (Text_Encode (mod4Prefix m))
    (seqM (EncodeOption (Encode_slice StorageFunctionMetadataV4_Encode) (mod4HasStorage m) (mod4Storage m))
    (seqM (EncodeOption (Encode_slice FunctionMetadataV4_Encode) (mod4HasCalls m) (mod4Calls m))
          (EncodeOption (Encode_slice EventMetadataV4_Encode) (mod4HasEvents m) (mod4Events m)))))"

definition MetadataV4_Decode :: "(bytes, MetadataV4) goM" where
  "MetadataV4_Decode = bindM (Decode_slice ModuleMetadataV4_Decode) (\<lambda>ms. retM \<lparr>Modules4 = ms\<rparr>)"

definition MetadataV4_Encode :: "MetadataV4 \<Rightarrow> (bytes, unit) goM" where
  "MetadataV4_Encode m = Encode_slice ModuleMetadataV4_Encode (Modules4 m)"

section \<open>Queries\<close>

definition V4_FindCallIndex :: "MetadataV4 \<Rightarrow> string \<Rightarrow> CallIndex res" where
  "V4_FindCallIndex m call =
     FindCallIndex_counting mod4HasCalls mod4Name (\<lambda>md. map fnName (mod4Calls md)) call
       (Split (CHR ''.'') call) 0 (Modules4 m)"

definition V4_FindEventNamesForEventID :: "MetadataV4 \<Rightarrow> uint8 \<times> uint8 \<Rightarrow> (string \<times> string) res" where
  "V4_FindEventNamesForEventID m eventID =
     FindEventNames_counting mod4HasEvents mod4Name mod4Prefix (\<lambda>md. map evName (mod4Events md)) eventID 0 (Modules4 m)"

definition V4_FindConstantValue :: "MetadataV4 \<Rightarrow> string \<Rightarrow> string \<Rightarrow> bytes res" where
  "V4_FindConstantValue m module c = Err (ErrorString ''constants are only supported from metadata v6 and up'')"

definition V4_FindStorageEntryMetadata :: "MetadataV4 \<Rightarrow> string \<Rightarrow> string \<Rightarrow> StorageFunctionMetadataV4 res" where
  "V4_FindStorageEntryMetadata m module fn =
     FindStorageEntry_in mod4HasStorage mod4Prefix mod4Storage s4Name module fn (Modules4 m)"

definition V4_ExistsModuleMetadata :: "MetadataV4 \<Rightarrow> string \<Rightarrow> bool" where
  "V4_ExistsModuleMetadata m module = ExistsModule_in mod4Prefix module (Modules4 m)"

section \<open>The methods of a storage entry\<close>

definition V4_IsPlain :: "StorageFunctionMetadataV4 \<Rightarrow> bool" where
  "V4_IsPlain s = t4IsType (s4Type s)"

definition V4_IsMap :: "StorageFunctionMetadataV4 \<Rightarrow> bool" where
  "V4_IsMap s = (t4IsMap (s4Type s) \<or> t4IsDoubleMap (s4Type s))"

definition V4_Hasher :: "('b, 'x) hash_lib \<Rightarrow> StorageFunctionMetadataV4 \<Rightarrow> 'b Hash res" where
  "V4_Hasher lib s =
     (if V4_IsMap s then StorageHasher_HashFunc lib (m4Hasher (t4AsMap (s4Type s)))
      else DefaultPlainHasher (V4_IsPlain s))"

definition V4_Hashers :: "('b, 'x) hash_lib \<Rightarrow> StorageFunctionMetadataV4 \<Rightarrow> 'b Hash list res" where
  "V4_Hashers lib s =
     (if \<not> V4_IsMap s then Err (ErrorString ''Hashers() is only to be called on Maps'')
      else if t4IsDoubleMap (s4Type s) then
        Err (ErrorString (''getting the two hashers of a DoubleMap is not supported for metadata v4. '' @
          ''Please upgrade to use metadata v8 or newer''))
      else bindR (StorageHasher_HashFunc lib (m4Hasher (t4AsMap (s4Type s)))) (\<lambda>hashFn. Ok [hashFn]))"

definition V4_entry :: "('b, 'x) hash_lib \<Rightarrow> StorageFunctionMetadataV4 \<Rightarrow> 'b StorageEntryMetadata" where
  "V4_entry lib s = \<lparr>se_IsPlain = V4_IsPlain s, se_Hasher = V4_Hasher lib s, se_IsMap = V4_IsMap s,
     se_Hashers = V4_Hashers lib s\<rparr>"

definition V4_kinds :: "StorageFunctionMetadataV4 \<Rightarrow> hash_kind list option" where
  "V4_kinds s =
     (if t4IsDoubleMap (s4Type s) then None
      else map_option (\<lambda>k. [k]) (kind4 (m4Hasher (t4AsMap (s4Type s)))))"

section \<open>Contracts\<close>

definition map4_ok :: "MapTypeV4 \<Rightarrow> bool" where
  "map4_ok m \<longleftrightarrow> hasher4_ok (m4Hasher m) \<and> text_ok (m4Key m) \<and> text_ok (m4Value m)"

definition double4_ok :: "DoubleMapTypeV4 \<Rightarrow> bool" where
  "double4_ok m \<longleftrightarrow> hasher4_ok (d4Hasher m) \<and> text_ok (d4Key1 m) \<and> text_ok (d4Key2 m) \<and> text_ok (d4Value m) \<and>
     text_ok (d4Key2Hasher m)"

definition type4_ok :: "StorageFunctionTypeV4 \<Rightarrow> bool" where
  "type4_ok s \<longleftrightarrow>
     (\<exists>t. text_ok t \<and> s = zero_type4\<lparr>t4IsType := True, t4AsType := t\<rparr>) \<or>
     (\<exists>m. map4_ok m \<and> s = zero_type4\<lparr>t4IsMap := True, t4AsMap := m\<rparr>) \<or>
     (\<exists>m. double4_ok m \<and> s = zero_type4\<lparr>t4IsDoubleMap := True, t4AsDoubleMap := m\<rparr>)"

definition storage4_ok :: "StorageFunctionMetadataV4 \<Rightarrow> bool" where
  "storage4_ok s \<longleftrightarrow> text_ok (s4Name s) \<and> modifier_ok (s4Modifier s) \<and> type4_ok (s4Type s) \<and>
     slice_ok (\<lambda>_. True) (s4Fallback s) \<and> slice_ok text_ok (s4Documentation s)"

definition module4_ok :: "ModuleMetadataV4 \<Rightarrow> bool" where
  "module4_ok m \<longleftrightarrow> text_ok (mod4Name m) \<and> text_ok (mod4Prefix m) \<and>
     option_ok (slice_ok storage4_ok) [] (mod4HasStorage m) (mod4Storage m) \<and>
     option_ok (slice_ok function_ok) [] (mod4HasCalls m) (mod4Calls m) \<and>
     option_ok (slice_ok event_ok) [] (mod4HasEvents m) (mod4Events m)"

definition metadata4_ok :: "MetadataV4 \<Rightarrow> bool" where
  "metadata4_ok m \<longleftrightarrow> slice_ok module4_ok (Modules4 m)"

interpretation mapV4: scale_codec MapTypeV4_Encode MapTypeV4_Decode map4_ok
proof
  fix m
  assume "map4_ok m"
  then show "rt (MapTypeV4_Encode m) MapTypeV4_Decode m"
    unfolding MapTypeV4_Encode_def MapTypeV4_Decode_def
    by (cases m, intro rt_struct) (rule module_roundtrips, simp add: map4_ok_def, simp?)+
qed

interpretation doubleV4: scale_codec DoubleMapTypeV4_Encode DoubleMapTypeV4_Decode double4_ok
proof
  fix m
  assume "double4_ok m"
  then show "rt (DoubleMapTypeV4_Encode m) DoubleMapTypeV4_Decode m"
    unfolding DoubleMapTypeV4_Encode_def DoubleMapTypeV4_Decode_def
    by (cases m, intro rt_struct) (rule module_roundtrips, simp add: double4_ok_def, simp?)+
qed

interpretation typeV4: scale_codec StorageFunctionTypeV4_Encode StorageFunctionTypeV4_Decode type4_ok
proof
  fix s
  assume "type4_ok s"
  then show "rt (StorageFunctionTypeV4_Encode s) StorageFunctionTypeV4_Decode s"
    unfolding type4_ok_def StorageFunctionTypeV4_Decode_def
    by (elim disjE exE conjE)
      (rule rt_word_tag, simp add: StorageFunctionTypeV4_Encode_def zero_type4_def, simp,
       intro rt_struct, rule module_roundtrips mapV4.roundtrip doubleV4.roundtrip, simp, simp)+
qed

interpretation storageV4: scale_codec StorageFunctionMetadataV4_Encode StorageFunctionMetadataV4_Decode storage4_ok
proof
  fix s
  assume "storage4_ok s"
  then show "rt (StorageFunctionMetadataV4_Encode s) StorageFunctionMetadataV4_Decode s"
    unfolding StorageFunctionMetadataV4_Encode_def StorageFunctionMetadataV4_Decode_def
    by (cases s, intro rt_struct) (rule module_roundtrips typeV4.roundtrip, simp add: storage4_ok_def, simp?)+
qed

interpretation storagesV4: scale_codec "Encode_slice StorageFunctionMetadataV4_Encode"
  "Decode_slice StorageFunctionMetadataV4_Decode" "slice_ok storage4_ok"
  by (rule slice_contract) (rule storageV4.scale_codec_axioms)

interpretation moduleV4: scale_codec ModuleMetadataV4_Encode ModuleMetadataV4_Decode module4_ok
proof
  fix m
  assume "module4_ok m"
  then show "rt (ModuleMetadataV4_Encode m) ModuleMetadataV4_Decode m"
    unfolding ModuleMetadataV4_Encode_def ModuleMetadataV4_Decode_def
    by (cases m, intro rt_struct)
      (rule module_roundtrips option_contract [OF storagesV4.scale_codec_axioms], simp add: module4_ok_def, simp?)+
qed

interpretation modulesV4: scale_codec "Encode_slice ModuleMetadataV4_Encode"
  "Decode_slice ModuleMetadataV4_Decode" "slice_ok module4_ok"
  by (rule slice_contract) (rule moduleV4.scale_codec_axioms)

interpretation metadataV4: scale_codec MetadataV4_Encode MetadataV4_Decode metadata4_ok
proof
  fix m
  assume "metadata4_ok m"
  then show "rt (MetadataV4_Encode m) MetadataV4_Decode m"
    unfolding MetadataV4_Encode_def MetadataV4_Decode_def
    by (cases m, intro rt_struct) (rule modulesV4.roundtrip, simp add: metadata4_ok_def, simp)
qed

definition V4_ctable :: "MetadataV4 \<Rightarrow> (uint8 \<times> string \<times> string list) list" where
  "V4_ctable m = numbered_from 0 (map (\<lambda>md. (mod4Name md, map fnName (mod4Calls md))) (filter mod4HasCalls (Modules4 m)))"

definition V4_etable :: "MetadataV4 \<Rightarrow> (uint8 \<times> string \<times> string \<times> string list) list" where
  "V4_etable m = numbered_from 0
     (map (\<lambda>md. (mod4Name md, mod4Prefix md, map evName (mod4Events md))) (filter mod4HasEvents (Modules4 m)))"

interpretation lookupV4: module_metadata V4_FindCallIndex V4_FindEventNamesForEventID V4_ctable V4_etable
  by unfold_locales
    (simp_all add: V4_FindCallIndex_def V4_FindEventNamesForEventID_def FindCallIndex_counting_table
      FindEventNames_counting_table V4_ctable_def V4_etable_def)

interpretation entryV4: storage_entry "hash_lib_laws lib bst bd xst xd" bst "V4_entry lib" V4_kinds
  for lib bst bd xst xd
proof
  fix e
  assume laws: "hash_lib_laws lib bst bd xst xd"
  show "\<not> se_IsMap (V4_entry lib e) \<Longrightarrow> se_Hasher (V4_entry lib e) = DefaultPlainHasher (se_IsPlain (V4_entry lib e))"
    by (simp add: V4_entry_def V4_Hasher_def)
  show "se_IsMap (V4_entry lib e) \<Longrightarrow> hashers_outcome bst (V4_kinds e) (se_Hashers (V4_entry lib e))"
    using HashFunc4_outcome [OF laws, of "m4Hasher (t4AsMap (s4Type e))"]
    by (auto simp: V4_entry_def V4_Hashers_def V4_kinds_def hashers_outcome_def hash_outcome_def split: option.splits)
qed

end
