(* ===== verification/MetadataV7.thy ===== *)
theory MetadataV7
  imports MetadataV4
begin

text \<open>
  Metadata versions 7, 8 and 9: \<open>src/types/metadataV7.go\<close>, \<open>src/types/metadataV8.go\<close> and
  \<open>src/types/metadataV9.go\<close>. Version 7 groups the storage entries under a prefix and adds
  constants, version 8 adds errors, version 9 is version 8 under another number.
\<close>

section \<open>Storage entries\<close>

record DoubleMapTypeV5 =
  d5Hasher :: StorageHasher
  d5Key1 :: string
  d5Key2 :: string
  d5Value :: string
  d5Key2Hasher :: StorageHasher

record StorageFunctionTypeV5 =
  t5IsType :: bool
  t5AsType :: string
  t5IsMap :: bool
  t5AsMap :: MapTypeV4
  t5IsDoubleMap :: bool
  t5AsDoubleMap :: DoubleMapTypeV5

record StorageFunctionMetadataV5 =
  s5Name :: string
  s5Modifier :: StorageFunctionModifierV0
  s5Type :: StorageFunctionTypeV5
  s5Fallback :: bytes
  s5Documentation :: "string list"

record StorageMetadata =
  st7Prefix :: string
  st7Items :: "StorageFunctionMetadataV5 list"

definition zero_double5 :: DoubleMapTypeV5 where
  "zero_double5 = \<lparr>d5Hasher = no_hasher4, d5Key1 = [], d5Key2 = [], d5Value = [], d5Key2Hasher = no_hasher4\<rparr>"

definition zero_type5 :: StorageFunctionTypeV5 where
  "zero_type5 = \<lparr>t5IsType = False, t5AsType = [], t5IsMap = False, t5AsMap = zero_map4,
     t5IsDoubleMap = False, t5AsDoubleMap = zero_double5\<rparr>"

definition zero_storage7 :: StorageMetadata where
  "zero_storage7 = \<lparr>st7Prefix = [], st7Items = []\<rparr>"

definition DoubleMapTypeV5_Encode :: "DoubleMapTypeV5 \<Rightarrow> (bytes, unit) goM" where
  "DoubleMapTypeV5_Encode m =
     seqM (fieldE (StorageHasher_Encode (d5Hasher m)))
    (seqM (fieldE (Text_Encode (d5Key1 m)))
    (seqM (fieldE (Text_Encode (d5Key2 m)))
    (seqM (fieldE (Text_Encode (d5Value m))) (fieldE (StorageHasher_Encode (d5Key2Hasher m))))))"

definition DoubleMapTypeV5_Decode :: "(bytes, DoubleMapTypeV5) goM" where
  "DoubleMapTypeV5_Decode =
     bindM (fieldD StorageHasher_Decode) (\<lambda>h.
     bindM (fieldD Text_Decode) (\<lambda>k1.
     bindM (fieldD Text_Decode) (\<lambda>k2.
     bindM (fieldD Text_Decode) (\<lambda>v.
     bindM (fieldD StorageHasher_Decode) (\<lambda>kh.
       retM \<lparr>d5Hasher = h, d5Key1 = k1, d5Key2 = k2, d5Value = v, d5Key2Hasher = kh\<rparr>)))))"

definition StorageFunctionTypeV5_Decode :: "(bytes, StorageFunctionTypeV5) goM" where
  "StorageFunctionTypeV5_Decode =
     bindM (Decode_word Uint8 :: (bytes, uint8) goM) (\<lambda>t.
       if t = 0 then bindM Text_Decode (\<lambda>x. retM (zero_type5\<lparr>t5IsType := True, t5AsType := x\<rparr>))
       else if t = 1 then bindM MapTypeV4_Decode (\<lambda>m. retM (zero_type5\<lparr>t5IsMap := True, t5AsMap := m\<rparr>))
       else if t = 2 then
         bindM DoubleMapTypeV5_Decode (\<lambda>m. retM (zero_type5\<lparr>t5IsDoubleMap := True, t5AsDoubleMap := m\<rparr>))
       else failM (ErrorString (''received unexpected type '' @ string_of_nat (unat t))))"

definition StorageFunctionTypeV5_Encode :: "StorageFunctionTypeV5 \<Rightarrow> (bytes, unit) goM" where
  "StorageFunctionTypeV5_Encode s =
     (if t5IsType s then seqM (PushByte 0) (Text_Encode (t5AsType s))
      else if t5IsMap s then seqM (PushByte 1) (MapTypeV4_Encode (t5AsMap s))
      else if t5IsDoubleMap s then seqM (PushByte 2) (DoubleMapTypeV5_Encode (t5AsDoubleMap s))
      else failM (ErrorString ''expected to be either type, map or double map, but none was set''))"

definition StorageFunctionMetadataV5_Encode :: "StorageFunctionMetadataV5 \<Rightarrow> (bytes, unit) goM" where
  "StorageFunctionMetadataV5_Encode s =
     seqM (fieldE (Text_Encode (s5Name s)))
    (seqM (fieldE (StorageFunctionModifierV0_Encode (s5Modifier s)))
    (seqM (fieldE (StorageFunctionTypeV5_Encode (s5Type s)))
    (seqM (fieldE (Encode_slice Encode_byte (s5Fallback s)))
          (fieldE (Encode_slice Text_Encode (s5Documentation s))))))"

definition StorageFunctionMetadataV5_Decode :: "(bytes, StorageFunctionMetadataV5) goM" where
  "StorageFunctionMetadataV5_Decode =
     bindM (fieldD Text_Decode) (\<lambda>n.
     bindM (fieldD StorageFunctionModifierV0_Decode) (\<lambda>m.
     bindM (fieldD StorageFunctionTypeV5_Decode) (\<lambda>t.
     bindM (fieldD (Decode_slice Decode_byte)) (\<lambda>f.
     bindM (fieldD (Decode_slice Text_Decode)) (\<lambda>ds.
       retM \<lparr>s5Name = n, s5Modifier = m, s5Type = t, s5Fallback = f, s5Documentation = ds\<rparr>)))))"

definition StorageMetadata_Encode :: "StorageMetadata \<Rightarrow> (bytes, unit) goM" where
  "StorageMetadata_Encode s =
     seqM (fieldE (Text_Encode (st7Prefix s))) (fieldE (Encode_slice StorageFunctionMetadataV5_Encode (st7Items s)))"

definition StorageMetadata_Decode :: "(bytes, StorageMetadata) goM" where
  "StorageMetadata_Decode =
     bindM (fieldD Text_Decode) (\<lambda>p. bindM (fieldD (Decode_slice StorageFunctionMetadataV5_Decode)) (\<lambda>is.
       retM \<lparr>st7Prefix = p, st7Items = is\<rparr>))"

section \<open>Modules\<close>

record ModuleMetadataV7 =
  mod7Name :: string
  mod7HasStorage :: bool
  mod7Storage :: StorageMetadata
  mod7HasCalls :: bool
  mod7Calls :: "FunctionMetadataV4 list"
  mod7HasEvents :: bool
  mod7Events :: "EventMetadataV4 list"
  mod7Constants :: "ModuleConstantMetadataV6 list"

record ModuleMetadataV8 =
  mod8Name :: string
  mod8HasStorage :: bool
  mod8Storage :: StorageMetadata
  mod8HasCalls :: bool
  mod8Calls :: "FunctionMetadataV4 list"
  mod8HasEvents :: bool
  mod8Events :: "EventMetadataV4 list"
  mod8Constants :: "ModuleConstantMetadataV6 list"
  mod8Errors :: "ErrorMetadataV8 list"

record MetadataV7 =
  Modules7 :: "ModuleMetadataV7 list"

record MetadataV8 =
  Modules8 :: "ModuleMetadataV8 list"

record MetadataV9 =
  Modules9 :: "ModuleMetadataV8 list"

definition ModuleMetadataV7_Decode :: "(bytes, ModuleMetadataV7) goM" where
  "ModuleMetadataV7_Decode =
     bindM Text_Decode (\<lambda>n.
     bindM (DecodeOption StorageMetadata_Decode zero_storage7) (\<lambda>(hs, st).
     bindM (DecodeOption (Decode_slice FunctionMetadataV4_Decode) []) (\<lambda>(hc, cs).
     bindM (DecodeOption (Decode_slice EventMetadataV4_Decode) []) (\<lambda>(he, es).
     bindM (Decode_slice ModuleConstantMetadataV6_Decode) (\<lambda>ks.
       retM \<lparr>mod7Name = n, mod7HasStorage = hs, mod7Storage = st, mod7HasCalls = hc,
             mod7Calls = cs, mod7HasEvents = he, mod7Events = es, mod7Constants = ks\<rparr>)))))"

definition ModuleMetadataV7_Encode :: "ModuleMetadataV7 \<Rightarrow> (bytes, unit) goM" where
  "ModuleMetadataV7_Encode m =
     seqM (Text_Encode (mod7Name m))
    (seqM (EncodeOption StorageMetadata_Encode (mod7HasStorage m) (mod7Storage m))
    (seqM (EncodeOption (Encode_slice FunctionMetadataV4_Encode) (mod7HasCalls m) (mod7Calls m))
    (seqM (EncodeOption (Encode_slice EventMetadataV4_Encode) (mod7HasEvents m) (mod7Events m))
          (Encode_slice ModuleConstantMetadataV6_Encode (mod7Constants m)))))"

definition ModuleMetadataV8_Decode :: "(bytes, ModuleMetadataV8) goM" where
  "ModuleMetadataV8_Decode =
     bindM Text_Decode (\<lambda>n.
     bindM (DecodeOption StorageMetadata_Decode zero_storage7) (\<lambda>(hs, st).
     bindM (DecodeOption (Decode_slice FunctionMetadataV4_Decode) []) (\<lambda>(hc, cs).
     bindM (DecodeOption (Decode_slice EventMetadataV4_Decode) []) (\<lambda>(he, es).
     bindM (Decode_slice ModuleConstantMetadataV6_Decode) (\<lambda>ks.
     bindM (Decode_slice ErrorMetadataV8_Decode) (\<lambda>ers.
       retM \<lparr>mod8Name = n, mod8HasStorage = hs, mod8Storage = st, mod8HasCalls = hc, mod8Calls = cs,
             mod8HasEvents = he, mod8Events = es, mod8Constants = ks, mod8Errors = ers\<rparr>))))))"

definition ModuleMetadataV8_Encode :: "ModuleMetadataV8 \<Rightarrow> (bytes, unit) goM" where
  "ModuleMetadataV8_Encode m =
     seqM (Text_Encode (mod8Name m))
    (seqM (EncodeOption StorageMetadata_Encode (mod8HasStorage m) (mod8Storage m))
    (seqM (EncodeOption (Encode_slice FunctionMetadataV4_Encode) (mod8HasCalls m) (mod8Calls m))
    (seqM (EncodeOption (Encode_slice EventMetadataV4_Encode) (mod8HasEvents m) (mod8Events m))
    (seqM (Encode_slice ModuleConstantMetadataV6_Encode (mod8Constants m))
          (Encode_slice ErrorMetadataV8_Encode (mod8Errors m))))))"

definition MetadataV7_Decode :: "(bytes, MetadataV7) goM" where
  "MetadataV7_Decode = bindM (Decode_slice ModuleMetadataV7_Decode) (\<lambda>ms. retM \<lparr>Modules7 = ms\<rparr>)"

definition MetadataV7_Encode :: "MetadataV7 \<Rightarrow> (bytes, unit) goM" where
  "MetadataV7_Encode m = Encode_slice ModuleMetadataV7_Encode (Modules7 m)"

definition MetadataV8_Decode :: "(bytes, MetadataV8) goM" where
  "MetadataV8_Decode = bindM (Decode_slice ModuleMetadataV8_Decode) (\<lambda>ms. retM \<lparr>Modules8 = ms\<rparr>)"

definition MetadataV8_Encode :: "MetadataV8 \<Rightarrow> (bytes, unit) goM" where
  "MetadataV8_Encode m = Encode_slice ModuleMetadataV8_Encode (Modules8 m)"

definition MetadataV9_Decode :: "(bytes, MetadataV9) goM" where
  "MetadataV9_Decode = bindM (Decode_slice ModuleMetadataV8_Decode) (\<lambda>ms. retM \<lparr>Modules9 = ms\<rparr>)"

definition MetadataV9_Encode :: "MetadataV9 \<Rightarrow> (bytes, unit) goM" where
  "MetadataV9_Encode m = Encode_slice ModuleMetadataV8_Encode (Modules9 m)"

section \<open>Queries\<close>

definition V7_FindCallIndex :: "MetadataV7 \<Rightarrow> string \<Rightarrow> CallIndex res" where
  "V7_FindCallIndex m call =
     FindCallIndex_counting mod7HasCalls mod7Name (\<lambda>md. map fnName (mod7Calls md)) call
       (Split (CHR ''.'') call) 0 (Modules7 m)"

definition V7_FindEventNamesForEventID :: "MetadataV7 \<Rightarrow> uint8 \<times> uint8 \<Rightarrow> (string \<times> string) res" where
  "V7_FindEventNamesForEventID m eventID =
     FindEventNames_counting mod7HasEvents mod7Name mod7Name (\<lambda>md. map evName (mod7Events md)) eventID 0 (Modules7 m)"

definition V7_FindConstantValue :: "MetadataV7 \<Rightarrow> string \<Rightarrow> string \<Rightarrow> bytes res" where
  "V7_FindConstantValue m module c = FindConstantValue_in mod7Name mod7Constants module c (Modules7 m)"

definition V7_FindStorageEntryMetadata :: "MetadataV7 \<Rightarrow> string \<Rightarrow> string \<Rightarrow> StorageFunctionMetadataV5 res" where
  "V7_FindStorageEntryMetadata m module fn =
     FindStorageEntry_in mod7HasStorage (\<lambda>md. st7Prefix (mod7Storage md)) (\<lambda>md. st7Items (mod7Storage md)) s5Name module fn
       (Modules7 m)"

definition V7_ExistsModuleMetadata :: "MetadataV7 \<Rightarrow> string \<Rightarrow> bool" where
  "V7_ExistsModuleMetadata m module = ExistsModule_in mod7Name module (Modules7 m)"

definition V8_FindCallIndex :: "MetadataV8 \<Rightarrow> string \<Rightarrow> CallIndex res" where
  "V8_FindCallIndex m call =
     FindCallIndex_counting mod8HasCalls mod8Name (\<lambda>md. map fnName (mod8Calls md)) call
       (Split (CHR ''.'') call) 0 (Modules8 m)"

definition V8_FindEventNamesForEventID :: "MetadataV8 \<Rightarrow> uint8 \<times> uint8 \<Rightarrow> (string \<times> string) res" where
  "V8_FindEventNamesForEventID m eventID =
     FindEventNames_counting mod8HasEvents mod8Name mod8Name (\<lambda>md. map evName (mod8Events md)) eventID 0 (Modules8 m)"

definition V8_FindConstantValue :: "MetadataV8 \<Rightarrow> string \<Rightarrow> string \<Rightarrow> bytes res" where
  "V8_FindConstantValue m module c = FindConstantValue_in mod8Name mod8Constants module c (Modules8 m)"

definition V8_FindStorageEntryMetadata :: "MetadataV8 \<Rightarrow> string \<Rightarrow> string \<Rightarrow> StorageFunctionMetadataV5 res" where
  "V8_FindStorageEntryMetadata m module fn =
     FindStorageEntry_in mod8HasStorage (\<lambda>md. st7Prefix (mod8Storage md)) (\<lambda>md. st7Items (mod8Storage md)) s5Name module fn
       (Modules8 m)"

definition V8_ExistsModuleMetadata :: "MetadataV8 \<Rightarrow> string \<Rightarrow> bool" where
  "V8_ExistsModuleMetadata m module = ExistsModule_in mod8Name module (Modules8 m)"

definition V9_FindCallIndex :: "MetadataV9 \<Rightarrow> string \<Rightarrow> CallIndex res" where
  "V9_FindCallIndex m call =
     FindCallIndex_counting mod8HasCalls mod8Name (\<lambda>md. map fnName (mod8Calls md)) call
       (Split (CHR ''.'') call) 0 (Modules9 m)"

definition V9_FindEventNamesForEventID :: "MetadataV9 \<Rightarrow> uint8 \<times> uint8 \<Rightarrow> (string \<times> string) res" where
  "V9_FindEventNamesForEventID m eventID =
     FindEventNames_counting mod8HasEvents mod8Name mod8Name (\<lambda>md. map evName (mod8Events md)) eventID 0 (Modules9 m)"

definition V9_FindConstantValue :: "MetadataV9 \<Rightarrow> string \<Rightarrow> string \<Rightarrow> bytes res" where
  "V9_FindConstantValue m module c = FindConstantValue_in mod8Name mod8Constants module c (Modules9 m)"

definition V9_FindStorageEntryMetadata :: "MetadataV9 \<Rightarrow> string \<Rightarrow> string \<Rightarrow> StorageFunctionMetadataV5 res" where
  "V9_FindStorageEntryMetadata m module fn =
     FindStorageEntry_in mod8HasStorage (\<lambda>md. st7Prefix (mod8Storage md)) (\<lambda>md. st7Items (mod8Storage md)) s5Name module fn
       (Modules9 m)"

definition V9_ExistsModuleMetadata :: "MetadataV9 \<Rightarrow> string \<Rightarrow> bool" where
  "V9_ExistsModuleMetadata m module = ExistsModule_in mod8Name module (Modules9 m)"

section \<open>The methods of a storage entry\<close>

definition V5_IsPlain :: "StorageFunctionMetadataV5 \<Rightarrow> bool" where
  "V5_IsPlain s = t5IsType (s5Type s)"

definition V5_Hasher :: "StorageFunctionMetadataV5 \<Rightarrow> 'b Hash res" where
  "V5_Hasher s = DefaultPlainHasher (V5_IsPlain s)"

definition V5_IsMap :: "StorageFunctionMetadataV5 \<Rightarrow> bool" where
  "V5_IsMap s = (t5IsMap (s5Type s) \<or> t5IsDoubleMap (s5Type s))"

definition collectHashersV5 :: "StorageFunctionTypeV5 \<Rightarrow> StorageHasher list res" where
  "collectHashersV5 x =
     (if t5IsMap x then Ok [m4Hasher (t5AsMap x)]
      else if t5IsDoubleMap x then Ok [d5Hasher (t5AsDoubleMap x), d5Key2Hasher (t5AsDoubleMap x)]
      else Panic ''Unexpexted type'')"

definition V5_Hashers :: "('b, 'x) hash_lib \<Rightarrow> StorageFunctionMetadataV5 \<Rightarrow> 'b Hash list res" where
  "V5_Hashers lib s =
     (if \<not> V5_IsMap s then Err (ErrorString ''Hashers() is only to be called on Maps'')
      else bindR (collectHashersV5 (s5Type s)) (HashFuncs (StorageHasher_HashFunc lib)))"

definition V5_entry :: "('b, 'x) hash_lib \<Rightarrow> StorageFunctionMetadataV5 \<Rightarrow> 'b StorageEntryMetadata" where
  "V5_entry lib s = \<lparr>se_IsPlain = V5_IsPlain s, se_Hasher = V5_Hasher s, se_IsMap = V5_IsMap s,
     se_Hashers = V5_Hashers lib s\<rparr>"

definition V5_kinds :: "StorageFunctionMetadataV5 \<Rightarrow> hash_kind list option" where
  "V5_kinds s = kinds_of kind4 (collectHashersV5 (s5Type s))"

section \<open>Contracts\<close>

definition double5_ok :: "DoubleMapTypeV5 \<Rightarrow> bool" where
  "double5_ok m \<longleftrightarrow> hasher4_ok (d5Hasher m) \<and> text_ok (d5Key1 m) \<and> text_ok (d5Key2 m) \<and> text_ok (d5Value m) \<and>
     hasher4_ok (d5Key2Hasher m)"

definition type5_ok :: "StorageFunctionTypeV5 \<Rightarrow> bool" where
  "type5_ok s \<longleftrightarrow>
     (\<exists>t. text_ok t \<and> s = zero_type5\<lparr>t5IsType := True, t5AsType := t\<rparr>) \<or>
     (\<exists>m. map4_ok m \<and> s = zero_type5\<lparr>t5IsMap := True, t5AsMap := m\<rparr>) \<or>
     (\<exists>m. double5_ok m \<and> s = zero_type5\<lparr>t5IsDoubleMap := True, t5AsDoubleMap := m\<rparr>)"

definition storage5_ok :: "StorageFunctionMetadataV5 \<Rightarrow> bool" where
  "storage5_ok s \<longleftrightarrow> text_ok (s5Name s) \<and> modifier_ok (s5Modifier s) \<and> type5_ok (s5Type s) \<and>
     slice_ok (\<lambda>_. True) (s5Fallback s) \<and> slice_ok text_ok (s5Documentation s)"

definition storage7_ok :: "StorageMetadata \<Rightarrow> bool" where
  "storage7_ok s \<longleftrightarrow> text_ok (st7Prefix s) \<and> slice_ok storage5_ok (st7Items s)"

definition module7_ok :: "ModuleMetadataV7 \<Rightarrow> bool" where
  "module7_ok m \<longleftrightarrow> text_ok (mod7Name m) \<and>
     option_ok storage7_ok zero_storage7 (mod7HasStorage m) (mod7Storage m) \<and>
     option_ok (slice_ok function_ok) [] (mod7HasCalls m) (mod7Calls m) \<and>
     option_ok (slice_ok event_ok) [] (mod7HasEvents m) (mod7Events m) \<and>
     slice_ok constant6_ok (mod7Constants m)"

definition module8_ok :: "ModuleMetadataV8 \<Rightarrow> bool" where
  "module8_ok m \<longleftrightarrow> text_ok (mod8Name m) \<and>
     option_ok storage7_ok zero_storage7 (mod8HasStorage m) (mod8Storage m) \<and>
     option_ok (slice_ok function_ok) [] (mod8HasCalls m) (mod8Calls m) \<and>
     option_ok (slice_ok event_ok) [] (mod8HasEvents m) (mod8Events m) \<and>
     slice_ok constant6_ok (mod8Constants m) \<and> slice_ok error8_ok (mod8Errors m)"

definition metadata7_ok :: "MetadataV7 \<Rightarrow> bool" where
  "metadata7_ok m \<longleftrightarrow> slice_ok module7_ok (Modules7 m)"

definition metadata8_ok :: "MetadataV8 \<Rightarrow> bool" where
  "metadata8_ok m \<longleftrightarrow> slice_ok module8_ok (Modules8 m)"

definition metadata9_ok :: "MetadataV9 \<Rightarrow> bool" where
  "metadata9_ok m \<longleftrightarrow> slice_ok module8_ok (Modules9 m)"

interpretation doubleV5: scale_codec DoubleMapTypeV5_Encode DoubleMapTypeV5_Decode double5_ok
proof
  fix m
  assume "double5_ok m"
  then show "rt (DoubleMapTypeV5_Encode m) DoubleMapTypeV5_Decode m"
    unfolding DoubleMapTypeV5_Encode_def DoubleMapTypeV5_Decode_def
    by (cases m, intro rt_struct) (rule module_roundtrips, simp add: double5_ok_def, simp?)+
qed

interpretation typeV5: scale_codec StorageFunctionTypeV5_Encode StorageFunctionTypeV5_Decode type5_ok
proof
  fix s
  assume "type5_ok s"
  then show "rt (StorageFunctionTypeV5_Encode s) StorageFunctionTypeV5_Decode s"
    unfolding type5_ok_def StorageFunctionTypeV5_Decode_def
    by (elim disjE exE conjE)
      (rule rt_word_tag, simp add: StorageFunctionTypeV5_Encode_def zero_type5_def, simp,
       intro rt_struct, rule module_roundtrips mapV4.roundtrip doubleV5.roundtrip, simp, simp)+
qed

interpretation storageV5: scale_codec StorageFunctionMetadataV5_Encode StorageFunctionMetadataV5_Decode storage5_ok
proof
  fix m
  assume "storage5_ok m"
  then show "rt (StorageFunctionMetadataV5_Encode m) StorageFunctionMetadataV5_Decode m"
    unfolding StorageFunctionMetadataV5_Encode_def StorageFunctionMetadataV5_Decode_def
    by (cases m, intro rt_struct) (rule module_roundtrips typeV5.roundtrip, simp add: storage5_ok_def, simp?)+
qed

interpretation storagesV5: scale_codec "Encode_slice StorageFunctionMetadataV5_Encode" "Decode_slice StorageFunctionMetadataV5_Decode" "slice_ok storage5_ok"
  by (rule slice_contract) (rule storageV5.scale_codec_axioms)

interpretation storageV7: scale_codec StorageMetadata_Encode StorageMetadata_Decode storage7_ok
proof
  fix m
  assume "storage7_ok m"
  then show "rt (StorageMetadata_Encode m) StorageMetadata_Decode m"
    unfolding StorageMetadata_Encode_def StorageMetadata_Decode_def
    by (cases m, intro rt_struct) (rule module_roundtrips storagesV5.roundtrip, simp add: storage7_ok_def, simp?)+
qed

interpretation moduleV7: scale_codec ModuleMetadataV7_Encode ModuleMetadataV7_Decode module7_ok
proof
  fix m
  assume "module7_ok m"
  then show "rt (ModuleMetadataV7_Encode m) ModuleMetadataV7_Decode m"
    unfolding ModuleMetadataV7_Encode_def ModuleMetadataV7_Decode_def
    by (cases m, intro rt_struct) (rule module_roundtrips option_contract [OF storageV7.scale_codec_axioms], simp add: module7_ok_def, simp?)+
qed

interpretation moduleV8: scale_codec ModuleMetadataV8_Encode ModuleMetadataV8_Decode module8_ok
proof
  fix m
  assume "module8_ok m"
  then show "rt (ModuleMetadataV8_Encode m) ModuleMetadataV8_Decode m"
    unfolding ModuleMetadataV8_Encode_def ModuleMetadataV8_Decode_def
    by (cases m, intro rt_struct) (rule module_roundtrips option_contract [OF storageV7.scale_codec_axioms], simp add: module8_ok_def, simp?)+
qed

interpretation modulesV7: scale_codec "Encode_slice ModuleMetadataV7_Encode" "Decode_slice ModuleMetadataV7_Decode" "slice_ok module7_ok"
  by (rule slice_contract) (rule moduleV7.scale_codec_axioms)

interpretation modulesV8: scale_codec "Encode_slice ModuleMetadataV8_Encode" "Decode_slice ModuleMetadataV8_Decode" "slice_ok module8_ok"
  by (rule slice_contract) (rule moduleV8.scale_codec_axioms)

interpretation metadataV7: scale_codec MetadataV7_Encode MetadataV7_Decode metadata7_ok
proof
  fix m
  assume "metadata7_ok m"
  then show "rt (MetadataV7_Encode m) MetadataV7_Decode m"
    unfolding MetadataV7_Encode_def MetadataV7_Decode_def
    by (cases m, intro rt_struct) (rule modulesV7.roundtrip, simp add: metadata7_ok_def, simp?)+
qed

interpretation metadataV8: scale_codec MetadataV8_Encode MetadataV8_Decode metadata8_ok
proof
  fix m
  assume "metadata8_ok m"
  then show "rt (MetadataV8_Encode m) MetadataV8_Decode m"
    unfolding MetadataV8_Encode_def MetadataV8_Decode_def
    by (cases m, intro rt_struct) (rule modulesV8.roundtrip, simp add: metadata8_ok_def, simp?)+
qed

interpretation metadataV9: scale_codec MetadataV9_Encode MetadataV9_Decode metadata9_ok
proof
  fix m
  assume "metadata9_ok m"
  then show "rt (MetadataV9_Encode m) MetadataV9_Decode m"
    unfolding MetadataV9_Encode_def MetadataV9_Decode_def
    by (cases m, intro rt_struct) (rule modulesV8.roundtrip, simp add: metadata9_ok_def, simp?)+
qed

definition V7_ctable :: "MetadataV7 \<Rightarrow> (uint8 \<times> string \<times> string list) list" where
  "V7_ctable m = numbered_from 0 (map (\<lambda>md. (mod7Name md, map fnName (mod7Calls md))) (filter mod7HasCalls (Modules7 m)))"

definition V7_etable :: "MetadataV7 \<Rightarrow> (uint8 \<times> string \<times> string \<times> string list) list" where
  "V7_etable m = numbered_from 0
     (map (\<lambda>md. (mod7Name md, mod7Name md, map evName (mod7Events md))) (filter mod7HasEvents (Modules7 m)))"

interpretation lookupV7: module_metadata V7_FindCallIndex V7_FindEventNamesForEventID V7_ctable V7_etable
  by unfold_locales
    (simp_all add: V7_FindCallIndex_def V7_FindEventNamesForEventID_def FindCallIndex_counting_table
      FindEventNames_counting_table V7_ctable_def V7_etable_def)

definition V8_ctable :: "MetadataV8 \<Rightarrow> (uint8 \<times> string \<times> string list) list" where
  "V8_ctable m = numbered_from 0 (map (\<lambda>md. (mod8Name md, map fnName (mod8Calls md))) (filter mod8HasCalls (Modules8 m)))"

definition V8_etable :: "MetadataV8 \<Rightarrow> (uint8 \<times> string \<times> string \<times> string list) list" where
  "V8_etable m = numbered_from 0
     (map (\<lambda>md. (mod8Name md, mod8Name md, map evName (mod8Events md))) (filter mod8HasEvents (Modules8 m)))"

interpretation lookupV8: module_metadata V8_FindCallIndex V8_FindEventNamesForEventID V8_ctable V8_etable
  by unfold_locales
    (simp_all add: V8_FindCallIndex_def V8_FindEventNamesForEventID_def FindCallIndex_counting_table
      FindEventNames_counting_table V8_ctable_def V8_etable_def)

definition V9_ctable :: "MetadataV9 \<Rightarrow> (uint8 \<times> string \<times> string list) list" where
  "V9_ctable m = numbered_from 0 (map (\<lambda>md. (mod8Name md, map fnName (mod8Calls md))) (filter mod8HasCalls (Modules9 m)))"

definition V9_etable :: "MetadataV9 \<Rightarrow> (uint8 \<times> string \<times> string \<times> string list) list" where
  "V9_etable m = numbered_from 0
     (map (\<lambda>md. (mod8Name md, mod8Name md, map evName (mod8Events md))) (filter mod8HasEvents (Modules9 m)))"

interpretation lookupV9: module_metadata V9_FindCallIndex V9_FindEventNamesForEventID V9_ctable V9_etable
  by unfold_locales
    (simp_all add: V9_FindCallIndex_def V9_FindEventNamesForEventID_def FindCallIndex_counting_table
      FindEventNames_counting_table V9_ctable_def V9_etable_def)

interpretation entryV5: storage_entry "hash_lib_laws lib bst bd xst xd" bst "V5_entry lib" V5_kinds
  for lib bst bd xst xd
proof
  fix e
  assume laws: "hash_lib_laws lib bst bd xst xd"
  show "\<not> se_IsMap (V5_entry lib e) \<Longrightarrow> se_Hasher (V5_entry lib e) = DefaultPlainHasher (se_IsPlain (V5_entry lib e))"
    by (simp add: V5_entry_def V5_Hasher_def)
  assume "se_IsMap (V5_entry lib e)"
  then have "V5_IsMap e" by (simp add: V5_entry_def)
  moreover from this have "\<exists>hs. collectHashersV5 (s5Type e) = Ok hs"
    by (auto simp: V5_IsMap_def collectHashersV5_def)
  ultimately show "hashers_outcome bst (V5_kinds e) (se_Hashers (V5_entry lib e))"
    by (auto simp: V5_entry_def V5_Hashers_def V5_kinds_def kinds_of_def HashFuncs4_outcome [OF laws])
qed

end
