(* ===== verification/MetadataV10.thy ===== *)
theory MetadataV10
  imports MetadataV7
begin

text \<open>
  Metadata versions 10, 11 and 12: \<open>src/types/metadataV10.go\<close>, \<open>src/types/metadataV11.go\<close> and
  \<open>src/types/metadataV12.go\<close>. Version 10 has the seven storage hashers, version 11 embeds
  version 10 and adds the extrinsic, version 12 gives every module an index of its own.
\<close>

section \<open>Storage entries\<close>

record MapTypeV10 =
  m10Hasher :: StorageHasherV10
  m10Key :: string
  m10Value :: string
  m10Linked :: bool

record DoubleMapTypeV10 =
  d10Hasher :: StorageHasherV10
  d10Key1 :: string
  d10Key2 :: string
  d10Value :: string
  d10Key2Hasher :: StorageHasherV10

record StorageFunctionTypeV10 =
  t10IsType :: bool
  t10AsType :: string
  t10IsMap :: bool
  t10AsMap :: MapTypeV10
  t10IsDoubleMap :: bool
  t10AsDoubleMap :: DoubleMapTypeV10

record StorageFunctionMetadataV10 =
  s10Name :: string
  s10Modifier :: StorageFunctionModifierV0
  s10Type :: StorageFunctionTypeV10
  s10Fallback :: bytes
  s10Documentation :: "string list"

record StorageMetadataV10 =
  st10Prefix :: string
  st10Items :: "StorageFunctionMetadataV10 list"

definition zero_map10 :: MapTypeV10 where
  "zero_map10 = \<lparr>m10Hasher = no_hasher, m10Key = [], m10Value = [], m10Linked = False\<rparr>"

definition zero_double10 :: DoubleMapTypeV10 where
  "zero_double10 = \<lparr>d10Hasher = no_hasher, d10Key1 = [], d10Key2 = [], d10Value = [], d10Key2Hasher = no_hasher\<rparr>"

definition zero_type10 :: StorageFunctionTypeV10 where
  "zero_type10 = \<lparr>t10IsType = False, t10AsType = [], t10IsMap = False, t10AsMap = zero_map10,
     t10IsDoubleMap = False, t10AsDoubleMap = zero_double10\<rparr>"

definition zero_storage10 :: StorageMetadataV10 where
  "zero_storage10 = \<lparr>st10Prefix = [], st10Items = []\<rparr>"

definition MapTypeV10_Encode :: "MapTypeV10 \<Rightarrow> (bytes, unit) goM" where
  "MapTypeV10_Encode m =
     seqM (fieldE (StorageHasherV10_Encode (m10Hasher m)))
    (seqM (fieldE (Text_Encode (m10Key m)))
    (seqM (fieldE (Text_Encode (m10Value m))) (fieldE (Encode_bool (m10Linked m)))))"

definition MapTypeV10_Decode :: "(bytes, MapTypeV10) goM" where
  "MapTypeV10_Decode =
     bindM (fieldD StorageHasherV10_Decode) (\<lambda>h.
     bindM (fieldD Text_Decode) (\<lambda>k.
     bindM (fieldD Text_Decode) (\<lambda>v.
     bindM (fieldD Decode_bool) (\<lambda>l.
       retM \<lparr>m10Hasher = h, m10Key = k, m10Value = v, m10Linked = l\<rparr>))))"

definition DoubleMapTypeV10_Encode :: "DoubleMapTypeV10 \<Rightarrow> (bytes, unit) goM" where
  "DoubleMapTypeV10_Encode m =
     seqM (fieldE (StorageHasherV10_Encode (d10Hasher m)))
    (seqM (fieldE (Text_Encode (d10Key1 m)))
    (seqM (fieldE (Text_Encode (d10Key2 m)))
    (seqM (fieldE (Text_Encode (d10Value m))) (fieldE (StorageHasherV10_Encode (d10Key2Hasher m))))))"

definition DoubleMapTypeV10_Decode :: "(bytes, DoubleMapTypeV10) goM" where
  "DoubleMapTypeV10_Decode =
     bindM (fieldD StorageHasherV10_Decode) (\<lambda>h.
     bindM (fieldD Text_Decode) (\<lambda>k1.
     bindM (fieldD Text_Decode) (\<lambda>k2.
     bindM (fieldD Text_Decode) (\<lambda>v.
     bindM (fieldD StorageHasherV10_Decode) (\<lambda>kh.
       retM \<lparr>d10Hasher = h, d10Key1 = k1, d10Key2 = k2, d10Value = v, d10Key2Hasher = kh\<rparr>)))))"

definition StorageFunctionTypeV10_Decode :: "(bytes, StorageFunctionTypeV10) goM" where
  "StorageFunctionTypeV10_Decode =
     bindM (Decode_word Uint8 :: (bytes, uint8) goM) (\<lambda>t.
       if t = 0 then bindM Text_Decode (\<lambda>x. retM (zero_type10\<lparr>t10IsType := True, t10AsType := x\<rparr>))
       else if t = 1 then bindM MapTypeV10_Decode (\<lambda>m. retM (zero_type10\<lparr>t10IsMap := True, t10AsMap := m\<rparr>))
       else if t = 2 then
         bindM DoubleMapTypeV10_Decode (\<lambda>m. retM (zero_type10\<lparr>t10IsDoubleMap := True, t10AsDoubleMap := m\<rparr>))
       else failM (ErrorString (''received unexpected type '' @ string_of_nat (unat t))))"

definition StorageFunctionTypeV10_Encode :: "StorageFunctionTypeV10 \<Rightarrow> (bytes, unit) goM" where
  "StorageFunctionTypeV10_Encode s =
     (if t10IsType s then seqM (PushByte 0) (Text_Encode (t10AsType s))
      else if t10IsMap s then seqM (PushByte 1) (MapTypeV10_Encode (t10AsMap s))
      else if t10IsDoubleMap s then seqM (PushByte 2) (DoubleMapTypeV10_Encode (t10AsDoubleMap s))
      else failM (ErrorString ''expected to be either type, map or double map, but none was set''))"

definition StorageFunctionMetadataV10_Encode :: "StorageFunctionMetadataV10 \<Rightarrow> (bytes, unit) goM" where
  "StorageFunctionMetadataV10_Encode s =
     seqM (fieldE (Text_Encode (s10Name s)))
    (seqM (fieldE (StorageFunctionModifierV0_Encode (s10Modifier s)))
    (seqM (fieldE (StorageFunctionTypeV10_Encode (s10Type s)))
    (seqM (fieldE (Encode_slice Encode_byte (s10Fallback s)))
          (fieldE (Encode_slice Text_Encode (s10Documentation s))))))"

definition StorageFunctionMetadataV10_Decode :: "(bytes, StorageFunctionMetadataV10) goM" where
  "StorageFunctionMetadataV10_Decode =
     bindM (fieldD Text_Decode) (\<lambda>n.
     bindM (fieldD StorageFunctionModifierV0_Decode) (\<lambda>m.
     bindM (fieldD StorageFunctionTypeV10_Decode) (\<lambda>t.
     bindM (fieldD (Decode_slice Decode_byte)) (\<lambda>f.
     bindM (fieldD (Decode_slice Text_Decode)) (\<lambda>ds.
       retM \<lparr>s10Name = n, s10Modifier = m, s10Type = t, s10Fallback = f, s10Documentation = ds\<rparr>)))))"

definition StorageMetadataV10_Encode :: "StorageMetadataV10 \<Rightarrow> (bytes, unit) goM" where
  "StorageMetadataV10_Encode s =
     seqM (fieldE (Text_Encode (st10Prefix s))) (fieldE (Encode_slice StorageFunctionMetadataV10_Encode (st10Items s)))"

definition StorageMetadataV10_Decode :: "(bytes, StorageMetadataV10) goM" where
  "StorageMetadataV10_Decode =
     bindM (fieldD Text_Decode) (\<lambda>p. bindM (fieldD (Decode_slice StorageFunctionMetadataV10_Decode)) (\<lambda>is.
       retM \<lparr>st10Prefix = p, st10Items = is\<rparr>))"

section \<open>Modules\<close>

record ModuleMetadataV10 =
  mod10Name :: string
  mod10HasStorage :: bool
  mod10Storage :: StorageMetadataV10
  mod10HasCalls :: bool
  mod10Calls :: "FunctionMetadataV4 list"
  mod10HasEvents :: bool
  mod10Events :: "EventMetadataV4 list"
  mod10Constants :: "ModuleConstantMetadataV6 list"
  mod10Errors :: "ErrorMetadataV8 list"

record MetadataV10 =
  Modules10 :: "ModuleMetadataV10 list"

definition ModuleMetadataV10_Decode :: "(bytes, ModuleMetadataV10) goM" where
  "ModuleMetadataV10_Decode =
     bindM Text_Decode (\<lambda>n.
     bindM (DecodeOption StorageMetadataV10_Decode zero_storage10) (\<lambda>(hs, st).
     bindM (DecodeOption (Decode_slice FunctionMetadataV4_Decode) []) (\<lambda>(hc, cs).
     bindM (DecodeOption (Decode_slice EventMetadataV4_Decode) []) (\<lambda>(he, es).
     bindM (Decode_slice ModuleConstantMetadataV6_Decode) (\<lambda>ks.
     bindM (Decode_slice ErrorMetadataV8_Decode) (\<lambda>ers.
       retM \<lparr>mod10Name = n, mod10HasStorage = hs, mod10Storage = st, mod10HasCalls = hc, mod10Calls = cs,
             mod10HasEvents = he, mod10Events = es, mod10Constants = ks, mod10Errors = ers\<rparr>))))))"

definition ModuleMetadataV10_Encode :: "ModuleMetadataV10 \<Rightarrow> (bytes, unit) goM" where
  "ModuleMetadataV10_Encode m =
     seqM (Text_Encode (mod10Name m))
    (seqM (EncodeOption StorageMetadataV10_Encode (mod10HasStorage m) (mod10Storage m))
    (seqM (EncodeOption (Encode_slice FunctionMetadataV4_Encode) (mod10HasCalls m) (mod10Calls m))
    (seqM (EncodeOption (Encode_slice EventMetadataV4_Encode) (mod10HasEvents m) (mod10Events m))
    (seqM (Encode_slice ModuleConstantMetadataV6_Encode (mod10Constants m))
          (Encode_slice ErrorMetadataV8_Encode (mod10Errors m))))))"

definition MetadataV10_Decode :: "(bytes, MetadataV10) goM" where
  "MetadataV10_Decode = bindM (Decode_slice ModuleMetadataV10_Decode) (\<lambda>ms. retM \<lparr>Modules10 = ms\<rparr>)"

definition MetadataV10_Encode :: "MetadataV10 \<Rightarrow> (bytes, unit) goM" where
  "MetadataV10_Encode m = Encode_slice ModuleMetadataV10_Encode (Modules10 m)"

text \<open>Version 11: version 10 embedded, with the extrinsic.\<close>

record ExtrinsicV11 =
  ex11Version :: uint8
  ex11SignedExtensions :: "string list"

record MetadataV11 =
  md11V10 :: MetadataV10
  md11Extrinsic :: ExtrinsicV11

definition ExtrinsicV11_Decode :: "(bytes, ExtrinsicV11) goM" where
  "ExtrinsicV11_Decode =
     bindM (Decode_word Uint8) (\<lambda>v. bindM (Decode_slice Text_Decode) (\<lambda>xs.
       retM \<lparr>ex11Version = v, ex11SignedExtensions = xs\<rparr>))"

definition ExtrinsicV11_Encode :: "ExtrinsicV11 \<Rightarrow> (bytes, unit) goM" where
  "ExtrinsicV11_Encode e =
     seqM (Encode_word Uint8 (ex11Version e)) (Encode_slice Text_Encode (ex11SignedExtensions e))"

definition MetadataV11_Decode :: "(bytes, MetadataV11) goM" where
  "MetadataV11_Decode =
     bindM MetadataV10_Decode (\<lambda>m. bindM ExtrinsicV11_Decode (\<lambda>e. retM \<lparr>md11V10 = m, md11Extrinsic = e\<rparr>))"

definition MetadataV11_Encode :: "MetadataV11 \<Rightarrow> (bytes, unit) goM" where
  "MetadataV11_Encode m = seqM (MetadataV10_Encode (md11V10 m)) (ExtrinsicV11_Encode (md11Extrinsic m))"

text \<open>Version 12: a module of version 10 embedded, with its index; its fields are promoted.\<close>

record ModuleMetadataV12 =
  mod12V10 :: ModuleMetadataV10
  mod12Index :: uint8

record MetadataV12 =
  Modules12 :: "ModuleMetadataV12 list"
  md12Extrinsic :: ExtrinsicV11

abbreviation mod12Name :: "ModuleMetadataV12 \<Rightarrow> string" where
  "mod12Name m \<equiv> mod10Name (mod12V10 m)"

abbreviation mod12HasStorage :: "ModuleMetadataV12 \<Rightarrow> bool" where
  "mod12HasStorage m \<equiv> mod10HasStorage (mod12V10 m)"

abbreviation mod12Storage :: "ModuleMetadataV12 \<Rightarrow> StorageMetadataV10" where
  "mod12Storage m \<equiv> mod10Storage (mod12V10 m)"

abbreviation mod12HasCalls :: "ModuleMetadataV12 \<Rightarrow> bool" where
  "mod12HasCalls m \<equiv> mod10HasCalls (mod12V10 m)"

abbreviation mod12Calls :: "ModuleMetadataV12 \<Rightarrow> FunctionMetadataV4 list" where
  "mod12Calls m \<equiv> mod10Calls (mod12V10 m)"

abbreviation mod12HasEvents :: "ModuleMetadataV12 \<Rightarrow> bool" where
  "mod12HasEvents m \<equiv> mod10HasEvents (mod12V10 m)"

abbreviation mod12Events :: "ModuleMetadataV12 \<Rightarrow> EventMetadataV4 list" where
  "mod12Events m \<equiv> mod10Events (mod12V10 m)"

abbreviation mod12Constants :: "ModuleMetadataV12 \<Rightarrow> ModuleConstantMetadataV6 list" where
  "mod12Constants m \<equiv> mod10Constants (mod12V10 m)"

definition ModuleMetadataV12_Decode :: "(bytes, ModuleMetadataV12) goM" where
  "ModuleMetadataV12_Decode =
     bindM ModuleMetadataV10_Decode (\<lambda>m. bindM (Decode_word Uint8) (\<lambda>i. retM \<lparr>mod12V10 = m, mod12Index = i\<rparr>))"

definition ModuleMetadataV12_Encode :: "ModuleMetadataV12 \<Rightarrow> (bytes, unit) goM" where
  "ModuleMetadataV12_Encode m = seqM (ModuleMetadataV10_Encode (mod12V10 m)) (Encode_word Uint8 (mod12Index m))"

definition MetadataV12_Decode :: "(bytes, MetadataV12) goM" where
  "MetadataV12_Decode =
     bindM (Decode_slice ModuleMetadataV12_Decode) (\<lambda>ms. bindM ExtrinsicV11_Decode (\<lambda>e.
       retM \<lparr>Modules12 = ms, md12Extrinsic = e\<rparr>))"

definition MetadataV12_Encode :: "MetadataV12 \<Rightarrow> (bytes, unit) goM" where
  "MetadataV12_Encode m =
     seqM (Encode_slice ModuleMetadataV12_Encode (Modules12 m)) (ExtrinsicV11_Encode (md12Extrinsic m))"

section \<open>Queries\<close>

definition V10_FindCallIndex :: "MetadataV10 \<Rightarrow> string \<Rightarrow> CallIndex res" where
  "V10_FindCallIndex m call =
     FindCallIndex_counting mod10HasCalls mod10Name (\<lambda>md. map fnName (mod10Calls md)) call
       (Split (CHR ''.'') call) 0 (Modules10 m)"

definition V10_FindEventNamesForEventID :: "MetadataV10 \<Rightarrow> uint8 \<times> uint8 \<Rightarrow> (string \<times> string) res" where
  "V10_FindEventNamesForEventID m eventID =
     FindEventNames_counting mod10HasEvents mod10Name mod10Name (\<lambda>md. map evName (mod10Events md)) eventID 0 (Modules10 m)"

definition V10_FindConstantValue :: "MetadataV10 \<Rightarrow> string \<Rightarrow> string \<Rightarrow> bytes res" where
  "V10_FindConstantValue m module c = FindConstantValue_in mod10Name mod10Constants module c (Modules10 m)"

definition V10_FindStorageEntryMetadata :: "MetadataV10 \<Rightarrow> string \<Rightarrow> string \<Rightarrow> StorageFunctionMetadataV10 res" where
  "V10_FindStorageEntryMetadata m module fn =
     FindStorageEntry_in mod10HasStorage (\<lambda>md. st10Prefix (mod10Storage md)) (\<lambda>md. st10Items (mod10Storage md)) s10Name module fn
       (Modules10 m)"

definition V10_ExistsModuleMetadata :: "MetadataV10 \<Rightarrow> string \<Rightarrow> bool" where
  "V10_ExistsModuleMetadata m module = ExistsModule_in mod10Name module (Modules10 m)"

definition V12_FindCallIndex :: "MetadataV12 \<Rightarrow> string \<Rightarrow> CallIndex res" where
  "V12_FindCallIndex m call =
     FindCallIndex_indexed mod12HasCalls mod12Name (\<lambda>md. map fnName (mod12Calls md)) mod12Index call
       (Split (CHR ''.'') call) (Modules12 m)"

definition V12_FindEventNamesForEventID :: "MetadataV12 \<Rightarrow> uint8 \<times> uint8 \<Rightarrow> (string \<times> string) res" where
  "V12_FindEventNamesForEventID m eventID =
     FindEventNames_indexed mod12HasEvents mod12Name (\<lambda>md. map evName (mod12Events md)) mod12Index eventID (Modules12 m)"

definition V12_FindConstantValue :: "MetadataV12 \<Rightarrow> string \<Rightarrow> string \<Rightarrow> bytes res" where
  "V12_FindConstantValue m module c = FindConstantValue_in mod12Name mod12Constants module c (Modules12 m)"

definition V12_FindStorageEntryMetadata :: "MetadataV12 \<Rightarrow> string \<Rightarrow> string \<Rightarrow> StorageFunctionMetadataV10 res" where
  "V12_FindStorageEntryMetadata m module fn =
     FindStorageEntry_in mod12HasStorage (\<lambda>md. st10Prefix (mod12Storage md)) (\<lambda>md. st10Items (mod12Storage md)) s10Name module fn
       (Modules12 m)"

definition V12_ExistsModuleMetadata :: "MetadataV12 \<Rightarrow> string \<Rightarrow> bool" where
  "V12_ExistsModuleMetadata m module = ExistsModule_in mod12Name module (Modules12 m)"

section \<open>The methods of a storage entry\<close>

definition V10_IsPlain :: "StorageFunctionMetadataV10 \<Rightarrow> bool" where
  "V10_IsPlain s = t10IsType (s10Type s)"

definition V10_Hasher :: "StorageFunctionMetadataV10 \<Rightarrow> 'b Hash res" where
  "V10_Hasher s = DefaultPlainHasher (V10_IsPlain s)"

definition V10_IsMap :: "StorageFunctionMetadataV10 \<Rightarrow> bool" where
  "V10_IsMap s = (t10IsMap (s10Type s) \<or> t10IsDoubleMap (s10Type s))"

definition collectHashersV10 :: "StorageFunctionTypeV10 \<Rightarrow> StorageHasherV10 list res" where
  "collectHashersV10 x =
     (if t10IsMap x then Ok [m10Hasher (t10AsMap x)]
      else if t10IsDoubleMap x then Ok [d10Hasher (t10AsDoubleMap x), d10Key2Hasher (t10AsDoubleMap x)]
      else Panic ''Unexpexted type'')"

definition V10_Hashers :: "('b, 'x) hash_lib \<Rightarrow> StorageFunctionMetadataV10 \<Rightarrow> 'b Hash list res" where
  "V10_Hashers lib s =
     (if \<not> V10_IsMap s then Err (ErrorString ''Hashers() is only to be called on Maps'')
      else bindR (collectHashersV10 (s10Type s)) (HashFuncs (StorageHasherV10_HashFunc lib)))"

definition V10_entry :: "('b, 'x) hash_lib \<Rightarrow> StorageFunctionMetadataV10 \<Rightarrow> 'b StorageEntryMetadata" where
  "V10_entry lib s = \<lparr>se_IsPlain = V10_IsPlain s, se_Hasher = V10_Hasher s, se_IsMap = V10_IsMap s,
     se_Hashers = V10_Hashers lib s\<rparr>"

definition V10_kinds :: "StorageFunctionMetadataV10 \<Rightarrow> hash_kind list option" where
  "V10_kinds s = kinds_of kindV10 (collectHashersV10 (s10Type s))"

section \<open>Contracts\<close>

definition map10_ok :: "MapTypeV10 \<Rightarrow> bool" where
  "map10_ok m \<longleftrightarrow> hasher_ok (m10Hasher m) \<and> text_ok (m10Key m) \<and> text_ok (m10Value m)"

definition double10_ok :: "DoubleMapTypeV10 \<Rightarrow> bool" where
  "double10_ok m \<longleftrightarrow> hasher_ok (d10Hasher m) \<and> text_ok (d10Key1 m) \<and> text_ok (d10Key2 m) \<and> text_ok (d10Value m) \<and>
     hasher_ok (d10Key2Hasher m)"

definition type10_ok :: "StorageFunctionTypeV10 \<Rightarrow> bool" where
  "type10_ok s \<longleftrightarrow>
     (\<exists>t. text_ok t \<and> s = zero_type10\<lparr>t10IsType := True, t10AsType := t\<rparr>) \<or>
     (\<exists>m. map10_ok m \<and> s = zero_type10\<lparr>t10IsMap := True, t10AsMap := m\<rparr>) \<or>
     (\<exists>m. double10_ok m \<and> s = zero_type10\<lparr>t10IsDoubleMap := True, t10AsDoubleMap := m\<rparr>)"

definition storage10e_ok :: "StorageFunctionMetadataV10 \<Rightarrow> bool" where
  "storage10e_ok s \<longleftrightarrow> text_ok (s10Name s) \<and> modifier_ok (s10Modifier s) \<and> type10_ok (s10Type s) \<and>
     slice_ok (\<lambda>_. True) (s10Fallback s) \<and> slice_ok text_ok (s10Documentation s)"

definition storage10_ok :: "StorageMetadataV10 \<Rightarrow> bool" where
  "storage10_ok s \<longleftrightarrow> text_ok (st10Prefix s) \<and> slice_ok storage10e_ok (st10Items s)"

definition module10_ok :: "ModuleMetadataV10 \<Rightarrow> bool" where
  "module10_ok m \<longleftrightarrow> text_ok (mod10Name m) \<and>
     option_ok storage10_ok zero_storage10 (mod10HasStorage m) (mod10Storage m) \<and>
     option_ok (slice_ok function_ok) [] (mod10HasCalls m) (mod10Calls m) \<and>
     option_ok (slice_ok event_ok) [] (mod10HasEvents m) (mod10Events m) \<and>
     slice_ok constant6_ok (mod10Constants m) \<and> slice_ok error8_ok (mod10Errors m)"

definition metadata10_ok :: "MetadataV10 \<Rightarrow> bool" where
  "metadata10_ok m \<longleftrightarrow> slice_ok module10_ok (Modules10 m)"

definition extrinsic11_ok :: "ExtrinsicV11 \<Rightarrow> bool" where
  "extrinsic11_ok e \<longleftrightarrow> slice_ok text_ok (ex11SignedExtensions e)"

definition metadata11_ok :: "MetadataV11 \<Rightarrow> bool" where
  "metadata11_ok m \<longleftrightarrow> metadata10_ok (md11V10 m) \<and> extrinsic11_ok (md11Extrinsic m)"

definition module12_ok :: "ModuleMetadataV12 \<Rightarrow> bool" where
  "module12_ok m \<longleftrightarrow> module10_ok (mod12V10 m)"

definition metadata12_ok :: "MetadataV12 \<Rightarrow> bool" where
  "metadata12_ok m \<longleftrightarrow> slice_ok module12_ok (Modules12 m) \<and> extrinsic11_ok (md12Extrinsic m)"

interpretation mapV10: scale_codec MapTypeV10_Encode MapTypeV10_Decode map10_ok
proof
  fix m
  assume "map10_ok m"
  then show "rt (MapTypeV10_Encode m) MapTypeV10_Decode m"
    unfolding MapTypeV10_Encode_def MapTypeV10_Decode_def
    by (cases m, intro rt_struct) (rule module_roundtrips, simp add: map10_ok_def, simp?)+
qed

interpretation doubleV10: scale_codec DoubleMapTypeV10_Encode DoubleMapTypeV10_Decode double10_ok
proof
  fix m
  assume "double10_ok m"
  then show "rt (DoubleMapTypeV10_Encode m) DoubleMapTypeV10_Decode m"
    unfolding DoubleMapTypeV10_Encode_def DoubleMapTypeV10_Decode_def
    by (cases m, intro rt_struct) (rule module_roundtrips, simp add: double10_ok_def, simp?)+
qed

interpretation typeV10: scale_codec StorageFunctionTypeV10_Encode StorageFunctionTypeV10_Decode type10_ok
proof
  fix s
  assume "type10_ok s"
  then show "rt (StorageFunctionTypeV10_Encode s) StorageFunctionTypeV10_Decode s"
    unfolding type10_ok_def StorageFunctionTypeV10_Decode_def
    by (elim disjE exE conjE)
      (rule rt_word_tag, simp add: StorageFunctionTypeV10_Encode_def zero_type10_def, simp,
       intro rt_struct, rule module_roundtrips mapV10.roundtrip doubleV10.roundtrip, simp, simp)+
qed

interpretation storageEntryV10: scale_codec StorageFunctionMetadataV10_Encode StorageFunctionMetadataV10_Decode storage10e_ok
proof
  fix m
  assume "storage10e_ok m"
  then show "rt (StorageFunctionMetadataV10_Encode m) StorageFunctionMetadataV10_Decode m"
    unfolding StorageFunctionMetadataV10_Encode_def StorageFunctionMetadataV10_Decode_def
    by (cases m, intro rt_struct) (rule module_roundtrips typeV10.roundtrip, simp add: storage10e_ok_def, simp?)+
qed

interpretation storageEntriesV10: scale_codec "Encode_slice StorageFunctionMetadataV10_Encode" "Decode_slice StorageFunctionMetadataV10_Decode" "slice_ok storage10e_ok"
  by (rule slice_contract) (rule storageEntryV10.scale_codec_axioms)

interpretation storageV10: scale_codec StorageMetadataV10_Encode StorageMetadataV10_Decode storage10_ok
proof
  fix m
  assume "storage10_ok m"
  then show "rt (StorageMetadataV10_Encode m) StorageMetadataV10_Decode m"
    unfolding StorageMetadataV10_Encode_def StorageMetadataV10_Decode_def
    by (cases m, intro rt_struct) (rule module_roundtrips storageEntriesV10.roundtrip, simp add: storage10_ok_def, simp?)+
qed

interpretation moduleV10: scale_codec ModuleMetadataV10_Encode ModuleMetadataV10_Decode module10_ok
proof
  fix m
  assume "module10_ok m"
  then show "rt (ModuleMetadataV10_Encode m) ModuleMetadataV10_Decode m"
    unfolding ModuleMetadataV10_Encode_def ModuleMetadataV10_Decode_def
    by (cases m, intro rt_struct) (rule module_roundtrips option_contract [OF storageV10.scale_codec_axioms], simp add: module10_ok_def, simp?)+
qed

interpretation modulesV10: scale_codec "Encode_slice ModuleMetadataV10_Encode" "Decode_slice ModuleMetadataV10_Decode" "slice_ok module10_ok"
  by (rule slice_contract) (rule moduleV10.scale_codec_axioms)

interpretation metadataV10: scale_codec MetadataV10_Encode MetadataV10_Decode metadata10_ok
proof
  fix m
  assume "metadata10_ok m"
  then show "rt (MetadataV10_Encode m) MetadataV10_Decode m"
    unfolding MetadataV10_Encode_def MetadataV10_Decode_def
    by (cases m, intro rt_struct) (rule modulesV10.roundtrip, simp add: metadata10_ok_def, simp?)+
qed

interpretation extrinsicV11: scale_codec ExtrinsicV11_Encode ExtrinsicV11_Decode extrinsic11_ok
proof
  fix m
  assume "extrinsic11_ok m"
  then show "rt (ExtrinsicV11_Encode m) ExtrinsicV11_Decode m"
    unfolding ExtrinsicV11_Encode_def ExtrinsicV11_Decode_def
    by (cases m, intro rt_struct) (rule module_roundtrips, simp add: extrinsic11_ok_def, simp?)+
qed

interpretation metadataV11: scale_codec MetadataV11_Encode MetadataV11_Decode metadata11_ok
proof
  fix m
  assume "metadata11_ok m"
  then show "rt (MetadataV11_Encode m) MetadataV11_Decode m"
    unfolding MetadataV11_Encode_def MetadataV11_Decode_def
    by (cases m, intro rt_struct) (rule metadataV10.roundtrip extrinsicV11.roundtrip, simp add: metadata11_ok_def, simp?)+
qed

interpretation moduleV12: scale_codec ModuleMetadataV12_Encode ModuleMetadataV12_Decode module12_ok
proof
  fix m
  assume "module12_ok m"
  then show "rt (ModuleMetadataV12_Encode m) ModuleMetadataV12_Decode m"
    unfolding ModuleMetadataV12_Encode_def ModuleMetadataV12_Decode_def
    by (cases m, intro rt_struct) (rule moduleV10.roundtrip module_roundtrips, simp add: module12_ok_def, simp?)+
qed

interpretation modulesV12: scale_codec "Encode_slice ModuleMetadataV12_Encode" "Decode_slice ModuleMetadataV12_Decode" "slice_ok module12_ok"
  by (rule slice_contract) (rule moduleV12.scale_codec_axioms)

interpretation metadataV12: scale_codec MetadataV12_Encode MetadataV12_Decode metadata12_ok
proof
  fix m
  assume "metadata12_ok m"
  then show "rt (MetadataV12_Encode m) MetadataV12_Decode m"
    unfolding MetadataV12_Encode_def MetadataV12_Decode_def
    by (cases m, intro rt_struct) (rule modulesV12.roundtrip extrinsicV11.roundtrip, simp add: metadata12_ok_def, simp?)+
qed

definition V10_ctable :: "MetadataV10 \<Rightarrow> (uint8 \<times> string \<times> string list) list" where
  "V10_ctable m = numbered_from 0 (map (\<lambda>md. (mod10Name md, map fnName (mod10Calls md))) (filter mod10HasCalls (Modules10 m)))"

definition V10_etable :: "MetadataV10 \<Rightarrow> (uint8 \<times> string \<times> string \<times> string list) list" where
  "V10_etable m = numbered_from 0
     (map (\<lambda>md. (mod10Name md, mod10Name md, map evName (mod10Events md))) (filter mod10HasEvents (Modules10 m)))"

interpretation lookupV10: module_metadata V10_FindCallIndex V10_FindEventNamesForEventID V10_ctable V10_etable
  by unfold_locales
    (simp_all add: V10_FindCallIndex_def V10_FindEventNamesForEventID_def FindCallIndex_counting_table
      FindEventNames_counting_table V10_ctable_def V10_etable_def)

definition V12_ctable :: "MetadataV12 \<Rightarrow> (uint8 \<times> string \<times> string list) list" where
  "V12_ctable m = map (\<lambda>md. (mod12Index md, mod12Name md, map fnName (mod12Calls md))) (filter mod12HasCalls (Modules12 m))"

definition V12_etable :: "MetadataV12 \<Rightarrow> (uint8 \<times> string \<times> string \<times> string list) list" where
  "V12_etable m = map (\<lambda>md. (mod12Index md, mod12Name md, mod12Name md, map evName (mod12Events md))) (filter mod12HasEvents (Modules12 m))"

interpretation lookupV12: module_metadata V12_FindCallIndex V12_FindEventNamesForEventID V12_ctable V12_etable
  by unfold_locales
    (simp_all add: V12_FindCallIndex_def V12_FindEventNamesForEventID_def FindCallIndex_indexed_table
      FindEventNames_indexed_table V12_ctable_def V12_etable_def)

interpretation entryV10: storage_entry "hash_lib_laws lib bst bd xst xd" bst "V10_entry lib" V10_kinds
  for lib bst bd xst xd
proof
  fix e
  assume laws: "hash_lib_laws lib bst bd xst xd"
  show "\<not> se_IsMap (V10_entry lib e) \<Longrightarrow> se_Hasher (V10_entry lib e) = DefaultPlainHasher (se_IsPlain (V10_entry lib e))"
    by (simp add: V10_entry_def V10_Hasher_def)
  assume "se_IsMap (V10_entry lib e)"
  then have "V10_IsMap e" by (simp add: V10_entry_def)
  moreover from this have "\<exists>hs. collectHashersV10 (s10Type e) = Ok hs"
    by (auto simp: V10_IsMap_def collectHashersV10_def)
  ultimately show "hashers_outcome bst (V10_kinds e) (se_Hashers (V10_entry lib e))"
    by (auto simp: V10_entry_def V10_Hashers_def V10_kinds_def kinds_of_def HashFuncsV10_outcome [OF laws])
qed

end
