(* ===== verification/MetadataV13.thy ===== *)
theory MetadataV13
  imports MetadataV10
begin

text \<open>
  Metadata version 13, \<open>src/types/metadataV13.go\<close>: storage maps with any number of keys.
\<close>

section \<open>Storage entries\<close>

record NMapTypeV13 =
  nKeys :: "string list"
  nHashers :: "StorageHasherV10 list"
  nValue :: string

definition zero_nmap13 :: NMapTypeV13 where
  "zero_nmap13 = \<lparr>nKeys = [], nHashers = [], nValue = []\<rparr>"

definition NMapTypeV13_Encode :: "NMapTypeV13 \<Rightarrow> (bytes, unit) goM" where
  "NMapTypeV13_Encode m =
     seqM (fieldE (Encode_slice Text_Encode (nKeys m)))
    (seqM (fieldE (Encode_slice StorageHasherV10_Encode (nHashers m))) (fieldE (Text_Encode (nValue m))))"

definition NMapTypeV13_Decode :: "(bytes, NMapTypeV13) goM" where
  "NMapTypeV13_Decode =
     bindM (fieldD (Decode_slice Text_Decode)) (\<lambda>ks.
     bindM (fieldD (Decode_slice StorageHasherV10_Decode)) (\<lambda>hs.
     bindM (fieldD Text_Decode) (\<lambda>v. retM \<lparr>nKeys = ks, nHashers = hs, nValue = v\<rparr>)))"

record StorageFunctionTypeV13 =
  t13IsType :: bool
  t13AsType :: string
  t13IsMap :: bool
  t13AsMap :: MapTypeV10
  t13IsDoubleMap :: bool
  t13AsDoubleMap :: DoubleMapTypeV10
  t13IsNMap :: bool
  t13AsNMap :: NMapTypeV13

record StorageFunctionMetadataV13 =
  s13Name :: string
  s13Modifier :: StorageFunctionModifierV0
  s13Type :: StorageFunctionTypeV13
  s13Fallback :: bytes
  s13Documentation :: "string list"

record StorageMetadataV13 =
  st13Prefix :: string
  st13Items :: "StorageFunctionMetadataV13 list"

definition zero_type13 :: StorageFunctionTypeV13 where
  "zero_type13 = \<lparr>t13IsType = False, t13AsType = [], t13IsMap = False, t13AsMap = zero_map10,
     t13IsDoubleMap = False, t13AsDoubleMap = zero_double10,
     t13IsNMap = False, t13AsNMap = zero_nmap13\<rparr>"

definition zero_storage13 :: StorageMetadataV13 where
  "zero_storage13 = \<lparr>st13Prefix = [], st13Items = []\<rparr>"

definition StorageFunctionTypeV13_Decode :: "(bytes, StorageFunctionTypeV13) goM" where
  "StorageFunctionTypeV13_Decode =
     bindM (Decode_word Uint8 :: (bytes, uint8) goM) (\<lambda>t.
       if t = 0 then bindM Text_Decode (\<lambda>x. retM (zero_type13\<lparr>t13IsType := True, t13AsType := x\<rparr>))
       else if t = 1 then bindM MapTypeV10_Decode (\<lambda>m. retM (zero_type13\<lparr>t13IsMap := True, t13AsMap := m\<rparr>))
       else if t = 2 then
         bindM DoubleMapTypeV10_Decode (\<lambda>m. retM (zero_type13\<lparr>t13IsDoubleMap := True, t13AsDoubleMap := m\<rparr>))
       else if t = 3 then bindM NMapTypeV13_Decode (\<lambda>m. retM (zero_type13\<lparr>t13IsNMap := True, t13AsNMap := m\<rparr>))
       else failM (ErrorString (''received unexpected type '' @ string_of_nat (unat t))))"

definition StorageFunctionTypeV13_Encode :: "StorageFunctionTypeV13 \<Rightarrow> (bytes, unit) goM" where
  "StorageFunctionTypeV13_Encode s =
     (if t13IsType s then seqM (PushByte 0) (Text_Encode (t13AsType s))
      else if t13IsMap s then seqM (PushByte 1) (MapTypeV10_Encode (t13AsMap s))
      else if t13IsDoubleMap s then seqM (PushByte 2) (DoubleMapTypeV10_Encode (t13AsDoubleMap s))
      else if t13IsNMap s then seqM (PushByte 3) (NMapTypeV13_Encode (t13AsNMap s))
      else failM (ErrorString ''expected to be either type, map, double map or nmap but none was set''))"

definition StorageFunctionMetadataV13_Encode :: "StorageFunctionMetadataV13 \<Rightarrow> (bytes, unit) goM" where
  "StorageFunctionMetadataV13_Encode s =
     seqM (fieldE (Text_Encode (s13Name s)))
    (seqM (fieldE (StorageFunctionModifierV0_Encode (s13Modifier s)))
    (seqM (fieldE (StorageFunctionTypeV13_Encode (s13Type s)))
    (seqM (fieldE (Encode_slice Encode_byte (s13Fallback s)))
          (fieldE (Encode_slice Text_Encode (s13Documentation s))))))"

definition StorageFunctionMetadataV13_Decode :: "(bytes, StorageFunctionMetadataV13) goM" where
  "StorageFunctionMetadataV13_Decode =
     bindM (fieldD Text_Decode) (\<lambda>n.
     bindM (fieldD StorageFunctionModifierV0_Decode) (\<lambda>m.
     bindM (fieldD StorageFunctionTypeV13_Decode) (\<lambda>t.
     bindM (fieldD (Decode_slice Decode_byte)) (\<lambda>f.
     bindM (fieldD (Decode_slice Text_Decode)) (\<lambda>ds.
       retM \<lparr>s13Name = n, s13Modifier = m, s13Type = t, s13Fallback = f, s13Documentation = ds\<rparr>)))))"

definition StorageMetadataV13_Encode :: "StorageMetadataV13 \<Rightarrow> (bytes, unit) goM" where
  "StorageMetadataV13_Encode s =
     seqM (fieldE (Text_Encode (st13Prefix s))) (fieldE (Encode_slice StorageFunctionMetadataV13_Encode (st13Items s)))"

definition StorageMetadataV13_Decode :: "(bytes, StorageMetadataV13) goM" where
  "StorageMetadataV13_Decode =
     bindM (fieldD Text_Decode) (\<lambda>p. bindM (fieldD (Decode_slice StorageFunctionMetadataV13_Decode)) (\<lambda>is.
       retM \<lparr>st13Prefix = p, st13Items = is\<rparr>))"

section \<open>Modules\<close>

record ModuleMetadataV13 =
  mod13Name :: string
  mod13HasStorage :: bool
  mod13Storage :: StorageMetadataV13
  mod13HasCalls :: bool
  mod13Calls :: "FunctionMetadataV4 list"
  mod13HasEvents :: bool
  mod13Events :: "EventMetadataV4 list"
  mod13Constants :: "ModuleConstantMetadataV6 list"
  mod13Errors :: "ErrorMetadataV8 list"
  mod13Index :: uint8

record MetadataV13 =
  Modules13 :: "ModuleMetadataV13 list"
  md13Extrinsic :: ExtrinsicV11

definition ModuleMetadataV13_Decode :: "(bytes, ModuleMetadataV13) goM" where
  "ModuleMetadataV13_Decode =
     bindM Text_Decode (\<lambda>n.
     bindM (DecodeOption StorageMetadataV13_Decode zero_storage13) (\<lambda>(hs, st).
     bindM (DecodeOption (Decode_slice FunctionMetadataV4_Decode) []) (\<lambda>(hc, cs).
     bindM (DecodeOption (Decode_slice EventMetadataV4_Decode) []) (\<lambda>(he, es).
     bindM (Decode_slice ModuleConstantMetadataV6_Decode) (\<lambda>ks.
     bindM (Decode_slice ErrorMetadataV8_Decode) (\<lambda>ers.
     bindM (Decode_word Uint8) (\<lambda>i.
       retM \<lparr>mod13Name = n, mod13HasStorage = hs, mod13Storage = st, mod13HasCalls = hc, mod13Calls = cs,
             mod13HasEvents = he, mod13Events = es, mod13Constants = ks, mod13Errors = ers, mod13Index = i\<rparr>)))))))"

definition ModuleMetadataV13_Encode :: "ModuleMetadataV13 \<Rightarrow> (bytes, unit) goM" where
  "ModuleMetadataV13_Encode m =
     seqM (Text_Encode (mod13Name m))
    (seqM (EncodeOption StorageMetadataV13_Encode (mod13HasStorage m) (mod13Storage m))
    (seqM (EncodeOption (Encode_slice FunctionMetadataV4_Encode) (mod13HasCalls m) (mod13Calls m))
    (seqM (EncodeOption (Encode_slice EventMetadataV4_Encode) (mod13HasEvents m) (mod13Events m))
    (seqM (Encode_slice ModuleConstantMetadataV6_Encode (mod13Constants m))
    (seqM (Encode_slice ErrorMetadataV8_Encode (mod13Errors m))
          (Encode_word Uint8 (mod13Index m)))))))"

definition MetadataV13_Decode :: "(bytes, MetadataV13) goM" where
  "MetadataV13_Decode =
     bindM (Decode_slice ModuleMetadataV13_Decode) (\<lambda>ms. bindM ExtrinsicV11_Decode (\<lambda>e.
       retM \<lparr>Modules13 = ms, md13Extrinsic = e\<rparr>))"

definition MetadataV13_Encode :: "MetadataV13 \<Rightarrow> (bytes, unit) goM" where
  "MetadataV13_Encode m =
     seqM (Encode_slice ModuleMetadataV13_Encode (Modules13 m)) (ExtrinsicV11_Encode (md13Extrinsic m))"

section \<open>Queries\<close>

definition V13_FindCallIndex :: "MetadataV13 \<Rightarrow> string \<Rightarrow> CallIndex res" where
  "V13_FindCallIndex m call =
     FindCallIndex_indexed mod13HasCalls mod13Name (\<lambda>md. map fnName (mod13Calls md)) mod13Index call
       (Split (CHR ''.'') call) (Modules13 m)"

definition V13_FindEventNamesForEventID :: "MetadataV13 \<Rightarrow> uint8 \<times> uint8 \<Rightarrow> (string \<times> string) res" where
  "V13_FindEventNamesForEventID m eventID =
     FindEventNames_indexed mod13HasEvents mod13Name (\<lambda>md. map evName (mod13Events md)) mod13Index eventID (Modules13 m)"

definition V13_FindConstantValue :: "MetadataV13 \<Rightarrow> string \<Rightarrow> string \<Rightarrow> bytes res" where
  "V13_FindConstantValue m module c = FindConstantValue_in mod13Name mod13Constants module c (Modules13 m)"

definition V13_FindStorageEntryMetadata :: "MetadataV13 \<Rightarrow> string \<Rightarrow> string \<Rightarrow> StorageFunctionMetadataV13 res" where
  "V13_FindStorageEntryMetadata m module fn =
     FindStorageEntry_in mod13HasStorage (\<lambda>md. st13Prefix (mod13Storage md)) (\<lambda>md. st13Items (mod13Storage md)) s13Name module fn
       (Modules13 m)"

definition V13_ExistsModuleMetadata :: "MetadataV13 \<Rightarrow> string \<Rightarrow> bool" where
  "V13_ExistsModuleMetadata m module = ExistsModule_in mod13Name module (Modules13 m)"

section \<open>The methods of a storage entry\<close>

definition V13_IsPlain :: "StorageFunctionMetadataV13 \<Rightarrow> bool" where
  "V13_IsPlain s = t13IsType (s13Type s)"

definition V13_Hasher :: "StorageFunctionMetadataV13 \<Rightarrow> 'b Hash res" where
  "V13_Hasher s = DefaultPlainHasher (V13_IsPlain s)"

definition V13_IsMap :: "StorageFunctionMetadataV13 \<Rightarrow> bool" where
  "V13_IsMap s = (t13IsMap (s13Type s) \<or> t13IsDoubleMap (s13Type s) \<or> t13IsNMap (s13Type s))"

definition collectHashersV13 :: "StorageFunctionTypeV13 \<Rightarrow> StorageHasherV10 list res" where
  "collectHashersV13 x =
     (if t13IsMap x then Ok [m10Hasher (t13AsMap x)]
      else if t13IsDoubleMap x then Ok [d10Hasher (t13AsDoubleMap x), d10Key2Hasher (t13AsDoubleMap x)]
      else if t13IsNMap x then Ok (nHashers (t13AsNMap x))
      else Panic ''Unexpexted type'')"

definition V13_Hashers :: "('b, 'x) hash_lib \<Rightarrow> StorageFunctionMetadataV13 \<Rightarrow> 'b Hash list res" where
  "V13_Hashers lib s =
     (if \<not> V13_IsMap s then Err (ErrorString ''Hashers() is only to be called on Maps'')
      else bindR (collectHashersV13 (s13Type s)) (HashFuncs (StorageHasherV10_HashFunc lib)))"

definition V13_entry :: "('b, 'x) hash_lib \<Rightarrow> StorageFunctionMetadataV13 \<Rightarrow> 'b StorageEntryMetadata" where
  "V13_entry lib s = \<lparr>se_IsPlain = V13_IsPlain s, se_Hasher = V13_Hasher s, se_IsMap = V13_IsMap s,
     se_Hashers = V13_Hashers lib s\<rparr>"

definition V13_kinds :: "StorageFunctionMetadataV13 \<Rightarrow> hash_kind list option" where
  "V13_kinds s = kinds_of kindV10 (collectHashersV13 (s13Type s))"

section \<open>Contracts\<close>

definition nmap13_ok :: "NMapTypeV13 \<Rightarrow> bool" where
  "nmap13_ok m \<longleftrightarrow> slice_ok text_ok (nKeys m) \<and> slice_ok hasher_ok (nHashers m) \<and> text_ok (nValue m)"

definition type13_ok :: "StorageFunctionTypeV13 \<Rightarrow> bool" where
  "type13_ok s \<longleftrightarrow>
     (\<exists>t. text_ok t \<and> s = zero_type13\<lparr>t13IsType := True, t13AsType := t\<rparr>) \<or>
     (\<exists>m. map10_ok m \<and> s = zero_type13\<lparr>t13IsMap := True, t13AsMap := m\<rparr>) \<or>
     (\<exists>m. double10_ok m \<and> s = zero_type13\<lparr>t13IsDoubleMap := True, t13AsDoubleMap := m\<rparr>) \<or>
     (\<exists>m. nmap13_ok m \<and> s = zero_type13\<lparr>t13IsNMap := True, t13AsNMap := m\<rparr>)"

definition storage13e_ok :: "StorageFunctionMetadataV13 \<Rightarrow> bool" where
  "storage13e_ok s \<longleftrightarrow> text_ok (s13Name s) \<and> modifier_ok (s13Modifier s) \<and> type13_ok (s13Type s) \<and>
     slice_ok (\<lambda>_. True) (s13Fallback s) \<and> slice_ok text_ok (s13Documentation s)"

definition storage13_ok :: "StorageMetadataV13 \<Rightarrow> bool" where
  "storage13_ok s \<longleftrightarrow> text_ok (st13Prefix s) \<and> slice_ok storage13e_ok (st13Items s)"

definition module13_ok :: "ModuleMetadataV13 \<Rightarrow> bool" where
  "module13_ok m \<longleftrightarrow> text_ok (mod13Name m) \<and>
     option_ok storage13_ok zero_storage13 (mod13HasStorage m) (mod13Storage m) \<and>
     option_ok (slice_ok function_ok) [] (mod13HasCalls m) (mod13Calls m) \<and>
     option_ok (slice_ok event_ok) [] (mod13HasEvents m) (mod13Events m) \<and>
     slice_ok constant6_ok (mod13Constants m) \<and> slice_ok error8_ok (mod13Errors m)"

definition metadata13_ok :: "MetadataV13 \<Rightarrow> bool" where
  "metadata13_ok m \<longleftrightarrow> slice_ok module13_ok (Modules13 m) \<and> extrinsic11_ok (md13Extrinsic m)"

interpretation nmapV13: scale_codec NMapTypeV13_Encode NMapTypeV13_Decode nmap13_ok
proof
  fix m
  assume "nmap13_ok m"
  then show "rt (NMapTypeV13_Encode m) NMapTypeV13_Decode m"
    unfolding NMapTypeV13_Encode_def NMapTypeV13_Decode_def
    by (cases m, intro rt_struct) (rule module_roundtrips hashers.roundtrip, simp add: nmap13_ok_def, simp?)+
qed

interpretation typeV13: scale_codec StorageFunctionTypeV13_Encode StorageFunctionTypeV13_Decode type13_ok
proof
  fix s
  assume "type13_ok s"
  then show "rt (StorageFunctionTypeV13_Encode s) StorageFunctionTypeV13_Decode s"
    unfolding type13_ok_def StorageFunctionTypeV13_Decode_def
    by (elim disjE exE conjE)
      (rule rt_word_tag, simp add: StorageFunctionTypeV13_Encode_def zero_type13_def, simp,
       intro rt_struct, rule module_roundtrips mapV10.roundtrip doubleV10.roundtrip nmapV13.roundtrip, simp, simp)+
qed

interpretation storageEntryV13: scale_codec StorageFunctionMetadataV13_Encode StorageFunctionMetadataV13_Decode storage13e_ok
proof
  fix m
  assume "storage13e_ok m"
  then show "rt (StorageFunctionMetadataV13_Encode m) StorageFunctionMetadataV13_Decode m"
    unfolding StorageFunctionMetadataV13_Encode_def StorageFunctionMetadataV13_Decode_def
    by (cases m, intro rt_struct) (rule module_roundtrips typeV13.roundtrip, simp add: storage13e_ok_def, simp?)+
qed

interpretation storageEntriesV13: scale_codec "Encode_slice StorageFunctionMetadataV13_Encode" "Decode_slice StorageFunctionMetadataV13_Decode" "slice_ok storage13e_ok"
  by (rule slice_contract) (rule storageEntryV13.scale_codec_axioms)

interpretation storageV13: scale_codec StorageMetadataV13_Encode StorageMetadataV13_Decode storage13_ok
proof
  fix m
  assume "storage13_ok m"
  then show "rt (StorageMetadataV13_Encode m) StorageMetadataV13_Decode m"
    unfolding StorageMetadataV13_Encode_def StorageMetadataV13_Decode_def
    by (cases m, intro rt_struct) (rule module_roundtrips storageEntriesV13.roundtrip, simp add: storage13_ok_def, simp?)+
qed

interpretation moduleV13: scale_codec ModuleMetadataV13_Encode ModuleMetadataV13_Decode module13_ok
proof
  fix m
  assume "module13_ok m"
  then show "rt (ModuleMetadataV13_Encode m) ModuleMetadataV13_Decode m"
    unfolding ModuleMetadataV13_Encode_def ModuleMetadataV13_Decode_def
    by (cases m, intro rt_struct) (rule module_roundtrips option_contract [OF storageV13.scale_codec_axioms], simp add: module13_ok_def, simp?)+
qed

interpretation modulesV13: scale_codec "Encode_slice ModuleMetadataV13_Encode" "Decode_slice ModuleMetadataV13_Decode" "slice_ok module13_ok"
  by (rule slice_contract) (rule moduleV13.scale_codec_axioms)

interpretation metadataV13: scale_codec MetadataV13_Encode MetadataV13_Decode metadata13_ok
proof
  fix m
  assume "metadata13_ok m"
  then show "rt (MetadataV13_Encode m) MetadataV13_Decode m"
    unfolding MetadataV13_Encode_def MetadataV13_Decode_def
    by (cases m, intro rt_struct) (rule modulesV13.roundtrip extrinsicV11.roundtrip, simp add: metadata13_ok_def, simp?)+
qed

definition V13_ctable :: "MetadataV13 \<Rightarrow> (uint8 \<times> string \<times> string list) list" where
  "V13_ctable m = map (\<lambda>md. (mod13Index md, mod13Name md, map fnName (mod13Calls md))) (filter mod13HasCalls (Modules13 m))"

definition V13_etable :: "MetadataV13 \<Rightarrow> (uint8 \<times> string \<times> string \<times> string list) list" where
  "V13_etable m = map (\<lambda>md. (mod13Index md, mod13Name md, mod13Name md, map evName (mod13Events md))) (filter mod13HasEvents (Modules13 m))"

interpretation lookupV13: module_metadata V13_FindCallIndex V13_FindEventNamesForEventID V13_ctable V13_etable
  by unfold_locales
    (simp_all add: V13_FindCallIndex_def V13_FindEventNamesForEventID_def FindCallIndex_indexed_table
      FindEventNames_indexed_table V13_ctable_def V13_etable_def)

interpretation entryV13: storage_entry "hash_lib_laws lib bst bd xst xd" bst "V13_entry lib" V13_kinds
  for lib bst bd xst xd
proof
  fix e
  assume laws: "hash_lib_laws lib bst bd xst xd"
  show "\<not> se_IsMap (V13_entry lib e) \<Longrightarrow> se_Hasher (V13_entry lib e) = DefaultPlainHasher (se_IsPlain (V13_entry lib e))"
    by (simp add: V13_entry_def V13_Hasher_def)
  assume "se_IsMap (V13_entry lib e)"
  then have "V13_IsMap e" by (simp add: V13_entry_def)
  moreover from this have "\<exists>hs. collectHashersV13 (s13Type e) = Ok hs"
    by (auto simp: V13_IsMap_def collectHashersV13_def)
  ultimately show "hashers_outcome bst (V13_kinds e) (se_Hashers (V13_entry lib e))"
    by (auto simp: V13_entry_def V13_Hashers_def V13_kinds_def kinds_of_def HashFuncsV10_outcome [OF laws])
qed

end
