(* ===== verification/Metadata.thy ===== *)
theory Metadata
  imports MetadataV13
begin

text \<open>
  The metadata of any version, \<open>src/types/metadata.go\<close>: the versioned codec, the queries
  dispatched on the version, and \<open>CreateStorageKey\<close> of \<open>src/types/storage_key.go\<close> on top of them.
\<close>

section \<open>Storage entries of version 14\<close>

definition V14_IsPlain :: "StorageEntryMetadataV14 \<Rightarrow> bool" where
  "V14_IsPlain s = IsPlainType (seType s)"

definition V14_Hasher :: "StorageEntryMetadataV14 \<Rightarrow> 'b Hash res" where
  "V14_Hasher s = DefaultPlainHasher (V14_IsPlain s)"

definition V14_IsMap :: "StorageEntryMetadataV14 \<Rightarrow> bool" where
  "V14_IsMap s = IsMap (seType s)"

definition V14_Hashers :: "('b, 'x) hash_lib \<Rightarrow> StorageEntryMetadataV14 \<Rightarrow> 'b Hash list res" where
  "V14_Hashers lib s =
     (if \<not> V14_IsMap s then Err (ErrorString ''StorageEntryMetadataV14.Hashers() should be called on a Map entry'')
      else HashFuncs (StorageHasherV10_HashFunc lib) (mHashers (AsMap (seType s))))"

definition V14_entry :: "('b, 'x) hash_lib \<Rightarrow> StorageEntryMetadataV14 \<Rightarrow> 'b StorageEntryMetadata" where
  "V14_entry lib s = \<lparr>se_IsPlain = V14_IsPlain s, se_Hasher = V14_Hasher s, se_IsMap = V14_IsMap s,
     se_Hashers = V14_Hashers lib s\<rparr>"

definition V14_kinds :: "StorageEntryMetadataV14 \<Rightarrow> hash_kind list option" where
  "V14_kinds s = all_some (map kindV10 (mHashers (AsMap (seType s))))"

interpretation entryV14: storage_entry "hash_lib_laws lib bst bd xst xd" bst "V14_entry lib" V14_kinds
  for lib bst bd xst xd
  by unfold_locales
    (simp_all add: V14_entry_def V14_Hasher_def V14_Hashers_def V14_kinds_def HashFuncsV10_outcome)

section \<open>Metadata of any version\<close>

definition MagicNumber :: uint32 where
  "MagicNumber = 0x6174656d"

record Metadata =
  mdMagicNumber :: uint32
  mdVersion :: uint8
  AsMetadataV4 :: MetadataV4
  AsMetadataV7 :: MetadataV7
  AsMetadataV8 :: MetadataV8
  AsMetadataV9 :: MetadataV9
  AsMetadataV10 :: MetadataV10
  AsMetadataV11 :: MetadataV11
  AsMetadataV12 :: MetadataV12
  AsMetadataV13 :: MetadataV13
  AsMetadataV14 :: MetadataV14

definition zero_extrinsic11 :: ExtrinsicV11 where
  "zero_extrinsic11 = \<lparr>ex11Version = 0, ex11SignedExtensions = []\<rparr>"

definition zero_metadata14 :: MetadataV14 where
  "zero_metadata14 = \<lparr>Lookup = [], Pallets = [],
     mdExtrinsic = \<lparr>exType = 0, exVersion = 0, exSignedExtensions = []\<rparr>, mdType = 0, EfficientLookup = Map.empty\<rparr>"

definition zero_metadata :: Metadata where
  "zero_metadata =
     \<lparr>mdMagicNumber = 0, mdVersion = 0, AsMetadataV4 = \<lparr>Modules4 = []\<rparr>, AsMetadataV7 = \<lparr>Modules7 = []\<rparr>,
      AsMetadataV8 = \<lparr>Modules8 = []\<rparr>, AsMetadataV9 = \<lparr>Modules9 = []\<rparr>, AsMetadataV10 = \<lparr>Modules10 = []\<rparr>,
      AsMetadataV11 = \<lparr>md11V10 = \<lparr>Modules10 = []\<rparr>, md11Extrinsic = zero_extrinsic11\<rparr>,
      AsMetadataV12 = \<lparr>Modules12 = [], md12Extrinsic = zero_extrinsic11\<rparr>,
      AsMetadataV13 = \<lparr>Modules13 = [], md13Extrinsic = zero_extrinsic11\<rparr>,
      AsMetadataV14 = zero_metadata14\<rparr>"

text \<open>
  The constructors \<open>NewMetadataV4\<close> to \<open>NewMetadataV14\<close>: only the version is set. Empty and nil
  slices are not told apart in the model.
\<close>

definition NewMetadata :: "uint8 \<Rightarrow> Metadata" where
  "NewMetadata version = zero_metadata\<lparr>mdVersion := version\<rparr>"

fun hex_of_nat :: "nat \<Rightarrow> string" where
  "hex_of_nat n = (if n < 16 then [hex_digit n] else hex_of_nat (n div 16) @ [hex_digit (n mod 16)])"

declare hex_of_nat.simps [simp del]

definition magic_mismatch :: "uint32 \<Rightarrow> goerror" where
  "magic_mismatch found =
     ErrorString (''magic number mismatch: expected 0x'' @ hex_of_nat (unat MagicNumber) @
       '', found 0x'' @ hex_of_nat (unat found))"

definition unsupported_version :: "uint8 \<Rightarrow> goerror" where
  "unsupported_version v = ErrorString (''unsupported metadata version '' @ string_of_nat (unat v))"

text \<open>The switches on the version, of \<open>Decode\<close> and of \<open>Encode\<close>.\<close>

definition Metadata_Decode_version :: "Metadata \<Rightarrow> (bytes, Metadata) goM" where
  "Metadata_Decode_version m =
     (if mdVersion m = 4 then bindM MetadataV4_Decode (\<lambda>x. retM (m\<lparr>AsMetadataV4 := x\<rparr>))
      else if mdVersion m = 7 then bindM MetadataV7_Decode (\<lambda>x. retM (m\<lparr>AsMetadataV7 := x\<rparr>))
      else if mdVersion m = 8 then bindM MetadataV8_Decode (\<lambda>x. retM (m\<lparr>AsMetadataV8 := x\<rparr>))
      else if mdVersion m = 9 then bindM MetadataV9_Decode (\<lambda>x. retM (m\<lparr>AsMetadataV9 := x\<rparr>))
      else if mdVersion m = 10 then bindM MetadataV10_Decode (\<lambda>x. retM (m\<lparr>AsMetadataV10 := x\<rparr>))
      else if mdVersion m = 11 then bindM MetadataV11_Decode (\<lambda>x. retM (m\<lparr>AsMetadataV11 := x\<rparr>))
      else if mdVersion m = 12 then bindM MetadataV12_Decode (\<lambda>x. retM (m\<lparr>AsMetadataV12 := x\<rparr>))
      else if mdVersion m = 13 then bindM MetadataV13_Decode (\<lambda>x. retM (m\<lparr>AsMetadataV13 := x\<rparr>))
      else if mdVersion m = 14 then bindM MetadataV14_Decode (\<lambda>x. retM (m\<lparr>AsMetadataV14 := x\<rparr>))
      else failM (unsupported_version (mdVersion m)))"

definition Metadata_Encode_version :: "Metadata \<Rightarrow> (bytes, unit) goM" where
  "Metadata_Encode_version m =
     (if mdVersion m = 4 then MetadataV4_Encode (AsMetadataV4 m)
      else if mdVersion m = 7 then MetadataV7_Encode (AsMetadataV7 m)
      else if mdVersion m = 8 then MetadataV8_Encode (AsMetadataV8 m)
      else if mdVersion m = 9 then MetadataV9_Encode (AsMetadataV9 m)
      else if mdVersion m = 10 then MetadataV10_Encode (AsMetadataV10 m)
      else if mdVersion m = 11 then MetadataV11_Encode (AsMetadataV11 m)
      else if mdVersion m = 12 then MetadataV12_Encode (AsMetadataV12 m)
      else if mdVersion m = 13 then MetadataV13_Encode (AsMetadataV13 m)
      else if mdVersion m = 14 then MetadataV14_Encode (AsMetadataV14 m)
      else failM (unsupported_version (mdVersion m)))"

definition Metadata_Decode :: "(bytes, Metadata) goM" where
  "Metadata_Decode =
     bindM (Decode_word Uint32) (\<lambda>magic.
       if magic \<noteq> MagicNumber then failM (magic_mismatch magic)
       else
         bindM (Decode_word Uint8) (\<lambda>v.
           Metadata_Decode_version (zero_metadata\<lparr>mdMagicNumber := magic, mdVersion := v\<rparr>)))"

definition Metadata_Encode :: "Metadata \<Rightarrow> (bytes, unit) goM" where
  "Metadata_Encode m =
     seqM (Encode_word Uint32 (mdMagicNumber m))
    (seqM (Encode_word Uint8 (mdVersion m)) (Metadata_Encode_version m))"

section \<open>Queries\<close>

definition Metadata_FindError :: "Metadata \<Rightarrow> uint8 \<Rightarrow> uint8 list \<Rightarrow> MetadataError res" where
  "Metadata_FindError m moduleIndex errorIndex =
     (if mdVersion m \<noteq> 14 then Err (ErrorString (''invalid metadata version '' @ string_of_nat (unat (mdVersion m))))
      else V14_FindError (AsMetadataV14 m) moduleIndex errorIndex)"

abbreviation unsupported :: goerror where
  "unsupported \<equiv> ErrorString ''unsupported metadata version''"

definition Metadata_FindConstantValue :: "Metadata \<Rightarrow> string \<Rightarrow> string \<Rightarrow> bytes res" where
  "Metadata_FindConstantValue m module c =
     (if mdVersion m = 4 then V4_FindConstantValue (AsMetadataV4 m) module c
      else if mdVersion m = 7 then V7_FindConstantValue (AsMetadataV7 m) module c
      else if mdVersion m = 8 then V8_FindConstantValue (AsMetadataV8 m) module c
      else if mdVersion m = 9 then V9_FindConstantValue (AsMetadataV9 m) module c
      else if mdVersion m = 10 then V10_FindConstantValue (AsMetadataV10 m) module c
      else if mdVersion m = 11 then V10_FindConstantValue (md11V10 (AsMetadataV11 m)) module c
      else if mdVersion m = 12 then V12_FindConstantValue (AsMetadataV12 m) module c
      else if mdVersion m = 13 then V13_FindConstantValue (AsMetadataV13 m) module c
      else if mdVersion m = 14 then V14_FindConstantValue (AsMetadataV14 m) module c
      else Err unsupported)"

definition Metadata_FindCallIndex :: "Metadata \<Rightarrow> string \<Rightarrow> CallIndex res" where
  "Metadata_FindCallIndex m call =
     (if mdVersion m = 4 then V4_FindCallIndex (AsMetadataV4 m) call
      else if mdVersion m = 7 then V7_FindCallIndex (AsMetadataV7 m) call
      else if mdVersion m = 8 then V8_FindCallIndex (AsMetadataV8 m) call
      else if mdVersion m = 9 then V9_FindCallIndex (AsMetadataV9 m) call
      else if mdVersion m = 10 then V10_FindCallIndex (AsMetadataV10 m) call
      else if mdVersion m = 11 then V10_FindCallIndex (md11V10 (AsMetadataV11 m)) call
      else if mdVersion m = 12 then V12_FindCallIndex (AsMetadataV12 m) call
      else if mdVersion m = 13 then V13_FindCallIndex (AsMetadataV13 m) call
      else if mdVersion m = 14 then V14_FindCallIndex (AsMetadataV14 m) call
      else Err unsupported)"

definition Metadata_FindEventNamesForEventID :: "Metadata \<Rightarrow> uint8 \<times> uint8 \<Rightarrow> (string \<times> string) res" where
  "Metadata_FindEventNamesForEventID m eventID =
     (if mdVersion m = 4 then V4_FindEventNamesForEventID (AsMetadataV4 m) eventID
      else if mdVersion m = 7 then V7_FindEventNamesForEventID (AsMetadataV7 m) eventID
      else if mdVersion m = 8 then V8_FindEventNamesForEventID (AsMetadataV8 m) eventID
      else if mdVersion m = 9 then V9_FindEventNamesForEventID (AsMetadataV9 m) eventID
      else if mdVersion m = 10 then V10_FindEventNamesForEventID (AsMetadataV10 m) eventID
      else if mdVersion m = 11 then V10_FindEventNamesForEventID (md11V10 (AsMetadataV11 m)) eventID
      else if mdVersion m = 12 then V12_FindEventNamesForEventID (AsMetadataV12 m) eventID
      else if mdVersion m = 13 then V13_FindEventNamesForEventID (AsMetadataV13 m) eventID
      else if mdVersion m = 14 then V14_FindEventNamesForEventID (AsMetadataV14 m) eventID
      else Err unsupported)"

text \<open>The dynamic types behind a value of interface type \<open>StorageEntryMetadata\<close>.\<close>

datatype storage_entry_value =
    Entry4 StorageFunctionMetadataV4
  | Entry5 StorageFunctionMetadataV5
  | Entry10 StorageFunctionMetadataV10
  | Entry13 StorageFunctionMetadataV13
  | Entry14 StorageEntryMetadataV14

fun entry_iface :: "('b, 'x) hash_lib \<Rightarrow> storage_entry_value \<Rightarrow> 'b StorageEntryMetadata" where
  "entry_iface lib (Entry4 s) = V4_entry lib s"
| "entry_iface lib (Entry5 s) = V5_entry lib s"
| "entry_iface lib (Entry10 s) = V10_entry lib s"
| "entry_iface lib (Entry13 s) = V13_entry lib s"
| "entry_iface lib (Entry14 s) = V14_entry lib s"

fun entry_kinds :: "storage_entry_value \<Rightarrow> hash_kind list option" where
  "entry_kinds (Entry4 s) = V4_kinds s"
| "entry_kinds (Entry5 s) = V5_kinds s"
| "entry_kinds (Entry10 s) = V10_kinds s"
| "entry_kinds (Entry13 s) = V13_kinds s"
| "entry_kinds (Entry14 s) = V14_kinds s"

definition Metadata_FindStorageEntryMetadata :: "Metadata \<Rightarrow> string \<Rightarrow> string \<Rightarrow> storage_entry_value res" where
  "Metadata_FindStorageEntryMetadata m module fn =
     (if mdVersion m = 4 then bindR (V4_FindStorageEntryMetadata (AsMetadataV4 m) module fn) (\<lambda>s. Ok (Entry4 s))
      else if mdVersion m = 7 then bindR (V7_FindStorageEntryMetadata (AsMetadataV7 m) module fn) (\<lambda>s. Ok (Entry5 s))
      else if mdVersion m = 8 then bindR (V8_FindStorageEntryMetadata (AsMetadataV8 m) module fn) (\<lambda>s. Ok (Entry5 s))
      else if mdVersion m = 9 then bindR (V9_FindStorageEntryMetadata (AsMetadataV9 m) module fn) (\<lambda>s. Ok (Entry5 s))
      else if mdVersion m = 10 then bindR (V10_FindStorageEntryMetadata (AsMetadataV10 m) module fn) (\<lambda>s. Ok (Entry10 s))
      else if mdVersion m = 11 then
        bindR (V10_FindStorageEntryMetadata (md11V10 (AsMetadataV11 m)) module fn) (\<lambda>s. Ok (Entry10 s))
      else if mdVersion m = 12 then bindR (V12_FindStorageEntryMetadata (AsMetadataV12 m) module fn) (\<lambda>s. Ok (Entry10 s))
      else if mdVersion m = 13 then bindR (V13_FindStorageEntryMetadata (AsMetadataV13 m) module fn) (\<lambda>s. Ok (Entry13 s))
      else if mdVersion m = 14 then bindR (V14_FindStorageEntryMetadata (AsMetadataV14 m) module fn) (\<lambda>s. Ok (Entry14 s))
      else Err unsupported)"

definition Metadata_ExistsModuleMetadata :: "Metadata \<Rightarrow> string \<Rightarrow> bool" where
  "Metadata_ExistsModuleMetadata m module =
     (if mdVersion m = 4 then V4_ExistsModuleMetadata (AsMetadataV4 m) module
      else if mdVersion m = 7 then V7_ExistsModuleMetadata (AsMetadataV7 m) module
      else if mdVersion m = 8 then V8_ExistsModuleMetadata (AsMetadataV8 m) module
      else if mdVersion m = 9 then V9_ExistsModuleMetadata (AsMetadataV9 m) module
      else if mdVersion m = 10 then V10_ExistsModuleMetadata (AsMetadataV10 m) module
      else if mdVersion m = 11 then V10_ExistsModuleMetadata (md11V10 (AsMetadataV11 m)) module
      else if mdVersion m = 12 then V12_ExistsModuleMetadata (AsMetadataV12 m) module
      else if mdVersion m = 13 then V13_ExistsModuleMetadata (AsMetadataV13 m) module
      else if mdVersion m = 14 then V14_ExistsModuleMetadata (AsMetadataV14 m) module
      else False)"

definition CreateStorageKey ::
  "('b, 'x) hash_lib \<Rightarrow> Metadata \<Rightarrow> string \<Rightarrow> string \<Rightarrow> bytes list \<Rightarrow> bytes res" where
  "CreateStorageKey lib meta =
     CreateStorageKey_with lib (mdVersion meta)
       (\<lambda>pfx mthd. bindR (Metadata_FindStorageEntryMetadata meta pfx mthd) (\<lambda>e. Ok (entry_iface lib e)))"

section \<open>Contracts\<close>

interpretation any_entry: storage_entry "hash_lib_laws lib bst bd xst xd" bst "entry_iface lib" entry_kinds
  for lib bst bd xst xd
proof
  fix e
  assume laws: "hash_lib_laws lib bst bd xst xd"
  show "\<not> se_IsMap (entry_iface lib e) \<Longrightarrow>
      se_Hasher (entry_iface lib e) = DefaultPlainHasher (se_IsPlain (entry_iface lib e))"
    using laws by (cases e) (simp_all add: entryV4.plain_hasher entryV5.plain_hasher entryV10.plain_hasher
        entryV13.plain_hasher entryV14.plain_hasher)
  show "se_IsMap (entry_iface lib e) \<Longrightarrow> hashers_outcome bst (entry_kinds e) (se_Hashers (entry_iface lib e))"
    using laws by (cases e) (simp_all add: entryV4.map_hashers entryV5.map_hashers entryV10.map_hashers
        entryV13.map_hashers entryV14.map_hashers)
qed

text \<open>A metadata that a chain can send: a supported version, that version's content, nothing else.\<close>

definition versioned :: "uint8 \<Rightarrow> Metadata" where
  "versioned v = zero_metadata\<lparr>mdMagicNumber := MagicNumber, mdVersion := v\<rparr>"

inductive metadata_valid :: "Metadata \<Rightarrow> bool" where
  "metadata4_ok x \<Longrightarrow> metadata_valid (versioned 4\<lparr>AsMetadataV4 := x\<rparr>)"
| "metadata7_ok x \<Longrightarrow> metadata_valid (versioned 7\<lparr>AsMetadataV7 := x\<rparr>)"
| "metadata8_ok x \<Longrightarrow> metadata_valid (versioned 8\<lparr>AsMetadataV8 := x\<rparr>)"
| "metadata9_ok x \<Longrightarrow> metadata_valid (versioned 9\<lparr>AsMetadataV9 := x\<rparr>)"
| "metadata10_ok x \<Longrightarrow> metadata_valid (versioned 10\<lparr>AsMetadataV10 := x\<rparr>)"
| "metadata11_ok x \<Longrightarrow> metadata_valid (versioned 11\<lparr>AsMetadataV11 := x\<rparr>)"
| "metadata12_ok x \<Longrightarrow> metadata_valid (versioned 12\<lparr>AsMetadataV12 := x\<rparr>)"
| "metadata13_ok x \<Longrightarrow> metadata_valid (versioned 13\<lparr>AsMetadataV13 := x\<rparr>)"
| "metadata_ok x \<Longrightarrow> EfficientLookup x = toMap (Lookup x) \<Longrightarrow> metadata_valid (versioned 14\<lparr>AsMetadataV14 := x\<rparr>)"

lemma metadata14_rt:
  assumes "metadata_ok x" "EfficientLookup x = toMap (Lookup x)"
  shows "rt (MetadataV14_Encode x) MetadataV14_Decode x"
proof -
  have "x\<lparr>EfficientLookup := toMap (Lookup x)\<rparr> = x"
    using assms(2) by (cases x) simp
  then show ?thesis using metadata_rt [OF assms(1)] by simp
qed

lemmas version_roundtrips = metadataV4.roundtrip metadataV7.roundtrip metadataV8.roundtrip metadataV9.roundtrip
  metadataV10.roundtrip metadataV11.roundtrip metadataV12.roundtrip metadataV13.roundtrip metadata14_rt

lemma rt_versioned:
  assumes "mdMagicNumber m = MagicNumber"
    and "rt (Metadata_Encode_version m) (Metadata_Decode_version (versioned (mdVersion m))) m"
  shows "rt (Metadata_Encode m) Metadata_Decode m"
  unfolding Metadata_Encode_def Metadata_Decode_def assms(1)
proof (intro rt_seqM)
  show "rt (Encode_word Uint32 MagicNumber) (Decode_word Uint32) MagicNumber"
    by (rule u32.roundtrip) simp
  show "rt (seqM (Encode_word Uint8 (mdVersion m)) (Metadata_Encode_version m))
     (if MagicNumber \<noteq> MagicNumber then failM (magic_mismatch MagicNumber)
      else bindM (Decode_word Uint8) (\<lambda>v.
        Metadata_Decode_version (zero_metadata\<lparr>mdMagicNumber := MagicNumber, mdVersion := v\<rparr>))) m"
    using assms(2) by (auto intro!: rt_seqM [OF u8.roundtrip] simp: versioned_def)
qed

interpretation metadata: scale_codec Metadata_Encode Metadata_Decode metadata_valid
proof
  fix m
  assume "metadata_valid m"
  then show "rt (Metadata_Encode m) Metadata_Decode m"
    by (cases rule: metadata_valid.cases; hypsubst; intro rt_versioned)
      (simp_all add: versioned_def Metadata_Encode_version_def Metadata_Decode_version_def
        rt_last [OF version_roundtrips(1)] rt_last [OF version_roundtrips(2)] rt_last [OF version_roundtrips(3)]
        rt_last [OF version_roundtrips(4)] rt_last [OF version_roundtrips(5)] rt_last [OF version_roundtrips(6)]
        rt_last [OF version_roundtrips(7)] rt_last [OF version_roundtrips(8)] rt_last [OF version_roundtrips(9)])
qed

end
