(* ===== verification/MetadataProperties.thy ===== *)
theory MetadataProperties
  imports Metadata
begin

text \<open>
  The properties of the versioned metadata: its round trip, the errors of its decoder, the
  searches of the module-based versions, and the storage keys made from it.
\<close>

section \<open>The codec\<close>

text \<open>
  C33: Any metadata of a supported version with valid content, encoded and decoded again, comes
  back unchanged, whatever follows it in the input.\<close>

theorem metadata_roundtrip:
  assumes "metadata_valid m"
  shows "\<exists>bs. (\<forall>buf. Metadata_Encode m buf = (Ok (), buf @ bs)) \<and>
    (\<forall>rest. Metadata_Decode (bs @ rest) = (Ok m, rest))"
  using metadata.roundtrip [OF assms] by (auto simp: rt_def writes_def reads_def)

definition sample4 :: MetadataV4 where
  "sample4 = \<lparr>Modules4 =
     [\<lparr>mod4Name = ''system'', mod4Prefix = ''System'', mod4HasStorage = True,
       mod4Storage = [\<lparr>s4Name = ''Account'', s4Modifier = \<lparr>IsOptional = False, IsDefault = True, IsRequired = False\<rparr>,
          s4Type = zero_type4\<lparr>t4IsMap := True, t4AsMap := zero_map4\<lparr>m4Hasher := no_hasher4\<lparr>h4IsBlake2_128 := True\<rparr>\<rparr>\<rparr>,
          s4Fallback = [0], s4Documentation = [''doc'']\<rparr>],
       mod4HasCalls = True,
       mod4Calls = [\<lparr>fnName = ''remark'', fnArgs = [\<lparr>faName = ''x'', faType = ''u8''\<rparr>], fnDocumentation = []\<rparr>,
                    \<lparr>fnName = ''kill'', fnArgs = [], fnDocumentation = []\<rparr>],
       mod4HasEvents = True,
       mod4Events = [\<lparr>evName = ''Done'', evArgs = [''u8''], evDocumentation = []\<rparr>]\<rparr>]\<rparr>"

definition sample_versioned :: Metadata where
  "sample_versioned = versioned 4\<lparr>AsMetadataV4 := sample4\<rparr>"

lemma sample4_type_ok:
  "type4_ok (zero_type4\<lparr>t4IsMap := True, t4AsMap := zero_map4\<lparr>m4Hasher := no_hasher4\<lparr>h4IsBlake2_128 := True\<rparr>\<rparr>\<rparr>)"
proof -
  have "map4_ok (zero_map4\<lparr>m4Hasher := no_hasher4\<lparr>h4IsBlake2_128 := True\<rparr>\<rparr>)"
    by (simp add: map4_ok_def hasher4_ok_def zero_map4_def text_ok_def)
  then show ?thesis unfolding type4_ok_def by blast
qed

lemma sample4_ok: "metadata4_ok sample4"
  by (simp add: metadata4_ok_def sample4_def slice_ok_def module4_ok_def text_ok_def option_ok_def storage4_ok_def
      modifier_ok_def sample4_type_ok function_ok_def argument_ok_def event_ok_def)

lemma sample_versioned_valid: "metadata_valid sample_versioned"
  unfolding sample_versioned_def by (rule metadata_valid.intros) (rule sample4_ok)

theorem metadata_roundtrip_witness:
  "\<exists>bs. (\<forall>buf. Metadata_Encode sample_versioned buf = (Ok (), buf @ bs)) \<and>
    (\<forall>rest. Metadata_Decode (bs @ rest) = (Ok sample_versioned, rest))"
  by (rule metadata_roundtrip) (rule sample_versioned_valid)

text \<open>
  The decoder of the metadata accepts only the magic number, and only the nine versions it
  knows: any other first four bytes, or any other version byte after them, give the error that
  names what was found, and nothing after the version is read.\<close>

theorem metadata_decode_rejects:
  "Metadata_Decode (le_fixed 4 (unat magic) @ v # rest) =
     (if magic \<noteq> MagicNumber then (Err (magic_mismatch magic), v # rest)
      else if v \<in> {4, 7, 8, 9, 10, 11, 12, 13, 14}
      then Metadata_Decode_version (versioned v) rest
      else (Err (unsupported_version v), rest))"
proof -
  have "reads (Decode_word Uint32) (le_fixed 4 (unat magic)) magic"
    by (rule u32.reads_written) (simp_all add: Encode_word_def writes_binary_Write)
  then have "Decode_word Uint32 (le_fixed 4 (unat magic) @ v # rest) = (Ok magic, v # rest)"
    by (rule readsD)
  then show ?thesis
    by (simp add: Metadata_Decode_def Decode_word_Uint8_Cons versioned_def Metadata_Decode_version_def)
qed

section \<open>Calls and events of the module-based versions\<close>

definition Metadata_ctable :: "Metadata \<Rightarrow> (uint8 \<times> string \<times> string list) list" where
  "Metadata_ctable m =
     (if mdVersion m = 4 then V4_ctable (AsMetadataV4 m)
      else if mdVersion m = 7 then V7_ctable (AsMetadataV7 m)
      else if mdVersion m = 8 then V8_ctable (AsMetadataV8 m)
      else if mdVersion m = 9 then V9_ctable (AsMetadataV9 m)
      else if mdVersion m = 10 then V10_ctable (AsMetadataV10 m)
      else if mdVersion m = 11 then V10_ctable (md11V10 (AsMetadataV11 m))
      else if mdVersion m = 12 then V12_ctable (AsMetadataV12 m)
      else if mdVersion m = 13 then V13_ctable (AsMetadataV13 m)
      else [])"

definition Metadata_etable :: "Metadata \<Rightarrow> (uint8 \<times> string \<times> string \<times> string list) list" where
  "Metadata_etable m =
     (if mdVersion m = 4 then V4_etable (AsMetadataV4 m)
      else if mdVersion m = 7 then V7_etable (AsMetadataV7 m)
      else if mdVersion m = 8 then V8_etable (AsMetadataV8 m)
      else if mdVersion m = 9 then V9_etable (AsMetadataV9 m)
      else if mdVersion m = 10 then V10_etable (AsMetadataV10 m)
      else if mdVersion m = 11 then V10_etable (md11V10 (AsMetadataV11 m))
      else if mdVersion m = 12 then V12_etable (AsMetadataV12 m)
      else if mdVersion m = 13 then V13_etable (AsMetadataV13 m)
      else [])"

lemmas module_lookups = lookupV4.module_metadata_axioms lookupV7.module_metadata_axioms
  lookupV8.module_metadata_axioms lookupV9.module_metadata_axioms lookupV10.module_metadata_axioms
  lookupV12.module_metadata_axioms lookupV13.module_metadata_axioms

text \<open>
  In metadata of the versions 4 to 13, a module with calls and a call of it are found by
  their dotted name, with the module's section index (its position among the modules that have
  calls, counted in 8 bits, up to version 11; its own index from version 12 on) and the call's
  position; an event is found by the module's index and its position. Names without repetition
  for the one and indices without repetition for the other are all it takes.\<close>

theorem module_call_and_event:
  assumes "mdVersion m \<in> {4, 7, 8, 9, 10, 11, 12, 13}"
    and "(i, n, cs) \<in> set (Metadata_ctable m)" "distinct (map (\<lambda>r. fst (snd r)) (Metadata_ctable m))"
    and "k < length cs" "distinct cs" "CHR ''.'' \<notin> set n" "CHR ''.'' \<notin> set (cs ! k)"
    and "(ei, en, out, es) \<in> set (Metadata_etable m)" "distinct (map fst (Metadata_etable m))" "unat j < length es"
  shows "Metadata_FindCallIndex m (n @ ''.'' @ cs ! k) = Ok \<lparr>SectionIndex = i, MethodIndex = word_of_nat k\<rparr> \<and>
    Metadata_FindEventNamesForEventID m (ei, j) = Ok (out, es ! unat j)"
  using assms
  by (elim insertE emptyE)
    (simp_all add: Metadata_FindCallIndex_def Metadata_FindEventNamesForEventID_def Metadata_ctable_def Metadata_etable_def
      module_lookups [THEN module_metadata.call_found, simplified] module_lookups [THEN module_metadata.event_found])

theorem module_call_and_event_witness:
  "Metadata_FindCallIndex sample_versioned ''system.kill'' = Ok \<lparr>SectionIndex = 0, MethodIndex = 1\<rparr> \<and>
   Metadata_FindEventNamesForEventID sample_versioned (0, 0) = Ok (''System'', ''Done'')"
  using module_call_and_event [of sample_versioned 0 "''system''" "[''remark'', ''kill'']" 1 0 "''system''" "''System''" "[''Done'']" 0]
  by (simp add: sample_versioned_def versioned_def sample4_def Metadata_ctable_def Metadata_etable_def V4_ctable_def V4_etable_def)

section \<open>Storage keys\<close>

lemma storage_key_outcome:
  assumes "hash_lib_laws lib bst bd xst xd"
    and "Metadata_FindStorageEntryMetadata m pfx mthd = Ok e"
  shows "case key_spec bd xd (mdVersion m) pfx mthd args (entry_iface lib e) (entry_kinds e) of
      Some key \<Rightarrow> CreateStorageKey lib m pfx mthd args = Ok key
    | None \<Rightarrow> (\<exists>err. CreateStorageKey lib m pfx mthd args = Err err)"
  unfolding CreateStorageKey_def
  by (rule any_entry.CreateStorageKey_spec) (use assms in simp_all)

lemma map_storage_key:
  assumes "hash_lib_laws lib bst bd xst xd"
    and "Metadata_FindStorageEntryMetadata m pfx mthd = Ok e"
    and "se_IsMap (entry_iface lib e)" "entry_kinds e = Some ks"
    and "list_all (\<lambda>a. a \<noteq> []) args" "length args = length ks"
  shows "CreateStorageKey lib m pfx mthd args = Ok (map_key bd xd pfx mthd ks args)"
  using storage_key_outcome [OF assms(1,2), of args] assms(3-)
  by (simp add: key_spec_def usable_args_id)

text \<open>
  C19: Once an entry is found in metadata of any version, \<open>CreateStorageKey\<close> computes exactly the
  key the specification names: trailing empty arguments are dropped, a map entry takes one
  argument per hasher and gets the hashed prefix and method followed by the digests of the
  arguments, a plain entry takes none (one hash of both names up to version 8). In every other
  case it returns an error; it never panics.\<close>

theorem create_storage_key:
  assumes "hash_lib_laws lib bst bd xst xd"
    and "Metadata_FindStorageEntryMetadata m pfx mthd = Ok e"
  shows "case key_spec bd xd (mdVersion m) pfx mthd args (entry_iface lib e) (entry_kinds e) of
      Some key \<Rightarrow> CreateStorageKey lib m pfx mthd args = Ok key
    | None \<Rightarrow> (\<exists>err. CreateStorageKey lib m pfx mthd args = Err err)"
  using assms by (rule storage_key_outcome)

definition sample_entry14 :: "string \<Rightarrow> StorageHasherV10 list \<Rightarrow> StorageEntryMetadataV14" where
  "sample_entry14 n hs = \<lparr>seName = n, seModifier = \<lparr>IsOptional = True, IsDefault = False, IsRequired = False\<rparr>,
     seType = \<lparr>IsPlainType = False, AsPlainType = 0, IsMap = True, AsMap = \<lparr>mHashers = hs, mKey = 0, mValue = 0\<rparr>\<rparr>,
     seFallback = [], seDocumentation = []\<rparr>"

definition sample_pallet14 :: PalletMetadataV14 where
  "sample_pallet14 = (sample_pallet ''System'' 0)\<lparr>HasStorage := True,
     pStorage := \<lparr>smPrefix = ''System'', smItems =
       [sample_entry14 ''Pair'' [no_hasher\<lparr>IsTwox64Concat := True\<rparr>, no_hasher\<lparr>IsBlake2_128Concat := True\<rparr>]]\<rparr>\<rparr>"

definition sample_keys :: Metadata where
  "sample_keys = (versioned 14)\<lparr>AsMetadataV14 := zero_metadata14\<lparr>Pallets := [sample_pallet14]\<rparr>\<rparr>"

lemma sample_keys_find:
  "Metadata_FindStorageEntryMetadata sample_keys ''System'' ''Pair'' =
     Ok (Entry14 (sample_entry14 ''Pair'' [no_hasher\<lparr>IsTwox64Concat := True\<rparr>, no_hasher\<lparr>IsBlake2_128Concat := True\<rparr>]))"
  by (simp add: Metadata_FindStorageEntryMetadata_def sample_keys_def versioned_def V14_FindStorageEntryMetadata_def
      sample_pallet14_def sample_entry14_def)

theorem create_storage_key_witness:
  "CreateStorageKey count_lib sample_keys ''System'' ''Pair'' [[7], [8, 9], []] =
     Ok (map_key count_bd count_xd ''System'' ''Pair'' [KXX Typ64Concat 1, KBlake128Concat] [[7], [8, 9]])"
  using create_storage_key [OF count_lib_laws sample_keys_find, of "[[7], [8, 9], []]"]
  by (simp add: key_spec_def usable_args_def V14_entry_def V14_IsMap_def V14_kinds_def sample_entry14_def
      kindV10_def no_hasher_def)

text \<open>
  Keys of a map whose hashers all append their input (\<open>Twox64Concat\<close>, \<open>Blake2_128Concat\<close>,
  \<open>Identity\<close>) are different for different arguments of the same lengths, so a key read from
  the chain determines its arguments.\<close>

theorem storage_key_injective:
  assumes "hash_lib_laws lib bst bd xst xd"
    and "Metadata_FindStorageEntryMetadata m pfx mthd = Ok e"
    and "se_IsMap (entry_iface lib e)" "entry_kinds e = Some ks" "list_all reversible ks"
    and "list_all (\<lambda>a. a \<noteq> []) args" "length args = length ks"
    and "list_all2 (\<lambda>a b. length a = length b) args args'" "args \<noteq> args'"
  shows "CreateStorageKey lib m pfx mthd args \<noteq> CreateStorageKey lib m pfx mthd args'"
proof
  assume same: "CreateStorageKey lib m pfx mthd args = CreateStorageKey lib m pfx mthd args'"
  have nonempty: "list_all (\<lambda>a. a \<noteq> []) args'" and len: "length args' = length ks"
    using assms(6,7,8) by (auto simp: list_all_length list_all2_conv_all_nth)
  have "map_key bd xd pfx mthd ks args = map_key bd xd pfx mthd ks args'"
    using same map_storage_key [OF assms(1-4,6,7)] map_storage_key [OF assms(1-4) nonempty len] by simp
  then have "concat (map2 (hdigest bd xd) ks args) = concat (map2 (hdigest bd xd) ks args')"
    by (simp add: map_key_def)
  then show False
    using map2_digest_injective [OF assms(1,5,8,7)] assms(9) by simp
qed

theorem storage_key_injective_witness:
  "CreateStorageKey count_lib sample_keys ''System'' ''Pair'' [[7], [8, 9]] \<noteq>
   CreateStorageKey count_lib sample_keys ''System'' ''Pair'' [[7], [9, 9]]"
  using storage_key_injective [OF count_lib_laws sample_keys_find, of "[KXX Typ64Concat 1, KBlake128Concat]"
      "[[7], [8, 9]]" "[[7], [9, 9]]"]
  by (simp add: V14_entry_def V14_IsMap_def V14_kinds_def sample_entry14_def kindV10_def no_hasher_def)

text \<open>
  In metadata version 4 no key can be made for a map whose hasher is \<open>Blake2_128\<close>: its
  \<open>HashFunc\<close> asks the blake2b package for 128 bytes, which is more than it has, so that
  \<open>CreateStorageKey\<close> fails whatever the arguments.\<close>

theorem v4_blake2_128_unusable:
  assumes "hash_lib_laws lib bst bd xst xd"
    and "Metadata_FindStorageEntryMetadata m pfx mthd = Ok (Entry4 s)"
    and "t4IsMap (s4Type s)" "h4IsBlake2_128 (m4Hasher (t4AsMap (s4Type s)))"
  shows "\<exists>err. CreateStorageKey lib m pfx mthd args = Err err"
proof -
  have "V4_kinds s = None"
    using assms(4) by (simp add: V4_kinds_def kind4_def)
  then have "key_spec bd xd (mdVersion m) pfx mthd args (entry_iface lib (Entry4 s)) (entry_kinds (Entry4 s)) = None"
    using assms(3) by (simp add: key_spec_def V4_entry_def V4_IsMap_def split: option.split)
  then show ?thesis
    using storage_key_outcome [OF assms(1,2), of args] by simp
qed

theorem v4_blake2_128_unusable_witness:
  "\<exists>err. CreateStorageKey count_lib sample_versioned ''System'' ''Account'' [[1, 2]] = Err err"
  by (rule v4_blake2_128_unusable [OF count_lib_laws, where s = "hd (mod4Storage (hd (Modules4 sample4)))"])
    (simp_all add: Metadata_FindStorageEntryMetadata_def sample_versioned_def versioned_def sample4_def
      V4_FindStorageEntryMetadata_def zero_map4_def)

end
