(* ===== verification/Rpc.thy ===== *)
theory Rpc
  imports Codec MetadataProperties
begin

text \<open>
  The queries of \<open>src/rpc\<close> that a node answers with strings and numbers: state, storage keys,
  hashes and the off-chain store. The connection is a parameter: what \<open>CallContext\<close> of
  \<open>src/client\<close> leaves in a target of type \<open>string\<close>, \<open>[]string\<close> and \<open>U64\<close>, as stateful
  functions of the method and its arguments. A null answer leaves the zero value.
\<close>

section \<open>The client\<close>

datatype rpc_arg = ArgString string | ArgStrings "string list" | ArgNumber uint64

type_synonym ('w, 'a) rpc_call = "string \<Rightarrow> rpc_arg list \<Rightarrow> ('w, 'a) goM"

record 'w client =
  call_string :: "('w, string) rpc_call"
  call_strings :: "('w, string list) rpc_call"
  call_u64 :: "('w, uint64) rpc_call"

text \<open>\<open>NewHash\<close> copies into an array of 32 bytes: longer input is cut, shorter input padded.\<close>

definition NewHash :: "bytes \<Rightarrow> bytes" where
  "NewHash b = take 32 b @ replicate (32 - length b) 0"

definition NewHashFromHexString :: "string \<Rightarrow> bytes res" where
  "NewHashFromHexString s =
     bindR (HexDecodeString s) (\<lambda>bz.
       if length bz \<noteq> 32 then Err (ErrorString (''required result to be 32 bytes, but got '' @ string_of_nat (length bz)))
       else Ok (NewHash bz))"

definition Hash_Hex :: "bytes \<Rightarrow> string" where
  "Hash_Hex h = Sprintf_x h"

definition StorageKey_Hex :: "bytes \<Rightarrow> string" where
  "StorageKey_Hex s = Sprintf_x s"

definition CallWithBlockHash :: "('w, 'a) rpc_call \<Rightarrow> string \<Rightarrow> bytes option \<Rightarrow> rpc_arg list \<Rightarrow> ('w, 'a) goM" where
  "CallWithBlockHash call mthd blockHash args =
     (case blockHash of
        None \<Rightarrow> call mthd args
      | Some h \<Rightarrow> call mthd (args @ [ArgString (Hash_Hex h)]))"

section \<open>State\<close>

definition getMetadata :: "'w client \<Rightarrow> bytes option \<Rightarrow> ('w, Metadata) goM" where
  "getMetadata c blockHash =
     bindM (CallWithBlockHash (call_string c) ''state_getMetadata'' blockHash []) (\<lambda>res.
       liftM (DecodeFromHex res Metadata_Decode))"

definition GetMetadata :: "'w client \<Rightarrow> bytes \<Rightarrow> ('w, Metadata) goM" where
  "GetMetadata c blockHash = getMetadata c (Some blockHash)"

definition GetMetadataLatest :: "'w client \<Rightarrow> ('w, Metadata) goM" where
  "GetMetadataLatest c = getMetadata c None"

definition getStorageRaw :: "'w client \<Rightarrow> bytes \<Rightarrow> bytes option \<Rightarrow> ('w, bytes) goM" where
  "getStorageRaw c key blockHash =
     bindM (CallWithBlockHash (call_string c) ''state_getStorage'' blockHash [ArgString (StorageKey_Hex key)]) (\<lambda>res.
       liftM (HexDecodeString res))"

definition GetStorageRaw :: "'w client \<Rightarrow> bytes \<Rightarrow> bytes \<Rightarrow> ('w, bytes) goM" where
  "GetStorageRaw c key blockHash = getStorageRaw c key (Some blockHash)"

definition GetStorageRawLatest :: "'w client \<Rightarrow> bytes \<Rightarrow> ('w, bytes) goM" where
  "GetStorageRawLatest c key = getStorageRaw c key None"

text \<open>
  \<open>GetStorage\<close> decodes into a target that the caller chooses, by the target's decoder; \<open>None\<close>
  is the result \<open>ok = false\<close>.
\<close>

definition decode_storage :: "(bytes, 'a) goM \<Rightarrow> bytes \<Rightarrow> 'a option res" where
  "decode_storage dec raw = (if length raw = 0 then Ok None else bindR (codec_Decode raw dec) (\<lambda>v. Ok (Some v)))"

definition GetStorage :: "'w client \<Rightarrow> bytes \<Rightarrow> (bytes, 'a) goM \<Rightarrow> bytes \<Rightarrow> ('w, 'a option) goM" where
  "GetStorage c key target blockHash =
     bindM (getStorageRaw c key (Some blockHash)) (\<lambda>raw. liftM (decode_storage target raw))"

definition GetStorageLatest :: "'w client \<Rightarrow> bytes \<Rightarrow> (bytes, 'a) goM \<Rightarrow> ('w, 'a option) goM" where
  "GetStorageLatest c key target =
     bindM (getStorageRaw c key None) (\<lambda>raw. liftM (decode_storage target raw))"

definition getChildStorageRaw :: "'w client \<Rightarrow> bytes \<Rightarrow> bytes \<Rightarrow> bytes option \<Rightarrow> ('w, bytes) goM" where
  "getChildStorageRaw c childStorageKey key blockHash =
     bindM (CallWithBlockHash (call_string c) ''state_getChildStorage'' blockHash
       [ArgString (StorageKey_Hex childStorageKey), ArgString (StorageKey_Hex key)]) (\<lambda>res.
       liftM (HexDecodeString res))"

definition GetChildStorageRaw :: "'w client \<Rightarrow> bytes \<Rightarrow> bytes \<Rightarrow> bytes \<Rightarrow> ('w, bytes) goM" where
  "GetChildStorageRaw c childStorageKey key blockHash = getChildStorageRaw c childStorageKey key (Some blockHash)"

definition GetChildStorageRawLatest :: "'w client \<Rightarrow> bytes \<Rightarrow> bytes \<Rightarrow> ('w, bytes) goM" where
  "GetChildStorageRawLatest c childStorageKey key = getChildStorageRaw c childStorageKey key None"

definition GetChildStorage :: "'w client \<Rightarrow> bytes \<Rightarrow> bytes \<Rightarrow> (bytes, 'a) goM \<Rightarrow> bytes \<Rightarrow> ('w, 'a option) goM" where
  "GetChildStorage c childStorageKey key target blockHash =
     bindM (getChildStorageRaw c childStorageKey key (Some blockHash)) (\<lambda>raw. liftM (decode_storage target raw))"

definition GetChildStorageLatest :: "'w client \<Rightarrow> bytes \<Rightarrow> bytes \<Rightarrow> (bytes, 'a) goM \<Rightarrow> ('w, 'a option) goM" where
  "GetChildStorageLatest c childStorageKey key target =
     bindM (getChildStorageRaw c childStorageKey key None) (\<lambda>raw. liftM (decode_storage target raw))"

text \<open>The loop that decodes the keys a node answers with, each into a fresh key.\<close>

fun decode_keys :: "string list \<Rightarrow> bytes list res" where
  "decode_keys [] = Ok []"
| "decode_keys (r # rs) = bindR (DecodeFromHex r (StorageKey_Decode [])) (\<lambda>k. bindR (decode_keys rs) (\<lambda>ks. Ok (k # ks)))"

definition getKeys :: "'w client \<Rightarrow> bytes \<Rightarrow> bytes option \<Rightarrow> ('w, bytes list) goM" where
  "getKeys c pfx blockHash =
     bindM (CallWithBlockHash (call_strings c) ''state_getKeys'' blockHash [ArgString (StorageKey_Hex pfx)]) (\<lambda>res.
       liftM (decode_keys res))"

definition GetKeys :: "'w client \<Rightarrow> bytes \<Rightarrow> bytes \<Rightarrow> ('w, bytes list) goM" where
  "GetKeys c pfx blockHash = getKeys c pfx (Some blockHash)"

definition GetKeysLatest :: "'w client \<Rightarrow> bytes \<Rightarrow> ('w, bytes list) goM" where
  "GetKeysLatest c pfx = getKeys c pfx None"

definition getChildKeys :: "'w client \<Rightarrow> bytes \<Rightarrow> bytes \<Rightarrow> bytes option \<Rightarrow> ('w, bytes list) goM" where
  "getChildKeys c childStorageKey pfx blockHash =
     bindM (CallWithBlockHash (call_strings c) ''state_getChildKeys'' blockHash
       [ArgString (StorageKey_Hex childStorageKey), ArgString (StorageKey_Hex pfx)]) (\<lambda>res.
       liftM (decode_keys res))"

definition GetChildKeys :: "'w client \<Rightarrow> bytes \<Rightarrow> bytes \<Rightarrow> bytes \<Rightarrow> ('w, bytes list) goM" where
  "GetChildKeys c childStorageKey pfx blockHash = getChildKeys c childStorageKey pfx (Some blockHash)"

definition GetChildKeysLatest :: "'w client \<Rightarrow> bytes \<Rightarrow> bytes \<Rightarrow> ('w, bytes list) goM" where
  "GetChildKeysLatest c childStorageKey pfx = getChildKeys c childStorageKey pfx None"

definition getStorageHash :: "'w client \<Rightarrow> bytes \<Rightarrow> bytes option \<Rightarrow> ('w, bytes) goM" where
  "getStorageHash c key blockHash =
     bindM (CallWithBlockHash (call_string c) ''state_getStorageHash'' blockHash [ArgString (StorageKey_Hex key)]) (\<lambda>res.
       liftM (NewHashFromHexString res))"

definition GetStorageHash :: "'w client \<Rightarrow> bytes \<Rightarrow> bytes \<Rightarrow> ('w, bytes) goM" where
  "GetStorageHash c key blockHash = getStorageHash c key (Some blockHash)"

definition GetStorageHashLatest :: "'w client \<Rightarrow> bytes \<Rightarrow> ('w, bytes) goM" where
  "GetStorageHashLatest c key = getStorageHash c key None"

definition getChildStorageHash :: "'w client \<Rightarrow> bytes \<Rightarrow> bytes \<Rightarrow> bytes option \<Rightarrow> ('w, bytes) goM" where
  "getChildStorageHash c childStorageKey key blockHash =
     bindM (CallWithBlockHash (call_string c) ''state_getChildStorageHash'' blockHash
       [ArgString (StorageKey_Hex childStorageKey), ArgString (StorageKey_Hex key)]) (\<lambda>res.
       liftM (NewHashFromHexString res))"

definition GetChildStorageHash :: "'w client \<Rightarrow> bytes \<Rightarrow> bytes \<Rightarrow> bytes \<Rightarrow> ('w, bytes) goM" where
  "GetChildStorageHash c childStorageKey key blockHash = getChildStorageHash c childStorageKey key (Some blockHash)"

definition GetChildStorageHashLatest :: "'w client \<Rightarrow> bytes \<Rightarrow> bytes \<Rightarrow> ('w, bytes) goM" where
  "GetChildStorageHashLatest c childStorageKey key = getChildStorageHash c childStorageKey key None"

definition getStorageSize :: "'w client \<Rightarrow> bytes \<Rightarrow> bytes option \<Rightarrow> ('w, uint64) goM" where
  "getStorageSize c key blockHash =
     CallWithBlockHash (call_u64 c) ''state_getStorageSize'' blockHash [ArgString (StorageKey_Hex key)]"

definition GetStorageSize :: "'w client \<Rightarrow> bytes \<Rightarrow> bytes \<Rightarrow> ('w, uint64) goM" where
  "GetStorageSize c key blockHash = getStorageSize c key (Some blockHash)"

definition GetStorageSizeLatest :: "'w client \<Rightarrow> bytes \<Rightarrow> ('w, uint64) goM" where
  "GetStorageSizeLatest c key = getStorageSize c key None"

definition getChildStorageSize :: "'w client \<Rightarrow> bytes \<Rightarrow> bytes \<Rightarrow> bytes option \<Rightarrow> ('w, uint64) goM" where
  "getChildStorageSize c childStorageKey key blockHash =
     CallWithBlockHash (call_u64 c) ''state_getChildStorageSize'' blockHash
       [ArgString (StorageKey_Hex childStorageKey), ArgString (StorageKey_Hex key)]"

definition GetChildStorageSize :: "'w client \<Rightarrow> bytes \<Rightarrow> bytes \<Rightarrow> bytes \<Rightarrow> ('w, uint64) goM" where
  "GetChildStorageSize c childStorageKey key blockHash = getChildStorageSize c childStorageKey key (Some blockHash)"

definition GetChildStorageSizeLatest :: "'w client \<Rightarrow> bytes \<Rightarrow> bytes \<Rightarrow> ('w, uint64) goM" where
  "GetChildStorageSizeLatest c childStorageKey key = getChildStorageSize c childStorageKey key None"

section \<open>Chain, beefy and off-chain store\<close>

definition getBlockHash :: "'w client \<Rightarrow> uint64 option \<Rightarrow> ('w, bytes) goM" where
  "getBlockHash c blockNumber =
     bindM (case blockNumber of
        None \<Rightarrow> call_string c ''chain_getBlockHash'' []
      | Some n \<Rightarrow> call_string c ''chain_getBlockHash'' [ArgNumber n]) (\<lambda>res.
       liftM (NewHashFromHexString res))"

definition GetBlockHash :: "'w client \<Rightarrow> uint64 \<Rightarrow> ('w, bytes) goM" where
  "GetBlockHash c blockNumber = getBlockHash c (Some blockNumber)"

definition GetBlockHashLatest :: "'w client \<Rightarrow> ('w, bytes) goM" where
  "GetBlockHashLatest c = getBlockHash c None"

definition chain_GetFinalizedHead :: "'w client \<Rightarrow> ('w, bytes) goM" where
  "chain_GetFinalizedHead c =
     bindM (call_string c ''chain_getFinalizedHead'' []) (\<lambda>res. liftM (NewHashFromHexString res))"

definition beefy_GetFinalizedHead :: "'w client \<Rightarrow> ('w, bytes) goM" where
  "beefy_GetFinalizedHead c =
     bindM (call_string c ''beefy_getFinalizedHead'' []) (\<lambda>res. liftM (NewHashFromHexString res))"

text \<open>\<open>LocalStorageGet\<close> returns a nil pointer, here \<open>None\<close>, for an empty answer.\<close>

definition LocalStorageGet :: "'w client \<Rightarrow> string \<Rightarrow> bytes \<Rightarrow> ('w, bytes option) goM" where
  "LocalStorageGet c kind key =
     bindM (call_string c ''offchain_localStorageGet'' [ArgString kind, ArgString (Sprintf_x key)]) (\<lambda>res.
       if length res = 0 then retM None
       else bindM (liftM (HexDecodeString res)) (\<lambda>b. retM (Some b)))"

definition LocalStorageSet :: "'w client \<Rightarrow> string \<Rightarrow> bytes \<Rightarrow> bytes \<Rightarrow> ('w, unit) goM" where
  "LocalStorageSet c kind key val =
     bindM (call_string c ''offchain_localStorageSet''
       [ArgString kind, ArgString (Sprintf_x key), ArgString (Sprintf_x val)]) (\<lambda>_. retM ())"

section \<open>Lemmas\<close>

lemma NewHash_id [simp]: "length b = 32 \<Longrightarrow> NewHash b = b"
  by (simp add: NewHash_def)

lemma length_NewHash [simp]: "length (NewHash b) = 32"
  by (simp add: NewHash_def)

lemma Hash_Hex_roundtrip: "length h = 32 \<Longrightarrow> NewHashFromHexString (Hash_Hex h) = Ok h"
  by (simp add: NewHashFromHexString_def Hash_Hex_def)

lemma decode_keys_hex [simp]: "decode_keys (map StorageKey_Hex ks) = Ok ks"
  by (induction ks) (simp_all add: DecodeFromHex_def codec_Decode_def StorageKey_Hex_def StorageKey_Decode_fresh)

section \<open>A node\<close>

text \<open>
  What a node of the network promises: it answers with the hex string of the metadata's
  encoding and of the storage under a key (the empty string where there is none), and with
  the keys of its storage below a prefix, at the block asked for or at the latest one.
\<close>

record node =
  node_metadata :: "bytes option \<Rightarrow> Metadata"
  node_storage :: "bytes option \<Rightarrow> bytes \<Rightarrow> bytes"
  node_keys :: "bytes option \<Rightarrow> bytes \<Rightarrow> bytes list"

definition at_block :: "bytes option \<Rightarrow> rpc_arg list" where
  "at_block bh = (case bh of None \<Rightarrow> [] | Some h \<Rightarrow> [ArgString (Hash_Hex h)])"

definition serves :: "'w client \<Rightarrow> node \<Rightarrow> bool" where
  "serves c nd \<longleftrightarrow>
     (\<forall>bh w. \<exists>s. EncodeToHex (Metadata_Encode (node_metadata nd bh)) = Ok s \<and>
        call_string c ''state_getMetadata'' (at_block bh) w = (Ok s, w)) \<and>
     (\<forall>bh key w. call_string c ''state_getStorage'' (ArgString (StorageKey_Hex key) # at_block bh) w =
        (Ok (Sprintf_x (node_storage nd bh key)), w)) \<and>
     (\<forall>bh pfx w. call_strings c ''state_getKeys'' (ArgString (StorageKey_Hex pfx) # at_block bh) w =
        (Ok (map StorageKey_Hex (node_keys nd bh pfx)), w))"

lemma CallWithBlockHash_eq: "CallWithBlockHash call mthd bh args = call mthd (args @ at_block bh)"
  by (simp add: CallWithBlockHash_def at_block_def split: option.split)

lemma node_getStorageRaw: "serves c nd \<Longrightarrow> getStorageRaw c key bh w = (Ok (node_storage nd bh key), w)"
  by (simp add: getStorageRaw_def CallWithBlockHash_eq serves_def)

lemma node_getMetadata:
  assumes "serves c nd" "metadata_valid (node_metadata nd bh)"
  shows "getMetadata c bh w = (Ok (node_metadata nd bh), w)"
proof -
  obtain s where s: "EncodeToHex (Metadata_Encode (node_metadata nd bh)) = Ok s"
    "call_string c ''state_getMetadata'' (at_block bh) w = (Ok s, w)"
    using assms(1) unfolding serves_def by blast
  then have "DecodeFromHex s Metadata_Decode = Ok (node_metadata nd bh)"
    using tail_codec.hex_codec [OF metadata.tail_codec_axioms assms(2)] by auto
  then show ?thesis using s(2) by (simp add: getMetadata_def CallWithBlockHash_eq)
qed

section \<open>Properties\<close>

text \<open>
  Against a node, the queries return what the node holds: the metadata with every version
  decoded, the raw storage, a stored value decoded by its codec (and nothing when there is
  none), and all keys below a prefix.\<close>

theorem rpc_state_queries:
  assumes "serves c nd" "metadata_valid (node_metadata nd bh)" "tail_codec enc dec valid"
    and "if v = None then node_storage nd (Some h) key = []
         else valid (the v) \<and> writes (enc (the v)) (node_storage nd (Some h) key) \<and> node_storage nd (Some h) key \<noteq> []"
  shows "getMetadata c bh w = (Ok (node_metadata nd bh), w) \<and>
    getStorageRaw c key' bh w = (Ok (node_storage nd bh key'), w) \<and>
    GetStorage c key dec h w = (Ok v, w) \<and>
    getKeys c pfx bh w = (Ok (node_keys nd bh pfx), w)"
proof (intro conjI)
  show "getKeys c pfx bh w = (Ok (node_keys nd bh pfx), w)"
    using assms(1) by (simp add: getKeys_def CallWithBlockHash_eq serves_def)
  have "decode_storage dec (node_storage nd (Some h) key) = Ok v"
  proof (cases v)
    case (Some x)
    then have "dec (node_storage nd (Some h) key) = (Ok x, [])"
      using assms(4) tail_codec.decode_written [OF assms(3)] by simp
    then show ?thesis using assms(4) Some by (simp add: decode_storage_def codec_Decode_def)
  qed (use assms(4) in \<open>simp add: decode_storage_def\<close>)
  then show "GetStorage c key dec h w = (Ok v, w)"
    by (simp add: GetStorage_def node_getStorageRaw [OF assms(1)])
qed (rule node_getMetadata [OF assms(1,2)] node_getStorageRaw [OF assms(1)])+

text \<open>A node with one storage entry, and the client connected to it.\<close>

definition sample_node :: node where
  "sample_node = \<lparr>node_metadata = (\<lambda>_. sample_versioned), node_storage = (\<lambda>_ key. if key = [1] then [42] else []),
     node_keys = (\<lambda>_ _. [[1]])\<rparr>"

definition sample_client :: "unit client" where
  "sample_client =
     \<lparr>call_string = (\<lambda>mthd args w.
        if mthd = ''state_getMetadata'' then (EncodeToHex (Metadata_Encode sample_versioned), w)
        else if mthd = ''state_getStorage'' \<and> take 1 args = [ArgString ''0x01''] then (Ok ''0x2a'', w) else (Ok [], w)),
      call_strings = (\<lambda>mthd args w. (Ok [''0x01''], w)), call_u64 = (\<lambda>mthd args w. (Ok 1, w))\<rparr>"

lemma StorageKey_Hex_inject: "StorageKey_Hex k = StorageKey_Hex k' \<longleftrightarrow> k = k'"
  unfolding StorageKey_Hex_def by (metis HexDecodeString_encoded(2) res.inject(1))

lemma sample_serves: "serves sample_client sample_node"
proof -
  have hex: "''0x01'' = StorageKey_Hex [1]" "Sprintf_x [42] = ''0x2a''" "Sprintf_x [] = []" by code_simp+
  obtain s where "EncodeToHex (Metadata_Encode sample_versioned) = Ok s"
    using tail_codec.hex_codec [OF metadata.tail_codec_axioms sample_versioned_valid] by blast
  then show ?thesis
    by (simp add: serves_def sample_client_def sample_node_def hex StorageKey_Hex_inject)
qed

theorem rpc_state_queries_witness:
  "getMetadata sample_client None () = (Ok sample_versioned, ()) \<and>
   GetStorage sample_client [1] (Decode_word Uint8) (replicate 32 0) () = (Ok (Some (42 :: uint8)), ()) \<and>
   getKeys sample_client [] None () = (Ok [[1]], ())"
proof -
  have "writes (Encode_word Uint8 (42 :: uint8)) [42]" by (simp add: Encode_word_def writes_def binary_Write_def)
  then show ?thesis
    using rpc_state_queries [OF sample_serves, of None _ "Decode_word Uint8 :: (bytes, uint8) goM" _ "Some 42" "replicate 32 0" "[1]" "()" "[]" "[]",
        OF _ u8.tail_codec_axioms]
    by (simp add: sample_node_def sample_versioned_valid)
qed

end
