(* ===== verification/Retriever.thy ===== *)
theory Retriever
  imports Parser Rpc Exec
begin

text \<open>
  \<open>src/registry/retriever\<close> and \<open>src/registry/state\<close>: the retrievers that fetch the events or the
  extrinsics of a block and parse them, and refresh their metadata and registry when that
  fails. A retriever's state holds its fields that change, its factory and the state \<open>'w\<close> of
  the connection; the parts it is configured with are in an environment record.
\<close>

section \<open>State and environment\<close>

record ('b, 'x, 'w) retriever_env =
  env_client :: "'w client"
  env_lib :: "('b, 'x) hash_lib"
  env_custom :: "nat \<Rightarrow> (bytes, dvalue) goM"
  env_fuel :: nat
  env_depth :: nat

record ('k, 'w) retriever_state =
  rs_registry :: "'k \<rightharpoonup> TypeDecoder"
  rs_meta :: "Metadata option"
  rs_factory :: factory
  rs_world :: 'w

definition withWorld :: "('w, 'a) goM \<Rightarrow> (('k, 'w) retriever_state, 'a) goM" where
  "withWorld m s = (case m (rs_world s) of (r, w) \<Rightarrow> (r, s\<lparr>rs_world := w\<rparr>))"

definition withFactory :: "(factory, 'a) goM \<Rightarrow> (('k, 'w) retriever_state, 'a) goM" where
  "withFactory m s = (case m (rs_factory s) of (r, f) \<Rightarrow> (r, s\<lparr>rs_factory := f\<rparr>))"

definition new_state :: "factory \<Rightarrow> 'w \<Rightarrow> ('k, 'w) retriever_state" where
  "new_state f w = \<lparr>rs_registry = Map.empty, rs_meta = None, rs_factory = f, rs_world = w\<rparr>"

definition set_meta :: "Metadata \<Rightarrow> ('k \<rightharpoonup> TypeDecoder) \<Rightarrow> (('k, 'w) retriever_state, unit) goM" where
  "set_meta meta reg s = (Ok (), s\<lparr>rs_meta := Some meta, rs_registry := reg\<rparr>)"

definition nil_meta :: "'a res" where
  "nil_meta = Panic ''invalid memory address or nil pointer dereference''"

section \<open>Events\<close>

definition GetStorageEvents ::
    "('b, 'x, 'w) retriever_env \<Rightarrow> Metadata option \<Rightarrow> bytes \<Rightarrow> ('w, bytes) goM" where
  "GetStorageEvents env meta blockHash =
     bindM (wrapM (libWrap ''event storage key creation'')
         (liftM (case meta of None \<Rightarrow> nil_meta | Some m \<Rightarrow> CreateStorageKey (env_lib env) m ''System'' ''Events'' [[]]))) (\<lambda>key.
       wrapM (libWrap ''event storage retrieval'') (GetStorageRaw (env_client env) key blockHash))"

definition fetch_metadata :: "('b, 'x, 'w) retriever_env \<Rightarrow> bytes option \<Rightarrow> ('w, Metadata) goM" where
  "fetch_metadata env blockHash =
     (case blockHash of
        None \<Rightarrow> GetMetadataLatest (env_client env)
      | Some h \<Rightarrow> GetMetadata (env_client env) h)"

definition event_updateInternalState ::
    "('b, 'x, 'w) retriever_env \<Rightarrow> bytes option \<Rightarrow> ((EventID, 'w) retriever_state, unit) goM" where
  "event_updateInternalState env blockHash =
     bindM (wrapM (libWrap ''metadata retrieval'') (withWorld (fetch_metadata env blockHash))) (\<lambda>meta.
     bindM (wrapM (libWrap ''event registry creation'')
         (withFactory (CreateEventRegistry (env_fuel env) (AsMetadataV14 meta)))) (\<lambda>eventRegistry.
       set_meta meta eventRegistry))"

definition NewEventRetriever ::
    "('b, 'x, 'w) retriever_env \<Rightarrow> factory \<Rightarrow> 'w \<Rightarrow> unit res \<times> (EventID, 'w) retriever_state" where
  "NewEventRetriever env registryFactory w =
     wrapM (libWrap ''internal state update'') (event_updateInternalState env None) (new_state registryFactory w)"

definition fetch_events ::
    "('b, 'x, 'w) retriever_env \<Rightarrow> bytes \<Rightarrow> ((EventID, 'w) retriever_state, bytes) goM" where
  "fetch_events env blockHash s = withWorld (GetStorageEvents env (rs_meta s) blockHash) s"

definition parse_events ::
    "('b, 'x, 'w) retriever_env \<Rightarrow> bytes \<Rightarrow> ((EventID, 'w) retriever_state, Event list) goM" where
  "parse_events env storageEvents s =
     (ParseEvents (Decode_fuel (env_depth env) (env_custom env) (fheap (rs_factory s))) (rs_registry s) storageEvents, s)"

definition GetEvents ::
    "('b, 'x, 'w) retriever_env \<Rightarrow> Opts \<Rightarrow> Opts \<Rightarrow> bytes \<Rightarrow> ((EventID, 'w) retriever_state, Event list) goM" where
  "GetEvents env eventStorageExecutor eventParsingExecutor blockHash =
     bindM (wrapM (libWrap ''storage event retrieval'')
         (ExecWithFallback eventStorageExecutor (Some (fetch_events env blockHash))
           (Some (event_updateInternalState env (Some blockHash))))) (\<lambda>storageEvents.
       wrapM (libWrap ''event parsing'')
         (ExecWithFallback eventParsingExecutor (Some (parse_events env storageEvents))
           (Some (event_updateInternalState env (Some blockHash)))))"

text \<open>The executors of \<open>NewDefaultEventRetriever\<close>; a second is \<open>10\<^sup>9\<close> nanoseconds.\<close>

definition defaultEventStorageExecutor :: Opts where
  "defaultEventStorageExecutor = NewRetryableExecutor [WithRetryTimeout (10 ^ 9)]"

definition defaultEventParsingExecutor :: Opts where
  "defaultEventParsingExecutor = NewRetryableExecutor [WithMaxRetryCount 1]"

section \<open>Extrinsics\<close>

text \<open>\<open>genericChain.GetBlock\<close> is a parameter: it asks the connection for the extrinsics of a block.\<close>

definition call_updateInternalState ::
    "('b, 'x, 'w) retriever_env \<Rightarrow> bytes option \<Rightarrow> ((CallIndex, 'w) retriever_state, unit) goM" where
  "call_updateInternalState env blockHash =
     bindM (wrapM (libWrap ''metadata retrieval'') (withWorld (fetch_metadata env blockHash))) (\<lambda>meta.
     bindM (wrapM (libWrap ''call registry creation'')
         (withFactory (CreateCallRegistry (env_fuel env) (AsMetadataV14 meta)))) (\<lambda>callRegistry.
       set_meta meta callRegistry))"

definition NewExtrinsicRetriever ::
    "('b, 'x, 'w) retriever_env \<Rightarrow> factory \<Rightarrow> 'w \<Rightarrow> unit res \<times> (CallIndex, 'w) retriever_state" where
  "NewExtrinsicRetriever env registryFactory w =
     wrapM (libWrap ''internal state update'') (call_updateInternalState env None) (new_state registryFactory w)"

definition parse_extrinsics ::
    "('b, 'x, 'w) retriever_env \<Rightarrow> 'sig generic_extrinsic list \<Rightarrow>
     ((CallIndex, 'w) retriever_state, 'sig parsed_extrinsic list) goM" where
  "parse_extrinsics env block s =
     (ParseExtrinsics (Decode_fuel (env_depth env) (env_custom env) (fheap (rs_factory s))) (rs_registry s) block, s)"

definition GetExtrinsics ::
    "('b, 'x, 'w) retriever_env \<Rightarrow> (bytes \<Rightarrow> ('w, 'sig generic_extrinsic list) goM) \<Rightarrow> Opts \<Rightarrow> Opts \<Rightarrow> bytes \<Rightarrow>
     ((CallIndex, 'w) retriever_state, 'sig parsed_extrinsic list) goM" where
  "GetExtrinsics env GetBlock chainExecutor extrinsicParsingExecutor blockHash =
     bindM (wrapM (libWrap ''block retrieval'')
         (ExecWithFallback chainExecutor (Some (withWorld (GetBlock blockHash))) (Some (retM ())))) (\<lambda>block.
       wrapM (libWrap ''extrinsic parsing'')
         (ExecWithFallback extrinsicParsingExecutor (Some (parse_extrinsics env block))
           (Some (call_updateInternalState env (Some blockHash)))))"

section \<open>Invariants of stateful calls\<close>

definition preserves :: "('s \<Rightarrow> bool) \<Rightarrow> ('s, 'a) goM \<Rightarrow> bool" where
  "preserves I m \<longleftrightarrow> (\<forall>s r s'. I s \<longrightarrow> m s = (r, s') \<longrightarrow> I s')"

lemma preservesD: "preserves I m \<Longrightarrow> I s \<Longrightarrow> m s = (r, s') \<Longrightarrow> I s'"
  unfolding preserves_def by blast

lemma preserves_retM: "preserves I (retM v)"
  by (simp add: preserves_def)

lemma preserves_wrapM: "preserves I m \<Longrightarrow> preserves I (wrapM w m)"
  by (fastforce simp: preserves_def wrapM_def split: prod.splits res.splits)

lemma preserves_bindM:
  assumes "preserves I m" "\<And>v. preserves I (g v)"
  shows "preserves I (bindM m g)"
  unfolding preserves_def
proof (intro allI impI)
  fix s r s'
  assume I: "I s" and run: "bindM m g s = (r, s')"
  obtain r1 s1 where m: "m s = (r1, s1)" by fastforce
  have I1: "I s1" by (rule preservesD [OF assms(1) I m])
  show "I s'"
  proof (cases r1)
    case (Ok v)
    then show ?thesis using run m preservesD [OF assms(2) I1] by simp
  qed (use run m I1 in \<open>simp_all add: bindM_def\<close>)
qed

lemma exec_loop_step:
  assumes "exec_loop opts ef ff c errs s = (r, s')" "ef s = (r1, s1)" "ff s1 = (r2, s2)"
  shows "s' = s1 \<or> s' = s2 \<or> c \<noteq> maxRetryCount opts \<and> (\<exists>errs'. exec_loop opts ef ff (c + 1) errs' s2 = (r, s'))"
  using assms by (subst (asm) exec_loop.simps) (auto simp: Let_def split: res.splits if_splits)

lemma exec_loop_preserves:
  assumes "preserves I ef" "preserves I ff"
  shows "I s \<Longrightarrow> exec_loop opts ef ff c errs s = (r, s') \<Longrightarrow> I s'"
proof (induction "unat (maxRetryCount opts - c)" arbitrary: c errs s rule: less_induct)
  case less
  obtain r1 s1 r2 s2 where e: "ef s = (r1, s1)" "ff s1 = (r2, s2)" by fastforce
  have I: "I s1" "I s2" using preservesD [OF assms(1) less.prems(1) e(1)] preservesD [OF assms(2) _ e(2)] by blast+
  with exec_loop_step [OF less.prems(2) e] less.hyps [OF word_count_down] show ?case by blast
qed

lemma preserves_Exec:
  "preserves I ef \<Longrightarrow> preserves I ff \<Longrightarrow> preserves I (ExecWithFallback opts (Some ef) (Some ff))"
  unfolding preserves_def [of I "ExecWithFallback opts (Some ef) (Some ff)"]
  by (auto simp: ExecWithFallback_def intro: exec_loop_preserves)

lemma rounds_preserve:
  assumes "preserves I ef" "preserves I ff"
  shows "rounds opts ef ff n s s' es \<Longrightarrow> I s \<Longrightarrow> I s'"
  by (induction rule: rounds.induct) (auto dest: preservesD [OF assms(1)] preservesD [OF assms(2)])

lemma Exec_Ok:
  assumes "preserves I ef" "preserves I ff" "I s" "ExecWithFallback opts (Some ef) (Some ff) s = (Ok v, t)"
  shows "\<exists>s'. I s' \<and> ef s' = (Ok v, t)"
proof -
  obtain n s' es where "rounds opts ef ff n s s' es" "ef s' = (Ok v, t)"
    using assms(4) exec_loop_Ok_sound [of opts ef ff 0 "[]" s v t] by (auto simp: ExecWithFallback_def)
  then show ?thesis using rounds_preserve [OF assms(1,2) _ assms(3)] by blast
qed

section \<open>Fetching and parsing with a refreshed registry\<close>

text \<open>
  What the two retrievers share: an invariant that refreshing, fetching and parsing keep, a
  parser that changes nothing and whose results are \<open>good\<close> in a state with the invariant.
\<close>

locale retriever =
  fixes inv :: "'s \<Rightarrow> bool"
    and fetch :: "'h \<Rightarrow> ('s, 'raw) goM"
    and refetch :: "'h \<Rightarrow> ('s, unit) goM"
    and parse :: "'raw \<Rightarrow> ('s, 'a) goM"
    and update :: "'h \<Rightarrow> ('s, unit) goM"
    and good :: "'s \<Rightarrow> 'raw \<Rightarrow> 'a \<Rightarrow> bool"
  assumes fetch_inv: "preserves inv (fetch h)"
    and refetch_inv: "preserves inv (refetch h)"
    and update_inv: "preserves inv (update h)"
    and parse_pure: "snd (parse raw s) = s"
    and parse_good: "inv s \<Longrightarrow> fst (parse raw s) = Ok v \<Longrightarrow> good s raw v"
begin

lemma parse_inv: "preserves inv (parse raw)"
  using parse_pure [of raw] by (metis preserves_def snd_conv)

lemma get_inv:
  "preserves inv (bindM (wrapM w (ExecWithFallback opts (Some (fetch h)) (Some (refetch h)))) (\<lambda>raw.
     wrapM w' (ExecWithFallback opts' (Some (parse raw)) (Some (update h)))))"
  by (intro preserves_bindM preserves_wrapM preserves_Exec fetch_inv refetch_inv parse_inv update_inv)

lemma get_good:
  assumes "inv s" "bindM (wrapM w (ExecWithFallback opts (Some (fetch h)) (Some (refetch h)))) (\<lambda>raw.
     wrapM w' (ExecWithFallback opts' (Some (parse raw)) (Some (update h)))) s = (Ok v, t)"
  shows "inv t \<and> (\<exists>raw s1 s2. inv s1 \<and> fetch h s1 = (Ok raw, s2) \<and> good t raw v)"
proof -
  obtain raw s2 where 1: "ExecWithFallback opts (Some (fetch h)) (Some (refetch h)) s = (Ok raw, s2)"
    "ExecWithFallback opts' (Some (parse raw)) (Some (update h)) s2 = (Ok v, t)"
    using assms(2) by (auto simp: goM_iffs)
  obtain s1 where s1: "inv s1" "fetch h s1 = (Ok raw, s2)"
    using Exec_Ok [OF fetch_inv refetch_inv assms(1) 1(1)] by blast
  have "inv s2" by (rule preservesD [OF fetch_inv s1])
  then obtain s3 where s3: "inv s3" "parse raw s3 = (Ok v, t)"
    using Exec_Ok [OF parse_inv update_inv _ 1(2)] by blast
  then have "s3 = t" using parse_pure [of raw s3] by simp
  then show ?thesis using s1 s3 parse_good [of t raw v] by auto
qed

end

section \<open>The registry belongs to the metadata\<close>

definition retriever_inv ::
    "(PalletMetadataV14 \<Rightarrow> bool) \<Rightarrow> (PalletMetadataV14 \<Rightarrow> int) \<Rightarrow> (uint8 \<Rightarrow> uint8 \<Rightarrow> 'k) \<Rightarrow> ('k, 'w) retriever_state \<Rightarrow> bool" where
  "retriever_inv has tyof key s \<longleftrightarrow>
     fieldOverrides (rs_factory s) = [] \<and>
     (\<exists>m. rs_meta s = Some m \<and> registry_for (AsMetadataV14 m) has tyof key (rs_registry s) (rs_factory s))"

abbreviation event_inv :: "(EventID, 'w) retriever_state \<Rightarrow> bool" where
  "event_inv \<equiv> retriever_inv HasEvents pEvents (\<lambda>p v. (p, v))"

abbreviation call_inv :: "(CallIndex, 'w) retriever_state \<Rightarrow> bool" where
  "call_inv \<equiv> retriever_inv HasCalls pCalls (\<lambda>p v. \<lparr>SectionIndex = p, MethodIndex = v\<rparr>)"

text \<open>Refreshing: all or nothing, and a failure leaves the old registry usable.\<close>

definition update_with ::
    "('w, Metadata) goM \<Rightarrow> (MetadataV14 \<Rightarrow> (factory, 'k \<rightharpoonup> TypeDecoder) goM) \<Rightarrow> string \<Rightarrow> (('k, 'w) retriever_state, unit) goM" where
  "update_with fetch create what =
     bindM (wrapM (libWrap ''metadata retrieval'') (withWorld fetch)) (\<lambda>meta.
     bindM (wrapM (libWrap what) (withFactory (create (AsMetadataV14 meta)))) (\<lambda>reg. set_meta meta reg))"

lemma update_with_cases:
  assumes "update_with fetch create what s = (r, s')"
  obtains (metadata_failed) w where "r \<noteq> Ok ()" "s' = s\<lparr>rs_world := w\<rparr>"
    | (registry_failed) m :: Metadata and r2 f w where "create (AsMetadataV14 m) (rs_factory s) = (r2, f)" "r \<noteq> Ok ()"
        "s' = s\<lparr>rs_world := w, rs_factory := f\<rparr>"
    | (updated) m :: Metadata and reg f w where "fetch (rs_world s) = (Ok m, w)" "create (AsMetadataV14 m) (rs_factory s) = (Ok reg, f)" "r = Ok ()"
        "s' = s\<lparr>rs_world := w, rs_factory := f, rs_meta := Some m, rs_registry := reg\<rparr>"
proof -
  obtain r1 w where fetch: "fetch (rs_world s) = (r1, w)" by fastforce
  show thesis
  proof (cases "\<exists>m. r1 = Ok m")
    case True
    then obtain m where Ok: "r1 = Ok m" by blast
    obtain r2 f where create: "create (AsMetadataV14 m) (rs_factory s) = (r2, f)" by fastforce
    show thesis
    proof (cases "\<exists>reg. r2 = Ok reg")
      case True
      then show thesis
        using assms fetch Ok create updated [of m w] by (auto simp: update_with_def withWorld_def withFactory_def set_meta_def)
    next
      case False
      then have "r \<noteq> Ok ()" "s' = s\<lparr>rs_world := w, rs_factory := f\<rparr>"
        using assms fetch Ok create
        by (cases r2; auto simp: update_with_def withWorld_def withFactory_def wrapM_def bindM_def)+
      then show thesis using registry_failed create by blast
    qed
  next
    case False
    then have "r \<noteq> Ok ()" "s' = s\<lparr>rs_world := w\<rparr>"
      using assms fetch by (cases r1; auto simp: update_with_def withWorld_def wrapM_def bindM_def)+
    then show thesis by (rule metadata_failed)
  qed
qed

lemma update_with_outcome:
  assumes create: "\<And>m f r f'. fieldOverrides f = [] \<Longrightarrow> create m f = (r, f') \<Longrightarrow>
      same_below (nextAddr f) f f' \<and> (\<forall>reg. r = Ok reg \<longrightarrow> registry_for m has tyof key reg f')"
    and run: "update_with fetch create what s = (r, s')" and s: "fieldOverrides (rs_factory s) = []"
  shows "same_below (nextAddr (rs_factory s)) (rs_factory s) (rs_factory s') \<and>
    (if r = Ok () then retriever_inv has tyof key s' else rs_meta s' = rs_meta s \<and> rs_registry s' = rs_registry s)"
  using run
proof (cases rule: update_with_cases)
  case metadata_failed
  then show ?thesis by simp
next
  case (registry_failed m r2 f w)
  then show ?thesis using create [OF s registry_failed(1)] by simp
next
  case (updated m reg f w)
  then show ?thesis using create [OF s updated(2)] s by (auto simp: retriever_inv_def same_below_def)
qed

lemma update_with_inv:
  assumes create: "\<And>m f r f'. fieldOverrides f = [] \<Longrightarrow> create m f = (r, f') \<Longrightarrow>
      same_below (nextAddr f) f f' \<and> (\<forall>reg. r = Ok reg \<longrightarrow> registry_for m has tyof key reg f')"
  shows "preserves (retriever_inv has tyof key) (update_with fetch create what)"
  unfolding preserves_def
proof (intro allI impI)
  fix s r s'
  assume I: "retriever_inv has tyof key s" and run: "update_with fetch create what s = (r, s')"
  have "fieldOverrides (rs_factory s) = []" using I by (simp add: retriever_inv_def)
  from update_with_outcome [OF create run this] I show "retriever_inv has tyof key s'"
    by (auto simp: retriever_inv_def same_below_def [of _ _ "rs_factory s'"] intro: registry_for_kept split: if_splits)
qed

lemma create_outcome:
  "fieldOverrides f = [] \<Longrightarrow> create_registry n m what whats has tyof key f = (r, f') \<Longrightarrow>
     same_below (nextAddr f) f f' \<and> (\<forall>reg. r = Ok reg \<longrightarrow> registry_for m has tyof key reg f')"
  using create_registry_fresh registry_for_created by blast

lemma event_update_eq:
  "event_updateInternalState env bh = update_with (fetch_metadata env bh) (CreateEventRegistry (env_fuel env)) ''event registry creation''"
  by (simp add: event_updateInternalState_def update_with_def)

lemma call_update_eq:
  "call_updateInternalState env bh = update_with (fetch_metadata env bh) (CreateCallRegistry (env_fuel env)) ''call registry creation''"
  by (simp add: call_updateInternalState_def update_with_def)

lemmas event_create_outcome = create_outcome [of _ _ _ "''event''" "''events''" HasEvents pEvents "\<lambda>p v. (p, v)", folded CreateEventRegistry_def]
lemmas call_create_outcome = create_outcome [of _ _ _ "''call''" "''calls''" HasCalls pCalls "\<lambda>p v. \<lparr>SectionIndex = p, MethodIndex = v\<rparr>", folded CreateCallRegistry_def]

lemma withWorld_inv: "preserves (retriever_inv has tyof key) (withWorld m)"
  by (auto simp: preserves_def withWorld_def retriever_inv_def split: prod.splits)

text \<open>What the retrievers return: the meaning of the fetched data under the metadata they hold.\<close>

definition events_good :: "(EventID, 'w) retriever_state \<Rightarrow> bytes \<Rightarrow> Event list \<Rightarrow> bool" where
  "events_good s sd es \<longleftrightarrow>
     (\<exists>m bs rest. rs_meta s = Some m \<and> sd = bs @ rest \<and> events_denote (AsMetadataV14 m) bs (map erase_event es))"

definition extrinsics_good ::
    "(CallIndex, 'w) retriever_state \<Rightarrow> 'sig generic_extrinsic list \<Rightarrow> 'sig parsed_extrinsic list \<Rightarrow> bool" where
  "extrinsics_good s xs ps \<longleftrightarrow> (\<exists>m. rs_meta s = Some m \<and> list_all2 (extrinsic_denotes (AsMetadataV14 m)) xs ps)"

interpretation events: retriever event_inv "fetch_events env" "\<lambda>h. event_updateInternalState env (Some h)"
    "parse_events env" "\<lambda>h. event_updateInternalState env (Some h)" events_good
  for env :: "('b, 'x, 'w) retriever_env"
proof
  show "preserves event_inv (fetch_events env h)" for h
    using withWorld_inv unfolding preserves_def fetch_events_def by blast
  show "preserves event_inv (event_updateInternalState env (Some h))" for h
    unfolding event_update_eq by (rule update_with_inv [OF event_create_outcome])
  show "snd (parse_events env raw s) = s" for raw s
    by (simp add: parse_events_def)
  show "events_good s raw v" if "event_inv s" "fst (parse_events env raw s) = Ok v" for s raw v
    using that ParseEvents_sound by (fastforce simp: parse_events_def retriever_inv_def events_good_def)
qed

interpretation extrinsics: retriever call_inv "\<lambda>h. withWorld (GetBlock h)" "\<lambda>h. retM ()"
    "parse_extrinsics env" "\<lambda>h. call_updateInternalState env (Some h)" extrinsics_good
  for env :: "('b, 'x, 'w) retriever_env" and GetBlock
proof
  show "preserves call_inv (call_updateInternalState env (Some h))" for h
    unfolding call_update_eq by (rule update_with_inv [OF call_create_outcome])
  show "snd (parse_extrinsics env raw s) = s" for raw :: "'sig generic_extrinsic list" and s
    by (simp add: parse_extrinsics_def)
  show "extrinsics_good s raw v" if "call_inv s" "fst (parse_extrinsics env raw s) = Ok v" for s raw v
    using that ParseExtrinsics_sound by (fastforce simp: parse_extrinsics_def retriever_inv_def extrinsics_good_def)
qed (rule withWorld_inv preserves_retM)+

section \<open>Reachable states\<close>

text \<open>The states of an event retriever: what its constructor returns, and after any calls, failed ones included.\<close>

inductive event_reachable :: "('b, 'x, 'w) retriever_env \<Rightarrow> (EventID, 'w) retriever_state \<Rightarrow> bool" for env where
  new_event_retriever:
    "fieldOverrides f = [] \<Longrightarrow> NewEventRetriever env f w = (Ok (), s) \<Longrightarrow> event_reachable env s"
| after_GetEvents:
    "event_reachable env s \<Longrightarrow> GetEvents env so po h s = (r, s') \<Longrightarrow> event_reachable env s'"

inductive call_reachable ::
    "('b, 'x, 'w) retriever_env \<Rightarrow> (bytes \<Rightarrow> ('w, 'sig generic_extrinsic list) goM) \<Rightarrow> (CallIndex, 'w) retriever_state \<Rightarrow> bool"
  for env GetBlock where
  new_extrinsic_retriever:
    "fieldOverrides f = [] \<Longrightarrow> NewExtrinsicRetriever env f w = (Ok (), s) \<Longrightarrow> call_reachable env GetBlock s"
| after_GetExtrinsics:
    "call_reachable env GetBlock s \<Longrightarrow> GetExtrinsics env GetBlock co po h s = (r, s') \<Longrightarrow> call_reachable env GetBlock s'"

lemma NewEventRetriever_inv:
  assumes "fieldOverrides f = []" "NewEventRetriever env f w = (Ok (), s)"
  shows "event_inv s"
proof -
  have "update_with (fetch_metadata env None) (CreateEventRegistry (env_fuel env)) ''event registry creation'' (new_state f w) = (Ok (), s)"
    using assms(2) by (simp add: NewEventRetriever_def wrapM_Ok_iff event_update_eq)
  from update_with_outcome [OF event_create_outcome this] assms(1) show ?thesis by (simp add: new_state_def)
qed

lemma NewExtrinsicRetriever_inv:
  assumes "fieldOverrides f = []" "NewExtrinsicRetriever env f w = (Ok (), s)"
  shows "call_inv s"
proof -
  have "update_with (fetch_metadata env None) (CreateCallRegistry (env_fuel env)) ''call registry creation'' (new_state f w) = (Ok (), s)"
    using assms(2) by (simp add: NewExtrinsicRetriever_def wrapM_Ok_iff call_update_eq)
  from update_with_outcome [OF call_create_outcome this] assms(1) show ?thesis by (simp add: new_state_def)
qed

lemma event_reachable_inv: "event_reachable env s \<Longrightarrow> event_inv s"
proof (induction rule: event_reachable.induct)
  case (after_GetEvents s so po h r s')
  then show ?case unfolding GetEvents_def by (blast intro: preservesD [OF events.get_inv])
qed (rule NewEventRetriever_inv)

lemma call_reachable_inv: "call_reachable env GetBlock s \<Longrightarrow> call_inv s"
proof (induction rule: call_reachable.induct)
  case (after_GetExtrinsics s co po h r s')
  then show ?case unfolding GetExtrinsics_def by (blast intro: preservesD [OF extrinsics.get_inv])
qed (rule NewExtrinsicRetriever_inv)

section \<open>Refreshing an outdated registry\<close>

lemma Exec_second_attempt:
  assumes "maxRetryCount opts \<noteq> 0" "ef s = (Err e, s1)" "ff s1 = (Ok (), s2)" "ef s2 = (Ok v, s3)"
  shows "ExecWithFallback opts (Some ef) (Some ff) s = (Ok v, s3)"
proof -
  have "rounds opts ef ff (Suc 0) s s2 [e]"
    by (rule rounds_Suc [where execFn = ef and fallbackFn = ff], rule assms(2), rule assms(3)) (simp_all add: rounds_0)
  then have "exec_loop opts ef ff 0 [] s = exec_loop opts ef ff 1 [exec_err e] s2"
    using exec_loop_rounds [of opts ef ff "Suc 0" s s2 "[e]" 0 "[]"] assms(1) by (simp add: Suc_le_eq unat_gt_0)
  then show ?thesis
    using exec_loop_Ok [of ef s2 v s3] assms(4) by (simp add: ExecWithFallback_def)
qed

lemma GetEvents_refresh:
  assumes "maxRetryCount po \<noteq> 0" "fetch_events env h s = (Ok sd, s1)" "parse_events env sd s1 = (Err e, s1)"
    and "event_updateInternalState env (Some h) s1 = (Ok (), s2)" "parse_events env sd s2 = (Ok es, s2)"
  shows "GetEvents env so po h s = (Ok es, s2)"
proof -
  have "ExecWithFallback so (Some (fetch_events env h)) (Some (event_updateInternalState env (Some h))) s = (Ok sd, s1)"
    using assms(2) exec_loop_Ok [of "fetch_events env h" s sd s1] by (simp add: ExecWithFallback_def)
  moreover have "ExecWithFallback po (Some (parse_events env sd)) (Some (event_updateInternalState env (Some h))) s1 = (Ok es, s2)"
    by (rule Exec_second_attempt [where s = s1 and ef = "parse_events env sd", OF assms(1)]) (rule assms(3-5))+
  ultimately show ?thesis by (simp add: GetEvents_def)
qed

lemma GetExtrinsics_refresh:
  assumes "maxRetryCount po \<noteq> 0" "withWorld (GetBlock h) s = (Ok block, s1)" "parse_extrinsics env block s1 = (Err e, s1)"
    and "call_updateInternalState env (Some h) s1 = (Ok (), s2)" "parse_extrinsics env block s2 = (Ok ps, s2)"
  shows "GetExtrinsics env GetBlock co po h s = (Ok ps, s2)"
proof -
  have "ExecWithFallback co (Some (withWorld (GetBlock h))) (Some (retM ())) s = (Ok block, s1)"
    using assms(2) exec_loop_Ok [of "withWorld (GetBlock h)" s block s1] by (simp add: ExecWithFallback_def)
  moreover have "ExecWithFallback po (Some (parse_extrinsics env block)) (Some (call_updateInternalState env (Some h))) s1 = (Ok ps, s2)"
    by (rule Exec_second_attempt [where s = s1 and ef = "parse_extrinsics env block", OF assms(1)]) (rule assms(3-5))+
  ultimately show ?thesis by (simp add: GetExtrinsics_def)
qed

end
