(* ===== verification/RetrieverProperties.thy ===== *)
theory RetrieverProperties
  imports Retriever
begin

text \<open>
  The properties of the retrievers, and the sample chain their witnesses run on.
\<close>

section \<open>A sample chain\<close>

text \<open>
  The chain's latest metadata does not know the event \<open>Forest.Ping\<close> yet, the metadata at any
  block asked for does; its event storage holds one such event.
\<close>

definition events_entry :: StorageEntryMetadataV14 where
  "events_entry = \<lparr>seName = ''Events'', seModifier = \<lparr>IsOptional = False, IsDefault = True, IsRequired = False\<rparr>,
     seType = \<lparr>IsPlainType = True, AsPlainType = 1, IsMap = False, AsMap = zero_map_type\<rparr>, seFallback = [], seDocumentation = []\<rparr>"

definition chain_types :: "PortableTypeV14 list" where
  "chain_types = [\<lparr>ptID = 1, ptType = plain_type [] (zero_typedef\<lparr>IsVariant := True, Variants :=
     [\<lparr>vName = ''Ping'', vFields = [], vIndex = 0, vDocs = []\<rparr>]\<rparr>)\<rparr>]"

definition quiet_pallet :: "string \<Rightarrow> uint8 \<Rightarrow> PalletMetadataV14" where
  "quiet_pallet n i = \<lparr>pName = n, HasStorage = False, pStorage = zero_storage, HasCalls = False, pCalls = 0,
     HasEvents = False, pEvents = 0, pConstants = [], HasErrors = False, pErrors = 0, pIndex = i\<rparr>"

definition chain_metadata14 :: "bool \<Rightarrow> MetadataV14" where
  "chain_metadata14 new = \<lparr>Lookup = chain_types,
     Pallets = [(quiet_pallet ''System'' 0)\<lparr>HasStorage := True, pStorage := \<lparr>smPrefix = ''System'', smItems = [events_entry]\<rparr>\<rparr>,
       if new then (quiet_pallet ''Forest'' 5)\<lparr>HasEvents := True, pEvents := 1, HasCalls := True, pCalls := 1\<rparr>
       else quiet_pallet ''Forest'' 5],
     mdExtrinsic = \<lparr>exType = 1, exVersion = 4, exSignedExtensions = []\<rparr>, mdType = 1,
     EfficientLookup = toMap chain_types\<rparr>"

definition chain_metadata :: "bool \<Rightarrow> Metadata" where
  "chain_metadata new = versioned 14\<lparr>AsMetadataV14 := chain_metadata14 new\<rparr>"

lemma chain_metadata_valid: "metadata_valid (chain_metadata new)"
proof -
  have "typedef_ok (tDef (ptType (hd chain_types)))"
    unfolding typedef_ok_def
    by (rule disjI2, rule disjI1, rule exI [of _ "Variants (tDef (ptType (hd chain_types)))"])
      (simp add: chain_types_def plain_type_def slice_ok_def variant_ok_def text_ok_def)
  then have "slice_ok portable_ok chain_types"
    by (simp add: chain_types_def slice_ok_def portable_ok_def type_ok_def id_ok_def plain_type_def)
  then have "metadata_ok (chain_metadata14 new)"
    by (simp add: metadata_ok_def chain_metadata14_def extrinsic_ok_def slice_ok_def id_ok_def pallet_ok_def
        quiet_pallet_def option_ok_def text_ok_def storage_ok_def entry_ok_def events_entry_def modifier_ok_def entry_type_ok_def)
  then show ?thesis
    unfolding chain_metadata_def by (rule metadata_valid.intros) (simp add: chain_metadata14_def)
qed

definition chain_client :: "unit client" where
  "chain_client =
     \<lparr>call_string = (\<lambda>mthd args w.
        if mthd = ''state_getMetadata'' then (EncodeToHex (Metadata_Encode (chain_metadata (args \<noteq> []))), w)
        else (Ok ''0x0401050000'', w)),
      call_strings = (\<lambda>mthd args w. (Ok [], w)), call_u64 = (\<lambda>mthd args w. (Ok 0, w))\<rparr>"

lemma chain_getMetadata: "getMetadata chain_client bh () = (Ok (chain_metadata (bh \<noteq> None)), ())"
  using tail_codec.hex_codec [OF metadata.tail_codec_axioms chain_metadata_valid, of "bh \<noteq> None"]
  by (auto simp: getMetadata_def CallWithBlockHash_eq chain_client_def at_block_def split: option.splits)

lemma chain_registries:
  "\<exists>f'. CreateEventRegistry n (chain_metadata14 False) f = (Ok Map.empty, f') \<and> (fieldOverrides f = [] \<longrightarrow> fieldOverrides f' = [])"
  "\<exists>f'. CreateEventRegistry n (chain_metadata14 True) f = (Ok [(5, 0) \<mapsto> \<lparr>tdName = ''Forest.Ping'', tdFields = []\<rparr>], f')"
  by (simp_all add: CreateEventRegistry_def create_registry_def chain_metadata14_def quiet_pallet_def resetStorages_def
      resolveRecursiveDecoders_def chain_types_def toMap_def plain_type_def bindM_def wrapM_def Let_def)


definition chain_env :: "(nat \<times> bytes, uint64 \<times> bytes, unit) retriever_env" where
  "chain_env = \<lparr>env_client = chain_client, env_lib = count_lib, env_custom = (\<lambda>_. failM EOF), env_fuel = 1, env_depth = 0\<rparr>"

lemma chain_events_key:
  "\<exists>key. CreateStorageKey count_lib (chain_metadata new) ''System'' ''Events'' [[]] = Ok key"
proof -
  have "case CreateStorageKey count_lib (chain_metadata b) ''System'' ''Events'' [[]] of Ok key \<Rightarrow> True | _ \<Rightarrow> False"
    if "b \<in> {True, False}" for b using that by (elim insertE emptyE; hypsubst) code_simp+
  from this [of new] show ?thesis by (auto split: res.splits)
qed

lemma chain_fetch: "rs_meta s = Some (chain_metadata new) \<Longrightarrow> fetch_events chain_env h s = (Ok [4, 1, 5, 0, 0], s)"
proof -
  assume m: "rs_meta s = Some (chain_metadata new)"
  have "HexDecodeString ''0x0401050000'' = Ok [4, 1, 5, 0, 0]" by code_simp
  moreover obtain key where "CreateStorageKey count_lib (chain_metadata new) ''System'' ''Events'' [[]] = Ok key"
    using chain_events_key by blast
  ultimately show ?thesis
    using m by (simp add: fetch_events_def withWorld_def GetStorageEvents_def GetStorageRaw_def getStorageRaw_def
        CallWithBlockHash_eq chain_env_def chain_client_def)
qed

lemma chain_reachable:
  "\<exists>s. event_reachable chain_env s \<and> rs_meta s = Some (chain_metadata False) \<and> rs_registry s = Map.empty"
proof -
  obtain f' where "CreateEventRegistry 1 (chain_metadata14 False) new_factory = (Ok Map.empty, f')"
    using chain_registries(1) by blast
  then have "NewEventRetriever chain_env new_factory () = (Ok (),
      \<lparr>rs_registry = Map.empty, rs_meta = Some (chain_metadata False), rs_factory = f', rs_world = ()\<rparr>)"
    using chain_getMetadata [of None]
    by (simp add: NewEventRetriever_def event_updateInternalState_def fetch_metadata_def GetMetadataLatest_def withWorld_def
        withFactory_def set_meta_def new_state_def chain_env_def chain_metadata_def wrapM_def bindM_def)
  then show ?thesis
    using event_reachable.new_event_retriever [OF new_factory_plain(2)] by fastforce
qed

definition ping_event :: Event where
  "ping_event = \<lparr>Event_Name = ''Forest.Ping'', Event_Fields = [], Event_EventID = (5, 0), Event_Phase = zero_phase\<lparr>IsFinalization := True\<rparr>, Event_Topics = []\<rparr>"

lemma compact_4: "DecodeUintCompact (4 # s) = (Ok 1, s)"
  using readsD [OF reads_DecodeUintCompact [of 1]] by (simp add: compact_bytes_def)

lemma stale_parse: "\<exists>e. ParseEvents dec Map.empty [4, 1, 5, 0, 0] = Err e"
proof -
  have p: "Phase_Decode [1, 5, 0, 0] = (Ok (zero_phase\<lparr>IsFinalization := True\<rparr>), [5, 0, 0])"
    by (simp add: Phase_Decode_def)
  have "EventID_Decode [5, 0, 0] = (Ok (5, 0), [0])"
    using readsD [OF reads_EventID [of "(5, 0)"], of "[0]"] by simp
  with p show ?thesis
    by (simp add: ParseEvents_def compact_4 BigInt_Uint64_def ParseEvents_loop.simps [of _ _ 1 0] ParseEvent_def)
qed

lemma fresh_parse: "\<exists>f'. CreateEventRegistry n (chain_metadata14 True) f = (Ok reg, f') \<Longrightarrow>
    ParseEvents dec reg [4, 1, 5, 0, 0] = Ok [ping_event]"
proof -
  assume "\<exists>f'. CreateEventRegistry n (chain_metadata14 True) f = (Ok reg, f')"
  then have reg: "reg = [(5, 0) \<mapsto> \<lparr>tdName = ''Forest.Ping'', tdFields = []\<rparr>]"
    using chain_registries(2) [of n f] by auto
  have p: "Phase_Decode [1, 5, 0, 0] = (Ok (zero_phase\<lparr>IsFinalization := True\<rparr>), [5, 0, 0])"
    by (simp add: Phase_Decode_def)
  have i: "EventID_Decode [5, 0, 0] = (Ok (5, 0), [0])"
    using readsD [OF reads_EventID [of "(5, 0)"], of "[0]"] by simp
  have t: "Decode_slice Hash_Decode [0] = (Ok [], [])" by code_simp
  have "ParseEvent dec reg 0 [1, 5, 0, 0] = (Ok ping_event, [])"
    by (simp add: ParseEvent_def p i t reg TypeDecoder_Decode_def ping_event_def)
  then show ?thesis
    by (simp add: ParseEvents_def compact_4 BigInt_Uint64_def ParseEvents_loop.simps [of _ _ 1])
qed

lemma chain_GetEvents:
  "\<exists>s s'. event_reachable chain_env s \<and> rs_meta s = Some (chain_metadata False) \<and>
     GetEvents chain_env defaultEventStorageExecutor defaultEventParsingExecutor h s = (Ok [ping_event], s') \<and>
     rs_meta s' = Some (chain_metadata True)"
proof -
  obtain s :: "(EventID, unit) retriever_state" where s: "event_reachable chain_env s" "rs_meta s = Some (chain_metadata False)" "rs_registry s = Map.empty"
    using chain_reachable by blast
  obtain reg f where reg: "CreateEventRegistry 1 (chain_metadata14 True) (rs_factory s) = (Ok reg, f)"
    using chain_registries(2) by blast
  obtain e where e: "parse_events chain_env [4, 1, 5, 0, 0] s = (Err e, s)"
    using stale_parse s(3) by (auto simp: parse_events_def)
  have "event_updateInternalState chain_env (Some h) s = (Ok (), s\<lparr>rs_factory := f, rs_meta := Some (chain_metadata True), rs_registry := reg\<rparr>)"
    using chain_getMetadata [of "Some h"] reg
    by (simp add: event_updateInternalState_def fetch_metadata_def GetMetadata_def withWorld_def withFactory_def set_meta_def
        chain_env_def chain_metadata_def bindM_def wrapM_def)
  moreover have "parse_events chain_env [4, 1, 5, 0, 0] (s\<lparr>rs_factory := f, rs_meta := Some (chain_metadata True), rs_registry := reg\<rparr>) =
      (Ok [ping_event], s\<lparr>rs_factory := f, rs_meta := Some (chain_metadata True), rs_registry := reg\<rparr>)"
    using fresh_parse reg by (fastforce simp: parse_events_def)
  moreover have "maxRetryCount defaultEventParsingExecutor \<noteq> 0" by code_simp
  ultimately have "GetEvents chain_env defaultEventStorageExecutor defaultEventParsingExecutor h s = (Ok [ping_event], s\<lparr>rs_factory := f, rs_meta := Some (chain_metadata True), rs_registry := reg\<rparr>)"
    using chain_fetch [OF s(2)] e by (blast intro: GetEvents_refresh)
  then show ?thesis using s by (intro exI [of _ s] exI conjI) auto
qed

lemma chain_call_registries:
  "\<exists>f'. CreateCallRegistry n (chain_metadata14 False) f = (Ok Map.empty, f')"
  "\<exists>f'. CreateCallRegistry n (chain_metadata14 True) f =
     (Ok [\<lparr>SectionIndex = 5, MethodIndex = 0\<rparr> \<mapsto> \<lparr>tdName = ''Forest.Ping'', tdFields = []\<rparr>], f')"
  by (simp_all add: CreateCallRegistry_def create_registry_def chain_metadata14_def quiet_pallet_def resetStorages_def
      resolveRecursiveDecoders_def chain_types_def toMap_def plain_type_def bindM_def wrapM_def Let_def)

definition chain_block :: "bytes \<Rightarrow> (unit, unit generic_extrinsic list) goM" where
  "chain_block h = retM [sample_extrinsic]"

definition ping_extrinsic :: "unit parsed_extrinsic" where
  "ping_extrinsic = \<lparr>pxName = ''Forest.Ping'', pxCallFields = [], pxCallIndex = \<lparr>SectionIndex = 5, MethodIndex = 0\<rparr>,
     pxVersion = 4, pxSignature = ()\<rparr>"

lemma chain_GetExtrinsics:
  "\<exists>s s'. call_reachable chain_env chain_block s \<and>
     GetExtrinsics chain_env chain_block NewDefaultExecOpts NewDefaultExecOpts h s = (Ok [ping_extrinsic], s')"
proof -
  obtain f0 where f0: "CreateCallRegistry 1 (chain_metadata14 False) new_factory = (Ok Map.empty, f0)"
    using chain_call_registries(1) by blast
  let ?s = "\<lparr>rs_registry = Map.empty, rs_meta = Some (chain_metadata False), rs_factory = f0, rs_world = ()\<rparr>"
  have "NewExtrinsicRetriever chain_env new_factory () = (Ok (), ?s)"
    using chain_getMetadata [of None] f0
    by (simp add: NewExtrinsicRetriever_def call_updateInternalState_def fetch_metadata_def GetMetadataLatest_def withWorld_def
        withFactory_def set_meta_def new_state_def chain_env_def chain_metadata_def wrapM_def bindM_def)
  then have r: "call_reachable chain_env chain_block ?s"
    by (rule call_reachable.new_extrinsic_retriever [OF new_factory_plain(2)])
  obtain f where f: "CreateCallRegistry 1 (chain_metadata14 True) f0 =
      (Ok [\<lparr>SectionIndex = 5, MethodIndex = 0\<rparr> \<mapsto> \<lparr>tdName = ''Forest.Ping'', tdFields = []\<rparr>], f)"
    using chain_call_registries(2) by blast
  let ?t = "\<lparr>rs_registry = [\<lparr>SectionIndex = 5, MethodIndex = 0\<rparr> \<mapsto> \<lparr>tdName = ''Forest.Ping'', tdFields = []\<rparr>],
    rs_meta = Some (chain_metadata True), rs_factory = f, rs_world = ()\<rparr>"
  have "\<exists>e. parse_extrinsics chain_env [sample_extrinsic] ?s = (Err e, ?s)"
    by (simp add: parse_extrinsics_def ParseExtrinsics_def ParseExtrinsic_def sample_extrinsic_def)
  moreover have "call_updateInternalState chain_env (Some h) ?s = (Ok (), ?t)"
    using chain_getMetadata [of "Some h"] f
    by (simp add: call_updateInternalState_def fetch_metadata_def GetMetadata_def withWorld_def withFactory_def set_meta_def
        chain_env_def chain_metadata_def bindM_def wrapM_def)
  moreover have "parse_extrinsics chain_env [sample_extrinsic] ?t = (Ok [ping_extrinsic], ?t)"
    by (simp add: parse_extrinsics_def ParseExtrinsics_def ParseExtrinsic_def sample_extrinsic_def ping_extrinsic_def TypeDecoder_Decode_def)
  moreover have "maxRetryCount NewDefaultExecOpts \<noteq> 0" by code_simp
  moreover have "withWorld (chain_block h) ?s = (Ok [sample_extrinsic], ?s)"
    by (simp add: withWorld_def chain_block_def)
  ultimately have "GetExtrinsics chain_env chain_block NewDefaultExecOpts NewDefaultExecOpts h ?s = (Ok [ping_extrinsic], ?t)"
    by (blast intro: GetExtrinsics_refresh)
  with r show ?thesis by blast
qed

lemma chain_unambiguous: "unambiguous_events (chain_metadata14 True)"
  by (auto simp: unambiguous_events_def event_shapes_def chain_metadata14_def quiet_pallet_def chain_types_def toMap_def plain_type_def)

section \<open>Properties\<close>

lemma fetch_events_depth [simp]: "fetch_events (env\<lparr>env_depth := d\<rparr>) = fetch_events env"
  by (intro ext) (simp add: fetch_events_def GetStorageEvents_def cong: option.case_cong)

text \<open>
  C2: In every state an event retriever can reach, through calls that succeed or fail, its event
  registry is the one of the metadata it holds; and what \<open>GetEvents\<close> returns is the meaning,
  under the metadata it holds afterwards, of a prefix of storage bytes that were fetched for
  the block under the key of \<open>System.Events\<close>.\<close>

theorem event_retriever_correct:
  assumes "event_reachable env s" "GetEvents env so po h s = (Ok es, s')"
  shows "event_inv s \<and> event_reachable env s' \<and>
    (\<exists>m sd bs rest s1 s2. rs_meta s' = Some m \<and>
       event_registry_for (AsMetadataV14 m) (rs_registry s') (rs_factory s') \<and>
       event_inv s1 \<and> fetch_events env h s1 = (Ok sd, s2) \<and> sd = bs @ rest \<and>
       events_denote (AsMetadataV14 m) bs (map erase_event es))"
proof -
  have "event_inv s' \<and> (\<exists>raw s1 s2. event_inv s1 \<and> fetch_events env h s1 = (Ok raw, s2) \<and> events_good s' raw es)"
    by (rule events.get_good [OF event_reachable_inv [OF assms(1)] assms(2) [unfolded GetEvents_def]])
  then have "\<exists>m sd bs rest s1 s2. rs_meta s' = Some m \<and>
       event_registry_for (AsMetadataV14 m) (rs_registry s') (rs_factory s') \<and>
       event_inv s1 \<and> fetch_events env h s1 = (Ok sd, s2) \<and> sd = bs @ rest \<and>
       events_denote (AsMetadataV14 m) bs (map erase_event es)"
    unfolding events_good_def retriever_inv_def [of _ _ _ s'] by fastforce
  then show ?thesis
    using event_reachable_inv [OF assms(1)] event_reachable.after_GetEvents [OF assms] by blast
qed

theorem event_retriever_correct_witness:
  "\<exists>s s' m. event_reachable chain_env s \<and>
     GetEvents chain_env defaultEventStorageExecutor defaultEventParsingExecutor [] s = (Ok [ping_event], s') \<and>
     rs_meta s' = Some m \<and> event_registry_for (AsMetadataV14 m) (rs_registry s') (rs_factory s')"
proof -
  obtain s s' :: "(EventID, unit) retriever_state" where "event_reachable chain_env s"
    "GetEvents chain_env defaultEventStorageExecutor defaultEventParsingExecutor [] s = (Ok [ping_event], s')"
    using chain_GetEvents by blast
  with event_retriever_correct [OF this] show ?thesis by blast
qed

text \<open>
  The same for an extrinsic retriever: the extrinsics it returns are those of the fetched
  block, one by one, with the names and argument values its metadata gives their calls.\<close>

theorem extrinsic_retriever_correct:
  assumes "call_reachable env GetBlock s" "GetExtrinsics env GetBlock co po h s = (Ok ps, s')"
  shows "call_inv s \<and> call_reachable env GetBlock s' \<and>
    (\<exists>m xs w w'. rs_meta s' = Some m \<and> call_registry_for (AsMetadataV14 m) (rs_registry s') (rs_factory s') \<and>
       GetBlock h w = (Ok xs, w') \<and> list_all2 (extrinsic_denotes (AsMetadataV14 m)) xs ps)"
proof -
  have "call_inv s' \<and> (\<exists>raw s1 s2. call_inv s1 \<and> withWorld (GetBlock h) s1 = (Ok raw, s2) \<and> extrinsics_good s' raw ps)"
    by (rule extrinsics.get_good [where GetBlock = GetBlock, OF call_reachable_inv [OF assms(1)] assms(2) [unfolded GetExtrinsics_def]])
  then have "\<exists>m xs w w'. rs_meta s' = Some m \<and> call_registry_for (AsMetadataV14 m) (rs_registry s') (rs_factory s') \<and>
       GetBlock h w = (Ok xs, w') \<and> list_all2 (extrinsic_denotes (AsMetadataV14 m)) xs ps"
    unfolding extrinsics_good_def retriever_inv_def [of _ _ _ s'] withWorld_def by (fastforce split: prod.splits)
  then show ?thesis
    using call_reachable_inv [OF assms(1)] call_reachable.after_GetExtrinsics [OF assms] by blast
qed

theorem extrinsic_retriever_correct_witness:
  "\<exists>s s' m. call_reachable chain_env chain_block s \<and> rs_meta s' = Some m \<and>
     GetExtrinsics chain_env chain_block NewDefaultExecOpts NewDefaultExecOpts [] s = (Ok [ping_extrinsic], s') \<and>
     extrinsic_denotes (AsMetadataV14 m) sample_extrinsic ping_extrinsic"
proof -
  obtain s s' :: "(CallIndex, unit) retriever_state" where r: "call_reachable chain_env chain_block s"
    "GetExtrinsics chain_env chain_block NewDefaultExecOpts NewDefaultExecOpts [] s = (Ok [ping_extrinsic], s')"
    using chain_GetExtrinsics by blast
  from extrinsic_retriever_correct [OF r] r show ?thesis
    by (auto simp: chain_block_def)
qed

text \<open>
  A refresh that fails, at fetching the metadata or half-way through creating the registry,
  changes neither the metadata nor the registry, and the old registry still decodes: its
  recursive decoders are where they were.\<close>

theorem failed_update_keeps_registry:
  assumes "event_inv s" "event_updateInternalState env bh s = (r, s')" "r \<noteq> Ok ()"
  shows "rs_meta s' = rs_meta s \<and> rs_registry s' = rs_registry s \<and> event_inv s' \<and>
    (\<forall>a<nextAddr (rs_factory s). fheap (rs_factory s') a = fheap (rs_factory s) a)"
proof -
  note run = assms(2) [unfolded event_update_eq]
  have "fieldOverrides (rs_factory s) = []" using assms(1) by (simp add: retriever_inv_def)
  from update_with_outcome [OF event_create_outcome run this] assms(3)
  have "rs_meta s' = rs_meta s" "rs_registry s' = rs_registry s"
    "same_below (nextAddr (rs_factory s)) (rs_factory s) (rs_factory s')" by simp_all
  moreover have "event_inv s'"
    by (rule preservesD [OF update_with_inv [OF event_create_outcome] assms(1) run])
  ultimately show ?thesis by (simp add: same_below_def)
qed

definition broken_env :: "(nat \<times> bytes, uint64 \<times> bytes, unit) retriever_env" where
  "broken_env = chain_env\<lparr>env_client := chain_client\<lparr>call_string := (\<lambda>mthd args. failM EOF)\<rparr>\<rparr>"

theorem failed_update_keeps_registry_witness:
  "\<exists>s r s'. event_inv s \<and> event_updateInternalState broken_env None s = (r, s') \<and> r \<noteq> Ok () \<and> rs_meta s' = rs_meta s \<and> event_inv s'"
proof -
  obtain s :: "(EventID, unit) retriever_state" where "event_reachable chain_env s" using chain_reachable by blast
  then have s: "event_inv s" by (rule event_reachable_inv)
  have "\<exists>r s'. event_updateInternalState broken_env None s = (r, s') \<and> r \<noteq> Ok ()"
    by (simp add: event_updateInternalState_def fetch_metadata_def GetMetadataLatest_def getMetadata_def CallWithBlockHash_eq
        withWorld_def broken_env_def bindM_def wrapM_def)
  then obtain r s' where r: "event_updateInternalState broken_env None s = (r, s')" "r \<noteq> Ok ()" by blast
  from failed_update_keeps_registry [OF s r] s r show ?thesis by blast
qed

text \<open>
  C3: When the events of a block cannot be parsed with the registry at hand, and the metadata at
  that block is available and gives the fetched bytes a meaning, \<open>GetEvents\<close> refreshes the
  registry and returns that meaning, provided the parsing executor may retry at all.\<close>

theorem outdated_registry_refreshed:
  assumes "event_reachable env s" "maxRetryCount po \<noteq> 0" "fetch_events env h s = (Ok (bs @ rest), s1)"
    and "GetMetadata (env_client env) h (rs_world s1) = (Ok m, w)"
    and "CreateEventRegistry (env_fuel env) (AsMetadataV14 m) (rs_factory s1) = (Ok reg, f)"
    and "unambiguous_events (AsMetadataV14 m)" "events_denote (AsMetadataV14 m) bs ws"
  shows "\<exists>es l0. map erase_event es = ws \<and>
    (\<forall>d\<ge>l0. \<forall>e. fst (parse_events (env\<lparr>env_depth := d\<rparr>) (bs @ rest) s1) = Err e \<longrightarrow>
       (\<exists>s'. GetEvents (env\<lparr>env_depth := d\<rparr>) so po h s = (Ok es, s') \<and> rs_meta s' = Some m))"
proof -
  let ?s' = "s1\<lparr>rs_world := w, rs_factory := f, rs_meta := Some m, rs_registry := reg\<rparr>"
  have "event_inv s1"
    by (rule preservesD [OF events.fetch_inv event_reachable_inv [OF assms(1)] assms(3)])
  then have "event_registry_for (AsMetadataV14 m) reg f"
    using event_registry_created [OF _ assms(5)] by (simp add: retriever_inv_def)
  from ParseEvents_complete [OF this assms(6,7), of "env_custom env"] obtain es l0 where es: "map erase_event es = ws"
    "\<forall>l\<ge>l0. \<forall>rest. ParseEvents (Decode_fuel l (env_custom env) (fheap f)) reg (bs @ rest) = Ok es" by blast
  have "GetEvents (env\<lparr>env_depth := d\<rparr>) so po h s = (Ok es, ?s')"
    if d: "d \<ge> l0" "fst (parse_events (env\<lparr>env_depth := d\<rparr>) (bs @ rest) s1) = Err e" for d e
  proof -
    let ?env = "env\<lparr>env_depth := d\<rparr>"
    have "fetch_events ?env h s = (Ok (bs @ rest), s1)" using assms(3) by simp
    moreover have "parse_events ?env (bs @ rest) s1 = (Err e, s1)"
      using d(2) by (simp add: parse_events_def)
    moreover have "event_updateInternalState ?env (Some h) s1 = (Ok (), ?s')"
      using assms(4,5) by (simp add: event_updateInternalState_def fetch_metadata_def withWorld_def withFactory_def set_meta_def bindM_def wrapM_def)
    moreover have "parse_events ?env (bs @ rest) ?s' = (Ok es, ?s')"
      using es(2) d(1) by (simp add: parse_events_def)
    ultimately show ?thesis by (rule GetEvents_refresh [OF assms(2)])
  qed
  then show ?thesis using es(1) by (intro exI [of _ es] exI [of _ l0]) auto
qed

theorem outdated_registry_refreshed_witness:
  "\<exists>s s' l. event_reachable chain_env s \<and>
     GetEvents (chain_env\<lparr>env_depth := l\<rparr>) defaultEventStorageExecutor defaultEventParsingExecutor [] s = (Ok [ping_event], s')"
proof -
  obtain s :: "(EventID, unit) retriever_state" where s: "event_reachable chain_env s" "rs_meta s = Some (chain_metadata False)" "rs_registry s = Map.empty"
    using chain_reachable by blast
  obtain reg f where reg: "CreateEventRegistry 1 (chain_metadata14 True) (rs_factory s) = (Ok reg, f)"
    using chain_registries(2) by blast
  have f: "fieldOverrides (rs_factory s) = []" using event_reachable_inv [OF s(1)] by (simp add: retriever_inv_def)
  have ping: "map erase_event [ping_event] = [ping_event]" by (simp add: erase_event_def ping_event_def)
  obtain bs rest where b: "[4, 1, 5, 0, 0] = bs @ rest" "events_denote (chain_metadata14 True) bs [ping_event]"
    using ParseEvents_sound [OF event_registry_created [OF f reg], of 0 "\<lambda>_. failM EOF" "[4, 1, 5, 0, 0]" "[ping_event]"]
      fresh_parse reg ping by (metis (no_types, lifting))
  have m: "AsMetadataV14 (chain_metadata True) = chain_metadata14 True" by (simp add: chain_metadata_def)
  have "\<exists>e. fst (parse_events (chain_env\<lparr>env_depth := d\<rparr>) (bs @ rest) s) = Err e" for d
    using stale_parse s(3) by (simp add: parse_events_def flip: b(1))
  moreover have "\<exists>es l0. map erase_event es = [ping_event] \<and>
    (\<forall>d\<ge>l0. \<forall>e. fst (parse_events (chain_env\<lparr>env_depth := d\<rparr>) (bs @ rest) s) = Err e \<longrightarrow>
       (\<exists>s'. GetEvents (chain_env\<lparr>env_depth := d\<rparr>) defaultEventStorageExecutor defaultEventParsingExecutor [] s = (Ok es, s') \<and>
          rs_meta s' = Some (chain_metadata True)))"
  proof (rule outdated_registry_refreshed [OF s(1)])
    show "maxRetryCount defaultEventParsingExecutor \<noteq> 0" by code_simp
    show "fetch_events chain_env [] s = (Ok (bs @ rest), s)" using chain_fetch [OF s(2)] b(1) by simp
    show "GetMetadata (env_client chain_env) [] (rs_world s) = (Ok (chain_metadata True), ())"
      using chain_getMetadata [of "Some []"] by (simp add: GetMetadata_def chain_env_def)
    show "CreateEventRegistry (env_fuel chain_env) (AsMetadataV14 (chain_metadata True)) (rs_factory s) = (Ok reg, f)"
      using reg m by (simp add: chain_env_def)
  qed (simp_all add: m chain_unambiguous b(2))
  moreover have "es = [ping_event]" if "map erase_event es = [ping_event]" for es
  proof -
    note es = that
    obtain e where "es = [e]" "erase_event e = ping_event" using es by (cases es) auto
    then show ?thesis by (cases e) (simp add: erase_event_def ping_event_def)
  qed
  ultimately show ?thesis using s(1) order_refl by metis
qed

end
