(* ===== verification/Accounts.thy ===== *)
theory Accounts
  imports Rpc Parser
begin

text \<open>
  Addresses, signatures and the era of an extrinsic: \<open>src/types/account_id.go\<close>,
  \<open>address.go\<close>, \<open>serde.go\<close>, \<open>multi_address.go\<close>, \<open>signature.go\<close>, \<open>multi_signature.go\<close> and
  \<open>extrinsic_era.go\<close>. Arrays of bytes are lists of their length.
\<close>

section \<open>Byte arrays\<close>

text \<open>The array case of the reflective codec, for arrays of bytes.\<close>

definition Encode_array :: "bytes \<Rightarrow> (bytes, unit) goM" where
  "Encode_array = encode_each Encode_byte"

definition Decode_array :: "nat \<Rightarrow> (bytes, bytes) goM" where
  "Decode_array n = decode_each n Decode_byte"

definition zeros :: "nat \<Rightarrow> bytes" where
  "zeros n = replicate n 0"

interpretation array: scale_codec Encode_array "Decode_array n" "\<lambda>bs. length bs = n" for n
  using scale_codec_array [OF byte.scale_codec_axioms, of n]
  by (simp add: Encode_array_def Decode_array_def list_all_iff)

definition AccountIDLen :: nat where
  "AccountIDLen = 32"

definition NewAccountID :: "bytes \<Rightarrow> bytes res" where
  "NewAccountID b =
     (if length b \<noteq> AccountIDLen then Err (ErrorString ''invalid account ID bytes'')
      else Ok (take 32 b @ zeros (32 - length b)))"

text \<open>\<open>NewSignature\<close> and \<open>NewEcdsaSignature\<close> copy into arrays of 64 and 65 bytes.\<close>

definition NewSignature :: "bytes \<Rightarrow> bytes" where
  "NewSignature b = take 64 b @ zeros (64 - length b)"

definition NewEcdsaSignature :: "bytes \<Rightarrow> bytes" where
  "NewEcdsaSignature b = take 65 b @ zeros (65 - length b)"

section \<open>Address\<close>

record SerDeOptions =
  NoPalletIndices :: bool

definition SerDeOptionsFromMetadata :: "Metadata \<Rightarrow> SerDeOptions" where
  "SerDeOptionsFromMetadata meta = \<lparr>NoPalletIndices = \<not> Metadata_ExistsModuleMetadata meta ''Indices''\<rparr>"

record Address =
  IsAccountID :: bool
  AsAccountID :: bytes
  IsAccountIndex :: bool
  AsAccountIndex :: uint32

definition zero_address :: Address where
  "zero_address = \<lparr>IsAccountID = False, AsAccountID = zeros 32, IsAccountIndex = False, AsAccountIndex = 0\<rparr>"

definition NewAddressFromAccountID :: "bytes \<Rightarrow> Address res" where
  "NewAddressFromAccountID b =
     bindR (NewAccountID b) (\<lambda>accountID. Ok (zero_address\<lparr>IsAccountID := True, AsAccountID := accountID\<rparr>))"

definition NewAddressFromHexAccountID :: "string \<Rightarrow> Address res" where
  "NewAddressFromHexAccountID str = bindR (HexDecodeString str) NewAddressFromAccountID"

definition NewAddressFromAccountIndex :: "uint32 \<Rightarrow> Address" where
  "NewAddressFromAccountIndex u = zero_address\<lparr>IsAccountIndex := True, AsAccountIndex := u\<rparr>"

text \<open>The package variable \<open>defaultOptions\<close> is a parameter of the codec.\<close>

definition Address_Decode :: "SerDeOptions \<Rightarrow> (bytes, Address) goM" where
  "Address_Decode opts =
     bindM ReadOneByte (\<lambda>b.
       if NoPalletIndices opts then
         bindM (Decode_array 31) (\<lambda>sm.
         bindM (liftM (NewAccountID (b # sm))) (\<lambda>accountID.
           retM (zero_address\<lparr>AsAccountID := accountID, IsAccountID := True\<rparr>)))
       else if b = 0xff then
         bindM (Decode_array 32) (\<lambda>i. retM (zero_address\<lparr>AsAccountID := i, IsAccountID := True\<rparr>))
       else if b = 0xfe then failM (ErrorString ''decoding of Address with 0xfe prefix not supported'')
       else if b = 0xfd then
         bindM (Decode_word Uint32) (\<lambda>i. retM (zero_address\<lparr>AsAccountIndex := i, IsAccountIndex := True\<rparr>))
       else if b = 0xfc then
         bindM (Decode_word Uint16) (\<lambda>aIndex :: uint16.
           retM (zero_address\<lparr>IsAccountIndex := True, AsAccountIndex := ucast aIndex\<rparr>))
       else retM (zero_address\<lparr>IsAccountIndex := True, AsAccountIndex := ucast b\<rparr>))"

definition Address_Encode :: "SerDeOptions \<Rightarrow> Address \<Rightarrow> (bytes, unit) goM" where
  "Address_Encode opts a =
     (if IsAccountID a then
        (if \<not> NoPalletIndices opts then seqM (PushByte 255) (Encoder_Write (AsAccountID a))
         else Encoder_Write (AsAccountID a))
      else if AsAccountIndex a > 0xffff then seqM (PushByte 253) (Encode_word Uint32 (AsAccountIndex a))
      else if AsAccountIndex a \<ge> 0xf0 then seqM (PushByte 252) (Encode_word Uint16 (ucast (AsAccountIndex a) :: uint16))
      else Encode_word Uint8 (ucast (AsAccountIndex a) :: uint8))"

section \<open>MultiAddress\<close>

record MultiAddress =
  IsID :: bool
  AsID :: bytes
  IsIndex :: bool
  AsIndex :: uint32
  IsRaw :: bool
  AsRaw :: bytes
  IsAddress32 :: bool
  AsAddress32 :: bytes
  IsAddress20 :: bool
  AsAddress20 :: bytes

definition zero_multi_address :: MultiAddress where
  "zero_multi_address =
     \<lparr>IsID = False, AsID = zeros 32, IsIndex = False, AsIndex = 0, IsRaw = False, AsRaw = [],
      IsAddress32 = False, AsAddress32 = zeros 32, IsAddress20 = False, AsAddress20 = zeros 20\<rparr>"

definition NewMultiAddressFromAccountID :: "bytes \<Rightarrow> MultiAddress res" where
  "NewMultiAddressFromAccountID b =
     bindR (NewAccountID b) (\<lambda>accountID. Ok (zero_multi_address\<lparr>IsID := True, AsID := accountID\<rparr>))"

definition NewMultiAddressFromHexAccountID :: "string \<Rightarrow> MultiAddress res" where
  "NewMultiAddressFromHexAccountID str = bindR (HexDecodeString str) NewMultiAddressFromAccountID"

definition MultiAddress_Encode :: "MultiAddress \<Rightarrow> (bytes, unit) goM" where
  "MultiAddress_Encode m =
     (if IsID m then seqM (PushByte 0) (Encode_array (AsID m))
      else if IsIndex m then seqM (PushByte 1) (Encode_word Uint32 (AsIndex m))
      else if IsRaw m then seqM (PushByte 2) (Encode_slice Encode_byte (AsRaw m))
      else if IsAddress32 m then seqM (PushByte 3) (Encode_array (AsAddress32 m))
      else if IsAddress20 m then seqM (PushByte 4) (Encode_array (AsAddress20 m))
      else retM ())"

definition MultiAddress_Decode :: "(bytes, MultiAddress) goM" where
  "MultiAddress_Decode =
     bindM ReadOneByte (\<lambda>b.
       if b = 0 then bindM (Decode_array 32) (\<lambda>x. retM (zero_multi_address\<lparr>IsID := True, AsID := x\<rparr>))
       else if b = 1 then bindM (Decode_word Uint32) (\<lambda>x. retM (zero_multi_address\<lparr>IsIndex := True, AsIndex := x\<rparr>))
       else if b = 2 then bindM (Decode_slice Decode_byte) (\<lambda>x. retM (zero_multi_address\<lparr>IsRaw := True, AsRaw := x\<rparr>))
       else if b = 3 then bindM (Decode_array 32) (\<lambda>x. retM (zero_multi_address\<lparr>IsAddress32 := True, AsAddress32 := x\<rparr>))
       else if b = 4 then bindM (Decode_array 20) (\<lambda>x. retM (zero_multi_address\<lparr>IsAddress20 := True, AsAddress20 := x\<rparr>))
       else retM zero_multi_address)"

section \<open>MultiSignature\<close>

record MultiSignature =
  IsEd25519 :: bool
  AsEd25519 :: bytes
  IsSr25519 :: bool
  AsSr25519 :: bytes
  IsEcdsa :: bool
  AsEcdsa :: bytes

definition zero_multi_signature :: MultiSignature where
  "zero_multi_signature =
     \<lparr>IsEd25519 = False, AsEd25519 = zeros 64, IsSr25519 = False, AsSr25519 = zeros 64, IsEcdsa = False, AsEcdsa = zeros 65\<rparr>"

definition MultiSignature_Decode :: "(bytes, MultiSignature) goM" where
  "MultiSignature_Decode =
     bindM ReadOneByte (\<lambda>b.
       if b = 0 then bindM (Decode_array 64) (\<lambda>x. retM (zero_multi_signature\<lparr>IsEd25519 := True, AsEd25519 := x\<rparr>))
       else if b = 1 then bindM (Decode_array 64) (\<lambda>x. retM (zero_multi_signature\<lparr>IsSr25519 := True, AsSr25519 := x\<rparr>))
       else if b = 2 then bindM (Decode_array 65) (\<lambda>x. retM (zero_multi_signature\<lparr>IsEcdsa := True, AsEcdsa := x\<rparr>))
       else retM zero_multi_signature)"

definition MultiSignature_Encode :: "MultiSignature \<Rightarrow> (bytes, unit) goM" where
  "MultiSignature_Encode m =
     (if IsEd25519 m then seqM (PushByte 0) (Encode_array (AsEd25519 m))
      else if IsSr25519 m then seqM (PushByte 1) (Encode_array (AsSr25519 m))
      else if IsEcdsa m then seqM (PushByte 2) (Encode_array (AsEcdsa m))
      else retM ())"

section \<open>Era\<close>

record ExtrinsicEra =
  IsImmortalEra :: bool
  IsMortalEra :: bool
  AsMortalEra :: "byte \<times> byte"

definition immortal_era :: ExtrinsicEra where
  "immortal_era = \<lparr>IsImmortalEra = True, IsMortalEra = False, AsMortalEra = (0, 0)\<rparr>"

definition ExtrinsicEra_Decode :: "(bytes, ExtrinsicEra) goM" where
  "ExtrinsicEra_Decode =
     bindM ReadOneByte (\<lambda>first.
       if first = 0 then retM immortal_era
       else bindM ReadOneByte (\<lambda>second.
         retM \<lparr>IsImmortalEra = False, IsMortalEra = True, AsMortalEra = (first, second)\<rparr>))"

definition ExtrinsicEra_Encode :: "ExtrinsicEra \<Rightarrow> (bytes, unit) goM" where
  "ExtrinsicEra_Encode e =
     (if IsImmortalEra e then PushByte 0
      else seqM (PushByte (fst (AsMortalEra e))) (PushByte (snd (AsMortalEra e))))"

section \<open>Contracts\<close>

inductive multi_address_ok :: "MultiAddress \<Rightarrow> bool" where
  "length x = 32 \<Longrightarrow> multi_address_ok (zero_multi_address\<lparr>IsID := True, AsID := x\<rparr>)"
| "multi_address_ok (zero_multi_address\<lparr>IsIndex := True, AsIndex := i\<rparr>)"
| "length x < 2 ^ 32 \<Longrightarrow> multi_address_ok (zero_multi_address\<lparr>IsRaw := True, AsRaw := x\<rparr>)"
| "length x = 32 \<Longrightarrow> multi_address_ok (zero_multi_address\<lparr>IsAddress32 := True, AsAddress32 := x\<rparr>)"
| "length x = 20 \<Longrightarrow> multi_address_ok (zero_multi_address\<lparr>IsAddress20 := True, AsAddress20 := x\<rparr>)"

inductive multi_signature_ok :: "MultiSignature \<Rightarrow> bool" where
  "length x = 64 \<Longrightarrow> multi_signature_ok (zero_multi_signature\<lparr>IsEd25519 := True, AsEd25519 := x\<rparr>)"
| "length x = 64 \<Longrightarrow> multi_signature_ok (zero_multi_signature\<lparr>IsSr25519 := True, AsSr25519 := x\<rparr>)"
| "length x = 65 \<Longrightarrow> multi_signature_ok (zero_multi_signature\<lparr>IsEcdsa := True, AsEcdsa := x\<rparr>)"

inductive era_ok :: "ExtrinsicEra \<Rightarrow> bool" where
  "era_ok immortal_era"
| "first \<noteq> 0 \<Longrightarrow> era_ok \<lparr>IsImmortalEra = False, IsMortalEra = True, AsMortalEra = (first, second)\<rparr>"

inductive address_ok :: "SerDeOptions \<Rightarrow> Address \<Rightarrow> bool" for opts where
  "length x = 32 \<Longrightarrow> address_ok opts (zero_address\<lparr>AsAccountID := x, IsAccountID := True\<rparr>)"
| "\<not> NoPalletIndices opts \<Longrightarrow> address_ok opts (zero_address\<lparr>IsAccountIndex := True, AsAccountIndex := i\<rparr>)"

lemma list_all_True: "list_all (\<lambda>_. True) xs"
  by (simp add: list_all_iff)

lemmas account_roundtrips = array.roundtrip u32.roundtrip u16.roundtrip byte_slice.roundtrip

interpretation multi_address: scale_codec MultiAddress_Encode MultiAddress_Decode multi_address_ok
proof
  fix m
  assume "multi_address_ok m"
  then show "rt (MultiAddress_Encode m) MultiAddress_Decode m"
    unfolding MultiAddress_Decode_def
    by (elim multi_address_ok.cases)
      (rule rt_variant_tag, simp add: MultiAddress_Encode_def zero_multi_address_def, simp del: retM_apply,
       rule rt_last, rule account_roundtrips, simp add: list_all_True, simp add: zero_multi_address_def del: retM_apply)+
qed

interpretation multi_signature: scale_codec MultiSignature_Encode MultiSignature_Decode multi_signature_ok
proof
  fix m
  assume "multi_signature_ok m"
  then show "rt (MultiSignature_Encode m) MultiSignature_Decode m"
    unfolding MultiSignature_Decode_def
    by (elim multi_signature_ok.cases)
      (rule rt_variant_tag, simp add: MultiSignature_Encode_def zero_multi_signature_def, simp del: retM_apply,
       rule rt_last, rule account_roundtrips, simp add: list_all_True, simp add: zero_multi_signature_def del: retM_apply)+
qed

lemma rt_PushByte: "rt (PushByte b) ReadOneByte b"
  by (rule rtI [of _ "[b]"]) (simp_all add: writes_PushByte reads_def)

interpretation era: scale_codec ExtrinsicEra_Encode ExtrinsicEra_Decode era_ok
proof
  fix e
  assume "era_ok e"
  then show "rt (ExtrinsicEra_Encode e) ExtrinsicEra_Decode e"
  proof cases
    case 1
    then show ?thesis
      unfolding ExtrinsicEra_Decode_def ExtrinsicEra_Encode_def
      by (simp add: immortal_era_def) (rule rt_last, rule rt_PushByte, simp add: immortal_era_def del: retM_apply)
  next
    case (2 first second)
    then show ?thesis
      unfolding ExtrinsicEra_Decode_def ExtrinsicEra_Encode_def
      by simp (rule rt_seqM, rule rt_PushByte, simp, rule rt_last, rule rt_PushByte, simp)
  qed
qed

text \<open>
  An address of either kind is read back, except that an index is only written in a form the
  decoder knows when the chain has the \<open>Indices\<close> pallet.
\<close>

lemma reads_Decode_array: "length x = n \<Longrightarrow> reads (Decode_array n) x x"
  using reads_hash [of x] by (simp add: Decode_array_def)

lemma rt_raw_array: "length x = n \<Longrightarrow> rt (Encoder_Write x) (Decode_array n) x"
  by (rule rtI [OF writes_Write reads_Decode_array])

lemma address_id_roundtrip:
  assumes "length x = 32" "a = zero_address\<lparr>AsAccountID := x, IsAccountID := True\<rparr>"
  shows "rt (Address_Encode opts a) (Address_Decode opts) a"
proof (cases "NoPalletIndices opts")
  case True
  obtain b sm where x: "x = b # sm" "length sm = 31" using assms(1) by (cases x) auto
  have "writes (Address_Encode opts a) x"
    using assms(2) True by (simp add: Address_Encode_def zero_address_def writes_Write)
  moreover have "reads (Address_Decode opts) ([b] @ sm) a"
    unfolding Address_Decode_def
    using True assms x(2) readsD [OF reads_Decode_array [OF x(2)]]
    by (intro reads_bindM [where a = b]) (simp_all add: reads_def x(1) NewAccountID_def AccountIDLen_def zeros_def)
  ultimately show ?thesis unfolding x(1) by (intro rtI [of _ "b # sm"]) simp_all
next
  case False
  then show ?thesis
    unfolding Address_Decode_def assms(2)
    by (intro rt_variant_tag [where b = "0xff", OF _ refl])
      (simp add: Address_Encode_def zero_address_def, simp del: retM_apply, rule rt_last,
       rule rt_raw_array [OF assms(1)], simp add: zero_address_def)
qed

lemma small_index:
  fixes i :: uint32
  shows "i < 0xf0 \<Longrightarrow> ucast (ucast i :: uint8) = i" and "i \<le> 0xffff \<Longrightarrow> ucast (ucast i :: uint16) = i"
  by (simp_all add: word_less_nat_alt word_le_nat_alt word_unat_eq_iff unsigned_ucast_eq unsigned_take_bit_eq take_bit_nat_eq_self)

lemma address_index_roundtrip:
  assumes "\<not> NoPalletIndices opts" "a = zero_address\<lparr>IsAccountIndex := True, AsAccountIndex := i\<rparr>"
  shows "rt (Address_Encode opts a) (Address_Decode opts) a"
proof -
  consider "i > 0xffff" | "i \<le> 0xffff" "i \<ge> 0xf0" | "i < 0xf0" by fastforce
  then show ?thesis
  proof cases
    case 1
    then show ?thesis
      using assms(1) unfolding Address_Decode_def assms(2)
      by (intro rt_variant_tag [where b = 253, OF _ refl])
        (simp add: Address_Encode_def zero_address_def, simp del: retM_apply, rule rt_last,
         rule u32.roundtrip, simp, simp add: zero_address_def)
  next
    case 2
    then show ?thesis
      using assms(1) small_index(2) [OF 2(1)] unfolding Address_Decode_def assms(2)
      by (intro rt_variant_tag [where b = 252, OF _ refl])
        (simp add: Address_Encode_def zero_address_def leD, simp del: retM_apply, rule rt_last,
         rule u16.roundtrip, simp, simp add: zero_address_def)
  next
    case 3
    have "reads (Address_Decode opts) ([ucast i] @ []) a"
      unfolding Address_Decode_def
      by (rule reads_bindM [where a = "ucast i"]) (simp add: reads_def, insert 3 assms small_index(1) [OF 3], auto simp: reads_def)
    moreover have "writes (Address_Encode opts a) [ucast i]"
    proof -
      have "Address_Encode opts a = Encode_word Uint8 (ucast i :: uint8)"
        using 3 assms by (auto simp: Address_Encode_def zero_address_def word_less_nat_alt word_le_nat_alt)
      then show ?thesis by (simp add: writes_def Encode_word_def binary_Write_def)
    qed
    ultimately show ?thesis by (intro rtI [of _ "[ucast i]"]) simp_all
  qed
qed

interpretation address: scale_codec "Address_Encode opts" "Address_Decode opts" "address_ok opts" for opts
  by unfold_locales (auto elim!: address_ok.cases intro: address_id_roundtrip address_index_roundtrip)

end
