(* ===== verification/Extrinsics.thy ===== *)
theory Extrinsics
  imports Accounts
begin

text \<open>
  Extrinsics and their signatures: \<open>src/types/extrinsic.go\<close>, \<open>extrinsic_signature.go\<close>,
  \<open>extrinsic_payload.go\<close>, \<open>src/signature/signature.go\<close>, the extrinsics of a generic block in
  \<open>src/rpc/chain/generic/block.go\<close>, and \<open>src/rpc/author\<close> up to its subscription. The key
  library and \<open>blake2b.Sum256\<close> are parameters; signing draws on the state of its caller, since
  sr25519 signatures are randomised.
\<close>

section \<open>Calls\<close>

definition CallIndex_Decode :: "(bytes, CallIndex) goM" where
  "CallIndex_Decode =
     bindM (Decode_word Uint8) (\<lambda>s. bindM (Decode_word Uint8) (\<lambda>m. retM \<lparr>SectionIndex = s, MethodIndex = m\<rparr>))"

definition CallIndex_Encode :: "CallIndex \<Rightarrow> (bytes, unit) goM" where
  "CallIndex_Encode m = seqM (Encode_word Uint8 (SectionIndex m)) (Encode_word Uint8 (MethodIndex m))"

definition Call_Encode :: "call \<Rightarrow> (bytes, unit) goM" where
  "Call_Encode c = seqM (fieldE (CallIndex_Encode (clCallIndex c))) (fieldE (Args_Encode (clArgs c)))"

definition Call_Decode :: "(bytes, call) goM" where
  "Call_Decode =
     bindM (fieldD CallIndex_Decode) (\<lambda>i. bindM (fieldD (Args_Decode [])) (\<lambda>a. retM \<lparr>clCallIndex = i, clArgs = a\<rparr>))"

text \<open>The loop of \<open>NewCall\<close> over the encoders of the arguments.\<close>

fun NewCall_loop :: "(bytes, unit) goM list \<Rightarrow> bytes \<Rightarrow> bytes res" where
  "NewCall_loop [] a = Ok a"
| "NewCall_loop (arg # args) a = bindR (codec_Encode arg) (\<lambda>e. NewCall_loop args (a @ e))"

definition NewCall :: "Metadata \<Rightarrow> string \<Rightarrow> (bytes, unit) goM list \<Rightarrow> call res" where
  "NewCall m call args =
     bindR (Metadata_FindCallIndex m call) (\<lambda>c. bindR (NewCall_loop args []) (\<lambda>a. Ok \<lparr>clCallIndex = c, clArgs = a\<rparr>))"

section \<open>Signed extrinsics\<close>

record ExtrinsicSignatureV3 =
  sig3Signer :: Address
  sig3Signature :: bytes
  sig3Era :: ExtrinsicEra
  sig3Nonce :: int
  sig3Tip :: int

definition ExtrinsicSignatureV3_Encode :: "SerDeOptions \<Rightarrow> ExtrinsicSignatureV3 \<Rightarrow> (bytes, unit) goM" where
  "ExtrinsicSignatureV3_Encode opts s =
     seqM (fieldE (Address_Encode opts (sig3Signer s)))
    (seqM (fieldE (Encode_array (sig3Signature s)))
    (seqM (fieldE (ExtrinsicEra_Encode (sig3Era s)))
    (seqM (fieldE (UCompact_Encode (sig3Nonce s)))
          (fieldE (UCompact_Encode (sig3Tip s))))))"

definition ExtrinsicSignatureV3_Decode :: "SerDeOptions \<Rightarrow> (bytes, ExtrinsicSignatureV3) goM" where
  "ExtrinsicSignatureV3_Decode opts =
     bindM (fieldD (Address_Decode opts)) (\<lambda>a.
     bindM (fieldD (Decode_array 64)) (\<lambda>s.
     bindM (fieldD ExtrinsicEra_Decode) (\<lambda>e.
     bindM (fieldD UCompact_Decode) (\<lambda>n.
     bindM (fieldD UCompact_Decode) (\<lambda>t.
     retM \<lparr>sig3Signer = a, sig3Signature = s, sig3Era = e, sig3Nonce = n, sig3Tip = t\<rparr>)))))"

record ExtrinsicSignatureV4 =
  sigSigner :: MultiAddress
  sigSignature :: MultiSignature
  sigEra :: ExtrinsicEra
  sigNonce :: int
  sigTip :: int

definition zero_signature :: ExtrinsicSignatureV4 where
  "zero_signature =
     \<lparr>sigSigner = zero_multi_address, sigSignature = zero_multi_signature,
      sigEra = \<lparr>IsImmortalEra = False, IsMortalEra = False, AsMortalEra = (0, 0)\<rparr>, sigNonce = 0, sigTip = 0\<rparr>"

definition ExtrinsicSignatureV4_Encode :: "ExtrinsicSignatureV4 \<Rightarrow> (bytes, unit) goM" where
  "ExtrinsicSignatureV4_Encode s =
     seqM (fieldE (MultiAddress_Encode (sigSigner s)))
    (seqM (fieldE (MultiSignature_Encode (sigSignature s)))
    (seqM (fieldE (ExtrinsicEra_Encode (sigEra s)))
    (seqM (fieldE (UCompact_Encode (sigNonce s)))
          (fieldE (UCompact_Encode (sigTip s))))))"

definition ExtrinsicSignatureV4_Decode :: "(bytes, ExtrinsicSignatureV4) goM" where
  "ExtrinsicSignatureV4_Decode =
     bindM (fieldD MultiAddress_Decode) (\<lambda>a.
     bindM (fieldD MultiSignature_Decode) (\<lambda>s.
     bindM (fieldD ExtrinsicEra_Decode) (\<lambda>e.
     bindM (fieldD UCompact_Decode) (\<lambda>n.
     bindM (fieldD UCompact_Decode) (\<lambda>t.
     retM \<lparr>sigSigner = a, sigSignature = s, sigEra = e, sigNonce = n, sigTip = t\<rparr>)))))"

record SignatureOptions =
  soEra :: ExtrinsicEra
  soNonce :: int
  soTip :: int
  soSpecVersion :: uint32
  soGenesisHash :: bytes
  soBlockHash :: bytes
  soTransactionVersion :: uint32

record Extrinsic =
  xtVersion :: byte
  xtSignature :: ExtrinsicSignatureV4
  xtMethod :: call

definition NewExtrinsic :: "call \<Rightarrow> Extrinsic" where
  "NewExtrinsic c = \<lparr>xtVersion = 4, xtSignature = zero_signature, xtMethod = c\<rparr>"

definition ExtrinsicBitSigned :: byte where "ExtrinsicBitSigned = 0x80"
definition ExtrinsicUnmaskVersion :: byte where "ExtrinsicUnmaskVersion = 0x7f"
definition ExtrinsicVersion4 :: byte where "ExtrinsicVersion4 = 4"

text \<open>\<open>IsSigned\<close> and \<open>Type\<close> of both kinds of extrinsic, on the version byte.\<close>

definition IsSigned :: "byte \<Rightarrow> bool" where
  "IsSigned v \<longleftrightarrow> and v ExtrinsicBitSigned = ExtrinsicBitSigned"

definition xtType :: "byte \<Rightarrow> byte" where
  "xtType v = and v ExtrinsicUnmaskVersion"

definition unsupported_extrinsic :: "byte \<Rightarrow> goerror" where
  "unsupported_extrinsic v =
     ErrorString (''unsupported extrinsic version: '' @ string_of_nat (unat v) @ '' (isSigned: '' @
       (if IsSigned v then ''true'' else ''false'') @ '', type: '' @ string_of_nat (unat (xtType v)) @ '')'')"

text \<open>The temporary buffer of \<open>Encode\<close>, without the length.\<close>

definition Extrinsic_body :: "Extrinsic \<Rightarrow> (bytes, unit) goM" where
  "Extrinsic_body e =
     seqM (Encode_byte (xtVersion e))
    (seqM (if IsSigned (xtVersion e) then ExtrinsicSignatureV4_Encode (xtSignature e) else retM ())
          (Call_Encode (xtMethod e)))"

definition Extrinsic_Encode :: "Extrinsic \<Rightarrow> (bytes, unit) goM" where
  "Extrinsic_Encode e =
     (if xtType (xtVersion e) \<noteq> ExtrinsicVersion4 then failM (unsupported_extrinsic (xtVersion e))
      else bindM (liftM (codec_Encode (Extrinsic_body e))) (\<lambda>eb.
        seqM (EncodeUintCompact (uint (word_of_nat (length eb) :: uint64))) (Encoder_Write eb)))"

definition Extrinsic_Decode :: "(bytes, Extrinsic) goM" where
  "Extrinsic_Decode =
     bindM DecodeUintCompact (\<lambda>_.
     bindM Decode_byte (\<lambda>v.
     bindM (if IsSigned v then
              (if xtType v \<noteq> ExtrinsicVersion4 then failM (unsupported_extrinsic v) else ExtrinsicSignatureV4_Decode)
            else retM zero_signature) (\<lambda>s.
     bindM Call_Decode (\<lambda>c.
     retM \<lparr>xtVersion = v, xtSignature = s, xtMethod = c\<rparr>))))"

text \<open>
  \<open>UnmarshalJSON\<close> of both kinds of extrinsic, on the string in the JSON value and with the
  \<open>Decode\<close> method of the kind.
\<close>

definition HasPrefix :: "string \<Rightarrow> string \<Rightarrow> bool" where
  "HasPrefix s p \<longleftrightarrow> take (length p) s = p"

definition Extrinsic_UnmarshalJSON :: "(bytes, 'x) goM \<Rightarrow> string \<Rightarrow> 'x res" where
  "Extrinsic_UnmarshalJSON dec tmp =
     bindR (DecodeFromHex tmp UCompact_Decode) (\<lambda>l.
     bindR (EncodeToHex (UCompact_Encode l)) (\<lambda>prfx.
       if HasPrefix tmp prfx then DecodeFromHex tmp dec
       else
         bindR (HexDecodeString tmp) (\<lambda>bz.
         bindR (codec_Encode (UCompact_Encode (uint (word_of_nat (length bz) :: uint64)))) (\<lambda>bprefix.
           codec_Decode (bprefix @ bz) dec))))"

definition Extrinsic_MarshalJSON :: "Extrinsic \<Rightarrow> string res" where
  "Extrinsic_MarshalJSON e = EncodeToHex (Extrinsic_Encode e)"

section \<open>Signing\<close>

record KeyringPair =
  kpURI :: string
  kpAddress :: string
  kpPublicKey :: bytes

text \<open>What the code calls of the key library (its sr25519 scheme) and of blake2b.\<close>

record ('k, 'w) key_lib =
  DeriveKeyPair :: "string \<Rightarrow> 'k res"
  kyr_SS58Address :: "'k \<Rightarrow> uint16 \<Rightarrow> string"
  kyr_Public :: "'k \<Rightarrow> bytes"
  kyr_Sign :: "'k \<Rightarrow> bytes \<Rightarrow> ('w, bytes) goM"
  kyr_Verify :: "'k \<Rightarrow> bytes \<Rightarrow> bytes \<Rightarrow> bool"
  Sum256 :: "bytes \<Rightarrow> bytes"

definition KeyringPairFromSecret :: "('k, 'w) key_lib \<Rightarrow> string \<Rightarrow> uint16 \<Rightarrow> KeyringPair res" where
  "KeyringPairFromSecret lib seedOrPhrase network =
     bindR (DeriveKeyPair lib seedOrPhrase) (\<lambda>kyr.
       Ok \<lparr>kpURI = seedOrPhrase, kpAddress = kyr_SS58Address lib kyr network, kpPublicKey = kyr_Public lib kyr\<rparr>)"

definition signature_Sign :: "('k, 'w) key_lib \<Rightarrow> bytes \<Rightarrow> string \<Rightarrow> ('w, bytes) goM" where
  "signature_Sign lib data privateKeyURI =
     (let data = (if length data > 256 then Sum256 lib data else data) in
      bindM (liftM (DeriveKeyPair lib privateKeyURI)) (\<lambda>kyr. kyr_Sign lib kyr data))"

definition signature_Verify :: "('k, 'w) key_lib \<Rightarrow> bytes \<Rightarrow> bytes \<Rightarrow> string \<Rightarrow> bool res" where
  "signature_Verify lib data sig privateKeyURI =
     (let data = (if length data > 256 then Sum256 lib data else data) in
      bindR (DeriveKeyPair lib privateKeyURI) (\<lambda>kyr.
        if length sig \<noteq> 64 then Err (ErrorString ''wrong signature length'')
        else Ok (kyr_Verify lib kyr data sig)))"

record ExtrinsicPayloadV3 =
  plMethod :: bytes
  plEra :: ExtrinsicEra
  plNonce :: int
  plTip :: int
  plSpecVersion :: uint32
  plGenesisHash :: bytes
  plBlockHash :: bytes

record ExtrinsicPayloadV4 =
  pl4V3 :: ExtrinsicPayloadV3
  plTransactionVersion :: uint32

definition ExtrinsicPayloadV3_Encode :: "ExtrinsicPayloadV3 \<Rightarrow> (bytes, unit) goM" where
  "ExtrinsicPayloadV3_Encode e =
     seqM (BytesBare_Encode (plMethod e))
    (seqM (ExtrinsicEra_Encode (plEra e))
    (seqM (UCompact_Encode (plNonce e))
    (seqM (UCompact_Encode (plTip e))
    (seqM (Encode_word Uint32 (plSpecVersion e))
    (seqM (Encode_array (plGenesisHash e))
          (Encode_array (plBlockHash e)))))))"

definition ExtrinsicPayloadV4_Encode :: "ExtrinsicPayloadV4 \<Rightarrow> (bytes, unit) goM" where
  "ExtrinsicPayloadV4_Encode p =
     (let e = pl4V3 p in
      seqM (BytesBare_Encode (plMethod e))
     (seqM (ExtrinsicEra_Encode (plEra e))
     (seqM (UCompact_Encode (plNonce e))
     (seqM (UCompact_Encode (plTip e))
     (seqM (Encode_word Uint32 (plSpecVersion e))
     (seqM (Encode_word Uint32 (plTransactionVersion p))
     (seqM (Encode_array (plGenesisHash e))
           (Encode_array (plBlockHash e)))))))))"

definition ExtrinsicPayloadV3_Decode :: "(bytes, ExtrinsicPayloadV3) goM" where
  "ExtrinsicPayloadV3_Decode = failM (ErrorString ''decoding of ExtrinsicPayloadV3 is not supported'')"

definition ExtrinsicPayloadV4_Decode :: "(bytes, ExtrinsicPayloadV4) goM" where
  "ExtrinsicPayloadV4_Decode = failM (ErrorString ''decoding of ExtrinsicPayloadV4 is not supported'')"

definition ExtrinsicPayloadV3_Sign :: "('k, 'w) key_lib \<Rightarrow> KeyringPair \<Rightarrow> ExtrinsicPayloadV3 \<Rightarrow> ('w, bytes) goM" where
  "ExtrinsicPayloadV3_Sign lib signer e =
     bindM (liftM (codec_Encode (ExtrinsicPayloadV3_Encode e))) (\<lambda>b.
     bindM (signature_Sign lib b (kpURI signer)) (\<lambda>sig. retM (NewSignature sig)))"

definition ExtrinsicPayloadV4_Sign :: "('k, 'w) key_lib \<Rightarrow> KeyringPair \<Rightarrow> ExtrinsicPayloadV4 \<Rightarrow> ('w, bytes) goM" where
  "ExtrinsicPayloadV4_Sign lib signer e =
     bindM (liftM (codec_Encode (ExtrinsicPayloadV4_Encode e))) (\<lambda>b.
     bindM (signature_Sign lib b (kpURI signer)) (\<lambda>sig. retM (NewSignature sig)))"

definition signed_era :: "SignatureOptions \<Rightarrow> ExtrinsicEra" where
  "signed_era opt = (if \<not> IsMortalEra (soEra opt) then immortal_era else soEra opt)"

definition signed_payload :: "bytes \<Rightarrow> SignatureOptions \<Rightarrow> ExtrinsicPayloadV4" where
  "signed_payload mb opt =
     \<lparr>pl4V3 = \<lparr>plMethod = mb, plEra = signed_era opt, plNonce = soNonce opt, plTip = soTip opt,
        plSpecVersion = soSpecVersion opt, plGenesisHash = soGenesisHash opt, plBlockHash = soBlockHash opt\<rparr>,
      plTransactionVersion = soTransactionVersion opt\<rparr>"

definition Extrinsic_Sign ::
    "('k, 'w) key_lib \<Rightarrow> KeyringPair \<Rightarrow> SignatureOptions \<Rightarrow> Extrinsic \<Rightarrow> ('w, Extrinsic) goM" where
  "Extrinsic_Sign lib signer opt e =
     (if xtType (xtVersion e) \<noteq> ExtrinsicVersion4 then failM (unsupported_extrinsic (xtVersion e))
      else
        bindM (liftM (codec_Encode (Call_Encode (xtMethod e)))) (\<lambda>mb.
        bindM (liftM (NewMultiAddressFromAccountID (kpPublicKey signer))) (\<lambda>signerPubKey.
        bindM (ExtrinsicPayloadV4_Sign lib signer (signed_payload mb opt)) (\<lambda>sig.
        retM (e\<lparr>xtSignature := \<lparr>sigSigner = signerPubKey,
                 sigSignature = zero_multi_signature\<lparr>IsSr25519 := True, AsSr25519 := sig\<rparr>,
                 sigEra = signed_era opt, sigNonce = soNonce opt, sigTip = soTip opt\<rparr>,
               xtVersion := or (xtVersion e) ExtrinsicBitSigned\<rparr>)))))"

section \<open>Extrinsics of a generic block\<close>

record ('a, 's, 'p) ExtrinsicSignature =
  gsSigner :: 'a
  gsSignature :: 's
  gsEra :: ExtrinsicEra
  gsNonce :: int
  gsPaymentFields :: 'p

definition ExtrinsicSignature_Decode ::
    "(bytes, 'a) goM \<Rightarrow> (bytes, 's) goM \<Rightarrow> (bytes, 'p) goM \<Rightarrow> (bytes, ('a, 's, 'p) ExtrinsicSignature) goM" where
  "ExtrinsicSignature_Decode decA decS decP =
     bindM (fieldD decA) (\<lambda>a.
     bindM (fieldD decS) (\<lambda>s.
     bindM (fieldD ExtrinsicEra_Decode) (\<lambda>e.
     bindM (fieldD UCompact_Decode) (\<lambda>n.
     bindM (fieldD decP) (\<lambda>p.
     retM \<lparr>gsSigner = a, gsSignature = s, gsEra = e, gsNonce = n, gsPaymentFields = p\<rparr>)))))"

definition GenericExtrinsic_Decode ::
    "(bytes, 'a) goM \<Rightarrow> (bytes, 's) goM \<Rightarrow> (bytes, 'p) goM \<Rightarrow>
     (bytes, ('a, 's, 'p) ExtrinsicSignature option generic_extrinsic) goM" where
  "GenericExtrinsic_Decode decA decS decP =
     bindM DecodeUintCompact (\<lambda>_.
     bindM Decode_byte (\<lambda>v.
     bindM (if IsSigned v then
              (if xtType v \<noteq> ExtrinsicVersion4 then failM (unsupported_extrinsic v)
               else bindM (ExtrinsicSignature_Decode decA decS decP) (\<lambda>s. retM (Some s)))
            else retM None) (\<lambda>s.
     bindM Call_Decode (\<lambda>c.
     retM \<lparr>gxVersion = v, gxSignature = s, gxMethod = c\<rparr>))))"

definition DefaultPaymentFields_Decode :: "(bytes, int) goM" where
  "DefaultPaymentFields_Decode = fieldD UCompact_Decode"

definition DefaultExtrinsic_Decode ::
    "(bytes, (MultiAddress, MultiSignature, int) ExtrinsicSignature option generic_extrinsic) goM" where
  "DefaultExtrinsic_Decode = GenericExtrinsic_Decode MultiAddress_Decode MultiSignature_Decode DefaultPaymentFields_Decode"

section \<open>Author\<close>

definition SubmitExtrinsic :: "'w client \<Rightarrow> Extrinsic \<Rightarrow> ('w, bytes) goM" where
  "SubmitExtrinsic c xt =
     bindM (liftM (EncodeToHex (Extrinsic_Encode xt))) (\<lambda>enc.
     bindM (call_string c ''author_submitExtrinsic'' [ArgString enc]) (\<lambda>res.
     liftM (NewHashFromHexString res)))"

fun decode_extrinsics :: "string list \<Rightarrow> Extrinsic list res" where
  "decode_extrinsics [] = Ok []"
| "decode_extrinsics (r # rs) =
     bindR (DecodeFromHex r Extrinsic_Decode) (\<lambda>x. bindR (decode_extrinsics rs) (\<lambda>xs. Ok (x # xs)))"

definition PendingExtrinsics :: "'w client \<Rightarrow> ('w, Extrinsic list) goM" where
  "PendingExtrinsics c = bindM (call_strings c ''author_pendingExtrinsics'' []) (\<lambda>res. liftM (decode_extrinsics res))"

end
