(* ===== verification/ExtrinsicProperties.thy ===== *)
theory ExtrinsicProperties
  imports Extrinsics
begin

text \<open>Round trips, signatures and the JSON form of extrinsics.\<close>

section \<open>Contracts\<close>

interpretation call_index: scale_codec CallIndex_Encode CallIndex_Decode "\<lambda>_. True"
proof
  fix i :: CallIndex
  show "rt (CallIndex_Encode i) CallIndex_Decode i"
    unfolding CallIndex_Encode_def CallIndex_Decode_def
    by (cases i, intro rt_struct) (rule u8.roundtrip, simp, simp?)+
qed

definition sig3_ok :: "SerDeOptions \<Rightarrow> ExtrinsicSignatureV3 \<Rightarrow> bool" where
  "sig3_ok opts s \<longleftrightarrow> address_ok opts (sig3Signer s) \<and> length (sig3Signature s) = 64 \<and> era_ok (sig3Era s) \<and>
     0 \<le> sig3Nonce s \<and> sig3Nonce s < 2 ^ 536 \<and> 0 \<le> sig3Tip s \<and> sig3Tip s < 2 ^ 536"

definition sig_ok :: "ExtrinsicSignatureV4 \<Rightarrow> bool" where
  "sig_ok s \<longleftrightarrow> multi_address_ok (sigSigner s) \<and> multi_signature_ok (sigSignature s) \<and> era_ok (sigEra s) \<and>
     0 \<le> sigNonce s \<and> sigNonce s < 2 ^ 536 \<and> 0 \<le> sigTip s \<and> sigTip s < 2 ^ 536"

lemmas signature_roundtrips =
  address.roundtrip multi_address.roundtrip multi_signature.roundtrip era.roundtrip ucompact.roundtrip array.roundtrip

interpretation signatureV3: scale_codec "ExtrinsicSignatureV3_Encode opts" "ExtrinsicSignatureV3_Decode opts" "sig3_ok opts" for opts
proof
  fix s
  assume "sig3_ok opts s"
  then show "rt (ExtrinsicSignatureV3_Encode opts s) (ExtrinsicSignatureV3_Decode opts) s"
    unfolding ExtrinsicSignatureV3_Encode_def ExtrinsicSignatureV3_Decode_def
    by (cases s, intro rt_struct) (rule signature_roundtrips, simp add: sig3_ok_def, simp?)+
qed

interpretation signatureV4: scale_codec ExtrinsicSignatureV4_Encode ExtrinsicSignatureV4_Decode sig_ok
proof
  fix s
  assume "sig_ok s"
  then show "rt (ExtrinsicSignatureV4_Encode s) ExtrinsicSignatureV4_Decode s"
    unfolding ExtrinsicSignatureV4_Encode_def ExtrinsicSignatureV4_Decode_def
    by (cases s, intro rt_struct) (rule signature_roundtrips, simp add: sig_ok_def, simp?)+
qed

lemma tail_bindM: "reads d bs a \<Longrightarrow> f a cs = (Ok v, []) \<Longrightarrow> bindM d f (bs @ cs) = (Ok v, [])"
  by (simp add: reads_def)

interpretation call: tail_codec Call_Encode Call_Decode "\<lambda>_. True"
proof
  fix c :: call
  obtain i a where c: "c = \<lparr>clCallIndex = i, clArgs = a\<rparr>" by (cases c)
  obtain bs where bs: "writes (CallIndex_Encode i) bs" "reads CallIndex_Decode bs i"
    using call_index.roundtrip [of i] by (auto simp: rt_def)
  obtain cs where cs: "writes (Args_Encode a) cs" "Args_Decode [] cs = (Ok a, [])"
    using args.tail_roundtrip [of a] by auto
  have "writes (Call_Encode c) (bs @ cs)"
    unfolding Call_Encode_def c using bs cs by (intro writes_seqM writes_wrapM) simp_all
  moreover have "Call_Decode (bs @ cs) = (Ok c, [])"
    unfolding Call_Decode_def c using cs(2) by (intro tail_bindM [OF reads_wrapM [OF bs(2)]]) simp
  ultimately show "\<exists>bs. writes (Call_Encode c) bs \<and> Call_Decode bs = (Ok c, [])" by blast
qed

lemma reads_u8: "reads (Decode_word Uint8) [b] (b :: uint8)"
  by (rule u8.reads_written) (simp_all add: writes_def Encode_word_def binary_Write_def)

definition call_bytes :: "call \<Rightarrow> bytes" where
  "call_bytes c = SectionIndex (clCallIndex c) # MethodIndex (clCallIndex c) # clArgs c"

lemma writes_Call: "writes (Call_Encode c) (call_bytes c)"
  by (simp add: writes_def Call_Encode_def CallIndex_Encode_def Encode_word_def binary_Write_def Args_Encode_def
      Encoder_Write_def Buffer_Write_def call_bytes_def)

lemma Call_Decode_bytes [simp]: "Call_Decode (call_bytes c) = (Ok c, [])"
  by (rule call.decode_written [OF _ writes_Call]) simp

lemma Call_Decode_shorter: "Call_Decode (b # clArgs c) \<noteq> (Ok c, s)"
proof (cases "clArgs c")
  case Nil
  have "Decode_word Uint8 [b] = (Ok b, [])" using reads_all [OF reads_u8] .
  moreover have "\<exists>err. Decode_word Uint8 [] = (Err err :: uint8 res, [])"
    by (simp add: Decode_word_def Decode_num_def bindM_def wrapM_def binary_Read_def)
  ultimately show ?thesis
    unfolding Nil Call_Decode_def CallIndex_Decode_def by (auto simp: bindM_def wrapM_def split: res.splits prod.splits)
next
  case (Cons a as)
  then have "b # clArgs c = call_bytes \<lparr>clCallIndex = \<lparr>SectionIndex = b, MethodIndex = a\<rparr>, clArgs = as\<rparr>"
    by (simp add: call_bytes_def)
  then show ?thesis using Cons Call_Decode_bytes by (auto simp del: Call_Decode_bytes)
qed

definition extrinsic_ok :: "Extrinsic \<Rightarrow> bool" where
  "extrinsic_ok e \<longleftrightarrow> xtType (xtVersion e) = ExtrinsicVersion4 \<and>
     (if IsSigned (xtVersion e) then sig_ok (xtSignature e) else xtSignature e = zero_signature)"

definition default_signature :: "ExtrinsicSignatureV4 \<Rightarrow> (MultiAddress, MultiSignature, int) ExtrinsicSignature" where
  "default_signature s =
     \<lparr>gsSigner = sigSigner s, gsSignature = sigSignature s, gsEra = sigEra s, gsNonce = sigNonce s, gsPaymentFields = sigTip s\<rparr>"

definition default_extrinsic :: "Extrinsic \<Rightarrow> (MultiAddress, MultiSignature, int) ExtrinsicSignature option generic_extrinsic" where
  "default_extrinsic e =
     \<lparr>gxVersion = xtVersion e, gxSignature = (if IsSigned (xtVersion e) then Some (default_signature (xtSignature e)) else None),
      gxMethod = xtMethod e\<rparr>"

interpretation tip: scale_codec UCompact_Encode DefaultPaymentFields_Decode "\<lambda>v. 0 \<le> v \<and> v < 2 ^ 536"
proof
  fix v :: int
  assume "0 \<le> v \<and> v < 2 ^ 536"
  from ucompact.roundtrip [OF this] show "rt (UCompact_Encode v) DefaultPaymentFields_Decode v"
    by (auto simp: rt_def DefaultPaymentFields_Decode_def intro: reads_wrapM)
qed

lemma default_signature_rt:
  "sig_ok s \<Longrightarrow> rt (ExtrinsicSignatureV4_Encode s)
     (ExtrinsicSignature_Decode MultiAddress_Decode MultiSignature_Decode DefaultPaymentFields_Decode) (default_signature s)"
  unfolding ExtrinsicSignatureV4_Encode_def ExtrinsicSignature_Decode_def
  by (cases s, intro rt_struct) (rule signature_roundtrips tip.roundtrip, simp add: sig_ok_def, (simp add: default_signature_def)?)+

lemma default_signature_reads:
  assumes "sig_ok s" "writes (ExtrinsicSignatureV4_Encode s) bs"
  shows "reads (ExtrinsicSignature_Decode MultiAddress_Decode MultiSignature_Decode DefaultPaymentFields_Decode) bs (default_signature s)"
  using default_signature_rt [OF assms(1)] assms(2) by (auto simp: rt_def dest: writes_unique)

section \<open>The encoding of an extrinsic\<close>

lemma writes_Encode_byte: "writes (Encode_byte b) [b]"
  by (simp add: Encode_byte_def writes_def binary_Write_def)

lemma codec_Encode_writes: "writes e bs \<Longrightarrow> codec_Encode e = Ok bs"
  by (simp add: codec_Encode_def writes_def)

lemma uint64_compact: "\<exists>cs. writes (UCompact_Encode (uint (w :: uint64))) cs \<and> reads UCompact_Decode cs (uint w)"
proof -
  have "uint w < 2 ^ 536" using uint_lt2p [of w] by simp
  then show ?thesis using ucompact.roundtrip [of "uint w"] by (auto simp: rt_def)
qed

text \<open>An encoded extrinsic: its length, the version, the signature if there is one, and the call.\<close>

definition signature_part :: "Extrinsic \<Rightarrow> bytes \<Rightarrow> bool" where
  "signature_part e sb \<longleftrightarrow>
     (if IsSigned (xtVersion e) then writes (ExtrinsicSignatureV4_Encode (xtSignature e)) sb else sb = [])"

lemma signature_part_unique: "signature_part e sb \<Longrightarrow> signature_part e sb' \<Longrightarrow> sb = sb'"
  by (auto simp: signature_part_def dest: writes_unique split: if_splits)

lemma body_layout:
  assumes "extrinsic_ok e"
  obtains sb where "signature_part e sb" "writes (Extrinsic_body e) (xtVersion e # sb @ call_bytes (xtMethod e))"
proof -
  have "\<exists>sb. signature_part e sb"
    using assms signatureV4.roundtrip [of "xtSignature e"]
    by (cases "IsSigned (xtVersion e)") (auto simp: extrinsic_ok_def rt_def signature_part_def)
  then obtain sb where sb: "signature_part e sb" by blast
  then have "writes (Extrinsic_body e) ([xtVersion e] @ sb @ call_bytes (xtMethod e))"
    unfolding Extrinsic_body_def signature_part_def
    by (intro writes_seqM writes_Encode_byte writes_Call) (auto simp: writes_def split: if_splits)
  then show ?thesis using that [OF sb] by simp
qed

lemma extrinsic_layout:
  assumes "extrinsic_ok e"
  obtains cs sb n where "writes (Extrinsic_Encode e) (cs @ xtVersion e # sb @ call_bytes (xtMethod e))"
    "writes (UCompact_Encode n) cs" "reads UCompact_Decode cs n" "signature_part e sb"
proof -
  obtain sb where sb: "signature_part e sb" "writes (Extrinsic_body e) (xtVersion e # sb @ call_bytes (xtMethod e))"
    by (rule body_layout [OF assms])
  let ?eb = "xtVersion e # sb @ call_bytes (xtMethod e)"
  obtain cs where cs: "writes (UCompact_Encode (uint (word_of_nat (length ?eb) :: uint64))) cs"
    "reads UCompact_Decode cs (uint (word_of_nat (length ?eb) :: uint64))"
    using uint64_compact by blast
  have "Extrinsic_Encode e = bindM (liftM (Ok ?eb)) (\<lambda>eb.
      seqM (EncodeUintCompact (uint (word_of_nat (length eb) :: uint64))) (Encoder_Write eb))"
    using assms unfolding Extrinsic_Encode_def codec_Encode_writes [OF sb(2)] by (simp add: extrinsic_ok_def)
  moreover have "writes \<dots> (cs @ ?eb)"
    using cs(1) writes_Write [of ?eb] by (simp add: writes_def UCompact_Encode_def)
  ultimately have "writes (Extrinsic_Encode e) (cs @ ?eb)" by simp
  from that [OF this cs sb(1)] show ?thesis .
qed

lemma extrinsic_decode_layout:
  assumes "extrinsic_ok e" "reads UCompact_Decode cs n" "signature_part e sb"
  shows "Extrinsic_Decode (cs @ xtVersion e # sb @ call_bytes (xtMethod e)) = (Ok e, [])"
    and "DefaultExtrinsic_Decode (cs @ xtVersion e # sb @ call_bytes (xtMethod e)) = (Ok (default_extrinsic e), [])"
proof -
  let ?sig = "if IsSigned (xtVersion e) then
              (if xtType (xtVersion e) \<noteq> ExtrinsicVersion4 then failM (unsupported_extrinsic (xtVersion e)) else ExtrinsicSignatureV4_Decode)
            else retM zero_signature"
  have "reads ?sig sb (xtSignature e)"
    using assms(1,3) signatureV4.reads_written by (auto simp: signature_part_def extrinsic_ok_def reads_def split: if_splits)
  then have "Extrinsic_Decode (cs @ [xtVersion e] @ sb @ call_bytes (xtMethod e)) = (Ok e, [])"
    unfolding Extrinsic_Decode_def using assms(2)
    by (intro tail_bindM [where a = n] tail_bindM [where a = "xtVersion e"] tail_bindM [where a = "xtSignature e"]
         reads_Decode_byte) (simp_all add: UCompact_Decode_def)
  then show "Extrinsic_Decode (cs @ xtVersion e # sb @ call_bytes (xtMethod e)) = (Ok e, [])" by simp
  let ?gsig = "if IsSigned (xtVersion e) then
              (if xtType (xtVersion e) \<noteq> ExtrinsicVersion4 then failM (unsupported_extrinsic (xtVersion e))
               else bindM (ExtrinsicSignature_Decode MultiAddress_Decode MultiSignature_Decode DefaultPaymentFields_Decode)
                 (\<lambda>s. retM (Some s)))
            else retM None"
  have "reads ?gsig sb (gxSignature (default_extrinsic e))"
    using assms(1,3) default_signature_reads [of "xtSignature e" sb]
    by (auto simp: signature_part_def extrinsic_ok_def default_extrinsic_def reads_def split: if_splits)
  then have "DefaultExtrinsic_Decode (cs @ [xtVersion e] @ sb @ call_bytes (xtMethod e)) = (Ok (default_extrinsic e), [])"
    unfolding DefaultExtrinsic_Decode_def GenericExtrinsic_Decode_def using assms(2)
    by (intro tail_bindM [where a = n] tail_bindM [where a = "xtVersion e"] tail_bindM [where a = "gxSignature (default_extrinsic e)"]
         reads_Decode_byte) (simp_all add: UCompact_Decode_def default_extrinsic_def)
  then show "DefaultExtrinsic_Decode (cs @ xtVersion e # sb @ call_bytes (xtMethod e)) = (Ok (default_extrinsic e), [])" by simp
qed

lemma hex_EncodeToString_append: "hex_EncodeToString (xs @ ys) = hex_EncodeToString xs @ hex_EncodeToString ys"
  by (simp add: hex_EncodeToString_def)

lemma HasPrefix_hex: "HasPrefix (Sprintf_x (xs @ ys)) (Sprintf_x xs)"
  by (simp add: HasPrefix_def Sprintf_x_def hex_EncodeToString_append)

text \<open>Bytes that begin with a canonical compact number are decoded as they are.\<close>

lemma unmarshal_prefixed:
  assumes "writes (UCompact_Encode n) cs" "reads UCompact_Decode cs n"
  shows "Extrinsic_UnmarshalJSON dec (Sprintf_x (cs @ rest)) = codec_Decode (cs @ rest) dec"
  using readsD [OF assms(2)] HasPrefix_hex [of cs rest]
  by (simp add: Extrinsic_UnmarshalJSON_def DecodeFromHex_def codec_Decode_def EncodeToHex_def codec_Encode_writes [OF assms(1)])

section \<open>Signing\<close>

text \<open>What the key library documents: signatures have 64 bytes and verify under their key.\<close>

definition key_lib_laws :: "('k, 'w) key_lib \<Rightarrow> bool" where
  "key_lib_laws lib \<longleftrightarrow>
     (\<forall>k d w s w'. kyr_Sign lib k d w = (Ok s, w') \<longrightarrow> length s = 64 \<and> kyr_Verify lib k d s)"

definition options_ok :: "SignatureOptions \<Rightarrow> bool" where
  "options_ok opt \<longleftrightarrow> (IsMortalEra (soEra opt) \<longrightarrow> era_ok (soEra opt)) \<and>
     0 \<le> soNonce opt \<and> soNonce opt < 2 ^ 536 \<and> 0 \<le> soTip opt \<and> soTip opt < 2 ^ 536 \<and>
     length (soGenesisHash opt) = 32 \<and> length (soBlockHash opt) = 32"

lemma signed_bits [simp]:
  "IsSigned (or v ExtrinsicBitSigned)" "xtType (or v ExtrinsicBitSigned) = xtType v"
  by (simp_all add: IsSigned_def xtType_def ExtrinsicBitSigned_def ExtrinsicUnmaskVersion_def bit.conj_disj_distrib2)

lemma signed_era_ok: "options_ok opt \<Longrightarrow> era_ok (signed_era opt)"
  by (simp add: options_ok_def signed_era_def era_ok.intros)

lemma encodable_seqM: "\<exists>bs. writes m bs \<Longrightarrow> \<exists>cs. writes n cs \<Longrightarrow> \<exists>ds. writes (seqM m n) ds"
  using writes_seqM by blast

lemma encodable_rt: "rt e d v \<Longrightarrow> \<exists>bs. writes e bs"
  by (auto simp: rt_def)

lemma encodable_bare: "\<exists>bs. writes (BytesBare_Encode b) bs"
  by (auto simp: BytesBare_Encode_def intro: writes_Write)

lemma payload_encodes:
  assumes "options_ok opt"
  obtains p where "codec_Encode (ExtrinsicPayloadV4_Encode (signed_payload mb opt)) = Ok p"
proof -
  have "\<exists>p. writes (ExtrinsicPayloadV4_Encode (signed_payload mb opt)) p"
    unfolding ExtrinsicPayloadV4_Encode_def signed_payload_def Let_def
    using assms signed_era_ok [OF assms]
    by (intro encodable_seqM encodable_bare)
      (rule encodable_rt, rule signature_roundtrips u32.roundtrip, simp add: options_ok_def)+
  then show ?thesis using that codec_Encode_writes by blast
qed

lemma sign_verifies:
  assumes "key_lib_laws lib" "DeriveKeyPair lib uri = Ok k" "\<And>d. \<exists>s w'. kyr_Sign lib k d w = (Ok s, w')"
  obtains s w' where "signature_Sign lib d uri w = (Ok s, w')" "length s = 64" "signature_Verify lib d s uri = Ok True"
proof -
  obtain s w' where "kyr_Sign lib k (if length d > 256 then Sum256 lib d else d) w = (Ok s, w')" using assms(3) by blast
  moreover from this have "length s = 64" "kyr_Verify lib k (if length d > 256 then Sum256 lib d else d) s"
    using assms(1) unfolding key_lib_laws_def by blast+
  ultimately show ?thesis using that assms(2) by (simp add: signature_Sign_def signature_Verify_def Let_def)
qed

section \<open>Extrinsics without a length\<close>

lemma tagged_head: "writes m bs \<Longrightarrow> m = seqM (PushByte b) e \<Longrightarrow> rt e d v \<Longrightarrow> \<exists>cs. bs = b # cs"
  by (auto simp: rt_def dest!: writes_unique [OF _ writes_seqM [OF writes_PushByte]])

lemma address_head:
  assumes "multi_address_ok m" "writes (MultiAddress_Encode m) bs"
  shows "\<exists>b cs. bs = b # cs \<and> b \<le> 4"
proof -
  have "\<exists>b cs. b \<in> {0, 1, 2, 3, 4 :: byte} \<and> bs = b # cs"
    using assms(1)
  proof cases
    case (1 x)
    then show ?thesis
      using tagged_head [OF assms(2), of 0 "Encode_array x", OF _ array.roundtrip [OF 1(2)]]
      by (auto simp: MultiAddress_Encode_def zero_multi_address_def)
  next
    case (2 i)
    then show ?thesis
      using tagged_head [OF assms(2), of 1 "Encode_word Uint32 i", OF _ u32.roundtrip]
      by (auto simp: MultiAddress_Encode_def zero_multi_address_def)
  next
    case (3 x)
    then show ?thesis
      using tagged_head [OF assms(2), of 2 "Encode_slice Encode_byte x", OF _ byte_slice.roundtrip]
      by (auto simp: MultiAddress_Encode_def zero_multi_address_def list_all_True)
  next
    case (4 x)
    then show ?thesis
      using tagged_head [OF assms(2), of 3 "Encode_array x", OF _ array.roundtrip [OF 4(2)]]
      by (auto simp: MultiAddress_Encode_def zero_multi_address_def)
  next
    case (5 x)
    then show ?thesis
      using tagged_head [OF assms(2), of 4 "Encode_array x", OF _ array.roundtrip [OF 5(2)]]
      by (auto simp: MultiAddress_Encode_def zero_multi_address_def)
  qed
  then show ?thesis by auto
qed

lemma signature_head:
  assumes "sig_ok s" "writes (ExtrinsicSignatureV4_Encode s) sb"
  shows "\<exists>b cs. sb = b # cs \<and> b \<le> 4"
proof -
  obtain as where a: "writes (MultiAddress_Encode (sigSigner s)) as"
    using encodable_rt [OF multi_address.roundtrip] assms(1) by (auto simp: sig_ok_def)
  have "\<exists>cs. writes (seqM (fieldE (MultiSignature_Encode (sigSignature s)))
    (seqM (fieldE (ExtrinsicEra_Encode (sigEra s)))
    (seqM (fieldE (UCompact_Encode (sigNonce s)))
          (fieldE (UCompact_Encode (sigTip s)))))) cs"
    using assms(1) by (intro encodable_seqM) (rule encodable_rt, rule rt_wrapM, rule signature_roundtrips, simp add: sig_ok_def)+
  then obtain cs where "writes (ExtrinsicSignatureV4_Encode s) (as @ cs)"
    unfolding ExtrinsicSignatureV4_Encode_def using writes_seqM [OF writes_wrapM [OF a]] by blast
  then have "sb = as @ cs" by (rule writes_unique [OF assms(2)])
  then show ?thesis using address_head [OF _ a] assms(1) by (auto simp: sig_ok_def)
qed

lemma small_compact:
  "n < 64 \<Longrightarrow> writes (UCompact_Encode (int n)) [word_of_nat (4 * n)] \<and> reads UCompact_Decode [word_of_nat (4 * n)] (int n)"
  using writes_EncodeUintCompact [of n] reads_DecodeUintCompact [of n]
  by (simp add: compact_bytes_def UCompact_Encode_def UCompact_Decode_def)

lemma version4: "xtType v = ExtrinsicVersion4 \<Longrightarrow> v = 0x04 \<and> \<not> IsSigned v \<or> v = 0x84 \<and> IsSigned v"
proof -
  assume "xtType v = ExtrinsicVersion4"
  moreover have "(0x7f :: byte) = mask 7" by (simp add: mask_eq_exp_minus_1)
  ultimately have "take_bit 7 v = 4"
    by (simp add: xtType_def ExtrinsicVersion4_def ExtrinsicUnmaskVersion_def flip: take_bit_eq_mask)
  then have "unat (take_bit 7 v) = 4" by simp
  then have "unat v mod 128 = 4" unfolding unsigned_take_bit_eq by (simp add: take_bit_eq_mod)
  moreover have "unat v div 128 < 2" using unat_byte_less [of v] by (simp add: div_less_iff_less_mult)
  ultimately have "unat v = 4 \<or> unat v = 132"
    using div_mult_mod_eq [of "unat v" 128] by (auto simp: less_2_cases_iff)
  then have "v = 4 \<or> v = 132" by (auto simp: word_unat_eq_iff)
  then show ?thesis by (auto simp: IsSigned_def ExtrinsicBitSigned_def)
qed

lemma unprefixed_version:
  assumes "v = 0x04 \<or> v = 0x84"
  shows "Extrinsic_UnmarshalJSON dec (Sprintf_x (v # rest)) = codec_Decode (v # rest) dec"
    and "Extrinsic_Decode (v # b # rest) = 
      bindM (if IsSigned b then
              (if xtType b \<noteq> ExtrinsicVersion4 then failM (unsupported_extrinsic b) else ExtrinsicSignatureV4_Decode)
            else retM zero_signature) (\<lambda>s.
     bindM Call_Decode (\<lambda>c.
     retM \<lparr>xtVersion = b, xtSignature = s, xtMethod = c\<rparr>)) rest"
proof -
  obtain n where n: "writes (UCompact_Encode n) [v]" "reads UCompact_Decode [v] n"
    using assms small_compact [of 1] small_compact [of 33] by auto
  show "Extrinsic_UnmarshalJSON dec (Sprintf_x (v # rest)) = codec_Decode (v # rest) dec"
    using unmarshal_prefixed [OF n] by simp
  show "Extrinsic_Decode (v # b # rest) = 
      bindM (if IsSigned b then
              (if xtType b \<noteq> ExtrinsicVersion4 then failM (unsupported_extrinsic b) else ExtrinsicSignatureV4_Decode)
            else retM zero_signature) (\<lambda>s.
     bindM Call_Decode (\<lambda>c.
     retM \<lparr>xtVersion = b, xtSignature = s, xtMethod = c\<rparr>)) rest"
    unfolding Extrinsic_Decode_def
    using readsD [OF n(2), of "b # rest"] readsD [OF reads_Decode_byte, of b rest]
    by (simp add: UCompact_Decode_def)
qed

lemma unprefixed_reads_version:
  assumes "v = 0x04 \<or> v = 0x84" "fst (Extrinsic_Decode (v # b # rest)) = Ok e"
  shows "xtVersion e = b"
  using assms(2) unfolding unprefixed_version(2) [OF assms(1)]
  by (auto simp: bindM_def split: res.splits prod.splits)

section \<open>Sample extrinsics\<close>

definition sample_call :: call where
  "sample_call = \<lparr>clCallIndex = \<lparr>SectionIndex = 0, MethodIndex = 1\<rparr>, clArgs = [4, 42]\<rparr>"

definition sample_options :: SignatureOptions where
  "sample_options = \<lparr>soEra = immortal_era, soNonce = 7, soTip = 0, soSpecVersion = 1, soGenesisHash = zeros 32,
     soBlockHash = zeros 32, soTransactionVersion = 1\<rparr>"

definition sample_key :: KeyringPair where
  "sample_key = \<lparr>kpURI = ''//Alice'', kpAddress = [], kpPublicKey = zeros 32\<rparr>"

text \<open>A key library whose signatures are the signed data, cut or padded to 64 bytes.\<close>

definition toy_signature :: "bytes \<Rightarrow> bytes" where
  "toy_signature d = NewSignature d"

definition sample_lib :: "(string, unit) key_lib" where
  "sample_lib = \<lparr>DeriveKeyPair = (\<lambda>uri. Ok uri), kyr_SS58Address = (\<lambda>_ _. []), kyr_Public = (\<lambda>_. zeros 32),
     kyr_Sign = (\<lambda>_ d w. (Ok (toy_signature d), w)), kyr_Verify = (\<lambda>_ d s. s = toy_signature d), Sum256 = NewHash\<rparr>"

lemma sample_lib_laws: "key_lib_laws sample_lib"
  by (simp add: key_lib_laws_def sample_lib_def toy_signature_def NewSignature_def zeros_def min_def)

lemma sample_unsigned_ok: "extrinsic_ok (NewExtrinsic sample_call)"
  by (simp add: extrinsic_ok_def NewExtrinsic_def xtType_def ExtrinsicUnmaskVersion_def ExtrinsicVersion4_def IsSigned_def
      ExtrinsicBitSigned_def)

lemma sample_options_ok: "options_ok sample_options"
  by (simp add: options_ok_def sample_options_def immortal_era_def zeros_def)

section \<open>Properties\<close>

text \<open>
  C10: An extrinsic of version 4, signed or not, is read back from its encoding, whether as an
  \<open>Extrinsic\<close>, as an extrinsic of a generic block, from its hex string in the list of pending
  extrinsics, or from its JSON form; the length that the encoder writes in front, which no
  decoder uses, is the one \<open>UnmarshalJSON\<close> recognises.\<close>

theorem extrinsic_roundtrip:
  assumes "extrinsic_ok e"
  shows "\<exists>bs s. writes (Extrinsic_Encode e) bs \<and> Extrinsic_Decode bs = (Ok e, []) \<and>
    DefaultExtrinsic_Decode bs = (Ok (default_extrinsic e), []) \<and>
    Extrinsic_MarshalJSON e = Ok s \<and> decode_extrinsics [s] = Ok [e] \<and>
    Extrinsic_UnmarshalJSON Extrinsic_Decode s = Ok e \<and>
    Extrinsic_UnmarshalJSON DefaultExtrinsic_Decode s = Ok (default_extrinsic e)"
proof -
  obtain cs sb n where l: "writes (Extrinsic_Encode e) (cs @ xtVersion e # sb @ call_bytes (xtMethod e))"
    "writes (UCompact_Encode n) cs" "reads UCompact_Decode cs n" "signature_part e sb"
    by (rule extrinsic_layout [OF assms])
  note dec = extrinsic_decode_layout [OF assms l(3,4)]
  have "Extrinsic_MarshalJSON e = Ok (Sprintf_x (cs @ xtVersion e # sb @ call_bytes (xtMethod e)))"
    by (simp add: Extrinsic_MarshalJSON_def EncodeToHex_def codec_Encode_writes [OF l(1)])
  then show ?thesis
    using l(1) dec
    by (intro exI [of _ "cs @ xtVersion e # sb @ call_bytes (xtMethod e)"] exI [of _ "Sprintf_x (cs @ xtVersion e # sb @ call_bytes (xtMethod e))"])
      (simp add: codec_Decode_def DecodeFromHex_def unmarshal_prefixed [OF l(2,3)])
qed

theorem extrinsic_roundtrip_witness:
  "\<exists>bs s. writes (Extrinsic_Encode (NewExtrinsic sample_call)) bs \<and>
     Extrinsic_Decode bs = (Ok (NewExtrinsic sample_call), []) \<and>
     Extrinsic_MarshalJSON (NewExtrinsic sample_call) = Ok s \<and>
     Extrinsic_UnmarshalJSON Extrinsic_Decode s = Ok (NewExtrinsic sample_call)"
  using extrinsic_roundtrip [OF sample_unsigned_ok] by blast

text \<open>
  C9: Signing an extrinsic of version 4 with a key of 32 bytes succeeds whenever the key library
  derives the key and signs. It keeps the call, marks the extrinsic as signed without touching
  its version, names the signer by its public key, and carries a signature that \<open>Verify\<close>
  accepts for the encoding of the payload built from the call and the options, hashed first
  where it is longer than 256 bytes. What was signed before does not matter, and the result
  can be encoded and read back.\<close>

theorem extrinsic_sign:
  assumes "key_lib_laws lib" "DeriveKeyPair lib (kpURI signer) = Ok k" "\<And>d. \<exists>s w'. kyr_Sign lib k d w = (Ok s, w')"
    and "xtType (xtVersion e) = ExtrinsicVersion4" "length (kpPublicKey signer) = 32" "options_ok opt"
  shows "\<exists>e' w' mb p sig. Extrinsic_Sign lib signer opt e w = (Ok e', w') \<and> extrinsic_ok e' \<and>
    xtMethod e' = xtMethod e \<and> IsSigned (xtVersion e') \<and> xtType (xtVersion e') = ExtrinsicVersion4 \<and>
    codec_Encode (Call_Encode (xtMethod e)) = Ok mb \<and>
    codec_Encode (ExtrinsicPayloadV4_Encode (signed_payload mb opt)) = Ok p \<and>
    signature_Verify lib p sig (kpURI signer) = Ok True \<and>
    xtSignature e' = \<lparr>sigSigner = zero_multi_address\<lparr>IsID := True, AsID := kpPublicKey signer\<rparr>,
      sigSignature = zero_multi_signature\<lparr>IsSr25519 := True, AsSr25519 := sig\<rparr>,
      sigEra = signed_era opt, sigNonce = soNonce opt, sigTip = soTip opt\<rparr> \<and>
    (\<forall>sig0. Extrinsic_Sign lib signer opt (e\<lparr>xtSignature := sig0\<rparr>) w = (Ok e', w'))"
proof -
  obtain mb where mb: "codec_Encode (Call_Encode (xtMethod e)) = Ok mb"
    using call.encode_total [of "xtMethod e" "[]"] by (auto simp: codec_Encode_def)
  obtain p where p: "codec_Encode (ExtrinsicPayloadV4_Encode (signed_payload mb opt)) = Ok p"
    by (rule payload_encodes [OF assms(6)])
  obtain sig w' where sig: "signature_Sign lib p (kpURI signer) w = (Ok sig, w')" "length sig = 64"
    "signature_Verify lib p sig (kpURI signer) = Ok True"
    by (rule sign_verifies [OF assms(1-3)])
  let ?s = "\<lparr>sigSigner = zero_multi_address\<lparr>IsID := True, AsID := kpPublicKey signer\<rparr>,
      sigSignature = zero_multi_signature\<lparr>IsSr25519 := True, AsSr25519 := sig\<rparr>,
      sigEra = signed_era opt, sigNonce = soNonce opt, sigTip = soTip opt\<rparr>"
  let ?e = "e\<lparr>xtSignature := ?s, xtVersion := or (xtVersion e) ExtrinsicBitSigned\<rparr>"
  have "Extrinsic_Sign lib signer opt (e\<lparr>xtSignature := sig0\<rparr>) w = (Ok ?e, w')" for sig0
    using assms(4,5) sig(1,2)
    by (simp add: Extrinsic_Sign_def mb p ExtrinsicPayloadV4_Sign_def NewMultiAddressFromAccountID_def NewAccountID_def
        AccountIDLen_def NewSignature_def zeros_def)
  moreover from this [of "xtSignature e"] have "Extrinsic_Sign lib signer opt e w = (Ok ?e, w')" by simp
  moreover have "sig_ok ?s"
    using assms(5,6) sig(2) signed_era_ok [OF assms(6)]
    by (simp add: sig_ok_def options_ok_def multi_address_ok.intros multi_signature_ok.intros)
  ultimately show ?thesis
    using assms(4) mb p sig(3) by (intro exI [of _ ?e] exI [of _ w'] exI [of _ mb] exI [of _ p] exI [of _ sig]) (simp add: extrinsic_ok_def)
qed

theorem extrinsic_sign_witness:
  "\<exists>e'. Extrinsic_Sign sample_lib sample_key sample_options (NewExtrinsic sample_call) () = (Ok e', ()) \<and>
     extrinsic_ok e' \<and> IsSigned (xtVersion e') \<and> xtMethod e' = sample_call"
proof -
  have "xtType (xtVersion (NewExtrinsic sample_call)) = ExtrinsicVersion4"
    using sample_unsigned_ok by (simp add: extrinsic_ok_def)
  then show ?thesis
    using extrinsic_sign [OF sample_lib_laws, of sample_key "''//Alice''" "()" "NewExtrinsic sample_call" sample_options]
      sample_options_ok
    by (auto simp: sample_lib_def sample_key_def zeros_def NewExtrinsic_def)
qed

text \<open>
  \<open>UnmarshalJSON\<close> means to accept an extrinsic without its length too, but it never reads
  one back: both version bytes of a version 4 extrinsic are canonical compact numbers, so the
  length is taken to be there and the byte after the version is taken for the version.\<close>

theorem extrinsic_without_length:
  assumes "extrinsic_ok e" "writes (Extrinsic_body e) bs"
  shows "Extrinsic_UnmarshalJSON Extrinsic_Decode (Sprintf_x bs) = codec_Decode bs Extrinsic_Decode \<and>
    Extrinsic_UnmarshalJSON Extrinsic_Decode (Sprintf_x bs) \<noteq> Ok e"
proof -
  obtain sb where sb: "signature_part e sb" "bs = xtVersion e # sb @ call_bytes (xtMethod e)"
    using body_layout [OF assms(1)] writes_unique [OF assms(2)] by metis
  have v: "xtVersion e = 0x04 \<and> \<not> IsSigned (xtVersion e) \<or> xtVersion e = 0x84 \<and> IsSigned (xtVersion e)"
    using assms(1) by (auto simp: extrinsic_ok_def dest!: version4)
  then have "Extrinsic_UnmarshalJSON Extrinsic_Decode (Sprintf_x bs) = codec_Decode bs Extrinsic_Decode"
    unfolding sb(2) by (intro unprefixed_version(1)) auto
  moreover have "fst (Extrinsic_Decode bs) \<noteq> Ok e"
  proof (cases "IsSigned (xtVersion e)")
    case True
    then obtain b cs where "sb = b # cs" "b \<le> 4" "xtVersion e = 0x84"
      using signature_head [of "xtSignature e" sb] sb(1) assms(1) v by (auto simp: signature_part_def extrinsic_ok_def)
    then show ?thesis
      unfolding sb(2) using unprefixed_reads_version [of 132 b "cs @ call_bytes (xtMethod e)" e] by auto
  next
    case False
    let ?c = "xtMethod e"
    have bs: "bs = xtVersion e # SectionIndex (clCallIndex ?c) # MethodIndex (clCallIndex ?c) # clArgs ?c"
      using sb False by (simp add: signature_part_def call_bytes_def)
    from False v have v4: "xtVersion e = 4" by blast
    show ?thesis
    proof
      assume ok: "fst (Extrinsic_Decode bs) = Ok e"
      then have "SectionIndex (clCallIndex ?c) = 4"
        unfolding bs v4 using unprefixed_reads_version v4 by metis
      then have "fst (Call_Decode (MethodIndex (clCallIndex ?c) # clArgs ?c)) = Ok ?c"
        using ok False v4 unfolding bs v4 by (auto simp: unprefixed_version(2) bindM_def split: res.splits prod.splits)
      then show False using Call_Decode_shorter by (metis prod.collapse)
    qed
  qed
  ultimately show ?thesis by (simp add: codec_Decode_def)
qed

theorem extrinsic_without_length_witness:
  "codec_Encode (Extrinsic_body (NewExtrinsic sample_call)) = Ok [4, 0, 1, 4, 42] \<and>
   Extrinsic_UnmarshalJSON Extrinsic_Decode ''0x040001042a'' \<noteq> Ok (NewExtrinsic sample_call)"
proof -
  have "signature_part (NewExtrinsic sample_call) []"
    by (simp add: signature_part_def NewExtrinsic_def IsSigned_def ExtrinsicBitSigned_def)
  moreover have "xtVersion (NewExtrinsic sample_call) # [] @ call_bytes (xtMethod (NewExtrinsic sample_call)) = [4, 0, 1, 4, 42]"
    by (simp add: NewExtrinsic_def call_bytes_def sample_call_def)
  ultimately have w: "writes (Extrinsic_body (NewExtrinsic sample_call)) [4, 0, 1, 4, 42]"
    using body_layout [OF sample_unsigned_ok] signature_part_unique by metis
  have hex: "Sprintf_x [4, 0, 1, 4, 42] = ''0x040001042a''" by code_simp
  from extrinsic_without_length [OF sample_unsigned_ok w] show ?thesis
    unfolding hex codec_Encode_writes [OF w] by blast
qed

end
