(* ===== verification/EventRecords.thy ===== *)
theory EventRecords
  imports Retriever
begin

text \<open>
  Decoding event records into a struct: \<open>EventRecordsRaw\<close> of \<open>src/types/event_record.go\<close>. The
  caller hands over a pointer to a struct with one field per event, named after the module and
  the event, that holds a slice of event structs; reflection finds the field and the types of
  the event struct. The model has the types of the target as data, and the slices as state
  that is kept when decoding stops with an error.
\<close>

section \<open>Targets\<close>

text \<open>The type of a field of an event struct; \<open>types.Phase\<close> and \<open>[]types.Hash\<close> are told apart.\<close>

datatype field_type = PhaseType | TopicsType | GoType gotype

datatype field_value = PhaseValue Phase | TopicsValue "H256 list" | GoValue goval

text \<open>A field of the target: a slice of event structs, or a type without element or fields.\<close>

datatype target_field = EventSlice "field_type list" | OtherField

datatype target = NotAPointer | NilPointer | PointerToOther | PointerToStruct "(string \<times> target_field) list"

type_synonym records = "string \<Rightarrow> field_value list list"

section \<open>EventRecordsRaw\<close>

definition EventRecordsRaw_Encode :: "bytes \<Rightarrow> (bytes, unit) goM" where
  "EventRecordsRaw_Encode e = Encoder_Write e"

definition EventRecordsRaw_Decode :: "bytes \<Rightarrow> (bytes, bytes) goM" where
  "EventRecordsRaw_Decode e = StorageKey_Decode_loop 0 e"

definition onReader :: "(bytes, 'a) goM \<Rightarrow> (bytes \<times> records, 'a) goM" where
  "onReader m s = (case m (fst s) of (r, bs) \<Rightarrow> (r, (bs, snd s)))"

definition append_record :: "string \<Rightarrow> field_value list \<Rightarrow> (bytes \<times> records, unit) goM" where
  "append_record field v s = (Ok (), (fst s, (snd s)(field := snd s field @ [v])))"

fun decode_field_type :: "(string \<Rightarrow> (bytes, goval) goM) \<Rightarrow> field_type \<Rightarrow> (bytes, field_value) goM" where
  "decode_field_type impl PhaseType = bindM Phase_Decode (\<lambda>p. retM (PhaseValue p))"
| "decode_field_type impl TopicsType = bindM (Decode_slice Hash_Decode) (\<lambda>ts. retM (TopicsValue ts))"
| "decode_field_type impl (GoType t) = bindM (DecodeInto impl t) (\<lambda>v. retM (GoValue v))"

text \<open>The loop over the fields from the \<open>j\<close>-th on.\<close>

fun decode_record_fields ::
    "(string \<Rightarrow> (bytes, goval) goM) \<Rightarrow> (nat \<Rightarrow> goerror \<Rightarrow> goerror) \<Rightarrow> nat \<Rightarrow> field_type list \<Rightarrow> (bytes, field_value list) goM" where
  "decode_record_fields impl err j [] = retM []"
| "decode_record_fields impl err j (t # ts) =
     bindM (wrapM (err j) (decode_field_type impl t)) (\<lambda>v.
     bindM (decode_record_fields impl err (Suc j) ts) (\<lambda>vs. retM (v # vs)))"

definition show_id :: "EventID \<Rightarrow> string" where
  "show_id k = ''['' @ string_of_nat (unat (fst k)) @ '' '' @ string_of_nat (unat (snd k)) @ '']''"

definition show_index :: "uint64 \<Rightarrow> string" where
  "show_index i = string_of_nat (unat i)"

text \<open>One round of the loop of \<open>DecodeEventRecords\<close>; the messages leave printed Go types out.\<close>

definition decode_record ::
    "Metadata \<Rightarrow> (string \<Rightarrow> (bytes, goval) goM) \<Rightarrow> (string \<times> target_field) list \<Rightarrow> uint64 \<Rightarrow> (bytes \<times> records, unit) goM" where
  "decode_record m impl fs i =
     bindM (wrapM (\<lambda>e. ErrorString (''unable to decode Phase for event #'' @ show_index i @ '': '' @ error_text e))
       (onReader Phase_Decode)) (\<lambda>phase.
     bindM (wrapM (\<lambda>e. ErrorString (''unable to decode EventID for event #'' @ show_index i @ '': '' @ error_text e))
       (onReader EventID_Decode)) (\<lambda>k.
     bindM (wrapM (\<lambda>e. ErrorString (''unable to find event with EventID '' @ show_id k @ '' in metadata for event #'' @
          show_index i @ '': '' @ error_text e))
       (liftM (Metadata_FindEventNamesForEventID m k))) (\<lambda>(moduleName, eventName).
     (let field = moduleName @ ''_'' @ eventName; at = '' event #'' @ show_index i @ '' with EventID '' @ show_id k @ '', field '' @ field in
      case map_of fs field of
        None \<Rightarrow> failM (ErrorString (''unable to find field '' @ field @ '' for event #'' @ show_index i @ '' with EventID '' @ show_id k))
      | Some OtherField \<Rightarrow> panicM ''reflect: call of Elem or NumField on a value of another kind''
      | Some (EventSlice ts) \<Rightarrow>
          if length ts < 2 then
            failM (ErrorString (''expected'' @ at @ '' to have at least 2 fields (for Phase and Topics), but has '' @
              string_of_nat (length ts) @ '' fields''))
          else if hd ts \<noteq> PhaseType then
            failM (ErrorString (''expected the first field of'' @ at @ '' to be of type types.Phase''))
          else if last ts \<noteq> TopicsType then
            failM (ErrorString (''expected the last field of'' @ at @ '' to be of type []types.Hash for Topics''))
          else
            bindM (onReader (decode_record_fields impl
                (\<lambda>j e. ErrorString (''unable to decode field '' @ string_of_nat j @ at @ '': '' @ error_text e)) 1 (tl ts)))
              (\<lambda>vs. append_record field (PhaseValue phase # vs))))))"

function DecodeEventRecords_loop ::
    "Metadata \<Rightarrow> (string \<Rightarrow> (bytes, goval) goM) \<Rightarrow> (string \<times> target_field) list \<Rightarrow> uint64 \<Rightarrow> uint64 \<Rightarrow> (bytes \<times> records, unit) goM" where
  "DecodeEventRecords_loop m impl fs n i =
     (if i < n then seqM (decode_record m impl fs i) (DecodeEventRecords_loop m impl fs n (i + 1)) else retM ())"
  by pat_completeness auto
termination
  by (relation "measure (\<lambda>(_, _, _, n, i). unat n - unat i)") (auto dest!: word_count_up)

declare DecodeEventRecords_loop.simps [simp del]

definition DecodeEventRecords ::
    "bytes \<Rightarrow> Metadata \<Rightarrow> (string \<Rightarrow> (bytes, goval) goM) \<Rightarrow> target \<Rightarrow> records \<Rightarrow> unit res \<times> records" where
  "DecodeEventRecords e m impl t vals =
     (case t of
        NotAPointer \<Rightarrow> (Err (ErrorString ''target must be a pointer''), vals)
      | NilPointer \<Rightarrow> (Err (ErrorString ''target is a nil pointer''), vals)
      | PointerToOther \<Rightarrow> (Err (ErrorString ''target must point to a struct''), vals)
      | PointerToStruct fs \<Rightarrow>
          (case bindM (onReader DecodeUintCompact)
              (\<lambda>n. DecodeEventRecords_loop m impl fs (BigInt_Uint64 n) 0) (e, vals) of
             (r, s) \<Rightarrow> (r, snd s)))"

section \<open>The names of an event\<close>

lemma FindEventNames_sound:
  "FindEventNames_loop lk k ms = Ok (a, b) \<Longrightarrow>
    \<exists>p t v. p \<in> set ms \<and> HasEvents p \<and> pIndex p = fst k \<and> lk (UCompact_Int64 (pEvents p)) = Some t \<and>
      v \<in> set (Variants (tDef t)) \<and> vIndex v = snd k \<and> a = pName p \<and> b = vName v"
proof (induction ms)
  case (Cons p ms)
  then show ?case
    by (auto split: if_splits option.splits dest!: find_variant_by_index_Some)
qed simp

lemma FindEventNames_complete:
  "p \<in> set ms \<Longrightarrow> HasEvents p \<Longrightarrow> pIndex p = fst k \<Longrightarrow> lk (UCompact_Int64 (pEvents p)) = Some t \<Longrightarrow>
    v \<in> set (Variants (tDef t)) \<Longrightarrow> vIndex v = snd k \<Longrightarrow> \<exists>a b. FindEventNames_loop lk k ms = Ok (a, b)"
proof (induction ms)
  case (Cons q ms)
  then show ?case
    by (auto split: option.splits dest!: iffD1 [OF find_variant_by_index_None])
qed simp

text \<open>Where identifiers have one meaning, the two names make up the name of the event.\<close>

lemma event_names:
  assumes "unambiguous_events m" "(nm, sfs) \<in> event_shapes m k"
  obtains a b where "V14_FindEventNamesForEventID m k = Ok (a, b)" "nm = a @ ''.'' @ b"
proof -
  obtain a b where ab: "V14_FindEventNamesForEventID m k = Ok (a, b)"
    using assms(2) FindEventNames_complete unfolding event_shapes_def V14_FindEventNamesForEventID_def by fastforce
  then obtain sfs' where "(a @ ''.'' @ b, sfs') \<in> event_shapes m k"
    using FindEventNames_sound [of "EfficientLookup m" k "Pallets m" a b]
    unfolding V14_FindEventNamesForEventID_def event_shapes_def by (cases k) fastforce
  then have "nm = a @ ''.'' @ b" using assms unfolding unambiguous_events_def by blast
  then show ?thesis using that ab by blast
qed

section \<open>Targets that fit the metadata\<close>

definition event_field :: "MetadataV14 \<Rightarrow> EventID \<Rightarrow> string" where
  "event_field m k = (case V14_FindEventNamesForEventID m k of Ok (a, b) \<Rightarrow> a @ ''_'' @ b | _ \<Rightarrow> [])"

text \<open>
  The field of the event holds structs whose fields between phase and topics read what the
  metadata says an event of that identifier has; \<open>conv\<close> turns the values of the metadata's
  types into the values of the struct's.
\<close>

definition event_fits ::
    "MetadataV14 \<Rightarrow> (string \<Rightarrow> (bytes, goval) goM) \<Rightarrow> (string \<times> target_field) list \<Rightarrow>
     (EventID \<Rightarrow> decoded_field list \<Rightarrow> field_value list) \<Rightarrow> EventID \<Rightarrow> bool" where
  "event_fits m impl fs conv k \<longleftrightarrow>
     (\<forall>(nm, sfs) \<in> event_shapes m k. \<exists>ts. map_of fs (event_field m k) = Some (EventSlice (PhaseType # ts @ [TopicsType])) \<and>
        (\<forall>err j bs vs. fdenotes (EfficientLookup m) sfs bs vs \<longrightarrow> reads (decode_record_fields impl err j ts) bs (conv k vs)))"

definition record_of :: "(EventID \<Rightarrow> decoded_field list \<Rightarrow> field_value list) \<Rightarrow> Event \<Rightarrow> field_value list" where
  "record_of conv e = PhaseValue (Event_Phase e) # conv (Event_EventID e) (Event_Fields e) @ [TopicsValue (Event_Topics e)]"

definition collect :: "MetadataV14 \<Rightarrow> (EventID \<Rightarrow> decoded_field list \<Rightarrow> field_value list) \<Rightarrow> records \<Rightarrow> Event \<Rightarrow> records" where
  "collect m conv vals e =
     vals(event_field m (Event_EventID e) := vals (event_field m (Event_EventID e)) @ [record_of conv e])"

lemma foldl_collect:
  "foldl (collect m conv) vals es field =
     vals field @ map (record_of conv) (filter (\<lambda>e. event_field m (Event_EventID e) = field) es)"
  by (induction es arbitrary: vals) (auto simp: collect_def)

lemma onReader_reads: "reads d bs v \<Longrightarrow> onReader d (bs @ rest, vals) = (Ok v, (rest, vals))"
  by (simp add: onReader_def readsD)

lemma decode_record_fields_append:
  "decode_record_fields impl err j (ts @ us) =
     bindM (decode_record_fields impl err j ts) (\<lambda>vs.
     bindM (decode_record_fields impl err (j + length ts) us) (\<lambda>ws. retM (vs @ ws)))"
proof (induction ts arbitrary: j)
  case Nil
  show ?case by (simp add: bindM_retM_left bindM_retM_right del: retM_apply)
next
  case (Cons t ts)
  show ?case
    by (simp add: Cons.IH bindM_assoc bindM_retM_left del: retM_apply)
qed

lemma reads_record_fields_topics:
  assumes "reads (decode_record_fields impl err j ts) bs vs" "topics_denote cs topics"
  shows "reads (decode_record_fields impl err j (ts @ [TopicsType])) (bs @ cs) (vs @ [TopicsValue topics])"
  unfolding decode_record_fields_append
proof (rule reads_bindM [OF assms(1)])
  have "reads (decode_field_type impl TopicsType) cs (TopicsValue topics)"
    unfolding decode_field_type.simps by (rule reads_bindM_last [OF reads_topics [OF assms(2)]]) simp
  then show "reads (bindM (decode_record_fields impl err (j + length ts) [TopicsType]) (\<lambda>ws. retM (vs @ ws))) cs (vs @ [TopicsValue topics])"
    by (simp add: reads_def)
qed

lemma decode_record_step:
  assumes "mdVersion meta = 14" "AsMetadataV14 meta = m" "unambiguous_events m"
    and "event_denotes m bs e" "event_fits m impl fs conv (Event_EventID e)"
  shows "decode_record meta impl fs i (bs @ rest, vals) = (Ok (), (rest, collect m conv vals e))"
proof -
  let ?k = "Event_EventID e"
  obtain b1 b2 b3 sfs where b: "bs = b1 @ [fst ?k, snd ?k] @ b2 @ b3" "phase_denotes b1 (Event_Phase e)"
    "(Event_Name e, sfs) \<in> event_shapes m ?k" "fdenotes (EfficientLookup m) sfs b2 (Event_Fields e)" "topics_denote b3 (Event_Topics e)"
    using assms(4) by (auto simp: event_denotes_def)
  obtain x y where names: "V14_FindEventNamesForEventID m ?k = Ok (x, y)"
    by (rule event_names [OF assms(3) b(3)])
  obtain ts where ts: "map_of fs (event_field m ?k) = Some (EventSlice (PhaseType # ts @ [TopicsType]))"
    "\<And>err j. reads (decode_record_fields impl err j ts) b2 (conv ?k (Event_Fields e))"
    using assms(5) b(3,4) unfolding event_fits_def by fastforce
  have "event_field m ?k = x @ ''_'' @ y" by (simp add: event_field_def names)
  with ts(1) have field: "map_of fs (x @ ''_'' @ y) = Some (EventSlice (PhaseType # ts @ [TopicsType]))" by simp
  have find: "Metadata_FindEventNamesForEventID meta ?k = Ok (x, y)"
    by (simp add: Metadata_FindEventNamesForEventID_def assms(1,2) names)
  show ?thesis
    unfolding decode_record_def b(1)
    using onReader_reads [OF reads_Phase [OF b(2)]] onReader_reads [OF reads_EventID, of ?k]
      onReader_reads [OF reads_record_fields_topics [OF ts(2) b(5)]]
    by (simp add: find field [simplified] Let_def append_record_def collect_def record_of_def event_field_def names)
qed

lemma DecodeEventRecords_loop_collects:
  assumes "mdVersion meta = 14" "AsMetadataV14 meta = m" "unambiguous_events m"
  shows "list_all2 (event_denotes m) parts es \<Longrightarrow> length parts = unat n - unat i \<Longrightarrow>
    (\<forall>e\<in>set es. event_fits m impl fs conv (Event_EventID e)) \<Longrightarrow>
    DecodeEventRecords_loop meta impl fs n i (concat parts @ rest, vals) = (Ok (), (rest, foldl (collect m conv) vals es))"
proof (induction parts es arbitrary: i vals rule: list_all2_induct)
  case Nil
  then show ?case by (subst DecodeEventRecords_loop.simps) (simp add: word_less_nat_alt)
next
  case (Cons b parts e es)
  then have lt: "i < n" by (simp add: word_less_nat_alt)
  have k: "length parts = unat n - unat (i + 1)" using Cons.prems word_count_up [OF lt] by simp
  have "event_fits m impl fs conv (Event_EventID e)" using Cons.prems by simp
  note step = decode_record_step [OF assms Cons.hyps(1) this]
  show ?case
    using Cons.IH [OF k] Cons.prems lt step by (subst DecodeEventRecords_loop.simps) simp
qed

section \<open>Decoding only appends\<close>

text \<open>Whatever happens, records are only added at the end of slices the target has.\<close>

definition grows :: "(string \<times> target_field) list \<Rightarrow> records \<Rightarrow> records \<Rightarrow> bool" where
  "grows fs vals vals' \<longleftrightarrow>
     (\<forall>field. \<exists>new. vals' field = vals field @ new \<and>
        (new \<noteq> [] \<longrightarrow> (\<exists>ts. map_of fs field = Some (EventSlice ts) \<and> 2 \<le> length ts \<and> hd ts = PhaseType \<and> last ts = TopicsType)))"

lemma grows_refl: "grows fs vals vals"
  by (simp add: grows_def)

lemma grows_trans: "grows fs u v \<Longrightarrow> grows fs v w \<Longrightarrow> grows fs u w"
  unfolding grows_def by (metis append.assoc append_Nil2)

abbreviation growing :: "(string \<times> target_field) list \<Rightarrow> records \<Rightarrow> (bytes \<times> records, 'a) goM \<Rightarrow> bool" where
  "growing fs vals m \<equiv> preserves (\<lambda>s. grows fs vals (snd s)) m"

lemma growing_steps:
  "growing fs vals (onReader d)" "growing fs vals (failM e)" "growing fs vals (panicM p)" "growing fs vals (liftM r)"
  by (auto simp: preserves_def onReader_def split: prod.splits)

lemma growing_append:
  assumes "map_of fs field = Some (EventSlice ts)" "2 \<le> length ts" "hd ts = PhaseType" "last ts = TopicsType"
  shows "growing fs vals (append_record field v)"
proof -
  have "grows fs u (u(field := u field @ [v]))" for u
    using assms by (auto simp: grows_def)
  then show ?thesis using grows_trans by (fastforce simp: preserves_def append_record_def)
qed

lemma growing_decode_record: "growing fs vals (decode_record m impl fs i)"
  unfolding decode_record_def Let_def
  by (intro preserves_bindM preserves_wrapM growing_steps)
    (auto split: option.split target_field.split prod.split simp del: failM_apply
      intro!: preserves_bindM growing_steps growing_append)

lemma growing_loop: "growing fs vals (DecodeEventRecords_loop m impl fs n i)"
proof (induction m impl fs n i rule: DecodeEventRecords_loop.induct)
  case (1 m impl fs n i)
  then show ?case
    by (subst DecodeEventRecords_loop.simps)
      (auto simp del: retM_apply intro!: preserves_bindM growing_decode_record preserves_retM)
qed

section \<open>Properties\<close>

text \<open>
  C7: The two ways of decoding events agree: on the bytes that the parser decodes with a registry
  created from the metadata, \<open>DecodeEventRecords\<close> succeeds with the same metadata and a struct
  whose event types fit it, and appends to each field exactly the events of that name, in order,
  with the same phases, fields and topics.\<close>

theorem event_records_agree:
  assumes "fieldOverrides f = []" "CreateEventRegistry n (AsMetadataV14 meta) f = (Ok reg, f')"
    and "mdVersion meta = 14" "unambiguous_events (AsMetadataV14 meta)"
    and "ParseEvents (Decode_fuel l cust (fheap f')) reg sd = Ok es"
    and "\<forall>e\<in>set es. event_fits (AsMetadataV14 meta) impl fs conv (Event_EventID e)"
  shows "\<exists>vals'. DecodeEventRecords sd meta impl (PointerToStruct fs) vals = (Ok (), vals') \<and>
    (\<forall>field. vals' field = vals field @
       map (record_of conv) (filter (\<lambda>e. event_field (AsMetadataV14 meta) (Event_EventID e) = field) (map erase_event es)))"
proof -
  let ?m = "AsMetadataV14 meta"
  obtain bs rest where sd: "sd = bs @ rest" "events_denote ?m bs (map erase_event es)"
    using ParseEvents_sound [OF event_registry_created [OF assms(1,2)] assms(5)] by blast
  obtain cs c parts where c: "bs = cs @ concat parts" "reads DecodeUintCompact cs c"
    "length parts = unat (BigInt_Uint64 c)" "list_all2 (event_denotes ?m) parts (map erase_event es)"
    using sd(2) by (auto simp: events_denote_def)
  have fits: "\<forall>e\<in>set (map erase_event es). event_fits ?m impl fs conv (Event_EventID e)"
    using assms(6) by (auto simp: erase_event_def)
  have "DecodeEventRecords_loop meta impl fs (BigInt_Uint64 c) 0 (concat parts @ rest, vals) =
      (Ok (), (rest, foldl (collect ?m conv) vals (map erase_event es)))"
    by (rule DecodeEventRecords_loop_collects [OF assms(3) refl assms(4) c(4) _ fits]) (simp add: c(3))
  then have "DecodeEventRecords sd meta impl (PointerToStruct fs) vals = (Ok (), foldl (collect ?m conv) vals (map erase_event es))"
    using onReader_reads [OF c(2), of "concat parts @ rest" vals] by (simp add: DecodeEventRecords_def sd(1) c(1))
  then show ?thesis by (simp add: foldl_collect del: foldl_map)
qed

definition ping_target :: "(string \<times> target_field) list" where
  "ping_target = [(''Forest_Ping'', EventSlice [PhaseType, TopicsType])]"

definition tree_meta :: Metadata where
  "tree_meta = zero_metadata\<lparr>mdVersion := 14, AsMetadataV14 := tree_metadata\<rparr>"

theorem event_records_agree_witness:
  "\<exists>vals'. DecodeEventRecords [4, 1, 5, 0, 0] tree_meta (\<lambda>_. failM EOF) (PointerToStruct ping_target) (\<lambda>_. []) = (Ok (), vals') \<and>
     vals' ''Forest_Ping'' = [[PhaseValue (zero_phase\<lparr>IsFinalization := True\<rparr>), TopicsValue []]]"
proof -
  let ?e = "\<lparr>Event_Name = ''Forest.Ping'', Event_Fields = [], Event_EventID = (5, 0), Event_Phase = zero_phase\<lparr>IsFinalization := True\<rparr>, Event_Topics = []\<rparr>"
  obtain reg f' where r: "CreateEventRegistry 8 tree_metadata new_factory = (Ok reg, f')"
    "ParseEvents (Decode_fuel 0 (\<lambda>_. failM EOF) (fheap f')) reg [4, 1, 5, 0, 0] = Ok [?e]"
    using ping_parsed by (auto simp del: failM_apply split: prod.splits res.splits)
  have f: "event_field tree_metadata (5, 0) = ''Forest_Ping''" by code_simp
  have shapes: "snd x = []" if "x \<in> event_shapes tree_metadata (5, 0)" for x
  proof -
    have "toMap tree_types 1 = Some (ptType (hd tree_types))" "Variants (tDef (ptType (hd tree_types))) =
        [\<lparr>vName = ''Ping'', vFields = [], vIndex = 0, vDocs = []\<rparr>,
         \<lparr>vName = ''Grown'', vFields = [named_field ''tree'' 2], vIndex = 2, vDocs = []\<rparr>]" by code_simp+
    then show ?thesis using that by (auto simp: event_shapes_def tree_metadata_def)
  qed
  have "event_fits tree_metadata (\<lambda>_. failM EOF) ping_target (\<lambda>_ _. []) (5, 0)"
  proof -
    have "bs = []" if "x \<in> event_shapes tree_metadata (5, 0)" "fdenotes lk (snd x) bs vs" for x lk bs vs
      using that(2) shapes [OF that(1)] by (auto elim: fdenotes_NilE)
    then show ?thesis
      unfolding event_fits_def f by (fastforce simp: ping_target_def simp del: retM_apply intro: reads_retM)
  qed
  with r f show ?thesis
    using event_records_agree [OF new_factory_plain(2), of 8 tree_meta reg f' 0 "\<lambda>_. failM EOF" "[4, 1, 5, 0, 0]" "[?e]"
      "\<lambda>_. failM EOF" ping_target "\<lambda>_ _. []" "\<lambda>_. []"] tree_unambiguous
    by (auto simp: tree_meta_def record_of_def erase_event_def simp del: failM_apply)
qed

text \<open>
  C23: However decoding ends, with an error, a panic or success, \<open>DecodeEventRecords\<close> only appends
  to slices of the target whose structs begin with a phase and end with topics: what the target
  held before stays, and events decoded before a failure are kept.\<close>

theorem event_records_append_only:
  "case DecodeEventRecords sd meta impl (PointerToStruct fs) vals of (r, vals') \<Rightarrow> grows fs vals vals'"
proof -
  have "growing fs vals (bindM (onReader DecodeUintCompact) (\<lambda>n. DecodeEventRecords_loop meta impl fs (BigInt_Uint64 n) 0))"
    by (intro preserves_bindM growing_steps growing_loop)
  from preservesD [OF this, of "(sd, vals)"] show ?thesis
    by (auto simp: DecodeEventRecords_def grows_refl split: prod.split)
qed

end
