(* ===== verification/EventTypes.thy ===== *)
theory EventTypes
  imports EventRecords
begin

text \<open>
  The events of the pallets the module knows: the event structs of \<open>src/types/events.go\<close> and
  \<open>EventRecords\<close> of \<open>src/types/event_record.go\<close>, the default target of \<open>DecodeEventRecords\<close>, as the
  types that reflection sees. A type with a \<open>Decode\<close> method is dispatched to it; every other type
  is read according to its kind.
\<close>

section \<open>Types of the fields\<close>

definition go_AccountID :: gotype where
  "go_AccountID = TArray 32 (TNum Uint8)"

definition go_H160 :: gotype where
  "go_H160 = TArray 20 (TNum Uint8)"

definition go_AuthorityID :: gotype where
  "go_AuthorityID = TArray 32 (TNum Uint8)"

definition go_U64 :: gotype where
  "go_U64 = TNum Uint64"

definition go_U32 :: gotype where
  "go_U32 = TNum Uint32"

definition go_ParachainID :: gotype where
  "go_ParachainID = go_U32"

definition go_IndividualExposure :: gotype where
  "go_IndividualExposure = TStruct [(False, go_AccountID), (False, TImpl ''UCompact'')]"

definition go_Exposure :: gotype where
  "go_Exposure = TStruct [(False, TImpl ''UCompact''), (False, TImpl ''UCompact''), (False, TSlice (go_IndividualExposure))]"

definition go_AccountIndex :: gotype where
  "go_AccountIndex = TNum Uint32"

definition go_Bytes16 :: gotype where
  "go_Bytes16 = TArray 16 (TNum Uint8)"

definition go_Bytes :: gotype where
  "go_Bytes = TSlice (TNum Uint8)"

definition go_U8 :: gotype where
  "go_U8 = TNum Uint8"

definition go_CustomMetadata :: gotype where
  "go_CustomMetadata = TStruct [(False, TImpl ''CrossChainTransferability''), (False, TNum Bool), (False, TNum Bool), (False, TNum Bool)]"

definition go_AssetMetadata :: gotype where
  "go_AssetMetadata = TStruct [(False, go_U32), (False, TSlice (go_U8)), (False, TSlice (go_U8)), (False, TImpl ''U128''), (False, TImpl ''Option[VersionedMultiLocation]''), (False, go_CustomMetadata)]"

definition go_H256 :: gotype where
  "go_H256 = TArray 32 (TNum Uint8)"

definition go_Hash :: gotype where
  "go_Hash = go_H256"

definition go_CollatorID :: gotype where
  "go_CollatorID = TArray 32 (go_U8)"

definition go_CollatorSignature :: gotype where
  "go_CollatorSignature = TArray 64 (go_U8)"

definition go_CandidateDescriptor :: gotype where
  "go_CandidateDescriptor = TStruct [(False, go_ParachainID), (False, go_Hash), (False, go_CollatorID), (False, go_Hash), (False, go_Hash), (False, go_Hash), (False, go_CollatorSignature), (False, go_Hash), (False, go_Hash)]"

definition go_CandidateReceipt :: gotype where
  "go_CandidateReceipt = TStruct [(False, go_CandidateDescriptor), (False, go_Hash)]"

definition go_HeadData :: gotype where
  "go_HeadData = TSlice (go_U8)"

definition go_CoreIndex :: gotype where
  "go_CoreIndex = go_U32"

definition go_GroupIndex :: gotype where
  "go_GroupIndex = go_U32"

definition go_Weight :: gotype where
  "go_Weight = TStruct [(False, TImpl ''UCompact''), (False, TImpl ''UCompact'')]"

definition go_MetadataSetName :: gotype where
  "go_MetadataSetName = TSlice (TNum Uint8)"

definition go_MetadataSetSymbol :: gotype where
  "go_MetadataSetSymbol = TSlice (TNum Uint8)"

definition go_CrowloadMemo :: gotype where
  "go_CrowloadMemo = TSlice (TNum Uint8)"

definition go_XcmVersion :: gotype where
  "go_XcmVersion = go_U32"

definition go_TaskAddress :: gotype where
  "go_TaskAddress = TStruct [(False, go_U32), (False, go_U32)]"

definition go_U16 :: gotype where
  "go_U16 = TNum Uint16"

definition go_BountyIndex :: gotype where
  "go_BountyIndex = go_U32"

definition go_Bool :: gotype where
  "go_Bool = TNum Bool"

definition go_TimePoint :: gotype where
  "go_TimePoint = TStruct [(False, go_U32), (False, go_U32)]"

section \<open>Event structs\<close>

definition EventClaimsClaimed :: "field_type list" where
  "EventClaimsClaimed = [PhaseType, GoType go_AccountID, GoType go_H160, GoType (TImpl ''U128''), TopicsType]"

definition EventBalancesEndowed :: "field_type list" where
  "EventBalancesEndowed = [PhaseType, GoType go_AccountID, GoType (TImpl ''U128''), TopicsType]"

definition EventBalancesDustLost :: "field_type list" where
  "EventBalancesDustLost = [PhaseType, GoType go_AccountID, GoType (TImpl ''U128''), TopicsType]"

definition EventBalancesTransfer :: "field_type list" where
  "EventBalancesTransfer = [PhaseType, GoType go_AccountID, GoType go_AccountID, GoType (TImpl ''U128''), TopicsType]"

definition EventBalancesBalanceSet :: "field_type list" where
  "EventBalancesBalanceSet = [
    PhaseType, GoType go_AccountID, GoType (TImpl ''U128''), GoType (TImpl ''U128''), TopicsType]"

definition EventBalancesDeposit :: "field_type list" where
  "EventBalancesDeposit = [PhaseType, GoType go_AccountID, GoType (TImpl ''U128''), TopicsType]"

definition EventBalancesReserved :: "field_type list" where
  "EventBalancesReserved = [PhaseType, GoType go_AccountID, GoType (TImpl ''U128''), TopicsType]"

definition EventBalancesUnreserved :: "field_type list" where
  "EventBalancesUnreserved = [PhaseType, GoType go_AccountID, GoType (TImpl ''U128''), TopicsType]"

definition EventBalancesReserveRepatriated :: "field_type list" where
  "EventBalancesReserveRepatriated = [
    PhaseType, GoType go_AccountID, GoType go_AccountID, GoType (TImpl ''U128''), GoType (TImpl ''BalanceStatus''),
    TopicsType]"

definition EventBalancesWithdraw :: "field_type list" where
  "EventBalancesWithdraw = [PhaseType, GoType go_AccountID, GoType (TImpl ''U128''), TopicsType]"

definition EventBalancesSlashed :: "field_type list" where
  "EventBalancesSlashed = [PhaseType, GoType go_AccountID, GoType (TImpl ''U128''), TopicsType]"

definition EventGrandpaNewAuthorities :: "field_type list" where
  "EventGrandpaNewAuthorities = [
    PhaseType, GoType (TSlice (TStruct [(False, go_AuthorityID), (False, go_U64)])), TopicsType]"

definition EventGrandpaPaused :: "field_type list" where
  "EventGrandpaPaused = [PhaseType, TopicsType]"

definition EventGrandpaResumed :: "field_type list" where
  "EventGrandpaResumed = [PhaseType, TopicsType]"

definition EventHRMPOpenChannelRequested :: "field_type list" where
  "EventHRMPOpenChannelRequested = [
    PhaseType, GoType go_ParachainID, GoType go_ParachainID, GoType go_U32, GoType go_U32, TopicsType]"

definition EventHRMPOpenChannelCanceled :: "field_type list" where
  "EventHRMPOpenChannelCanceled = [PhaseType, GoType go_ParachainID, GoType (TImpl ''HRMPChannelID''), TopicsType]"

definition EventHRMPOpenChannelAccepted :: "field_type list" where
  "EventHRMPOpenChannelAccepted = [PhaseType, GoType go_ParachainID, GoType go_ParachainID, TopicsType]"

definition EventHRMPChannelClosed :: "field_type list" where
  "EventHRMPChannelClosed = [PhaseType, GoType go_ParachainID, GoType (TImpl ''HRMPChannelID''), TopicsType]"

definition EventImOnlineHeartbeatReceived :: "field_type list" where
  "EventImOnlineHeartbeatReceived = [PhaseType, GoType go_AuthorityID, TopicsType]"

definition EventImOnlineAllGood :: "field_type list" where
  "EventImOnlineAllGood = [PhaseType, TopicsType]"

definition EventImOnlineSomeOffline :: "field_type list" where
  "EventImOnlineSomeOffline = [
    PhaseType, GoType (TSlice (TStruct [(False, go_AccountID), (False, go_Exposure)])), TopicsType]"

definition EventIndicesIndexAssigned :: "field_type list" where
  "EventIndicesIndexAssigned = [PhaseType, GoType go_AccountID, GoType go_AccountIndex, TopicsType]"

definition EventIndicesIndexFreed :: "field_type list" where
  "EventIndicesIndexFreed = [PhaseType, GoType go_AccountIndex, TopicsType]"

definition EventIndicesIndexFrozen :: "field_type list" where
  "EventIndicesIndexFrozen = [PhaseType, GoType go_AccountIndex, GoType go_AccountID, TopicsType]"

definition EventLotteryLotteryStarted :: "field_type list" where
  "EventLotteryLotteryStarted = [PhaseType, TopicsType]"

definition EventLotteryCallsUpdated :: "field_type list" where
  "EventLotteryCallsUpdated = [PhaseType, TopicsType]"

definition EventLotteryWinner :: "field_type list" where
  "EventLotteryWinner = [PhaseType, GoType go_AccountID, GoType (TImpl ''U128''), TopicsType]"

definition EventLotteryTicketBought :: "field_type list" where
  "EventLotteryTicketBought = [PhaseType, GoType go_AccountID, GoType (TImpl ''LotteryCallIndex''), TopicsType]"

definition EventOffencesOffence :: "field_type list" where
  "EventOffencesOffence = [PhaseType, GoType go_Bytes16, GoType go_Bytes, TopicsType]"

definition EventOrmlTokensEndowed :: "field_type list" where
  "EventOrmlTokensEndowed = [
    PhaseType, GoType (TImpl ''CurrencyID''), GoType go_AccountID, GoType (TImpl ''U128''), TopicsType]"

definition EventOrmlTokensDustLost :: "field_type list" where
  "EventOrmlTokensDustLost = [
    PhaseType, GoType (TImpl ''CurrencyID''), GoType go_AccountID, GoType (TImpl ''U128''), TopicsType]"

definition EventOrmlTokensTransfer :: "field_type list" where
  "EventOrmlTokensTransfer = [
    PhaseType, GoType (TImpl ''CurrencyID''), GoType go_AccountID, GoType go_AccountID, GoType (TImpl ''U128''),
    TopicsType]"

definition EventOrmlTokensReserved :: "field_type list" where
  "EventOrmlTokensReserved = [
    PhaseType, GoType (TImpl ''CurrencyID''), GoType go_AccountID, GoType (TImpl ''U128''), TopicsType]"

definition EventOrmlTokensUnreserved :: "field_type list" where
  "EventOrmlTokensUnreserved = [
    PhaseType, GoType (TImpl ''CurrencyID''), GoType go_AccountID, GoType (TImpl ''U128''), TopicsType]"

definition EventOrmlTokensReserveRepatriated :: "field_type list" where
  "EventOrmlTokensReserveRepatriated = [
    PhaseType, GoType (TImpl ''CurrencyID''), GoType go_AccountID, GoType go_AccountID, GoType (TImpl ''U128''),
    GoType (TImpl ''BalanceStatus''), TopicsType]"

definition EventOrmlTokensBalanceSet :: "field_type list" where
  "EventOrmlTokensBalanceSet = [
    PhaseType, GoType (TImpl ''CurrencyID''), GoType go_AccountID, GoType (TImpl ''U128''), GoType (TImpl ''U128''),
    TopicsType]"

definition EventOrmlTokensTotalIssuanceSet :: "field_type list" where
  "EventOrmlTokensTotalIssuanceSet = [PhaseType, GoType (TImpl ''CurrencyID''), GoType (TImpl ''U128''), TopicsType]"

definition EventOrmlTokensWithdrawn :: "field_type list" where
  "EventOrmlTokensWithdrawn = [
    PhaseType, GoType (TImpl ''CurrencyID''), GoType go_AccountID, GoType (TImpl ''U128''), TopicsType]"

definition EventOrmlTokensSlashed :: "field_type list" where
  "EventOrmlTokensSlashed = [
    PhaseType, GoType (TImpl ''CurrencyID''), GoType go_AccountID, GoType (TImpl ''U128''), GoType (TImpl ''U128''),
    TopicsType]"

definition EventOrmlTokensDeposited :: "field_type list" where
  "EventOrmlTokensDeposited = [
    PhaseType, GoType (TImpl ''CurrencyID''), GoType go_AccountID, GoType (TImpl ''U128''), TopicsType]"

definition EventOrmlTokensLockSet :: "field_type list" where
  "EventOrmlTokensLockSet = [
    PhaseType, GoType (TArray 8 (go_U8)), GoType (TImpl ''CurrencyID''), GoType go_AccountID,
    GoType (TImpl ''U128''), TopicsType]"

definition EventOrmlTokensLockRemoved :: "field_type list" where
  "EventOrmlTokensLockRemoved = [
    PhaseType, GoType (TArray 8 (go_U8)), GoType (TImpl ''CurrencyID''), GoType go_AccountID, TopicsType]"

definition EventOrmlTokensLocked :: "field_type list" where
  "EventOrmlTokensLocked = [
    PhaseType, GoType (TImpl ''CurrencyID''), GoType go_AccountID, GoType (TImpl ''U128''), TopicsType]"

definition EventOrmlTokensUnlocked :: "field_type list" where
  "EventOrmlTokensUnlocked = [
    PhaseType, GoType (TImpl ''CurrencyID''), GoType go_AccountID, GoType (TImpl ''U128''), TopicsType]"

definition EventOrmlAssetRegistryRegisteredAsset :: "field_type list" where
  "EventOrmlAssetRegistryRegisteredAsset = [
    PhaseType, GoType (TImpl ''CurrencyID''), GoType go_AssetMetadata, TopicsType]"

definition EventOrmlAssetRegistryUpdatedAsset :: "field_type list" where
  "EventOrmlAssetRegistryUpdatedAsset = [
    PhaseType, GoType (TImpl ''CurrencyID''), GoType go_AssetMetadata, TopicsType]"

definition EventParasCurrentCodeUpdated :: "field_type list" where
  "EventParasCurrentCodeUpdated = [PhaseType, GoType go_ParachainID, TopicsType]"

definition EventParasCurrentHeadUpdated :: "field_type list" where
  "EventParasCurrentHeadUpdated = [PhaseType, GoType go_ParachainID, TopicsType]"

definition EventParasCodeUpgradeScheduled :: "field_type list" where
  "EventParasCodeUpgradeScheduled = [PhaseType, GoType go_ParachainID, TopicsType]"

definition EventParasNewHeadNoted :: "field_type list" where
  "EventParasNewHeadNoted = [PhaseType, GoType go_ParachainID, TopicsType]"

definition EventParasActionQueued :: "field_type list" where
  "EventParasActionQueued = [PhaseType, GoType go_ParachainID, GoType go_U32, TopicsType]"

definition EventParasPvfCheckStarted :: "field_type list" where
  "EventParasPvfCheckStarted = [PhaseType, GoType go_Hash, GoType go_ParachainID, TopicsType]"

definition EventParasPvfCheckAccepted :: "field_type list" where
  "EventParasPvfCheckAccepted = [PhaseType, GoType go_Hash, GoType go_ParachainID, TopicsType]"

definition EventParasPvfCheckRejected :: "field_type list" where
  "EventParasPvfCheckRejected = [PhaseType, GoType go_Hash, GoType go_ParachainID, TopicsType]"

definition EventParasDisputesDisputeInitiated :: "field_type list" where
  "EventParasDisputesDisputeInitiated = [PhaseType, GoType go_Hash, GoType (TImpl ''DisputeLocation''), TopicsType]"

definition EventParasDisputesDisputeConcluded :: "field_type list" where
  "EventParasDisputesDisputeConcluded = [PhaseType, GoType go_Hash, GoType (TImpl ''DisputeResult''), TopicsType]"

definition EventParasDisputesDisputeTimedOut :: "field_type list" where
  "EventParasDisputesDisputeTimedOut = [PhaseType, GoType go_Hash, TopicsType]"

definition EventParasDisputesRevert :: "field_type list" where
  "EventParasDisputesRevert = [PhaseType, GoType go_U32, TopicsType]"

definition EventParaInclusionCandidateBacked :: "field_type list" where
  "EventParaInclusionCandidateBacked = [
    PhaseType, GoType go_CandidateReceipt, GoType go_HeadData, GoType go_CoreIndex, GoType go_GroupIndex, TopicsType]"

definition EventParaInclusionCandidateIncluded :: "field_type list" where
  "EventParaInclusionCandidateIncluded = [
    PhaseType, GoType go_CandidateReceipt, GoType go_HeadData, GoType go_CoreIndex, GoType go_GroupIndex, TopicsType]"

definition EventParaInclusionCandidateTimedOut :: "field_type list" where
  "EventParaInclusionCandidateTimedOut = [
    PhaseType, GoType go_CandidateReceipt, GoType go_HeadData, GoType go_CoreIndex, TopicsType]"

definition EventParachainSystemValidationFunctionStored :: "field_type list" where
  "EventParachainSystemValidationFunctionStored = [PhaseType, TopicsType]"

definition EventParachainSystemValidationFunctionApplied :: "field_type list" where
  "EventParachainSystemValidationFunctionApplied = [PhaseType, GoType go_U32, TopicsType]"

definition EventParachainSystemValidationFunctionDiscarded :: "field_type list" where
  "EventParachainSystemValidationFunctionDiscarded = [PhaseType, TopicsType]"

definition EventParachainSystemUpgradeAuthorized :: "field_type list" where
  "EventParachainSystemUpgradeAuthorized = [PhaseType, GoType go_Hash, TopicsType]"

definition EventParachainSystemDownwardMessagesReceived :: "field_type list" where
  "EventParachainSystemDownwardMessagesReceived = [PhaseType, GoType go_U32, TopicsType]"

definition EventParachainSystemDownwardMessagesProcessed :: "field_type list" where
  "EventParachainSystemDownwardMessagesProcessed = [PhaseType, GoType go_Weight, GoType go_Hash, TopicsType]"

definition EventSessionNewSession :: "field_type list" where
  "EventSessionNewSession = [PhaseType, GoType go_U32, TopicsType]"

definition EventSlotsNewLeasePeriod :: "field_type list" where
  "EventSlotsNewLeasePeriod = [PhaseType, GoType go_U32, TopicsType]"

definition EventSlotsLeased :: "field_type list" where
  "EventSlotsLeased = [
    PhaseType, GoType go_ParachainID, GoType go_AccountID, GoType go_U32, GoType go_U32, GoType (TImpl ''U128''),
    GoType (TImpl ''U128''), TopicsType]"

definition EventStakingEraPaid :: "field_type list" where
  "EventStakingEraPaid = [PhaseType, GoType go_U32, GoType (TImpl ''U128''), GoType (TImpl ''U128''), TopicsType]"

definition EventStakingRewarded :: "field_type list" where
  "EventStakingRewarded = [PhaseType, GoType go_AccountID, GoType (TImpl ''U128''), TopicsType]"

definition EventStakingSlashed :: "field_type list" where
  "EventStakingSlashed = [PhaseType, GoType go_AccountID, GoType (TImpl ''U128''), TopicsType]"

definition EventStakingOldSlashingReportDiscarded :: "field_type list" where
  "EventStakingOldSlashingReportDiscarded = [PhaseType, GoType go_U32, TopicsType]"

definition EventStakingStakersElected :: "field_type list" where
  "EventStakingStakersElected = [PhaseType, TopicsType]"

definition EventStakingStakingElectionFailed :: "field_type list" where
  "EventStakingStakingElectionFailed = [PhaseType, TopicsType]"

definition EventStakingSolutionStored :: "field_type list" where
  "EventStakingSolutionStored = [PhaseType, GoType (TImpl ''ElectionCompute''), TopicsType]"

definition EventStakingBonded :: "field_type list" where
  "EventStakingBonded = [PhaseType, GoType go_AccountID, GoType (TImpl ''U128''), TopicsType]"

definition EventStakingChilled :: "field_type list" where
  "EventStakingChilled = [PhaseType, GoType go_AccountID, TopicsType]"

definition EventStakingKicked :: "field_type list" where
  "EventStakingKicked = [PhaseType, GoType go_AccountID, GoType go_AccountID, TopicsType]"

definition EventStakingPayoutStarted :: "field_type list" where
  "EventStakingPayoutStarted = [PhaseType, GoType go_U32, GoType go_AccountID, TopicsType]"

definition EventStakingUnbonded :: "field_type list" where
  "EventStakingUnbonded = [PhaseType, GoType go_AccountID, GoType (TImpl ''U128''), TopicsType]"

definition EventStakingWithdrawn :: "field_type list" where
  "EventStakingWithdrawn = [PhaseType, GoType go_AccountID, GoType (TImpl ''U128''), TopicsType]"

definition EventStateTrieMigrationMigrated :: "field_type list" where
  "EventStateTrieMigrationMigrated = [
    PhaseType, GoType go_U32, GoType go_U32, GoType (TImpl ''MigrationCompute''), TopicsType]"

definition EventStateTrieMigrationSlashed :: "field_type list" where
  "EventStateTrieMigrationSlashed = [PhaseType, GoType go_AccountID, GoType (TImpl ''U128''), TopicsType]"

definition EventStateTrieMigrationAutoMigrationFinished :: "field_type list" where
  "EventStateTrieMigrationAutoMigrationFinished = [PhaseType, TopicsType]"

definition EventStateTrieMigrationHalted :: "field_type list" where
  "EventStateTrieMigrationHalted = [PhaseType, TopicsType]"

definition EventSystemExtrinsicSuccessV8 :: "field_type list" where
  "EventSystemExtrinsicSuccessV8 = [PhaseType, TopicsType]"

definition EventSystemExtrinsicSuccess :: "field_type list" where
  "EventSystemExtrinsicSuccess = [PhaseType, GoType (TImpl ''DispatchInfo''), TopicsType]"

definition EventSystemExtrinsicFailedV8 :: "field_type list" where
  "EventSystemExtrinsicFailedV8 = [PhaseType, GoType (TImpl ''DispatchError''), TopicsType]"

definition EventSystemExtrinsicFailed :: "field_type list" where
  "EventSystemExtrinsicFailed = [
    PhaseType, GoType (TImpl ''DispatchError''), GoType (TImpl ''DispatchInfo''), TopicsType]"

definition EventSystemCodeUpdated :: "field_type list" where
  "EventSystemCodeUpdated = [PhaseType, TopicsType]"

definition EventSystemNewAccount :: "field_type list" where
  "EventSystemNewAccount = [PhaseType, GoType go_AccountID, TopicsType]"

definition EventSystemRemarked :: "field_type list" where
  "EventSystemRemarked = [PhaseType, GoType go_AccountID, GoType go_Hash, TopicsType]"

definition EventSystemKilledAccount :: "field_type list" where
  "EventSystemKilledAccount = [PhaseType, GoType go_AccountID, TopicsType]"

definition EventAssetIssued :: "field_type list" where
  "EventAssetIssued = [PhaseType, GoType go_U32, GoType go_AccountID, GoType (TImpl ''U128''), TopicsType]"

definition EventAssetCreated :: "field_type list" where
  "EventAssetCreated = [PhaseType, GoType go_U32, GoType go_AccountID, GoType go_AccountID, TopicsType]"

definition EventAssetTransferred :: "field_type list" where
  "EventAssetTransferred = [
    PhaseType, GoType go_U32, GoType go_AccountID, GoType go_AccountID, GoType (TImpl ''U128''), TopicsType]"

definition EventAssetBurned :: "field_type list" where
  "EventAssetBurned = [PhaseType, GoType go_U32, GoType go_AccountID, GoType (TImpl ''U128''), TopicsType]"

definition EventAssetTeamChanged :: "field_type list" where
  "EventAssetTeamChanged = [
    PhaseType, GoType go_U32, GoType go_AccountID, GoType go_AccountID, GoType go_AccountID, TopicsType]"

definition EventAssetOwnerChanged :: "field_type list" where
  "EventAssetOwnerChanged = [PhaseType, GoType go_U32, GoType go_AccountID, TopicsType]"

definition EventAssetFrozen :: "field_type list" where
  "EventAssetFrozen = [PhaseType, GoType go_U32, GoType go_AccountID, TopicsType]"

definition EventAssetThawed :: "field_type list" where
  "EventAssetThawed = [PhaseType, GoType go_U32, GoType go_AccountID, TopicsType]"

definition EventAssetAssetFrozen :: "field_type list" where
  "EventAssetAssetFrozen = [PhaseType, GoType go_U32, TopicsType]"

definition EventAssetAssetThawed :: "field_type list" where
  "EventAssetAssetThawed = [PhaseType, GoType go_U32, TopicsType]"

definition EventAssetDestroyed :: "field_type list" where
  "EventAssetDestroyed = [PhaseType, GoType go_U32, TopicsType]"

definition EventAssetForceCreated :: "field_type list" where
  "EventAssetForceCreated = [PhaseType, GoType go_U32, GoType go_AccountID, TopicsType]"

definition EventAssetMetadataSet :: "field_type list" where
  "EventAssetMetadataSet = [
    PhaseType, GoType go_U32, GoType go_MetadataSetName, GoType go_MetadataSetSymbol, GoType go_U8,
    GoType (TNum Bool), TopicsType]"

definition EventAssetMetadataCleared :: "field_type list" where
  "EventAssetMetadataCleared = [PhaseType, GoType go_U32, TopicsType]"

definition EventAssetApprovedTransfer :: "field_type list" where
  "EventAssetApprovedTransfer = [
    PhaseType, GoType go_U32, GoType go_AccountID, GoType go_AccountID, GoType (TImpl ''U128''), TopicsType]"

definition EventAssetApprovalCancelled :: "field_type list" where
  "EventAssetApprovalCancelled = [PhaseType, GoType go_U32, GoType go_AccountID, GoType go_AccountID, TopicsType]"

definition EventAssetTransferredApproved :: "field_type list" where
  "EventAssetTransferredApproved = [
    PhaseType, GoType go_U32, GoType go_AccountID, GoType go_AccountID, GoType go_AccountID, GoType (TImpl ''U128''),
    TopicsType]"

definition EventAssetAssetStatusChanged :: "field_type list" where
  "EventAssetAssetStatusChanged = [PhaseType, GoType go_U32, TopicsType]"

definition EventAuctionsAuctionStarted :: "field_type list" where
  "EventAuctionsAuctionStarted = [PhaseType, GoType go_U32, GoType go_U32, GoType go_U32, TopicsType]"

definition EventAuctionsAuctionClosed :: "field_type list" where
  "EventAuctionsAuctionClosed = [PhaseType, GoType go_U32, TopicsType]"

definition EventAuctionsReserved :: "field_type list" where
  "EventAuctionsReserved = [
    PhaseType, GoType go_AccountID, GoType (TImpl ''U128''), GoType (TImpl ''U128''), TopicsType]"

definition EventAuctionsUnreserved :: "field_type list" where
  "EventAuctionsUnreserved = [PhaseType, GoType go_AccountID, GoType (TImpl ''U128''), TopicsType]"

definition EventAuctionsReserveConfiscated :: "field_type list" where
  "EventAuctionsReserveConfiscated = [
    PhaseType, GoType go_ParachainID, GoType go_AccountID, GoType (TImpl ''U128''), TopicsType]"

definition EventAuctionsBidAccepted :: "field_type list" where
  "EventAuctionsBidAccepted = [
    PhaseType, GoType go_AccountID, GoType go_ParachainID, GoType (TImpl ''U128''), GoType go_U32, GoType go_U32,
    TopicsType]"

definition EventAuctionsWinningOffset :: "field_type list" where
  "EventAuctionsWinningOffset = [PhaseType, GoType go_U32, GoType go_U32, TopicsType]"

definition EventBagsListRebagged :: "field_type list" where
  "EventBagsListRebagged = [PhaseType, GoType go_AccountID, GoType go_U64, GoType go_U64, TopicsType]"

definition EventDemocracyProposed :: "field_type list" where
  "EventDemocracyProposed = [PhaseType, GoType go_U32, GoType (TImpl ''U128''), TopicsType]"

definition EventDemocracyTabled :: "field_type list" where
  "EventDemocracyTabled = [
    PhaseType, GoType go_U32, GoType (TImpl ''U128''), GoType (TSlice (go_AccountID)), TopicsType]"

definition EventDemocracyExternalTabled :: "field_type list" where
  "EventDemocracyExternalTabled = [PhaseType, TopicsType]"

definition EventDemocracyStarted :: "field_type list" where
  "EventDemocracyStarted = [PhaseType, GoType go_U32, GoType (TImpl ''VoteThreshold''), TopicsType]"

definition EventDemocracyPassed :: "field_type list" where
  "EventDemocracyPassed = [PhaseType, GoType go_U32, TopicsType]"

definition EventDemocracyNotPassed :: "field_type list" where
  "EventDemocracyNotPassed = [PhaseType, GoType go_U32, TopicsType]"

definition EventDemocracyCancelled :: "field_type list" where
  "EventDemocracyCancelled = [PhaseType, GoType go_U32, TopicsType]"

definition EventDemocracyExecuted :: "field_type list" where
  "EventDemocracyExecuted = [PhaseType, GoType go_U32, GoType (TImpl ''DispatchResult''), TopicsType]"

definition EventDemocracyDelegated :: "field_type list" where
  "EventDemocracyDelegated = [PhaseType, GoType go_AccountID, GoType go_AccountID, TopicsType]"

definition EventDemocracyUndelegated :: "field_type list" where
  "EventDemocracyUndelegated = [PhaseType, GoType go_AccountID, TopicsType]"

definition EventDemocracyVetoed :: "field_type list" where
  "EventDemocracyVetoed = [PhaseType, GoType go_AccountID, GoType go_Hash, GoType go_U32, TopicsType]"

definition EventDemocracyVoted :: "field_type list" where
  "EventDemocracyVoted = [
    PhaseType, GoType go_AccountID, GoType go_U32, GoType (TImpl ''VoteAccountVote''), TopicsType]"

definition EventElectionProviderMultiPhaseSolutionStored :: "field_type list" where
  "EventElectionProviderMultiPhaseSolutionStored = [
    PhaseType, GoType (TImpl ''ElectionCompute''), GoType (TNum Bool), TopicsType]"

definition EventElectionProviderMultiPhaseElectionFinalized :: "field_type list" where
  "EventElectionProviderMultiPhaseElectionFinalized = [
    PhaseType, GoType (TImpl ''OptionElectionCompute''), TopicsType]"

definition EventElectionProviderMultiPhaseRewarded :: "field_type list" where
  "EventElectionProviderMultiPhaseRewarded = [PhaseType, GoType go_AccountID, GoType (TImpl ''U128''), TopicsType]"

definition EventElectionProviderMultiPhaseSlashed :: "field_type list" where
  "EventElectionProviderMultiPhaseSlashed = [PhaseType, GoType go_AccountID, GoType (TImpl ''U128''), TopicsType]"

definition EventElectionProviderMultiPhaseSignedPhaseStarted :: "field_type list" where
  "EventElectionProviderMultiPhaseSignedPhaseStarted = [PhaseType, GoType go_U32, TopicsType]"

definition EventElectionProviderMultiPhaseUnsignedPhaseStarted :: "field_type list" where
  "EventElectionProviderMultiPhaseUnsignedPhaseStarted = [PhaseType, GoType go_U32, TopicsType]"

definition EventDemocracyPreimageNoted :: "field_type list" where
  "EventDemocracyPreimageNoted = [
    PhaseType, GoType go_Hash, GoType go_AccountID, GoType (TImpl ''U128''), TopicsType]"

definition EventDemocracyPreimageUsed :: "field_type list" where
  "EventDemocracyPreimageUsed = [PhaseType, GoType go_Hash, GoType go_AccountID, GoType (TImpl ''U128''), TopicsType]"

definition EventDemocracyPreimageInvalid :: "field_type list" where
  "EventDemocracyPreimageInvalid = [PhaseType, GoType go_Hash, GoType go_U32, TopicsType]"

definition EventDemocracyPreimageMissing :: "field_type list" where
  "EventDemocracyPreimageMissing = [PhaseType, GoType go_Hash, GoType go_U32, TopicsType]"

definition EventDemocracyPreimageReaped :: "field_type list" where
  "EventDemocracyPreimageReaped = [
    PhaseType, GoType go_Hash, GoType go_AccountID, GoType (TImpl ''U128''), GoType go_AccountID, TopicsType]"

definition EventDemocracySeconded :: "field_type list" where
  "EventDemocracySeconded = [PhaseType, GoType go_AccountID, GoType (TImpl ''U128''), TopicsType]"

definition EventDemocracyBlacklisted :: "field_type list" where
  "EventDemocracyBlacklisted = [PhaseType, GoType go_Hash, TopicsType]"

definition EventCouncilProposed :: "field_type list" where
  "EventCouncilProposed = [PhaseType, GoType go_AccountID, GoType go_U32, GoType go_Hash, GoType go_U32, TopicsType]"

definition EventCouncilVoted :: "field_type list" where
  "EventCouncilVoted = [
    PhaseType, GoType go_AccountID, GoType go_Hash, GoType (TNum Bool), GoType go_U32, GoType go_U32, TopicsType]"

definition EventCrowdloanCreated :: "field_type list" where
  "EventCrowdloanCreated = [PhaseType, GoType go_U32, TopicsType]"

definition EventCrowdloanContributed :: "field_type list" where
  "EventCrowdloanContributed = [PhaseType, GoType go_AccountID, GoType go_U32, GoType (TImpl ''U128''), TopicsType]"

definition EventCrowdloanWithdrew :: "field_type list" where
  "EventCrowdloanWithdrew = [PhaseType, GoType go_AccountID, GoType go_U32, GoType (TImpl ''U128''), TopicsType]"

definition EventCrowdloanPartiallyRefunded :: "field_type list" where
  "EventCrowdloanPartiallyRefunded = [PhaseType, GoType go_U32, TopicsType]"

definition EventCrowdloanAllRefunded :: "field_type list" where
  "EventCrowdloanAllRefunded = [PhaseType, GoType go_U32, TopicsType]"

definition EventCrowdloanDissolved :: "field_type list" where
  "EventCrowdloanDissolved = [PhaseType, GoType go_U32, TopicsType]"

definition EventCrowdloanHandleBidResult :: "field_type list" where
  "EventCrowdloanHandleBidResult = [PhaseType, GoType go_U32, GoType (TImpl ''DispatchResult''), TopicsType]"

definition EventCrowdloanEdited :: "field_type list" where
  "EventCrowdloanEdited = [PhaseType, GoType go_U32, TopicsType]"

definition EventCrowdloanMemoUpdated :: "field_type list" where
  "EventCrowdloanMemoUpdated = [PhaseType, GoType go_AccountID, GoType go_U32, GoType go_CrowloadMemo, TopicsType]"

definition EventCrowdloanAddedToNewRaise :: "field_type list" where
  "EventCrowdloanAddedToNewRaise = [PhaseType, GoType go_U32, TopicsType]"

definition EventCouncilApproved :: "field_type list" where
  "EventCouncilApproved = [PhaseType, GoType go_Hash, TopicsType]"

definition EventCouncilDisapproved :: "field_type list" where
  "EventCouncilDisapproved = [PhaseType, GoType go_Hash, TopicsType]"

definition EventCouncilExecuted :: "field_type list" where
  "EventCouncilExecuted = [PhaseType, GoType go_Hash, GoType (TImpl ''DispatchResult''), TopicsType]"

definition EventCouncilMemberExecuted :: "field_type list" where
  "EventCouncilMemberExecuted = [PhaseType, GoType go_Hash, GoType (TImpl ''DispatchResult''), TopicsType]"

definition EventCouncilClosed :: "field_type list" where
  "EventCouncilClosed = [PhaseType, GoType go_Hash, GoType go_U32, GoType go_U32, TopicsType]"

definition EventTechnicalCommitteeProposed :: "field_type list" where
  "EventTechnicalCommitteeProposed = [
    PhaseType, GoType go_AccountID, GoType go_U32, GoType go_Hash, GoType go_U32, TopicsType]"

definition EventTechnicalCommitteeVoted :: "field_type list" where
  "EventTechnicalCommitteeVoted = [
    PhaseType, GoType go_AccountID, GoType go_Hash, GoType (TNum Bool), GoType go_U32, GoType go_U32, TopicsType]"

definition EventTechnicalCommitteeApproved :: "field_type list" where
  "EventTechnicalCommitteeApproved = [PhaseType, GoType go_Hash, TopicsType]"

definition EventTechnicalCommitteeDisapproved :: "field_type list" where
  "EventTechnicalCommitteeDisapproved = [PhaseType, GoType go_Hash, TopicsType]"

definition EventTechnicalCommitteeExecuted :: "field_type list" where
  "EventTechnicalCommitteeExecuted = [PhaseType, GoType go_Hash, GoType (TImpl ''DispatchResult''), TopicsType]"

definition EventTechnicalCommitteeMemberExecuted :: "field_type list" where
  "EventTechnicalCommitteeMemberExecuted = [PhaseType, GoType go_Hash, GoType (TImpl ''DispatchResult''), TopicsType]"

definition EventTechnicalCommitteeClosed :: "field_type list" where
  "EventTechnicalCommitteeClosed = [PhaseType, GoType go_Hash, GoType go_U32, GoType go_U32, TopicsType]"

definition EventTechnicalMembershipMemberAdded :: "field_type list" where
  "EventTechnicalMembershipMemberAdded = [PhaseType, TopicsType]"

definition EventTechnicalMembershipMemberRemoved :: "field_type list" where
  "EventTechnicalMembershipMemberRemoved = [PhaseType, TopicsType]"

definition EventTechnicalMembershipMembersSwapped :: "field_type list" where
  "EventTechnicalMembershipMembersSwapped = [PhaseType, TopicsType]"

definition EventTechnicalMembershipMembersReset :: "field_type list" where
  "EventTechnicalMembershipMembersReset = [PhaseType, TopicsType]"

definition EventTechnicalMembershipKeyChanged :: "field_type list" where
  "EventTechnicalMembershipKeyChanged = [PhaseType, TopicsType]"

definition EventTechnicalMembershipDummy :: "field_type list" where
  "EventTechnicalMembershipDummy = [PhaseType, TopicsType]"

definition EventElectionsNewTerm :: "field_type list" where
  "EventElectionsNewTerm = [
    PhaseType, GoType (TSlice (TStruct [(False, go_AccountID), (False, TImpl ''U128'')])), TopicsType]"

definition EventElectionsCandidateSlashed :: "field_type list" where
  "EventElectionsCandidateSlashed = [PhaseType, GoType go_AccountID, GoType (TImpl ''U128''), TopicsType]"

definition EventElectionsEmptyTerm :: "field_type list" where
  "EventElectionsEmptyTerm = [PhaseType, TopicsType]"

definition EventElectionsElectionError :: "field_type list" where
  "EventElectionsElectionError = [PhaseType, TopicsType]"

definition EventElectionsMemberKicked :: "field_type list" where
  "EventElectionsMemberKicked = [PhaseType, GoType go_AccountID, TopicsType]"

definition EventElectionsRenounced :: "field_type list" where
  "EventElectionsRenounced = [PhaseType, GoType go_AccountID, TopicsType]"

definition EventElectionsSeatHolderSlashed :: "field_type list" where
  "EventElectionsSeatHolderSlashed = [PhaseType, GoType go_AccountID, GoType (TImpl ''U128''), TopicsType]"

definition EventGiltBidPlaced :: "field_type list" where
  "EventGiltBidPlaced = [PhaseType, GoType go_AccountID, GoType (TImpl ''U128''), GoType go_U32, TopicsType]"

definition EventGiltBidRetracted :: "field_type list" where
  "EventGiltBidRetracted = [PhaseType, GoType go_AccountID, GoType (TImpl ''U128''), GoType go_U32, TopicsType]"

definition EventGiltGiltIssued :: "field_type list" where
  "EventGiltGiltIssued = [
    PhaseType, GoType go_U32, GoType go_U32, GoType go_AccountID, GoType (TImpl ''U128''), TopicsType]"

definition EventGiltGiltThawed :: "field_type list" where
  "EventGiltGiltThawed = [
    PhaseType, GoType go_U32, GoType go_AccountID, GoType (TImpl ''U128''), GoType (TImpl ''U128''), TopicsType]"

definition EventIdentitySet :: "field_type list" where
  "EventIdentitySet = [PhaseType, GoType go_AccountID, TopicsType]"

definition EventIdentityCleared :: "field_type list" where
  "EventIdentityCleared = [PhaseType, GoType go_AccountID, GoType (TImpl ''U128''), TopicsType]"

definition EventIdentityKilled :: "field_type list" where
  "EventIdentityKilled = [PhaseType, GoType go_AccountID, GoType (TImpl ''U128''), TopicsType]"

definition EventIdentityJudgementRequested :: "field_type list" where
  "EventIdentityJudgementRequested = [PhaseType, GoType go_AccountID, GoType go_U32, TopicsType]"

definition EventIdentityJudgementUnrequested :: "field_type list" where
  "EventIdentityJudgementUnrequested = [PhaseType, GoType go_AccountID, GoType go_U32, TopicsType]"

definition EventIdentityJudgementGiven :: "field_type list" where
  "EventIdentityJudgementGiven = [PhaseType, GoType go_AccountID, GoType go_U32, TopicsType]"

definition EventIdentityRegistrarAdded :: "field_type list" where
  "EventIdentityRegistrarAdded = [PhaseType, GoType go_U32, TopicsType]"

definition EventIdentitySubIdentityAdded :: "field_type list" where
  "EventIdentitySubIdentityAdded = [
    PhaseType, GoType go_AccountID, GoType go_AccountID, GoType (TImpl ''U128''), TopicsType]"

definition EventIdentitySubIdentityRemoved :: "field_type list" where
  "EventIdentitySubIdentityRemoved = [
    PhaseType, GoType go_AccountID, GoType go_AccountID, GoType (TImpl ''U128''), TopicsType]"

definition EventIdentitySubIdentityRevoked :: "field_type list" where
  "EventIdentitySubIdentityRevoked = [
    PhaseType, GoType go_AccountID, GoType go_AccountID, GoType (TImpl ''U128''), TopicsType]"

definition EventSocietyFounded :: "field_type list" where
  "EventSocietyFounded = [PhaseType, GoType go_AccountID, TopicsType]"

definition EventSocietyBid :: "field_type list" where
  "EventSocietyBid = [PhaseType, GoType go_AccountID, GoType (TImpl ''U128''), TopicsType]"

definition EventSocietyVouch :: "field_type list" where
  "EventSocietyVouch = [PhaseType, GoType go_AccountID, GoType (TImpl ''U128''), GoType go_AccountID, TopicsType]"

definition EventSocietyAutoUnbid :: "field_type list" where
  "EventSocietyAutoUnbid = [PhaseType, GoType go_AccountID, TopicsType]"

definition EventSocietyUnbid :: "field_type list" where
  "EventSocietyUnbid = [PhaseType, GoType go_AccountID, TopicsType]"

definition EventSocietyUnvouch :: "field_type list" where
  "EventSocietyUnvouch = [PhaseType, GoType go_AccountID, TopicsType]"

definition EventSocietyInducted :: "field_type list" where
  "EventSocietyInducted = [PhaseType, GoType go_AccountID, GoType (TSlice (go_AccountID)), TopicsType]"

definition EventSocietySuspendedMemberJudgement :: "field_type list" where
  "EventSocietySuspendedMemberJudgement = [PhaseType, GoType go_AccountID, GoType (TNum Bool), TopicsType]"

definition EventSocietyCandidateSuspended :: "field_type list" where
  "EventSocietyCandidateSuspended = [PhaseType, GoType go_AccountID, TopicsType]"

definition EventSocietyMemberSuspended :: "field_type list" where
  "EventSocietyMemberSuspended = [PhaseType, GoType go_AccountID, TopicsType]"

definition EventSocietyChallenged :: "field_type list" where
  "EventSocietyChallenged = [PhaseType, GoType go_AccountID, TopicsType]"

definition EventSocietyVote :: "field_type list" where
  "EventSocietyVote = [PhaseType, GoType go_AccountID, GoType go_AccountID, GoType (TNum Bool), TopicsType]"

definition EventSocietyDefenderVote :: "field_type list" where
  "EventSocietyDefenderVote = [PhaseType, GoType go_AccountID, GoType (TNum Bool), TopicsType]"

definition EventSocietyNewMaxMembers :: "field_type list" where
  "EventSocietyNewMaxMembers = [PhaseType, GoType go_U32, TopicsType]"

definition EventSocietyUnfounded :: "field_type list" where
  "EventSocietyUnfounded = [PhaseType, GoType go_AccountID, TopicsType]"

definition EventSocietyDeposit :: "field_type list" where
  "EventSocietyDeposit = [PhaseType, GoType (TImpl ''U128''), TopicsType]"

definition EventRecoveryCreated :: "field_type list" where
  "EventRecoveryCreated = [PhaseType, GoType go_AccountID, TopicsType]"

definition EventRecoveryInitiated :: "field_type list" where
  "EventRecoveryInitiated = [PhaseType, GoType go_AccountID, GoType go_AccountID, TopicsType]"

definition EventRecoveryVouched :: "field_type list" where
  "EventRecoveryVouched = [PhaseType, GoType go_AccountID, GoType go_AccountID, GoType go_AccountID, TopicsType]"

definition EventRegistrarRegistered :: "field_type list" where
  "EventRegistrarRegistered = [PhaseType, GoType go_ParachainID, GoType go_AccountID, TopicsType]"

definition EventRegistrarDeregistered :: "field_type list" where
  "EventRegistrarDeregistered = [PhaseType, GoType go_ParachainID, TopicsType]"

definition EventRegistrarReserved :: "field_type list" where
  "EventRegistrarReserved = [PhaseType, GoType go_ParachainID, GoType go_AccountID, TopicsType]"

definition EventReferendaSubmitted :: "field_type list" where
  "EventReferendaSubmitted = [PhaseType, GoType go_U32, GoType go_U8, GoType go_Hash, TopicsType]"

definition EventReferendaDecisionDepositPlaced :: "field_type list" where
  "EventReferendaDecisionDepositPlaced = [
    PhaseType, GoType go_U32, GoType go_AccountID, GoType (TImpl ''U128''), TopicsType]"

definition EventReferendaDecisionDepositRefunded :: "field_type list" where
  "EventReferendaDecisionDepositRefunded = [
    PhaseType, GoType go_U32, GoType go_AccountID, GoType (TImpl ''U128''), TopicsType]"

definition EventReferendaDecisionSlashed :: "field_type list" where
  "EventReferendaDecisionSlashed = [PhaseType, GoType go_AccountID, GoType (TImpl ''U128''), TopicsType]"

definition EventReferendaDecisionStarted :: "field_type list" where
  "EventReferendaDecisionStarted = [
    PhaseType, GoType go_U32, GoType go_U8, GoType go_Hash, GoType (TImpl ''Tally''), TopicsType]"

definition EventReferendaConfirmStarted :: "field_type list" where
  "EventReferendaConfirmStarted = [PhaseType, GoType go_U32, TopicsType]"

definition EventReferendaConfirmAborted :: "field_type list" where
  "EventReferendaConfirmAborted = [PhaseType, GoType go_U32, TopicsType]"

definition EventReferendaConfirmed :: "field_type list" where
  "EventReferendaConfirmed = [PhaseType, GoType go_U32, GoType (TImpl ''Tally''), TopicsType]"

definition EventReferendaApproved :: "field_type list" where
  "EventReferendaApproved = [PhaseType, GoType go_U32, TopicsType]"

definition EventReferendaRejected :: "field_type list" where
  "EventReferendaRejected = [PhaseType, GoType go_U32, GoType (TImpl ''Tally''), TopicsType]"

definition EventReferendaTimedOut :: "field_type list" where
  "EventReferendaTimedOut = [PhaseType, GoType go_U32, GoType (TImpl ''Tally''), TopicsType]"

definition EventReferendaCancelled :: "field_type list" where
  "EventReferendaCancelled = [PhaseType, GoType go_U32, GoType (TImpl ''Tally''), TopicsType]"

definition EventReferendaKilled :: "field_type list" where
  "EventReferendaKilled = [PhaseType, GoType go_U32, GoType (TImpl ''Tally''), TopicsType]"

definition EventRecoveryClosed :: "field_type list" where
  "EventRecoveryClosed = [PhaseType, GoType go_AccountID, GoType go_AccountID, TopicsType]"

definition EventRecoveryAccountRecovered :: "field_type list" where
  "EventRecoveryAccountRecovered = [PhaseType, GoType go_AccountID, GoType go_AccountID, TopicsType]"

definition EventRecoveryRemoved :: "field_type list" where
  "EventRecoveryRemoved = [PhaseType, GoType go_AccountID, TopicsType]"

definition EventVestingVestingUpdated :: "field_type list" where
  "EventVestingVestingUpdated = [PhaseType, GoType go_AccountID, GoType (TImpl ''U128''), TopicsType]"

definition EventVoterListRebagged :: "field_type list" where
  "EventVoterListRebagged = [PhaseType, GoType go_AccountID, GoType go_U64, GoType go_U64, TopicsType]"

definition EventVoterListScoreUpdated :: "field_type list" where
  "EventVoterListScoreUpdated = [PhaseType, GoType go_AccountID, GoType go_U64, TopicsType]"

definition EventWhitelistCallWhitelisted :: "field_type list" where
  "EventWhitelistCallWhitelisted = [PhaseType, GoType go_Hash, TopicsType]"

definition EventWhitelistWhitelistedCallRemoved :: "field_type list" where
  "EventWhitelistWhitelistedCallRemoved = [PhaseType, GoType go_Hash, TopicsType]"

definition EventWhitelistWhitelistedCallDispatched :: "field_type list" where
  "EventWhitelistWhitelistedCallDispatched = [
    PhaseType, GoType go_Hash, GoType (TImpl ''DispatchResult''), TopicsType]"

definition EventXcmPalletAttempted :: "field_type list" where
  "EventXcmPalletAttempted = [PhaseType, GoType (TImpl ''Outcome''), TopicsType]"

definition EventXcmPalletSent :: "field_type list" where
  "EventXcmPalletSent = [
    PhaseType, GoType (TImpl ''MultiLocationV1''), GoType (TImpl ''MultiLocationV1''),
    GoType (TSlice (TImpl ''Instruction'')), TopicsType]"

definition EventXcmPalletUnexpectedResponse :: "field_type list" where
  "EventXcmPalletUnexpectedResponse = [PhaseType, GoType (TImpl ''MultiLocationV1''), GoType go_U64, TopicsType]"

definition EventXcmPalletResponseReady :: "field_type list" where
  "EventXcmPalletResponseReady = [PhaseType, GoType go_U64, GoType (TImpl ''Response''), TopicsType]"

definition EventXcmPalletNotified :: "field_type list" where
  "EventXcmPalletNotified = [PhaseType, GoType go_U64, GoType go_U8, GoType go_U8, TopicsType]"

definition EventXcmPalletNotifyOverweight :: "field_type list" where
  "EventXcmPalletNotifyOverweight = [
    PhaseType, GoType go_U64, GoType go_U8, GoType go_U8, GoType go_Weight, GoType go_Weight, TopicsType]"

definition EventXcmPalletNotifyDispatchError :: "field_type list" where
  "EventXcmPalletNotifyDispatchError = [PhaseType, GoType go_U64, GoType go_U8, GoType go_U8, TopicsType]"

definition EventXcmPalletNotifyDecodeFailed :: "field_type list" where
  "EventXcmPalletNotifyDecodeFailed = [PhaseType, GoType go_U64, GoType go_U8, GoType go_U8, TopicsType]"

definition EventXcmPalletInvalidResponder :: "field_type list" where
  "EventXcmPalletInvalidResponder = [
    PhaseType, GoType (TImpl ''MultiLocationV1''), GoType go_U64, GoType (TImpl ''OptionMultiLocationV1''), TopicsType]"

definition EventXcmPalletInvalidResponderVersion :: "field_type list" where
  "EventXcmPalletInvalidResponderVersion = [PhaseType, GoType (TImpl ''MultiLocationV1''), GoType go_U64, TopicsType]"

definition EventXcmPalletResponseTaken :: "field_type list" where
  "EventXcmPalletResponseTaken = [PhaseType, GoType go_U64, TopicsType]"

definition EventXcmPalletAssetsTrapped :: "field_type list" where
  "EventXcmPalletAssetsTrapped = [
    PhaseType, GoType go_H256, GoType (TImpl ''MultiLocationV1''), GoType (TImpl ''VersionedMultiAssets''), TopicsType]"

definition EventXcmPalletVersionChangeNotified :: "field_type list" where
  "EventXcmPalletVersionChangeNotified = [
    PhaseType, GoType (TImpl ''MultiLocationV1''), GoType go_XcmVersion, TopicsType]"

definition EventXcmPalletSupportedVersionChanged :: "field_type list" where
  "EventXcmPalletSupportedVersionChanged = [
    PhaseType, GoType (TImpl ''MultiLocationV1''), GoType go_XcmVersion, TopicsType]"

definition EventXcmPalletNotifyTargetSendFail :: "field_type list" where
  "EventXcmPalletNotifyTargetSendFail = [
    PhaseType, GoType (TImpl ''MultiLocationV1''), GoType go_U64, GoType (TImpl ''XCMError''), TopicsType]"

definition EventXcmPalletNotifyTargetMigrationFail :: "field_type list" where
  "EventXcmPalletNotifyTargetMigrationFail = [
    PhaseType, GoType (TImpl ''VersionedMultiLocation''), GoType go_U64, TopicsType]"

definition EventVestingVestingCompleted :: "field_type list" where
  "EventVestingVestingCompleted = [PhaseType, GoType go_AccountID, TopicsType]"

definition EventSchedulerScheduled :: "field_type list" where
  "EventSchedulerScheduled = [PhaseType, GoType go_U32, GoType go_U32, TopicsType]"

definition EventSchedulerCanceled :: "field_type list" where
  "EventSchedulerCanceled = [PhaseType, GoType go_U32, GoType go_U32, TopicsType]"

definition EventSchedulerDispatched :: "field_type list" where
  "EventSchedulerDispatched = [
    PhaseType, GoType go_TaskAddress, GoType (TImpl ''OptionBytes''), GoType (TImpl ''DispatchResult''), TopicsType]"

definition EventSchedulerCallLookupFailed :: "field_type list" where
  "EventSchedulerCallLookupFailed = [
    PhaseType, GoType go_TaskAddress, GoType (TImpl ''OptionBytes''), GoType (TImpl ''SchedulerLookupError''),
    TopicsType]"

definition EventPreimageCleared :: "field_type list" where
  "EventPreimageCleared = [PhaseType, GoType go_Hash, TopicsType]"

definition EventPreimageNoted :: "field_type list" where
  "EventPreimageNoted = [PhaseType, GoType go_Hash, TopicsType]"

definition EventPreimageRequested :: "field_type list" where
  "EventPreimageRequested = [PhaseType, GoType go_Hash, TopicsType]"

definition EventProxyProxyExecuted :: "field_type list" where
  "EventProxyProxyExecuted = [PhaseType, GoType (TImpl ''DispatchResult''), TopicsType]"

definition EventProxyPureCreated :: "field_type list" where
  "EventProxyPureCreated = [
    PhaseType, GoType go_AccountID, GoType go_AccountID, GoType go_U8, GoType go_U16, TopicsType]"

definition EventProxyProxyAdded :: "field_type list" where
  "EventProxyProxyAdded = [
    PhaseType, GoType go_AccountID, GoType go_AccountID, GoType go_U8, GoType go_U32, TopicsType]"

definition EventProxyProxyRemoved :: "field_type list" where
  "EventProxyProxyRemoved = [
    PhaseType, GoType go_AccountID, GoType go_AccountID, GoType go_U8, GoType go_U32, TopicsType]"

definition EventProxyAnnounced :: "field_type list" where
  "EventProxyAnnounced = [PhaseType, GoType go_AccountID, GoType go_AccountID, GoType go_Hash, TopicsType]"

definition EventSudoSudid :: "field_type list" where
  "EventSudoSudid = [PhaseType, GoType (TImpl ''DispatchResult''), TopicsType]"

definition EventSudoKeyChanged :: "field_type list" where
  "EventSudoKeyChanged = [PhaseType, GoType go_AccountID, TopicsType]"

definition EventSudoAsDone :: "field_type list" where
  "EventSudoAsDone = [PhaseType, GoType (TNum Bool), TopicsType]"

definition EventTreasuryProposed :: "field_type list" where
  "EventTreasuryProposed = [PhaseType, GoType go_U32, TopicsType]"

definition EventTreasurySpending :: "field_type list" where
  "EventTreasurySpending = [PhaseType, GoType (TImpl ''U128''), TopicsType]"

definition EventTreasuryAwarded :: "field_type list" where
  "EventTreasuryAwarded = [PhaseType, GoType go_U32, GoType (TImpl ''U128''), GoType go_AccountID, TopicsType]"

definition EventTreasuryRejected :: "field_type list" where
  "EventTreasuryRejected = [PhaseType, GoType go_U32, GoType (TImpl ''U128''), TopicsType]"

definition EventTreasuryBurnt :: "field_type list" where
  "EventTreasuryBurnt = [PhaseType, GoType (TImpl ''U128''), TopicsType]"

definition EventTreasuryRollover :: "field_type list" where
  "EventTreasuryRollover = [PhaseType, GoType (TImpl ''U128''), TopicsType]"

definition EventTreasuryDeposit :: "field_type list" where
  "EventTreasuryDeposit = [PhaseType, GoType (TImpl ''U128''), TopicsType]"

definition EventTreasurySpendApproved :: "field_type list" where
  "EventTreasurySpendApproved = [PhaseType, GoType go_U32, GoType (TImpl ''U128''), GoType go_AccountID, TopicsType]"

definition EventTreasuryUpdatedInactive :: "field_type list" where
  "EventTreasuryUpdatedInactive = [PhaseType, GoType (TImpl ''U128''), GoType (TImpl ''U128''), TopicsType]"

definition EventTipsNewTip :: "field_type list" where
  "EventTipsNewTip = [PhaseType, GoType go_Hash, TopicsType]"

definition EventTipsTipClosing :: "field_type list" where
  "EventTipsTipClosing = [PhaseType, GoType go_Hash, TopicsType]"

definition EventTipsTipClosed :: "field_type list" where
  "EventTipsTipClosed = [PhaseType, GoType go_Hash, GoType go_AccountID, GoType (TImpl ''U128''), TopicsType]"

definition EventTipsTipSlashed :: "field_type list" where
  "EventTipsTipSlashed = [PhaseType, GoType go_Hash, GoType go_AccountID, GoType (TImpl ''U128''), TopicsType]"

definition EventTransactionStorageStored :: "field_type list" where
  "EventTransactionStorageStored = [PhaseType, GoType go_U32, TopicsType]"

definition EventTransactionStorageRenewed :: "field_type list" where
  "EventTransactionStorageRenewed = [PhaseType, GoType go_U32, TopicsType]"

definition EventTransactionStorageProofChecked :: "field_type list" where
  "EventTransactionStorageProofChecked = [PhaseType, TopicsType]"

definition EventTransactionPaymentTransactionFeePaid :: "field_type list" where
  "EventTransactionPaymentTransactionFeePaid = [
    PhaseType, GoType go_AccountID, GoType (TImpl ''U128''), GoType (TImpl ''U128''), TopicsType]"

definition EventTipsTipRetracted :: "field_type list" where
  "EventTipsTipRetracted = [PhaseType, GoType go_Hash, TopicsType]"

definition EventBountiesBountyProposed :: "field_type list" where
  "EventBountiesBountyProposed = [PhaseType, GoType go_BountyIndex, TopicsType]"

definition EventBountiesBountyRejected :: "field_type list" where
  "EventBountiesBountyRejected = [PhaseType, GoType go_BountyIndex, GoType (TImpl ''U128''), TopicsType]"

definition EventBountiesBountyBecameActive :: "field_type list" where
  "EventBountiesBountyBecameActive = [PhaseType, GoType go_BountyIndex, TopicsType]"

definition EventBountiesBountyAwarded :: "field_type list" where
  "EventBountiesBountyAwarded = [PhaseType, GoType go_BountyIndex, GoType go_AccountID, TopicsType]"

definition EventBountiesBountyClaimed :: "field_type list" where
  "EventBountiesBountyClaimed = [
    PhaseType, GoType go_BountyIndex, GoType (TImpl ''U128''), GoType go_AccountID, TopicsType]"

definition EventBountiesBountyCanceled :: "field_type list" where
  "EventBountiesBountyCanceled = [PhaseType, GoType go_BountyIndex, TopicsType]"

definition EventBountiesBountyExtended :: "field_type list" where
  "EventBountiesBountyExtended = [PhaseType, GoType go_BountyIndex, TopicsType]"

definition EventChildBountiesAdded :: "field_type list" where
  "EventChildBountiesAdded = [PhaseType, GoType go_BountyIndex, GoType go_BountyIndex, TopicsType]"

definition EventChildBountiesAwarded :: "field_type list" where
  "EventChildBountiesAwarded = [
    PhaseType, GoType go_BountyIndex, GoType go_BountyIndex, GoType go_AccountID, TopicsType]"

definition EventChildBountiesClaimed :: "field_type list" where
  "EventChildBountiesClaimed = [
    PhaseType, GoType go_BountyIndex, GoType go_BountyIndex, GoType (TImpl ''U128''), GoType go_AccountID, TopicsType]"

definition EventChildBountiesCanceled :: "field_type list" where
  "EventChildBountiesCanceled = [PhaseType, GoType go_BountyIndex, GoType go_BountyIndex, TopicsType]"

definition EventUniquesApprovalCancelled :: "field_type list" where
  "EventUniquesApprovalCancelled = [
    PhaseType, GoType go_U64, GoType (TImpl ''U128''), GoType go_AccountID, GoType go_AccountID, TopicsType]"

definition EventUniquesApprovedTransfer :: "field_type list" where
  "EventUniquesApprovedTransfer = [
    PhaseType, GoType go_U64, GoType (TImpl ''U128''), GoType go_AccountID, GoType go_AccountID, TopicsType]"

definition EventUniquesAssetStatusChanged :: "field_type list" where
  "EventUniquesAssetStatusChanged = [PhaseType, GoType go_U64, TopicsType]"

definition EventUniquesAttributeCleared :: "field_type list" where
  "EventUniquesAttributeCleared = [
    PhaseType, GoType go_U64, GoType (TImpl ''Option[U128]''), GoType go_Bytes, TopicsType]"

definition EventUniquesAttributeSet :: "field_type list" where
  "EventUniquesAttributeSet = [
    PhaseType, GoType go_U64, GoType (TImpl ''Option[U128]''), GoType go_Bytes, GoType go_Bytes, TopicsType]"

definition EventUniquesBurned :: "field_type list" where
  "EventUniquesBurned = [PhaseType, GoType go_U64, GoType (TImpl ''U128''), GoType go_AccountID, TopicsType]"

definition EventUniquesClassFrozen :: "field_type list" where
  "EventUniquesClassFrozen = [PhaseType, GoType go_U64, TopicsType]"

definition EventUniquesClassMetadataCleared :: "field_type list" where
  "EventUniquesClassMetadataCleared = [PhaseType, GoType go_U64, TopicsType]"

definition EventUniquesClassMetadataSet :: "field_type list" where
  "EventUniquesClassMetadataSet = [PhaseType, GoType go_U64, GoType go_Bytes, GoType go_Bool, TopicsType]"

definition EventUniquesClassThawed :: "field_type list" where
  "EventUniquesClassThawed = [PhaseType, GoType go_U64, TopicsType]"

definition EventUniquesCreated :: "field_type list" where
  "EventUniquesCreated = [PhaseType, GoType go_U64, GoType go_AccountID, GoType go_AccountID, TopicsType]"

definition EventUniquesDestroyed :: "field_type list" where
  "EventUniquesDestroyed = [PhaseType, GoType go_U64, TopicsType]"

definition EventUniquesForceCreated :: "field_type list" where
  "EventUniquesForceCreated = [PhaseType, GoType go_U64, GoType go_AccountID, TopicsType]"

definition EventUniquesFrozen :: "field_type list" where
  "EventUniquesFrozen = [PhaseType, GoType go_U64, GoType (TImpl ''U128''), TopicsType]"

definition EventUniquesIssued :: "field_type list" where
  "EventUniquesIssued = [PhaseType, GoType go_U64, GoType (TImpl ''U128''), GoType go_AccountID, TopicsType]"

definition EventUniquesMetadataCleared :: "field_type list" where
  "EventUniquesMetadataCleared = [PhaseType, GoType go_U64, GoType (TImpl ''U128''), TopicsType]"

definition EventUniquesMetadataSet :: "field_type list" where
  "EventUniquesMetadataSet = [
    PhaseType, GoType go_U64, GoType (TImpl ''U128''), GoType go_Bytes, GoType go_Bool, TopicsType]"

definition EventUniquesOwnerChanged :: "field_type list" where
  "EventUniquesOwnerChanged = [PhaseType, GoType go_U64, GoType go_AccountID, TopicsType]"

definition EventUniquesRedeposited :: "field_type list" where
  "EventUniquesRedeposited = [PhaseType, GoType go_U64, GoType (TSlice (TImpl ''U128'')), TopicsType]"

definition EventUniquesTeamChanged :: "field_type list" where
  "EventUniquesTeamChanged = [
    PhaseType, GoType go_U64, GoType go_AccountID, GoType go_AccountID, GoType go_AccountID, TopicsType]"

definition EventUniquesThawed :: "field_type list" where
  "EventUniquesThawed = [PhaseType, GoType go_U64, GoType (TImpl ''U128''), TopicsType]"

definition EventUniquesTransferred :: "field_type list" where
  "EventUniquesTransferred = [
    PhaseType, GoType go_U64, GoType (TImpl ''U128''), GoType go_AccountID, GoType go_AccountID, TopicsType]"

definition EventUMPInvalidFormat :: "field_type list" where
  "EventUMPInvalidFormat = [PhaseType, GoType (TArray 32 (go_U8)), TopicsType]"

definition EventUMPUnsupportedVersion :: "field_type list" where
  "EventUMPUnsupportedVersion = [PhaseType, GoType (TArray 32 (go_U8)), TopicsType]"

definition EventUMPExecutedUpward :: "field_type list" where
  "EventUMPExecutedUpward = [PhaseType, GoType (TArray 32 (go_U8)), GoType (TImpl ''Outcome''), TopicsType]"

definition EventUMPWeightExhausted :: "field_type list" where
  "EventUMPWeightExhausted = [PhaseType, GoType (TArray 32 (go_U8)), GoType go_Weight, GoType go_Weight, TopicsType]"

definition EventUMPUpwardMessagesReceived :: "field_type list" where
  "EventUMPUpwardMessagesReceived = [PhaseType, GoType go_ParachainID, GoType go_U32, GoType go_U32, TopicsType]"

definition EventUMPOverweightEnqueued :: "field_type list" where
  "EventUMPOverweightEnqueued = [
    PhaseType, GoType go_ParachainID, GoType (TArray 32 (go_U8)), GoType go_U64, GoType go_Weight, TopicsType]"

definition EventUMPOverweightServiced :: "field_type list" where
  "EventUMPOverweightServiced = [PhaseType, GoType go_U64, GoType go_Weight, TopicsType]"

definition EventContractsInstantiated :: "field_type list" where
  "EventContractsInstantiated = [PhaseType, GoType go_AccountID, GoType go_AccountID, TopicsType]"

definition EventContractsTerminated :: "field_type list" where
  "EventContractsTerminated = [PhaseType, GoType go_AccountID, GoType go_AccountID, TopicsType]"

definition EventConvictionVotingDelegated :: "field_type list" where
  "EventConvictionVotingDelegated = [PhaseType, GoType go_AccountID, GoType go_AccountID, TopicsType]"

definition EventConvictionVotingUndelegated :: "field_type list" where
  "EventConvictionVotingUndelegated = [PhaseType, GoType go_AccountID, GoType go_AccountID, TopicsType]"

definition EventContractsContractEmitted :: "field_type list" where
  "EventContractsContractEmitted = [PhaseType, GoType go_AccountID, GoType go_Bytes, TopicsType]"

definition EventContractsContractCodeUpdated :: "field_type list" where
  "EventContractsContractCodeUpdated = [PhaseType, GoType go_AccountID, GoType go_Hash, GoType go_Hash, TopicsType]"

definition EventCollatorSelectionNewInvulnerables :: "field_type list" where
  "EventCollatorSelectionNewInvulnerables = [PhaseType, GoType (TSlice (go_AccountID)), TopicsType]"

definition EventCollatorSelectionNewDesiredCandidates :: "field_type list" where
  "EventCollatorSelectionNewDesiredCandidates = [PhaseType, GoType go_U32, TopicsType]"

definition EventCollatorSelectionNewCandidacyBond :: "field_type list" where
  "EventCollatorSelectionNewCandidacyBond = [PhaseType, GoType (TImpl ''U128''), TopicsType]"

definition EventCollatorSelectionCandidateAdded :: "field_type list" where
  "EventCollatorSelectionCandidateAdded = [PhaseType, GoType go_AccountID, GoType (TImpl ''U128''), TopicsType]"

definition EventCollatorSelectionCandidateRemoved :: "field_type list" where
  "EventCollatorSelectionCandidateRemoved = [PhaseType, GoType go_AccountID, TopicsType]"

definition EventContractsCodeRemoved :: "field_type list" where
  "EventContractsCodeRemoved = [PhaseType, GoType go_Hash, TopicsType]"

definition EventContractsCodeStored :: "field_type list" where
  "EventContractsCodeStored = [PhaseType, GoType go_Hash, TopicsType]"

definition EventContractsScheduleUpdated :: "field_type list" where
  "EventContractsScheduleUpdated = [PhaseType, GoType go_U32, TopicsType]"

definition EventContractsContractExecution :: "field_type list" where
  "EventContractsContractExecution = [PhaseType, GoType go_AccountID, GoType go_Bytes, TopicsType]"

definition EventUtilityBatchInterrupted :: "field_type list" where
  "EventUtilityBatchInterrupted = [PhaseType, GoType go_U32, GoType (TImpl ''DispatchError''), TopicsType]"

definition EventUtilityBatchCompleted :: "field_type list" where
  "EventUtilityBatchCompleted = [PhaseType, TopicsType]"

definition EventUtilityDispatchedAs :: "field_type list" where
  "EventUtilityDispatchedAs = [PhaseType, GoType go_U32, GoType (TImpl ''DispatchResult''), TopicsType]"

definition EventUtilityItemCompleted :: "field_type list" where
  "EventUtilityItemCompleted = [PhaseType, TopicsType]"

definition EventMultisigNewMultisig :: "field_type list" where
  "EventMultisigNewMultisig = [PhaseType, GoType go_AccountID, GoType go_AccountID, GoType go_Hash, TopicsType]"

definition EventNftSalesForSale :: "field_type list" where
  "EventNftSalesForSale = [PhaseType, GoType go_U64, GoType (TImpl ''U128''), GoType (TImpl ''Sale''), TopicsType]"

definition EventNftSalesRemoved :: "field_type list" where
  "EventNftSalesRemoved = [PhaseType, GoType go_U64, GoType (TImpl ''U128''), TopicsType]"

definition EventNftSalesSold :: "field_type list" where
  "EventNftSalesSold = [
    PhaseType, GoType go_U64, GoType (TImpl ''U128''), GoType (TImpl ''Sale''), GoType go_AccountID, TopicsType]"

definition EventMultisigApproval :: "field_type list" where
  "EventMultisigApproval = [
    PhaseType, GoType go_AccountID, GoType go_TimePoint, GoType go_AccountID, GoType go_Hash, TopicsType]"

definition EventMultisigExecuted :: "field_type list" where
  "EventMultisigExecuted = [
    PhaseType, GoType go_AccountID, GoType go_TimePoint, GoType go_AccountID, GoType go_Hash,
    GoType (TImpl ''DispatchResult''), TopicsType]"

definition EventMultisigCancelled :: "field_type list" where
  "EventMultisigCancelled = [
    PhaseType, GoType go_AccountID, GoType go_TimePoint, GoType go_AccountID, GoType go_Hash, TopicsType]"

section \<open>The default target\<close>

definition EventRecords :: "(string \<times> target_field) list" where
  "EventRecords =
    [(''Auctions_AuctionStarted'', EventSlice EventAuctionsAuctionStarted),
     (''Auctions_AuctionClosed'', EventSlice EventAuctionsAuctionClosed),
     (''Auctions_Reserved'', EventSlice EventAuctionsReserved),
     (''Auctions_Unreserved'', EventSlice EventAuctionsUnreserved),
     (''Auctions_ReserveConfiscated'', EventSlice EventAuctionsReserveConfiscated),
     (''Auctions_BidAccepted'', EventSlice EventAuctionsBidAccepted),
     (''Auctions_WinningOffset'', EventSlice EventAuctionsWinningOffset),
     (''Assets_Created'', EventSlice EventAssetCreated),
     (''Assets_Issued'', EventSlice EventAssetIssued),
     (''Assets_Transferred'', EventSlice EventAssetTransferred),
     (''Assets_Burned'', EventSlice EventAssetBurned),
     (''Assets_TeamChanged'', EventSlice EventAssetTeamChanged),
     (''Assets_OwnerChanged'', EventSlice EventAssetOwnerChanged),
     (''Assets_Frozen'', EventSlice EventAssetFrozen),
     (''Assets_Thawed'', EventSlice EventAssetThawed),
     (''Assets_AssetFrozen'', EventSlice EventAssetAssetFrozen),
     (''Assets_AssetThawed'', EventSlice EventAssetAssetThawed),
     (''Assets_Destroyed'', EventSlice EventAssetDestroyed),
     (''Assets_ForceCreated'', EventSlice EventAssetForceCreated),
     (''Assets_MetadataSet'', EventSlice EventAssetMetadataSet),
     (''Assets_MetadataCleared'', EventSlice EventAssetMetadataCleared),
     (''Assets_ApprovedTransfer'', EventSlice EventAssetApprovedTransfer),
     (''Assets_ApprovalCancelled'', EventSlice EventAssetApprovalCancelled),
     (''Assets_TransferredApproved'', EventSlice EventAssetTransferredApproved),
     (''Assets_AssetStatusChanged'', EventSlice EventAssetAssetStatusChanged),
     (''BagsList_Rebagged'', EventSlice EventBagsListRebagged),
     (''Balances_BalanceSet'', EventSlice EventBalancesBalanceSet),
     (''Balances_Deposit'', EventSlice EventBalancesDeposit),
     (''Balances_DustLost'', EventSlice EventBalancesDustLost),
     (''Balances_Endowed'', EventSlice EventBalancesEndowed),
     (''Balances_Reserved'', EventSlice EventBalancesReserved),
     (''Balances_ReserveRepatriated'', EventSlice EventBalancesReserveRepatriated),
     (''Balances_Slashed'', EventSlice EventBalancesSlashed),
     (''Balances_Transfer'', EventSlice EventBalancesTransfer),
     (''Balances_Unreserved'', EventSlice EventBalancesUnreserved),
     (''Balances_Withdraw'', EventSlice EventBalancesWithdraw),
     (''Bounties_BountyProposed'', EventSlice EventBountiesBountyProposed),
     (''Bounties_BountyRejected'', EventSlice EventBountiesBountyRejected),
     (''Bounties_BountyBecameActive'', EventSlice EventBountiesBountyBecameActive),
     (''Bounties_BountyAwarded'', EventSlice EventBountiesBountyAwarded),
     (''Bounties_BountyClaimed'', EventSlice EventBountiesBountyClaimed),
     (''Bounties_BountyCanceled'', EventSlice EventBountiesBountyCanceled),
     (''Bounties_BountyExtended'', EventSlice EventBountiesBountyExtended),
     (''ChildBounties_Added'', EventSlice EventChildBountiesAdded),
     (''ChildBounties_Awarded'', EventSlice EventChildBountiesAwarded),
     (''ChildBounties_Claimed'', EventSlice EventChildBountiesClaimed),
     (''ChildBounties_Canceled'', EventSlice EventChildBountiesCanceled),
     (''Claims_Claimed'', EventSlice EventClaimsClaimed),
     (''CollatorSelection_NewInvulnerables'', EventSlice EventCollatorSelectionNewInvulnerables),
     (''CollatorSelection_NewDesiredCandidates'', EventSlice EventCollatorSelectionNewDesiredCandidates),
     (''CollatorSelection_NewCandidacyBond'', EventSlice EventCollatorSelectionNewCandidacyBond),
     (''CollatorSelection_CandidateAdded'', EventSlice EventCollatorSelectionCandidateAdded),
     (''CollatorSelection_CandidateRemoved'', EventSlice EventCollatorSelectionCandidateRemoved),
     (''Contracts_CodeRemoved'', EventSlice EventContractsCodeRemoved),
     (''Contracts_CodeStored'', EventSlice EventContractsCodeStored),
     (''Contracts_ContractCodeUpdated'', EventSlice EventContractsContractCodeUpdated),
     (''Contracts_ContractEmitted'', EventSlice EventContractsContractEmitted),
     (''Contracts_Instantiated'', EventSlice EventContractsInstantiated),
     (''Contracts_Terminated'', EventSlice EventContractsTerminated),
     (''ConvictionVoting_Delegated'', EventSlice EventConvictionVotingDelegated),
     (''ConvictionVoting_Undelegated'', EventSlice EventConvictionVotingUndelegated),
     (''Council_Approved'', EventSlice EventCouncilApproved),
     (''Council_Closed'', EventSlice EventCouncilClosed),
     (''Council_Disapproved'', EventSlice EventCouncilDisapproved),
     (''Council_Executed'', EventSlice EventCouncilExecuted),
     (''Council_MemberExecuted'', EventSlice EventCouncilMemberExecuted),
     (''Council_Proposed'', EventSlice EventCouncilProposed),
     (''Council_Voted'', EventSlice EventCouncilVoted),
     (''Crowdloan_Created'', EventSlice EventCrowdloanCreated),
     (''Crowdloan_Contributed'', EventSlice EventCrowdloanContributed),
     (''Crowdloan_Withdrew'', EventSlice EventCrowdloanWithdrew),
     (''Crowdloan_PartiallyRefunded'', EventSlice EventCrowdloanPartiallyRefunded),
     (''Crowdloan_AllRefunded'', EventSlice EventCrowdloanAllRefunded),
     (''Crowdloan_Dissolved'', EventSlice EventCrowdloanDissolved),
     (''Crowdloan_HandleBidResult'', EventSlice EventCrowdloanHandleBidResult),
     (''Crowdloan_Edited'', EventSlice EventCrowdloanEdited),
     (''Crowdloan_MemoUpdated'', EventSlice EventCrowdloanMemoUpdated),
     (''Crowdloan_AddedToNewRaise'', EventSlice EventCrowdloanAddedToNewRaise),
     (''Democracy_Blacklisted'', EventSlice EventDemocracyBlacklisted),
     (''Democracy_Cancelled'', EventSlice EventDemocracyCancelled),
     (''Democracy_Delegated'', EventSlice EventDemocracyDelegated),
     (''Democracy_Executed'', EventSlice EventDemocracyExecuted),
     (''Democracy_ExternalTabled'', EventSlice EventDemocracyExternalTabled),
     (''Democracy_NotPassed'', EventSlice EventDemocracyNotPassed),
     (''Democracy_Passed'', EventSlice EventDemocracyPassed),
     (''Democracy_PreimageInvalid'', EventSlice EventDemocracyPreimageInvalid),
     (''Democracy_PreimageMissing'', EventSlice EventDemocracyPreimageMissing),
     (''Democracy_PreimageNoted'', EventSlice EventDemocracyPreimageNoted),
     (''Democracy_PreimageReaped'', EventSlice EventDemocracyPreimageReaped),
     (''Democracy_PreimageUsed'', EventSlice EventDemocracyPreimageUsed),
     (''Democracy_Proposed'', EventSlice EventDemocracyProposed),
     (''Democracy_Seconded'', EventSlice EventDemocracySeconded),
     (''Democracy_Started'', EventSlice EventDemocracyStarted),
     (''Democracy_Tabled'', EventSlice EventDemocracyTabled),
     (''Democracy_Undelegated'', EventSlice EventDemocracyUndelegated),
     (''Democracy_Vetoed'', EventSlice EventDemocracyVetoed),
     (''Democracy_Voted'', EventSlice EventDemocracyVoted),
     (''ElectionProviderMultiPhase_SolutionStored'', EventSlice EventElectionProviderMultiPhaseSolutionStored),
     (''ElectionProviderMultiPhase_ElectionFinalized'', EventSlice EventElectionProviderMultiPhaseElectionFinalized),
     (''ElectionProviderMultiPhase_Rewarded'', EventSlice EventElectionProviderMultiPhaseRewarded),
     (''ElectionProviderMultiPhase_Slashed'', EventSlice EventElectionProviderMultiPhaseSlashed),
     (''ElectionProviderMultiPhase_SignedPhaseStarted'', EventSlice EventElectionProviderMultiPhaseSignedPhaseStarted),
     (''ElectionProviderMultiPhase_UnsignedPhaseStarted'', EventSlice EventElectionProviderMultiPhaseUnsignedPhaseStarted),
     (''Elections_CandidateSlashed'', EventSlice EventElectionsCandidateSlashed),
     (''Elections_ElectionError'', EventSlice EventElectionsElectionError),
     (''Elections_EmptyTerm'', EventSlice EventElectionsEmptyTerm),
     (''Elections_MemberKicked'', EventSlice EventElectionsMemberKicked),
     (''Elections_NewTerm'', EventSlice EventElectionsNewTerm),
     (''Elections_Renounced'', EventSlice EventElectionsRenounced),
     (''Elections_SeatHolderSlashed'', EventSlice EventElectionsSeatHolderSlashed),
     (''Gilt_BidPlaced'', EventSlice EventGiltBidPlaced),
     (''Gilt_BidRetracted'', EventSlice EventGiltBidRetracted),
     (''Gilt_GiltIssued'', EventSlice EventGiltGiltIssued),
     (''Gilt_GiltThawed'', EventSlice EventGiltGiltThawed),
     (''Grandpa_NewAuthorities'', EventSlice EventGrandpaNewAuthorities),
     (''Grandpa_Paused'', EventSlice EventGrandpaPaused),
     (''Grandpa_Resumed'', EventSlice EventGrandpaResumed),
     (''Hrmp_OpenChannelRequested'', EventSlice EventHRMPOpenChannelRequested),
     (''Hrmp_OpenChannelCanceled'', EventSlice EventHRMPOpenChannelCanceled),
     (''Hrmp_OpenChannelAccepted'', EventSlice EventHRMPOpenChannelAccepted),
     (''Hrmp_ChannelClosed'', EventSlice EventHRMPChannelClosed),
     (''Identity_IdentityCleared'', EventSlice EventIdentityCleared),
     (''Identity_IdentityKilled'', EventSlice EventIdentityKilled),
     (''Identity_IdentitySet'', EventSlice EventIdentitySet),
     (''Identity_JudgementGiven'', EventSlice EventIdentityJudgementGiven),
     (''Identity_JudgementRequested'', EventSlice EventIdentityJudgementRequested),
     (''Identity_JudgementUnrequested'', EventSlice EventIdentityJudgementUnrequested),
     (''Identity_RegistrarAdded'', EventSlice EventIdentityRegistrarAdded),
     (''Identity_SubIdentityAdded'', EventSlice EventIdentitySubIdentityAdded),
     (''Identity_SubIdentityRemoved'', EventSlice EventIdentitySubIdentityRemoved),
     (''Identity_SubIdentityRevoked'', EventSlice EventIdentitySubIdentityRevoked),
     (''ImOnline_AllGood'', EventSlice EventImOnlineAllGood),
     (''ImOnline_HeartbeatReceived'', EventSlice EventImOnlineHeartbeatReceived),
     (''ImOnline_SomeOffline'', EventSlice EventImOnlineSomeOffline),
     (''Indices_IndexAssigned'', EventSlice EventIndicesIndexAssigned),
     (''Indices_IndexFreed'', EventSlice EventIndicesIndexFreed),
     (''Indices_IndexFrozen'', EventSlice EventIndicesIndexFrozen),
     (''Lottery_LotteryStarted'', EventSlice EventLotteryLotteryStarted),
     (''Lottery_CallsUpdated'', EventSlice EventLotteryCallsUpdated),
     (''Lottery_Winner'', EventSlice EventLotteryWinner),
     (''Lottery_TicketBought'', EventSlice EventLotteryTicketBought),
     (''Multisig_MultisigApproval'', EventSlice EventMultisigApproval),
     (''Multisig_MultisigCancelled'', EventSlice EventMultisigCancelled),
     (''Multisig_MultisigExecuted'', EventSlice EventMultisigExecuted),
     (''Multisig_NewMultisig'', EventSlice EventMultisigNewMultisig),
     (''NftSales_ForSale'', EventSlice EventNftSalesForSale),
     (''NftSales_Removed'', EventSlice EventNftSalesRemoved),
     (''NftSales_Sold'', EventSlice EventNftSalesSold),
     (''Offences_Offence'', EventSlice EventOffencesOffence),
     (''OrmlAssetRegistry_RegisteredAsset'', EventSlice EventOrmlAssetRegistryRegisteredAsset),
     (''OrmlAssetRegistry_UpdatedAsset'', EventSlice EventOrmlAssetRegistryUpdatedAsset),
     (''OrmlTokens_Endowed'', EventSlice EventOrmlTokensEndowed),
     (''OrmlTokens_DustLost'', EventSlice EventOrmlTokensDustLost),
     (''OrmlTokens_Transfer'', EventSlice EventOrmlTokensTransfer),
     (''OrmlTokens_Reserved'', EventSlice EventOrmlTokensReserved),
     (''OrmlTokens_Unreserved'', EventSlice EventOrmlTokensUnreserved),
     (''OrmlTokens_ReserveRepatriated'', EventSlice EventOrmlTokensReserveRepatriated),
     (''OrmlTokens_BalanceSet'', EventSlice EventOrmlTokensBalanceSet),
     (''OrmlTokens_TotalIssuanceSet'', EventSlice EventOrmlTokensTotalIssuanceSet),
     (''OrmlTokens_Withdrawn'', EventSlice EventOrmlTokensWithdrawn),
     (''OrmlTokens_Slashed'', EventSlice EventOrmlTokensSlashed),
     (''OrmlTokens_Deposited'', EventSlice EventOrmlTokensDeposited),
     (''OrmlTokens_LockSet'', EventSlice EventOrmlTokensLockSet),
     (''OrmlTokens_LockRemoved'', EventSlice EventOrmlTokensLockRemoved),
     (''OrmlTokens_Locked'', EventSlice EventOrmlTokensLocked),
     (''OrmlTokens_Unlocked'', EventSlice EventOrmlTokensUnlocked),
     (''Paras_CurrentCodeUpdated'', EventSlice EventParasCurrentCodeUpdated),
     (''Paras_CurrentHeadUpdated'', EventSlice EventParasCurrentHeadUpdated),
     (''Paras_CodeUpgradeScheduled'', EventSlice EventParasCodeUpgradeScheduled),
     (''Paras_NewHeadNoted'', EventSlice EventParasNewHeadNoted),
     (''Paras_ActionQueued'', EventSlice EventParasActionQueued),
     (''Paras_PvfCheckStarted'', EventSlice EventParasPvfCheckStarted),
     (''Paras_PvfCheckAccepted'', EventSlice EventParasPvfCheckAccepted),
     (''Paras_PvfCheckRejected'', EventSlice EventParasPvfCheckRejected),
     (''ParasDisputes_DisputeInitiated'', EventSlice EventParasDisputesDisputeInitiated),
     (''ParasDisputes_DisputeConcluded'', EventSlice EventParasDisputesDisputeConcluded),
     (''ParasDisputes_DisputeTimedOut'', EventSlice EventParasDisputesDisputeTimedOut),
     (''ParasDisputes_Revert'', EventSlice EventParasDisputesRevert),
     (''ParaInclusion_CandidateBacked'', EventSlice EventParaInclusionCandidateBacked),
     (''ParaInclusion_CandidateIncluded'', EventSlice EventParaInclusionCandidateIncluded),
     (''ParaInclusion_CandidateTimedOut'', EventSlice EventParaInclusionCandidateTimedOut),
     (''ParachainSystem_ValidationFunctionStored'', EventSlice EventParachainSystemValidationFunctionStored),
     (''ParachainSystem_ValidationFunctionApplied'', EventSlice EventParachainSystemValidationFunctionApplied),
     (''ParachainSystem_ValidationFunctionDiscarded'', EventSlice EventParachainSystemValidationFunctionDiscarded),
     (''ParachainSystem_UpgradeAuthorized'', EventSlice EventParachainSystemUpgradeAuthorized),
     (''ParachainSystem_DownwardMessagesReceived'', EventSlice EventParachainSystemDownwardMessagesReceived),
     (''ParachainSystem_DownwardMessagesProcessed'', EventSlice EventParachainSystemDownwardMessagesProcessed),
     (''Preimage_Cleared'', EventSlice EventPreimageCleared),
     (''Preimage_Noted'', EventSlice EventPreimageNoted),
     (''Preimage_Requested'', EventSlice EventPreimageRequested),
     (''Proxy_Announced'', EventSlice EventProxyAnnounced),
     (''Proxy_PureCreated'', EventSlice EventProxyPureCreated),
     (''Proxy_ProxyAdded'', EventSlice EventProxyProxyAdded),
     (''Proxy_ProxyExecuted'', EventSlice EventProxyProxyExecuted),
     (''Proxy_ProxyRemoved'', EventSlice EventProxyProxyRemoved),
     (''Recovery_AccountRecovered'', EventSlice EventRecoveryAccountRecovered),
     (''Recovery_RecoveryClosed'', EventSlice EventRecoveryClosed),
     (''Recovery_RecoveryCreated'', EventSlice EventRecoveryCreated),
     (''Recovery_RecoveryInitiated'', EventSlice EventRecoveryInitiated),
     (''Recovery_RecoveryRemoved'', EventSlice EventRecoveryRemoved),
     (''Recovery_RecoveryVouched'', EventSlice EventRecoveryVouched),
     (''Registrar_Registered'', EventSlice EventRegistrarRegistered),
     (''Registrar_Deregistered'', EventSlice EventRegistrarDeregistered),
     (''Registrar_Reserved'', EventSlice EventRegistrarReserved),
     (''Referenda_Submitted'', EventSlice EventReferendaSubmitted),
     (''Referenda_DecisionDepositPlaced'', EventSlice EventReferendaDecisionDepositPlaced),
     (''Referenda_DecisionDepositRefunded'', EventSlice EventReferendaDecisionDepositRefunded),
     (''Referenda_DepositSlashed'', EventSlice EventReferendaDecisionSlashed),
     (''Referenda_DecisionStarted'', EventSlice EventReferendaDecisionStarted),
     (''Referenda_ConfirmStarted'', EventSlice EventReferendaConfirmStarted),
     (''Referenda_ConfirmAborted'', EventSlice EventReferendaConfirmAborted),
     (''Referenda_Confirmed'', EventSlice EventReferendaConfirmed),
     (''Referenda_Approved'', EventSlice EventReferendaApproved),
     (''Referenda_Rejected'', EventSlice EventReferendaRejected),
     (''Referenda_TimedOut'', EventSlice EventReferendaTimedOut),
     (''Referenda_Cancelled'', EventSlice EventReferendaCancelled),
     (''Referenda_Killed'', EventSlice EventReferendaKilled),
     (''Scheduler_CallLookupFailed'', EventSlice EventSchedulerCallLookupFailed),
     (''Scheduler_Canceled'', EventSlice EventSchedulerCanceled),
     (''Scheduler_Dispatched'', EventSlice EventSchedulerDispatched),
     (''Scheduler_Scheduled'', EventSlice EventSchedulerScheduled),
     (''Session_NewSession'', EventSlice EventSessionNewSession),
     (''Slots_NewLeasePeriod'', EventSlice EventSlotsNewLeasePeriod),
     (''Slots_Leased'', EventSlice EventSlotsLeased),
     (''Society_AutoUnbid'', EventSlice EventSocietyAutoUnbid),
     (''Society_Bid'', EventSlice EventSocietyBid),
     (''Society_CandidateSuspended'', EventSlice EventSocietyCandidateSuspended),
     (''Society_Challenged'', EventSlice EventSocietyChallenged),
     (''Society_DefenderVote'', EventSlice EventSocietyDefenderVote),
     (''Society_Deposit'', EventSlice EventSocietyDeposit),
     (''Society_Founded'', EventSlice EventSocietyFounded),
     (''Society_Inducted'', EventSlice EventSocietyInducted),
     (''Society_MemberSuspended'', EventSlice EventSocietyMemberSuspended),
     (''Society_NewMaxMembers'', EventSlice EventSocietyNewMaxMembers),
     (''Society_SuspendedMemberJudgement'', EventSlice EventSocietySuspendedMemberJudgement),
     (''Society_Unbid'', EventSlice EventSocietyUnbid),
     (''Society_Unfounded'', EventSlice EventSocietyUnfounded),
     (''Society_Unvouch'', EventSlice EventSocietyUnvouch),
     (''Society_Vote'', EventSlice EventSocietyVote),
     (''Society_Vouch'', EventSlice EventSocietyVouch),
     (''Staking_Bonded'', EventSlice EventStakingBonded),
     (''Staking_Chilled'', EventSlice EventStakingChilled),
     (''Staking_EraPaid'', EventSlice EventStakingEraPaid),
     (''Staking_Kicked'', EventSlice EventStakingKicked),
     (''Staking_OldSlashingReportDiscarded'', EventSlice EventStakingOldSlashingReportDiscarded),
     (''Staking_PayoutStarted'', EventSlice EventStakingPayoutStarted),
     (''Staking_Rewarded'', EventSlice EventStakingRewarded),
     (''Staking_Slashed'', EventSlice EventStakingSlashed),
     (''Staking_StakersElected'', EventSlice EventStakingStakersElected),
     (''Staking_StakingElectionFailed'', EventSlice EventStakingStakingElectionFailed),
     (''Staking_Unbonded'', EventSlice EventStakingUnbonded),
     (''Staking_Withdrawn'', EventSlice EventStakingWithdrawn),
     (''StateTrieMigration_Migrated'', EventSlice EventStateTrieMigrationMigrated),
     (''StateTrieMigration_Slashed'', EventSlice EventStateTrieMigrationSlashed),
     (''StateTrieMigration_AutoMigrationFinished'', EventSlice EventStateTrieMigrationAutoMigrationFinished),
     (''StateTrieMigration_Halted'', EventSlice EventStateTrieMigrationHalted),
     (''Sudo_KeyChanged'', EventSlice EventSudoKeyChanged),
     (''Sudo_Sudid'', EventSlice EventSudoSudid),
     (''Sudo_SudoAsDone'', EventSlice EventSudoAsDone),
     (''System_CodeUpdated'', EventSlice EventSystemCodeUpdated),
     (''System_ExtrinsicFailed'', EventSlice EventSystemExtrinsicFailed),
     (''System_ExtrinsicSuccess'', EventSlice EventSystemExtrinsicSuccess),
     (''System_KilledAccount'', EventSlice EventSystemKilledAccount),
     (''System_NewAccount'', EventSlice EventSystemNewAccount),
     (''System_Remarked'', EventSlice EventSystemRemarked),
     (''TechnicalCommittee_Approved'', EventSlice EventTechnicalCommitteeApproved),
     (''TechnicalCommittee_Closed'', EventSlice EventTechnicalCommitteeClosed),
     (''TechnicalCommittee_Disapproved'', EventSlice EventTechnicalCommitteeDisapproved),
     (''TechnicalCommittee_Executed'', EventSlice EventTechnicalCommitteeExecuted),
     (''TechnicalCommittee_MemberExecuted'', EventSlice EventTechnicalCommitteeMemberExecuted),
     (''TechnicalCommittee_Proposed'', EventSlice EventTechnicalCommitteeProposed),
     (''TechnicalCommittee_Voted'', EventSlice EventTechnicalCommitteeVoted),
     (''TechnicalMembership_Dummy'', EventSlice EventTechnicalMembershipDummy),
     (''TechnicalMembership_KeyChanged'', EventSlice EventTechnicalMembershipKeyChanged),
     (''TechnicalMembership_MemberAdded'', EventSlice EventTechnicalMembershipMemberAdded),
     (''TechnicalMembership_MemberRemoved'', EventSlice EventTechnicalMembershipMemberRemoved),
     (''TechnicalMembership_MembersReset'', EventSlice EventTechnicalMembershipMembersReset),
     (''TechnicalMembership_MembersSwapped'', EventSlice EventTechnicalMembershipMembersSwapped),
     (''Tips_NewTip'', EventSlice EventTipsNewTip),
     (''Tips_TipClosed'', EventSlice EventTipsTipClosed),
     (''Tips_TipClosing'', EventSlice EventTipsTipClosing),
     (''Tips_TipRetracted'', EventSlice EventTipsTipRetracted),
     (''Tips_TipSlashed'', EventSlice EventTipsTipSlashed),
     (''TransactionStorage_Stored'', EventSlice EventTransactionStorageStored),
     (''TransactionStorage_Renewed'', EventSlice EventTransactionStorageRenewed),
     (''TransactionStorage_ProofChecked'', EventSlice EventTransactionStorageProofChecked),
     (''TransactionPayment_TransactionFeePaid'', EventSlice EventTransactionPaymentTransactionFeePaid),
     (''Treasury_Proposed'', EventSlice EventTreasuryProposed),
     (''Treasury_Spending'', EventSlice EventTreasurySpending),
     (''Treasury_Awarded'', EventSlice EventTreasuryAwarded),
     (''Treasury_Rejected'', EventSlice EventTreasuryRejected),
     (''Treasury_Burnt'', EventSlice EventTreasuryBurnt),
     (''Treasury_Rollover'', EventSlice EventTreasuryRollover),
     (''Treasury_Deposit'', EventSlice EventTreasuryDeposit),
     (''Treasury_SpendApproved'', EventSlice EventTreasurySpendApproved),
     (''Treasury_UpdatedInactive'', EventSlice EventTreasuryUpdatedInactive),
     (''Uniques_ApprovalCancelled'', EventSlice EventUniquesApprovalCancelled),
     (''Uniques_ApprovedTransfer'', EventSlice EventUniquesApprovedTransfer),
     (''Uniques_AssetStatusChanged'', EventSlice EventUniquesAssetStatusChanged),
     (''Uniques_AttributeCleared'', EventSlice EventUniquesAttributeCleared),
     (''Uniques_AttributeSet'', EventSlice EventUniquesAttributeSet),
     (''Uniques_Burned'', EventSlice EventUniquesBurned),
     (''Uniques_ClassFrozen'', EventSlice EventUniquesClassFrozen),
     (''Uniques_ClassMetadataCleared'', EventSlice EventUniquesClassMetadataCleared),
     (''Uniques_ClassMetadataSet'', EventSlice EventUniquesClassMetadataSet),
     (''Uniques_ClassThawed'', EventSlice EventUniquesClassThawed),
     (''Uniques_Created'', EventSlice EventUniquesCreated),
     (''Uniques_Destroyed'', EventSlice EventUniquesDestroyed),
     (''Uniques_ForceCreated'', EventSlice EventUniquesForceCreated),
     (''Uniques_Frozen'', EventSlice EventUniquesFrozen),
     (''Uniques_Issued'', EventSlice EventUniquesIssued),
     (''Uniques_MetadataCleared'', EventSlice EventUniquesMetadataCleared),
     (''Uniques_MetadataSet'', EventSlice EventUniquesMetadataSet),
     (''Uniques_OwnerChanged'', EventSlice EventUniquesOwnerChanged),
     (''Uniques_Redeposited'', EventSlice EventUniquesRedeposited),
     (''Uniques_TeamChanged'', EventSlice EventUniquesTeamChanged),
     (''Uniques_Thawed'', EventSlice EventUniquesThawed),
     (''Uniques_Transferred'', EventSlice EventUniquesTransferred),
     (''Ump_InvalidFormat'', EventSlice EventUMPInvalidFormat),
     (''Ump_UnsupportedVersion'', EventSlice EventUMPUnsupportedVersion),
     (''Ump_ExecutedUpward'', EventSlice EventUMPExecutedUpward),
     (''Ump_WeightExhausted'', EventSlice EventUMPWeightExhausted),
     (''Ump_UpwardMessagesReceived'', EventSlice EventUMPUpwardMessagesReceived),
     (''Ump_OverweightEnqueued'', EventSlice EventUMPOverweightEnqueued),
     (''Ump_OverweightServiced'', EventSlice EventUMPOverweightServiced),
     (''Utility_BatchCompleted'', EventSlice EventUtilityBatchCompleted),
     (''Utility_BatchInterrupted'', EventSlice EventUtilityBatchInterrupted),
     (''Utility_DispatchedAs'', EventSlice EventUtilityBatchInterrupted),
     (''Utility_ItemCompleted'', EventSlice EventUtilityItemCompleted),
     (''Vesting_VestingCompleted'', EventSlice EventVestingVestingCompleted),
     (''Vesting_VestingUpdated'', EventSlice EventVestingVestingUpdated),
     (''VoterList_Rebagged'', EventSlice EventVoterListRebagged),
     (''VoterList_ScoreUpdated'', EventSlice EventVoterListScoreUpdated),
     (''Whitelist_CallWhitelisted'', EventSlice EventWhitelistCallWhitelisted),
     (''Whitelist_WhitelistedCallRemoved'', EventSlice EventWhitelistWhitelistedCallRemoved),
     (''Whitelist_WhitelistedCallDispatched'', EventSlice EventWhitelistWhitelistedCallRemoved),
     (''XcmPallet_Attempted'', EventSlice EventXcmPalletAttempted),
     (''XcmPallet_Sent'', EventSlice EventXcmPalletSent),
     (''XcmPallet_UnexpectedResponse'', EventSlice EventXcmPalletUnexpectedResponse),
     (''XcmPallet_ResponseReady'', EventSlice EventXcmPalletResponseReady),
     (''XcmPallet_Notified'', EventSlice EventXcmPalletNotified),
     (''XcmPallet_NotifyOverweight'', EventSlice EventXcmPalletNotifyOverweight),
     (''XcmPallet_NotifyDispatchError'', EventSlice EventXcmPalletNotifyDispatchError),
     (''XcmPallet_NotifyDecodeFailed'', EventSlice EventXcmPalletNotifyDecodeFailed),
     (''XcmPallet_InvalidResponder'', EventSlice EventXcmPalletInvalidResponder),
     (''XcmPallet_InvalidResponderVersion'', EventSlice EventXcmPalletInvalidResponderVersion),
     (''XcmPallet_ResponseTaken'', EventSlice EventXcmPalletResponseTaken),
     (''XcmPallet_AssetsTrapped'', EventSlice EventXcmPalletAssetsTrapped),
     (''XcmPallet_VersionChangeNotified'', EventSlice EventXcmPalletVersionChangeNotified),
     (''XcmPallet_SupportedVersionChanged'', EventSlice EventXcmPalletSupportedVersionChanged),
     (''XcmPallet_NotifyTargetSendFail'', EventSlice EventXcmPalletNotifyTargetSendFail),
     (''XcmPallet_NotifyTargetMigrationFail'', EventSlice EventXcmPalletNotifyTargetMigrationFail)]"

lemmas go_types =
  go_AccountID_def go_H160_def go_AuthorityID_def go_U64_def go_U32_def go_ParachainID_def
  go_IndividualExposure_def go_Exposure_def go_AccountIndex_def go_Bytes16_def go_Bytes_def go_U8_def
  go_CustomMetadata_def go_AssetMetadata_def go_H256_def go_Hash_def go_CollatorID_def go_CollatorSignature_def
  go_CandidateDescriptor_def go_CandidateReceipt_def go_HeadData_def go_CoreIndex_def go_GroupIndex_def
  go_Weight_def go_MetadataSetName_def go_MetadataSetSymbol_def go_CrowloadMemo_def go_XcmVersion_def
  go_TaskAddress_def go_U16_def go_BountyIndex_def go_Bool_def go_TimePoint_def

lemmas event_structs =
  EventClaimsClaimed_def EventBalancesEndowed_def EventBalancesDustLost_def EventBalancesTransfer_def
  EventBalancesBalanceSet_def EventBalancesDeposit_def EventBalancesReserved_def EventBalancesUnreserved_def
  EventBalancesReserveRepatriated_def EventBalancesWithdraw_def EventBalancesSlashed_def
  EventGrandpaNewAuthorities_def EventGrandpaPaused_def EventGrandpaResumed_def
  EventHRMPOpenChannelRequested_def EventHRMPOpenChannelCanceled_def EventHRMPOpenChannelAccepted_def
  EventHRMPChannelClosed_def EventImOnlineHeartbeatReceived_def EventImOnlineAllGood_def
  EventImOnlineSomeOffline_def EventIndicesIndexAssigned_def EventIndicesIndexFreed_def
  EventIndicesIndexFrozen_def EventLotteryLotteryStarted_def EventLotteryCallsUpdated_def EventLotteryWinner_def
  EventLotteryTicketBought_def EventOffencesOffence_def EventOrmlTokensEndowed_def EventOrmlTokensDustLost_def
  EventOrmlTokensTransfer_def EventOrmlTokensReserved_def EventOrmlTokensUnreserved_def
  EventOrmlTokensReserveRepatriated_def EventOrmlTokensBalanceSet_def EventOrmlTokensTotalIssuanceSet_def
  EventOrmlTokensWithdrawn_def EventOrmlTokensSlashed_def EventOrmlTokensDeposited_def
  EventOrmlTokensLockSet_def EventOrmlTokensLockRemoved_def EventOrmlTokensLocked_def
  EventOrmlTokensUnlocked_def EventOrmlAssetRegistryRegisteredAsset_def EventOrmlAssetRegistryUpdatedAsset_def
  EventParasCurrentCodeUpdated_def EventParasCurrentHeadUpdated_def EventParasCodeUpgradeScheduled_def
  EventParasNewHeadNoted_def EventParasActionQueued_def EventParasPvfCheckStarted_def
  EventParasPvfCheckAccepted_def EventParasPvfCheckRejected_def EventParasDisputesDisputeInitiated_def
  EventParasDisputesDisputeConcluded_def EventParasDisputesDisputeTimedOut_def EventParasDisputesRevert_def
  EventParaInclusionCandidateBacked_def EventParaInclusionCandidateIncluded_def
  EventParaInclusionCandidateTimedOut_def EventParachainSystemValidationFunctionStored_def
  EventParachainSystemValidationFunctionApplied_def EventParachainSystemValidationFunctionDiscarded_def
  EventParachainSystemUpgradeAuthorized_def EventParachainSystemDownwardMessagesReceived_def
  EventParachainSystemDownwardMessagesProcessed_def EventSessionNewSession_def EventSlotsNewLeasePeriod_def
  EventSlotsLeased_def EventStakingEraPaid_def EventStakingRewarded_def EventStakingSlashed_def
  EventStakingOldSlashingReportDiscarded_def EventStakingStakersElected_def
  EventStakingStakingElectionFailed_def EventStakingSolutionStored_def EventStakingBonded_def
  EventStakingChilled_def EventStakingKicked_def EventStakingPayoutStarted_def EventStakingUnbonded_def
  EventStakingWithdrawn_def EventStateTrieMigrationMigrated_def EventStateTrieMigrationSlashed_def
  EventStateTrieMigrationAutoMigrationFinished_def EventStateTrieMigrationHalted_def
  EventSystemExtrinsicSuccessV8_def EventSystemExtrinsicSuccess_def EventSystemExtrinsicFailedV8_def
  EventSystemExtrinsicFailed_def EventSystemCodeUpdated_def EventSystemNewAccount_def EventSystemRemarked_def
  EventSystemKilledAccount_def EventAssetIssued_def EventAssetCreated_def EventAssetTransferred_def
  EventAssetBurned_def EventAssetTeamChanged_def EventAssetOwnerChanged_def EventAssetFrozen_def
  EventAssetThawed_def EventAssetAssetFrozen_def EventAssetAssetThawed_def EventAssetDestroyed_def
  EventAssetForceCreated_def EventAssetMetadataSet_def EventAssetMetadataCleared_def
  EventAssetApprovedTransfer_def EventAssetApprovalCancelled_def EventAssetTransferredApproved_def
  EventAssetAssetStatusChanged_def EventAuctionsAuctionStarted_def EventAuctionsAuctionClosed_def
  EventAuctionsReserved_def EventAuctionsUnreserved_def EventAuctionsReserveConfiscated_def
  EventAuctionsBidAccepted_def EventAuctionsWinningOffset_def EventBagsListRebagged_def
  EventDemocracyProposed_def EventDemocracyTabled_def EventDemocracyExternalTabled_def EventDemocracyStarted_def
  EventDemocracyPassed_def EventDemocracyNotPassed_def EventDemocracyCancelled_def EventDemocracyExecuted_def
  EventDemocracyDelegated_def EventDemocracyUndelegated_def EventDemocracyVetoed_def EventDemocracyVoted_def
  EventElectionProviderMultiPhaseSolutionStored_def EventElectionProviderMultiPhaseElectionFinalized_def
  EventElectionProviderMultiPhaseRewarded_def EventElectionProviderMultiPhaseSlashed_def
  EventElectionProviderMultiPhaseSignedPhaseStarted_def EventElectionProviderMultiPhaseUnsignedPhaseStarted_def
  EventDemocracyPreimageNoted_def EventDemocracyPreimageUsed_def EventDemocracyPreimageInvalid_def
  EventDemocracyPreimageMissing_def EventDemocracyPreimageReaped_def EventDemocracySeconded_def
  EventDemocracyBlacklisted_def EventCouncilProposed_def EventCouncilVoted_def EventCrowdloanCreated_def
  EventCrowdloanContributed_def EventCrowdloanWithdrew_def EventCrowdloanPartiallyRefunded_def
  EventCrowdloanAllRefunded_def EventCrowdloanDissolved_def EventCrowdloanHandleBidResult_def
  EventCrowdloanEdited_def EventCrowdloanMemoUpdated_def EventCrowdloanAddedToNewRaise_def
  EventCouncilApproved_def EventCouncilDisapproved_def EventCouncilExecuted_def EventCouncilMemberExecuted_def
  EventCouncilClosed_def EventTechnicalCommitteeProposed_def EventTechnicalCommitteeVoted_def
  EventTechnicalCommitteeApproved_def EventTechnicalCommitteeDisapproved_def EventTechnicalCommitteeExecuted_def
  EventTechnicalCommitteeMemberExecuted_def EventTechnicalCommitteeClosed_def
  EventTechnicalMembershipMemberAdded_def EventTechnicalMembershipMemberRemoved_def
  EventTechnicalMembershipMembersSwapped_def EventTechnicalMembershipMembersReset_def
  EventTechnicalMembershipKeyChanged_def EventTechnicalMembershipDummy_def EventElectionsNewTerm_def
  EventElectionsCandidateSlashed_def EventElectionsEmptyTerm_def EventElectionsElectionError_def
  EventElectionsMemberKicked_def EventElectionsRenounced_def EventElectionsSeatHolderSlashed_def
  EventGiltBidPlaced_def EventGiltBidRetracted_def EventGiltGiltIssued_def EventGiltGiltThawed_def
  EventIdentitySet_def EventIdentityCleared_def EventIdentityKilled_def EventIdentityJudgementRequested_def
  EventIdentityJudgementUnrequested_def EventIdentityJudgementGiven_def EventIdentityRegistrarAdded_def
  EventIdentitySubIdentityAdded_def EventIdentitySubIdentityRemoved_def EventIdentitySubIdentityRevoked_def
  EventSocietyFounded_def EventSocietyBid_def EventSocietyVouch_def EventSocietyAutoUnbid_def
  EventSocietyUnbid_def EventSocietyUnvouch_def EventSocietyInducted_def
  EventSocietySuspendedMemberJudgement_def EventSocietyCandidateSuspended_def EventSocietyMemberSuspended_def
  EventSocietyChallenged_def EventSocietyVote_def EventSocietyDefenderVote_def EventSocietyNewMaxMembers_def
  EventSocietyUnfounded_def EventSocietyDeposit_def EventRecoveryCreated_def EventRecoveryInitiated_def
  EventRecoveryVouched_def EventRegistrarRegistered_def EventRegistrarDeregistered_def
  EventRegistrarReserved_def EventReferendaSubmitted_def EventReferendaDecisionDepositPlaced_def
  EventReferendaDecisionDepositRefunded_def EventReferendaDecisionSlashed_def EventReferendaDecisionStarted_def
  EventReferendaConfirmStarted_def EventReferendaConfirmAborted_def EventReferendaConfirmed_def
  EventReferendaApproved_def EventReferendaRejected_def EventReferendaTimedOut_def EventReferendaCancelled_def
  EventReferendaKilled_def EventRecoveryClosed_def EventRecoveryAccountRecovered_def EventRecoveryRemoved_def
  EventVestingVestingUpdated_def EventVoterListRebagged_def EventVoterListScoreUpdated_def
  EventWhitelistCallWhitelisted_def EventWhitelistWhitelistedCallRemoved_def
  EventWhitelistWhitelistedCallDispatched_def EventXcmPalletAttempted_def EventXcmPalletSent_def
  EventXcmPalletUnexpectedResponse_def EventXcmPalletResponseReady_def EventXcmPalletNotified_def
  EventXcmPalletNotifyOverweight_def EventXcmPalletNotifyDispatchError_def EventXcmPalletNotifyDecodeFailed_def
  EventXcmPalletInvalidResponder_def EventXcmPalletInvalidResponderVersion_def EventXcmPalletResponseTaken_def
  EventXcmPalletAssetsTrapped_def EventXcmPalletVersionChangeNotified_def
  EventXcmPalletSupportedVersionChanged_def EventXcmPalletNotifyTargetSendFail_def
  EventXcmPalletNotifyTargetMigrationFail_def EventVestingVestingCompleted_def EventSchedulerScheduled_def
  EventSchedulerCanceled_def EventSchedulerDispatched_def EventSchedulerCallLookupFailed_def
  EventPreimageCleared_def EventPreimageNoted_def EventPreimageRequested_def EventProxyProxyExecuted_def
  EventProxyPureCreated_def EventProxyProxyAdded_def EventProxyProxyRemoved_def EventProxyAnnounced_def
  EventSudoSudid_def EventSudoKeyChanged_def EventSudoAsDone_def EventTreasuryProposed_def
  EventTreasurySpending_def EventTreasuryAwarded_def EventTreasuryRejected_def EventTreasuryBurnt_def
  EventTreasuryRollover_def EventTreasuryDeposit_def EventTreasurySpendApproved_def
  EventTreasuryUpdatedInactive_def EventTipsNewTip_def EventTipsTipClosing_def EventTipsTipClosed_def
  EventTipsTipSlashed_def EventTransactionStorageStored_def EventTransactionStorageRenewed_def
  EventTransactionStorageProofChecked_def EventTransactionPaymentTransactionFeePaid_def
  EventTipsTipRetracted_def EventBountiesBountyProposed_def EventBountiesBountyRejected_def
  EventBountiesBountyBecameActive_def EventBountiesBountyAwarded_def EventBountiesBountyClaimed_def
  EventBountiesBountyCanceled_def EventBountiesBountyExtended_def EventChildBountiesAdded_def
  EventChildBountiesAwarded_def EventChildBountiesClaimed_def EventChildBountiesCanceled_def
  EventUniquesApprovalCancelled_def EventUniquesApprovedTransfer_def EventUniquesAssetStatusChanged_def
  EventUniquesAttributeCleared_def EventUniquesAttributeSet_def EventUniquesBurned_def
  EventUniquesClassFrozen_def EventUniquesClassMetadataCleared_def EventUniquesClassMetadataSet_def
  EventUniquesClassThawed_def EventUniquesCreated_def EventUniquesDestroyed_def EventUniquesForceCreated_def
  EventUniquesFrozen_def EventUniquesIssued_def EventUniquesMetadataCleared_def EventUniquesMetadataSet_def
  EventUniquesOwnerChanged_def EventUniquesRedeposited_def EventUniquesTeamChanged_def EventUniquesThawed_def
  EventUniquesTransferred_def EventUMPInvalidFormat_def EventUMPUnsupportedVersion_def
  EventUMPExecutedUpward_def EventUMPWeightExhausted_def EventUMPUpwardMessagesReceived_def
  EventUMPOverweightEnqueued_def EventUMPOverweightServiced_def EventContractsInstantiated_def
  EventContractsTerminated_def EventConvictionVotingDelegated_def EventConvictionVotingUndelegated_def
  EventContractsContractEmitted_def EventContractsContractCodeUpdated_def
  EventCollatorSelectionNewInvulnerables_def EventCollatorSelectionNewDesiredCandidates_def
  EventCollatorSelectionNewCandidacyBond_def EventCollatorSelectionCandidateAdded_def
  EventCollatorSelectionCandidateRemoved_def EventContractsCodeRemoved_def EventContractsCodeStored_def
  EventContractsScheduleUpdated_def EventContractsContractExecution_def EventUtilityBatchInterrupted_def
  EventUtilityBatchCompleted_def EventUtilityDispatchedAs_def EventUtilityItemCompleted_def
  EventMultisigNewMultisig_def EventNftSalesForSale_def EventNftSalesRemoved_def EventNftSalesSold_def
  EventMultisigApproval_def EventMultisigExecuted_def EventMultisigCancelled_def

section \<open>Shape of the default target\<close>

text \<open>The types with \<open>Decode\<close> methods of their own that occur in the event structs.\<close>

definition event_method_names :: "string list" where
  "event_method_names =
    [''U128'', ''CurrencyID'', ''DispatchResult'', ''MultiLocationV1'', ''Tally'', ''UCompact'',
     ''DispatchError'', ''BalanceStatus'', ''CrossChainTransferability'', ''DispatchInfo'',
     ''DisputeLocation'', ''DisputeResult'', ''ElectionCompute'', ''HRMPChannelID'', ''Instruction'',
     ''LotteryCallIndex'', ''MigrationCompute'', ''OptionBytes'', ''OptionElectionCompute'',
     ''OptionMultiLocationV1'', ''Option[U128]'', ''Option[VersionedMultiLocation]'', ''Outcome'',
     ''Response'', ''Sale'', ''SchedulerLookupError'', ''VersionedMultiAssets'', ''VersionedMultiLocation'',
     ''VoteAccountVote'', ''VoteThreshold'', ''XCMError'']"

lemma event_method_known:
  "''U128'' \<in> set event_method_names" "''CurrencyID'' \<in> set event_method_names"
  "''DispatchResult'' \<in> set event_method_names" "''MultiLocationV1'' \<in> set event_method_names"
  "''Tally'' \<in> set event_method_names" "''UCompact'' \<in> set event_method_names"
  "''DispatchError'' \<in> set event_method_names" "''BalanceStatus'' \<in> set event_method_names"
  "''CrossChainTransferability'' \<in> set event_method_names" "''DispatchInfo'' \<in> set event_method_names"
  "''DisputeLocation'' \<in> set event_method_names" "''DisputeResult'' \<in> set event_method_names"
  "''ElectionCompute'' \<in> set event_method_names" "''HRMPChannelID'' \<in> set event_method_names"
  "''Instruction'' \<in> set event_method_names" "''LotteryCallIndex'' \<in> set event_method_names"
  "''MigrationCompute'' \<in> set event_method_names" "''OptionBytes'' \<in> set event_method_names"
  "''OptionElectionCompute'' \<in> set event_method_names" "''OptionMultiLocationV1'' \<in> set event_method_names"
  "''Option[U128]'' \<in> set event_method_names" "''Option[VersionedMultiLocation]'' \<in> set event_method_names"
  "''Outcome'' \<in> set event_method_names" "''Response'' \<in> set event_method_names"
  "''Sale'' \<in> set event_method_names" "''SchedulerLookupError'' \<in> set event_method_names"
  "''VersionedMultiAssets'' \<in> set event_method_names" "''VersionedMultiLocation'' \<in> set event_method_names"
  "''VoteAccountVote'' \<in> set event_method_names" "''VoteThreshold'' \<in> set event_method_names"
  "''XCMError'' \<in> set event_method_names"
  by (simp_all add: event_method_names_def)

text \<open>
  Types that reflection can fill: no pointers, no platform-sized or unsupported kinds, and no methods
  but these.
\<close>

fun decodable :: "gotype \<Rightarrow> bool" and decodable_fields :: "(bool \<times> gotype) list \<Rightarrow> bool" where
  "decodable (TNum k) \<longleftrightarrow> True"
| "decodable (TPlat k) \<longleftrightarrow> False"
| "decodable (TPtr t) \<longleftrightarrow> False"
| "decodable (TArray n t) \<longleftrightarrow> decodable t"
| "decodable (TSlice t) \<longleftrightarrow> decodable t"
| "decodable TString \<longleftrightarrow> True"
| "decodable (TStruct fs) \<longleftrightarrow> decodable_fields fs"
| "decodable (TOther k) \<longleftrightarrow> False"
| "decodable (TImpl nm) \<longleftrightarrow> nm \<in> set event_method_names"
| "decodable_fields [] \<longleftrightarrow> True"
| "decodable_fields ((skip, t) # fs) \<longleftrightarrow> decodable t \<and> decodable_fields fs"

fun decodable_field :: "field_type \<Rightarrow> bool" where
  "decodable_field (GoType t) \<longleftrightarrow> decodable t"
| "decodable_field _ \<longleftrightarrow> True"

definition event_struct :: "field_type list \<Rightarrow> bool" where
  "event_struct ts \<longleftrightarrow> 2 \<le> length ts \<and> hd ts = PhaseType \<and> last ts = TopicsType \<and> list_all decodable_field ts"

lemma event_structs_shape: "list_all (\<lambda>(f, t). case t of EventSlice ts \<Rightarrow> event_struct ts | OtherField \<Rightarrow> False) EventRecords"
  unfolding EventRecords_def
  by (simp add: event_structs go_types event_struct_def event_method_known)

end
