(* ===== verification/EventProperties.thy ===== *)
theory EventProperties
  imports EventTypes
begin

text \<open>
  What decoding into event structs guarantees: values have the types of the fields they are stored
  in, and the decoder of the default target panics only as its parts do, which are the lengths of
  collections and the \<open>Decode\<close> methods of types.
\<close>

section \<open>Outcomes of decoders\<close>

text \<open>
  Every value that is returned satisfies \<open>P\<close>; every panic has a message in \<open>A\<close>, and the recursion of
  a decoder ends unless \<open>A\<close> has \<open>None\<close>.
\<close>

definition returns :: "('s, 'a) goM \<Rightarrow> ('a \<Rightarrow> bool) \<Rightarrow> bool" where
  "returns m P \<longleftrightarrow> (\<forall>s v s'. m s = (Ok v, s') \<longrightarrow> P v)"

fun abort_ok :: "string option set \<Rightarrow> 'a res \<Rightarrow> bool" where
  "abort_ok A (Panic p) \<longleftrightarrow> Some p \<in> A"
| "abort_ok A OutOfFuel \<longleftrightarrow> None \<in> A"
| "abort_ok A _ \<longleftrightarrow> True"

definition aborts_in :: "string option set \<Rightarrow> ('s, 'a) goM \<Rightarrow> bool" where
  "aborts_in A m \<longleftrightarrow> (\<forall>s. abort_ok A (fst (m s)))"

lemma abortsI: "(\<And>s. abort_ok A (fst (m s))) \<Longrightarrow> aborts_in A m"
  by (simp add: aborts_in_def)

lemma abortsD: "aborts_in A m \<Longrightarrow> abort_ok A (fst (m s))"
  by (simp add: aborts_in_def)

lemma returns_bindM: "returns m Q \<Longrightarrow> (\<And>a. Q a \<Longrightarrow> returns (f a) P) \<Longrightarrow> returns (bindM m f) P"
  unfolding returns_def by (metis bindM_Ok_iff)

lemma returns_retM: "P a \<Longrightarrow> returns (retM a) P"
  by (simp add: returns_def)

lemma returns_failM: "returns (failM e) P" "returns (panicM p) P"
  by (simp_all add: returns_def)

lemma returns_wrapM: "returns m P \<Longrightarrow> returns (wrapM w m) P"
  unfolding returns_def by (metis wrapM_Ok_iff)

lemma returns_weaken: "returns m Q \<Longrightarrow> (\<And>a. Q a \<Longrightarrow> P a) \<Longrightarrow> returns m P"
  unfolding returns_def by blast

lemma returns_each: "returns d P \<Longrightarrow> returns (decode_each n d) (\<lambda>xs. length xs = n \<and> list_all P xs)"
proof (induction n)
  case (Suc n)
  then show ?case
    by (simp del: retM_apply) (rule returns_bindM, assumption, rule returns_bindM, rule Suc.IH, assumption, rule returns_retM, simp)
qed (simp add: returns_retM del: retM_apply)

lemma returns_slice:
  assumes "returns d P"
  shows "returns (Decode_slice d) (\<lambda>xs. length xs < 2 ^ 32 \<and> list_all P xs)"
  unfolding returns_def
proof (intro allI impI)
  fix s v s'
  assume "Decode_slice d s = (Ok v, s')"
  then obtain c t where "\<not> BigInt_Uint64 c > 2 ^ 32 - 1" "decode_each (unat (BigInt_Uint64 c)) d t = (Ok v, s')"
    unfolding Decode_slice_eq by (auto split: prod.splits res.splits if_splits)
  moreover from this have "length v = unat (BigInt_Uint64 c) \<and> list_all P v"
    using returns_each [OF assms] unfolding returns_def by blast
  ultimately show "length v < 2 ^ 32 \<and> list_all P v"
    by (simp add: word_less_nat_alt)
qed

lemma returns_num: "returns (Decode_num k) (\<lambda>n. n < 256 ^ num_size k \<and> (k = Bool \<longrightarrow> n \<le> 1))"
  unfolding Decode_num_def
proof (rule returns_bindM [OF returns_wrapM])
  show "returns (binary_Read (num_size k)) (\<lambda>n. n < 256 ^ num_size k)"
    unfolding returns_def binary_Read_def
    by (auto split: if_splits) (metis le_nat_bound length_take linorder_not_less min.absorb2)
  show "n < 256 ^ num_size k \<Longrightarrow>
      returns (retM (if k = Bool \<and> n \<noteq> 0 then 1 else n)) (\<lambda>n. n < 256 ^ num_size k \<and> (k = Bool \<longrightarrow> n \<le> 1))" for n :: nat
    by (rule returns_retM) auto
qed

section \<open>Types\<close>

lemma DecodeInto_typed:
  "\<forall>nm. returns (impl nm) (typed valid (TImpl nm)) \<Longrightarrow> returns (DecodeInto impl t) (typed valid t)"
  "\<forall>nm. returns (impl nm) (typed valid (TImpl nm)) \<Longrightarrow> returns (DecodeInto_fields impl fs) (typed_fields valid fs)"
proof (induction impl t and impl fs rule: DecodeInto_DecodeInto_fields.induct)
  case (2 impl k)
  show ?case unfolding DecodeInto.simps by (rule returns_bindM [OF returns_num]) (simp add: returns_retM del: retM_apply)
next
  case (5 impl n t)
  then show ?case
    unfolding DecodeInto.simps by (intro returns_bindM [OF returns_each]) (auto intro: returns_retM simp del: retM_apply)
next
  case (6 impl t)
  then show ?case
    unfolding DecodeInto.simps by (intro returns_bindM [OF returns_slice]) (auto intro: returns_retM simp del: retM_apply)
next
  case (7 impl)
  have "returns Decode_byte (\<lambda>_. True)" by (simp add: returns_def)
  from returns_slice [OF this] show ?case
    unfolding DecodeInto.simps by (rule returns_bindM) (simp add: returns_retM del: retM_apply)
next
  case (8 impl fs)
  then show ?case
    unfolding DecodeInto.simps by (intro returns_bindM [where Q = "typed_fields valid fs"]) (auto intro: returns_retM simp del: retM_apply)
next
  case (11 impl skip t fs)
  have "returns (if skip then retM (zero_of t) else wrapM struct_dec_err (DecodeInto impl t))
      (\<lambda>v. if skip then v = zero_of t else typed valid t v)"
    using 11 by (auto intro: returns_retM returns_wrapM simp del: retM_apply)
  then show ?case
    unfolding DecodeInto_fields.simps
    by (rule returns_bindM) (rule returns_bindM, rule 11(2), insert 11(3), auto intro: returns_retM simp del: retM_apply)
qed (auto simp: returns_def)

fun field_typed :: "(string \<Rightarrow> goval \<Rightarrow> bool) \<Rightarrow> field_type \<Rightarrow> field_value \<Rightarrow> bool" where
  "field_typed valid PhaseType (PhaseValue p) \<longleftrightarrow> True"
| "field_typed valid TopicsType (TopicsValue ts) \<longleftrightarrow> length ts < 2 ^ 32 \<and> list_all (\<lambda>t. length t = 32) ts"
| "field_typed valid (GoType t) (GoValue v) \<longleftrightarrow> typed valid t v"
| "field_typed valid _ _ \<longleftrightarrow> False"

text \<open>Every record of a field of the target is a value of the field's event struct.\<close>

definition records_typed :: "(string \<Rightarrow> goval \<Rightarrow> bool) \<Rightarrow> (string \<times> target_field) list \<Rightarrow> records \<Rightarrow> bool" where
  "records_typed valid fs vals \<longleftrightarrow>
     (\<forall>field. \<forall>v\<in>set (vals field). \<exists>ts. map_of fs field = Some (EventSlice ts) \<and> list_all2 (field_typed valid) ts v)"

lemma decode_field_typed:
  assumes "\<forall>nm. returns (impl nm) (typed valid (TImpl nm))"
  shows "returns (decode_field_type impl t) (field_typed valid t)"
proof (cases t)
  case PhaseType
  then show ?thesis by (simp add: returns_def bindM_Ok_iff del: bindM_Ok) auto
next
  case TopicsType
  have "returns Hash_Decode (\<lambda>h. length h = 32)"
    using returns_each [of Decode_byte "\<lambda>_. True" 32] by (simp add: Hash_Decode_def returns_def)
  from returns_slice [OF this] show ?thesis
    unfolding TopicsType decode_field_type.simps by (rule returns_bindM) (simp add: returns_retM del: retM_apply)
next
  case (GoType u)
  show ?thesis
    unfolding GoType decode_field_type.simps
    by (rule returns_bindM [OF DecodeInto_typed(1) [OF assms]]) (simp add: returns_retM del: retM_apply)
qed

lemma decode_record_fields_typed:
  assumes "\<forall>nm. returns (impl nm) (typed valid (TImpl nm))"
  shows "returns (decode_record_fields impl err j ts) (list_all2 (field_typed valid) ts)"
proof (induction ts arbitrary: j)
  case (Cons t ts)
  show ?case
    unfolding decode_record_fields.simps
    by (rule returns_bindM [OF returns_wrapM [OF decode_field_typed [OF assms]]], rule returns_bindM [OF Cons.IH])
      (simp add: returns_retM del: retM_apply)
qed (simp add: returns_retM del: retM_apply)

abbreviation typing :: "(string \<Rightarrow> goval \<Rightarrow> bool) \<Rightarrow> (string \<times> target_field) list \<Rightarrow> (bytes \<times> records, 'a) goM \<Rightarrow> bool" where
  "typing valid fs m \<equiv> preserves (\<lambda>s. records_typed valid fs (snd s)) m"

lemma typing_steps:
  "typing valid fs (onReader d)" "typing valid fs (failM e)" "typing valid fs (panicM p)" "typing valid fs (liftM r)"
  by (auto simp: preserves_def onReader_def split: prod.splits)

lemma typing_append:
  "map_of fs field = Some (EventSlice ts) \<Longrightarrow> list_all2 (field_typed valid) ts v \<Longrightarrow> typing valid fs (append_record field v)"
  by (fastforce simp: preserves_def append_record_def records_typed_def)

text \<open>Sequencing where the second step relies on the value of the first.\<close>

lemma preserves_bind_returns:
  assumes "preserves I m" "returns m Q" "\<And>a. Q a \<Longrightarrow> preserves I (f a)"
  shows "preserves I (bindM m f)"
  unfolding preserves_def
proof (intro allI impI)
  fix s r s'
  assume I: "I s" and r: "bindM m f s = (r, s')"
  obtain q t where q: "m s = (q, t)" by fastforce
  then have "I t" by (rule preservesD [OF assms(1) I])
  then show "I s'"
    using r q assms(2,3) unfolding returns_def by (cases q) (auto dest: preservesD)
qed

lemma returns_onReader: "returns m P \<Longrightarrow> returns (onReader m) P"
  by (fastforce simp: returns_def onReader_def split: prod.splits)

lemma typing_decode_record:
  assumes "\<forall>nm. returns (impl nm) (typed valid (TImpl nm))"
  shows "typing valid fs (decode_record m impl fs i)"
proof -
  have store: "typing valid fs (bindM (onReader (decode_record_fields impl err (Suc 0) (tl ts))) (\<lambda>vs. append_record field (PhaseValue p # vs)))"
    if "map_of fs field = Some (EventSlice ts)" "\<not> length ts < 2" "hd ts = PhaseType" for err ts field p
  proof (rule preserves_bind_returns [OF typing_steps(1) returns_onReader [OF decode_record_fields_typed [OF assms]]])
    fix vs
    assume "list_all2 (field_typed valid) (tl ts) vs"
    moreover have "ts = PhaseType # tl ts" using that(2,3) by (cases ts) auto
    ultimately have "list_all2 (field_typed valid) ts (PhaseValue p # vs)" by (metis field_typed.simps(1) list_all2_Cons)
    then show "typing valid fs (append_record field (PhaseValue p # vs))" by (rule typing_append [OF that(1)])
  qed
  show ?thesis
    unfolding decode_record_def Let_def
    by (intro preserves_bindM preserves_wrapM typing_steps)
      (auto split: option.split target_field.split prod.split simp del: failM_apply intro!: typing_steps store)
qed

lemma typing_loop:
  "\<forall>nm. returns (impl nm) (typed valid (TImpl nm)) \<Longrightarrow> typing valid fs (DecodeEventRecords_loop m impl fs n i)"
proof (induction m impl fs n i rule: DecodeEventRecords_loop.induct)
  case (1 m impl fs n i)
  then show ?case
    by (subst DecodeEventRecords_loop.simps)
      (auto simp del: retM_apply intro!: preserves_bindM typing_decode_record preserves_retM)
qed

section \<open>Panics\<close>

definition nil_dereference :: string where
  "nil_dereference = ''invalid memory address or nil pointer dereference''"

lemma FindEventNames_outcome:
  "Metadata_FindEventNamesForEventID m k \<noteq> Panic p \<and> Metadata_FindEventNamesForEventID m k \<noteq> OutOfFuel"
proof -
  have v14: "FindEventNames_loop lk k ms \<noteq> Panic p \<and> FindEventNames_loop lk k ms \<noteq> OutOfFuel" for lk ms
    by (induction ms) (auto split: option.splits)
  have found: "event_in_module b nm res es \<noteq> Panic p \<and> event_in_module b nm res es \<noteq> OutOfFuel"
      "event_module_missing b \<noteq> Panic p \<and> event_module_missing b \<noteq> OutOfFuel" for b nm res es
    by (auto simp: event_in_module_def event_module_missing_def)
  have counting: "FindEventNames_counting has name res events k i ms \<noteq> Panic p \<and> FindEventNames_counting has name res events k i ms \<noteq> OutOfFuel"
      for has name res events i and ms :: "'m list"
    by (induction ms arbitrary: i) (simp_all add: found)
  have indexed: "FindEventNames_indexed has name events index k ms \<noteq> Panic p \<and> FindEventNames_indexed has name events index k ms \<noteq> OutOfFuel"
      for has name events index and ms :: "'m list"
    by (induction ms) (simp_all add: found)
  show ?thesis
    unfolding Metadata_FindEventNamesForEventID_def V4_FindEventNamesForEventID_def V7_FindEventNamesForEventID_def
      V8_FindEventNamesForEventID_def V9_FindEventNamesForEventID_def V10_FindEventNamesForEventID_def
      V12_FindEventNamesForEventID_def V13_FindEventNamesForEventID_def V14_FindEventNamesForEventID_def
    by (simp add: v14 counting indexed)
qed

text \<open>
  Decoders that may panic where a nil pointer is dereferenced: what holds of the parts of a decoder
  holds of the whole, up to \<open>DecodeEventRecords\<close> with the default target.
\<close>

named_theorems abort_rules "decoders that abort only in allowed ways"

locale aborting =
  fixes allowed :: "string option set"
  assumes nil_allowed: "Some nil_dereference \<in> allowed"
begin

lemma bindM [abort_rules]:
  assumes "aborts_in allowed m" "\<And>a. aborts_in allowed (f a)"
  shows "aborts_in allowed (bindM m f)"
proof (rule abortsI)
  fix s
  obtain r t where m: "m s = (r, t)" by fastforce
  then show "abort_ok allowed (fst (bindM m f s))"
    using abortsD [OF assms(1), of s] abortsD [OF assms(2), of _ t] by (cases r) (simp_all add: bindM_def)
qed

lemma steps [abort_rules]:
  "aborts_in allowed (retM a)" "aborts_in allowed (failM e)" "aborts_in allowed m \<Longrightarrow> aborts_in allowed (wrapM w m)"
  "aborts_in allowed d \<Longrightarrow> aborts_in allowed (onReader d)" "aborts_in allowed (append_record field v)"
  by (simp_all add: aborts_in_def wrapM_def onReader_def append_record_def split_beta split: res.split) (metis abort_ok.simps(1,2) fst_conv)

lemma if_else [abort_rules]: "aborts_in allowed x \<Longrightarrow> aborts_in allowed y \<Longrightarrow> aborts_in allowed (if c then x else y)"
  by simp

lemma reads [abort_rules]: "aborts_in allowed (Decoder_Read n)" "aborts_in allowed (binary_Read n)"
  by (auto simp: aborts_in_def Decoder_Read_def binary_Read_def split: prod.splits option.splits if_splits)

lemma scalars [abort_rules]:
  "aborts_in allowed ReadOneByte" "aborts_in allowed DecodeUintCompact" "aborts_in allowed (Decode_num k)" "aborts_in allowed (Decode_word k)"
  unfolding ReadOneByte_def DecodeUintCompact_def Decode_num_def Decode_word_def Let_def by (intro abort_rules)+

lemma byte [abort_rules]: "aborts_in allowed Decode_byte"
  unfolding Decode_byte_def by (intro abort_rules)

lemma each [abort_rules]: "aborts_in allowed d \<Longrightarrow> aborts_in allowed (decode_each n d)"
  by (induction n) (simp_all add: abort_rules del: retM_apply)

text \<open>The length of a slice is where the pointer can be nil.\<close>

lemma slice_length [abort_rules]: "aborts_in allowed DecodeUintCompact_ignoring" "aborts_in allowed (BigInt_ptr_Uint64 q)"
proof -
  show "aborts_in allowed DecodeUintCompact_ignoring"
  proof (rule abortsI)
    fix s
    show "abort_ok allowed (fst (DecodeUintCompact_ignoring s))"
      using abortsD [OF scalars(2), of s] by (auto simp: DecodeUintCompact_ignoring_def split: prod.split res.split)
  qed
  show "aborts_in allowed (BigInt_ptr_Uint64 q)"
    using nil_allowed by (intro abortsI) (simp add: BigInt_ptr_Uint64_def nil_dereference_def split: option.split)
qed

lemma slices [abort_rules]: "aborts_in allowed d \<Longrightarrow> aborts_in allowed (Decode_slice d)"
  unfolding Decode_slice_def by (intro abort_rules)

lemma DecodeInto_aborts:
  "\<forall>nm\<in>set event_method_names. aborts_in allowed (impl nm) \<Longrightarrow> decodable t \<Longrightarrow> aborts_in allowed (DecodeInto impl t)"
  "\<forall>nm\<in>set event_method_names. aborts_in allowed (impl nm) \<Longrightarrow> decodable_fields fs \<Longrightarrow> aborts_in allowed (DecodeInto_fields impl fs)"
proof (induction impl t and impl fs rule: DecodeInto_DecodeInto_fields.induct)
qed (auto simp del: retM_apply failM_apply intro!: abort_rules)

lemma Phase_aborts: "aborts_in allowed Phase_Decode" "aborts_in allowed EventID_Decode"
  unfolding Phase_Decode_def EventID_Decode_def by (intro abort_rules)+

lemma field_aborts:
  "\<forall>nm\<in>set event_method_names. aborts_in allowed (impl nm) \<Longrightarrow> decodable_field t \<Longrightarrow> aborts_in allowed (decode_field_type impl t)"
  by (cases t) (auto simp: Hash_Decode_def simp del: retM_apply intro!: abort_rules Phase_aborts DecodeInto_aborts)

lemma record_fields_aborts:
  "\<forall>nm\<in>set event_method_names. aborts_in allowed (impl nm) \<Longrightarrow> list_all decodable_field ts \<Longrightarrow>
    aborts_in allowed (decode_record_fields impl err j ts)"
  by (induction ts arbitrary: j) (auto simp del: retM_apply intro!: abort_rules field_aborts)

lemma decode_record_aborts:
  assumes "\<forall>nm\<in>set event_method_names. aborts_in allowed (impl nm)"
  shows "aborts_in allowed (decode_record m impl EventRecords i)"
proof -
  have shape: "\<exists>ts. t = EventSlice ts \<and> event_struct ts" if "map_of EventRecords field = Some t" for field t
    using event_structs_shape map_of_SomeD [OF that] by (auto simp: list_all_iff split: target_field.splits)
  have find: "aborts_in allowed (liftM (Metadata_FindEventNamesForEventID m k))" for k
    using FindEventNames_outcome [of m k] by (cases "Metadata_FindEventNamesForEventID m k") (auto simp: aborts_in_def)
  have struct_fields: "aborts_in allowed (onReader (decode_record_fields impl err j (tl ts)))" if "event_struct ts" for err j ts
    using that by (intro steps(4) record_fields_aborts [OF assms]) (cases ts, auto simp: event_struct_def)
  show ?thesis
    unfolding decode_record_def Let_def
    by (intro bindM steps(3,4) Phase_aborts find)
      (auto split: option.split target_field.split prod.split simp del: failM_apply dest: shape
        intro!: bindM steps(2,5) struct_fields)
qed

lemma loop_aborts:
  "\<forall>nm\<in>set event_method_names. aborts_in allowed (impl nm) \<Longrightarrow> fs = EventRecords \<Longrightarrow>
    aborts_in allowed (DecodeEventRecords_loop m impl fs n i)"
proof (induction m impl fs n i rule: DecodeEventRecords_loop.induct)
  case (1 m impl fs n i)
  then show ?case
    by (subst DecodeEventRecords_loop.simps)
      (auto simp del: retM_apply intro!: bindM decode_record_aborts steps(1))
qed

lemma DecodeEventRecords_aborts:
  assumes "\<forall>nm\<in>set event_method_names. aborts_in allowed (impl nm)"
  shows "aborts_in allowed (bindM (onReader DecodeUintCompact) (\<lambda>n. DecodeEventRecords_loop meta impl EventRecords (BigInt_Uint64 n) 0))"
  by (intro bindM steps(4) scalars loop_aborts [OF assms] refl)

end

section \<open>An event of the auctions\<close>

definition auction_types :: "PortableTypeV14 list" where
  "auction_types =
    [\<lparr>ptID = 1, ptType = plain_type [] (zero_typedef\<lparr>IsVariant := True, Variants :=
        [\<lparr>vName = ''AuctionClosed'', vFields = [], vIndex = 0, vDocs = []\<rparr>]\<rparr>)\<rparr>]"

definition auction_metadata :: MetadataV14 where
  "auction_metadata =
     \<lparr>Lookup = auction_types, Pallets = [(sample_pallet ''Auctions'' 5)\<lparr>pEvents := 1\<rparr>],
      mdExtrinsic = \<lparr>exType = 1, exVersion = 4, exSignedExtensions = []\<rparr>, mdType = 1,
      EfficientLookup = toMap auction_types\<rparr>"

definition auction_meta :: Metadata where
  "auction_meta = zero_metadata\<lparr>mdVersion := 14, AsMetadataV14 := auction_metadata\<rparr>"

lemma auction_names: "Metadata_FindEventNamesForEventID auction_meta (5, 0) = Ok (''Auctions'', ''AuctionClosed'')"
proof -
  have "toMap auction_types 1 = Some (ptType (hd auction_types))" by code_simp
  then show ?thesis
    by (simp add: Metadata_FindEventNamesForEventID_def auction_meta_def V14_FindEventNamesForEventID_def auction_metadata_def
        auction_types_def plain_type_def sample_pallet_def)
qed

lemma auction_field: "map_of EventRecords ''Auctions_AuctionClosed'' = Some (EventSlice EventAuctionsAuctionClosed)"
  unfolding EventRecords_def by (simp del: map_of.simps add: map_of_Cons_code)

text \<open>One round of the decoder for such an event, by what the fields after the phase give.\<close>

lemma auction_round:
  "\<forall>err. decode_record_fields impl err 1 [GoType go_U32, TopicsType] bs = (Ok vs, bs') \<Longrightarrow>
     decode_record auction_meta impl EventRecords i (1 # 5 # 0 # bs, vals) =
       (Ok (), bs', vals(''Auctions_AuctionClosed'' := vals ''Auctions_AuctionClosed'' @ [PhaseValue (zero_phase\<lparr>IsFinalization := True\<rparr>) # vs]))"
  "\<forall>err. decode_record_fields impl err 1 [GoType go_U32, TopicsType] bs = (Panic p, bs') \<Longrightarrow>
     decode_record auction_meta impl EventRecords i (1 # 5 # 0 # bs, vals) = (Panic p, bs', vals)"
  "\<forall>err. \<exists>e. decode_record_fields impl err 1 [GoType go_U32, TopicsType] bs = (Err e, bs') \<Longrightarrow>
     \<exists>e. decode_record auction_meta impl EventRecords i (1 # 5 # 0 # bs, vals) = (Err e, bs', vals)"
proof -
  have byte: "Decode_byte (b # bs) = (Ok b, bs)" for b bs
    by (simp add: Decode_byte_def Decode_num_def binary_Read_def wrapM_def bindM_def)
  have steps: "Phase_Decode (1 # 5 # 0 # bs) = (Ok (zero_phase\<lparr>IsFinalization := True\<rparr>), 5 # 0 # bs)"
    "EventID_Decode (5 # 0 # bs) = (Ok (5, 0), bs)"
    by (simp_all add: Phase_Decode_def EventID_Decode_def byte)
  obtain err where round: "decode_record auction_meta impl EventRecords i (1 # 5 # 0 # bs, vals) =
      bindM (onReader (decode_record_fields impl err 1 [GoType go_U32, TopicsType]))
        (\<lambda>vs. append_record ''Auctions_AuctionClosed'' (PhaseValue (zero_phase\<lparr>IsFinalization := True\<rparr>) # vs)) (bs, vals)"
    using auction_field
    by (simp add: decode_record_def onReader_def steps auction_names EventAuctionsAuctionClosed_def Let_def bindM_def wrapM_def
        del: failM_apply decode_record_fields.simps)
  note simps = round bindM_def onReader_def append_record_def
  show "\<forall>err. decode_record_fields impl err 1 [GoType go_U32, TopicsType] bs = (Ok vs, bs') \<Longrightarrow>
     decode_record auction_meta impl EventRecords i (1 # 5 # 0 # bs, vals) =
       (Ok (), bs', vals(''Auctions_AuctionClosed'' := vals ''Auctions_AuctionClosed'' @ [PhaseValue (zero_phase\<lparr>IsFinalization := True\<rparr>) # vs]))"
    by (simp add: simps del: decode_record_fields.simps)
  show "\<forall>err. decode_record_fields impl err 1 [GoType go_U32, TopicsType] bs = (Panic p, bs') \<Longrightarrow>
     decode_record auction_meta impl EventRecords i (1 # 5 # 0 # bs, vals) = (Panic p, bs', vals)"
    by (simp add: simps del: decode_record_fields.simps)
  assume "\<forall>err. \<exists>e. decode_record_fields impl err 1 [GoType go_U32, TopicsType] bs = (Err e, bs')"
  then obtain e where "decode_record_fields impl err 1 [GoType go_U32, TopicsType] bs = (Err e, bs')" by blast
  then show "\<exists>e. decode_record auction_meta impl EventRecords i (1 # 5 # 0 # bs, vals) = (Err e, bs', vals)"
    by (simp add: simps del: decode_record_fields.simps)
qed

lemma auction_closed_run:
  "\<exists>e vals. DecodeEventRecords [8, 1, 5, 0, 7, 0, 0, 0, 0, 1, 5, 0, 9] auction_meta (\<lambda>_. failM EOF) (PointerToStruct EventRecords) (\<lambda>_. []) = (Err e, vals) \<and>
     vals ''Auctions_AuctionClosed'' = [[PhaseValue (zero_phase\<lparr>IsFinalization := True\<rparr>), GoValue (VNum Uint32 7), TopicsValue []]]"
proof -
  let ?impl = "\<lambda>_. failM EOF"
  let ?vals = "(\<lambda>_. [])(''Auctions_AuctionClosed'' := [[PhaseValue (zero_phase\<lparr>IsFinalization := True\<rparr>), GoValue (VNum Uint32 7), TopicsValue []]])"
  have n: "DecodeUintCompact (8 # s) = (Ok 2, s)" for s by (simp add: DecodeUintCompact_mode)
  have "\<forall>err. decode_record_fields ?impl err 1 [GoType go_U32, TopicsType] [7, 0, 0, 0, 0, 1, 5, 0, 9] = (Ok [GoValue (VNum Uint32 7), TopicsValue []], [1, 5, 0, 9])"
    by (simp add: go_U32_def Decode_num_def binary_Read_def Decode_slice_outcome bindM_def wrapM_def header_complete_def header_size_def header_value_def)
  from auction_round(1) [OF this, of 0 "\<lambda>_. []"]
  have stored: "decode_record auction_meta ?impl EventRecords 0 ([1, 5, 0, 7, 0, 0, 0, 0, 1, 5, 0, 9], \<lambda>_. []) = (Ok (), [1, 5, 0, 9], ?vals)" by simp
  have "\<forall>err. \<exists>e. decode_record_fields ?impl err 1 [GoType go_U32, TopicsType] [9] = (Err e, [])"
    by (simp add: go_U32_def Decode_num_def binary_Read_def bindM_def wrapM_def)
  from auction_round(3) [OF this, of 1 ?vals]
  obtain e where cut: "decode_record auction_meta ?impl EventRecords 1 ([1, 5, 0, 9], ?vals) = (Err e, [], ?vals)" by blast
  have "DecodeEventRecords [8, 1, 5, 0, 7, 0, 0, 0, 0, 1, 5, 0, 9] auction_meta ?impl (PointerToStruct EventRecords) (\<lambda>_. []) = (Err e, ?vals)"
    by (simp add: DecodeEventRecords_def DecodeEventRecords_loop.simps [of _ _ _ 2] stored cut n onReader_def BigInt_Uint64_def bindM_def)
  then show ?thesis by simp
qed

section \<open>Properties\<close>

text \<open>
  C21: Decoding is type sound: whatever value \<open>DecodeIntoReflectValue\<close> stores at a Go type is a value
  of that type, with integers in range, arrays of the declared length, slices within the protocol's
  bound and structs with all their fields, provided the types with \<open>Decode\<close> methods keep to theirs.\<close>

theorem decode_into_typed:
  assumes "\<forall>nm s v s'. impl nm s = (Ok v, s') \<longrightarrow> typed valid (TImpl nm) v"
    and "DecodeInto impl t s = (Ok v, s')"
  shows "typed valid t v"
  using DecodeInto_typed(1) [of impl valid t] assms unfolding returns_def by blast

theorem decode_into_typed_witness:
  "typed (\<lambda>_ _. False) (TStruct [(False, TNum Uint8), (False, TSlice (TNum Bool))])
     (VStruct [(False, VNum Uint8 7), (False, VSlice [VNum Bool 1, VNum Bool 0])])"
  by (rule decode_into_typed [where impl = "\<lambda>_. failM EOF" and s = "[7, 8, 200, 0]" and s' = "[]"]) (simp, code_simp)

text \<open>
  C22: \<open>DecodeEventRecords\<close> keeps the target well typed: if every record in the target is a value of
  its field's event struct before the call, then so it is afterwards, also when decoding stops
  with an error or a panic in the middle.\<close>

theorem event_records_typed:
  assumes "\<forall>nm s v s'. impl nm s = (Ok v, s') \<longrightarrow> typed valid (TImpl nm) v"
    and "records_typed valid fs vals"
    and "DecodeEventRecords sd meta impl (PointerToStruct fs) vals = (r, vals')"
  shows "records_typed valid fs vals'"
proof -
  have "\<forall>nm. returns (impl nm) (typed valid (TImpl nm))" using assms(1) by (simp add: returns_def)
  then have "typing valid fs (bindM (onReader DecodeUintCompact) (\<lambda>n. DecodeEventRecords_loop meta impl fs (BigInt_Uint64 n) 0))"
    by (intro preserves_bindM typing_steps typing_loop)
  from preservesD [OF this, of "(sd, vals)"] assms(2,3) show ?thesis
    by (auto simp: DecodeEventRecords_def split: prod.splits)
qed

theorem event_records_typed_witness:
  "\<exists>e vals. DecodeEventRecords [8, 1, 5, 0, 7, 0, 0, 0, 0, 1, 5, 0, 9] auction_meta (\<lambda>_. failM EOF) (PointerToStruct EventRecords) (\<lambda>_. []) = (Err e, vals) \<and>
     vals ''Auctions_AuctionClosed'' = [[PhaseValue (zero_phase\<lparr>IsFinalization := True\<rparr>), GoValue (VNum Uint32 7), TopicsValue []]] \<and>
     records_typed (\<lambda>_ _. False) EventRecords vals"
proof -
  let ?sd = "[8, 1, 5, 0, 7, 0, 0, 0, 0, 1, 5, 0, 9]"
  obtain e vals where run: "DecodeEventRecords ?sd auction_meta (\<lambda>_. failM EOF) (PointerToStruct EventRecords) (\<lambda>_. []) = (Err e, vals)"
    "vals ''Auctions_AuctionClosed'' = [[PhaseValue (zero_phase\<lparr>IsFinalization := True\<rparr>), GoValue (VNum Uint32 7), TopicsValue []]]"
    using auction_closed_run by blast
  have "records_typed (\<lambda>_ _. False) EventRecords vals"
    by (rule event_records_typed [OF _ _ run(1)]) (simp_all add: records_typed_def)
  with run show ?thesis by blast
qed

section \<open>A field with the struct of another event\<close>

lemma reads_byte_array:
  assumes "length h = n"
  shows "reads (DecodeInto impl (TArray n (TNum Uint8))) h (VArray (map (\<lambda>b. VNum Uint8 (unat b)) h))"
proof -
  have "reads (decode_each n (DecodeInto impl (TNum Uint8))) h (map (\<lambda>b. VNum Uint8 (unat b)) h)"
    using assms
  proof (induction n arbitrary: h)
    case (Suc n)
    then obtain b t where h: "h = b # t" "length t = n" by (cases h) auto
    have "reads (DecodeInto impl (TNum Uint8)) [b] (VNum Uint8 (unat b))"
      by (simp add: reads_def Decode_num_def binary_Read_def bindM_def wrapM_def)
    then have "reads (decode_each (Suc n) (DecodeInto impl (TNum Uint8))) ([b] @ t) (VNum Uint8 (unat b) # map (\<lambda>b. VNum Uint8 (unat b)) t)"
      unfolding decode_each.simps by (rule reads_bindM) (rule reads_bindM_last [OF Suc.IH [OF h(2)]], rule refl)
    then show ?case by (simp add: h(1) del: DecodeInto.simps decode_each.simps)
  qed (simp add: reads_retM del: retM_apply)
  then show ?thesis unfolding DecodeInto.simps by (rule reads_bindM_last) simp
qed

text \<open>
  \<open>EventRecords\<close> declares the field for the event \<open>Whitelist.WhitelistedCallDispatched\<close> with the
  struct of \<open>WhitelistedCallRemoved\<close>, although a struct with the result of the call exists. Where the
  bytes of a dispatched call are read with its own struct to the end of the event, the struct of the
  field takes the byte of the result for the length of the topics and leaves the rest of the event
  to be read as the next one.\<close>

theorem whitelisted_dispatch_misread:
  assumes "length h = 32" "reads (impl ''DispatchResult'') [0] ok"
  defines "hash \<equiv> GoValue (VArray (map (\<lambda>b. VNum Uint8 (unat b)) h))"
  shows "(''Whitelist_WhitelistedCallDispatched'', EventSlice EventWhitelistWhitelistedCallRemoved) \<in> set EventRecords \<and>
    decode_record_fields impl err j (tl EventWhitelistWhitelistedCallDispatched) (h @ [0, 0] @ rest) =
      (Ok [hash, GoValue ok, TopicsValue []], rest) \<and>
    decode_record_fields impl err j (tl EventWhitelistWhitelistedCallRemoved) (h @ [0, 0] @ rest) =
      (Ok [hash, TopicsValue []], 0 # rest)"
proof (intro conjI)
  show "(''Whitelist_WhitelistedCallDispatched'', EventSlice EventWhitelistWhitelistedCallRemoved) \<in> set EventRecords"
    by (simp add: EventRecords_def)
  have h: "DecodeInto impl go_Hash (h @ bs) = (Ok (VArray (map (\<lambda>b. VNum Uint8 (unat b)) h)), bs)" for bs
    using readsD [OF reads_byte_array [OF assms(1)]] by (simp add: go_Hash_def go_H256_def del: DecodeInto.simps)
  have t: "Decode_slice Hash_Decode (0 # bs) = (Ok [], bs)" for bs
    by (simp add: Decode_slice_eq DecodeUintCompact_def BigInt_Uint64_def)
  have r: "impl ''DispatchResult'' (0 # bs) = (Ok ok, bs)" for bs
    using readsD [OF assms(2), of bs] by simp
  show "decode_record_fields impl err j (tl EventWhitelistWhitelistedCallDispatched) (h @ [0, 0] @ rest) =
      (Ok [hash, GoValue ok, TopicsValue []], rest)"
    by (simp add: EventWhitelistWhitelistedCallDispatched_def hash_def h t r)
  show "decode_record_fields impl err j (tl EventWhitelistWhitelistedCallRemoved) (h @ [0, 0] @ rest) =
      (Ok [hash, TopicsValue []], 0 # rest)"
    by (simp add: EventWhitelistWhitelistedCallRemoved_def hash_def h t)
qed

theorem whitelisted_dispatch_misread_witness:
  "snd (decode_record_fields (\<lambda>_. bindM ReadOneByte (\<lambda>_. retM (VString []))) (\<lambda>j e. e) 1
     (tl EventWhitelistWhitelistedCallRemoved) (replicate 32 7 @ [0, 0] @ [])) = [0]"
  using whitelisted_dispatch_misread [of "replicate 32 7" "\<lambda>_. bindM ReadOneByte (\<lambda>_. retM (VString []))" "VString []"
    "\<lambda>j e. e" 1 "[]"]
  by (simp add: reads_def)

end
