(* ===== verification/ChainCodec.thy ===== *)
theory ChainCodec
  imports Extrinsics ExtrinsicProperties
begin

text \<open>
  What the codecs of chain data share: arrays of encodable values and the rules that take a
  tagged union or a struct apart.

  Go has no tagged unions. The types of the module that stand for one are structs with a flag
  per variant next to the variant's fields; the methods set, and test, one flag. The model has
  one constructor per flag that carries the fields of its variant, and a constructor \<open>_Zero\<close>
  for the struct without any flag, which the decoder leaves behind when it meets an unknown tag.
\<close>

named_theorems codec_steps "round trips of the codecs of components, and the rules that compose them"
named_theorems codec_laws "the contracts of the codecs of components"

section \<open>Containers\<close>

definition array_ok :: "nat \<Rightarrow> ('a \<Rightarrow> bool) \<Rightarrow> 'a list \<Rightarrow> bool" where
  "array_ok n P xs \<longleftrightarrow> length xs = n \<and> list_all P xs"

lemma array_step:
  assumes "scale_codec e d P" and "array_ok n P xs"
  shows "rt (encode_each e xs) (decode_each n d) xs"
  using scale_codec.roundtrip [OF scale_codec_array [OF assms(1)], of xs n] assms(2) by (simp add: array_ok_def)

lemma slice_step: "scale_codec e d P \<Longrightarrow> slice_ok P xs \<Longrightarrow> rt (Encode_slice e xs) (Decode_slice d) xs"
  by (rule scale_codec.roundtrip [OF slice_contract])

text \<open>An optional value is the pair of its presence flag and the value, as \<open>Option[T]\<close> of \<open>option.go\<close> has it.\<close>

definition EncodeOpt :: "('a \<Rightarrow> (bytes, unit) goM) \<Rightarrow> bool \<times> 'a \<Rightarrow> (bytes, unit) goM" where
  "EncodeOpt e x = EncodeOption e (fst x) (snd x)"

definition opt_ok :: "('a \<Rightarrow> bool) \<Rightarrow> 'a \<Rightarrow> bool \<times> 'a \<Rightarrow> bool" where
  "opt_ok P z x \<longleftrightarrow> option_ok P z (fst x) (snd x)"

lemma option_step: "scale_codec e d P \<Longrightarrow> opt_ok P z x \<Longrightarrow> rt (EncodeOpt e x) (DecodeOption d z) x"
  using option_contract [of e d P z "fst x" "snd x"] by (simp add: EncodeOpt_def opt_ok_def)

lemma opt_codec: "scale_codec e d P \<Longrightarrow> scale_codec (EncodeOpt e) (DecodeOption d z) (opt_ok P z)"
  by unfold_locales (rule option_step)

section \<open>Tags\<close>

lemma rt_byte_tag: "f b = retM v \<Longrightarrow> rt (PushByte b) (bindM ReadOneByte f) v"
  by (rule rt_last [OF rt_PushByte])

lemma rt_tagged: "f b = d \<Longrightarrow> rt e d v \<Longrightarrow> rt (seqM (PushByte b) e) (bindM ReadOneByte f) v"
  by (rule rt_variant_tag [OF refl])

lemma rt_done: "rt e d a \<Longrightarrow> f a = retM v \<Longrightarrow> rt e (bindM d f) v"
  by (rule rt_last)

definition U128_ok :: "int option \<Rightarrow> bool" where
  "U128_ok i \<longleftrightarrow> (\<exists>v. i = Some v \<and> 0 \<le> v \<and> v < 2 ^ 128)"

lemma U128_codec: "scale_codec U128_Encode U128_Decode U128_ok"
  using u128.scale_codec_axioms by (simp add: U128_ok_def [abs_def])

section \<open>Errors that are dropped\<close>

text \<open>\<open>if err := m; err != nil { return nil }\<close>: the rest is skipped, the error is not reported.\<close>

definition skipM :: "('s, 'a) goM \<Rightarrow> 'b \<Rightarrow> ('a \<Rightarrow> ('s, 'b) goM) \<Rightarrow> ('s, 'b) goM" where
  "skipM m z f s = (case m s of (Ok a, s') \<Rightarrow> f a s' | (Err e, s') \<Rightarrow> (Ok z, s') | (Panic p, s') \<Rightarrow> (Panic p, s') | (OutOfFuel, s') \<Rightarrow> (OutOfFuel, s'))"

lemma reads_skipM: "reads m bs a \<Longrightarrow> reads (f a) cs v \<Longrightarrow> reads (skipM m z f) (bs @ cs) v"
  by (simp add: reads_def skipM_def)

lemma rt_skipM: "rt e d a \<Longrightarrow> rt e' (f a) v \<Longrightarrow> rt (seqM e e') (skipM d z f) v"
  by (auto simp: rt_def intro: writes_seqM reads_skipM)

lemma rt_wrapE: "rt e d v \<Longrightarrow> rt (wrapM w e) d v"
  by (auto simp: rt_def intro: writes_wrapM)

lemma rt_wrapD: "rt e d v \<Longrightarrow> rt e (wrapM w d) v"
  by (auto simp: rt_def intro: reads_wrapM)

text \<open>The rules that take a codec apart, tried in this order.\<close>

lemmas codec_rules = rt_tagged rt_byte_tag rt_seqM rt_skipM rt_wrapE rt_wrapD array_step slice_step option_step

section \<open>Decoders that end and only consume\<close>

text \<open>Whatever the input, the decoder ends, and what it leaves unread is a suffix of the input.\<close>

definition consuming :: "(bytes, 'a) goM \<Rightarrow> bool" where
  "consuming d \<longleftrightarrow> (\<forall>s r s'. d s = (r, s') \<longrightarrow> r \<noteq> OutOfFuel \<and> suffix s' s)"

named_theorems consuming_rules "decoders that end and only consume"

lemma consumingI: "(\<And>s r s'. d s = (r, s') \<Longrightarrow> r \<noteq> OutOfFuel \<and> suffix s' s) \<Longrightarrow> consuming d"
  by (simp add: consuming_def)

lemma consumingD: "consuming d \<Longrightarrow> d s = (r, s') \<Longrightarrow> r \<noteq> OutOfFuel \<and> suffix s' s"
  by (simp add: consuming_def)

lemma consuming_trans: "consuming d \<Longrightarrow> d s = (r, s') \<Longrightarrow> suffix s t \<Longrightarrow> r \<noteq> OutOfFuel \<and> suffix s' t"
  using consumingD [of d s r s'] suffix_order.trans [of s' s t] by simp

lemma consuming_bindM [consuming_rules]:
  assumes "consuming m" and "\<And>a. consuming (f a)"
  shows "consuming (bindM m f)"
proof (rule consumingI)
  fix s r s'
  assume "bindM m f s = (r, s')"
  then show "r \<noteq> OutOfFuel \<and> suffix s' s"
    using consumingD [OF assms(1), of s] consuming_trans [OF assms(2), of _ _ r s' s]
    by (cases "m s"; cases "fst (m s)") (auto simp: bindM_def)
qed

lemma consuming_skipM [consuming_rules]:
  assumes "consuming m" and "\<And>a. consuming (f a)"
  shows "consuming (skipM m z f)"
proof (rule consumingI)
  fix s r s'
  assume "skipM m z f s = (r, s')"
  then show "r \<noteq> OutOfFuel \<and> suffix s' s"
    using consumingD [OF assms(1), of s] consuming_trans [OF assms(2), of _ _ r s' s]
    by (cases "m s"; cases "fst (m s)") (auto simp: skipM_def)
qed

lemma consuming_steps [consuming_rules]:
  "consuming (retM a)" "consuming (failM e)" "consuming (panicM p)"
  "consuming m \<Longrightarrow> consuming (wrapM w m)"
  "consuming x \<Longrightarrow> consuming y \<Longrightarrow> consuming (if c then x else y)"
  by (fastforce simp: consuming_def wrapM_def split: prod.splits res.splits)+

lemma consuming_Read [consuming_rules]: "consuming (Decoder_Read n)"
  by (auto simp: consuming_def Decoder_Read_def Reader_Read_def suffix_drop)

lemma consuming_ReadOneByte [consuming_rules]: "consuming ReadOneByte"
  unfolding ReadOneByte_def by (intro consuming_rules)

lemma consuming_ignoring [consuming_rules]: "consuming ReadOneByte_ignoring"
  using consuming_ReadOneByte unfolding consuming_def ReadOneByte_ignoring_def
  by (auto split: prod.splits res.splits)

lemma consuming_UintCompact [consuming_rules]: "consuming DecodeUintCompact"
  unfolding DecodeUintCompact_def Let_def by (intro consuming_rules)

lemma consuming_num [consuming_rules]: "consuming (Decode_num k)"
proof -
  have "consuming (binary_Read n)" for n by (auto simp: consuming_def binary_Read_def suffix_drop)
  then show ?thesis unfolding Decode_num_def by (intro consuming_rules)
qed

lemma consuming_integers [consuming_rules]:
  "consuming Decode_byte" "consuming (Decode_word k)" "consuming Decode_bool" "consuming UCompact_Decode"
  unfolding Decode_byte_def Decode_word_def Decode_bool_def UCompact_Decode_def by (intro consuming_rules)+

lemma consuming_U128 [consuming_rules]: "consuming U128_Decode"
proof -
  have "consuming (liftM (UintBytesToBigInt bs))" for bs
    by (auto simp: consuming_def UintBytesToBigInt_def Let_def)
  then show ?thesis unfolding U128_Decode_def Uint_Decode_def by (intro consuming_rules)
qed

lemma consuming_each [consuming_rules]: "consuming d \<Longrightarrow> consuming (decode_each n d)"
  by (induction n) (simp_all add: consuming_rules del: retM_apply)

lemma consuming_slice [consuming_rules]:
  assumes "consuming d"
  shows "consuming (Decode_slice d)"
proof (rule consumingI)
  fix s r s'
  assume "Decode_slice d s = (r, s')"
  then show "r \<noteq> OutOfFuel \<and> suffix s' s"
    using consumingD [OF consuming_UintCompact, of s] consuming_trans [OF consuming_each [OF assms], of _ _ r s' s]
    unfolding Decode_slice_eq by (auto split: prod.splits res.splits if_splits)
qed

lemma consuming_containers [consuming_rules]:
  "consuming Text_Decode" "consuming (Decode_array n)" "consuming d \<Longrightarrow> consuming (DecodeOption d z)"
  unfolding Text_Decode_def Decode_array_def DecodeOption_def by (intro consuming_rules; assumption?)+

section \<open>Codecs as components\<close>

text \<open>
  The contract of the codecs of chain data. Interpreting it makes the round trip available to
  the proofs of the types that contain the interpreted one.
\<close>

locale chain_codec = scale_codec +
  assumes decoder_consumes: "consuming dec"
begin

lemma consumes [consuming_rules]: "consuming dec"
  by (rule decoder_consumes)

lemma contract [codec_laws]: "scale_codec enc dec valid"
  by (rule scale_codec_axioms)

lemma step [codec_steps]: "valid v \<Longrightarrow> rt (enc v) dec v"
  by (rule roundtrip)

end

text \<open>The integers, byte arrays and strings of the module.\<close>

lemmas [codec_laws] =
  byte.scale_codec_axioms bool.scale_codec_axioms u16.scale_codec_axioms u32.scale_codec_axioms u64.scale_codec_axioms
  U128_codec tid.scale_codec_axioms str.scale_codec_axioms array.scale_codec_axioms raw.scale_codec_axioms
  slice_contract opt_codec

lemmas [codec_steps] =
  byte.roundtrip bool.roundtrip u16.roundtrip u32.roundtrip u64.roundtrip scale_codec.roundtrip [OF U128_codec]
  tid.roundtrip str.roundtrip array.roundtrip raw.roundtrip

end
