(* ===== verification/XcmLocation.thy ===== *)
theory XcmLocation
  imports ChainCodec
begin

text \<open>
  Locations of cross-consensus messages: \<open>NetworkID\<close> (\<open>src/types/network_id.go\<close>), bodies
  (\<open>body.go\<close>), junctions (\<open>junction_v0.go\<close>, \<open>junction_v1.go\<close>) and multi-locations
  (\<open>multi_location_v0.go\<close>, \<open>multi_location_v1.go\<close>) with their codecs.
\<close>

section \<open>Networks and bodies\<close>

datatype NetworkID =
    NetworkID_Zero
  | NetworkID_IsAny
  | NetworkID_IsNamed bytes
  | NetworkID_IsPolkadot
  | NetworkID_IsKusama

primrec NetworkID_Encode :: "NetworkID \<Rightarrow> (bytes, unit) goM" where
  "NetworkID_Encode NetworkID_IsAny = PushByte 0"
| "NetworkID_Encode (NetworkID_IsNamed x) = seqM (PushByte 1) (Encode_slice Encode_byte x)"
| "NetworkID_Encode NetworkID_IsPolkadot = PushByte 2"
| "NetworkID_Encode NetworkID_IsKusama = PushByte 3"
| "NetworkID_Encode NetworkID_Zero = retM ()"

definition NetworkID_Decode :: "(bytes, NetworkID) goM" where
  "NetworkID_Decode =
     bindM ReadOneByte (\<lambda>b.
       if b = 0 then retM NetworkID_IsAny
       else if b = 1 then bindM (Decode_slice Decode_byte) (\<lambda>x. retM (NetworkID_IsNamed x))
       else if b = 2 then retM NetworkID_IsPolkadot
       else if b = 3 then retM NetworkID_IsKusama
       else retM NetworkID_Zero)"

definition NetworkID_ok :: "NetworkID \<Rightarrow> bool" where
  "NetworkID_ok v =
     (case v of NetworkID_Zero \<Rightarrow> False
      | NetworkID_IsNamed x \<Rightarrow> slice_ok (\<lambda>_. True) x
      | _ \<Rightarrow> True)"

interpretation networkID: chain_codec NetworkID_Encode NetworkID_Decode NetworkID_ok
proof
  fix v
  assume "NetworkID_ok v"
  then show "rt (NetworkID_Encode v) NetworkID_Decode v"
    unfolding NetworkID_Decode_def NetworkID_ok_def
    by (cases v; simp only: NetworkID_Encode.simps NetworkID.case; (elim conjE)?)
      (rule codec_rules codec_steps codec_laws rt_done | (simp del: retM_apply; fail))+
qed (unfold NetworkID_Decode_def, intro consuming_rules)

datatype BodyID =
    BodyID_Zero
  | BodyID_IsUnit
  | BodyID_IsNamed bytes
  | BodyID_IsIndex uint32
  | BodyID_IsExecutive
  | BodyID_IsTechnical
  | BodyID_IsLegislative
  | BodyID_IsJudicial

primrec BodyID_Encode :: "BodyID \<Rightarrow> (bytes, unit) goM" where
  "BodyID_Encode BodyID_IsUnit = PushByte 0"
| "BodyID_Encode (BodyID_IsNamed x) = seqM (PushByte 1) (Encode_slice Encode_byte x)"
| "BodyID_Encode (BodyID_IsIndex x) = seqM (PushByte 2) (Encode_word Uint32 x)"
| "BodyID_Encode BodyID_IsExecutive = PushByte 3"
| "BodyID_Encode BodyID_IsTechnical = PushByte 4"
| "BodyID_Encode BodyID_IsLegislative = PushByte 5"
| "BodyID_Encode BodyID_IsJudicial = PushByte 6"
| "BodyID_Encode BodyID_Zero = retM ()"

definition BodyID_Decode :: "(bytes, BodyID) goM" where
  "BodyID_Decode =
     bindM ReadOneByte (\<lambda>b.
       if b = 0 then retM BodyID_IsUnit
       else if b = 1 then bindM (Decode_slice Decode_byte) (\<lambda>x. retM (BodyID_IsNamed x))
       else if b = 2 then bindM (Decode_word Uint32) (\<lambda>x. retM (BodyID_IsIndex x))
       else if b = 3 then retM BodyID_IsExecutive
       else if b = 4 then retM BodyID_IsTechnical
       else if b = 5 then retM BodyID_IsLegislative
       else if b = 6 then retM BodyID_IsJudicial
       else retM BodyID_Zero)"

definition BodyID_ok :: "BodyID \<Rightarrow> bool" where
  "BodyID_ok v =
     (case v of BodyID_Zero \<Rightarrow> False
      | BodyID_IsNamed x \<Rightarrow> slice_ok (\<lambda>_. True) x
      | _ \<Rightarrow> True)"

interpretation bodyID: chain_codec BodyID_Encode BodyID_Decode BodyID_ok
proof
  fix v
  assume "BodyID_ok v"
  then show "rt (BodyID_Encode v) BodyID_Decode v"
    unfolding BodyID_Decode_def BodyID_ok_def
    by (cases v; simp only: BodyID_Encode.simps BodyID.case; (elim conjE)?)
      (rule codec_rules codec_steps codec_laws rt_done | (simp del: retM_apply; fail))+
qed (unfold BodyID_Decode_def, intro consuming_rules)

datatype BodyPart =
    BodyPart_Zero
  | BodyPart_IsVoice
  | BodyPart_IsMembers uint32
  | BodyPart_IsFraction uint32 uint32
  | BodyPart_IsAtLeastProportion uint32 uint32
  | BodyPart_IsMoreThanProportion uint32 uint32

primrec BodyPart_Encode :: "BodyPart \<Rightarrow> (bytes, unit) goM" where
  "BodyPart_Encode BodyPart_IsVoice = PushByte 0"
| "BodyPart_Encode (BodyPart_IsMembers x) = seqM (PushByte 1) (Encode_word Uint32 x)"
| "BodyPart_Encode (BodyPart_IsFraction x y) = seqM (PushByte 2) (seqM (Encode_word Uint32 x) (Encode_word Uint32 y))"
| "BodyPart_Encode (BodyPart_IsAtLeastProportion x y) = seqM (PushByte 3) (seqM (Encode_word Uint32 x) (Encode_word Uint32 y))"
| "BodyPart_Encode (BodyPart_IsMoreThanProportion x y) = seqM (PushByte 4) (seqM (Encode_word Uint32 x) (Encode_word Uint32 y))"
| "BodyPart_Encode BodyPart_Zero = retM ()"

definition BodyPart_Decode :: "(bytes, BodyPart) goM" where
  "BodyPart_Decode =
     bindM ReadOneByte (\<lambda>b.
       if b = 0 then retM BodyPart_IsVoice
       else if b = 1 then bindM (Decode_word Uint32) (\<lambda>x. retM (BodyPart_IsMembers x))
       else if b = 2 then bindM (Decode_word Uint32) (\<lambda>x. bindM (Decode_word Uint32) (\<lambda>y. retM (BodyPart_IsFraction x y)))
       else if b = 3 then bindM (Decode_word Uint32) (\<lambda>x. bindM (Decode_word Uint32) (\<lambda>y. retM (BodyPart_IsAtLeastProportion x y)))
       else if b = 4 then bindM (Decode_word Uint32) (\<lambda>x. bindM (Decode_word Uint32) (\<lambda>y. retM (BodyPart_IsMoreThanProportion x y)))
       else retM BodyPart_Zero)"

definition BodyPart_ok :: "BodyPart \<Rightarrow> bool" where
  "BodyPart_ok v =
     (case v of BodyPart_Zero \<Rightarrow> False | _ \<Rightarrow> True)"

interpretation bodyPart: chain_codec BodyPart_Encode BodyPart_Decode BodyPart_ok
proof
  fix v
  assume "BodyPart_ok v"
  then show "rt (BodyPart_Encode v) BodyPart_Decode v"
    unfolding BodyPart_Decode_def BodyPart_ok_def
    by (cases v; simp only: BodyPart_Encode.simps BodyPart.case; (elim conjE)?)
      (rule codec_rules codec_steps codec_laws rt_done | (simp del: retM_apply; fail))+
qed (unfold BodyPart_Decode_def, intro consuming_rules)

section \<open>Junctions\<close>

datatype JunctionV0 =
    JunctionV0_Zero
  | JunctionV0_IsParent
  | JunctionV0_IsParachain uint32
  | JunctionV0_IsAccountID32 NetworkID bytes
  | JunctionV0_IsAccountIndex64 NetworkID uint64
  | JunctionV0_IsAccountKey20 NetworkID bytes
  | JunctionV0_IsPalletInstance byte
  | JunctionV0_IsGeneralIndex "int option"
  | JunctionV0_IsGeneralKey bytes
  | JunctionV0_IsOnlyChild
  | JunctionV0_IsPlurality BodyID BodyPart

primrec JunctionV0_Encode :: "JunctionV0 \<Rightarrow> (bytes, unit) goM" where
  "JunctionV0_Encode JunctionV0_IsParent = PushByte 0"
| "JunctionV0_Encode (JunctionV0_IsParachain x) = seqM (PushByte 1) (Encode_word Uint32 x)"
| "JunctionV0_Encode (JunctionV0_IsAccountID32 x y) = seqM (PushByte 2) (seqM (NetworkID_Encode x) (Encode_slice Encode_byte y))"
| "JunctionV0_Encode (JunctionV0_IsAccountIndex64 x y) = seqM (PushByte 3) (seqM (NetworkID_Encode x) (Encode_word Uint64 y))"
| "JunctionV0_Encode (JunctionV0_IsAccountKey20 x y) = seqM (PushByte 4) (seqM (NetworkID_Encode x) (Encode_slice Encode_byte y))"
| "JunctionV0_Encode (JunctionV0_IsPalletInstance x) = seqM (PushByte 5) (Encode_byte x)"
| "JunctionV0_Encode (JunctionV0_IsGeneralIndex x) = seqM (PushByte 6) (U128_Encode x)"
| "JunctionV0_Encode (JunctionV0_IsGeneralKey x) = seqM (PushByte 7) (Encode_slice Encode_byte x)"
| "JunctionV0_Encode JunctionV0_IsOnlyChild = PushByte 8"
| "JunctionV0_Encode (JunctionV0_IsPlurality x y) = seqM (PushByte 9) (seqM (BodyID_Encode x) (BodyPart_Encode y))"
| "JunctionV0_Encode JunctionV0_Zero = retM ()"

definition JunctionV0_Decode :: "(bytes, JunctionV0) goM" where
  "JunctionV0_Decode =
     bindM ReadOneByte (\<lambda>b.
       if b = 0 then retM JunctionV0_IsParent
       else if b = 1 then bindM (Decode_word Uint32) (\<lambda>x. retM (JunctionV0_IsParachain x))
       else if b = 2 then bindM NetworkID_Decode (\<lambda>x. bindM (Decode_slice Decode_byte) (\<lambda>y. retM (JunctionV0_IsAccountID32 x y)))
       else if b = 3 then bindM NetworkID_Decode (\<lambda>x. bindM (Decode_word Uint64) (\<lambda>y. retM (JunctionV0_IsAccountIndex64 x y)))
       else if b = 4 then bindM NetworkID_Decode (\<lambda>x. bindM (Decode_slice Decode_byte) (\<lambda>y. retM (JunctionV0_IsAccountKey20 x y)))
       else if b = 5 then bindM Decode_byte (\<lambda>x. retM (JunctionV0_IsPalletInstance x))
       else if b = 6 then bindM U128_Decode (\<lambda>x. retM (JunctionV0_IsGeneralIndex x))
       else if b = 7 then bindM (Decode_slice Decode_byte) (\<lambda>x. retM (JunctionV0_IsGeneralKey x))
       else if b = 8 then retM JunctionV0_IsOnlyChild
       else if b = 9 then bindM BodyID_Decode (\<lambda>x. bindM BodyPart_Decode (\<lambda>y. retM (JunctionV0_IsPlurality x y)))
       else retM JunctionV0_Zero)"

definition JunctionV0_ok :: "JunctionV0 \<Rightarrow> bool" where
  "JunctionV0_ok v =
     (case v of JunctionV0_Zero \<Rightarrow> False
      | JunctionV0_IsAccountID32 x y \<Rightarrow> NetworkID_ok x \<and> slice_ok (\<lambda>_. True) y
      | JunctionV0_IsAccountIndex64 x _ \<Rightarrow> NetworkID_ok x
      | JunctionV0_IsAccountKey20 x y \<Rightarrow> NetworkID_ok x \<and> slice_ok (\<lambda>_. True) y
      | JunctionV0_IsGeneralIndex x \<Rightarrow> U128_ok x
      | JunctionV0_IsGeneralKey x \<Rightarrow> slice_ok (\<lambda>_. True) x
      | JunctionV0_IsPlurality x y \<Rightarrow> BodyID_ok x \<and> BodyPart_ok y
      | _ \<Rightarrow> True)"

interpretation junctionV0: chain_codec JunctionV0_Encode JunctionV0_Decode JunctionV0_ok
proof
  fix v
  assume "JunctionV0_ok v"
  then show "rt (JunctionV0_Encode v) JunctionV0_Decode v"
    unfolding JunctionV0_Decode_def JunctionV0_ok_def
    by (cases v; simp only: JunctionV0_Encode.simps JunctionV0.case; (elim conjE)?)
      (rule codec_rules codec_steps codec_laws rt_done | (simp del: retM_apply; fail))+
qed (unfold JunctionV0_Decode_def, intro consuming_rules)

datatype JunctionV1 =
    JunctionV1_Zero
  | JunctionV1_IsParachain int
  | JunctionV1_IsAccountID32 NetworkID bytes
  | JunctionV1_IsAccountIndex64 NetworkID uint64
  | JunctionV1_IsAccountKey20 NetworkID bytes
  | JunctionV1_IsPalletInstance byte
  | JunctionV1_IsGeneralIndex "int option"
  | JunctionV1_IsGeneralKey bytes
  | JunctionV1_IsOnlyChild
  | JunctionV1_IsPlurality BodyID BodyPart

primrec JunctionV1_Encode :: "JunctionV1 \<Rightarrow> (bytes, unit) goM" where
  "JunctionV1_Encode (JunctionV1_IsParachain x) = seqM (PushByte 0) (UCompact_Encode x)"
| "JunctionV1_Encode (JunctionV1_IsAccountID32 x y) = seqM (PushByte 1) (seqM (NetworkID_Encode x) (Encode_slice Encode_byte y))"
| "JunctionV1_Encode (JunctionV1_IsAccountIndex64 x y) = seqM (PushByte 2) (seqM (NetworkID_Encode x) (Encode_word Uint64 y))"
| "JunctionV1_Encode (JunctionV1_IsAccountKey20 x y) = seqM (PushByte 3) (seqM (NetworkID_Encode x) (Encode_slice Encode_byte y))"
| "JunctionV1_Encode (JunctionV1_IsPalletInstance x) = seqM (PushByte 4) (Encode_byte x)"
| "JunctionV1_Encode (JunctionV1_IsGeneralIndex x) = seqM (PushByte 5) (U128_Encode x)"
| "JunctionV1_Encode (JunctionV1_IsGeneralKey x) = seqM (PushByte 6) (Encode_slice Encode_byte x)"
| "JunctionV1_Encode JunctionV1_IsOnlyChild = PushByte 7"
| "JunctionV1_Encode (JunctionV1_IsPlurality x y) = seqM (PushByte 8) (seqM (BodyID_Encode x) (BodyPart_Encode y))"
| "JunctionV1_Encode JunctionV1_Zero = retM ()"

definition JunctionV1_Decode :: "(bytes, JunctionV1) goM" where
  "JunctionV1_Decode =
     bindM ReadOneByte (\<lambda>b.
       if b = 0 then bindM UCompact_Decode (\<lambda>x. retM (JunctionV1_IsParachain x))
       else if b = 1 then skipM NetworkID_Decode (JunctionV1_IsAccountID32 NetworkID_Zero [])
         (\<lambda>x. bindM (Decode_slice Decode_byte) (\<lambda>y. retM (JunctionV1_IsAccountID32 x y)))
       else if b = 2 then skipM NetworkID_Decode (JunctionV1_IsAccountIndex64 NetworkID_Zero 0)
         (\<lambda>x. bindM (Decode_word Uint64) (\<lambda>y. retM (JunctionV1_IsAccountIndex64 x y)))
       else if b = 3 then skipM NetworkID_Decode (JunctionV1_IsAccountKey20 NetworkID_Zero [])
         (\<lambda>x. bindM (Decode_slice Decode_byte) (\<lambda>y. retM (JunctionV1_IsAccountKey20 x y)))
       else if b = 4 then bindM Decode_byte (\<lambda>x. retM (JunctionV1_IsPalletInstance x))
       else if b = 5 then bindM U128_Decode (\<lambda>x. retM (JunctionV1_IsGeneralIndex x))
       else if b = 6 then bindM (Decode_slice Decode_byte) (\<lambda>x. retM (JunctionV1_IsGeneralKey x))
       else if b = 7 then retM JunctionV1_IsOnlyChild
       else if b = 8 then bindM BodyID_Decode (\<lambda>x. bindM BodyPart_Decode (\<lambda>y. retM (JunctionV1_IsPlurality x y)))
       else retM JunctionV1_Zero)"

definition JunctionV1_ok :: "JunctionV1 \<Rightarrow> bool" where
  "JunctionV1_ok v =
     (case v of JunctionV1_Zero \<Rightarrow> False
      | JunctionV1_IsParachain x \<Rightarrow> id_ok x
      | JunctionV1_IsAccountID32 x y \<Rightarrow> NetworkID_ok x \<and> slice_ok (\<lambda>_. True) y
      | JunctionV1_IsAccountIndex64 x _ \<Rightarrow> NetworkID_ok x
      | JunctionV1_IsAccountKey20 x y \<Rightarrow> NetworkID_ok x \<and> slice_ok (\<lambda>_. True) y
      | JunctionV1_IsGeneralIndex x \<Rightarrow> U128_ok x
      | JunctionV1_IsGeneralKey x \<Rightarrow> slice_ok (\<lambda>_. True) x
      | JunctionV1_IsPlurality x y \<Rightarrow> BodyID_ok x \<and> BodyPart_ok y
      | _ \<Rightarrow> True)"

interpretation junctionV1: chain_codec JunctionV1_Encode JunctionV1_Decode JunctionV1_ok
proof
  fix v
  assume "JunctionV1_ok v"
  then show "rt (JunctionV1_Encode v) JunctionV1_Decode v"
    unfolding JunctionV1_Decode_def JunctionV1_ok_def
    by (cases v; simp only: JunctionV1_Encode.simps JunctionV1.case; (elim conjE)?)
      (rule codec_rules codec_steps codec_laws rt_done | (simp del: retM_apply; fail))+
qed (unfold JunctionV1_Decode_def, intro consuming_rules)

datatype JunctionsV1 =
    JunctionsV1_Zero
  | JunctionsV1_IsHere
  | JunctionsV1_IsX1 JunctionV1
  | JunctionsV1_IsX2 "JunctionV1 list"
  | JunctionsV1_IsX3 "JunctionV1 list"
  | JunctionsV1_IsX4 "JunctionV1 list"
  | JunctionsV1_IsX5 "JunctionV1 list"
  | JunctionsV1_IsX6 "JunctionV1 list"
  | JunctionsV1_IsX7 "JunctionV1 list"
  | JunctionsV1_IsX8 "JunctionV1 list"

primrec JunctionsV1_Encode :: "JunctionsV1 \<Rightarrow> (bytes, unit) goM" where
  "JunctionsV1_Encode JunctionsV1_IsHere = PushByte 0"
| "JunctionsV1_Encode (JunctionsV1_IsX1 x) = seqM (PushByte 1) (JunctionV1_Encode x)"
| "JunctionsV1_Encode (JunctionsV1_IsX2 x) = seqM (PushByte 2) (encode_each JunctionV1_Encode x)"
| "JunctionsV1_Encode (JunctionsV1_IsX3 x) = seqM (PushByte 3) (encode_each JunctionV1_Encode x)"
| "JunctionsV1_Encode (JunctionsV1_IsX4 x) = seqM (PushByte 4) (encode_each JunctionV1_Encode x)"
| "JunctionsV1_Encode (JunctionsV1_IsX5 x) = seqM (PushByte 5) (encode_each JunctionV1_Encode x)"
| "JunctionsV1_Encode (JunctionsV1_IsX6 x) = seqM (PushByte 6) (encode_each JunctionV1_Encode x)"
| "JunctionsV1_Encode (JunctionsV1_IsX7 x) = seqM (PushByte 7) (encode_each JunctionV1_Encode x)"
| "JunctionsV1_Encode (JunctionsV1_IsX8 x) = seqM (PushByte 8) (encode_each JunctionV1_Encode x)"
| "JunctionsV1_Encode JunctionsV1_Zero = retM ()"

definition JunctionsV1_Decode :: "(bytes, JunctionsV1) goM" where
  "JunctionsV1_Decode =
     bindM ReadOneByte (\<lambda>b.
       if b = 0 then retM JunctionsV1_IsHere
       else if b = 1 then bindM JunctionV1_Decode (\<lambda>x. retM (JunctionsV1_IsX1 x))
       else if b = 2 then bindM (decode_each 2 JunctionV1_Decode) (\<lambda>x. retM (JunctionsV1_IsX2 x))
       else if b = 3 then bindM (decode_each 3 JunctionV1_Decode) (\<lambda>x. retM (JunctionsV1_IsX3 x))
       else if b = 4 then bindM (decode_each 4 JunctionV1_Decode) (\<lambda>x. retM (JunctionsV1_IsX4 x))
       else if b = 5 then bindM (decode_each 5 JunctionV1_Decode) (\<lambda>x. retM (JunctionsV1_IsX5 x))
       else if b = 6 then bindM (decode_each 6 JunctionV1_Decode) (\<lambda>x. retM (JunctionsV1_IsX6 x))
       else if b = 7 then bindM (decode_each 7 JunctionV1_Decode) (\<lambda>x. retM (JunctionsV1_IsX7 x))
       else if b = 8 then bindM (decode_each 8 JunctionV1_Decode) (\<lambda>x. retM (JunctionsV1_IsX8 x))
       else retM JunctionsV1_Zero)"

definition JunctionsV1_ok :: "JunctionsV1 \<Rightarrow> bool" where
  "JunctionsV1_ok v =
     (case v of JunctionsV1_Zero \<Rightarrow> False
      | JunctionsV1_IsX1 x \<Rightarrow> JunctionV1_ok x
      | JunctionsV1_IsX2 x \<Rightarrow> array_ok 2 JunctionV1_ok x
      | JunctionsV1_IsX3 x \<Rightarrow> array_ok 3 JunctionV1_ok x
      | JunctionsV1_IsX4 x \<Rightarrow> array_ok 4 JunctionV1_ok x
      | JunctionsV1_IsX5 x \<Rightarrow> array_ok 5 JunctionV1_ok x
      | JunctionsV1_IsX6 x \<Rightarrow> array_ok 6 JunctionV1_ok x
      | JunctionsV1_IsX7 x \<Rightarrow> array_ok 7 JunctionV1_ok x
      | JunctionsV1_IsX8 x \<Rightarrow> array_ok 8 JunctionV1_ok x
      | _ \<Rightarrow> True)"

interpretation junctionsV1: chain_codec JunctionsV1_Encode JunctionsV1_Decode JunctionsV1_ok
proof
  fix v
  assume "JunctionsV1_ok v"
  then show "rt (JunctionsV1_Encode v) JunctionsV1_Decode v"
    unfolding JunctionsV1_Decode_def JunctionsV1_ok_def
    by (cases v; simp only: JunctionsV1_Encode.simps JunctionsV1.case; (elim conjE)?)
      (rule codec_rules codec_steps codec_laws rt_done | (simp del: retM_apply; fail))+
qed (unfold JunctionsV1_Decode_def, intro consuming_rules)

section \<open>Locations\<close>

datatype MultiLocationV0 =
    MultiLocationV0_Zero
  | MultiLocationV0_IsNull
  | MultiLocationV0_IsX1 JunctionV0
  | MultiLocationV0_IsX2 "JunctionV0 list"
  | MultiLocationV0_IsX3 "JunctionV0 list"
  | MultiLocationV0_IsX4 "JunctionV0 list"
  | MultiLocationV0_IsX5 "JunctionV0 list"
  | MultiLocationV0_IsX6 "JunctionV0 list"
  | MultiLocationV0_IsX7 "JunctionV0 list"
  | MultiLocationV0_IsX8 "JunctionV0 list"

primrec MultiLocationV0_Encode :: "MultiLocationV0 \<Rightarrow> (bytes, unit) goM" where
  "MultiLocationV0_Encode MultiLocationV0_IsNull = PushByte 0"
| "MultiLocationV0_Encode (MultiLocationV0_IsX1 x) = seqM (PushByte 1) (JunctionV0_Encode x)"
| "MultiLocationV0_Encode (MultiLocationV0_IsX2 x) = seqM (PushByte 2) (encode_each JunctionV0_Encode x)"
| "MultiLocationV0_Encode (MultiLocationV0_IsX3 x) = seqM (PushByte 3) (encode_each JunctionV0_Encode x)"
| "MultiLocationV0_Encode (MultiLocationV0_IsX4 x) = seqM (PushByte 4) (encode_each JunctionV0_Encode x)"
| "MultiLocationV0_Encode (MultiLocationV0_IsX5 x) = seqM (PushByte 5) (encode_each JunctionV0_Encode x)"
| "MultiLocationV0_Encode (MultiLocationV0_IsX6 x) = seqM (PushByte 6) (encode_each JunctionV0_Encode x)"
| "MultiLocationV0_Encode (MultiLocationV0_IsX7 x) = seqM (PushByte 7) (encode_each JunctionV0_Encode x)"
| "MultiLocationV0_Encode (MultiLocationV0_IsX8 x) = seqM (PushByte 8) (encode_each JunctionV0_Encode x)"
| "MultiLocationV0_Encode MultiLocationV0_Zero = retM ()"

definition MultiLocationV0_Decode :: "(bytes, MultiLocationV0) goM" where
  "MultiLocationV0_Decode =
     bindM ReadOneByte (\<lambda>b.
       if b = 0 then retM MultiLocationV0_IsNull
       else if b = 1 then bindM JunctionV0_Decode (\<lambda>x. retM (MultiLocationV0_IsX1 x))
       else if b = 2 then bindM (decode_each 2 JunctionV0_Decode) (\<lambda>x. retM (MultiLocationV0_IsX2 x))
       else if b = 3 then bindM (decode_each 3 JunctionV0_Decode) (\<lambda>x. retM (MultiLocationV0_IsX3 x))
       else if b = 4 then bindM (decode_each 4 JunctionV0_Decode) (\<lambda>x. retM (MultiLocationV0_IsX4 x))
       else if b = 5 then bindM (decode_each 5 JunctionV0_Decode) (\<lambda>x. retM (MultiLocationV0_IsX5 x))
       else if b = 6 then bindM (decode_each 6 JunctionV0_Decode) (\<lambda>x. retM (MultiLocationV0_IsX6 x))
       else if b = 7 then bindM (decode_each 7 JunctionV0_Decode) (\<lambda>x. retM (MultiLocationV0_IsX7 x))
       else if b = 8 then bindM (decode_each 8 JunctionV0_Decode) (\<lambda>x. retM (MultiLocationV0_IsX8 x))
       else retM MultiLocationV0_Zero)"

definition MultiLocationV0_ok :: "MultiLocationV0 \<Rightarrow> bool" where
  "MultiLocationV0_ok v =
     (case v of MultiLocationV0_Zero \<Rightarrow> False
      | MultiLocationV0_IsX1 x \<Rightarrow> JunctionV0_ok x
      | MultiLocationV0_IsX2 x \<Rightarrow> array_ok 2 JunctionV0_ok x
      | MultiLocationV0_IsX3 x \<Rightarrow> array_ok 3 JunctionV0_ok x
      | MultiLocationV0_IsX4 x \<Rightarrow> array_ok 4 JunctionV0_ok x
      | MultiLocationV0_IsX5 x \<Rightarrow> array_ok 5 JunctionV0_ok x
      | MultiLocationV0_IsX6 x \<Rightarrow> array_ok 6 JunctionV0_ok x
      | MultiLocationV0_IsX7 x \<Rightarrow> array_ok 7 JunctionV0_ok x
      | MultiLocationV0_IsX8 x \<Rightarrow> array_ok 8 JunctionV0_ok x
      | _ \<Rightarrow> True)"

interpretation multiLocationV0: chain_codec MultiLocationV0_Encode MultiLocationV0_Decode MultiLocationV0_ok
proof
  fix v
  assume "MultiLocationV0_ok v"
  then show "rt (MultiLocationV0_Encode v) MultiLocationV0_Decode v"
    unfolding MultiLocationV0_Decode_def MultiLocationV0_ok_def
    by (cases v; simp only: MultiLocationV0_Encode.simps MultiLocationV0.case; (elim conjE)?)
      (rule codec_rules codec_steps codec_laws rt_done | (simp del: retM_apply; fail))+
qed (unfold MultiLocationV0_Decode_def, intro consuming_rules)

record MultiLocationV1 =
  MultiLocationV1_Parents :: byte
  MultiLocationV1_Interior :: JunctionsV1

definition zero_MultiLocationV1 :: MultiLocationV1 where
  "zero_MultiLocationV1 = \<lparr>MultiLocationV1_Parents = 0, MultiLocationV1_Interior = JunctionsV1_Zero\<rparr>"

definition MultiLocationV1_Encode :: "MultiLocationV1 \<Rightarrow> (bytes, unit) goM" where
  "MultiLocationV1_Encode v =
     seqM (Encode_byte (MultiLocationV1_Parents v))
    (JunctionsV1_Encode (MultiLocationV1_Interior v))"

definition MultiLocationV1_Decode :: "(bytes, MultiLocationV1) goM" where
  "MultiLocationV1_Decode =
     bindM Decode_byte (\<lambda>x.
     bindM JunctionsV1_Decode (\<lambda>y.
       retM \<lparr>MultiLocationV1_Parents = x, MultiLocationV1_Interior = y\<rparr>))"

definition MultiLocationV1_ok :: "MultiLocationV1 \<Rightarrow> bool" where
  "MultiLocationV1_ok v \<longleftrightarrow> JunctionsV1_ok (MultiLocationV1_Interior v)"

interpretation multiLocationV1: chain_codec MultiLocationV1_Encode MultiLocationV1_Decode MultiLocationV1_ok
proof
  fix v
  assume "MultiLocationV1_ok v"
  then show "rt (MultiLocationV1_Encode v) MultiLocationV1_Decode v"
    unfolding MultiLocationV1_Encode_def MultiLocationV1_Decode_def MultiLocationV1_ok_def
    by (cases v; (elim conjE)?)
      (rule codec_rules codec_steps codec_laws rt_done | (simp del: retM_apply; fail))+
qed (unfold MultiLocationV1_Decode_def, intro consuming_rules)

text \<open>\<open>Encode\<close> has a pointer receiver: a value is encoded field by field.\<close>

definition MultiLocationV1_EncodeValue :: "MultiLocationV1 \<Rightarrow> (bytes, unit) goM" where
  "MultiLocationV1_EncodeValue v =
     seqM (fieldE (Encode_byte (MultiLocationV1_Parents v)))
    (fieldE (JunctionsV1_Encode (MultiLocationV1_Interior v)))"

interpretation multiLocationV1Value: chain_codec MultiLocationV1_EncodeValue MultiLocationV1_Decode MultiLocationV1_ok
proof
  fix v
  assume "MultiLocationV1_ok v"
  then show "rt (MultiLocationV1_EncodeValue v) MultiLocationV1_Decode v"
    unfolding MultiLocationV1_EncodeValue_def MultiLocationV1_Decode_def MultiLocationV1_ok_def
    by (cases v; (elim conjE)?)
      (rule codec_rules codec_steps codec_laws rt_done | (simp del: retM_apply; fail))+
qed (unfold MultiLocationV1_Decode_def, intro consuming_rules)

datatype VersionedMultiLocation = VersionedMultiLocation_Zero | VersionedMultiLocation_IsV0 MultiLocationV0 | VersionedMultiLocation_IsV1 MultiLocationV1

primrec VersionedMultiLocation_Encode :: "VersionedMultiLocation \<Rightarrow> (bytes, unit) goM" where
  "VersionedMultiLocation_Encode (VersionedMultiLocation_IsV0 x) = seqM (PushByte 0) (MultiLocationV0_Encode x)"
| "VersionedMultiLocation_Encode (VersionedMultiLocation_IsV1 x) = seqM (PushByte 1) (MultiLocationV1_EncodeValue x)"
| "VersionedMultiLocation_Encode VersionedMultiLocation_Zero = retM ()"

definition VersionedMultiLocation_Decode :: "(bytes, VersionedMultiLocation) goM" where
  "VersionedMultiLocation_Decode =
     bindM ReadOneByte (\<lambda>b.
       if b = 0 then bindM MultiLocationV0_Decode (\<lambda>x. retM (VersionedMultiLocation_IsV0 x))
       else if b = 1 then bindM MultiLocationV1_Decode (\<lambda>x. retM (VersionedMultiLocation_IsV1 x))
       else retM VersionedMultiLocation_Zero)"

definition VersionedMultiLocation_ok :: "VersionedMultiLocation \<Rightarrow> bool" where
  "VersionedMultiLocation_ok v =
     (case v of VersionedMultiLocation_Zero \<Rightarrow> False
      | VersionedMultiLocation_IsV0 x \<Rightarrow> MultiLocationV0_ok x
      | VersionedMultiLocation_IsV1 x \<Rightarrow> MultiLocationV1_ok x)"

interpretation versionedMultiLocation: chain_codec VersionedMultiLocation_Encode VersionedMultiLocation_Decode VersionedMultiLocation_ok
proof
  fix v
  assume "VersionedMultiLocation_ok v"
  then show "rt (VersionedMultiLocation_Encode v) VersionedMultiLocation_Decode v"
    unfolding VersionedMultiLocation_Decode_def VersionedMultiLocation_ok_def
    by (cases v; simp only: VersionedMultiLocation_Encode.simps VersionedMultiLocation.case; (elim conjE)?)
      (rule codec_rules codec_steps codec_laws rt_done | (simp del: retM_apply; fail))+
qed (unfold VersionedMultiLocation_Decode_def, intro consuming_rules)

end
