(* ===== verification/XcmAssets.thy ===== *)
theory XcmAssets
  imports XcmLocation
begin

text \<open>
  Assets, errors and the other components of cross-consensus messages: \<open>XCMError\<close>
  (\<open>src/types/xcm_error.go\<close>), outcomes (\<open>outcome.go\<close>, \<open>execution_result.go\<close>) and the types of
  \<open>xcm.go\<close> up to \<open>Instruction\<close>.
\<close>

section \<open>Errors and outcomes\<close>

record Weight =
  Weight_RefTime :: int
  Weight_ProofSize :: int

definition zero_Weight :: Weight where
  "zero_Weight = \<lparr>Weight_RefTime = 0, Weight_ProofSize = 0\<rparr>"

definition Weight_Encode :: "Weight \<Rightarrow> (bytes, unit) goM" where
  "Weight_Encode v =
     seqM (fieldE (UCompact_Encode (Weight_RefTime v)))
    (fieldE (UCompact_Encode (Weight_ProofSize v)))"

definition Weight_Decode :: "(bytes, Weight) goM" where
  "Weight_Decode =
     bindM (fieldD UCompact_Decode) (\<lambda>x.
     bindM (fieldD UCompact_Decode) (\<lambda>y.
       retM \<lparr>Weight_RefTime = x, Weight_ProofSize = y\<rparr>))"

definition Weight_ok :: "Weight \<Rightarrow> bool" where
  "Weight_ok v \<longleftrightarrow> id_ok (Weight_RefTime v) \<and> id_ok (Weight_ProofSize v)"

interpretation weight: chain_codec Weight_Encode Weight_Decode Weight_ok
proof
  fix v
  assume "Weight_ok v"
  then show "rt (Weight_Encode v) Weight_Decode v"
    unfolding Weight_Encode_def Weight_Decode_def Weight_ok_def
    by (cases v; (elim conjE)?)
      (rule codec_rules codec_steps codec_laws rt_done | (simp del: retM_apply; fail))+
qed (unfold Weight_Decode_def, intro consuming_rules)

datatype XCMError =
    XCMError_Zero
  | XCMError_IsOverflow
  | XCMError_IsUnimplemented
  | XCMError_IsUntrustedReserveLocation
  | XCMError_IsUntrustedTeleportLocation
  | XCMError_IsMultiLocationFull
  | XCMError_IsMultiLocationNotInvertible
  | XCMError_IsBadOrigin
  | XCMError_IsInvalidLocation
  | XCMError_IsAssetNotFound
  | XCMError_IsFailedToTransactAsset
  | XCMError_IsNotWithdrawable
  | XCMError_IsLocationCannotHold
  | XCMError_IsExceedsMaxMessageSize
  | XCMError_IsDestinationUnsupported
  | XCMError_IsTransport string
  | XCMError_IsUnroutable
  | XCMError_IsUnknownClaim
  | XCMError_IsFailedToDecode
  | XCMError_IsMaxWeightInvalid
  | XCMError_IsNotHoldingFees
  | XCMError_IsTooExpensive
  | XCMError_IsTrap uint64
  | XCMError_IsUnhandledXcmVersion
  | XCMError_IsWeightLimitReached Weight
  | XCMError_IsBarrier
  | XCMError_IsWeightNotComputable

primrec XCMError_Encode :: "XCMError \<Rightarrow> (bytes, unit) goM" where
  "XCMError_Encode XCMError_IsOverflow = PushByte 0"
| "XCMError_Encode XCMError_IsUnimplemented = PushByte 1"
| "XCMError_Encode XCMError_IsUntrustedReserveLocation = PushByte 2"
| "XCMError_Encode XCMError_IsUntrustedTeleportLocation = PushByte 3"
| "XCMError_Encode XCMError_IsMultiLocationFull = PushByte 4"
| "XCMError_Encode XCMError_IsMultiLocationNotInvertible = PushByte 5"
| "XCMError_Encode XCMError_IsBadOrigin = PushByte 6"
| "XCMError_Encode XCMError_IsInvalidLocation = PushByte 7"
| "XCMError_Encode XCMError_IsAssetNotFound = PushByte 8"
| "XCMError_Encode XCMError_IsFailedToTransactAsset = PushByte 9"
| "XCMError_Encode XCMError_IsNotWithdrawable = PushByte 10"
| "XCMError_Encode XCMError_IsLocationCannotHold = PushByte 11"
| "XCMError_Encode XCMError_IsExceedsMaxMessageSize = PushByte 12"
| "XCMError_Encode XCMError_IsDestinationUnsupported = PushByte 13"
| "XCMError_Encode (XCMError_IsTransport x) = seqM (PushByte 14) (Text_Encode x)"
| "XCMError_Encode XCMError_IsUnroutable = PushByte 15"
| "XCMError_Encode XCMError_IsUnknownClaim = PushByte 16"
| "XCMError_Encode XCMError_IsFailedToDecode = PushByte 17"
| "XCMError_Encode XCMError_IsMaxWeightInvalid = PushByte 18"
| "XCMError_Encode XCMError_IsNotHoldingFees = PushByte 19"
| "XCMError_Encode XCMError_IsTooExpensive = PushByte 20"
| "XCMError_Encode (XCMError_IsTrap x) = seqM (PushByte 21) (Encode_word Uint64 x)"
| "XCMError_Encode XCMError_IsUnhandledXcmVersion = PushByte 22"
| "XCMError_Encode (XCMError_IsWeightLimitReached x) = seqM (PushByte 23) (Weight_Encode x)"
| "XCMError_Encode XCMError_IsBarrier = PushByte 24"
| "XCMError_Encode XCMError_IsWeightNotComputable = PushByte 25"
| "XCMError_Encode XCMError_Zero = retM ()"

definition XCMError_Decode :: "(bytes, XCMError) goM" where
  "XCMError_Decode =
     bindM ReadOneByte (\<lambda>b.
       if b = 0 then retM XCMError_IsOverflow
       else if b = 1 then retM XCMError_IsUnimplemented
       else if b = 2 then retM XCMError_IsUntrustedReserveLocation
       else if b = 3 then retM XCMError_IsUntrustedTeleportLocation
       else if b = 4 then retM XCMError_IsMultiLocationFull
       else if b = 5 then retM XCMError_IsMultiLocationNotInvertible
       else if b = 6 then retM XCMError_IsBadOrigin
       else if b = 7 then retM XCMError_IsInvalidLocation
       else if b = 8 then retM XCMError_IsAssetNotFound
       else if b = 9 then retM XCMError_IsFailedToTransactAsset
       else if b = 10 then retM XCMError_IsNotWithdrawable
       else if b = 11 then retM XCMError_IsLocationCannotHold
       else if b = 12 then retM XCMError_IsExceedsMaxMessageSize
       else if b = 13 then retM XCMError_IsDestinationUnsupported
       else if b = 14 then bindM Text_Decode (\<lambda>x. retM (XCMError_IsTransport x))
       else if b = 15 then retM XCMError_IsUnroutable
       else if b = 16 then retM XCMError_IsUnknownClaim
       else if b = 17 then retM XCMError_IsFailedToDecode
       else if b = 18 then retM XCMError_IsMaxWeightInvalid
       else if b = 19 then retM XCMError_IsNotHoldingFees
       else if b = 20 then retM XCMError_IsTooExpensive
       else if b = 21 then bindM (Decode_word Uint64) (\<lambda>x. retM (XCMError_IsTrap x))
       else if b = 22 then retM XCMError_IsUnhandledXcmVersion
       else if b = 23 then bindM Weight_Decode (\<lambda>x. retM (XCMError_IsWeightLimitReached x))
       else if b = 24 then retM XCMError_IsBarrier
       else if b = 25 then retM XCMError_IsWeightNotComputable
       else retM XCMError_Zero)"

definition XCMError_ok :: "XCMError \<Rightarrow> bool" where
  "XCMError_ok v =
     (case v of XCMError_Zero \<Rightarrow> False
      | XCMError_IsTransport x \<Rightarrow> text_ok x
      | XCMError_IsWeightLimitReached x \<Rightarrow> Weight_ok x
      | _ \<Rightarrow> True)"

interpretation xcmError: chain_codec XCMError_Encode XCMError_Decode XCMError_ok
proof
  fix v
  assume "XCMError_ok v"
  then show "rt (XCMError_Encode v) XCMError_Decode v"
    unfolding XCMError_Decode_def XCMError_ok_def
    by (cases v; simp only: XCMError_Encode.simps XCMError.case; (elim conjE)?)
      (rule codec_rules codec_steps codec_laws rt_done | (simp del: retM_apply; fail))+
qed (unfold XCMError_Decode_def, intro consuming_rules)

datatype Outcome = Outcome_Zero | Outcome_IsComplete Weight | Outcome_IsIncomplete Weight XCMError | Outcome_IsError XCMError

primrec Outcome_Encode :: "Outcome \<Rightarrow> (bytes, unit) goM" where
  "Outcome_Encode (Outcome_IsComplete x) = seqM (PushByte 0) (Weight_Encode x)"
| "Outcome_Encode (Outcome_IsIncomplete x y) = seqM (PushByte 1) (seqM (Weight_Encode x) (XCMError_Encode y))"
| "Outcome_Encode (Outcome_IsError x) = seqM (PushByte 2) (XCMError_Encode x)"
| "Outcome_Encode Outcome_Zero = retM ()"

definition Outcome_Decode :: "(bytes, Outcome) goM" where
  "Outcome_Decode =
     bindM ReadOneByte (\<lambda>b.
       if b = 0 then bindM Weight_Decode (\<lambda>x. retM (Outcome_IsComplete x))
       else if b = 1 then bindM Weight_Decode (\<lambda>x. bindM XCMError_Decode (\<lambda>y. retM (Outcome_IsIncomplete x y)))
       else if b = 2 then bindM XCMError_Decode (\<lambda>x. retM (Outcome_IsError x))
       else retM Outcome_Zero)"

definition Outcome_ok :: "Outcome \<Rightarrow> bool" where
  "Outcome_ok v =
     (case v of Outcome_Zero \<Rightarrow> False
      | Outcome_IsComplete x \<Rightarrow> Weight_ok x
      | Outcome_IsIncomplete x y \<Rightarrow> Weight_ok x \<and> XCMError_ok y
      | Outcome_IsError x \<Rightarrow> XCMError_ok x)"

interpretation outcome: chain_codec Outcome_Encode Outcome_Decode Outcome_ok
proof
  fix v
  assume "Outcome_ok v"
  then show "rt (Outcome_Encode v) Outcome_Decode v"
    unfolding Outcome_Decode_def Outcome_ok_def
    by (cases v; simp only: Outcome_Encode.simps Outcome.case; (elim conjE)?)
      (rule codec_rules codec_steps codec_laws rt_done | (simp del: retM_apply; fail))+
qed (unfold Outcome_Decode_def, intro consuming_rules)

record ExecutionResult =
  ExecutionResult_Outcome :: uint32
  ExecutionResult_Error :: XCMError

definition zero_ExecutionResult :: ExecutionResult where
  "zero_ExecutionResult = \<lparr>ExecutionResult_Outcome = 0, ExecutionResult_Error = XCMError_Zero\<rparr>"

definition ExecutionResult_Encode :: "ExecutionResult \<Rightarrow> (bytes, unit) goM" where
  "ExecutionResult_Encode v =
     seqM (Encode_word Uint32 (ExecutionResult_Outcome v))
    (XCMError_Encode (ExecutionResult_Error v))"

definition ExecutionResult_Decode :: "(bytes, ExecutionResult) goM" where
  "ExecutionResult_Decode =
     bindM (Decode_word Uint32) (\<lambda>x.
     bindM XCMError_Decode (\<lambda>y.
       retM \<lparr>ExecutionResult_Outcome = x, ExecutionResult_Error = y\<rparr>))"

definition ExecutionResult_ok :: "ExecutionResult \<Rightarrow> bool" where
  "ExecutionResult_ok v \<longleftrightarrow> XCMError_ok (ExecutionResult_Error v)"

interpretation executionResult: chain_codec ExecutionResult_Encode ExecutionResult_Decode ExecutionResult_ok
proof
  fix v
  assume "ExecutionResult_ok v"
  then show "rt (ExecutionResult_Encode v) ExecutionResult_Decode v"
    unfolding ExecutionResult_Encode_def ExecutionResult_Decode_def ExecutionResult_ok_def
    by (cases v; (elim conjE)?)
      (rule codec_rules codec_steps codec_laws rt_done | (simp del: retM_apply; fail))+
qed (unfold ExecutionResult_Decode_def, intro consuming_rules)

section \<open>Assets\<close>

datatype AssetID = AssetID_Zero | AssetID_IsConcrete MultiLocationV1 | AssetID_IsAbstract bytes

primrec AssetID_Encode :: "AssetID \<Rightarrow> (bytes, unit) goM" where
  "AssetID_Encode (AssetID_IsConcrete x) = seqM (PushByte 0) (MultiLocationV1_Encode x)"
| "AssetID_Encode (AssetID_IsAbstract x) = seqM (PushByte 1) (Encode_slice Encode_byte x)"
| "AssetID_Encode AssetID_Zero = retM ()"

definition AssetID_Decode :: "(bytes, AssetID) goM" where
  "AssetID_Decode =
     bindM ReadOneByte (\<lambda>b.
       if b = 0 then bindM MultiLocationV1_Decode (\<lambda>x. retM (AssetID_IsConcrete x))
       else if b = 1 then bindM (Decode_slice Decode_byte) (\<lambda>x. retM (AssetID_IsAbstract x))
       else retM AssetID_Zero)"

definition AssetID_ok :: "AssetID \<Rightarrow> bool" where
  "AssetID_ok v =
     (case v of AssetID_Zero \<Rightarrow> False
      | AssetID_IsConcrete x \<Rightarrow> MultiLocationV1_ok x
      | AssetID_IsAbstract x \<Rightarrow> slice_ok (\<lambda>_. True) x)"

interpretation assetID: chain_codec AssetID_Encode AssetID_Decode AssetID_ok
proof
  fix v
  assume "AssetID_ok v"
  then show "rt (AssetID_Encode v) AssetID_Decode v"
    unfolding AssetID_Decode_def AssetID_ok_def
    by (cases v; simp only: AssetID_Encode.simps AssetID.case; (elim conjE)?)
      (rule codec_rules codec_steps codec_laws rt_done | (simp del: retM_apply; fail))+
qed (unfold AssetID_Decode_def, intro consuming_rules)

datatype AssetInstance =
    AssetInstance_Zero
  | AssetInstance_IsUndefined
  | AssetInstance_IsIndex "int option"
  | AssetInstance_IsArray4 bytes
  | AssetInstance_IsArray8 bytes
  | AssetInstance_IsArray16 bytes
  | AssetInstance_IsArray32 bytes
  | AssetInstance_IsBlob bytes

primrec AssetInstance_Encode :: "AssetInstance \<Rightarrow> (bytes, unit) goM" where
  "AssetInstance_Encode AssetInstance_IsUndefined = PushByte 0"
| "AssetInstance_Encode (AssetInstance_IsIndex x) = seqM (PushByte 1) (U128_Encode x)"
| "AssetInstance_Encode (AssetInstance_IsArray4 x) = seqM (PushByte 2) (Encode_array x)"
| "AssetInstance_Encode (AssetInstance_IsArray8 x) = seqM (PushByte 3) (Encode_array x)"
| "AssetInstance_Encode (AssetInstance_IsArray16 x) = seqM (PushByte 4) (Encode_array x)"
| "AssetInstance_Encode (AssetInstance_IsArray32 x) = seqM (PushByte 5) (Encode_array x)"
| "AssetInstance_Encode (AssetInstance_IsBlob x) = seqM (PushByte 6) (Encode_slice Encode_byte x)"
| "AssetInstance_Encode AssetInstance_Zero = retM ()"

definition AssetInstance_Decode :: "(bytes, AssetInstance) goM" where
  "AssetInstance_Decode =
     bindM ReadOneByte (\<lambda>b.
       if b = 0 then retM AssetInstance_IsUndefined
       else if b = 1 then bindM U128_Decode (\<lambda>x. retM (AssetInstance_IsIndex x))
       else if b = 2 then bindM (Decode_array 4) (\<lambda>x. retM (AssetInstance_IsArray4 x))
       else if b = 3 then bindM (Decode_array 8) (\<lambda>x. retM (AssetInstance_IsArray8 x))
       else if b = 4 then bindM (Decode_array 16) (\<lambda>x. retM (AssetInstance_IsArray16 x))
       else if b = 5 then bindM (Decode_array 32) (\<lambda>x. retM (AssetInstance_IsArray32 x))
       else if b = 6 then bindM (Decode_slice Decode_byte) (\<lambda>x. retM (AssetInstance_IsBlob x))
       else retM AssetInstance_Zero)"

definition AssetInstance_ok :: "AssetInstance \<Rightarrow> bool" where
  "AssetInstance_ok v =
     (case v of AssetInstance_Zero \<Rightarrow> False
      | AssetInstance_IsIndex x \<Rightarrow> U128_ok x
      | AssetInstance_IsArray4 x \<Rightarrow> length x = 4
      | AssetInstance_IsArray8 x \<Rightarrow> length x = 8
      | AssetInstance_IsArray16 x \<Rightarrow> length x = 16
      | AssetInstance_IsArray32 x \<Rightarrow> length x = 32
      | AssetInstance_IsBlob x \<Rightarrow> slice_ok (\<lambda>_. True) x
      | _ \<Rightarrow> True)"

interpretation assetInstance: chain_codec AssetInstance_Encode AssetInstance_Decode AssetInstance_ok
proof
  fix v
  assume "AssetInstance_ok v"
  then show "rt (AssetInstance_Encode v) AssetInstance_Decode v"
    unfolding AssetInstance_Decode_def AssetInstance_ok_def
    by (cases v; simp only: AssetInstance_Encode.simps AssetInstance.case; (elim conjE)?)
      (rule codec_rules codec_steps codec_laws rt_done | (simp del: retM_apply; fail))+
qed (unfold AssetInstance_Decode_def, intro consuming_rules)

datatype Fungibility = Fungibility_Zero | Fungibility_IsFungible int | Fungibility_IsNonFungible AssetInstance

primrec Fungibility_Encode :: "Fungibility \<Rightarrow> (bytes, unit) goM" where
  "Fungibility_Encode (Fungibility_IsFungible x) = seqM (PushByte 0) (UCompact_Encode x)"
| "Fungibility_Encode (Fungibility_IsNonFungible x) = seqM (PushByte 1) (AssetInstance_Encode x)"
| "Fungibility_Encode Fungibility_Zero = retM ()"

definition Fungibility_Decode :: "(bytes, Fungibility) goM" where
  "Fungibility_Decode =
     bindM ReadOneByte (\<lambda>b.
       if b = 0 then bindM UCompact_Decode (\<lambda>x. retM (Fungibility_IsFungible x))
       else if b = 1 then bindM AssetInstance_Decode (\<lambda>x. retM (Fungibility_IsNonFungible x))
       else retM Fungibility_Zero)"

definition Fungibility_ok :: "Fungibility \<Rightarrow> bool" where
  "Fungibility_ok v =
     (case v of Fungibility_Zero \<Rightarrow> False
      | Fungibility_IsFungible x \<Rightarrow> id_ok x
      | Fungibility_IsNonFungible x \<Rightarrow> AssetInstance_ok x)"

interpretation fungibility: chain_codec Fungibility_Encode Fungibility_Decode Fungibility_ok
proof
  fix v
  assume "Fungibility_ok v"
  then show "rt (Fungibility_Encode v) Fungibility_Decode v"
    unfolding Fungibility_Decode_def Fungibility_ok_def
    by (cases v; simp only: Fungibility_Encode.simps Fungibility.case; (elim conjE)?)
      (rule codec_rules codec_steps codec_laws rt_done | (simp del: retM_apply; fail))+
qed (unfold Fungibility_Decode_def, intro consuming_rules)

record MultiAssetV1 =
  MultiAssetV1_ID :: AssetID
  MultiAssetV1_Fungibility :: Fungibility

definition MultiAssetV1_Encode :: "MultiAssetV1 \<Rightarrow> (bytes, unit) goM" where
  "MultiAssetV1_Encode v =
     seqM (AssetID_Encode (MultiAssetV1_ID v))
    (Fungibility_Encode (MultiAssetV1_Fungibility v))"

definition MultiAssetV1_Decode :: "(bytes, MultiAssetV1) goM" where
  "MultiAssetV1_Decode =
     bindM AssetID_Decode (\<lambda>x.
     bindM Fungibility_Decode (\<lambda>y.
       retM \<lparr>MultiAssetV1_ID = x, MultiAssetV1_Fungibility = y\<rparr>))"

definition MultiAssetV1_ok :: "MultiAssetV1 \<Rightarrow> bool" where
  "MultiAssetV1_ok v \<longleftrightarrow> AssetID_ok (MultiAssetV1_ID v) \<and> Fungibility_ok (MultiAssetV1_Fungibility v)"

interpretation multiAssetV1: chain_codec MultiAssetV1_Encode MultiAssetV1_Decode MultiAssetV1_ok
proof
  fix v
  assume "MultiAssetV1_ok v"
  then show "rt (MultiAssetV1_Encode v) MultiAssetV1_Decode v"
    unfolding MultiAssetV1_Encode_def MultiAssetV1_Decode_def MultiAssetV1_ok_def
    by (cases v; (elim conjE)?)
      (rule codec_rules codec_steps codec_laws rt_done | (simp del: retM_apply; fail))+
qed (unfold MultiAssetV1_Decode_def, intro consuming_rules)

datatype MultiAssetV0 =
    MultiAssetV0_Zero
  | MultiAssetV0_IsNone
  | MultiAssetV0_IsAll
  | MultiAssetV0_IsAllFungible
  | MultiAssetV0_IsAllNonFungible
  | MultiAssetV0_IsAllAbstractFungible bytes
  | MultiAssetV0_IsAllAbstractNonFungible bytes
  | MultiAssetV0_IsAllConcreteFungible MultiLocationV1
  | MultiAssetV0_IsAllConcreteNonFungible MultiLocationV1
  | MultiAssetV0_IsAbstractFungible bytes "int option"
  | MultiAssetV0_IsAbstractNonFungible bytes AssetInstance
  | MultiAssetV0_IsConcreteFungible MultiLocationV1 "int option"
  | MultiAssetV0_IsConcreteNonFungible MultiLocationV1 AssetInstance

primrec MultiAssetV0_Encode :: "MultiAssetV0 \<Rightarrow> (bytes, unit) goM" where
  "MultiAssetV0_Encode MultiAssetV0_IsNone = PushByte 0"
| "MultiAssetV0_Encode MultiAssetV0_IsAll = PushByte 1"
| "MultiAssetV0_Encode MultiAssetV0_IsAllFungible = PushByte 2"
| "MultiAssetV0_Encode MultiAssetV0_IsAllNonFungible = PushByte 3"
| "MultiAssetV0_Encode (MultiAssetV0_IsAllAbstractFungible x) = seqM (PushByte 4) (Encode_slice Encode_byte x)"
| "MultiAssetV0_Encode (MultiAssetV0_IsAllAbstractNonFungible x) = seqM (PushByte 5) (Encode_slice Encode_byte x)"
| "MultiAssetV0_Encode (MultiAssetV0_IsAllConcreteFungible x) = seqM (PushByte 6) (MultiLocationV1_EncodeValue x)"
| "MultiAssetV0_Encode (MultiAssetV0_IsAllConcreteNonFungible x) = seqM (PushByte 7) (MultiLocationV1_EncodeValue x)"
| "MultiAssetV0_Encode (MultiAssetV0_IsAbstractFungible x y) = seqM (PushByte 8) (seqM (Encode_slice Encode_byte x) (U128_Encode y))"
| "MultiAssetV0_Encode (MultiAssetV0_IsAbstractNonFungible x y) = seqM (PushByte 9) (seqM (Encode_slice Encode_byte x) (AssetInstance_Encode y))"
| "MultiAssetV0_Encode (MultiAssetV0_IsConcreteFungible x y) = seqM (PushByte 10) (seqM (MultiLocationV1_EncodeValue x) (U128_Encode y))"
| "MultiAssetV0_Encode (MultiAssetV0_IsConcreteNonFungible x y) = seqM (PushByte 11) (seqM (MultiLocationV1_EncodeValue x) (AssetInstance_Encode y))"
| "MultiAssetV0_Encode MultiAssetV0_Zero = retM ()"

definition MultiAssetV0_Decode :: "(bytes, MultiAssetV0) goM" where
  "MultiAssetV0_Decode =
     bindM ReadOneByte (\<lambda>b.
       if b = 0 then retM MultiAssetV0_IsNone
       else if b = 1 then retM MultiAssetV0_IsAll
       else if b = 2 then retM MultiAssetV0_IsAllFungible
       else if b = 3 then retM MultiAssetV0_IsAllNonFungible
       else if b = 4 then bindM (Decode_slice Decode_byte) (\<lambda>x. retM (MultiAssetV0_IsAllAbstractFungible x))
       else if b = 5 then bindM (Decode_slice Decode_byte) (\<lambda>x. retM (MultiAssetV0_IsAllAbstractNonFungible x))
       else if b = 6 then bindM MultiLocationV1_Decode (\<lambda>x. retM (MultiAssetV0_IsAllConcreteFungible x))
       else if b = 7 then bindM MultiLocationV1_Decode (\<lambda>x. retM (MultiAssetV0_IsAllConcreteNonFungible x))
       else if b = 8 then bindM (Decode_slice Decode_byte) (\<lambda>x. bindM U128_Decode (\<lambda>y. retM (MultiAssetV0_IsAbstractFungible x y)))
       else if b = 9 then bindM (Decode_slice Decode_byte) (\<lambda>x. bindM AssetInstance_Decode (\<lambda>y. retM (MultiAssetV0_IsAbstractNonFungible x y)))
       else if b = 10 then bindM MultiLocationV1_Decode (\<lambda>x. bindM U128_Decode (\<lambda>y. retM (MultiAssetV0_IsConcreteFungible x y)))
       else if b = 11 then bindM MultiLocationV1_Decode (\<lambda>x. bindM AssetInstance_Decode (\<lambda>y. retM (MultiAssetV0_IsConcreteNonFungible x y)))
       else retM MultiAssetV0_Zero)"

definition MultiAssetV0_ok :: "MultiAssetV0 \<Rightarrow> bool" where
  "MultiAssetV0_ok v =
     (case v of MultiAssetV0_Zero \<Rightarrow> False
      | MultiAssetV0_IsAllAbstractFungible x \<Rightarrow> slice_ok (\<lambda>_. True) x
      | MultiAssetV0_IsAllAbstractNonFungible x \<Rightarrow> slice_ok (\<lambda>_. True) x
      | MultiAssetV0_IsAllConcreteFungible x \<Rightarrow> MultiLocationV1_ok x
      | MultiAssetV0_IsAllConcreteNonFungible x \<Rightarrow> MultiLocationV1_ok x
      | MultiAssetV0_IsAbstractFungible x y \<Rightarrow> slice_ok (\<lambda>_. True) x \<and> U128_ok y
      | MultiAssetV0_IsAbstractNonFungible x y \<Rightarrow> slice_ok (\<lambda>_. True) x \<and> AssetInstance_ok y
      | MultiAssetV0_IsConcreteFungible x y \<Rightarrow> MultiLocationV1_ok x \<and> U128_ok y
      | MultiAssetV0_IsConcreteNonFungible x y \<Rightarrow> MultiLocationV1_ok x \<and> AssetInstance_ok y
      | _ \<Rightarrow> True)"

interpretation multiAssetV0: chain_codec MultiAssetV0_Encode MultiAssetV0_Decode MultiAssetV0_ok
proof
  fix v
  assume "MultiAssetV0_ok v"
  then show "rt (MultiAssetV0_Encode v) MultiAssetV0_Decode v"
    unfolding MultiAssetV0_Decode_def MultiAssetV0_ok_def
    by (cases v; simp only: MultiAssetV0_Encode.simps MultiAssetV0.case; (elim conjE)?)
      (rule codec_rules codec_steps codec_laws rt_done | (simp del: retM_apply; fail))+
qed (unfold MultiAssetV0_Decode_def, intro consuming_rules)

datatype VersionedMultiAssets = VersionedMultiAssets_Zero | VersionedMultiAssets_IsV0 "MultiAssetV0 list" | VersionedMultiAssets_IsV1 "MultiAssetV1 list"

primrec VersionedMultiAssets_Encode :: "VersionedMultiAssets \<Rightarrow> (bytes, unit) goM" where
  "VersionedMultiAssets_Encode (VersionedMultiAssets_IsV0 x) = seqM (PushByte 0) (Encode_slice MultiAssetV0_Encode x)"
| "VersionedMultiAssets_Encode (VersionedMultiAssets_IsV1 x) = seqM (PushByte 1) (Encode_slice MultiAssetV1_Encode x)"
| "VersionedMultiAssets_Encode VersionedMultiAssets_Zero = retM ()"

definition VersionedMultiAssets_Decode :: "(bytes, VersionedMultiAssets) goM" where
  "VersionedMultiAssets_Decode =
     bindM ReadOneByte (\<lambda>b.
       if b = 0 then bindM (Decode_slice MultiAssetV0_Decode) (\<lambda>x. retM (VersionedMultiAssets_IsV0 x))
       else if b = 1 then bindM (Decode_slice MultiAssetV1_Decode) (\<lambda>x. retM (VersionedMultiAssets_IsV1 x))
       else retM VersionedMultiAssets_Zero)"

definition VersionedMultiAssets_ok :: "VersionedMultiAssets \<Rightarrow> bool" where
  "VersionedMultiAssets_ok v =
     (case v of VersionedMultiAssets_Zero \<Rightarrow> False
      | VersionedMultiAssets_IsV0 x \<Rightarrow> slice_ok MultiAssetV0_ok x
      | VersionedMultiAssets_IsV1 x \<Rightarrow> slice_ok MultiAssetV1_ok x)"

interpretation versionedMultiAssets: chain_codec VersionedMultiAssets_Encode VersionedMultiAssets_Decode VersionedMultiAssets_ok
proof
  fix v
  assume "VersionedMultiAssets_ok v"
  then show "rt (VersionedMultiAssets_Encode v) VersionedMultiAssets_Decode v"
    unfolding VersionedMultiAssets_Decode_def VersionedMultiAssets_ok_def
    by (cases v; simp only: VersionedMultiAssets_Encode.simps VersionedMultiAssets.case; (elim conjE)?)
      (rule codec_rules codec_steps codec_laws rt_done | (simp del: retM_apply; fail))+
qed (unfold VersionedMultiAssets_Decode_def, intro consuming_rules)

section \<open>Responses, origins and filters\<close>

datatype Response =
    Response_Zero
  | Response_IsNull
  | Response_IsAssets "MultiAssetV1 list"
  | Response_IsExecutionResult ExecutionResult
  | Response_IsVersion uint32

primrec Response_Encode :: "Response \<Rightarrow> (bytes, unit) goM" where
  "Response_Encode Response_IsNull = PushByte 0"
| "Response_Encode (Response_IsAssets x) = seqM (PushByte 1) (Encode_slice MultiAssetV1_Encode x)"
| "Response_Encode (Response_IsExecutionResult x) = seqM (PushByte 2) (ExecutionResult_Encode x)"
| "Response_Encode (Response_IsVersion x) = seqM (PushByte 3) (Encode_word Uint32 x)"
| "Response_Encode Response_Zero = retM ()"

definition Response_Decode :: "(bytes, Response) goM" where
  "Response_Decode =
     bindM ReadOneByte (\<lambda>b.
       if b = 0 then retM Response_IsNull
       else if b = 1 then bindM (Decode_slice MultiAssetV1_Decode) (\<lambda>x. retM (Response_IsAssets x))
       else if b = 2 then bindM ExecutionResult_Decode (\<lambda>x. retM (Response_IsExecutionResult x))
       else if b = 3 then bindM (Decode_word Uint32) (\<lambda>x. retM (Response_IsVersion x))
       else retM Response_Zero)"

definition Response_ok :: "Response \<Rightarrow> bool" where
  "Response_ok v =
     (case v of Response_Zero \<Rightarrow> False
      | Response_IsAssets x \<Rightarrow> slice_ok MultiAssetV1_ok x
      | Response_IsExecutionResult x \<Rightarrow> ExecutionResult_ok x
      | _ \<Rightarrow> True)"

interpretation response: chain_codec Response_Encode Response_Decode Response_ok
proof
  fix v
  assume "Response_ok v"
  then show "rt (Response_Encode v) Response_Decode v"
    unfolding Response_Decode_def Response_ok_def
    by (cases v; simp only: Response_Encode.simps Response.case; (elim conjE)?)
      (rule codec_rules codec_steps codec_laws rt_done | (simp del: retM_apply; fail))+
qed (unfold Response_Decode_def, intro consuming_rules)

datatype OriginKind =
    OriginKind_Zero
  | OriginKind_IsNative
  | OriginKind_IsSovereignAccount
  | OriginKind_IsSuperuser
  | OriginKind_IsXcm

primrec OriginKind_Encode :: "OriginKind \<Rightarrow> (bytes, unit) goM" where
  "OriginKind_Encode OriginKind_IsNative = PushByte 0"
| "OriginKind_Encode OriginKind_IsSovereignAccount = PushByte 1"
| "OriginKind_Encode OriginKind_IsSuperuser = PushByte 2"
| "OriginKind_Encode OriginKind_IsXcm = PushByte 3"
| "OriginKind_Encode OriginKind_Zero = retM ()"

definition OriginKind_Decode :: "(bytes, OriginKind) goM" where
  "OriginKind_Decode =
     bindM ReadOneByte (\<lambda>b.
       if b = 0 then retM OriginKind_IsNative
       else if b = 1 then retM OriginKind_IsSovereignAccount
       else if b = 2 then retM OriginKind_IsSuperuser
       else if b = 3 then retM OriginKind_IsXcm
       else retM OriginKind_Zero)"

definition OriginKind_ok :: "OriginKind \<Rightarrow> bool" where
  "OriginKind_ok v =
     (case v of OriginKind_Zero \<Rightarrow> False | _ \<Rightarrow> True)"

interpretation originKind: chain_codec OriginKind_Encode OriginKind_Decode OriginKind_ok
proof
  fix v
  assume "OriginKind_ok v"
  then show "rt (OriginKind_Encode v) OriginKind_Decode v"
    unfolding OriginKind_Decode_def OriginKind_ok_def
    by (cases v; simp only: OriginKind_Encode.simps OriginKind.case; (elim conjE)?)
      (rule codec_rules codec_steps codec_laws rt_done | (simp del: retM_apply; fail))+
qed (unfold OriginKind_Decode_def, intro consuming_rules)

record EncodedCall =
  EncodedCall_Call :: bytes

definition EncodedCall_Encode :: "EncodedCall \<Rightarrow> (bytes, unit) goM" where
  "EncodedCall_Encode v =
     Encode_slice Encode_byte (EncodedCall_Call v)"

definition EncodedCall_Decode :: "(bytes, EncodedCall) goM" where
  "EncodedCall_Decode =
     bindM (Decode_slice Decode_byte) (\<lambda>x.
       retM \<lparr>EncodedCall_Call = x\<rparr>)"

definition EncodedCall_ok :: "EncodedCall \<Rightarrow> bool" where
  "EncodedCall_ok v \<longleftrightarrow> slice_ok (\<lambda>_. True) (EncodedCall_Call v)"

interpretation encodedCall: chain_codec EncodedCall_Encode EncodedCall_Decode EncodedCall_ok
proof
  fix v
  assume "EncodedCall_ok v"
  then show "rt (EncodedCall_Encode v) EncodedCall_Decode v"
    unfolding EncodedCall_Encode_def EncodedCall_Decode_def EncodedCall_ok_def
    by (cases v; (elim conjE)?)
      (rule codec_rules codec_steps codec_laws rt_done | (simp del: retM_apply; fail))+
qed (unfold EncodedCall_Decode_def, intro consuming_rules)

datatype WildFungibility = WildFungibility_Zero | WildFungibility_IsFungible | WildFungibility_IsNonFungible

primrec WildFungibility_Encode :: "WildFungibility \<Rightarrow> (bytes, unit) goM" where
  "WildFungibility_Encode WildFungibility_IsFungible = PushByte 0"
| "WildFungibility_Encode WildFungibility_IsNonFungible = PushByte 1"
| "WildFungibility_Encode WildFungibility_Zero = retM ()"

definition WildFungibility_Decode :: "(bytes, WildFungibility) goM" where
  "WildFungibility_Decode =
     bindM ReadOneByte (\<lambda>b.
       if b = 0 then retM WildFungibility_IsFungible
       else if b = 1 then retM WildFungibility_IsNonFungible
       else retM WildFungibility_Zero)"

definition WildFungibility_ok :: "WildFungibility \<Rightarrow> bool" where
  "WildFungibility_ok v =
     (case v of WildFungibility_Zero \<Rightarrow> False | _ \<Rightarrow> True)"

interpretation wildFungibility: chain_codec WildFungibility_Encode WildFungibility_Decode WildFungibility_ok
proof
  fix v
  assume "WildFungibility_ok v"
  then show "rt (WildFungibility_Encode v) WildFungibility_Decode v"
    unfolding WildFungibility_Decode_def WildFungibility_ok_def
    by (cases v; simp only: WildFungibility_Encode.simps WildFungibility.case; (elim conjE)?)
      (rule codec_rules codec_steps codec_laws rt_done | (simp del: retM_apply; fail))+
qed (unfold WildFungibility_Decode_def, intro consuming_rules)

datatype WildMultiAsset = WildMultiAsset_Zero | WildMultiAsset_IsAll | WildMultiAsset_IsAllOf AssetID WildFungibility

primrec WildMultiAsset_Encode :: "WildMultiAsset \<Rightarrow> (bytes, unit) goM" where
  "WildMultiAsset_Encode WildMultiAsset_IsAll = PushByte 0"
| "WildMultiAsset_Encode (WildMultiAsset_IsAllOf x y) = seqM (PushByte 1) (seqM (AssetID_Encode x) (WildFungibility_Encode y))"
| "WildMultiAsset_Encode WildMultiAsset_Zero = retM ()"

definition WildMultiAsset_Decode :: "(bytes, WildMultiAsset) goM" where
  "WildMultiAsset_Decode =
     bindM ReadOneByte (\<lambda>b.
       if b = 0 then retM WildMultiAsset_IsAll
       else if b = 1 then bindM AssetID_Decode (\<lambda>x. bindM WildFungibility_Decode (\<lambda>y. retM (WildMultiAsset_IsAllOf x y)))
       else retM WildMultiAsset_Zero)"

definition WildMultiAsset_ok :: "WildMultiAsset \<Rightarrow> bool" where
  "WildMultiAsset_ok v =
     (case v of WildMultiAsset_Zero \<Rightarrow> False
      | WildMultiAsset_IsAllOf x y \<Rightarrow> AssetID_ok x \<and> WildFungibility_ok y
      | _ \<Rightarrow> True)"

interpretation wildMultiAsset: chain_codec WildMultiAsset_Encode WildMultiAsset_Decode WildMultiAsset_ok
proof
  fix v
  assume "WildMultiAsset_ok v"
  then show "rt (WildMultiAsset_Encode v) WildMultiAsset_Decode v"
    unfolding WildMultiAsset_Decode_def WildMultiAsset_ok_def
    by (cases v; simp only: WildMultiAsset_Encode.simps WildMultiAsset.case; (elim conjE)?)
      (rule codec_rules codec_steps codec_laws rt_done | (simp del: retM_apply; fail))+
qed (unfold WildMultiAsset_Decode_def, intro consuming_rules)

datatype MultiAssetFilter = MultiAssetFilter_Zero | MultiAssetFilter_IsDefinite "MultiAssetV1 list" | MultiAssetFilter_IsWild WildMultiAsset

primrec MultiAssetFilter_Encode :: "MultiAssetFilter \<Rightarrow> (bytes, unit) goM" where
  "MultiAssetFilter_Encode (MultiAssetFilter_IsDefinite x) = seqM (PushByte 0) (Encode_slice MultiAssetV1_Encode x)"
| "MultiAssetFilter_Encode (MultiAssetFilter_IsWild x) = seqM (PushByte 1) (WildMultiAsset_Encode x)"
| "MultiAssetFilter_Encode MultiAssetFilter_Zero = retM ()"

definition MultiAssetFilter_Decode :: "(bytes, MultiAssetFilter) goM" where
  "MultiAssetFilter_Decode =
     bindM ReadOneByte (\<lambda>b.
       if b = 0 then bindM (Decode_slice MultiAssetV1_Decode) (\<lambda>x. retM (MultiAssetFilter_IsDefinite x))
       else if b = 1 then bindM WildMultiAsset_Decode (\<lambda>x. retM (MultiAssetFilter_IsWild x))
       else retM MultiAssetFilter_Zero)"

definition MultiAssetFilter_ok :: "MultiAssetFilter \<Rightarrow> bool" where
  "MultiAssetFilter_ok v =
     (case v of MultiAssetFilter_Zero \<Rightarrow> False
      | MultiAssetFilter_IsDefinite x \<Rightarrow> slice_ok MultiAssetV1_ok x
      | MultiAssetFilter_IsWild x \<Rightarrow> WildMultiAsset_ok x)"

interpretation multiAssetFilter: chain_codec MultiAssetFilter_Encode MultiAssetFilter_Decode MultiAssetFilter_ok
proof
  fix v
  assume "MultiAssetFilter_ok v"
  then show "rt (MultiAssetFilter_Encode v) MultiAssetFilter_Decode v"
    unfolding MultiAssetFilter_Decode_def MultiAssetFilter_ok_def
    by (cases v; simp only: MultiAssetFilter_Encode.simps MultiAssetFilter.case; (elim conjE)?)
      (rule codec_rules codec_steps codec_laws rt_done | (simp del: retM_apply; fail))+
qed (unfold MultiAssetFilter_Decode_def, intro consuming_rules)

datatype WeightLimit = WeightLimit_Zero | WeightLimit_IsUnlimited | WeightLimit_IsLimited uint64

primrec WeightLimit_Encode :: "WeightLimit \<Rightarrow> (bytes, unit) goM" where
  "WeightLimit_Encode WeightLimit_IsUnlimited = PushByte 0"
| "WeightLimit_Encode (WeightLimit_IsLimited x) = seqM (PushByte 1) (Encode_word Uint64 x)"
| "WeightLimit_Encode WeightLimit_Zero = retM ()"

definition WeightLimit_Decode :: "(bytes, WeightLimit) goM" where
  "WeightLimit_Decode =
     bindM ReadOneByte (\<lambda>b.
       if b = 0 then retM WeightLimit_IsUnlimited
       else if b = 1 then bindM (Decode_word Uint64) (\<lambda>x. retM (WeightLimit_IsLimited x))
       else retM WeightLimit_Zero)"

definition WeightLimit_ok :: "WeightLimit \<Rightarrow> bool" where
  "WeightLimit_ok v =
     (case v of WeightLimit_Zero \<Rightarrow> False | _ \<Rightarrow> True)"

interpretation weightLimit: chain_codec WeightLimit_Encode WeightLimit_Decode WeightLimit_ok
proof
  fix v
  assume "WeightLimit_ok v"
  then show "rt (WeightLimit_Encode v) WeightLimit_Decode v"
    unfolding WeightLimit_Decode_def WeightLimit_ok_def
    by (cases v; simp only: WeightLimit_Encode.simps WeightLimit.case; (elim conjE)?)
      (rule codec_rules codec_steps codec_laws rt_done | (simp del: retM_apply; fail))+
qed (unfold WeightLimit_Decode_def, intro consuming_rules)

section \<open>Registered assets\<close>

record XcmMetadata =
  XcmMetadata_FeePerSecond :: "bool \<times> (int option)"

definition XcmMetadata_Encode :: "XcmMetadata \<Rightarrow> (bytes, unit) goM" where
  "XcmMetadata_Encode v =
     fieldE (EncodeOpt U128_Encode (XcmMetadata_FeePerSecond v))"

definition XcmMetadata_Decode :: "(bytes, XcmMetadata) goM" where
  "XcmMetadata_Decode =
     bindM (fieldD (DecodeOption U128_Decode None)) (\<lambda>x.
       retM \<lparr>XcmMetadata_FeePerSecond = x\<rparr>)"

definition XcmMetadata_ok :: "XcmMetadata \<Rightarrow> bool" where
  "XcmMetadata_ok v \<longleftrightarrow> opt_ok U128_ok None (XcmMetadata_FeePerSecond v)"

interpretation xcmMetadata: chain_codec XcmMetadata_Encode XcmMetadata_Decode XcmMetadata_ok
proof
  fix v
  assume "XcmMetadata_ok v"
  then show "rt (XcmMetadata_Encode v) XcmMetadata_Decode v"
    unfolding XcmMetadata_Encode_def XcmMetadata_Decode_def XcmMetadata_ok_def
    by (cases v; (elim conjE)?)
      (rule codec_rules codec_steps codec_laws rt_done | (simp del: retM_apply; fail))+
qed (unfold XcmMetadata_Decode_def, intro consuming_rules)

datatype CrossChainTransferability =
    CrossChainTransferability_Zero
  | CrossChainTransferability_IsNone
  | CrossChainTransferability_IsXcm XcmMetadata
  | CrossChainTransferability_IsConnectors
  | CrossChainTransferability_IsAll XcmMetadata

primrec CrossChainTransferability_Encode :: "CrossChainTransferability \<Rightarrow> (bytes, unit) goM" where
  "CrossChainTransferability_Encode CrossChainTransferability_IsNone = PushByte 0"
| "CrossChainTransferability_Encode (CrossChainTransferability_IsXcm x) = seqM (PushByte 1) (XcmMetadata_Encode x)"
| "CrossChainTransferability_Encode CrossChainTransferability_IsConnectors = PushByte 2"
| "CrossChainTransferability_Encode (CrossChainTransferability_IsAll x) = seqM (PushByte 3) (XcmMetadata_Encode x)"
| "CrossChainTransferability_Encode CrossChainTransferability_Zero = failM (ErrorString ''unsupported cross chain transferability'')"

definition CrossChainTransferability_Decode :: "(bytes, CrossChainTransferability) goM" where
  "CrossChainTransferability_Decode =
     bindM ReadOneByte (\<lambda>b.
       if b = 0 then retM CrossChainTransferability_IsNone
       else if b = 1 then bindM XcmMetadata_Decode (\<lambda>x. retM (CrossChainTransferability_IsXcm x))
       else if b = 2 then retM CrossChainTransferability_IsConnectors
       else if b = 3 then bindM XcmMetadata_Decode (\<lambda>x. retM (CrossChainTransferability_IsAll x))
       else failM (ErrorString ''unsupported cross chain transferability''))"

definition CrossChainTransferability_ok :: "CrossChainTransferability \<Rightarrow> bool" where
  "CrossChainTransferability_ok v =
     (case v of CrossChainTransferability_Zero \<Rightarrow> False
      | CrossChainTransferability_IsXcm x \<Rightarrow> XcmMetadata_ok x
      | CrossChainTransferability_IsAll x \<Rightarrow> XcmMetadata_ok x
      | _ \<Rightarrow> True)"

interpretation crossChainTransferability: chain_codec CrossChainTransferability_Encode CrossChainTransferability_Decode CrossChainTransferability_ok
proof
  fix v
  assume "CrossChainTransferability_ok v"
  then show "rt (CrossChainTransferability_Encode v) CrossChainTransferability_Decode v"
    unfolding CrossChainTransferability_Decode_def CrossChainTransferability_ok_def
    by (cases v; simp only: CrossChainTransferability_Encode.simps CrossChainTransferability.case; (elim conjE)?)
      (rule codec_rules codec_steps codec_laws rt_done | (simp del: retM_apply; fail))+
qed (unfold CrossChainTransferability_Decode_def, intro consuming_rules)

record CustomMetadata =
  CustomMetadata_Transferability :: CrossChainTransferability
  CustomMetadata_Mintable :: bool
  CustomMetadata_Permissioned :: bool
  CustomMetadata_PoolCurrency :: bool

definition CustomMetadata_Encode :: "CustomMetadata \<Rightarrow> (bytes, unit) goM" where
  "CustomMetadata_Encode v =
     seqM (fieldE (CrossChainTransferability_Encode (CustomMetadata_Transferability v)))
    (seqM (fieldE (Encode_bool (CustomMetadata_Mintable v)))
    (seqM (fieldE (Encode_bool (CustomMetadata_Permissioned v)))
    (fieldE (Encode_bool (CustomMetadata_PoolCurrency v)))))"

definition CustomMetadata_Decode :: "(bytes, CustomMetadata) goM" where
  "CustomMetadata_Decode =
     bindM (fieldD CrossChainTransferability_Decode) (\<lambda>x.
     bindM (fieldD Decode_bool) (\<lambda>y.
     bindM (fieldD Decode_bool) (\<lambda>z.
     bindM (fieldD Decode_bool) (\<lambda>u.
       retM \<lparr>CustomMetadata_Transferability = x, CustomMetadata_Mintable = y, CustomMetadata_Permissioned = z,
         CustomMetadata_PoolCurrency = u\<rparr>))))"

definition CustomMetadata_ok :: "CustomMetadata \<Rightarrow> bool" where
  "CustomMetadata_ok v \<longleftrightarrow> CrossChainTransferability_ok (CustomMetadata_Transferability v)"

interpretation customMetadata: chain_codec CustomMetadata_Encode CustomMetadata_Decode CustomMetadata_ok
proof
  fix v
  assume "CustomMetadata_ok v"
  then show "rt (CustomMetadata_Encode v) CustomMetadata_Decode v"
    unfolding CustomMetadata_Encode_def CustomMetadata_Decode_def CustomMetadata_ok_def
    by (cases v; (elim conjE)?)
      (rule codec_rules codec_steps codec_laws rt_done | (simp del: retM_apply; fail))+
qed (unfold CustomMetadata_Decode_def, intro consuming_rules)

record AssetMetadata =
  AssetMetadata_Decimals :: uint32
  AssetMetadata_Name :: bytes
  AssetMetadata_Symbol :: bytes
  AssetMetadata_ExistentialBalance :: "int option"
  AssetMetadata_Location :: "bool \<times> VersionedMultiLocation"
  AssetMetadata_Additional :: CustomMetadata

definition AssetMetadata_Encode :: "AssetMetadata \<Rightarrow> (bytes, unit) goM" where
  "AssetMetadata_Encode v =
     seqM (fieldE (Encode_word Uint32 (AssetMetadata_Decimals v)))
    (seqM (fieldE (Encode_slice Encode_byte (AssetMetadata_Name v)))
    (seqM (fieldE (Encode_slice Encode_byte (AssetMetadata_Symbol v)))
    (seqM (fieldE (U128_Encode (AssetMetadata_ExistentialBalance v)))
    (seqM (fieldE (EncodeOpt VersionedMultiLocation_Encode (AssetMetadata_Location v)))
    (fieldE (CustomMetadata_Encode (AssetMetadata_Additional v)))))))"

definition AssetMetadata_Decode :: "(bytes, AssetMetadata) goM" where
  "AssetMetadata_Decode =
     bindM (fieldD (Decode_word Uint32)) (\<lambda>x0.
     bindM (fieldD (Decode_slice Decode_byte)) (\<lambda>x1.
     bindM (fieldD (Decode_slice Decode_byte)) (\<lambda>x2.
     bindM (fieldD U128_Decode) (\<lambda>x3.
     bindM (fieldD (DecodeOption VersionedMultiLocation_Decode VersionedMultiLocation_Zero)) (\<lambda>x4.
     bindM (fieldD CustomMetadata_Decode) (\<lambda>x5.
       retM \<lparr>AssetMetadata_Decimals = x0, AssetMetadata_Name = x1, AssetMetadata_Symbol = x2,
         AssetMetadata_ExistentialBalance = x3, AssetMetadata_Location = x4, AssetMetadata_Additional = x5\<rparr>))))))"

definition AssetMetadata_ok :: "AssetMetadata \<Rightarrow> bool" where
  "AssetMetadata_ok v \<longleftrightarrow> slice_ok (\<lambda>_. True) (AssetMetadata_Name v) \<and>
     slice_ok (\<lambda>_. True) (AssetMetadata_Symbol v) \<and>
     U128_ok (AssetMetadata_ExistentialBalance v) \<and>
     opt_ok VersionedMultiLocation_ok VersionedMultiLocation_Zero (AssetMetadata_Location v) \<and>
     CustomMetadata_ok (AssetMetadata_Additional v)"

interpretation assetMetadata: chain_codec AssetMetadata_Encode AssetMetadata_Decode AssetMetadata_ok
proof
  fix v
  assume "AssetMetadata_ok v"
  then show "rt (AssetMetadata_Encode v) AssetMetadata_Decode v"
    unfolding AssetMetadata_Encode_def AssetMetadata_Decode_def AssetMetadata_ok_def
    by (cases v; (elim conjE)?)
      (rule codec_rules codec_steps codec_laws rt_done | (simp del: retM_apply; fail))+
qed (unfold AssetMetadata_Decode_def, intro consuming_rules)

end
