(* ===== verification/XcmInstruction.thy ===== *)
theory XcmInstruction
  imports XcmAssets
begin

text \<open>
  \<open>Instruction\<close> of \<open>src/types/xcm.go\<close>, the instructions of a cross-consensus message. Some
  instructions contain messages: lists of instructions. The recursion of \<open>Decode\<close> is cut off by
  fuel; every instruction takes at least its tag byte from the input, so fuel above the length of
  the input is enough, and \<open>Instruction_Decode\<close> satisfies the recursion equation of the code.
\<close>

section \<open>Instructions and their codec\<close>

datatype Instruction =
    Instruction_Zero
  | Instruction_IsWithdrawAsset "MultiAssetV1 list"
  | Instruction_IsReserveAssetDeposited "MultiAssetV1 list"
  | Instruction_IsReceiveTeleportedAsset "MultiAssetV1 list"
  | Instruction_IsQueryResponse int Response int
  | Instruction_IsTransferAsset "MultiAssetV1 list" MultiLocationV1
  | Instruction_IsTransferReserveAsset "MultiAssetV1 list" MultiLocationV1 "Instruction list"
  | Instruction_IsTransact OriginKind int EncodedCall
  | Instruction_IsHrmpNewChannelOpenRequest uint32 uint32 uint32
  | Instruction_IsHrmpChannelAccepted uint32
  | Instruction_IsHrmpChannelClosing uint32 uint32 uint32
  | Instruction_IsClearOrigin
  | Instruction_IsDescendOrigin JunctionsV1
  | Instruction_IsReportError uint64 MultiLocationV1 uint64
  | Instruction_IsDepositAsset MultiAssetFilter uint32 MultiLocationV1
  | Instruction_IsDepositReserveAsset MultiAssetFilter uint32 MultiLocationV1 "Instruction list"
  | Instruction_IsExchangeAsset MultiAssetFilter "MultiAssetV1 list"
  | Instruction_IsInitiateReserveWithdraw MultiAssetFilter MultiLocationV1 "Instruction list"
  | Instruction_IsInitiateTeleport MultiAssetFilter MultiLocationV1 "Instruction list"
  | Instruction_IsQueryHolding uint64 MultiLocationV1 MultiAssetFilter uint64
  | Instruction_IsBuyExecution MultiAssetV1 WeightLimit
  | Instruction_IsRefundSurplus
  | Instruction_IsSetErrorHandler "Instruction list"
  | Instruction_IsSetAppendix "Instruction list"
  | Instruction_IsClearError
  | Instruction_IsClaimAsset "MultiAssetV1 list" MultiLocationV1
  | Instruction_IsTrap uint64
  | Instruction_IsSubscribeVersion uint64 uint64
  | Instruction_IsUnsubscribeVersion

fun Instruction_Encode :: "Instruction \<Rightarrow> (bytes, unit) goM" where
  "Instruction_Encode (Instruction_IsWithdrawAsset x) = seqM (PushByte 0) (Encode_slice MultiAssetV1_Encode x)"
| "Instruction_Encode (Instruction_IsReserveAssetDeposited x) = seqM (PushByte 1) (Encode_slice MultiAssetV1_Encode x)"
| "Instruction_Encode (Instruction_IsReceiveTeleportedAsset x) = seqM (PushByte 2) (Encode_slice MultiAssetV1_Encode x)"
| "Instruction_Encode (Instruction_IsQueryResponse x y z) = seqM (PushByte 3) (seqM (UCompact_Encode x) (seqM (Response_Encode y) (UCompact_Encode z)))"
| "Instruction_Encode (Instruction_IsTransferAsset x y) = seqM (PushByte 4) (seqM (Encode_slice MultiAssetV1_Encode x) (MultiLocationV1_EncodeValue y))"
| "Instruction_Encode (Instruction_IsTransferReserveAsset x y z) = seqM (PushByte 5) (seqM (Encode_slice MultiAssetV1_Encode x) (seqM (MultiLocationV1_EncodeValue y) (Encode_slice Instruction_Encode z)))"
| "Instruction_Encode (Instruction_IsTransact x y z) = seqM (PushByte 6) (seqM (OriginKind_Encode x) (seqM (UCompact_Encode y) (EncodedCall_Encode z)))"
| "Instruction_Encode (Instruction_IsHrmpNewChannelOpenRequest x y z) = seqM (PushByte 7) (seqM (Encode_word Uint32 x) (seqM (Encode_word Uint32 y) (Encode_word Uint32 z)))"
| "Instruction_Encode (Instruction_IsHrmpChannelAccepted x) = seqM (PushByte 8) (Encode_word Uint32 x)"
| "Instruction_Encode (Instruction_IsHrmpChannelClosing x y z) = seqM (PushByte 9) (seqM (Encode_word Uint32 x) (seqM (Encode_word Uint32 y) (Encode_word Uint32 z)))"
| "Instruction_Encode Instruction_IsClearOrigin = PushByte 10"
| "Instruction_Encode (Instruction_IsDescendOrigin x) = seqM (PushByte 11) (JunctionsV1_Encode x)"
| "Instruction_Encode (Instruction_IsReportError x y z) = seqM (PushByte 12) (seqM (Encode_word Uint64 x) (seqM (MultiLocationV1_EncodeValue y) (Encode_word Uint64 z)))"
| "Instruction_Encode (Instruction_IsDepositAsset x y z) = seqM (PushByte 13) (seqM (MultiAssetFilter_Encode x) (seqM (Encode_word Uint32 y) (MultiLocationV1_EncodeValue z)))"
| "Instruction_Encode (Instruction_IsDepositReserveAsset x y z u) = seqM (PushByte 14) (seqM (MultiAssetFilter_Encode x) (seqM (Encode_word Uint32 y) (seqM (MultiLocationV1_EncodeValue z) (Encode_slice Instruction_Encode u))))"
| "Instruction_Encode (Instruction_IsExchangeAsset x y) = seqM (PushByte 15) (seqM (MultiAssetFilter_Encode x) (Encode_slice MultiAssetV1_Encode y))"
| "Instruction_Encode (Instruction_IsInitiateReserveWithdraw x y z) = seqM (PushByte 16) (seqM (MultiAssetFilter_Encode x) (seqM (MultiLocationV1_EncodeValue y) (Encode_slice Instruction_Encode z)))"
| "Instruction_Encode (Instruction_IsInitiateTeleport x y z) = seqM (PushByte 17) (seqM (MultiAssetFilter_Encode x) (seqM (MultiLocationV1_EncodeValue y) (Encode_slice Instruction_Encode z)))"
| "Instruction_Encode (Instruction_IsQueryHolding x y z u) = seqM (PushByte 18) (seqM (Encode_word Uint64 x) (seqM (MultiLocationV1_EncodeValue y) (seqM (MultiAssetFilter_Encode z) (Encode_word Uint64 u))))"
| "Instruction_Encode (Instruction_IsBuyExecution x y) = seqM (PushByte 19) (seqM (MultiAssetV1_Encode x) (WeightLimit_Encode y))"
| "Instruction_Encode Instruction_IsRefundSurplus = PushByte 20"
| "Instruction_Encode (Instruction_IsSetErrorHandler x) = seqM (PushByte 21) (Encode_slice Instruction_Encode x)"
| "Instruction_Encode (Instruction_IsSetAppendix x) = seqM (PushByte 22) (Encode_slice Instruction_Encode x)"
| "Instruction_Encode Instruction_IsClearError = PushByte 23"
| "Instruction_Encode (Instruction_IsClaimAsset x y) = seqM (PushByte 24) (seqM (Encode_slice MultiAssetV1_Encode x) (MultiLocationV1_EncodeValue y))"
| "Instruction_Encode (Instruction_IsTrap x) = seqM (PushByte 25) (Encode_word Uint64 x)"
| "Instruction_Encode (Instruction_IsSubscribeVersion x y) = seqM (PushByte 26) (seqM (Encode_word Uint64 x) (Encode_word Uint64 y))"
| "Instruction_Encode Instruction_IsUnsubscribeVersion = PushByte 27"
| "Instruction_Encode Instruction_Zero = retM ()"

text \<open>\<open>Decode\<close> with the decoder of nested instructions as a parameter.\<close>

definition Instruction_step :: "(bytes, Instruction) goM \<Rightarrow> (bytes, Instruction) goM" where
  "Instruction_step d =
     bindM ReadOneByte (\<lambda>b.
       if b = 0 then bindM (Decode_slice MultiAssetV1_Decode) (\<lambda>x. retM (Instruction_IsWithdrawAsset x))
       else if b = 1 then bindM (Decode_slice MultiAssetV1_Decode) (\<lambda>x. retM (Instruction_IsReserveAssetDeposited x))
       else if b = 2 then bindM (Decode_slice MultiAssetV1_Decode) (\<lambda>x. retM (Instruction_IsReceiveTeleportedAsset x))
       else if b = 3 then bindM UCompact_Decode (\<lambda>x. bindM Response_Decode (\<lambda>y. bindM UCompact_Decode (\<lambda>z. retM (Instruction_IsQueryResponse x y z))))
       else if b = 4 then bindM (Decode_slice MultiAssetV1_Decode) (\<lambda>x. bindM MultiLocationV1_Decode (\<lambda>y. retM (Instruction_IsTransferAsset x y)))
       else if b = 5 then bindM (Decode_slice MultiAssetV1_Decode) (\<lambda>x. bindM MultiLocationV1_Decode (\<lambda>y. bindM (Decode_slice d) (\<lambda>z. retM (Instruction_IsTransferReserveAsset x y z))))
       else if b = 6 then bindM OriginKind_Decode (\<lambda>x. bindM UCompact_Decode (\<lambda>y. bindM EncodedCall_Decode (\<lambda>z. retM (Instruction_IsTransact x y z))))
       else if b = 7 then bindM (Decode_word Uint32) (\<lambda>x. bindM (Decode_word Uint32) (\<lambda>y. bindM (Decode_word Uint32) (\<lambda>z. retM (Instruction_IsHrmpNewChannelOpenRequest x y z))))
       else if b = 8 then bindM (Decode_word Uint32) (\<lambda>x. retM (Instruction_IsHrmpChannelAccepted x))
       else if b = 9 then bindM (Decode_word Uint32) (\<lambda>x. bindM (Decode_word Uint32) (\<lambda>y. bindM (Decode_word Uint32) (\<lambda>z. retM (Instruction_IsHrmpChannelClosing x y z))))
       else if b = 10 then retM Instruction_IsClearOrigin
       else if b = 11 then bindM JunctionsV1_Decode (\<lambda>x. retM (Instruction_IsDescendOrigin x))
       else if b = 12 then bindM (Decode_word Uint64) (\<lambda>x. bindM MultiLocationV1_Decode (\<lambda>y. bindM (Decode_word Uint64) (\<lambda>z. retM (Instruction_IsReportError x y z))))
       else if b = 13 then bindM MultiAssetFilter_Decode (\<lambda>x. bindM (Decode_word Uint32) (\<lambda>y. bindM MultiLocationV1_Decode (\<lambda>z. retM (Instruction_IsDepositAsset x y z))))
       else if b = 14 then bindM MultiAssetFilter_Decode (\<lambda>x. bindM (Decode_word Uint32) (\<lambda>y. bindM MultiLocationV1_Decode (\<lambda>z. bindM (Decode_slice d) (\<lambda>u. retM (Instruction_IsDepositReserveAsset x y z u)))))
       else if b = 15 then bindM MultiAssetFilter_Decode (\<lambda>x. bindM (Decode_slice MultiAssetV1_Decode) (\<lambda>y. retM (Instruction_IsExchangeAsset x y)))
       else if b = 16 then bindM MultiAssetFilter_Decode (\<lambda>x. bindM MultiLocationV1_Decode (\<lambda>y. bindM (Decode_slice d) (\<lambda>z. retM (Instruction_IsInitiateReserveWithdraw x y z))))
       else if b = 17 then bindM MultiAssetFilter_Decode (\<lambda>x. bindM MultiLocationV1_Decode (\<lambda>y. bindM (Decode_slice d) (\<lambda>z. retM (Instruction_IsInitiateTeleport x y z))))
       else if b = 18 then bindM (Decode_word Uint64) (\<lambda>x. bindM MultiLocationV1_Decode (\<lambda>y. bindM MultiAssetFilter_Decode (\<lambda>z. bindM (Decode_word Uint64) (\<lambda>u. retM (Instruction_IsQueryHolding x y z u)))))
       else if b = 19 then bindM MultiAssetV1_Decode (\<lambda>x. bindM WeightLimit_Decode (\<lambda>y. retM (Instruction_IsBuyExecution x y)))
       else if b = 20 then retM Instruction_IsRefundSurplus
       else if b = 21 then bindM (Decode_slice d) (\<lambda>x. retM (Instruction_IsSetErrorHandler x))
       else if b = 22 then bindM (Decode_slice d) (\<lambda>x. retM (Instruction_IsSetAppendix x))
       else if b = 23 then retM Instruction_IsClearError
       else if b = 24 then bindM (Decode_slice MultiAssetV1_Decode) (\<lambda>x. bindM MultiLocationV1_Decode (\<lambda>y. retM (Instruction_IsClaimAsset x y)))
       else if b = 25 then bindM (Decode_word Uint64) (\<lambda>x. retM (Instruction_IsTrap x))
       else if b = 26 then bindM (Decode_word Uint64) (\<lambda>x. bindM (Decode_word Uint64) (\<lambda>y. retM (Instruction_IsSubscribeVersion x y)))
       else if b = 27 then retM Instruction_IsUnsubscribeVersion
       else retM Instruction_Zero)"

primrec Instruction_Decode_fuel :: "nat \<Rightarrow> (bytes, Instruction) goM" where
  "Instruction_Decode_fuel 0 = liftM OutOfFuel"
| "Instruction_Decode_fuel (Suc n) = Instruction_step (Instruction_Decode_fuel n)"

definition Instruction_Decode :: "(bytes, Instruction) goM" where
  "Instruction_Decode s = Instruction_Decode_fuel (Suc (length s)) s"

fun Instruction_ok :: "Instruction \<Rightarrow> bool" where
  "Instruction_ok (Instruction_IsWithdrawAsset x) \<longleftrightarrow> slice_ok MultiAssetV1_ok x"
| "Instruction_ok (Instruction_IsReserveAssetDeposited x) \<longleftrightarrow> slice_ok MultiAssetV1_ok x"
| "Instruction_ok (Instruction_IsReceiveTeleportedAsset x) \<longleftrightarrow> slice_ok MultiAssetV1_ok x"
| "Instruction_ok (Instruction_IsQueryResponse x y z) \<longleftrightarrow> id_ok x \<and> Response_ok y \<and> id_ok z"
| "Instruction_ok (Instruction_IsTransferAsset x y) \<longleftrightarrow> slice_ok MultiAssetV1_ok x \<and> MultiLocationV1_ok y"
| "Instruction_ok (Instruction_IsTransferReserveAsset x y z) \<longleftrightarrow> slice_ok MultiAssetV1_ok x \<and> MultiLocationV1_ok y \<and> length z < 2 ^ 32 \<and> (\<forall>i\<in>set z. Instruction_ok i)"
| "Instruction_ok (Instruction_IsTransact x y z) \<longleftrightarrow> OriginKind_ok x \<and> id_ok y \<and> EncodedCall_ok z"
| "Instruction_ok (Instruction_IsHrmpNewChannelOpenRequest x y z) \<longleftrightarrow> True"
| "Instruction_ok (Instruction_IsHrmpChannelAccepted x) \<longleftrightarrow> True"
| "Instruction_ok (Instruction_IsHrmpChannelClosing x y z) \<longleftrightarrow> True"
| "Instruction_ok Instruction_IsClearOrigin \<longleftrightarrow> True"
| "Instruction_ok (Instruction_IsDescendOrigin x) \<longleftrightarrow> JunctionsV1_ok x"
| "Instruction_ok (Instruction_IsReportError x y z) \<longleftrightarrow> MultiLocationV1_ok y"
| "Instruction_ok (Instruction_IsDepositAsset x y z) \<longleftrightarrow> MultiAssetFilter_ok x \<and> MultiLocationV1_ok z"
| "Instruction_ok (Instruction_IsDepositReserveAsset x y z u) \<longleftrightarrow> MultiAssetFilter_ok x \<and> MultiLocationV1_ok z \<and> length u < 2 ^ 32 \<and> (\<forall>i\<in>set u. Instruction_ok i)"
| "Instruction_ok (Instruction_IsExchangeAsset x y) \<longleftrightarrow> MultiAssetFilter_ok x \<and> slice_ok MultiAssetV1_ok y"
| "Instruction_ok (Instruction_IsInitiateReserveWithdraw x y z) \<longleftrightarrow> MultiAssetFilter_ok x \<and> MultiLocationV1_ok y \<and> length z < 2 ^ 32 \<and> (\<forall>i\<in>set z. Instruction_ok i)"
| "Instruction_ok (Instruction_IsInitiateTeleport x y z) \<longleftrightarrow> MultiAssetFilter_ok x \<and> MultiLocationV1_ok y \<and> length z < 2 ^ 32 \<and> (\<forall>i\<in>set z. Instruction_ok i)"
| "Instruction_ok (Instruction_IsQueryHolding x y z u) \<longleftrightarrow> MultiLocationV1_ok y \<and> MultiAssetFilter_ok z"
| "Instruction_ok (Instruction_IsBuyExecution x y) \<longleftrightarrow> MultiAssetV1_ok x \<and> WeightLimit_ok y"
| "Instruction_ok Instruction_IsRefundSurplus \<longleftrightarrow> True"
| "Instruction_ok (Instruction_IsSetErrorHandler x) \<longleftrightarrow> length x < 2 ^ 32 \<and> (\<forall>i\<in>set x. Instruction_ok i)"
| "Instruction_ok (Instruction_IsSetAppendix x) \<longleftrightarrow> length x < 2 ^ 32 \<and> (\<forall>i\<in>set x. Instruction_ok i)"
| "Instruction_ok Instruction_IsClearError \<longleftrightarrow> True"
| "Instruction_ok (Instruction_IsClaimAsset x y) \<longleftrightarrow> slice_ok MultiAssetV1_ok x \<and> MultiLocationV1_ok y"
| "Instruction_ok (Instruction_IsTrap x) \<longleftrightarrow> True"
| "Instruction_ok (Instruction_IsSubscribeVersion x y) \<longleftrightarrow> True"
| "Instruction_ok Instruction_IsUnsubscribeVersion \<longleftrightarrow> True"
| "Instruction_ok Instruction_Zero \<longleftrightarrow> False"

section \<open>Termination\<close>

text \<open>
  \<open>same_on n d d'\<close>: on inputs shorter than \<open>n\<close> both decoders end, in the same way, and only
  consume.
\<close>

definition same_on :: "nat \<Rightarrow> (bytes, 'a) goM \<Rightarrow> (bytes, 'a) goM \<Rightarrow> bool" where
  "same_on n d d' \<longleftrightarrow> (\<forall>s r s'. length s < n \<longrightarrow> d s = (r, s') \<longrightarrow> d' s = (r, s') \<and> r \<noteq> OutOfFuel \<and> suffix s' s)"

lemma same_onD:
  assumes "same_on n d d'" "length s < n"
  obtains r s' where "d s = (r, s')" "d' s = (r, s')" "r \<noteq> OutOfFuel" "suffix s' s"
  using assms unfolding same_on_def by (metis surj_pair)

lemma same_on_consuming: "consuming d \<Longrightarrow> same_on n d d"
  by (simp add: same_on_def consuming_def)

lemma same_on_bindM:
  assumes "same_on n m m'" "\<And>a. same_on n (f a) (f' a)"
  shows "same_on n (bindM m f) (bindM m' f')"
  unfolding same_on_def
proof (intro allI impI)
  fix s r s'
  assume s: "length s < n" and r: "bindM m f s = (r, s')"
  obtain q t where q: "m s = (q, t)" "m' s = (q, t)" "q \<noteq> OutOfFuel" "suffix t s"
    by (rule same_onD [OF assms(1) s])
  then have t: "length t < n" using s suffix_length_le [of t s] by linarith
  show "bindM m' f' s = (r, s') \<and> r \<noteq> OutOfFuel \<and> suffix s' s"
  proof (cases q)
    case (Ok a)
    then show ?thesis
      using r q same_onD [OF assms(2) [of a] t] by (auto intro: suffix_order.trans)
  qed (use r q in auto)
qed

lemma same_on_if: "same_on n x x' \<Longrightarrow> same_on n y y' \<Longrightarrow> same_on n (if c then x else y) (if c then x' else y')"
  by simp

lemma same_on_each: "same_on n d d' \<Longrightarrow> same_on n (decode_each k d) (decode_each k d')"
  by (induction k)
    (auto simp del: retM_apply intro!: same_on_bindM same_on_consuming consuming_steps)

lemma same_on_slice:
  assumes "same_on n d d'"
  shows "same_on n (Decode_slice d) (Decode_slice d')"
  unfolding same_on_def
proof (intro allI impI)
  fix s r s'
  assume s: "length s < n" and r: "Decode_slice d s = (r, s')"
  obtain q t where q: "DecodeUintCompact s = (q, t)" by fastforce
  with consumingD [OF consuming_UintCompact q] have t: "length t < n" "q \<noteq> OutOfFuel" "suffix t s"
    using s suffix_length_le [of t s] by auto
  then have "decode_each k d t = (r, s') \<Longrightarrow> decode_each k d' t = (r, s') \<and> r \<noteq> OutOfFuel \<and> suffix s' s" for k
    using same_on_each [OF assms, of k] suffix_order.trans [of s' t s] by (simp add: same_on_def)
  then show "Decode_slice d' s = (r, s') \<and> r \<noteq> OutOfFuel \<and> suffix s' s"
    using r q t by (cases q) (auto simp: Decode_slice_eq split: if_splits)
qed

text \<open>After a tag byte the inputs are shorter.\<close>

lemma same_on_tag:
  assumes "\<And>b. same_on n (f b) (f' b)"
  shows "same_on (Suc n) (bindM ReadOneByte f) (bindM ReadOneByte f')"
  unfolding same_on_def
proof (intro allI impI)
  fix s r s'
  assume s: "length s < Suc n" and r: "bindM ReadOneByte f s = (r, s')"
  show "bindM ReadOneByte f' s = (r, s') \<and> r \<noteq> OutOfFuel \<and> suffix s' s"
  proof (cases s)
    case Nil
    then show ?thesis using r by auto
  next
    case (Cons b t)
    then have "length t < n" using s by simp
    from same_onD [OF assms [of b] this] show ?thesis
      using r Cons by (auto intro: suffix_ConsI)
  qed
qed

lemma Instruction_step_same:
  assumes "same_on n d d'"
  shows "same_on (Suc n) (Instruction_step d) (Instruction_step d')"
  unfolding Instruction_step_def
  by (rule same_on_tag)
    (intro same_on_if same_on_bindM same_on_slice [OF assms] same_on_consuming consuming_rules)

lemma Instruction_fuel_enough: "same_on n (Instruction_Decode_fuel n) (Instruction_Decode_fuel (n + k))"
  by (induction n) (simp_all add: Instruction_step_same, simp add: same_on_def)

lemma Instruction_Decode_same: "same_on n (Instruction_Decode_fuel n) Instruction_Decode"
  unfolding same_on_def
proof (intro allI impI)
  fix s r s'
  assume s: "length s < n" and r: "Instruction_Decode_fuel n s = (r, s')"
  then obtain k where n: "n = Suc (length s) + k" using less_iff_Suc_add by auto
  show "Instruction_Decode s = (r, s') \<and> r \<noteq> OutOfFuel \<and> suffix s' s"
    by (rule same_onD [OF Instruction_fuel_enough [of "Suc (length s)" k], of s])
      (use r in \<open>auto simp: Instruction_Decode_def n\<close>)
qed

text \<open>The recursion equation of \<open>Decode\<close>.\<close>

lemma Instruction_Decode_unfold: "Instruction_Decode = Instruction_step Instruction_Decode"
proof
  fix s :: bytes
  have "same_on (Suc (length s)) (Instruction_step (Instruction_Decode_fuel (length s))) (Instruction_step Instruction_Decode)"
    by (rule Instruction_step_same [OF Instruction_Decode_same])
  then show "Instruction_Decode s = Instruction_step Instruction_Decode s"
    unfolding Instruction_Decode_def Instruction_Decode_fuel.simps by (rule same_onD [of _ _ _ s]) auto
qed

lemma consuming_Instruction [consuming_rules]: "consuming Instruction_Decode"
proof (rule consumingI)
  fix s r s'
  assume "Instruction_Decode s = (r, s')"
  then show "r \<noteq> OutOfFuel \<and> suffix s' s"
    using same_onD [OF Instruction_Decode_same [of "Suc (length s)"], of s] by (auto simp: Instruction_Decode_def)
qed

section \<open>Round trip\<close>

lemma message_step:
  assumes "\<And>i. i \<in> set xs \<Longrightarrow> Instruction_ok i \<Longrightarrow> rt (Instruction_Encode i) Instruction_Decode i"
    and "length xs < 2 ^ 32" "\<forall>i\<in>set xs. Instruction_ok i"
  shows "rt (Encode_slice Instruction_Encode xs) (Decode_slice Instruction_Decode) xs"
  by (rule slice_step [where P = "\<lambda>i. rt (Instruction_Encode i) Instruction_Decode i"])
    (use assms in \<open>auto simp: slice_ok_def list_all_iff scale_codec_def\<close>)

lemma instruction_roundtrip: "Instruction_ok v \<Longrightarrow> rt (Instruction_Encode v) Instruction_Decode v"
  by (induction v; subst Instruction_Decode_unfold;
      simp only: Instruction_Encode.simps Instruction_ok.simps Instruction_step_def; (elim conjE)?)
    (rule codec_rules message_step codec_steps codec_laws rt_done | assumption | (simp del: retM_apply; fail))+

interpretation instruction: chain_codec Instruction_Encode Instruction_Decode Instruction_ok
  by unfold_locales (auto intro: instruction_roundtrip consuming_Instruction)

end
