(* ===== verification/XcmProperties.thy ===== *)
theory XcmProperties
  imports XcmInstruction
begin

text \<open>What the codecs of cross-consensus messages guarantee, and where they do not report an error.\<close>

text \<open>
  C8: A cross-consensus message survives its codec: a list of instructions, with messages nested in
  instructions to any depth, is written without error, and reading the bytes gives the
  instructions back and leaves what follows.\<close>

theorem xcm_message_roundtrip:
  assumes "length msg < 2 ^ 32" "list_all Instruction_ok msg"
  shows "\<exists>bs. writes (Encode_slice Instruction_Encode msg) bs \<and> reads (Decode_slice Instruction_Decode) bs msg"
  using slice_step [OF instruction.contract, of msg] assms by (simp add: slice_ok_def rt_def)

definition nested_message :: "Instruction list" where
  "nested_message =
     [Instruction_IsSetErrorHandler [Instruction_IsSetAppendix [Instruction_IsClearError], Instruction_IsTrap 7],
      Instruction_IsBuyExecution
        \<lparr>MultiAssetV1_ID = AssetID_IsConcrete
           \<lparr>MultiLocationV1_Parents = 1, MultiLocationV1_Interior = JunctionsV1_IsX2 [JunctionV1_IsParachain 2000, JunctionV1_IsGeneralKey [1, 2]]\<rparr>,
         MultiAssetV1_Fungibility = Fungibility_IsFungible 1000\<rparr>
        WeightLimit_IsUnlimited]"

theorem xcm_message_roundtrip_witness:
  "\<exists>bs. writes (Encode_slice Instruction_Encode nested_message) bs \<and> reads (Decode_slice Instruction_Decode) bs nested_message"
  by (rule xcm_message_roundtrip)
    (simp_all add: nested_message_def MultiAssetV1_ok_def AssetID_ok_def MultiLocationV1_ok_def JunctionsV1_ok_def
      JunctionV1_ok_def Fungibility_ok_def WeightLimit_ok_def array_ok_def slice_ok_def id_ok_def)

text \<open>
  C17: Decoding an instruction ends on every input: the decoder satisfies the recursion equation of
  the code, it gives the same result under any fuel above the length of the input, it never runs
  out of that fuel, and what it leaves unread is a suffix of the input.\<close>

theorem instruction_decode_terminates:
  "Instruction_Decode = Instruction_step Instruction_Decode \<and>
   Instruction_Decode_fuel (Suc (length s) + k) s = Instruction_Decode s \<and>
   (case Instruction_Decode s of (r, s') \<Rightarrow> r \<noteq> OutOfFuel \<and> suffix s' s)"
proof (intro conjI)
  show "Instruction_Decode = Instruction_step Instruction_Decode" by (rule Instruction_Decode_unfold)
  show "Instruction_Decode_fuel (Suc (length s) + k) s = Instruction_Decode s"
    by (rule same_onD [OF Instruction_Decode_same [of "Suc (length s) + k"], of s]) simp_all
  show "case Instruction_Decode s of (r, s') \<Rightarrow> r \<noteq> OutOfFuel \<and> suffix s' s"
    using consumingD [OF consuming_Instruction, of s] by (auto split: prod.split)
qed

text \<open>
  A junction of version 1 hides a broken network: when the network of an account junction cannot
  be read, \<open>JunctionV1.Decode\<close> succeeds with an empty account on an empty network, which
  \<open>JunctionV0.Decode\<close> reports as the error it is. Encoding the result does not give a junction back.\<close>

theorem junction_network_error_dropped:
  assumes "NetworkID_Decode s = (Err e, s')"
  shows "JunctionV1_Decode (1 # s) = (Ok (JunctionV1_IsAccountID32 NetworkID_Zero []), s') \<and>
    JunctionV1_Decode (2 # s) = (Ok (JunctionV1_IsAccountIndex64 NetworkID_Zero 0), s') \<and>
    JunctionV1_Decode (3 # s) = (Ok (JunctionV1_IsAccountKey20 NetworkID_Zero []), s') \<and>
    JunctionV0_Decode (2 # s) = (Err e, s') \<and> JunctionV0_Decode (3 # s) = (Err e, s') \<and> JunctionV0_Decode (4 # s) = (Err e, s') \<and>
    writes (JunctionV1_Encode (JunctionV1_IsAccountID32 NetworkID_Zero [])) [1, 0]"
proof -
  have "writes (JunctionV1_Encode (JunctionV1_IsAccountID32 NetworkID_Zero [])) ([1] @ [] @ [0])"
  proof (simp only: JunctionV1_Encode.simps NetworkID_Encode.simps, intro writes_seqM writes_PushByte writes_retM)
    show "writes (Encode_slice Encode_byte []) [0]"
      using writesD [OF writes_PushByte [of 0]]
      by (simp add: writes_def Encode_slice_def EncodeUintCompact_def BigInt_Uint64_def BigInt_IsUint64_def)
  qed
  then show ?thesis
    using assms by (simp add: JunctionV1_Decode_def JunctionV0_Decode_def skipM_def)
qed

theorem junction_network_error_dropped_witness:
  "JunctionV1_Decode [1] = (Ok (JunctionV1_IsAccountID32 NetworkID_Zero []), []) \<and> JunctionV0_Decode [2] = (Err EOF, [])"
  using junction_network_error_dropped [of "[]" EOF "[]"] by (simp add: NetworkID_Decode_def)

end
