(* ===== verification/DispatchTypes.thy ===== *)
theory DispatchTypes
  imports XcmAssets
begin

text \<open>
  Outcomes of dispatched calls: \<open>src/types/errors.go\<close>, \<open>dispatch_result_with_post_info.go\<close> and the
  dispatch types of \<open>events.go\<close>, and the byte enumerations.
\<close>

section \<open>Errors\<close>

record ModuleError =
  ModuleError_Index :: byte
  ModuleError_Error :: bytes

definition ModuleError_Encode :: "ModuleError \<Rightarrow> (bytes, unit) goM" where
  "ModuleError_Encode v =
     seqM (Encode_byte (ModuleError_Index v))
    (Encode_array (ModuleError_Error v))"

definition ModuleError_Decode :: "(bytes, ModuleError) goM" where
  "ModuleError_Decode =
     bindM Decode_byte (\<lambda>x.
     bindM (Decode_array 4) (\<lambda>y.
       retM \<lparr>ModuleError_Index = x, ModuleError_Error = y\<rparr>))"

definition ModuleError_ok :: "ModuleError \<Rightarrow> bool" where
  "ModuleError_ok v \<longleftrightarrow> length (ModuleError_Error v) = 4"

interpretation moduleError: chain_codec ModuleError_Encode ModuleError_Decode ModuleError_ok
proof
  fix v
  assume "ModuleError_ok v"
  then show "rt (ModuleError_Encode v) ModuleError_Decode v"
    unfolding ModuleError_Encode_def ModuleError_Decode_def ModuleError_ok_def
    by (cases v; (elim conjE)?)
      (rule codec_rules codec_steps codec_laws rt_done | (simp del: retM_apply; fail))+
qed (unfold ModuleError_Decode_def, intro consuming_rules)

datatype TokenError =
    TokenError_Zero
  | TokenError_IsNoFunds
  | TokenError_IsWouldDie
  | TokenError_IsBelowMinimum
  | TokenError_IsCannotCreate
  | TokenError_IsUnknownAsset
  | TokenError_IsFrozen
  | TokenError_IsUnsupported

primrec TokenError_Encode :: "TokenError \<Rightarrow> (bytes, unit) goM" where
  "TokenError_Encode TokenError_IsNoFunds = PushByte 0"
| "TokenError_Encode TokenError_IsWouldDie = PushByte 1"
| "TokenError_Encode TokenError_IsBelowMinimum = PushByte 2"
| "TokenError_Encode TokenError_IsCannotCreate = PushByte 3"
| "TokenError_Encode TokenError_IsUnknownAsset = PushByte 4"
| "TokenError_Encode TokenError_IsFrozen = PushByte 5"
| "TokenError_Encode TokenError_IsUnsupported = PushByte 6"
| "TokenError_Encode TokenError_Zero = retM ()"

definition TokenError_Decode :: "(bytes, TokenError) goM" where
  "TokenError_Decode =
     bindM ReadOneByte (\<lambda>b.
       if b = 0 then retM TokenError_IsNoFunds
       else if b = 1 then retM TokenError_IsWouldDie
       else if b = 2 then retM TokenError_IsBelowMinimum
       else if b = 3 then retM TokenError_IsCannotCreate
       else if b = 4 then retM TokenError_IsUnknownAsset
       else if b = 5 then retM TokenError_IsFrozen
       else if b = 6 then retM TokenError_IsUnsupported
       else retM TokenError_Zero)"

definition TokenError_ok :: "TokenError \<Rightarrow> bool" where
  "TokenError_ok v =
     (case v of TokenError_Zero \<Rightarrow> False | _ \<Rightarrow> True)"

interpretation tokenError: chain_codec TokenError_Encode TokenError_Decode TokenError_ok
proof
  fix v
  assume "TokenError_ok v"
  then show "rt (TokenError_Encode v) TokenError_Decode v"
    unfolding TokenError_Decode_def TokenError_ok_def
    by (cases v; simp only: TokenError_Encode.simps TokenError.case; (elim conjE)?)
      (rule codec_rules codec_steps codec_laws rt_done | (simp del: retM_apply; fail))+
qed (unfold TokenError_Decode_def, intro consuming_rules)

datatype ArithmeticError = ArithmeticError_Zero | ArithmeticError_IsUnderflow | ArithmeticError_IsOverflow | ArithmeticError_IsDivisionByZero

primrec ArithmeticError_Encode :: "ArithmeticError \<Rightarrow> (bytes, unit) goM" where
  "ArithmeticError_Encode ArithmeticError_IsUnderflow = PushByte 0"
| "ArithmeticError_Encode ArithmeticError_IsOverflow = PushByte 1"
| "ArithmeticError_Encode ArithmeticError_IsDivisionByZero = PushByte 2"
| "ArithmeticError_Encode ArithmeticError_Zero = retM ()"

definition ArithmeticError_Decode :: "(bytes, ArithmeticError) goM" where
  "ArithmeticError_Decode =
     bindM ReadOneByte (\<lambda>b.
       if b = 0 then retM ArithmeticError_IsUnderflow
       else if b = 1 then retM ArithmeticError_IsOverflow
       else if b = 2 then retM ArithmeticError_IsDivisionByZero
       else retM ArithmeticError_Zero)"

definition ArithmeticError_ok :: "ArithmeticError \<Rightarrow> bool" where
  "ArithmeticError_ok v =
     (case v of ArithmeticError_Zero \<Rightarrow> False | _ \<Rightarrow> True)"

interpretation arithmeticError: chain_codec ArithmeticError_Encode ArithmeticError_Decode ArithmeticError_ok
proof
  fix v
  assume "ArithmeticError_ok v"
  then show "rt (ArithmeticError_Encode v) ArithmeticError_Decode v"
    unfolding ArithmeticError_Decode_def ArithmeticError_ok_def
    by (cases v; simp only: ArithmeticError_Encode.simps ArithmeticError.case; (elim conjE)?)
      (rule codec_rules codec_steps codec_laws rt_done | (simp del: retM_apply; fail))+
qed (unfold ArithmeticError_Decode_def, intro consuming_rules)

datatype TransactionalError = TransactionalError_Zero | TransactionalError_IsLimitReached | TransactionalError_IsNoLayer

primrec TransactionalError_Encode :: "TransactionalError \<Rightarrow> (bytes, unit) goM" where
  "TransactionalError_Encode TransactionalError_IsLimitReached = PushByte 0"
| "TransactionalError_Encode TransactionalError_IsNoLayer = PushByte 1"
| "TransactionalError_Encode TransactionalError_Zero = retM ()"

definition TransactionalError_Decode :: "(bytes, TransactionalError) goM" where
  "TransactionalError_Decode =
     bindM ReadOneByte (\<lambda>b.
       if b = 0 then retM TransactionalError_IsLimitReached
       else if b = 1 then retM TransactionalError_IsNoLayer
       else retM TransactionalError_Zero)"

definition TransactionalError_ok :: "TransactionalError \<Rightarrow> bool" where
  "TransactionalError_ok v =
     (case v of TransactionalError_Zero \<Rightarrow> False | _ \<Rightarrow> True)"

interpretation transactionalError: chain_codec TransactionalError_Encode TransactionalError_Decode TransactionalError_ok
proof
  fix v
  assume "TransactionalError_ok v"
  then show "rt (TransactionalError_Encode v) TransactionalError_Decode v"
    unfolding TransactionalError_Decode_def TransactionalError_ok_def
    by (cases v; simp only: TransactionalError_Encode.simps TransactionalError.case; (elim conjE)?)
      (rule codec_rules codec_steps codec_laws rt_done | (simp del: retM_apply; fail))+
qed (unfold TransactionalError_Decode_def, intro consuming_rules)

datatype DispatchError =
    DispatchError_Zero
  | DispatchError_IsOther
  | DispatchError_IsCannotLookup
  | DispatchError_IsBadOrigin
  | DispatchError_IsModule ModuleError
  | DispatchError_IsConsumerRemaining
  | DispatchError_IsNoProviders
  | DispatchError_IsTooManyConsumers
  | DispatchError_IsToken TokenError
  | DispatchError_IsArithmetic ArithmeticError
  | DispatchError_IsTransactional TransactionalError

primrec DispatchError_Encode :: "DispatchError \<Rightarrow> (bytes, unit) goM" where
  "DispatchError_Encode DispatchError_IsOther = PushByte 0"
| "DispatchError_Encode DispatchError_IsCannotLookup = PushByte 1"
| "DispatchError_Encode DispatchError_IsBadOrigin = PushByte 2"
| "DispatchError_Encode (DispatchError_IsModule x) = seqM (PushByte 3) (ModuleError_Encode x)"
| "DispatchError_Encode DispatchError_IsConsumerRemaining = PushByte 4"
| "DispatchError_Encode DispatchError_IsNoProviders = PushByte 5"
| "DispatchError_Encode DispatchError_IsTooManyConsumers = PushByte 6"
| "DispatchError_Encode (DispatchError_IsToken x) = seqM (PushByte 7) (TokenError_Encode x)"
| "DispatchError_Encode (DispatchError_IsArithmetic x) = seqM (PushByte 8) (ArithmeticError_Encode x)"
| "DispatchError_Encode (DispatchError_IsTransactional x) = seqM (PushByte 9) (TransactionalError_Encode x)"
| "DispatchError_Encode DispatchError_Zero = retM ()"

definition DispatchError_Decode :: "(bytes, DispatchError) goM" where
  "DispatchError_Decode =
     bindM ReadOneByte (\<lambda>b.
       if b = 0 then retM DispatchError_IsOther
       else if b = 1 then retM DispatchError_IsCannotLookup
       else if b = 2 then retM DispatchError_IsBadOrigin
       else if b = 3 then bindM ModuleError_Decode (\<lambda>x. retM (DispatchError_IsModule x))
       else if b = 4 then retM DispatchError_IsConsumerRemaining
       else if b = 5 then retM DispatchError_IsNoProviders
       else if b = 6 then retM DispatchError_IsTooManyConsumers
       else if b = 7 then bindM TokenError_Decode (\<lambda>x. retM (DispatchError_IsToken x))
       else if b = 8 then bindM ArithmeticError_Decode (\<lambda>x. retM (DispatchError_IsArithmetic x))
       else if b = 9 then bindM TransactionalError_Decode (\<lambda>x. retM (DispatchError_IsTransactional x))
       else retM DispatchError_Zero)"

definition DispatchError_ok :: "DispatchError \<Rightarrow> bool" where
  "DispatchError_ok v =
     (case v of DispatchError_Zero \<Rightarrow> False
      | DispatchError_IsModule x \<Rightarrow> ModuleError_ok x
      | DispatchError_IsToken x \<Rightarrow> TokenError_ok x
      | DispatchError_IsArithmetic x \<Rightarrow> ArithmeticError_ok x
      | DispatchError_IsTransactional x \<Rightarrow> TransactionalError_ok x
      | _ \<Rightarrow> True)"

interpretation dispatchError: chain_codec DispatchError_Encode DispatchError_Decode DispatchError_ok
proof
  fix v
  assume "DispatchError_ok v"
  then show "rt (DispatchError_Encode v) DispatchError_Decode v"
    unfolding DispatchError_Decode_def DispatchError_ok_def
    by (cases v; simp only: DispatchError_Encode.simps DispatchError.case; (elim conjE)?)
      (rule codec_rules codec_steps codec_laws rt_done | (simp del: retM_apply; fail))+
qed (unfold DispatchError_Decode_def, intro consuming_rules)

section \<open>Results\<close>

datatype Pays = Pays_Zero | Pays_IsYes | Pays_IsNo

primrec Pays_Encode :: "Pays \<Rightarrow> (bytes, unit) goM" where
  "Pays_Encode Pays_IsYes = PushByte 0"
| "Pays_Encode Pays_IsNo = PushByte 1"
| "Pays_Encode Pays_Zero = retM ()"

definition Pays_Decode :: "(bytes, Pays) goM" where
  "Pays_Decode =
     bindM ReadOneByte (\<lambda>b.
       if b = 0 then retM Pays_IsYes
       else if b = 1 then retM Pays_IsNo
       else retM Pays_Zero)"

definition Pays_ok :: "Pays \<Rightarrow> bool" where
  "Pays_ok v =
     (case v of Pays_Zero \<Rightarrow> False | _ \<Rightarrow> True)"

interpretation pays: chain_codec Pays_Encode Pays_Decode Pays_ok
proof
  fix v
  assume "Pays_ok v"
  then show "rt (Pays_Encode v) Pays_Decode v"
    unfolding Pays_Decode_def Pays_ok_def
    by (cases v; simp only: Pays_Encode.simps Pays.case; (elim conjE)?)
      (rule codec_rules codec_steps codec_laws rt_done | (simp del: retM_apply; fail))+
qed (unfold Pays_Decode_def, intro consuming_rules)

datatype DispatchClass = DispatchClass_Zero | DispatchClass_IsNormal | DispatchClass_IsOperational | DispatchClass_IsMandatory

primrec DispatchClass_Encode :: "DispatchClass \<Rightarrow> (bytes, unit) goM" where
  "DispatchClass_Encode DispatchClass_IsNormal = PushByte 0"
| "DispatchClass_Encode DispatchClass_IsOperational = PushByte 1"
| "DispatchClass_Encode DispatchClass_IsMandatory = PushByte 2"
| "DispatchClass_Encode DispatchClass_Zero = retM ()"

definition DispatchClass_Decode :: "(bytes, DispatchClass) goM" where
  "DispatchClass_Decode =
     bindM ReadOneByte (\<lambda>b.
       if b = 0 then retM DispatchClass_IsNormal
       else if b = 1 then retM DispatchClass_IsOperational
       else if b = 2 then retM DispatchClass_IsMandatory
       else retM DispatchClass_Zero)"

definition DispatchClass_ok :: "DispatchClass \<Rightarrow> bool" where
  "DispatchClass_ok v =
     (case v of DispatchClass_Zero \<Rightarrow> False | _ \<Rightarrow> True)"

interpretation dispatchClass: chain_codec DispatchClass_Encode DispatchClass_Decode DispatchClass_ok
proof
  fix v
  assume "DispatchClass_ok v"
  then show "rt (DispatchClass_Encode v) DispatchClass_Decode v"
    unfolding DispatchClass_Decode_def DispatchClass_ok_def
    by (cases v; simp only: DispatchClass_Encode.simps DispatchClass.case; (elim conjE)?)
      (rule codec_rules codec_steps codec_laws rt_done | (simp del: retM_apply; fail))+
qed (unfold DispatchClass_Decode_def, intro consuming_rules)

record DispatchInfo =
  DispatchInfo_Weight :: Weight
  DispatchInfo_Class :: DispatchClass
  DispatchInfo_PaysFee :: Pays

definition DispatchInfo_Encode :: "DispatchInfo \<Rightarrow> (bytes, unit) goM" where
  "DispatchInfo_Encode v =
     seqM (fieldE (Weight_Encode (DispatchInfo_Weight v)))
    (seqM (fieldE (DispatchClass_Encode (DispatchInfo_Class v)))
    (fieldE (Pays_Encode (DispatchInfo_PaysFee v))))"

definition DispatchInfo_Decode :: "(bytes, DispatchInfo) goM" where
  "DispatchInfo_Decode =
     bindM Weight_Decode (\<lambda>x.
     bindM DispatchClass_Decode (\<lambda>y.
     bindM Pays_Decode (\<lambda>z.
       retM \<lparr>DispatchInfo_Weight = x, DispatchInfo_Class = y, DispatchInfo_PaysFee = z\<rparr>)))"

definition DispatchInfo_ok :: "DispatchInfo \<Rightarrow> bool" where
  "DispatchInfo_ok v \<longleftrightarrow> Weight_ok (DispatchInfo_Weight v) \<and> DispatchClass_ok (DispatchInfo_Class v) \<and>
     Pays_ok (DispatchInfo_PaysFee v)"

interpretation dispatchInfo: chain_codec DispatchInfo_Encode DispatchInfo_Decode DispatchInfo_ok
proof
  fix v
  assume "DispatchInfo_ok v"
  then show "rt (DispatchInfo_Encode v) DispatchInfo_Decode v"
    unfolding DispatchInfo_Encode_def DispatchInfo_Decode_def DispatchInfo_ok_def
    by (cases v; (elim conjE)?)
      (rule codec_rules codec_steps codec_laws rt_done | (simp del: retM_apply; fail))+
qed (unfold DispatchInfo_Decode_def, intro consuming_rules)

text \<open>Every tag but zero announces an error.\<close>

record DispatchResult =
  DispatchResult_Ok :: bool
  DispatchResult_Error :: DispatchError

definition zero_DispatchResult :: DispatchResult where
  "zero_DispatchResult = \<lparr>DispatchResult_Ok = False, DispatchResult_Error = DispatchError_Zero\<rparr>"

definition DispatchResult_Encode :: "DispatchResult \<Rightarrow> (bytes, unit) goM" where
  "DispatchResult_Encode d =
     (if DispatchResult_Ok d then PushByte 0 else seqM (PushByte 1) (DispatchError_Encode (DispatchResult_Error d)))"

definition DispatchResult_Decode :: "(bytes, DispatchResult) goM" where
  "DispatchResult_Decode =
     bindM ReadOneByte (\<lambda>b.
       if b = 0 then retM (zero_DispatchResult\<lparr>DispatchResult_Ok := True\<rparr>)
       else bindM DispatchError_Decode (\<lambda>x. retM (zero_DispatchResult\<lparr>DispatchResult_Error := x\<rparr>)))"

definition DispatchResult_ok :: "DispatchResult \<Rightarrow> bool" where
  "DispatchResult_ok d \<longleftrightarrow>
     (if DispatchResult_Ok d then DispatchResult_Error d = DispatchError_Zero else DispatchError_ok (DispatchResult_Error d))"

interpretation dispatchResult: chain_codec DispatchResult_Encode DispatchResult_Decode DispatchResult_ok
proof
  fix v
  assume "DispatchResult_ok v"
  then show "rt (DispatchResult_Encode v) DispatchResult_Decode v"
    unfolding DispatchResult_Encode_def DispatchResult_Decode_def DispatchResult_ok_def
    by (cases v; cases "DispatchResult_Ok v"; simp only: if_True if_False)
      (rule codec_rules codec_steps rt_done | (simp add: zero_DispatchResult_def del: retM_apply; fail))+
qed (unfold DispatchResult_Decode_def, intro consuming_rules)

record PostDispatchInfo =
  PostDispatchInfo_ActualWeight :: "bool \<times> Weight"
  PostDispatchInfo_PaysFee :: Pays

definition PostDispatchInfo_Encode :: "PostDispatchInfo \<Rightarrow> (bytes, unit) goM" where
  "PostDispatchInfo_Encode v =
     seqM (EncodeOpt Weight_Encode (PostDispatchInfo_ActualWeight v))
    (Pays_Encode (PostDispatchInfo_PaysFee v))"

definition PostDispatchInfo_Decode :: "(bytes, PostDispatchInfo) goM" where
  "PostDispatchInfo_Decode =
     bindM (DecodeOption Weight_Decode zero_Weight) (\<lambda>x.
     bindM Pays_Decode (\<lambda>y.
       retM \<lparr>PostDispatchInfo_ActualWeight = x, PostDispatchInfo_PaysFee = y\<rparr>))"

definition PostDispatchInfo_ok :: "PostDispatchInfo \<Rightarrow> bool" where
  "PostDispatchInfo_ok v \<longleftrightarrow> opt_ok Weight_ok zero_Weight (PostDispatchInfo_ActualWeight v) \<and> Pays_ok (PostDispatchInfo_PaysFee v)"

interpretation postDispatchInfo: chain_codec PostDispatchInfo_Encode PostDispatchInfo_Decode PostDispatchInfo_ok
proof
  fix v
  assume "PostDispatchInfo_ok v"
  then show "rt (PostDispatchInfo_Encode v) PostDispatchInfo_Decode v"
    unfolding PostDispatchInfo_Encode_def PostDispatchInfo_Decode_def PostDispatchInfo_ok_def
    by (cases v; (elim conjE)?)
      (rule codec_rules codec_steps codec_laws rt_done | (simp del: retM_apply; fail))+
qed (unfold PostDispatchInfo_Decode_def, intro consuming_rules)

record DispatchErrorWithPostInfo =
  DispatchErrorWithPostInfo_PostInfo :: PostDispatchInfo
  DispatchErrorWithPostInfo_Error :: DispatchError

definition DispatchErrorWithPostInfo_Encode :: "DispatchErrorWithPostInfo \<Rightarrow> (bytes, unit) goM" where
  "DispatchErrorWithPostInfo_Encode v =
     seqM (PostDispatchInfo_Encode (DispatchErrorWithPostInfo_PostInfo v))
    (DispatchError_Encode (DispatchErrorWithPostInfo_Error v))"

definition DispatchErrorWithPostInfo_Decode :: "(bytes, DispatchErrorWithPostInfo) goM" where
  "DispatchErrorWithPostInfo_Decode =
     bindM PostDispatchInfo_Decode (\<lambda>x.
     bindM DispatchError_Decode (\<lambda>y.
       retM \<lparr>DispatchErrorWithPostInfo_PostInfo = x, DispatchErrorWithPostInfo_Error = y\<rparr>))"

definition DispatchErrorWithPostInfo_ok :: "DispatchErrorWithPostInfo \<Rightarrow> bool" where
  "DispatchErrorWithPostInfo_ok v \<longleftrightarrow> PostDispatchInfo_ok (DispatchErrorWithPostInfo_PostInfo v) \<and>
     DispatchError_ok (DispatchErrorWithPostInfo_Error v)"

interpretation dispatchErrorWithPostInfo: chain_codec DispatchErrorWithPostInfo_Encode DispatchErrorWithPostInfo_Decode DispatchErrorWithPostInfo_ok
proof
  fix v
  assume "DispatchErrorWithPostInfo_ok v"
  then show "rt (DispatchErrorWithPostInfo_Encode v) DispatchErrorWithPostInfo_Decode v"
    unfolding DispatchErrorWithPostInfo_Encode_def DispatchErrorWithPostInfo_Decode_def DispatchErrorWithPostInfo_ok_def
    by (cases v; (elim conjE)?)
      (rule codec_rules codec_steps codec_laws rt_done | (simp del: retM_apply; fail))+
qed (unfold DispatchErrorWithPostInfo_Decode_def, intro consuming_rules)

datatype DispatchResultWithPostInfo = DispatchResultWithPostInfo_Zero | DispatchResultWithPostInfo_IsOk PostDispatchInfo | DispatchResultWithPostInfo_IsError DispatchErrorWithPostInfo

primrec DispatchResultWithPostInfo_Encode :: "DispatchResultWithPostInfo \<Rightarrow> (bytes, unit) goM" where
  "DispatchResultWithPostInfo_Encode (DispatchResultWithPostInfo_IsOk x) = seqM (PushByte 0) (PostDispatchInfo_Encode x)"
| "DispatchResultWithPostInfo_Encode (DispatchResultWithPostInfo_IsError x) = seqM (PushByte 1) (DispatchErrorWithPostInfo_Encode x)"
| "DispatchResultWithPostInfo_Encode DispatchResultWithPostInfo_Zero = retM ()"

definition DispatchResultWithPostInfo_Decode :: "(bytes, DispatchResultWithPostInfo) goM" where
  "DispatchResultWithPostInfo_Decode =
     bindM ReadOneByte (\<lambda>b.
       if b = 0 then bindM PostDispatchInfo_Decode (\<lambda>x. retM (DispatchResultWithPostInfo_IsOk x))
       else if b = 1 then bindM DispatchErrorWithPostInfo_Decode (\<lambda>x. retM (DispatchResultWithPostInfo_IsError x))
       else retM DispatchResultWithPostInfo_Zero)"

definition DispatchResultWithPostInfo_ok :: "DispatchResultWithPostInfo \<Rightarrow> bool" where
  "DispatchResultWithPostInfo_ok v =
     (case v of DispatchResultWithPostInfo_Zero \<Rightarrow> False
      | DispatchResultWithPostInfo_IsOk x \<Rightarrow> PostDispatchInfo_ok x
      | DispatchResultWithPostInfo_IsError x \<Rightarrow> DispatchErrorWithPostInfo_ok x)"

interpretation dispatchResultWithPostInfo: chain_codec DispatchResultWithPostInfo_Encode DispatchResultWithPostInfo_Decode DispatchResultWithPostInfo_ok
proof
  fix v
  assume "DispatchResultWithPostInfo_ok v"
  then show "rt (DispatchResultWithPostInfo_Encode v) DispatchResultWithPostInfo_Decode v"
    unfolding DispatchResultWithPostInfo_Decode_def DispatchResultWithPostInfo_ok_def
    by (cases v; simp only: DispatchResultWithPostInfo_Encode.simps DispatchResultWithPostInfo.case; (elim conjE)?)
      (rule codec_rules codec_steps codec_laws rt_done | (simp del: retM_apply; fail))+
qed (unfold DispatchResultWithPostInfo_Decode_def, intro consuming_rules)

section \<open>Enumerations\<close>

text \<open>
  \<open>Decode\<close> of the byte enumerations: the byte read is checked before the error of reading is
  looked at, and it is zero when there was none.
\<close>

definition Decode_enum :: "string \<Rightarrow> (byte \<Rightarrow> bool) \<Rightarrow> (bytes, byte) goM" where
  "Decode_enum nm valid s =
     (let unknown = \<lambda>b. Err (ErrorString (''unknown '' @ nm @ '' enum: '' @ string_of_nat (unat (b :: byte)))) in
      case ReadOneByte s of
        (Ok b, s') \<Rightarrow> (if valid b then Ok b else unknown b, s')
      | (Err e, s') \<Rightarrow> (if valid 0 then Err e else unknown 0, s')
      | r \<Rightarrow> r)"

lemma enum_codec: "chain_codec PushByte (Decode_enum nm valid) valid"
proof
  fix b
  assume "valid b"
  then show "rt (PushByte b) (Decode_enum nm valid) b"
    by (intro rtI [OF writes_PushByte]) (simp add: reads_def Decode_enum_def)
next
  show "consuming (Decode_enum nm valid)"
    using consuming_ReadOneByte unfolding consuming_def Decode_enum_def
    by (auto simp: Let_def split: prod.splits res.splits if_splits)
qed

definition BalanceStatus_ok :: "byte \<Rightarrow> bool" where
  "BalanceStatus_ok b \<longleftrightarrow> b \<in> {0, 1}"

definition BalanceStatus_Encode :: "byte \<Rightarrow> (bytes, unit) goM" where
  "BalanceStatus_Encode b = PushByte b"

definition BalanceStatus_Decode :: "(bytes, byte) goM" where
  "BalanceStatus_Decode = Decode_enum ''BalanceStatus'' BalanceStatus_ok"

interpretation balanceStatus: chain_codec BalanceStatus_Encode BalanceStatus_Decode BalanceStatus_ok
  unfolding BalanceStatus_Encode_def BalanceStatus_Decode_def by (rule enum_codec)

definition ElectionCompute_ok :: "byte \<Rightarrow> bool" where
  "ElectionCompute_ok b \<longleftrightarrow> b \<in> {0, 1, 2}"

definition ElectionCompute_Encode :: "byte \<Rightarrow> (bytes, unit) goM" where
  "ElectionCompute_Encode b = PushByte b"

definition ElectionCompute_Decode :: "(bytes, byte) goM" where
  "ElectionCompute_Decode = Decode_enum ''ElectionCompute'' ElectionCompute_ok"

interpretation electionCompute: chain_codec ElectionCompute_Encode ElectionCompute_Decode ElectionCompute_ok
  unfolding ElectionCompute_Encode_def ElectionCompute_Decode_def by (rule enum_codec)

definition VoteThreshold_ok :: "byte \<Rightarrow> bool" where
  "VoteThreshold_ok b \<longleftrightarrow> b \<in> {0, 1, 2}"

definition VoteThreshold_Encode :: "byte \<Rightarrow> (bytes, unit) goM" where
  "VoteThreshold_Encode b = PushByte b"

definition VoteThreshold_Decode :: "(bytes, byte) goM" where
  "VoteThreshold_Decode = Decode_enum ''VoteThreshold'' VoteThreshold_ok"

interpretation voteThreshold: chain_codec VoteThreshold_Encode VoteThreshold_Decode VoteThreshold_ok
  unfolding VoteThreshold_Encode_def VoteThreshold_Decode_def by (rule enum_codec)

definition DemocracyConviction_ok :: "byte \<Rightarrow> bool" where
  "DemocracyConviction_ok b \<longleftrightarrow> b \<in> {0, 1, 2, 3, 4, 5, 6}"

definition DemocracyConviction_Encode :: "byte \<Rightarrow> (bytes, unit) goM" where
  "DemocracyConviction_Encode b = PushByte b"

definition DemocracyConviction_Decode :: "(bytes, byte) goM" where
  "DemocracyConviction_Decode = Decode_enum ''DemocracyConviction'' DemocracyConviction_ok"

interpretation democracyConviction: chain_codec DemocracyConviction_Encode DemocracyConviction_Decode DemocracyConviction_ok
  unfolding DemocracyConviction_Encode_def DemocracyConviction_Decode_def by (rule enum_codec)

definition SchedulerLookupError_ok :: "byte \<Rightarrow> bool" where
  "SchedulerLookupError_ok b \<longleftrightarrow> b \<in> {0, 1}"

definition SchedulerLookupError_Encode :: "byte \<Rightarrow> (bytes, unit) goM" where
  "SchedulerLookupError_Encode b = PushByte b"

definition SchedulerLookupError_Decode :: "(bytes, byte) goM" where
  "SchedulerLookupError_Decode = Decode_enum ''SchedulerLookupError'' SchedulerLookupError_ok"

interpretation schedulerLookupError: chain_codec SchedulerLookupError_Encode SchedulerLookupError_Decode SchedulerLookupError_ok
  unfolding SchedulerLookupError_Encode_def SchedulerLookupError_Decode_def by (rule enum_codec)

datatype DisputeLocation = DisputeLocation_Zero | DisputeLocation_IsLocal | DisputeLocation_IsRemote

primrec DisputeLocation_Encode :: "DisputeLocation \<Rightarrow> (bytes, unit) goM" where
  "DisputeLocation_Encode DisputeLocation_IsLocal = PushByte 0"
| "DisputeLocation_Encode DisputeLocation_IsRemote = PushByte 1"
| "DisputeLocation_Encode DisputeLocation_Zero = retM ()"

definition DisputeLocation_Decode :: "(bytes, DisputeLocation) goM" where
  "DisputeLocation_Decode =
     bindM ReadOneByte (\<lambda>b.
       if b = 0 then retM DisputeLocation_IsLocal
       else if b = 1 then retM DisputeLocation_IsRemote
       else retM DisputeLocation_Zero)"

definition DisputeLocation_ok :: "DisputeLocation \<Rightarrow> bool" where
  "DisputeLocation_ok v =
     (case v of DisputeLocation_Zero \<Rightarrow> False | _ \<Rightarrow> True)"

interpretation disputeLocation: chain_codec DisputeLocation_Encode DisputeLocation_Decode DisputeLocation_ok
proof
  fix v
  assume "DisputeLocation_ok v"
  then show "rt (DisputeLocation_Encode v) DisputeLocation_Decode v"
    unfolding DisputeLocation_Decode_def DisputeLocation_ok_def
    by (cases v; simp only: DisputeLocation_Encode.simps DisputeLocation.case; (elim conjE)?)
      (rule codec_rules codec_steps codec_laws rt_done | (simp del: retM_apply; fail))+
qed (unfold DisputeLocation_Decode_def, intro consuming_rules)

datatype DisputeResult = DisputeResult_Zero | DisputeResult_IsValid | DisputeResult_IsInvalid

primrec DisputeResult_Encode :: "DisputeResult \<Rightarrow> (bytes, unit) goM" where
  "DisputeResult_Encode DisputeResult_IsValid = PushByte 0"
| "DisputeResult_Encode DisputeResult_IsInvalid = PushByte 1"
| "DisputeResult_Encode DisputeResult_Zero = retM ()"

definition DisputeResult_Decode :: "(bytes, DisputeResult) goM" where
  "DisputeResult_Decode =
     bindM ReadOneByte (\<lambda>b.
       if b = 0 then retM DisputeResult_IsValid
       else if b = 1 then retM DisputeResult_IsInvalid
       else retM DisputeResult_Zero)"

definition DisputeResult_ok :: "DisputeResult \<Rightarrow> bool" where
  "DisputeResult_ok v =
     (case v of DisputeResult_Zero \<Rightarrow> False | _ \<Rightarrow> True)"

interpretation disputeResult: chain_codec DisputeResult_Encode DisputeResult_Decode DisputeResult_ok
proof
  fix v
  assume "DisputeResult_ok v"
  then show "rt (DisputeResult_Encode v) DisputeResult_Decode v"
    unfolding DisputeResult_Decode_def DisputeResult_ok_def
    by (cases v; simp only: DisputeResult_Encode.simps DisputeResult.case; (elim conjE)?)
      (rule codec_rules codec_steps codec_laws rt_done | (simp del: retM_apply; fail))+
qed (unfold DisputeResult_Decode_def, intro consuming_rules)

datatype MigrationCompute = MigrationCompute_Zero | MigrationCompute_IsSigned | MigrationCompute_IsAuto

primrec MigrationCompute_Encode :: "MigrationCompute \<Rightarrow> (bytes, unit) goM" where
  "MigrationCompute_Encode MigrationCompute_IsSigned = PushByte 0"
| "MigrationCompute_Encode MigrationCompute_IsAuto = PushByte 1"
| "MigrationCompute_Encode MigrationCompute_Zero = retM ()"

definition MigrationCompute_Decode :: "(bytes, MigrationCompute) goM" where
  "MigrationCompute_Decode =
     bindM ReadOneByte (\<lambda>b.
       if b = 0 then retM MigrationCompute_IsSigned
       else if b = 1 then retM MigrationCompute_IsAuto
       else retM MigrationCompute_Zero)"

definition MigrationCompute_ok :: "MigrationCompute \<Rightarrow> bool" where
  "MigrationCompute_ok v =
     (case v of MigrationCompute_Zero \<Rightarrow> False | _ \<Rightarrow> True)"

interpretation migrationCompute: chain_codec MigrationCompute_Encode MigrationCompute_Decode MigrationCompute_ok
proof
  fix v
  assume "MigrationCompute_ok v"
  then show "rt (MigrationCompute_Encode v) MigrationCompute_Decode v"
    unfolding MigrationCompute_Decode_def MigrationCompute_ok_def
    by (cases v; simp only: MigrationCompute_Encode.simps MigrationCompute.case; (elim conjE)?)
      (rule codec_rules codec_steps codec_laws rt_done | (simp del: retM_apply; fail))+
qed (unfold MigrationCompute_Decode_def, intro consuming_rules)

end
