(* ===== verification/ChainData.thy ===== *)
theory ChainData
  imports DispatchTypes
begin

text \<open>
  Votes, sales, collections, proxies and other chain data: \<open>src/types/tally.go\<close>, \<open>proxy.go\<close>,
  \<open>sale.go\<close>, \<open>collection_details.go\<close>, \<open>item_details.go\<close>, \<open>item_metadata.go\<close>, \<open>class_metadata.go\<close>,
  \<open>hrmp.go\<close>, \<open>lottery_call_index.go\<close>, \<open>candidate_receipt.go\<close>, \<open>account_info.go\<close> and data types of
  \<open>events.go\<close>. Types without codec methods are encoded field by field.
\<close>

section \<open>Votes\<close>

text \<open>A vote is one byte: the highest bit says aye, the others are the conviction.\<close>

record DemocracyVote =
  DemocracyVote_Aye :: bool
  DemocracyVote_Conviction :: byte

definition zero_DemocracyVote :: DemocracyVote where
  "zero_DemocracyVote = \<lparr>DemocracyVote_Aye = False, DemocracyVote_Conviction = 0\<rparr>"

definition aye :: byte where
  "aye = push_bit 7 1"

definition DemocracyVote_Encode :: "DemocracyVote \<Rightarrow> (bytes, unit) goM" where
  "DemocracyVote_Encode d =
     PushByte (DemocracyVote_Conviction d OR (if DemocracyVote_Aye d then aye else 0))"

definition DemocracyVote_Decode :: "(bytes, DemocracyVote) goM" where
  "DemocracyVote_Decode =
     bindM ReadOneByte (\<lambda>b.
       retM \<lparr>DemocracyVote_Aye = (b AND aye = aye), DemocracyVote_Conviction = b AND (aye - 1)\<rparr>)"

definition DemocracyVote_ok :: "DemocracyVote \<Rightarrow> bool" where
  "DemocracyVote_ok d \<longleftrightarrow> DemocracyVote_Conviction d < aye"

lemma vote_bits:
  fixes c :: byte
  assumes "c < aye"
  shows "c AND aye = 0" "c AND (aye - 1) = c"
proof -
  have c: "take_bit 7 c = c"
    using assms by (simp add: aye_def word_less_nat_alt word_unat_eq_iff unsigned_take_bit_eq take_bit_nat_eq_self)
  have "aye - 1 = mask 7" by (simp add: aye_def mask_eq_exp_minus_1)
  then show "c AND (aye - 1) = c" using c by (simp flip: take_bit_eq_mask)
  show "c AND aye = 0"
    unfolding aye_def
    by (subst c [symmetric], rule bit_eqI) (simp only: bit_and_iff bit_take_bit_iff bit_push_bit_iff, simp)
qed

interpretation democracyVote: chain_codec DemocracyVote_Encode DemocracyVote_Decode DemocracyVote_ok
proof
  fix v
  assume "DemocracyVote_ok v"
  note c = vote_bits [OF this [unfolded DemocracyVote_ok_def]]
  have a: "aye AND (aye - 1) = 0" "aye \<noteq> (0 :: byte)" by (simp_all add: aye_def)
  show "rt (DemocracyVote_Encode v) DemocracyVote_Decode v"
    unfolding DemocracyVote_Encode_def DemocracyVote_Decode_def
    by (rule rt_byte_tag) (cases v, use c a in \<open>auto simp: bit.conj_disj_distrib2 simp del: retM_apply\<close>)
qed (unfold DemocracyVote_Decode_def, intro consuming_rules)

record VoteAccountVoteAsStandard =
  VoteAccountVoteAsStandard_Vote :: DemocracyVote
  VoteAccountVoteAsStandard_Balance :: "int option"

definition VoteAccountVoteAsStandard_Encode :: "VoteAccountVoteAsStandard \<Rightarrow> (bytes, unit) goM" where
  "VoteAccountVoteAsStandard_Encode v =
     seqM (DemocracyVote_Encode (VoteAccountVoteAsStandard_Vote v))
    (U128_Encode (VoteAccountVoteAsStandard_Balance v))"

definition VoteAccountVoteAsStandard_Decode :: "(bytes, VoteAccountVoteAsStandard) goM" where
  "VoteAccountVoteAsStandard_Decode =
     bindM DemocracyVote_Decode (\<lambda>x.
     bindM U128_Decode (\<lambda>y.
       retM \<lparr>VoteAccountVoteAsStandard_Vote = x, VoteAccountVoteAsStandard_Balance = y\<rparr>))"

definition VoteAccountVoteAsStandard_ok :: "VoteAccountVoteAsStandard \<Rightarrow> bool" where
  "VoteAccountVoteAsStandard_ok v \<longleftrightarrow> DemocracyVote_ok (VoteAccountVoteAsStandard_Vote v) \<and> U128_ok (VoteAccountVoteAsStandard_Balance v)"

interpretation voteAccountVoteAsStandard: chain_codec VoteAccountVoteAsStandard_Encode VoteAccountVoteAsStandard_Decode VoteAccountVoteAsStandard_ok
proof
  fix v
  assume "VoteAccountVoteAsStandard_ok v"
  then show "rt (VoteAccountVoteAsStandard_Encode v) VoteAccountVoteAsStandard_Decode v"
    unfolding VoteAccountVoteAsStandard_Encode_def VoteAccountVoteAsStandard_Decode_def VoteAccountVoteAsStandard_ok_def
    by (cases v; (elim conjE)?)
      (rule codec_rules codec_steps codec_laws rt_done | (simp del: retM_apply; fail))+
qed (unfold VoteAccountVoteAsStandard_Decode_def, intro consuming_rules)

record VoteAccountVoteAsSplit =
  VoteAccountVoteAsSplit_Aye :: "int option"
  VoteAccountVoteAsSplit_Nay :: "int option"

definition VoteAccountVoteAsSplit_Encode :: "VoteAccountVoteAsSplit \<Rightarrow> (bytes, unit) goM" where
  "VoteAccountVoteAsSplit_Encode v =
     seqM (fieldE (U128_Encode (VoteAccountVoteAsSplit_Aye v)))
    (fieldE (U128_Encode (VoteAccountVoteAsSplit_Nay v)))"

definition VoteAccountVoteAsSplit_Decode :: "(bytes, VoteAccountVoteAsSplit) goM" where
  "VoteAccountVoteAsSplit_Decode =
     bindM (fieldD U128_Decode) (\<lambda>x.
     bindM (fieldD U128_Decode) (\<lambda>y.
       retM \<lparr>VoteAccountVoteAsSplit_Aye = x, VoteAccountVoteAsSplit_Nay = y\<rparr>))"

definition VoteAccountVoteAsSplit_ok :: "VoteAccountVoteAsSplit \<Rightarrow> bool" where
  "VoteAccountVoteAsSplit_ok v \<longleftrightarrow> U128_ok (VoteAccountVoteAsSplit_Aye v) \<and> U128_ok (VoteAccountVoteAsSplit_Nay v)"

interpretation voteAccountVoteAsSplit: chain_codec VoteAccountVoteAsSplit_Encode VoteAccountVoteAsSplit_Decode VoteAccountVoteAsSplit_ok
proof
  fix v
  assume "VoteAccountVoteAsSplit_ok v"
  then show "rt (VoteAccountVoteAsSplit_Encode v) VoteAccountVoteAsSplit_Decode v"
    unfolding VoteAccountVoteAsSplit_Encode_def VoteAccountVoteAsSplit_Decode_def VoteAccountVoteAsSplit_ok_def
    by (cases v; (elim conjE)?)
      (rule codec_rules codec_steps codec_laws rt_done | (simp del: retM_apply; fail))+
qed (unfold VoteAccountVoteAsSplit_Decode_def, intro consuming_rules)

datatype VoteAccountVote = VoteAccountVote_Zero | VoteAccountVote_IsStandard VoteAccountVoteAsStandard | VoteAccountVote_IsSplit VoteAccountVoteAsSplit

primrec VoteAccountVote_Encode :: "VoteAccountVote \<Rightarrow> (bytes, unit) goM" where
  "VoteAccountVote_Encode (VoteAccountVote_IsStandard x) = seqM (PushByte 0) (VoteAccountVoteAsStandard_Encode x)"
| "VoteAccountVote_Encode (VoteAccountVote_IsSplit x) = seqM (PushByte 1) (VoteAccountVoteAsSplit_Encode x)"
| "VoteAccountVote_Encode VoteAccountVote_Zero = retM ()"

definition VoteAccountVote_Decode :: "(bytes, VoteAccountVote) goM" where
  "VoteAccountVote_Decode =
     bindM ReadOneByte (\<lambda>b.
       if b = 0 then bindM VoteAccountVoteAsStandard_Decode (\<lambda>x. retM (VoteAccountVote_IsStandard x))
       else if b = 1 then bindM VoteAccountVoteAsSplit_Decode (\<lambda>x. retM (VoteAccountVote_IsSplit x))
       else retM VoteAccountVote_Zero)"

definition VoteAccountVote_ok :: "VoteAccountVote \<Rightarrow> bool" where
  "VoteAccountVote_ok v =
     (case v of VoteAccountVote_Zero \<Rightarrow> False
      | VoteAccountVote_IsStandard x \<Rightarrow> VoteAccountVoteAsStandard_ok x
      | VoteAccountVote_IsSplit x \<Rightarrow> VoteAccountVoteAsSplit_ok x)"

interpretation voteAccountVote: chain_codec VoteAccountVote_Encode VoteAccountVote_Decode VoteAccountVote_ok
proof
  fix v
  assume "VoteAccountVote_ok v"
  then show "rt (VoteAccountVote_Encode v) VoteAccountVote_Decode v"
    unfolding VoteAccountVote_Decode_def VoteAccountVote_ok_def
    by (cases v; simp only: VoteAccountVote_Encode.simps VoteAccountVote.case; (elim conjE)?)
      (rule codec_rules codec_steps codec_laws rt_done | (simp del: retM_apply; fail))+
qed (unfold VoteAccountVote_Decode_def, intro consuming_rules)

record Tally =
  Tally_Votes :: "int option"
  Tally_Total :: "int option"

definition Tally_Encode :: "Tally \<Rightarrow> (bytes, unit) goM" where
  "Tally_Encode v =
     seqM (U128_Encode (Tally_Votes v))
    (U128_Encode (Tally_Total v))"

definition Tally_Decode :: "(bytes, Tally) goM" where
  "Tally_Decode =
     bindM U128_Decode (\<lambda>x.
     bindM U128_Decode (\<lambda>y.
       retM \<lparr>Tally_Votes = x, Tally_Total = y\<rparr>))"

definition Tally_ok :: "Tally \<Rightarrow> bool" where
  "Tally_ok v \<longleftrightarrow> U128_ok (Tally_Votes v) \<and> U128_ok (Tally_Total v)"

interpretation tally: chain_codec Tally_Encode Tally_Decode Tally_ok
proof
  fix v
  assume "Tally_ok v"
  then show "rt (Tally_Encode v) Tally_Decode v"
    unfolding Tally_Encode_def Tally_Decode_def Tally_ok_def
    by (cases v; (elim conjE)?)
      (rule codec_rules codec_steps codec_laws rt_done | (simp del: retM_apply; fail))+
qed (unfold Tally_Decode_def, intro consuming_rules)

section \<open>Proxies, sales and collections\<close>

record ProxyDefinition =
  ProxyDefinition_Delegate :: bytes
  ProxyDefinition_ProxyType :: byte
  ProxyDefinition_Delay :: uint32

definition ProxyDefinition_Encode :: "ProxyDefinition \<Rightarrow> (bytes, unit) goM" where
  "ProxyDefinition_Encode v =
     seqM (Encode_array (ProxyDefinition_Delegate v))
    (seqM (Encode_byte (ProxyDefinition_ProxyType v))
    (Encode_word Uint32 (ProxyDefinition_Delay v)))"

definition ProxyDefinition_Decode :: "(bytes, ProxyDefinition) goM" where
  "ProxyDefinition_Decode =
     bindM (Decode_array 32) (\<lambda>x.
     bindM Decode_byte (\<lambda>y.
     bindM (Decode_word Uint32) (\<lambda>z.
       retM \<lparr>ProxyDefinition_Delegate = x, ProxyDefinition_ProxyType = y, ProxyDefinition_Delay = z\<rparr>)))"

definition ProxyDefinition_ok :: "ProxyDefinition \<Rightarrow> bool" where
  "ProxyDefinition_ok v \<longleftrightarrow> length (ProxyDefinition_Delegate v) = 32"

interpretation proxyDefinition: chain_codec ProxyDefinition_Encode ProxyDefinition_Decode ProxyDefinition_ok
proof
  fix v
  assume "ProxyDefinition_ok v"
  then show "rt (ProxyDefinition_Encode v) ProxyDefinition_Decode v"
    unfolding ProxyDefinition_Encode_def ProxyDefinition_Decode_def ProxyDefinition_ok_def
    by (cases v; (elim conjE)?)
      (rule codec_rules codec_steps codec_laws rt_done | (simp del: retM_apply; fail))+
qed (unfold ProxyDefinition_Decode_def, intro consuming_rules)

record ProxyStorageEntry =
  ProxyStorageEntry_ProxyDefinitions :: "ProxyDefinition list"
  ProxyStorageEntry_Balance :: "int option"

definition ProxyStorageEntry_Encode :: "ProxyStorageEntry \<Rightarrow> (bytes, unit) goM" where
  "ProxyStorageEntry_Encode v =
     seqM (Encode_slice ProxyDefinition_Encode (ProxyStorageEntry_ProxyDefinitions v))
    (U128_Encode (ProxyStorageEntry_Balance v))"

definition ProxyStorageEntry_Decode :: "(bytes, ProxyStorageEntry) goM" where
  "ProxyStorageEntry_Decode =
     bindM (Decode_slice ProxyDefinition_Decode) (\<lambda>x.
     bindM U128_Decode (\<lambda>y.
       retM \<lparr>ProxyStorageEntry_ProxyDefinitions = x, ProxyStorageEntry_Balance = y\<rparr>))"

definition ProxyStorageEntry_ok :: "ProxyStorageEntry \<Rightarrow> bool" where
  "ProxyStorageEntry_ok v \<longleftrightarrow> slice_ok ProxyDefinition_ok (ProxyStorageEntry_ProxyDefinitions v) \<and>
     U128_ok (ProxyStorageEntry_Balance v)"

interpretation proxyStorageEntry: chain_codec ProxyStorageEntry_Encode ProxyStorageEntry_Decode ProxyStorageEntry_ok
proof
  fix v
  assume "ProxyStorageEntry_ok v"
  then show "rt (ProxyStorageEntry_Encode v) ProxyStorageEntry_Decode v"
    unfolding ProxyStorageEntry_Encode_def ProxyStorageEntry_Decode_def ProxyStorageEntry_ok_def
    by (cases v; (elim conjE)?)
      (rule codec_rules codec_steps codec_laws rt_done | (simp del: retM_apply; fail))+
qed (unfold ProxyStorageEntry_Decode_def, intro consuming_rules)

record Tranche =
  Tranche_FirstVal :: uint64
  Tranche_SecondVal :: bytes

definition Tranche_Encode :: "Tranche \<Rightarrow> (bytes, unit) goM" where
  "Tranche_Encode v =
     seqM (Encode_word Uint64 (Tranche_FirstVal v))
    (Encode_array (Tranche_SecondVal v))"

definition Tranche_Decode :: "(bytes, Tranche) goM" where
  "Tranche_Decode =
     bindM (Decode_word Uint64) (\<lambda>x.
     bindM (Decode_array 16) (\<lambda>y.
       retM \<lparr>Tranche_FirstVal = x, Tranche_SecondVal = y\<rparr>))"

definition Tranche_ok :: "Tranche \<Rightarrow> bool" where
  "Tranche_ok v \<longleftrightarrow> length (Tranche_SecondVal v) = 16"

interpretation tranche: chain_codec Tranche_Encode Tranche_Decode Tranche_ok
proof
  fix v
  assume "Tranche_ok v"
  then show "rt (Tranche_Encode v) Tranche_Decode v"
    unfolding Tranche_Encode_def Tranche_Decode_def Tranche_ok_def
    by (cases v; (elim conjE)?)
      (rule codec_rules codec_steps codec_laws rt_done | (simp del: retM_apply; fail))+
qed (unfold Tranche_Decode_def, intro consuming_rules)

datatype StakingCurrency = StakingCurrency_Zero | StakingCurrency_IsBlockRewards

primrec StakingCurrency_Encode :: "StakingCurrency \<Rightarrow> (bytes, unit) goM" where
  "StakingCurrency_Encode StakingCurrency_IsBlockRewards = PushByte 0"
| "StakingCurrency_Encode StakingCurrency_Zero = failM (ErrorString ''unsupported staking currency'')"

definition StakingCurrency_Decode :: "(bytes, StakingCurrency) goM" where
  "StakingCurrency_Decode =
     bindM ReadOneByte (\<lambda>b.
       if b = 0 then retM StakingCurrency_IsBlockRewards
       else failM (ErrorString ''unsupported staking currency''))"

definition StakingCurrency_ok :: "StakingCurrency \<Rightarrow> bool" where
  "StakingCurrency_ok v =
     (case v of StakingCurrency_Zero \<Rightarrow> False | _ \<Rightarrow> True)"

interpretation stakingCurrency: chain_codec StakingCurrency_Encode StakingCurrency_Decode StakingCurrency_ok
proof
  fix v
  assume "StakingCurrency_ok v"
  then show "rt (StakingCurrency_Encode v) StakingCurrency_Decode v"
    unfolding StakingCurrency_Decode_def StakingCurrency_ok_def
    by (cases v; simp only: StakingCurrency_Encode.simps StakingCurrency.case; (elim conjE)?)
      (rule codec_rules codec_steps codec_laws rt_done | (simp del: retM_apply; fail))+
qed (unfold StakingCurrency_Decode_def, intro consuming_rules)

datatype CurrencyID =
    CurrencyID_Zero
  | CurrencyID_IsNative
  | CurrencyID_IsTranche Tranche
  | CurrencyID_IsKSM
  | CurrencyID_IsAUSD
  | CurrencyID_IsForeignAsset uint32
  | CurrencyID_IsStaking StakingCurrency

primrec CurrencyID_Encode :: "CurrencyID \<Rightarrow> (bytes, unit) goM" where
  "CurrencyID_Encode CurrencyID_IsNative = PushByte 0"
| "CurrencyID_Encode (CurrencyID_IsTranche x) = seqM (PushByte 1) (Tranche_Encode x)"
| "CurrencyID_Encode CurrencyID_IsKSM = PushByte 2"
| "CurrencyID_Encode CurrencyID_IsAUSD = PushByte 3"
| "CurrencyID_Encode (CurrencyID_IsForeignAsset x) = seqM (PushByte 4) (Encode_word Uint32 x)"
| "CurrencyID_Encode (CurrencyID_IsStaking x) = seqM (PushByte 5) (StakingCurrency_Encode x)"
| "CurrencyID_Encode CurrencyID_Zero = failM (ErrorString ''unsupported currency ID'')"

definition CurrencyID_Decode :: "(bytes, CurrencyID) goM" where
  "CurrencyID_Decode =
     bindM ReadOneByte (\<lambda>b.
       if b = 0 then retM CurrencyID_IsNative
       else if b = 1 then bindM Tranche_Decode (\<lambda>x. retM (CurrencyID_IsTranche x))
       else if b = 2 then retM CurrencyID_IsKSM
       else if b = 3 then retM CurrencyID_IsAUSD
       else if b = 4 then bindM (Decode_word Uint32) (\<lambda>x. retM (CurrencyID_IsForeignAsset x))
       else if b = 5 then bindM StakingCurrency_Decode (\<lambda>x. retM (CurrencyID_IsStaking x))
       else failM (ErrorString ''unsupported currency ID''))"

definition CurrencyID_ok :: "CurrencyID \<Rightarrow> bool" where
  "CurrencyID_ok v =
     (case v of CurrencyID_Zero \<Rightarrow> False
      | CurrencyID_IsTranche x \<Rightarrow> Tranche_ok x
      | CurrencyID_IsStaking x \<Rightarrow> StakingCurrency_ok x
      | _ \<Rightarrow> True)"

interpretation currencyID: chain_codec CurrencyID_Encode CurrencyID_Decode CurrencyID_ok
proof
  fix v
  assume "CurrencyID_ok v"
  then show "rt (CurrencyID_Encode v) CurrencyID_Decode v"
    unfolding CurrencyID_Decode_def CurrencyID_ok_def
    by (cases v; simp only: CurrencyID_Encode.simps CurrencyID.case; (elim conjE)?)
      (rule codec_rules codec_steps codec_laws rt_done | (simp del: retM_apply; fail))+
qed (unfold CurrencyID_Decode_def, intro consuming_rules)

record Price =
  Price_CurrencyID :: CurrencyID
  Price_Amount :: "int option"

definition Price_Encode :: "Price \<Rightarrow> (bytes, unit) goM" where
  "Price_Encode v =
     seqM (CurrencyID_Encode (Price_CurrencyID v))
    (U128_Encode (Price_Amount v))"

definition Price_Decode :: "(bytes, Price) goM" where
  "Price_Decode =
     bindM CurrencyID_Decode (\<lambda>x.
     bindM U128_Decode (\<lambda>y.
       retM \<lparr>Price_CurrencyID = x, Price_Amount = y\<rparr>))"

definition Price_ok :: "Price \<Rightarrow> bool" where
  "Price_ok v \<longleftrightarrow> CurrencyID_ok (Price_CurrencyID v) \<and> U128_ok (Price_Amount v)"

interpretation price: chain_codec Price_Encode Price_Decode Price_ok
proof
  fix v
  assume "Price_ok v"
  then show "rt (Price_Encode v) Price_Decode v"
    unfolding Price_Encode_def Price_Decode_def Price_ok_def
    by (cases v; (elim conjE)?)
      (rule codec_rules codec_steps codec_laws rt_done | (simp del: retM_apply; fail))+
qed (unfold Price_Decode_def, intro consuming_rules)

record Sale =
  Sale_Seller :: bytes
  Sale_Price :: Price

definition Sale_Encode :: "Sale \<Rightarrow> (bytes, unit) goM" where
  "Sale_Encode v =
     seqM (Encode_array (Sale_Seller v))
    (Price_Encode (Sale_Price v))"

definition Sale_Decode :: "(bytes, Sale) goM" where
  "Sale_Decode =
     bindM (Decode_array 32) (\<lambda>x.
     bindM Price_Decode (\<lambda>y.
       retM \<lparr>Sale_Seller = x, Sale_Price = y\<rparr>))"

definition Sale_ok :: "Sale \<Rightarrow> bool" where
  "Sale_ok v \<longleftrightarrow> length (Sale_Seller v) = 32 \<and> Price_ok (Sale_Price v)"

interpretation sale: chain_codec Sale_Encode Sale_Decode Sale_ok
proof
  fix v
  assume "Sale_ok v"
  then show "rt (Sale_Encode v) Sale_Decode v"
    unfolding Sale_Encode_def Sale_Decode_def Sale_ok_def
    by (cases v; (elim conjE)?)
      (rule codec_rules codec_steps codec_laws rt_done | (simp del: retM_apply; fail))+
qed (unfold Sale_Decode_def, intro consuming_rules)

record CollectionDetails =
  CollectionDetails_Owner :: bytes
  CollectionDetails_Issuer :: bytes
  CollectionDetails_Admin :: bytes
  CollectionDetails_Freezer :: bytes
  CollectionDetails_TotalDeposit :: "int option"
  CollectionDetails_FreeHolding :: bool
  CollectionDetails_Instances :: uint32
  CollectionDetails_InstanceMetadatas :: uint32
  CollectionDetails_Attributes :: uint32
  CollectionDetails_IsFrozen :: bool

definition CollectionDetails_Encode :: "CollectionDetails \<Rightarrow> (bytes, unit) goM" where
  "CollectionDetails_Encode v =
     seqM (Encode_array (CollectionDetails_Owner v))
    (seqM (Encode_array (CollectionDetails_Issuer v))
    (seqM (Encode_array (CollectionDetails_Admin v))
    (seqM (Encode_array (CollectionDetails_Freezer v))
    (seqM (U128_Encode (CollectionDetails_TotalDeposit v))
    (seqM (Encode_bool (CollectionDetails_FreeHolding v))
    (seqM (Encode_word Uint32 (CollectionDetails_Instances v))
    (seqM (Encode_word Uint32 (CollectionDetails_InstanceMetadatas v))
    (seqM (Encode_word Uint32 (CollectionDetails_Attributes v))
    (Encode_bool (CollectionDetails_IsFrozen v))))))))))"

definition CollectionDetails_Decode :: "(bytes, CollectionDetails) goM" where
  "CollectionDetails_Decode =
     bindM (Decode_array 32) (\<lambda>x0.
     bindM (Decode_array 32) (\<lambda>x1.
     bindM (Decode_array 32) (\<lambda>x2.
     bindM (Decode_array 32) (\<lambda>x3.
     bindM U128_Decode (\<lambda>x4.
     bindM Decode_bool (\<lambda>x5.
     bindM (Decode_word Uint32) (\<lambda>x6.
     bindM (Decode_word Uint32) (\<lambda>x7.
     bindM (Decode_word Uint32) (\<lambda>x8.
     bindM Decode_bool (\<lambda>x9.
       retM \<lparr>CollectionDetails_Owner = x0, CollectionDetails_Issuer = x1, CollectionDetails_Admin = x2,
         CollectionDetails_Freezer = x3, CollectionDetails_TotalDeposit = x4, CollectionDetails_FreeHolding = x5,
         CollectionDetails_Instances = x6, CollectionDetails_InstanceMetadatas = x7,
         CollectionDetails_Attributes = x8, CollectionDetails_IsFrozen = x9\<rparr>))))))))))"

definition CollectionDetails_ok :: "CollectionDetails \<Rightarrow> bool" where
  "CollectionDetails_ok v \<longleftrightarrow> length (CollectionDetails_Owner v) = 32 \<and> length (CollectionDetails_Issuer v) = 32 \<and>
     length (CollectionDetails_Admin v) = 32 \<and> length (CollectionDetails_Freezer v) = 32 \<and>
     U128_ok (CollectionDetails_TotalDeposit v)"

interpretation collectionDetails: chain_codec CollectionDetails_Encode CollectionDetails_Decode CollectionDetails_ok
proof
  fix v
  assume "CollectionDetails_ok v"
  then show "rt (CollectionDetails_Encode v) CollectionDetails_Decode v"
    unfolding CollectionDetails_Encode_def CollectionDetails_Decode_def CollectionDetails_ok_def
    by (cases v; (elim conjE)?)
      (rule codec_rules codec_steps codec_laws rt_done | (simp del: retM_apply; fail))+
qed (unfold CollectionDetails_Decode_def, intro consuming_rules)

record ItemDetails =
  ItemDetails_Owner :: bytes
  ItemDetails_Approved :: "bool \<times> bytes"
  ItemDetails_IsFrozen :: bool
  ItemDetails_Deposit :: "int option"

definition ItemDetails_Encode :: "ItemDetails \<Rightarrow> (bytes, unit) goM" where
  "ItemDetails_Encode v =
     seqM (Encode_array (ItemDetails_Owner v))
    (seqM (EncodeOpt Encode_array (ItemDetails_Approved v))
    (seqM (Encode_bool (ItemDetails_IsFrozen v))
    (U128_Encode (ItemDetails_Deposit v))))"

definition ItemDetails_Decode :: "(bytes, ItemDetails) goM" where
  "ItemDetails_Decode =
     bindM (Decode_array 32) (\<lambda>x.
     bindM (DecodeOption (Decode_array 32) (zeros 32)) (\<lambda>y.
     bindM Decode_bool (\<lambda>z.
     bindM U128_Decode (\<lambda>u.
       retM \<lparr>ItemDetails_Owner = x, ItemDetails_Approved = y, ItemDetails_IsFrozen = z, ItemDetails_Deposit = u\<rparr>))))"

definition ItemDetails_ok :: "ItemDetails \<Rightarrow> bool" where
  "ItemDetails_ok v \<longleftrightarrow> length (ItemDetails_Owner v) = 32 \<and>
     opt_ok (\<lambda>x. length x = 32) (zeros 32) (ItemDetails_Approved v) \<and> U128_ok (ItemDetails_Deposit v)"

interpretation itemDetails: chain_codec ItemDetails_Encode ItemDetails_Decode ItemDetails_ok
proof
  fix v
  assume "ItemDetails_ok v"
  then show "rt (ItemDetails_Encode v) ItemDetails_Decode v"
    unfolding ItemDetails_Encode_def ItemDetails_Decode_def ItemDetails_ok_def
    by (cases v; (elim conjE)?)
      (rule codec_rules codec_steps codec_laws rt_done | (simp del: retM_apply; fail))+
qed (unfold ItemDetails_Decode_def, intro consuming_rules)

record ItemMetadata =
  ItemMetadata_Deposit :: "int option"
  ItemMetadata_Data :: bytes
  ItemMetadata_IsFrozen :: bool

definition ItemMetadata_Encode :: "ItemMetadata \<Rightarrow> (bytes, unit) goM" where
  "ItemMetadata_Encode v =
     seqM (U128_Encode (ItemMetadata_Deposit v))
    (seqM (Encode_slice Encode_byte (ItemMetadata_Data v))
    (Encode_bool (ItemMetadata_IsFrozen v)))"

definition ItemMetadata_Decode :: "(bytes, ItemMetadata) goM" where
  "ItemMetadata_Decode =
     bindM U128_Decode (\<lambda>x.
     bindM (Decode_slice Decode_byte) (\<lambda>y.
     bindM Decode_bool (\<lambda>z.
       retM \<lparr>ItemMetadata_Deposit = x, ItemMetadata_Data = y, ItemMetadata_IsFrozen = z\<rparr>)))"

definition ItemMetadata_ok :: "ItemMetadata \<Rightarrow> bool" where
  "ItemMetadata_ok v \<longleftrightarrow> U128_ok (ItemMetadata_Deposit v) \<and> slice_ok (\<lambda>_. True) (ItemMetadata_Data v)"

interpretation itemMetadata: chain_codec ItemMetadata_Encode ItemMetadata_Decode ItemMetadata_ok
proof
  fix v
  assume "ItemMetadata_ok v"
  then show "rt (ItemMetadata_Encode v) ItemMetadata_Decode v"
    unfolding ItemMetadata_Encode_def ItemMetadata_Decode_def ItemMetadata_ok_def
    by (cases v; (elim conjE)?)
      (rule codec_rules codec_steps codec_laws rt_done | (simp del: retM_apply; fail))+
qed (unfold ItemMetadata_Decode_def, intro consuming_rules)

record ClassMetadata =
  ClassMetadata_Deposit :: "int option"
  ClassMetadata_Data :: bytes
  ClassMetadata_IsFrozen :: bool

definition ClassMetadata_Encode :: "ClassMetadata \<Rightarrow> (bytes, unit) goM" where
  "ClassMetadata_Encode v =
     seqM (U128_Encode (ClassMetadata_Deposit v))
    (seqM (Encode_slice Encode_byte (ClassMetadata_Data v))
    (Encode_bool (ClassMetadata_IsFrozen v)))"

definition ClassMetadata_Decode :: "(bytes, ClassMetadata) goM" where
  "ClassMetadata_Decode =
     bindM U128_Decode (\<lambda>x.
     bindM (Decode_slice Decode_byte) (\<lambda>y.
     bindM Decode_bool (\<lambda>z.
       retM \<lparr>ClassMetadata_Deposit = x, ClassMetadata_Data = y, ClassMetadata_IsFrozen = z\<rparr>)))"

definition ClassMetadata_ok :: "ClassMetadata \<Rightarrow> bool" where
  "ClassMetadata_ok v \<longleftrightarrow> U128_ok (ClassMetadata_Deposit v) \<and> slice_ok (\<lambda>_. True) (ClassMetadata_Data v)"

interpretation classMetadata: chain_codec ClassMetadata_Encode ClassMetadata_Decode ClassMetadata_ok
proof
  fix v
  assume "ClassMetadata_ok v"
  then show "rt (ClassMetadata_Encode v) ClassMetadata_Decode v"
    unfolding ClassMetadata_Encode_def ClassMetadata_Decode_def ClassMetadata_ok_def
    by (cases v; (elim conjE)?)
      (rule codec_rules codec_steps codec_laws rt_done | (simp del: retM_apply; fail))+
qed (unfold ClassMetadata_Decode_def, intro consuming_rules)

section \<open>Channels, calls and staking\<close>

record HRMPChannelID =
  HRMPChannelID_Sender :: uint32
  HRMPChannelID_Recipient :: uint32

definition HRMPChannelID_Encode :: "HRMPChannelID \<Rightarrow> (bytes, unit) goM" where
  "HRMPChannelID_Encode v =
     seqM (Encode_word Uint32 (HRMPChannelID_Sender v))
    (Encode_word Uint32 (HRMPChannelID_Recipient v))"

definition HRMPChannelID_Decode :: "(bytes, HRMPChannelID) goM" where
  "HRMPChannelID_Decode =
     bindM (Decode_word Uint32) (\<lambda>x.
     bindM (Decode_word Uint32) (\<lambda>y.
       retM \<lparr>HRMPChannelID_Sender = x, HRMPChannelID_Recipient = y\<rparr>))"

definition HRMPChannelID_ok :: "HRMPChannelID \<Rightarrow> bool" where
  "HRMPChannelID_ok v \<longleftrightarrow> True"

interpretation hrmpChannelID: chain_codec HRMPChannelID_Encode HRMPChannelID_Decode HRMPChannelID_ok
proof
  fix v
  assume "HRMPChannelID_ok v"
  then show "rt (HRMPChannelID_Encode v) HRMPChannelID_Decode v"
    unfolding HRMPChannelID_Encode_def HRMPChannelID_Decode_def HRMPChannelID_ok_def
    by (cases v; (elim conjE)?)
      (rule codec_rules codec_steps codec_laws rt_done | (simp del: retM_apply; fail))+
qed (unfold HRMPChannelID_Decode_def, intro consuming_rules)

record LotteryCallIndex =
  LotteryCallIndex_PalletIndex :: byte
  LotteryCallIndex_CallIndex :: byte

definition LotteryCallIndex_Encode :: "LotteryCallIndex \<Rightarrow> (bytes, unit) goM" where
  "LotteryCallIndex_Encode v =
     seqM (Encode_byte (LotteryCallIndex_PalletIndex v))
    (Encode_byte (LotteryCallIndex_CallIndex v))"

definition LotteryCallIndex_Decode :: "(bytes, LotteryCallIndex) goM" where
  "LotteryCallIndex_Decode =
     bindM Decode_byte (\<lambda>x.
     bindM Decode_byte (\<lambda>y.
       retM \<lparr>LotteryCallIndex_PalletIndex = x, LotteryCallIndex_CallIndex = y\<rparr>))"

definition LotteryCallIndex_ok :: "LotteryCallIndex \<Rightarrow> bool" where
  "LotteryCallIndex_ok v \<longleftrightarrow> True"

interpretation lotteryCallIndex: chain_codec LotteryCallIndex_Encode LotteryCallIndex_Decode LotteryCallIndex_ok
proof
  fix v
  assume "LotteryCallIndex_ok v"
  then show "rt (LotteryCallIndex_Encode v) LotteryCallIndex_Decode v"
    unfolding LotteryCallIndex_Encode_def LotteryCallIndex_Decode_def LotteryCallIndex_ok_def
    by (cases v; (elim conjE)?)
      (rule codec_rules codec_steps codec_laws rt_done | (simp del: retM_apply; fail))+
qed (unfold LotteryCallIndex_Decode_def, intro consuming_rules)

record TimePoint =
  TimePoint_Height :: uint32
  TimePoint_Index :: uint32

definition TimePoint_Encode :: "TimePoint \<Rightarrow> (bytes, unit) goM" where
  "TimePoint_Encode v =
     seqM (fieldE (Encode_word Uint32 (TimePoint_Height v)))
    (fieldE (Encode_word Uint32 (TimePoint_Index v)))"

definition TimePoint_Decode :: "(bytes, TimePoint) goM" where
  "TimePoint_Decode =
     bindM (fieldD (Decode_word Uint32)) (\<lambda>x.
     bindM (fieldD (Decode_word Uint32)) (\<lambda>y.
       retM \<lparr>TimePoint_Height = x, TimePoint_Index = y\<rparr>))"

definition TimePoint_ok :: "TimePoint \<Rightarrow> bool" where
  "TimePoint_ok v \<longleftrightarrow> True"

interpretation timePoint: chain_codec TimePoint_Encode TimePoint_Decode TimePoint_ok
proof
  fix v
  assume "TimePoint_ok v"
  then show "rt (TimePoint_Encode v) TimePoint_Decode v"
    unfolding TimePoint_Encode_def TimePoint_Decode_def TimePoint_ok_def
    by (cases v; (elim conjE)?)
      (rule codec_rules codec_steps codec_laws rt_done | (simp del: retM_apply; fail))+
qed (unfold TimePoint_Decode_def, intro consuming_rules)

record TaskAddress =
  TaskAddress_When :: uint32
  TaskAddress_Index :: uint32

definition TaskAddress_Encode :: "TaskAddress \<Rightarrow> (bytes, unit) goM" where
  "TaskAddress_Encode v =
     seqM (fieldE (Encode_word Uint32 (TaskAddress_When v)))
    (fieldE (Encode_word Uint32 (TaskAddress_Index v)))"

definition TaskAddress_Decode :: "(bytes, TaskAddress) goM" where
  "TaskAddress_Decode =
     bindM (fieldD (Decode_word Uint32)) (\<lambda>x.
     bindM (fieldD (Decode_word Uint32)) (\<lambda>y.
       retM \<lparr>TaskAddress_When = x, TaskAddress_Index = y\<rparr>))"

definition TaskAddress_ok :: "TaskAddress \<Rightarrow> bool" where
  "TaskAddress_ok v \<longleftrightarrow> True"

interpretation taskAddress: chain_codec TaskAddress_Encode TaskAddress_Decode TaskAddress_ok
proof
  fix v
  assume "TaskAddress_ok v"
  then show "rt (TaskAddress_Encode v) TaskAddress_Decode v"
    unfolding TaskAddress_Encode_def TaskAddress_Decode_def TaskAddress_ok_def
    by (cases v; (elim conjE)?)
      (rule codec_rules codec_steps codec_laws rt_done | (simp del: retM_apply; fail))+
qed (unfold TaskAddress_Decode_def, intro consuming_rules)

record IndividualExposure =
  IndividualExposure_Who :: bytes
  IndividualExposure_Value :: int

definition IndividualExposure_Encode :: "IndividualExposure \<Rightarrow> (bytes, unit) goM" where
  "IndividualExposure_Encode v =
     seqM (fieldE (Encode_array (IndividualExposure_Who v)))
    (fieldE (UCompact_Encode (IndividualExposure_Value v)))"

definition IndividualExposure_Decode :: "(bytes, IndividualExposure) goM" where
  "IndividualExposure_Decode =
     bindM (fieldD (Decode_array 32)) (\<lambda>x.
     bindM (fieldD UCompact_Decode) (\<lambda>y.
       retM \<lparr>IndividualExposure_Who = x, IndividualExposure_Value = y\<rparr>))"

definition IndividualExposure_ok :: "IndividualExposure \<Rightarrow> bool" where
  "IndividualExposure_ok v \<longleftrightarrow> length (IndividualExposure_Who v) = 32 \<and> id_ok (IndividualExposure_Value v)"

interpretation individualExposure: chain_codec IndividualExposure_Encode IndividualExposure_Decode IndividualExposure_ok
proof
  fix v
  assume "IndividualExposure_ok v"
  then show "rt (IndividualExposure_Encode v) IndividualExposure_Decode v"
    unfolding IndividualExposure_Encode_def IndividualExposure_Decode_def IndividualExposure_ok_def
    by (cases v; (elim conjE)?)
      (rule codec_rules codec_steps codec_laws rt_done | (simp del: retM_apply; fail))+
qed (unfold IndividualExposure_Decode_def, intro consuming_rules)

record Exposure =
  Exposure_Total :: int
  Exposure_Own :: int
  Exposure_Others :: "IndividualExposure list"

definition Exposure_Encode :: "Exposure \<Rightarrow> (bytes, unit) goM" where
  "Exposure_Encode v =
     seqM (fieldE (UCompact_Encode (Exposure_Total v)))
    (seqM (fieldE (UCompact_Encode (Exposure_Own v)))
    (fieldE (Encode_slice IndividualExposure_Encode (Exposure_Others v))))"

definition Exposure_Decode :: "(bytes, Exposure) goM" where
  "Exposure_Decode =
     bindM (fieldD UCompact_Decode) (\<lambda>x.
     bindM (fieldD UCompact_Decode) (\<lambda>y.
     bindM (fieldD (Decode_slice IndividualExposure_Decode)) (\<lambda>z.
       retM \<lparr>Exposure_Total = x, Exposure_Own = y, Exposure_Others = z\<rparr>)))"

definition Exposure_ok :: "Exposure \<Rightarrow> bool" where
  "Exposure_ok v \<longleftrightarrow> id_ok (Exposure_Total v) \<and> id_ok (Exposure_Own v) \<and>
     slice_ok IndividualExposure_ok (Exposure_Others v)"

interpretation exposure: chain_codec Exposure_Encode Exposure_Decode Exposure_ok
proof
  fix v
  assume "Exposure_ok v"
  then show "rt (Exposure_Encode v) Exposure_Decode v"
    unfolding Exposure_Encode_def Exposure_Decode_def Exposure_ok_def
    by (cases v; (elim conjE)?)
      (rule codec_rules codec_steps codec_laws rt_done | (simp del: retM_apply; fail))+
qed (unfold Exposure_Decode_def, intro consuming_rules)

record AccountInfoV4 =
  AccountInfoV4_TrieID :: bytes
  AccountInfoV4_CurrentMemStored :: uint64

definition AccountInfoV4_Encode :: "AccountInfoV4 \<Rightarrow> (bytes, unit) goM" where
  "AccountInfoV4_Encode v =
     seqM (fieldE (Encode_slice Encode_byte (AccountInfoV4_TrieID v)))
    (fieldE (Encode_word Uint64 (AccountInfoV4_CurrentMemStored v)))"

definition AccountInfoV4_Decode :: "(bytes, AccountInfoV4) goM" where
  "AccountInfoV4_Decode =
     bindM (fieldD (Decode_slice Decode_byte)) (\<lambda>x.
     bindM (fieldD (Decode_word Uint64)) (\<lambda>y.
       retM \<lparr>AccountInfoV4_TrieID = x, AccountInfoV4_CurrentMemStored = y\<rparr>))"

definition AccountInfoV4_ok :: "AccountInfoV4 \<Rightarrow> bool" where
  "AccountInfoV4_ok v \<longleftrightarrow> slice_ok (\<lambda>_. True) (AccountInfoV4_TrieID v)"

interpretation accountInfoV4: chain_codec AccountInfoV4_Encode AccountInfoV4_Decode AccountInfoV4_ok
proof
  fix v
  assume "AccountInfoV4_ok v"
  then show "rt (AccountInfoV4_Encode v) AccountInfoV4_Decode v"
    unfolding AccountInfoV4_Encode_def AccountInfoV4_Decode_def AccountInfoV4_ok_def
    by (cases v; (elim conjE)?)
      (rule codec_rules codec_steps codec_laws rt_done | (simp del: retM_apply; fail))+
qed (unfold AccountInfoV4_Decode_def, intro consuming_rules)

record CandidateDescriptor =
  CandidateDescriptor_ParachainID :: uint32
  CandidateDescriptor_RelayParent :: bytes
  CandidateDescriptor_CollatorID :: bytes
  CandidateDescriptor_PersistentValidationDataHash :: bytes
  CandidateDescriptor_PoVHash :: bytes
  CandidateDescriptor_ErasureRoot :: bytes
  CandidateDescriptor_CollatorSignature :: bytes
  CandidateDescriptor_ParaHead :: bytes
  CandidateDescriptor_ValidationCodeHash :: bytes

definition CandidateDescriptor_Encode :: "CandidateDescriptor \<Rightarrow> (bytes, unit) goM" where
  "CandidateDescriptor_Encode v =
     seqM (fieldE (Encode_word Uint32 (CandidateDescriptor_ParachainID v)))
    (seqM (fieldE (Encode_array (CandidateDescriptor_RelayParent v)))
    (seqM (fieldE (Encode_array (CandidateDescriptor_CollatorID v)))
    (seqM (fieldE (Encode_array (CandidateDescriptor_PersistentValidationDataHash v)))
    (seqM (fieldE (Encode_array (CandidateDescriptor_PoVHash v)))
    (seqM (fieldE (Encode_array (CandidateDescriptor_ErasureRoot v)))
    (seqM (fieldE (Encode_array (CandidateDescriptor_CollatorSignature v)))
    (seqM (fieldE (Encode_array (CandidateDescriptor_ParaHead v)))
    (fieldE (Encode_array (CandidateDescriptor_ValidationCodeHash v))))))))))"

definition CandidateDescriptor_Decode :: "(bytes, CandidateDescriptor) goM" where
  "CandidateDescriptor_Decode =
     bindM (fieldD (Decode_word Uint32)) (\<lambda>x0.
     bindM (fieldD (Decode_array 32)) (\<lambda>x1.
     bindM (fieldD (Decode_array 32)) (\<lambda>x2.
     bindM (fieldD (Decode_array 32)) (\<lambda>x3.
     bindM (fieldD (Decode_array 32)) (\<lambda>x4.
     bindM (fieldD (Decode_array 32)) (\<lambda>x5.
     bindM (fieldD (Decode_array 64)) (\<lambda>x6.
     bindM (fieldD (Decode_array 32)) (\<lambda>x7.
     bindM (fieldD (Decode_array 32)) (\<lambda>x8.
       retM \<lparr>CandidateDescriptor_ParachainID = x0, CandidateDescriptor_RelayParent = x1,
         CandidateDescriptor_CollatorID = x2, CandidateDescriptor_PersistentValidationDataHash = x3,
         CandidateDescriptor_PoVHash = x4, CandidateDescriptor_ErasureRoot = x5,
         CandidateDescriptor_CollatorSignature = x6, CandidateDescriptor_ParaHead = x7,
         CandidateDescriptor_ValidationCodeHash = x8\<rparr>)))))))))"

definition CandidateDescriptor_ok :: "CandidateDescriptor \<Rightarrow> bool" where
  "CandidateDescriptor_ok v \<longleftrightarrow> length (CandidateDescriptor_RelayParent v) = 32 \<and> length (CandidateDescriptor_CollatorID v) = 32 \<and>
     length (CandidateDescriptor_PersistentValidationDataHash v) = 32 \<and>
     length (CandidateDescriptor_PoVHash v) = 32 \<and> length (CandidateDescriptor_ErasureRoot v) = 32 \<and>
     length (CandidateDescriptor_CollatorSignature v) = 64 \<and>
     length (CandidateDescriptor_ParaHead v) = 32 \<and> length (CandidateDescriptor_ValidationCodeHash v) = 32"

interpretation candidateDescriptor: chain_codec CandidateDescriptor_Encode CandidateDescriptor_Decode CandidateDescriptor_ok
proof
  fix v
  assume "CandidateDescriptor_ok v"
  then show "rt (CandidateDescriptor_Encode v) CandidateDescriptor_Decode v"
    unfolding CandidateDescriptor_Encode_def CandidateDescriptor_Decode_def CandidateDescriptor_ok_def
    by (cases v; (elim conjE)?)
      (rule codec_rules codec_steps codec_laws rt_done | (simp del: retM_apply; fail))+
qed (unfold CandidateDescriptor_Decode_def, intro consuming_rules)

record CandidateReceipt =
  CandidateReceipt_Descriptor :: CandidateDescriptor
  CandidateReceipt_CommitmentsHash :: bytes

definition CandidateReceipt_Encode :: "CandidateReceipt \<Rightarrow> (bytes, unit) goM" where
  "CandidateReceipt_Encode v =
     seqM (fieldE (CandidateDescriptor_Encode (CandidateReceipt_Descriptor v)))
    (fieldE (Encode_array (CandidateReceipt_CommitmentsHash v)))"

definition CandidateReceipt_Decode :: "(bytes, CandidateReceipt) goM" where
  "CandidateReceipt_Decode =
     bindM (fieldD CandidateDescriptor_Decode) (\<lambda>x.
     bindM (fieldD (Decode_array 32)) (\<lambda>y.
       retM \<lparr>CandidateReceipt_Descriptor = x, CandidateReceipt_CommitmentsHash = y\<rparr>))"

definition CandidateReceipt_ok :: "CandidateReceipt \<Rightarrow> bool" where
  "CandidateReceipt_ok v \<longleftrightarrow> CandidateDescriptor_ok (CandidateReceipt_Descriptor v) \<and> length (CandidateReceipt_CommitmentsHash v) = 32"

interpretation candidateReceipt: chain_codec CandidateReceipt_Encode CandidateReceipt_Decode CandidateReceipt_ok
proof
  fix v
  assume "CandidateReceipt_ok v"
  then show "rt (CandidateReceipt_Encode v) CandidateReceipt_Decode v"
    unfolding CandidateReceipt_Encode_def CandidateReceipt_Decode_def CandidateReceipt_ok_def
    by (cases v; (elim conjE)?)
      (rule codec_rules codec_steps codec_laws rt_done | (simp del: retM_apply; fail))+
qed (unfold CandidateReceipt_Decode_def, intro consuming_rules)

end
