(* ===== verification/BlockTypes.thy ===== *)
theory BlockTypes
  imports ChainData
begin

text \<open>
  Blocks, digests, statuses, runtime versions and proofs: \<open>src/types/header.go\<close>,
  \<open>digest_item.go\<close>, \<open>digest.go\<close>, \<open>digest_of.go\<close>, \<open>extrinsic_status.go\<close>, \<open>runtime_version.go\<close>,
  \<open>chain_properties.go\<close> and \<open>mmr.go\<close>.
\<close>

section \<open>Headers and digests\<close>

text \<open>A block number has 32 bits and is compact-encoded; the decoder keeps the low bits of what it reads.\<close>

definition BlockNumber_Encode :: "uint32 \<Rightarrow> (bytes, unit) goM" where
  "BlockNumber_Encode b = EncodeUintCompact (uint b)"

definition BlockNumber_Decode :: "(bytes, uint32) goM" where
  "BlockNumber_Decode = bindM DecodeUintCompact (\<lambda>u. retM (ucast (BigInt_Uint64 u)))"

lemma BlockNumber_low_bits: "ucast (BigInt_Uint64 u) = (word_of_int u :: uint32)"
  unfolding BigInt_Uint64_def by (rule bit_eqI) (simp add: bit_simps)

interpretation blockNumber: chain_codec BlockNumber_Encode BlockNumber_Decode "\<lambda>_. True"
proof
  fix b :: uint32
  have "uint b < 2 ^ 32" using uint_lt2p [of b] by simp
  also have "(2 :: int) ^ 32 \<le> 2 ^ 536" by (rule power_increasing) simp_all
  finally have "uint b < 2 ^ 536" .
  then show "rt (BlockNumber_Encode b) BlockNumber_Decode b"
    unfolding BlockNumber_Encode_def BlockNumber_Decode_def
    by (intro rt_done [OF compact.roundtrip]) (simp_all add: BlockNumber_low_bits del: retM_apply)
qed (unfold BlockNumber_Decode_def, intro consuming_rules)

datatype ChangesTrieSignal = ChangesTrieSignal_Zero | ChangesTrieSignal_IsNewConfiguration bytes

primrec ChangesTrieSignal_Encode :: "ChangesTrieSignal \<Rightarrow> (bytes, unit) goM" where
  "ChangesTrieSignal_Encode (ChangesTrieSignal_IsNewConfiguration x) = seqM (PushByte 0) (Encode_slice Encode_byte x)"
| "ChangesTrieSignal_Encode ChangesTrieSignal_Zero = failM (ErrorString ''no such variant for ChangesTrieSignal'')"

definition ChangesTrieSignal_Decode :: "(bytes, ChangesTrieSignal) goM" where
  "ChangesTrieSignal_Decode =
     bindM ReadOneByte (\<lambda>b.
       if b = 0 then bindM (Decode_slice Decode_byte) (\<lambda>x. retM (ChangesTrieSignal_IsNewConfiguration x))
       else failM (ErrorString ''no such variant for ChangesTrieSignal''))"

definition ChangesTrieSignal_ok :: "ChangesTrieSignal \<Rightarrow> bool" where
  "ChangesTrieSignal_ok v =
     (case v of ChangesTrieSignal_Zero \<Rightarrow> False
      | ChangesTrieSignal_IsNewConfiguration x \<Rightarrow> slice_ok (\<lambda>_. True) x)"

interpretation changesTrieSignal: chain_codec ChangesTrieSignal_Encode ChangesTrieSignal_Decode ChangesTrieSignal_ok
proof
  fix v
  assume "ChangesTrieSignal_ok v"
  then show "rt (ChangesTrieSignal_Encode v) ChangesTrieSignal_Decode v"
    unfolding ChangesTrieSignal_Decode_def ChangesTrieSignal_ok_def
    by (cases v; simp only: ChangesTrieSignal_Encode.simps ChangesTrieSignal.case; (elim conjE)?)
      (rule codec_rules codec_steps codec_laws rt_done | (simp del: retM_apply; fail))+
qed (unfold ChangesTrieSignal_Decode_def, intro consuming_rules)

record Seal =
  Seal_ConsensusEngineID :: uint32
  Seal_Bytes :: bytes

definition Seal_Encode :: "Seal \<Rightarrow> (bytes, unit) goM" where
  "Seal_Encode v =
     seqM (fieldE (Encode_word Uint32 (Seal_ConsensusEngineID v)))
    (fieldE (Encode_slice Encode_byte (Seal_Bytes v)))"

definition Seal_Decode :: "(bytes, Seal) goM" where
  "Seal_Decode =
     bindM (fieldD (Decode_word Uint32)) (\<lambda>x.
     bindM (fieldD (Decode_slice Decode_byte)) (\<lambda>y.
       retM \<lparr>Seal_ConsensusEngineID = x, Seal_Bytes = y\<rparr>))"

definition Seal_ok :: "Seal \<Rightarrow> bool" where
  "Seal_ok v \<longleftrightarrow> slice_ok (\<lambda>_. True) (Seal_Bytes v)"

interpretation seal: chain_codec Seal_Encode Seal_Decode Seal_ok
proof
  fix v
  assume "Seal_ok v"
  then show "rt (Seal_Encode v) Seal_Decode v"
    unfolding Seal_Encode_def Seal_Decode_def Seal_ok_def
    by (cases v; (elim conjE)?)
      (rule codec_rules codec_steps codec_laws rt_done | (simp del: retM_apply; fail))+
qed (unfold Seal_Decode_def, intro consuming_rules)

record Consensus =
  Consensus_ConsensusEngineID :: uint32
  Consensus_Bytes :: bytes

definition Consensus_Encode :: "Consensus \<Rightarrow> (bytes, unit) goM" where
  "Consensus_Encode v =
     seqM (fieldE (Encode_word Uint32 (Consensus_ConsensusEngineID v)))
    (fieldE (Encode_slice Encode_byte (Consensus_Bytes v)))"

definition Consensus_Decode :: "(bytes, Consensus) goM" where
  "Consensus_Decode =
     bindM (fieldD (Decode_word Uint32)) (\<lambda>x.
     bindM (fieldD (Decode_slice Decode_byte)) (\<lambda>y.
       retM \<lparr>Consensus_ConsensusEngineID = x, Consensus_Bytes = y\<rparr>))"

definition Consensus_ok :: "Consensus \<Rightarrow> bool" where
  "Consensus_ok v \<longleftrightarrow> slice_ok (\<lambda>_. True) (Consensus_Bytes v)"

interpretation consensus: chain_codec Consensus_Encode Consensus_Decode Consensus_ok
proof
  fix v
  assume "Consensus_ok v"
  then show "rt (Consensus_Encode v) Consensus_Decode v"
    unfolding Consensus_Encode_def Consensus_Decode_def Consensus_ok_def
    by (cases v; (elim conjE)?)
      (rule codec_rules codec_steps codec_laws rt_done | (simp del: retM_apply; fail))+
qed (unfold Consensus_Decode_def, intro consuming_rules)

record PreRuntime =
  PreRuntime_ConsensusEngineID :: uint32
  PreRuntime_Bytes :: bytes

definition PreRuntime_Encode :: "PreRuntime \<Rightarrow> (bytes, unit) goM" where
  "PreRuntime_Encode v =
     seqM (fieldE (Encode_word Uint32 (PreRuntime_ConsensusEngineID v)))
    (fieldE (Encode_slice Encode_byte (PreRuntime_Bytes v)))"

definition PreRuntime_Decode :: "(bytes, PreRuntime) goM" where
  "PreRuntime_Decode =
     bindM (fieldD (Decode_word Uint32)) (\<lambda>x.
     bindM (fieldD (Decode_slice Decode_byte)) (\<lambda>y.
       retM \<lparr>PreRuntime_ConsensusEngineID = x, PreRuntime_Bytes = y\<rparr>))"

definition PreRuntime_ok :: "PreRuntime \<Rightarrow> bool" where
  "PreRuntime_ok v \<longleftrightarrow> slice_ok (\<lambda>_. True) (PreRuntime_Bytes v)"

interpretation preRuntime: chain_codec PreRuntime_Encode PreRuntime_Decode PreRuntime_ok
proof
  fix v
  assume "PreRuntime_ok v"
  then show "rt (PreRuntime_Encode v) PreRuntime_Decode v"
    unfolding PreRuntime_Encode_def PreRuntime_Decode_def PreRuntime_ok_def
    by (cases v; (elim conjE)?)
      (rule codec_rules codec_steps codec_laws rt_done | (simp del: retM_apply; fail))+
qed (unfold PreRuntime_Decode_def, intro consuming_rules)

datatype DigestItem =
    DigestItem_Zero
  | DigestItem_IsChangesTrieRoot bytes
  | DigestItem_IsPreRuntime PreRuntime
  | DigestItem_IsConsensus Consensus
  | DigestItem_IsSeal Seal
  | DigestItem_IsChangesTrieSignal ChangesTrieSignal
  | DigestItem_IsOther bytes

primrec DigestItem_Encode :: "DigestItem \<Rightarrow> (bytes, unit) goM" where
  "DigestItem_Encode (DigestItem_IsOther x) = seqM (PushByte 0) (Encode_slice Encode_byte x)"
| "DigestItem_Encode (DigestItem_IsChangesTrieRoot x) = seqM (PushByte 2) (Encode_array x)"
| "DigestItem_Encode (DigestItem_IsConsensus x) = seqM (PushByte 4) (Consensus_Encode x)"
| "DigestItem_Encode (DigestItem_IsSeal x) = seqM (PushByte 5) (Seal_Encode x)"
| "DigestItem_Encode (DigestItem_IsPreRuntime x) = seqM (PushByte 6) (PreRuntime_Encode x)"
| "DigestItem_Encode (DigestItem_IsChangesTrieSignal x) = seqM (PushByte 7) (ChangesTrieSignal_Encode x)"
| "DigestItem_Encode DigestItem_Zero = retM ()"

definition DigestItem_Decode :: "(bytes, DigestItem) goM" where
  "DigestItem_Decode =
     bindM ReadOneByte (\<lambda>b.
       if b = 2 then bindM (Decode_array 32) (\<lambda>x. retM (DigestItem_IsChangesTrieRoot x))
       else if b = 6 then bindM PreRuntime_Decode (\<lambda>x. retM (DigestItem_IsPreRuntime x))
       else if b = 4 then bindM Consensus_Decode (\<lambda>x. retM (DigestItem_IsConsensus x))
       else if b = 5 then bindM Seal_Decode (\<lambda>x. retM (DigestItem_IsSeal x))
       else if b = 7 then bindM ChangesTrieSignal_Decode (\<lambda>x. retM (DigestItem_IsChangesTrieSignal x))
       else if b = 0 then bindM (Decode_slice Decode_byte) (\<lambda>x. retM (DigestItem_IsOther x))
       else retM DigestItem_Zero)"

definition DigestItem_ok :: "DigestItem \<Rightarrow> bool" where
  "DigestItem_ok v =
     (case v of DigestItem_Zero \<Rightarrow> False
      | DigestItem_IsChangesTrieRoot x \<Rightarrow> length x = 32
      | DigestItem_IsPreRuntime x \<Rightarrow> PreRuntime_ok x
      | DigestItem_IsConsensus x \<Rightarrow> Consensus_ok x
      | DigestItem_IsSeal x \<Rightarrow> Seal_ok x
      | DigestItem_IsChangesTrieSignal x \<Rightarrow> ChangesTrieSignal_ok x
      | DigestItem_IsOther x \<Rightarrow> slice_ok (\<lambda>_. True) x)"

interpretation digestItem: chain_codec DigestItem_Encode DigestItem_Decode DigestItem_ok
proof
  fix v
  assume "DigestItem_ok v"
  then show "rt (DigestItem_Encode v) DigestItem_Decode v"
    unfolding DigestItem_Decode_def DigestItem_ok_def
    by (cases v; simp only: DigestItem_Encode.simps DigestItem.case; (elim conjE)?)
      (rule codec_rules codec_steps codec_laws rt_done | (simp del: retM_apply; fail))+
qed (unfold DigestItem_Decode_def, intro consuming_rules)

text \<open>
  The JSON form of a digest is an object with the items as hex strings; the strings between
  \<open>encoding/json\<close> and the codec are modelled.
\<close>

fun Digest_UnmarshalJSON :: "string list \<Rightarrow> DigestItem list res" where
  "Digest_UnmarshalJSON [] = Ok []"
| "Digest_UnmarshalJSON (log # logs) =
     bindR (DecodeFromHex log DigestItem_Decode) (\<lambda>d. bindR (Digest_UnmarshalJSON logs) (\<lambda>ds. Ok (d # ds)))"

fun Digest_MarshalJSON :: "DigestItem list \<Rightarrow> string list res" where
  "Digest_MarshalJSON [] = Ok []"
| "Digest_MarshalJSON (di # d) =
     bindR (EncodeToHex (DigestItem_Encode di)) (\<lambda>log. bindR (Digest_MarshalJSON d) (\<lambda>logs. Ok (log # logs)))"

text \<open>\<open>DigestOf\<close> is declared a second time over the same items, with the same methods.\<close>

definition DigestOf_UnmarshalJSON :: "string list \<Rightarrow> DigestItem list res" where
  "DigestOf_UnmarshalJSON = Digest_UnmarshalJSON"

definition DigestOf_MarshalJSON :: "DigestItem list \<Rightarrow> string list res" where
  "DigestOf_MarshalJSON = Digest_MarshalJSON"

lemma digest_json_roundtrip:
  "list_all DigestItem_ok d \<Longrightarrow> \<exists>logs. Digest_MarshalJSON d = Ok logs \<and> Digest_UnmarshalJSON logs = Ok d"
proof (induction d)
  case (Cons di d)
  then obtain log logs where
    "EncodeToHex (DigestItem_Encode di) = Ok log" "DecodeFromHex log DigestItem_Decode = Ok di"
    "Digest_MarshalJSON d = Ok logs" "Digest_UnmarshalJSON logs = Ok d"
    using tail_codec.hex_codec [OF digestItem.tail_codec_axioms, of di] by auto
  then show ?case by simp
qed simp

record Header =
  Header_ParentHash :: bytes
  Header_Number :: uint32
  Header_StateRoot :: bytes
  Header_ExtrinsicsRoot :: bytes
  Header_Digest :: "DigestItem list"

definition Header_Encode :: "Header \<Rightarrow> (bytes, unit) goM" where
  "Header_Encode v =
     seqM (fieldE (Encode_array (Header_ParentHash v)))
    (seqM (fieldE (BlockNumber_Encode (Header_Number v)))
    (seqM (fieldE (Encode_array (Header_StateRoot v)))
    (seqM (fieldE (Encode_array (Header_ExtrinsicsRoot v)))
    (fieldE (Encode_slice DigestItem_Encode (Header_Digest v))))))"

definition Header_Decode :: "(bytes, Header) goM" where
  "Header_Decode =
     bindM (fieldD (Decode_array 32)) (\<lambda>x.
     bindM (fieldD BlockNumber_Decode) (\<lambda>y.
     bindM (fieldD (Decode_array 32)) (\<lambda>z.
     bindM (fieldD (Decode_array 32)) (\<lambda>u.
     bindM (fieldD (Decode_slice DigestItem_Decode)) (\<lambda>w.
       retM \<lparr>Header_ParentHash = x, Header_Number = y, Header_StateRoot = z, Header_ExtrinsicsRoot = u, Header_Digest = w\<rparr>)))))"

definition Header_ok :: "Header \<Rightarrow> bool" where
  "Header_ok v \<longleftrightarrow> length (Header_ParentHash v) = 32 \<and> length (Header_StateRoot v) = 32 \<and>
     length (Header_ExtrinsicsRoot v) = 32 \<and> slice_ok DigestItem_ok (Header_Digest v)"

interpretation header: chain_codec Header_Encode Header_Decode Header_ok
proof
  fix v
  assume "Header_ok v"
  then show "rt (Header_Encode v) Header_Decode v"
    unfolding Header_Encode_def Header_Decode_def Header_ok_def
    by (cases v; (elim conjE)?)
      (rule codec_rules codec_steps codec_laws rt_done | (simp del: retM_apply; fail))+
qed (unfold Header_Decode_def, intro consuming_rules)

section \<open>Moments\<close>

text \<open>
  A point in time is the number of nanoseconds since 1970: \<open>time.Unix\<close> carries nanoseconds beyond a
  second over to the seconds, \<open>UnixNano\<close> is an \<open>int64\<close> that wraps around, and its division truncates
  towards zero.
\<close>

definition Time_Unix :: "int \<Rightarrow> int \<Rightarrow> int" where
  "Time_Unix sec nsec = sec * 10 ^ 9 + nsec"

definition Time_UnixNano :: "int \<Rightarrow> int" where
  "Time_UnixNano t = sint (word_of_int t :: uint64)"

definition Moment_Decode :: "(bytes, int) goM" where
  "Moment_Decode =
     bindM (Decode_word Uint64) (\<lambda>u :: uint64.
       if u > 2 ^ 63 - 1 then failM (ErrorString ''cannot decode a uint64 into a Moment if it overflows int64'')
       else
         (let secs = u div 1000; nanos = (u mod 1000) * 10 ^ 9 in
          retM (Time_Unix (sint secs) (sint nanos))))"

definition Moment_Encode :: "int \<Rightarrow> (bytes, unit) goM" where
  "Moment_Encode m =
     (let millis = sgn (Time_UnixNano m) * (\<bar>Time_UnixNano m\<bar> div 10 ^ 6) in
      Encode_word Uint64 (word_of_int millis :: uint64))"

lemma sint_in_range: "0 \<le> i \<Longrightarrow> i < 2 ^ 63 \<Longrightarrow> sint (word_of_int i :: uint64) = i"
  by (simp add: signed_take_bit_int_eq_self sint_sbintrunc')

lemma Moment_Encode_millis:
  assumes "0 \<le> t" "t < 2 ^ 63"
  shows "Moment_Encode t = Encode_word Uint64 (word_of_int (t div 10 ^ 6) :: uint64)"
  using assms sint_in_range [OF assms] by (cases "t = 0") (simp_all add: Moment_Encode_def Let_def Time_UnixNano_def)

text \<open>The milliseconds within a second count as seconds.\<close>

lemma Moment_Decode_seconds:
  assumes "0 \<le> i" "i < 2 ^ 63"
  shows "reads Moment_Decode (le_fixed 8 (nat i)) ((i div 1000 + i mod 1000) * 10 ^ 9)"
proof -
  define u where "u = (word_of_int i :: uint64)"
  have u: "uint u = i" using assms by (simp add: u_def uint_word_of_int_eq take_bit_int_eq_self)
  have div: "u div 1000 = word_of_int (i div 1000)" "(u mod 1000) * 10 ^ 9 = word_of_int ((i mod 1000) * 10 ^ 9)"
    by (simp_all add: word_div_def word_mod_def u)
  have s: "sint (u div 1000) = i div 1000" "sint ((u mod 1000) * 10 ^ 9) = i mod 1000 * 10 ^ 9"
    unfolding div by (rule sint_in_range; use assms pos_mod_bound [of 1000 i] in simp)+
  have le: "\<not> u > 2 ^ 63 - 1" using u assms(2) by (simp add: word_less_alt)
  have "reads (Decode_word Uint64) (le_fixed 8 (unat u)) u"
    using u64.reads_written [of u "le_fixed 8 (unat u)"] by (simp add: Encode_word_def writes_binary_Write)
  moreover have "unat u = nat i" using u nat_uint_eq [of u] by simp
  ultimately have "reads (Decode_word Uint64) (le_fixed 8 (nat i)) u" by simp
  then show ?thesis
    unfolding Moment_Decode_def
    by (rule reads_bindM_last) (use le s in \<open>simp add: Let_def Time_Unix_def algebra_simps\<close>)
qed

text \<open>
  A moment does not survive its codec: a time of \<open>ms\<close> milliseconds is written as \<open>ms\<close>, but the
  decoder counts the milliseconds within the second as whole seconds. The time that is read back
  is the time that was written exactly if it falls on a full second.\<close>

theorem moment_milliseconds:
  assumes "0 \<le> ms" "ms * 10 ^ 6 < 2 ^ 63"
  shows "\<exists>bs t. writes (Moment_Encode (ms * 10 ^ 6)) bs \<and> reads Moment_Decode bs t \<and>
    t = (ms div 1000 + ms mod 1000) * 10 ^ 9 \<and> (t = ms * 10 ^ 6 \<longleftrightarrow> ms mod 1000 = 0)"
proof -
  have ms: "ms < 2 ^ 63" using assms by simp
  have "writes (Moment_Encode (ms * 10 ^ 6)) (le_fixed 8 (nat ms))"
  proof -
    have "unat (word_of_int ms :: uint64) = nat ms"
      using assms(1) ms by (simp add: unsigned_of_int take_bit_int_eq_self)
    then show ?thesis
      using assms Moment_Encode_millis [of "ms * 10 ^ 6"] writes_binary_Write [of 8 "nat ms"] by (simp add: Encode_word_def)
  qed
  moreover have "(ms div 1000 + ms mod 1000) * 10 ^ 9 = ms * 10 ^ 6 \<longleftrightarrow> ms mod 1000 = 0"
  proof -
    have "ms * 10 ^ 6 = ms div 1000 * 10 ^ 9 + ms mod 1000 * 10 ^ 6"
      using arg_cong [OF div_mult_mod_eq [of ms 1000], of "\<lambda>x. x * 10 ^ 6"] by (simp only: distrib_right mult.assoc) simp
    then show ?thesis by (simp add: distrib_right)
  qed
  ultimately show ?thesis using Moment_Decode_seconds [OF assms(1) ms] by (intro exI conjI) (assumption | rule refl)+
qed

theorem moment_milliseconds_witness:
  "\<exists>bs t. writes (Moment_Encode (1500 * 10 ^ 6)) bs \<and> reads Moment_Decode bs t \<and> t = 501 * 10 ^ 9"
  using moment_milliseconds [of 1500] by auto

section \<open>Status, versions and properties\<close>

datatype ExtrinsicStatus =
    ExtrinsicStatus_Zero
  | ExtrinsicStatus_IsFuture
  | ExtrinsicStatus_IsReady
  | ExtrinsicStatus_IsBroadcast "string list"
  | ExtrinsicStatus_IsInBlock bytes
  | ExtrinsicStatus_IsRetracted bytes
  | ExtrinsicStatus_IsFinalityTimeout bytes
  | ExtrinsicStatus_IsFinalized bytes
  | ExtrinsicStatus_IsUsurped bytes
  | ExtrinsicStatus_IsDropped
  | ExtrinsicStatus_IsInvalid

primrec ExtrinsicStatus_Encode :: "ExtrinsicStatus \<Rightarrow> (bytes, unit) goM" where
  "ExtrinsicStatus_Encode ExtrinsicStatus_IsFuture = PushByte 0"
| "ExtrinsicStatus_Encode ExtrinsicStatus_IsReady = PushByte 1"
| "ExtrinsicStatus_Encode (ExtrinsicStatus_IsBroadcast x) = seqM (PushByte 2) (Encode_slice Text_Encode x)"
| "ExtrinsicStatus_Encode (ExtrinsicStatus_IsInBlock x) = seqM (PushByte 3) (Encode_array x)"
| "ExtrinsicStatus_Encode (ExtrinsicStatus_IsRetracted x) = seqM (PushByte 4) (Encode_array x)"
| "ExtrinsicStatus_Encode (ExtrinsicStatus_IsFinalityTimeout x) = seqM (PushByte 5) (Encode_array x)"
| "ExtrinsicStatus_Encode (ExtrinsicStatus_IsFinalized x) = seqM (PushByte 6) (Encode_array x)"
| "ExtrinsicStatus_Encode (ExtrinsicStatus_IsUsurped x) = seqM (PushByte 7) (Encode_array x)"
| "ExtrinsicStatus_Encode ExtrinsicStatus_IsDropped = PushByte 8"
| "ExtrinsicStatus_Encode ExtrinsicStatus_IsInvalid = PushByte 9"
| "ExtrinsicStatus_Encode ExtrinsicStatus_Zero = retM ()"

definition ExtrinsicStatus_Decode :: "(bytes, ExtrinsicStatus) goM" where
  "ExtrinsicStatus_Decode =
     bindM ReadOneByte (\<lambda>b.
       if b = 0 then retM ExtrinsicStatus_IsFuture
       else if b = 1 then retM ExtrinsicStatus_IsReady
       else if b = 2 then bindM (Decode_slice Text_Decode) (\<lambda>x. retM (ExtrinsicStatus_IsBroadcast x))
       else if b = 3 then bindM (Decode_array 32) (\<lambda>x. retM (ExtrinsicStatus_IsInBlock x))
       else if b = 4 then bindM (Decode_array 32) (\<lambda>x. retM (ExtrinsicStatus_IsRetracted x))
       else if b = 5 then bindM (Decode_array 32) (\<lambda>x. retM (ExtrinsicStatus_IsFinalityTimeout x))
       else if b = 6 then bindM (Decode_array 32) (\<lambda>x. retM (ExtrinsicStatus_IsFinalized x))
       else if b = 7 then bindM (Decode_array 32) (\<lambda>x. retM (ExtrinsicStatus_IsUsurped x))
       else if b = 8 then retM ExtrinsicStatus_IsDropped
       else if b = 9 then retM ExtrinsicStatus_IsInvalid
       else retM ExtrinsicStatus_Zero)"

definition ExtrinsicStatus_ok :: "ExtrinsicStatus \<Rightarrow> bool" where
  "ExtrinsicStatus_ok v =
     (case v of ExtrinsicStatus_Zero \<Rightarrow> False
      | ExtrinsicStatus_IsBroadcast x \<Rightarrow> slice_ok text_ok x
      | ExtrinsicStatus_IsInBlock x \<Rightarrow> length x = 32
      | ExtrinsicStatus_IsRetracted x \<Rightarrow> length x = 32
      | ExtrinsicStatus_IsFinalityTimeout x \<Rightarrow> length x = 32
      | ExtrinsicStatus_IsFinalized x \<Rightarrow> length x = 32
      | ExtrinsicStatus_IsUsurped x \<Rightarrow> length x = 32
      | _ \<Rightarrow> True)"

interpretation extrinsicStatus: chain_codec ExtrinsicStatus_Encode ExtrinsicStatus_Decode ExtrinsicStatus_ok
proof
  fix v
  assume "ExtrinsicStatus_ok v"
  then show "rt (ExtrinsicStatus_Encode v) ExtrinsicStatus_Decode v"
    unfolding ExtrinsicStatus_Decode_def ExtrinsicStatus_ok_def
    by (cases v; simp only: ExtrinsicStatus_Encode.simps ExtrinsicStatus.case; (elim conjE)?)
      (rule codec_rules codec_steps codec_laws rt_done | (simp del: retM_apply; fail))+
qed (unfold ExtrinsicStatus_Decode_def, intro consuming_rules)

record RuntimeVersionAPI =
  RuntimeVersionAPI_APIID :: string
  RuntimeVersionAPI_Version :: uint32

definition RuntimeVersionAPI_Encode :: "RuntimeVersionAPI \<Rightarrow> (bytes, unit) goM" where
  "RuntimeVersionAPI_Encode v =
     seqM (Text_Encode (RuntimeVersionAPI_APIID v))
    (Encode_word Uint32 (RuntimeVersionAPI_Version v))"

definition RuntimeVersionAPI_Decode :: "(bytes, RuntimeVersionAPI) goM" where
  "RuntimeVersionAPI_Decode =
     bindM Text_Decode (\<lambda>x.
     bindM (Decode_word Uint32) (\<lambda>y.
       retM \<lparr>RuntimeVersionAPI_APIID = x, RuntimeVersionAPI_Version = y\<rparr>))"

definition RuntimeVersionAPI_ok :: "RuntimeVersionAPI \<Rightarrow> bool" where
  "RuntimeVersionAPI_ok v \<longleftrightarrow> text_ok (RuntimeVersionAPI_APIID v)"

interpretation runtimeVersionAPI: chain_codec RuntimeVersionAPI_Encode RuntimeVersionAPI_Decode RuntimeVersionAPI_ok
proof
  fix v
  assume "RuntimeVersionAPI_ok v"
  then show "rt (RuntimeVersionAPI_Encode v) RuntimeVersionAPI_Decode v"
    unfolding RuntimeVersionAPI_Encode_def RuntimeVersionAPI_Decode_def RuntimeVersionAPI_ok_def
    by (cases v; (elim conjE)?)
      (rule codec_rules codec_steps codec_laws rt_done | (simp del: retM_apply; fail))+
qed (unfold RuntimeVersionAPI_Decode_def, intro consuming_rules)

record RuntimeVersion =
  RuntimeVersion_APIs :: "RuntimeVersionAPI list"
  RuntimeVersion_AuthoringVersion :: uint32
  RuntimeVersion_ImplName :: string
  RuntimeVersion_ImplVersion :: uint32
  RuntimeVersion_SpecName :: string
  RuntimeVersion_SpecVersion :: uint32
  RuntimeVersion_TransactionVersion :: uint32

definition RuntimeVersion_Encode :: "RuntimeVersion \<Rightarrow> (bytes, unit) goM" where
  "RuntimeVersion_Encode v =
     seqM (Encode_slice RuntimeVersionAPI_Encode (RuntimeVersion_APIs v))
    (seqM (Encode_word Uint32 (RuntimeVersion_AuthoringVersion v))
    (seqM (Text_Encode (RuntimeVersion_ImplName v))
    (seqM (Encode_word Uint32 (RuntimeVersion_ImplVersion v))
    (seqM (Text_Encode (RuntimeVersion_SpecName v))
    (Encode_word Uint32 (RuntimeVersion_SpecVersion v))))))"

definition RuntimeVersion_Decode :: "(bytes, RuntimeVersion) goM" where
  "RuntimeVersion_Decode =
     bindM (Decode_slice RuntimeVersionAPI_Decode) (\<lambda>x0.
     bindM (Decode_word Uint32) (\<lambda>x1.
     bindM Text_Decode (\<lambda>x2.
     bindM (Decode_word Uint32) (\<lambda>x3.
     bindM Text_Decode (\<lambda>x4.
     bindM (Decode_word Uint32) (\<lambda>x5.
       retM \<lparr>RuntimeVersion_APIs = x0, RuntimeVersion_AuthoringVersion = x1, RuntimeVersion_ImplName = x2,
         RuntimeVersion_ImplVersion = x3, RuntimeVersion_SpecName = x4, RuntimeVersion_SpecVersion = x5,
         RuntimeVersion_TransactionVersion = 0\<rparr>))))))"

definition RuntimeVersion_ok :: "RuntimeVersion \<Rightarrow> bool" where
  "RuntimeVersion_ok v \<longleftrightarrow> slice_ok RuntimeVersionAPI_ok (RuntimeVersion_APIs v) \<and> text_ok (RuntimeVersion_ImplName v) \<and>
     text_ok (RuntimeVersion_SpecName v) \<and> RuntimeVersion_TransactionVersion v = 0"

interpretation runtimeVersion: chain_codec RuntimeVersion_Encode RuntimeVersion_Decode RuntimeVersion_ok
proof
  fix v
  assume "RuntimeVersion_ok v"
  then show "rt (RuntimeVersion_Encode v) RuntimeVersion_Decode v"
    unfolding RuntimeVersion_Encode_def RuntimeVersion_Decode_def RuntimeVersion_ok_def
    by (cases v; (elim conjE)?)
      (rule codec_rules codec_steps codec_laws rt_done | (simp del: retM_apply; fail))+
qed (unfold RuntimeVersion_Decode_def, intro consuming_rules)

text \<open>Every property is a flag next to a value, encoded as an option.\<close>

record ChainProperties =
  ChainProperties_SS58Format :: "bool \<times> byte"
  ChainProperties_TokenDecimals :: "bool \<times> uint32"
  ChainProperties_TokenSymbol :: "bool \<times> string"

definition ChainProperties_Encode :: "ChainProperties \<Rightarrow> (bytes, unit) goM" where
  "ChainProperties_Encode v =
     seqM (EncodeOpt Encode_byte (ChainProperties_SS58Format v))
    (seqM (EncodeOpt (Encode_word Uint32) (ChainProperties_TokenDecimals v))
    (EncodeOpt Text_Encode (ChainProperties_TokenSymbol v)))"

definition ChainProperties_Decode :: "(bytes, ChainProperties) goM" where
  "ChainProperties_Decode =
     bindM (DecodeOption Decode_byte 0) (\<lambda>x.
     bindM (DecodeOption (Decode_word Uint32) 0) (\<lambda>y.
     bindM (DecodeOption Text_Decode []) (\<lambda>z.
       retM \<lparr>ChainProperties_SS58Format = x, ChainProperties_TokenDecimals = y, ChainProperties_TokenSymbol = z\<rparr>)))"

definition ChainProperties_ok :: "ChainProperties \<Rightarrow> bool" where
  "ChainProperties_ok v \<longleftrightarrow> opt_ok (\<lambda>_. True) 0 (ChainProperties_SS58Format v) \<and>
     opt_ok (\<lambda>_. True) 0 (ChainProperties_TokenDecimals v) \<and> opt_ok text_ok [] (ChainProperties_TokenSymbol v)"

interpretation chainProperties: chain_codec ChainProperties_Encode ChainProperties_Decode ChainProperties_ok
proof
  fix v
  assume "ChainProperties_ok v"
  then show "rt (ChainProperties_Encode v) ChainProperties_Decode v"
    unfolding ChainProperties_Encode_def ChainProperties_Decode_def ChainProperties_ok_def
    by (cases v; (elim conjE)?)
      (rule codec_rules codec_steps codec_laws rt_done | (simp del: retM_apply; fail))+
qed (unfold ChainProperties_Decode_def, intro consuming_rules)

text \<open>
  The codec of a runtime version drops the transaction version: versions that differ in it are
  written as the same bytes, and reading them back gives transaction version zero, so a runtime
  version with any other transaction version does not survive.\<close>

theorem runtime_version_drops_transaction_version:
  assumes "slice_ok RuntimeVersionAPI_ok (RuntimeVersion_APIs v)" "text_ok (RuntimeVersion_ImplName v)" "text_ok (RuntimeVersion_SpecName v)"
  shows "RuntimeVersion_Encode (v\<lparr>RuntimeVersion_TransactionVersion := n\<rparr>) = RuntimeVersion_Encode v \<and>
    rt (RuntimeVersion_Encode v) RuntimeVersion_Decode (v\<lparr>RuntimeVersion_TransactionVersion := 0\<rparr>)"
proof
  show same: "RuntimeVersion_Encode (v\<lparr>RuntimeVersion_TransactionVersion := n\<rparr>) = RuntimeVersion_Encode v" for n
    by (simp add: RuntimeVersion_Encode_def)
  have "RuntimeVersion_ok (v\<lparr>RuntimeVersion_TransactionVersion := 0\<rparr>)" using assms by (simp add: RuntimeVersion_ok_def)
  from runtimeVersion.roundtrip [OF this]
  show "rt (RuntimeVersion_Encode v) RuntimeVersion_Decode (v\<lparr>RuntimeVersion_TransactionVersion := 0\<rparr>)"
    by (simp only: same)
qed

definition sample_version :: RuntimeVersion where
  "sample_version = \<lparr>RuntimeVersion_APIs = [], RuntimeVersion_AuthoringVersion = 1, RuntimeVersion_ImplName = ''node'',
     RuntimeVersion_ImplVersion = 2, RuntimeVersion_SpecName = ''node'', RuntimeVersion_SpecVersion = 3,
     RuntimeVersion_TransactionVersion = 4\<rparr>"

theorem runtime_version_drops_transaction_version_witness:
  "rt (RuntimeVersion_Encode sample_version) RuntimeVersion_Decode (sample_version\<lparr>RuntimeVersion_TransactionVersion := 0\<rparr>)"
  using runtime_version_drops_transaction_version [of sample_version] by (simp add: sample_version_def slice_ok_def text_ok_def)

section \<open>Proofs of the Merkle mountain range\<close>

record ParentNumberAndHash =
  ParentNumberAndHash_ParentNumber :: uint32
  ParentNumberAndHash_Hash :: bytes

definition ParentNumberAndHash_Encode :: "ParentNumberAndHash \<Rightarrow> (bytes, unit) goM" where
  "ParentNumberAndHash_Encode v =
     seqM (fieldE (Encode_word Uint32 (ParentNumberAndHash_ParentNumber v)))
    (fieldE (Encode_array (ParentNumberAndHash_Hash v)))"

definition ParentNumberAndHash_Decode :: "(bytes, ParentNumberAndHash) goM" where
  "ParentNumberAndHash_Decode =
     bindM (fieldD (Decode_word Uint32)) (\<lambda>x.
     bindM (fieldD (Decode_array 32)) (\<lambda>y.
       retM \<lparr>ParentNumberAndHash_ParentNumber = x, ParentNumberAndHash_Hash = y\<rparr>))"

definition ParentNumberAndHash_ok :: "ParentNumberAndHash \<Rightarrow> bool" where
  "ParentNumberAndHash_ok v \<longleftrightarrow> length (ParentNumberAndHash_Hash v) = 32"

interpretation parentNumberAndHash: chain_codec ParentNumberAndHash_Encode ParentNumberAndHash_Decode ParentNumberAndHash_ok
proof
  fix v
  assume "ParentNumberAndHash_ok v"
  then show "rt (ParentNumberAndHash_Encode v) ParentNumberAndHash_Decode v"
    unfolding ParentNumberAndHash_Encode_def ParentNumberAndHash_Decode_def ParentNumberAndHash_ok_def
    by (cases v; (elim conjE)?)
      (rule codec_rules codec_steps codec_laws rt_done | (simp del: retM_apply; fail))+
qed (unfold ParentNumberAndHash_Decode_def, intro consuming_rules)

record BeefyNextAuthoritySet =
  BeefyNextAuthoritySet_ID :: uint64
  BeefyNextAuthoritySet_Len :: uint32
  BeefyNextAuthoritySet_Root :: bytes

definition BeefyNextAuthoritySet_Encode :: "BeefyNextAuthoritySet \<Rightarrow> (bytes, unit) goM" where
  "BeefyNextAuthoritySet_Encode v =
     seqM (fieldE (Encode_word Uint64 (BeefyNextAuthoritySet_ID v)))
    (seqM (fieldE (Encode_word Uint32 (BeefyNextAuthoritySet_Len v)))
    (fieldE (Encode_array (BeefyNextAuthoritySet_Root v))))"

definition BeefyNextAuthoritySet_Decode :: "(bytes, BeefyNextAuthoritySet) goM" where
  "BeefyNextAuthoritySet_Decode =
     bindM (fieldD (Decode_word Uint64)) (\<lambda>x.
     bindM (fieldD (Decode_word Uint32)) (\<lambda>y.
     bindM (fieldD (Decode_array 32)) (\<lambda>z.
       retM \<lparr>BeefyNextAuthoritySet_ID = x, BeefyNextAuthoritySet_Len = y, BeefyNextAuthoritySet_Root = z\<rparr>)))"

definition BeefyNextAuthoritySet_ok :: "BeefyNextAuthoritySet \<Rightarrow> bool" where
  "BeefyNextAuthoritySet_ok v \<longleftrightarrow> length (BeefyNextAuthoritySet_Root v) = 32"

interpretation beefyNextAuthoritySet: chain_codec BeefyNextAuthoritySet_Encode BeefyNextAuthoritySet_Decode BeefyNextAuthoritySet_ok
proof
  fix v
  assume "BeefyNextAuthoritySet_ok v"
  then show "rt (BeefyNextAuthoritySet_Encode v) BeefyNextAuthoritySet_Decode v"
    unfolding BeefyNextAuthoritySet_Encode_def BeefyNextAuthoritySet_Decode_def BeefyNextAuthoritySet_ok_def
    by (cases v; (elim conjE)?)
      (rule codec_rules codec_steps codec_laws rt_done | (simp del: retM_apply; fail))+
qed (unfold BeefyNextAuthoritySet_Decode_def, intro consuming_rules)

record MMRLeaf =
  MMRLeaf_Version :: byte
  MMRLeaf_ParentNumberAndHash :: ParentNumberAndHash
  MMRLeaf_BeefyNextAuthoritySet :: BeefyNextAuthoritySet
  MMRLeaf_ParachainHeads :: bytes

definition MMRLeaf_Encode :: "MMRLeaf \<Rightarrow> (bytes, unit) goM" where
  "MMRLeaf_Encode v =
     seqM (fieldE (Encode_byte (MMRLeaf_Version v)))
    (seqM (fieldE (ParentNumberAndHash_Encode (MMRLeaf_ParentNumberAndHash v)))
    (seqM (fieldE (BeefyNextAuthoritySet_Encode (MMRLeaf_BeefyNextAuthoritySet v)))
    (fieldE (Encode_array (MMRLeaf_ParachainHeads v)))))"

definition MMRLeaf_Decode :: "(bytes, MMRLeaf) goM" where
  "MMRLeaf_Decode =
     bindM (fieldD Decode_byte) (\<lambda>x.
     bindM (fieldD ParentNumberAndHash_Decode) (\<lambda>y.
     bindM (fieldD BeefyNextAuthoritySet_Decode) (\<lambda>z.
     bindM (fieldD (Decode_array 32)) (\<lambda>u.
       retM \<lparr>MMRLeaf_Version = x, MMRLeaf_ParentNumberAndHash = y, MMRLeaf_BeefyNextAuthoritySet = z,
         MMRLeaf_ParachainHeads = u\<rparr>))))"

definition MMRLeaf_ok :: "MMRLeaf \<Rightarrow> bool" where
  "MMRLeaf_ok v \<longleftrightarrow> ParentNumberAndHash_ok (MMRLeaf_ParentNumberAndHash v) \<and>
     BeefyNextAuthoritySet_ok (MMRLeaf_BeefyNextAuthoritySet v) \<and> length (MMRLeaf_ParachainHeads v) = 32"

interpretation mMRLeaf: chain_codec MMRLeaf_Encode MMRLeaf_Decode MMRLeaf_ok
proof
  fix v
  assume "MMRLeaf_ok v"
  then show "rt (MMRLeaf_Encode v) MMRLeaf_Decode v"
    unfolding MMRLeaf_Encode_def MMRLeaf_Decode_def MMRLeaf_ok_def
    by (cases v; (elim conjE)?)
      (rule codec_rules codec_steps codec_laws rt_done | (simp del: retM_apply; fail))+
qed (unfold MMRLeaf_Decode_def, intro consuming_rules)

record MMRProof =
  MMRProof_LeafIndex :: uint64
  MMRProof_LeafCount :: uint64
  MMRProof_Items :: "bytes list"

definition MMRProof_Encode :: "MMRProof \<Rightarrow> (bytes, unit) goM" where
  "MMRProof_Encode v =
     seqM (fieldE (Encode_word Uint64 (MMRProof_LeafIndex v)))
    (seqM (fieldE (Encode_word Uint64 (MMRProof_LeafCount v)))
    (fieldE (Encode_slice Encode_array (MMRProof_Items v))))"

definition MMRProof_Decode :: "(bytes, MMRProof) goM" where
  "MMRProof_Decode =
     bindM (fieldD (Decode_word Uint64)) (\<lambda>x.
     bindM (fieldD (Decode_word Uint64)) (\<lambda>y.
     bindM (fieldD (Decode_slice (Decode_array 32))) (\<lambda>z.
       retM \<lparr>MMRProof_LeafIndex = x, MMRProof_LeafCount = y, MMRProof_Items = z\<rparr>)))"

definition MMRProof_ok :: "MMRProof \<Rightarrow> bool" where
  "MMRProof_ok v \<longleftrightarrow> slice_ok (\<lambda>x. length x = 32) (MMRProof_Items v)"

interpretation mMRProof: chain_codec MMRProof_Encode MMRProof_Decode MMRProof_ok
proof
  fix v
  assume "MMRProof_ok v"
  then show "rt (MMRProof_Encode v) MMRProof_Decode v"
    unfolding MMRProof_Encode_def MMRProof_Decode_def MMRProof_ok_def
    by (cases v; (elim conjE)?)
      (rule codec_rules codec_steps codec_laws rt_done | (simp del: retM_apply; fail))+
qed (unfold MMRProof_Decode_def, intro consuming_rules)

text \<open>
  \<open>UnmarshalJSON\<close> from the three strings of the JSON object on: the leaf is a byte slice that
  holds the encoded leaf.
\<close>

record GenerateMMRProofResponse =
  mmrBlockHash :: bytes
  mmrLeaf :: MMRLeaf
  mmrProof :: MMRProof

definition GenerateMMRProofResponse_UnmarshalJSON :: "string \<Rightarrow> string \<Rightarrow> string \<Rightarrow> GenerateMMRProofResponse res" where
  "GenerateMMRProofResponse_UnmarshalJSON blockHash leaf proof =
     bindR (DecodeFromHex blockHash (Decode_array 32)) (\<lambda>h.
     bindR (DecodeFromHex leaf (Decode_slice Decode_byte)) (\<lambda>encodedLeaf.
     bindR (codec_Decode encodedLeaf MMRLeaf_Decode) (\<lambda>l.
     bindR (DecodeFromHex proof MMRProof_Decode) (\<lambda>p.
       Ok \<lparr>mmrBlockHash = h, mmrLeaf = l, mmrProof = p\<rparr>))))"

end
