(* ===== verification/Beefy.thy ===== *)
theory Beefy
  imports BlockTypes
begin

text \<open>
  Commitments of the BEEFY protocol: \<open>src/types/beefy.go\<close>. A signed commitment has an optional
  signature per validator. On the wire the presence flags are packed into bytes, highest bit
  first, next to the number of validators and the signatures that are present.
\<close>

section \<open>Commitments\<close>

record PayloadItem =
  PayloadItem_ID :: bytes
  PayloadItem_Data :: bytes

definition PayloadItem_Encode :: "PayloadItem \<Rightarrow> (bytes, unit) goM" where
  "PayloadItem_Encode v =
     seqM (fieldE (Encode_array (PayloadItem_ID v)))
    (fieldE (Encode_slice Encode_byte (PayloadItem_Data v)))"

definition PayloadItem_Decode :: "(bytes, PayloadItem) goM" where
  "PayloadItem_Decode =
     bindM (fieldD (Decode_array 2)) (\<lambda>x.
     bindM (fieldD (Decode_slice Decode_byte)) (\<lambda>y.
       retM \<lparr>PayloadItem_ID = x, PayloadItem_Data = y\<rparr>))"

definition PayloadItem_ok :: "PayloadItem \<Rightarrow> bool" where
  "PayloadItem_ok v \<longleftrightarrow> length (PayloadItem_ID v) = 2 \<and> slice_ok (\<lambda>_. True) (PayloadItem_Data v)"

interpretation payloadItem: chain_codec PayloadItem_Encode PayloadItem_Decode PayloadItem_ok
proof
  fix v
  assume "PayloadItem_ok v"
  then show "rt (PayloadItem_Encode v) PayloadItem_Decode v"
    unfolding PayloadItem_Encode_def PayloadItem_Decode_def PayloadItem_ok_def
    by (cases v; (elim conjE)?)
      (rule codec_rules codec_steps codec_laws rt_done | (simp del: retM_apply; fail))+
qed (unfold PayloadItem_Decode_def, intro consuming_rules)

record Commitment =
  Commitment_Payload :: "PayloadItem list"
  Commitment_BlockNumber :: uint32
  Commitment_ValidatorSetID :: uint64

definition Commitment_Encode :: "Commitment \<Rightarrow> (bytes, unit) goM" where
  "Commitment_Encode v =
     seqM (fieldE (Encode_slice PayloadItem_Encode (Commitment_Payload v)))
    (seqM (fieldE (Encode_word Uint32 (Commitment_BlockNumber v)))
    (fieldE (Encode_word Uint64 (Commitment_ValidatorSetID v))))"

definition Commitment_Decode :: "(bytes, Commitment) goM" where
  "Commitment_Decode =
     bindM (fieldD (Decode_slice PayloadItem_Decode)) (\<lambda>x.
     bindM (fieldD (Decode_word Uint32)) (\<lambda>y.
     bindM (fieldD (Decode_word Uint64)) (\<lambda>z.
       retM \<lparr>Commitment_Payload = x, Commitment_BlockNumber = y, Commitment_ValidatorSetID = z\<rparr>)))"

definition Commitment_ok :: "Commitment \<Rightarrow> bool" where
  "Commitment_ok v \<longleftrightarrow> slice_ok PayloadItem_ok (Commitment_Payload v)"

interpretation commitment: chain_codec Commitment_Encode Commitment_Decode Commitment_ok
proof
  fix v
  assume "Commitment_ok v"
  then show "rt (Commitment_Encode v) Commitment_Decode v"
    unfolding Commitment_Encode_def Commitment_Decode_def Commitment_ok_def
    by (cases v; (elim conjE)?)
      (rule codec_rules codec_steps codec_laws rt_done | (simp del: retM_apply; fail))+
qed (unfold Commitment_Decode_def, intro consuming_rules)

record CompactSignedCommitment =
  CompactSignedCommitment_Commitment :: Commitment
  CompactSignedCommitment_SignaturesFrom :: bytes
  CompactSignedCommitment_ValidatorSetLen :: uint32
  CompactSignedCommitment_SignaturesCompact :: "bytes list"

definition CompactSignedCommitment_Encode :: "CompactSignedCommitment \<Rightarrow> (bytes, unit) goM" where
  "CompactSignedCommitment_Encode v =
     seqM (fieldE (Commitment_Encode (CompactSignedCommitment_Commitment v)))
    (seqM (fieldE (Encode_slice Encode_byte (CompactSignedCommitment_SignaturesFrom v)))
    (seqM (fieldE (Encode_word Uint32 (CompactSignedCommitment_ValidatorSetLen v)))
    (fieldE (Encode_slice Encode_array (CompactSignedCommitment_SignaturesCompact v)))))"

definition CompactSignedCommitment_Decode :: "(bytes, CompactSignedCommitment) goM" where
  "CompactSignedCommitment_Decode =
     bindM (fieldD Commitment_Decode) (\<lambda>x.
     bindM (fieldD (Decode_slice Decode_byte)) (\<lambda>y.
     bindM (fieldD (Decode_word Uint32)) (\<lambda>z.
     bindM (fieldD (Decode_slice (Decode_array 65))) (\<lambda>u.
       retM \<lparr>CompactSignedCommitment_Commitment = x, CompactSignedCommitment_SignaturesFrom = y,
         CompactSignedCommitment_ValidatorSetLen = z, CompactSignedCommitment_SignaturesCompact = u\<rparr>))))"

definition CompactSignedCommitment_ok :: "CompactSignedCommitment \<Rightarrow> bool" where
  "CompactSignedCommitment_ok v \<longleftrightarrow> Commitment_ok (CompactSignedCommitment_Commitment v) \<and>
     slice_ok (\<lambda>_. True) (CompactSignedCommitment_SignaturesFrom v) \<and>
     slice_ok (\<lambda>x. length x = 65) (CompactSignedCommitment_SignaturesCompact v)"

interpretation compactSignedCommitment: chain_codec CompactSignedCommitment_Encode CompactSignedCommitment_Decode CompactSignedCommitment_ok
proof
  fix v
  assume "CompactSignedCommitment_ok v"
  then show "rt (CompactSignedCommitment_Encode v) CompactSignedCommitment_Decode v"
    unfolding CompactSignedCommitment_Encode_def CompactSignedCommitment_Decode_def CompactSignedCommitment_ok_def
    by (cases v; (elim conjE)?)
      (rule codec_rules codec_steps codec_laws rt_done | (simp del: retM_apply; fail))+
qed (unfold CompactSignedCommitment_Decode_def, intro consuming_rules)

type_synonym beefy_signature = "bool \<times> bytes"

definition OptionBeefySignature_Encode :: "beefy_signature \<Rightarrow> (bytes, unit) goM" where
  "OptionBeefySignature_Encode o' = EncodeOpt Encode_array o'"

definition OptionBeefySignature_Decode :: "(bytes, beefy_signature) goM" where
  "OptionBeefySignature_Decode = DecodeOption (Decode_array 65) (zeros 65)"

record SignedCommitment =
  scCommitment :: Commitment
  scSignatures :: "beefy_signature list"

section \<open>Packing bits\<close>

definition containerBitSize :: nat where
  "containerBitSize = 8"

definition block_bits :: "byte \<Rightarrow> byte list" where
  "block_bits block = map (\<lambda>i. drop_bit (containerBitSize - i - 1) block AND 1) [0..<containerBitSize]"

definition shift_in :: "byte \<Rightarrow> byte \<Rightarrow> byte" where
  "shift_in acc b = push_bit 1 acc OR b"

definition pack_chunk :: "byte list \<Rightarrow> byte" where
  "pack_chunk chunk = foldl (\<lambda>acc i. shift_in acc (chunk ! i)) (chunk ! 0) [1..<containerBitSize]"

text \<open>Chunks of a positive size, the only one the code asks for is \<open>containerBitSize\<close>.\<close>

function makeChunks :: "byte list \<Rightarrow> nat \<Rightarrow> byte list list" where
  "makeChunks xs chunkSize =
     (if xs = [] \<or> chunkSize = 0 then [] else take chunkSize xs # makeChunks (drop chunkSize xs) chunkSize)"
  by pat_completeness auto
termination
  by (relation "measure (\<lambda>(xs, _). length xs)") auto

declare makeChunks.simps [simp del]

section \<open>Encode\<close>

definition signature_bits :: "beefy_signature list \<Rightarrow> byte list" where
  "signature_bits sigs = map (\<lambda>s. if fst s then 1 else 0) sigs"

definition present_signatures :: "beefy_signature list \<Rightarrow> bytes list" where
  "present_signatures sigs = map snd (filter fst sigs)"

definition compact_of :: "SignedCommitment \<Rightarrow> CompactSignedCommitment" where
  "compact_of s =
     (let validatorSetLen = length (scSignatures s);
          excessBitsLen = containerBitSize - validatorSetLen mod containerBitSize;
          bits = signature_bits (scSignatures s) @ replicate excessBitsLen 0 in
      \<lparr>CompactSignedCommitment_Commitment = scCommitment s,
       CompactSignedCommitment_SignaturesFrom = map pack_chunk (makeChunks bits containerBitSize),
       CompactSignedCommitment_ValidatorSetLen = word_of_nat validatorSetLen,
       CompactSignedCommitment_SignaturesCompact = present_signatures (scSignatures s)\<rparr>)"

definition SignedCommitment_Encode :: "SignedCommitment \<Rightarrow> (bytes, unit) goM" where
  "SignedCommitment_Encode s = CompactSignedCommitment_Encode (compact_of s)"

section \<open>Decode\<close>

text \<open>The loop over the bits; a missing signature is an index out of range.\<close>

fun signatures_loop :: "bytes list \<Rightarrow> nat \<Rightarrow> byte list \<Rightarrow> beefy_signature list res" where
  "signatures_loop compact sigIndex [] = Ok []"
| "signatures_loop compact sigIndex (b # bits) =
     (if b = 1 then
        (if sigIndex < length compact then
           bindR (signatures_loop compact (Suc sigIndex) bits) (\<lambda>sigs. Ok ((True, compact ! sigIndex) # sigs))
         else Panic ''index out of range'')
      else bindR (signatures_loop compact sigIndex bits) (\<lambda>sigs. Ok ((False, zeros 65) # sigs)))"

text \<open>
  The slice expression \<open>bits[0:n]\<close> reaches up to the capacity of \<open>bits\<close>, beyond its length it
  shows zeros. \<open>cap k\<close> is the capacity that \<open>k\<close> appends to a nil slice leave, which Go does not
  specify.
\<close>

definition SignedCommitment_Decode :: "(nat \<Rightarrow> nat) \<Rightarrow> (bytes, SignedCommitment) goM" where
  "SignedCommitment_Decode cap =
     bindM CompactSignedCommitment_Decode (\<lambda>compact.
       let bits = concat (map block_bits (CompactSignedCommitment_SignaturesFrom compact));
           n = unat (CompactSignedCommitment_ValidatorSetLen compact) in
       if n > cap (length bits) then panicM ''slice bounds out of range''
       else
         bindM (liftM (signatures_loop (CompactSignedCommitment_SignaturesCompact compact) 0
             (take n (bits @ replicate (cap (length bits) - length bits) 0)))) (\<lambda>signatures.
           retM \<lparr>scCommitment = CompactSignedCommitment_Commitment compact, scSignatures = signatures\<rparr>))"

definition SignedCommitment_UnmarshalText :: "(nat \<Rightarrow> nat) \<Rightarrow> string \<Rightarrow> SignedCommitment res" where
  "SignedCommitment_UnmarshalText cap txt = DecodeFromHex txt (SignedCommitment_Decode cap)"

definition zero_SignedCommitment :: SignedCommitment where
  "zero_SignedCommitment =
     \<lparr>scCommitment = \<lparr>Commitment_Payload = [], Commitment_BlockNumber = 0, Commitment_ValidatorSetID = 0\<rparr>, scSignatures = []\<rparr>"

definition OptionalSignedCommitment_Encode :: "bool \<times> SignedCommitment \<Rightarrow> (bytes, unit) goM" where
  "OptionalSignedCommitment_Encode o' = EncodeOpt SignedCommitment_Encode o'"

definition OptionalSignedCommitment_Decode :: "(nat \<Rightarrow> nat) \<Rightarrow> (bytes, bool \<times> SignedCommitment) goM" where
  "OptionalSignedCommitment_Decode cap = DecodeOption (SignedCommitment_Decode cap) zero_SignedCommitment"

section \<open>Unpacking what was packed\<close>

text \<open>The bit at position \<open>k\<close> of a byte, as the loops extract it.\<close>

lemma bit_shift_in: "bit (shift_in acc b) n \<longleftrightarrow> 0 < n \<and> n < 8 \<and> bit acc (n - 1) \<or> bit b n"
  unfolding shift_in_def by (simp only: bit_or_iff bit_push_bit_iff) auto

lemma shifted_bit:
  assumes "b \<in> {0, 1}"
  shows "shift_in acc b AND 1 = b"
    and "k < 7 \<Longrightarrow> drop_bit (Suc k) (shift_in acc b) AND 1 = drop_bit k acc AND 1"
  using assms by (auto intro!: bit_eqI simp: bit_simps bit_shift_in)

lemma block_bits_pack:
  assumes "set [b0, b1, b2, b3, b4, b5, b6, b7] \<subseteq> {0, 1}"
  shows "block_bits (pack_chunk [b0, b1, b2, b3, b4, b5, b6, b7]) = [b0, b1, b2, b3, b4, b5, b6, b7]"
proof -
  have nats: "7 = Suc 6" "6 = Suc 5" "5 = Suc 4" "4 = Suc 3" "3 = Suc 2" "2 = Suc 1" "1 = Suc 0" by simp_all
  have pack: "pack_chunk [b0, b1, b2, b3, b4, b5, b6, b7] =
      shift_in (shift_in (shift_in (shift_in (shift_in (shift_in (shift_in b0 b1) b2) b3) b4) b5) b6) b7"
    unfolding pack_chunk_def containerBitSize_def by (simp add: upt_rec)
  have unpack: "block_bits x = [drop_bit 7 x AND 1, drop_bit 6 x AND 1, drop_bit 5 x AND 1, drop_bit 4 x AND 1,
      drop_bit 3 x AND 1, drop_bit 2 x AND 1, drop_bit 1 x AND 1, x AND 1]" for x
    unfolding block_bits_def containerBitSize_def by (simp add: upt_rec)
  have "b0 AND 1 = b0" using assms by auto
  then show ?thesis
    using assms unfolding pack unpack nats by (simp add: shifted_bit)
qed

text \<open>Bytes of eight bits, one after the other.\<close>

lemma makeChunks_step: "length c = k \<Longrightarrow> 0 < k \<Longrightarrow> makeChunks (c @ bits) k = c # makeChunks bits k"
  by (subst makeChunks.simps) auto

lemma makeChunks_Nil [simp]: "makeChunks [] k = []"
  by (subst makeChunks.simps) simp

lemma list_of_8:
  assumes "length c = 8"
  obtains b0 b1 b2 b3 b4 b5 b6 b7 where "c = [b0, b1, b2, b3, b4, b5, b6, b7]"
  using assms by (auto simp: numeral_eq_Suc length_Suc_conv)

lemma unpack_pack:
  "length bits = n * containerBitSize \<Longrightarrow> set bits \<subseteq> {0, 1} \<Longrightarrow>
    concat (map block_bits (map pack_chunk (makeChunks bits containerBitSize))) = bits"
proof (induction n arbitrary: bits)
  case (Suc n)
  define c where "c = take containerBitSize bits"
  have bits: "bits = c @ drop containerBitSize bits" by (simp add: c_def)
  have c: "length c = containerBitSize" "set c \<subseteq> {0, 1}"
    using Suc.prems set_take_subset [of containerBitSize bits] by (auto simp: c_def)
  obtain b0 b1 b2 b3 b4 b5 b6 b7 where "c = [b0, b1, b2, b3, b4, b5, b6, b7]"
    using c(1) list_of_8 [of c] unfolding containerBitSize_def by blast
  with c(2) have unpack: "block_bits (pack_chunk c) = c" using block_bits_pack by blast
  have rest: "length (drop containerBitSize bits) = n * containerBitSize" "set (drop containerBitSize bits) \<subseteq> {0, 1}"
    using Suc.prems set_drop_subset [of containerBitSize bits] by auto
  have "makeChunks bits containerBitSize = c # makeChunks (drop containerBitSize bits) containerBitSize"
    by (subst bits, rule makeChunks_step [OF c(1)]) (simp add: containerBitSize_def)
  with Suc.IH [OF rest] unpack bits show ?case by simp
qed simp

lemma padded_length: "(n :: nat) + (containerBitSize - n mod containerBitSize) = Suc (n div containerBitSize) * containerBitSize"
  unfolding containerBitSize_def by presburger

text \<open>The signatures that are present go back to their places.\<close>

definition signature_ok :: "beefy_signature \<Rightarrow> bool" where
  "signature_ok s \<longleftrightarrow> (if fst s then length (snd s) = 65 else snd s = zeros 65)"

lemma signatures_loop_restores:
  "list_all signature_ok sigs \<Longrightarrow>
    signatures_loop (pre @ present_signatures sigs) (length pre) (signature_bits sigs) = Ok sigs"
proof (induction sigs arbitrary: "pre")
  case Nil
  then show ?case by (simp add: signature_bits_def)
next
  case (Cons s sigs)
  show ?case
  proof (cases "fst s")
    case True
    have "signatures_loop (pre @ snd s # present_signatures sigs) (Suc (length pre)) (signature_bits sigs) = Ok sigs"
      using Cons.IH [of "pre @ [snd s]"] Cons.prems by simp
    with True show ?thesis by (cases s) (simp add: signature_bits_def present_signatures_def)
  next
    case False
    with Cons.IH [of "pre"] Cons.prems show ?thesis
      by (cases s) (simp add: signature_bits_def present_signatures_def signature_ok_def)
  qed
qed

section \<open>Round trip\<close>

definition SignedCommitment_ok :: "SignedCommitment \<Rightarrow> bool" where
  "SignedCommitment_ok s \<longleftrightarrow>
     Commitment_ok (scCommitment s) \<and> length (scSignatures s) < 2 ^ 32 \<and> list_all signature_ok (scSignatures s)"

lemma makeChunks_length: "length bits = n * containerBitSize \<Longrightarrow> length (makeChunks bits containerBitSize) = n"
proof (induction n arbitrary: bits)
  case (Suc n)
  have "makeChunks bits containerBitSize = take containerBitSize bits # makeChunks (drop containerBitSize bits) containerBitSize"
    using makeChunks_step [of "take containerBitSize bits" containerBitSize "drop containerBitSize bits"] Suc.prems
    by (simp add: containerBitSize_def)
  with Suc.IH [of "drop containerBitSize bits"] Suc.prems show ?case by simp
qed simp

lemma signature_bits_padded:
  assumes "bits = signature_bits sigs @ replicate (containerBitSize - length sigs mod containerBitSize) 0"
  shows "length bits = Suc (length sigs div containerBitSize) * containerBitSize" "set bits \<subseteq> {0, 1}"
proof -
  show "length bits = Suc (length sigs div containerBitSize) * containerBitSize"
    using padded_length [of "length sigs"] by (simp add: assms signature_bits_def)
  show "set bits \<subseteq> {0, 1}" by (auto simp: assms signature_bits_def)
qed

lemma compact_of_ok:
  assumes "SignedCommitment_ok s"
  shows "CompactSignedCommitment_ok (compact_of s)"
proof -
  let ?bits = "signature_bits (scSignatures s) @ replicate (containerBitSize - length (scSignatures s) mod containerBitSize) 0"
  have "length (makeChunks ?bits containerBitSize) = Suc (length (scSignatures s) div containerBitSize)"
    by (rule makeChunks_length [OF signature_bits_padded(1) [OF refl]])
  moreover have "length (scSignatures s) div 8 < 2 ^ 32 - 1"
    using assms by (auto simp: SignedCommitment_ok_def)
  moreover have "length (present_signatures (scSignatures s)) < 2 ^ 32"
    using assms le_less_trans [OF length_filter_le [of fst "scSignatures s"]]
    by (simp add: SignedCommitment_ok_def present_signatures_def)
  moreover have "list_all (\<lambda>x. length x = 65) (present_signatures (scSignatures s))"
    using assms by (auto simp: SignedCommitment_ok_def present_signatures_def list_all_iff signature_ok_def)
  ultimately show ?thesis
    using assms
    by (simp add: CompactSignedCommitment_ok_def compact_of_def Let_def SignedCommitment_ok_def slice_ok_def list_all_True
        containerBitSize_def)
qed

lemma signed_commitment_roundtrip:
  assumes "SignedCommitment_ok s" and cap: "\<And>k. k \<le> cap k"
  shows "rt (SignedCommitment_Encode s) (SignedCommitment_Decode cap) s"
  unfolding SignedCommitment_Encode_def SignedCommitment_Decode_def
proof (rule rt_done [OF compactSignedCommitment.roundtrip [OF compact_of_ok [OF assms(1)]]])
  let ?sigs = "scSignatures s"
  let ?pad = "replicate (containerBitSize - length ?sigs mod containerBitSize) 0"
  define bits where "bits = signature_bits ?sigs @ ?pad"
  note b = signature_bits_padded [OF bits_def]
  have unpack: "concat (map block_bits (CompactSignedCommitment_SignaturesFrom (compact_of s))) = bits"
    using unpack_pack [OF b] by (simp add: compact_of_def bits_def Let_def)
  have n: "unat (CompactSignedCommitment_ValidatorSetLen (compact_of s)) = length ?sigs"
    using assms(1) by (simp add: compact_of_def Let_def SignedCommitment_ok_def unat_of_nat take_bit_nat_eq_self)
  have len: "length (signature_bits ?sigs) = length ?sigs" by (simp add: signature_bits_def)
  have "length ?sigs \<le> length bits" by (simp add: bits_def len)
  then have "\<not> cap (length bits) < length ?sigs" using cap [of "length bits"] by simp
  moreover have "take (length ?sigs) (bits @ replicate (cap (length bits) - length bits) 0) = signature_bits ?sigs"
    by (simp add: bits_def len)
  moreover have "signatures_loop (present_signatures ?sigs) 0 (signature_bits ?sigs) = Ok ?sigs"
    using signatures_loop_restores [of ?sigs "[]"] assms(1) by (simp add: SignedCommitment_ok_def)
  ultimately show "(let bits = concat (map block_bits (CompactSignedCommitment_SignaturesFrom (compact_of s)));
         n = unat (CompactSignedCommitment_ValidatorSetLen (compact_of s)) in
     if cap (length bits) < n then panicM ''slice bounds out of range''
     else bindM (liftM (signatures_loop (CompactSignedCommitment_SignaturesCompact (compact_of s)) 0
             (take n (bits @ replicate (cap (length bits) - length bits) 0))))
           (\<lambda>signatures. retM \<lparr>scCommitment = CompactSignedCommitment_Commitment (compact_of s), scSignatures = signatures\<rparr>)) = retM s"
    unfolding unpack n by (intro ext) (simp add: compact_of_def Let_def)
qed


section \<open>Commitments that promise too much\<close>

text \<open>The decoder after the compact form: it panics exactly when bits or signatures are missing.\<close>

lemma signatures_loop_total:
  "sigIndex \<le> length compact \<Longrightarrow>
    (if sigIndex + length (filter (\<lambda>b. b = 1) bits) \<le> length compact then \<exists>sigs. signatures_loop compact sigIndex bits = Ok sigs
     else signatures_loop compact sigIndex bits = Panic ''index out of range'')"
proof (induction bits arbitrary: sigIndex)
  case (Cons b bits)
  show ?case
    using Cons.prems Cons.IH [of "Suc sigIndex"] Cons.IH [of sigIndex]
    by (cases "b = 1"; cases "sigIndex < length compact") (auto split: if_splits)
qed simp

definition wire_bits :: "(nat \<Rightarrow> nat) \<Rightarrow> CompactSignedCommitment \<Rightarrow> byte list" where
  "wire_bits cap c =
     (let bits = concat (map block_bits (CompactSignedCommitment_SignaturesFrom c)) in
      bits @ replicate (cap (length bits) - length bits) 0)"

lemma decode_compact:
  assumes "CompactSignedCommitment_ok c" "writes (CompactSignedCommitment_Encode c) bs" "\<And>k. k \<le> cap k"
  defines "n \<equiv> unat (CompactSignedCommitment_ValidatorSetLen c)"
  shows "SignedCommitment_Decode cap (bs @ rest) =
    (if n > length (wire_bits cap c) then (Panic ''slice bounds out of range'', rest)
     else bindM (liftM (signatures_loop (CompactSignedCommitment_SignaturesCompact c) 0 (take n (wire_bits cap c))))
       (\<lambda>signatures. retM \<lparr>scCommitment = CompactSignedCommitment_Commitment c, scSignatures = signatures\<rparr>) rest)"
proof -
  have "length (wire_bits cap c) = cap (length (concat (map block_bits (CompactSignedCommitment_SignaturesFrom c))))"
    using assms(3) by (simp add: wire_bits_def Let_def)
  then show ?thesis
    using readsD [OF compactSignedCommitment.reads_written [OF assms(1,2)], of rest]
    by (simp add: SignedCommitment_Decode_def n_def wire_bits_def Let_def)
qed

section \<open>Properties\<close>

text \<open>
  C18: A signed commitment survives encoding and decoding: whatever the number of validators and
  whichever of them signed, the presence bits are packed and unpacked in the same places and the
  signatures that are present return to the validators they came from.\<close>

theorem signed_commitment_restored:
  assumes "SignedCommitment_ok s" "\<forall>k. k \<le> cap k"
  shows "\<exists>bs. writes (SignedCommitment_Encode s) bs \<and> reads (SignedCommitment_Decode cap) bs s"
  using signed_commitment_roundtrip [OF assms(1), of cap] assms(2) by (simp add: rt_def)

definition nine_validators :: SignedCommitment where
  "nine_validators =
     \<lparr>scCommitment = \<lparr>Commitment_Payload = [], Commitment_BlockNumber = 5, Commitment_ValidatorSetID = 3\<rparr>,
      scSignatures = replicate 8 (False, zeros 65) @ [(True, replicate 65 7)]\<rparr>"

theorem signed_commitment_restored_witness:
  "\<exists>bs. writes (SignedCommitment_Encode nine_validators) bs \<and> reads (SignedCommitment_Decode (\<lambda>k. 2 * k)) bs nine_validators"
  by (rule signed_commitment_restored)
    (simp_all add: nine_validators_def SignedCommitment_ok_def Commitment_ok_def slice_ok_def signature_ok_def zeros_def list_all_iff)

text \<open>
  A commitment on the wire whose bits announce more signatures than follow, or whose validator
  count exceeds the bits, does not make \<open>Decode\<close> fail: it panics. With enough bits and signatures
  it succeeds.\<close>

theorem signed_commitment_short_panics:
  assumes "CompactSignedCommitment_ok c" "writes (CompactSignedCommitment_Encode c) bs" "\<forall>k. k \<le> cap k"
  defines "n \<equiv> unat (CompactSignedCommitment_ValidatorSetLen c)"
  shows "if n > length (wire_bits cap c) then
      fst (SignedCommitment_Decode cap (bs @ rest)) = Panic ''slice bounds out of range''
    else if length (filter (\<lambda>b. b = 1) (take n (wire_bits cap c))) > length (CompactSignedCommitment_SignaturesCompact c) then
      fst (SignedCommitment_Decode cap (bs @ rest)) = Panic ''index out of range''
    else \<exists>s. SignedCommitment_Decode cap (bs @ rest) = (Ok s, rest)"
  using decode_compact [OF assms(1,2), of cap rest] assms(3)
    signatures_loop_total [of 0 "CompactSignedCommitment_SignaturesCompact c" "take n (wire_bits cap c)"]
  by (auto simp: n_def split: if_splits)

definition unsigned_bit :: CompactSignedCommitment where
  "unsigned_bit =
     \<lparr>CompactSignedCommitment_Commitment = \<lparr>Commitment_Payload = [], Commitment_BlockNumber = 0, Commitment_ValidatorSetID = 0\<rparr>,
      CompactSignedCommitment_SignaturesFrom = [0x80], CompactSignedCommitment_ValidatorSetLen = 1,
      CompactSignedCommitment_SignaturesCompact = []\<rparr>"

theorem signed_commitment_short_panics_witness:
  "\<exists>bs. fst (SignedCommitment_Decode (\<lambda>k. k) bs) = Panic ''index out of range''"
proof -
  have ok: "CompactSignedCommitment_ok unsigned_bit"
    by (simp add: unsigned_bit_def CompactSignedCommitment_ok_def Commitment_ok_def slice_ok_def)
  obtain bs where "writes (CompactSignedCommitment_Encode unsigned_bit) bs"
    using compactSignedCommitment.roundtrip [OF ok] by (auto simp: rt_def)
  moreover have "wire_bits (\<lambda>k. k) unsigned_bit = [1, 0, 0, 0, 0, 0, 0, 0]"
    by (simp add: wire_bits_def unsigned_bit_def block_bits_def containerBitSize_def upt_rec)
  ultimately show ?thesis
    using signed_commitment_short_panics [OF ok, of bs "\<lambda>k. k" "[]"] by (auto simp: unsigned_bit_def)
qed

end
