(* ===== verification/OptionTypes.thy ===== *)
theory OptionTypes
  imports Beefy
begin

text \<open>
  Optional values: \<open>Option[T]\<close> of \<open>src/types/generic.go\<close>, the embedded \<open>option\<close> of \<open>option.go\<close> and
  the types that wrap it, in \<open>option_bytes.go\<close>, \<open>option_hash.go\<close>, \<open>option_int.go\<close>,
  \<open>option_uint.go\<close>, \<open>account_id.go\<close>, \<open>election_compute.go\<close>, \<open>execution_result.go\<close>,
  \<open>multi_location_v1.go\<close> and \<open>beefy.go\<close>. An option is the pair of its flag and its value; a missing
  value still has the zero value of its type, or what \<open>SetNone\<close> put there.
\<close>

section \<open>The generic option\<close>

definition NewOption :: "'a \<Rightarrow> bool \<times> 'a" where
  "NewOption t = (True, t)"

definition NewEmptyOption :: "'a \<Rightarrow> bool \<times> 'a" where
  "NewEmptyOption zero = (False, zero)"

definition Option_SetSome :: "bool \<times> 'a \<Rightarrow> 'a \<Rightarrow> bool \<times> 'a" where
  "Option_SetSome o' v = (True, v)"

definition Option_SetNone :: "'a \<Rightarrow> bool \<times> 'a \<Rightarrow> bool \<times> 'a" where
  "Option_SetNone zero o' = (False, zero)"

definition Option_Unwrap :: "bool \<times> 'a \<Rightarrow> bool \<times> 'a" where
  "Option_Unwrap o' = (fst o', snd o')"

definition Option_HasValue :: "bool \<times> 'a \<Rightarrow> bool" where
  "Option_HasValue o' = fst o'"

definition option_IsNone :: "bool \<times> 'a \<Rightarrow> bool" where
  "option_IsNone o' = (\<not> fst o')"

definition option_IsSome :: "bool \<times> 'a \<Rightarrow> bool" where
  "option_IsSome o' = fst o'"

lemmas option_defs = NewOption_def NewEmptyOption_def Option_SetSome_def Option_SetNone_def Option_Unwrap_def

section \<open>The contract of an option type\<close>

text \<open>
  What the eight methods promise together: a value that is set is unwrapped, a value that is
  removed is not, and the codec keeps both; a missing value is read as the empty option.
\<close>

locale option_type =
  fixes new :: "'a \<Rightarrow> bool \<times> 'a"
    and empty :: "bool \<times> 'a"
    and set_some :: "bool \<times> 'a \<Rightarrow> 'a \<Rightarrow> bool \<times> 'a"
    and set_none :: "bool \<times> 'a \<Rightarrow> bool \<times> 'a"
    and unwrap :: "bool \<times> 'a \<Rightarrow> bool \<times> 'a"
    and enc :: "bool \<times> 'a \<Rightarrow> (bytes, unit) goM"
    and dec :: "(bytes, bool \<times> 'a) goM"
    and valid :: "'a \<Rightarrow> bool"
  assumes unwrap_new: "unwrap (new v) = (True, v)"
    and unwrap_some: "unwrap (set_some x v) = (True, v)"
    and unwrap_none: "\<not> fst (unwrap (set_none x))" "\<not> fst (unwrap empty)"
    and some_new: "set_some x v = new v"
    and rt_new: "valid v \<Longrightarrow> rt (enc (new v)) dec (new v)"
    and rt_none: "rt (enc (set_none x)) dec empty" "rt (enc empty) dec empty"
begin

text \<open>After any sequence of settings and removals the last one decides what is read back.\<close>

fun run :: "bool \<times> 'a \<Rightarrow> 'a option list \<Rightarrow> bool \<times> 'a" where
  "run x [] = x"
| "run x (Some v # cmds) = run (set_some x v) cmds"
| "run x (None # cmds) = run (set_none x) cmds"

lemma run_append: "run x (cmds @ ds) = run (run x cmds) ds"
  by (induction x cmds rule: run.induct) auto

lemma last_command_decides:
  "valid v \<Longrightarrow> rt (enc (run x (cmds @ [Some v]))) dec (new v)"
  "rt (enc (run x (cmds @ [None]))) dec empty"
  by (simp_all add: run_append some_new rt_new rt_none)

end

lemma option_type_codec:
  assumes "scale_codec e d P"
  shows "option_type NewOption (NewEmptyOption z) Option_SetSome (Option_SetNone z') Option_Unwrap
    (EncodeOpt e) (DecodeOption d z) P"
proof
  fix v
  assume "P v"
  then show "rt (EncodeOpt e (NewOption v)) (DecodeOption d z) (NewOption v)"
    by (intro option_step [OF assms]) (simp add: opt_ok_def option_ok_def option_defs)
next
  have none: "rt (EncodeOpt e (False, z')) (DecodeOption d z) (False, z)" for z'
  proof -
    have "EncodeOpt e (False, z') = EncodeOpt e (False, z)" by (simp add: EncodeOpt_def EncodeOption_def)
    then show ?thesis using option_step [OF assms, of z "(False, z)"] by (simp add: opt_ok_def option_ok_def)
  qed
  show "rt (EncodeOpt e (Option_SetNone z' x)) (DecodeOption d z) (NewEmptyOption z)" for x
    unfolding option_defs by (rule none)
  show "rt (EncodeOpt e (NewEmptyOption z)) (DecodeOption d z) (NewEmptyOption z)"
    unfolding option_defs by (rule none)
qed (simp_all add: option_defs)

section \<open>The option types\<close>

lemma int_codecs:
  "scale_codec (Encode_word Int8 :: uint8 \<Rightarrow> _) (Decode_word Int8) (\<lambda>_. True)"
  "scale_codec (Encode_word Int16 :: uint16 \<Rightarrow> _) (Decode_word Int16) (\<lambda>_. True)"
  "scale_codec (Encode_word Int32 :: uint32 \<Rightarrow> _) (Decode_word Int32) (\<lambda>_. True)"
  "scale_codec (Encode_word Int64 :: uint64 \<Rightarrow> _) (Decode_word Int64) (\<lambda>_. True)"
  by (rule scale_codec_word; simp)+

definition NewOptionAccountID :: "bytes \<Rightarrow> bool \<times> bytes" where
  "NewOptionAccountID = NewOption"

definition NewOptionAccountIDEmpty :: "bool \<times> bytes" where
  "NewOptionAccountIDEmpty = NewEmptyOption (zeros 32)"

definition OptionAccountID_Encode :: "bool \<times> bytes \<Rightarrow> (bytes, unit) goM" where
  "OptionAccountID_Encode = EncodeOpt Encode_array"

definition OptionAccountID_Decode :: "(bytes, bool \<times> bytes) goM" where
  "OptionAccountID_Decode = DecodeOption (Decode_array 32) (zeros 32)"

definition OptionAccountID_SetSome :: "bool \<times> bytes \<Rightarrow> bytes \<Rightarrow> bool \<times> bytes" where
  "OptionAccountID_SetSome = Option_SetSome"

definition OptionAccountID_SetNone :: "bool \<times> bytes \<Rightarrow> bool \<times> bytes" where
  "OptionAccountID_SetNone = Option_SetNone (zeros 32)"

definition OptionAccountID_Unwrap :: "bool \<times> bytes \<Rightarrow> bool \<times> bytes" where
  "OptionAccountID_Unwrap = Option_Unwrap"

interpretation optionAccountID: option_type NewOptionAccountID NewOptionAccountIDEmpty OptionAccountID_SetSome OptionAccountID_SetNone OptionAccountID_Unwrap OptionAccountID_Encode OptionAccountID_Decode "(\<lambda>x. length x = 32)"
  unfolding NewOptionAccountID_def NewOptionAccountIDEmpty_def OptionAccountID_Encode_def OptionAccountID_Decode_def
    OptionAccountID_SetSome_def OptionAccountID_SetNone_def OptionAccountID_Unwrap_def
  by (rule option_type_codec) (rule codec_laws)

definition OptionalSignedCommitment_SetSome :: "bool \<times> SignedCommitment \<Rightarrow> SignedCommitment \<Rightarrow> bool \<times> SignedCommitment" where
  "OptionalSignedCommitment_SetSome = Option_SetSome"

definition OptionalSignedCommitment_SetNone :: "bool \<times> SignedCommitment \<Rightarrow> bool \<times> SignedCommitment" where
  "OptionalSignedCommitment_SetNone = Option_SetNone zero_SignedCommitment"

definition OptionalSignedCommitment_Unwrap :: "bool \<times> SignedCommitment \<Rightarrow> bool \<times> SignedCommitment" where
  "OptionalSignedCommitment_Unwrap = Option_Unwrap"

definition NewOptionBeefySignature :: "bytes \<Rightarrow> bool \<times> bytes" where
  "NewOptionBeefySignature = NewOption"

definition NewOptionBeefySignatureEmpty :: "bool \<times> bytes" where
  "NewOptionBeefySignatureEmpty = NewEmptyOption (zeros 65)"

definition OptionBeefySignature_SetSome :: "bool \<times> bytes \<Rightarrow> bytes \<Rightarrow> bool \<times> bytes" where
  "OptionBeefySignature_SetSome = Option_SetSome"

definition OptionBeefySignature_SetNone :: "bool \<times> bytes \<Rightarrow> bool \<times> bytes" where
  "OptionBeefySignature_SetNone = Option_SetNone (zeros 65)"

definition OptionBeefySignature_Unwrap :: "bool \<times> bytes \<Rightarrow> bool \<times> bytes" where
  "OptionBeefySignature_Unwrap = Option_Unwrap"

interpretation optionBeefySignature: option_type NewOptionBeefySignature NewOptionBeefySignatureEmpty OptionBeefySignature_SetSome OptionBeefySignature_SetNone OptionBeefySignature_Unwrap OptionBeefySignature_Encode OptionBeefySignature_Decode "(\<lambda>x. length x = 65)"
  unfolding NewOptionBeefySignature_def NewOptionBeefySignatureEmpty_def OptionBeefySignature_Encode_def [abs_def] OptionBeefySignature_Decode_def
    OptionBeefySignature_SetSome_def OptionBeefySignature_SetNone_def OptionBeefySignature_Unwrap_def
  by (rule option_type_codec) (rule codec_laws)

definition NewOptionElectionCompute :: "byte \<Rightarrow> bool \<times> byte" where
  "NewOptionElectionCompute = NewOption"

definition NewOptionElectionComputeEmpty :: "bool \<times> byte" where
  "NewOptionElectionComputeEmpty = NewEmptyOption 0"

definition OptionElectionCompute_Encode :: "bool \<times> byte \<Rightarrow> (bytes, unit) goM" where
  "OptionElectionCompute_Encode = EncodeOpt ElectionCompute_Encode"

definition OptionElectionCompute_Decode :: "(bytes, bool \<times> byte) goM" where
  "OptionElectionCompute_Decode = DecodeOption ElectionCompute_Decode 0"

definition OptionElectionCompute_SetSome :: "bool \<times> byte \<Rightarrow> byte \<Rightarrow> bool \<times> byte" where
  "OptionElectionCompute_SetSome = Option_SetSome"

definition OptionElectionCompute_SetNone :: "bool \<times> byte \<Rightarrow> bool \<times> byte" where
  "OptionElectionCompute_SetNone = Option_SetNone 0"

definition OptionElectionCompute_Unwrap :: "bool \<times> byte \<Rightarrow> bool \<times> byte" where
  "OptionElectionCompute_Unwrap = Option_Unwrap"

interpretation optionElectionCompute: option_type NewOptionElectionCompute NewOptionElectionComputeEmpty OptionElectionCompute_SetSome OptionElectionCompute_SetNone OptionElectionCompute_Unwrap OptionElectionCompute_Encode OptionElectionCompute_Decode ElectionCompute_ok
  unfolding NewOptionElectionCompute_def NewOptionElectionComputeEmpty_def OptionElectionCompute_Encode_def OptionElectionCompute_Decode_def
    OptionElectionCompute_SetSome_def OptionElectionCompute_SetNone_def OptionElectionCompute_Unwrap_def
  by (rule option_type_codec) (rule codec_laws)

definition NewOptionExecutionResult :: "ExecutionResult \<Rightarrow> bool \<times> ExecutionResult" where
  "NewOptionExecutionResult = NewOption"

definition NewOptionExecutionResultEmpty :: "bool \<times> ExecutionResult" where
  "NewOptionExecutionResultEmpty = NewEmptyOption zero_ExecutionResult"

definition OptionExecutionResult_Encode :: "bool \<times> ExecutionResult \<Rightarrow> (bytes, unit) goM" where
  "OptionExecutionResult_Encode = EncodeOpt ExecutionResult_Encode"

definition OptionExecutionResult_Decode :: "(bytes, bool \<times> ExecutionResult) goM" where
  "OptionExecutionResult_Decode = DecodeOption ExecutionResult_Decode zero_ExecutionResult"

definition OptionExecutionResult_SetSome :: "bool \<times> ExecutionResult \<Rightarrow> ExecutionResult \<Rightarrow> bool \<times> ExecutionResult" where
  "OptionExecutionResult_SetSome = Option_SetSome"

definition OptionExecutionResult_SetNone :: "bool \<times> ExecutionResult \<Rightarrow> bool \<times> ExecutionResult" where
  "OptionExecutionResult_SetNone = Option_SetNone zero_ExecutionResult"

definition OptionExecutionResult_Unwrap :: "bool \<times> ExecutionResult \<Rightarrow> bool \<times> ExecutionResult" where
  "OptionExecutionResult_Unwrap = Option_Unwrap"

interpretation optionExecutionResult: option_type NewOptionExecutionResult NewOptionExecutionResultEmpty OptionExecutionResult_SetSome OptionExecutionResult_SetNone OptionExecutionResult_Unwrap OptionExecutionResult_Encode OptionExecutionResult_Decode ExecutionResult_ok
  unfolding NewOptionExecutionResult_def NewOptionExecutionResultEmpty_def OptionExecutionResult_Encode_def OptionExecutionResult_Decode_def
    OptionExecutionResult_SetSome_def OptionExecutionResult_SetNone_def OptionExecutionResult_Unwrap_def
  by (rule option_type_codec) (rule codec_laws)

definition NewOptionMultiLocationV1 :: "MultiLocationV1 \<Rightarrow> bool \<times> MultiLocationV1" where
  "NewOptionMultiLocationV1 = NewOption"

definition NewOptionMultiLocationV1Empty :: "bool \<times> MultiLocationV1" where
  "NewOptionMultiLocationV1Empty = NewEmptyOption zero_MultiLocationV1"

definition OptionMultiLocationV1_Encode :: "bool \<times> MultiLocationV1 \<Rightarrow> (bytes, unit) goM" where
  "OptionMultiLocationV1_Encode = EncodeOpt MultiLocationV1_EncodeValue"

definition OptionMultiLocationV1_Decode :: "(bytes, bool \<times> MultiLocationV1) goM" where
  "OptionMultiLocationV1_Decode = DecodeOption MultiLocationV1_Decode zero_MultiLocationV1"

definition OptionMultiLocationV1_SetSome :: "bool \<times> MultiLocationV1 \<Rightarrow> MultiLocationV1 \<Rightarrow> bool \<times> MultiLocationV1" where
  "OptionMultiLocationV1_SetSome = Option_SetSome"

definition OptionMultiLocationV1_SetNone :: "bool \<times> MultiLocationV1 \<Rightarrow> bool \<times> MultiLocationV1" where
  "OptionMultiLocationV1_SetNone = Option_SetNone zero_MultiLocationV1"

definition OptionMultiLocationV1_Unwrap :: "bool \<times> MultiLocationV1 \<Rightarrow> bool \<times> MultiLocationV1" where
  "OptionMultiLocationV1_Unwrap = Option_Unwrap"

interpretation optionMultiLocationV1: option_type NewOptionMultiLocationV1 NewOptionMultiLocationV1Empty OptionMultiLocationV1_SetSome OptionMultiLocationV1_SetNone OptionMultiLocationV1_Unwrap OptionMultiLocationV1_Encode OptionMultiLocationV1_Decode MultiLocationV1_ok
  unfolding NewOptionMultiLocationV1_def NewOptionMultiLocationV1Empty_def OptionMultiLocationV1_Encode_def OptionMultiLocationV1_Decode_def
    OptionMultiLocationV1_SetSome_def OptionMultiLocationV1_SetNone_def OptionMultiLocationV1_Unwrap_def
  by (rule option_type_codec) (rule codec_laws)

definition NewOptionBytes :: "bytes \<Rightarrow> bool \<times> bytes" where
  "NewOptionBytes = NewOption"

definition NewOptionBytesEmpty :: "bool \<times> bytes" where
  "NewOptionBytesEmpty = NewEmptyOption []"

definition OptionBytes_Encode :: "bool \<times> bytes \<Rightarrow> (bytes, unit) goM" where
  "OptionBytes_Encode = EncodeOpt (Encode_slice Encode_byte)"

definition OptionBytes_Decode :: "(bytes, bool \<times> bytes) goM" where
  "OptionBytes_Decode = DecodeOption (Decode_slice Decode_byte) []"

definition OptionBytes_SetSome :: "bool \<times> bytes \<Rightarrow> bytes \<Rightarrow> bool \<times> bytes" where
  "OptionBytes_SetSome = Option_SetSome"

definition OptionBytes_SetNone :: "bool \<times> bytes \<Rightarrow> bool \<times> bytes" where
  "OptionBytes_SetNone = Option_SetNone []"

definition OptionBytes_Unwrap :: "bool \<times> bytes \<Rightarrow> bool \<times> bytes" where
  "OptionBytes_Unwrap = Option_Unwrap"

interpretation optionBytes: option_type NewOptionBytes NewOptionBytesEmpty OptionBytes_SetSome OptionBytes_SetNone OptionBytes_Unwrap OptionBytes_Encode OptionBytes_Decode "slice_ok (\<lambda>_. True)"
  unfolding NewOptionBytes_def NewOptionBytesEmpty_def OptionBytes_Encode_def OptionBytes_Decode_def
    OptionBytes_SetSome_def OptionBytes_SetNone_def OptionBytes_Unwrap_def
  by (rule option_type_codec) (rule codec_laws)

definition NewOptionBytes8 :: "bytes \<Rightarrow> bool \<times> bytes" where
  "NewOptionBytes8 = NewOption"

definition NewOptionBytes8Empty :: "bool \<times> bytes" where
  "NewOptionBytes8Empty = NewEmptyOption (zeros 8)"

definition OptionBytes8_Encode :: "bool \<times> bytes \<Rightarrow> (bytes, unit) goM" where
  "OptionBytes8_Encode = EncodeOpt Encode_array"

definition OptionBytes8_Decode :: "(bytes, bool \<times> bytes) goM" where
  "OptionBytes8_Decode = DecodeOption (Decode_array 8) (zeros 8)"

definition OptionBytes8_SetSome :: "bool \<times> bytes \<Rightarrow> bytes \<Rightarrow> bool \<times> bytes" where
  "OptionBytes8_SetSome = Option_SetSome"

definition OptionBytes8_SetNone :: "bool \<times> bytes \<Rightarrow> bool \<times> bytes" where
  "OptionBytes8_SetNone = Option_SetNone (zeros 8)"

definition OptionBytes8_Unwrap :: "bool \<times> bytes \<Rightarrow> bool \<times> bytes" where
  "OptionBytes8_Unwrap = Option_Unwrap"

interpretation optionBytes8: option_type NewOptionBytes8 NewOptionBytes8Empty OptionBytes8_SetSome OptionBytes8_SetNone OptionBytes8_Unwrap OptionBytes8_Encode OptionBytes8_Decode "(\<lambda>x. length x = 8)"
  unfolding NewOptionBytes8_def NewOptionBytes8Empty_def OptionBytes8_Encode_def OptionBytes8_Decode_def
    OptionBytes8_SetSome_def OptionBytes8_SetNone_def OptionBytes8_Unwrap_def
  by (rule option_type_codec) (rule codec_laws)

definition NewOptionBytes16 :: "bytes \<Rightarrow> bool \<times> bytes" where
  "NewOptionBytes16 = NewOption"

definition NewOptionBytes16Empty :: "bool \<times> bytes" where
  "NewOptionBytes16Empty = NewEmptyOption (zeros 16)"

definition OptionBytes16_Encode :: "bool \<times> bytes \<Rightarrow> (bytes, unit) goM" where
  "OptionBytes16_Encode = EncodeOpt Encode_array"

definition OptionBytes16_Decode :: "(bytes, bool \<times> bytes) goM" where
  "OptionBytes16_Decode = DecodeOption (Decode_array 16) (zeros 16)"

definition OptionBytes16_SetSome :: "bool \<times> bytes \<Rightarrow> bytes \<Rightarrow> bool \<times> bytes" where
  "OptionBytes16_SetSome = Option_SetSome"

definition OptionBytes16_SetNone :: "bool \<times> bytes \<Rightarrow> bool \<times> bytes" where
  "OptionBytes16_SetNone = Option_SetNone (zeros 16)"

definition OptionBytes16_Unwrap :: "bool \<times> bytes \<Rightarrow> bool \<times> bytes" where
  "OptionBytes16_Unwrap = Option_Unwrap"

interpretation optionBytes16: option_type NewOptionBytes16 NewOptionBytes16Empty OptionBytes16_SetSome OptionBytes16_SetNone OptionBytes16_Unwrap OptionBytes16_Encode OptionBytes16_Decode "(\<lambda>x. length x = 16)"
  unfolding NewOptionBytes16_def NewOptionBytes16Empty_def OptionBytes16_Encode_def OptionBytes16_Decode_def
    OptionBytes16_SetSome_def OptionBytes16_SetNone_def OptionBytes16_Unwrap_def
  by (rule option_type_codec) (rule codec_laws)

definition NewOptionBytes32 :: "bytes \<Rightarrow> bool \<times> bytes" where
  "NewOptionBytes32 = NewOption"

definition NewOptionBytes32Empty :: "bool \<times> bytes" where
  "NewOptionBytes32Empty = NewEmptyOption (zeros 32)"

definition OptionBytes32_Encode :: "bool \<times> bytes \<Rightarrow> (bytes, unit) goM" where
  "OptionBytes32_Encode = EncodeOpt Encode_array"

definition OptionBytes32_Decode :: "(bytes, bool \<times> bytes) goM" where
  "OptionBytes32_Decode = DecodeOption (Decode_array 32) (zeros 32)"

definition OptionBytes32_SetSome :: "bool \<times> bytes \<Rightarrow> bytes \<Rightarrow> bool \<times> bytes" where
  "OptionBytes32_SetSome = Option_SetSome"

definition OptionBytes32_SetNone :: "bool \<times> bytes \<Rightarrow> bool \<times> bytes" where
  "OptionBytes32_SetNone = Option_SetNone (zeros 32)"

definition OptionBytes32_Unwrap :: "bool \<times> bytes \<Rightarrow> bool \<times> bytes" where
  "OptionBytes32_Unwrap = Option_Unwrap"

interpretation optionBytes32: option_type NewOptionBytes32 NewOptionBytes32Empty OptionBytes32_SetSome OptionBytes32_SetNone OptionBytes32_Unwrap OptionBytes32_Encode OptionBytes32_Decode "(\<lambda>x. length x = 32)"
  unfolding NewOptionBytes32_def NewOptionBytes32Empty_def OptionBytes32_Encode_def OptionBytes32_Decode_def
    OptionBytes32_SetSome_def OptionBytes32_SetNone_def OptionBytes32_Unwrap_def
  by (rule option_type_codec) (rule codec_laws)

definition NewOptionBytes64 :: "bytes \<Rightarrow> bool \<times> bytes" where
  "NewOptionBytes64 = NewOption"

definition NewOptionBytes64Empty :: "bool \<times> bytes" where
  "NewOptionBytes64Empty = NewEmptyOption (zeros 64)"

definition OptionBytes64_Encode :: "bool \<times> bytes \<Rightarrow> (bytes, unit) goM" where
  "OptionBytes64_Encode = EncodeOpt Encode_array"

definition OptionBytes64_Decode :: "(bytes, bool \<times> bytes) goM" where
  "OptionBytes64_Decode = DecodeOption (Decode_array 64) (zeros 64)"

definition OptionBytes64_SetSome :: "bool \<times> bytes \<Rightarrow> bytes \<Rightarrow> bool \<times> bytes" where
  "OptionBytes64_SetSome = Option_SetSome"

definition OptionBytes64_SetNone :: "bool \<times> bytes \<Rightarrow> bool \<times> bytes" where
  "OptionBytes64_SetNone = Option_SetNone (zeros 64)"

definition OptionBytes64_Unwrap :: "bool \<times> bytes \<Rightarrow> bool \<times> bytes" where
  "OptionBytes64_Unwrap = Option_Unwrap"

interpretation optionBytes64: option_type NewOptionBytes64 NewOptionBytes64Empty OptionBytes64_SetSome OptionBytes64_SetNone OptionBytes64_Unwrap OptionBytes64_Encode OptionBytes64_Decode "(\<lambda>x. length x = 64)"
  unfolding NewOptionBytes64_def NewOptionBytes64Empty_def OptionBytes64_Encode_def OptionBytes64_Decode_def
    OptionBytes64_SetSome_def OptionBytes64_SetNone_def OptionBytes64_Unwrap_def
  by (rule option_type_codec) (rule codec_laws)

definition NewOptionBytes128 :: "bytes \<Rightarrow> bool \<times> bytes" where
  "NewOptionBytes128 = NewOption"

definition NewOptionBytes128Empty :: "bool \<times> bytes" where
  "NewOptionBytes128Empty = NewEmptyOption (zeros 128)"

definition OptionBytes128_Encode :: "bool \<times> bytes \<Rightarrow> (bytes, unit) goM" where
  "OptionBytes128_Encode = EncodeOpt Encode_array"

definition OptionBytes128_Decode :: "(bytes, bool \<times> bytes) goM" where
  "OptionBytes128_Decode = DecodeOption (Decode_array 128) (zeros 128)"

definition OptionBytes128_SetSome :: "bool \<times> bytes \<Rightarrow> bytes \<Rightarrow> bool \<times> bytes" where
  "OptionBytes128_SetSome = Option_SetSome"

definition OptionBytes128_SetNone :: "bool \<times> bytes \<Rightarrow> bool \<times> bytes" where
  "OptionBytes128_SetNone = Option_SetNone (zeros 128)"

definition OptionBytes128_Unwrap :: "bool \<times> bytes \<Rightarrow> bool \<times> bytes" where
  "OptionBytes128_Unwrap = Option_Unwrap"

interpretation optionBytes128: option_type NewOptionBytes128 NewOptionBytes128Empty OptionBytes128_SetSome OptionBytes128_SetNone OptionBytes128_Unwrap OptionBytes128_Encode OptionBytes128_Decode "(\<lambda>x. length x = 128)"
  unfolding NewOptionBytes128_def NewOptionBytes128Empty_def OptionBytes128_Encode_def OptionBytes128_Decode_def
    OptionBytes128_SetSome_def OptionBytes128_SetNone_def OptionBytes128_Unwrap_def
  by (rule option_type_codec) (rule codec_laws)

definition NewOptionBytes256 :: "bytes \<Rightarrow> bool \<times> bytes" where
  "NewOptionBytes256 = NewOption"

definition NewOptionBytes256Empty :: "bool \<times> bytes" where
  "NewOptionBytes256Empty = NewEmptyOption (zeros 256)"

definition OptionBytes256_Encode :: "bool \<times> bytes \<Rightarrow> (bytes, unit) goM" where
  "OptionBytes256_Encode = EncodeOpt Encode_array"

definition OptionBytes256_Decode :: "(bytes, bool \<times> bytes) goM" where
  "OptionBytes256_Decode = DecodeOption (Decode_array 256) (zeros 256)"

definition OptionBytes256_SetSome :: "bool \<times> bytes \<Rightarrow> bytes \<Rightarrow> bool \<times> bytes" where
  "OptionBytes256_SetSome = Option_SetSome"

definition OptionBytes256_SetNone :: "bool \<times> bytes \<Rightarrow> bool \<times> bytes" where
  "OptionBytes256_SetNone = Option_SetNone (zeros 256)"

definition OptionBytes256_Unwrap :: "bool \<times> bytes \<Rightarrow> bool \<times> bytes" where
  "OptionBytes256_Unwrap = Option_Unwrap"

interpretation optionBytes256: option_type NewOptionBytes256 NewOptionBytes256Empty OptionBytes256_SetSome OptionBytes256_SetNone OptionBytes256_Unwrap OptionBytes256_Encode OptionBytes256_Decode "(\<lambda>x. length x = 256)"
  unfolding NewOptionBytes256_def NewOptionBytes256Empty_def OptionBytes256_Encode_def OptionBytes256_Decode_def
    OptionBytes256_SetSome_def OptionBytes256_SetNone_def OptionBytes256_Unwrap_def
  by (rule option_type_codec) (rule codec_laws)

definition NewOptionBytes512 :: "bytes \<Rightarrow> bool \<times> bytes" where
  "NewOptionBytes512 = NewOption"

definition NewOptionBytes512Empty :: "bool \<times> bytes" where
  "NewOptionBytes512Empty = NewEmptyOption (zeros 512)"

definition OptionBytes512_Encode :: "bool \<times> bytes \<Rightarrow> (bytes, unit) goM" where
  "OptionBytes512_Encode = EncodeOpt Encode_array"

definition OptionBytes512_Decode :: "(bytes, bool \<times> bytes) goM" where
  "OptionBytes512_Decode = DecodeOption (Decode_array 512) (zeros 512)"

definition OptionBytes512_SetSome :: "bool \<times> bytes \<Rightarrow> bytes \<Rightarrow> bool \<times> bytes" where
  "OptionBytes512_SetSome = Option_SetSome"

definition OptionBytes512_SetNone :: "bool \<times> bytes \<Rightarrow> bool \<times> bytes" where
  "OptionBytes512_SetNone = Option_SetNone (zeros 512)"

definition OptionBytes512_Unwrap :: "bool \<times> bytes \<Rightarrow> bool \<times> bytes" where
  "OptionBytes512_Unwrap = Option_Unwrap"

interpretation optionBytes512: option_type NewOptionBytes512 NewOptionBytes512Empty OptionBytes512_SetSome OptionBytes512_SetNone OptionBytes512_Unwrap OptionBytes512_Encode OptionBytes512_Decode "(\<lambda>x. length x = 512)"
  unfolding NewOptionBytes512_def NewOptionBytes512Empty_def OptionBytes512_Encode_def OptionBytes512_Decode_def
    OptionBytes512_SetSome_def OptionBytes512_SetNone_def OptionBytes512_Unwrap_def
  by (rule option_type_codec) (rule codec_laws)

definition NewOptionBytes1024 :: "bytes \<Rightarrow> bool \<times> bytes" where
  "NewOptionBytes1024 = NewOption"

definition NewOptionBytes1024Empty :: "bool \<times> bytes" where
  "NewOptionBytes1024Empty = NewEmptyOption (zeros 1024)"

definition OptionBytes1024_Encode :: "bool \<times> bytes \<Rightarrow> (bytes, unit) goM" where
  "OptionBytes1024_Encode = EncodeOpt Encode_array"

definition OptionBytes1024_Decode :: "(bytes, bool \<times> bytes) goM" where
  "OptionBytes1024_Decode = DecodeOption (Decode_array 1024) (zeros 1024)"

definition OptionBytes1024_SetSome :: "bool \<times> bytes \<Rightarrow> bytes \<Rightarrow> bool \<times> bytes" where
  "OptionBytes1024_SetSome = Option_SetSome"

definition OptionBytes1024_SetNone :: "bool \<times> bytes \<Rightarrow> bool \<times> bytes" where
  "OptionBytes1024_SetNone = Option_SetNone (zeros 1024)"

definition OptionBytes1024_Unwrap :: "bool \<times> bytes \<Rightarrow> bool \<times> bytes" where
  "OptionBytes1024_Unwrap = Option_Unwrap"

interpretation optionBytes1024: option_type NewOptionBytes1024 NewOptionBytes1024Empty OptionBytes1024_SetSome OptionBytes1024_SetNone OptionBytes1024_Unwrap OptionBytes1024_Encode OptionBytes1024_Decode "(\<lambda>x. length x = 1024)"
  unfolding NewOptionBytes1024_def NewOptionBytes1024Empty_def OptionBytes1024_Encode_def OptionBytes1024_Decode_def
    OptionBytes1024_SetSome_def OptionBytes1024_SetNone_def OptionBytes1024_Unwrap_def
  by (rule option_type_codec) (rule codec_laws)

definition NewOptionBytes2048 :: "bytes \<Rightarrow> bool \<times> bytes" where
  "NewOptionBytes2048 = NewOption"

definition NewOptionBytes2048Empty :: "bool \<times> bytes" where
  "NewOptionBytes2048Empty = NewEmptyOption (zeros 2048)"

definition OptionBytes2048_Encode :: "bool \<times> bytes \<Rightarrow> (bytes, unit) goM" where
  "OptionBytes2048_Encode = EncodeOpt Encode_array"

definition OptionBytes2048_Decode :: "(bytes, bool \<times> bytes) goM" where
  "OptionBytes2048_Decode = DecodeOption (Decode_array 2048) (zeros 2048)"

definition OptionBytes2048_SetSome :: "bool \<times> bytes \<Rightarrow> bytes \<Rightarrow> bool \<times> bytes" where
  "OptionBytes2048_SetSome = Option_SetSome"

definition OptionBytes2048_SetNone :: "bool \<times> bytes \<Rightarrow> bool \<times> bytes" where
  "OptionBytes2048_SetNone = Option_SetNone (zeros 2048)"

definition OptionBytes2048_Unwrap :: "bool \<times> bytes \<Rightarrow> bool \<times> bytes" where
  "OptionBytes2048_Unwrap = Option_Unwrap"

interpretation optionBytes2048: option_type NewOptionBytes2048 NewOptionBytes2048Empty OptionBytes2048_SetSome OptionBytes2048_SetNone OptionBytes2048_Unwrap OptionBytes2048_Encode OptionBytes2048_Decode "(\<lambda>x. length x = 2048)"
  unfolding NewOptionBytes2048_def NewOptionBytes2048Empty_def OptionBytes2048_Encode_def OptionBytes2048_Decode_def
    OptionBytes2048_SetSome_def OptionBytes2048_SetNone_def OptionBytes2048_Unwrap_def
  by (rule option_type_codec) (rule codec_laws)

definition NewOptionH160 :: "bytes \<Rightarrow> bool \<times> bytes" where
  "NewOptionH160 = NewOption"

definition NewOptionH160Empty :: "bool \<times> bytes" where
  "NewOptionH160Empty = NewEmptyOption (zeros 20)"

definition OptionH160_Encode :: "bool \<times> bytes \<Rightarrow> (bytes, unit) goM" where
  "OptionH160_Encode = EncodeOpt Encode_array"

definition OptionH160_Decode :: "(bytes, bool \<times> bytes) goM" where
  "OptionH160_Decode = DecodeOption (Decode_array 20) (zeros 20)"

definition OptionH160_SetSome :: "bool \<times> bytes \<Rightarrow> bytes \<Rightarrow> bool \<times> bytes" where
  "OptionH160_SetSome = Option_SetSome"

definition OptionH160_SetNone :: "bool \<times> bytes \<Rightarrow> bool \<times> bytes" where
  "OptionH160_SetNone = Option_SetNone (zeros 20)"

definition OptionH160_Unwrap :: "bool \<times> bytes \<Rightarrow> bool \<times> bytes" where
  "OptionH160_Unwrap = Option_Unwrap"

interpretation optionH160: option_type NewOptionH160 NewOptionH160Empty OptionH160_SetSome OptionH160_SetNone OptionH160_Unwrap OptionH160_Encode OptionH160_Decode "(\<lambda>x. length x = 20)"
  unfolding NewOptionH160_def NewOptionH160Empty_def OptionH160_Encode_def OptionH160_Decode_def
    OptionH160_SetSome_def OptionH160_SetNone_def OptionH160_Unwrap_def
  by (rule option_type_codec) (rule codec_laws)

definition NewOptionH256 :: "bytes \<Rightarrow> bool \<times> bytes" where
  "NewOptionH256 = NewOption"

definition NewOptionH256Empty :: "bool \<times> bytes" where
  "NewOptionH256Empty = NewEmptyOption (zeros 32)"

definition OptionH256_Encode :: "bool \<times> bytes \<Rightarrow> (bytes, unit) goM" where
  "OptionH256_Encode = EncodeOpt Encode_array"

definition OptionH256_Decode :: "(bytes, bool \<times> bytes) goM" where
  "OptionH256_Decode = DecodeOption (Decode_array 32) (zeros 32)"

definition OptionH256_SetSome :: "bool \<times> bytes \<Rightarrow> bytes \<Rightarrow> bool \<times> bytes" where
  "OptionH256_SetSome = Option_SetSome"

definition OptionH256_SetNone :: "bool \<times> bytes \<Rightarrow> bool \<times> bytes" where
  "OptionH256_SetNone = Option_SetNone (zeros 32)"

definition OptionH256_Unwrap :: "bool \<times> bytes \<Rightarrow> bool \<times> bytes" where
  "OptionH256_Unwrap = Option_Unwrap"

interpretation optionH256: option_type NewOptionH256 NewOptionH256Empty OptionH256_SetSome OptionH256_SetNone OptionH256_Unwrap OptionH256_Encode OptionH256_Decode "(\<lambda>x. length x = 32)"
  unfolding NewOptionH256_def NewOptionH256Empty_def OptionH256_Encode_def OptionH256_Decode_def
    OptionH256_SetSome_def OptionH256_SetNone_def OptionH256_Unwrap_def
  by (rule option_type_codec) (rule codec_laws)

definition NewOptionH512 :: "bytes \<Rightarrow> bool \<times> bytes" where
  "NewOptionH512 = NewOption"

definition NewOptionH512Empty :: "bool \<times> bytes" where
  "NewOptionH512Empty = NewEmptyOption (zeros 64)"

definition OptionH512_Encode :: "bool \<times> bytes \<Rightarrow> (bytes, unit) goM" where
  "OptionH512_Encode = EncodeOpt Encode_array"

definition OptionH512_Decode :: "(bytes, bool \<times> bytes) goM" where
  "OptionH512_Decode = DecodeOption (Decode_array 64) (zeros 64)"

definition OptionH512_SetSome :: "bool \<times> bytes \<Rightarrow> bytes \<Rightarrow> bool \<times> bytes" where
  "OptionH512_SetSome = Option_SetSome"

definition OptionH512_SetNone :: "bool \<times> bytes \<Rightarrow> bool \<times> bytes" where
  "OptionH512_SetNone = Option_SetNone (zeros 64)"

definition OptionH512_Unwrap :: "bool \<times> bytes \<Rightarrow> bool \<times> bytes" where
  "OptionH512_Unwrap = Option_Unwrap"

interpretation optionH512: option_type NewOptionH512 NewOptionH512Empty OptionH512_SetSome OptionH512_SetNone OptionH512_Unwrap OptionH512_Encode OptionH512_Decode "(\<lambda>x. length x = 64)"
  unfolding NewOptionH512_def NewOptionH512Empty_def OptionH512_Encode_def OptionH512_Decode_def
    OptionH512_SetSome_def OptionH512_SetNone_def OptionH512_Unwrap_def
  by (rule option_type_codec) (rule codec_laws)

definition NewOptionHash :: "bytes \<Rightarrow> bool \<times> bytes" where
  "NewOptionHash = NewOption"

definition NewOptionHashEmpty :: "bool \<times> bytes" where
  "NewOptionHashEmpty = NewEmptyOption (zeros 32)"

definition OptionHash_Encode :: "bool \<times> bytes \<Rightarrow> (bytes, unit) goM" where
  "OptionHash_Encode = EncodeOpt Encode_array"

definition OptionHash_Decode :: "(bytes, bool \<times> bytes) goM" where
  "OptionHash_Decode = DecodeOption (Decode_array 32) (zeros 32)"

definition OptionHash_SetSome :: "bool \<times> bytes \<Rightarrow> bytes \<Rightarrow> bool \<times> bytes" where
  "OptionHash_SetSome = Option_SetSome"

definition OptionHash_SetNone :: "bool \<times> bytes \<Rightarrow> bool \<times> bytes" where
  "OptionHash_SetNone = Option_SetNone (zeros 32)"

definition OptionHash_Unwrap :: "bool \<times> bytes \<Rightarrow> bool \<times> bytes" where
  "OptionHash_Unwrap = Option_Unwrap"

interpretation optionHash: option_type NewOptionHash NewOptionHashEmpty OptionHash_SetSome OptionHash_SetNone OptionHash_Unwrap OptionHash_Encode OptionHash_Decode "(\<lambda>x. length x = 32)"
  unfolding NewOptionHash_def NewOptionHashEmpty_def OptionHash_Encode_def OptionHash_Decode_def
    OptionHash_SetSome_def OptionHash_SetNone_def OptionHash_Unwrap_def
  by (rule option_type_codec) (rule codec_laws)

definition NewOptionI8 :: "uint8 \<Rightarrow> bool \<times> uint8" where
  "NewOptionI8 = NewOption"

definition NewOptionI8Empty :: "bool \<times> uint8" where
  "NewOptionI8Empty = NewEmptyOption 0"

definition OptionI8_Encode :: "bool \<times> uint8 \<Rightarrow> (bytes, unit) goM" where
  "OptionI8_Encode = EncodeOpt (Encode_word Int8)"

definition OptionI8_Decode :: "(bytes, bool \<times> uint8) goM" where
  "OptionI8_Decode = DecodeOption (Decode_word Int8) 0"

definition OptionI8_SetSome :: "bool \<times> uint8 \<Rightarrow> uint8 \<Rightarrow> bool \<times> uint8" where
  "OptionI8_SetSome = Option_SetSome"

definition OptionI8_SetNone :: "bool \<times> uint8 \<Rightarrow> bool \<times> uint8" where
  "OptionI8_SetNone = Option_SetNone 0"

definition OptionI8_Unwrap :: "bool \<times> uint8 \<Rightarrow> bool \<times> uint8" where
  "OptionI8_Unwrap = Option_Unwrap"

interpretation optionI8: option_type NewOptionI8 NewOptionI8Empty OptionI8_SetSome OptionI8_SetNone OptionI8_Unwrap OptionI8_Encode OptionI8_Decode "(\<lambda>_. True)"
  unfolding NewOptionI8_def NewOptionI8Empty_def OptionI8_Encode_def OptionI8_Decode_def
    OptionI8_SetSome_def OptionI8_SetNone_def OptionI8_Unwrap_def
  by (rule option_type_codec) (rule int_codecs(1))

definition NewOptionI16 :: "uint16 \<Rightarrow> bool \<times> uint16" where
  "NewOptionI16 = NewOption"

definition NewOptionI16Empty :: "bool \<times> uint16" where
  "NewOptionI16Empty = NewEmptyOption 0"

definition OptionI16_Encode :: "bool \<times> uint16 \<Rightarrow> (bytes, unit) goM" where
  "OptionI16_Encode = EncodeOpt (Encode_word Int16)"

definition OptionI16_Decode :: "(bytes, bool \<times> uint16) goM" where
  "OptionI16_Decode = DecodeOption (Decode_word Int16) 0"

definition OptionI16_SetSome :: "bool \<times> uint16 \<Rightarrow> uint16 \<Rightarrow> bool \<times> uint16" where
  "OptionI16_SetSome = Option_SetSome"

definition OptionI16_SetNone :: "bool \<times> uint16 \<Rightarrow> bool \<times> uint16" where
  "OptionI16_SetNone = Option_SetNone 0"

definition OptionI16_Unwrap :: "bool \<times> uint16 \<Rightarrow> bool \<times> uint16" where
  "OptionI16_Unwrap = Option_Unwrap"

interpretation optionI16: option_type NewOptionI16 NewOptionI16Empty OptionI16_SetSome OptionI16_SetNone OptionI16_Unwrap OptionI16_Encode OptionI16_Decode "(\<lambda>_. True)"
  unfolding NewOptionI16_def NewOptionI16Empty_def OptionI16_Encode_def OptionI16_Decode_def
    OptionI16_SetSome_def OptionI16_SetNone_def OptionI16_Unwrap_def
  by (rule option_type_codec) (rule int_codecs(2))

definition NewOptionI32 :: "uint32 \<Rightarrow> bool \<times> uint32" where
  "NewOptionI32 = NewOption"

definition NewOptionI32Empty :: "bool \<times> uint32" where
  "NewOptionI32Empty = NewEmptyOption 0"

definition OptionI32_Encode :: "bool \<times> uint32 \<Rightarrow> (bytes, unit) goM" where
  "OptionI32_Encode = EncodeOpt (Encode_word Int32)"

definition OptionI32_Decode :: "(bytes, bool \<times> uint32) goM" where
  "OptionI32_Decode = DecodeOption (Decode_word Int32) 0"

definition OptionI32_SetSome :: "bool \<times> uint32 \<Rightarrow> uint32 \<Rightarrow> bool \<times> uint32" where
  "OptionI32_SetSome = Option_SetSome"

definition OptionI32_SetNone :: "bool \<times> uint32 \<Rightarrow> bool \<times> uint32" where
  "OptionI32_SetNone = Option_SetNone 0"

definition OptionI32_Unwrap :: "bool \<times> uint32 \<Rightarrow> bool \<times> uint32" where
  "OptionI32_Unwrap = Option_Unwrap"

interpretation optionI32: option_type NewOptionI32 NewOptionI32Empty OptionI32_SetSome OptionI32_SetNone OptionI32_Unwrap OptionI32_Encode OptionI32_Decode "(\<lambda>_. True)"
  unfolding NewOptionI32_def NewOptionI32Empty_def OptionI32_Encode_def OptionI32_Decode_def
    OptionI32_SetSome_def OptionI32_SetNone_def OptionI32_Unwrap_def
  by (rule option_type_codec) (rule int_codecs(3))

definition NewOptionI64 :: "uint64 \<Rightarrow> bool \<times> uint64" where
  "NewOptionI64 = NewOption"

definition NewOptionI64Empty :: "bool \<times> uint64" where
  "NewOptionI64Empty = NewEmptyOption 0"

definition OptionI64_Encode :: "bool \<times> uint64 \<Rightarrow> (bytes, unit) goM" where
  "OptionI64_Encode = EncodeOpt (Encode_word Int64)"

definition OptionI64_Decode :: "(bytes, bool \<times> uint64) goM" where
  "OptionI64_Decode = DecodeOption (Decode_word Int64) 0"

definition OptionI64_SetSome :: "bool \<times> uint64 \<Rightarrow> uint64 \<Rightarrow> bool \<times> uint64" where
  "OptionI64_SetSome = Option_SetSome"

definition OptionI64_SetNone :: "bool \<times> uint64 \<Rightarrow> bool \<times> uint64" where
  "OptionI64_SetNone = Option_SetNone 0"

definition OptionI64_Unwrap :: "bool \<times> uint64 \<Rightarrow> bool \<times> uint64" where
  "OptionI64_Unwrap = Option_Unwrap"

interpretation optionI64: option_type NewOptionI64 NewOptionI64Empty OptionI64_SetSome OptionI64_SetNone OptionI64_Unwrap OptionI64_Encode OptionI64_Decode "(\<lambda>_. True)"
  unfolding NewOptionI64_def NewOptionI64Empty_def OptionI64_Encode_def OptionI64_Decode_def
    OptionI64_SetSome_def OptionI64_SetNone_def OptionI64_Unwrap_def
  by (rule option_type_codec) (rule int_codecs(4))

definition NewOptionU8 :: "byte \<Rightarrow> bool \<times> byte" where
  "NewOptionU8 = NewOption"

definition NewOptionU8Empty :: "bool \<times> byte" where
  "NewOptionU8Empty = NewEmptyOption 0"

definition OptionU8_Encode :: "bool \<times> byte \<Rightarrow> (bytes, unit) goM" where
  "OptionU8_Encode = EncodeOpt Encode_byte"

definition OptionU8_Decode :: "(bytes, bool \<times> byte) goM" where
  "OptionU8_Decode = DecodeOption Decode_byte 0"

definition OptionU8_SetSome :: "bool \<times> byte \<Rightarrow> byte \<Rightarrow> bool \<times> byte" where
  "OptionU8_SetSome = Option_SetSome"

definition OptionU8_SetNone :: "bool \<times> byte \<Rightarrow> bool \<times> byte" where
  "OptionU8_SetNone = Option_SetNone 0"

definition OptionU8_Unwrap :: "bool \<times> byte \<Rightarrow> bool \<times> byte" where
  "OptionU8_Unwrap = Option_Unwrap"

interpretation optionU8: option_type NewOptionU8 NewOptionU8Empty OptionU8_SetSome OptionU8_SetNone OptionU8_Unwrap OptionU8_Encode OptionU8_Decode "(\<lambda>_. True)"
  unfolding NewOptionU8_def NewOptionU8Empty_def OptionU8_Encode_def OptionU8_Decode_def
    OptionU8_SetSome_def OptionU8_SetNone_def OptionU8_Unwrap_def
  by (rule option_type_codec) (rule codec_laws)

definition NewOptionU16 :: "uint16 \<Rightarrow> bool \<times> uint16" where
  "NewOptionU16 = NewOption"

definition NewOptionU16Empty :: "bool \<times> uint16" where
  "NewOptionU16Empty = NewEmptyOption 0"

definition OptionU16_Encode :: "bool \<times> uint16 \<Rightarrow> (bytes, unit) goM" where
  "OptionU16_Encode = EncodeOpt (Encode_word Uint16)"

definition OptionU16_Decode :: "(bytes, bool \<times> uint16) goM" where
  "OptionU16_Decode = DecodeOption (Decode_word Uint16) 0"

definition OptionU16_SetSome :: "bool \<times> uint16 \<Rightarrow> uint16 \<Rightarrow> bool \<times> uint16" where
  "OptionU16_SetSome = Option_SetSome"

definition OptionU16_SetNone :: "bool \<times> uint16 \<Rightarrow> bool \<times> uint16" where
  "OptionU16_SetNone = Option_SetNone 0"

definition OptionU16_Unwrap :: "bool \<times> uint16 \<Rightarrow> bool \<times> uint16" where
  "OptionU16_Unwrap = Option_Unwrap"

interpretation optionU16: option_type NewOptionU16 NewOptionU16Empty OptionU16_SetSome OptionU16_SetNone OptionU16_Unwrap OptionU16_Encode OptionU16_Decode "(\<lambda>_. True)"
  unfolding NewOptionU16_def NewOptionU16Empty_def OptionU16_Encode_def OptionU16_Decode_def
    OptionU16_SetSome_def OptionU16_SetNone_def OptionU16_Unwrap_def
  by (rule option_type_codec) (rule codec_laws)

definition NewOptionU32 :: "uint32 \<Rightarrow> bool \<times> uint32" where
  "NewOptionU32 = NewOption"

definition NewOptionU32Empty :: "bool \<times> uint32" where
  "NewOptionU32Empty = NewEmptyOption 0"

definition OptionU32_Encode :: "bool \<times> uint32 \<Rightarrow> (bytes, unit) goM" where
  "OptionU32_Encode = EncodeOpt (Encode_word Uint32)"

definition OptionU32_Decode :: "(bytes, bool \<times> uint32) goM" where
  "OptionU32_Decode = DecodeOption (Decode_word Uint32) 0"

definition OptionU32_SetSome :: "bool \<times> uint32 \<Rightarrow> uint32 \<Rightarrow> bool \<times> uint32" where
  "OptionU32_SetSome = Option_SetSome"

definition OptionU32_SetNone :: "bool \<times> uint32 \<Rightarrow> bool \<times> uint32" where
  "OptionU32_SetNone = Option_SetNone 0"

definition OptionU32_Unwrap :: "bool \<times> uint32 \<Rightarrow> bool \<times> uint32" where
  "OptionU32_Unwrap = Option_Unwrap"

interpretation optionU32: option_type NewOptionU32 NewOptionU32Empty OptionU32_SetSome OptionU32_SetNone OptionU32_Unwrap OptionU32_Encode OptionU32_Decode "(\<lambda>_. True)"
  unfolding NewOptionU32_def NewOptionU32Empty_def OptionU32_Encode_def OptionU32_Decode_def
    OptionU32_SetSome_def OptionU32_SetNone_def OptionU32_Unwrap_def
  by (rule option_type_codec) (rule codec_laws)

definition NewOptionU64 :: "uint64 \<Rightarrow> bool \<times> uint64" where
  "NewOptionU64 = NewOption"

definition NewOptionU64Empty :: "bool \<times> uint64" where
  "NewOptionU64Empty = NewEmptyOption 0"

definition OptionU64_Encode :: "bool \<times> uint64 \<Rightarrow> (bytes, unit) goM" where
  "OptionU64_Encode = EncodeOpt (Encode_word Uint64)"

definition OptionU64_Decode :: "(bytes, bool \<times> uint64) goM" where
  "OptionU64_Decode = DecodeOption (Decode_word Uint64) 0"

definition OptionU64_SetSome :: "bool \<times> uint64 \<Rightarrow> uint64 \<Rightarrow> bool \<times> uint64" where
  "OptionU64_SetSome = Option_SetSome"

definition OptionU64_SetNone :: "bool \<times> uint64 \<Rightarrow> bool \<times> uint64" where
  "OptionU64_SetNone = Option_SetNone 0"

definition OptionU64_Unwrap :: "bool \<times> uint64 \<Rightarrow> bool \<times> uint64" where
  "OptionU64_Unwrap = Option_Unwrap"

interpretation optionU64: option_type NewOptionU64 NewOptionU64Empty OptionU64_SetSome OptionU64_SetNone OptionU64_Unwrap OptionU64_Encode OptionU64_Decode "(\<lambda>_. True)"
  unfolding NewOptionU64_def NewOptionU64Empty_def OptionU64_Encode_def OptionU64_Decode_def
    OptionU64_SetSome_def OptionU64_SetNone_def OptionU64_Unwrap_def
  by (rule option_type_codec) (rule codec_laws)

definition NewOptionU128 :: "int option \<Rightarrow> bool \<times> (int option)" where
  "NewOptionU128 = NewOption"

definition NewOptionU128Empty :: "bool \<times> (int option)" where
  "NewOptionU128Empty = NewEmptyOption None"

definition OptionU128_Encode :: "bool \<times> (int option) \<Rightarrow> (bytes, unit) goM" where
  "OptionU128_Encode = EncodeOpt U128_Encode"

definition OptionU128_Decode :: "(bytes, bool \<times> (int option)) goM" where
  "OptionU128_Decode = DecodeOption U128_Decode None"

definition OptionU128_SetSome :: "bool \<times> (int option) \<Rightarrow> int option \<Rightarrow> bool \<times> (int option)" where
  "OptionU128_SetSome = Option_SetSome"

definition OptionU128_SetNone :: "bool \<times> (int option) \<Rightarrow> bool \<times> (int option)" where
  "OptionU128_SetNone = Option_SetNone (Some 0)"

definition OptionU128_Unwrap :: "bool \<times> (int option) \<Rightarrow> bool \<times> (int option)" where
  "OptionU128_Unwrap = Option_Unwrap"

interpretation optionU128: option_type NewOptionU128 NewOptionU128Empty OptionU128_SetSome OptionU128_SetNone OptionU128_Unwrap OptionU128_Encode OptionU128_Decode U128_ok
  unfolding NewOptionU128_def NewOptionU128Empty_def OptionU128_Encode_def OptionU128_Decode_def
    OptionU128_SetSome_def OptionU128_SetNone_def OptionU128_Unwrap_def
  by (rule option_type_codec) (rule codec_laws)

end
