(* ===== verification/EventMethods.thy ===== *)
theory EventMethods
  imports EventProperties XcmProperties OptionTypes
begin

text \<open>
  The types with \<open>Decode\<close> methods in the event structs of \<open>src/types/events.go\<close>, joined with the models of
  these methods: what they can panic with, and with it what \<open>DecodeEventRecords\<close> can panic with when it
  decodes into the default target.
\<close>

section \<open>The methods\<close>

text \<open>
  Reflection calls a method by the type it finds. What it calls is one of the methods below; how the
  values they store are represented does not matter for their outcome.
\<close>

definition outcome :: "('s, 'a) goM \<Rightarrow> ('s, unit) goM" where
  "outcome m = bindM m (\<lambda>_. retM ())"

definition event_methods :: "(string \<times> (bytes, unit) goM) list" where
  "event_methods =
    [(''U128'', outcome U128_Decode), (''CurrencyID'', outcome CurrencyID_Decode),
     (''DispatchResult'', outcome DispatchResult_Decode), (''MultiLocationV1'', outcome MultiLocationV1_Decode),
     (''Tally'', outcome Tally_Decode), (''UCompact'', outcome UCompact_Decode),
     (''DispatchError'', outcome DispatchError_Decode), (''BalanceStatus'', outcome BalanceStatus_Decode),
     (''CrossChainTransferability'', outcome CrossChainTransferability_Decode),
     (''DispatchInfo'', outcome DispatchInfo_Decode), (''DisputeLocation'', outcome DisputeLocation_Decode),
     (''DisputeResult'', outcome DisputeResult_Decode), (''ElectionCompute'', outcome ElectionCompute_Decode),
     (''HRMPChannelID'', outcome HRMPChannelID_Decode), (''Instruction'', outcome Instruction_Decode),
     (''LotteryCallIndex'', outcome LotteryCallIndex_Decode),
     (''MigrationCompute'', outcome MigrationCompute_Decode), (''OptionBytes'', outcome OptionBytes_Decode),
     (''OptionElectionCompute'', outcome OptionElectionCompute_Decode),
     (''OptionMultiLocationV1'', outcome OptionMultiLocationV1_Decode),
     (''Option[U128]'', outcome (DecodeOption U128_Decode None)),
     (''Option[VersionedMultiLocation]'', outcome (DecodeOption VersionedMultiLocation_Decode VersionedMultiLocation_Zero)),
     (''Outcome'', outcome Outcome_Decode), (''Response'', outcome Response_Decode), (''Sale'', outcome Sale_Decode),
     (''SchedulerLookupError'', outcome SchedulerLookupError_Decode),
     (''VersionedMultiAssets'', outcome VersionedMultiAssets_Decode),
     (''VersionedMultiLocation'', outcome VersionedMultiLocation_Decode),
     (''VoteAccountVote'', outcome VoteAccountVote_Decode), (''VoteThreshold'', outcome VoteThreshold_Decode),
     (''XCMError'', outcome XCMError_Decode)]"

lemma event_methods_names: "map fst event_methods = event_method_names"
  by (simp add: event_methods_def event_method_names_def)

lemma outcome_aborts: "aborts_in A (outcome m) \<longleftrightarrow> aborts_in A m"
proof -
  have "abort_ok A (fst (outcome m s)) \<longleftrightarrow> abort_ok A (fst (m s))" for s
    by (cases "m s"; cases "fst (m s)") (auto simp: outcome_def bindM_def)
  then show ?thesis by (simp add: aborts_in_def)
qed

lemma outcome_bind: "outcome (bindM m (\<lambda>_. retM v)) = outcome m"
  by (rule ext) (auto simp: outcome_def bindM_def split: prod.split res.split)

lemma outcome_erase: "outcome (outcome m) = outcome m"
  using outcome_bind [of m "()"] by (simp only: outcome_def [of m, symmetric])

section \<open>Outcomes of the methods\<close>

context aborting
begin

lemma containers [abort_rules]:
  "aborts_in allowed ReadOneByte_ignoring" "aborts_in allowed (Decode_enum nm valid)" "aborts_in allowed (Decode_array n)"
  "aborts_in allowed UCompact_Decode" "aborts_in allowed Text_Decode"
proof -
  have "abort_ok allowed (fst (ReadOneByte_ignoring s))" "abort_ok allowed (fst (Decode_enum nm valid s))" for s
    using abortsD [OF scalars(1), of s]
    by (auto simp: ReadOneByte_ignoring_def Decode_enum_def Let_def split: prod.split res.split)
  then show "aborts_in allowed ReadOneByte_ignoring" "aborts_in allowed (Decode_enum nm valid)" by (simp_all add: aborts_in_def)
  show "aborts_in allowed (Decode_array n)" "aborts_in allowed UCompact_Decode" "aborts_in allowed Text_Decode"
    unfolding Decode_array_def UCompact_Decode_def Text_Decode_def by (intro abort_rules)+
qed

lemma options [abort_rules]: "aborts_in allowed d \<Longrightarrow> aborts_in allowed (DecodeOption d z)"
  unfolding DecodeOption_def by (intro abort_rules)

lemma integers [abort_rules]: "aborts_in allowed U128_Decode"
proof -
  have "aborts_in allowed (liftM (UintBytesToBigInt bs))" for bs by (simp add: aborts_in_def UintBytesToBigInt_def)
  then show ?thesis unfolding U128_Decode_def Uint_Decode_def by (intro abort_rules)
qed

lemma skips [abort_rules]:
  assumes "aborts_in allowed m" "\<And>a. aborts_in allowed (f a)"
  shows "aborts_in allowed (skipM m z f)"
proof (rule abortsI)
  fix s
  obtain r t where m: "m s = (r, t)" by fastforce
  then show "abort_ok allowed (fst (skipM m z f s))"
    using abortsD [OF assms(1), of s] abortsD [OF assms(2), of _ t] by (cases r) (simp_all add: skipM_def)
qed

lemma methods_1 [abort_rules]:
  "aborts_in allowed BalanceStatus_Decode" "aborts_in allowed XcmMetadata_Decode" "aborts_in allowed Tranche_Decode"
  "aborts_in allowed StakingCurrency_Decode" "aborts_in allowed ModuleError_Decode"
  "aborts_in allowed TokenError_Decode" "aborts_in allowed ArithmeticError_Decode"
  "aborts_in allowed TransactionalError_Decode" "aborts_in allowed Weight_Decode"
  "aborts_in allowed DispatchClass_Decode" "aborts_in allowed Pays_Decode" "aborts_in allowed DisputeLocation_Decode"
  "aborts_in allowed DisputeResult_Decode" "aborts_in allowed ElectionCompute_Decode"
  "aborts_in allowed HRMPChannelID_Decode" "aborts_in allowed NetworkID_Decode" "aborts_in allowed BodyID_Decode"
  "aborts_in allowed BodyPart_Decode" "aborts_in allowed AssetInstance_Decode" "aborts_in allowed OriginKind_Decode"
  "aborts_in allowed EncodedCall_Decode" "aborts_in allowed WildFungibility_Decode"
  "aborts_in allowed WeightLimit_Decode" "aborts_in allowed LotteryCallIndex_Decode"
  "aborts_in allowed MigrationCompute_Decode" "aborts_in allowed OptionBytes_Decode"
  "aborts_in allowed SchedulerLookupError_Decode" "aborts_in allowed Tally_Decode"
  "aborts_in allowed DemocracyVote_Decode" "aborts_in allowed VoteAccountVoteAsSplit_Decode"
  "aborts_in allowed VoteThreshold_Decode"
  unfolding BalanceStatus_Decode_def XcmMetadata_Decode_def Tranche_Decode_def StakingCurrency_Decode_def
    ModuleError_Decode_def TokenError_Decode_def ArithmeticError_Decode_def TransactionalError_Decode_def
    Weight_Decode_def DispatchClass_Decode_def Pays_Decode_def DisputeLocation_Decode_def DisputeResult_Decode_def
    ElectionCompute_Decode_def HRMPChannelID_Decode_def NetworkID_Decode_def BodyID_Decode_def BodyPart_Decode_def
    AssetInstance_Decode_def OriginKind_Decode_def EncodedCall_Decode_def WildFungibility_Decode_def
    WeightLimit_Decode_def LotteryCallIndex_Decode_def MigrationCompute_Decode_def OptionBytes_Decode_def
    SchedulerLookupError_Decode_def Tally_Decode_def DemocracyVote_Decode_def VoteAccountVoteAsSplit_Decode_def
    VoteThreshold_Decode_def
  by (intro abort_rules)+

lemma methods_2 [abort_rules]:
  "aborts_in allowed CrossChainTransferability_Decode" "aborts_in allowed CurrencyID_Decode"
  "aborts_in allowed DispatchError_Decode" "aborts_in allowed DispatchInfo_Decode"
  "aborts_in allowed JunctionV1_Decode" "aborts_in allowed Fungibility_Decode" "aborts_in allowed XCMError_Decode"
  "aborts_in allowed OptionElectionCompute_Decode" "aborts_in allowed JunctionV0_Decode"
  "aborts_in allowed VoteAccountVoteAsStandard_Decode"
  unfolding CrossChainTransferability_Decode_def CurrencyID_Decode_def DispatchError_Decode_def DispatchInfo_Decode_def
    JunctionV1_Decode_def Fungibility_Decode_def XCMError_Decode_def OptionElectionCompute_Decode_def
    JunctionV0_Decode_def VoteAccountVoteAsStandard_Decode_def
  by (intro abort_rules)+

lemma methods_3 [abort_rules]:
  "aborts_in allowed DispatchResult_Decode" "aborts_in allowed JunctionsV1_Decode"
  "aborts_in allowed ExecutionResult_Decode" "aborts_in allowed Outcome_Decode" "aborts_in allowed Price_Decode"
  "aborts_in allowed MultiLocationV0_Decode" "aborts_in allowed VoteAccountVote_Decode"
  unfolding DispatchResult_Decode_def JunctionsV1_Decode_def ExecutionResult_Decode_def Outcome_Decode_def Price_Decode_def
    MultiLocationV0_Decode_def VoteAccountVote_Decode_def
  by (intro abort_rules)+

lemma methods_4 [abort_rules]:
  "aborts_in allowed MultiLocationV1_Decode" "aborts_in allowed Sale_Decode"
  unfolding MultiLocationV1_Decode_def Sale_Decode_def
  by (intro abort_rules)+

lemma methods_5 [abort_rules]:
  "aborts_in allowed AssetID_Decode" "aborts_in allowed OptionMultiLocationV1_Decode"
  "aborts_in allowed MultiAssetV0_Decode" "aborts_in allowed VersionedMultiLocation_Decode"
  unfolding AssetID_Decode_def OptionMultiLocationV1_Decode_def MultiAssetV0_Decode_def VersionedMultiLocation_Decode_def
  by (intro abort_rules)+

lemma methods_6 [abort_rules]:
  "aborts_in allowed MultiAssetV1_Decode" "aborts_in allowed WildMultiAsset_Decode"
  unfolding MultiAssetV1_Decode_def WildMultiAsset_Decode_def
  by (intro abort_rules)+

lemma methods_7 [abort_rules]:
  "aborts_in allowed Response_Decode" "aborts_in allowed MultiAssetFilter_Decode"
  "aborts_in allowed VersionedMultiAssets_Decode"
  unfolding Response_Decode_def MultiAssetFilter_Decode_def VersionedMultiAssets_Decode_def
  by (intro abort_rules)+

text \<open>An instruction decodes the instructions nested in it; here the fuel may run out.\<close>

lemma instruction_fuel: "None \<in> allowed \<Longrightarrow> aborts_in allowed (Instruction_Decode_fuel n)"
proof (induction n)
  case 0
  then show ?case by (simp add: aborts_in_def)
next
  case (Suc n)
  show ?case unfolding Instruction_Decode_fuel.simps Instruction_step_def by (intro abort_rules Suc.IH Suc.prems)
qed

end

interpretation fuelled: aborting "{Some nil_dereference, None}"
  by unfold_locales simp

interpretation nil_panics: aborting "{Some nil_dereference}"
  by unfold_locales simp

text \<open>The fuel that an instruction gets is enough.\<close>

lemma instruction_aborts: "aborts_in {Some nil_dereference} Instruction_Decode"
proof (rule abortsI)
  fix s
  obtain r t where run: "Instruction_Decode s = (r, t)" by fastforce
  have "abort_ok {Some nil_dereference, None} (fst (Instruction_Decode s))"
    using abortsD [OF fuelled.instruction_fuel] by (simp add: Instruction_Decode_def del: Instruction_Decode_fuel.simps)
  moreover have "r \<noteq> OutOfFuel" using consumingD [OF consuming_Instruction run] by simp
  ultimately show "abort_ok {Some nil_dereference} (fst (Instruction_Decode s))" using run by (cases r) auto
qed

lemma event_methods_abort: "\<forall>(nm, d)\<in>set event_methods. aborts_in {Some nil_dereference} d"
  unfolding event_methods_def by (simp add: outcome_aborts instruction_aborts nil_panics.options nil_panics.integers nil_panics.containers nil_panics.slices nil_panics.byte
      nil_panics.methods_1 nil_panics.methods_2 nil_panics.methods_3 nil_panics.methods_4 nil_panics.methods_5 nil_panics.methods_6 nil_panics.methods_7)

section \<open>The default target\<close>

text \<open>
  C24: The default target fits \<open>DecodeEventRecords\<close>: all of its fields are slices of structs that begin
  with a phase, end with topics and hold only types that reflection can fill, or types with one of the
  \<open>Decode\<close> methods of the table. When these types are decoded with their methods, then for every input, every metadata
  and whatever the target holds before the call, the decoder returns or panics on the nil length of a
  truncated collection; it never panics in reflection, and the recursion of the methods ends.\<close>

theorem default_target_panics:
  assumes "\<forall>(nm, d)\<in>set event_methods. outcome (impl nm) = d"
  shows "list_all (\<lambda>(f, t). \<exists>ts. t = EventSlice ts \<and> event_struct ts) EventRecords \<and>
    (case fst (DecodeEventRecords sd meta impl (PointerToStruct EventRecords) vals) of
       Ok _ \<Rightarrow> True | Err _ \<Rightarrow> True | Panic p \<Rightarrow> p = nil_dereference | OutOfFuel \<Rightarrow> False)"
proof
  show "list_all (\<lambda>(f, t). \<exists>ts. t = EventSlice ts \<and> event_struct ts) EventRecords"
    using event_structs_shape by (auto simp: list_all_iff split: target_field.splits)
  have "aborts_in {Some nil_dereference} (impl nm)" if known: "nm \<in> set event_method_names" for nm
  proof -
    obtain d where d: "(nm, d) \<in> set event_methods" using known by (auto simp: event_methods_names [symmetric])
    have "aborts_in {Some nil_dereference} (outcome (impl nm))" using bspec [OF assms d] bspec [OF event_methods_abort d] by simp
    then show ?thesis by (simp only: outcome_aborts)
  qed
  then have "abort_ok {Some nil_dereference}
      (fst (bindM (onReader DecodeUintCompact) (\<lambda>n. DecodeEventRecords_loop meta impl EventRecords (BigInt_Uint64 n) 0) (sd, vals)))"
    by (intro abortsD nil_panics.DecodeEventRecords_aborts) simp
  then show "case fst (DecodeEventRecords sd meta impl (PointerToStruct EventRecords) vals) of
       Ok _ \<Rightarrow> True | Err _ \<Rightarrow> True | Panic p \<Rightarrow> p = nil_dereference | OutOfFuel \<Rightarrow> False"
    by (auto simp: DecodeEventRecords_def split: prod.splits res.splits)
qed

text \<open>The methods themselves, with values that say no more than their type.\<close>

definition event_impl :: "string \<Rightarrow> (bytes, goval) goM" where
  "event_impl nm = (case map_of event_methods nm of None \<Rightarrow> failM EOF | Some d \<Rightarrow> bindM d (\<lambda>_. retM (VImpl nm (VStruct []))))"

lemma event_impl_methods: "\<forall>(nm, d)\<in>set event_methods. outcome (event_impl nm) = d"
proof -
  have "distinct (map fst event_methods)" by (simp add: event_methods_names event_method_names_def)
  moreover have "\<forall>(nm, d)\<in>set event_methods. outcome d = d"
    by (simp add: event_methods_def outcome_erase)
  ultimately show ?thesis by (auto simp: event_impl_def outcome_bind)
qed

theorem default_target_panics_witness:
  "fst (DecodeEventRecords [4, 1, 5, 0, 0, 0, 0, 0] auction_meta event_impl (PointerToStruct EventRecords) (\<lambda>_. [])) = Panic nil_dereference"
proof -
  have n: "DecodeUintCompact (4 # s) = (Ok 1, s)" for s by (simp add: DecodeUintCompact_mode)
  have "\<forall>err. decode_record_fields event_impl err 1 [GoType go_U32, TopicsType] [0, 0, 0, 0] = (Panic nil_dereference, [])"
    by (simp add: go_U32_def Decode_num_def binary_Read_def Decode_slice_outcome bindM_def wrapM_def header_complete_def nil_dereference_def)
  from auction_round(2) [OF this, of 0 "\<lambda>_. []"]
  have "\<exists>p. fst (DecodeEventRecords [4, 1, 5, 0, 0, 0, 0, 0] auction_meta event_impl (PointerToStruct EventRecords) (\<lambda>_. [])) = Panic p"
    by (simp add: DecodeEventRecords_def DecodeEventRecords_loop.simps [of _ _ _ 1] n onReader_def BigInt_Uint64_def bindM_def)
  then show ?thesis
    using default_target_panics [OF event_impl_methods, of "[4, 1, 5, 0, 0, 0, 0, 0]" auction_meta "\<lambda>_. []"] by auto
qed

end
