(* ===== verification/JsonRpc.thy ===== *)
theory JsonRpc
  imports GoRuntime
begin

text \<open>
  Messages of JSON-RPC and their errors: \<open>src/gethrpc/json.go\<close> and \<open>errors.go\<close>, and the checks on a
  response of \<open>src/gethrpc/client.go\<close>. The standard library turns text into documents; identifiers stay
  the text they are on the wire, since they are compared as text.
\<close>

section \<open>Documents\<close>

datatype json = JNull | JBool bool | JNumber string | JString string | JArray "json list" | JObject "(string \<times> json) list"

section \<open>Outcomes\<close>

text \<open>An action ends, panics, or waits on a channel that is full.\<close>

datatype 'a out = Done 'a | Panics string | Blocks

fun bindO :: "'a out \<Rightarrow> ('a \<Rightarrow> 'b out) \<Rightarrow> 'b out" where
  "bindO (Done a) f = f a"
| "bindO (Panics p) f = Panics p"
| "bindO Blocks f = Blocks"

section \<open>Errors\<close>

record jsonError =
  Code :: int
  Message :: string
  ErrData :: "json option"

datatype rpcError =
    RpcErrorString string
  | methodNotFoundError string
  | subscriptionNotFoundError string string
  | parseError string
  | invalidRequestError string
  | invalidMessageError string
  | invalidParamsError string
  | AsJsonError jsonError
  | ErrClientQuit
  | ErrNoResult
  | ErrSubscriptionQueueOverflow
  | ErrNotificationsUnsupported
  | ErrSubscriptionNotFound
  | errClientReconnected
  | errDead
  | ContextError

definition jsonError_Error :: "jsonError \<Rightarrow> string" where
  "jsonError_Error err = (if Message err = '''' then ''json-rpc error '' @ string_of_int (Code err) else Message err)"

fun rpcError_Error :: "rpcError \<Rightarrow> string" where
  "rpcError_Error (RpcErrorString s) = s"
| "rpcError_Error (methodNotFoundError m) = ''the method '' @ m @ '' does not exist/is not available''"
| "rpcError_Error (subscriptionNotFoundError ns sub) = ''no '' @ [CHR 0x22] @ sub @ [CHR 0x22] @ '' subscription in '' @ ns @ '' namespace''"
| "rpcError_Error (parseError m) = m"
| "rpcError_Error (invalidRequestError m) = m"
| "rpcError_Error (invalidMessageError m) = m"
| "rpcError_Error (invalidParamsError m) = m"
| "rpcError_Error (AsJsonError e) = jsonError_Error e"
| "rpcError_Error ErrClientQuit = ''client is closed''"
| "rpcError_Error ErrNoResult = ''no result in JSON-RPC response''"
| "rpcError_Error ErrSubscriptionQueueOverflow = ''subscription queue overflow''"
| "rpcError_Error ErrNotificationsUnsupported = ''notifications not supported''"
| "rpcError_Error ErrSubscriptionNotFound = ''subscription not found''"
| "rpcError_Error errClientReconnected = ''client reconnected''"
| "rpcError_Error errDead = ''connection lost''"
| "rpcError_Error ContextError = ''context deadline exceeded''"

text \<open>The errors that have a code of their own, as the interface \<open>Error\<close> asks for.\<close>

fun ErrorCode :: "rpcError \<Rightarrow> int option" where
  "ErrorCode (methodNotFoundError _) = Some (- 32601)"
| "ErrorCode (subscriptionNotFoundError _ _) = Some (- 32601)"
| "ErrorCode (parseError _) = Some (- 32700)"
| "ErrorCode (invalidRequestError _) = Some (- 32600)"
| "ErrorCode (invalidMessageError _) = Some (- 32700)"
| "ErrorCode (invalidParamsError _) = Some (- 32602)"
| "ErrorCode (AsJsonError e) = Some (Code e)"
| "ErrorCode _ = None"

definition defaultErrorCode :: int where
  "defaultErrorCode = - 32000"

section \<open>Messages\<close>

record jsonrpcMessage =
  Version :: string
  ID :: "string option"
  Method :: string
  Params :: "json option"
  MsgError :: "jsonError option"
  Result :: "json option"

definition vsn :: string where
  "vsn = ''2.0''"

definition hasValidID :: "jsonrpcMessage \<Rightarrow> bool" where
  "hasValidID msg = (case ID msg of Some (c # _) \<Rightarrow> c \<noteq> CHR 0x7B \<and> c \<noteq> CHR 0x5B | _ \<Rightarrow> False)"

definition isNotification :: "jsonrpcMessage \<Rightarrow> bool" where
  "isNotification msg \<longleftrightarrow> ID msg = None \<and> Method msg \<noteq> ''''"

definition isCall :: "jsonrpcMessage \<Rightarrow> bool" where
  "isCall msg \<longleftrightarrow> hasValidID msg \<and> Method msg \<noteq> ''''"

definition isResponse :: "jsonrpcMessage \<Rightarrow> bool" where
  "isResponse msg \<longleftrightarrow> hasValidID msg \<and> Method msg = '''' \<and> Params msg = None \<and> (Result msg \<noteq> None \<or> MsgError msg \<noteq> None)"

definition errorMessage :: "rpcError \<Rightarrow> jsonrpcMessage" where
  "errorMessage err =
     \<lparr>Version = vsn, ID = Some ''null'', Method = '''', Params = None,
      MsgError = Some \<lparr>Code = (case ErrorCode err of Some c \<Rightarrow> c | None \<Rightarrow> defaultErrorCode), Message = rpcError_Error err, ErrData = None\<rparr>,
      Result = None\<rparr>"

definition errorResponse :: "jsonrpcMessage \<Rightarrow> rpcError \<Rightarrow> jsonrpcMessage" where
  "errorResponse msg err = (errorMessage err)\<lparr>ID := ID msg\<rparr>"

text \<open>The result after \<open>json.Marshal\<close>, which fails for values that have no JSON form.\<close>

definition response :: "jsonrpcMessage \<Rightarrow> rpcError + json \<Rightarrow> jsonrpcMessage" where
  "response msg enc =
     (case enc of
        Inl err \<Rightarrow> errorResponse msg err
      | Inr j \<Rightarrow> \<lparr>Version = vsn, ID = ID msg, Method = '''', Params = None, MsgError = None, Result = Some j\<rparr>)"

text \<open>\<open>isBatch\<close>: whether the first byte that is no white space opens an array.\<close>

fun isBatch :: "byte list \<Rightarrow> bool" where
  "isBatch [] = False"
| "isBatch (c # raw) = (if c = 0x20 \<or> c = 0x09 \<or> c = 0x0a \<or> c = 0x0d then isBatch raw else c = 0x5B)"

section \<open>Reading documents\<close>

text \<open>
  \<open>json.Unmarshal\<close> into a string: null leaves the string empty. Into \<open>subscriptionResult\<close>: keys are
  compared up to case, later ones win, null leaves the identifier as it is and is kept as a result.
\<close>

definition unmarshal_string :: "json option \<Rightarrow> string option" where
  "unmarshal_string d = (case d of Some (JString s) \<Rightarrow> Some s | Some JNull \<Rightarrow> Some '''' | _ \<Rightarrow> None)"

definition lower_char :: "char \<Rightarrow> char" where
  "lower_char c = (if of_char c \<in> {65 .. 90 :: nat} then char_of (of_char c + 32 :: nat) else c)"

definition same_key :: "string \<Rightarrow> string \<Rightarrow> bool" where
  "same_key a b \<longleftrightarrow> map lower_char a = map lower_char b"

fun subscription_fields :: "(string \<times> json) list \<Rightarrow> string \<times> json option \<Rightarrow> (string \<times> json option) option" where
  "subscription_fields [] r = Some r"
| "subscription_fields ((k, v) # kvs) (i, res) =
     (if same_key k ''subscription'' then
        (case v of JString s \<Rightarrow> subscription_fields kvs (s, res) | JNull \<Rightarrow> subscription_fields kvs (i, res) | _ \<Rightarrow> None)
      else if same_key k ''result'' then subscription_fields kvs (i, Some v)
      else subscription_fields kvs (i, res))"

definition unmarshal_subscriptionResult :: "json option \<Rightarrow> (string \<times> json option) option" where
  "unmarshal_subscriptionResult d =
     (case d of Some (JObject kvs) \<Rightarrow> subscription_fields kvs ('''', None) | Some JNull \<Rightarrow> Some ('''', None) | _ \<Rightarrow> None)"

section \<open>Parsing messages\<close>

text \<open>
  \<open>json.Unmarshal\<close> into a message: a field whose value has the wrong type is skipped and the rest is still
  read; the error is dropped by \<open>parseMessage\<close>. A raw field keeps the text of its value, null included.
  Null instead of a message sets the pointer to it to nil. \<open>raw\<close> is the text of a document in the input.
\<close>

definition parse_int64 :: "string \<Rightarrow> int option" where
  "parse_int64 s =
     (let neg = (s \<noteq> [] \<and> hd s = CHR ''-''); ds = (if neg then tl s else s);
          n = foldl (\<lambda>a d. 10 * a + (int (of_char d) - 48)) 0 ds; v = (if neg then - n else n) in
      if ds = [] \<or> \<not> list_all (\<lambda>d. of_char d \<in> {48 .. 57 :: nat}) ds \<or> v < - (2 ^ 63) \<or> 2 ^ 63 \<le> v then None else Some v)"

definition zero_jsonError :: jsonError where
  "zero_jsonError = \<lparr>Code = 0, Message = '''', ErrData = None\<rparr>"

definition set_error_field :: "string \<times> json \<Rightarrow> jsonError \<Rightarrow> jsonError" where
  "set_error_field kv e =
     (case kv of (k, v) \<Rightarrow>
      if same_key k ''code'' then
        (case v of JNumber n \<Rightarrow> (case parse_int64 n of Some i \<Rightarrow> e\<lparr>Code := i\<rparr> | None \<Rightarrow> e) | _ \<Rightarrow> e)
      else if same_key k ''message'' then (case v of JString s \<Rightarrow> e\<lparr>Message := s\<rparr> | _ \<Rightarrow> e)
      else if same_key k ''data'' then e\<lparr>ErrData := (if v = JNull then None else Some v)\<rparr>
      else e)"

definition zero_message :: jsonrpcMessage where
  "zero_message = \<lparr>Version = '''', ID = None, Method = '''', Params = None, MsgError = None, Result = None\<rparr>"

definition set_message_field :: "(json \<Rightarrow> string) \<Rightarrow> string \<times> json \<Rightarrow> jsonrpcMessage \<Rightarrow> jsonrpcMessage" where
  "set_message_field raw kv m =
     (case kv of (k, v) \<Rightarrow>
      if same_key k ''jsonrpc'' then (case v of JString s \<Rightarrow> m\<lparr>Version := s\<rparr> | _ \<Rightarrow> m)
      else if same_key k ''id'' then m\<lparr>ID := Some (raw v)\<rparr>
      else if same_key k ''method'' then (case v of JString s \<Rightarrow> m\<lparr>Method := s\<rparr> | _ \<Rightarrow> m)
      else if same_key k ''params'' then m\<lparr>Params := Some v\<rparr>
      else if same_key k ''error'' then
        (case v of
           JNull \<Rightarrow> m\<lparr>MsgError := None\<rparr>
         | JObject kvs \<Rightarrow> m\<lparr>MsgError := Some (fold set_error_field kvs (case MsgError m of None \<Rightarrow> zero_jsonError | Some e \<Rightarrow> e))\<rparr>
         | _ \<Rightarrow> m\<lparr>MsgError := Some (case MsgError m of None \<Rightarrow> zero_jsonError | Some e \<Rightarrow> e)\<rparr>)
      else if same_key k ''result'' then m\<lparr>Result := Some v\<rparr>
      else m)"

definition unmarshal_message :: "(json \<Rightarrow> string) \<Rightarrow> json \<Rightarrow> jsonrpcMessage option" where
  "unmarshal_message raw d =
     (case d of JNull \<Rightarrow> None | JObject kvs \<Rightarrow> Some (fold (set_message_field raw) kvs zero_message) | _ \<Rightarrow> Some zero_message)"

definition parseMessage :: "(json \<Rightarrow> string) \<Rightarrow> json \<Rightarrow> jsonrpcMessage option list \<times> bool" where
  "parseMessage raw d =
     (case d of JArray ds \<Rightarrow> (map (unmarshal_message raw) ds, True) | _ \<Rightarrow> ([unmarshal_message raw d], False))"

text \<open>
  The identifiers whose text the standard library keeps: null, numbers without sign, fraction and leading
  zeros, and quoted strings of printable ASCII characters that have no escapes, neither those JSON asks
  for (the quote and the backslash) nor those \<open>json.Marshal\<close> adds for HTML. White space, and characters
  that are escaped, do not survive \<open>json.Marshal\<close> of a \<open>json.RawMessage\<close>.
\<close>

definition number_text :: "string \<Rightarrow> bool" where
  "number_text n \<longleftrightarrow> n \<noteq> [] \<and> list_all (\<lambda>d. of_char d \<in> {48 .. 57 :: nat}) n \<and> (hd n = CHR ''0'' \<longrightarrow> n = ''0'')"

definition plain_char :: "char \<Rightarrow> bool" where
  "plain_char c \<longleftrightarrow> of_char c \<in> {32 .. 126 :: nat} \<and> c \<notin> {CHR 0x22, CHR 0x5C, CHR ''<'', CHR ''>'', CHR ''&''}"

fun scalar :: "json \<Rightarrow> bool" where
  "scalar JNull = True"
| "scalar (JNumber n) = number_text n"
| "scalar (JString s) = list_all plain_char s"
| "scalar _ = False"

fun scalar_text :: "json \<Rightarrow> string" where
  "scalar_text JNull = ''null''"
| "scalar_text (JNumber n) = n"
| "scalar_text (JString s) = [CHR 0x22] @ s @ [CHR 0x22]"
| "scalar_text _ = ''''"

definition scalar_document :: "string \<Rightarrow> json" where
  "scalar_document t = (if t = ''null'' then JNull else if number_text t then JNumber t else JString (butlast (tl t)))"

text \<open>
  A message as \<open>json.Marshal\<close> writes it, without the fields that \<open>omitempty\<close> drops; \<open>doc\<close> is the document
  that a raw text stands for.
\<close>

definition error_object :: "jsonError \<Rightarrow> json" where
  "error_object e =
     JObject ([(''code'', JNumber (string_of_int (Code e))), (''message'', JString (Message e))] @
       (case ErrData e of None \<Rightarrow> [] | Some d \<Rightarrow> [(''data'', d)]))"

definition message_object :: "(string \<Rightarrow> json) \<Rightarrow> jsonrpcMessage \<Rightarrow> json" where
  "message_object doc m = JObject (
     (if Version m = '''' then [] else [(''jsonrpc'', JString (Version m))]) @
     (case ID m of None \<Rightarrow> [] | Some i \<Rightarrow> if i = '''' then [] else [(''id'', doc i)]) @
     (if Method m = '''' then [] else [(''method'', JString (Method m))]) @
     (case Params m of None \<Rightarrow> [] | Some p \<Rightarrow> [(''params'', p)]) @
     (case MsgError m of None \<Rightarrow> [] | Some e \<Rightarrow> [(''error'', error_object e)]) @
     (case Result m of None \<Rightarrow> [] | Some r \<Rightarrow> [(''result'', r)]))"

section \<open>Classification\<close>

lemma message_kinds:
  "\<not> (isNotification msg \<and> isCall msg)" "\<not> (isNotification msg \<and> isResponse msg)" "\<not> (isCall msg \<and> isResponse msg)"
  by (auto simp: isNotification_def isCall_def isResponse_def hasValidID_def split: option.splits)

lemma answers_are_responses:
  "hasValidID msg \<Longrightarrow> isResponse (errorResponse msg err)" "hasValidID msg \<Longrightarrow> isResponse (response msg enc)"
  by (auto simp: isResponse_def errorResponse_def response_def errorMessage_def hasValidID_def split: sum.split)

lemma digits_value:
  "foldl (\<lambda>a d. 10 * a + (int (of_char d) - 48)) 0 (string_of_nat n) = int n \<and> string_of_nat n \<noteq> [] \<and>
   list_all (\<lambda>d. of_char d \<in> {48 .. 57 :: nat}) (string_of_nat n)"
proof (induction n rule: less_induct)
  case (less n)
  show ?case
  proof (cases "n < 10")
    case True
    then show ?thesis by (subst (1 2 3) string_of_nat.simps) simp
  next
    case False
    then show ?thesis using less [of "n div 10"] by (subst (1 2 3) string_of_nat.simps) (simp, presburger)
  qed
qed

text \<open>The text of an identifier stands for it, and the client's own identifiers are of this kind.\<close>

lemma scalar_document_text: "scalar d \<Longrightarrow> scalar_document (scalar_text d) = d"
  by (cases d) (auto simp: scalar_document_def number_text_def)

lemma string_of_nat_leading: "0 < n \<Longrightarrow> hd (string_of_nat n) \<noteq> CHR ''0''"
proof (induction n rule: less_induct)
  case (less n)
  show ?case
  proof (cases "n < 10")
    case True
    then have "(of_char (char_of (48 + n) :: char) :: nat) \<noteq> of_char CHR ''0''" using less.prems by simp
    then have "(char_of (48 + n) :: char) \<noteq> CHR ''0''" by metis
    then show ?thesis using True by (subst string_of_nat.simps) simp
  next
    case False
    then show ?thesis using less.IH [of "n div 10"] digits_value [of "n div 10"] by (subst string_of_nat.simps) simp
  qed
qed

lemma client_ids_scalar: "scalar (JNumber (string_of_nat n))"
proof (cases "n = 0")
  case True
  then show ?thesis by (simp add: number_text_def string_of_nat.simps char_of_def bit_0)
next
  case False
  then show ?thesis using digits_value [of n] string_of_nat_leading [of n] by (simp add: number_text_def)
qed

lemma parse_int64_string:
  assumes "- (2 ^ 63) \<le> i" "i < 2 ^ 63"
  shows "parse_int64 (string_of_int i) = Some i"
proof (cases "i < 0")
  case True
  then show ?thesis using assms digits_value [of "nat (- i)"] by (simp add: parse_int64_def string_of_int_def Let_def)
next
  case False
  obtain d ds where d: "string_of_nat (nat i) = d # ds" "of_char d \<ge> (48 :: nat)" using digits_value [of "nat i"] by (cases "string_of_nat (nat i)") auto
  then have "d \<noteq> CHR ''-''" by auto
  then show ?thesis using False assms d digits_value [of "nat i"] by (simp add: parse_int64_def string_of_int_def Let_def)
qed

lemma set_error_field_simps:
  "set_error_field (''code'', JNumber n) e = (case parse_int64 n of Some i \<Rightarrow> e\<lparr>Code := i\<rparr> | None \<Rightarrow> e)"
  "set_error_field (''message'', JString t) e = e\<lparr>Message := t\<rparr>"
  "set_error_field (''data'', v) e = e\<lparr>ErrData := (if v = JNull then None else Some v)\<rparr>"
  by (simp_all add: set_error_field_def same_key_def lower_char_def)

lemma set_message_field_simps:
  "set_message_field raw (''jsonrpc'', JString t) m = m\<lparr>Version := t\<rparr>"
  "set_message_field raw (''id'', v) m = m\<lparr>ID := Some (raw v)\<rparr>"
  "set_message_field raw (''method'', JString t) m = m\<lparr>Method := t\<rparr>"
  "set_message_field raw (''params'', v) m = m\<lparr>Params := Some v\<rparr>"
  "set_message_field raw (''error'', JObject kvs) m =
     m\<lparr>MsgError := Some (fold set_error_field kvs (case MsgError m of None \<Rightarrow> zero_jsonError | Some e \<Rightarrow> e))\<rparr>"
  "set_message_field raw (''result'', v) m = m\<lparr>Result := Some v\<rparr>"
  by (simp_all add: set_message_field_def same_key_def lower_char_def)

lemma answers_carry_id: "ID (errorResponse msg err) = ID msg" "ID (response msg enc) = ID msg"
  by (simp_all add: errorResponse_def response_def split: sum.split)

section \<open>Properties\<close>



end
