(* ===== verification/Transitions.thy ===== *)
theory Transitions
  imports Main
begin

text \<open>
  Transition systems with an invariant: what holds in all states a system can reach, and what, once it
  holds, holds forever.
\<close>

locale transition_system =
  fixes step :: "'s \<Rightarrow> 's \<Rightarrow> bool" and inv :: "'s \<Rightarrow> bool"
  assumes step_inv: "inv s \<Longrightarrow> step s t \<Longrightarrow> inv t"
begin

lemma steps_inv: "step\<^sup>*\<^sup>* s t \<Longrightarrow> inv s \<Longrightarrow> inv t"
  by (induction rule: rtranclp_induct) (auto intro: step_inv)

lemma forever:
  assumes "step\<^sup>*\<^sup>* s t" "inv s" "p s" and keeps: "\<And>s t. inv s \<Longrightarrow> step s t \<Longrightarrow> p s \<Longrightarrow> p t"
  shows "p t"
proof -
  have "inv t \<and> p t" using assms(1)
    by (induction rule: rtranclp_induct) (use assms(2,3) step_inv keeps in auto)
  then show ?thesis by simp
qed

lemma grows_along:
  assumes "step\<^sup>*\<^sup>* s t" "inv s" and refl: "\<And>s. r s s" and trans: "\<And>s t u. r s t \<Longrightarrow> r t u \<Longrightarrow> r s u"
    and keeps: "\<And>s t. inv s \<Longrightarrow> step s t \<Longrightarrow> r s t"
  shows "r s t"
  using assms(1)
proof (induction rule: rtranclp_induct)
  case base
  show ?case by (rule refl)
next
  case (step t u)
  then show ?case using trans keeps steps_inv [OF step(1) assms(2)] by blast
qed

end

end
