(* ===== verification/RpcClient.thy ===== *)
theory RpcClient
  imports JsonRpc Transitions "HOL-Library.AList"
begin

text \<open>
  The connection of the client: the handler of \<open>src/gethrpc/handler.go\<close> and the dispatch loop of
  \<open>src/gethrpc/client.go\<close> with the goroutines that talk to it over channels. The state has the requests,
  the subscriptions, the handler's tables, where the dispatch loop and each caller stand, and what is in
  the channels; an event is one step of one goroutine, or of two that meet at an unbuffered channel.
  Deadlines are chance: a caller whose context can end may see it end at any point where it waits.
\<close>

section \<open>State\<close>

text \<open>
  A caller is in \<open>send\<close>, waiting for the dispatch loop to take its request (\<open>Initing\<close>), then in \<open>write\<close>
  with the write lock held (\<open>Sending\<close>), then in \<open>wait\<close> (\<open>Waiting\<close>, and \<open>Expired\<close> when its context has
  ended), and returns an error or nil. A response comes with the error of the request, so that one that
  was put into the channel before the request failed is dropped.
\<close>

datatype wphase = WCheck | WDial | WOffer | WWrite | WWritten

datatype phase = Fresh | Initing | Sending wphase | Waiting | Expired | Returned "rpcError option"

record requestOp =
  op_ids :: "string list"
  op_err :: "rpcError option"
  op_resp :: "jsonrpcMessage list"
  op_closed :: bool
  op_sub :: bool
  op_deadline :: bool
  op_got :: "jsonrpcMessage list"
  op_phase :: phase
  op_sent :: bool

text \<open>
  The subscription that \<open>Subscribe\<close> makes for a request has the request's number. The state of
  \<open>quitOnce\<close>: while it runs, its holder is in the call of a request, and then reports the error.
\<close>

datatype once = OnceNew | OnceRunning nat "rpcError option" | OnceDone

record ClientSubscription =
  sub_id :: string
  sub_in :: "json option list"
  sub_once :: once
  sub_quit :: bool
  sub_err :: "rpcError option list"

record handler =
  respWait :: "(string \<times> nat) list"
  clientSubs :: "(string \<times> nat) list"

definition newHandler :: handler where
  "newHandler = \<lparr>respWait = [], clientSubs = []\<rparr>"

text \<open>
  Where the dispatch loop stands: at its \<open>select\<close>, in \<open>cancelAllRequests\<close> with subscriptions left to end,
  in \<open>callWG.Wait\<close>, or done; the reason to close the handler says what comes after.
\<close>

datatype reason = AfterReadErr | AfterReconnect | AfterClose

datatype dispatcher = DSelect | DQuit "nat list" rpcError reason | DWait reason | DDone

record client =
  idCounter :: uint32
  ops :: "nat \<Rightarrow> requestOp"
  subs :: "nat \<Rightarrow> ClientSubscription"
  conn :: handler
  lastOp :: "nat option"
  reqLocked :: bool
  reqSent :: "rpcError option option"
  writeConn :: bool
  canReconnect :: bool
  reading :: bool
  closing :: bool
  callProcs :: nat
  pc :: dispatcher

definition set_op :: "nat \<Rightarrow> (requestOp \<Rightarrow> requestOp) \<Rightarrow> client \<Rightarrow> client" where
  "set_op k f c = c\<lparr>ops := (ops c)(k := f (ops c k))\<rparr>"

definition set_sub :: "nat \<Rightarrow> (ClientSubscription \<Rightarrow> ClientSubscription) \<Rightarrow> client \<Rightarrow> client" where
  "set_sub i f c = c\<lparr>subs := (subs c)(i := f (subs c i))\<rparr>"

section \<open>The handler\<close>

definition addRequestOp :: "nat \<Rightarrow> client \<Rightarrow> client" where
  "addRequestOp k c = c\<lparr>conn := (conn c)\<lparr>respWait := fold (\<lambda>i. AList.update i k) (op_ids (ops c k)) (respWait (conn c))\<rparr>\<rparr>"

definition removeRequestOp :: "nat \<Rightarrow> client \<Rightarrow> client" where
  "removeRequestOp k c = c\<lparr>conn := (conn c)\<lparr>respWait := fold AList.delete (op_ids (ops c k)) (respWait (conn c))\<rparr>\<rparr>"

text \<open>The loop of \<open>cancelAllRequests\<close> over the waiting requests; \<open>did\<close> is \<open>didClose\<close>.\<close>

fun cancel_loop :: "rpcError \<Rightarrow> nat list \<Rightarrow> (string \<times> nat) list \<Rightarrow> (nat \<Rightarrow> requestOp) \<Rightarrow> (nat \<Rightarrow> requestOp) out" where
  "cancel_loop e did [] os = Done os"
| "cancel_loop e did ((i, k) # rest) os =
     (if k \<in> set did then cancel_loop e did rest os
      else if op_closed (os k) then Panics ''close of closed channel''
      else cancel_loop e (k # did) rest (os(k := (os k)\<lparr>op_err := Some e, op_closed := True\<rparr>)))"

text \<open>
  \<open>close\<close> of the handler up to the subscriptions, which are ended one by one: \<open>order\<close> is the order in
  which the map yields them.
\<close>

definition handler_close :: "rpcError \<Rightarrow> nat option \<Rightarrow> nat list \<Rightarrow> reason \<Rightarrow> client \<Rightarrow> client out" where
  "handler_close e inflight order why c =
     bindO (cancel_loop e (case inflight of Some k \<Rightarrow> [k] | None \<Rightarrow> []) (respWait (conn c)) (ops c)) (\<lambda>os.
       Done (c\<lparr>ops := os, conn := newHandler, pc := DQuit order e why\<rparr>))"

definition deliver :: "nat \<Rightarrow> json option \<Rightarrow> bool \<Rightarrow> client \<Rightarrow> client" where
  "deliver i r ch c = (if sub_quit (subs c i) \<and> \<not> ch then c else set_sub i (\<lambda>s. s\<lparr>sub_in := sub_in s @ [r]\<rparr>) c)"

definition handleSubscriptionResult :: "jsonrpcMessage \<Rightarrow> bool \<Rightarrow> client \<Rightarrow> client" where
  "handleSubscriptionResult msg ch c =
     (case unmarshal_subscriptionResult (Params msg) of
        None \<Rightarrow> c
      | Some (i, r) \<Rightarrow> (case map_of (clientSubs (conn c)) i of None \<Rightarrow> c | Some s \<Rightarrow> deliver s r ch c))"

definition handleResponse :: "jsonrpcMessage \<Rightarrow> client \<Rightarrow> client out" where
  "handleResponse msg c =
     (case ID msg of None \<Rightarrow> Done c | Some i \<Rightarrow>
      case map_of (respWait (conn c)) i of
        None \<Rightarrow> Done c
      | Some k \<Rightarrow>
          (let c1 = c\<lparr>conn := (conn c)\<lparr>respWait := AList.delete i (respWait (conn c))\<rparr>\<rparr>; op = ops c k in
           if \<not> op_sub op then
              (if op_closed op then Panics ''send on closed channel''
               else if length (op_resp op) \<ge> length (op_ids op) then Blocks
               else Done (set_op k (\<lambda>op. op\<lparr>op_resp := op_resp op @ [msg]\<rparr>) c1))
            else
              (if op_closed op then Panics ''close of closed channel''
               else
                 (case MsgError msg of
                    Some e \<Rightarrow> Done (set_op k (\<lambda>op. op\<lparr>op_err := Some (AsJsonError e), op_closed := True\<rparr>) c1)
                  | None \<Rightarrow>
                      (case unmarshal_string (Result msg) of
                         None \<Rightarrow> Done (set_op k (\<lambda>op. op\<lparr>op_err := Some (RpcErrorString ''json: cannot unmarshal into a string''), op_closed := True\<rparr>) c1)
                       | Some sid \<Rightarrow>
                           Done (set_op k (\<lambda>op. op\<lparr>op_err := None, op_closed := True\<rparr>)
                             (set_sub k (\<lambda>u. u\<lparr>sub_id := sid\<rparr>)
                               (c1\<lparr>conn := (conn c1)\<lparr>clientSubs := AList.update sid k (clientSubs (conn c1))\<rparr>\<rparr>))))))))"

text \<open>
  The messages of a batch that are handled at once, and the number of those left for a goroutine. With
  each message comes the choice \<open>deliver\<close> makes if its subscription has ended but still listens. A message
  can be the nil pointer, which is what \<open>parseMessage\<close> makes of null.
\<close>

fun handleImmediate :: "jsonrpcMessage option \<times> bool \<Rightarrow> client \<Rightarrow> (bool \<times> client) out" where
  "handleImmediate (None, ch) c = Panics ''nil pointer dereference''"
| "handleImmediate (Some msg, ch) c =
     (if isNotification msg then Done (True, handleSubscriptionResult msg ch c)
      else if isResponse msg then bindO (handleResponse msg c) (\<lambda>c'. Done (True, c'))
      else Done (False, c))"

fun handle_each :: "(jsonrpcMessage option \<times> bool) list \<Rightarrow> nat \<Rightarrow> client \<Rightarrow> (nat \<times> client) out" where
  "handle_each [] n c = Done (n, c)"
| "handle_each (m # ms) n c = bindO (handleImmediate m c) (\<lambda>(handled, c'). handle_each ms (if handled then n else Suc n) c')"

definition startCallProc :: "client \<Rightarrow> client" where
  "startCallProc c = c\<lparr>callProcs := Suc (callProcs c)\<rparr>"

definition handleBatch :: "(jsonrpcMessage option \<times> bool) list \<Rightarrow> client \<Rightarrow> client out" where
  "handleBatch ms c =
     (if ms = [] then Done (startCallProc c)
      else bindO (handle_each ms 0 c) (\<lambda>(n, c'). Done (if n = 0 then c' else startCallProc c')))"

definition handleMsg :: "jsonrpcMessage option \<times> bool \<Rightarrow> client \<Rightarrow> client out" where
  "handleMsg m c = bindO (handleImmediate m c) (\<lambda>(handled, c'). Done (if handled then c' else startCallProc c'))"

section \<open>Subscriptions ending\<close>

text \<open>\<open>quitWithError\<close> without the request to the server, as the handler calls it.\<close>

definition quit_local :: "rpcError \<Rightarrow> ClientSubscription \<Rightarrow> ClientSubscription" where
  "quit_local e s =
     (if sub_once s = OnceNew then
        s\<lparr>sub_once := OnceDone, sub_quit := True, sub_err := sub_err s @ [if e = ErrClientQuit then None else Some e]\<rparr>
      else s)"

section \<open>Events\<close>

text \<open>
  Callers: \<open>NewCall\<close> starts \<open>CallContext\<close>, \<open>BatchCallContext\<close> or \<open>Subscribe\<close>, with a number of
  identifiers, whether it is a subscription and whether its context can end; \<open>NewNotify\<close> starts \<open>Notify\<close>,
  whose identifier is not sent; \<open>Unsubscribe\<close> is \<open>quitWithError\<close> with the request to the server, from \<open>Unsubscribe\<close> or from a subscription whose values
  cannot be forwarded. The dispatch loop has the events from \<open>TakeReq\<close> to \<open>Resume\<close>.
\<close>

datatype event =
    NewCall nat nat bool bool
  | NewNotify nat bool
  | RefuseReq nat rpcError
  | CheckConn nat bool
  | Dial nat "rpcError option"
  | OfferRefused nat
  | PutOnWire nat
  | WriteDone nat "rpcError option"
  | Receive nat
  | ReceiveClosed nat
  | Expire nat
  | ExpireClosed nat
  | Unsubscribe nat nat "rpcError option"
  | UnsubscribeDone nat
  | CallProcDone
  | TakeReq nat
  | TakeSent
  | ReadOp "(jsonrpcMessage option \<times> bool) list" bool
  | ReadErr rpcError "nat list"
  | Reconnected nat "nat list"
  | TakeTimeout nat
  | CloseClient "nat list"
  | QuitNext
  | Resume

definition nextIDs :: "uint32 \<Rightarrow> nat \<Rightarrow> string list" where
  "nextIDs n m = map (\<lambda>i. string_of_nat (unat (n + word_of_nat (Suc i)))) [0..<m]"

definition new_op :: "string list \<Rightarrow> bool \<Rightarrow> bool \<Rightarrow> requestOp" where
  "new_op ids s dl =
     \<lparr>op_ids = ids, op_err = None, op_resp = [], op_closed = False, op_sub = s, op_deadline = dl,
      op_got = [], op_phase = Initing, op_sent = False\<rparr>"

definition start_call :: "nat \<Rightarrow> nat \<Rightarrow> bool \<Rightarrow> bool \<Rightarrow> client \<Rightarrow> client" where
  "start_call k n s dl c =
     c\<lparr>idCounter := idCounter c + word_of_nat n, ops := (ops c)(k := new_op (nextIDs (idCounter c) n) s dl)\<rparr>"

definition set_phase :: "nat \<Rightarrow> phase \<Rightarrow> client \<Rightarrow> client" where
  "set_phase k p = set_op k (\<lambda>op. op\<lparr>op_phase := p\<rparr>)"

text \<open>\<open>write\<close> has returned: the caller reports it and goes on to wait, if it has anything to wait for.\<close>

definition finish_write :: "nat \<Rightarrow> rpcError option \<Rightarrow> client \<Rightarrow> client" where
  "finish_write k r c =
     (set_phase k (if r \<noteq> None \<or> op_ids (ops c k) = [] then Returned r else Waiting) c)\<lparr>reqSent := Some r\<rparr>"

text \<open>The end of the reconnect case of \<open>dispatch\<close>.\<close>

definition install_conn :: "client \<Rightarrow> client out" where
  "install_conn c =
     (case lastOp c of
        None \<Rightarrow> Panics ''nil pointer dereference''
      | Some k \<Rightarrow> Done (addRequestOp k (c\<lparr>conn := newHandler, reading := True, pc := DSelect\<rparr>)))"

definition order_ok :: "nat list \<Rightarrow> client \<Rightarrow> bool" where
  "order_ok order c \<longleftrightarrow> distinct order \<and> set order = set (map snd (clientSubs (conn c)))"

text \<open>
  Whether the codec that the caller writes to is closed. It is the dispatch loop that closes it, at the
  end of \<open>close\<close> of \<open>clientConn\<close>, after a read error or when the client ends; a reconnect installs a new
  one.
\<close>

definition conn_closed :: "client \<Rightarrow> bool" where
  "conn_closed c \<longleftrightarrow> \<not> reading c \<or> pc c = DDone"

text \<open>
  When an event can happen. \<open>checkWriteConn\<close> sees the codec as it is; only the client that a server
  makes for a connection, which cannot reconnect, can also find its codec closed by the server.
\<close>

fun enabled :: "event \<Rightarrow> client \<Rightarrow> bool" where
  "enabled (NewCall k n s dl) c \<longleftrightarrow> op_phase (ops c k) = Fresh \<and> (s \<longrightarrow> n = 1)"
| "enabled (NewNotify k dl) c \<longleftrightarrow> op_phase (ops c k) = Fresh"
| "enabled (RefuseReq k e) c \<longleftrightarrow>
     op_phase (ops c k) = Initing \<and> (closing c \<and> e = ErrClientQuit \<or> op_deadline (ops c k) \<and> e = ContextError)"
| "enabled (CheckConn k closed) c \<longleftrightarrow>
     op_phase (ops c k) = Sending WCheck \<and> (if canReconnect c then closed = conn_closed c else conn_closed c \<longrightarrow> closed)"
| "enabled (Dial k r) c \<longleftrightarrow> op_phase (ops c k) = Sending WDial"
| "enabled (OfferRefused k) c \<longleftrightarrow> op_phase (ops c k) = Sending WOffer \<and> pc c = DDone"
| "enabled (PutOnWire k) c \<longleftrightarrow> op_phase (ops c k) = Sending WWrite"
| "enabled (WriteDone k r) c \<longleftrightarrow>
     op_phase (ops c k) = Sending WWritten \<or> op_phase (ops c k) = Sending WWrite \<and> r \<noteq> None \<or>
     op_phase (ops c k) = Sending WCheck \<and> op_deadline (ops c k) \<and> r = Some ContextError"
| "enabled (Receive k) c \<longleftrightarrow> op_phase (ops c k) = Waiting \<and> op_resp (ops c k) \<noteq> []"
| "enabled (ReceiveClosed k) c \<longleftrightarrow> op_phase (ops c k) = Waiting \<and> op_resp (ops c k) = [] \<and> op_closed (ops c k)"
| "enabled (Expire k) c \<longleftrightarrow> op_phase (ops c k) = Waiting \<and> op_deadline (ops c k)"
| "enabled (ExpireClosed k) c \<longleftrightarrow> op_phase (ops c k) = Expired \<and> closing c"
| "enabled (Unsubscribe i k e) c \<longleftrightarrow>
     sub_once (subs c i) = OnceNew \<and> op_sub (ops c i) \<and> op_closed (ops c i) \<and> op_err (ops c i) = None \<and> op_phase (ops c k) = Fresh"
| "enabled (UnsubscribeDone i) c \<longleftrightarrow>
     (case sub_once (subs c i) of OnceRunning k e \<Rightarrow> (case op_phase (ops c k) of Returned r \<Rightarrow> True | _ \<Rightarrow> False) | _ \<Rightarrow> False)"
| "enabled CallProcDone c \<longleftrightarrow> 0 < callProcs c"
| "enabled (TakeReq k) c \<longleftrightarrow> pc c = DSelect \<and> \<not> reqLocked c \<and> op_phase (ops c k) = Initing"
| "enabled TakeSent c \<longleftrightarrow> pc c = DSelect \<and> reqSent c \<noteq> None"
| "enabled (ReadOp ms batch) c \<longleftrightarrow> pc c = DSelect \<and> reading c \<and> (batch \<or> length ms = 1)"
| "enabled (ReadErr e order) c \<longleftrightarrow> pc c = DSelect \<and> reading c \<and> order_ok order c"
| "enabled (Reconnected k order) c \<longleftrightarrow> pc c = DSelect \<and> op_phase (ops c k) = Sending WOffer \<and> order_ok order c"
| "enabled (TakeTimeout k) c \<longleftrightarrow> pc c = DSelect \<and> op_phase (ops c k) = Expired"
| "enabled (CloseClient order) c \<longleftrightarrow> pc c = DSelect \<and> order_ok order c"
| "enabled QuitNext c \<longleftrightarrow>
     (case pc c of
        DQuit (i # order) e why \<Rightarrow> (case sub_once (subs c i) of OnceRunning _ _ \<Rightarrow> False | _ \<Rightarrow> True)
      | DQuit [] e why \<Rightarrow> True
      | _ \<Rightarrow> False)"
| "enabled Resume c \<longleftrightarrow> (case pc c of DWait why \<Rightarrow> callProcs c = 0 | _ \<Rightarrow> False)"

text \<open>What it does.\<close>

fun exec :: "event \<Rightarrow> client \<Rightarrow> client out" where
  "exec (NewCall k n s dl) c = Done (start_call k n s dl c)"
| "exec (NewNotify k dl) c = Done (c\<lparr>idCounter := idCounter c + 1, ops := (ops c)(k := new_op [] False dl)\<rparr>)"
| "exec (RefuseReq k e) c = Done (set_phase k (Returned (Some e)) c)"
| "exec (CheckConn k closed) c =
     Done (if writeConn c \<and> \<not> closed then set_phase k (Sending WWrite) c
           else if canReconnect c then set_phase k (Sending WDial) c
           else finish_write k (Some errDead) c)"
| "exec (Dial k r) c = Done (if r = None then set_phase k (Sending WOffer) c else finish_write k r c)"
| "exec (OfferRefused k) c = Done (finish_write k (Some ErrClientQuit) c)"
| "exec (PutOnWire k) c = Done (set_op k (\<lambda>op. op\<lparr>op_sent := True, op_phase := Sending WWritten\<rparr>) c)"
| "exec (WriteDone k r) c =
     Done (finish_write k r (if r \<noteq> None \<and> op_phase (ops c k) \<noteq> Sending WCheck then c\<lparr>writeConn := False\<rparr> else c))"
| "exec (Receive k) c =
     Done (set_op k (\<lambda>op. op\<lparr>op_got := (if op_err op = None then op_got op @ [hd (op_resp op)] else op_got op), op_resp := tl (op_resp op),
       op_phase := (if op_err op \<noteq> None then Returned (op_err op) else if Suc (length (op_got op)) = length (op_ids op) then Returned None else Waiting)\<rparr>) c)"
| "exec (ReceiveClosed k) c =
     (if op_sub (ops c k) \<or> op_err (ops c k) \<noteq> None then Done (set_phase k (Returned (op_err (ops c k))) c)
      else Panics ''nil pointer dereference'')"
| "exec (Expire k) c = Done (set_phase k Expired c)"
| "exec (ExpireClosed k) c = Done (set_phase k (Returned (Some ContextError)) c)"
| "exec (Unsubscribe i k e) c =
     Done (start_call k 1 False False (set_sub i (\<lambda>s. s\<lparr>sub_once := OnceRunning k e, sub_quit := True\<rparr>) c))"
| "exec (UnsubscribeDone i) c =
     Done (case sub_once (subs c i) of
        OnceRunning k e \<Rightarrow>
          set_sub i (\<lambda>s. s\<lparr>sub_once := OnceDone,
            sub_err := sub_err s @ (case e of None \<Rightarrow> [] | Some e' \<Rightarrow> [if e' = ErrClientQuit then None else Some e'])\<rparr>) c
      | _ \<Rightarrow> c)"
| "exec CallProcDone c = Done (c\<lparr>callProcs := callProcs c - 1\<rparr>)"
| "exec (TakeReq k) c = Done (addRequestOp k (set_phase k (Sending WCheck) (c\<lparr>reqLocked := True, lastOp := Some k\<rparr>)))"
| "exec TakeSent c =
     (let c' = c\<lparr>reqLocked := False, lastOp := None, reqSent := None\<rparr> in
      if reqSent c = Some None then Done c'
      else case lastOp c of None \<Rightarrow> Panics ''nil pointer dereference'' | Some k \<Rightarrow> Done (removeRequestOp k c'))"
| "exec (ReadOp ms batch) c = (if batch then handleBatch ms c else handleMsg (hd ms) c)"
| "exec (ReadErr e order) c = handler_close e (lastOp c) order AfterReadErr c"
| "exec (Reconnected k order) c =
     (let c' = (set_phase k (Sending WWrite) c)\<lparr>writeConn := True\<rparr> in
      if reading c then handler_close errClientReconnected (lastOp c) order AfterReconnect c' else install_conn c')"
| "exec (TakeTimeout k) c = Done (removeRequestOp k (set_phase k (Returned (Some ContextError)) c))"
| "exec (CloseClient order) c =
     (let c' = c\<lparr>closing := True\<rparr> in
      if reading c then handler_close ErrClientQuit None order AfterClose c' else Done (c'\<lparr>pc := DDone\<rparr>))"
| "exec QuitNext c =
     Done (case pc c of
        DQuit (i # order) e why \<Rightarrow> (set_sub i (quit_local e) c)\<lparr>pc := DQuit order e why\<rparr>
      | DQuit [] e why \<Rightarrow> c\<lparr>pc := DWait why\<rparr>
      | _ \<Rightarrow> c)"
| "exec Resume c =
     (case pc c of
        DWait AfterReadErr \<Rightarrow> Done (c\<lparr>reading := False, pc := DSelect\<rparr>)
      | DWait AfterReconnect \<Rightarrow> install_conn c
      | DWait AfterClose \<Rightarrow> Done (c\<lparr>pc := DDone\<rparr>)
      | _ \<Rightarrow> Done c)"

section \<open>Runs\<close>

definition fresh_op :: requestOp where
  "fresh_op = (new_op [] False False)\<lparr>op_phase := Fresh\<rparr>"

definition fresh_sub :: ClientSubscription where
  "fresh_sub = \<lparr>sub_id = '''', sub_in = [], sub_once = OnceNew, sub_quit = False, sub_err = []\<rparr>"

definition initClient :: "bool \<Rightarrow> client" where
  "initClient reconnect =
     \<lparr>idCounter = 0, ops = (\<lambda>_. fresh_op), subs = (\<lambda>_. fresh_sub), conn = newHandler, lastOp = None,
      reqLocked = False, reqSent = None, writeConn = True, canReconnect = reconnect, reading = True,
      closing = False, callProcs = 0, pc = DSelect\<rparr>"

text \<open>The server sends no null in place of a message, and answers a request only after it was put on the wire.\<close>

definition answers_sent :: "event \<Rightarrow> client \<Rightarrow> bool" where
  "answers_sent ev c =
     (case ev of
        ReadOp ms batch \<Rightarrow>
          list_all (\<lambda>(m, ch). case m of None \<Rightarrow> False | Some msg \<Rightarrow> isResponse msg \<longrightarrow>
            (case ID msg of None \<Rightarrow> True | Some i \<Rightarrow> (case map_of (respWait (conn c)) i of None \<Rightarrow> True | Some k \<Rightarrow> op_sent (ops c k)))) ms
      | _ \<Rightarrow> True)"

text \<open>One step of a client whose environment is bound by \<open>P\<close>, and any number of them.\<close>

inductive client_step :: "(event \<Rightarrow> client \<Rightarrow> bool) \<Rightarrow> client \<Rightarrow> client \<Rightarrow> bool" for P where
  move: "enabled ev c \<Longrightarrow> P ev c \<Longrightarrow> exec ev c = Done c' \<Longrightarrow> client_step P c c'"

inductive_cases client_stepE: "client_step P c c'"

abbreviation run :: "(event \<Rightarrow> client \<Rightarrow> bool) \<Rightarrow> client \<Rightarrow> client \<Rightarrow> bool" where
  "run P \<equiv> (client_step P)\<^sup>*\<^sup>*"

fun exec_all :: "(event \<Rightarrow> client \<Rightarrow> bool) \<Rightarrow> event list \<Rightarrow> client \<Rightarrow> client out" where
  "exec_all P [] c = Done c"
| "exec_all P (ev # evs) c = (if enabled ev c \<and> P ev c then bindO (exec ev c) (exec_all P evs) else Blocks)"

end
