(* ===== verification/RpcInvariant.thy ===== *)
theory RpcInvariant
  imports RpcClient
begin

text \<open>
  The invariant of the client's connection: what holds of every request between the caller, the write
  lock, the handler's table and the channels, and that every event of the model keeps it when the
  server answers only requests that were sent.
\<close>

section \<open>Invariant\<close>

text \<open>
  What holds of a request that is registered under the identifiers \<open>keys\<close>, is or is not the last one
  that the loop took, while the channel \<open>reqSent\<close> is or is not empty and the client is or is not
  closing.
\<close>

definition keys_inv :: "string set \<Rightarrow> bool \<Rightarrow> requestOp \<Rightarrow> bool" where
  "keys_inv keys islast op \<longleftrightarrow>
     (keys \<noteq> {} \<longrightarrow> keys \<subseteq> set (op_ids op) \<and> \<not> op_closed op \<and> op_phase op \<notin> {Fresh, Initing} \<and> (op_sent op \<or> islast) \<and>
        (\<forall>i\<in>keys. Some i \<notin> ID ` set (op_got op @ op_resp op)))"

definition op_inv :: "string set \<Rightarrow> bool \<Rightarrow> bool \<Rightarrow> bool \<Rightarrow> requestOp \<Rightarrow> bool" where
  "op_inv keys islast idle cl op \<longleftrightarrow> keys_inv keys islast op \<and> (op_sub op \<longrightarrow> length (op_ids op) = 1) \<and>
     (\<forall>w. op_phase op = Sending w \<longrightarrow> islast \<and> idle \<and> (op_sent op \<longleftrightarrow> w = WWritten)) \<and>
     (op_phase op \<in> {Fresh, Initing} \<longrightarrow> \<not> op_sent op \<and> \<not> op_closed op \<and> \<not> islast) \<and>
     (\<not> op_sent op \<longrightarrow> op_resp op = [] \<and> op_got op = [] \<and> (op_closed op \<longrightarrow> cl)) \<and>
     (op_closed op \<and> \<not> op_sub op \<longrightarrow> op_err op \<noteq> None) \<and>
     (op_phase op = Returned None \<and> \<not> op_sub op \<longrightarrow> length (op_got op) = length (op_ids op)) \<and>
     ID ` set (op_got op @ op_resp op) \<subseteq> Some ` set (op_ids op) \<and> distinct (map ID (op_got op @ op_resp op))"

definition keys_of :: "client \<Rightarrow> nat \<Rightarrow> string set" where
  "keys_of c k = {i. (i, k) \<in> set (respWait (conn c))}"

abbreviation op_ok :: "client \<Rightarrow> nat \<Rightarrow> bool" where
  "op_ok c k \<equiv> op_inv (keys_of c k) (lastOp c = Some k) (reqSent c = None) (closing c) (ops c k)"

definition reconnecting :: "dispatcher \<Rightarrow> bool" where
  "reconnecting d = (case d of DQuit _ _ why \<Rightarrow> why = AfterReconnect | DWait why \<Rightarrow> why = AfterReconnect | _ \<Rightarrow> False)"

definition ending :: "dispatcher \<Rightarrow> bool" where
  "ending d = (case d of DQuit _ _ why \<Rightarrow> why = AfterClose | DWait why \<Rightarrow> why = AfterClose | DDone \<Rightarrow> True | _ \<Rightarrow> False)"

text \<open>The request that a reconnect registers anew has not been answered.\<close>

definition unanswered :: "requestOp \<Rightarrow> bool" where
  "unanswered op \<longleftrightarrow> op_resp op = [] \<and> op_got op = [] \<and> \<not> op_closed op"

definition loop_ok :: "client \<Rightarrow> bool" where
  "loop_ok c \<longleftrightarrow>
     (\<not> reqLocked c \<longrightarrow> lastOp c = None \<and> reqSent c = None) \<and>
     (reqSent c \<noteq> None \<longrightarrow> (\<exists>k. lastOp c = Some k \<and> (reqSent c = Some None \<longrightarrow> op_sent (ops c k)))) \<and>
     (closing c \<longrightarrow> ending (pc c)) \<and>
     (reconnecting (pc c) \<longrightarrow> (\<exists>k. lastOp c = Some k \<and> unanswered (ops c k)))"

definition client_inv :: "client \<Rightarrow> bool" where
  "client_inv c \<longleftrightarrow> loop_ok c \<and> (\<forall>k. op_ok c k)"

lemmas client_defs = set_op_def set_phase_def set_sub_def finish_write_def start_call_def new_op_def

lemma client_invD: "client_inv c \<Longrightarrow> op_ok c k" "client_inv c \<Longrightarrow> loop_ok c"
  by (simp_all add: client_inv_def)

lemma initClient_inv: "client_inv (initClient b)"
  by (simp add: client_inv_def initClient_def loop_ok_def op_inv_def keys_inv_def keys_of_def fresh_op_def new_op_def newHandler_def reconnecting_def)

text \<open>Changes that do not matter to a request.\<close>

lemma op_inv_other: "op_inv K False idle cl op \<Longrightarrow> op_inv K False idle' cl op"
  by (simp add: op_inv_def)

lemma op_inv_keys: "op_inv K l idle cl op \<Longrightarrow> K' \<subseteq> K \<Longrightarrow> op_inv K' l idle cl op"
proof -
  assume a: "op_inv K l idle cl op" "K' \<subseteq> K"
  then have "keys_inv K l op" by (simp add: op_inv_def)
  with a(2) have "keys_inv K' l op" unfolding keys_inv_def by blast
  with a(1) show ?thesis by (simp add: op_inv_def)
qed

lemma op_inv_closing: "op_inv K l idle cl op \<Longrightarrow> op_inv K l idle True op"
  by (simp add: op_inv_def)

lemma op_inv_fresh: "op_inv K l idle cl op \<Longrightarrow> op_phase op \<in> {Fresh, Initing} \<Longrightarrow> K = {} \<and> \<not> l"
  unfolding op_inv_def keys_inv_def by blast

lemma op_inv_sending: "op_inv K l idle cl op \<Longrightarrow> op_phase op = Sending w \<Longrightarrow> l \<and> idle"
  by (simp add: op_inv_def)

lemma op_inv_new: "s \<longrightarrow> length ids = 1 \<Longrightarrow> op_inv {} False idle cl (new_op ids s dl)"
  by (simp add: op_inv_def keys_inv_def new_op_def)

text \<open>A caller moves on, without a change to the request but its phase.\<close>

lemma op_inv_phase:
  assumes "op_inv K l idle cl op" "p \<notin> {Fresh, Initing}"
    and "\<forall>w. p = Sending w \<longrightarrow> l \<and> idle \<and> (op_sent op \<longleftrightarrow> w = WWritten)"
    and "p = Returned None \<longrightarrow> op_sub op"
  shows "op_inv K l idle cl (op\<lparr>op_phase := p\<rparr>)"
  using assms by (simp add: op_inv_def keys_inv_def) blast

text \<open>Only the phase of one request and what the loop does not look at change.\<close>

lemma inv_phase:
  assumes "client_inv c" "p \<notin> {Fresh, Initing}"
    and "\<forall>w. p = Sending w \<longrightarrow> lastOp c = Some k \<and> reqSent c = None \<and> (op_sent (ops c k) \<longleftrightarrow> w = WWritten)"
    and "p = Returned None \<longrightarrow> op_sub (ops c k)"
  shows "client_inv (set_phase k p c)"
proof -
  have "op_ok (set_phase k p c) j" for j
    using op_inv_phase [OF client_invD(1) [OF assms(1), of k] assms(2)] assms(3,4) client_invD(1) [OF assms(1), of j]
    by (auto simp: client_defs keys_of_def)
  moreover have "loop_ok (set_phase k p c)"
    using client_invD(2) [OF assms(1)] unfolding loop_ok_def by (auto simp: client_defs unanswered_def)
  ultimately show ?thesis by (simp add: client_inv_def)
qed

lemma inv_finish_write:
  assumes "client_inv c" "op_phase (ops c k) = Sending w" "r = None \<longrightarrow> w = WWritten"
  shows "client_inv (finish_write k r c)"
proof -
  have last: "lastOp c = Some k" and sent: "r = None \<longrightarrow> op_sent (ops c k)"
    using client_invD(1) [OF assms(1), of k] assms(2,3) by (simp_all add: op_inv_def)
  have "op_ok (finish_write k r c) j" for j
  proof (cases "j = k")
    case True
    have "op_inv K l False cl ((ops c k)\<lparr>op_phase := p\<rparr>)"
      if "op_inv K l i cl (ops c k)" "\<forall>w. p \<noteq> Sending w" "p \<notin> {Fresh, Initing}" "p = Returned None \<longrightarrow> op_ids (ops c k) = []" for K l i cl p
      using that by (auto simp: op_inv_def keys_inv_def)
    from this [OF client_invD(1) [OF assms(1), of k]] show ?thesis
      using True by (cases r) (simp_all add: client_defs keys_of_def)
  next
    case False
    then show ?thesis
      using op_inv_other [of "keys_of c j" "reqSent c = None" "closing c" "ops c j" False] client_invD(1) [OF assms(1), of j] last
      by (simp add: client_defs keys_of_def)
  qed
  moreover have "loop_ok (finish_write k r c)"
    using client_invD(2) [OF assms(1)] last sent unfolding loop_ok_def by (auto simp: client_defs unanswered_def)
  ultimately show ?thesis by (simp add: client_inv_def)
qed

lemma inv_new_call:
  assumes "client_inv c" "op_phase (ops c k) = Fresh" "s \<longrightarrow> length ids = 1"
  shows "client_inv (c\<lparr>idCounter := n, ops := (ops c)(k := new_op ids s dl)\<rparr>)"
proof -
  note fresh = op_inv_fresh [OF client_invD(1) [OF assms(1), of k]]
  have "op_ok (c\<lparr>idCounter := n, ops := (ops c)(k := new_op ids s dl)\<rparr>) j" for j
    using fresh assms(2) op_inv_new [OF assms(3)] client_invD(1) [OF assms(1), of j] by (auto simp: keys_of_def)
  moreover have "loop_ok (c\<lparr>idCounter := n, ops := (ops c)(k := new_op ids s dl)\<rparr>)"
    using fresh assms(2) client_invD(2) [OF assms(1)] unfolding loop_ok_def by auto
  ultimately show ?thesis by (simp add: client_inv_def)
qed

lemma inv_cong:
  assumes "client_inv c" "ops c' = ops c" "conn c' = conn c" "lastOp c' = lastOp c" "reqSent c' = reqSent c"
    and "reqLocked c' = reqLocked c" "closing c' = closing c" "pc c' = pc c"
  shows "client_inv c'"
  using assms by (simp add: client_inv_def loop_ok_def keys_of_def)

section \<open>Registering requests\<close>

lemma set_alist_update: "set (AList.update i k m) \<subseteq> insert (i, k) (set m)"
  by (induction m) auto

lemma set_registered: "set (fold (\<lambda>i. AList.update i k) ids m) \<subseteq> (\<lambda>i. (i, k)) ` set ids \<union> set m"
proof (induction ids arbitrary: m)
  case (Cons i ids)
  then show ?case using set_alist_update [of i k m] by fastforce
qed simp

lemma set_removed: "set (fold AList.delete ids m) = {p \<in> set m. fst p \<notin> set ids}"
  by (induction ids arbitrary: m) (auto simp: AList.delete_eq)

lemma keys_of_add: "keys_of (addRequestOp k c) j \<subseteq> (if j = k then set (op_ids (ops c k)) \<union> keys_of c k else keys_of c j)"
  using set_registered [of k "op_ids (ops c k)" "respWait (conn c)"] by (auto simp: keys_of_def addRequestOp_def)

lemma keys_of_remove: "keys_of (removeRequestOp k c) j = keys_of c j - set (op_ids (ops c k))"
  by (auto simp: keys_of_def removeRequestOp_def set_removed)

lemma op_inv_register:
  assumes "op_inv K True idle cl op" "unanswered op" "op_phase op \<notin> {Fresh, Initing}" "K' \<subseteq> set (op_ids op) \<union> K"
  shows "op_inv K' True idle cl op"
proof -
  have "keys_inv K True op" using assms(1) by (simp add: op_inv_def)
  then have "keys_inv K' True op" using assms(2-4) unfolding keys_inv_def unanswered_def by auto
  with assms(1) show ?thesis by (simp add: op_inv_def)
qed

lemma inv_add:
  assumes "client_inv c" "lastOp c = Some k" "unanswered (ops c k)" "op_phase (ops c k) \<notin> {Fresh, Initing}"
  shows "client_inv (addRequestOp k c)"
proof -
  have "op_inv (keys_of (addRequestOp k c) j) (lastOp c = Some j) (reqSent c = None) (closing c) (ops c j)" for j
    using op_inv_register [OF _ assms(3,4), of "keys_of c k" "reqSent c = None" "closing c" "keys_of (addRequestOp k c) k"]
      op_inv_keys [OF client_invD(1) [OF assms(1), of j], of "keys_of (addRequestOp k c) j"]
      client_invD(1) [OF assms(1), of k] keys_of_add [of k c j] assms(2)
    by (cases "j = k") simp_all
  then have "op_ok (addRequestOp k c) j" for j by (simp add: addRequestOp_def)
  moreover have "loop_ok (addRequestOp k c)" using client_invD(2) [OF assms(1)] by (simp add: loop_ok_def addRequestOp_def)
  ultimately show ?thesis by (simp add: client_inv_def)
qed

lemma inv_remove:
  assumes "client_inv c"
  shows "client_inv (removeRequestOp k c)"
proof -
  have "op_inv (keys_of (removeRequestOp k c) j) (lastOp c = Some j) (reqSent c = None) (closing c) (ops c j)" for j
    by (rule op_inv_keys [OF client_invD(1) [OF assms]]) (simp add: keys_of_remove)
  then have "op_ok (removeRequestOp k c) j" for j by (simp add: removeRequestOp_def)
  moreover have "loop_ok (removeRequestOp k c)" using client_invD(2) [OF assms] by (simp add: loop_ok_def removeRequestOp_def)
  ultimately show ?thesis by (simp add: client_inv_def)
qed

lemma inv_take_req:
  assumes "client_inv c" "\<not> reqLocked c" "op_phase (ops c k) = Initing"
  shows "client_inv (addRequestOp k (set_phase k (Sending WCheck) (c\<lparr>reqLocked := True, lastOp := Some k\<rparr>)))" (is "client_inv (addRequestOp k ?c)")
proof (rule inv_add)
  have free: "lastOp c = None" "reqSent c = None" using client_invD(2) [OF assms(1)] assms(2) by (simp_all add: loop_ok_def)
  have start: "op_inv K True True cl (op\<lparr>op_phase := Sending WCheck\<rparr>)" if "op_inv K False True cl op" "op_phase op = Initing" for K cl op
    using that op_inv_fresh [OF that(1)] by (simp add: op_inv_def keys_inv_def)
  have "op_ok ?c j" for j
    using start [OF _ assms(3), of "keys_of c k" "closing c"] client_invD(1) [OF assms(1), of k] client_invD(1) [OF assms(1), of j] free
    by (cases "j = k") (simp_all add: client_defs keys_of_def)
  moreover have "loop_ok ?c"
    using client_invD(2) [OF assms(1)] free by (simp add: loop_ok_def client_defs)
  ultimately show "client_inv ?c" by (simp add: client_inv_def)
  show "unanswered (ops ?c k)"
    using client_invD(1) [OF assms(1), of k] assms(3) by (simp add: op_inv_def unanswered_def client_defs)
qed (simp_all add: client_defs)

lemma inv_take_sent:
  assumes "client_inv c" "reqSent c = Some r" "pc c = DSelect"
  shows "\<exists>c'. exec TakeSent c = Done c' \<and> client_inv c'"
proof -
  obtain k where k: "lastOp c = Some k" "r = None \<longrightarrow> op_sent (ops c k)"
    using client_invD(2) [OF assms(1)] assms(2) by (auto simp: loop_ok_def)
  let ?c = "c\<lparr>reqLocked := False, lastOp := None, reqSent := None\<rparr>"
  let ?d = "if r = None then ?c else removeRequestOp k ?c"
  have released: "op_inv K' False True cl op"
    if "op_inv K True False cl op" "K' \<subseteq> K" "op_sent op \<or> K' = {}" for K K' cl op
    using op_inv_keys [OF that(1,2)] that(3) by (auto simp: op_inv_def keys_inv_def)
  have sub: "keys_of ?d j \<subseteq> keys_of c j" for j
    using keys_of_remove [of k ?c j] by (auto simp: keys_of_def)
  have none: "keys_of ?d k = {}" if "r \<noteq> None"
    using that keys_of_remove [of k ?c k] client_invD(1) [OF assms(1), of k]
    by (auto simp: op_inv_def keys_inv_def keys_of_def)
  have fields: "ops ?d = ops c" "lastOp ?d = None" "reqSent ?d = None" "closing ?d = closing c" "pc ?d = pc c" "reqLocked ?d = False"
    by (simp_all add: removeRequestOp_def)
  have "op_ok ?d j" for j
    using released [of "keys_of c k" "closing c" "ops c k" "keys_of ?d k"] none sub client_invD(1) [OF assms(1), of k] k assms(2)
      op_inv_keys [OF op_inv_other [of "keys_of c j" False "closing c" "ops c j" True], of "keys_of ?d j"] client_invD(1) [OF assms(1), of j]
    unfolding fields by (cases "j = k") auto
  moreover have "loop_ok ?d"
    using client_invD(2) [OF assms(1)] assms(3) unfolding loop_ok_def fields by (simp add: reconnecting_def)
  moreover have "exec TakeSent c = Done ?d" using k assms(2) by (auto simp: Let_def)
  ultimately show ?thesis by (simp add: client_inv_def)
qed

section \<open>Messages\<close>

lemma op_inv_answered:
  assumes "op_inv K l idle cl op" "i \<in> K" "ID m = Some i" "op_sent op" "K' \<subseteq> K - {i}"
  shows "op_inv K' l idle cl (op\<lparr>op_resp := op_resp op @ [m]\<rparr>)"
proof -
  have "keys_inv K l op" using assms(1) by (simp add: op_inv_def)
  then have "keys_inv K' l (op\<lparr>op_resp := op_resp op @ [m]\<rparr>)" "Some i \<notin> ID ` set (op_got op @ op_resp op)" "i \<in> set (op_ids op)"
    using assms(2-5) unfolding keys_inv_def by auto
  with assms(1,3,4) show ?thesis by (auto simp: op_inv_def)
qed

text \<open>There is room for a response that somebody waits for.\<close>

lemma op_inv_room:
  assumes "op_inv K l idle cl op" "i \<in> K"
  shows "length (op_resp op) < length (op_ids op)"
proof -
  have "keys_inv K l op" "distinct (map ID (op_got op @ op_resp op))" "ID ` set (op_got op @ op_resp op) \<subseteq> Some ` set (op_ids op)"
    using assms(1) by (simp_all add: op_inv_def)
  then have "distinct (Some i # map ID (op_got op @ op_resp op))" "set (Some i # map ID (op_got op @ op_resp op)) \<subseteq> Some ` set (op_ids op)"
    using assms(2) unfolding keys_inv_def by auto
  then have "length (Some i # map ID (op_got op @ op_resp op)) \<le> card (Some ` set (op_ids op))"
    using distinct_card [of "Some i # map ID (op_got op @ op_resp op)"] card_mono [of "Some ` set (op_ids op)"] by (metis List.finite_set finite_imageI)
  also have "\<dots> \<le> length (op_ids op)" using card_image_le card_length order_trans by (metis List.finite_set)
  finally show ?thesis by simp
qed

lemma op_inv_closed:
  assumes "op_inv K l idle cl op" "op_sub op \<or> e \<noteq> None" "op_sent op \<or> cl" "op_phase op \<notin> {Fresh, Initing}"
  shows "op_inv {} l idle cl (op\<lparr>op_err := e, op_closed := True\<rparr>)"
  using assms by (auto simp: op_inv_def keys_inv_def)

text \<open>What handling messages leaves alone.\<close>

definition same_loop :: "client \<Rightarrow> client \<Rightarrow> bool" where
  "same_loop c c' \<longleftrightarrow>
     lastOp c' = lastOp c \<and> reqSent c' = reqSent c \<and> reqLocked c' = reqLocked c \<and> closing c' = closing c \<and> pc c' = pc c \<and>
     reading c' = reading c \<and> map_of (respWait (conn c')) \<subseteq>\<^sub>m map_of (respWait (conn c)) \<and> (\<forall>k. op_sent (ops c' k) = op_sent (ops c k))"

lemma same_loop_refl [simp]: "same_loop c c"
  by (simp add: same_loop_def)

lemma same_loop_trans: "same_loop a b \<Longrightarrow> same_loop b c \<Longrightarrow> same_loop a c"
  by (auto simp: same_loop_def intro: map_le_trans)

definition response_sent :: "client \<Rightarrow> jsonrpcMessage option \<Rightarrow> bool" where
  "response_sent c m =
     (case m of None \<Rightarrow> False | Some msg \<Rightarrow> isResponse msg \<longrightarrow>
        (case ID msg of None \<Rightarrow> True | Some i \<Rightarrow> (case map_of (respWait (conn c)) i of None \<Rightarrow> True | Some k \<Rightarrow> op_sent (ops c k))))"

lemma response_sent_same: "response_sent c m \<Longrightarrow> same_loop c c' \<Longrightarrow> response_sent c' m"
  unfolding response_sent_def same_loop_def map_le_def by (force split: option.splits)

text \<open>One request changes and loses an identifier.\<close>

lemma inv_one_request:
  assumes "client_inv c" "pc c = DSelect" "op_inv (keys_of c k - {i}) (lastOp c = Some k) (reqSent c = None) (closing c) op"
    and "op_sent op = op_sent (ops c k)"
    and "ops c' = (ops c)(k := op)" "respWait (conn c') = AList.delete i (respWait (conn c))"
    and "lastOp c' = lastOp c" "reqSent c' = reqSent c" "reqLocked c' = reqLocked c" "closing c' = closing c" "pc c' = pc c" "reading c' = reading c"
  shows "client_inv c' \<and> same_loop c c'"
proof -
  have keys: "keys_of c' j = keys_of c j - {i}" for j
    using assms(6) by (auto simp: keys_of_def AList.delete_eq)
  have "op_ok c' j" for j
    using assms(3) op_inv_keys [OF client_invD(1) [OF assms(1), of j], of "keys_of c j - {i}"]
    unfolding keys assms(5,7-10) by (cases "j = k") auto
  moreover have "loop_ok c'"
    using client_invD(2) [OF assms(1)] assms(2,4) unfolding loop_ok_def assms(5,7-11) by (auto simp: reconnecting_def)
  moreover have "same_loop c c'"
    using assms(4-12) by (auto simp: same_loop_def AList.delete_conv' map_le_def)
  ultimately show ?thesis by (simp add: client_inv_def)
qed

lemma handleResponse_inv:
  assumes "client_inv c" "pc c = DSelect" "isResponse m" "response_sent c (Some m)"
  shows "\<exists>c'. handleResponse m c = Done c' \<and> client_inv c' \<and> same_loop c c'"
proof (cases "\<exists>i k. ID m = Some i \<and> map_of (respWait (conn c)) i = Some k")
  case True
  then obtain i k where i: "ID m = Some i" "map_of (respWait (conn c)) i = Some k" by blast
  then have key: "i \<in> keys_of c k" by (auto simp: keys_of_def map_of_SomeD)
  note ok = client_invD(1) [OF assms(1), of k]
  have sent: "op_sent (ops c k)" using assms(3,4) i by (simp add: response_sent_def)
  have op: "\<not> op_closed (ops c k)" "op_phase (ops c k) \<notin> {Fresh, Initing}"
    using ok key by (auto simp: op_inv_def keys_inv_def)
  have closed: "op_inv (keys_of c k - {i}) (lastOp c = Some k) (reqSent c = None) (closing c) ((ops c k)\<lparr>op_err := e, op_closed := True\<rparr>)"
    if "op_sub (ops c k)" for e
  proof -
    have "length (op_ids (ops c k)) = 1" "keys_of c k \<subseteq> set (op_ids (ops c k))"
      using ok that key by (auto simp: op_inv_def keys_inv_def)
    then obtain x where "keys_of c k \<subseteq> {x}" by (metis One_nat_def length_0_conv length_Suc_conv list.set(1,2))
    then have "keys_of c k - {i} = {}" using key by blast
    then show ?thesis using op_inv_closed [OF ok _ _ op(2)] that sent by metis
  qed
  show ?thesis
  proof (cases "op_sub (ops c k)")
    case False
    then show ?thesis
      using op op_inv_room [OF ok key] op_inv_answered [OF ok key i(1) sent subset_refl] i
      by (auto simp: handleResponse_def Let_def client_defs intro!: inv_one_request [OF assms(1,2), of k i, THEN conjunct1] inv_one_request [OF assms(1,2), of k i, THEN conjunct2])
  next
    case True
    then show ?thesis
      using op closed [OF True] i
      by (auto simp: handleResponse_def Let_def client_defs intro!: inv_one_request [OF assms(1,2), of k i, THEN conjunct1] inv_one_request [OF assms(1,2), of k i, THEN conjunct2] split: option.splits)
  qed
next
  case False
  then show ?thesis using assms(1) by (auto simp: handleResponse_def split: option.splits)
qed

lemma handleSubscriptionResult_inv:
  assumes "client_inv c"
  shows "client_inv (handleSubscriptionResult m ch c) \<and> same_loop c (handleSubscriptionResult m ch c)"
proof -
  have "client_inv (deliver i r ch c) \<and> same_loop c (deliver i r ch c)" for i r
    using inv_cong [OF assms, of "deliver i r ch c"] by (simp add: deliver_def set_sub_def same_loop_def)
  then show ?thesis using assms by (auto simp: handleSubscriptionResult_def split: option.split)
qed

lemma handleImmediate_inv:
  assumes "client_inv c" "pc c = DSelect" "response_sent c (fst m)"
  shows "\<exists>h c'. handleImmediate m c = Done (h, c') \<and> client_inv c' \<and> same_loop c c'"
proof -
  obtain msg ch where m: "m = (Some msg, ch)" using assms(3) by (cases m; cases "fst m") (auto simp: response_sent_def)
  show ?thesis
    using handleSubscriptionResult_inv [OF assms(1), of msg ch] handleResponse_inv [OF assms(1,2), of msg] assms
    unfolding m by (cases "isNotification msg"; cases "isResponse msg") auto
qed

lemma handle_each_inv:
  "client_inv c \<Longrightarrow> pc c = DSelect \<Longrightarrow> list_all (\<lambda>m. response_sent c (fst m)) ms \<Longrightarrow>
    \<exists>n' c'. handle_each ms n c = Done (n', c') \<and> client_inv c' \<and> same_loop c c'"
proof (induction ms arbitrary: n c)
  case (Cons m ms)
  obtain h c1 where c1: "handleImmediate m c = Done (h, c1)" "client_inv c1" "same_loop c c1"
    using handleImmediate_inv [of c m] Cons.prems by auto
  then have "list_all (\<lambda>m. response_sent c1 (fst m)) ms" "pc c1 = DSelect"
    using Cons.prems response_sent_same by (auto simp: list_all_iff same_loop_def)
  from Cons.IH [OF c1(2) this(2,1), of "if h then n else Suc n"] show ?case
    using c1 same_loop_trans by fastforce
qed simp

lemma answers_sent_iff: "answers_sent (ReadOp ms batch) c = list_all (\<lambda>m. response_sent c (fst m)) ms"
  by (simp add: answers_sent_def response_sent_def list_all_iff split_beta)

lemma read_inv:
  assumes "client_inv c" "enabled (ReadOp ms batch) c" "answers_sent (ReadOp ms batch) c"
  shows "\<exists>c'. exec (ReadOp ms batch) c = Done c' \<and> client_inv c' \<and> same_loop c c'"
proof -
  have sent: "list_all (\<lambda>m. response_sent c (fst m)) ms" using assms(3) by (simp add: answers_sent_iff)
  have started: "client_inv (startCallProc c') \<and> same_loop c (startCallProc c')" if "client_inv c'" "same_loop c c'" for c'
    using inv_cong [OF that(1), of "startCallProc c'"] that(2) by (simp add: startCallProc_def same_loop_def)
  obtain n' c1 where each: "handle_each ms 0 c = Done (n', c1)" "client_inv c1" "same_loop c c1"
    using handle_each_inv [OF assms(1) _ sent, of 0] assms(2) by auto
  show ?thesis
  proof (cases batch)
    case True
    then show ?thesis using each started [OF each(2,3)] started [OF assms(1)] by (auto simp: handleBatch_def)
  next
    case False
    then obtain m where m: "ms = [m]" using assms(2) by (auto simp: length_Suc_conv)
    then obtain h c2 where "handleImmediate m c = Done (h, c2)" "client_inv c2" "same_loop c c2"
      using handleImmediate_inv [OF assms(1), of m] sent assms(2) by auto
    then show ?thesis using False m started [of c2] by (auto simp: handleMsg_def)
  qed
qed

section \<open>Closing a handler\<close>

lemma cancel_loop_closes:
  assumes "\<forall>(i, k)\<in>set ws. k \<in> set did \<or> \<not> op_closed (os k)"
  shows "cancel_loop e did ws os =
    Done (\<lambda>k. if k \<in> snd ` set ws - set did then (os k)\<lparr>op_err := Some e, op_closed := True\<rparr> else os k)"
  using assms
proof (induction ws arbitrary: did os)
  case (Cons w ws)
  obtain i k where w: "w = (i, k)" by fastforce
  show ?case
  proof (cases "k \<in> set did")
    case True
    then show ?thesis using Cons.IH [of did os] Cons.prems w by (auto intro!: ext)
  next
    case False
    let ?os = "os(k := (os k)\<lparr>op_err := Some e, op_closed := True\<rparr>)"
    have "\<forall>(i, j)\<in>set ws. j \<in> set (k # did) \<or> \<not> op_closed (?os j)" using Cons.prems by auto
    from Cons.IH [OF this] show ?thesis
      using False Cons.prems w by (simp del: fun_upd_apply) (auto intro!: ext)
  qed
qed simp

lemma op_inv_cancelled: "op_inv K l idle cl op \<Longrightarrow> K \<noteq> {} \<Longrightarrow> op_sent op \<or> cl \<Longrightarrow> op_inv {} l idle cl (op\<lparr>op_err := Some e, op_closed := True\<rparr>)"
  using op_inv_closed [of K l idle cl op "Some e"] by (auto simp: op_inv_def keys_inv_def)

text \<open>
  Closing the handler ends every waiting request except the one in flight; \<open>b\<close> says whether the
  client is closing for good.
\<close>

definition after_close :: "bool \<Rightarrow> rpcError \<Rightarrow> nat option \<Rightarrow> nat list \<Rightarrow> reason \<Rightarrow> client \<Rightarrow> client" where
  "after_close b e inflight order why c =
     c\<lparr>closing := b,
       ops := (\<lambda>k. if keys_of c k \<noteq> {} \<and> inflight \<noteq> Some k then (ops c k)\<lparr>op_err := Some e, op_closed := True\<rparr> else ops c k),
       conn := newHandler, pc := DQuit order e why\<rparr>"

lemma after_close_simps [simp]:
  "closing (after_close b e inflight order why c) = b"
  "ops (after_close b e inflight order why c) k =
     (if keys_of c k \<noteq> {} \<and> inflight \<noteq> Some k then (ops c k)\<lparr>op_err := Some e, op_closed := True\<rparr> else ops c k)"
  "conn (after_close b e inflight order why c) = newHandler"
  "pc (after_close b e inflight order why c) = DQuit order e why"
  "lastOp (after_close b e inflight order why c) = lastOp c"
  "reqSent (after_close b e inflight order why c) = reqSent c"
  "reqLocked (after_close b e inflight order why c) = reqLocked c"
  by (simp_all add: after_close_def)

lemma handler_close_eq:
  assumes "client_inv c"
  shows "handler_close e inflight order why (c\<lparr>closing := b\<rparr>) = Done (after_close b e inflight order why c)"
proof -
  let ?did = "case inflight of Some k \<Rightarrow> [k] | None \<Rightarrow> []"
  have keys: "k \<in> snd ` set (respWait (conn c)) - set ?did \<longleftrightarrow> keys_of c k \<noteq> {} \<and> inflight \<noteq> Some k" for k
    by (force simp: keys_of_def split: option.split)
  have "\<forall>(i, k)\<in>set (respWait (conn c)). \<not> op_closed (ops c k)"
    using client_invD(1) [OF assms] by (fastforce simp: op_inv_def keys_inv_def keys_of_def)
  then have "cancel_loop e ?did (respWait (conn c)) (ops c) =
      Done (\<lambda>k. if k \<in> snd ` set (respWait (conn c)) - set ?did then (ops c k)\<lparr>op_err := Some e, op_closed := True\<rparr> else ops c k)"
    by (intro cancel_loop_closes) auto
  then show ?thesis unfolding keys by (simp add: handler_close_def after_close_def)
qed

lemma after_close_inv:
  assumes "client_inv c" "pc c = DSelect" "why = AfterClose \<longleftrightarrow> b"
    and "inflight = (if b then None else lastOp c)"
    and "why = AfterReconnect \<longrightarrow> (\<exists>k. lastOp c = Some k \<and> unanswered (ops c k))"
  shows "client_inv (after_close b e inflight order why c)"
proof -
  have alive: "\<not> closing c" using client_invD(2) [OF assms(1)] assms(2) by (auto simp: loop_ok_def ending_def)
  have "op_inv {} (lastOp c = Some j) (reqSent c = None) b (ops (after_close b e inflight order why c) j)" for j
  proof -
    have ok: "op_inv (keys_of c j) (lastOp c = Some j) (reqSent c = None) b (ops c j)"
      using client_invD(1) [OF assms(1), of j] op_inv_closing alive by (cases b) force+
    show ?thesis
    proof (cases "keys_of c j \<noteq> {} \<and> inflight \<noteq> Some j")
      case True
      then have "op_sent (ops c j) \<or> b" using ok assms(4) by (auto simp: op_inv_def keys_inv_def split: if_splits)
      then show ?thesis using op_inv_cancelled [OF ok] True by simp
    next
      case False
      then show ?thesis using op_inv_keys [OF ok] by auto
    qed
  qed
  moreover have "loop_ok (after_close b e inflight order why c)"
    using client_invD(2) [OF assms(1)] assms(3-5) unfolding loop_ok_def by (auto simp: ending_def reconnecting_def)
  ultimately show ?thesis by (simp add: client_inv_def keys_of_def newHandler_def)
qed

lemma install_conn_inv:
  assumes "client_inv c" "lastOp c = Some k" "unanswered (ops c k)" "op_phase (ops c k) \<notin> {Fresh, Initing}" "\<not> closing c"
  shows "\<exists>c'. install_conn c = Done c' \<and> client_inv c'"
proof -
  let ?c = "c\<lparr>conn := newHandler, reading := True, pc := DSelect\<rparr>"
  have "op_ok ?c j" for j
    using op_inv_keys [OF client_invD(1) [OF assms(1), of j], of "{}"] by (simp add: keys_of_def newHandler_def)
  moreover have "loop_ok ?c"
    using client_invD(2) [OF assms(1)] assms(5) by (simp add: loop_ok_def reconnecting_def)
  ultimately have "client_inv ?c" by (simp add: client_inv_def)
  from inv_add [OF this, of k] assms(2-4) show ?thesis by (simp add: install_conn_def)
qed

section \<open>Every event keeps the invariant\<close>

lemma sub_inv: "client_inv c \<Longrightarrow> client_inv (set_sub i f c)"
  by (erule inv_cong) (simp_all add: set_sub_def)

lemma op_inv_receive:
  assumes "op_inv K l idle cl op" "op_resp op = m # ms" "p \<notin> {Fresh, Initing}" "\<forall>w. p \<noteq> Sending w"
    and "p = Returned None \<longrightarrow> Suc (length (op_got op)) = length (op_ids op)"
  shows "op_inv K l idle cl (op\<lparr>op_got := op_got op @ [m], op_resp := ms, op_phase := p\<rparr>)"
  using assms by (simp add: op_inv_def keys_inv_def)

lemma op_inv_dropped:
  assumes "op_inv K l idle cl op" "op_resp op = m # ms" "e \<noteq> None"
  shows "op_inv K l idle cl (op\<lparr>op_got := op_got op, op_resp := ms, op_phase := Returned e\<rparr>)"
  using assms by (auto simp: op_inv_def keys_inv_def)

lemma receive_inv:
  assumes "client_inv c" "enabled (Receive k) c"
  shows "\<exists>c'. exec (Receive k) c = Done c' \<and> client_inv c'"
proof -
  obtain m ms where m: "op_resp (ops c k) = m # ms" using assms(2) by (auto simp: neq_Nil_conv)
  obtain c' where c': "exec (Receive k) c = Done c'" by simp
  have "op_ok c' j" for j
    using op_inv_receive [OF client_invD(1) [OF assms(1), of k] m] op_inv_dropped [OF client_invD(1) [OF assms(1), of k] m] client_invD(1) [OF assms(1), of j] c' m
    by (cases "j = k") (auto simp: client_defs keys_of_def)
  moreover have "loop_ok c'"
    using client_invD(2) [OF assms(1)] c' m unfolding loop_ok_def by (auto simp: client_defs unanswered_def)
  ultimately show ?thesis using c' by (simp add: client_inv_def)
qed

lemma put_on_wire_inv:
  assumes "client_inv c" "enabled (PutOnWire k) c"
  shows "\<exists>c'. exec (PutOnWire k) c = Done c' \<and> client_inv c'"
proof -
  obtain c' where c': "exec (PutOnWire k) c = Done c'" by simp
  have sent: "op_inv K l idle cl (op\<lparr>op_sent := True, op_phase := Sending WWritten\<rparr>)"
    if "op_inv K l idle cl op" "op_phase op = Sending WWrite" for K l idle cl op
    using that by (simp add: op_inv_def keys_inv_def)
  have "op_ok c' j" for j
    using sent [OF client_invD(1) [OF assms(1), of k]] client_invD(1) [OF assms(1), of j] c' assms(2)
    by (cases "j = k") (auto simp: client_defs keys_of_def)
  moreover have "loop_ok c'"
    using client_invD(2) [OF assms(1)] c' unfolding loop_ok_def by (auto simp: client_defs unanswered_def)
  ultimately show ?thesis using c' by (simp add: client_inv_def)
qed

lemma reconnected_inv:
  assumes "client_inv c" "enabled (Reconnected k order) c"
  shows "\<exists>c'. exec (Reconnected k order) c = Done c' \<and> client_inv c'"
proof -
  have k: "lastOp c = Some k" "reqSent c = None" "\<not> op_sent (ops c k)" "unanswered (ops c k)" "\<not> closing c"
    using client_invD(1) [OF assms(1), of k] client_invD(2) [OF assms(1)] assms(2)
    by (auto simp: op_inv_def unanswered_def loop_ok_def ending_def)
  let ?c = "(set_phase k (Sending WWrite) c)\<lparr>writeConn := True\<rparr>"
  have inv: "client_inv ?c"
    by (rule inv_cong [OF inv_phase [OF assms(1), of "Sending WWrite" k]]) (simp_all add: k set_phase_def set_op_def)
  have fields: "lastOp ?c = Some k" "unanswered (ops ?c k)" "op_phase (ops ?c k) = Sending WWrite" "pc ?c = DSelect" "closing ?c = False"
    using k assms(2) by (simp_all add: set_phase_def set_op_def unanswered_def)
  have same: "?c\<lparr>closing := False\<rparr> = ?c" using fields(5) by simp
  show ?thesis
  proof (cases "reading c")
    case True
    then show ?thesis
      using handler_close_eq [OF inv, of errClientReconnected "lastOp c" order AfterReconnect False]
        after_close_inv [OF inv fields(4), of AfterReconnect False "lastOp c" errClientReconnected order] k(1) fields(1,2)
      unfolding same by (simp add: Let_def)
  next
    case False
    then show ?thesis using install_conn_inv [OF inv fields(1,2)] fields(3,5) by (simp add: Let_def)
  qed
qed

lemma closing_inv:
  assumes "client_inv c" "pc c = DSelect"
  shows "\<exists>c'. exec (ReadErr e order) c = Done c' \<and> client_inv c'" "\<exists>c'. exec (CloseClient order) c = Done c' \<and> client_inv c'"
proof -
  have alive: "c\<lparr>closing := False\<rparr> = c" using client_invD(2) [OF assms(1)] assms(2) by (auto simp: loop_ok_def ending_def)
  show "\<exists>c'. exec (ReadErr e order) c = Done c' \<and> client_inv c'"
    using handler_close_eq [OF assms(1), of e "lastOp c" order AfterReadErr False]
      after_close_inv [OF assms, of AfterReadErr False "lastOp c" e order] alive by simp
  have "op_ok (c\<lparr>closing := True, pc := DDone\<rparr>) j" for j
    using op_inv_closing [OF client_invD(1) [OF assms(1), of j]] by (simp add: keys_of_def)
  moreover have "loop_ok (c\<lparr>closing := True, pc := DDone\<rparr>)"
    using client_invD(2) [OF assms(1)] by (simp add: loop_ok_def ending_def reconnecting_def)
  ultimately show "\<exists>c'. exec (CloseClient order) c = Done c' \<and> client_inv c'"
    using handler_close_eq [OF assms(1), of ErrClientQuit None order AfterClose True]
      after_close_inv [OF assms, of AfterClose True None ErrClientQuit order] by (simp add: Let_def client_inv_def)
qed

lemma inv_pc:
  assumes "client_inv c" "ending (pc c) \<longrightarrow> ending p" "reconnecting p \<longrightarrow> reconnecting (pc c)"
  shows "client_inv (c\<lparr>reading := r, pc := p\<rparr>)"
proof -
  have "loop_ok (c\<lparr>reading := r, pc := p\<rparr>)" using client_invD(2) [OF assms(1)] assms(2,3) by (auto simp: loop_ok_def)
  then show ?thesis using client_invD(1) [OF assms(1)] by (simp add: client_inv_def keys_of_def)
qed

lemma quit_next_inv:
  assumes "client_inv c" "enabled QuitNext c"
  shows "\<exists>c'. exec QuitNext c = Done c' \<and> client_inv c'"
proof -
  obtain order e why where d: "pc c = DQuit order e why" using assms(2) by (auto split: dispatcher.splits)
  have "client_inv (c\<lparr>pc := DQuit order' e why\<rparr>)" "client_inv (c\<lparr>pc := DWait why\<rparr>)" for order'
    using inv_pc [OF assms(1), of "DQuit order' e why" "reading c"] inv_pc [OF assms(1), of "DWait why" "reading c"] d
    by (simp_all add: ending_def reconnecting_def)
  moreover have "(set_sub i (quit_local e) c)\<lparr>pc := DQuit order' e why\<rparr> = set_sub i (quit_local e) (c\<lparr>pc := DQuit order' e why\<rparr>)" for i order'
    by (simp add: set_sub_def)
  ultimately show ?thesis using d sub_inv by (cases order) simp_all
qed

lemma resume_inv:
  assumes "client_inv c" "enabled Resume c"
  shows "\<exists>c'. exec Resume c = Done c' \<and> client_inv c'"
proof -
  obtain why where d: "pc c = DWait why" using assms(2) by (auto split: dispatcher.splits)
  note loop = client_invD(2) [OF assms(1)]
  show ?thesis
  proof (cases why)
    case AfterReadErr
    then show ?thesis
      using inv_pc [OF assms(1), of DSelect False] d by (simp add: ending_def reconnecting_def)
  next
    case AfterReconnect
    then obtain k where k: "lastOp c = Some k" "unanswered (ops c k)" "\<not> closing c"
      using loop d by (auto simp: loop_ok_def reconnecting_def ending_def)
    then have "op_phase (ops c k) \<notin> {Fresh, Initing}" using client_invD(1) [OF assms(1), of k] by (auto simp: op_inv_def)
    from install_conn_inv [OF assms(1) k(1,2) this k(3)] show ?thesis using d AfterReconnect by simp
  next
    case AfterClose
    then show ?thesis
      using inv_pc [OF assms(1), of DDone "reading c"] d by (simp add: ending_def reconnecting_def)
  qed
qed

lemma nextIDs_length [simp]: "length (nextIDs n m) = m"
  by (simp add: nextIDs_def)

lemma write_inv:
  assumes "client_inv c" "enabled (WriteDone k r) c"
  shows "client_inv (finish_write k r (c\<lparr>writeConn := b\<rparr>))" "client_inv (finish_write k r c)"
proof -
  obtain w where w: "op_phase (ops c k) = Sending w" "r = None \<longrightarrow> w = WWritten" using assms(2) by auto
  then show "client_inv (finish_write k r c)" by (rule inv_finish_write [OF assms(1)])
  show "client_inv (finish_write k r (c\<lparr>writeConn := b\<rparr>))"
    using inv_finish_write [OF inv_cong [OF assms(1), of "c\<lparr>writeConn := b\<rparr>"]] w by simp
qed

lemma sending_free: "client_inv c \<Longrightarrow> op_phase (ops c k) = Sending w \<Longrightarrow> lastOp c = Some k \<and> reqSent c = None \<and> (op_sent (ops c k) \<longleftrightarrow> w = WWritten)"
  using client_invD(1) [of c k] by (simp add: op_inv_def)

lemma event_inv:
  assumes "client_inv c" "enabled ev c" "answers_sent ev c"
  shows "\<exists>c'. exec ev c = Done c' \<and> client_inv c'"
proof (cases ev)
  case (NewCall k n s dl)
  then show ?thesis using assms inv_new_call [of c k s] by (simp add: start_call_def)
next
  case (NewNotify k dl)
  then show ?thesis using assms inv_new_call [of c k False] by simp
next
  case (CheckConn k b)
  then show ?thesis
    using assms inv_phase [of c _ k] inv_finish_write [of c k WCheck "Some errDead"] sending_free [of c k] by auto
next
  case (Dial k r)
  then show ?thesis
    using assms inv_phase [of c "Sending WOffer" k] inv_finish_write [of c k WDial r] sending_free [of c k] by auto
next
  case (OfferRefused k)
  then show ?thesis using assms inv_finish_write [of c k WOffer "Some ErrClientQuit"] by auto
next
  case (WriteDone k r)
  then show ?thesis using write_inv [OF assms(1), of k r] assms(2) by (simp del: enabled.simps)
next
  case (ReceiveClosed k)
  then show ?thesis
    using assms inv_phase [of c "Returned (op_err (ops c k))" k] client_invD(1) [of c k] by (auto simp: op_inv_def)
next
  case (Unsubscribe i k e)
  then show ?thesis
    using assms inv_new_call [OF sub_inv [OF assms(1)], of i _ k False] by (simp add: start_call_def set_sub_def)
next
  case (UnsubscribeDone i)
  then show ?thesis using assms sub_inv by (auto split: once.split)
next
  case CallProcDone
  then show ?thesis using inv_cong [OF assms(1), of "c\<lparr>callProcs := callProcs c - 1\<rparr>"] by simp
next
  case (TakeReq k)
  then show ?thesis using assms inv_take_req by simp
next
  case TakeSent
  then show ?thesis using assms inv_take_sent by fastforce
next
  case (ReadOp ms batch)
  then show ?thesis using read_inv assms by blast
next
  case (TakeTimeout k)
  then show ?thesis using assms inv_remove [OF inv_phase [OF assms(1), of "Returned (Some ContextError)" k]] by simp
qed (use assms put_on_wire_inv receive_inv closing_inv reconnected_inv quit_next_inv resume_inv inv_phase in \<open>force+\<close>)

interpretation served: transition_system "client_step answers_sent" client_inv
  by unfold_locales (use event_inv in \<open>fastforce elim: client_stepE\<close>)

text \<open>Nothing is needed of the server for properties that any step keeps.\<close>

interpretation unserved: transition_system "client_step (\<lambda>_ _. True)" "\<lambda>_. True"
  by unfold_locales simp

lemma reachable_inv: "run answers_sent (initClient b) c \<Longrightarrow> client_inv c"
  using served.steps_inv initClient_inv by blast

lemma exec_all_run: "exec_all P evs c = Done c' \<Longrightarrow> run P c c'"
proof (induction evs arbitrary: c)
  case (Cons ev evs)
  then obtain c1 where "enabled ev c" "P ev c" "exec ev c = Done c1" "exec_all P evs c1 = Done c'"
    by (cases "exec ev c") (auto split: if_splits)
  then show ?case using Cons.IH client_step.intros [of ev c P c1] by (meson converse_rtranclp_into_rtranclp)
qed simp

lemma handler_close_open:
  assumes "client_inv c" "\<not> closing c"
  shows "handler_close e inflight order why c = Done (after_close False e inflight order why c)"
proof -
  have "c\<lparr>closing := False\<rparr> = c" using assms(2) by simp
  then show ?thesis using handler_close_eq [OF assms(1), of e inflight order why False] by simp
qed

end
