(* ===== verification/RpcProperties.thy ===== *)
theory RpcProperties
  imports RpcInvariant
begin

text \<open>
  What the connection of the client guarantees: no panic and no blocked dispatch loop, responses matched
  to requests, requests ended when the connection breaks; and the two races in which a caller, or the
  whole client, waits forever.
\<close>

section \<open>A request nobody will answer\<close>

definition lost :: "nat \<Rightarrow> client \<Rightarrow> bool" where
  "lost k c \<longleftrightarrow>
     op_phase (ops c k) = Waiting \<and> \<not> op_deadline (ops c k) \<and> op_resp (ops c k) = [] \<and> \<not> op_closed (ops c k) \<and>
     keys_of c k = {} \<and> \<not> (lastOp c = Some k \<and> reconnecting (pc c))"

definition untouched :: "nat \<Rightarrow> client \<Rightarrow> client \<Rightarrow> bool" where
  "untouched k c c' \<longleftrightarrow> (keys_of c k = {} \<longrightarrow> ops c' k = ops c k \<and> keys_of c' k = {})"

lemma handleResponse_untouched: "handleResponse m c = Done c' \<Longrightarrow> untouched k c c'"
  unfolding untouched_def handleResponse_def Let_def
  by (auto simp: keys_of_def set_op_def set_sub_def AList.delete_eq dest!: map_of_SomeD split: option.splits if_splits)

lemma handleSubscriptionResult_untouched: "untouched k c (handleSubscriptionResult m ch c)"
  by (simp add: untouched_def keys_of_def handleSubscriptionResult_def deliver_def set_sub_def split: option.split)

lemma handleImmediate_untouched:
  assumes "handleImmediate m c = Done (h, c')"
  shows "untouched k c c'"
proof -
  obtain msg ch where m: "m = (Some msg, ch)" using assms by (cases m; cases "fst m") auto
  show ?thesis
    using assms handleSubscriptionResult_untouched [of k c msg ch] handleResponse_untouched [of msg c]
    by (cases "handleResponse msg c") (auto simp: m untouched_def split: if_splits)
qed

lemma handle_each_untouched: "handle_each ms n c = Done (n', c') \<Longrightarrow> untouched k c c'"
proof (induction ms arbitrary: n c)
  case (Cons m ms)
  then obtain h c1 where "handleImmediate m c = Done (h, c1)" "handle_each ms (if h then n else Suc n) c1 = Done (n', c')"
    by (cases "handleImmediate m c") auto
  then show ?case using Cons.IH handleImmediate_untouched [of m c h c1 k] by (auto simp: untouched_def)
qed (simp add: untouched_def)

lemma read_untouched:
  assumes "exec (ReadOp ms batch) c = Done c'"
  shows "untouched k c c'"
proof -
  have started: "untouched k c (startCallProc c1)" if "untouched k c c1" for c1
    using that by (simp add: untouched_def startCallProc_def keys_of_def)
  have "untouched k c c" by (simp add: untouched_def)
  then show ?thesis
    using assms started handle_each_untouched [of ms 0 c] handleImmediate_untouched [of "hd ms" c]
    by (cases "handle_each ms 0 c"; cases "handleImmediate (hd ms) c")
      (auto simp: handleBatch_def handleMsg_def split: if_splits prod.splits)
qed

lemma request_table_fields [simp]:
  "ops (addRequestOp j c) = ops c" "lastOp (addRequestOp j c) = lastOp c" "pc (addRequestOp j c) = pc c"
  "ops (removeRequestOp j c) = ops c" "lastOp (removeRequestOp j c) = lastOp c" "pc (removeRequestOp j c) = pc c"
  by (simp_all add: addRequestOp_def removeRequestOp_def)

lemma keys_of_cong [simp]:
  "keys_of (c\<lparr>reqLocked := b, lastOp := l\<rparr>) = keys_of c" "keys_of (c\<lparr>reqLocked := b, lastOp := l, reqSent := r\<rparr>) = keys_of c"
  "keys_of (set_op j f c) = keys_of c" "keys_of (set_phase j p c) = keys_of c" "keys_of (set_sub j g c) = keys_of c"
  "keys_of (c\<lparr>conn := newHandler, reading := b, pc := d\<rparr>) j = {}" "keys_of (c\<lparr>closing := b\<rparr>) = keys_of c"
  "keys_of (c\<lparr>writeConn := b\<rparr>) = keys_of c" "keys_of (c\<lparr>reqSent := r\<rparr>) = keys_of c"
  by (auto simp: keys_of_def set_op_def set_phase_def set_sub_def newHandler_def)

lemma lost_added: "lost k c \<Longrightarrow> j \<noteq> k \<Longrightarrow> lost k (addRequestOp j c)"
  using keys_of_add [of j c k] by (auto simp: lost_def)

lemma lost_removed: "lost k c \<Longrightarrow> lost k (removeRequestOp j c)"
  by (simp add: lost_def keys_of_remove)

lemma lost_after_close:
  "lost k c \<Longrightarrow> \<not> (lastOp c = Some k \<and> why = AfterReconnect) \<Longrightarrow> lost k (after_close b e inflight order why c)"
  by (auto simp: lost_def keys_of_def newHandler_def reconnecting_def)

lemma lost_installed:
  assumes "install_conn c = Done c'" "lost k c" "lastOp c \<noteq> Some k"
  shows "lost k c'"
proof -
  obtain j where j: "lastOp c = Some j" "c' = addRequestOp j (c\<lparr>conn := newHandler, reading := True, pc := DSelect\<rparr>)"
    using assms(1) by (auto simp: install_conn_def split: option.splits)
  have "lost k (c\<lparr>conn := newHandler, reading := True, pc := DSelect\<rparr>)"
    using assms(2) by (simp add: lost_def reconnecting_def)
  then show ?thesis using j assms(3) lost_added by auto
qed

lemma lost_step:
  assumes "client_inv c" "enabled ev c" "answers_sent ev c" "exec ev c = Done c'" "lost k c"
  shows "lost k c'"
proof (cases ev)
  case (ReadOp ms batch)
  then show ?thesis
    using assms read_untouched [of ms batch c c' k] read_inv [of c ms batch] by (auto simp: lost_def untouched_def same_loop_def)
next
  case (Reconnected j order)
  have j: "lastOp c = Some j" "\<not> closing c" "j \<noteq> k"
    using sending_free [OF assms(1), of j] client_invD(2) [OF assms(1)] assms(2,5) Reconnected
    by (auto simp: loop_ok_def ending_def lost_def)
  let ?c = "(set_phase j (Sending WWrite) c)\<lparr>writeConn := True\<rparr>"
  have lost: "lost k ?c" using assms(5) j(3) by (simp add: lost_def set_phase_def set_op_def keys_of_def)
  have inv: "client_inv ?c"
    using inv_cong [OF inv_phase [OF assms(1), of "Sending WWrite" j]] sending_free [OF assms(1), of j] assms(2) Reconnected
    by (simp add: set_phase_def set_op_def)
  show ?thesis
  proof (cases "reading c")
    case True
    have "\<not> closing ?c" using j(2) by (simp add: set_phase_def set_op_def)
    from handler_close_open [OF inv this, of errClientReconnected "Some j" order AfterReconnect] show ?thesis
      using lost_after_close [OF lost] j True assms(4) Reconnected by (auto simp: Let_def set_phase_def set_op_def)
  next
    case False
    then show ?thesis
      using lost_installed [OF _ lost] assms(4) Reconnected j by (simp add: Let_def set_phase_def set_op_def)
  qed
next
  case (ReadErr e order)
  have "\<not> closing c" using client_invD(2) [OF assms(1)] assms(2) ReadErr by (auto simp: loop_ok_def ending_def)
  then show ?thesis
    using handler_close_open [OF assms(1), of e "lastOp c" order AfterReadErr] lost_after_close [OF assms(5)] assms(4) ReadErr by auto
next
  case (CloseClient order)
  then show ?thesis
    using handler_close_eq [OF assms(1), of ErrClientQuit None order AfterClose True] lost_after_close [OF assms(5)] assms(4,5)
    by (auto simp: Let_def lost_def keys_of_def reconnecting_def split: if_splits)
next
  case (TakeReq j)
  then have "j \<noteq> k" using assms(2,5) by (auto simp: lost_def)
  then have "lost k (set_phase j (Sending WCheck) (c\<lparr>reqLocked := True, lastOp := Some j\<rparr>))"
    using assms(5) by (simp add: lost_def set_phase_def set_op_def keys_of_def)
  with \<open>j \<noteq> k\<close> show ?thesis using lost_added assms(4) TakeReq by auto
next
  case TakeSent
  then show ?thesis using assms(4,5) lost_removed [of k "c\<lparr>reqLocked := False, lastOp := None, reqSent := None\<rparr>"]
    by (auto simp: Let_def lost_def split: if_splits option.splits)
next
  case (TakeTimeout j)
  then have "lost k (set_phase j (Returned (Some ContextError)) c)"
    using assms(2,5) by (auto simp: lost_def set_phase_def set_op_def keys_of_def)
  then show ?thesis using lost_removed assms(4) TakeTimeout by auto
next
  case QuitNext
  then show ?thesis
    using assms(2,4,5) by (auto simp: lost_def set_sub_def keys_of_def reconnecting_def split: dispatcher.splits list.splits)
next
  case Resume
  then show ?thesis
    using assms(2,4,5) lost_installed [of c c' k]
    by (auto simp: lost_def keys_of_def reconnecting_def split: dispatcher.splits reason.splits)
next
  case (UnsubscribeDone i)
  then show ?thesis using assms(4,5) by (auto simp: lost_def keys_of_def set_sub_def split: once.splits)
qed (use assms in \<open>auto simp: lost_def keys_of_def set_op_def set_phase_def set_sub_def start_call_def finish_write_def split: if_splits\<close>)

section \<open>A client that waits for itself\<close>

text \<open>
  The dispatch loop is about to end a subscription while the subscription's own \<open>quitOnce\<close> is busy with
  a request that the dispatch loop has yet to take.
\<close>

definition stuck :: "nat \<Rightarrow> nat list \<Rightarrow> rpcError \<Rightarrow> nat \<Rightarrow> client \<Rightarrow> bool" where
  "stuck i order e k c \<longleftrightarrow>
     pc c = DQuit (i # order) e AfterReadErr \<and> \<not> closing c \<and> (\<exists>r. sub_once (subs c i) = OnceRunning k r) \<and>
     op_phase (ops c k) = Initing \<and> \<not> op_deadline (ops c k)"

lemma stuck_step:
  assumes "enabled ev c" "exec ev c = Done c'" "stuck i order e k c"
  shows "stuck i order e k c'"
  using assms
  by (cases ev)
    (auto simp: stuck_def set_op_def set_phase_def set_sub_def start_call_def finish_write_def Let_def
      split: if_splits once.splits)

section \<open>Concrete runs\<close>

lemmas run_simps = initClient_def fresh_op_def fresh_sub_def newHandler_def new_op_def start_call_def set_op_def set_phase_def set_sub_def
  finish_write_def addRequestOp_def removeRequestOp_def handler_close_def install_conn_def handleMsg_def handleResponse_def
  isNotification_def isResponse_def hasValidID_def unmarshal_string_def order_ok_def quit_local_def answers_sent_def conn_closed_def Let_def

lemma first_id: "nextIDs 0 (Suc 0) = [''1'']"
  by (simp add: nextIDs_def string_of_nat.simps char_of_def bit_0)

lemma second_id: "nextIDs 1 (Suc 0) = [''2'']"
  by (simp add: nextIDs_def string_of_nat.simps char_of_def bit_0)

definition result_one :: "json \<Rightarrow> jsonrpcMessage" where
  "result_one j = \<lparr>Version = vsn, ID = Some ''1'', Method = '''', Params = None, MsgError = None, Result = Some j\<rparr>"

text \<open>A request that is written, up to the point where the dispatch loop learns of it.\<close>

definition sending :: "bool \<Rightarrow> event list" where
  "sending s = [NewCall 0 1 s False, TakeReq 0, CheckConn 0 False, PutOnWire 0, WriteDone 0 None]"

lemma handle_each_append: "handle_each (xs @ ys) n c = bindO (handle_each xs n c) (\<lambda>(n', c'). handle_each ys n' c')"
proof (induction xs arbitrary: n c)
  case (Cons m xs)
  then show ?case by (cases "handleImmediate m c") (simp_all add: split_beta)
qed simp

lemma handle_each_null:
  assumes "client_inv c" "pc c = DSelect" "list_all (\<lambda>m. fst m \<noteq> None \<longrightarrow> response_sent c (fst m)) ms" "None \<in> fst ` set ms"
  shows "handle_each ms n c = Panics ''nil pointer dereference''"
proof -
  obtain xs m ys where ms: "ms = xs @ m # ys" "fst m = None" "\<forall>x\<in>set xs. fst x \<noteq> None"
    using assms(4) split_list_first_propE [of ms "\<lambda>m. fst m = None"] by (metis imageE)
  then have "list_all (\<lambda>m. response_sent c (fst m)) xs" using assms(3) by (auto simp: list_all_iff)
  from handle_each_inv [OF assms(1,2) this, of n] obtain n' c' where "handle_each xs n c = Done (n', c')" by blast
  with ms show ?thesis by (cases m) (simp add: handle_each_append)
qed

section \<open>Properties\<close>

text \<open>
  C4: The connection of the client never panics and its dispatch loop never blocks on a response: in
  every state that callers, dispatch loop and a server that answers only requests it was sent can
  reach together, every step that can be taken ends. So no channel is closed twice or sent to after
  it is closed, no buffer for responses is full when a response comes, and the request in flight is
  there whenever the loop needs it.\<close>

theorem client_never_panics:
  assumes "run answers_sent (initClient b) c" "enabled ev c" "answers_sent ev c"
  shows "\<exists>c'. exec ev c = Done c'"
  using event_inv [OF reachable_inv [OF assms(1)] assms(2,3)] by blast

theorem client_never_panics_witness:
  "\<exists>c c'. exec_all answers_sent (sending False) (initClient True) = Done c \<and>
     exec (ReadOp [(Some (result_one JNull), False)] False) c = Done c'"
proof -
  obtain c where c: "exec_all answers_sent (sending False) (initClient True) = Done c"
    "enabled (ReadOp [(Some (result_one JNull), False)] False) c" "answers_sent (ReadOp [(Some (result_one JNull), False)] False) c"
    by (simp add: run_simps first_id result_one_def sending_def)
  then show ?thesis using client_never_panics [OF exec_all_run [OF c(1)] c(2,3)] by blast
qed

text \<open>
  C5: Responses reach the caller they are meant for: the responses that wait for a caller and those it
  has received carry different identifiers of its request, and a call or batch that returns without
  an error has received exactly one response for each of its identifiers.\<close>

theorem responses_matched:
  assumes "run answers_sent (initClient b) c"
  shows "let op = ops c k; rs = op_got op @ op_resp op in
    distinct (map ID rs) \<and> set (map ID rs) \<subseteq> Some ` set (op_ids op) \<and>
    (op_phase op = Returned None \<and> \<not> op_sub op \<longrightarrow>
       op_resp op = [] \<and> distinct (op_ids op) \<and> set (map ID (op_got op)) = Some ` set (op_ids op))"
proof -
  let ?op = "ops c k"
  note ok = client_invD(1) [OF reachable_inv [OF assms], of k]
  then have d: "distinct (map ID (op_got ?op @ op_resp ?op))" "set (map ID (op_got ?op @ op_resp ?op)) \<subseteq> set (map Some (op_ids ?op))"
    by (auto simp: op_inv_def)
  have "length (map ID (op_got ?op @ op_resp ?op)) \<le> card (set (map Some (op_ids ?op)))"
    using distinct_card [OF d(1)] card_mono [OF _ d(2)] by simp
  moreover have "card (set (map Some (op_ids ?op))) \<le> length (op_ids ?op)" using card_length [of "map Some (op_ids ?op)"] by simp
  moreover have "length (op_got ?op) = length (op_ids ?op)" if "op_phase ?op = Returned None" "\<not> op_sub ?op"
    using ok that by (simp add: op_inv_def)
  ultimately have all: "op_resp ?op = []" "card (set (map Some (op_ids ?op))) = length (map Some (op_ids ?op))" "length (op_got ?op) = length (op_ids ?op)"
    if "op_phase ?op = Returned None" "\<not> op_sub ?op" using that by (auto simp flip: length_0_conv)
  have "set (map ID (op_got ?op)) = set (map Some (op_ids ?op))" if "op_phase ?op = Returned None" "\<not> op_sub ?op"
    by (rule card_subset_eq) (use d all [OF that] distinct_card [of "map ID (op_got ?op)"] in auto)
  then show ?thesis
    using d all card_distinct [of "map Some (op_ids ?op)"] unfolding Let_def distinct_map by auto
qed

theorem responses_matched_witness:
  "\<exists>c. exec_all answers_sent (sending False @ [ReadOp [(Some (result_one JNull), False)] False, Receive 0]) (initClient True) = Done c \<and>
     op_phase (ops c 0) = Returned None \<and> ID ` set (op_got (ops c 0)) = {Some ''1''}"
proof -
  obtain c where c: "exec_all answers_sent (sending False @ [ReadOp [(Some (result_one JNull), False)] False, Receive 0]) (initClient True) = Done c"
    "op_phase (ops c 0) = Returned None" "\<not> op_sub (ops c 0)" "op_ids (ops c 0) = [''1'']"
    by (simp add: run_simps first_id result_one_def sending_def)
  then show ?thesis using responses_matched [OF exec_all_run [OF c(1)], of 0] by (auto simp: Let_def)
qed

text \<open>
  C12: When the connection breaks, every request that waits for its response is ended with the error of
  the connection, except the one whose sending is not yet finished: its caller can go on and returns
  that error.\<close>

theorem read_error_ends_requests:
  assumes "run answers_sent (initClient b) c" "enabled (ReadErr e order) c"
    and "map_of (respWait (conn c)) i = Some k" "lastOp c \<noteq> Some k" "op_phase (ops c k) = Waiting"
  shows "\<exists>c' ev c''. exec (ReadErr e order) c = Done c' \<and> ev \<in> {Receive k, ReceiveClosed k} \<and> enabled ev c' \<and>
    exec ev c' = Done c'' \<and> op_phase (ops c'' k) = Returned (Some e)"
proof -
  note inv = reachable_inv [OF assms(1)]
  have "\<not> closing c" using client_invD(2) [OF inv] assms(2) by (auto simp: loop_ok_def ending_def)
  moreover have "keys_of c k \<noteq> {}" using assms(3) by (auto simp: keys_of_def dest: map_of_SomeD)
  ultimately have c': "exec (ReadErr e order) c = Done (after_close False e (lastOp c) order AfterReadErr c)"
    and op: "ops (after_close False e (lastOp c) order AfterReadErr c) k = (ops c k)\<lparr>op_err := Some e, op_closed := True\<rparr>"
    using handler_close_open [OF inv] assms(4) by simp_all
  define ev where "ev = (if op_resp (ops c k) = [] then ReceiveClosed k else Receive k)"
  have "\<exists>c''. enabled ev (after_close False e (lastOp c) order AfterReadErr c) \<and>
      exec ev (after_close False e (lastOp c) order AfterReadErr c) = Done c'' \<and> op_phase (ops c'' k) = Returned (Some e)"
    using op assms(5) by (cases "op_resp (ops c k)") (simp_all add: ev_def set_phase_def set_op_def)
  moreover have "ev \<in> {Receive k, ReceiveClosed k}" by (simp add: ev_def)
  ultimately show ?thesis using c' by blast
qed

theorem read_error_ends_requests_witness:
  "\<exists>c c' ev c''. exec_all answers_sent (sending False @ [TakeSent]) (initClient True) = Done c \<and>
     exec (ReadErr (RpcErrorString ''EOF'') []) c = Done c' \<and> enabled ev c' \<and> exec ev c' = Done c'' \<and>
     op_phase (ops c'' 0) = Returned (Some (RpcErrorString ''EOF''))"
proof -
  obtain c where c: "exec_all answers_sent (sending False @ [TakeSent]) (initClient True) = Done c"
    "enabled (ReadErr (RpcErrorString ''EOF'') []) c" "map_of (respWait (conn c)) ''1'' = Some 0" "lastOp c \<noteq> Some 0"
    "op_phase (ops c 0) = Waiting"
    by (simp add: run_simps first_id sending_def)
  then show ?thesis using read_error_ends_requests [OF exec_all_run [OF c(1)] c(2-5)] by blast
qed

text \<open>
  C35: A request can be lost. If the connection breaks after a request was written but before the dispatch
  loop has noticed that the write is finished, the request is neither answered nor ended: a caller
  whose context has no deadline waits forever, whatever the server and the client do afterwards, even
  if the client reconnects or is closed.\<close>

theorem request_lost:
  assumes "run answers_sent (initClient b) c" "enabled (ReadErr e order) c"
    and "lastOp c = Some k" "op_phase (ops c k) = Waiting" "op_resp (ops c k) = []" "\<not> op_closed (ops c k)" "\<not> op_deadline (ops c k)"
  shows "\<exists>c'. exec (ReadErr e order) c = Done c' \<and> (\<forall>c''. run answers_sent c' c'' \<longrightarrow> op_phase (ops c'' k) = Waiting)"
proof -
  note inv = reachable_inv [OF assms(1)]
  have "\<not> closing c" using client_invD(2) [OF inv] assms(2) by (auto simp: loop_ok_def ending_def)
  then have exec: "exec (ReadErr e order) c = Done (after_close False e (lastOp c) order AfterReadErr c)" (is "_ = Done ?c'")
    using handler_close_open [OF inv] by simp
  have lost: "lost k ?c'" using assms(3-7) by (simp add: lost_def keys_of_def newHandler_def reconnecting_def)
  have inv': "client_inv ?c'"
    using closing_inv(1) [OF inv, of e order] exec assms(2) by simp
  have "lost k c''" if "run answers_sent ?c' c''" for c''
    using served.forever [where p = "lost k", OF that inv' lost] lost_step by (blast elim: client_stepE)
  then show ?thesis using exec by (auto simp: lost_def)
qed

theorem request_lost_witness:
  "\<exists>c c'. exec_all answers_sent (sending False) (initClient True) = Done c \<and>
     exec (ReadErr (RpcErrorString ''EOF'') []) c = Done c' \<and> (\<forall>c''. run answers_sent c' c'' \<longrightarrow> op_phase (ops c'' 0) = Waiting)"
proof -
  obtain c where c: "exec_all answers_sent (sending False) (initClient True) = Done c"
    "enabled (ReadErr (RpcErrorString ''EOF'') []) c" "lastOp c = Some 0"
    "op_phase (ops c 0) = Waiting" "op_resp (ops c 0) = []" "\<not> op_closed (ops c 0)" "\<not> op_deadline (ops c 0)"
    by (simp add: run_simps first_id sending_def)
  then show ?thesis using request_lost [OF exec_all_run [OF c(1)] c(2-7)] by blast
qed

text \<open>
  C38: Unsubscribing can stop the client for good. \<open>Unsubscribe\<close> runs the request to the server inside
  \<open>quitOnce\<close>, and the dispatch loop enters the same \<open>quitOnce\<close> when the connection breaks. If that
  happens before the loop has taken the request, each waits for the other: whatever happens
  afterwards, the dispatch loop never comes back to its \<open>select\<close>, so no later request is ever sent.\<close>

theorem unsubscribe_deadlock:
  assumes "run answers_sent (initClient b) c" "enabled (ReadErr e (i # order)) c"
    and "sub_once (subs c i) = OnceRunning k r" "op_phase (ops c k) = Initing" "\<not> op_deadline (ops c k)"
  shows "\<exists>c'. exec (ReadErr e (i # order)) c = Done c' \<and>
    (\<forall>c''. run (\<lambda>_ _. True) c' c'' \<longrightarrow> pc c'' \<noteq> DSelect \<and> op_phase (ops c'' k) = Initing \<and> \<not> enabled (TakeReq j) c'')"
proof -
  note inv = reachable_inv [OF assms(1)]
  have "\<not> closing c" using client_invD(2) [OF inv] assms(2) by (auto simp: loop_ok_def ending_def)
  then have exec: "exec (ReadErr e (i # order)) c = Done (after_close False e (lastOp c) (i # order) AfterReadErr c)" (is "_ = Done ?c'")
    using handler_close_open [OF inv] by simp
  have "keys_of c k = {}" using op_inv_fresh [OF client_invD(1) [OF inv, of k]] assms(4) by simp
  then have "stuck i order e k ?c'" using assms(3-5) by (simp add: stuck_def after_close_def)
  then have "stuck i order e k c''" if "run (\<lambda>_ _. True) ?c' c''" for c''
    by (rule unserved.forever [OF that TrueI]) (blast elim: client_stepE intro: stuck_step)
  then show ?thesis using exec by (auto simp: stuck_def)
qed

theorem unsubscribe_deadlock_witness:
  "\<exists>c c'. exec_all answers_sent (sending True @ [TakeSent, ReadOp [(Some (result_one (JString ''s'')), False)] False, Unsubscribe 0 1 None])
       (initClient True) = Done c \<and>
     exec (ReadErr (RpcErrorString ''EOF'') [0]) c = Done c' \<and>
     (\<forall>c''. run (\<lambda>_ _. True) c' c'' \<longrightarrow> pc c'' \<noteq> DSelect \<and> op_phase (ops c'' 1) = Initing \<and> \<not> enabled (TakeReq 2) c'')"
proof -
  obtain c where c: "exec_all answers_sent (sending True @ [TakeSent, ReadOp [(Some (result_one (JString ''s'')), False)] False, Unsubscribe 0 1 None])
       (initClient True) = Done c"
    "enabled (ReadErr (RpcErrorString ''EOF'') [0]) c" "sub_once (subs c 0) = OnceRunning 1 None" "op_phase (ops c 1) = Initing" "\<not> op_deadline (ops c 1)"
    by (simp add: run_simps first_id result_one_def sending_def)
  then show ?thesis using unsubscribe_deadlock [OF exec_all_run [OF c(1)] c(2-5), of 2] by blast
qed

section \<open>A subscription answered before it was sent\<close>

lemma answers_sent_move: "\<forall>ms batch. ev \<noteq> ReadOp ms batch \<Longrightarrow> answers_sent ev c"
  by (simp add: answers_sent_def split: event.split)

lemma quit_all:
  assumes "pc c = DQuit order e why" "\<forall>j k e'. sub_once (subs c j) \<noteq> OnceRunning k e'"
  shows "\<exists>f. exec_all answers_sent (replicate (Suc (length order)) QuitNext @ evs) c = exec_all answers_sent evs (c\<lparr>subs := f, pc := DWait why\<rparr>)"
  using assms
proof (induction order arbitrary: c)
  case Nil
  then have "exec_all answers_sent (replicate (Suc (length [])) QuitNext @ evs) c = exec_all answers_sent evs (c\<lparr>subs := subs c, pc := DWait why\<rparr>)"
    by (simp add: answers_sent_move)
  then show ?case by blast
next
  case (Cons j order)
  let ?c = "(set_sub j (quit_local e) c)\<lparr>pc := DQuit order e why\<rparr>"
  have "pc ?c = DQuit order e why" "\<forall>j k e'. sub_once (subs ?c j) \<noteq> OnceRunning k e'"
    using Cons.prems(2) by (simp_all add: set_sub_def quit_local_def)
  from Cons.IH [OF this] obtain f where
    "exec_all answers_sent (replicate (Suc (length order)) QuitNext @ evs) ?c = exec_all answers_sent evs (?c\<lparr>subs := f, pc := DWait why\<rparr>)" ..
  moreover have "enabled QuitNext c" using Cons.prems by (simp split: once.split)
  ultimately show ?case using Cons.prems(1) by (auto simp: answers_sent_move set_sub_def intro!: exI [of _ f])
qed

text \<open>The early answer: the request leaves the table, and its channel is closed as if it had succeeded.\<close>

lemma early_answer_closes:
  assumes "client_inv c" "op_phase (ops c k) = Sending WDial" "op_sub (ops c k)" "map_of (respWait (conn c)) i = Some k"
    and "isResponse m" "ID m = Some i" "MsgError m = None" "unmarshal_string (Result m) = Some sid"
  shows "exec (ReadOp [(Some m, ch)] False) c =
    Done (c\<lparr>ops := (ops c)(k := (ops c k)\<lparr>op_err := None, op_closed := True\<rparr>), subs := (subs c)(k := (subs c k)\<lparr>sub_id := sid\<rparr>),
      conn := \<lparr>respWait = AList.delete i (respWait (conn c)), clientSubs = AList.update sid k (clientSubs (conn c))\<rparr>\<rparr>)"
proof -
  have "i \<in> keys_of c k" using assms(4) by (simp add: keys_of_def map_of_SomeD)
  then have "\<not> op_closed (ops c k)" using client_invD(1) [OF assms(1), of k] by (auto simp: op_inv_def keys_inv_def)
  moreover have "\<not> isNotification m" using assms(6) by (simp add: isNotification_def)
  ultimately show ?thesis using assms by (simp add: handleMsg_def handleResponse_def Let_def set_op_def set_sub_def)
qed

text \<open>
  Then the reconnect: the handler is closed, which leaves the request in flight alone, and the request
  is registered with the new one.
\<close>

lemma reconnect_registers:
  assumes "reading c" "lastOp c = Some k" "op_phase (ops c k) = Sending WDial" "op_ids (ops c k) = [i]" "pc c = DSelect" "callProcs c = 0"
    and "\<forall>(j, l)\<in>set (respWait (conn c)). l = k \<or> \<not> op_closed (ops c l)"
    and "\<forall>j l e'. sub_once (subs c j) \<noteq> OnceRunning l e'" "order_ok order c"
  shows "\<exists>c'. exec_all answers_sent ([Dial k None, Reconnected k order] @ replicate (Suc (length order)) QuitNext @ [Resume, PutOnWire k]) c = Done c' \<and>
     pc c' = DSelect \<and> reading c' \<and> respWait (conn c') = [(i, k)] \<and> ops c' k = (ops c k)\<lparr>op_sent := True, op_phase := Sending WWritten\<rparr>"
proof -
  let ?os = "(ops c)(k := (ops c k)\<lparr>op_phase := Sending WWrite\<rparr>)"
  have "cancel_loop errClientReconnected [k] (respWait (conn c)) ?os =
      Done (\<lambda>l. if l \<in> snd ` set (respWait (conn c)) - set [k] then (?os l)\<lparr>op_err := Some errClientReconnected, op_closed := True\<rparr> else ?os l)"
    by (rule cancel_loop_closes) (use assms(7) in auto)
  then obtain os where os: "cancel_loop errClientReconnected [k] (respWait (conn c)) ?os = Done os" "os k = ?os k" by simp
  let ?c = "c\<lparr>writeConn := True, ops := os, conn := newHandler, pc := DQuit order errClientReconnected AfterReconnect\<rparr>"
  obtain f where "exec_all answers_sent (replicate (Suc (length order)) QuitNext @ [Resume, PutOnWire k]) ?c =
      exec_all answers_sent [Resume, PutOnWire k] (?c\<lparr>subs := f, pc := DWait AfterReconnect\<rparr>)"
    using quit_all [of ?c order errClientReconnected AfterReconnect "[Resume, PutOnWire k]"] assms(8) by fastforce
  moreover have "exec_all answers_sent ([Dial k None, Reconnected k order] @ evs) c = exec_all answers_sent evs ?c" for evs
    using assms os(1) by (simp add: answers_sent_move order_ok_def handler_close_def set_phase_def set_op_def Let_def)
  ultimately show ?thesis
    using assms os(2) by (simp add: answers_sent_move install_conn_def addRequestOp_def newHandler_def set_op_def)
qed

text \<open>
  C40: The client trusts the server not to answer too early. Take any state that a well-behaved server
  leads to, in which a subscription request is registered under its identifier, its caller is about to
  dial because an earlier write failed, the old connection is still read, and no unsubscription or call
  handler runs. If the server, on the old connection, answers the identifier, which is the next number
  of a counter, the request's channel is closed although the request was never sent. After that the
  server may behave: the caller dials, dispatch installs the new connection, on which the request in
  flight is registered again, the request is written, and the answer to it, now in order, closes the
  channel a second time and panics.\<close>

theorem early_answer_panics:
  assumes "run answers_sent (initClient b) c" "pc c = DSelect" "reading c"
    and "op_phase (ops c k) = Sending WDial" "op_sub (ops c k)" "op_ids (ops c k) = [i]" "map_of (respWait (conn c)) i = Some k"
    and "callProcs c = 0" "\<forall>j l e. sub_once (subs c j) \<noteq> OnceRunning l e"
    and "isResponse m" "ID m = Some i" "MsgError m = None" "unmarshal_string (Result m) = Some sid"
    and "answer = ReadOp [(Some m, ch)] False"
  shows "enabled answer c \<and> \<not> answers_sent answer c \<and>
    (\<exists>c1. exec answer c = Done c1 \<and>
      (\<forall>order. order_ok order c1 \<longrightarrow>
        (\<exists>c2. exec_all answers_sent ([Dial k None, Reconnected k order] @ replicate (Suc (length order)) QuitNext @ [Resume, PutOnWire k]) c1 = Done c2 \<and>
           enabled answer c2 \<and> answers_sent answer c2 \<and> exec answer c2 = Panics ''close of closed channel'')))"
proof -
  note inv = reachable_inv [OF assms(1)]
  have last: "lastOp c = Some k" "\<not> op_sent (ops c k)" using client_invD(1) [OF inv, of k] assms(4) by (auto simp: op_inv_def)
  have early: "enabled answer c" "\<not> answers_sent answer c" using assms last(2) by (simp_all add: answers_sent_def)
  let ?c1 = "c\<lparr>ops := (ops c)(k := (ops c k)\<lparr>op_err := None, op_closed := True\<rparr>), subs := (subs c)(k := (subs c k)\<lparr>sub_id := sid\<rparr>),
      conn := \<lparr>respWait = AList.delete i (respWait (conn c)), clientSubs = AList.update sid k (clientSubs (conn c))\<rparr>\<rparr>"
  have c1: "exec answer c = Done ?c1" unfolding assms(14) by (rule early_answer_closes [OF inv assms(4,5,7,10-13)])
  have "\<not> op_closed (ops c l)" if "(j, l) \<in> set (respWait (conn c))" for j l
    using client_invD(1) [OF inv, of l] that by (auto simp: op_inv_def keys_inv_def keys_of_def)
  then have open_others: "\<forall>(j, l)\<in>set (respWait (conn ?c1)). l = k \<or> \<not> op_closed (ops ?c1 l)"
    by (auto simp: AList.delete_eq)
  have ready: "reading ?c1" "lastOp ?c1 = Some k" "op_phase (ops ?c1 k) = Sending WDial" "op_ids (ops ?c1 k) = [i]" "pc ?c1 = DSelect"
    "callProcs ?c1 = 0" "\<forall>j l e'. sub_once (subs ?c1 j) \<noteq> OnceRunning l e'" using assms last(1) by simp_all
  have "\<exists>c2. exec_all answers_sent ([Dial k None, Reconnected k order] @ replicate (Suc (length order)) QuitNext @ [Resume, PutOnWire k]) ?c1 = Done c2 \<and>
           enabled answer c2 \<and> answers_sent answer c2 \<and> exec answer c2 = Panics ''close of closed channel''" if order: "order_ok order ?c1" for order
  proof -
    obtain c2 where c2: "exec_all answers_sent ([Dial k None, Reconnected k order] @ replicate (Suc (length order)) QuitNext @ [Resume, PutOnWire k]) ?c1 = Done c2"
        "pc c2 = DSelect" "reading c2" "respWait (conn c2) = [(i, k)]" "ops c2 k = (ops ?c1 k)\<lparr>op_sent := True, op_phase := Sending WWritten\<rparr>"
      using reconnect_registers [OF ready(1-6) open_others ready(7) order] by blast
    then have "enabled answer c2 \<and> answers_sent answer c2 \<and> exec answer c2 = Panics ''close of closed channel''"
      using assms(5,10,11,14) by (simp add: answers_sent_def handleMsg_def handleResponse_def isNotification_def)
    with c2(1) show ?thesis by blast
  qed
  with early c1 show ?thesis by blast
qed

theorem early_answer_panics_witness:
  "\<exists>c c1 c2. exec_all answers_sent [NewCall 0 1 False False, TakeReq 0, CheckConn 0 False, WriteDone 0 (Some (RpcErrorString ''broken pipe'')), TakeSent,
       NewCall 1 1 True False, TakeReq 1, CheckConn 1 False] (initClient True) = Done c \<and>
     exec (ReadOp [(Some ((result_one (JString ''s''))\<lparr>ID := Some ''2''\<rparr>), False)] False) c = Done c1 \<and>
     exec_all answers_sent [Dial 1 None, Reconnected 1 [1], QuitNext, QuitNext, Resume, PutOnWire 1] c1 = Done c2 \<and>
     exec (ReadOp [(Some ((result_one (JString ''s''))\<lparr>ID := Some ''2''\<rparr>), False)] False) c2 = Panics ''close of closed channel''"
  (is "\<exists>c c1 c2. _ \<and> exec (ReadOp [(Some ?m, False)] False) c = Done c1 \<and> _")
proof -
  let ?answer = "ReadOp [(Some ?m, False)] False"
  obtain c where c: "exec_all answers_sent [NewCall 0 1 False False, TakeReq 0, CheckConn 0 False, WriteDone 0 (Some (RpcErrorString ''broken pipe'')), TakeSent,
       NewCall 1 1 True False, TakeReq 1, CheckConn 1 False] (initClient True) = Done c"
    "pc c = DSelect" "reading c" "op_phase (ops c 1) = Sending WDial" "op_sub (ops c 1)" "op_ids (ops c 1) = [''2'']"
    "map_of (respWait (conn c)) ''2'' = Some 1" "callProcs c = 0" "\<forall>j l e. sub_once (subs c j) \<noteq> OnceRunning l e"
    "\<forall>c1. exec ?answer c = Done c1 \<longrightarrow> order_ok [1] c1"
    by (simp add: run_simps first_id second_id result_one_def)
  have m: "isResponse ?m" "ID ?m = Some ''2''" "MsgError ?m = None" "unmarshal_string (Result ?m) = Some ''s''"
    by (simp_all add: result_one_def isResponse_def hasValidID_def unmarshal_string_def)
  obtain c1 where "exec ?answer c = Done c1" and
    "\<forall>order. order_ok order c1 \<longrightarrow>
        (\<exists>c2. exec_all answers_sent ([Dial 1 None, Reconnected 1 order] @ replicate (Suc (length order)) QuitNext @ [Resume, PutOnWire 1]) c1 = Done c2 \<and>
           enabled ?answer c2 \<and> answers_sent ?answer c2 \<and> exec ?answer c2 = Panics ''close of closed channel'')"
    using early_answer_panics [OF exec_all_run [OF c(1)] c(2-9) m refl, of False] by blast
  moreover have "order_ok [1] c1" using c(10) calculation(1) by blast
  ultimately have "\<exists>c2. exec_all answers_sent ([Dial 1 None, Reconnected 1 [1]] @ replicate (Suc (length [1::nat])) QuitNext @ [Resume, PutOnWire 1]) c1 = Done c2 \<and>
      exec ?answer c2 = Panics ''close of closed channel''" by blast
  moreover have "[Dial 1 None, Reconnected 1 [1]] @ replicate (Suc (length [1::nat])) QuitNext @ [Resume, PutOnWire 1] =
      [Dial 1 None, Reconnected 1 [1], QuitNext, QuitNext, Resume, PutOnWire 1]" by simp
  ultimately show ?thesis using c(1) \<open>exec ?answer c = Done c1\<close> by metis
qed

text \<open>
  C39: A null where a message is expected takes the program down. For the document null, or a batch that
  contains it, \<open>parseMessage\<close> makes nil pointers of messages, and the dispatch loop, which accepts them
  in every state in which it reads, dereferences them and panics, although all other messages of the
  batch are in order.\<close>

theorem null_message_panics:
  assumes "run answers_sent (initClient b) c" "pc c = DSelect" "reading c"
    and "d = JNull \<or> d = JArray ds \<and> JNull \<in> set ds" "parseMessage raw d = (map fst ms, batch)"
    and "answers_sent (ReadOp (filter (\<lambda>m. fst m \<noteq> None) ms) batch) c"
  shows "enabled (ReadOp ms batch) c \<and> exec (ReadOp ms batch) c = Panics ''nil pointer dereference''"
proof -
  have "None \<in> set (fst (parseMessage raw d)) \<and> (snd (parseMessage raw d) \<or> length (fst (parseMessage raw d)) = 1)"
    using assms(4) by (auto simp: parseMessage_def unmarshal_message_def intro!: rev_image_eqI [of JNull])
  then have null: "None \<in> fst ` set ms" "batch \<or> length ms = 1" by (simp_all add: assms(5))
  have "list_all (\<lambda>m. fst m \<noteq> None \<longrightarrow> response_sent c (fst m)) ms"
    using assms(6) by (fastforce simp: answers_sent_iff list_all_iff)
  from handle_each_null [OF reachable_inv [OF assms(1)] assms(2) this null(1), of 0]
  show ?thesis using null assms(2,3) by (cases "\<not> batch"; cases ms; cases "hd ms") (auto simp: handleBatch_def handleMsg_def)
qed

theorem null_message_panics_witness:
  "exec (ReadOp [(Some zero_message, False), (None, False)] True) (initClient True) = Panics ''nil pointer dereference''"
  using null_message_panics [OF rtranclp.rtrancl_refl, of True "JArray [JBool True, JNull]" "[JBool True, JNull]" "\<lambda>_. ''''"
      "[(Some zero_message, False), (None, False)]" True]
  by (simp add: initClient_def parseMessage_def unmarshal_message_def answers_sent_def zero_message_def isResponse_def)

end
