(* ===== verification/RpcServer.thy ===== *)
theory RpcServer
  imports JsonRpc "HOL-Library.AList"
begin

text \<open>
  Serving calls: the registry of services of \<open>src/gethrpc/service.go\<close>, positional arguments of
  \<open>json.go\<close>, the calls of \<open>handler.go\<close> and a single request of \<open>server.go\<close>. Functions that a program
  registers are parameters: their types as reflection sees them, and what they return for arguments.
  Names are ASCII.
\<close>

section \<open>Types of functions\<close>

text \<open>A pointer, or a type with its name, the path of its package and whether it implements \<open>error\<close>.\<close>

datatype rtype = PtrType rtype | PlainType string string bool

definition contextType :: rtype where
  "contextType = PlainType ''Context'' ''context'' False"

definition errorType :: rtype where
  "errorType = PlainType ''error'' '''' True"

definition subscriptionType :: rtype where
  "subscriptionType = PlainType ''Subscription'' ''gethrpc'' False"

fun elem_type :: "rtype \<Rightarrow> rtype" where
  "elem_type (PtrType t) = elem_type t"
| "elem_type t = t"

fun is_pointer :: "rtype \<Rightarrow> bool" where
  "is_pointer (PtrType _) = True"
| "is_pointer (PlainType _ _ _) = False"

definition isExported :: "string \<Rightarrow> bool" where
  "isExported name = (case name of [] \<Rightarrow> False | c # _ \<Rightarrow> of_char c \<in> {65 .. 90 :: nat})"

definition exported_or_builtin :: "rtype \<Rightarrow> bool" where
  "exported_or_builtin t = (case elem_type t of PlainType name pkg _ \<Rightarrow> isExported name \<or> pkg = '''' | PtrType _ \<Rightarrow> False)"

definition allExportedOrBuiltin :: "rtype list \<Rightarrow> bool" where
  "allExportedOrBuiltin = list_all exported_or_builtin"

definition isContextType :: "rtype \<Rightarrow> bool" where
  "isContextType t \<longleftrightarrow> elem_type t = contextType"

definition isErrorType :: "rtype \<Rightarrow> bool" where
  "isErrorType t = (case elem_type t of PlainType _ _ e \<Rightarrow> e | PtrType _ \<Rightarrow> False)"

definition isSubscriptionType :: "rtype \<Rightarrow> bool" where
  "isSubscriptionType t \<longleftrightarrow> elem_type t = subscriptionType"

definition isPubSub :: "rtype list \<Rightarrow> rtype list \<Rightarrow> bool" where
  "isPubSub ins outs \<longleftrightarrow>
     \<not> (length ins < 2 \<or> length outs \<noteq> 2) \<and> isContextType (ins ! 1) \<and> isSubscriptionType (outs ! 0) \<and> isErrorType (outs ! 1)"

definition formatName :: "string \<Rightarrow> string" where
  "formatName name = (case name of [] \<Rightarrow> [] | c # cs \<Rightarrow> lower_char c # cs)"

section \<open>Callbacks\<close>

text \<open>
  An argument is a document at the type it decodes to, or the nil pointer. A function crashes or returns
  results: errors, or values with the outcome of marshalling them.
\<close>

type_synonym argument = "rtype \<times> json option"

datatype goresult = ResultErr "rpcError option" | ResultVal "rpcError + json"

datatype fnresult = Crashes | Returns "goresult list"

record callback =
  cb_fn :: "argument list \<Rightarrow> fnresult"
  cb_argTypes :: "rtype list"
  cb_hasCtx :: bool
  cb_errPos :: "nat option"
  cb_isSubscribe :: bool

record gomethod =
  gm_name :: string
  gm_exported :: bool
  gm_in :: "rtype list"
  gm_out :: "rtype list"
  gm_fn :: "argument list \<Rightarrow> fnresult"

text \<open>Skips the receiver, which every method has, and a context.\<close>

definition makeArgTypes :: "rtype list \<Rightarrow> bool \<times> rtype list" where
  "makeArgTypes ins = (if length ins > 1 \<and> ins ! 1 = contextType then (True, drop 2 ins) else (False, drop 1 ins))"

definition newCallback :: "gomethod \<Rightarrow> callback option" where
  "newCallback m =
     (let (hasCtx, argTypes) = makeArgTypes (gm_in m); outs = gm_out m;
          c = \<lambda>p. \<lparr>cb_fn = gm_fn m, cb_argTypes = argTypes, cb_hasCtx = hasCtx, cb_errPos = p, cb_isSubscribe = isPubSub (gm_in m) outs\<rparr> in
      if \<not> allExportedOrBuiltin argTypes then None
      else if length outs > 2 \<or> \<not> allExportedOrBuiltin outs then None
      else if length outs = 1 \<and> isErrorType (outs ! 0) then Some (c (Some 0))
      else if length outs = 2 then
        (if isErrorType (outs ! 0) \<or> \<not> isErrorType (outs ! 1) then None else Some (c (Some 1)))
      else Some (c None))"

fun suitableCallbacks :: "gomethod list \<Rightarrow> (string \<times> callback) list" where
  "suitableCallbacks [] = []"
| "suitableCallbacks (m # ms) =
     (let rest = suitableCallbacks ms in
      if \<not> gm_exported m then rest
      else case newCallback m of None \<Rightarrow> rest | Some cb \<Rightarrow> if formatName (gm_name m) \<in> fst ` set rest then rest else (formatName (gm_name m), cb) # rest)"

text \<open>\<open>call\<close>: a panic of the function becomes an error, a function without results returns nil.\<close>

definition callback_call :: "callback \<Rightarrow> argument list \<Rightarrow> rpcError + (rpcError + json)" where
  "callback_call cb args =
     (case cb_fn cb args of
        Crashes \<Rightarrow> Inl (RpcErrorString ''method handler crashed'')
      | Returns rs \<Rightarrow>
          if rs = [] then Inr (Inr JNull)
          else
            (case cb_errPos cb of
               Some p \<Rightarrow> (case rs ! p of ResultErr (Some e) \<Rightarrow> Inl e | _ \<Rightarrow> (case rs ! 0 of ResultVal v \<Rightarrow> Inr v | ResultErr _ \<Rightarrow> Inr (Inr JNull)))
             | None \<Rightarrow> (case rs ! 0 of ResultVal v \<Rightarrow> Inr v | ResultErr _ \<Rightarrow> Inr (Inr JNull))))"

section \<open>The registry\<close>

record service =
  svc_callbacks :: "(string \<times> callback) list"
  svc_subscriptions :: "(string \<times> callback) list"

type_synonym serviceRegistry = "(string \<times> service) list"

definition registerName :: "string \<Rightarrow> string \<Rightarrow> gomethod list \<Rightarrow> serviceRegistry \<Rightarrow> rpcError + serviceRegistry" where
  "registerName name type_name rcvr r =
     (if name = '''' then Inl (RpcErrorString (''no service name for type '' @ type_name))
      else
        (let callbacks = suitableCallbacks rcvr in
         if callbacks = [] then Inl (RpcErrorString (''service '' @ type_name @ '' doesn't have any suitable methods/subscriptions to expose''))
         else
           (let svc = (case map_of r name of Some s \<Rightarrow> s | None \<Rightarrow> \<lparr>svc_callbacks = [], svc_subscriptions = []\<rparr>) in
            Inr (AList.update name
              (svc\<lparr>svc_callbacks := filter (\<lambda>(_, cb). \<not> cb_isSubscribe cb) callbacks @ svc_callbacks svc,
                   svc_subscriptions := filter (\<lambda>(_, cb). cb_isSubscribe cb) callbacks @ svc_subscriptions svc\<rparr>) r))))"

text \<open>\<open>RPCService.Modules\<close>, the one service every server has.\<close>

definition Modules :: "serviceRegistry \<Rightarrow> (string \<times> string) list" where
  "Modules r = map (\<lambda>(name, _). (name, ''1.0'')) r"

text \<open>\<open>strings.SplitN(method, "_", 2)\<close>, where it gives two parts.\<close>

definition split_method :: "string \<Rightarrow> (string \<times> string) option" where
  "split_method m =
     (if CHR ''_'' \<in> set m then Some (takeWhile (\<lambda>c. c \<noteq> CHR ''_'') m, tl (dropWhile (\<lambda>c. c \<noteq> CHR ''_'') m)) else None)"

definition find_callback :: "serviceRegistry \<Rightarrow> string \<Rightarrow> callback option" where
  "find_callback r m =
     (case split_method m of
        None \<Rightarrow> None
      | Some (s, n) \<Rightarrow> (case map_of r s of None \<Rightarrow> None | Some svc \<Rightarrow> map_of (svc_callbacks svc) n))"

definition find_subscription :: "serviceRegistry \<Rightarrow> string \<Rightarrow> string \<Rightarrow> callback option" where
  "find_subscription r s n = (case map_of r s of None \<Rightarrow> None | Some svc \<Rightarrow> map_of (svc_subscriptions svc) n)"

section \<open>Arguments\<close>

text \<open>
  \<open>decode_error t d\<close> is the error of decoding a document into a type, if there is one. The check for a
  nil value in the loop looks at the new pointer, which is never nil.
\<close>

fun parseArgumentArray :: "(rtype \<Rightarrow> json \<Rightarrow> string option) \<Rightarrow> nat \<Rightarrow> nat \<Rightarrow> rtype list \<Rightarrow> json list \<Rightarrow> string + argument list" where
  "parseArgumentArray err n i types [] = Inr []"
| "parseArgumentArray err n i [] (d # ds) = Inl (''too many arguments, want at most '' @ string_of_nat n)"
| "parseArgumentArray err n i (t # types) (d # ds) =
     (case err t d of
        Some e \<Rightarrow> Inl (''invalid argument '' @ string_of_nat i @ '': '' @ e)
      | None \<Rightarrow> (case parseArgumentArray err n (Suc i) types ds of Inl e \<Rightarrow> Inl e | Inr args \<Rightarrow> Inr ((t, Some d) # args)))"

fun missing_arguments :: "nat \<Rightarrow> rtype list \<Rightarrow> string + argument list" where
  "missing_arguments i [] = Inr []"
| "missing_arguments i (t # types) =
     (if \<not> is_pointer t then Inl (''missing value for required argument '' @ string_of_nat i)
      else case missing_arguments (Suc i) types of Inl e \<Rightarrow> Inl e | Inr args \<Rightarrow> Inr ((t, None) # args))"

definition parsePositionalArguments :: "(rtype \<Rightarrow> json \<Rightarrow> string option) \<Rightarrow> json option \<Rightarrow> rtype list \<Rightarrow> string + argument list" where
  "parsePositionalArguments err rawArgs types =
     (let parsed =
        (case rawArgs of
           None \<Rightarrow> Inr []
         | Some JNull \<Rightarrow> Inr []
         | Some (JArray ds) \<Rightarrow> parseArgumentArray err (length types) 0 types ds
         | _ \<Rightarrow> Inl ''non-array args'') in
      case parsed of
        Inl e \<Rightarrow> Inl e
      | Inr args \<Rightarrow> (case missing_arguments (length args) (drop (length args) types) of Inl e \<Rightarrow> Inl e | Inr rest \<Rightarrow> Inr (args @ rest)))"

section \<open>Calls\<close>

definition handleCall :: "(rtype \<Rightarrow> json \<Rightarrow> string option) \<Rightarrow> serviceRegistry \<Rightarrow> jsonrpcMessage \<Rightarrow> jsonrpcMessage" where
  "handleCall err r msg =
     (case find_callback r (Method msg) of
        None \<Rightarrow> errorResponse msg (methodNotFoundError (Method msg))
      | Some cb \<Rightarrow>
          (case parsePositionalArguments err (Params msg) (cb_argTypes cb) of
             Inl e \<Rightarrow> errorResponse msg (invalidParamsError e)
           | Inr args \<Rightarrow> (case callback_call cb args of Inl e \<Rightarrow> errorResponse msg e | Inr v \<Rightarrow> response msg v)))"

definition handleCallMsg :: "(rtype \<Rightarrow> json \<Rightarrow> string option) \<Rightarrow> serviceRegistry \<Rightarrow> jsonrpcMessage \<Rightarrow> jsonrpcMessage option" where
  "handleCallMsg err r msg =
     (if isNotification msg then None
      else if isCall msg then Some (handleCall err r msg)
      else if hasValidID msg then Some (errorResponse msg (invalidRequestError ''invalid request''))
      else Some (errorMessage (invalidRequestError ''invalid request'')))"

text \<open>
  What is written for a batch and for a message. The handler of a single request waits for no responses
  and has no subscriptions, so that \<open>handleImmediate\<close> only drops what it takes; it dereferences every
  message, also one that is the nil pointer.
\<close>

datatype written = WriteOne jsonrpcMessage | WriteMany "jsonrpcMessage list"

definition left_to_call :: "jsonrpcMessage \<Rightarrow> bool" where
  "left_to_call msg \<longleftrightarrow> \<not> isNotification msg \<and> \<not> isResponse msg"

fun calls_of :: "jsonrpcMessage option list \<Rightarrow> jsonrpcMessage list out" where
  "calls_of [] = Done []"
| "calls_of (None # msgs) = Panics ''nil pointer dereference''"
| "calls_of (Some msg # msgs) = bindO (calls_of msgs) (\<lambda>calls. Done (if left_to_call msg then msg # calls else calls))"

definition serve_batch :: "(rtype \<Rightarrow> json \<Rightarrow> string option) \<Rightarrow> serviceRegistry \<Rightarrow> jsonrpcMessage option list \<Rightarrow> written list out" where
  "serve_batch err r msgs =
     (if msgs = [] then Done [WriteOne (errorMessage (invalidRequestError ''empty batch''))]
      else
        bindO (calls_of msgs) (\<lambda>calls.
          let answers = List.map_filter (handleCallMsg err r) calls in
          Done (if answers = [] then [] else [WriteMany answers])))"

definition serve_msg :: "(rtype \<Rightarrow> json \<Rightarrow> string option) \<Rightarrow> serviceRegistry \<Rightarrow> jsonrpcMessage option \<Rightarrow> written list out" where
  "serve_msg err r m =
     bindO (calls_of [m]) (\<lambda>calls. Done (map WriteOne (List.map_filter (handleCallMsg err r) calls)))"

text \<open>The document that \<open>Read\<close> gives, the end of the input or an error.\<close>

datatype request = ReadEOF | ReadFails | ReadDoc json

definition serveSingleRequest :: "(rtype \<Rightarrow> json \<Rightarrow> string option) \<Rightarrow> (json \<Rightarrow> string) \<Rightarrow> serviceRegistry \<Rightarrow> bool \<Rightarrow> request \<Rightarrow> written list out" where
  "serveSingleRequest err raw r running req =
     (if \<not> running then Done []
      else
        case req of
          ReadEOF \<Rightarrow> Done []
        | ReadFails \<Rightarrow> Done [WriteOne (errorMessage (invalidMessageError ''parse error''))]
        | ReadDoc d \<Rightarrow> (case parseMessage raw d of (msgs, batch) \<Rightarrow> if batch then serve_batch err r msgs else serve_msg err r (hd msgs)))"

section \<open>Lemmas\<close>

lemma split_method_join:
  assumes "CHR ''_'' \<notin> set s"
  shows "split_method (s @ ''_'' @ n) = Some (s, n)"
proof -
  have "takeWhile (\<lambda>c. c \<noteq> CHR ''_'') (s @ CHR ''_'' # n) = s" "dropWhile (\<lambda>c. c \<noteq> CHR ''_'') (s @ CHR ''_'' # n) = CHR ''_'' # n"
    using assms by (induction s) auto
  then show ?thesis by (simp add: split_method_def)
qed

lemma split_method_service: "split_method m = Some (s, n) \<Longrightarrow> CHR ''_'' \<notin> set s"
  by (auto simp: split_method_def dest: set_takeWhileD split: if_splits)

lemma registerName_services:
  assumes "registerName name t rcvr r = Inr r'"
  shows "map_of r' s = (if s = name then
      Some (let svc = (case map_of r name of Some v \<Rightarrow> v | None \<Rightarrow> \<lparr>svc_callbacks = [], svc_subscriptions = []\<rparr>) in
        svc\<lparr>svc_callbacks := filter (\<lambda>(_, cb). \<not> cb_isSubscribe cb) (suitableCallbacks rcvr) @ svc_callbacks svc,
            svc_subscriptions := filter (\<lambda>(_, cb). cb_isSubscribe cb) (suitableCallbacks rcvr) @ svc_subscriptions svc\<rparr>)
    else map_of r s)"
  using assms by (auto simp: registerName_def Let_def update_conv' split: if_splits)

text \<open>The parsers of arguments, as one condition and one result.\<close>

lemma parseArgumentArray_eq:
  "length ds \<le> length types \<Longrightarrow> \<forall>j<length ds. err (types ! j) (ds ! j) = None \<Longrightarrow>
    parseArgumentArray err n i types ds = Inr (zip types (map Some ds))"
proof (induction err n i types ds rule: parseArgumentArray.induct)
  case (3 err n i t types d ds)
  then show ?case by (simp add: All_less_Suc2)
qed auto

lemma parseArgumentArray_ok:
  "parseArgumentArray err n i types ds = Inr args \<Longrightarrow> length ds \<le> length types \<and> (\<forall>j<length ds. err (types ! j) (ds ! j) = None)"
proof (induction err n i types ds arbitrary: args rule: parseArgumentArray.induct)
  case (3 err n i t types d ds)
  then show ?case by (cases "err t d"; cases "parseArgumentArray err n (Suc i) types ds") (auto simp: All_less_Suc2)
qed auto

lemma missing_arguments_eq: "list_all is_pointer types \<Longrightarrow> missing_arguments i types = Inr (map (\<lambda>t. (t, None)) types)"
  by (induction i types rule: missing_arguments.induct) auto

lemma missing_arguments_ok: "missing_arguments i types = Inr args \<Longrightarrow> list_all is_pointer types"
proof (induction i types arbitrary: args rule: missing_arguments.induct)
  case (2 i t types)
  then show ?case by (cases "missing_arguments (Suc i) types") (auto split: if_splits)
qed simp

lemma calls_of_messages: "calls_of (map Some msgs) = Done (filter left_to_call msgs)"
  by (induction msgs) auto

lemma calls_of_null: "None \<in> set msgs \<Longrightarrow> calls_of msgs = Panics ''nil pointer dereference''"
  by (induction msgs rule: calls_of.induct) auto

lemma map_filter_Some: "(\<And>x. x \<in> set xs \<Longrightarrow> f x = Some (g x)) \<Longrightarrow> List.map_filter f xs = map g xs"
  by (induction xs) (auto simp: List.map_filter_simps)

text \<open>What the answer to a message has to be.\<close>

definition answer_to :: "(rtype \<Rightarrow> json \<Rightarrow> string option) \<Rightarrow> serviceRegistry \<Rightarrow> jsonrpcMessage \<Rightarrow> jsonrpcMessage \<Rightarrow> bool" where
  "answer_to err r m a \<longleftrightarrow> isResponse a \<and> ID a = (if hasValidID m then ID m else Some ''null'') \<and>
     (if isCall m then a = handleCall err r m else \<exists>e. MsgError a = Some e \<and> Code e = - 32600)"

lemma handleCall_response: "hasValidID m \<Longrightarrow> isResponse (handleCall err r m) \<and> ID (handleCall err r m) = ID m"
  by (simp add: handleCall_def answers_are_responses answers_carry_id split: option.split sum.split)

lemma handleCallMsg_answer:
  assumes "left_to_call m"
  shows "\<exists>a. handleCallMsg err r m = Some a \<and> answer_to err r m a"
proof -
  have "isResponse (errorMessage e)" for e by (simp add: isResponse_def errorMessage_def hasValidID_def)
  then show ?thesis
    using assms handleCall_response [of m err r] answers_are_responses(1) [of m] answers_carry_id(1) [of m]
    by (auto simp: left_to_call_def handleCallMsg_def answer_to_def isCall_def) (simp_all add: errorResponse_def errorMessage_def)
qed

section \<open>Properties\<close>

text \<open>
  C30: Registering a service makes exactly its suitable methods callable under the service's name: they are
  found, later registrations under the same name add to earlier ones and win over them, and no other
  service changes. If the name itself contains the separator, nothing becomes callable at all,
  although the registration succeeds.\<close>

theorem registered_methods:
  assumes "registerName name t rcvr r = Inr r'"
  shows "if CHR ''_'' \<in> set name then find_callback r' = find_callback r
    else (\<forall>n. find_callback r' (name @ ''_'' @ n) =
            (case map_of (filter (\<lambda>(_, cb). \<not> cb_isSubscribe cb) (suitableCallbacks rcvr)) n of
               Some cb \<Rightarrow> Some cb | None \<Rightarrow> find_callback r (name @ ''_'' @ n))) \<and>
         (\<forall>m. takeWhile (\<lambda>c. c \<noteq> CHR ''_'') m \<noteq> name \<longrightarrow> find_callback r' m = find_callback r m)"
proof -
  note services = registerName_services [OF assms]
  have other: "find_callback r' m = find_callback r m" if "\<forall>n. split_method m \<noteq> Some (name, n)" for m
    using that by (auto simp: find_callback_def services split: option.splits)
  show ?thesis
  proof (cases "CHR ''_'' \<in> set name")
    case True
    then show ?thesis using other split_method_service by (auto intro!: ext)
  next
    case False
    have "find_callback r' (name @ ''_'' @ n) =
        (case map_of (filter (\<lambda>(_, cb). \<not> cb_isSubscribe cb) (suitableCallbacks rcvr)) n of
           Some cb \<Rightarrow> Some cb | None \<Rightarrow> find_callback r (name @ ''_'' @ n))" for n
      unfolding find_callback_def split_method_join [OF False]
      by (simp add: services Let_def map_add_def split: option.split)
    moreover have "find_callback r' m = find_callback r m" if "takeWhile (\<lambda>c. c \<noteq> CHR ''_'') m \<noteq> name" for m
      using that other [of m] by (auto simp: split_method_def)
    ultimately show ?thesis using False by simp
  qed
qed

definition echo_method :: gomethod where
  "echo_method = \<lparr>gm_name = ''Echo'', gm_exported = True, gm_in = [PlainType ''Svc'' ''main'' False, contextType, PlainType ''string'' '''' False],
     gm_out = [PlainType ''string'' '''' False, errorType], gm_fn = (\<lambda>args. Returns [ResultVal (Inr JNull), ResultErr None])\<rparr>"

theorem registered_methods_witness:
  "\<exists>r' cb. registerName ''test'' ''main.Svc'' [echo_method] [] = Inr r' \<and> find_callback r' ''test_echo'' = Some cb \<and> cb_hasCtx cb"
proof -
  obtain r' where r': "registerName ''test'' ''main.Svc'' [echo_method] [] = Inr r'"
    by (simp add: registerName_def echo_method_def newCallback_def makeArgTypes_def contextType_def errorType_def allExportedOrBuiltin_def
        exported_or_builtin_def isExported_def isErrorType_def Let_def)
  have lower: "formatName ''Echo'' = ''echo''" by code_simp
  obtain cb where "map_of (filter (\<lambda>(_, cb). \<not> cb_isSubscribe cb) (suitableCallbacks [echo_method])) ''echo'' = Some cb" "cb_hasCtx cb"
    by (simp add: echo_method_def newCallback_def makeArgTypes_def contextType_def errorType_def allExportedOrBuiltin_def lower
        exported_or_builtin_def isExported_def isErrorType_def isPubSub_def isSubscriptionType_def subscriptionType_def Let_def)
  then show ?thesis using registered_methods [OF r'] r' by (auto dest!: spec [of _ "''echo''"])
qed

text \<open>
  C29: Positional arguments are accepted exactly if they are an array, null or absent, there are no more of
  them than parameters, each decodes into the type of its parameter, and all parameters that are left
  over are pointers; these become nil, and every parameter gets one argument.\<close>

theorem positional_arguments:
  "parsePositionalArguments err rawArgs types = Inr args \<longleftrightarrow>
     (\<exists>ds. (rawArgs \<in> {None, Some JNull} \<and> ds = [] \<or> rawArgs = Some (JArray ds)) \<and>
        length ds \<le> length types \<and> (\<forall>i<length ds. err (types ! i) (ds ! i) = None) \<and> list_all is_pointer (drop (length ds) types) \<and>
        args = zip types (map Some ds @ replicate (length types - length ds) None))"
proof -
  have zip: "zip types (map Some ds) @ map (\<lambda>t. (t, None)) (drop (length ds) types) = zip types (map Some ds @ replicate (length types - length ds) None)"
    if "length ds \<le> length types" for ds :: "json list"
    using that by (intro nth_equalityI) (auto simp: nth_append)
  have array: "(case parseArgumentArray err n 0 types ds of Inl e \<Rightarrow> Inl e
      | Inr as \<Rightarrow> case missing_arguments (length as) (drop (length as) types) of Inl e \<Rightarrow> Inl e | Inr rest \<Rightarrow> Inr (as @ rest)) = Inr args \<longleftrightarrow>
      length ds \<le> length types \<and> (\<forall>i<length ds. err (types ! i) (ds ! i) = None) \<and> list_all is_pointer (drop (length ds) types) \<and>
      args = zip types (map Some ds @ replicate (length types - length ds) None)" (is "?lhs \<longleftrightarrow> ?rhs") for n ds
  proof (cases "parseArgumentArray err n 0 types ds")
    case (Inl e)
    then show ?thesis using parseArgumentArray_eq [of ds types err n 0] by auto
  next
    case (Inr as)
    note ok = parseArgumentArray_ok [OF Inr]
    then have as: "as = zip types (map Some ds)" "length as = length ds" using parseArgumentArray_eq [of ds types err n 0] Inr by auto
    show ?thesis
      using ok zip [of ds] missing_arguments_ok [of "length ds" "drop (length ds) types"] missing_arguments_eq [of "drop (length ds) types" "length ds"]
      unfolding Inr as(2) by (auto simp: as(1) split: sum.splits)
  qed
  show ?thesis
    using array [of "length types"] array [of _ "[]"]
    by (auto simp: parsePositionalArguments_def Let_def split: option.splits json.splits)
qed

theorem positional_arguments_witness:
  "parsePositionalArguments (\<lambda>_ _. None) (Some (JArray [JNull])) [PlainType ''int'' '''' False, PtrType (PlainType ''int'' '''' False)] =
     Inr [(PlainType ''int'' '''' False, Some JNull), (PtrType (PlainType ''int'' '''' False), None)]"
  by (subst positional_arguments) auto

text \<open>
  C13: A request is answered completely. For a document that is a batch of messages, or a single message,
  there is one answer for each message that is neither a notification nor a response, in the same
  order and with the same identifier; calls have the answer of their method, and the others the error
  for an invalid request. If there is nothing to answer, nothing is written. But a batch in which null
  stands for a message makes the server panic.\<close>

theorem request_answered:
  assumes "parseMessage raw d = (ms, batch)" "ms \<noteq> []"
  shows "if None \<in> set ms then serveSingleRequest err raw r True (ReadDoc d) = Panics ''nil pointer dereference''
    else \<exists>answers. serveSingleRequest err raw r True (ReadDoc d) =
        Done (if answers = [] then [] else if batch then [WriteMany answers] else [WriteOne (hd answers)]) \<and>
      list_all2 (answer_to err r)
        (filter left_to_call (map the ms)) answers"
proof -
  let ?out = "\<lambda>answers. if answers = [] then [] else if batch then [WriteMany answers] else [WriteOne (hd answers)]"
  have single: "\<exists>m. ms = [m]" if "\<not> batch" using assms that by (auto simp: parseMessage_def split: json.splits)
  have few: "length calls \<le> 1" if "\<not> batch" "calls_of ms = Done calls" for calls
    using single [OF that(1)] that(2) by (auto split: if_splits elim!: calls_of.elims)
  have answers_few: "map WriteOne (List.map_filter f calls) = (let as = List.map_filter f calls in if as = [] then [] else [WriteOne (hd as)])"
    if "length calls \<le> 1" for f :: "jsonrpcMessage \<Rightarrow> jsonrpcMessage option" and calls
    using that by (cases calls) (auto simp: List.map_filter_simps split: option.split)
  have serve: "serveSingleRequest err raw r True (ReadDoc d) = bindO (calls_of ms) (\<lambda>calls. Done (?out (List.map_filter (handleCallMsg err r) calls)))"
    using single assms few answers_few
    by (cases batch; cases "calls_of ms") (auto simp: serveSingleRequest_def serve_batch_def serve_msg_def Let_def)
  show ?thesis
  proof (cases "None \<in> set ms")
    case True
    then show ?thesis using serve calls_of_null by simp
  next
    case False
    let ?calls = "filter left_to_call (map the ms)"
    let ?answer = "\<lambda>m. the (handleCallMsg err r m)"
    have some: "ms = map Some (map the ms)" using False by (induction ms) auto
    have answer: "handleCallMsg err r m = Some (?answer m) \<and> answer_to err r m (?answer m)" if "m \<in> set ?calls" for m
      using that handleCallMsg_answer [of m err r] by auto
    have answers: "List.map_filter (handleCallMsg err r) ?calls = map ?answer ?calls"
      by (rule map_filter_Some) (use answer in blast)
    have all: "list_all2 (answer_to err r) ?calls (map ?answer ?calls)"
      unfolding list_all2_map2 using answer by (simp add: list_all2_same)
    have "calls_of ms = Done ?calls" using calls_of_messages [of "map the ms"] some by simp
    then show ?thesis using False all by (auto simp: serve answers intro!: exI [of _ "map ?answer ?calls"])
  qed
qed

theorem request_answered_witness:
  "serveSingleRequest (\<lambda>_ _. None) (\<lambda>_. ''1'') [] True (ReadDoc (JArray [JNumber ''7''])) \<noteq> Done []"
  using request_answered [of "\<lambda>_. ''1''" "JArray [JNumber ''7'']" "[Some zero_message]" True "\<lambda>_ _. None" "[]"]
  by (auto simp: parseMessage_def unmarshal_message_def zero_message_def left_to_call_def isNotification_def isResponse_def split: if_splits)

end
