(* ===== verification/RpcHttp.thy ===== *)
theory RpcHttp
  imports RpcServer
begin

text \<open>
  JSON-RPC over HTTP: calls, batches and notifications of \<open>src/gethrpc/client.go\<close> when they go through
  \<open>src/gethrpc/http.go\<close>, the checks that a request passes before \<open>http.go\<close> serves it, the check of the
  origin of \<open>websocket.go\<close> and the selection of services of \<open>endpoints.go\<close>. What the standard library
  makes of a request's headers is part of the request: its media type and its host without the port.
\<close>

section \<open>Requests of the client\<close>

text \<open>A response: its status, the text of its body if it can be read, and what decoding the body gives.\<close>

record http_response =
  StatusCode :: int
  Status :: string
  body_text :: "string option"
  body_doc :: "rpcError + json"

definition doRequest :: "rpcError + http_response \<Rightarrow> http_response option \<times> rpcError option" where
  "doRequest r =
     (case r of
        Inl err \<Rightarrow> (None, Some err)
      | Inr resp \<Rightarrow> if StatusCode resp < 200 \<or> 300 \<le> StatusCode resp then (Some resp, Some (RpcErrorString (Status resp))) else (Some resp, None))"

text \<open>Whether the decoder reports a value of a wrong type when it decodes a document into a message.\<close>

definition error_field_fits :: "string \<times> json \<Rightarrow> bool" where
  "error_field_fits kv =
     (case kv of (k, v) \<Rightarrow>
      if same_key k ''code'' then (case v of JNull \<Rightarrow> True | JNumber n \<Rightarrow> parse_int64 n \<noteq> None | _ \<Rightarrow> False)
      else if same_key k ''message'' then (case v of JNull \<Rightarrow> True | JString _ \<Rightarrow> True | _ \<Rightarrow> False)
      else True)"

definition message_field_fits :: "string \<times> json \<Rightarrow> bool" where
  "message_field_fits kv =
     (case kv of (k, v) \<Rightarrow>
      if same_key k ''jsonrpc'' \<or> same_key k ''method'' then (case v of JNull \<Rightarrow> True | JString _ \<Rightarrow> True | _ \<Rightarrow> False)
      else if same_key k ''error'' then (case v of JNull \<Rightarrow> True | JObject kvs \<Rightarrow> list_all error_field_fits kvs | _ \<Rightarrow> False)
      else True)"

definition unmarshalError :: rpcError where
  "unmarshalError = RpcErrorString ''json: cannot unmarshal into Go value''"

definition decode_message :: "(json \<Rightarrow> string) \<Rightarrow> json \<Rightarrow> rpcError + jsonrpcMessage" where
  "decode_message raw d =
     (case d of
        JNull \<Rightarrow> Inr zero_message
      | JObject kvs \<Rightarrow> if list_all message_field_fits kvs then Inr (fold (set_message_field raw) kvs zero_message) else Inl unmarshalError
      | _ \<Rightarrow> Inl unmarshalError)"

fun decode_messages :: "(json \<Rightarrow> string) \<Rightarrow> json list \<Rightarrow> rpcError + jsonrpcMessage list" where
  "decode_messages raw [] = Inr []"
| "decode_messages raw (d # ds) =
     (case decode_message raw d of
        Inl err \<Rightarrow> Inl err
      | Inr m \<Rightarrow> (case decode_messages raw ds of Inl err \<Rightarrow> Inl err | Inr ms \<Rightarrow> Inr (m # ms)))"

text \<open>What \<open>sendHTTP\<close> and \<open>sendBatchHTTP\<close> get, before they send it to the channel \<open>op.resp\<close>.\<close>

definition sendHTTP_message :: "(json \<Rightarrow> string) \<Rightarrow> rpcError + http_response \<Rightarrow> rpcError + jsonrpcMessage" where
  "sendHTTP_message raw r =
     (case doRequest r of
        (respBody, Some err) \<Rightarrow>
          (case respBody of
             None \<Rightarrow> Inl err
           | Some resp \<Rightarrow> (case body_text resp of None \<Rightarrow> Inl err | Some t \<Rightarrow> Inl (RpcErrorString (rpcError_Error err @ '' '' @ t))))
      | (respBody, None) \<Rightarrow> (case body_doc (the respBody) of Inl err \<Rightarrow> Inl err | Inr d \<Rightarrow> decode_message raw d))"

definition sendBatchHTTP_messages :: "(json \<Rightarrow> string) \<Rightarrow> rpcError + http_response \<Rightarrow> rpcError + jsonrpcMessage list" where
  "sendBatchHTTP_messages raw r =
     (case doRequest r of
        (_, Some err) \<Rightarrow> Inl err
      | (respBody, None) \<Rightarrow>
          (case body_doc (the respBody) of
             Inl err \<Rightarrow> Inl err
           | Inr JNull \<Rightarrow> Inr []
           | Inr (JArray ds) \<Rightarrow> decode_messages raw ds
           | Inr _ \<Rightarrow> Inl unmarshalError))"

text \<open>The end of \<open>CallContext\<close> and of a response in \<open>BatchCallContext\<close>: \<open>um\<close> is the error of unmarshalling a result.\<close>

definition call_result :: "(json \<Rightarrow> rpcError option) \<Rightarrow> jsonrpcMessage \<Rightarrow> rpcError option" where
  "call_result um resp =
     (case MsgError resp of
        Some e \<Rightarrow> Some (AsJsonError e)
      | None \<Rightarrow> (case Result resp of None \<Rightarrow> Some ErrNoResult | Some d \<Rightarrow> um d))"

text \<open>
  \<open>CallContext\<close>, where the channel has room for one response; \<open>expired\<close> is the choice of \<open>wait\<close> when the
  context has ended. \<open>Notify\<close> leaves the channel nil, and a send to it never ends.
\<close>

definition CallHTTP :: "(json \<Rightarrow> string) \<Rightarrow> (json \<Rightarrow> rpcError option) \<Rightarrow> bool \<Rightarrow> rpcError + http_response \<Rightarrow> rpcError option out" where
  "CallHTTP raw um expired r =
     (case sendHTTP_message raw r of
        Inl err \<Rightarrow> Done (Some err)
      | Inr resp \<Rightarrow> Done (if expired then Some ContextError else call_result um resp))"

definition NotifyHTTP :: "(json \<Rightarrow> string) \<Rightarrow> rpcError + http_response \<Rightarrow> rpcError option out" where
  "NotifyHTTP raw r = (case sendHTTP_message raw r of Inl err \<Rightarrow> Done (Some err) | Inr resp \<Rightarrow> Blocks)"

text \<open>
  Elements of a batch. The caller's value that a result is unmarshalled into is the document, with the
  error that this gave.
\<close>

record BatchElem =
  elem_Method :: string
  elem_Result :: "json option"
  elem_Error :: "rpcError option"

definition set_elem :: "(nat \<Rightarrow> json \<Rightarrow> rpcError option) \<Rightarrow> nat \<Rightarrow> jsonrpcMessage \<Rightarrow> BatchElem \<Rightarrow> BatchElem" where
  "set_elem um i resp e =
     (let e' = e\<lparr>elem_Error := call_result (um i) resp\<rparr> in
      if MsgError resp = None \<and> Result resp \<noteq> None then e'\<lparr>elem_Result := Result resp\<rparr> else e')"

fun index_of :: "string list \<Rightarrow> string option \<Rightarrow> nat option" where
  "index_of [] x = None"
| "index_of (i # ids) x = (if x = Some i then Some 0 else map_option Suc (index_of ids x))"

text \<open>
  The loop of \<open>BatchCallContext\<close> that waits for \<open>n\<close> responses. \<open>ex\<close> is after how many of them the context
  ends, if it does.
\<close>

fun batch_wait :: "(nat \<Rightarrow> json \<Rightarrow> rpcError option) \<Rightarrow> string list \<Rightarrow> nat option \<Rightarrow> nat \<Rightarrow> jsonrpcMessage list \<Rightarrow> BatchElem list \<Rightarrow> (rpcError option \<times> BatchElem list) out" where
  "batch_wait um ids ex 0 ch b = Done (None, b)"
| "batch_wait um ids ex (Suc n) [] b = (if ex = None then Blocks else Done (Some ContextError, b))"
| "batch_wait um ids ex (Suc n) (resp # ch) b =
     (if ex = Some 0 then Done (Some ContextError, b)
      else case index_of ids (ID resp) of
        None \<Rightarrow> Panics ''nil pointer dereference''
      | Some i \<Rightarrow> batch_wait um ids (map_option (\<lambda>k. k - 1) ex) n ch (b[i := set_elem um i resp (b ! i)]))"

text \<open>\<open>BatchCallContext\<close>: the channel has room for one response for each element.\<close>

definition BatchCallHTTP :: "(json \<Rightarrow> string) \<Rightarrow> (nat \<Rightarrow> json \<Rightarrow> rpcError option) \<Rightarrow> string list \<Rightarrow> nat option \<Rightarrow> rpcError + http_response \<Rightarrow> BatchElem list \<Rightarrow>
    (rpcError option \<times> BatchElem list) out" where
  "BatchCallHTTP raw um ids ex r b =
     (case sendBatchHTTP_messages raw r of
        Inl err \<Rightarrow> Done (Some err, b)
      | Inr resps \<Rightarrow> if length b < length resps then Blocks else batch_wait um ids ex (length b) resps b)"

section \<open>Requests to the server\<close>

record http_request =
  rq_Method :: string
  rq_ContentLength :: int
  rq_RawQuery :: string
  rq_mediaType :: "string option"
  rq_Host :: string
  rq_hostname :: "string option"
  rq_Origin :: "string option"
  rq_body :: request

definition maxRequestContentLength :: int where
  "maxRequestContentLength = 1024 * 1024 * 5"

definition contentType :: string where
  "contentType = ''application/json''"

definition acceptedContentTypes :: "string list" where
  "acceptedContentTypes = [contentType, ''application/json-rpc'', ''application/jsonrequest'']"

definition validateRequest :: "http_request \<Rightarrow> (nat \<times> string) option" where
  "validateRequest r =
     (if rq_Method r = ''PUT'' \<or> rq_Method r = ''DELETE'' then Some (405, ''method not allowed'')
      else if maxRequestContentLength < rq_ContentLength r then
        Some (413, ''content length too large ('' @ string_of_int (rq_ContentLength r) @ ''>'' @ string_of_int maxRequestContentLength @ '')'')
      else if rq_Method r = ''OPTIONS'' then None
      else
        (case rq_mediaType r of
           Some mt \<Rightarrow> if mt \<in> set acceptedContentTypes then None else Some (415, ''invalid content type, only '' @ contentType @ '' is supported'')
         | None \<Rightarrow> Some (415, ''invalid content type, only '' @ contentType @ '' is supported'')))"

datatype http_out = HttpEmpty | HttpError nat string | HttpServed "written list out"

definition ServeHTTP :: "(http_request \<Rightarrow> written list out) \<Rightarrow> http_request \<Rightarrow> http_out" where
  "ServeHTTP serve r =
     (if rq_Method r = ''GET'' \<and> rq_ContentLength r = 0 \<and> rq_RawQuery r = '''' then HttpEmpty
      else case validateRequest r of Some (code, err) \<Rightarrow> HttpError code err | None \<Rightarrow> HttpServed (serve r))"

text \<open>The hosts that are allowed, in lower case; \<open>is_ip\<close> is \<open>net.ParseIP\<close>.\<close>

definition newVHostHandler :: "string list \<Rightarrow> string set" where
  "newVHostHandler vhosts = set (map (map lower_char) vhosts)"

definition virtualHost_ServeHTTP :: "(string \<Rightarrow> bool) \<Rightarrow> string set \<Rightarrow> (http_request \<Rightarrow> http_out) \<Rightarrow> http_request \<Rightarrow> http_out" where
  "virtualHost_ServeHTTP is_ip vhosts serve r =
     (if rq_Host r = '''' then serve r
      else
        (let host = (case rq_hostname r of Some h \<Rightarrow> h | None \<Rightarrow> rq_Host r) in
         if is_ip host then serve r
         else if ''*'' \<in> vhosts then serve r
         else if host \<in> vhosts then serve r
         else HttpError 403 ''invalid host specified''))"

definition wsHandshakeValidator :: "string list \<Rightarrow> string option \<Rightarrow> http_request \<Rightarrow> bool" where
  "wsHandshakeValidator allowedOrigins hostname r =
     (let given = map (map lower_char) (filter (\<lambda>u. u \<noteq> '''') allowedOrigins);
          origins = (if given = [] then ''http://localhost'' # (case hostname of None \<Rightarrow> [] | Some h \<Rightarrow> [''http://'' @ map lower_char h]) else given) in
      case rq_Origin r of None \<Rightarrow> True | Some u \<Rightarrow> ''*'' \<in> set allowedOrigins \<or> map lower_char u \<in> set origins)"

record API =
  api_Namespace :: string
  api_type :: string
  api_Service :: "gomethod list"
  api_Public :: bool

fun register_apis :: "(API \<Rightarrow> bool) \<Rightarrow> API list \<Rightarrow> serviceRegistry \<Rightarrow> rpcError + serviceRegistry" where
  "register_apis chosen [] r = Inr r"
| "register_apis chosen (a # as) r =
     (if chosen a then
        (case registerName (api_Namespace a) (api_type a) (api_Service a) r of Inl err \<Rightarrow> Inl err | Inr r' \<Rightarrow> register_apis chosen as r')
      else register_apis chosen as r)"

definition StartHTTPEndpoint_services :: "string list \<Rightarrow> API list \<Rightarrow> serviceRegistry \<Rightarrow> rpcError + serviceRegistry" where
  "StartHTTPEndpoint_services modules = register_apis (\<lambda>a. api_Namespace a \<in> set modules \<or> modules = [] \<and> api_Public a)"

definition StartWSEndpoint_services :: "string list \<Rightarrow> bool \<Rightarrow> API list \<Rightarrow> serviceRegistry \<Rightarrow> rpcError + serviceRegistry" where
  "StartWSEndpoint_services modules exposeAll = register_apis (\<lambda>a. exposeAll \<or> api_Namespace a \<in> set modules \<or> modules = [] \<and> api_Public a)"

section \<open>Lemmas\<close>

lemma index_of_Some: "index_of ids x = Some i \<Longrightarrow> i < length ids \<and> x = Some (ids ! i)"
  by (induction ids arbitrary: i) (auto split: if_splits)

lemma index_of_None: "index_of ids x = None \<longleftrightarrow> x \<notin> Some ` set ids"
  by (induction ids) auto

text \<open>Without a deadline, the loop panics at the first response that nobody asked for.\<close>

lemma batch_wait_panics:
  "length ch \<le> n \<Longrightarrow> \<exists>m\<in>set ch. ID m \<notin> Some ` set ids \<Longrightarrow> batch_wait um ids None n ch b = Panics ''nil pointer dereference''"
proof (induction n arbitrary: ch b)
  case (Suc n)
  then obtain m ms where ch: "ch = m # ms" by (cases ch) auto
  then show ?case using Suc index_of_None [of ids "ID m"] by (cases "index_of ids (ID m)") auto
qed simp

lemma batch_wait_blocks:
  "length ch < n \<Longrightarrow> \<forall>m\<in>set ch. ID m \<in> Some ` set ids \<Longrightarrow> batch_wait um ids None n ch b = Blocks"
proof (induction n arbitrary: ch b)
  case (Suc n)
  show ?case
  proof (cases ch)
    case (Cons m ms)
    then show ?thesis using Suc index_of_None [of ids "ID m"] by (cases "index_of ids (ID m)") auto
  qed simp
qed simp

lemma batch_wait_done:
  "length ch = n \<Longrightarrow> \<forall>m\<in>set ch. ID m \<in> Some ` set ids \<Longrightarrow> distinct (map ID ch) \<Longrightarrow> length b = length ids \<Longrightarrow>
    \<exists>b'. batch_wait um ids None n ch b = Done (None, b') \<and> length b' = length b \<and>
      (\<forall>i<length b. b' ! i = (case find (\<lambda>m. index_of ids (ID m) = Some i) ch of None \<Rightarrow> b ! i | Some m \<Rightarrow> set_elem um i m (b ! i)))"
proof (induction n arbitrary: ch b)
  case (Suc n)
  then obtain m ms where ch: "ch = m # ms" by (cases ch) auto
  obtain k where k: "index_of ids (ID m) = Some k" using Suc.prems(2) ch index_of_None [of ids "ID m"] by auto
  have later: "find (\<lambda>m. index_of ids (ID m) = Some k) ms = None"
  proof -
    have "ID m' \<noteq> ID m" if "m' \<in> set ms" for m' using Suc.prems(3) that by (metis ch distinct.simps(2) image_eqI list.map(2) list.set_map)
    then have "index_of ids (ID m') \<noteq> Some k" if "m' \<in> set ms" for m' using that index_of_Some [of ids _ k] k by metis
    then show ?thesis by (simp add: find_None_iff)
  qed
  obtain b' where b': "batch_wait um ids None n ms (b[k := set_elem um k m (b ! k)]) = Done (None, b')" "length b' = length b"
    "\<forall>i<length b. b' ! i = (case find (\<lambda>m. index_of ids (ID m) = Some i) ms of None \<Rightarrow> b[k := set_elem um k m (b ! k)] ! i
       | Some m' \<Rightarrow> set_elem um i m' (b[k := set_elem um k m (b ! k)] ! i))"
    using Suc.IH [of ms "b[k := set_elem um k m (b ! k)]"] Suc.prems by (auto simp: ch)
  show ?case using b' k later by (auto simp: ch nth_list_update split: option.split)
qed simp

lemma lower_char_star: "CHR ''*'' = lower_char c \<longleftrightarrow> c = CHR ''*''"
proof
  assume star: "CHR ''*'' = lower_char c"
  have "of_char (char_of (of_char c + 32 :: nat)) = (of_char c + 32 :: nat)" if "of_char c \<in> {65 .. 90 :: nat}" using that by (simp add: of_char_of)
  moreover have "of_char (lower_char c) = (42 :: nat)" by (simp flip: star)
  ultimately have "of_char c \<notin> {65 .. 90 :: nat}" by (auto simp: lower_char_def)
  with star show "c = CHR ''*''" unfolding lower_char_def by (metis (full_types))
qed (simp add: lower_char_def)

section \<open>Properties\<close>

text \<open>
  C28: A batch over HTTP works only with a server that answers every element exactly once. Then each element
  gets its own response, whatever the order. If the server sends an identifier that was not asked for,
  the client panics; if it sends fewer responses, or more, a caller without a deadline waits forever.\<close>

theorem http_batch_results:
  assumes "sendBatchHTTP_messages raw r = Inr resps" "distinct ids" "length ids = length b"
  shows "if length b < length resps then BatchCallHTTP raw um ids None r b = Blocks
    else if \<exists>m\<in>set resps. ID m \<notin> Some ` set ids then BatchCallHTTP raw um ids None r b = Panics ''nil pointer dereference''
    else if length resps < length b then BatchCallHTTP raw um ids None r b = Blocks
    else distinct (map ID resps) \<longrightarrow>
      (\<exists>b'. BatchCallHTTP raw um ids None r b = Done (None, b') \<and> length b' = length b \<and>
        (\<forall>i<length b. \<exists>m\<in>set resps. ID m = Some (ids ! i) \<and> b' ! i = set_elem um i m (b ! i)))"
proof -
  have "\<exists>b'. batch_wait um ids None (length b) resps b = Done (None, b') \<and> length b' = length b \<and>
        (\<forall>i<length b. \<exists>m\<in>set resps. ID m = Some (ids ! i) \<and> b' ! i = set_elem um i m (b ! i))"
    if ok: "length resps = length b" "\<forall>m\<in>set resps. ID m \<in> Some ` set ids" "distinct (map ID resps)"
  proof -
    obtain b' where b': "batch_wait um ids None (length b) resps b = Done (None, b')" "length b' = length b"
      "\<forall>i<length b. b' ! i = (case find (\<lambda>m. index_of ids (ID m) = Some i) resps of None \<Rightarrow> b ! i | Some m \<Rightarrow> set_elem um i m (b ! i))"
      using batch_wait_done [OF ok(1,2,3), of b um] assms(3) by auto
    have "ID ` set resps = Some ` set ids"
    proof (rule card_subset_eq)
      show "card (ID ` set resps) = card (Some ` set ids)"
        using distinct_card [OF ok(3)] assms(2,3) ok(1) by (simp add: card_image distinct_card)
    qed (use ok(2) in auto)
    have "\<exists>m\<in>set resps. ID m = Some (ids ! i) \<and> b' ! i = set_elem um i m (b ! i)" if i: "i < length b" for i
    proof -
      have "Some (ids ! i) \<in> ID ` set resps" using \<open>ID ` set resps = _\<close> i assms(3) by auto
      then obtain m where m: "m \<in> set resps" "ID m = Some (ids ! i)" by (metis imageE)
      have uniq: "index_of ids (Some (ids ! i)) = Some i"
        using index_of_Some [of ids "Some (ids ! i)"] index_of_None [of ids "Some (ids ! i)"] assms(2,3) i
        by (cases "index_of ids (Some (ids ! i))") (auto simp: nth_eq_iff_index_eq)
      then obtain m' where m': "find (\<lambda>m. index_of ids (ID m) = Some i) resps = Some m'"
        using m by (cases "find (\<lambda>m. index_of ids (ID m) = Some i) resps") (auto simp: find_None_iff)
      then have "m' \<in> set resps" "index_of ids (ID m') = Some i" by (auto simp: find_Some_iff)
      then show ?thesis using b'(3) i m' index_of_Some [of ids "ID m'" i] by (intro bexI [of _ m']) simp_all
    qed
    with b' show ?thesis by blast
  qed
  then show ?thesis
    using batch_wait_panics [of resps "length b" ids um b] batch_wait_blocks [of resps "length b" ids um b]
    by (auto simp: BatchCallHTTP_def assms(1))
qed

definition http_ok :: "json \<Rightarrow> rpcError + http_response" where
  "http_ok d = Inr \<lparr>StatusCode = 200, Status = ''200 OK'', body_text = Some '''', body_doc = Inr d\<rparr>"

definition numbered_result :: "string \<Rightarrow> json" where
  "numbered_result n = JObject [(''jsonrpc'', JString vsn), (''id'', JNumber n), (''result'', JString n)]"

theorem http_batch_results_witness:
  "\<exists>b'. BatchCallHTTP scalar_text (\<lambda>_ _. None) [''1'', ''2''] None (http_ok (JArray [numbered_result ''2'', numbered_result ''1'']))
       (replicate 2 \<lparr>elem_Method = ''m'', elem_Result = None, elem_Error = None\<rparr>) = Done (None, b') \<and> elem_Result (b' ! 1) = Some (JString ''2'')"
proof -
  let ?b = "replicate 2 \<lparr>elem_Method = ''m'', elem_Result = None, elem_Error = None\<rparr>"
  let ?answer = "\<lambda>n. zero_message\<lparr>Version := vsn, ID := Some n, Result := Some (JString n)\<rparr>"
  have fits: "message_field_fits (''jsonrpc'', JString t)" "message_field_fits (''id'', v)" "message_field_fits (''result'', v)" for t v
    by (simp_all add: message_field_fits_def same_key_def lower_char_def)
  have "decode_message scalar_text (numbered_result n) = Inr (?answer n)" for n
    by (simp add: decode_message_def numbered_result_def fits set_message_field_simps)
  then have resps: "sendBatchHTTP_messages scalar_text (http_ok (JArray [numbered_result ''2'', numbered_result ''1''])) = Inr [?answer ''2'', ?answer ''1'']"
    by (simp add: sendBatchHTTP_messages_def doRequest_def http_ok_def)
  obtain b' where b': "BatchCallHTTP scalar_text (\<lambda>_ _. None) [''1'', ''2''] None (http_ok (JArray [numbered_result ''2'', numbered_result ''1''])) ?b = Done (None, b')"
      "(\<forall>i<2. \<exists>m\<in>{?answer ''2'', ?answer ''1''}. ID m = Some ([''1'', ''2''] ! i) \<and> b' ! i = set_elem (\<lambda>_ _. None) i m (?b ! i))"
    using http_batch_results [OF resps, of "[''1'', ''2'']" ?b "\<lambda>_ _. None"] by auto
  from b'(2) have "\<exists>m\<in>{?answer ''2'', ?answer ''1''}. ID m = Some ''2'' \<and> b' ! 1 = set_elem (\<lambda>_ _. None) 1 m (?b ! 1)"
    by (elim allE [of _ 1]) simp
  then have "elem_Result (b' ! 1) = Some (JString ''2'')" by (auto simp: set_elem_def zero_message_def)
  with b'(1) show ?thesis by blast
qed

text \<open>
  A notification over HTTP never succeeds: whatever the server answers, \<open>Notify\<close> returns an error, or it
  waits forever on a channel that was never made. The server of this library answers a notification with
  an empty body, which is an error.\<close>

theorem http_notify_never_succeeds:
  "NotifyHTTP raw r \<noteq> Done None \<and> (NotifyHTTP raw r = Blocks \<longleftrightarrow> (\<exists>m. sendHTTP_message raw r = Inr m)) \<and>
   (isNotification m \<longrightarrow> serve_msg err reg (Some m) = Done [])"
  by (auto simp: NotifyHTTP_def serve_msg_def left_to_call_def List.map_filter_simps split: sum.splits)

theorem http_notify_never_succeeds_witness:
  "NotifyHTTP scalar_text (http_ok JNull) = Blocks \<and> serve_msg (\<lambda>_ _. None) [] (Some (zero_message\<lparr>Method := ''m''\<rparr>)) = Done []"
  using http_notify_never_succeeds [of scalar_text "http_ok JNull" "zero_message\<lparr>Method := ''m''\<rparr>" "\<lambda>_ _. None" "[]"]
  by (simp add: sendHTTP_message_def doRequest_def http_ok_def decode_message_def isNotification_def zero_message_def)

text \<open>
  A request over HTTP reaches the services only through both checks: its host is absent, an address or
  one of the allowed names, its method and length are allowed, and its body is declared to be JSON,
  unless it only asks for options. Names are compared as sent, so that a name in capitals is refused
  even if it is on the list.\<close>

theorem http_admission:
  "(\<exists>w. virtualHost_ServeHTTP is_ip (newVHostHandler vhosts) (ServeHTTP serve) r = HttpServed w) \<longleftrightarrow>
     (let host = (case rq_hostname r of Some h \<Rightarrow> h | None \<Rightarrow> rq_Host r) in
      (rq_Host r = '''' \<or> is_ip host \<or> ''*'' \<in> set vhosts \<or> host \<in> map lower_char ` set vhosts) \<and>
      \<not> (rq_Method r = ''GET'' \<and> rq_ContentLength r = 0 \<and> rq_RawQuery r = '''') \<and>
      rq_Method r \<notin> {''PUT'', ''DELETE''} \<and> rq_ContentLength r \<le> 5242880 \<and>
      (rq_Method r = ''OPTIONS'' \<or> rq_mediaType r \<in> Some ` set acceptedContentTypes))"
proof -
  have "''*'' = map lower_char v \<longleftrightarrow> v = ''*''" for v by (auto simp: Cons_eq_map_conv lower_char_star)
  then have "''*'' \<in> newVHostHandler vhosts \<longleftrightarrow> ''*'' \<in> set vhosts"
    by (auto simp: newVHostHandler_def image_iff)
  then show ?thesis
    by (auto simp: virtualHost_ServeHTTP_def ServeHTTP_def validateRequest_def maxRequestContentLength_def Let_def newVHostHandler_def
        split: option.splits)
qed

end
