(* ===== verification/RpcSubscription.thy ===== *)
theory RpcSubscription
  imports RpcInvariant
begin

text \<open>
  Subscriptions of \<open>src/gethrpc/subscription.go\<close>. On the client, \<open>forward\<close> takes what the dispatch loop
  delivers, decodes it and passes it on to the channel of the subscriber through a buffer of bounded
  size; the element type of the channel and with it the decoder are the caller's. On the server, a
  \<open>Notifier\<close> holds notifications back until the subscription's identifier was sent.
\<close>

section \<open>Forwarding\<close>

definition maxClientSubscriptionBuffer :: nat where
  "maxClientSubscriptionBuffer = 20000"

text \<open>The loop's buffer, what it received and what the subscriber took, and the values it returned with.\<close>

record 'v forwarding =
  fw_buffer :: "'v list"
  fw_received :: "json option list"
  fw_taken :: "'v list"
  fw_returned :: "(rpcError option \<times> bool) option"

definition forward_start :: "'v forwarding" where
  "forward_start = \<lparr>fw_buffer = [], fw_received = [], fw_taken = [], fw_returned = None\<rparr>"

text \<open>The three cases of the \<open>select\<close>: quit, a value comes in, the subscriber takes the first value.\<close>

definition forward_quit :: "'v forwarding \<Rightarrow> 'v forwarding" where
  "forward_quit f = f\<lparr>fw_returned := Some (None, False)\<rparr>"

definition forward_receive :: "(json option \<Rightarrow> rpcError + 'v) \<Rightarrow> json option \<Rightarrow> 'v forwarding \<Rightarrow> 'v forwarding" where
  "forward_receive unmarshal raw f =
     (let f' = f\<lparr>fw_received := fw_received f @ [raw]\<rparr> in
      case unmarshal raw of
        Inl err \<Rightarrow> f'\<lparr>fw_returned := Some (Some err, True)\<rparr>
      | Inr val \<Rightarrow>
          if length (fw_buffer f) = maxClientSubscriptionBuffer then f'\<lparr>fw_returned := Some (Some ErrSubscriptionQueueOverflow, True)\<rparr>
          else f'\<lparr>fw_buffer := fw_buffer f @ [val]\<rparr>)"

definition forward_send :: "'v forwarding \<Rightarrow> 'v forwarding" where
  "forward_send f = f\<lparr>fw_taken := fw_taken f @ [hd (fw_buffer f)], fw_buffer := tl (fw_buffer f)\<rparr>"

inductive forward_step :: "(json option \<Rightarrow> rpcError + 'v) \<Rightarrow> 'v forwarding \<Rightarrow> 'v forwarding \<Rightarrow> bool" for unmarshal where
  quit: "fw_returned f = None \<Longrightarrow> forward_step unmarshal f (forward_quit f)"
| receive: "fw_returned f = None \<Longrightarrow> forward_step unmarshal f (forward_receive unmarshal raw f)"
| send: "fw_returned f = None \<Longrightarrow> fw_buffer f \<noteq> [] \<Longrightarrow> forward_step unmarshal f (forward_send f)"

inductive_cases forward_stepE: "forward_step unmarshal f f'"

text \<open>
  Values are neither lost nor reordered while the loop runs: what was received decodes to what the
  subscriber took followed by the buffer. When the loop returned with an error, the last value is the
  one that could not be decoded or stored.
\<close>

definition accepted :: "'v forwarding \<Rightarrow> json option list" where
  "accepted f = (case fw_returned f of Some (Some _, _) \<Rightarrow> butlast (fw_received f) | _ \<Rightarrow> fw_received f)"

definition forward_inv :: "(json option \<Rightarrow> rpcError + 'v) \<Rightarrow> 'v forwarding \<Rightarrow> bool" where
  "forward_inv unmarshal f \<longleftrightarrow>
     map unmarshal (accepted f) = map Inr (fw_taken f @ fw_buffer f) \<and> length (fw_buffer f) \<le> maxClientSubscriptionBuffer \<and>
     (\<forall>err u. fw_returned f = Some (Some err, u) \<longrightarrow> u \<and> fw_received f \<noteq> [] \<and>
        (unmarshal (last (fw_received f)) = Inl err \<or> err = ErrSubscriptionQueueOverflow \<and> length (fw_buffer f) = maxClientSubscriptionBuffer))"

lemma forward_inv_step:
  assumes "forward_inv unmarshal f" "forward_step unmarshal f f'"
  shows "forward_inv unmarshal f'"
  using assms(2)
proof cases
  case quit
  then show ?thesis using assms(1) by (simp add: forward_inv_def accepted_def forward_quit_def)
next
  case (receive raw)
  then show ?thesis
    using assms(1) by (auto simp: forward_inv_def accepted_def forward_receive_def Let_def split: sum.split)
next
  case send
  then show ?thesis using assms(1) by (cases "fw_buffer f") (auto simp: forward_inv_def accepted_def forward_send_def)
qed

interpretation forwarding: transition_system "forward_step unmarshal" "forward_inv unmarshal"
  by unfold_locales (rule forward_inv_step)

section \<open>Notifiers\<close>

text \<open>
  \<open>ID\<close> is a 32 bit number. The answer to the subscribe call has it as a number; \<open>send\<close> converts it with
  \<open>string(sub.ID)\<close>, which in Go is the text of the code point with that number.
\<close>

definition encodeID :: "byte list \<Rightarrow> uint32" where
  "encodeID b = push_bit 24 (ucast (b ! 0)) OR push_bit 16 (ucast (b ! 1)) OR push_bit 8 (ucast (b ! 2)) OR ucast (b ! 3)"

definition utf8_rune :: "nat \<Rightarrow> string" where
  "utf8_rune n =
     map (\<lambda>b. char_of b)
       (if n < 0x80 then [n]
        else if n < 0x800 then [0xC0 + n div 64, 0x80 + n mod 64]
        else if n > 0x10FFFF \<or> 0xD800 \<le> n \<and> n \<le> 0xDFFF then [0xEF, 0xBF, 0xBD]
        else if n < 0x10000 then [0xE0 + n div 4096, 0x80 + n div 64 mod 64, 0x80 + n mod 64]
        else [0xF0 + n div 262144, 0x80 + n div 4096 mod 64, 0x80 + n div 64 mod 64, 0x80 + n mod 64])"

record Notifier =
  n_namespace :: string
  n_suffix :: string
  n_sub :: "uint32 option"
  n_buffer :: "json list"
  n_callReturned :: bool
  n_activated :: bool
  n_wire :: "jsonrpcMessage list"

definition CreateSubscription :: "uint32 \<Rightarrow> Notifier \<Rightarrow> Notifier out" where
  "CreateSubscription i n =
     (if n_sub n \<noteq> None then Panics ''can't create multiple subscriptions with Notifier''
      else if n_callReturned n then Panics ''can't create subscription after subscribe call has returned''
      else Done (n\<lparr>n_sub := Some i\<rparr>))"

definition notification :: "Notifier \<Rightarrow> uint32 \<Rightarrow> json \<Rightarrow> jsonrpcMessage" where
  "notification n i d =
     \<lparr>Version = vsn, ID = None, Method = n_namespace n @ n_suffix n,
      Params = Some (JObject [(''subscription'', JString (utf8_rune (unat i))), (''result'', d)]), MsgError = None, Result = None\<rparr>"

definition Notifier_send :: "uint32 \<Rightarrow> json \<Rightarrow> Notifier \<Rightarrow> Notifier" where
  "Notifier_send i d n = n\<lparr>n_wire := n_wire n @ [notification n i d]\<rparr>"

definition Notify :: "uint32 \<Rightarrow> json \<Rightarrow> Notifier \<Rightarrow> Notifier out" where
  "Notify i d n =
     (case n_sub n of
        None \<Rightarrow> Panics ''can't Notify before subscription is created''
      | Some j \<Rightarrow>
          if j \<noteq> i then Panics ''Notify with wrong ID''
          else Done (if n_activated n then Notifier_send i d n else n\<lparr>n_buffer := n_buffer n @ [d]\<rparr>))"

definition takeSubscription :: "Notifier \<Rightarrow> Notifier \<times> uint32 option" where
  "takeSubscription n = (n\<lparr>n_callReturned := True\<rparr>, n_sub n)"

definition activate :: "Notifier \<Rightarrow> Notifier out" where
  "activate n =
     (case n_sub n of
        None \<Rightarrow> if n_buffer n = [] then Done (n\<lparr>n_activated := True\<rparr>) else Panics ''nil pointer dereference''
      | Some i \<Rightarrow> Done ((fold (Notifier_send i) (n_buffer n) n)\<lparr>n_activated := True\<rparr>))"

fun notify_all :: "uint32 \<Rightarrow> json list \<Rightarrow> Notifier \<Rightarrow> Notifier out" where
  "notify_all i [] n = Done n"
| "notify_all i (d # ds) n = bindO (Notify i d n) (notify_all i ds)"

lemma send_all: "fold (Notifier_send i) ds n = n\<lparr>n_wire := n_wire n @ map (notification n i) ds\<rparr>"
proof (induction ds arbitrary: n)
  case (Cons d ds)
  have "notification (Notifier_send i d n) i = notification n i" by (rule ext) (simp add: notification_def Notifier_send_def)
  then show ?case by (simp add: Cons.IH) (simp add: Notifier_send_def)
qed simp

lemma notify_all_buffered:
  "n_sub n = Some i \<Longrightarrow> \<not> n_activated n \<Longrightarrow> notify_all i ds n = Done (n\<lparr>n_buffer := n_buffer n @ ds\<rparr>)"
  by (induction ds arbitrary: n) (simp_all add: Notify_def)

lemma notify_all_sent:
  "n_sub n = Some i \<Longrightarrow> n_activated n \<Longrightarrow> notify_all i ds n = Done (fold (Notifier_send i) ds n)"
  by (induction ds arbitrary: n) (simp_all add: Notify_def Notifier_send_def)

section \<open>Delivery\<close>

text \<open>The results that a list of notifications has for a subscription.\<close>

definition results_for :: "(string \<times> nat) list \<Rightarrow> nat \<Rightarrow> (jsonrpcMessage option \<times> bool) list \<Rightarrow> json option list" where
  "results_for table s ms =
     concat (map (\<lambda>(m, ch). case unmarshal_subscriptionResult (Params (the m)) of
        Some (i, r) \<Rightarrow> if map_of table i = Some s then [r] else [] | None \<Rightarrow> []) ms)"

lemma handle_notifications:
  "list_all (\<lambda>(m, ch). \<exists>msg. m = Some msg \<and> isNotification msg) ms \<Longrightarrow> \<not> sub_quit (subs c s) \<Longrightarrow>
    \<exists>c'. handle_each ms n c = Done (n, c') \<and> conn c' = conn c \<and> ops c' = ops c \<and>
      sub_in (subs c' s) = sub_in (subs c s) @ results_for (clientSubs (conn c)) s ms"
proof (induction ms arbitrary: c)
  case (Cons m ms)
  obtain msg ch where m: "m = (Some msg, ch)" using Cons.prems(1) by (cases m) auto
  let ?c = "handleSubscriptionResult msg ch c"
  have step: "conn ?c = conn c" "ops ?c = ops c" "\<not> sub_quit (subs ?c s)"
    "sub_in (subs ?c s) = sub_in (subs c s) @ results_for (clientSubs (conn c)) s [m]"
    using Cons.prems(2) by (auto simp: m handleSubscriptionResult_def deliver_def set_sub_def results_for_def split: option.splits)
  have "handleImmediate m c = Done (True, ?c)" "list_all (\<lambda>(m, ch). \<exists>msg. m = Some msg \<and> isNotification msg) ms" using Cons.prems(1) m by auto
  then show ?case
    using Cons.IH [OF _ step(3)] step by (auto simp: results_for_def)
qed (simp add: results_for_def)

section \<open>Properties\<close>

text \<open>
  C15: A subscription passes its values on in order and without loss: as long as it runs, what the
  subscriber took followed by the buffer is what was received, decoded. The buffer never exceeds its
  bound, and the subscription ends with an overflow only if the subscriber is behind by that bound.\<close>

theorem subscription_in_order:
  assumes "(forward_step unmarshal)\<^sup>*\<^sup>* forward_start f"
  shows "map unmarshal (accepted f) = map Inr (fw_taken f @ fw_buffer f) \<and>
    length (fw_buffer f) \<le> maxClientSubscriptionBuffer \<and>
    (\<forall>u. fw_returned f = Some (Some ErrSubscriptionQueueOverflow, u) \<longrightarrow>
       length (fw_buffer f) = maxClientSubscriptionBuffer \<or> unmarshal (last (fw_received f)) = Inl ErrSubscriptionQueueOverflow)"
proof -
  have "forward_inv unmarshal (forward_start :: 'a forwarding)" by (simp add: forward_inv_def accepted_def forward_start_def)
  from forwarding.steps_inv [OF assms this] show ?thesis by (auto simp: forward_inv_def)
qed

theorem subscription_in_order_witness:
  "\<exists>f :: json option forwarding. (forward_step Inr)\<^sup>*\<^sup>* forward_start f \<and> fw_taken f = [Some JNull] \<and> fw_buffer f = [None] \<and>
     map Inr (accepted f) = (map Inr [Some JNull, None] :: (rpcError + json option) list)"
proof -
  let ?f1 = "forward_receive Inr (Some JNull) forward_start :: json option forwarding"
  let ?f2 = "forward_receive Inr None ?f1"
  let ?f = "forward_send ?f2"
  have ready: "fw_returned (forward_start :: json option forwarding) = None" "fw_returned ?f1 = None" "fw_returned ?f2 = None" "fw_buffer ?f2 \<noteq> []"
    by (simp_all add: forward_receive_def forward_start_def maxClientSubscriptionBuffer_def Let_def)
  have run: "(forward_step Inr)\<^sup>*\<^sup>* forward_start ?f"
    by (rule rtranclp.rtrancl_into_rtrancl [OF rtranclp.rtrancl_into_rtrancl [OF r_into_rtranclp]])
      (rule forward_step.receive [OF ready(1)] forward_step.receive [OF ready(2)] forward_step.send [OF ready(3,4)])+
  moreover have "fw_taken ?f = [Some JNull]" "fw_buffer ?f = [None]"
    by (simp_all add: forward_send_def forward_receive_def forward_start_def maxClientSubscriptionBuffer_def Let_def)
  ultimately show ?thesis using subscription_in_order [OF run] by auto
qed

text \<open>
  Notifications that arrive together reach their subscription completely and in the order in which
  they stand in the batch; those for other subscriptions and malformed ones leave it alone, and no
  request is touched.\<close>

theorem notifications_delivered:
  assumes "list_all (\<lambda>(m, ch). \<exists>msg. m = Some msg \<and> isNotification msg) ms" "\<not> sub_quit (subs c s)"
  shows "\<exists>c'. handleBatch ms c = Done c' \<and> ops c' = ops c \<and>
    sub_in (subs c' s) = sub_in (subs c s) @ results_for (clientSubs (conn c)) s ms"
  using handle_notifications [OF assms, of 0] by (auto simp: handleBatch_def startCallProc_def results_for_def)

definition two_notifications :: "(jsonrpcMessage option \<times> bool) list" where
  "two_notifications =
     map (\<lambda>(i, n). (Some \<lparr>Version = vsn, ID = None, Method = ''state_storage'',
       Params = Some (JObject [(''subscription'', JString i), (''result'', JNumber n)]), MsgError = None, Result = None\<rparr>, False))
     [(''s'', ''1''), (''t'', ''2''), (''s'', ''3'')]"

theorem notifications_delivered_witness:
  "\<exists>c'. handleBatch two_notifications ((initClient True)\<lparr>conn := \<lparr>respWait = [], clientSubs = [(''s'', 4)]\<rparr>\<rparr>) = Done c' \<and>
     sub_in (subs c' 4) = [Some (JNumber ''1''), Some (JNumber ''3'')]"
proof -
  have "results_for [(''s'', 4)] 4 two_notifications = [Some (JNumber ''1''), Some (JNumber ''3'')]"
    by (simp add: results_for_def two_notifications_def unmarshal_subscriptionResult_def same_key_def lower_char_def)
  moreover have "list_all (\<lambda>(m, ch). \<exists>msg. m = Some msg \<and> isNotification msg) two_notifications"
    by (simp add: two_notifications_def isNotification_def)
  ultimately show ?thesis
    using notifications_delivered [of two_notifications "(initClient True)\<lparr>conn := \<lparr>respWait = [], clientSubs = [(''s'', 4)]\<rparr>\<rparr>" 4]
    by (auto simp: initClient_def fresh_sub_def)
qed

text \<open>
  A notifier sends nothing before the subscription is activated, and then everything in the order of
  the calls, what was held back first. The identifier it sends is not usable: all identifiers above
  the last code point give the same notification.\<close>

theorem notifier_order:
  assumes "n_sub n = None" "\<not> n_callReturned n" "\<not> n_activated n" "n_buffer n = []"
  shows "\<exists>n1 n2 n3 n4. CreateSubscription i n = Done n1 \<and> notify_all i ds n1 = Done n2 \<and> n_wire n2 = n_wire n \<and>
    activate (fst (takeSubscription n2)) = Done n3 \<and> notify_all i es n3 = Done n4 \<and>
    n_wire n4 = n_wire n @ map (notification n i) (ds @ es) \<and>
    (unat i > 0x10FFFF \<and> unat j > 0x10FFFF \<longrightarrow> notification n i = notification n j)"
proof -
  let ?n2 = "n\<lparr>n_sub := Some i, n_buffer := ds\<rparr>" and ?n3 = "n\<lparr>n_sub := Some i, n_buffer := ds, n_callReturned := True, n_wire := n_wire n @ map (notification n i) ds, n_activated := True\<rparr>"
  have eq: "notification (n\<lparr>n_sub := a, n_buffer := b, n_callReturned := c\<rparr>) i = notification n i" "notification ?n3 i = notification n i" for a b c
    by (rule ext, simp add: notification_def)+
  have "CreateSubscription i n = Done (n\<lparr>n_sub := Some i\<rparr>)" using assms by (simp add: CreateSubscription_def)
  moreover have "notify_all i ds (n\<lparr>n_sub := Some i\<rparr>) = Done ?n2" using assms notify_all_buffered [of "n\<lparr>n_sub := Some i\<rparr>" i ds] by simp
  moreover have "activate (fst (takeSubscription ?n2)) = Done ?n3"
    using eq(1) [where a = "Some i" and b = ds and c = True] by (simp add: activate_def takeSubscription_def send_all)
  moreover have "notify_all i es ?n3 = Done (?n3\<lparr>n_wire := n_wire n @ map (notification n i) (ds @ es)\<rparr>)"
    using notify_all_sent [of ?n3 i es] eq(2) by (simp add: send_all)
  ultimately show ?thesis by (auto simp: notification_def utf8_rune_def)
qed

definition idle_notifier :: Notifier where
  "idle_notifier = \<lparr>n_namespace = ''eth'', n_suffix = ''_subscription'', n_sub = None, n_buffer = [], n_callReturned = False, n_activated = False, n_wire = []\<rparr>"

theorem notifier_order_witness:
  "\<exists>n1 n2 n3 n4. CreateSubscription 0x200000 idle_notifier = Done n1 \<and> notify_all 0x200000 [JNull] n1 = Done n2 \<and> n_wire n2 = [] \<and>
    activate (fst (takeSubscription n2)) = Done n3 \<and> notify_all 0x200000 [JBool True] n3 = Done n4 \<and>
    n_wire n4 = map (notification idle_notifier 0x200001) [JNull, JBool True]"
  using notifier_order [of idle_notifier "0x200000" "[JNull]" "[JBool True]" "0x200001"] by (auto simp: idle_notifier_def)

end
