(* ===== verification/Watch.thy ===== *)
theory Watch
  imports RpcSubscription Rpc
begin

text \<open>
  The subscriptions that \<open>src/rpc\<close> offers: the requests that open them, the channel that each of them
  wraps (\<open>subscribe_storage.go\<close>, \<open>subscribe_runtime_version.go\<close>, \<open>subscribe_new_heads.go\<close>,
  \<open>subscribe_finalized_heads.go\<close>, \<open>subscribe_justifications.go\<close>, \<open>submit_and_watch_extrinsic.go\<close>), and the
  change sets that storage subscriptions deliver (\<open>src/types/storage_change_set.go\<close>, \<open>hash.go\<close>).
\<close>

section \<open>Requests\<close>

text \<open>The arguments of \<open>Client.Subscribe\<close>, and the messages that it and \<open>Unsubscribe\<close> send.\<close>

record subscription_request =
  rs_namespace :: string
  rs_subscribe :: string
  rs_unsubscribe :: string
  rs_notification :: string
  rs_args :: "json list"

definition newMessage :: "string \<Rightarrow> string \<Rightarrow> json list \<Rightarrow> jsonrpcMessage" where
  "newMessage i method paramsIn =
     \<lparr>Version = vsn, ID = Some i, Method = method, Params = (if paramsIn = [] then None else Some (JArray paramsIn)), MsgError = None, Result = None\<rparr>"

definition Subscribe_message :: "string \<Rightarrow> subscription_request \<Rightarrow> jsonrpcMessage" where
  "Subscribe_message i r = newMessage i (rs_namespace r @ ''_'' @ rs_subscribe r) (rs_args r)"

definition requestUnsubscribe_message :: "string \<Rightarrow> string \<Rightarrow> subscription_request \<Rightarrow> jsonrpcMessage" where
  "requestUnsubscribe_message i subid r = newMessage i (rs_namespace r @ ''_'' @ rs_unsubscribe r) [JString subid]"

definition SubscribeStorageRaw :: "bytes list \<Rightarrow> subscription_request" where
  "SubscribeStorageRaw keys =
     \<lparr>rs_namespace = ''state'', rs_subscribe = ''subscribeStorage'', rs_unsubscribe = ''unsubscribeStorage'', rs_notification = ''storage'',
      rs_args = [JArray (map (\<lambda>k. JString (StorageKey_Hex k)) keys)]\<rparr>"

definition SubscribeRuntimeVersion :: subscription_request where
  "SubscribeRuntimeVersion =
     \<lparr>rs_namespace = ''state'', rs_subscribe = ''subscribeRuntimeVersion'', rs_unsubscribe = ''unsubscribeRuntimeVersion'',
      rs_notification = ''runtimeVersion'', rs_args = []\<rparr>"

definition SubscribeNewHeads :: subscription_request where
  "SubscribeNewHeads =
     \<lparr>rs_namespace = ''chain'', rs_subscribe = ''subscribeNewHead'', rs_unsubscribe = ''unsubscribeNewHead'', rs_notification = ''newHead'', rs_args = []\<rparr>"

definition SubscribeFinalizedHeads :: subscription_request where
  "SubscribeFinalizedHeads =
     \<lparr>rs_namespace = ''chain'', rs_subscribe = ''subscribeFinalizedHeads'', rs_unsubscribe = ''unsubscribeFinalizedHeads'',
      rs_notification = ''finalizedHead'', rs_args = []\<rparr>"

definition SubscribeJustifications :: subscription_request where
  "SubscribeJustifications =
     \<lparr>rs_namespace = ''beefy'', rs_subscribe = ''subscribeJustifications'', rs_unsubscribe = ''unsubscribeJustifications'',
      rs_notification = ''justifications'', rs_args = []\<rparr>"

definition SubmitAndWatchExtrinsic :: "string res \<Rightarrow> subscription_request res" where
  "SubmitAndWatchExtrinsic encoded =
     bindR encoded (\<lambda>enc.
       Ok \<lparr>rs_namespace = ''author'', rs_subscribe = ''submitAndWatchExtrinsic'', rs_unsubscribe = ''unwatchExtrinsic'',
           rs_notification = ''extrinsicUpdate'', rs_args = [JString enc]\<rparr>)"

section \<open>The channel\<close>

text \<open>
  A subscription of \<open>src/rpc\<close> is the subscription of the connection and the channel that its forwarding
  loop sends to. \<open>Unsubscribe\<close> ends the former, which closes \<open>quit\<close> and asks the server, and then closes
  the channel. The loop is a goroutine of its own, and nobody waits for it.
\<close>

record 'v watch =
  w_forward :: "'v forwarding"
  w_quit :: bool
  w_unsubscribed :: bool
  w_closed :: bool

definition watch_start :: "'v watch" where
  "watch_start = \<lparr>w_forward = forward_start, w_quit = False, w_unsubscribed = False, w_closed = False\<rparr>"

datatype watch_event = LoopQuits | LoopReceives "json option" | LoopSends | UnsubscribeStarts | UnsubscribeReturns | ChannelCloses

fun watch_enabled :: "watch_event \<Rightarrow> 'v watch \<Rightarrow> bool" where
  "watch_enabled LoopQuits w \<longleftrightarrow> fw_returned (w_forward w) = None \<and> w_quit w"
| "watch_enabled (LoopReceives raw) w \<longleftrightarrow> fw_returned (w_forward w) = None"
| "watch_enabled LoopSends w \<longleftrightarrow> fw_returned (w_forward w) = None \<and> fw_buffer (w_forward w) \<noteq> []"
| "watch_enabled UnsubscribeStarts w \<longleftrightarrow> \<not> w_quit w"
| "watch_enabled UnsubscribeReturns w \<longleftrightarrow> w_quit w \<and> \<not> w_unsubscribed w"
| "watch_enabled ChannelCloses w \<longleftrightarrow> w_unsubscribed w \<and> \<not> w_closed w"

fun watch_exec :: "(json option \<Rightarrow> rpcError + 'v) \<Rightarrow> watch_event \<Rightarrow> 'v watch \<Rightarrow> 'v watch out" where
  "watch_exec unmarshal LoopQuits w = Done (w\<lparr>w_forward := forward_quit (w_forward w)\<rparr>)"
| "watch_exec unmarshal (LoopReceives raw) w = Done (w\<lparr>w_forward := forward_receive unmarshal raw (w_forward w)\<rparr>)"
| "watch_exec unmarshal LoopSends w =
     (if w_closed w then Panics ''send on closed channel'' else Done (w\<lparr>w_forward := forward_send (w_forward w)\<rparr>))"
| "watch_exec unmarshal UnsubscribeStarts w = Done (w\<lparr>w_quit := True\<rparr>)"
| "watch_exec unmarshal UnsubscribeReturns w = Done (w\<lparr>w_unsubscribed := True\<rparr>)"
| "watch_exec unmarshal ChannelCloses w = Done (w\<lparr>w_closed := True\<rparr>)"

text \<open>Steps, with a condition on when the channel is closed.\<close>

inductive watch_step :: "('v watch \<Rightarrow> bool) \<Rightarrow> (json option \<Rightarrow> rpcError + 'v) \<Rightarrow> 'v watch \<Rightarrow> 'v watch \<Rightarrow> bool" for may_close unmarshal where
  move: "watch_enabled ev w \<Longrightarrow> (ev = ChannelCloses \<longrightarrow> may_close w) \<Longrightarrow> watch_exec unmarshal ev w = Done w' \<Longrightarrow> watch_step may_close unmarshal w w'"

inductive_cases watch_stepE: "watch_step may_close unmarshal w w'"

abbreviation loop_ended :: "'v watch \<Rightarrow> bool" where
  "loop_ended w \<equiv> fw_returned (w_forward w) \<noteq> None"

definition watch_inv :: "(json option \<Rightarrow> rpcError + 'v) \<Rightarrow> 'v watch \<Rightarrow> bool" where
  "watch_inv unmarshal w \<longleftrightarrow> forward_inv unmarshal (w_forward w) \<and> (w_closed w \<longrightarrow> loop_ended w)"

lemma watch_forward:
  assumes "watch_enabled ev w" "watch_exec unmarshal ev w = Done w'"
  shows "w_forward w' = w_forward w \<or> forward_step unmarshal (w_forward w) (w_forward w')"
  using assms by (cases ev) (auto intro: forward_step.intros split: if_splits)

lemma watch_inv_step: "watch_inv unmarshal w \<Longrightarrow> watch_step loop_ended unmarshal w w' \<Longrightarrow> watch_inv unmarshal w'"
proof (erule watch_stepE)
  fix ev assume a: "watch_inv unmarshal w" "watch_enabled ev w" "ev = ChannelCloses \<longrightarrow> loop_ended w" "watch_exec unmarshal ev w = Done w'"
  have "forward_inv unmarshal (w_forward w')"
    using watch_forward [OF a(2,4)] a(1) forward_inv_step by (auto simp: watch_inv_def)
  then show "watch_inv unmarshal w'" using a by (cases ev) (auto simp: watch_inv_def split: if_splits)
qed

interpretation watching: transition_system "watch_step loop_ended unmarshal" "watch_inv unmarshal"
  by unfold_locales (rule watch_inv_step)

section \<open>Change sets\<close>

text \<open>\<open>json.Unmarshal\<close> into a slice of strings: null is the empty slice, and as an element the empty string.\<close>

fun unmarshal_elems :: "json list \<Rightarrow> string list res" where
  "unmarshal_elems [] = Ok []"
| "unmarshal_elems (d # ds) =
     (case unmarshal_string (Some d) of
        None \<Rightarrow> Err (ErrorString ''json: cannot unmarshal into Go value of type string'')
      | Some s \<Rightarrow> bindR (unmarshal_elems ds) (\<lambda>ss. Ok (s # ss)))"

definition unmarshal_strings :: "json \<Rightarrow> string list res" where
  "unmarshal_strings d =
     (case d of JNull \<Rightarrow> Ok [] | JArray ds \<Rightarrow> unmarshal_elems ds | _ \<Rightarrow> Err (ErrorString ''json: cannot unmarshal into Go value of type []string''))"

record KeyValueOption =
  kv_StorageKey :: bytes
  kv_HasStorageData :: bool
  kv_StorageData :: bytes

definition KeyValueOption_UnmarshalJSON :: "json \<Rightarrow> KeyValueOption res" where
  "KeyValueOption_UnmarshalJSON b =
     bindR (unmarshal_strings b) (\<lambda>tmp.
       case tmp of
         [] \<Rightarrow> Err (ErrorString ''expected at least one entry for KeyValueOption'')
       | [k] \<Rightarrow> bindR (HexDecodeString k) (\<lambda>key. Ok \<lparr>kv_StorageKey = key, kv_HasStorageData = False, kv_StorageData = []\<rparr>)
       | [k, v] \<Rightarrow>
           bindR (HexDecodeString v) (\<lambda>data.
           bindR (HexDecodeString k) (\<lambda>key. Ok \<lparr>kv_StorageKey = key, kv_HasStorageData = True, kv_StorageData = data\<rparr>))
       | _ \<Rightarrow> Err (ErrorString (''expected 1 or 2 entries for KeyValueOption, got '' @ string_of_nat (length tmp))))"

definition KeyValueOption_MarshalJSON :: "KeyValueOption \<Rightarrow> json" where
  "KeyValueOption_MarshalJSON r =
     JArray (map JString (if kv_HasStorageData r then [StorageKey_Hex (kv_StorageKey r), Sprintf_x (kv_StorageData r)] else [StorageKey_Hex (kv_StorageKey r)]))"

definition Hash_UnmarshalJSON :: "json \<Rightarrow> bytes res" where
  "Hash_UnmarshalJSON b =
     (case unmarshal_string (Some b) of
        None \<Rightarrow> Err (ErrorString ''json: cannot unmarshal into Go value of type string'')
      | Some tmp \<Rightarrow> NewHashFromHexString tmp)"

definition Hash_MarshalJSON :: "bytes \<Rightarrow> json" where
  "Hash_MarshalJSON h = JString (Sprintf_x h)"

record StorageChangeSet =
  cs_Block :: bytes
  cs_Changes :: "KeyValueOption list"

fun unmarshal_changes :: "json list \<Rightarrow> KeyValueOption list res" where
  "unmarshal_changes [] = Ok []"
| "unmarshal_changes (d # ds) = bindR (KeyValueOption_UnmarshalJSON d) (\<lambda>kv. bindR (unmarshal_changes ds) (\<lambda>kvs. Ok (kv # kvs)))"

fun change_set_fields :: "(string \<times> json) list \<Rightarrow> StorageChangeSet \<Rightarrow> StorageChangeSet res" where
  "change_set_fields [] cs = Ok cs"
| "change_set_fields ((k, v) # kvs) cs =
     (if same_key k ''block'' then bindR (Hash_UnmarshalJSON v) (\<lambda>h. change_set_fields kvs (cs\<lparr>cs_Block := h\<rparr>))
      else if same_key k ''changes'' then
        (case v of
           JNull \<Rightarrow> change_set_fields kvs (cs\<lparr>cs_Changes := []\<rparr>)
         | JArray ds \<Rightarrow> bindR (unmarshal_changes ds) (\<lambda>xs. change_set_fields kvs (cs\<lparr>cs_Changes := xs\<rparr>))
         | _ \<Rightarrow> Err (ErrorString ''json: cannot unmarshal into Go struct field StorageChangeSet.changes''))
      else change_set_fields kvs cs)"

definition StorageChangeSet_unmarshal :: "json \<Rightarrow> StorageChangeSet res" where
  "StorageChangeSet_unmarshal d =
     (case d of
        JNull \<Rightarrow> Ok \<lparr>cs_Block = replicate 32 0, cs_Changes = []\<rparr>
      | JObject kvs \<Rightarrow> change_set_fields kvs \<lparr>cs_Block = replicate 32 0, cs_Changes = []\<rparr>
      | _ \<Rightarrow> Err (ErrorString ''json: cannot unmarshal into Go value of type StorageChangeSet''))"

definition StorageChangeSet_marshal :: "StorageChangeSet \<Rightarrow> json" where
  "StorageChangeSet_marshal cs =
     JObject [(''block'', Hash_MarshalJSON (cs_Block cs)), (''changes'', JArray (map KeyValueOption_MarshalJSON (cs_Changes cs)))]"

lemma key_value_roundtrip:
  assumes "\<not> kv_HasStorageData r \<longrightarrow> kv_StorageData r = []"
  shows "KeyValueOption_UnmarshalJSON (KeyValueOption_MarshalJSON r) = Ok r"
  using assms by (simp add: KeyValueOption_UnmarshalJSON_def KeyValueOption_MarshalJSON_def unmarshal_strings_def unmarshal_string_def StorageKey_Hex_def)

lemma changes_roundtrip:
  "list_all (\<lambda>r. \<not> kv_HasStorageData r \<longrightarrow> kv_StorageData r = []) xs \<Longrightarrow> unmarshal_changes (map KeyValueOption_MarshalJSON xs) = Ok xs"
  by (induction xs) (simp_all add: key_value_roundtrip)

section \<open>Properties\<close>

text \<open>
  C37: Change sets survive their JSON form, but the form in which a node reports a value that is
  absent, null next to the key, is read as a value that is present and empty.\<close>

theorem change_set_absent_values:
  assumes "length (cs_Block cs) = 32" "list_all (\<lambda>r. \<not> kv_HasStorageData r \<longrightarrow> kv_StorageData r = []) (cs_Changes cs)"
  shows "StorageChangeSet_unmarshal (StorageChangeSet_marshal cs) = Ok cs \<and>
    KeyValueOption_UnmarshalJSON (JArray [JString (StorageKey_Hex key), JNull]) =
      Ok \<lparr>kv_StorageKey = key, kv_HasStorageData = True, kv_StorageData = []\<rparr>"
proof -
  have "HexDecodeString '''' = Ok []" using HexDecodeString_encoded(2) [of "[]"] by (simp add: Sprintf_x_def)
  then have "KeyValueOption_UnmarshalJSON (JArray [JString (StorageKey_Hex key), JNull]) =
      Ok \<lparr>kv_StorageKey = key, kv_HasStorageData = True, kv_StorageData = []\<rparr>"
    by (simp add: KeyValueOption_UnmarshalJSON_def unmarshal_strings_def unmarshal_string_def StorageKey_Hex_def)
  moreover have "Hash_UnmarshalJSON (Hash_MarshalJSON (cs_Block cs)) = Ok (cs_Block cs)"
    using assms(1) by (simp add: Hash_UnmarshalJSON_def Hash_MarshalJSON_def unmarshal_string_def NewHashFromHexString_def)
  moreover have "same_key ''block'' ''block''" "\<not> same_key ''changes'' ''block''" "same_key ''changes'' ''changes''"
    by (simp_all add: same_key_def lower_char_def)
  ultimately show ?thesis
    using changes_roundtrip [OF assms(2)] by (simp add: StorageChangeSet_unmarshal_def StorageChangeSet_marshal_def)
qed

theorem change_set_absent_values_witness:
  "StorageChangeSet_unmarshal (StorageChangeSet_marshal
       \<lparr>cs_Block = replicate 32 7, cs_Changes = [\<lparr>kv_StorageKey = [1], kv_HasStorageData = False, kv_StorageData = []\<rparr>]\<rparr>) =
     Ok \<lparr>cs_Block = replicate 32 7, cs_Changes = [\<lparr>kv_StorageKey = [1], kv_HasStorageData = False, kv_StorageData = []\<rparr>]\<rparr>"
  using change_set_absent_values [of "\<lparr>cs_Block = replicate 32 7, cs_Changes = [\<lparr>kv_StorageKey = [1], kv_HasStorageData = False, kv_StorageData = []\<rparr>]\<rparr>"]
  by simp

text \<open>
  C36: Ending a subscription of \<open>src/rpc\<close> can crash the program. Were the channel closed only after the
  forwarding loop has ended, no step would panic, and what the subscriber took would be what was
  received, in order. But \<open>Unsubscribe\<close> does not wait for the loop: for every value that can be
  decoded there is a run in which the loop sends it to the closed channel.\<close>

theorem unsubscribe_closes_early:
  assumes "unmarshal raw = Inr v"
  shows "(\<forall>w ev. (watch_step loop_ended unmarshal)\<^sup>*\<^sup>* watch_start w \<and> watch_enabled ev w \<longrightarrow>
      (\<exists>w'. watch_exec unmarshal ev w = Done w') \<and> map unmarshal (accepted (w_forward w)) = map Inr (fw_taken (w_forward w) @ fw_buffer (w_forward w))) \<and>
    (\<exists>w. (watch_step (\<lambda>_. True) unmarshal)\<^sup>*\<^sup>* watch_start w \<and> watch_enabled LoopSends w \<and>
      watch_exec unmarshal LoopSends w = Panics ''send on closed channel'')"
proof (intro conjI allI impI; (elim conjE)?)
  fix w ev assume w: "(watch_step loop_ended unmarshal)\<^sup>*\<^sup>* watch_start w" "watch_enabled ev w"
  have "watch_inv unmarshal watch_start" by (simp add: watch_inv_def watch_start_def forward_inv_def forward_start_def accepted_def)
  from watching.steps_inv [OF w(1) this] have inv: "watch_inv unmarshal w" .
  then show "\<exists>w'. watch_exec unmarshal ev w = Done w'" using w(2) by (cases ev) (auto simp: watch_inv_def)
  show "map unmarshal (accepted (w_forward w)) = map Inr (fw_taken (w_forward w) @ fw_buffer (w_forward w))"
    using inv by (simp add: watch_inv_def forward_inv_def)
next
  let ?step = "watch_step (\<lambda>_. True) unmarshal"
  let ?f = "forward_receive unmarshal raw forward_start"
  have f: "fw_returned ?f = None" "fw_buffer ?f = [v]"
    using assms by (simp_all add: forward_receive_def forward_start_def maxClientSubscriptionBuffer_def Let_def)
  let ?w1 = "watch_start\<lparr>w_forward := ?f\<rparr>"
  let ?w = "?w1\<lparr>w_quit := True, w_unsubscribed := True, w_closed := True\<rparr>"
  have "?step watch_start ?w1" by (rule watch_step.move [of "LoopReceives raw"]) (simp_all add: watch_start_def forward_start_def)
  moreover have "?step ?w1 (?w1\<lparr>w_quit := True\<rparr>)" by (rule watch_step.move [of UnsubscribeStarts]) (simp_all add: watch_start_def)
  moreover have "?step (?w1\<lparr>w_quit := True\<rparr>) (?w1\<lparr>w_quit := True, w_unsubscribed := True\<rparr>)"
    by (rule watch_step.move [of UnsubscribeReturns]) (simp_all add: watch_start_def)
  moreover have "?step (?w1\<lparr>w_quit := True, w_unsubscribed := True\<rparr>) ?w" by (rule watch_step.move [of ChannelCloses]) (simp_all add: watch_start_def)
  ultimately have "?step\<^sup>*\<^sup>* watch_start ?w" by (meson converse_rtranclp_into_rtranclp rtranclp.rtrancl_refl)
  moreover have "watch_enabled LoopSends ?w" "watch_exec unmarshal LoopSends ?w = Panics ''send on closed channel''"
    using f by simp_all
  ultimately show "\<exists>w. ?step\<^sup>*\<^sup>* watch_start w \<and> watch_enabled LoopSends w \<and> watch_exec unmarshal LoopSends w = Panics ''send on closed channel''"
    by blast
qed

theorem unsubscribe_closes_early_witness:
  "\<exists>w :: json option watch. (watch_step (\<lambda>_. True) Inr)\<^sup>*\<^sup>* watch_start w \<and> watch_enabled LoopSends w \<and>
     watch_exec Inr LoopSends w = Panics ''send on closed channel''"
  using unsubscribe_closes_early [of Inr None None] by blast

end
