(* ===== verification/Spec2Isabelle.thy ===== *)
theory Spec2Isabelle
  imports Exec RetrieverProperties ExtrinsicProperties EventMethods XcmProperties OptionTypes RpcProperties RpcHttp Watch
begin

text \<open>
  A verification development for go-substrate-rpc-client, a Go client for Substrate chains.

  \<^bold>\<open>The program.\<close> A node answers queries with SCALE-encoded bytes. \<open>src/scale\<close> encodes and
  decodes Go values; \<open>src/types\<close> holds the chain's data types, among them the metadata that
  describes a chain; \<open>src/registry\<close> turns metadata of version 14 into decoders at run time,
  with which its parser and retrievers decode the events and extrinsics of a block; \<open>src/rpc\<close>
  asks the node over the connection of \<open>src/client\<close>, which is the JSON-RPC client of \<open>src/gethrpc\<close>;
  \<open>src/signature\<close> signs extrinsics; \<open>src/hash\<close> and \<open>src/xxhash\<close> hash storage keys.

  \<^bold>\<open>Foundations.\<close> \<open>Prelude\<close> has the shared lemmas on lists, bytes and words. \<open>GoRuntime\<close> has
  what the code uses of Go: results that are a value, an error, a panic or the end of the fuel,
  their sequencing (\<open>bindM\<close>, \<open>wrapM\<close>), buffers and readers as byte lists, big integers, and the
  library errors of \<open>src/error\<close>. \<open>Contract\<close> states the interface all codecs share: the locale
  \<open>scale_codec\<close> (what is written is read back, whatever follows) and \<open>tail_codec\<close> (the same up
  to the end of the input); every codec of the program interprets one of them, and larger
  codecs rest on the facts of smaller ones.

  \<^bold>\<open>SCALE\<close> (\<open>src/scale/codec.go\<close>). \<open>ScaleCodec\<close>: compact integers, slices, arrays, options;
  \<open>ScaleReflect\<close>: the reflective \<open>Encode\<close> and \<open>DecodeIntoReflectValue\<close> over a datatype of Go
  values and types, with the \<open>Encode\<close> and \<open>Decode\<close> methods of named types as tables. They show
  the round trips, exactly which integers the compact format takes, and the panic on a
  truncated slice length. \<open>BigInts\<close> (\<open>src/types/int.go\<close>, \<open>uint.go\<close>, \<open>ucompact.go\<close>) and \<open>BitVec\<close>
  (\<open>bitvec.go\<close>) do the integer types and bit vectors. \<open>Codec\<close> (\<open>src/types/codec\<close>) does byte
  slices and hex strings.

  \<^bold>\<open>Metadata\<close> (\<open>src/types/metadata*.go\<close>). \<open>MetadataStorage\<close>: modifiers and hashers;
  \<open>MetadataV14\<close>, \<open>MetadataV14_Contract\<close>, \<open>MetadataV14_Find\<close>: version 14, its portable types, its
  codecs and queries; \<open>MetadataModules\<close> and \<open>MetadataV4\<close>, \<open>MetadataV7\<close> (7 to 9), \<open>MetadataV10\<close>
  (10 to 12), \<open>MetadataV13\<close>: the older versions, whose queries share the locale
  \<open>module_metadata\<close>; \<open>Metadata\<close> and \<open>MetadataProperties\<close>: the versioned type. They show the
  round trip of every version, what is rejected, and that names and indices of calls and
  events correspond. \<open>Hashing\<close> (\<open>src/hash\<close>, \<open>src/xxhash\<close>) and \<open>StorageKey\<close>
  (\<open>storage_key.go\<close>): \<open>CreateStorageKey\<close> computes the key of its specification and is injective
  for hashers that append their input.

  \<^bold>\<open>Registry\<close> (\<open>src/registry\<close>). \<open>RegistryDecoders\<close>: the decoders as a datatype, recursive ones as
  addresses in a heap, and decoding; \<open>RegistryFactory\<close>: the factory's state and operations;
  \<open>RegistryInvariant\<close>: the factory's invariant, and that every decoder it builds represents its
  type; \<open>RegistryTermination\<close>: how much fuel is enough; \<open>RegistrySemantics\<close>: the meaning
  \<open>fdenotes\<close> of bytes under the types of the metadata, and that decoders accept exactly it;
  \<open>RegistryHeap\<close>: the factory never changes decoders it handed out earlier; \<open>RegistryProperties\<close>:
  the registries as a whole. \<open>Exec\<close> (\<open>src/registry/exec\<close>): the retry loop. \<open>Parser\<close>
  (\<open>src/registry/parser\<close>): events and extrinsics mean what the metadata says. \<open>Retriever\<close> and
  \<open>RetrieverProperties\<close> (\<open>src/registry/retriever\<close>, \<open>src/registry/state\<close>): the two retrievers as
  state machines, with the locale \<open>retriever\<close> for what they share; in every reachable state the
  registry belongs to the metadata, and a block of a newer runtime is decoded after a refresh.

  \<^bold>\<open>Node and extrinsics.\<close> \<open>Rpc\<close> (\<open>src/rpc\<close>, \<open>src/client\<close>): queries that answer with strings and
  numbers. \<open>Accounts\<close> (\<open>address.go\<close>, \<open>multi_address.go\<close>, \<open>multi_signature.go\<close>,
  \<open>extrinsic_era.go\<close>), \<open>Extrinsics\<close> (\<open>extrinsic*.go\<close>, \<open>src/signature\<close>, \<open>src/rpc/author\<close>, the
  extrinsics of \<open>src/rpc/chain/generic\<close>) and \<open>ExtrinsicProperties\<close>: calls, signing, encoding.

  \<^bold>\<open>Typed events\<close> (\<open>src/types/event_record.go\<close>, \<open>events.go\<close>). \<open>EventRecords\<close>: \<open>DecodeEventRecords\<close>,
  which fills a struct with one slice per event by reflection; the slices are state, kept when
  decoding stops. It agrees with the parser of the registry and only appends. \<open>EventTypes\<close>: the event
  structs and the default target as the types that reflection sees. \<open>EventProperties\<close>: decoding keeps
  to the types, also in the reflective codec of \<open>src/scale\<close>; one field of the default target has the wrong
  struct; the locale \<open>aborting\<close> has the ways in which decoders may panic, closed under the parts of which
  they are made. \<open>EventMethods\<close> proves it of the \<open>Decode\<close> methods that the event structs use, and with it
  that no input makes the default target panic in reflection.

  \<^bold>\<open>Chain data.\<close> \<open>ChainCodec\<close> has the locale \<open>chain_codec\<close> (a \<open>scale_codec\<close> whose decoder ends and
  leaves a suffix of its input), its rules, and the collections of rules with which every struct and
  tagged union below interprets it. \<open>XcmLocation\<close>, \<open>XcmAssets\<close>, \<open>XcmInstruction\<close> (\<open>network_id.go\<close>,
  \<open>body.go\<close>, \<open>junction_*.go\<close>, \<open>multi_location_*.go\<close>, \<open>xcm.go\<close>, \<open>xcm_error.go\<close>, \<open>outcome.go\<close>,
  \<open>weight.go\<close>) and \<open>XcmProperties\<close>: cross-consensus messages, whose instructions nest;
  \<open>DispatchTypes\<close> (\<open>errors.go\<close>, \<open>dispute.go\<close>, \<open>dispatch_result_with_post_info.go\<close>, enumerations):
  results of dispatches; \<open>ChainData\<close>: data of pallets; \<open>BlockTypes\<close> (\<open>header.go\<close>, \<open>digest*.go\<close>,
  \<open>runtime_version.go\<close>, \<open>extrinsic_status.go\<close>, \<open>mmr.go\<close>, \<open>moment.go\<close>): headers and proofs; \<open>Beefy\<close>
  (\<open>beefy.go\<close>): signed commitments with their packed bits; \<open>OptionTypes\<close> (\<open>generic.go\<close>,
  \<open>option*.go\<close>): the optional values, which share the locale \<open>option_type\<close>. A tagged union, in Go a
  struct with a flag per case, is a datatype with a constructor per case and one for the zero value,
  which unknown tags leave behind.

  \<^bold>\<open>Connection\<close> (\<open>src/gethrpc\<close>). \<open>Transitions\<close> has the locale \<open>transition_system\<close>: what a step
  relation keeps holds along runs, and what it never undoes lasts forever. \<open>JsonRpc\<close> (\<open>json.go\<close>,
  \<open>errors.go\<close>): messages, errors, what parsing makes of a document, and the identifiers whose text is kept. \<open>RpcClient\<close> (\<open>client.go\<close>,
  \<open>handler.go\<close>): the state of a connection, with its requests, subscriptions, channels and locks,
  where the dispatch loop stands and where each caller; an \<open>event\<close> is a step of one goroutine or of
  two that meet at a channel, \<open>enabled\<close> says when it can happen and \<open>exec\<close> what it does, a panic or a
  full channel included. \<open>RpcInvariant\<close>: the invariant of all interleavings, under the assumption
  \<open>answers_sent\<close> that the server sends messages and answers only what was sent. \<open>RpcProperties\<close>: no
  panic, responses matched to requests, requests ended when the connection breaks; and the two races
  in which a caller, or the whole client, waits forever; and where the assumption is dropped, the null
  message and the answer before the request, each of which makes the client panic. \<open>RpcSubscription\<close> (\<open>subscription.go\<close>): values are passed on in order
  through a bounded buffer; notifiers. \<open>Watch\<close> (\<open>subscribe_*.go\<close> and \<open>submit_and_watch_extrinsic.go\<close> of
  \<open>src/rpc\<close>, \<open>storage_change_set.go\<close>): the subscriptions offered to programs, whose channel is closed too
  early, and change sets. \<open>RpcServer\<close> (\<open>service.go\<close>, \<open>server.go\<close>): registered services,
  positional arguments, and that requests are answered completely. \<open>RpcHttp\<close> (\<open>http.go\<close>,
  \<open>websocket.go\<close>, \<open>endpoints.go\<close>): calls, batches and notifications over HTTP and the checks of requests.

  \<^bold>\<open>Parameters.\<close> The hash algorithms are a record of functions with the documented behaviour of
  \<open>hash.Hash\<close> as \<open>hash_lib_laws\<close>; the key library is one with \<open>key_lib_laws\<close>; the connection is a
  record of stateful calls, and \<open>serves\<close> says what a node answers; the retrievers take the block
  source and the fuel from their environment. Functions that a program registers with a server, and
  the decoders of their arguments and results, are arguments. The package variable with the address
  options is an argument. Each property with such a hypothesis is applied to a concrete instance.

  \<^bold>\<open>Fuel.\<close> Two recursions of the code need not end: building decoders from cyclic metadata, and
  following recursive decoders. The first takes fuel, and \<open>K\<close> units per type are enough where
  chains of direct references have length at most \<open>K\<close>; the second takes the depth of
  dereferences, and every value that has a meaning is decoded at some depth. Nested instructions
  are decoded with one unit more than the input has bytes, which is shown to be enough. Running
  out is a result of its own, never an error of the program.

  \<^bold>\<open>Simplifications.\<close> Readers and writers are memory buffers, as everywhere in the program. Error
  messages leave out printed structs and type names. Nil and empty slices are not told apart.
  The decoding theorems concern factories without field overrides. The JSON step between text and a
  document is the standard library's, and so are structs filled from JSON; an identifier of a message
  is its text, and the text of a document is an argument. A deadline may end at any point where its
  caller waits; a connection that was closed ends its read loop. The goroutines that serve calls of
  the other side are counted in the client's state, and what they answer is modelled with the server.
  A batch takes its identifiers in one step and one after the other, where the code draws them one by one
  and other callers may come between. Structs with flags of which one is set are sums; values with several
  flags set are outside the model. The fields of a target are exported and not promoted from an embedded
  struct, and a field that is no slice of structs makes reflection panic. No type of array kind has a
  \<open>Decode\<close> method, as is the case in \<open>src/types\<close>.

  \<^bold>\<open>Not modelled.\<close> Sockets, pipes, compression, cross-origin rules and time limits of \<open>src/gethrpc\<close>,
  which are calls of libraries; the table of server subscriptions, which nothing fills, since the code
  that would is commented out; mocks, test servers, test data and configuration; other methods that
  build or read JSON objects, and structs that only the JSON decoder of the standard library fills; the
  queries of \<open>src/rpc/mmr\<close> and \<open>src/rpc/system\<close>, which pass such structs through.
\<close>

end
